(* ===== verification/Go_Prelude.thy ===== *)
theory Go_Prelude
  imports Main "HOL-Library.AList"
begin

text \<open>
  The shared vocabulary of the development: the outcome of a piece of Go code (a value, a
  run-time panic, or no return within the fuel given), 64-bit and 32-bit signed integers with
  their wrap-around, Go maps as association lists, and the generic contract of a state machine
  with an invariant. The simplification rules of the outcome monad are collected in
  \<open>go_simps\<close>, its case splits in \<open>go_splits\<close>.
\<close>

named_theorems go_simps \<open>evaluation rules of the outcome monad\<close>
named_theorems go_elims \<open>inversion rules of the outcome monad\<close>

section \<open>Outcomes\<close>

datatype go_panic =
    NilDereference
  | IndexOutOfRange
  | SliceBounds
  | TypeAssertion
  | ClosedChannel
  | ReflectSet
  | InvalidObjectId
  | ProcessExit
  | Raised string

datatype 'a go =
    Return 'a
  | Panic go_panic
  | OutOfFuel

fun go_bind :: "'a go \<Rightarrow> ('a \<Rightarrow> 'b go) \<Rightarrow> 'b go" where
  "go_bind (Return a) f = f a"
| "go_bind (Panic p) f = Panic p"
| "go_bind OutOfFuel f = OutOfFuel"

declare go_bind.simps [go_simps]

fun go_foldl :: "('b \<Rightarrow> 'a \<Rightarrow> 'b go) \<Rightarrow> 'b \<Rightarrow> 'a list \<Rightarrow> 'b go" where
  "go_foldl f b [] = Return b"
| "go_foldl f b (x # xs) = go_bind (f b x) (\<lambda>b'. go_foldl f b' xs)"

fun go_map :: "('a \<Rightarrow> 'b) \<Rightarrow> 'a go \<Rightarrow> 'b go" where
  "go_map f (Return a) = Return (f a)"
| "go_map f (Panic p) = Panic p"
| "go_map f OutOfFuel = OutOfFuel"

fun is_return :: "'a go \<Rightarrow> bool" where
  "is_return (Return _) = True"
| "is_return _ = False"

lemma go_bind_Return_iff [simp]:
  "go_bind m f = Return b \<longleftrightarrow> (\<exists>a. m = Return a \<and> f a = Return b)"
  by (cases m) auto

lemma go_bind_ReturnE [go_elims]:
  assumes "go_bind m f = Return b"
  obtains a where "m = Return a" "f a = Return b"
  using assms by (cases m) auto

lemma go_bind_Return [simp]: "go_bind m Return = m"
  by (cases m) auto

lemma go_map_Return_iff: "go_map f m = Return b \<longleftrightarrow> (\<exists>a. m = Return a \<and> b = f a)"
  by (cases m) auto

lemma go_bind_assoc: "go_bind (go_bind m f) g = go_bind m (\<lambda>a. go_bind (f a) g)"
  by (cases m) auto

lemma go_bind_cong [fundef_cong]:
  "m = m' \<Longrightarrow> (\<And>a. m' = Return a \<Longrightarrow> f a = f' a) \<Longrightarrow> go_bind m f = go_bind m' f'"
  by (cases m') auto

lemma is_return_iff: "is_return m \<longleftrightarrow> (\<exists>a. m = Return a)"
  by (cases m) auto

lemma go_foldl_append:
  "go_foldl f b (xs @ ys) = go_bind (go_foldl f b xs) (\<lambda>b'. go_foldl f b' ys)"
  by (induction xs arbitrary: b) (auto simp: go_bind_assoc)

lemma go_foldl_all_Return:
  "(\<And>b x. x \<in> set xs \<Longrightarrow> f b x = Return (g b x)) \<Longrightarrow> go_foldl f b xs = Return (foldl g b xs)"
  by (induction xs arbitrary: b) auto

section \<open>Fixed-width integers\<close>

text \<open>
  Go's \<open>int64\<close> and \<open>int32\<close> as mathematical integers brought back into range by the
  two's-complement wrap-around.
\<close>

definition wrap_signed :: "nat \<Rightarrow> int \<Rightarrow> int" where
  "wrap_signed w x = (x + 2 ^ (w - 1)) mod 2 ^ w - 2 ^ (w - 1)"

definition i64 :: "int \<Rightarrow> int" where
  "i64 x = wrap_signed 64 x"

definition i32 :: "int \<Rightarrow> int" where
  "i32 x = wrap_signed 32 x"

lemma i64_id: "- 9223372036854775808 \<le> x \<Longrightarrow> x \<le> 9223372036854775807 \<Longrightarrow> i64 x = x"
  by (simp add: i64_def wrap_signed_def)

lemma i32_id: "- 2147483648 \<le> x \<Longrightarrow> x \<le> 2147483647 \<Longrightarrow> i32 x = x"
  by (simp add: i32_def wrap_signed_def)

lemma i64_bounds: "- 9223372036854775808 \<le> i64 x \<and> i64 x \<le> 9223372036854775807"
proof -
  have "0 \<le> (x + 9223372036854775808) mod 18446744073709551616"
    and "(x + 9223372036854775808) mod 18446744073709551616 < 18446744073709551616"
    by simp_all
  then show ?thesis by (simp add: i64_def wrap_signed_def)
qed

lemma i32_bounds: "- 2147483648 \<le> i32 x \<and> i32 x \<le> 2147483647"
proof -
  have "0 \<le> (x + 2147483648) mod 4294967296"
    and "(x + 2147483648) mod 4294967296 < 4294967296"
    by simp_all
  then show ?thesis by (simp add: i32_def wrap_signed_def)
qed

text \<open>Go's integer division and remainder truncate towards zero.\<close>

definition go_div :: "int \<Rightarrow> int \<Rightarrow> int" where
  "go_div a b = sgn a * sgn b * (\<bar>a\<bar> div \<bar>b\<bar>)"

definition go_mod :: "int \<Rightarrow> int \<Rightarrow> int" where
  "go_mod a b = a - b * go_div a b"

lemma go_div_pos: "0 \<le> a \<Longrightarrow> 0 < b \<Longrightarrow> go_div a b = a div b"
  by (cases "a = 0") (simp_all add: go_div_def)

lemma go_mod_pos: "0 \<le> a \<Longrightarrow> 0 < b \<Longrightarrow> go_mod a b = a mod b"
  by (simp add: go_mod_def go_div_pos minus_mult_div_eq_mod)

section \<open>Go maps\<close>

text \<open>
  A Go map is an association list without duplicate keys (\<open>distinct_keys\<close>); its iteration
  order is the order of the list, and the properties about iteration are proved for every order.
\<close>

type_synonym ('k, 'v) gomap = "('k \<times> 'v) list"

abbreviation lookup :: "('k, 'v) gomap \<Rightarrow> 'k \<Rightarrow> 'v option" where
  "lookup m k \<equiv> map_of m k"

abbreviation distinct_keys :: "('k, 'v) gomap \<Rightarrow> bool" where
  "distinct_keys m \<equiv> distinct (map fst m)"

definition insert_key :: "'k \<Rightarrow> 'v \<Rightarrow> ('k, 'v) gomap \<Rightarrow> ('k, 'v) gomap" where
  "insert_key k v m = AList.update k v m"

lemma insert_fresh: "k \<notin> fst ` set m \<Longrightarrow> insert_key k v m = m @ [(k, v)]"
  unfolding insert_key_def by (induction m) auto

definition remove_key :: "'k \<Rightarrow> ('k, 'v) gomap \<Rightarrow> ('k, 'v) gomap" where
  "remove_key k m = AList.delete k m"

lemma lookup_insert_key [simp]: "lookup (insert_key k v m) = (lookup m)(k \<mapsto> v)"
  by (rule ext) (simp add: insert_key_def update_conv')

lemma lookup_remove_key [simp]: "lookup (remove_key k m) = (lookup m)(k := None)"
  by (rule ext) (simp add: remove_key_def delete_conv')

lemma distinct_insert_key [simp]: "distinct_keys m \<Longrightarrow> distinct_keys (insert_key k v m)"
  by (simp add: insert_key_def distinct_update)

lemma distinct_remove_key [simp]: "distinct_keys m \<Longrightarrow> distinct_keys (remove_key k m)"
  by (simp add: remove_key_def distinct_delete)

lemma insert_key_not_Nil [simp]: "insert_key k v m \<noteq> []"
  by (cases m) (auto simp: insert_key_def)

section \<open>State machines with an invariant\<close>

text \<open>
  The contract shared by the concurrent parts: an initial state, a step relation and a predicate
  that holds at the start and is kept by every step. Its only lemma lifts the predicate to every
  reachable state.
\<close>

inductive reaches :: "('s \<Rightarrow> 's \<Rightarrow> bool) \<Rightarrow> 's \<Rightarrow> 's \<Rightarrow> bool" for step where
  reaches_refl: "reaches step s s"
| reaches_step: "reaches step s t \<Longrightarrow> step t u \<Longrightarrow> reaches step s u"

lemma reaches_trans: "reaches step t u \<Longrightarrow> reaches step s t \<Longrightarrow> reaches step s u"
  by (induction rule: reaches.induct) (auto intro: reaches.intros)

lemma reaches_front: "step s t \<Longrightarrow> reaches step t u \<Longrightarrow> reaches step s u"
  by (blast intro: reaches_trans reaches.intros)

locale step_invariant =
  fixes init :: "'s \<Rightarrow> bool"
    and step :: "'s \<Rightarrow> 's \<Rightarrow> bool"
    and inv :: "'s \<Rightarrow> bool"
  assumes inv_at_init: "init s \<Longrightarrow> inv s"
    and inv_kept: "inv s \<Longrightarrow> step s t \<Longrightarrow> inv t"
begin

lemma inv_reachable:
  assumes "init s" and "reaches step s t"
  shows "inv t"
  using assms(2,1) by (induction rule: reaches.induct) (blast intro: inv_at_init inv_kept)+

end

end
