(* ===== verification/Go_Strings.thy ===== *)
theory Go_Strings
  imports Go_Prelude "HOL-Library.Sublist"
begin

text \<open>
  The functions of Go's \<open>strings\<close> and \<open>strconv\<close> packages that the source calls, on strings as
  lists of bytes. Letters and white space are those of ASCII; the source's keywords, role names
  and separators are ASCII.
\<close>

section \<open>Characters\<close>

definition code :: "char \<Rightarrow> nat" where
  "code c = of_char c"

definition lower_char :: "char \<Rightarrow> char" where
  "lower_char c = (if 65 \<le> code c \<and> code c \<le> 90 then char_of (code c + 32) else c)"

definition is_space :: "char \<Rightarrow> bool" where
  "is_space c = (code c = 32 \<or> (9 \<le> code c \<and> code c \<le> 13))"

definition is_digit :: "char \<Rightarrow> bool" where
  "is_digit c = (48 \<le> code c \<and> code c \<le> 57)"

definition is_alnum :: "char \<Rightarrow> bool" where
  "is_alnum c = (is_digit c \<or> (65 \<le> code c \<and> code c \<le> 90) \<or> (97 \<le> code c \<and> code c \<le> 122))"

definition is_graph :: "char \<Rightarrow> bool" where
  "is_graph c = (33 \<le> code c \<and> code c \<le> 126)"

definition ToLower :: "string \<Rightarrow> string" where
  "ToLower s = List.map lower_char s"

lemma lower_char_idem [simp]: "lower_char (lower_char c) = lower_char c"
proof (cases "65 \<le> code c \<and> code c \<le> 90")
  case True
  then have "code (char_of (code c + 32)) = code c + 32"
    by (simp add: code_def of_char_of)
  with True have "lower_char (char_of (code c + 32)) = char_of (code c + 32)"
    unfolding lower_char_def by simp
  with True show ?thesis by (simp add: lower_char_def [of c])
next
  case False
  then have "lower_char c = c" by (auto simp: lower_char_def)
  then show ?thesis by simp
qed

lemma ToLower_idem [simp]: "ToLower (ToLower s) = ToLower s"
  by (simp add: ToLower_def)

lemma ToLower_Nil_iff [simp]: "ToLower s = [] \<longleftrightarrow> s = []"
  by (simp add: ToLower_def)

section \<open>Prefixes, suffixes, joining and cutting\<close>

definition HasPrefix :: "string \<Rightarrow> string \<Rightarrow> bool" where
  "HasPrefix s p = (take (length p) s = p)"

definition HasSuffix :: "string \<Rightarrow> string \<Rightarrow> bool" where
  "HasSuffix s p = (length p \<le> length s \<and> drop (length s - length p) s = p)"

fun Join :: "string list \<Rightarrow> string \<Rightarrow> string" where
  "Join [] sep = []"
| "Join [x] sep = x"
| "Join (x # y # r) sep = x @ sep @ Join (y # r) sep"

fun cut :: "string \<Rightarrow> string \<Rightarrow> (string \<times> string) option" where
  "cut sep [] = (if sep = [] then Some ([], []) else None)"
| "cut sep (c # cs) =
     (if take (length sep) (c # cs) = sep then Some ([], drop (length sep) (c # cs))
      else (case cut sep cs of None \<Rightarrow> None | Some (a, b) \<Rightarrow> Some (c # a, b)))"

primrec split_at_most :: "nat \<Rightarrow> string \<Rightarrow> string \<Rightarrow> string list" where
  "split_at_most 0 sep s = [s]"
| "split_at_most (Suc k) sep s =
     (case cut sep s of None \<Rightarrow> [s] | Some (a, b) \<Rightarrow> a # split_at_most k sep b)"

definition SplitN :: "string \<Rightarrow> string \<Rightarrow> nat \<Rightarrow> string list" where
  "SplitN s sep n = (if n = 0 then [] else split_at_most (n - 1) sep s)"

definition Split :: "string \<Rightarrow> string \<Rightarrow> string list" where
  "Split s sep = split_at_most (length s) sep s"

definition Contains :: "string \<Rightarrow> string \<Rightarrow> bool" where
  "Contains s sub = (cut sub s \<noteq> None)"

definition count_char :: "string \<Rightarrow> char \<Rightarrow> nat" where
  "count_char s c = length (List.filter (\<lambda>x. x = c) s)"

definition TrimLeft :: "string \<Rightarrow> string \<Rightarrow> string" where
  "TrimLeft s cutset = dropWhile (\<lambda>c. c \<in> set cutset) s"

definition TrimRight :: "string \<Rightarrow> string \<Rightarrow> string" where
  "TrimRight s cutset = rev (dropWhile (\<lambda>c. c \<in> set cutset) (rev s))"

definition TrimSpace :: "string \<Rightarrow> string" where
  "TrimSpace s = rev (dropWhile is_space (rev (dropWhile is_space s)))"

fun fields_from :: "string \<Rightarrow> string \<Rightarrow> string list" where
  "fields_from cur [] = (if cur = [] then [] else [rev cur])"
| "fields_from cur (c # cs) =
     (if is_space c
      then (if cur = [] then fields_from [] cs else rev cur # fields_from [] cs)
      else fields_from (c # cur) cs)"

definition Fields :: "string \<Rightarrow> string list" where
  "Fields s = fields_from [] s"

lemma HasSuffix_suffix: "HasSuffix s p \<longleftrightarrow> suffix p s"
proof
  assume "HasSuffix s p"
  then have "drop (length s - length p) s = p" by (simp add: HasSuffix_def)
  then show "suffix p s" by (metis suffix_drop)
next
  assume "suffix p s"
  then show "HasSuffix s p" by (auto simp: HasSuffix_def suffix_def)
qed

lemma HasPrefix_prefix: "HasPrefix s p \<longleftrightarrow> prefix p s"
  by (metis HasPrefix_def append_eq_conv_conj append_take_drop_id prefix_def)

lemma cut_Some: "cut sep s = Some (a, b) \<Longrightarrow> s = a @ sep @ b"
proof (induction s arbitrary: a b)
  case Nil
  then show ?case by (auto split: if_splits)
next
  case (Cons c cs)
  show ?case
  proof (cases "take (length sep) (c # cs) = sep")
    case True
    with Cons.prems show ?thesis by (metis append_Nil append_take_drop_id cut.simps(2) option.inject prod.inject)
  next
    case False
    with Cons show ?thesis by (auto split: option.splits prod.splits)
  qed
qed

lemma cut_first:
  "c \<notin> set a \<Longrightarrow> cut [c] (a @ c # b) = Some (a, b)"
  by (induction a) auto

lemma cut_absent: "c \<notin> set s \<Longrightarrow> cut [c] s = None"
  by (induction s) auto

lemma Join_cut: "split_at_most k sep s = ws \<Longrightarrow> Join ws sep = s"
proof (induction k arbitrary: s ws)
  case 0
  then show ?case by auto
next
  case (Suc k)
  show ?case
  proof (cases "cut sep s")
    case None
    with Suc.prems show ?thesis by auto
  next
    case (Some ab)
    obtain a b where ab: "ab = (a, b)" by fastforce
    have "split_at_most k sep b \<noteq> []" by (cases k) (auto split: option.splits)
    then obtain y r where yr: "split_at_most k sep b = y # r" by (cases "split_at_most k sep b") auto
    with Suc.IH have "Join (y # r) sep = b" by blast
    with Suc.prems Some ab yr cut_Some show ?thesis by fastforce
  qed
qed

lemma Split_Join: "Join (Split s sep) sep = s"
  by (simp add: Split_def Join_cut)

lemma split_Join:
  "ws \<noteq> [] \<Longrightarrow> list_all (\<lambda>w. c \<notin> set w) ws \<Longrightarrow> length ws \<le> Suc n \<Longrightarrow> split_at_most n [c] (Join ws [c]) = ws"
proof (induction n arbitrary: ws)
  case 0
  then obtain w where "ws = [w]" by (cases ws) auto
  then show ?case by simp
next
  case (Suc n)
  then obtain w rest where ws: "ws = w # rest" by (cases ws) auto
  show ?case
  proof (cases rest)
    case Nil
    with Suc ws show ?thesis by (simp add: cut_absent)
  next
    case (Cons v vs)
    with Suc.prems Suc.IH [of rest] ws show ?thesis by (simp add: cut_first)
  qed
qed

lemma length_Join: "length ws \<le> Suc (length (Join ws [c]))"
  by (induction ws "[c]" rule: Join.induct) auto

lemma Split_Join_char: "ws \<noteq> [] \<Longrightarrow> list_all (\<lambda>w. c \<notin> set w) ws \<Longrightarrow> Split (Join ws [c]) [c] = ws"
  unfolding Split_def by (intro split_Join length_Join)

definition spaceless :: "string \<Rightarrow> bool" where
  "spaceless w = list_all (\<lambda>c. \<not> is_space c) w"

lemma spaceless_simps [simp]:
  "spaceless []" "spaceless (c # w) \<longleftrightarrow> \<not> is_space c \<and> spaceless w"
  "spaceless (v @ w) \<longleftrightarrow> spaceless v \<and> spaceless w" "spaceless (rev w) \<longleftrightarrow> spaceless w"
  by (auto simp: spaceless_def list_all_iff)

lemma Fields_from_spaceless:
  "spaceless cur \<Longrightarrow> w \<in> set (fields_from cur s) \<Longrightarrow> w \<noteq> [] \<and> spaceless w"
proof (induction cur s rule: fields_from.induct)
  case (1 cur)
  then show ?case by (simp split: if_splits)
next
  case (2 cur c cs)
  then show ?case by (cases "is_space c"; cases "cur = []") auto
qed

lemma Fields_spaceless: "w \<in> set (Fields s) \<Longrightarrow> w \<noteq> [] \<and> spaceless w"
  using Fields_from_spaceless [of "[]" w s] by (simp add: Fields_def)

lemma fields_from_word:
  "spaceless w \<Longrightarrow> fields_from cur (w @ rest) = fields_from (rev w @ cur) rest"
  by (induction w arbitrary: cur) auto

lemma is_space_blank [simp]: "is_space CHR '' ''"
  by (simp add: is_space_def code_def)

lemma Fields_Join:
  assumes "\<forall>w \<in> set ws. w \<noteq> [] \<and> spaceless w"
  shows "Fields (Join ws '' '') = ws"
proof -
  have "fields_from [] (Join ws '' '') = ws"
    using assms
  proof (induction ws)
    case Nil
    then show ?case by simp
  next
    case (Cons w ws)
    then have w: "w \<noteq> []" "spaceless w" by auto
    show ?case
    proof (cases ws)
      case Nil
      then show ?thesis using w fields_from_word [of w "[]" "[]"] by simp
    next
      case (Cons v vs)
      then show ?thesis
        using w Cons.IH Cons.prems fields_from_word [of w "[]" "'' '' @ Join ws '' ''"] by simp
    qed
  qed
  then show ?thesis by (simp add: Fields_def)
qed

section \<open>Decimal numbers\<close>

text \<open>
  \<open>Atoi\<close> is \<open>strconv.Atoi\<close>, and \<open>strconv.ParseInt\<close> with base 10 and 64 bits: an optional sign
  and at least one digit; \<open>None\<close> is the error, also for a value outside \<open>int64\<close>.
\<close>

definition digits_val :: "string \<Rightarrow> nat" where
  "digits_val s = foldl (\<lambda>a c. 10 * a + (code c - 48)) 0 s"

definition Atoi :: "string \<Rightarrow> int option" where
  "Atoi s =
     (let (neg, ds) = (case s of
            [] \<Rightarrow> (False, [])
          | c # cs \<Rightarrow> if c = CHR ''-'' then (True, cs) else if c = CHR ''+'' then (False, cs) else (False, s))
      in if ds = [] \<or> \<not> list_all is_digit ds then None
         else (let v = (if neg then - int (digits_val ds) else int (digits_val ds))
               in if v < - 9223372036854775808 \<or> 9223372036854775807 < v then None else Some v))"

definition digit_char :: "nat \<Rightarrow> char" where
  "digit_char d = char_of (48 + d)"

fun nat_digits :: "nat \<Rightarrow> string" where
  "nat_digits n = (if n < 10 then [digit_char n] else nat_digits (n div 10) @ [digit_char (n mod 10)])"

declare nat_digits.simps [simp del]

definition Itoa :: "int \<Rightarrow> string" where
  "Itoa n = (if n < 0 then CHR ''-'' # nat_digits (nat (- n)) else nat_digits (nat n))"

lemma code_digit_char [simp]: "d < 10 \<Longrightarrow> code (digit_char d) = 48 + d"
  by (simp add: code_def digit_char_def)

lemma is_digit_digit_char [simp]: "d < 10 \<Longrightarrow> is_digit (digit_char d)"
  by (simp add: is_digit_def)

lemma nat_digits_facts:
  "nat_digits n \<noteq> [] \<and> list_all is_digit (nat_digits n) \<and> digits_val (nat_digits n) = n"
proof (induction n rule: nat_digits.induct)
  case (1 n)
  show ?case
  proof (cases "n < 10")
    case True
    then show ?thesis by (subst (1 2 3) nat_digits.simps) (simp add: digits_val_def)
  next
    case False
    with 1 show ?thesis by (subst (1 2 3) nat_digits.simps) (simp add: digits_val_def)
  qed
qed

lemma not_digit [simp]: "\<not> is_digit CHR ''-''" "\<not> is_digit CHR ''+''"
  by (simp_all add: is_digit_def code_def)

lemma Atoi_Itoa:
  assumes "- 9223372036854775808 \<le> n" "n \<le> 9223372036854775807"
  shows "Atoi (Itoa n) = Some n"
proof (cases "n < 0")
  case True
  with assms nat_digits_facts [of "nat (- n)"] show ?thesis by (simp add: Itoa_def Atoi_def)
next
  case False
  then obtain c cs where c: "nat_digits (nat n) = c # cs"
    using nat_digits_facts [of "nat n"] by (cases "nat_digits (nat n)") auto
  then have "is_digit c" using nat_digits_facts [of "nat n"] by simp
  then have "c \<noteq> CHR ''-''" "c \<noteq> CHR ''+''" by auto
  with assms False c nat_digits_facts [of "nat n"] show ?thesis by (simp add: Itoa_def Atoi_def)
qed

lemma Atoi_range:
  "Atoi s = Some v \<Longrightarrow> - 9223372036854775808 \<le> v \<and> v \<le> 9223372036854775807"
  by (auto simp: Atoi_def Let_def split_def split: if_splits)

end
