(* ===== verification/Policy_Checks.thy ===== *)
theory Policy_Checks
  imports Go_Strings
begin

text \<open>
  The check objects of the policy engine (\<open>api/pkg/policy/checks.go\<close>): the tree of checks that
  a policy rule is parsed to, how it prints and how it is executed against a target, a set of
  credentials and the enforcer's rules. Go's interface values that occur in credentials are
  the datatype \<open>gval\<close>. A \<open>RuleCheck\<close> looks another rule up in the enforcer, so execution may
  not return; the fuel of \<open>exec\<close> counts those look-ups.
\<close>

section \<open>Values of credentials\<close>

datatype gval =
    VNil
  | VString string
  | VBool bool
  | VNumber int
  | VStrings "string list"
  | VList "gval list"
  | VMap "(string \<times> gval) list"

type_synonym cred = "(string, gval) gomap"
type_synonym target = "(string, string) gomap"

section \<open>Checks\<close>

datatype check =
    FalseCheck
  | TrueCheck
  | NotCheck check
  | AndCheck "check list"
  | OrCheck "check list"
  | RuleCheck string string
  | RoleCheck string string
  | GenericCheck string string

type_synonym rules = "(string, check) gomap"

definition NewAndCheck :: "check \<Rightarrow> check \<Rightarrow> check" where
  "NewAndCheck check1 check2 = AndCheck [check1, check2]"

definition NewOrCheck :: "check \<Rightarrow> check \<Rightarrow> check" where
  "NewOrCheck check1 check2 = OrCheck [check1, check2]"

text \<open>
  \<open>registeredChecks\<close> after \<open>registerAll\<close>: the constructors for the kinds the engine knows.
\<close>

definition registeredChecks :: "(string, string \<Rightarrow> string \<Rightarrow> check) gomap" where
  "registeredChecks = [(''rule'', RuleCheck), (''role'', RoleCheck), (''generic'', GenericCheck)]"

section \<open>Printing: the String methods\<close>

fun check_String :: "check \<Rightarrow> string" where
  "check_String FalseCheck = ''!''"
| "check_String TrueCheck = ''@''"
| "check_String (NotCheck rule) = ''not '' @ check_String rule"
| "check_String (AndCheck rules) = ''('' @ Join (map check_String rules) '' and '' @ '')''"
| "check_String (OrCheck rules) = ''('' @ Join (map check_String rules) '' or '' @ '')''"
| "check_String (RuleCheck kind match) = kind @ '':'' @ match"
| "check_String (RoleCheck kind match) = kind @ '':'' @ match"
| "check_String (GenericCheck kind match) = kind @ '':'' @ match"

section \<open>Placeholders: keyWorkFormatter\<close>

text \<open>
  \<open>find_keywords\<close> is \<open>FindAllString\<close> of the regular expression \<open>%([[:graph:]]+)s\<close>: from each
  percent sign the longest run of printing characters that ends in an \<open>s\<close> and holds at least one
  character before it, leftmost matches first, without overlaps.
\<close>

definition last_s :: "string \<Rightarrow> nat option" where
  "last_s g = (case List.filter (\<lambda>j. g ! j = CHR ''s'') [1..<length g] of
     [] \<Rightarrow> None | js \<Rightarrow> Some (last js))"

function (sequential) find_keywords :: "string \<Rightarrow> string list" where
  "find_keywords [] = []"
| "find_keywords (c # cs) =
     (if c = CHR ''%'' then
        (case last_s (takeWhile is_graph cs) of
           None \<Rightarrow> find_keywords cs
         | Some j \<Rightarrow> (c # take (Suc j) cs) # find_keywords (drop (Suc j) cs))
      else find_keywords cs)"
  by pat_completeness auto
termination
  by (relation "measure length") auto

text \<open>
  \<open>ms[0][2 : len(ms[0])-2]\<close> panics when the match has three characters only; otherwise the
  name between the brackets is looked up in the target. \<open>Return None\<close> is the error return.
\<close>

definition keyWorkFormatter :: "target \<Rightarrow> string \<Rightarrow> string option go" where
  "keyWorkFormatter target match =
     (case find_keywords match of
        [m] \<Rightarrow>
          (if length m < 4 then Panic SliceBounds
           else Return (lookup target (take (length m - 4) (drop 2 m))))
      | _ \<Rightarrow> Return (Some match))"

section \<open>Execution\<close>

definition exec_role :: "target \<Rightarrow> cred \<Rightarrow> string \<Rightarrow> bool go" where
  "exec_role target cred rmatch =
     go_bind (keyWorkFormatter target rmatch) (\<lambda>m.
       case m of
         None \<Rightarrow> Return False
       | Some match \<Rightarrow>
           (case lookup cred ''roles'' of
              None \<Rightarrow> Return False
            | Some (VStrings roles) \<Rightarrow>
                Return (list_ex (\<lambda>role. ToLower match = ToLower role) roles)
            | Some _ \<Rightarrow> Panic TypeAssertion))"

definition simpleLiteral :: "string \<Rightarrow> string option go" where
  "simpleLiteral expr =
     (case expr of
        [] \<Rightarrow> Panic IndexOutOfRange
      | c # _ \<Rightarrow>
          (if 2 \<le> length expr \<and> c = last expr \<and> (c = CHR 0x22 \<or> c = CHR 0x27)
           then Return (Some (butlast (tl expr)))
           else if ToLower expr \<in> {''true'', ''false''} then Return (Some (ToLower expr))
           else Return None))"

fun bool_String :: "bool \<Rightarrow> string" where
  "bool_String True = ''true''"
| "bool_String False = ''false''"

fun findInMap :: "gval \<Rightarrow> string list \<Rightarrow> string \<Rightarrow> bool" where
  "findInMap testVal [] match =
     (case testVal of
        VString s \<Rightarrow> ToLower match = ToLower s
      | VBool b \<Rightarrow> ToLower match = bool_String b
      | _ \<Rightarrow> False)"
| "findInMap testVal (key # pathSegs) match =
     (case testVal of
        VMap m \<Rightarrow>
          (case lookup m key of
             None \<Rightarrow> False
           | Some VNil \<Rightarrow> False
           | Some (VList vList) \<Rightarrow> list_ex (\<lambda>val. findInMap val pathSegs match) vList
           | Some (VStrings vList) \<Rightarrow> list_ex (\<lambda>val. findInMap (VString val) pathSegs match) vList
           | Some v \<Rightarrow> findInMap v pathSegs match)
      | _ \<Rightarrow> False)"

definition exec_generic :: "target \<Rightarrow> cred \<Rightarrow> string \<Rightarrow> string \<Rightarrow> bool go" where
  "exec_generic target cred kind gmatch =
     go_bind (keyWorkFormatter target (ToLower gmatch)) (\<lambda>m.
       case m of
         None \<Rightarrow> Return False
       | Some match \<Rightarrow>
           go_bind (simpleLiteral kind) (\<lambda>l.
             case l of
               Some test_value \<Rightarrow> Return (ToLower match = test_value)
             | None \<Rightarrow>
                 (if cred = [] then Return False
                  else Return (findInMap (VMap cred) (Split kind ''.'') match))))"

text \<open>
  \<open>all_go\<close> and \<open>any_go\<close> are the loops of \<open>AndCheck.Exec\<close> and \<open>OrCheck.Exec\<close> with their
  early returns.
\<close>

fun all_go :: "('a \<Rightarrow> bool go) \<Rightarrow> 'a list \<Rightarrow> bool go" where
  "all_go f [] = Return True"
| "all_go f (rule # rules) = go_bind (f rule) (\<lambda>b. if b then all_go f rules else Return False)"

fun any_go :: "('a \<Rightarrow> bool go) \<Rightarrow> 'a list \<Rightarrow> bool go" where
  "any_go f [] = Return False"
| "any_go f (rule # rules) = go_bind (f rule) (\<lambda>b. if b then Return True else any_go f rules)"

lemma all_go_cong [fundef_cong]:
  "xs = ys \<Longrightarrow> (\<And>x. x \<in> set ys \<Longrightarrow> f x = g x) \<Longrightarrow> all_go f xs = all_go g ys"
proof (induction ys arbitrary: xs)
  case (Cons y ys)
  then have "all_go f ys = all_go g ys" by simp
  with Cons.prems show ?case by (simp cong: if_cong)
qed simp

lemma any_go_cong [fundef_cong]:
  "xs = ys \<Longrightarrow> (\<And>x. x \<in> set ys \<Longrightarrow> f x = g x) \<Longrightarrow> any_go f xs = any_go g ys"
proof (induction ys arbitrary: xs)
  case (Cons y ys)
  then have "any_go f ys = any_go g ys" by simp
  with Cons.prems show ?case by (simp cong: if_cong)
qed simp

text \<open>
  \<open>exec\<close> is the method \<open>Exec\<close> of all checks, through the function \<open>check\<close>. A missing rule is the
  zero interface value, whose method call panics.
\<close>

function (sequential) exec :: "nat \<Rightarrow> rules \<Rightarrow> target \<Rightarrow> cred \<Rightarrow> check \<Rightarrow> bool go" where
  "exec n rs target cred FalseCheck = Return False"
| "exec n rs target cred TrueCheck = Return True"
| "exec n rs target cred (NotCheck rule) = go_map Not (exec n rs target cred rule)"
| "exec n rs target cred (AndCheck rules) = all_go (exec n rs target cred) rules"
| "exec n rs target cred (OrCheck rules) = any_go (exec n rs target cred) rules"
| "exec n rs target cred (RuleCheck kind match) =
     (if rs = [] then Return False
      else if n = 0 then OutOfFuel
      else (case lookup rs match of
              None \<Rightarrow> Panic NilDereference
            | Some rule \<Rightarrow> exec (n - 1) rs target cred rule))"
| "exec n rs target cred (RoleCheck kind match) = exec_role target cred match"
| "exec n rs target cred (GenericCheck kind match) = exec_generic target cred kind match"
  by pat_completeness auto
termination
  by (relation "measures [\<lambda>(n, _). n, \<lambda>(_, _, _, _, c). size c]")
    (auto simp: less_Suc_eq_le size_list_estimation')

section \<open>Loops with early return\<close>

lemma all_go_True_iff [simp]: "all_go f xs = Return True \<longleftrightarrow> (\<forall>x \<in> set xs. f x = Return True)"
  by (induction xs) (auto split: if_splits)

lemma any_go_False_iff [simp]: "any_go f xs = Return False \<longleftrightarrow> (\<forall>x \<in> set xs. f x = Return False)"
  by (induction xs) (auto split: if_splits)

lemma all_go_False: "all_go f xs = Return False \<Longrightarrow> \<exists>x \<in> set xs. f x = Return False"
  by (induction xs) (auto split: if_splits)

lemma any_go_True: "any_go f xs = Return True \<Longrightarrow> \<exists>x \<in> set xs. f x = Return True"
  by (induction xs) (auto split: if_splits)

lemma all_go_returns: "\<forall>x \<in> set xs. \<exists>b. f x = Return b \<Longrightarrow> \<exists>b. all_go f xs = Return b"
proof (induction xs)
  case (Cons x xs)
  then obtain b b' where "f x = Return b" "all_go f xs = Return b'" by auto
  then show ?case by (cases b) auto
qed auto

lemma any_go_returns: "\<forall>x \<in> set xs. \<exists>b. f x = Return b \<Longrightarrow> \<exists>b. any_go f xs = Return b"
proof (induction xs)
  case (Cons x xs)
  then obtain b b' where "f x = Return b" "any_go f xs = Return b'" by auto
  then show ?case by (cases b) auto
qed auto

lemma all_go_append:
  "all_go f (xs @ ys) = go_bind (all_go f xs) (\<lambda>b. if b then all_go f ys else Return False)"
  by (induction xs) (auto simp: go_bind_assoc intro!: arg_cong [where f = "go_bind _"])

lemma any_go_append:
  "any_go f (xs @ ys) = go_bind (any_go f xs) (\<lambda>b. if b then Return True else any_go f ys)"
  by (induction xs) (auto simp: go_bind_assoc intro!: arg_cong [where f = "go_bind _"])

lemma all_go_no_fuel_out:
  "\<forall>x \<in> set xs. f x \<noteq> OutOfFuel \<Longrightarrow> all_go f xs \<noteq> OutOfFuel"
proof (induction xs)
  case (Cons x xs)
  then show ?case by (cases "f x") auto
qed simp

lemma any_go_no_fuel_out:
  "\<forall>x \<in> set xs. f x \<noteq> OutOfFuel \<Longrightarrow> any_go f xs \<noteq> OutOfFuel"
proof (induction xs)
  case (Cons x xs)
  then show ?case by (cases "f x") auto
qed simp

section \<open>Attribute paths\<close>

text \<open>
  What \<open>findInMap\<close> promises: the values found at the end of the path, where a list on the way
  stands for each of its elements, include one that matches.
\<close>

fun values_at :: "gval \<Rightarrow> string list \<Rightarrow> gval list" where
  "values_at v [] = [v]"
| "values_at (VMap m) (key # path) =
     (case lookup m key of
        None \<Rightarrow> []
      | Some (VList vs) \<Rightarrow> concat (map (\<lambda>v. values_at v path) vs)
      | Some (VStrings ss) \<Rightarrow> concat (map (\<lambda>s. values_at (VString s) path) ss)
      | Some VNil \<Rightarrow> []
      | Some v \<Rightarrow> values_at v path)"
| "values_at _ (key # path) = []"

fun value_matches :: "string \<Rightarrow> gval \<Rightarrow> bool" where
  "value_matches match (VString s) = (ToLower match = ToLower s)"
| "value_matches match (VBool b) = (ToLower match = bool_String b)"
| "value_matches match _ = False"

lemma findInMap_values_at:
  "findInMap v path match \<longleftrightarrow> (\<exists>w \<in> set (values_at v path). value_matches match w)"
proof (induction path arbitrary: v)
  case Nil
  then show ?case by (cases v) auto
next
  case (Cons key path)
  show ?case
  proof (cases v)
    case (VMap m)
    then show ?thesis
      by (auto simp: Cons.IH list_ex_iff split: option.splits gval.splits)
  qed auto
qed

section \<open>The Boolean reading of a check\<close>

definition role_holds :: "target \<Rightarrow> cred \<Rightarrow> string \<Rightarrow> bool" where
  "role_holds target cred rmatch =
     (case (keyWorkFormatter target rmatch, lookup cred ''roles'') of
        (Return (Some match), Some (VStrings roles)) \<Rightarrow> ToLower match \<in> ToLower ` set roles
      | _ \<Rightarrow> False)"

definition generic_holds :: "target \<Rightarrow> cred \<Rightarrow> string \<Rightarrow> string \<Rightarrow> bool" where
  "generic_holds target cred kind gmatch =
     (case (keyWorkFormatter target (ToLower gmatch), simpleLiteral kind) of
        (Return (Some match), Return (Some literal)) \<Rightarrow> ToLower match = literal
      | (Return (Some match), Return None) \<Rightarrow>
          (\<exists>w \<in> set (values_at (VMap cred) (Split kind ''.'')). value_matches match w)
      | _ \<Rightarrow> False)"

function (sequential) holds :: "nat \<Rightarrow> rules \<Rightarrow> target \<Rightarrow> cred \<Rightarrow> check \<Rightarrow> bool" where
  "holds n rs target cred FalseCheck = False"
| "holds n rs target cred TrueCheck = True"
| "holds n rs target cred (NotCheck rule) = (\<not> holds n rs target cred rule)"
| "holds n rs target cred (AndCheck rules) = (\<forall>rule \<in> set rules. holds n rs target cred rule)"
| "holds n rs target cred (OrCheck rules) = (\<exists>rule \<in> set rules. holds n rs target cred rule)"
| "holds n rs target cred (RuleCheck kind match) =
     (if n = 0 then False
      else (case lookup rs match of None \<Rightarrow> False | Some rule \<Rightarrow> holds (n - 1) rs target cred rule))"
| "holds n rs target cred (RoleCheck kind match) = role_holds target cred match"
| "holds n rs target cred (GenericCheck kind match) = generic_holds target cred kind match"
  by pat_completeness auto
termination
  by (relation "measures [\<lambda>(n, _). n, \<lambda>(_, _, _, _, c). size c]")
    (auto simp: less_Suc_eq_le size_list_estimation')

lemma exec_role_holds:
  assumes "exec_role target cred m = Return b"
  shows "b = role_holds target cred m"
proof -
  from assms obtain f where f: "keyWorkFormatter target m = Return f"
    by (auto simp: exec_role_def)
  show ?thesis
  proof (cases "lookup cred ''roles''")
    case None
    with assms f show ?thesis by (cases f) (auto simp: exec_role_def role_holds_def)
  next
    case (Some v)
    with assms f show ?thesis
      by (cases f; cases v) (auto simp: exec_role_def role_holds_def list_ex_iff)
  qed
qed

lemma values_at_empty: "values_at (VMap []) (Split kind sep) = [] \<or> Split kind sep = []"
  by (cases "Split kind sep") auto

lemma Split_not_Nil [simp]: "Split s sep \<noteq> []"
  unfolding Split_def by (cases "length s") (auto split: option.splits)

lemma exec_generic_holds:
  assumes "exec_generic target cred kind m = Return b"
  shows "b = generic_holds target cred kind m"
proof -
  from assms obtain f where f: "keyWorkFormatter target (ToLower m) = Return f"
    by (auto simp: exec_generic_def)
  show ?thesis
  proof (cases f)
    case None
    with assms f show ?thesis by (simp add: exec_generic_def generic_holds_def)
  next
    case (Some match)
    with assms f obtain l where l: "simpleLiteral kind = Return l"
      by (auto simp: exec_generic_def)
    show ?thesis
    proof (cases l)
      case None
      from f Some l None have holds: "generic_holds target cred kind m =
          (\<exists>w \<in> set (values_at (VMap cred) (Split kind ''.'')). value_matches match w)"
        by (simp add: generic_holds_def)
      from assms f Some l None have b: "b = (cred \<noteq> [] \<and> findInMap (VMap cred) (Split kind ''.'') match)"
        by (simp add: exec_generic_def split: if_splits)
      show ?thesis
      proof (cases "cred = []")
        case True
        then have "values_at (VMap cred) (Split kind ''.'') = []"
          using values_at_empty [of kind "''.''"] by simp
        with True b holds show ?thesis by simp
      next
        case False
        with b holds show ?thesis by (simp only: findInMap_values_at) simp
      qed
    next
      case (Some literal)
      with assms f \<open>f = Some match\<close> l show ?thesis
        by (simp add: exec_generic_def generic_holds_def)
    qed
  qed
qed

declare go_map_Return_iff [simp]

lemma exec_verdict:
  "exec n rs target cred c = Return b \<Longrightarrow> b = holds n rs target cred c"
proof (induction n rs target cred c arbitrary: b rule: exec.induct)
  case (4 n rs target cred rules)
  show ?case
  proof (cases b)
    case False
    with "4.prems" have "all_go (exec n rs target cred) rules = Return False" by simp
    then obtain rule where "rule \<in> set rules" "exec n rs target cred rule = Return False"
      using all_go_False by blast
    moreover from this have "False = holds n rs target cred rule" by (rule "4.IH")
    ultimately show ?thesis using False by auto
  next
    case True
    with "4.prems" have all: "\<forall>rule \<in> set rules. exec n rs target cred rule = Return True" by simp
    have "True = holds n rs target cred rule" if "rule \<in> set rules" for rule
      using that all "4.IH" by blast
    with True show ?thesis by auto
  qed
next
  case (5 n rs target cred rules)
  show ?case
  proof (cases b)
    case True
    with "5.prems" have "any_go (exec n rs target cred) rules = Return True" by simp
    then obtain rule where "rule \<in> set rules" "exec n rs target cred rule = Return True"
      using any_go_True by blast
    moreover from this have "True = holds n rs target cred rule" by (rule "5.IH")
    ultimately show ?thesis using True by auto
  next
    case False
    with "5.prems" have all: "\<forall>rule \<in> set rules. exec n rs target cred rule = Return False" by simp
    have "False = holds n rs target cred rule" if "rule \<in> set rules" for rule
      using that all "5.IH" by blast
    with False show ?thesis by auto
  qed
next
  case (6 n rs target cred kind match)
  then show ?case by (auto split: if_splits option.splits)
qed (auto dest: exec_role_holds exec_generic_holds)

section \<open>When execution returns\<close>

text \<open>
  \<open>rule_refs\<close> lists the rules a check names, \<open>check_ok\<close> says that none of the dynamic checks of
  the Go run time can fail: placeholders have a name inside their brackets, kinds are not empty,
  the roles of the credentials are a list of strings and named rules exist.
\<close>

fun rule_refs :: "check \<Rightarrow> string list" where
  "rule_refs (NotCheck rule) = rule_refs rule"
| "rule_refs (AndCheck rules) = concat (map rule_refs rules)"
| "rule_refs (OrCheck rules) = concat (map rule_refs rules)"
| "rule_refs (RuleCheck kind match) = [match]"
| "rule_refs _ = []"

definition placeholder_ok :: "string \<Rightarrow> bool" where
  "placeholder_ok match = (case find_keywords match of [m] \<Rightarrow> 4 \<le> length m | _ \<Rightarrow> True)"

definition roles_ok :: "cred \<Rightarrow> bool" where
  "roles_ok cred = (case lookup cred ''roles'' of None \<Rightarrow> True | Some (VStrings _) \<Rightarrow> True | _ \<Rightarrow> False)"

fun check_ok :: "rules \<Rightarrow> check \<Rightarrow> bool" where
  "check_ok rs (NotCheck rule) = check_ok rs rule"
| "check_ok rs (AndCheck rules) = list_all (check_ok rs) rules"
| "check_ok rs (OrCheck rules) = list_all (check_ok rs) rules"
| "check_ok rs (RuleCheck kind match) = (lookup rs match \<noteq> None)"
| "check_ok rs (RoleCheck kind match) = placeholder_ok match"
| "check_ok rs (GenericCheck kind match) = (placeholder_ok (ToLower match) \<and> kind \<noteq> [])"
| "check_ok rs _ = True"

definition rules_ok :: "rules \<Rightarrow> bool" where
  "rules_ok rs = list_all (\<lambda>(name, rule). check_ok rs rule) rs"

definition ranked :: "(string \<Rightarrow> nat) \<Rightarrow> rules \<Rightarrow> bool" where
  "ranked rank rs =
     list_all (\<lambda>(name, rule). list_all (\<lambda>r. rank r < rank name) (rule_refs rule)) rs"

lemma keyWorkFormatter_returns: "placeholder_ok m \<Longrightarrow> \<exists>f. keyWorkFormatter target m = Return f"
  by (auto simp: placeholder_ok_def keyWorkFormatter_def split: list.splits)

lemma exec_role_returns:
  assumes "placeholder_ok m" and "roles_ok cred"
  shows "\<exists>b. exec_role target cred m = Return b"
proof -
  obtain f where f: "keyWorkFormatter target m = Return f"
    using keyWorkFormatter_returns [OF assms(1)] by blast
  from assms(2) have "lookup cred ''roles'' = None \<or> (\<exists>rs. lookup cred ''roles'' = Some (VStrings rs))"
    by (auto simp: roles_ok_def split: option.splits gval.splits)
  with f show ?thesis by (cases f) (auto simp: exec_role_def)
qed

lemma simpleLiteral_returns: "kind \<noteq> [] \<Longrightarrow> \<exists>l. simpleLiteral kind = Return l"
  by (cases kind) (auto simp: simpleLiteral_def)

lemma exec_generic_returns:
  assumes "placeholder_ok (ToLower m)" and "kind \<noteq> []"
  shows "\<exists>b. exec_generic target cred kind m = Return b"
proof -
  obtain f where f: "keyWorkFormatter target (ToLower m) = Return f"
    using keyWorkFormatter_returns [OF assms(1)] by blast
  obtain l where "simpleLiteral kind = Return l"
    using simpleLiteral_returns [OF assms(2)] by blast
  with f show ?thesis by (cases f; cases l) (auto simp: exec_generic_def)
qed

lemma exec_returns:
  assumes "ranked rank rs" and "rules_ok rs" and "roles_ok cred"
    and "check_ok rs c" and "list_all (\<lambda>r. rank r < n) (rule_refs c)"
  shows "\<exists>b. exec n rs target cred c = Return b"
  using assms
proof (induction n rs target cred c rule: exec.induct)
  case (4 n rs target cred rules)
  then have "\<forall>rule \<in> set rules. \<exists>b. exec n rs target cred rule = Return b"
    by (auto simp: list_all_iff)
  from all_go_returns [OF this] show ?case by simp
next
  case (5 n rs target cred rules)
  then have "\<forall>rule \<in> set rules. \<exists>b. exec n rs target cred rule = Return b"
    by (auto simp: list_all_iff)
  from any_go_returns [OF this] show ?case by simp
next
  case (6 n rs target cred kind match)
  then obtain rule where rule: "lookup rs match = Some rule" by auto
  then have mem: "(match, rule) \<in> set rs" by (rule map_of_SomeD)
  with 6 have "check_ok rs rule" "list_all (\<lambda>r. rank r < rank match) (rule_refs rule)"
    by (auto simp: rules_ok_def ranked_def list_all_iff)
  moreover have n: "rank match < n" using 6 by simp
  ultimately have "list_all (\<lambda>r. rank r < n - 1) (rule_refs rule)"
    by (auto simp: list_all_iff)
  with "6.IH" [OF _ _ rule] 6 rule mem n \<open>check_ok rs rule\<close> show ?case by auto
qed (auto intro: exec_role_returns exec_generic_returns)

text \<open>
  C7. Executing a check returns, and its verdict is the Boolean reading of the check: rule
  references are ranked (no cycle), the fuel exceeds the rank of every rule the check names,
  and the dynamic checks of the run time cannot fail.
\<close>

theorem exec_total:
  assumes "ranked rank rs" and "rules_ok rs" and "roles_ok cred"
    and "check_ok rs c" and "list_all (\<lambda>r. rank r < n) (rule_refs c)"
  shows "exec n rs target cred c = Return (holds n rs target cred c)"
proof -
  obtain b where "exec n rs target cred c = Return b"
    using exec_returns [OF assms] by blast
  with exec_verdict show ?thesis by blast
qed

definition sample_rules :: rules where
  "sample_rules =
     [(''admin_or_owner'', OrCheck [RoleCheck ''role'' ''admin'',
         GenericCheck ''project_id'' ''%(project_id)s'']),
      (''volume:delete'', RuleCheck ''rule'' ''admin_or_owner'')]"

definition sample_cred :: cred where
  "sample_cred = [(''roles'', VStrings [''member'']), (''project_id'', VString ''p1'')]"

theorem exec_total_witness:
  "exec 2 sample_rules [(''project_id'', ''p1'')] sample_cred (RuleCheck ''rule'' ''volume:delete'') =
     Return (holds 2 sample_rules [(''project_id'', ''p1'')] sample_cred (RuleCheck ''rule'' ''volume:delete''))"
proof -
  let ?rank = "\<lambda>name. if name = ''volume:delete'' then 1 else (0::nat)"
  have 1: "ranked ?rank sample_rules" by (simp add: ranked_def sample_rules_def)
  have 2: "rules_ok sample_rules" by code_simp
  have 3: "roles_ok sample_cred" by code_simp
  have 4: "check_ok sample_rules (RuleCheck ''rule'' ''volume:delete'')" by code_simp
  have 5: "list_all (\<lambda>r. ?rank r < 2) (rule_refs (RuleCheck ''rule'' ''volume:delete''))" by simp
  show ?thesis by (rule exec_total [OF 1 2 3 4 5])
qed

text \<open>
  Rules that only name each other in a cycle never return, whatever the fuel: the code
  recurses without bound.
\<close>

theorem rule_cycle_never_returns:
  assumes "\<And>m. m \<in> S \<Longrightarrow> \<exists>kind m'. lookup rs m = Some (RuleCheck kind m') \<and> m' \<in> S"
    and "m \<in> S"
  shows "exec n rs target cred (RuleCheck kind m) = OutOfFuel"
  using assms(2)
proof (induction n arbitrary: m kind)
  case 0
  then show ?case using assms(1) by (cases rs) fastforce+
next
  case (Suc n)
  then obtain kind' m' where "lookup rs m = Some (RuleCheck kind' m')" and "m' \<in> S"
    using assms(1) by blast
  with Suc.IH show ?case by auto
qed

theorem rule_cycle_never_returns_witness:
  "exec 7 [(''a'', RuleCheck ''rule'' ''b''), (''b'', RuleCheck ''rule'' ''a'')] [] []
     (RuleCheck ''rule'' ''a'') = OutOfFuel"
  by (rule rule_cycle_never_returns [of "{''a'', ''b''}"]) auto

text \<open>
  Attribute look-up: a dotted path of a generic check matches exactly when one of the values
  at the end of the path, lists standing for their elements, is a string or a Boolean that
  equals the wanted text up to case.
\<close>

theorem findInMap_spec:
  "findInMap v path match \<longleftrightarrow> (\<exists>w \<in> set (values_at v path). value_matches match w)"
  by (rule findInMap_values_at)

end
