(* ===== verification/Policy_Stack.thy ===== *)
theory Policy_Stack
  imports Policy_Parser_Correct
begin

text \<open>
  The parser's automaton as a stack machine: the joined token string is replaced by the list of
  tokens, top first, the fuel is discharged (every reduction shortens the stack), and no
  reduction fails on a stack whose values have the types its tokens promise.
\<close>

section \<open>Reductions on a token stack\<close>

type_synonym stack = "token list"

definition st_of :: "stack \<Rightarrow> parse_state" where
  "st_of stk = \<lparr>tokens = map fst (rev stk), vals = map snd (rev stk)\<rparr>"

definition stack_rules :: "(string list \<times> (pvalue list \<Rightarrow> token go)) list" where
  "stack_rules =
     [([''('', ''check'', '')''], wrapCheck),
      ([''('', ''and_expr'', '')''], wrapCheck),
      ([''('', ''or_expr'', '')''], wrapCheck),
      ([''check'', ''and'', ''check''], makeAndExpr),
      ([''or_expr'', ''and'', ''check''], mixOrAndExpr),
      ([''and_expr'', ''and'', ''check''], extendAndExpr),
      ([''check'', ''or'', ''check''], makeOrExpr),
      ([''and_expr'', ''or'', ''check''], makeOrExpr),
      ([''or_expr'', ''or'', ''check''], extendOrExpr),
      ([''not'', ''check''], makeNotExpr)]"

lemma ReduceFuncMap_stack_rules:
  "ReduceFuncMap = map (\<lambda>(ks, f). (Join ks '','', f)) stack_rules"
  by (simp add: ReduceFuncMap_def stack_rules_def)

lemma stack_rules_shape:
  "list_all (\<lambda>(ks, f). set ks \<subseteq> set token_names \<and> 2 \<le> length ks \<and>
     count_char (Join ks '','') CHR '','' = length ks - 1) stack_rules"
  by (simp add: stack_rules_def token_names_def count_char_def)

definition legal :: "stack \<Rightarrow> bool" where
  "legal stk = list_all (\<lambda>t. fst t \<in> set token_names) stk"

definition top_rule :: "stack \<Rightarrow> (string list \<times> (pvalue list \<Rightarrow> token go)) option" where
  "top_rule stk = List.find (\<lambda>(ks, f). take (length ks) (map fst stk) = rev ks) stack_rules"

primrec stack_reduce :: "nat \<Rightarrow> stack \<Rightarrow> stack go" where
  "stack_reduce 0 stk = OutOfFuel"
| "stack_reduce (Suc n) stk =
     (case top_rule stk of
        None \<Rightarrow> Return stk
      | Some (ks, f) \<Rightarrow>
          go_bind (f (rev (map snd (take (length ks) stk)))) (\<lambda>t.
            stack_reduce n (t # drop (length ks) stk)))"

lemma find_map: "List.find P (map g xs) = map_option g (List.find (P \<circ> g) xs)"
  by (induction xs) auto

lemma find_cong': "(\<And>x. x \<in> set xs \<Longrightarrow> P x = Q x) \<Longrightarrow> List.find P xs = List.find Q xs"
  by (induction xs) auto

lemma find_SomeD: "List.find P xs = Some x \<Longrightarrow> x \<in> set xs \<and> P x"
  by (induction xs) (auto split: if_splits)

lemma prefix_take: "prefix p s \<longleftrightarrow> take (length p) s = p"
  by (metis append_eq_conv_conj prefix_def take_is_prefix)

lemma top_rule_matches:
  assumes "legal stk"
  shows "List.find (\<lambda>e. HasSuffix (Join (tokens (st_of stk)) '','') (fst e)) ReduceFuncMap =
    map_option (\<lambda>(ks, f). (Join ks '','', f)) (top_rule stk)"
proof -
  have "HasSuffix (Join (map fst (rev stk)) '','') (Join ks '','') \<longleftrightarrow>
      take (length ks) (map fst stk) = rev ks" if "(ks, f) \<in> set stack_rules" for ks f
  proof -
    from that stack_rules_shape have "set ks \<subseteq> set token_names" "ks \<noteq> []"
      by (auto simp: list_all_iff)
    moreover from assms have "set (map fst (rev stk)) \<subseteq> set token_names"
      by (auto simp: legal_def list_all_iff)
    ultimately have "HasSuffix (Join (map fst (rev stk)) '','') (Join ks '','') \<longleftrightarrow>
        suffix ks (map fst (rev stk))"
      by (intro HasSuffix_Join)
    also have "\<dots> \<longleftrightarrow> prefix (rev ks) (map fst stk)"
      by (simp add: suffix_to_prefix rev_map)
    also have "\<dots> \<longleftrightarrow> take (length ks) (map fst stk) = rev ks"
      using prefix_take [of "rev ks" "map fst stk"] by simp
    finally show ?thesis .
  qed
  then show ?thesis
    unfolding ReduceFuncMap_stack_rules find_map top_rule_def
    by (intro arg_cong [where f = "map_option _"] find_cong') (auto simp: st_of_def)
qed

lemma top_rule_SomeD:
  assumes "top_rule stk = Some (ks, f)"
  shows "(ks, f) \<in> set stack_rules" "take (length ks) (map fst stk) = rev ks"
    "length ks \<le> length stk" "2 \<le> length ks"
proof -
  have found: "(ks, f) \<in> set stack_rules \<and> take (length ks) (map fst stk) = rev ks"
    using find_SomeD [OF assms [unfolded top_rule_def]] by simp
  then show mem: "(ks, f) \<in> set stack_rules" by (rule conjunct1)
  from found show eq: "take (length ks) (map fst stk) = rev ks" by (rule conjunct2)
  from eq have "length (take (length ks) (map fst stk)) = length ks" by simp
  then show "length ks \<le> length stk" by simp
  from mem stack_rules_shape show "2 \<le> length ks" by (auto simp: list_all_iff)
qed

lemma reduction_names:
  "wrapCheck args = Return t \<Longrightarrow> fst t = ''check''"
  "makeAndExpr args = Return t \<Longrightarrow> fst t = ''and_expr''"
  "mixOrAndExpr args = Return t \<Longrightarrow> fst t = ''or_expr''"
  "extendAndExpr args = Return t \<Longrightarrow> fst t = ''and_expr''"
  "makeOrExpr args = Return t \<Longrightarrow> fst t = ''or_expr''"
  "extendOrExpr args = Return t \<Longrightarrow> fst t = ''or_expr''"
  "makeNotExpr args = Return t \<Longrightarrow> fst t = ''check''"
  by (auto simp: wrapCheck_def makeAndExpr_def mixOrAndExpr_def extendAndExpr_def makeOrExpr_def
      extendOrExpr_def makeNotExpr_def split_def Let_def)

lemma stack_rules_funs:
  "(ks, f) \<in> set stack_rules \<Longrightarrow>
   f \<in> {wrapCheck, makeAndExpr, mixOrAndExpr, extendAndExpr, makeOrExpr, extendOrExpr, makeNotExpr}"
  by (simp add: stack_rules_def) blast

lemma reductions_legal:
  assumes "(ks, f) \<in> set stack_rules" and "f args = Return t"
  shows "fst t \<in> set token_names"
proof -
  have "fst t \<in> {''check'', ''and_expr'', ''or_expr''}"
    using stack_rules_funs [OF assms(1)] assms(2) by (elim insertE emptyE) (simp_all add: reduction_names)
  then show ?thesis by (auto simp: token_names_def)
qed

lemma st_of_split:
  assumes "n \<le> length stk"
  shows "drop (length stk - n) (vals (st_of stk)) = rev (map snd (take n stk))"
    and "take (length stk - n) (tokens (st_of stk)) = tokens (st_of (drop n stk))"
    and "take (length stk - n) (vals (st_of stk)) = vals (st_of (drop n stk))"
  using assms by (simp_all add: st_of_def rev_map drop_rev take_rev drop_map take_map)

lemma reduce_once_stack:
  "legal stk \<Longrightarrow> reduce_once n (st_of stk) = go_map st_of (stack_reduce n stk)"
proof (induction n arbitrary: stk)
  case (Suc n)
  show ?case
  proof (cases "top_rule stk")
    case None
    with Suc.prems show ?thesis by (simp add: top_rule_matches)
  next
    case (Some kf)
    obtain ks f where kf: "kf = (ks, f)" by (cases kf)
    note top = top_rule_SomeD [OF Some [unfolded kf]]
    from top(1,4) stack_rules_shape have count: "Suc (count_char (Join ks '','') CHR '','') = length ks"
      by (auto simp: list_all_iff)
    have len: "length (vals (st_of stk)) = length stk" by (simp add: st_of_def)
    let ?args = "rev (map snd (take (length ks) stk))"
    have apply_eq: "apply_reduction (Join ks '','', f) (st_of stk) =
        go_bind (f ?args) (\<lambda>t. Return (st_of (t # drop (length ks) stk)))"
      using top(3) st_of_split [OF top(3)]
      unfolding apply_reduction_def fst_conv snd_conv count len Let_def
      by (cases "f ?args") (auto simp: st_of_def)
    have "reduce_once (Suc n) (st_of stk) =
        go_bind (f ?args) (\<lambda>t. reduce_once n (st_of (t # drop (length ks) stk)))"
      using Suc.prems Some kf by (simp add: top_rule_matches apply_eq go_bind_assoc)
    also have "\<dots> = go_bind (f ?args) (\<lambda>t. go_map st_of (stack_reduce n (t # drop (length ks) stk)))"
    proof (rule go_bind_cong [OF refl])
      fix t assume "f ?args = Return t"
      then have "fst t \<in> set token_names" by (rule reductions_legal [OF top(1)])
      with Suc.prems have "legal (t # drop (length ks) stk)"
        by (auto simp: legal_def list_all_iff dest: in_set_dropD)
      then show "reduce_once n (st_of (t # drop (length ks) stk)) =
          go_map st_of (stack_reduce n (t # drop (length ks) stk))"
        by (rule Suc.IH)
    qed
    also have "\<dots> = go_map st_of (stack_reduce (Suc n) stk)"
      using Some kf by (cases "f ?args") simp_all
    finally show ?thesis .
  qed
qed simp

section \<open>Enough fuel\<close>

definition settle :: "stack \<Rightarrow> stack go" where
  "settle stk = stack_reduce (Suc (length stk)) stk"

lemma stack_reduce_fuel:
  "length stk < n \<Longrightarrow> length stk < m \<Longrightarrow> stack_reduce n stk = stack_reduce m stk"
proof (induction n arbitrary: stk m)
  case (Suc n)
  then obtain m' where m: "m = Suc m'" by (cases m) auto
  show ?case
  proof (cases "top_rule stk")
    case None
    with m show ?thesis by simp
  next
    case (Some kf)
    obtain ks f where kf: "kf = (ks, f)" by (cases kf)
    note top = top_rule_SomeD [OF Some [unfolded kf]]
    have "stack_reduce n (t # drop (length ks) stk) = stack_reduce m' (t # drop (length ks) stk)" for t
    proof (rule Suc.IH)
      show "length (t # drop (length ks) stk) < n" using top(3,4) Suc.prems by simp
      show "length (t # drop (length ks) stk) < m'" using top(3,4) Suc.prems m by simp
    qed
    then show ?thesis using Some kf m by simp
  qed
qed simp

lemma settle_unfold:
  "settle stk =
     (case top_rule stk of
        None \<Rightarrow> Return stk
      | Some (ks, f) \<Rightarrow>
          go_bind (f (rev (map snd (take (length ks) stk)))) (\<lambda>t. settle (t # drop (length ks) stk)))"
proof (cases "top_rule stk")
  case None
  then show ?thesis by (simp add: settle_def)
next
  case (Some kf)
  obtain ks f where kf: "kf = (ks, f)" by (cases kf)
  note top = top_rule_SomeD [OF Some [unfolded kf]]
  have "stack_reduce (length stk) (t # drop (length ks) stk) = settle (t # drop (length ks) stk)" for t
    unfolding settle_def using top(3,4) by (intro stack_reduce_fuel) simp_all
  then show ?thesis using Some kf by (simp add: settle_def)
qed

lemma top_rule_single: "length stk < 2 \<Longrightarrow> top_rule stk = None"
  using top_rule_SomeD(3,4) by (cases "top_rule stk") fastforce+

lemma settle_single [simp]: "settle [] = Return []" "settle [t] = Return [t]"
  by (simp_all add: settle_unfold top_rule_single)

lemma Shift_settle:
  assumes "mset order = mset ReduceFuncMap" "legal (t # stk)"
  shows "Shift order (st_of stk) t = go_map st_of (settle (t # stk))"
proof -
  have "Shift order (st_of stk) (fst t, snd t) = reduce_once (Suc (Suc (length stk))) (st_of (t # stk))"
    unfolding Shift_reduce_once [OF assms(1)] by (simp add: st_of_def)
  also have "\<dots> = go_map st_of (settle (t # stk))"
    using reduce_once_stack [OF assms(2)] by (simp add: settle_def del: reduce_once.simps stack_reduce.simps)
  finally show ?thesis by simp
qed

section \<open>Typed stacks\<close>

text \<open>
  A token promises a type for its value. Reductions rely on it through Go type assertions; no
  assertion fails on a typed stack.
\<close>

fun token_ok :: "token \<Rightarrow> bool" where
  "token_ok (t, PString s) \<longleftrightarrow> t \<in> {''('', '')'', ''and'', ''or'', ''not'', ''string''}"
| "token_ok (t, PCheck c) \<longleftrightarrow>
     t = ''check'' \<or> (t = ''and_expr'' \<and> (\<exists>cs. c = AndCheck cs)) \<or>
     (t = ''or_expr'' \<and> (\<exists>cs. c = OrCheck cs \<and> cs \<noteq> []))"

definition typed :: "stack \<Rightarrow> bool" where
  "typed stk = list_all token_ok stk"

lemma token_ok_name: "token_ok t \<Longrightarrow> fst t \<in> set token_names"
  by (induction t rule: token_ok.induct) (auto simp: token_names_def)

lemma typed_legal: "typed stk \<Longrightarrow> legal stk"
  by (auto simp: typed_def legal_def list_all_iff dest: token_ok_name)

lemma token_ok_check: "token_ok (''check'', v) \<Longrightarrow> \<exists>c. v = PCheck c"
  by (cases v) auto

lemma token_ok_and: "token_ok (''and_expr'', v) \<Longrightarrow> \<exists>cs. v = PCheck (AndCheck cs)"
  by (cases v) auto

lemma token_ok_or: "token_ok (''or_expr'', v) \<Longrightarrow> \<exists>cs. v = PCheck (OrCheck cs) \<and> cs \<noteq> []"
  by (cases v) auto

lemmas token_ok_values = token_ok_check token_ok_and token_ok_or

definition rule_typed :: "string list \<times> (pvalue list \<Rightarrow> token go) \<Rightarrow> bool" where
  "rule_typed e \<longleftrightarrow>
     (\<forall>args. length args = length (fst e) \<and> list_all token_ok (zip (fst e) args) \<longrightarrow>
        (\<exists>t c. snd e args = Return (t, PCheck c) \<and> token_ok (t, PCheck c)))"

lemma length_two: "length xs = Suc (Suc 0) \<longleftrightarrow> (\<exists>x y. xs = [x, y])"
  by (auto simp: length_Suc_conv)

lemma length_three: "length xs = Suc (Suc (Suc 0)) \<longleftrightarrow> (\<exists>x y z. xs = [x, y, z])"
  by (auto simp: length_Suc_conv)

lemma wrap_typed:
  "x \<in> {''check'', ''and_expr'', ''or_expr''} \<Longrightarrow> rule_typed ([''('', x, '')''], wrapCheck)"
  by (auto simp: rule_typed_def length_three wrapCheck_def dest!: token_ok_values)

lemma make_typed:
  "x \<in> {''check'', ''and_expr'', ''or_expr''} \<Longrightarrow> rule_typed ([x, k, ''check''], makeAndExpr)"
  "x \<in> {''check'', ''and_expr'', ''or_expr''} \<Longrightarrow> rule_typed ([x, k, ''check''], makeOrExpr)"
  by (auto simp: rule_typed_def length_three makeAndExpr_def makeOrExpr_def NewAndCheck_def
      NewOrCheck_def dest!: token_ok_values)

lemma extend_typed:
  "rule_typed ([''and_expr'', k, ''check''], extendAndExpr)"
  "rule_typed ([''or_expr'', k, ''check''], extendOrExpr)"
  "rule_typed ([''or_expr'', k, ''check''], mixOrAndExpr)"
  "rule_typed ([''not'', ''check''], makeNotExpr)"
  by (auto simp: rule_typed_def length_three length_two extendAndExpr_def extendOrExpr_def
      mixOrAndExpr_def makeNotExpr_def PopCheck_def Let_def simp del: go_bind_Return_iff
      dest!: token_ok_values)

lemma stack_rules_typed: "list_all rule_typed stack_rules"
  by (simp add: stack_rules_def wrap_typed make_typed extend_typed)

lemma typed_reduction:
  assumes "typed stk" "top_rule stk = Some (ks, f)"
  shows "\<exists>t c. f (rev (map snd (take (length ks) stk))) = Return (t, PCheck c) \<and> token_ok (t, PCheck c)"
proof -
  note top = top_rule_SomeD [OF assms(2)]
  let ?top = "rev (take (length ks) stk)"
  have ks: "map fst ?top = ks" using top(2) by (simp add: rev_map [symmetric] take_map)
  have "zip (map fst ?top) (map snd ?top) = ?top" by (rule zip_map_fst_snd)
  then have "zip ks (map snd ?top) = ?top" unfolding ks .
  moreover have "list_all token_ok ?top"
    using assms(1) by (auto simp: typed_def list_all_iff dest: in_set_takeD)
  moreover have "length (map snd ?top) = length ks" using top(3) by simp
  moreover have "rule_typed (ks, f)"
    using stack_rules_typed top(1) unfolding list_all_iff by (rule bspec)
  ultimately have "\<exists>t c. f (map snd ?top) = Return (t, PCheck c) \<and> token_ok (t, PCheck c)"
    unfolding rule_typed_def fst_conv snd_conv by metis
  then show ?thesis by (simp add: rev_map)
qed

lemma settle_typed:
  "typed stk \<Longrightarrow> \<exists>stk'. settle stk = Return stk' \<and> typed stk' \<and>
     (2 \<le> length stk \<longrightarrow> 2 \<le> length stk' \<or> (\<exists>t c. stk' = [(t, PCheck c)]))"
proof (induction "length stk" arbitrary: stk rule: less_induct)
  case less
  show ?case
  proof (cases "top_rule stk")
    case None
    with less.prems show ?thesis by (simp add: settle_unfold)
  next
    case (Some kf)
    obtain ks f where kf: "kf = (ks, f)" by (cases kf)
    note top = top_rule_SomeD [OF Some [unfolded kf]]
    obtain t c where f: "f (rev (map snd (take (length ks) stk))) = Return (t, PCheck c)"
      and t: "token_ok (t, PCheck c)"
      using typed_reduction [OF less.prems Some [unfolded kf]] by blast
    let ?next = "(t, PCheck c) # drop (length ks) stk"
    have settle: "settle stk = settle ?next" using Some kf f by (subst settle_unfold) simp
    have "length ?next < length stk" using top(3,4) by simp
    moreover have "typed ?next"
      using t less.prems by (auto simp: typed_def list_all_iff dest: in_set_dropD)
    ultimately obtain stk' where stk': "settle ?next = Return stk'" "typed stk'"
      "2 \<le> length ?next \<longrightarrow> 2 \<le> length stk' \<or> (\<exists>t c. stk' = [(t, PCheck c)])"
      using less.hyps by blast
    have "2 \<le> length stk' \<or> (\<exists>t c. stk' = [(t, PCheck c)])"
    proof (cases "drop (length ks) stk = []")
      case True
      with stk'(1) show ?thesis by auto
    next
      case False
      then have "2 \<le> length ?next" by (cases "drop (length ks) stk") auto
      with stk'(3) show ?thesis by blast
    qed
    with settle stk'(1,2) show ?thesis by auto
  qed
qed

definition shift_all :: "token list \<Rightarrow> stack \<Rightarrow> stack go" where
  "shift_all ts stk = go_foldl (\<lambda>s t. settle (t # s)) stk ts"

lemma shift_all_simps [simp]:
  "shift_all [] stk = Return stk"
  "shift_all (t # ts) stk = go_bind (settle (t # stk)) (shift_all ts)"
  "shift_all (ts @ us) stk = go_bind (shift_all ts stk) (shift_all us)"
  by (simp_all add: shift_all_def [abs_def] go_foldl_append)

lemma shift_all_typed:
  "typed stk \<Longrightarrow> list_all token_ok ts \<Longrightarrow>
   \<exists>stk'. shift_all ts stk = Return stk' \<and> typed stk' \<and>
     (stk \<noteq> [] \<and> (ts \<noteq> [] \<or> 2 \<le> length stk \<or> (\<exists>t c. stk = [(t, PCheck c)])) \<longrightarrow>
        2 \<le> length stk' \<or> (\<exists>t c. stk' = [(t, PCheck c)]))"
proof (induction ts arbitrary: stk)
  case Nil
  then show ?case by auto
next
  case (Cons t ts)
  then have "typed (t # stk)" by (simp add: typed_def)
  then obtain stk1 where stk1: "settle (t # stk) = Return stk1" "typed stk1"
    "2 \<le> length (t # stk) \<longrightarrow> 2 \<le> length stk1 \<or> (\<exists>t c. stk1 = [(t, PCheck c)])"
    using settle_typed by blast
  from Cons.prems have "list_all token_ok ts" by simp
  from Cons.IH [OF stk1(2) this] obtain stk' where stk': "shift_all ts stk1 = Return stk'" "typed stk'"
    "stk1 \<noteq> [] \<and> (ts \<noteq> [] \<or> 2 \<le> length stk1 \<or> (\<exists>t c. stk1 = [(t, PCheck c)])) \<longrightarrow>
        2 \<le> length stk' \<or> (\<exists>t c. stk' = [(t, PCheck c)])"
    by blast
  have "2 \<le> length stk' \<or> (\<exists>t c. stk' = [(t, PCheck c)])" if "stk \<noteq> []"
  proof -
    from that have "2 \<le> length (t # stk)" by (cases stk) auto
    with stk1(3) have "2 \<le> length stk1 \<or> (\<exists>t c. stk1 = [(t, PCheck c)])" by blast
    moreover from this have "stk1 \<noteq> []" by auto
    ultimately show ?thesis using stk'(3) by blast
  qed
  with stk1(1) stk'(1,2) show ?case by auto
qed

section \<open>The parser on token lists\<close>

lemma parseTokenize_ok: "list_all token_ok (parseTokenize rule)"
  by (auto simp: parseTokenize_def tokenize_field_def tokenize_after_parens_def list_all_iff Let_def
      split: if_splits)

lemma shift_all_automaton:
  assumes "mset order = mset ReduceFuncMap"
  shows "typed stk \<Longrightarrow> list_all token_ok ts \<Longrightarrow>
    go_foldl (Shift order) (st_of stk) ts = go_map st_of (shift_all ts stk)"
proof (induction ts arbitrary: stk)
  case (Cons t ts)
  then have t: "typed (t # stk)" by (simp add: typed_def)
  then obtain stk1 where stk1: "settle (t # stk) = Return stk1" "typed stk1"
    using settle_typed by blast
  with Cons Shift_settle [OF assms typed_legal [OF t]] show ?case by simp
qed simp

definition stack_result :: "stack \<Rightarrow> check go" where
  "stack_result stk =
     (case stk of [(_, PCheck c)] \<Rightarrow> Return c | [(_, PString s)] \<Rightarrow> Panic TypeAssertion
      | _ \<Rightarrow> Return FalseCheck)"

lemma stack_result_automaton:
  "(case parse_Result (st_of stk) of Some result \<Rightarrow> as_check result | None \<Rightarrow> Return FalseCheck) =
     stack_result stk"
proof (cases stk rule: remdups_adj.cases)
  case (2 t)
  then show ?thesis by (cases t; cases "snd t") (simp_all add: parse_Result_def st_of_def stack_result_def)
next
  case (3 t u r)
  then have "parse_Result (st_of stk) = None"
    by (auto simp: parse_Result_def st_of_def split: list.splits)
  with 3 show ?thesis by (cases t; cases "snd t") (simp_all add: stack_result_def)
qed (simp add: parse_Result_def st_of_def stack_result_def)

lemma parseRule_shift_all:
  assumes "mset order = mset ReduceFuncMap" and "rule \<noteq> []"
  shows "parseRule order rule = go_bind (shift_all (parseTokenize rule) []) stack_result"
proof -
  have "typed []" by (simp add: typed_def)
  from shift_all_automaton [OF assms(1) this parseTokenize_ok [of rule]]
  have "go_foldl (Shift order) NewParseState (parseTokenize rule) =
      go_map st_of (shift_all (parseTokenize rule) [])"
    by (simp add: NewParseState_def st_of_def)
  with assms(2) show ?thesis
    by (cases "shift_all (parseTokenize rule) []")
      (simp_all add: parseRule_def stack_result_automaton)
qed

text \<open>
  C40. The parser is total but for one kind of text: it fails with a type assertion exactly when
  the rule is a single token that is not a check (a bare keyword, parenthesis or quoted string),
  and returns a check for every other text, malformed ones included.
\<close>

theorem parseRule_panics_iff:
  assumes "mset order = mset ReduceFuncMap"
  shows "if \<exists>t s. parseTokenize rule = [(t, PString s)]
    then parseRule order rule = Panic TypeAssertion
    else \<exists>c. parseRule order rule = Return c"
proof (cases "rule = []")
  case True
  then show ?thesis by (simp add: parseRule_def parseTokenize_def Fields_def)
next
  case False
  note parse = parseRule_shift_all [OF assms False]
  have typed: "typed []" by (simp add: typed_def)
  show ?thesis
  proof (cases "parseTokenize rule")
    case Nil
    with parse show ?thesis by (simp add: stack_result_def)
  next
    case (Cons t ts)
    then have ok: "token_ok t" "list_all token_ok ts" "typed [t]"
      using parseTokenize_ok [of rule] by (simp_all add: typed_def)
    obtain stk where stk: "shift_all ts [t] = Return stk"
      "ts \<noteq> [] \<or> (\<exists>u c. t = (u, PCheck c)) \<longrightarrow> 2 \<le> length stk \<or> (\<exists>t c. stk = [(t, PCheck c)])"
      using shift_all_typed [OF ok(3,2)] by auto
    from Cons stk(1) have result: "parseRule order rule = stack_result stk" by (simp add: parse)
    show ?thesis
    proof (cases "ts = [] \<and> (\<exists>u s. t = (u, PString s))")
      case True
      with stk(1) result Cons show ?thesis by (auto simp: stack_result_def)
    next
      case False
      then have "ts \<noteq> [] \<or> (\<exists>u c. t = (u, PCheck c))" by (cases t; cases "snd t") auto
      with stk(2) have "2 \<le> length stk \<or> (\<exists>t c. stk = [(t, PCheck c)])" by blast
      then have "\<exists>c. stack_result stk = Return c"
        by (cases stk rule: remdups_adj.cases) (auto simp: stack_result_def split: pvalue.splits)
      with False Cons result show ?thesis by auto
    qed
  qed
qed

theorem parseRule_panics_iff_witness:
  "parseRule ReduceFuncMap ''('' = Panic TypeAssertion"
proof -
  have "parseTokenize ''('' = [LP]" by code_simp
  with parseRule_panics_iff [of ReduceFuncMap "''(''"] show ?thesis by simp
qed

end
