(* ===== verification/Policy_Roundtrip.thy ===== *)
theory Policy_Roundtrip
  imports Policy_Stack
begin

text \<open>
  What rule texts mean to the parser: a printed check parses back to itself, and a text of
  alternatives of conjunctions without parentheses has the meaning with \<open>and\<close> binding tighter
  than \<open>or\<close>. Both are proved on the stack machine of \<open>Policy_Stack\<close>; the words and tokens of a
  printed check are computed by \<open>check_words\<close> and \<open>check_tokens\<close>.
\<close>

section \<open>One shift at a time\<close>

abbreviation AND_tok :: token where "AND_tok \<equiv> (''and'', PString ''and'')"
abbreviation OR_tok :: token where "OR_tok \<equiv> (''or'', PString ''or'')"
abbreviation NOT_tok :: token where "NOT_tok \<equiv> (''not'', PString ''not'')"
abbreviation CHECK :: "check \<Rightarrow> token" where "CHECK c \<equiv> (''check'', PCheck c)"
abbreviation AND_expr :: "check list \<Rightarrow> token" where "AND_expr cs \<equiv> (''and_expr'', PCheck (AndCheck cs))"
abbreviation OR_expr :: "check list \<Rightarrow> token" where "OR_expr cs \<equiv> (''or_expr'', PCheck (OrCheck cs))"

lemmas rule_defs = top_rule_def stack_rules_def wrapCheck_def makeAndExpr_def mixOrAndExpr_def
  extendAndExpr_def makeOrExpr_def extendOrExpr_def makeNotExpr_def NewAndCheck_def NewOrCheck_def
  PopCheck_def Let_def

lemma settle_keyword [simp]:
  "settle (LP # stk) = Return (LP # stk)"
  "settle (AND_tok # stk) = Return (AND_tok # stk)"
  "settle (OR_tok # stk) = Return (OR_tok # stk)"
  "settle (NOT_tok # stk) = Return (NOT_tok # stk)"
  by (simp_all add: settle_unfold top_rule_def stack_rules_def)

lemma settle_expr [simp]:
  "settle (AND_expr cs # stk) = Return (AND_expr cs # stk)"
  "settle (OR_expr cs # stk) = Return (OR_expr cs # stk)"
  by (simp_all add: settle_unfold top_rule_def stack_rules_def)

lemma settle_first [simp]: "settle (CHECK c # LP # stk) = Return (CHECK c # LP # stk)"
  by (simp add: settle_unfold top_rule_def stack_rules_def)

lemma settle_not [simp]: "settle (CHECK c # NOT_tok # stk) = settle (CHECK (NotCheck c) # stk)"
  by (subst settle_unfold) (simp add: rule_defs)

lemma settle_and [simp]:
  "settle (CHECK c # AND_tok # CHECK b # stk) = Return (AND_expr [b, c] # stk)"
  "settle (CHECK c # AND_tok # AND_expr cs # stk) = Return (AND_expr (cs @ [c]) # stk)"
  by (subst settle_unfold, simp add: rule_defs)+

lemma settle_or [simp]:
  "settle (CHECK c # OR_tok # CHECK b # stk) = Return (OR_expr [b, c] # stk)"
  "settle (CHECK c # OR_tok # AND_expr cs # stk) = Return (OR_expr [AndCheck cs, c] # stk)"
  "settle (CHECK c # OR_tok # OR_expr cs # stk) = Return (OR_expr (cs @ [c]) # stk)"
  by (subst settle_unfold, simp add: rule_defs)+

definition conjoin :: "check \<Rightarrow> check \<Rightarrow> check" where
  "conjoin a c = (case a of AndCheck v \<Rightarrow> AndCheck (v @ [c]) | _ \<Rightarrow> AndCheck [a, c])"

lemma settle_mix [simp]:
  "settle (CHECK c # AND_tok # OR_expr (cs @ [a]) # stk) = Return (OR_expr (cs @ [conjoin a c]) # stk)"
  by (subst settle_unfold) (simp add: rule_defs conjoin_def split: check.splits)

lemma settle_close [simp]:
  "settle (RP # AND_expr cs # LP # stk) = settle (CHECK (AndCheck cs) # stk)"
  "settle (RP # OR_expr cs # LP # stk) = settle (CHECK (OrCheck cs) # stk)"
  "settle (RP # CHECK c # LP # stk) = settle (CHECK c # stk)"
  by (subst settle_unfold, simp add: rule_defs)+

section \<open>Words and tokens of a printed check\<close>

fun sep_by :: "'a \<Rightarrow> 'a list list \<Rightarrow> 'a list" where
  "sep_by x [] = []"
| "sep_by x [xs] = xs"
| "sep_by x (xs # ys # r) = xs @ x # sep_by x (ys # r)"

fun paren_words :: "string list \<Rightarrow> string list" where
  "paren_words [] = []"
| "paren_words [w] = [CHR ''('' # w @ '')'']"
| "paren_words (w # v # r) = (CHR ''('' # w) # butlast (v # r) @ [last (v # r) @ '')'']"

fun check_words :: "check \<Rightarrow> string list" where
  "check_words FalseCheck = [''!'']"
| "check_words TrueCheck = [''@'']"
| "check_words (NotCheck rule) = ''not'' # check_words rule"
| "check_words (AndCheck rules) = paren_words (sep_by ''and'' (map check_words rules))"
| "check_words (OrCheck rules) = paren_words (sep_by ''or'' (map check_words rules))"
| "check_words (RuleCheck kind match) = [kind @ '':'' @ match]"
| "check_words (RoleCheck kind match) = [kind @ '':'' @ match]"
| "check_words (GenericCheck kind match) = [kind @ '':'' @ match]"

fun check_tokens :: "check \<Rightarrow> token list" where
  "check_tokens (NotCheck rule) = NOT_tok # check_tokens rule"
| "check_tokens (AndCheck rules) = LP # sep_by AND_tok (map check_tokens rules) @ [RP]"
| "check_tokens (OrCheck rules) = LP # sep_by OR_tok (map check_tokens rules) @ [RP]"
| "check_tokens c = [CHECK c]"

text \<open>
  \<open>printable\<close> says that a check can be written as a rule text: conjunctions and alternatives have
  two members at least, and a leaf is one word that the tokenizer reads as the same leaf.
\<close>

definition leaf_text :: "string \<Rightarrow> string \<Rightarrow> bool" where
  "leaf_text kind match \<longleftrightarrow> spaceless (kind @ match) \<and> CHR '':'' \<notin> set kind \<and>
     (kind = [] \<or> hd kind \<noteq> CHR ''('') \<and> (match = [] \<or> last match \<noteq> CHR '')'') \<and>
     \<not> quoted (kind @ '':'' @ match)"

fun printable :: "check \<Rightarrow> bool" where
  "printable FalseCheck = True"
| "printable TrueCheck = True"
| "printable (NotCheck rule) = printable rule"
| "printable (AndCheck rules) = (2 \<le> length rules \<and> list_all printable rules)"
| "printable (OrCheck rules) = (2 \<le> length rules \<and> list_all printable rules)"
| "printable (RuleCheck kind match) = (kind = ''rule'' \<and> leaf_text kind match)"
| "printable (RoleCheck kind match) = (kind = ''role'' \<and> leaf_text kind match)"
| "printable (GenericCheck kind match) =
     (kind \<noteq> ''rule'' \<and> kind \<noteq> ''role'' \<and> leaf_text kind match)"

definition word_ok :: "string \<Rightarrow> bool" where
  "word_ok w \<longleftrightarrow> w \<noteq> [] \<and> spaceless w \<and> \<not> quoted (TrimLeft w ''('')"

lemma not_space [simp]: "\<not> is_space CHR ''(''" "\<not> is_space CHR '')''" "\<not> is_space CHR '':''"
  by (simp_all add: is_space_def code_def)

lemma TrimLeft_paren [simp]: "TrimLeft (CHR ''('' # w) ''('' = TrimLeft w ''(''"
  by (simp add: TrimLeft_def)

lemma TrimLeft_snoc [simp]:
  "TrimLeft (w @ '')'') ''('' = TrimLeft w ''('' @ '')''"
  by (auto simp: TrimLeft_def dropWhile_append)

lemma length_TrimLeft: "length (TrimLeft w s) \<le> length w"
  by (simp add: TrimLeft_def length_dropWhile_le)

lemma length_TrimRight: "length (TrimRight w s) \<le> length w"
  using length_dropWhile_le [of "\<lambda>c. c \<in> set s" "rev w"] by (simp add: TrimRight_def)

lemma word_ok_open [simp]: "word_ok w \<Longrightarrow> word_ok (CHR ''('' # w)"
  by (simp add: word_ok_def)

lemma word_ok_close [simp]: "word_ok w \<Longrightarrow> word_ok (w @ '')'')"
  by (auto simp: word_ok_def quoted_def)

lemma tokenize_open: "tokenize_field (CHR ''('' # w) = LP # tokenize_field w"
  using length_TrimLeft [of w "''(''"] by (simp add: tokenize_field_def Let_def Suc_diff_le)

lemma tokenize_close:
  assumes "word_ok w"
  shows "tokenize_field (w @ '')'') = tokenize_field w @ [RP]"
proof -
  let ?v = "TrimLeft w ''(''"
  have trim: "TrimRight (?v @ '')'') '')'' = TrimRight ?v '')''" by (simp add: TrimRight_def)
  have len: "Suc (length ?v) - length (TrimRight ?v '')'') = Suc (length ?v - length (TrimRight ?v '')''))"
    using length_TrimRight by (rule Suc_diff_le)
  have "\<not> quoted (?v @ '')'')" by (auto simp: quoted_def)
  moreover have "\<not> quoted ?v" using assms by (simp add: word_ok_def)
  ultimately have "tokenize_after_parens (?v @ '')'') = tokenize_after_parens ?v @ [RP]"
  proof (cases "?v = []")
    case True
    then show ?thesis
      by (simp add: tokenize_after_parens_def TrimRight_def ToLower_def)
  next
    case False
    with \<open>\<not> quoted (?v @ '')'')\<close> \<open>\<not> quoted ?v\<close> show ?thesis
      by (simp add: tokenize_after_parens_def trim len Let_def replicate_append_same)
  qed
  then show ?thesis by (simp add: tokenize_field_def Let_def)
qed

lemma sep_by_Cons: "ws \<noteq> [] \<Longrightarrow> sep_by x (w # ws) = w @ x # sep_by x ws"
  by (cases ws) simp_all

lemma Join_Cons: "ws \<noteq> [] \<Longrightarrow> Join (w # ws) sep = w @ sep @ Join ws sep"
  by (cases ws) simp_all

lemma Join_append: "xs \<noteq> [] \<Longrightarrow> ys \<noteq> [] \<Longrightarrow> Join (xs @ ys) sep = Join xs sep @ sep @ Join ys sep"
proof (induction xs)
  case (Cons x xs)
  then show ?case by (cases "xs = []") (simp_all add: Join_Cons)
qed simp

lemma sep_by_not_Nil: "list_all (\<lambda>ws. ws \<noteq> []) wss \<Longrightarrow> wss \<noteq> [] \<Longrightarrow> sep_by x wss \<noteq> []"
  by (cases "(x, wss)" rule: sep_by.cases) auto

lemma Join_sep_by:
  "list_all (\<lambda>ws. ws \<noteq> []) wss \<Longrightarrow>
   Join (sep_by x wss) sep = Join (map (\<lambda>ws. Join ws sep) wss) (sep @ x @ sep)"
proof (induction x wss rule: sep_by.induct)
  case (3 x xs ys r)
  moreover have "sep_by x (ys # r) \<noteq> []" using 3 by (intro sep_by_not_Nil) auto
  ultimately show ?case by (simp add: Join_append Join_Cons)
qed simp_all

lemma concat_sep_by:
  "f x = [t] \<Longrightarrow> concat (map f (sep_by x wss)) = sep_by t (map (\<lambda>ws. concat (map f ws)) wss)"
  by (induction x wss rule: sep_by.induct) simp_all

lemma list_all_sep_by: "P x \<Longrightarrow> list_all (list_all P) wss \<Longrightarrow> list_all P (sep_by x wss)"
  by (induction x wss rule: sep_by.induct) simp_all

lemma paren_words_snoc: "us \<noteq> [] \<Longrightarrow> paren_words (w # us @ [u]) = (CHR ''('' # w) # us @ [u @ '')'']"
  by (cases us) simp_all

lemma paren_words_pair: "paren_words [w, u] = [CHR ''('' # w, u @ '')'']"
  by simp

lemma paren_words_cases:
  assumes "ws \<noteq> []"
  obtains w where "ws = [w]" "paren_words ws = [CHR ''('' # w @ '')'']"
  | w us u where "ws = w # us @ [u]" "paren_words ws = (CHR ''('' # w) # us @ [u @ '')'']"
proof (cases ws rule: paren_words.cases)
  case (3 w v r)
  have "ws = w # butlast (v # r) @ [last (v # r)]" using 3 by simp
  moreover have "paren_words ws = (CHR ''('' # w) # butlast (v # r) @ [last (v # r) @ '')'']"
    using 3 by simp
  ultimately show ?thesis using that(2) by blast
qed (use assms that in auto)

lemma paren_words_facts:
  assumes "ws \<noteq> []" "list_all word_ok ws"
  shows "paren_words ws \<noteq> []" "list_all word_ok (paren_words ws)"
    and "Join (paren_words ws) '' '' = ''('' @ Join ws '' '' @ '')''"
    and "concat (map tokenize_field (paren_words ws)) = LP # concat (map tokenize_field ws) @ [RP]"
proof -
  have open_close: "word_ok w \<Longrightarrow> word_ok (CHR ''('' # w @ '')'')" for w
    using word_ok_open [OF word_ok_close] by simp
  show "paren_words ws \<noteq> []" "list_all word_ok (paren_words ws)"
    using assms open_close by (cases rule: paren_words_cases [OF assms(1)], auto)+
  show "Join (paren_words ws) '' '' = ''('' @ Join ws '' '' @ '')''"
    by (cases rule: paren_words_cases [OF assms(1)]) (simp_all add: Join_Cons Join_snoc)
  show "concat (map tokenize_field (paren_words ws)) = LP # concat (map tokenize_field ws) @ [RP]"
    using assms(2)
    by (cases rule: paren_words_cases [OF assms(1)]) (simp_all add: tokenize_open tokenize_close)
qed

section \<open>Tokenizing a printed check\<close>

lemma TrimRight_last: "w \<noteq> [] \<Longrightarrow> last w \<noteq> c \<Longrightarrow> TrimRight w [c] = w"
  by (cases w rule: rev_cases) (simp_all add: TrimRight_def)

lemma TrimLeft_hd: "w = [] \<or> hd w \<noteq> c \<Longrightarrow> TrimLeft w [c] = w"
  by (cases w) (simp_all add: TrimLeft_def)

lemma lower_char_colon: "lower_char CHR '':'' = CHR '':''"
  by (simp add: lower_char_def code_def)

lemma tokenize_plain:
  assumes "w \<noteq> []" "hd w \<noteq> CHR ''(''" "last w \<noteq> CHR '')''" "\<not> quoted w"
    and "ToLower w \<notin> {''and'', ''or'', ''not''}"
  shows "tokenize_field w = [CHECK (parseCheck w)]"
proof -
  have "TrimLeft w ''('' = w" using assms(2) by (intro TrimLeft_hd) simp
  moreover have "TrimRight w '')'' = w" using assms(1,3) by (intro TrimRight_last)
  ultimately show ?thesis
    using assms(1,4,5) by (simp add: tokenize_field_def tokenize_after_parens_def Let_def)
qed

lemma tokenize_leaf:
  assumes "leaf_text kind match" "SplitN (kind @ '':'' @ match) '':'' 2 = [kind, match] \<Longrightarrow>
      parseCheck (kind @ '':'' @ match) = c"
  shows "word_ok (kind @ '':'' @ match)" "tokenize_field (kind @ '':'' @ match) = [CHECK c]"
proof -
  let ?w = "kind @ '':'' @ match"
  have hd: "hd ?w \<noteq> CHR ''(''" using assms(1) by (cases kind) (auto simp: leaf_text_def)
  have left: "TrimLeft ?w ''('' = ?w" using hd by (intro TrimLeft_hd) simp
  have nq: "\<not> quoted ?w" using assms(1) by (simp add: leaf_text_def)
  show "word_ok ?w"
    unfolding word_ok_def left using assms(1) nq by (simp add: leaf_text_def)
  have colon: "CHR '':'' \<notin> set kind" using assms(1) by (simp add: leaf_text_def)
  have split: "SplitN ?w '':'' 2 = [kind, match]"
    using cut_first [OF colon, of match] by (simp add: SplitN_def numeral_2_eq_2)
  have "CHR '':'' \<in> set (ToLower ?w)"
    using lower_char_colon by (force simp: ToLower_def)
  then have kw: "ToLower ?w \<notin> {''and'', ''or'', ''not''}" by (auto simp del: set_append)
  have last: "last ?w \<noteq> CHR '')''"
    using assms(1) by (auto simp: leaf_text_def)
  have "parseCheck ?w = c" by (rule assms(2) [OF split])
  with tokenize_plain [OF _ hd last nq kw] show "tokenize_field ?w = [CHECK c]" by simp
qed

lemma parseCheck_leaf:
  assumes "SplitN w '':'' 2 = [kind, match]" "length w \<ge> 2 \<or> CHR '':'' \<in> set w"
  shows "parseCheck w = (if kind = ''rule'' then RuleCheck kind match
    else if kind = ''role'' then RoleCheck kind match else GenericCheck kind match)"
proof -
  have "w \<noteq> ''!''" "w \<noteq> ''@''" using assms(2) by auto
  with assms(1) show ?thesis by (simp add: parseCheck_def registeredChecks_def)
qed

lemma leaf_printable:
  assumes "leaf_text kind match"
  shows "word_ok (kind @ '':'' @ match)"
    and "tokenize_field (kind @ '':'' @ match) = [CHECK (if kind = ''rule'' then RuleCheck kind match
      else if kind = ''role'' then RoleCheck kind match else GenericCheck kind match)]"
  by (rule tokenize_leaf [OF assms], simp add: parseCheck_leaf)+

lemma tokenize_words [simp]:
  "tokenize_field ''!'' = [CHECK FalseCheck]" "tokenize_field ''@'' = [CHECK TrueCheck]"
  "tokenize_field ''not'' = [NOT_tok]" "tokenize_field ''and'' = [AND_tok]"
  "tokenize_field ''or'' = [OR_tok]"
  by code_simp+

lemma word_ok_words [simp]:
  "word_ok ''!''" "word_ok ''@''" "word_ok ''not''" "word_ok ''and''" "word_ok ''or''"
  by code_simp+

text \<open>
  \<open>reads W S T a\<close>: the words \<open>W a\<close> print as \<open>S a\<close> and are read as the tokens \<open>T a\<close>.
\<close>

definition reads :: "('a \<Rightarrow> string list) \<Rightarrow> ('a \<Rightarrow> string) \<Rightarrow> ('a \<Rightarrow> token list) \<Rightarrow> 'a \<Rightarrow> bool" where
  "reads W S T a \<longleftrightarrow> W a \<noteq> [] \<and> list_all word_ok (W a) \<and> Join (W a) '' '' = S a \<and>
     concat (map tokenize_field (W a)) = T a"

lemma reads_sep_by:
  assumes "\<And>a. a \<in> set as \<Longrightarrow> reads W S T a"
    and "as \<noteq> []" and "word_ok x" and "tokenize_field x = [t]"
  shows "reads (\<lambda>as. sep_by x (map W as)) (\<lambda>as. Join (map S as) ('' '' @ x @ '' ''))
    (\<lambda>as. sep_by t (map T as)) as"
proof -
  let ?ws = "map W as"
  have ne: "list_all (\<lambda>ws. ws \<noteq> []) ?ws" and ok: "list_all (list_all word_ok) ?ws"
    using assms(1) by (simp_all add: list_all_iff reads_def)
  have "sep_by x ?ws \<noteq> []" using ne assms(2) by (intro sep_by_not_Nil) auto
  moreover have "list_all word_ok (sep_by x ?ws)" using assms(3) ok by (rule list_all_sep_by)
  moreover have "map (\<lambda>ws. Join ws '' '') ?ws = map S as" using assms(1) by (simp add: reads_def)
  with Join_sep_by [OF ne, of x "'' ''"]
  have "Join (sep_by x ?ws) '' '' = Join (map S as) ('' '' @ x @ '' '')" by (simp only:)
  moreover have "map (\<lambda>ws. concat (map tokenize_field ws)) ?ws = map T as"
    using assms(1) by (simp add: reads_def)
  with concat_sep_by [where f = tokenize_field, OF assms(4)]
  have "concat (map tokenize_field (sep_by x ?ws)) = sep_by t (map T as)" by (simp only:)
  ultimately show ?thesis unfolding reads_def by blast
qed

lemma reads_paren:
  assumes "reads W S T a"
  shows "reads (\<lambda>a. paren_words (W a)) (\<lambda>a. ''('' @ S a @ '')'') (\<lambda>a. LP # T a @ [RP]) a"
  using assms paren_words_facts [of "W a"] by (simp add: reads_def)

abbreviation "reads_check \<equiv> reads check_words check_String check_tokens"

lemma printed_reads: "printable c \<Longrightarrow> reads_check c"
proof (induction c)
  case (NotCheck rule)
  then show ?case by (simp add: reads_def Join_Cons)
next
  case (AndCheck rules)
  then have "\<And>c. c \<in> set rules \<Longrightarrow> reads_check c" "rules \<noteq> []" by (auto simp: list_all_iff)
  from reads_paren [OF reads_sep_by [OF this, of "''and''" AND_tok]]
  show ?case by (simp add: reads_def)
next
  case (OrCheck rules)
  then have "\<And>c. c \<in> set rules \<Longrightarrow> reads_check c" "rules \<noteq> []" by (auto simp: list_all_iff)
  from reads_paren [OF reads_sep_by [OF this, of "''or''" OR_tok]]
  show ?case by (simp add: reads_def)
next
  case (RuleCheck kind match)
  with leaf_printable [of kind match] show ?case by (auto simp: reads_def)
next
  case (RoleCheck kind match)
  with leaf_printable [of kind match] show ?case by (auto simp: reads_def)
next
  case (GenericCheck kind match)
  with leaf_printable [of kind match] show ?case by (auto simp: reads_def)
qed (simp_all add: reads_def)

lemma tokenize_reads: "reads W S T a \<Longrightarrow> parseTokenize (S a) = T a"
proof -
  assume reads: "reads W S T a"
  then have "\<forall>w \<in> set (W a). w \<noteq> [] \<and> spaceless w"
    by (auto simp: reads_def list_all_iff word_ok_def)
  from Fields_Join [OF this] reads show ?thesis by (simp add: parseTokenize_def reads_def)
qed

section \<open>Shifting the tokens of a check\<close>

definition tail :: "token \<Rightarrow> check list \<Rightarrow> token list" where
  "tail t cs = concat (map (\<lambda>c. t # check_tokens c) cs)"

lemma tail_simps [simp]: "tail t [] = []" "tail t (c # cs) = t # check_tokens c @ tail t cs"
  by (simp_all add: tail_def)

lemma sep_by_tail: "sep_by t (map check_tokens (c # cs)) = check_tokens c @ tail t cs"
  by (induction cs arbitrary: c) simp_all

definition shifts_as :: "check \<Rightarrow> bool" where
  "shifts_as c \<longleftrightarrow> (\<forall>stk. shift_all (check_tokens c) stk = settle (CHECK c # stk))"

lemma shifts_asD [simp]: "shifts_as c \<Longrightarrow> shift_all (check_tokens c) stk = settle (CHECK c # stk)"
  by (simp add: shifts_as_def)

lemma shift_all_Nil [simp]: "shift_all [] = Return"
  by (rule ext) simp

lemma shift_and_tail:
  "list_all shifts_as cs \<Longrightarrow>
   shift_all (tail AND_tok cs) (AND_expr ds # stk) = Return (AND_expr (ds @ cs) # stk)"
  by (induction cs arbitrary: ds) simp_all

lemma shift_or_tail:
  "list_all shifts_as cs \<Longrightarrow>
   shift_all (tail OR_tok cs) (OR_expr ds # stk) = Return (OR_expr (ds @ cs) # stk)"
  by (induction cs arbitrary: ds) simp_all

lemma shift_mix_tail:
  "list_all shifts_as cs \<Longrightarrow>
   shift_all (tail AND_tok cs) (OR_expr (ds @ [a]) # stk) =
     Return (OR_expr (ds @ [foldl conjoin a cs]) # stk)"
  by (induction cs arbitrary: a) simp_all

lemma shift_and_first:
  "list_all shifts_as cs \<Longrightarrow> cs \<noteq> [] \<Longrightarrow>
   shift_all (tail AND_tok cs) (CHECK c # stk) = Return (AND_expr (c # cs) # stk)"
  by (cases cs) (simp_all add: shift_and_tail)

lemma shift_or_first:
  "list_all shifts_as cs \<Longrightarrow> cs \<noteq> [] \<Longrightarrow>
   shift_all (tail OR_tok cs) (CHECK c # stk) = Return (OR_expr (c # cs) # stk)"
  by (cases cs) (simp_all add: shift_or_tail)

lemma two_members:
  assumes "2 \<le> length xs"
  obtains x ys where "xs = x # ys" "ys \<noteq> []"
proof (cases xs)
  case (Cons x ys)
  with assms that show ?thesis by (cases ys) auto
qed (use assms in simp)

lemma printed_shifts: "printable c \<Longrightarrow> shifts_as c"
proof (induction c)
  case (AndCheck rules)
  then have all: "list_all shifts_as rules" and "2 \<le> length rules" by (auto simp: list_all_iff)
  then obtain c cs where cs: "rules = c # cs" "cs \<noteq> []" by (elim two_members)
  have "shift_all (check_tokens (AndCheck rules)) stk = settle (CHECK (AndCheck rules) # stk)" for stk
    unfolding check_tokens.simps cs sep_by_tail using all cs by (simp add: shift_and_first)
  then show ?case unfolding shifts_as_def by (rule allI)
next
  case (OrCheck rules)
  then have all: "list_all shifts_as rules" and "2 \<le> length rules" by (auto simp: list_all_iff)
  then obtain c cs where cs: "rules = c # cs" "cs \<noteq> []" by (elim two_members)
  have "shift_all (check_tokens (OrCheck rules)) stk = settle (CHECK (OrCheck rules) # stk)" for stk
    unfolding check_tokens.simps cs sep_by_tail using all cs by (simp add: shift_or_first)
  then show ?case unfolding shifts_as_def by (rule allI)
qed (simp_all add: shifts_as_def)

lemma check_String_not_Nil: "printable c \<Longrightarrow> check_String c \<noteq> []"
  by (cases c) auto

lemma parse_printed:
  assumes "mset order = mset ReduceFuncMap" and "printable c"
  shows "parseRule order (check_String c) = Return c"
proof -
  have "parseTokenize (check_String c) = check_tokens c"
    using printed_reads [OF assms(2)] by (rule tokenize_reads)
  then show ?thesis
    using parseRule_shift_all [OF assms(1) check_String_not_Nil [OF assms(2)]] printed_shifts [OF assms(2)]
    by (simp add: stack_result_def)
qed

text \<open>
  C1. Parsing inverts printing: the text of a printable check is parsed to that check.
\<close>

theorem parse_print:
  assumes "mset order = mset ReduceFuncMap" and "printable c"
  shows "parseRule order (check_String c) = Return c"
  by (rule parse_printed [OF assms])

definition sample_check :: check where
  "sample_check = OrCheck [RoleCheck ''role'' ''admin'',
     NotCheck (AndCheck [GenericCheck ''tenant'' ''%(tenantId)s'', RuleCheck ''rule'' ''owner'', FalseCheck])]"

theorem parse_print_witness:
  "parseRule (rev ReduceFuncMap) (check_String sample_check) = Return sample_check"
proof (rule parse_print)
  show "mset (rev ReduceFuncMap) = mset ReduceFuncMap" by simp
  show "printable sample_check" by code_simp
qed

section \<open>Precedence\<close>

definition rule_text :: "check list list \<Rightarrow> string" where
  "rule_text groups = Join (map (\<lambda>g. Join (map check_String g) '' and '') groups) '' or ''"

lemma go_bind_if_Return [simp]: "go_bind m (\<lambda>b. if b then Return True else Return False) = m"
  by (cases m) auto

lemma go_bind_last_loop [simp]:
  "go_bind m (\<lambda>b. if b then all_go f [] else Return False) = m"
  "go_bind m (\<lambda>b. if b then Return True else any_go f []) = m"
  by (simp_all cong: if_cong)

lemma any_go_map: "any_go f (map g xs) = any_go (f \<circ> g) xs"
proof (induction xs)
  case (Cons x xs)
  then show ?case by (simp cong: if_cong)
qed simp

lemma exec_conjoin: "exec n rs target cred (conjoin a c) = all_go (exec n rs target cred) [a, c]"
  by (cases a) (simp_all add: conjoin_def all_go_append)

lemma exec_foldl_conjoin:
  "exec n rs target cred (foldl conjoin c cs) = all_go (exec n rs target cred) (c # cs)"
proof (induction cs arbitrary: c)
  case (Cons d cs)
  have "all_go (exec n rs target cred) (conjoin c d # cs) = all_go (exec n rs target cred) ([c, d] @ cs)"
    by (simp only: all_go_append) (simp add: exec_conjoin)
  with Cons show ?case by simp
qed simp

definition conj_all :: "check list \<Rightarrow> check" where
  "conj_all g = (if length g = 1 then hd g else AndCheck g)"

definition mix_all :: "check list \<Rightarrow> check" where
  "mix_all g = foldl conjoin (hd g) (tl g)"

fun parsed_groups :: "check list list \<Rightarrow> check" where
  "parsed_groups [g] = conj_all g"
| "parsed_groups (g # gs) = OrCheck (conj_all g # map mix_all gs)"
| "parsed_groups [] = FalseCheck"

lemma exec_parsed_groups:
  assumes "gs \<noteq> []" "list_all (\<lambda>g. g \<noteq> []) gs"
  shows "exec n rs target cred (parsed_groups gs) = exec n rs target cred (OrCheck (map AndCheck gs))"
proof -
  have conj: "exec n rs target cred (conj_all g) = exec n rs target cred (AndCheck g)" for g
    by (cases g) (auto simp: conj_all_def)
  have mix: "exec n rs target cred (mix_all g) = exec n rs target cred (AndCheck g)" if "g \<in> set gs" for g
    using assms(2) that by (cases g) (auto simp: mix_all_def exec_foldl_conjoin list_all_iff)
  obtain g gs' where gs: "gs = g # gs'" using assms(1) by (cases gs) auto
  have tail: "any_go (exec n rs target cred) (map mix_all gs') =
      any_go (exec n rs target cred) (map AndCheck gs')"
    unfolding any_go_map by (rule any_go_cong) (use mix gs in auto)
  show ?thesis
  proof (cases gs')
    case Nil
    with gs conj show ?thesis by simp
  next
    case (Cons h gs'')
    with gs have "parsed_groups gs = OrCheck (conj_all g # map mix_all gs')" by simp
    with conj tail gs show ?thesis by (simp cong: if_cong)
  qed
qed

definition group_tokens :: "check list \<Rightarrow> token list" where
  "group_tokens g = sep_by AND_tok (map check_tokens g)"

lemma shift_first_group:
  assumes "list_all shifts_as g" "g \<noteq> []"
  shows "shift_all (group_tokens g) [] =
    Return [if length g = 1 then CHECK (hd g) else AND_expr g]"
proof -
  obtain c cs where g: "g = c # cs" using assms(2) by (cases g) auto
  show ?thesis
    unfolding group_tokens_def g sep_by_tail using assms(1) g
    by (cases "cs = []") (simp_all add: shift_and_first)
qed

lemma shift_next_group:
  assumes "list_all shifts_as g" "g \<noteq> []"
  shows "shift_all (OR_tok # group_tokens g) [OR_expr ds] = Return [OR_expr (ds @ [mix_all g])]"
    and "shift_all (OR_tok # group_tokens g) [CHECK b] = Return [OR_expr [b, mix_all g]]"
    and "shift_all (OR_tok # group_tokens g) [AND_expr bs] = Return [OR_expr [AndCheck bs, mix_all g]]"
proof -
  obtain c cs where g: "g = c # cs" using assms(2) by (cases g) auto
  have mix: "shift_all (tail AND_tok cs) [OR_expr (ds @ [c])] = Return [OR_expr (ds @ [mix_all g])]" for ds
    using shift_mix_tail [of cs ds c "[]"] assms(1) g by (simp add: mix_all_def)
  show "shift_all (OR_tok # group_tokens g) [OR_expr ds] = Return [OR_expr (ds @ [mix_all g])]"
    unfolding group_tokens_def g sep_by_tail using assms(1) mix [of ds] g by simp
  show "shift_all (OR_tok # group_tokens g) [CHECK b] = Return [OR_expr [b, mix_all g]]"
    unfolding group_tokens_def g sep_by_tail using assms(1) mix [of "[b]"] g by simp
  show "shift_all (OR_tok # group_tokens g) [AND_expr bs] = Return [OR_expr [AndCheck bs, mix_all g]]"
    unfolding group_tokens_def g sep_by_tail using assms(1) mix [of "[AndCheck bs]"] g by simp
qed

lemma shift_more_groups:
  "list_all (\<lambda>g. list_all shifts_as g \<and> g \<noteq> []) gs \<Longrightarrow>
   shift_all (concat (map (\<lambda>g. OR_tok # group_tokens g) gs)) [OR_expr ds] =
     Return [OR_expr (ds @ map mix_all gs)]"
proof (induction gs arbitrary: ds)
  case (Cons g gs)
  then have g: "list_all shifts_as g" "g \<noteq> []" by simp_all
  have "shift_all ((OR_tok # group_tokens g) @ concat (map (\<lambda>g. OR_tok # group_tokens g) gs)) [OR_expr ds] =
      Return [OR_expr ((ds @ [mix_all g]) @ map mix_all gs)]"
    unfolding shift_all_simps(3) shift_next_group(1) [OF g] using Cons by simp
  then show ?case by simp
qed simp

lemma sep_by_concat: "sep_by t (g # gs) = g @ concat (map (\<lambda>h. t # h) gs)"
  by (induction gs arbitrary: g) simp_all

lemma shift_groups:
  assumes "gs \<noteq> []" "list_all (\<lambda>g. list_all shifts_as g \<and> g \<noteq> []) gs"
  shows "\<exists>t. shift_all (sep_by OR_tok (map group_tokens gs)) [] = Return [(t, PCheck (parsed_groups gs))]"
proof -
  obtain g gs' where gs: "gs = g # gs'" using assms(1) by (cases gs) auto
  with assms(2) have g: "list_all shifts_as g" "g \<noteq> []" by simp_all
  show ?thesis
  proof (cases gs')
    case Nil
    with gs shift_first_group [OF g] show ?thesis by (auto simp: conj_all_def)
  next
    case (Cons h hs)
    with gs assms(2) have h: "list_all shifts_as h" "h \<noteq> []"
      and hs: "list_all (\<lambda>g. list_all shifts_as g \<and> g \<noteq> []) hs" by simp_all
    have all: "sep_by OR_tok (map group_tokens gs) =
        group_tokens g @ (OR_tok # group_tokens h) @ concat (map (\<lambda>g. OR_tok # group_tokens g) hs)"
      unfolding gs Cons list.map sep_by_concat by (simp add: comp_def)
    have "shift_all (OR_tok # group_tokens h) [if length g = 1 then CHECK (hd g) else AND_expr g] =
        Return [OR_expr [conj_all g, mix_all h]]"
      using shift_next_group(2,3) [OF h] by (simp add: conj_all_def)
    then have "shift_all (sep_by OR_tok (map group_tokens gs)) [] =
        Return [OR_expr ([conj_all g, mix_all h] @ map mix_all hs)]"
      unfolding all shift_all_simps(3) shift_first_group [OF g] go_bind.simps shift_more_groups [OF hs]
      using shift_more_groups [OF hs] by simp
    then show ?thesis unfolding gs Cons by auto
  qed
qed

lemma rule_text_not_Nil:
  assumes "gs \<noteq> []" "list_all (\<lambda>g. g \<noteq> [] \<and> list_all printable g) gs"
  shows "rule_text gs \<noteq> []"
proof -
  have Join_ne: "hd xs \<noteq> [] \<Longrightarrow> xs \<noteq> [] \<Longrightarrow> Join xs sep \<noteq> []" for xs and sep :: string
    by (cases "(xs, sep)" rule: Join.cases) auto
  obtain g gs' where gs: "gs = g # gs'" using assms(1) by (cases gs) auto
  with assms(2) obtain c cs where g: "g = c # cs" and "printable c" by (cases g) auto
  then have "Join (map check_String g) '' and '' \<noteq> []"
    by (intro Join_ne) (simp_all add: check_String_not_Nil)
  with gs show ?thesis unfolding rule_text_def by (intro Join_ne) simp_all
qed

text \<open>
  C4. Without parentheses \<open>and\<close> binds tighter than \<open>or\<close>: a text of alternatives of conjunctions
  parses to a check that behaves, errors included, as the alternative of the conjunctions.
\<close>

theorem and_binds_tighter:
  assumes "mset order = mset ReduceFuncMap"
    and "gs \<noteq> []" and "list_all (\<lambda>g. g \<noteq> [] \<and> list_all printable g) gs"
  shows "\<exists>c. parseRule order (rule_text gs) = Return c \<and>
    exec n rs target cred c = exec n rs target cred (OrCheck (map AndCheck gs))"
proof -
  have group: "reads (\<lambda>as. sep_by ''and'' (map check_words as)) (\<lambda>as. Join (map check_String as) '' and '')
      group_tokens g" if "g \<in> set gs" for g
  proof -
    from assms(3) that have "\<And>c. c \<in> set g \<Longrightarrow> reads_check c" "g \<noteq> []"
      by (auto simp: list_all_iff printed_reads)
    from reads_sep_by [OF this, of "''and''" AND_tok] show ?thesis
      by (simp add: reads_def group_tokens_def)
  qed
  have "parseTokenize (rule_text gs) = sep_by OR_tok (map group_tokens gs)"
    using tokenize_reads [OF reads_sep_by [OF group assms(2), of "''or''" OR_tok]]
    by (simp add: rule_text_def)
  moreover have "list_all (\<lambda>g. list_all shifts_as g \<and> g \<noteq> []) gs"
    using assms(3) by (auto simp: list_all_iff printed_shifts)
  then obtain t where "shift_all (sep_by OR_tok (map group_tokens gs)) [] =
      Return [(t, PCheck (parsed_groups gs))]"
    using shift_groups [OF assms(2)] by blast
  ultimately have "parseRule order (rule_text gs) = Return (parsed_groups gs)"
    using parseRule_shift_all [OF assms(1) rule_text_not_Nil [OF assms(2,3)]]
    by (simp add: stack_result_def)
  moreover have "list_all (\<lambda>g. g \<noteq> []) gs" using assms(3) by (auto simp: list_all_iff)
  ultimately show ?thesis using exec_parsed_groups [OF assms(2)] by blast
qed

theorem and_binds_tighter_witness:
  "\<exists>c. parseRule ReduceFuncMap ''@ or @ and !'' = Return c \<and>
     exec 0 [] [] [] c = exec 0 [] [] [] (OrCheck [AndCheck [TrueCheck], AndCheck [TrueCheck, FalseCheck]])"
  using and_binds_tighter [of ReduceFuncMap "[[TrueCheck], [TrueCheck, FalseCheck]]" 0 "[]" "[]" "[]"]
  by (simp add: rule_text_def)

end
