(* ===== verification/Api_Utils.thy ===== *)
theory Api_Utils
  imports Go_Strings
begin

text \<open>
  The helpers of the API gateway: \<open>api/pkg/utils/utils.go\<close> (sets and maps as slices and maps, the
  retry loop) and \<open>api/pkg/common/common.go\<close> (the query parameters of list requests). A request's
  query parameters are a function from names to values, the empty string standing for an absent
  one as in go-restful.
\<close>

section \<open>Slices and maps\<close>

definition RvRepElement :: "'a list \<Rightarrow> 'a list" where
  "RvRepElement arr = foldl (\<lambda>result x. if x \<in> set result then result else result @ [x]) [] arr"

definition Contained :: "'a \<Rightarrow> 'a list \<Rightarrow> bool" where
  "Contained obj target = list_ex (\<lambda>x. x = obj) target"

definition MergeMaps :: "('k, 'v) gomap list \<Rightarrow> ('k, 'v) gomap" where
  "MergeMaps maps = foldl (\<lambda>out m. foldl (\<lambda>out (k, v). insert_key k v out) out m) [] maps"

lemma RvRepElement_snoc:
  "RvRepElement (xs @ [x]) =
     (if x \<in> set (RvRepElement xs) then RvRepElement xs else RvRepElement xs @ [x])"
  by (simp add: RvRepElement_def)

lemma set_RvRepElement [simp]: "set (RvRepElement xs) = set xs"
proof (induction xs rule: rev_induct)
  case Nil
  then show ?case by (simp add: RvRepElement_def)
next
  case (snoc x xs)
  then show ?case by (auto simp: RvRepElement_snoc)
qed

lemma distinct_RvRepElement [simp]: "distinct (RvRepElement xs)"
proof (induction xs rule: rev_induct)
  case Nil
  then show ?case by (simp add: RvRepElement_def)
next
  case (snoc x xs)
  then show ?case by (simp add: RvRepElement_snoc)
qed

lemma lookup_fold_insert:
  "lookup (foldl (\<lambda>out (k, v). insert_key k v out) out m) k =
     (case lookup (rev m) k of Some v \<Rightarrow> Some v | None \<Rightarrow> lookup out k)"
proof (induction m arbitrary: out)
  case (Cons e m)
  obtain k' v' where "e = (k', v')" by (cases e)
  with Cons show ?case by (auto simp: map_add_def split: option.splits)
qed simp

lemma lookup_rev: "distinct_keys m \<Longrightarrow> lookup (rev m) = lookup m"
proof (induction m)
  case (Cons e m)
  obtain k v where e: "e = (k, v)" by (cases e)
  with Cons have "lookup m k = None" by (auto simp: map_of_eq_None_iff)
  with Cons e show ?case by (intro ext) (auto simp: map_add_def split: option.splits)
qed simp

lemma lookup_MergeMaps:
  assumes "list_all distinct_keys maps"
  shows "lookup (MergeMaps maps) = foldl (\<lambda>f m. f ++ lookup m) Map.empty maps"
proof -
  have "lookup (foldl (\<lambda>out m. foldl (\<lambda>out (k, v). insert_key k v out) out m) out maps) =
      foldl (\<lambda>f m. f ++ lookup m) (lookup out) maps" for out :: "('a, 'b) gomap"
    using assms
  proof (induction maps arbitrary: out)
    case (Cons m maps)
    have "lookup (foldl (\<lambda>out (k, v). insert_key k v out) out m) = lookup out ++ lookup m"
      using Cons.prems by (intro ext) (simp add: lookup_fold_insert lookup_rev map_add_def)
    with Cons show ?case by simp
  qed simp
  from this [of "[]"] show ?thesis by (simp add: MergeMaps_def)
qed

section \<open>Retry\<close>

text \<open>
  The function \<open>fn\<close> gets the number of the attempt and the last error and works on a state; its
  error return is \<open>Some\<close>.
\<close>

fun retry_from :: "nat \<Rightarrow> nat \<Rightarrow> (nat \<Rightarrow> 'e option \<Rightarrow> 's \<Rightarrow> 'e option \<times> 's) \<Rightarrow>
    'e option \<Rightarrow> 's \<Rightarrow> 'e option \<times> 's" where
  "retry_from 0 i fn err s = (err, s)"
| "retry_from (Suc left) i fn err s =
     (case fn i err s of
        (None, s') \<Rightarrow> (None, s')
      | (Some e, s') \<Rightarrow> retry_from left (Suc i) fn (Some e) s')"

definition Retry :: "nat \<Rightarrow> (nat \<Rightarrow> 'e option \<Rightarrow> 's \<Rightarrow> 'e option \<times> 's) \<Rightarrow> 's \<Rightarrow> 'e option \<times> 's" where
  "Retry retryNum fn s = retry_from retryNum 0 fn None s"

text \<open>\<open>attempts\<close> lists the results of the first \<open>k\<close> calls, made one after the other.\<close>

fun attempts :: "nat \<Rightarrow> nat \<Rightarrow> (nat \<Rightarrow> 'e option \<Rightarrow> 's \<Rightarrow> 'e option \<times> 's) \<Rightarrow>
    'e option \<Rightarrow> 's \<Rightarrow> ('e option \<times> 's) list" where
  "attempts 0 i fn err s = []"
| "attempts (Suc k) i fn err s = (let r = fn i err s in r # attempts k (Suc i) fn (fst r) (snd r))"

definition first_success :: "('e option \<times> 's) list \<Rightarrow> 'e option \<times> 's" where
  "first_success rs = (case dropWhile (\<lambda>r. fst r \<noteq> None) rs of r # _ \<Rightarrow> r | [] \<Rightarrow> last rs)"

lemma first_success_simps [simp]:
  "first_success ((None, s) # rs) = (None, s)"
  "first_success [r] = r"
  "rs \<noteq> [] \<Longrightarrow> first_success ((Some e, s) # rs) = first_success rs"
  by (simp_all add: first_success_def cong: list.case_cong)

lemma retry_from_attempts:
  "retry_from (Suc k) i fn err s = first_success (attempts (Suc k) i fn err s)"
proof (induction k arbitrary: i err s)
  case 0
  then show ?case by (auto simp: Let_def split: prod.splits option.splits)
next
  case (Suc k)
  obtain e s' where r: "fn i err s = (e, s')" by (cases "fn i err s")
  have ne: "attempts (Suc k) (Suc i) fn e s' \<noteq> []" by (simp add: Let_def)
  have "attempts (Suc (Suc k)) i fn err s = (e, s') # attempts (Suc k) (Suc i) fn e s'"
    by (subst attempts.simps) (simp add: r Let_def del: attempts.simps)
  with r ne Suc.IH show ?case
    by (cases e) (simp_all del: attempts.simps)
qed

text \<open>
  \<open>Retry\<close> returns the first success among its attempts and, when none of them succeeds, the
  outcome of the last one; no attempt is made after a success.
\<close>

theorem Retry_first_success:
  "Retry (Suc n) fn s = first_success (attempts (Suc n) 0 fn None s)"
  unfolding Retry_def by (rule retry_from_attempts)

section \<open>Query parameters\<close>

type_synonym query = "string \<Rightarrow> string"

definition MaxPaginationLimit :: int where "MaxPaginationLimit = 1000"
definition DefaultPaginationOffset :: int where "DefaultPaginationOffset = 0"

text \<open>The third component says whether the error result is nil.\<close>

definition GetPaginationParam :: "query \<Rightarrow> int \<times> int \<times> bool" where
  "GetPaginationParam q =
     (let limit = MaxPaginationLimit; offset = DefaultPaginationOffset;
          get_offset = (\<lambda>limit.
            if q ''offset'' \<noteq> [] then
              (case Atoi (q ''offset'') of
                 None \<Rightarrow> (limit, offset, False)
               | Some offsetVal \<Rightarrow> (limit, i32 offsetVal, True))
            else (limit, offset, True))
      in if q ''limit'' \<noteq> [] then
           (case Atoi (q ''limit'') of
              None \<Rightarrow> (limit, offset, False)
            | Some limitVal \<Rightarrow> get_offset (if limit > i32 limitVal then i32 limitVal else limit))
         else get_offset limit)"

text \<open>
  Pagination: for absent or decimal parameters of 32-bit size the limit is the requested one
  capped at 1000 and the offset the requested one; for any request the limit is at most 1000 and
  both are 32-bit integers. Nothing keeps either from being negative.
\<close>

theorem GetPaginationParam_spec:
  assumes "q ''limit'' = [] \<or> q ''limit'' = Itoa l" and "q ''offset'' = [] \<or> q ''offset'' = Itoa k"
    and "- 2147483648 \<le> l" "l \<le> 2147483647" "- 2147483648 \<le> k" "k \<le> 2147483647"
  shows "GetPaginationParam q =
    (if q ''limit'' = [] then 1000 else min l 1000, if q ''offset'' = [] then 0 else k, True)"
proof -
  have Itoa: "Itoa n \<noteq> []" for n using nat_digits_facts by (simp add: Itoa_def)
  have "Atoi (Itoa l) = Some l" "Atoi (Itoa k) = Some k" using assms by (auto intro!: Atoi_Itoa)
  moreover have "i32 l = l" "i32 k = k" using assms by (simp_all add: i32_id)
  ultimately show ?thesis
    using assms(1,2) Itoa
    by (auto simp: GetPaginationParam_def MaxPaginationLimit_def DefaultPaginationOffset_def Let_def)
qed

theorem GetPaginationParam_spec_witness:
  "GetPaginationParam ((\<lambda>_. [])(''limit'' := ''2000'')) = (1000, 0, True)"
proof -
  have "Itoa 2000 = ''2000''" by code_simp
  then show ?thesis
    using GetPaginationParam_spec [of "(\<lambda>_. [])(''limit'' := ''2000'')" 2000 0] by simp
qed

lemma GetPaginationParam_bounds:
  "GetPaginationParam q = (l, k, ok) \<Longrightarrow>
     - 2147483648 \<le> l \<and> l \<le> 1000 \<and> - 2147483648 \<le> k \<and> k \<le> 2147483647"
  using i32_bounds
  by (auto simp: GetPaginationParam_def MaxPaginationLimit_def DefaultPaginationOffset_def Let_def
      split: if_splits option.splits)

fun sort_loop :: "string list \<Rightarrow> string list \<Rightarrow> string list \<Rightarrow> string list \<times> string list \<times> bool" where
  "sort_loop sortKeys sortDirs [] = (sortKeys, sortDirs, True)"
| "sort_loop sortKeys sortDirs (srt # rest) =
     (let parts = Split srt '':''
      in if length parts > 2 then (sortKeys, sortDirs, False)
         else (let parts = (if length parts = 1 then parts @ [''asc''] else parts)
               in sort_loop (sortKeys @ [parts ! 0]) (sortDirs @ [parts ! 1]) rest))"

definition GetSortParam :: "query \<Rightarrow> string list \<times> string list \<times> bool" where
  "GetSortParam q =
     (let sortStr = q ''sort''
      in if sortStr \<noteq> [] then ([], [], True)
         else sort_loop [] [] (Split (TrimSpace sortStr) '',''))"

text \<open>
  The guard of \<open>GetSortParam\<close> is inverted: a request that asks for an order gets none, and
  one that does not gets an ascending order on the empty key.
\<close>

theorem GetSortParam_ignores_request:
  "GetSortParam q = (if q ''sort'' = [] then ([''''], [''asc''], True) else ([], [], True))"
proof (cases "q ''sort'' = []")
  case True
  have "Split (TrimSpace []) '','' = [[]]" and "Split [] '':'' = [[]]"
    by (simp_all add: Split_def TrimSpace_def)
  with True show ?thesis by (simp add: GetSortParam_def Let_def)
qed (simp add: GetSortParam_def)

definition GetFilter :: "query \<Rightarrow> string list \<Rightarrow> (string, string) gomap" where
  "GetFilter q filterOpts =
     foldl (\<lambda>m opt. if q opt = [] then m else insert_key opt (q opt) m) [] filterOpts"

lemma lookup_GetFilter:
  "lookup (GetFilter q opts) k = (if k \<in> set opts \<and> q k \<noteq> [] then Some (q k) else None)"
proof -
  have "lookup (foldl (\<lambda>m opt. if q opt = [] then m else insert_key opt (q opt) m) m opts) k =
      (if k \<in> set opts \<and> q k \<noteq> [] then Some (q k) else lookup m k)" for m
    by (induction opts arbitrary: m) auto
  then show ?thesis by (simp add: GetFilter_def)
qed

section \<open>Comparing values\<close>

text \<open>
  Values of type \<open>interface{}\<close> as JSON gives them; any other type is \<open>OtherValue\<close>. Numbers are the parameter
  \<open>'f\<close> with subtraction and order; \<open>eps\<close> is 0.00000001. An error is its text.
\<close>

datatype 'f plain_value = BoolValue bool | FloatValue 'f | StringValue string | OtherValue

definition IsFloatEqual :: "('f \<Rightarrow> 'f \<Rightarrow> 'f) \<Rightarrow> ('f \<Rightarrow> 'f \<Rightarrow> bool) \<Rightarrow> 'f \<Rightarrow> 'f \<Rightarrow> 'f \<Rightarrow> bool" where
  "IsFloatEqual sub lt eps a b = (lt (sub a b) eps \<and> lt (sub b a) eps)"

definition IsEqual :: "('f \<Rightarrow> 'f \<Rightarrow> 'f) \<Rightarrow> ('f \<Rightarrow> 'f \<Rightarrow> bool) \<Rightarrow> 'f \<Rightarrow> string \<Rightarrow> 'f plain_value \<Rightarrow> 'f plain_value \<Rightarrow> string + bool" where
  "IsEqual sub lt eps key v reqValue =
     (case v of
        BoolValue a \<Rightarrow> (case reqValue of BoolValue b \<Rightarrow> Inr (a = b) | _ \<Rightarrow> Inl (''the type of '' @ key @ '' must be bool''))
      | FloatValue a \<Rightarrow>
          (case reqValue of FloatValue b \<Rightarrow> Inr (IsFloatEqual sub lt eps a b)
           | _ \<Rightarrow> Inl (''the type of '' @ key @ '' must be float64''))
      | StringValue a \<Rightarrow> (case reqValue of StringValue b \<Rightarrow> Inr (a = b) | _ \<Rightarrow> Inl (''the type of '' @ key @ '' must be string''))
      | OtherValue \<Rightarrow> Inl (''the type of '' @ key @ '' must be bool or float64 or string''))"

text \<open>
  Equality of numbers is up to the tolerance and so no equivalence: it is reflexive and symmetric, but
  not transitive.
\<close>

lemma IsEqual_commutes: "IsEqual sub lt eps key v w = Inr b \<Longrightarrow> IsEqual sub lt eps key w v = Inr b"
  by (auto simp: IsEqual_def IsFloatEqual_def split: plain_value.splits)

lemma IsEqual_not_transitive:
  defines "eq \<equiv> \<lambda>a b. IsEqual (-) (<) (2::int) ''k'' (FloatValue a) (FloatValue b)"
  shows "eq 0 1 = Inr True" "eq 1 2 = Inr True" "eq 0 2 = Inr False"
  by (simp_all add: eq_def IsEqual_def IsFloatEqual_def)

section \<open>Files and random names\<close>

definition PathExists :: "('e \<Rightarrow> bool) \<Rightarrow> (string \<Rightarrow> 'e option) \<Rightarrow> string \<Rightarrow> bool \<times> 'e option" where
  "PathExists IsNotExist stat path =
     (case stat path of
        None \<Rightarrow> (True, None)
      | Some err \<Rightarrow> if IsNotExist err then (False, None) else (False, Some err))"

text \<open>\<open>Intn\<close> is the source of random numbers: it gives a number below its argument and the next state.\<close>

fun RandSeq :: "(nat \<Rightarrow> 's \<Rightarrow> nat \<times> 's) \<Rightarrow> nat \<Rightarrow> 'c list \<Rightarrow> 's \<Rightarrow> 'c list \<times> 's" where
  "RandSeq Intn 0 chs s = ([], s)"
| "RandSeq Intn (Suc n) chs s =
     (let (i, s) = Intn (length chs) s; (cs, s) = RandSeq Intn n chs s in (chs ! i # cs, s))"

definition RandSeqWithAlnum :: "(nat \<Rightarrow> 's \<Rightarrow> nat \<times> 's) \<Rightarrow> nat \<Rightarrow> 's \<Rightarrow> string \<times> 's" where
  "RandSeqWithAlnum Intn n s =
     RandSeq Intn n ''1234567890abcdefghijklmnopqrstuvwxyzABCDEFGHIJKLMNOPQRSTUVWXYZ'' s"

lemma RandSeq_from:
  assumes "\<And>m s. 0 < m \<Longrightarrow> fst (Intn m s) < m" and "chs \<noteq> []"
  shows "length (fst (RandSeq Intn n chs s)) = n \<and> set (fst (RandSeq Intn n chs s)) \<subseteq> set chs"
proof (induction n arbitrary: s)
  case (Suc n)
  have "fst (Intn (length chs) s) < length chs" using assms by simp
  then show ?case using Suc.IH by (auto split: prod.splits) (metis fst_conv subsetD)+
qed simp

lemma RandSeqWithAlnum_alnum:
  assumes "\<And>m s. 0 < m \<Longrightarrow> fst (Intn m s) < m"
  shows "length (fst (RandSeqWithAlnum Intn n s)) = n" "list_all is_alnum (fst (RandSeqWithAlnum Intn n s))"
proof -
  let ?chs = "''1234567890abcdefghijklmnopqrstuvwxyzABCDEFGHIJKLMNOPQRSTUVWXYZ''"
  have alnum: "list_all is_alnum ?chs" by code_simp
  show "length (fst (RandSeqWithAlnum Intn n s)) = n"
    using RandSeq_from [of Intn ?chs n s] assms by (simp add: RandSeqWithAlnum_def)
  show "list_all is_alnum (fst (RandSeqWithAlnum Intn n s))"
    using RandSeq_from [of Intn ?chs n s] assms alnum unfolding RandSeqWithAlnum_def list_all_iff by blast
qed

end
