(* ===== verification/Api_Context.thy ===== *)
theory Api_Context
  imports Policy_Checks Api_Utils
begin

text \<open>
  Who a request acts for: the policy context and its view as credentials
  (\<open>api/pkg/context/context.go\<close>), the context that the container's filters attach to a request
  (\<open>api/pkg/filters/context/context.go\<close>) and the two authentication filters
  (\<open>api/pkg/filters/auth\<close>). The identity service is a parameter: its answers are data.
\<close>

section \<open>The policy context\<close>

record Context =
  ctx_AuthToken :: string
  ctx_UserId :: string
  ctx_TenantId :: string
  ctx_DomainId :: string
  ctx_UserDomainId :: string
  ctx_ProjectDomainId :: string
  ctx_IsAdmin :: bool
  ctx_ReadOnly :: string
  ctx_ShowDeleted :: string
  ctx_RequestId :: string
  ctx_ResourceUuid :: string
  ctx_Overwrite :: string
  ctx_Roles :: "string list"
  ctx_UserName :: string
  ctx_ProjectName :: string
  ctx_DomainName :: string
  ctx_UserDomainName :: string
  ctx_ProjectDomainName :: string
  ctx_IsAdminProject :: bool
  ctx_ServiceToken :: string
  ctx_ServiceUserId :: string
  ctx_ServiceUserName :: string
  ctx_ServiceUserDomainId :: string
  ctx_ServiceUserDomainName :: string
  ctx_ServiceProjectId :: string
  ctx_ServiceProjectName :: string
  ctx_ServiceProjectDomainId :: string
  ctx_ServiceProjectDomainName :: string
  ctx_ServiceRoles :: string
  ctx_Token :: string
  ctx_Uri :: string

definition EmptyContext :: Context where
  "EmptyContext = \<lparr>
    ctx_AuthToken = [],
    ctx_UserId = [],
    ctx_TenantId = [],
    ctx_DomainId = [],
    ctx_UserDomainId = [],
    ctx_ProjectDomainId = [],
    ctx_IsAdmin = False,
    ctx_ReadOnly = [],
    ctx_ShowDeleted = [],
    ctx_RequestId = [],
    ctx_ResourceUuid = [],
    ctx_Overwrite = [],
    ctx_Roles = [],
    ctx_UserName = [],
    ctx_ProjectName = [],
    ctx_DomainName = [],
    ctx_UserDomainName = [],
    ctx_ProjectDomainName = [],
    ctx_IsAdminProject = False,
    ctx_ServiceToken = [],
    ctx_ServiceUserId = [],
    ctx_ServiceUserName = [],
    ctx_ServiceUserDomainId = [],
    ctx_ServiceUserDomainName = [],
    ctx_ServiceProjectId = [],
    ctx_ServiceProjectName = [],
    ctx_ServiceProjectDomainId = [],
    ctx_ServiceProjectDomainName = [],
    ctx_ServiceRoles = [],
    ctx_Token = [],
    ctx_Uri = []\<rparr>"

definition NewAdminContext :: Context where
  "NewAdminContext = EmptyContext\<lparr>ctx_IsAdmin := True\<rparr>"

definition NewInternalTenantContext :: "string \<Rightarrow> string \<Rightarrow> Context" where
  "NewInternalTenantContext tenantId userId =
     EmptyContext\<lparr>ctx_TenantId := tenantId, ctx_UserId := userId, ctx_IsAdmin := True\<rparr>"

text \<open>The fields of the struct with their tags, as reflection lists them.\<close>

record context_field =
  cf_name :: string
  cf_policy :: bool
  cf_json :: string
  cf_value :: gval

definition context_fields :: "Context \<Rightarrow> context_field list" where
  "context_fields ctx =
     [\<lparr>cf_name = ''AuthToken'', cf_policy = True, cf_json = ''auth_token'', cf_value = VString (ctx_AuthToken ctx)\<rparr>,
      \<lparr>cf_name = ''UserId'', cf_policy = True, cf_json = ''user_id'', cf_value = VString (ctx_UserId ctx)\<rparr>,
      \<lparr>cf_name = ''TenantId'', cf_policy = True, cf_json = ''tenant_id'', cf_value = VString (ctx_TenantId ctx)\<rparr>,
      \<lparr>cf_name = ''DomainId'', cf_policy = True, cf_json = ''domain_id'', cf_value = VString (ctx_DomainId ctx)\<rparr>,
      \<lparr>cf_name = ''UserDomainId'', cf_policy = True, cf_json = ''user_domain_id'', cf_value = VString (ctx_UserDomainId ctx)\<rparr>,
      \<lparr>cf_name = ''ProjectDomainId'', cf_policy = True, cf_json = ''project_domain_id'', cf_value = VString (ctx_ProjectDomainId ctx)\<rparr>,
      \<lparr>cf_name = ''IsAdmin'', cf_policy = True, cf_json = ''is_admin'', cf_value = VBool (ctx_IsAdmin ctx)\<rparr>,
      \<lparr>cf_name = ''ReadOnly'', cf_policy = True, cf_json = ''read_only'', cf_value = VString (ctx_ReadOnly ctx)\<rparr>,
      \<lparr>cf_name = ''ShowDeleted'', cf_policy = True, cf_json = ''show_deleted'', cf_value = VString (ctx_ShowDeleted ctx)\<rparr>,
      \<lparr>cf_name = ''RequestId'', cf_policy = True, cf_json = ''request_id'', cf_value = VString (ctx_RequestId ctx)\<rparr>,
      \<lparr>cf_name = ''ResourceUuid'', cf_policy = True, cf_json = ''resource_uuid'', cf_value = VString (ctx_ResourceUuid ctx)\<rparr>,
      \<lparr>cf_name = ''Overwrite'', cf_policy = True, cf_json = ''overwrite'', cf_value = VString (ctx_Overwrite ctx)\<rparr>,
      \<lparr>cf_name = ''Roles'', cf_policy = True, cf_json = ''roles'', cf_value = VStrings (ctx_Roles ctx)\<rparr>,
      \<lparr>cf_name = ''UserName'', cf_policy = True, cf_json = ''user_name'', cf_value = VString (ctx_UserName ctx)\<rparr>,
      \<lparr>cf_name = ''ProjectName'', cf_policy = True, cf_json = ''project_name'', cf_value = VString (ctx_ProjectName ctx)\<rparr>,
      \<lparr>cf_name = ''DomainName'', cf_policy = True, cf_json = ''domain_name'', cf_value = VString (ctx_DomainName ctx)\<rparr>,
      \<lparr>cf_name = ''UserDomainName'', cf_policy = True, cf_json = ''user_domain_name'', cf_value = VString (ctx_UserDomainName ctx)\<rparr>,
      \<lparr>cf_name = ''ProjectDomainName'', cf_policy = True, cf_json = ''project_domain_name'', cf_value = VString (ctx_ProjectDomainName ctx)\<rparr>,
      \<lparr>cf_name = ''IsAdminProject'', cf_policy = True, cf_json = ''is_admin_project'', cf_value = VBool (ctx_IsAdminProject ctx)\<rparr>,
      \<lparr>cf_name = ''ServiceToken'', cf_policy = True, cf_json = ''service_token'', cf_value = VString (ctx_ServiceToken ctx)\<rparr>,
      \<lparr>cf_name = ''ServiceUserId'', cf_policy = True, cf_json = ''service_user_id'', cf_value = VString (ctx_ServiceUserId ctx)\<rparr>,
      \<lparr>cf_name = ''ServiceUserName'', cf_policy = True, cf_json = ''service_user_name'', cf_value = VString (ctx_ServiceUserName ctx)\<rparr>,
      \<lparr>cf_name = ''ServiceUserDomainId'', cf_policy = True, cf_json = ''service_user_domain_id'', cf_value = VString (ctx_ServiceUserDomainId ctx)\<rparr>,
      \<lparr>cf_name = ''ServiceUserDomainName'', cf_policy = True, cf_json = ''service_user_domain_name'', cf_value = VString (ctx_ServiceUserDomainName ctx)\<rparr>,
      \<lparr>cf_name = ''ServiceProjectId'', cf_policy = True, cf_json = ''service_project_id'', cf_value = VString (ctx_ServiceProjectId ctx)\<rparr>,
      \<lparr>cf_name = ''ServiceProjectName'', cf_policy = True, cf_json = ''service_project_name'', cf_value = VString (ctx_ServiceProjectName ctx)\<rparr>,
      \<lparr>cf_name = ''ServiceProjectDomainId'', cf_policy = True, cf_json = ''service_project_domain_id'', cf_value = VString (ctx_ServiceProjectDomainId ctx)\<rparr>,
      \<lparr>cf_name = ''ServiceProjectDomainName'', cf_policy = True, cf_json = ''service_project_domain_name'', cf_value = VString (ctx_ServiceProjectDomainName ctx)\<rparr>,
      \<lparr>cf_name = ''ServiceRoles'', cf_policy = True, cf_json = ''service_roles'', cf_value = VString (ctx_ServiceRoles ctx)\<rparr>,
      \<lparr>cf_name = ''Token'', cf_policy = False, cf_json = ''token'', cf_value = VString (ctx_Token ctx)\<rparr>,
      \<lparr>cf_name = ''Uri'', cf_policy = False, cf_json = ''uri'', cf_value = VString (ctx_Uri ctx)\<rparr>]"

fun empty_value :: "gval \<Rightarrow> bool" where
  "empty_value (VString s) = (s = [])"
| "empty_value (VStrings ss) = (ss = [])"
| "empty_value (VMap m) = (m = [])"
| "empty_value _ = False"

definition ToPolicyValue :: "Context \<Rightarrow> cred" where
  "ToPolicyValue ctx =
     foldl (\<lambda>m f. if \<not> cf_policy f \<or> empty_value (cf_value f) then m
                  else insert_key (cf_json f) (cf_value f) m) [] (context_fields ctx)"

text \<open>
  \<open>set_context_field\<close> is one round of the loop of \<open>UpdateContext\<close>: a value of another kind than the
  field's, or of an unknown field, is logged and skipped; a slice of another element type has the
  field's kind and makes \<open>reflect.Value.Set\<close> panic.
\<close>

definition set_context_field :: "Context \<Rightarrow> string \<times> gval \<Rightarrow> Context go" where
  "set_context_field ctx kv =
     (let (key, v) = kv
      in if key = ''AuthToken'' then (case v of VString x \<Rightarrow> Return (ctx\<lparr>ctx_AuthToken := x\<rparr>) | _ \<Rightarrow> Return ctx)
      else if key = ''UserId'' then (case v of VString x \<Rightarrow> Return (ctx\<lparr>ctx_UserId := x\<rparr>) | _ \<Rightarrow> Return ctx)
      else if key = ''TenantId'' then (case v of VString x \<Rightarrow> Return (ctx\<lparr>ctx_TenantId := x\<rparr>) | _ \<Rightarrow> Return ctx)
      else if key = ''DomainId'' then (case v of VString x \<Rightarrow> Return (ctx\<lparr>ctx_DomainId := x\<rparr>) | _ \<Rightarrow> Return ctx)
      else if key = ''UserDomainId'' then (case v of VString x \<Rightarrow> Return (ctx\<lparr>ctx_UserDomainId := x\<rparr>) | _ \<Rightarrow> Return ctx)
      else if key = ''ProjectDomainId'' then (case v of VString x \<Rightarrow> Return (ctx\<lparr>ctx_ProjectDomainId := x\<rparr>) | _ \<Rightarrow> Return ctx)
      else if key = ''IsAdmin'' then (case v of VBool x \<Rightarrow> Return (ctx\<lparr>ctx_IsAdmin := x\<rparr>) | _ \<Rightarrow> Return ctx)
      else if key = ''ReadOnly'' then (case v of VString x \<Rightarrow> Return (ctx\<lparr>ctx_ReadOnly := x\<rparr>) | _ \<Rightarrow> Return ctx)
      else if key = ''ShowDeleted'' then (case v of VString x \<Rightarrow> Return (ctx\<lparr>ctx_ShowDeleted := x\<rparr>) | _ \<Rightarrow> Return ctx)
      else if key = ''RequestId'' then (case v of VString x \<Rightarrow> Return (ctx\<lparr>ctx_RequestId := x\<rparr>) | _ \<Rightarrow> Return ctx)
      else if key = ''ResourceUuid'' then (case v of VString x \<Rightarrow> Return (ctx\<lparr>ctx_ResourceUuid := x\<rparr>) | _ \<Rightarrow> Return ctx)
      else if key = ''Overwrite'' then (case v of VString x \<Rightarrow> Return (ctx\<lparr>ctx_Overwrite := x\<rparr>) | _ \<Rightarrow> Return ctx)
      else if key = ''Roles'' then (case v of VStrings x \<Rightarrow> Return (ctx\<lparr>ctx_Roles := x\<rparr>) | VList _ \<Rightarrow> Panic ReflectSet | _ \<Rightarrow> Return ctx)
      else if key = ''UserName'' then (case v of VString x \<Rightarrow> Return (ctx\<lparr>ctx_UserName := x\<rparr>) | _ \<Rightarrow> Return ctx)
      else if key = ''ProjectName'' then (case v of VString x \<Rightarrow> Return (ctx\<lparr>ctx_ProjectName := x\<rparr>) | _ \<Rightarrow> Return ctx)
      else if key = ''DomainName'' then (case v of VString x \<Rightarrow> Return (ctx\<lparr>ctx_DomainName := x\<rparr>) | _ \<Rightarrow> Return ctx)
      else if key = ''UserDomainName'' then (case v of VString x \<Rightarrow> Return (ctx\<lparr>ctx_UserDomainName := x\<rparr>) | _ \<Rightarrow> Return ctx)
      else if key = ''ProjectDomainName'' then (case v of VString x \<Rightarrow> Return (ctx\<lparr>ctx_ProjectDomainName := x\<rparr>) | _ \<Rightarrow> Return ctx)
      else if key = ''IsAdminProject'' then (case v of VBool x \<Rightarrow> Return (ctx\<lparr>ctx_IsAdminProject := x\<rparr>) | _ \<Rightarrow> Return ctx)
      else if key = ''ServiceToken'' then (case v of VString x \<Rightarrow> Return (ctx\<lparr>ctx_ServiceToken := x\<rparr>) | _ \<Rightarrow> Return ctx)
      else if key = ''ServiceUserId'' then (case v of VString x \<Rightarrow> Return (ctx\<lparr>ctx_ServiceUserId := x\<rparr>) | _ \<Rightarrow> Return ctx)
      else if key = ''ServiceUserName'' then (case v of VString x \<Rightarrow> Return (ctx\<lparr>ctx_ServiceUserName := x\<rparr>) | _ \<Rightarrow> Return ctx)
      else if key = ''ServiceUserDomainId'' then (case v of VString x \<Rightarrow> Return (ctx\<lparr>ctx_ServiceUserDomainId := x\<rparr>) | _ \<Rightarrow> Return ctx)
      else if key = ''ServiceUserDomainName'' then (case v of VString x \<Rightarrow> Return (ctx\<lparr>ctx_ServiceUserDomainName := x\<rparr>) | _ \<Rightarrow> Return ctx)
      else if key = ''ServiceProjectId'' then (case v of VString x \<Rightarrow> Return (ctx\<lparr>ctx_ServiceProjectId := x\<rparr>) | _ \<Rightarrow> Return ctx)
      else if key = ''ServiceProjectName'' then (case v of VString x \<Rightarrow> Return (ctx\<lparr>ctx_ServiceProjectName := x\<rparr>) | _ \<Rightarrow> Return ctx)
      else if key = ''ServiceProjectDomainId'' then (case v of VString x \<Rightarrow> Return (ctx\<lparr>ctx_ServiceProjectDomainId := x\<rparr>) | _ \<Rightarrow> Return ctx)
      else if key = ''ServiceProjectDomainName'' then (case v of VString x \<Rightarrow> Return (ctx\<lparr>ctx_ServiceProjectDomainName := x\<rparr>) | _ \<Rightarrow> Return ctx)
      else if key = ''ServiceRoles'' then (case v of VString x \<Rightarrow> Return (ctx\<lparr>ctx_ServiceRoles := x\<rparr>) | _ \<Rightarrow> Return ctx)
      else if key = ''Token'' then (case v of VString x \<Rightarrow> Return (ctx\<lparr>ctx_Token := x\<rparr>) | _ \<Rightarrow> Return ctx)
      else if key = ''Uri'' then (case v of VString x \<Rightarrow> Return (ctx\<lparr>ctx_Uri := x\<rparr>) | _ \<Rightarrow> Return ctx)
      else Return ctx)"

section \<open>Requests\<close>

text \<open>
  The context of the filters is another Go type than the policy context, under the same
  attribute name. Attributes hold pointers: a filter's change to the object is seen by every
  later reader, which the model writes back to the attribute.
\<close>

record FilterContext =
  fc_TenantId :: string
  fc_IsAdmin :: bool
  fc_UserId :: string

datatype attribute =
    APolicyContext Context
  | AFilterContext FilterContext
  | AString string
  | AStrings "string list"
  | ABool bool

record request =
  req_attributes :: "(string, attribute) gomap"
  req_path :: "(string, string) gomap"
  req_token :: string

definition SetAttribute :: "string \<Rightarrow> attribute \<Rightarrow> request \<Rightarrow> request" where
  "SetAttribute name v req = req\<lparr>req_attributes := insert_key name v (req_attributes req)\<rparr>"

definition GetContext :: "request \<Rightarrow> Context" where
  "GetContext req =
     (case lookup (req_attributes req) ''context'' of
        Some (APolicyContext ctx) \<Rightarrow> ctx
      | _ \<Rightarrow> EmptyContext)"

definition UpdateContext :: "request \<Rightarrow> (string, gval) gomap \<Rightarrow> (request \<times> Context) go" where
  "UpdateContext req param =
     (let ctx = GetContext req
      in if param = [] then Return (req, ctx)
         else go_bind (go_foldl set_context_field ctx param) (\<lambda>ctx.
           Return (SetAttribute ''context'' (APolicyContext ctx) req, ctx)))"

section \<open>The context filter\<close>

definition KContext :: string where "KContext = ''context''"
definition NoAuthAdminTenantId :: string where "NoAuthAdminTenantId = ''adminTenantId''"

definition filter_NewAdminContext :: FilterContext where
  "filter_NewAdminContext =
     \<lparr>fc_TenantId = NoAuthAdminTenantId, fc_IsAdmin = True, fc_UserId = ''unkown''\<rparr>"

definition filter_NewContext :: FilterContext where
  "filter_NewContext = \<lparr>fc_TenantId = ''tenantId'', fc_IsAdmin = True, fc_UserId = ''userId''\<rparr>"

definition context_Filter :: "request \<Rightarrow> request" where
  "context_Filter req = SetAttribute KContext (AFilterContext filter_NewContext) req"

section \<open>The authentication filters\<close>

text \<open>
  A filter's result is the request passed down the chain, or the message it answered with 401.
\<close>

datatype filter_result = Pass request | Reject string

definition NoAuth_Filter :: "request \<Rightarrow> filter_result go" where
  "NoAuth_Filter req =
     (case lookup (req_attributes req) KContext of
        Some (AFilterContext ctx) \<Rightarrow>
          (let ctx = (case lookup (req_path req) ''tenantId'' of
                        Some tenantId \<Rightarrow> ctx\<lparr>fc_TenantId := tenantId\<rparr> | None \<Rightarrow> ctx);
               ctx = ctx\<lparr>fc_IsAdmin := (fc_TenantId ctx = NoAuthAdminTenantId)\<rparr>
           in Return (Pass (SetAttribute KContext (AFilterContext ctx) req)))
      | _ \<Rightarrow> Panic TypeAssertion)"

text \<open>
  The identity service's answer to a token: the parts that the code extracts, each \<open>None\<close> when its
  extraction fails, the project and the user possibly nil (an unscoped token has no project).
\<close>

record token_answer =
  ta_Err :: "string option"
  ta_ExpiresAt :: "int option"
  ta_Roles :: "string list option"
  ta_Project :: "(string \<times> string) option option"
  ta_User :: "string option option"

definition setPolicyContext :: "request \<Rightarrow> token_answer \<Rightarrow> filter_result go" where
  "setPolicyContext req r =
     (case ta_Roles r of
        None \<Rightarrow> Return (Reject ''extract roles failed'')
      | Some roleNames \<Rightarrow>
     (case ta_Project r of
        None \<Rightarrow> Return (Reject ''extract project failed'')
      | Some project \<Rightarrow>
     (case ta_User r of
        None \<Rightarrow> Return (Reject ''extract user failed'')
      | Some user \<Rightarrow>
     (case (project, user) of
        (Some (projectID, projectName), Some userID) \<Rightarrow>
          Return (Pass
            (SetAttribute ''IsAdminProject'' (ABool (ToLower projectName = ''admin''))
              (SetAttribute ''UserId'' (AString userID)
                (SetAttribute ''TenantId'' (AStrings roleNames)
                  (SetAttribute ''Roles'' (AString projectID) req)))))
      | _ \<Rightarrow> Panic NilDereference))))"

text \<open>
  The identity service is the state \<open>'s\<close>, with its two operations as arguments: \<open>tokens_Get\<close>
  answers for a token, \<open>SetUp\<close> renews the service's own credentials, its error being ignored.
\<close>

definition verify_attempt :: "('s \<Rightarrow> string \<Rightarrow> token_answer \<times> 's) \<Rightarrow> ('s \<Rightarrow> 's) \<Rightarrow> string \<Rightarrow>
    nat \<Rightarrow> string option \<Rightarrow> token_answer option \<times> 's \<Rightarrow> string option \<times> (token_answer option \<times> 's)" where
  "verify_attempt tokens_Get SetUp token retryIdx lastErr rs =
     (let (r, s) = rs;
          get = (\<lambda>s. let (r, s) = tokens_Get s token in (ta_Err r, (Some r, s)))
      in if 0 < retryIdx then
           (if lastErr = Some ''Authentication failed'' then get (SetUp s) else (lastErr, (r, s)))
         else get s)"

definition validateToken :: "('s \<Rightarrow> string \<Rightarrow> token_answer \<times> 's) \<Rightarrow> ('s \<Rightarrow> 's) \<Rightarrow> int \<Rightarrow>
    request \<Rightarrow> string \<Rightarrow> 's \<Rightarrow> filter_result go \<times> 's" where
  "validateToken tokens_Get SetUp now req token s =
     (if token = [] then (Return (Reject ''token not found in header''), s)
      else (case Retry 2 (verify_attempt tokens_Get SetUp token) (None, s) of
              (None, (Some r, s)) \<Rightarrow>
                ((case ta_ExpiresAt r of
                    None \<Rightarrow> Return (Reject ''extract token failed'')
                  | Some expires \<Rightarrow>
                      (if expires < now then Return (Reject ''token has expired'')
                       else setPolicyContext req r)), s)
            | (_, (_, s)) \<Rightarrow> (Return (Reject ''get token failed''), s)))"

definition Keystone_Filter :: "('s \<Rightarrow> string \<Rightarrow> token_answer \<times> 's) \<Rightarrow> ('s \<Rightarrow> 's) \<Rightarrow> int \<Rightarrow>
    request \<Rightarrow> 's \<Rightarrow> filter_result go \<times> 's" where
  "Keystone_Filter tokens_Get SetUp now req s =
     validateToken tokens_Get SetUp now req (TrimSpace (req_token req)) s"

definition auth_FilterFactory :: "string \<Rightarrow> ('s \<Rightarrow> string \<Rightarrow> token_answer \<times> 's) \<Rightarrow> ('s \<Rightarrow> 's) \<Rightarrow> int \<Rightarrow>
    request \<Rightarrow> 's \<Rightarrow> filter_result go \<times> 's" where
  "auth_FilterFactory strategy tokens_Get SetUp now req s =
     (if strategy = ''keystone'' then Keystone_Filter tokens_Get SetUp now req s
      else (NoAuth_Filter req, s))"

section \<open>Credentials\<close>

lemma lookup_policy_values:
  assumes "distinct (map cf_json fs)"
  shows "lookup (foldl (\<lambda>m f. if \<not> cf_policy f \<or> empty_value (cf_value f) then m
                  else insert_key (cf_json f) (cf_value f) m) m fs) k =
    (case List.find (\<lambda>f. cf_json f = k \<and> cf_policy f \<and> \<not> empty_value (cf_value f)) fs of
       Some f \<Rightarrow> Some (cf_value f) | None \<Rightarrow> lookup m k)"
  using assms
proof (induction fs arbitrary: m)
  case (Cons f fs)
  have none: "List.find (\<lambda>g. cf_json g = cf_json f \<and> cf_policy g \<and> \<not> empty_value (cf_value g)) fs = None"
    using Cons.prems by (auto simp: find_None_iff image_iff)
  show ?case
  proof (cases "cf_json f = k")
    case True
    with none have "List.find (\<lambda>g. cf_json g = k \<and> cf_policy g \<and> \<not> empty_value (cf_value g)) fs = None"
      by simp
    with True Cons show ?thesis by simp
  next
    case False
    with Cons show ?thesis by (simp split: option.split)
  qed
qed simp

lemma context_fields_distinct: "distinct (map cf_json (context_fields ctx))"
  by (simp add: context_fields_def)

lemma lookup_ToPolicyValue:
  "lookup (ToPolicyValue ctx) k =
     (case List.find (\<lambda>f. cf_json f = k \<and> cf_policy f \<and> \<not> empty_value (cf_value f)) (context_fields ctx) of
        Some f \<Rightarrow> Some (cf_value f) | None \<Rightarrow> None)"
  unfolding ToPolicyValue_def lookup_policy_values [OF context_fields_distinct]
  by (simp split: option.split)

lemma ToPolicyValue_roles:
  "lookup (ToPolicyValue ctx) ''roles'' = (if ctx_Roles ctx = [] then None else Some (VStrings (ctx_Roles ctx)))"
  unfolding lookup_ToPolicyValue by (simp add: context_fields_def)

lemma ToPolicyValue_secrets:
  "lookup (ToPolicyValue ctx) ''token'' = None" "lookup (ToPolicyValue ctx) ''uri'' = None"
  unfolding lookup_ToPolicyValue by (simp_all add: context_fields_def)

lemma ToPolicyValue_roles_ok: "roles_ok (ToPolicyValue ctx)"
  by (simp add: roles_ok_def ToPolicyValue_roles)

section \<open>What the filters establish\<close>

lemma req_attributes_SetAttribute [simp]:
  "lookup (req_attributes (SetAttribute k v req)) = (lookup (req_attributes req))(k \<mapsto> v)"
  by (rule ext) (simp add: SetAttribute_def)

lemma req_path_SetAttribute [simp]: "req_path (SetAttribute k v req) = req_path req"
  by (simp add: SetAttribute_def)

text \<open>
  Without authentication every request passes the two filters; the handlers see the tenant of
  the path, and an administrator exactly when that tenant is the administrator's.
\<close>

theorem noauth_context:
  "\<exists>req' ctx. NoAuth_Filter (context_Filter req) = Return (Pass req') \<and>
     lookup (req_attributes req') KContext = Some (AFilterContext ctx) \<and>
     fc_TenantId ctx = (case lookup (req_path req) ''tenantId'' of Some t \<Rightarrow> t | None \<Rightarrow> ''tenantId'') \<and>
     fc_IsAdmin ctx = (lookup (req_path req) ''tenantId'' = Some NoAuthAdminTenantId)"
  by (simp add: NoAuth_Filter_def context_Filter_def filter_NewContext_def NoAuthAdminTenantId_def
      Let_def req_path_SetAttribute split: option.split)

lemma setPolicyContext_Pass:
  assumes "setPolicyContext req r = Return (Pass req')" and "k = ''context''"
  shows "lookup (req_attributes req') k = lookup (req_attributes req) k"
  using assms by (auto simp: setPolicyContext_def split: option.splits)

lemma validateToken_Pass:
  assumes "fst (validateToken tokens_Get SetUp now req token s) = Return (Pass req')"
  shows "\<exists>r. setPolicyContext req r = Return (Pass req') \<and>
    (\<exists>expires. ta_ExpiresAt r = Some expires \<and> now \<le> expires) \<and> token \<noteq> []"
  using assms
  by (auto simp: validateToken_def split: if_splits prod.splits option.splits)

lemma Keystone_context:
  assumes "fst (Keystone_Filter tokens_Get SetUp now (context_Filter req) s) = Return (Pass req')"
  shows "lookup (req_attributes req') KContext = Some (AFilterContext filter_NewContext) \<and>
    GetContext req' = EmptyContext"
proof -
  obtain r where r: "setPolicyContext (context_Filter req) r = Return (Pass req')"
    using validateToken_Pass [OF assms [unfolded Keystone_Filter_def]] by blast
  then have ctx: "lookup (req_attributes req') KContext = Some (AFilterContext filter_NewContext)"
    using setPolicyContext_Pass [OF r] by (simp add: KContext_def context_Filter_def)
  then have "GetContext req' = EmptyContext" by (simp add: GetContext_def KContext_def)
  with ctx show ?thesis ..
qed

text \<open>
  With Keystone only a non-empty token that has not expired passes, but the filter leaves
  both contexts untouched: the handlers still see the default tenant with administrator rights,
  and the policy engine an empty context without roles.
\<close>

theorem keystone_sets_no_context:
  assumes "fst (Keystone_Filter tokens_Get SetUp now (context_Filter req) s) = Return (Pass req')"
  shows "lookup (req_attributes req') KContext = Some (AFilterContext filter_NewContext) \<and>
    fc_IsAdmin filter_NewContext \<and> GetContext req' = EmptyContext \<and> TrimSpace (req_token req) \<noteq> []"
proof -
  have "TrimSpace (req_token (context_Filter req)) \<noteq> []"
    using validateToken_Pass [OF assms [unfolded Keystone_Filter_def]] by blast
  then have "TrimSpace (req_token req) \<noteq> []" by (simp add: context_Filter_def SetAttribute_def)
  with Keystone_context [OF assms] show ?thesis by (simp add: filter_NewContext_def)
qed

definition sample_answer :: token_answer where
  "sample_answer = \<lparr>ta_Err = None, ta_ExpiresAt = Some 100, ta_Roles = Some [''member''],
     ta_Project = Some (Some (''p1'', ''demo'')), ta_User = Some (Some ''u1'')\<rparr>"

theorem keystone_sets_no_context_witness:
  "\<exists>req'. fst (Keystone_Filter (\<lambda>s _. (sample_answer, s)) (\<lambda>s. s) 7
       (context_Filter \<lparr>req_attributes = [], req_path = [], req_token = ''abc''\<rparr>) ()) = Return (Pass req') \<and>
     GetContext req' = EmptyContext"
proof -
  let ?run = "fst (Keystone_Filter (\<lambda>s _. (sample_answer, s)) (\<lambda>s. s) 7
       (context_Filter \<lparr>req_attributes = [], req_path = [], req_token = ''abc''\<rparr>) ())"
  have "case ?run of Return (Pass _) \<Rightarrow> True | _ \<Rightarrow> False" by code_simp
  then obtain req' where "?run = Return (Pass req')" by (auto split: go.splits filter_result.splits)
  from keystone_sets_no_context [OF this] this show ?thesis by (intro exI [of _ req']) simp
qed

end
