(* ===== verification/Policy_Enforcer.thy ===== *)
theory Policy_Enforcer
  imports Policy_Roundtrip Api_Context
begin

text \<open>
  The policy engine (\<open>api/pkg/policy/policy.go\<close>): default rules, loading the rules from a policy
  file or a directory of them, and the decision on an action. The file system is a function from
  paths to nodes, and decoding a JSON object of strings (\<open>json.Unmarshal\<close>) is the parameter
  \<open>unmarshal\<close>. The map order of the parser's reductions is the parameter \<open>order\<close>; the fuel \<open>n\<close> is
  that of \<open>exec\<close>. Rules that do not parse can panic, so loading returns in \<open>go\<close>.
\<close>

section \<open>Default rules\<close>

record DefaultRule =
  dr_Name :: string
  dr_CheckStr :: string

definition listRules :: "DefaultRule list" where
  "listRules = [\<lparr>dr_Name = ''context_is_admin'', dr_CheckStr = ''role:admin''\<rparr>]"

record Enforcer =
  enf_Rules :: "rules option"
  enf_DefaultRules :: "DefaultRule list"
  enf_OverWrite :: bool

definition NewEnforcer :: "bool \<Rightarrow> Enforcer" where
  "NewEnforcer overWrite = \<lparr>enf_Rules = None, enf_DefaultRules = [], enf_OverWrite = overWrite\<rparr>"

definition RegisterDefaults :: "DefaultRule list \<Rightarrow> Enforcer \<Rightarrow> Enforcer" where
  "RegisterDefaults rules e = e\<lparr>enf_DefaultRules := rules\<rparr>"

definition RegisterRules :: "Enforcer \<Rightarrow> Enforcer" where
  "RegisterRules e = RegisterDefaults listRules e"

section \<open>Loading rules\<close>

datatype policy_error =
    StatError
  | ReadDirError
  | ReadFileError
  | JsonError
  | NoSuchRule string

datatype fs_node = File string | Dir "(string \<times> bool) list"

type_synonym file_system = "string \<Rightarrow> fs_node option"
type_synonym json_decoder = "string \<Rightarrow> (string, string) gomap option"

definition add_defaults :: "DefaultRule list \<Rightarrow> (string, string) gomap \<Rightarrow> (string, string) gomap" where
  "add_defaults defaultRules rulesMap =
     foldl (\<lambda>m r. case lookup m (dr_Name r) of Some v \<Rightarrow> m
                  | None \<Rightarrow> insert_key (dr_Name r) (dr_CheckStr r) m) rulesMap defaultRules"

definition parse_all :: "reduction list \<Rightarrow> (string, string) gomap \<Rightarrow> rules go" where
  "parse_all order rulesMap =
     go_foldl (\<lambda>rs (k, v). go_bind (parseRule order v) (\<lambda>c. Return (insert_key k c rs))) [] rulesMap"

definition NewRules :: "reduction list \<Rightarrow> json_decoder \<Rightarrow> string \<Rightarrow> DefaultRule list \<Rightarrow>
    (policy_error + rules) go" where
  "NewRules order unmarshal data defaultRule =
     (case unmarshal data of
        None \<Rightarrow> Return (Inl JsonError)
      | Some rulesMap \<Rightarrow> go_map Inr (parse_all order (add_defaults defaultRule rulesMap)))"

definition UpdateRules :: "rules \<Rightarrow> Enforcer \<Rightarrow> Enforcer" where
  "UpdateRules rules e =
     (let old = (case enf_Rules e of None \<Rightarrow> [] | Some rs \<Rightarrow> rs)
      in e\<lparr>enf_Rules := Some (foldl (\<lambda>rs (k, c). insert_key k c rs) old rules)\<rparr>)"

definition ReadFile :: "file_system \<Rightarrow> string \<Rightarrow> string option" where
  "ReadFile fs path = (case fs path of Some (File data) \<Rightarrow> Some data | _ \<Rightarrow> None)"

definition LoadPolicyFile :: "reduction list \<Rightarrow> json_decoder \<Rightarrow> file_system \<Rightarrow> string \<Rightarrow> bool \<Rightarrow> bool \<Rightarrow>
    Enforcer \<Rightarrow> (policy_error option \<times> Enforcer) go" where
  "LoadPolicyFile order unmarshal fs path forcedReload overWrite e =
     (if enf_Rules e \<noteq> None \<and> \<not> forcedReload then Return (None, e)
      else (case ReadFile fs path of
              None \<Rightarrow> Return (Some ReadFileError, e)
            | Some data \<Rightarrow>
                go_bind (NewRules order unmarshal data (enf_DefaultRules e)) (\<lambda>r.
                  case r of
                    Inl err \<Rightarrow> Return (Some err, e)
                  | Inr rules \<Rightarrow>
                      Return (None, if overWrite then e\<lparr>enf_Rules := Some rules\<rparr>
                                    else UpdateRules rules e))))"

text \<open>The loop over the directory, which stops at the first error.\<close>

fun load_dir :: "(Enforcer \<Rightarrow> (policy_error option \<times> Enforcer) go) \<Rightarrow> (string \<times> bool) list \<Rightarrow>
    Enforcer \<Rightarrow> (policy_error option \<times> Enforcer) go" where
  "load_dir load [] e = Return (None, e)"
| "load_dir load ((name, is_dir) # files) e =
     (if \<not> is_dir \<and> HasSuffix name ''.json'' then
        go_bind (load e) (\<lambda>(err, e). if err = None then load_dir load files e else Return (err, e))
      else load_dir load files e)"

definition LoadRules :: "reduction list \<Rightarrow> json_decoder \<Rightarrow> file_system \<Rightarrow> string \<Rightarrow> bool \<Rightarrow>
    Enforcer \<Rightarrow> (policy_error option \<times> Enforcer) go" where
  "LoadRules order unmarshal fs path forcedReload e =
     (case fs path of
        None \<Rightarrow> Return (Some StatError, e)
      | Some (Dir files) \<Rightarrow> load_dir (LoadPolicyFile order unmarshal fs path forcedReload False) files e
      | Some (File data) \<Rightarrow> LoadPolicyFile order unmarshal fs path forcedReload (enf_OverWrite e) e)"

section \<open>Decisions\<close>

definition Enforce :: "nat \<Rightarrow> reduction list \<Rightarrow> json_decoder \<Rightarrow> file_system \<Rightarrow> string \<Rightarrow> Enforcer \<Rightarrow>
    string \<Rightarrow> target \<Rightarrow> cred \<Rightarrow> ((policy_error + bool) \<times> Enforcer) go" where
  "Enforce n order unmarshal fs path e rule target cred =
     go_bind (LoadRules order unmarshal fs path False e) (\<lambda>(err, e).
       case err of
         Some x \<Rightarrow> Return (Inl x, e)
       | None \<Rightarrow>
           (let rules = (case enf_Rules e of None \<Rightarrow> [] | Some rs \<Rightarrow> rs)
            in case lookup rules rule of
                 None \<Rightarrow> Return (Inl (NoSuchRule rule), e)
               | Some toRule \<Rightarrow> go_map (\<lambda>b. (Inr b, e)) (exec n rules target cred toRule)))"

text \<open>
  \<open>Authorize\<close> is the function of the handlers: \<open>strategy\<close> is the environment variable it reads. The
  result says whether the action is allowed (otherwise 403 is written) and holds the context
  object with its new administrator flag.
\<close>

definition Authorize :: "nat \<Rightarrow> reduction list \<Rightarrow> json_decoder \<Rightarrow> file_system \<Rightarrow> string \<Rightarrow> string \<Rightarrow>
    Enforcer \<Rightarrow> request \<Rightarrow> string \<Rightarrow> (bool \<times> Context \<times> Enforcer) go" where
  "Authorize n order unmarshal fs path strategy e req action =
     (if strategy \<noteq> ''keystone'' then Return (True, GetContext req, e)
      else
        (let ctx = GetContext req;
             credentials = ToPolicyValue ctx;
             TenantId = (case lookup (req_path req) ''tenantId'' of Some t \<Rightarrow> t | None \<Rightarrow> []);
             target = [(''tenant_id'', TenantId)]
         in go_bind (Enforce n order unmarshal fs path e action target credentials) (\<lambda>(r, e).
              let ok = (r = Inr True)
              in Return (ok, if ok then ctx\<lparr>ctx_IsAdmin := Contained ''admin'' (ctx_Roles ctx)\<rparr> else ctx, e))))"

section \<open>Loading is a merge\<close>

lemma lookup_add_defaults:
  "lookup (add_defaults ds m) k =
     (case lookup m k of Some v \<Rightarrow> Some v
      | None \<Rightarrow> map_option dr_CheckStr (List.find (\<lambda>r. dr_Name r = k) ds))"
proof -
  have "lookup (foldl (\<lambda>m r. case lookup m (dr_Name r) of Some v \<Rightarrow> m
            | None \<Rightarrow> insert_key (dr_Name r) (dr_CheckStr r) m) m ds) k =
      (case lookup m k of Some v \<Rightarrow> Some v
       | None \<Rightarrow> map_option dr_CheckStr (List.find (\<lambda>r. dr_Name r = k) ds))" for m
    by (induction ds arbitrary: m) (auto split: option.splits)
  then show ?thesis by (simp add: add_defaults_def)
qed

lemma distinct_add_defaults: "distinct_keys m \<Longrightarrow> distinct_keys (add_defaults ds m)"
proof -
  have "distinct_keys m \<Longrightarrow> distinct_keys (foldl (\<lambda>m r. case lookup m (dr_Name r) of Some v \<Rightarrow> m
            | None \<Rightarrow> insert_key (dr_Name r) (dr_CheckStr r) m) m ds)" for m
    by (induction ds arbitrary: m) (auto split: option.splits)
  then show "distinct_keys m \<Longrightarrow> distinct_keys (add_defaults ds m)" by (simp add: add_defaults_def)
qed

lemma parse_all_lookup:
  assumes "distinct_keys m" and "parse_all order m = Return rs"
  shows "(lookup rs k = None \<longleftrightarrow> lookup m k = None) \<and>
    (\<forall>t. lookup m k = Some t \<longrightarrow> (\<exists>c. parseRule order t = Return c \<and> lookup rs k = Some c))"
proof -
  have "go_foldl (\<lambda>rs (k, v). go_bind (parseRule order v) (\<lambda>c. Return (insert_key k c rs))) rs0 m = Return rs
      \<Longrightarrow> lookup rs k = (case lookup m k of None \<Rightarrow> lookup rs0 k
             | Some t \<Rightarrow> (case parseRule order t of Return c \<Rightarrow> Some c | _ \<Rightarrow> None)) \<and>
          (\<forall>t. lookup m k = Some t \<longrightarrow> is_return (parseRule order t))" for rs0
    using assms(1)
  proof (induction m arbitrary: rs0)
    case (Cons e m)
    obtain k' t' where e: "e = (k', t')" by (cases e)
    with Cons.prems obtain c where c: "parseRule order t' = Return c"
      "go_foldl (\<lambda>rs (k, v). go_bind (parseRule order v) (\<lambda>c. Return (insert_key k c rs)))
         (insert_key k' c rs0) m = Return rs" by auto
    from e Cons.prems(2) have "lookup m k' = None" by (auto simp: map_of_eq_None_iff)
    with Cons.IH [OF c(2)] Cons.prems(2) e c(1) show ?case by (auto split: option.splits)
  qed simp
  from this [of "[]"] assms(2) show ?thesis
    by (auto simp: parse_all_def is_return_iff split: option.splits)
qed

lemma lookup_UpdateRules:
  "enf_Rules (UpdateRules rs e) \<noteq> None"
  "distinct_keys rs \<Longrightarrow> lookup (the (enf_Rules (UpdateRules rs e))) =
     lookup (case enf_Rules e of None \<Rightarrow> [] | Some old \<Rightarrow> old) ++ lookup rs"
  by (simp_all add: UpdateRules_def Let_def)
    (rule ext, simp add: lookup_fold_insert lookup_rev map_add_def)

text \<open>
  \<open>rule_source\<close> is the text a rule is taken from: the policy file's, or else the default's.
\<close>

definition rule_source :: "DefaultRule list \<Rightarrow> (string, string) gomap \<Rightarrow> string \<Rightarrow> string option" where
  "rule_source ds m k =
     (case lookup m k of Some t \<Rightarrow> Some t
      | None \<Rightarrow> map_option dr_CheckStr (List.find (\<lambda>r. dr_Name r = k) ds))"

lemma LoadPolicyFile_rules:
  assumes "enf_Rules e = None" and "ReadFile fs path = Some data" and "unmarshal data = Some m"
    and "distinct_keys m"
    and "LoadPolicyFile order unmarshal fs path forced overWrite e = Return (err, e')"
  shows "err = None \<and> (\<exists>rs. enf_Rules e' = Some rs \<and>
    (\<forall>k. case rule_source (enf_DefaultRules e) m k of
            None \<Rightarrow> lookup rs k = None
          | Some t \<Rightarrow> \<exists>c. parseRule order t = Return c \<and> lookup rs k = Some c))"
proof -
  let ?m = "add_defaults (enf_DefaultRules e) m"
  obtain prs where prs: "parse_all order ?m = Return prs"
    and err: "err = None" and e': "e' = (if overWrite then e\<lparr>enf_Rules := Some prs\<rparr> else UpdateRules prs e)"
    using assms by (auto simp: LoadPolicyFile_def NewRules_def)
  have dm: "distinct_keys ?m" by (rule distinct_add_defaults [OF assms(4)])
  have "distinct_keys prs"
  proof -
    have "go_foldl (\<lambda>rs (k, v). go_bind (parseRule order v) (\<lambda>c. Return (insert_key k c rs))) rs0 xs = Return rs
      \<Longrightarrow> distinct_keys rs0 \<Longrightarrow> distinct_keys rs" for rs0 rs xs
      by (induction xs arbitrary: rs0) auto
    from this [OF prs [unfolded parse_all_def]] show ?thesis by simp
  qed
  then obtain rs where rs: "enf_Rules e' = Some rs" and look: "lookup rs = lookup prs"
    using e' lookup_UpdateRules [of prs e] assms(1) by (cases overWrite) auto
  have "case rule_source (enf_DefaultRules e) m k of None \<Rightarrow> lookup rs k = None
      | Some t \<Rightarrow> \<exists>c. parseRule order t = Return c \<and> lookup rs k = Some c" for k
    using parse_all_lookup [OF dm prs, of k] look
    by (auto simp: rule_source_def lookup_add_defaults split: option.splits)
  with err rs show ?thesis by blast
qed

text \<open>
  Loading a policy file into a fresh enforcer merges it over the default rules: each rule is
  the parsed text of the file, a default rule is used only where the file has none, and there are
  no other rules.
\<close>

theorem LoadPolicyFile_merges:
  assumes "enf_Rules e = None" and "ReadFile fs path = Some data" and "unmarshal data = Some m"
    and "distinct_keys m"
    and "LoadPolicyFile order unmarshal fs path forced overWrite e = Return (err, e')"
  shows "err = None \<and> (\<exists>rs. enf_Rules e' = Some rs \<and>
    (\<forall>k. case rule_source (enf_DefaultRules e) m k of
            None \<Rightarrow> lookup rs k = None
          | Some t \<Rightarrow> \<exists>c. parseRule order t = Return c \<and> lookup rs k = Some c))"
  by (rule LoadPolicyFile_rules [OF assms])

definition sample_fs :: file_system where
  "sample_fs p = (if p = ''policy.json'' then Some (File ''data'') else None)"

definition sample_unmarshal :: json_decoder where
  "sample_unmarshal data = (if data = ''data'' then Some [(''volume:get'', ''@'')] else None)"

theorem LoadPolicyFile_merges_witness:
  "\<exists>err e'. LoadPolicyFile ReduceFuncMap sample_unmarshal sample_fs ''policy.json'' False False
       (RegisterRules (NewEnforcer False)) = Return (err, e') \<and> err = None"
proof -
  let ?run = "LoadPolicyFile ReduceFuncMap sample_unmarshal sample_fs ''policy.json'' False False
       (RegisterRules (NewEnforcer False))"
  have "is_return ?run" by code_simp
  then obtain err e' where run: "?run = Return (err, e')" by (auto simp: is_return_iff)
  from LoadPolicyFile_merges [OF _ _ _ _ run, of "''data''" "[(''volume:get'', ''@'')]"]
  have "err = None"
    by (simp add: RegisterRules_def RegisterDefaults_def NewEnforcer_def ReadFile_def
        sample_fs_def sample_unmarshal_def)
  with run show ?thesis by blast
qed

section \<open>A directory of policy files\<close>

lemma load_dir_fails:
  assumes "load e = Return (Some err, e)"
    and "\<exists>f \<in> set files. \<not> snd f \<and> HasSuffix (fst f) ''.json''"
  shows "load_dir load files e = Return (Some err, e)"
  using assms(2)
proof (induction files)
  case (Cons f files)
  then show ?case using assms(1) by (cases f) auto
qed simp

text \<open>
  A policy path that is a directory never works: \<open>LoadRules\<close> hands the directory itself to
  \<open>LoadPolicyFile\<close> for each file in it. No rule is ever loaded and with Keystone every action is
  refused.
\<close>

theorem policy_directory_denies:
  assumes "fs path = Some (Dir files)"
    and "\<exists>f \<in> set files. \<not> snd f \<and> HasSuffix (fst f) ''.json''" and "enf_Rules e = None"
  shows "Authorize n order unmarshal fs path ''keystone'' e req action =
    Return (False, GetContext req, e)"
proof -
  have "LoadPolicyFile order unmarshal fs path False False e = Return (Some ReadFileError, e)"
    using assms(1,3) by (simp add: LoadPolicyFile_def ReadFile_def)
  then have "LoadRules order unmarshal fs path False e = Return (Some ReadFileError, e)"
    using load_dir_fails assms(1,2) by (simp add: LoadRules_def)
  then show ?thesis by (simp add: Authorize_def Enforce_def Let_def)
qed

theorem policy_directory_denies_witness:
  "Authorize 0 ReduceFuncMap (\<lambda>_. None) (\<lambda>p. Some (Dir [(''admin.json'', False)])) ''/etc/policy''
     ''keystone'' (RegisterRules (NewEnforcer False))
     \<lparr>req_attributes = [], req_path = [], req_token = []\<rparr> ''context_is_admin'' =
   Return (False, GetContext \<lparr>req_attributes = [], req_path = [], req_token = []\<rparr>,
     RegisterRules (NewEnforcer False))"
proof (rule policy_directory_denies)
  show "\<exists>f \<in> set [(''admin.json'', False)]. \<not> snd f \<and> HasSuffix (fst f) ''.json''" by code_simp
qed (simp_all add: RegisterRules_def RegisterDefaults_def NewEnforcer_def)

section \<open>Decisions on a loaded enforcer\<close>

text \<open>
  \<open>decide\<close> is the decision on an action by a set of rules; once rules are loaded, every later call
  decides by them, whatever has become of the file in the meantime.
\<close>

definition decide :: "nat \<Rightarrow> rules \<Rightarrow> string \<Rightarrow> target \<Rightarrow> cred \<Rightarrow> (policy_error + bool) go" where
  "decide n rules rule target cred =
     (case lookup rules rule of
        None \<Rightarrow> Return (Inl (NoSuchRule rule))
      | Some c \<Rightarrow> go_map Inr (exec n rules target cred c))"

lemma LoadRules_loaded:
  assumes "enf_Rules e = Some rs" and "fs path = Some (File data)"
  shows "LoadRules order unmarshal fs path False e = Return (None, e)"
  using assms by (simp add: LoadRules_def LoadPolicyFile_def)

lemma Enforce_loaded:
  assumes "enf_Rules e = Some rs" and "fs path = Some (File data)"
  shows "Enforce n order unmarshal fs path e rule target cred =
    go_map (\<lambda>r. (r, e)) (decide n rs rule target cred)"
proof (cases "lookup rs rule")
  case None
  with assms show ?thesis by (simp add: Enforce_def decide_def LoadRules_loaded Let_def)
next
  case (Some c)
  with assms show ?thesis
    by (cases "exec n rs target cred c") (simp_all add: Enforce_def decide_def LoadRules_loaded Let_def)
qed

lemma Enforce_first:
  assumes "enf_Rules e = None" and "fs path = Some (File data)" and "unmarshal data = Some m"
    and "distinct_keys m"
    and "Enforce n order unmarshal fs path e rule target cred = Return (r, e')"
  shows "\<exists>rs. enf_Rules e' = Some rs \<and> decide n rs rule target cred = Return r \<and>
    (\<forall>k. case rule_source (enf_DefaultRules e) m k of
            None \<Rightarrow> lookup rs k = None
          | Some t \<Rightarrow> \<exists>c. parseRule order t = Return c \<and> lookup rs k = Some c)"
proof -
  have read: "ReadFile fs path = Some data" using assms(2) by (simp add: ReadFile_def)
  obtain err e1 where load: "LoadPolicyFile order unmarshal fs path False (enf_OverWrite e) e = Return (err, e1)"
    and cont: "go_bind (Return (err, e1)) (\<lambda>(err, e).
       case err of
         Some x \<Rightarrow> Return (Inl x, e)
       | None \<Rightarrow>
           (let rules = (case enf_Rules e of None \<Rightarrow> [] | Some rs \<Rightarrow> rs)
            in case lookup rules rule of
                 None \<Rightarrow> Return (Inl (NoSuchRule rule), e)
               | Some toRule \<Rightarrow> go_map (\<lambda>b. (Inr b, e)) (exec n rules target cred toRule))) = Return (r, e')"
    using assms(2,5) by (auto simp: Enforce_def LoadRules_def)
  from LoadPolicyFile_rules [OF assms(1) read assms(3,4) load] obtain rs where
    rs: "err = None" "enf_Rules e1 = Some rs"
    "\<forall>k. case rule_source (enf_DefaultRules e) m k of
            None \<Rightarrow> lookup rs k = None
          | Some t \<Rightarrow> \<exists>c. parseRule order t = Return c \<and> lookup rs k = Some c" by blast
  from cont rs(1,2) have "e' = e1 \<and> decide n rs rule target cred = Return r"
    by (auto simp: decide_def Let_def split: option.splits)
  with rs show ?thesis by blast
qed

text \<open>
  Rules are loaded once: after a first decision that loaded the policy file, every later
  decision is taken by the rules of that first load, although the file may have changed.
\<close>

theorem rules_loaded_once:
  assumes "enf_Rules e = None" and "fs path = Some (File data)" and "unmarshal data = Some m"
    and "distinct_keys m"
    and "Enforce n order unmarshal fs path e rule target cred = Return (r, e')"
    and "fs' path = Some (File data')"
  shows "\<exists>rs. enf_Rules e' = Some rs \<and> decide n rs rule target cred = Return r \<and>
    (\<forall>rule' target' cred'. Enforce n order unmarshal fs' path e' rule' target' cred' =
       go_map (\<lambda>r. (r, e')) (decide n rs rule' target' cred'))"
proof -
  obtain rs where "enf_Rules e' = Some rs" "decide n rs rule target cred = Return r"
    using Enforce_first [OF assms(1-5)] by blast
  then show ?thesis using Enforce_loaded assms(6) by blast
qed

theorem rules_loaded_once_witness:
  "\<exists>e' rs. enf_Rules e' = Some rs \<and>
     Enforce 1 ReduceFuncMap sample_unmarshal (\<lambda>_. Some (File ''changed'')) ''policy.json'' e' ''volume:get'' [] [] =
     go_map (\<lambda>r. (r, e')) (decide 1 rs ''volume:get'' [] [])"
proof -
  let ?e = "RegisterRules (NewEnforcer False)"
  let ?run = "Enforce 1 ReduceFuncMap sample_unmarshal sample_fs ''policy.json'' ?e ''volume:get'' [] []"
  have "is_return ?run" by code_simp
  then obtain r e' where run: "?run = Return (r, e')" by (auto simp: is_return_iff)
  have "enf_Rules ?e = None" by (simp add: RegisterRules_def RegisterDefaults_def NewEnforcer_def)
  from rules_loaded_once [OF this _ _ _ run, of "''data''" "[(''volume:get'', ''@'')]"
      "\<lambda>_. Some (File ''changed'')" "''changed''"]
  obtain rs where "enf_Rules e' = Some rs" "\<forall>rule' target' cred'.
      Enforce 1 ReduceFuncMap sample_unmarshal (\<lambda>_. Some (File ''changed'')) ''policy.json'' e' rule' target' cred' =
      go_map (\<lambda>r. (r, e')) (decide 1 rs rule' target' cred')"
    by (auto simp: sample_fs_def sample_unmarshal_def)
  then show ?thesis by blast
qed

section \<open>Administrators\<close>

lemma parse_role_admin:
  "mset order = mset ReduceFuncMap \<Longrightarrow> parseRule order ''role:admin'' = Return (RoleCheck ''role'' ''admin'')"
proof -
  assume order: "mset order = mset ReduceFuncMap"
  have "printable (RoleCheck ''role'' ''admin'')" by code_simp
  from parse_printed [OF order this] show ?thesis by simp
qed

lemma listRules_source:
  "lookup m ''context_is_admin'' = None \<Longrightarrow>
   rule_source listRules m ''context_is_admin'' = Some ''role:admin''"
  by (simp add: rule_source_def listRules_def)

lemma find_keywords_admin: "find_keywords ''admin'' = []"
  by code_simp

lemma exec_admin:
  "exec n rs target (ToPolicyValue ctx) (RoleCheck ''role'' ''admin'') =
     Return (\<exists>r \<in> set (ctx_Roles ctx). ToLower r = ''admin'')"
proof -
  have "ToLower ''admin'' = ''admin''" by code_simp
  then have "exec n rs target (ToPolicyValue ctx) (RoleCheck ''role'' ''admin'') =
      Return (\<exists>r \<in> set (ctx_Roles ctx). ''admin'' = ToLower r)"
    by (simp add: exec_role_def keyWorkFormatter_def find_keywords_admin ToPolicyValue_roles list_ex_iff)
  then show ?thesis by (simp only: eq_commute)
qed

text \<open>
  C11. From start-up to verdict: with the registered defaults and a policy file that has no rule
  for \<open>context_is_admin\<close>, the action is allowed exactly to contexts with the role \<open>admin\<close>, in any
  case of letters.
\<close>

theorem default_admin_rule:
  assumes "mset order = mset ReduceFuncMap"
    and "fs path = Some (File data)" and "unmarshal data = Some m" and "distinct_keys m"
    and "lookup m ''context_is_admin'' = None"
    and "Enforce n order unmarshal fs path (RegisterRules (NewEnforcer ow)) ''context_is_admin'' target
           (ToPolicyValue ctx) = Return (r, e')"
  shows "r = Inr (\<exists>role \<in> set (ctx_Roles ctx). ToLower role = ''admin'')"
proof -
  let ?e = "RegisterRules (NewEnforcer ow)"
  have e: "enf_Rules ?e = None" "enf_DefaultRules ?e = listRules"
    by (simp_all add: RegisterRules_def RegisterDefaults_def NewEnforcer_def)
  obtain rs where rs: "decide n rs ''context_is_admin'' target (ToPolicyValue ctx) = Return r"
    "case rule_source listRules m ''context_is_admin'' of
       None \<Rightarrow> lookup rs ''context_is_admin'' = None
     | Some t \<Rightarrow> \<exists>c. parseRule order t = Return c \<and> lookup rs ''context_is_admin'' = Some c"
    using Enforce_first [OF e(1) assms(2-4,6), unfolded e(2)] by blast
  then have "lookup rs ''context_is_admin'' = Some (RoleCheck ''role'' ''admin'')"
    using listRules_source [OF assms(5)] parse_role_admin [OF assms(1)] by auto
  with rs(1) show ?thesis by (simp add: decide_def exec_admin del: exec.simps)
qed

theorem default_admin_rule_witness:
  "\<exists>e'. Enforce 0 (rev ReduceFuncMap) sample_unmarshal sample_fs ''policy.json'' (RegisterRules (NewEnforcer True))
      ''context_is_admin'' [] (ToPolicyValue (EmptyContext\<lparr>ctx_Roles := [''Admin'']\<rparr>)) = Return (Inr True, e')"
proof -
  let ?ctx = "EmptyContext\<lparr>ctx_Roles := [''Admin'']\<rparr>"
  let ?run = "Enforce 0 (rev ReduceFuncMap) sample_unmarshal sample_fs ''policy.json''
      (RegisterRules (NewEnforcer True)) ''context_is_admin'' [] (ToPolicyValue ?ctx)"
  have "is_return ?run" by code_simp
  then obtain r e' where run: "?run = Return (r, e')" by (auto simp: is_return_iff)
  have m: "mset (rev ReduceFuncMap) = mset ReduceFuncMap" by simp
  have "r = Inr (\<exists>role \<in> set (ctx_Roles ?ctx). ToLower role = ''admin'')"
    using default_admin_rule [OF m _ _ _ _ run, of "''data''" "[(''volume:get'', ''@'')]"]
    by (simp add: sample_fs_def sample_unmarshal_def)
  moreover have "ToLower ''Admin'' = ''admin''" by code_simp
  ultimately show ?thesis using run by simp
qed

lemma exec_role_no_roles:
  assumes "placeholder_ok m" and "lookup cred ''roles'' = None"
  shows "exec n rs target cred (RoleCheck kind m) = Return False"
proof -
  obtain f where "keyWorkFormatter target m = Return f" using keyWorkFormatter_returns [OF assms(1)] by blast
  with assms(2) show ?thesis by (cases f) (simp_all add: exec_role_def)
qed

text \<open>
  With Keystone no role check can succeed: the filter stores the roles of a valid token where
  the policy engine does not look, so an action guarded by a role is refused to every user.
\<close>

theorem keystone_refuses_roles:
  assumes "fst (Keystone_Filter tokens_Get SetUp now (context_Filter req) s) = Return (Pass req')"
    and "enf_Rules e = Some rs" and "fs path = Some (File data)"
    and "lookup rs action = Some (RoleCheck kind role)" and "placeholder_ok role"
  shows "Authorize n order unmarshal fs path ''keystone'' e req' action = Return (False, EmptyContext, e)"
proof -
  have ctx: "GetContext req' = EmptyContext"
    by (rule Keystone_context [OF assms(1), THEN conjunct2])
  have "lookup (ToPolicyValue EmptyContext) ''roles'' = None"
    by (simp add: ToPolicyValue_roles EmptyContext_def)
  with assms(4,5) have "decide n rs action target (ToPolicyValue EmptyContext) = Return (Inr False)" for target
    by (simp add: decide_def exec_role_no_roles del: exec.simps)
  then show ?thesis using ctx by (simp add: Authorize_def Let_def Enforce_loaded [of e rs fs path data, OF assms(2,3)])
qed

theorem keystone_refuses_roles_witness:
  "\<exists>req'. fst (Keystone_Filter (\<lambda>s _. (sample_answer\<lparr>ta_Roles := Some [''admin'']\<rparr>, s)) (\<lambda>s. s) 7
       (context_Filter \<lparr>req_attributes = [], req_path = [], req_token = ''abc''\<rparr>) ()) = Return (Pass req') \<and>
     Authorize 0 ReduceFuncMap sample_unmarshal sample_fs ''policy.json'' ''keystone''
       \<lparr>enf_Rules = Some [(''context_is_admin'', RoleCheck ''role'' ''admin'')], enf_DefaultRules = [], enf_OverWrite = False\<rparr>
       req' ''context_is_admin'' =
     Return (False, EmptyContext, \<lparr>enf_Rules = Some [(''context_is_admin'', RoleCheck ''role'' ''admin'')],
       enf_DefaultRules = [], enf_OverWrite = False\<rparr>)"
proof -
  let ?run = "fst (Keystone_Filter (\<lambda>s _. (sample_answer\<lparr>ta_Roles := Some [''admin'']\<rparr>, s)) (\<lambda>s. s) 7
       (context_Filter \<lparr>req_attributes = [], req_path = [], req_token = ''abc''\<rparr>) ())"
  have "case ?run of Return (Pass _) \<Rightarrow> True | _ \<Rightarrow> False" by code_simp
  then obtain req' where run: "?run = Return (Pass req')" by (auto split: go.splits filter_result.splits)
  have "placeholder_ok ''admin''" by code_simp
  with run show ?thesis
    by (intro exI [of _ req'] conjI keystone_refuses_roles [OF run, where rs = "[(''context_is_admin'', RoleCheck ''role'' ''admin'')]" and kind = "''role''" and role = "''admin''" and data = "''data''"])
      (simp_all add: sample_fs_def)
qed

end
