(* ===== verification/Go_Prog.thy ===== *)
theory Go_Prog
  imports Go_Strings
begin

text \<open>
  Programs that work on the outside world: functions from a state to an outcome with a result and
  a new state. \<open>call m f\<close> runs \<open>m\<close> and goes on with \<open>f\<close> of its result; a panic ends the program.
  The evaluation rules are in \<open>prog_simps\<close>.
\<close>

named_theorems prog_simps \<open>evaluation rules of programs on a state\<close>

type_synonym ('s, 'a) prog = "'s \<Rightarrow> ('a \<times> 's) go"

definition ret :: "'a \<Rightarrow> ('s, 'a) prog" where
  "ret a s = Return (a, s)"

definition panic :: "go_panic \<Rightarrow> ('s, 'a) prog" where
  "panic p s = Panic p"

definition call :: "('s, 'a) prog \<Rightarrow> ('a \<Rightarrow> ('s, 'b) prog) \<Rightarrow> ('s, 'b) prog" where
  "call m f s = go_bind (m s) (\<lambda>(a, s). f a s)"

definition lift_go :: "'a go \<Rightarrow> ('s, 'a) prog" where
  "lift_go r s = go_map (\<lambda>a. (a, s)) r"

definition liftS :: "('s \<Rightarrow> 'a \<times> 's) \<Rightarrow> ('s, 'a) prog" where
  "liftS f s = Return (f s)"

fun forEach :: "'a list \<Rightarrow> 'b \<Rightarrow> ('b \<Rightarrow> 'a \<Rightarrow> ('s, 'b) prog) \<Rightarrow> ('s, 'b) prog" where
  "forEach [] b f = ret b"
| "forEach (x # xs) b f = call (f b x) (\<lambda>b. forEach xs b f)"

lemma prog_eval [prog_simps]:
  "ret a s = Return (a, s)" "panic p s = Panic p"
  "lift_go (Return a) s = Return (a, s)" "lift_go (Panic p) s = Panic p"
  "liftS f s = Return (f s)"
  by (simp_all add: ret_def panic_def lift_go_def liftS_def)

lemma call_eval [prog_simps]:
  "m s = Return (a, s') \<Longrightarrow> call m f s = f a s'"
  "m s = Panic p \<Longrightarrow> call m f s = Panic p"
  by (simp_all add: call_def)

lemma call_ret [simp]: "call (ret a) f = f a"
  by (rule ext) (simp add: call_def ret_def)

lemma call_panic [simp]: "call (panic p) f = panic p"
  by (rule ext) (simp add: call_def panic_def)

lemma call_Return_iff:
  "call m f s = Return (b, s'') \<longleftrightarrow> (\<exists>a s'. m s = Return (a, s') \<and> f a s' = Return (b, s''))"
  by (auto simp: call_def split_def)

lemma call_ReturnE [go_elims]:
  assumes "call m f s = Return (b, s'')"
  obtains a s' where "m s = Return (a, s')" "f a s' = Return (b, s'')"
  using assms by (auto simp: call_Return_iff)

lemma call_assoc: "call (call m f) g = call m (\<lambda>a. call (f a) g)"
proof
  fix s
  show "call (call m f) g s = call m (\<lambda>a. call (f a) g) s"
    by (cases "m s") (auto simp: call_def)
qed

lemma call_cong [fundef_cong]:
  "m s = m' s' \<Longrightarrow> (\<And>a t. m' s' = Return (a, t) \<Longrightarrow> f a t = f' a t) \<Longrightarrow> call m f s = call m' f' s'"
  unfolding call_def by (cases "m' s'") auto

text \<open>Two runs, one after the other, that have been evaluated.\<close>

lemma two_runs:
  assumes "case r of Return (a, s) \<Rightarrow> P a \<and> (case f s of Return (b, _) \<Rightarrow> Q b | _ \<Rightarrow> False) | _ \<Rightarrow> False"
  shows "\<exists>a s1 b s2. r = Return (a, s1) \<and> f s1 = Return (b, s2) \<and> P a \<and> Q b"
proof (cases r)
  case (Return p)
  obtain a s where p: "p = (a, s)" by (cases p)
  with assms Return have a: "P a" and rest: "case f s of Return (b, _) \<Rightarrow> Q b | _ \<Rightarrow> False" by simp_all
  from rest obtain b u where "f s = Return (b, u)" "Q b" by (cases "f s") auto
  with Return p a show ?thesis by blast
qed (use assms in simp_all)

text \<open>
  Hoare triples of the total kind used below: from a state with \<open>P\<close> the program returns, with a
  result and state in \<open>Q\<close>; \<open>valid_if\<close> is the partial kind.
\<close>

definition valid_if :: "('s \<Rightarrow> bool) \<Rightarrow> ('s, 'a) prog \<Rightarrow> ('a \<Rightarrow> 's \<Rightarrow> bool) \<Rightarrow> bool" where
  "valid_if P m Q \<longleftrightarrow> (\<forall>s a s'. P s \<longrightarrow> m s = Return (a, s') \<longrightarrow> Q a s')"

lemma valid_ifI: "(\<And>s a s'. P s \<Longrightarrow> m s = Return (a, s') \<Longrightarrow> Q a s') \<Longrightarrow> valid_if P m Q"
  by (auto simp: valid_if_def)

lemma valid_ifD: "valid_if P m Q \<Longrightarrow> P s \<Longrightarrow> m s = Return (a, s') \<Longrightarrow> Q a s'"
  by (auto simp: valid_if_def)

lemma valid_if_ret: "valid_if P (ret a) Q \<longleftrightarrow> (\<forall>s. P s \<longrightarrow> Q a s)"
  by (auto simp: valid_if_def ret_def)

lemma valid_if_call:
  "valid_if P m Q \<Longrightarrow> (\<And>a. valid_if (Q a) (f a) R) \<Longrightarrow> valid_if P (call m f) R"
  by (auto simp: valid_if_def call_Return_iff)

lemma valid_if_forEach:
  assumes "\<And>b x. x \<in> set xs \<Longrightarrow> valid_if (I b) (f b x) I"
  shows "valid_if (I b) (forEach xs b f) I"
  using assms
proof (induction xs arbitrary: b)
  case Nil
  then show ?case by (simp add: valid_if_ret)
next
  case (Cons x xs)
  have "valid_if (I b) (f b x) I" using Cons.prems by simp
  moreover have "valid_if (I b') (forEach xs b' f) I" for b' using Cons by simp
  ultimately show ?case by (simp add: valid_if_call)
qed

end
