(* ===== verification/Mongo_Store.thy ===== *)
theory Mongo_Store
  imports Go_Prog
begin

text \<open>
  The database as the services see it through the driver \<open>mgo\<close>: collections of documents with
  \<open>Insert\<close>, \<open>Find\<close>, \<open>Count\<close>, \<open>Update\<close> and \<open>Remove\<close>, a clock and a source of object ids. They are
  third-party code, so the models take them as an argument, the record \<open>mgo_ops\<close> on an unknown
  world \<open>'s\<close>. What the services rely on is the locale \<open>mgo_store\<close>: the contents \<open>docs\<close> change as
  documented when an operation succeeds and not at all when it fails. Failures are allowed at any
  time. The locale is interpreted on an in-memory world, which the witnesses run.
\<close>

section \<open>Documents and queries\<close>

datatype bval =
    BNull
  | BString string
  | BInt int
  | BBool bool
  | BId string
  | BTime int
  | BArr "bval list"
  | BDoc "(string \<times> bval) list"

type_synonym doc = "(string, bval) gomap"

text \<open>
  A query is a conjunction of equalities of fields, or a disjunction (\<open>$or\<close>) of such conjunctions.
  Field names may be dotted paths.
\<close>

datatype mquery =
    Match "(string \<times> bval) list"
  | MatchOr "(string \<times> bval) list list"

fun path_value :: "bval \<Rightarrow> string list \<Rightarrow> bval option" where
  "path_value v [] = Some v"
| "path_value (BDoc d) (k # ks) = (case lookup d k of None \<Rightarrow> None | Some v \<Rightarrow> path_value v ks)"
| "path_value _ (k # ks) = None"

definition field_is :: "doc \<Rightarrow> string \<times> bval \<Rightarrow> bool" where
  "field_is d kv = (path_value (BDoc d) (Split (fst kv) ''.'') = Some (snd kv))"

fun matches :: "mquery \<Rightarrow> doc \<Rightarrow> bool" where
  "matches (Match kvs) d = list_all (field_is d) kvs"
| "matches (MatchOr qs) d = list_ex (\<lambda>kvs. list_all (field_is d) kvs) qs"

lemma field_is_plain: "CHR ''.'' \<notin> set k \<Longrightarrow> field_is d (k, v) \<longleftrightarrow> lookup d k = Some v"
proof -
  assume "CHR ''.'' \<notin> set k"
  then have "Split k ''.'' = [k]"
    by (cases "length k") (simp_all add: Split_def cut_absent)
  then show ?thesis by (auto simp: field_is_def split: option.splits)
qed

text \<open>\<open>Skip\<close> and \<open>Limit\<close> of a query; a limit of zero is none, and a negative one counts as positive.\<close>

definition page :: "int \<Rightarrow> int \<Rightarrow> 'a list \<Rightarrow> 'a list" where
  "page skip limit xs =
     (let ys = drop (nat skip) xs in if limit = 0 then ys else take (nat \<bar>limit\<bar>) ys)"

section \<open>The driver's operations\<close>

datatype mgo_err = ErrNotFound | ErrDup | ErrOther

record 's mgo_ops =
  op_Now :: "'s \<Rightarrow> int \<times> 's"
  op_Sleep :: "int \<Rightarrow> 's \<Rightarrow> 's"
  op_NewObjectId :: "'s \<Rightarrow> string \<times> 's"
  op_Insert :: "string \<Rightarrow> doc \<Rightarrow> 's \<Rightarrow> mgo_err option \<times> 's"
  op_One :: "string \<Rightarrow> mquery \<Rightarrow> 's \<Rightarrow> (mgo_err + doc) \<times> 's"
  op_All :: "string \<Rightarrow> mquery \<Rightarrow> int \<Rightarrow> int \<Rightarrow> 's \<Rightarrow> (mgo_err + doc list) \<times> 's"
  op_Count :: "string \<Rightarrow> mquery \<Rightarrow> 's \<Rightarrow> (mgo_err + nat) \<times> 's"
  op_Update :: "string \<Rightarrow> mquery \<Rightarrow> doc \<Rightarrow> 's \<Rightarrow> mgo_err option \<times> 's"
  op_Remove :: "string \<Rightarrow> mquery \<Rightarrow> 's \<Rightarrow> mgo_err option \<times> 's"

text \<open>The first matching document is the one that is found, replaced or removed.\<close>

fun remove_first :: "('a \<Rightarrow> bool) \<Rightarrow> 'a list \<Rightarrow> 'a list" where
  "remove_first p [] = []"
| "remove_first p (x # xs) = (if p x then xs else x # remove_first p xs)"

fun replace_first :: "('a \<Rightarrow> bool) \<Rightarrow> 'a \<Rightarrow> 'a list \<Rightarrow> 'a list" where
  "replace_first p y [] = []"
| "replace_first p y (x # xs) = (if p x then y # xs else x # replace_first p y xs)"

text \<open>
  \<open>unique_key coll\<close> is the field with a unique index besides \<open>_id\<close>: the lock's object, the plan's
  name.
\<close>

definition conflict :: "string list \<Rightarrow> doc \<Rightarrow> doc list \<Rightarrow> bool" where
  "conflict keys d ds = list_ex (\<lambda>d'. list_ex (\<lambda>k. lookup d k \<noteq> None \<and> lookup d' k = lookup d k) keys) ds"

locale mgo_store =
  fixes ops :: "'s mgo_ops"
    and docs :: "'s \<Rightarrow> string \<Rightarrow> doc list"
    and keys :: "string \<Rightarrow> string list"
    and clock :: "'s \<Rightarrow> int"
  assumes Now: "op_Now ops s = (t, s') \<Longrightarrow> docs s' = docs s \<and> clock s \<le> t \<and> t \<le> clock s'"
    and Sleep: "docs (op_Sleep ops n s) = docs s"
    and NewObjectId: "op_NewObjectId ops s = (i, s') \<Longrightarrow> docs s' = docs s"
    and Insert_ok: "op_Insert ops c d s = (None, s') \<Longrightarrow>
        docs s' = (docs s)(c := docs s c @ [d]) \<and> \<not> conflict (keys c) d (docs s c)"
    and Insert_err: "op_Insert ops c d s = (Some e, s') \<Longrightarrow> docs s' = docs s"
    and One_ok: "op_One ops c q s = (Inr d, s') \<Longrightarrow> docs s' = docs s \<and> List.find (matches q) (docs s c) = Some d"
    and One_NotFound: "op_One ops c q s = (Inl ErrNotFound, s') \<Longrightarrow>
        docs s' = docs s \<and> List.find (matches q) (docs s c) = None"
    and One_err: "op_One ops c q s = (Inl e, s') \<Longrightarrow> docs s' = docs s"
    and All_ok: "op_All ops c q skip limit s = (Inr ds, s') \<Longrightarrow>
        docs s' = docs s \<and> ds = page skip limit (List.filter (matches q) (docs s c))"
    and All_err: "op_All ops c q skip limit s = (Inl e, s') \<Longrightarrow> docs s' = docs s"
    and Count_ok: "op_Count ops c q s = (Inr k, s') \<Longrightarrow>
        docs s' = docs s \<and> k = length (List.filter (matches q) (docs s c))"
    and Count_err: "op_Count ops c q s = (Inl e, s') \<Longrightarrow> docs s' = docs s"
    and Update_ok: "op_Update ops c q d s = (None, s') \<Longrightarrow>
        List.find (matches q) (docs s c) \<noteq> None \<and>
        docs s' = (docs s)(c := replace_first (matches q) d (docs s c))"
    and Update_err: "op_Update ops c q d s = (Some e, s') \<Longrightarrow> docs s' = docs s"
    and Remove_ok: "op_Remove ops c q s = (None, s') \<Longrightarrow>
        List.find (matches q) (docs s c) \<noteq> None \<and>
        docs s' = (docs s)(c := remove_first (matches q) (docs s c))"
    and Remove_err: "op_Remove ops c q s = (Some e, s') \<Longrightarrow> docs s' = docs s"
begin

lemmas kept = Now Sleep NewObjectId Insert_err One_err All_err Count_err Update_err Remove_err

lemma One_docs: "op_One ops c q s = (r, s') \<Longrightarrow> docs s' = docs s"
  by (cases r) (auto dest: One_err One_ok)

lemma All_docs: "op_All ops c q skip limit s = (r, s') \<Longrightarrow> docs s' = docs s"
  by (cases r) (auto dest: All_err All_ok)

lemma Count_docs: "op_Count ops c q s = (r, s') \<Longrightarrow> docs s' = docs s"
  by (cases r) (auto dest: Count_err Count_ok)

end

section \<open>An in-memory world\<close>

text \<open>
  A world without failures: the collections, a clock that the program moves by sleeping, and a
  list of the object ids to come (the last one is repeated).
\<close>

record mem =
  m_docs :: "(string, doc list) gomap"
  m_clock :: int
  m_ids :: "string list"

definition mem_docs :: "mem \<Rightarrow> string \<Rightarrow> doc list" where
  "mem_docs s c = (case lookup (m_docs s) c of None \<Rightarrow> [] | Some ds \<Rightarrow> ds)"

definition mem_put :: "string \<Rightarrow> doc list \<Rightarrow> mem \<Rightarrow> mem" where
  "mem_put c ds s = s\<lparr>m_docs := insert_key c ds (m_docs s)\<rparr>"

definition mem_keys :: "string \<Rightarrow> string list" where
  "mem_keys c = (if c = ''mylock'' then [''_id'', ''lockobj'']
                 else if c = ''plan'' then [''_id'', ''name''] else [''_id''])"

definition mem_ops :: "mem mgo_ops" where
  "mem_ops = \<lparr>
     op_Now = (\<lambda>s. (m_clock s, s)),
     op_Sleep = (\<lambda>n s. s\<lparr>m_clock := m_clock s + max 0 n\<rparr>),
     op_NewObjectId = (\<lambda>s. (case m_ids s of [] \<Rightarrow> ([], s) | [i] \<Rightarrow> (i, s) | i # is \<Rightarrow> (i, s\<lparr>m_ids := is\<rparr>))),
     op_Insert = (\<lambda>c d s. if conflict (mem_keys c) d (mem_docs s c) then (Some ErrDup, s)
                          else (None, mem_put c (mem_docs s c @ [d]) s)),
     op_One = (\<lambda>c q s. (case List.find (matches q) (mem_docs s c) of
                 None \<Rightarrow> (Inl ErrNotFound, s) | Some d \<Rightarrow> (Inr d, s))),
     op_All = (\<lambda>c q skip limit s. (Inr (page skip limit (List.filter (matches q) (mem_docs s c))), s)),
     op_Count = (\<lambda>c q s. (Inr (length (List.filter (matches q) (mem_docs s c))), s)),
     op_Update = (\<lambda>c q d s. (case List.find (matches q) (mem_docs s c) of
                 None \<Rightarrow> (Some ErrNotFound, s)
               | Some _ \<Rightarrow> (None, mem_put c (replace_first (matches q) d (mem_docs s c)) s))),
     op_Remove = (\<lambda>c q s. (case List.find (matches q) (mem_docs s c) of
                 None \<Rightarrow> (Some ErrNotFound, s)
               | Some _ \<Rightarrow> (None, mem_put c (remove_first (matches q) (mem_docs s c)) s)))\<rparr>"

lemma mem_docs_put [simp]: "mem_docs (mem_put c ds s) = (mem_docs s)(c := ds)"
  by (rule ext) (simp add: mem_docs_def mem_put_def)

lemma mem_docs_clock [simp]: "mem_docs (s\<lparr>m_clock := t\<rparr>) = mem_docs s" "mem_docs (s\<lparr>m_ids := is\<rparr>) = mem_docs s"
  by (rule ext, simp add: mem_docs_def)+

lemma mem_put_clock [simp]: "m_clock (mem_put c ds s) = m_clock s"
  by (simp add: mem_put_def)

interpretation mem: mgo_store mem_ops mem_docs mem_keys m_clock
  by unfold_locales
    (auto simp: mem_ops_def split: if_splits option.splits list.splits)

section \<open>Facts on first matches\<close>

lemma find_None_filter: "List.find p xs = None \<longleftrightarrow> List.filter p xs = []"
  by (induction xs) auto

lemma find_SomeD': "List.find p xs = Some x \<Longrightarrow> x \<in> set xs \<and> p x"
  by (induction xs) (auto split: if_splits)

lemma set_remove_first: "set (remove_first p xs) \<subseteq> set xs"
  by (induction xs) auto

lemma set_replace_first: "set (replace_first p y xs) \<subseteq> insert y (set xs)"
  by (induction xs) auto

lemma remove_first_keeps: "x \<in> set xs \<Longrightarrow> \<not> p x \<Longrightarrow> x \<in> set (remove_first p xs)"
  by (induction xs) auto

lemma length_remove_first:
  "List.find p xs \<noteq> None \<Longrightarrow> length xs = Suc (length (remove_first p xs))"
  by (induction xs) auto

lemma replace_first_mem: "List.find p xs \<noteq> None \<Longrightarrow> y \<in> set (replace_first p y xs)"
  by (induction xs) auto

lemma find_replace_first:
  assumes "p y" and "\<And>x. q x \<Longrightarrow> p x \<Longrightarrow> False" and "\<not> q y"
  shows "List.find q (replace_first p y xs) = List.find q xs"
  using assms by (induction xs) auto

lemma find_replaced: "List.find p xs \<noteq> None \<Longrightarrow> p y \<Longrightarrow> List.find p (replace_first p y xs) = Some y"
  by (induction xs) auto

lemma find_append: "List.find p (xs @ ys) = (case List.find p xs of None \<Rightarrow> List.find p ys | Some x \<Rightarrow> Some x)"
  by (induction xs) auto

section \<open>Object ids\<close>

text \<open>
  An object id is written as 24 hexadecimal digits, in lower case; \<open>bson.ObjectIdHex\<close> panics on any
  other text.
\<close>

definition is_hex :: "char \<Rightarrow> bool" where
  "is_hex c = (is_digit c \<or> (65 \<le> code c \<and> code c \<le> 70) \<or> (97 \<le> code c \<and> code c \<le> 102))"

definition IsObjectIdHex :: "string \<Rightarrow> bool" where
  "IsObjectIdHex s = (length s = 24 \<and> list_all is_hex s)"

definition ObjectIdHex :: "string \<Rightarrow> string go" where
  "ObjectIdHex s = (if IsObjectIdHex s then Return (ToLower s) else Panic InvalidObjectId)"

end
