(* ===== verification/Dataflow_Model.thy ===== *)
theory Dataflow_Model
  imports Mongo_Store
begin

text \<open>
  The data of the dataflow service (\<open>dataflow/pkg/model/dataflow_type.go\<close>): policies, plans, jobs
  and their parts, the errors, and how each struct is written to and read from the database by its
  \<open>bson\<close> tags. Reading what was written gives the struct back. Object ids are their hexadecimal
  text, times are integers with 0 for Go's zero time.
\<close>

section \<open>Constants and errors\<close>

definition STOR_TYPE_OPENSDS :: string where "STOR_TYPE_OPENSDS = ''opensds-obj''"
definition STOR_TYPE_AWS_S3 :: string where "STOR_TYPE_AWS_S3 = ''aws-s3''"
definition STOR_TYPE_AZURE_BLOB :: string where "STOR_TYPE_AZURE_BLOB = ''azure-blob''"
definition STOR_TYPE_HW_OBS :: string where "STOR_TYPE_HW_OBS = ''hw-obs''"
definition STOR_TYPE_CEPH_S3 :: string where "STOR_TYPE_CEPH_S3 = ''ceph-s3''"
definition STOR_TYPE_HW_FUSIONSTORAGE :: string where "STOR_TYPE_HW_FUSIONSTORAGE = ''fusionstorage-object''"
definition STOR_TYPE_HW_FUSIONCLOUD :: string where "STOR_TYPE_HW_FUSIONCLOUD = ''hw-fusioncloud''"

lemmas stor_types = STOR_TYPE_OPENSDS_def STOR_TYPE_AWS_S3_def STOR_TYPE_AZURE_BLOB_def
  STOR_TYPE_HW_OBS_def STOR_TYPE_CEPH_S3_def STOR_TYPE_HW_FUSIONSTORAGE_def STOR_TYPE_HW_FUSIONCLOUD_def

definition JOB_STATUS_PENDING :: string where "JOB_STATUS_PENDING = ''pending''"
definition JOB_STATUS_RUNNING :: string where "JOB_STATUS_RUNNING = ''running''"
definition JOB_STATUS_SUCCEED :: string where "JOB_STATUS_SUCCEED = ''succeed''"
definition JOB_STATUS_FAILED :: string where "JOB_STATUS_FAILED = ''failed''"

lemmas job_statuses = JOB_STATUS_PENDING_def JOB_STATUS_RUNNING_def JOB_STATUS_SUCCEED_def JOB_STATUS_FAILED_def

datatype df_err =
    ERR_INNER_ERR
  | ERR_DB_ERR
  | ERR_INVALID_POLICY_NAME
  | ERR_POLICY_NOT_EXIST
  | ERR_PLAN_NOT_EXIST
  | ERR_INVALID_PLAN_NAME
  | ERR_DEST_SRC_CONN_EQUAL
  | ERR_DEST_CONN_NOT_EXIST
  | ERR_SRC_CONN_NOT_EXIST
  | ERR_IS_USED_BY_PLAN
  | ERR_RUN_PLAN_BUSY
  | ERR_JOB_NOT_EXIST
  | ERR_PLAN_NOT_IN_TRIGGER
  | DuplicateName string
  | DriverError mgo_err
  | OtherError string

definition DefaultLimit :: int where "DefaultLimit = 1000"
definition DefaultOffset :: int where "DefaultOffset = 0"

datatype lock_result = LockSuccess | LockBusy | LockDbErr

section \<open>Structs\<close>

record Schedule =
  sch_Type :: string
  sch_TriggerProperties :: string

record Policy =
  pol_Id :: string
  pol_Name :: string
  pol_Description :: string
  pol_Schedule :: Schedule
  pol_Tenant :: string

record KeyValue =
  kv_Key :: string
  kv_Value :: string

record Connector =
  conn_StorType :: string
  conn_BucketName :: string
  conn_ConnConfig :: "KeyValue list"

record PlanFilter =
  fil_Prefix :: string
  fil_Tag :: "KeyValue list"

definition ASIST_TYPE_DATA_ANALYSIS :: string where "ASIST_TYPE_DATA_ANALYSIS = ''data_analysis''"

record AsistInfo =
  asi_Type :: string
  asi_Details :: "KeyValue list"

record DBRef =
  ref_Collection :: string
  ref_Id :: "string option"
  ref_Database :: string

record Plan =
  pln_Id :: string
  pln_Name :: string
  pln_Description :: string
  pln_Type :: string
  pln_SourceConn :: Connector
  pln_DestConn :: Connector
  pln_Filter :: PlanFilter
  pln_RemainSource :: bool
  pln_LastSchedTime :: int
  pln_PolicyId :: string
  pln_PolicyRef :: DBRef
  pln_PolicyName :: string
  pln_PolicyEnabled :: bool
  pln_TenantId :: string
  pln_UserId :: string
  pln_Asist :: AsistInfo

record Job =
  job_Id :: string
  job_TriggerType :: string
  job_Type :: string
  job_PlanName :: string
  job_PlanId :: string
  job_TotalCount :: int
  job_PassedCount :: int
  job_TotalCapacity :: int
  job_PassedCapacity :: int
  job_SourceLocation :: string
  job_DestLocation :: string
  job_CreateTime :: int
  job_StartTime :: int
  job_EndTime :: int
  job_RemainSource :: bool
  job_Status :: string
  job_Tenant :: string
  job_Progress :: int
  job_StepDesc :: string

definition zero_DBRef :: DBRef where
  "zero_DBRef = \<lparr>ref_Collection = [], ref_Id = None, ref_Database = []\<rparr>"

definition zero_Job :: Job where
  "zero_Job = \<lparr>job_Id = [], job_TriggerType = [], job_Type = [], job_PlanName = [], job_PlanId = [],
     job_TotalCount = 0, job_PassedCount = 0, job_TotalCapacity = 0, job_PassedCapacity = 0,
     job_SourceLocation = [], job_DestLocation = [], job_CreateTime = 0, job_StartTime = 0,
     job_EndTime = 0, job_RemainSource = False, job_Status = [], job_Tenant = [], job_Progress = 0,
     job_StepDesc = []\<rparr>"

section \<open>Reading fields\<close>

text \<open>A field that is absent or has another type leaves the zero value.\<close>

definition get_string :: "doc \<Rightarrow> string \<Rightarrow> string" where
  "get_string d k = (case lookup d k of Some (BString s) \<Rightarrow> s | _ \<Rightarrow> [])"

definition get_id :: "doc \<Rightarrow> string \<Rightarrow> string" where
  "get_id d k = (case lookup d k of Some (BId s) \<Rightarrow> s | _ \<Rightarrow> [])"

definition get_int :: "doc \<Rightarrow> string \<Rightarrow> int" where
  "get_int d k = (case lookup d k of Some (BInt i) \<Rightarrow> i | _ \<Rightarrow> 0)"

definition get_time :: "doc \<Rightarrow> string \<Rightarrow> int" where
  "get_time d k = (case lookup d k of Some (BTime i) \<Rightarrow> i | _ \<Rightarrow> 0)"

definition get_bool :: "doc \<Rightarrow> string \<Rightarrow> bool" where
  "get_bool d k = (case lookup d k of Some (BBool b) \<Rightarrow> b | _ \<Rightarrow> False)"

definition get_doc :: "doc \<Rightarrow> string \<Rightarrow> doc" where
  "get_doc d k = (case lookup d k of Some (BDoc d') \<Rightarrow> d' | _ \<Rightarrow> [])"

definition get_arr :: "doc \<Rightarrow> string \<Rightarrow> bval list" where
  "get_arr d k = (case lookup d k of Some (BArr vs) \<Rightarrow> vs | _ \<Rightarrow> [])"

lemmas get_defs = get_string_def get_id_def get_int_def get_time_def get_bool_def get_doc_def get_arr_def

section \<open>Writing and reading structs\<close>

definition enc_id :: "string \<Rightarrow> doc" where
  "enc_id i = (if i = [] then [] else [(''_id'', BId i)])"

definition enc_KeyValue :: "KeyValue \<Rightarrow> bval" where
  "enc_KeyValue kv = BDoc [(''key'', BString (kv_Key kv)), (''value'', BString (kv_Value kv))]"

fun dec_KeyValue :: "bval \<Rightarrow> KeyValue" where
  "dec_KeyValue (BDoc d) = \<lparr>kv_Key = get_string d ''key'', kv_Value = get_string d ''value''\<rparr>"
| "dec_KeyValue _ = \<lparr>kv_Key = [], kv_Value = []\<rparr>"

definition enc_Schedule :: "Schedule \<Rightarrow> doc" where
  "enc_Schedule s = [(''type'', BString (sch_Type s)), (''triggerProperties'', BString (sch_TriggerProperties s))]"

definition dec_Schedule :: "doc \<Rightarrow> Schedule" where
  "dec_Schedule d = \<lparr>sch_Type = get_string d ''type'', sch_TriggerProperties = get_string d ''triggerProperties''\<rparr>"

definition enc_Policy :: "Policy \<Rightarrow> doc" where
  "enc_Policy p = enc_id (pol_Id p) @
     [(''name'', BString (pol_Name p)), (''description'', BString (pol_Description p)),
      (''schedule'', BDoc (enc_Schedule (pol_Schedule p))), (''tenant'', BString (pol_Tenant p))]"

definition dec_Policy :: "doc \<Rightarrow> Policy" where
  "dec_Policy d = \<lparr>pol_Id = get_id d ''_id'', pol_Name = get_string d ''name'',
     pol_Description = get_string d ''description'', pol_Schedule = dec_Schedule (get_doc d ''schedule''),
     pol_Tenant = get_string d ''tenant''\<rparr>"

definition enc_Connector :: "Connector \<Rightarrow> doc" where
  "enc_Connector c = [(''storeType'', BString (conn_StorType c)), (''bucketName'', BString (conn_BucketName c)),
     (''connConfig'', BArr (map enc_KeyValue (conn_ConnConfig c)))]"

definition dec_Connector :: "doc \<Rightarrow> Connector" where
  "dec_Connector d = \<lparr>conn_StorType = get_string d ''storeType'', conn_BucketName = get_string d ''bucketName'',
     conn_ConnConfig = map dec_KeyValue (get_arr d ''connConfig'')\<rparr>"

definition enc_PlanFilter :: "PlanFilter \<Rightarrow> doc" where
  "enc_PlanFilter f = [(''prefix'', BString (fil_Prefix f)), (''tag'', BArr (map enc_KeyValue (fil_Tag f)))]"

definition dec_PlanFilter :: "doc \<Rightarrow> PlanFilter" where
  "dec_PlanFilter d = \<lparr>fil_Prefix = get_string d ''prefix'', fil_Tag = map dec_KeyValue (get_arr d ''tag'')\<rparr>"

definition enc_AsistInfo :: "AsistInfo \<Rightarrow> doc" where
  "enc_AsistInfo a = (''type'', BString (asi_Type a)) #
     (if asi_Details a = [] then [] else [(''details'', BArr (map enc_KeyValue (asi_Details a)))])"

definition dec_AsistInfo :: "doc \<Rightarrow> AsistInfo" where
  "dec_AsistInfo d = \<lparr>asi_Type = get_string d ''type'', asi_Details = map dec_KeyValue (get_arr d ''details'')\<rparr>"

definition enc_DBRef :: "DBRef \<Rightarrow> doc" where
  "enc_DBRef r = [(''$ref'', BString (ref_Collection r)),
      (''$id'', case ref_Id r of None \<Rightarrow> BNull | Some i \<Rightarrow> BId i)] @
     (if ref_Database r = [] then [] else [(''$db'', BString (ref_Database r))])"

definition dec_DBRef :: "doc \<Rightarrow> DBRef" where
  "dec_DBRef d = \<lparr>ref_Collection = get_string d ''$ref'',
     ref_Id = (case lookup d ''$id'' of Some (BId i) \<Rightarrow> Some i | _ \<Rightarrow> None),
     ref_Database = get_string d ''$db''\<rparr>"

definition enc_Plan :: "Plan \<Rightarrow> doc" where
  "enc_Plan p = enc_id (pln_Id p) @
     [(''name'', BString (pln_Name p)), (''description'', BString (pln_Description p)),
      (''type'', BString (pln_Type p)), (''srcConn'', BDoc (enc_Connector (pln_SourceConn p))),
      (''destConn'', BDoc (enc_Connector (pln_DestConn p))), (''filter'', BDoc (enc_PlanFilter (pln_Filter p))),
      (''remainSource'', BBool (pln_RemainSource p)), (''lastSchedTime'', BInt (pln_LastSchedTime p)),
      (''policyId'', BString (pln_PolicyId p)), (''policyRef'', BDoc (enc_DBRef (pln_PolicyRef p))),
      (''policyName'', BString (pln_PolicyName p)), (''policyEnabled'', BBool (pln_PolicyEnabled p)),
      (''tenantId'', BString (pln_TenantId p)), (''userId'', BString (pln_UserId p))] @
     (if pln_Asist p = \<lparr>asi_Type = [], asi_Details = []\<rparr> then []
      else [(''asist'', BDoc (enc_AsistInfo (pln_Asist p)))])"

definition dec_Plan :: "doc \<Rightarrow> Plan" where
  "dec_Plan d = \<lparr>pln_Id = get_id d ''_id'', pln_Name = get_string d ''name'',
     pln_Description = get_string d ''description'', pln_Type = get_string d ''type'',
     pln_SourceConn = dec_Connector (get_doc d ''srcConn''), pln_DestConn = dec_Connector (get_doc d ''destConn''),
     pln_Filter = dec_PlanFilter (get_doc d ''filter''), pln_RemainSource = get_bool d ''remainSource'',
     pln_LastSchedTime = get_int d ''lastSchedTime'', pln_PolicyId = get_string d ''policyId'',
     pln_PolicyRef = dec_DBRef (get_doc d ''policyRef''), pln_PolicyName = get_string d ''policyName'',
     pln_PolicyEnabled = get_bool d ''policyEnabled'', pln_TenantId = get_string d ''tenantId'',
     pln_UserId = get_string d ''userId'', pln_Asist = dec_AsistInfo (get_doc d ''asist'')\<rparr>"

definition enc_Job :: "Job \<Rightarrow> doc" where
  "enc_Job j = [(''_id'', BId (job_Id j)), (''triggerType'', BString (job_TriggerType j)),
      (''type'', BString (job_Type j)), (''planName'', BString (job_PlanName j)), (''planId'', BString (job_PlanId j)),
      (''totalCount'', BInt (job_TotalCount j)), (''passedCount'', BInt (job_PassedCount j)),
      (''totalCapacity'', BInt (job_TotalCapacity j)), (''passedCapacity'', BInt (job_PassedCapacity j)),
      (''sourceLocation'', BString (job_SourceLocation j)), (''destLocation'', BString (job_DestLocation j)),
      (''createTime'', BTime (job_CreateTime j)), (''startTime'', BTime (job_StartTime j)),
      (''endTime'', BTime (job_EndTime j)), (''remainSource'', BBool (job_RemainSource j)),
      (''status'', BString (job_Status j)), (''tenant'', BString (job_Tenant j)),
      (''progress'', BInt (job_Progress j)), (''stepDesc'', BString (job_StepDesc j))]"

definition dec_Job :: "doc \<Rightarrow> Job" where
  "dec_Job d = \<lparr>job_Id = get_id d ''_id'', job_TriggerType = get_string d ''triggerType'',
     job_Type = get_string d ''type'', job_PlanName = get_string d ''planName'', job_PlanId = get_string d ''planId'',
     job_TotalCount = get_int d ''totalCount'', job_PassedCount = get_int d ''passedCount'',
     job_TotalCapacity = get_int d ''totalCapacity'', job_PassedCapacity = get_int d ''passedCapacity'',
     job_SourceLocation = get_string d ''sourceLocation'', job_DestLocation = get_string d ''destLocation'',
     job_CreateTime = get_time d ''createTime'', job_StartTime = get_time d ''startTime'',
     job_EndTime = get_time d ''endTime'', job_RemainSource = get_bool d ''remainSource'',
     job_Status = get_string d ''status'', job_Tenant = get_string d ''tenant'',
     job_Progress = get_int d ''progress'', job_StepDesc = get_string d ''stepDesc''\<rparr>"

section \<open>Round trips\<close>

lemma KeyValue_bson [simp]: "dec_KeyValue (enc_KeyValue kv) = kv"
  by (simp add: enc_KeyValue_def get_string_def)

lemma KeyValues_bson [simp]: "map (dec_KeyValue \<circ> enc_KeyValue) kvs = kvs"
  by (simp add: map_idI)

lemma Schedule_bson [simp]: "dec_Schedule (enc_Schedule s) = s"
  by (simp add: enc_Schedule_def dec_Schedule_def get_string_def)

lemma Policy_bson [simp]: "dec_Policy (enc_Policy p) = p"
  by (simp add: enc_Policy_def dec_Policy_def enc_id_def get_string_def get_id_def get_doc_def)

lemma Connector_bson [simp]: "dec_Connector (enc_Connector c) = c"
  by (simp add: enc_Connector_def dec_Connector_def get_string_def get_arr_def)

lemma PlanFilter_bson [simp]: "dec_PlanFilter (enc_PlanFilter f) = f"
  by (simp add: enc_PlanFilter_def dec_PlanFilter_def get_string_def get_arr_def)

lemma AsistInfo_bson [simp]: "dec_AsistInfo (enc_AsistInfo a) = a"
  by (simp add: enc_AsistInfo_def dec_AsistInfo_def get_string_def get_arr_def)

lemma DBRef_bson [simp]: "dec_DBRef (enc_DBRef r) = r"
  by (cases "ref_Id r") (simp_all add: enc_DBRef_def dec_DBRef_def get_string_def)

lemma Job_bson [simp]: "dec_Job (enc_Job j) = j"
  by (simp add: enc_Job_def dec_Job_def get_defs)

lemma AsistInfo_empty: "dec_AsistInfo [] = \<lparr>asi_Type = [], asi_Details = []\<rparr>"
  by (simp add: dec_AsistInfo_def get_string_def get_arr_def)

lemma Plan_bson [simp]: "dec_Plan (enc_Plan p) = p"
  by (cases "pln_Asist p = \<lparr>asi_Type = [], asi_Details = []\<rparr>"; cases "pln_Id p = []")
    (simp_all add: enc_Plan_def dec_Plan_def enc_id_def get_defs AsistInfo_empty)

text \<open>
  What the dataflow service stores it reads back: policies, plans (with their connectors,
  filters, policy references and assistance) and jobs survive the database unchanged.
\<close>

theorem bson_roundtrip:
  "dec_Policy (enc_Policy pol) = pol \<and> dec_Plan (enc_Plan plan) = plan \<and> dec_Job (enc_Job job) = job"
  by simp

end
