(* ===== verification/Dataflow_Lock.thy ===== *)
theory Dataflow_Lock
  imports Dataflow_Model
begin

text \<open>
  The advisory lock of the dataflow service (\<open>lock\<close> and \<open>unlock\<close> of
  \<open>dataflow/pkg/db/drivers/mongo/mongo.go\<close>): a document per locked object in a collection with a
  unique index, taken over when it is older than a maximum. First the functions as one client runs
  them, on any database that keeps the contract \<open>mgo_store\<close>; then the same actions interleaved by
  several clients, as a state machine. Times are in nanoseconds.
\<close>

section \<open>The functions\<close>

definition lockColName :: string where "lockColName = ''mylock''"
definition lockManager :: string where "lockManager = ''manager''"
definition maxLockSec :: int where "maxLockSec = 5"

definition second :: int where "second = 1000000000"

definition enc_MyLock :: "string \<Rightarrow> int \<Rightarrow> doc" where
  "enc_MyLock lockObj lockTime = [(''lockobj'', BString lockObj), (''locktime'', BTime lockTime)]"

definition lock_query :: "string \<Rightarrow> mquery" where
  "lock_query lockObj = Match [(''lockobj'', BString lockObj)]"

definition unlock :: "'s mgo_ops \<Rightarrow> string \<Rightarrow> ('s, lock_result) prog" where
  "unlock ops lockObj =
     call (liftS (op_Remove ops lockColName (lock_query lockObj))) (\<lambda>err.
       ret (if err = None then LockSuccess else LockDbErr))"

definition lock :: "'s mgo_ops \<Rightarrow> string \<Rightarrow> int \<Rightarrow> ('s, lock_result) prog" where
  "lock ops lockObj maxLockTime =
     call (liftS (op_Now ops)) (\<lambda>lockTime.
     call (liftS (op_Insert ops lockColName (enc_MyLock lockObj lockTime))) (\<lambda>err.
       if err = None then ret LockSuccess
       else call (liftS (op_One ops lockColName (lock_query lockObj))) (\<lambda>found.
         case found of
           Inl err1 \<Rightarrow> ret LockDbErr
         | Inr lk \<Rightarrow>
             call (liftS (op_Now ops)) (\<lambda>now.
               if maxLockTime * second < now - get_time lk ''locktime'' then
                 call (unlock ops lockObj) (\<lambda>err2.
                   if err2 = LockSuccess then
                     call (liftS (op_Insert ops lockColName (enc_MyLock lockObj lockTime))) (\<lambda>err3.
                       ret (if err3 = None then LockSuccess else LockDbErr))
                   else ret LockDbErr)
               else ret LockBusy))))"

definition LockSched :: "'s mgo_ops \<Rightarrow> string \<Rightarrow> ('s, lock_result) prog" where
  "LockSched ops planId = lock ops planId 30"

definition UnlockSched :: "'s mgo_ops \<Rightarrow> string \<Rightarrow> ('s, lock_result) prog" where
  "UnlockSched ops planId = unlock ops planId"

text \<open>
  The prologue that the adapter's writers share: up to four attempts, a second apart, and the
  deferred \<open>unlock\<close> after the body.
\<close>

fun retry_lock :: "nat \<Rightarrow> 's mgo_ops \<Rightarrow> lock_result \<Rightarrow> ('s, lock_result) prog" where
  "retry_lock 0 ops r = ret r"
| "retry_lock (Suc left) ops r =
     (if r = LockSuccess then ret r
      else call (\<lambda>s. Return ((), op_Sleep ops second s)) (\<lambda>_.
        call (lock ops lockManager maxLockSec) (retry_lock left ops)))"

definition with_manager_lock :: "'s mgo_ops \<Rightarrow> 'a \<Rightarrow> ('s, 'a) prog \<Rightarrow> ('s, 'a) prog" where
  "with_manager_lock ops failed body =
     call (lock ops lockManager maxLockSec) (\<lambda>r. call (retry_lock 3 ops r) (\<lambda>r.
       if r = LockSuccess then call body (\<lambda>result. call (unlock ops lockManager) (\<lambda>_. ret result))
       else ret failed))"

section \<open>One client on a database that keeps its contract\<close>

context mgo_store begin

lemma unlock_frame:
  "unlock ops ob s = Return (r, s') \<Longrightarrow> c \<noteq> lockColName \<Longrightarrow> docs s' c = docs s c"
  by (auto simp: unlock_def call_def liftS_def ret_def split: prod.splits option.splits)
    (metis Remove_ok Remove_err fun_upd_other not_Some_eq)

lemma Insert_frame:
  "op_Insert ops c' d s = (r, s') \<Longrightarrow> c \<noteq> c' \<Longrightarrow> docs s' c = docs s c"
  by (cases r) (auto dest: Insert_ok Insert_err)

lemma lock_steps:
  assumes "lock ops ob m s = Return (r, s')"
  obtains (inserted) t s1 where "op_Now ops s = (t, s1)"
      "op_Insert ops lockColName (enc_MyLock ob t) s1 = (None, s')" "r = LockSuccess"
  | (not_found) t s1 e s2 e' where "op_Now ops s = (t, s1)"
      "op_Insert ops lockColName (enc_MyLock ob t) s1 = (Some e, s2)"
      "op_One ops lockColName (lock_query ob) s2 = (Inl e', s')" "r = LockDbErr"
  | (busy) t s1 e s2 lk s3 now where "op_Now ops s = (t, s1)"
      "op_Insert ops lockColName (enc_MyLock ob t) s1 = (Some e, s2)"
      "op_One ops lockColName (lock_query ob) s2 = (Inr lk, s3)" "op_Now ops s3 = (now, s')"
      "now - get_time lk ''locktime'' \<le> m * second" "r = LockBusy"
  | (expired) t s1 e s2 lk s3 now s4 r2 s5 where "op_Now ops s = (t, s1)"
      "op_Insert ops lockColName (enc_MyLock ob t) s1 = (Some e, s2)"
      "op_One ops lockColName (lock_query ob) s2 = (Inr lk, s3)" "op_Now ops s3 = (now, s4)"
      "m * second < now - get_time lk ''locktime''" "unlock ops ob s4 = Return (r2, s5)"
      "r2 \<noteq> LockSuccess \<and> r = LockDbErr \<and> s' = s5 \<or>
       r2 = LockSuccess \<and> (\<exists>e3. op_Insert ops lockColName (enc_MyLock ob t) s5 = (e3, s') \<and>
         r = (if e3 = None then LockSuccess else LockDbErr))"
proof -
  obtain t s1 where now: "op_Now ops s = (t, s1)" by (cases "op_Now ops s")
  obtain e s2 where ins: "op_Insert ops lockColName (enc_MyLock ob t) s1 = (e, s2)"
    by (cases "op_Insert ops lockColName (enc_MyLock ob t) s1")
  show thesis
  proof (cases e)
    case None
    with assms now ins show thesis by (intro inserted) (auto simp: lock_def call_def liftS_def ret_def)
  next
    case (Some x)
    obtain f s3 where one: "op_One ops lockColName (lock_query ob) s2 = (f, s3)"
      by (cases "op_One ops lockColName (lock_query ob) s2")
    show thesis
    proof (cases f)
      case (Inl e')
      with assms now ins one Some show thesis
        by (intro not_found) (auto simp: lock_def call_def liftS_def ret_def)
    next
      case (Inr lk)
      obtain n s4 where now2: "op_Now ops s3 = (n, s4)" by (cases "op_Now ops s3")
      show thesis
      proof (cases "m * second < n - get_time lk ''locktime''")
        case False
        with assms now ins one Some Inr now2 show thesis
          by (intro busy) (auto simp: lock_def call_def liftS_def ret_def)
      next
        case True
        with assms now ins one Some Inr now2
        have rest: "call (unlock ops ob) (\<lambda>err2.
                   if err2 = LockSuccess then
                     call (liftS (op_Insert ops lockColName (enc_MyLock ob t))) (\<lambda>err3.
                       ret (if err3 = None then LockSuccess else LockDbErr))
                   else ret LockDbErr) s4 = Return (r, s')"
          by (simp add: lock_def call_def liftS_def)
        then obtain r2 s5 where un: "unlock ops ob s4 = Return (r2, s5)"
          and tail: "(if r2 = LockSuccess then
                     call (liftS (op_Insert ops lockColName (enc_MyLock ob t))) (\<lambda>err3.
                       ret (if err3 = None then LockSuccess else LockDbErr))
                   else ret LockDbErr) s5 = Return (r, s')"
          by (rule call_ReturnE)
        from tail have "r2 \<noteq> LockSuccess \<and> r = LockDbErr \<and> s' = s5 \<or>
            r2 = LockSuccess \<and> (\<exists>e3. op_Insert ops lockColName (enc_MyLock ob t) s5 = (e3, s') \<and>
              r = (if e3 = None then LockSuccess else LockDbErr))"
          by (cases "op_Insert ops lockColName (enc_MyLock ob t) s5")
            (auto simp: call_def liftS_def ret_def split: if_splits)
        with now ins one Some Inr now2 True un show thesis by (intro expired) auto
      qed
    qed
  qed
qed

lemma lock_frame:
  assumes "lock ops ob m s = Return (r, s')" and "c \<noteq> lockColName"
  shows "docs s' c = docs s c"
  using assms(1)
proof (cases rule: lock_steps)
  case inserted
  with assms(2) show ?thesis by (metis Now Insert_frame)
next
  case not_found
  with assms(2) show ?thesis by (metis Now Insert_frame One_docs)
next
  case busy
  with assms(2) show ?thesis by (metis Now Insert_frame One_docs)
next
  case (expired t s1 e s2 lk s3 now s4 r2 s5)
  have "docs s1 c = docs s c" "docs s2 c = docs s1 c" "docs s3 c = docs s2 c" "docs s4 c = docs s3 c"
    using expired assms(2) by (metis Now, metis Insert_frame, metis One_docs, metis Now)
  moreover have "docs s5 c = docs s4 c" using unlock_frame expired(6) assms(2) by blast
  moreover have "docs s' c = docs s5 c" using expired(7) Insert_frame assms(2) by blast
  ultimately show ?thesis by simp
qed

lemma retry_lock_frame:
  "retry_lock n ops r s = Return (r', s') \<Longrightarrow> c \<noteq> lockColName \<Longrightarrow> docs s' c = docs s c"
proof (induction n arbitrary: r s)
  case 0
  then show ?case by (simp add: ret_def)
next
  case (Suc n)
  show ?case
  proof (cases "r = LockSuccess")
    case True
    with Suc.prems show ?thesis by (simp add: ret_def)
  next
    case False
    with Suc.prems obtain r1 s1 where "lock ops lockManager maxLockSec (op_Sleep ops second s) = Return (r1, s1)"
      and "retry_lock n ops r1 s1 = Return (r', s')"
      by (auto simp: call_def elim!: go_bind_ReturnE)
    with Suc.IH Suc.prems(2) lock_frame Sleep show ?thesis by metis
  qed
qed

lemma with_manager_lock_run:
  assumes "with_manager_lock ops failed body s = Return (r, s')"
  obtains (failed) "r = failed" "\<And>c. c \<noteq> lockColName \<Longrightarrow> docs s' c = docs s c"
  | (run) s1 s2 where "\<And>c. c \<noteq> lockColName \<Longrightarrow> docs s1 c = docs s c" "body s1 = Return (r, s2)"
      "\<And>c. c \<noteq> lockColName \<Longrightarrow> docs s' c = docs s2 c"
proof -
  obtain r0 s0 r1 s1 where lock: "lock ops lockManager maxLockSec s = Return (r0, s0)"
    "retry_lock 3 ops r0 s0 = Return (r1, s1)"
    and rest: "(if r1 = LockSuccess then call body (\<lambda>result. call (unlock ops lockManager) (\<lambda>_. ret result))
       else ret failed) s1 = Return (r, s')"
    using assms by (auto simp: with_manager_lock_def call_Return_iff)
  have frame: "docs s1 c = docs s c" if "c \<noteq> lockColName" for c
    using lock_frame [OF lock(1) that] retry_lock_frame [OF lock(2) that] by simp
  show thesis
  proof (cases "r1 = LockSuccess")
    case True
    with rest obtain s2 r2 where "body s1 = Return (r, s2)" "unlock ops lockManager s2 = Return (r2, s')"
      by (auto simp: call_Return_iff ret_def)
    then show thesis using run frame unlock_frame by blast
  next
    case False
    with rest have "r = failed" "s' = s1" by (auto simp: ret_def)
    then show thesis using failed frame by blast
  qed
qed

definition locked :: "'s \<Rightarrow> string \<Rightarrow> bool" where
  "locked s ob \<longleftrightarrow> (\<exists>d \<in> set (docs s lockColName). field_is d (''lockobj'', BString ob))"

lemma lock_query_matches: "matches (lock_query ob) d \<longleftrightarrow> field_is d (''lockobj'', BString ob)"
  by (simp add: lock_query_def)

lemma inserted_locked: "op_Insert ops lockColName (enc_MyLock ob t) s = (None, s') \<Longrightarrow> locked s' ob"
  by (auto dest!: Insert_ok simp: locked_def enc_MyLock_def field_is_plain)

lemma lock_result_meaning:
  assumes "lock ops ob m s = Return (r, s')"
  shows "(r = LockSuccess \<longrightarrow> locked s' ob) \<and> (r = LockBusy \<longrightarrow> locked s' ob \<and> docs s' = docs s)"
  using assms
proof (cases rule: lock_steps)
  case inserted
  then show ?thesis using inserted_locked by auto
next
  case not_found
  then show ?thesis by simp
next
  case (busy t s1 e s2 lk s3 now)
  have "docs s' = docs s" using busy by (metis Now Insert_err One_ok)
  moreover have "locked s' ob"
    using One_ok [OF busy(3)] Now [OF busy(4)] find_SomeD' lock_query_matches
    unfolding locked_def by metis
  ultimately show ?thesis using busy by simp
next
  case (expired t s1 e s2 lk s3 now s4 r2 s5)
  then show ?thesis using inserted_locked by (auto split: if_splits)
qed

end

section \<open>Several clients\<close>

text \<open>
  The same actions, one database operation or clock reading at a time. The shared state is the
  lock's document, if any, by its time, and the clock. \<open>Insert1 t\<close> is a client about to insert a
  document of time \<open>t\<close>, \<open>Check t lt\<close> one that has read a document of time \<open>lt\<close>, and so on.
\<close>

datatype lock_pc =
    Start
  | Insert1 int
  | Find int
  | Check int int
  | Remove int
  | Insert2 int
  | Done lock_result

type_synonym lock_shared = "int option \<times> int"

fun lock_action :: "int \<Rightarrow> lock_pc \<Rightarrow> lock_shared \<Rightarrow> lock_pc \<times> lock_shared" where
  "lock_action m Start (d, now) = (Insert1 now, d, now)"
| "lock_action m (Insert1 t) (d, now) =
     (case d of None \<Rightarrow> (Done LockSuccess, Some t, now) | Some _ \<Rightarrow> (Find t, d, now))"
| "lock_action m (Find t) (d, now) =
     (case d of None \<Rightarrow> (Done LockDbErr, d, now) | Some lt \<Rightarrow> (Check t lt, d, now))"
| "lock_action m (Check t lt) (d, now) =
     (if m * second < now - lt then (Remove t, d, now) else (Done LockBusy, d, now))"
| "lock_action m (Remove t) (d, now) =
     (case d of None \<Rightarrow> (Done LockDbErr, d, now) | Some _ \<Rightarrow> (Insert2 t, None, now))"
| "lock_action m (Insert2 t) (d, now) =
     (case d of None \<Rightarrow> (Done LockSuccess, Some t, now) | Some _ \<Rightarrow> (Done LockDbErr, d, now))"
| "lock_action m (Done r) s = (Done r, s)"

primrec lock_run :: "nat \<Rightarrow> int \<Rightarrow> lock_pc \<times> lock_shared \<Rightarrow> lock_pc \<times> lock_shared" where
  "lock_run 0 m x = x"
| "lock_run (Suc n) m x = lock_run n m (lock_action m (fst x) (snd x))"

text \<open>The lock's document in the in-memory world.\<close>

definition mem_lock :: "string \<Rightarrow> mem \<Rightarrow> int option" where
  "mem_lock ob s = map_option (\<lambda>d. get_time d ''locktime'')
     (List.find (matches (lock_query ob)) (mem_docs s lockColName))"

definition single_lock :: "string \<Rightarrow> mem \<Rightarrow> bool" where
  "single_lock ob s \<longleftrightarrow> length (List.filter (matches (lock_query ob)) (mem_docs s lockColName)) \<le> 1"

lemma find_remove_first:
  "length (List.filter P xs) \<le> 1 \<Longrightarrow> List.find P (remove_first P xs) = None"
  by (induction xs) (auto simp: find_None_filter)

lemma conflict_lock:
  "conflict (mem_keys lockColName) (enc_MyLock ob t) ds \<longleftrightarrow> List.find (matches (lock_query ob)) ds \<noteq> None"
  unfolding find_None_filter filter_empty_conv
  by (auto simp: conflict_def mem_keys_def lockColName_def enc_MyLock_def list_ex_iff
      mem.lock_query_matches field_is_plain)

lemma mem_Insert_lock:
  "op_Insert mem_ops lockColName (enc_MyLock ob t) s =
     (if mem_lock ob s = None then (None, mem_put lockColName (mem_docs s lockColName @ [enc_MyLock ob t]) s)
      else (Some ErrDup, s))"
  by (simp add: mem_ops_def conflict_lock mem_lock_def)

lemma mem_lock_inserted:
  "mem_lock ob s = None \<Longrightarrow>
   mem_lock ob (mem_put lockColName (mem_docs s lockColName @ [enc_MyLock ob t]) s) = Some t"
  by (simp add: mem_lock_def find_append mem.lock_query_matches field_is_plain enc_MyLock_def get_time_def)

lemma mem_unlock_lock:
  "unlock mem_ops ob s =
     (if mem_lock ob s = None then Return (LockDbErr, s)
      else Return (LockSuccess, mem_put lockColName (remove_first (matches (lock_query ob)) (mem_docs s lockColName)) s))"
  by (auto simp: unlock_def call_def liftS_def ret_def mem_ops_def mem_lock_def split: option.splits)

lemma mem_lock_removed:
  "single_lock ob s \<Longrightarrow>
   mem_lock ob (mem_put lockColName (remove_first (matches (lock_query ob)) (mem_docs s lockColName)) s) = None"
  by (simp add: mem_lock_def single_lock_def find_remove_first)

lemma mem_One_lock:
  "op_One mem_ops lockColName (lock_query ob) s =
     (case List.find (matches (lock_query ob)) (mem_docs s lockColName) of
        None \<Rightarrow> (Inl ErrNotFound, s) | Some d \<Rightarrow> (Inr d, s))"
  by (simp add: mem_ops_def)

lemma mem_Now: "op_Now mem_ops s = (m_clock s, s)"
  by (simp add: mem_ops_def)

text \<open>
  The interleaved actions are those of the code: run alone, they give the result of \<open>lock\<close>
  and leave the lock's document as \<open>lock\<close> does.
\<close>

theorem lock_run_alone:
  assumes "single_lock ob s"
  shows "\<exists>r s'. lock mem_ops ob m s = Return (r, s') \<and>
    lock_run 6 m (Start, mem_lock ob s, m_clock s) = (Done r, mem_lock ob s', m_clock s')"
proof (cases "mem_lock ob s")
  case None
  then have "lock mem_ops ob m s = Return (LockSuccess,
      mem_put lockColName (mem_docs s lockColName @ [enc_MyLock ob (m_clock s)]) s)"
    by (simp add: lock_def call_def liftS_def ret_def mem_Now mem_Insert_lock)
  with None mem_lock_inserted [OF None] show ?thesis by (simp add: eval_nat_numeral)
next
  case (Some lt)
  then obtain d where d: "List.find (matches (lock_query ob)) (mem_docs s lockColName) = Some d"
    "get_time d ''locktime'' = lt" by (auto simp: mem_lock_def)
  show ?thesis
  proof (cases "m * second < m_clock s - lt")
    case False
    with Some d have "lock mem_ops ob m s = Return (LockBusy, s)"
      by (simp add: lock_def call_def liftS_def ret_def mem_Now mem_Insert_lock mem_One_lock)
    with Some False show ?thesis by (simp add: eval_nat_numeral)
  next
    case True
    let ?s1 = "mem_put lockColName (remove_first (matches (lock_query ob)) (mem_docs s lockColName)) s"
    have none: "mem_lock ob ?s1 = None" by (rule mem_lock_removed [OF assms])
    from Some d True none have "lock mem_ops ob m s = Return (LockSuccess,
        mem_put lockColName (mem_docs ?s1 lockColName @ [enc_MyLock ob (m_clock s)]) ?s1)"
      by (simp add: lock_def call_def liftS_def ret_def mem_Now mem_Insert_lock mem_One_lock mem_unlock_lock
          del: mem_docs_put)
    with Some True mem_lock_inserted [OF none] show ?thesis
      by (simp add: eval_nat_numeral del: mem_docs_put)
  qed
qed

theorem lock_run_alone_witness:
  "\<exists>r s'. lock mem_ops ''manager'' 5 \<lparr>m_docs = [], m_clock = 7, m_ids = []\<rparr> = Return (r, s') \<and>
     lock_run 6 5 (Start, mem_lock ''manager'' \<lparr>m_docs = [], m_clock = 7, m_ids = []\<rparr>, 7) =
       (Done r, mem_lock ''manager'' s', m_clock s')"
  using lock_run_alone [of "''manager''" "\<lparr>m_docs = [], m_clock = 7, m_ids = []\<rparr>" 5]
  by (simp add: single_lock_def mem_docs_def)

section \<open>The machine\<close>

type_synonym 'p lock_system = "('p \<Rightarrow> lock_pc) \<times> lock_shared"

definition lock_init :: "'p lock_system \<Rightarrow> bool" where
  "lock_init x \<longleftrightarrow> fst x = (\<lambda>_. Start) \<and> fst (snd x) = None"

text \<open>
  A client whose call has ended may start another one; the holder removes the lock's document
  first, whoever's it is.
\<close>

inductive lock_step :: "int \<Rightarrow> 'p lock_system \<Rightarrow> 'p lock_system \<Rightarrow> bool" for m where
  Act: "lock_action m (pcs p) sh = (pc', sh') \<Longrightarrow> lock_step m (pcs, sh) (pcs(p := pc'), sh')"
| Release: "pcs p = Done r \<Longrightarrow>
    lock_step m (pcs, (d, now)) (pcs(p := Start), (if r = LockSuccess then None else d, now))"
| Tick: "now \<le> now' \<Longrightarrow> lock_step m (pcs, (d, now)) (pcs, (d, now'))"

text \<open>
  The times that are still in play: of the lock's document and of clients that are about to use a
  time they read. \<open>timely\<close> says that none is older than the maximum.
\<close>

definition in_play :: "'p lock_system \<Rightarrow> int \<Rightarrow> bool" where
  "in_play x lt \<longleftrightarrow> fst (snd x) = Some lt \<or> (\<exists>p. fst x p = Insert1 lt \<or> (\<exists>t. fst x p = Check t lt))"

definition timely :: "int \<Rightarrow> 'p lock_system \<Rightarrow> bool" where
  "timely m x \<longleftrightarrow> (\<forall>lt. in_play x lt \<longrightarrow> snd (snd x) - lt \<le> m * second)"

definition timely_step :: "int \<Rightarrow> 'p lock_system \<Rightarrow> 'p lock_system \<Rightarrow> bool" where
  "timely_step m x y \<longleftrightarrow> lock_step m x y \<and> timely m y"

definition lock_inv :: "int \<Rightarrow> 'p lock_system \<Rightarrow> bool" where
  "lock_inv m x \<longleftrightarrow> timely m x \<and>
     (\<forall>p t. fst x p \<noteq> Remove t \<and> fst x p \<noteq> Insert2 t) \<and>
     (\<forall>p. fst x p = Done LockSuccess \<longrightarrow> fst (snd x) \<noteq> None) \<and>
     (\<forall>p q. fst x p = Done LockSuccess \<longrightarrow> fst x q = Done LockSuccess \<longrightarrow> p = q)"

inductive_cases lock_stepE: "lock_step m x y"

lemma lock_inv_act:
  assumes inv: "lock_inv m (pcs, sh)" and act: "lock_action m (pcs p) sh = (pc', sh')"
    and fresh: "timely m (pcs(p := pc'), sh')"
  shows "lock_inv m (pcs(p := pc'), sh')"
proof -
  obtain d now where sh: "sh = (d, now)" by (cases sh)
  show ?thesis
  proof (cases "pcs p")
    case (Check t lt)
    then have "in_play (pcs, sh) lt" by (auto simp: in_play_def)
    with inv sh have "now - lt \<le> m * second" by (auto simp: lock_inv_def timely_def)
    with Check act sh inv fresh show ?thesis by (auto simp: lock_inv_def)
  next
    case (Insert1 t)
    with act sh inv fresh show ?thesis by (auto simp: lock_inv_def split: option.splits)
  next
    case (Remove t)
    with inv show ?thesis by (auto simp: lock_inv_def)
  next
    case (Insert2 t)
    with inv show ?thesis by (auto simp: lock_inv_def)
  next
    case (Find t)
    with act sh inv fresh show ?thesis by (auto simp: lock_inv_def split: option.splits)
  next
    case Start
    with act sh inv fresh show ?thesis by (auto simp: lock_inv_def)
  next
    case (Done r)
    with act sh inv show ?thesis by (auto simp: fun_upd_idem)
  qed
qed

lemma lock_inv_step: "lock_inv m x \<Longrightarrow> timely_step m x y \<Longrightarrow> lock_inv m y"
  unfolding timely_step_def
proof (elim conjE, cases rule: lock_stepE, assumption)
  fix pcs p sh pc' sh'
  assume "lock_inv m x" "timely m y" "x = (pcs, sh)" "y = (pcs(p := pc'), sh')"
    "lock_action m (pcs p) sh = (pc', sh')"
  then show ?thesis using lock_inv_act [of m pcs sh p pc' sh'] by simp
next
  fix pcs p r d now
  assume "lock_inv m x" "timely m y" "x = (pcs, d, now)" "pcs p = Done r"
    "y = (pcs(p := Start), if r = LockSuccess then None else d, now)"
  then show ?thesis by (auto simp: lock_inv_def)
next
  fix now now' pcs d
  assume "lock_inv m x" "timely m y" "x = (pcs, d, now)" "y = (pcs, d, now')"
  then show ?thesis by (auto simp: lock_inv_def)
qed

interpretation timely_lock: step_invariant "\<lambda>x. lock_init x" "timely_step m" "lock_inv m" for m
proof
  show "lock_inv m x" if "lock_init x" for x :: "'a lock_system"
    using that by (auto simp: lock_init_def lock_inv_def timely_def in_play_def)
  show "lock_inv m y" if "lock_inv m x" "timely_step m x y" for x y :: "'a lock_system"
    using that by (rule lock_inv_step)
qed

text \<open>
  C14. Mutual exclusion under a timing assumption: as long as no time in play is older than the
  maximum, at most one client holds the lock.
\<close>

theorem timely_mutual_exclusion:
  assumes "reaches (timely_step m) (\<lambda>_. Start, None, now0) (pcs, sh)"
    and "pcs p = Done LockSuccess" and "pcs q = Done LockSuccess"
  shows "p = q"
proof -
  have "lock_inv m (pcs, sh)"
    by (rule timely_lock.inv_reachable [OF _ assms(1)]) (simp add: lock_init_def)
  with assms(2,3) show ?thesis by (auto simp: lock_inv_def)
qed

lemma lock_acquired:
  fixes p :: nat
  shows "reaches (timely_step 5) (\<lambda>_. Start, None, 0) ((\<lambda>_. Start)(p := Done LockSuccess), Some 0, 0)"
proof -
  let ?x1 = "((\<lambda>_. Start)(p := Insert1 0), None, 0) :: nat lock_system"
  have 1: "timely_step 5 (\<lambda>_. Start, None, 0) ?x1"
    unfolding timely_step_def
    by (intro conjI lock_step.Act) (auto simp: timely_def in_play_def second_def split: if_splits)
  have "lock_step 5 ?x1 (((\<lambda>_. Start)(p := Insert1 0))(p := Done LockSuccess), Some 0, 0)"
    by (rule lock_step.Act) simp
  then have 2: "timely_step 5 ?x1 ((\<lambda>_. Start)(p := Done LockSuccess), Some 0, 0)"
    by (auto simp: timely_step_def timely_def in_play_def second_def split: if_splits)
  from 1 2 show ?thesis by (blast intro: reaches.intros)
qed

theorem timely_mutual_exclusion_witness:
  "\<exists>pcs sh. reaches (timely_step 5) (\<lambda>_. Start, None, 0) (pcs, sh) \<and> pcs (0::nat) = Done LockSuccess \<and>
     (\<forall>q. pcs q = Done LockSuccess \<longrightarrow> q = 0)"
proof -
  let ?pcs = "(\<lambda>_. Start)(0::nat := Done LockSuccess)"
  have reached: "reaches (timely_step 5) (\<lambda>_. Start, None, 0) (?pcs, Some 0, 0)" by (rule lock_acquired)
  have holds: "?pcs 0 = Done LockSuccess" by simp
  have "\<forall>q. ?pcs q = Done LockSuccess \<longrightarrow> q = 0"
    using timely_mutual_exclusion [OF reached _ holds] by blast
  with reached holds show ?thesis by blast
qed

text \<open>The clock of the machine never goes back, so equal clocks mean that no time passed.\<close>

lemma lock_action_clock: "lock_action m pc sh = (pc', sh') \<Longrightarrow> snd sh' = snd sh"
  by (cases sh; cases pc) (auto split: option.splits if_splits)

lemma lock_clock_mono: "reaches (lock_step m) x y \<Longrightarrow> snd (snd x) \<le> snd (snd y)"
proof (induction rule: reaches.induct)
  case (reaches_step s t u)
  have "snd (snd t) \<le> snd (snd u)"
    using reaches_step.hyps(2) by (auto elim!: lock_stepE dest: lock_action_clock)
  with reaches_step.IH show ?case by simp
qed simp

lemma act_then:
  "reaches (lock_step m) (pcs(p := pc'), sh') y \<Longrightarrow> lock_action m (pcs p) sh = (pc', sh') \<Longrightarrow>
   reaches (lock_step m) (pcs, sh) y"
  by (blast intro: reaches_front [where step = "lock_step m"] lock_step.Act)

lemma release_then:
  "reaches (lock_step m) (pcs(p := Start), None, now) y \<Longrightarrow> pcs p = Done LockSuccess \<Longrightarrow>
   reaches (lock_step m) (pcs, (d, now)) y"
  using lock_step.Release [of pcs p LockSuccess m d now] reaches_front [where step = "lock_step m"] by simp

lemma tick_then:
  "reaches (lock_step m) (pcs, (d, now')) y \<Longrightarrow> now \<le> now' \<Longrightarrow> reaches (lock_step m) (pcs, (d, now)) y"
  by (blast intro: reaches_front [where step = "lock_step m"] lock_step.Tick)

lemma reaches_same: "x = y \<Longrightarrow> reaches step x y"
  by (simp add: reaches_refl)

text \<open>
  C19. Without the assumption the lock is stolen even from a holder that has held it for no time at
  all: a client that was slow between reading the document and the clock removes the new holder's
  document, which it identifies by the object's name only, and both hold the lock.
\<close>

theorem fresh_lock_stolen:
  assumes "p \<noteq> q" and "0 \<le> m"
  shows "\<exists>pcs now pcs' d.
    reaches (lock_step m) (\<lambda>_. Start, None, 0) (pcs, Some now, now) \<and>
    pcs p = Done LockSuccess \<and> pcs q \<noteq> Done LockSuccess \<and>
    reaches (lock_step m) (pcs, Some now, now) (pcs', d, now) \<and>
    pcs' p = Done LockSuccess \<and> pcs' q = Done LockSuccess"
proof -
  define now where "now = m * second + 1"
  have pos: "0 \<le> now" "m * second < now" using assms(2) by (simp_all add: now_def second_def)
  let ?S = "\<lambda>_. Start"
  let ?mid = "(?S(q := Check 0 0))(p := Done LockSuccess)"
  have first: "reaches (lock_step m) (?S, None, 0) (?mid, Some now, now)"
    apply (rule act_then [where p = p], rule act_then [where p = p])
    apply (rule act_then [where p = q], rule act_then [where p = q], rule act_then [where p = q])
    apply (rule release_then [where p = p], rule tick_then [where now' = now])
    apply (rule act_then [where p = p], rule act_then [where p = p], rule reaches_same)
    using assms(1) pos(1) by (auto simp: fun_eq_iff)
  have second: "reaches (lock_step m) (?mid, Some now, now) (?mid(q := Done LockSuccess), Some 0, now)"
    apply (rule act_then [where p = q], rule act_then [where p = q], rule act_then [where p = q])
    apply (rule reaches_same)
    using assms(1) pos(2) by (auto simp: fun_eq_iff)
  show ?thesis
    using first second assms(1)
    by (intro exI [of _ ?mid] exI [of _ now] exI [of _ "?mid(q := Done LockSuccess)"] exI [of _ "Some 0"]) simp
qed

theorem fresh_lock_stolen_witness:
  "\<exists>pcs now pcs' d.
    reaches (lock_step 30) (\<lambda>_. Start, None, 0) (pcs, Some now, now) \<and>
    pcs True = Done LockSuccess \<and> pcs False \<noteq> Done LockSuccess \<and>
    reaches (lock_step 30) (pcs, Some now, now) (pcs', d, now) \<and>
    pcs' True = Done LockSuccess \<and> pcs' False = Done LockSuccess"
  by (rule fresh_lock_stolen) simp_all

end
