(* ===== verification/Dataflow_Mongo.thy ===== *)
theory Dataflow_Mongo
  imports Dataflow_Lock Api_Context
begin

text \<open>
  The database adapter of the dataflow service (\<open>dataflow/pkg/db/drivers/mongo/mongo.go\<close>): policies,
  plans and jobs. Every operation is a program on the world of an \<open>mgo_ops\<close>; its result is an error
  on the left or a value on the right (an optional error where the code returns only that).
\<close>

section \<open>Names\<close>

definition DataBaseName :: string where "DataBaseName = ''multi-cloud''"
definition CollPolicy :: string where "CollPolicy = ''policy''"
definition CollJob :: string where "CollJob = ''job''"
definition CollPlan :: string where "CollPlan = ''plan''"

lemmas coll_names = CollPolicy_def CollJob_def CollPlan_def lockColName_def

definition isAdmin :: "FilterContext \<Rightarrow> bool" where
  "isAdmin ctx = fc_IsAdmin ctx"

definition id_query :: "string \<Rightarrow> mquery" where
  "id_query i = Match [(''_id'', BId i)]"

section \<open>Policies\<close>

definition CreatePolicy :: "'s mgo_ops \<Rightarrow> FilterContext \<Rightarrow> Policy \<Rightarrow> ('s, df_err + Policy) prog" where
  "CreatePolicy ops ctx pol =
     call (liftS (op_NewObjectId ops)) (\<lambda>newId.
       let pol = pol\<lparr>pol_Tenant := fc_TenantId ctx, pol_Id := newId\<rparr>
       in call (liftS (op_Insert ops CollPolicy (enc_Policy pol))) (\<lambda>err.
            ret (if err \<noteq> None then Inl ERR_DB_ERR else Inr pol)))"

text \<open>The query that is meant to find the plans of a policy, with its field names.\<close>

definition policy_ref_query :: "string \<Rightarrow> mquery" where
  "policy_ref_query i = Match [(''policy_ref:$ref'', BString CollPolicy), (''policy_ref:$id'', BId i),
     (''policy_ref.$db'', BString DataBaseName)]"

definition delete_unused :: "'s mgo_ops \<Rightarrow> Policy \<Rightarrow> ('s, df_err option) prog" where
  "delete_unused ops po =
     call (liftS (op_Count ops CollPlan (policy_ref_query (pol_Id po)))) (\<lambda>count.
       case count of
         Inl _ \<Rightarrow> ret (Some ERR_DB_ERR)
       | Inr n \<Rightarrow>
           (if n > 0 then ret (Some ERR_IS_USED_BY_PLAN)
            else call (liftS (op_Remove ops CollPolicy (id_query (pol_Id po)))) (\<lambda>err.
              ret (case err of
                     None \<Rightarrow> None
                   | Some e \<Rightarrow> Some (if e = ErrNotFound then ERR_POLICY_NOT_EXIST else ERR_DB_ERR)))))"

definition DeletePolicy :: "'s mgo_ops \<Rightarrow> FilterContext \<Rightarrow> string \<Rightarrow> ('s, df_err option) prog" where
  "DeletePolicy ops ctx i =
     with_manager_lock ops (Some ERR_INNER_ERR)
       (call (lift_go (ObjectIdHex i)) (\<lambda>oid.
        call (liftS (op_One ops CollPolicy
                (Match [(''_id'', BId oid), (''tenant'', BString (fc_TenantId ctx))]))) (\<lambda>found.
          case found of
            Inl err \<Rightarrow> ret (Some (if err = ErrNotFound then ERR_POLICY_NOT_EXIST else ERR_DB_ERR))
          | Inr d \<Rightarrow> delete_unused ops (dec_Policy d))))"

definition ListPolicy :: "'s mgo_ops \<Rightarrow> FilterContext \<Rightarrow> ('s, df_err + Policy list) prog" where
  "ListPolicy ops ctx =
     (let m = (if isAdmin ctx then [] else [(''tenant'', BString (fc_TenantId ctx))])
      in call (liftS (op_All ops CollPolicy (Match m) 0 0)) (\<lambda>found.
           ret (case found of
                  Inr ds \<Rightarrow> Inr (map dec_Policy ds)
                | Inl _ \<Rightarrow> Inr [])))"

definition GetPolicy :: "'s mgo_ops \<Rightarrow> FilterContext \<Rightarrow> string \<Rightarrow> ('s, df_err + Policy) prog" where
  "GetPolicy ops ctx i =
     call (lift_go (ObjectIdHex i)) (\<lambda>oid.
     call (liftS (op_One ops CollPolicy
             (Match [(''_id'', BId oid), (''tenant'', BString (fc_TenantId ctx))]))) (\<lambda>found.
       ret (case found of
              Inl err \<Rightarrow> (if err = ErrNotFound then Inl ERR_POLICY_NOT_EXIST else Inr (dec_Policy []))
            | Inr d \<Rightarrow> Inr (dec_Policy d))))"

definition UpdatePolicy :: "'s mgo_ops \<Rightarrow> FilterContext \<Rightarrow> Policy \<Rightarrow> ('s, df_err + Policy) prog" where
  "UpdatePolicy ops ctx newPol =
     with_manager_lock ops (Inl ERR_INNER_ERR)
       (call (liftS (op_Update ops CollPolicy (id_query (pol_Id newPol)) (enc_Policy newPol))) (\<lambda>err.
         ret (case err of
                None \<Rightarrow> Inr newPol
              | Some e \<Rightarrow> Inl (if e = ErrNotFound then ERR_POLICY_NOT_EXIST else ERR_DB_ERR))))"

section \<open>Plans\<close>

definition checkPlanRelateObj :: "'s mgo_ops \<Rightarrow> Plan \<Rightarrow> ('s, df_err option) prog" where
  "checkPlanRelateObj ops plan =
     (if pln_PolicyId plan = [] then ret None
      else call (lift_go (ObjectIdHex (pln_PolicyId plan))) (\<lambda>oid.
        call (liftS (op_One ops CollPolicy (id_query oid))) (\<lambda>found.
          ret (case found of Inl _ \<Rightarrow> Some ERR_POLICY_NOT_EXIST | Inr _ \<Rightarrow> None))))"

definition policy_DBRef :: "string \<Rightarrow> DBRef" where
  "policy_DBRef i = \<lparr>ref_Collection = CollPolicy, ref_Id = Some i, ref_Database = DataBaseName\<rparr>"

text \<open>The loop that inserts under a fresh id, up to three times while the id is taken.\<close>

fun insert_plan :: "nat \<Rightarrow> 's mgo_ops \<Rightarrow> Plan \<Rightarrow> mgo_err option \<Rightarrow> ('s, df_err + Plan) prog" where
  "insert_plan 0 ops plan err = ret (case err of None \<Rightarrow> Inr plan | Some e \<Rightarrow> Inl (DriverError e))"
| "insert_plan (Suc left) ops plan err =
     call (liftS (op_NewObjectId ops)) (\<lambda>newId.
       let plan = plan\<lparr>pln_Id := newId\<rparr>
       in call (liftS (op_Insert ops CollPlan (enc_Plan plan))) (\<lambda>err.
            if err = Some ErrDup then insert_plan left ops plan err
            else ret (case err of None \<Rightarrow> Inr plan | Some e \<Rightarrow> Inl (DriverError e))))"

text \<open>The second half of \<open>CreatePlan\<close>: the related objects are checked and the plan inserted.\<close>

definition create_checked :: "'s mgo_ops \<Rightarrow> Plan \<Rightarrow> ('s, df_err + Plan) prog" where
  "create_checked ops plan =
     call (checkPlanRelateObj ops plan) (\<lambda>err.
       case err of
         Some e \<Rightarrow> ret (Inl e)
       | None \<Rightarrow>
           (if pln_PolicyId plan = [] then insert_plan 3 ops plan None
            else if IsObjectIdHex (pln_PolicyId plan) then
              call (lift_go (ObjectIdHex (pln_PolicyId plan))) (\<lambda>oid.
                insert_plan 3 ops (plan\<lparr>pln_PolicyRef := policy_DBRef oid\<rparr>) None)
            else ret (Inl ERR_POLICY_NOT_EXIST)))"

definition CreatePlan :: "'s mgo_ops \<Rightarrow> FilterContext \<Rightarrow> Plan \<Rightarrow> ('s, df_err + Plan) prog" where
  "CreatePlan ops ctx plan =
     (let plan = plan\<lparr>pln_TenantId := fc_TenantId ctx\<rparr>
      in with_manager_lock ops (Inl ERR_INNER_ERR)
        (call (liftS (op_All ops CollPlan (Match [(''name'', BString (pln_Name plan))]) 0 0)) (\<lambda>found.
           case found of
             Inr (p # ps) \<Rightarrow> ret (Inl (DuplicateName (pln_Name plan)))
           | _ \<Rightarrow> create_checked ops plan)))"

definition DeletePlan :: "'s mgo_ops \<Rightarrow> FilterContext \<Rightarrow> string \<Rightarrow> ('s, df_err option) prog" where
  "DeletePlan ops ctx i =
     with_manager_lock ops (Some ERR_INNER_ERR)
       (call (lift_go (ObjectIdHex i)) (\<lambda>oid.
        call (liftS (op_One ops CollPlan
                (Match [(''_id'', BId oid), (''tenantId'', BString (fc_TenantId ctx))]))) (\<lambda>found.
          case found of
            Inl err \<Rightarrow> ret (Some (if err = ErrNotFound then ERR_PLAN_NOT_EXIST else ERR_DB_ERR))
          | Inr d \<Rightarrow>
              call (liftS (op_Remove ops CollPlan (id_query (pln_Id (dec_Plan d))))) (\<lambda>err.
                ret (case err of
                       None \<Rightarrow> None
                     | Some e \<Rightarrow> Some (if e = ErrNotFound then ERR_PLAN_NOT_EXIST else ERR_DB_ERR))))))"

definition UpdatePlan :: "'s mgo_ops \<Rightarrow> FilterContext \<Rightarrow> Plan \<Rightarrow> ('s, df_err + Plan) prog" where
  "UpdatePlan ops ctx plan =
     with_manager_lock ops (Inl ERR_INNER_ERR)
       (call (checkPlanRelateObj ops plan) (\<lambda>err.
          let write = (\<lambda>plan.
                call (liftS (op_Update ops CollPlan (id_query (pln_Id plan)) (enc_Plan plan))) (\<lambda>err.
                  ret (case err of
                         None \<Rightarrow> Inr plan
                       | Some e \<Rightarrow> Inl (if e = ErrNotFound then ERR_PLAN_NOT_EXIST else ERR_DB_ERR))))
          in case err of
               Some e \<Rightarrow> ret (Inl e)
             | None \<Rightarrow>
                 (if pln_PolicyId plan = [] then write (plan\<lparr>pln_PolicyRef := zero_DBRef\<rparr>)
                  else if IsObjectIdHex (pln_PolicyId plan) then
                    call (lift_go (ObjectIdHex (pln_PolicyId plan))) (\<lambda>oid.
                      write (plan\<lparr>pln_PolicyRef := policy_DBRef oid\<rparr>))
                  else ret (Inl ERR_POLICY_NOT_EXIST))))"

text \<open>
  The filter is an interface value: nil, a \<open>map[string]string\<close>, or the \<open>bson.M\<close> of
  \<open>GetPlanByPolicy\<close>, which is another type.
\<close>

datatype list_filter = NoFilter | StringMap "(string, string) gomap" | BsonM "(string \<times> bval) list"

definition FindRef :: "'s mgo_ops \<Rightarrow> DBRef \<Rightarrow> 's \<Rightarrow> (mgo_err + doc) \<times> 's" where
  "FindRef ops r = op_One ops (ref_Collection r)
     (Match [(''_id'', case ref_Id r of None \<Rightarrow> BNull | Some i \<Rightarrow> BId i)])"

definition resolve_policy :: "'s mgo_ops \<Rightarrow> Plan \<Rightarrow> ('s, df_err + Plan) prog" where
  "resolve_policy ops p =
     (if pln_PolicyId p = [] then ret (Inr p)
      else call (liftS (FindRef ops (pln_PolicyRef p))) (\<lambda>found.
        ret (case found of
               Inl _ \<Rightarrow> Inl ERR_DB_ERR
             | Inr d \<Rightarrow> Inr (p\<lparr>pln_PolicyName := pol_Name (dec_Policy d)\<rparr>))))"

fun resolve_policies :: "'s mgo_ops \<Rightarrow> Plan list \<Rightarrow> ('s, df_err + Plan list) prog" where
  "resolve_policies ops [] = ret (Inr [])"
| "resolve_policies ops (p # ps) =
     call (resolve_policy ops p) (\<lambda>r.
       case r of
         Inl e \<Rightarrow> ret (Inl e)
       | Inr p' \<Rightarrow> call (resolve_policies ops ps) (\<lambda>rs.
           ret (case rs of Inl e \<Rightarrow> Inl e | Inr ps' \<Rightarrow> Inr (p' # ps'))))"

definition string_query :: "(string, string) gomap \<Rightarrow> mquery" where
  "string_query filt = Match (map (\<lambda>(k, v). (k, BString v)) filt)"

definition bucket_query :: "string \<Rightarrow> mquery" where
  "bucket_query b = MatchOr [[(''srcConn.bucketName'', BString b)], [(''destConn.bucketName'', BString b)]]"

definition doListPlan :: "'s mgo_ops \<Rightarrow> FilterContext \<Rightarrow> int \<Rightarrow> int \<Rightarrow> list_filter \<Rightarrow>
    ('s, df_err + Plan list) prog" where
  "doListPlan ops ctx limit offset filt =
     (let finish = (\<lambda>found.
            case found of
              Inl _ \<Rightarrow> ret (Inr [])
            | Inr ds \<Rightarrow> resolve_policies ops (map dec_Plan ds))
      in case filt of
           NoFilter \<Rightarrow> ret (Inr [])
         | BsonM _ \<Rightarrow> ret (Inl ERR_INNER_ERR)
         | StringMap m \<Rightarrow>
             (case lookup m ''bucketname'' of
                Some b \<Rightarrow>
                  (if b = [] then call (liftS (op_All ops CollPlan (string_query m) offset limit)) finish
                   else call (liftS (op_All ops CollPlan (bucket_query b) offset limit)) finish)
              | None \<Rightarrow> call (liftS (op_All ops CollPlan (string_query m) offset limit)) finish))"

definition ListPlan :: "'s mgo_ops \<Rightarrow> FilterContext \<Rightarrow> int \<Rightarrow> int \<Rightarrow> list_filter \<Rightarrow>
    ('s, df_err + Plan list) prog" where
  "ListPlan ops ctx limit offset filt = doListPlan ops ctx limit offset filt"

definition GetPlan :: "'s mgo_ops \<Rightarrow> FilterContext \<Rightarrow> string \<Rightarrow> ('s, df_err + Plan) prog" where
  "GetPlan ops ctx i =
     call (lift_go (ObjectIdHex i)) (\<lambda>oid.
     call (liftS (op_One ops CollPlan
             (Match [(''_id'', BId oid), (''tenantId'', BString (fc_TenantId ctx))]))) (\<lambda>found.
       case found of
         Inl err \<Rightarrow> (if err = ErrNotFound then ret (Inl ERR_PLAN_NOT_EXIST)
                     else resolve_policy ops (dec_Plan []))
       | Inr d \<Rightarrow> resolve_policy ops (dec_Plan d)))"

definition GetPlanByPolicy :: "'s mgo_ops \<Rightarrow> FilterContext \<Rightarrow> string \<Rightarrow> int \<Rightarrow> int \<Rightarrow>
    ('s, df_err + Plan list) prog" where
  "GetPlanByPolicy ops ctx policyId limit offset =
     (let m = (''policyId'', BString policyId) #
            (if isAdmin ctx then [] else [(''tenantId'', BString (fc_TenantId ctx))])
      in doListPlan ops ctx limit offset (BsonM m))"

section \<open>Jobs\<close>

fun insert_job :: "nat \<Rightarrow> 's mgo_ops \<Rightarrow> Job \<Rightarrow> mgo_err option \<Rightarrow> ('s, Job \<times> mgo_err option) prog" where
  "insert_job 0 ops job err = ret (job, err)"
| "insert_job (Suc left) ops job err =
     call (liftS (op_NewObjectId ops)) (\<lambda>newId.
       let job = job\<lparr>job_Id := newId\<rparr>
       in call (liftS (op_Insert ops CollJob (enc_Job job))) (\<lambda>err.
            if err = Some ErrDup then insert_job left ops job err else ret (job, err)))"

definition CreateJob :: "'s mgo_ops \<Rightarrow> FilterContext \<Rightarrow> Job \<Rightarrow> ('s, Job \<times> mgo_err option) prog" where
  "CreateJob ops ctx job = insert_job 3 ops (job\<lparr>job_Tenant := fc_TenantId ctx\<rparr>) None"

definition GetJob :: "'s mgo_ops \<Rightarrow> FilterContext \<Rightarrow> string \<Rightarrow> ('s, df_err + Job) prog" where
  "GetJob ops ctx i =
     call (lift_go (ObjectIdHex i)) (\<lambda>oid.
     call (liftS (op_One ops CollJob
             (Match [(''_id'', BId oid), (''tenant'', BString (fc_TenantId ctx))]))) (\<lambda>found.
       ret (case found of
              Inl err \<Rightarrow> (if err = ErrNotFound then Inl ERR_JOB_NOT_EXIST else Inr zero_Job)
            | Inr d \<Rightarrow> Inr (dec_Job d))))"

definition ListJob :: "'s mgo_ops \<Rightarrow> FilterContext \<Rightarrow> int \<Rightarrow> int \<Rightarrow> (string, string) gomap \<Rightarrow>
    ('s, df_err + Job list) prog" where
  "ListJob ops ctx limit offset filt =
     call (liftS (op_All ops CollJob (string_query filt) offset limit)) (\<lambda>found.
       ret (case found of Inr ds \<Rightarrow> Inr (map dec_Job ds) | Inl _ \<Rightarrow> Inr []))"

end
