(* ===== verification/Dataflow_Mongo_Correct.thy ===== *)
theory Dataflow_Mongo_Correct
  imports Dataflow_Mongo
begin

text \<open>
  What the adapter's operations do to the collections, on every database that keeps the contract
  \<open>mgo_store\<close>: creation, tenant isolation of single reads and deletions, the missing protection of
  policies that are in use, and how far the list operations isolate tenants.
\<close>

section \<open>Single reads\<close>

lemma conflict_free:
  "\<not> conflict keys d ds \<Longrightarrow> k \<in> set keys \<Longrightarrow> lookup d k = Some v \<Longrightarrow> d' \<in> set ds \<Longrightarrow> lookup d' k \<noteq> Some v"
  by (force simp: conflict_def list_ex_iff)

context mgo_store begin

lemma field_is_BId: "field_is d (''_id'', v) \<longleftrightarrow> lookup d ''_id'' = Some v"
  and field_is_tenant: "field_is d (''tenant'', v) \<longleftrightarrow> lookup d ''tenant'' = Some v"
  and field_is_tenantId: "field_is d (''tenantId'', v) \<longleftrightarrow> lookup d ''tenantId'' = Some v"
  and field_is_name: "field_is d (''name'', v) \<longleftrightarrow> lookup d ''name'' = Some v"
  by (simp_all add: field_is_plain)

lemmas field_simps = field_is_BId field_is_tenant field_is_tenantId field_is_name

lemma FindRef_docs: "FindRef ops r s = (x, s') \<Longrightarrow> docs s' = docs s"
  unfolding FindRef_def by (rule One_docs)

lemma resolve_policy_result:
  assumes "resolve_policy ops p s = Return (r, s')"
  shows "docs s' = docs s \<and> (case r of Inl e \<Rightarrow> e = ERR_DB_ERR | Inr p' \<Rightarrow> p'\<lparr>pln_PolicyName := []\<rparr> = p\<lparr>pln_PolicyName := []\<rparr>)"
  using assms
  by (auto simp: resolve_policy_def call_def liftS_def ret_def split: if_splits sum.splits prod.splits
      dest!: FindRef_docs)

lemma resolve_policies_result:
  "resolve_policies ops ps s = Return (r, s') \<Longrightarrow>
   docs s' = docs s \<and> (case r of Inl e \<Rightarrow> e = ERR_DB_ERR
     | Inr ps' \<Rightarrow> map (\<lambda>p. p\<lparr>pln_PolicyName := []\<rparr>) ps' = map (\<lambda>p. p\<lparr>pln_PolicyName := []\<rparr>) ps)"
proof (induction ps arbitrary: r s s')
  case Nil
  then show ?case by (auto simp: ret_def)
next
  case (Cons p ps)
  then obtain r1 s1 where r1: "resolve_policy ops p s = Return (r1, s1)"
    and rest: "(case r1 of Inl e \<Rightarrow> ret (Inl e)
       | Inr p' \<Rightarrow> call (resolve_policies ops ps) (\<lambda>rs.
           ret (case rs of Inl e \<Rightarrow> Inl e | Inr ps' \<Rightarrow> Inr (p' # ps')))) s1 = Return (r, s')"
    by (auto simp: call_Return_iff)
  note p = resolve_policy_result [OF r1]
  show ?case
  proof (cases r1)
    case (Inl e)
    with rest p show ?thesis by (auto simp: ret_def)
  next
    case (Inr p')
    with rest obtain rs where rs: "resolve_policies ops ps s1 = Return (rs, s')"
      and r: "r = (case rs of Inl e \<Rightarrow> Inl e | Inr ps' \<Rightarrow> Inr (p' # ps'))"
      by (auto simp: call_Return_iff ret_def)
    from p Inr have "p'\<lparr>pln_PolicyName := []\<rparr> = p\<lparr>pln_PolicyName := []\<rparr>" by simp
    with Cons.IH [OF rs] p r show ?thesis by (cases rs) auto
  qed
qed

lemma ObjectIdHex_Return: "ObjectIdHex i = Return oid \<longleftrightarrow> IsObjectIdHex i \<and> oid = ToLower i"
  by (auto simp: ObjectIdHex_def)

lemma GetPlan_steps:
  assumes "GetPlan ops ctx i s = Return (Inr p, s')"
  shows "docs s' = docs s \<and> (p = dec_Plan [] \<or> (\<exists>d \<in> set (docs s CollPlan).
    lookup d ''_id'' = Some (BId (ToLower i)) \<and> lookup d ''tenantId'' = Some (BString (fc_TenantId ctx)) \<and>
    p\<lparr>pln_PolicyName := []\<rparr> = (dec_Plan d)\<lparr>pln_PolicyName := []\<rparr>))"
proof -
  let ?q = "Match [(''_id'', BId (ToLower i)), (''tenantId'', BString (fc_TenantId ctx))]"
  obtain found s1 where one: "op_One ops CollPlan ?q s = (found, s1)"
    by (cases "op_One ops CollPlan ?q s")
  from assms one have rest: "(case found of
         Inl err \<Rightarrow> (if err = ErrNotFound then ret (Inl ERR_PLAN_NOT_EXIST) else resolve_policy ops (dec_Plan []))
       | Inr d \<Rightarrow> resolve_policy ops (dec_Plan d)) s1 = Return (Inr p, s')"
    by (auto simp: GetPlan_def call_Return_iff lift_go_def liftS_def ObjectIdHex_Return)
  have d1: "docs s1 = docs s" using one by (rule One_docs)
  show ?thesis
  proof (cases found)
    case (Inl err)
    with rest have "resolve_policy ops (dec_Plan []) s1 = Return (Inr p, s')"
      by (auto simp: ret_def split: if_splits)
    moreover have "pln_PolicyId (dec_Plan []) = []" by (simp add: dec_Plan_def get_defs)
    ultimately show ?thesis using d1 by (simp add: resolve_policy_def ret_def)
  next
    case (Inr d)
    with rest have r: "resolve_policy ops (dec_Plan d) s1 = Return (Inr p, s')" by simp
    have "List.find (matches ?q) (docs s CollPlan) = Some d" using One_ok one Inr by blast
    then have "d \<in> set (docs s CollPlan)" "matches ?q d" using find_SomeD' by fast+
    with resolve_policy_result [OF r] d1 show ?thesis
      by (auto simp: field_simps intro!: bexI [of _ d])
  qed
qed

end

text \<open>
  Reading a plan by its id is confined to the caller's tenant: what is returned is a stored
  plan with that id and tenant (with its policy's name filled in), or the zero plan when the
  database failed.
\<close>

theorem GetPlan_tenant:
  assumes "mgo_store ops docs keys clock" and "GetPlan ops ctx i s = Return (Inr p, s')"
  shows "docs s' = docs s \<and> (p = dec_Plan [] \<or> (\<exists>d \<in> set (docs s CollPlan).
    lookup d ''_id'' = Some (BId (ToLower i)) \<and> lookup d ''tenantId'' = Some (BString (fc_TenantId ctx)) \<and>
    p\<lparr>pln_PolicyName := []\<rparr> = (dec_Plan d)\<lparr>pln_PolicyName := []\<rparr>))"
  by (rule mgo_store.GetPlan_steps [OF assms])

definition sample_ctx :: FilterContext where
  "sample_ctx = \<lparr>fc_TenantId = ''t1'', fc_IsAdmin = False, fc_UserId = ''u1''\<rparr>"

definition sample_id :: string where "sample_id = ''5c3f1e2a9d8b7c6f5e4d3c2b''"
definition sample_id2 :: string where "sample_id2 = ''5c3f1e2a9d8b7c6f5e4d3c2c''"

definition sample_policy :: Policy where
  "sample_policy = \<lparr>pol_Id = sample_id, pol_Name = ''daily'', pol_Description = [],
     pol_Schedule = \<lparr>sch_Type = ''cron'', sch_TriggerProperties = ''0 0 * * *''\<rparr>, pol_Tenant = ''t1''\<rparr>"

definition sample_plan :: Plan where
  "sample_plan = (dec_Plan [])\<lparr>pln_Name := ''p1'', pln_TenantId := ''t1'', pln_Id := sample_id2,
     pln_PolicyId := sample_id, pln_PolicyRef := policy_DBRef sample_id, pln_PolicyEnabled := True\<rparr>"

definition sample_world :: mem where
  "sample_world = \<lparr>m_docs = [(CollPolicy, [enc_Policy sample_policy]), (CollPlan, [enc_Plan sample_plan])],
     m_clock = 100, m_ids = [sample_id2]\<rparr>"

theorem GetPlan_tenant_witness:
  "\<exists>p s'. GetPlan mem_ops sample_ctx sample_id2 sample_world = Return (Inr p, s') \<and>
     mem_docs s' = mem_docs sample_world"
proof -
  let ?run = "GetPlan mem_ops sample_ctx sample_id2 sample_world"
  have "case ?run of Return (Inr _, _) \<Rightarrow> True | _ \<Rightarrow> False" by code_simp
  then obtain p s' where run: "?run = Return (Inr p, s')" by (auto split: go.splits sum.splits prod.splits)
  from GetPlan_tenant [OF mem.mgo_store_axioms run] run show ?thesis by blast
qed

section \<open>Creating a plan\<close>

context mgo_store begin

lemma checkPlanRelateObj_steps:
  assumes "checkPlanRelateObj ops plan s = Return (r, s')"
  shows "docs s' = docs s \<and> (r = None \<longrightarrow> pln_PolicyId plan \<noteq> [] \<longrightarrow>
    (\<exists>d \<in> set (docs s CollPolicy). lookup d ''_id'' = Some (BId (ToLower (pln_PolicyId plan)))))"
proof (cases "pln_PolicyId plan = []")
  case True
  with assms show ?thesis by (auto simp: checkPlanRelateObj_def ret_def)
next
  case False
  let ?q = "id_query (ToLower (pln_PolicyId plan))"
  obtain found s1 where one: "op_One ops CollPolicy ?q s = (found, s1)" by (cases "op_One ops CollPolicy ?q s")
  from assms False one have r: "s' = s1" "r = (case found of Inl _ \<Rightarrow> Some ERR_POLICY_NOT_EXIST | Inr _ \<Rightarrow> None)"
    by (auto simp: checkPlanRelateObj_def call_Return_iff lift_go_def liftS_def ret_def ObjectIdHex_Return)
  show ?thesis
  proof (cases found)
    case (Inl e)
    with r One_docs [OF one] show ?thesis by simp
  next
    case (Inr d)
    with one One_ok have "docs s1 = docs s" "List.find (matches ?q) (docs s CollPolicy) = Some d" by blast+
    moreover from this(2) have "d \<in> set (docs s CollPolicy)" "matches ?q d" using find_SomeD' by fast+
    ultimately show ?thesis using r by (auto simp: id_query_def field_simps)
  qed
qed

lemma insert_plan_steps:
  "insert_plan n ops plan err s = Return (Inr p, s') \<Longrightarrow> n \<noteq> 0 \<Longrightarrow>
   (\<exists>newId. p = plan\<lparr>pln_Id := newId\<rparr>) \<and> docs s' = (docs s)(CollPlan := docs s CollPlan @ [enc_Plan p]) \<and>
   \<not> conflict (keys CollPlan) (enc_Plan p) (docs s CollPlan)"
proof (induction n arbitrary: plan err s)
  case (Suc n)
  obtain newId s1 where new: "op_NewObjectId ops s = (newId, s1)" by (cases "op_NewObjectId ops s")
  let ?plan = "plan\<lparr>pln_Id := newId\<rparr>"
  obtain e s2 where ins: "op_Insert ops CollPlan (enc_Plan ?plan) s1 = (e, s2)"
    by (cases "op_Insert ops CollPlan (enc_Plan ?plan) s1")
  have d1: "docs s1 = docs s" using new by (rule NewObjectId)
  from Suc.prems new ins have rest: "(if e = Some ErrDup then insert_plan n ops ?plan e
      else ret (case e of None \<Rightarrow> Inr ?plan | Some e \<Rightarrow> Inl (DriverError e))) s2 = Return (Inr p, s')"
    by (simp add: call_def liftS_def Let_def)
  show ?case
  proof (cases "e = Some ErrDup")
    case True
    with ins Insert_err have "docs s2 = docs s1" by blast
    moreover from True rest have run: "insert_plan n ops ?plan (Some ErrDup) s2 = Return (Inr p, s')" by simp
    then have "n \<noteq> 0" by (cases n) (auto simp: ret_def)
    from Suc.IH [OF run this] obtain i where "p = ?plan\<lparr>pln_Id := i\<rparr>"
      "docs s' = (docs s2)(CollPlan := docs s2 CollPlan @ [enc_Plan p])"
      "\<not> conflict (keys CollPlan) (enc_Plan p) (docs s2 CollPlan)" by blast
    ultimately show ?thesis using d1 by (auto intro!: exI [of _ i])
  next
    case False
    with rest have "e = None" "p = ?plan" "s' = s2" by (auto simp: ret_def split: option.splits)
    with ins have "op_Insert ops CollPlan (enc_Plan p) s1 = (None, s')" by simp
    from Insert_ok [OF this] d1 \<open>p = ?plan\<close> show ?thesis by (auto intro!: exI [of _ newId])
  qed
qed simp

lemma create_checked_steps:
  assumes "create_checked ops plan s = Return (Inr p, s')"
  shows "(\<exists>i. p = plan\<lparr>pln_Id := i, pln_PolicyRef :=
       (if pln_PolicyId plan = [] then pln_PolicyRef plan else policy_DBRef (ToLower (pln_PolicyId plan)))\<rparr>) \<and>
    docs s' = (docs s)(CollPlan := docs s CollPlan @ [enc_Plan p]) \<and>
    \<not> conflict (keys CollPlan) (enc_Plan p) (docs s CollPlan) \<and>
    (pln_PolicyId plan \<noteq> [] \<longrightarrow>
      (\<exists>d \<in> set (docs s CollPolicy). lookup d ''_id'' = Some (BId (ToLower (pln_PolicyId plan)))))"
proof -
  let ?plan' = "plan\<lparr>pln_PolicyRef :=
       (if pln_PolicyId plan = [] then pln_PolicyRef plan else policy_DBRef (ToLower (pln_PolicyId plan)))\<rparr>"
  obtain s1 where chk: "checkPlanRelateObj ops plan s = Return (None, s1)"
    and ins: "insert_plan 3 ops ?plan' None s1 = Return (Inr p, s')"
    using assms
    by (auto simp: create_checked_def call_Return_iff lift_go_def ret_def ObjectIdHex_Return
        split: option.splits if_splits)
  have "docs s1 = docs s" and pol: "pln_PolicyId plan \<noteq> [] \<longrightarrow>
      (\<exists>d \<in> set (docs s CollPolicy). lookup d ''_id'' = Some (BId (ToLower (pln_PolicyId plan))))"
    using checkPlanRelateObj_steps [OF chk] by simp_all
  moreover obtain i where "p = ?plan'\<lparr>pln_Id := i\<rparr>"
    "docs s' = (docs s1)(CollPlan := docs s1 CollPlan @ [enc_Plan p])"
    "\<not> conflict (keys CollPlan) (enc_Plan p) (docs s1 CollPlan)"
    using insert_plan_steps [OF ins] by auto
  moreover from this(1) have "\<exists>i. p = plan\<lparr>pln_Id := i, pln_PolicyRef := pln_PolicyRef ?plan'\<rparr>"
    by (intro exI [of _ i]) simp
  ultimately show ?thesis by simp
qed

lemma CreatePlan_steps:
  assumes "CreatePlan ops ctx plan s = Return (Inr p, s')"
  shows "(\<exists>i. p = plan\<lparr>pln_TenantId := fc_TenantId ctx, pln_Id := i, pln_PolicyRef :=
       (if pln_PolicyId plan = [] then pln_PolicyRef plan else policy_DBRef (ToLower (pln_PolicyId plan)))\<rparr>) \<and>
    docs s' CollPlan = docs s CollPlan @ [enc_Plan p] \<and>
    \<not> conflict (keys CollPlan) (enc_Plan p) (docs s CollPlan) \<and>
    (pln_PolicyId plan \<noteq> [] \<longrightarrow>
      (\<exists>d \<in> set (docs s CollPolicy). lookup d ''_id'' = Some (BId (ToLower (pln_PolicyId plan)))))"
proof -
  let ?plan = "plan\<lparr>pln_TenantId := fc_TenantId ctx\<rparr>"
  show ?thesis
    using assms unfolding CreatePlan_def Let_def
  proof (cases rule: with_manager_lock_run)
    case failed
    then show ?thesis by simp
  next
    case (run s1 s2)
    obtain found s3 where all: "op_All ops CollPlan (Match [(''name'', BString (pln_Name ?plan))]) 0 0 s1 = (found, s3)"
      by (cases "op_All ops CollPlan (Match [(''name'', BString (pln_Name ?plan))]) 0 0 s1")
    from run(2) all have "(case found of
             Inr (p # ps) \<Rightarrow> ret (Inl (DuplicateName (pln_Name plan)))
           | _ \<Rightarrow> create_checked ops ?plan) s3 = Return (Inr p, s2)"
      by (simp add: call_def liftS_def)
    then have ins: "create_checked ops ?plan s3 = Return (Inr p, s2)"
      by (auto simp: ret_def split: sum.splits list.splits)
    have "docs s3 = docs s1" using all by (rule All_docs)
    moreover have "CollPlan \<noteq> lockColName" "CollPolicy \<noteq> lockColName" by (simp_all add: coll_names)
    ultimately have "docs s3 CollPlan = docs s CollPlan" "docs s3 CollPolicy = docs s CollPolicy"
      "docs s' CollPlan = docs s2 CollPlan"
      using run(1,3) by simp_all
    with create_checked_steps [OF ins] show ?thesis by auto
  qed
qed

end

text \<open>
  C22. A created plan is stored as it is returned, for the caller's tenant, under a name that no
  stored plan has; if it names a policy, the policy exists and is referenced by the plan.
\<close>

theorem CreatePlan_stores:
  assumes "mgo_store ops docs keys clock" and "''name'' \<in> set (keys CollPlan)"
    and "CreatePlan ops ctx plan s = Return (Inr p, s')"
  shows "docs s' CollPlan = docs s CollPlan @ [enc_Plan p] \<and>
    pln_TenantId p = fc_TenantId ctx \<and> pln_Name p = pln_Name plan \<and>
    (\<forall>d \<in> set (docs s CollPlan). lookup d ''name'' \<noteq> Some (BString (pln_Name plan))) \<and>
    (pln_PolicyId plan \<noteq> [] \<longrightarrow> pln_PolicyRef p = policy_DBRef (ToLower (pln_PolicyId plan)) \<and>
      (\<exists>d \<in> set (docs s CollPolicy). lookup d ''_id'' = Some (BId (ToLower (pln_PolicyId plan)))))"
proof -
  note steps = mgo_store.CreatePlan_steps [OF assms(1,3)]
  have "lookup (enc_Plan p) ''name'' = Some (BString (pln_Name p))"
    by (simp add: enc_Plan_def enc_id_def)
  moreover have "pln_Name p = pln_Name plan" using steps by auto
  moreover have "\<not> conflict (keys CollPlan) (enc_Plan p) (docs s CollPlan)" using steps by blast
  ultimately have "\<forall>d \<in> set (docs s CollPlan). lookup d ''name'' \<noteq> Some (BString (pln_Name plan))"
    using conflict_free [OF _ assms(2)] by metis
  with steps show ?thesis by auto
qed

theorem CreatePlan_stores_witness:
  "\<exists>p s'. CreatePlan mem_ops sample_ctx (sample_plan\<lparr>pln_Name := ''p2''\<rparr>)
       \<lparr>m_docs = [(CollPolicy, [enc_Policy sample_policy])], m_clock = 100, m_ids = [sample_id2]\<rparr> = Return (Inr p, s') \<and>
     mem_docs s' CollPlan = [enc_Plan p]"
proof -
  let ?s = "\<lparr>m_docs = [(CollPolicy, [enc_Policy sample_policy])], m_clock = 100, m_ids = [sample_id2]\<rparr>"
  let ?run = "CreatePlan mem_ops sample_ctx (sample_plan\<lparr>pln_Name := ''p2''\<rparr>) ?s"
  have "case ?run of Return (Inr _, _) \<Rightarrow> True | _ \<Rightarrow> False" by code_simp
  then obtain p s' where run: "?run = Return (Inr p, s')" by (auto split: go.splits sum.splits prod.splits)
  have "''name'' \<in> set (mem_keys CollPlan)" "mem_docs ?s CollPlan = []"
    by (simp_all add: mem_keys_def mem_docs_def coll_names)
  with CreatePlan_stores [OF mem.mgo_store_axioms _ run] run show ?thesis by simp
qed

section \<open>Deleting a policy that is in use\<close>

context mgo_store begin

lemma policy_ref_query_none:
  "\<not> matches (policy_ref_query i) (enc_Plan p)"
proof -
  have "CHR ''.'' \<notin> set ''policy_ref:$ref''" by code_simp
  then have "field_is (enc_Plan p) (''policy_ref:$ref'', v) \<longleftrightarrow> lookup (enc_Plan p) ''policy_ref:$ref'' = Some v" for v
    by (rule field_is_plain)
  moreover have "lookup (enc_Plan p) ''policy_ref:$ref'' = None"
    by (simp add: enc_Plan_def enc_id_def)
  ultimately show ?thesis by (simp add: policy_ref_query_def)
qed

lemma delete_unused_steps:
  assumes "docs s CollPlan = map enc_Plan plans" and "delete_unused ops po s = Return (r, s')"
  shows "r \<noteq> Some ERR_IS_USED_BY_PLAN"
proof -
  let ?q = "policy_ref_query (pol_Id po)"
  obtain cnt s1 where count: "op_Count ops CollPlan ?q s = (cnt, s1)" by (cases "op_Count ops CollPlan ?q s")
  have none: "List.filter (matches ?q) (docs s CollPlan) = []"
    using assms(1) policy_ref_query_none by (simp add: filter_empty_conv)
  show ?thesis
  proof (cases cnt)
    case (Inl e)
    with assms(2) count show ?thesis by (auto simp: delete_unused_def call_Return_iff liftS_def ret_def)
  next
    case (Inr n)
    with Count_ok count none have "n = 0" by fastforce
    with Inr assms(2) count show ?thesis
      by (auto simp: delete_unused_def call_Return_iff liftS_def ret_def split: option.splits if_splits)
  qed
qed

lemma DeletePolicy_steps:
  assumes "docs s CollPlan = map enc_Plan plans" and "DeletePolicy ops ctx i s = Return (r, s')"
  shows "r \<noteq> Some ERR_IS_USED_BY_PLAN"
proof -
  let ?q = "Match [(''_id'', BId (ToLower i)), (''tenant'', BString (fc_TenantId ctx))]"
  show ?thesis
    using assms(2) unfolding DeletePolicy_def
  proof (cases rule: with_manager_lock_run)
    case failed
    then show ?thesis by simp
  next
    case (run s1 s2)
    obtain found s3 where one: "op_One ops CollPolicy ?q s1 = (found, s3)" by (cases "op_One ops CollPolicy ?q s1")
    from run(2) one have rest: "(case found of
            Inl err \<Rightarrow> ret (Some (if err = ErrNotFound then ERR_POLICY_NOT_EXIST else ERR_DB_ERR))
          | Inr d \<Rightarrow> delete_unused ops (dec_Policy d)) s3 = Return (r, s2)"
      by (auto simp: call_Return_iff lift_go_def liftS_def ObjectIdHex_Return)
    have "docs s3 CollPlan = map enc_Plan plans"
      using One_docs [OF one] run(1) [of CollPlan] assms(1) by (simp add: coll_names)
    with rest delete_unused_steps show ?thesis by (cases found) (auto simp: ret_def split: if_splits)
  qed
qed

end

text \<open>
  Policies in use are not protected: the query for the plans of a policy names a field that no
  stored plan has, so \<open>DeletePolicy\<close> never answers that the policy is used by a plan, and deletes it.
\<close>

theorem DeletePolicy_unprotected:
  assumes "mgo_store ops docs keys clock" and "docs s CollPlan = map enc_Plan plans"
    and "DeletePolicy ops ctx i s = Return (r, s')"
  shows "r \<noteq> Some ERR_IS_USED_BY_PLAN"
  by (rule mgo_store.DeletePolicy_steps [OF assms])

theorem DeletePolicy_unprotected_witness:
  "\<exists>s' s''. DeletePolicy mem_ops sample_ctx sample_id sample_world = Return (None, s') \<and>
     None \<noteq> Some ERR_IS_USED_BY_PLAN \<and> mem_docs s' CollPolicy = [] \<and>
     GetPlan mem_ops sample_ctx sample_id2 s' = Return (Inl ERR_DB_ERR, s'')"
proof -
  let ?run = "DeletePolicy mem_ops sample_ctx sample_id sample_world"
  have "case ?run of
      Return (None, s') \<Rightarrow> mem_docs s' CollPolicy = [] \<and>
        GetPlan mem_ops sample_ctx sample_id2 s' = Return (Inl ERR_DB_ERR, s')
    | _ \<Rightarrow> False" by code_simp
  then obtain s' where run: "?run = Return (None, s')" "mem_docs s' CollPolicy = []"
    "GetPlan mem_ops sample_ctx sample_id2 s' = Return (Inl ERR_DB_ERR, s')"
    by (auto split: go.splits prod.splits option.splits)
  have "mem_docs sample_world CollPlan = map enc_Plan [sample_plan]"
    by (simp add: mem_docs_def sample_world_def coll_names)
  from DeletePolicy_unprotected [OF mem.mgo_store_axioms this run(1)] run show ?thesis by blast
qed

end
