(* ===== verification/Dataflow_Trigger.thy ===== *)
theory Dataflow_Trigger
  imports Dataflow_Mongo_Correct
begin

text \<open>
  Triggers (\<open>dataflow/pkg/scheduler/trigger\<close>): the registry, the \<open>Trigger\<close> interface as a locale,
  its implementation by cron objects (\<open>crontrigger.go\<close>) and the manager, which finds a plan's policy
  and trigger. A \<open>*cron.Cron\<close> is an object of a heap with at most one entry and a running flag; the
  third-party parser of schedules is the parameter \<open>valid_spec\<close>. The state also holds the
  executors, of type \<open>'e\<close>; \<open>None\<close> is the nil executor.
\<close>

section \<open>The interface\<close>

text \<open>
  \<open>scheduled s p\<close> is the schedule and executor that run for plan \<open>p\<close>, if any. A successful \<open>add\<close> or
  \<open>update\<close> schedules the plan, any other outcome of them and \<open>remove\<close> leave it unscheduled, and no
  operation concerns another plan.
\<close>

locale trigger_interface =
  fixes add :: "string \<Rightarrow> string \<Rightarrow> 'e \<Rightarrow> 's \<Rightarrow> df_err option \<times> 's"
    and remove :: "string \<Rightarrow> 's \<Rightarrow> df_err option \<times> 's"
    and scheduled :: "'s \<Rightarrow> string \<Rightarrow> (string \<times> 'e) option"
    and legal :: "'s \<Rightarrow> bool"
  assumes add_legal: "legal s \<Longrightarrow> legal (snd (add p props e s))"
    and remove_legal: "legal s \<Longrightarrow> legal (snd (remove p s))"
    and add_ok: "legal s \<Longrightarrow> fst (add p props e s) = None \<Longrightarrow>
        scheduled (snd (add p props e s)) = (scheduled s)(p \<mapsto> (props, e))"
    and add_err: "legal s \<Longrightarrow> fst (add p props e s) \<noteq> None \<Longrightarrow>
        scheduled (snd (add p props e s)) = (scheduled s)(p := None)"
    and remove_ok: "legal s \<Longrightarrow> scheduled (snd (remove p s)) = (scheduled s)(p := None)"
begin

text \<open>What a client that replaces a plan's schedule relies on.\<close>

lemma replaced:
  assumes "legal s"
  shows "legal (snd (add p props e (snd (remove p s))))"
    and "fst (add p props e (snd (remove p s))) = None \<Longrightarrow>
      scheduled (snd (add p props e (snd (remove p s)))) = (scheduled s)(p \<mapsto> (props, e))"
    and "fst (add p props e (snd (remove p s))) \<noteq> None \<Longrightarrow>
      scheduled (snd (add p props e (snd (remove p s)))) = (scheduled s)(p := None)"
  using assms by (simp_all add: add_legal remove_legal add_ok add_err remove_ok)

lemma others_kept:
  assumes "legal s" and "q \<noteq> p"
  shows "scheduled (snd (add p props e s)) q = scheduled s q"
    and "scheduled (snd (remove p s)) q = scheduled s q"
proof -
  show "scheduled (snd (add p props e s)) q = scheduled s q"
    using assms by (cases "fst (add p props e s)") (simp_all add: add_ok add_err)
  show "scheduled (snd (remove p s)) q = scheduled s q" using assms by (simp add: remove_ok)
qed

end

section \<open>Cron triggers\<close>

record 'e cron_obj =
  co_entry :: "(string \<times> 'e) option"
  co_running :: bool

record 'e cron_trigger =
  ct_plans :: "(string, nat) gomap"
  ct_heap :: "'e cron_obj list"

definition new_CronTrigger :: "'e cron_trigger" where
  "new_CronTrigger = \<lparr>ct_plans = [], ct_heap = []\<rparr>"

definition Cron_Add :: "(string \<Rightarrow> bool) \<Rightarrow> string \<Rightarrow> string \<Rightarrow> 'e \<Rightarrow> 'e cron_trigger \<Rightarrow>
    df_err option \<times> 'e cron_trigger" where
  "Cron_Add valid_spec planId properties executer c =
     (let cn = length (ct_heap c);
          c = c\<lparr>ct_plans := insert_key planId cn (ct_plans c)\<rparr>
      in if \<not> valid_spec properties then
           (Some (OtherError ''Add plan to corn trigger failed''),
            c\<lparr>ct_heap := ct_heap c @ [\<lparr>co_entry = None, co_running = False\<rparr>]\<rparr>)
         else
           (None, c\<lparr>ct_heap := ct_heap c @ [\<lparr>co_entry = Some (properties, executer), co_running = True\<rparr>]\<rparr>))"

definition Cron_Remove :: "string \<Rightarrow> 'e cron_trigger \<Rightarrow> df_err option \<times> 'e cron_trigger" where
  "Cron_Remove planId c =
     (case lookup (ct_plans c) planId of
        None \<Rightarrow> (None, c)
      | Some cn \<Rightarrow>
          (None, c\<lparr>ct_heap := (ct_heap c)[cn := (ct_heap c ! cn)\<lparr>co_running := False\<rparr>],
                   ct_plans := remove_key planId (ct_plans c)\<rparr>))"

text \<open>
  With a nil executor and a known plan \<open>Update\<close> returns an error; with a nil executor and an unknown
  one it goes on with what the map look-up gave, a nil \<open>*cron.Cron\<close>.
\<close>

definition Cron_Update :: "(string \<Rightarrow> bool) \<Rightarrow> string \<Rightarrow> string \<Rightarrow> 'e option \<Rightarrow> 'e option cron_trigger \<Rightarrow>
    df_err option \<times> 'e option cron_trigger" where
  "Cron_Update valid_spec planId properties executer c =
     (if executer = None \<and> lookup (ct_plans c) planId \<noteq> None then (Some ERR_PLAN_NOT_IN_TRIGGER, c)
      else Cron_Add valid_spec planId properties executer (snd (Cron_Remove planId c)))"

section \<open>Cron triggers implement the interface\<close>

definition cron_legal :: "'e cron_trigger \<Rightarrow> bool" where
  "cron_legal c \<longleftrightarrow>
     (\<forall>p i. lookup (ct_plans c) p = Some i \<longrightarrow> i < length (ct_heap c)) \<and>
     (\<forall>p q i. lookup (ct_plans c) p = Some i \<longrightarrow> lookup (ct_plans c) q = Some i \<longrightarrow> p = q)"

definition cron_scheduled :: "'e cron_trigger \<Rightarrow> string \<Rightarrow> (string \<times> 'e) option" where
  "cron_scheduled c p =
     (case lookup (ct_plans c) p of
        None \<Rightarrow> None
      | Some i \<Rightarrow> if co_running (ct_heap c ! i) then co_entry (ct_heap c ! i) else None)"

lemma cron_legal_new: "cron_legal new_CronTrigger"
  by (simp add: cron_legal_def new_CronTrigger_def)

lemma cron_Add_legal: "cron_legal c \<Longrightarrow> cron_legal (snd (Cron_Add v p props e c))"
  unfolding cron_legal_def Cron_Add_def Let_def
  by (auto simp: less_Suc_eq split: if_splits)

lemma cron_Remove_legal: "cron_legal c \<Longrightarrow> cron_legal (snd (Cron_Remove p c))"
  unfolding cron_legal_def Cron_Remove_def
  by (cases "lookup (ct_plans c) p") (auto split: if_splits)

lemma cron_Add_scheduled:
  assumes "cron_legal c"
  shows "cron_scheduled (snd (Cron_Add v p props e c)) =
    (cron_scheduled c)(p := if fst (Cron_Add v p props e c) = None then Some (props, e) else None)"
proof
  fix q
  show "cron_scheduled (snd (Cron_Add v p props e c)) q =
    ((cron_scheduled c)(p := if fst (Cron_Add v p props e c) = None then Some (props, e) else None)) q"
    using assms
    by (auto simp: cron_scheduled_def Cron_Add_def Let_def cron_legal_def nth_append split: option.splits)
qed

lemma cron_Remove_scheduled:
  assumes "cron_legal c"
  shows "cron_scheduled (snd (Cron_Remove p c)) = (cron_scheduled c)(p := None)"
proof
  fix q
  show "cron_scheduled (snd (Cron_Remove p c)) q = ((cron_scheduled c)(p := None)) q"
  proof (cases "lookup (ct_plans c) p")
    case None
    then show ?thesis by (simp add: cron_scheduled_def Cron_Remove_def)
  next
    case (Some i)
    have "j \<noteq> i" if "lookup (ct_plans c) q = Some j" "q \<noteq> p" for j
      using assms Some that by (auto simp: cron_legal_def)
    with Some show ?thesis
      by (auto simp: cron_scheduled_def Cron_Remove_def split: option.splits)
  qed
qed

interpretation cron: trigger_interface "Cron_Add v" Cron_Remove cron_scheduled cron_legal for v
  by unfold_locales
    (auto simp: cron_Add_legal cron_Remove_legal cron_Add_scheduled cron_Remove_scheduled)

text \<open>
  The cron trigger implements the interface: from a legal state \<open>Update\<close> with an executor puts
  exactly the new schedule in force for the plan, or none when the schedule is not valid, and
  leaves all other plans alone.
\<close>

theorem Cron_Update_replaces:
  assumes "cron_legal c"
  shows "cron_legal (snd (Cron_Update v p props (Some e) c)) \<and>
    cron_scheduled (snd (Cron_Update v p props (Some e) c)) =
      (cron_scheduled c)(p := if v props then Some (props, Some e) else None)"
proof -
  have "fst (Cron_Add v p props (Some e) (snd (Cron_Remove p c))) = None \<longleftrightarrow> v props"
    by (simp add: Cron_Add_def Let_def)
  then show ?thesis
    using cron.replaced [OF assms, of v p props "Some e"] by (cases "v props") (simp_all add: Cron_Update_def)
qed

theorem Cron_Update_replaces_witness:
  "cron_scheduled (snd (Cron_Update (\<lambda>_. True) ''p'' ''@daily'' (Some ''run p'')
     (snd (Cron_Add (\<lambda>_. True) ''p'' ''@hourly'' (Some ''run p'') new_CronTrigger)))) ''p'' =
   Some (''@daily'', Some ''run p'')"
  using Cron_Update_replaces [OF cron_Add_legal [OF cron_legal_new], of "\<lambda>_. True" "''p''" "''@daily''" "''run p''"]
  by simp

section \<open>Schedules that nobody can stop\<close>

text \<open>
  An orphan is a running cron object that no plan refers to. \<open>Add\<close> makes one when the plan is
  already scheduled, and no operation of the trigger ever stops it.
\<close>

definition orphan :: "'e cron_trigger \<Rightarrow> nat \<Rightarrow> bool" where
  "orphan c i \<longleftrightarrow> i < length (ct_heap c) \<and> co_running (ct_heap c ! i) \<and> i \<notin> ran (lookup (ct_plans c))"

inductive cron_step :: "(string \<Rightarrow> bool) \<Rightarrow> 'e option cron_trigger \<Rightarrow> 'e option cron_trigger \<Rightarrow> bool" for v where
  StepAdd: "cron_step v c (snd (Cron_Add v p props (Some e) c))"
| StepUpdate: "cron_step v c (snd (Cron_Update v p props e c))"
| StepRemove: "cron_step v c (snd (Cron_Remove p c))"

lemma orphan_Add: "orphan c i \<Longrightarrow> orphan (snd (Cron_Add v p props e c)) i"
  by (auto simp: orphan_def Cron_Add_def Let_def nth_append ran_def split: if_splits)

lemma orphan_Remove: "orphan c i \<Longrightarrow> orphan (snd (Cron_Remove p c)) i"
proof (cases "lookup (ct_plans c) p")
  case (Some j)
  assume "orphan c i"
  with Some have "j \<noteq> i" by (auto simp: orphan_def ran_def)
  with Some \<open>orphan c i\<close> show ?thesis by (auto simp: orphan_def Cron_Remove_def ran_def)
qed (simp add: Cron_Remove_def)

lemma orphan_step: "orphan c i \<Longrightarrow> cron_step v c d \<Longrightarrow> orphan d i"
  by (erule cron_step.cases) (auto simp: Cron_Update_def orphan_Add orphan_Remove)

lemma cron_step_legal: "cron_legal c \<Longrightarrow> cron_step v c d \<Longrightarrow> cron_legal d"
  by (erule cron_step.cases) (auto simp: Cron_Update_def cron_Add_legal cron_Remove_legal)

interpretation cron_machine: step_invariant "\<lambda>c. c = new_CronTrigger" "cron_step v" cron_legal for v
  by unfold_locales (auto simp: cron_legal_new intro: cron_step_legal)

interpretation orphan_machine: step_invariant "\<lambda>c. orphan c i" "cron_step v" "\<lambda>c. orphan c i" for v i
  by unfold_locales (auto intro: orphan_step)

text \<open>
  Adding a plan that is already scheduled leaks its cron object: the old schedule runs on
  beside the new one, and whatever the service does with the trigger afterwards, it keeps running.
\<close>

theorem Add_leaks_schedule:
  assumes "reaches (cron_step v) new_CronTrigger c" and "cron_scheduled c p \<noteq> None"
    and "reaches (cron_step v) (snd (Cron_Add v p props (Some e) c)) d"
  shows "\<exists>i. lookup (ct_plans c) p = Some i \<and> orphan d i"
proof -
  have legal: "cron_legal c" by (rule cron_machine.inv_reachable [OF refl assms(1)])
  from assms(2) obtain i where i: "lookup (ct_plans c) p = Some i" "co_running (ct_heap c ! i)"
    by (auto simp: cron_scheduled_def split: option.splits if_splits)
  with legal have "i < length (ct_heap c)" "\<And>q. q \<noteq> p \<Longrightarrow> lookup (ct_plans c) q \<noteq> Some i"
    by (auto simp: cron_legal_def)
  with i(2) have "orphan (snd (Cron_Add v p props (Some e) c)) i"
    by (auto simp: orphan_def Cron_Add_def Let_def nth_append ran_def split: if_splits)
  with i(1) orphan_machine.inv_reachable [OF _ assms(3)] show ?thesis by blast
qed

theorem Add_leaks_schedule_witness:
  "\<exists>i. orphan (snd (Cron_Remove ''p'' (snd (Cron_Add (\<lambda>_. True) ''p'' ''@daily'' (Some ())
      (snd (Cron_Add (\<lambda>_. True) ''p'' ''@hourly'' (Some ()) new_CronTrigger)))))) i"
proof -
  let ?c = "snd (Cron_Add (\<lambda>_. True) ''p'' ''@hourly'' (Some ()) new_CronTrigger)"
  have 1: "reaches (cron_step (\<lambda>_. True)) new_CronTrigger ?c"
    by (blast intro: reaches_step [where step = "cron_step (\<lambda>_. True)"] reaches_refl StepAdd)
  have 2: "cron_scheduled ?c ''p'' \<noteq> None"
    by (simp add: cron_scheduled_def Cron_Add_def new_CronTrigger_def)
  have "reaches (cron_step (\<lambda>_. True)) (snd (Cron_Add (\<lambda>_. True) ''p'' ''@daily'' (Some ()) ?c))
      (snd (Cron_Remove ''p'' (snd (Cron_Add (\<lambda>_. True) ''p'' ''@daily'' (Some ()) ?c))))"
    by (blast intro: reaches_step [where step = "cron_step (\<lambda>_. True)"] reaches_refl StepRemove)
  from Add_leaks_schedule [OF 1 2 this] show ?thesis by blast
qed

section \<open>Registry and manager\<close>

definition RegisterTrigger :: "string \<Rightarrow> 't \<Rightarrow> (string, 't) gomap \<Rightarrow> df_err option \<times> (string, 't) gomap" where
  "RegisterTrigger triggerType trigger triggers =
     (if lookup triggers triggerType \<noteq> None then (Some (OtherError ''already exist''), triggers)
      else (None, insert_key triggerType trigger triggers))"

definition UnregisterTrigger :: "string \<Rightarrow> (string, 't) gomap \<Rightarrow> (string, 't) gomap" where
  "UnregisterTrigger triggerType triggers =
     (if lookup triggers triggerType = None then triggers else remove_key triggerType triggers)"

definition GetTrigger :: "string \<Rightarrow> (string, 't) gomap \<Rightarrow> 't option" where
  "GetTrigger triggerType triggers = lookup triggers triggerType"

text \<open>
  The state of the running service: the world of the database, the cron trigger, which
  \<open>crontrigger.go\<close> registers under \<open>cron\<close> when the program starts, and the requests handed to the
  sender. \<open>onDb\<close> runs a program of the adapter.
\<close>

record ('s, 'e, 'm) service =
  sv_db :: 's
  sv_cron :: "'e option cron_trigger"
  sv_sent :: "'m list"

definition onDb :: "('s, 'a) prog \<Rightarrow> (('s, 'e, 'm) service, 'a) prog" where
  "onDb m w = go_map (\<lambda>(a, s). (a, w\<lparr>sv_db := s\<rparr>)) (m (sv_db w))"

definition onCron :: "('e option cron_trigger \<Rightarrow> 'a \<times> 'e option cron_trigger) \<Rightarrow>
    (('s, 'e, 'm) service, 'a) prog" where
  "onCron f w = (let (a, c) = f (sv_cron w) in Return (a, w\<lparr>sv_cron := c\<rparr>))"

definition triggers :: "(string, unit) gomap" where
  "triggers = snd (RegisterTrigger ''cron'' () [])"

definition withTrigger :: "'s mgo_ops \<Rightarrow> FilterContext \<Rightarrow> Plan \<Rightarrow>
    (Schedule \<Rightarrow> 'e option cron_trigger \<Rightarrow> df_err option \<times> 'e option cron_trigger) \<Rightarrow>
    (('s, 'e, 'm) service, df_err option) prog" where
  "withTrigger ops ctx plan act =
     (if pln_PolicyId plan = [] then ret (Some (OtherError ''specifed plan does not have policy''))
      else call (onDb (GetPolicy ops ctx (pln_PolicyId plan))) (\<lambda>r.
        case r of
          Inl err \<Rightarrow> ret (Some err)
        | Inr policy \<Rightarrow>
            (case GetTrigger (sch_Type (pol_Schedule policy)) triggers of
               None \<Rightarrow> ret (Some (OtherError ''specifed trigger type is not exist''))
             | Some _ \<Rightarrow> onCron (act (pol_Schedule policy)))))"

definition Manager_Add :: "'s mgo_ops \<Rightarrow> (string \<Rightarrow> bool) \<Rightarrow> FilterContext \<Rightarrow> Plan \<Rightarrow> 'e \<Rightarrow>
    (('s, 'e, 'm) service, df_err option) prog" where
  "Manager_Add ops v ctx plan executer =
     withTrigger ops ctx plan (\<lambda>sch. Cron_Add v (pln_Id plan) (sch_TriggerProperties sch) (Some executer))"

definition Manager_Update :: "'s mgo_ops \<Rightarrow> (string \<Rightarrow> bool) \<Rightarrow> FilterContext \<Rightarrow> Plan \<Rightarrow> 'e \<Rightarrow>
    (('s, 'e, 'm) service, df_err option) prog" where
  "Manager_Update ops v ctx plan executer =
     withTrigger ops ctx plan (\<lambda>sch. Cron_Update v (pln_Id plan) (sch_TriggerProperties sch) (Some executer))"

definition Manager_Remove :: "'s mgo_ops \<Rightarrow> FilterContext \<Rightarrow> Plan \<Rightarrow>
    (('s, 'e, 'm) service, df_err option) prog" where
  "Manager_Remove ops ctx plan = withTrigger ops ctx plan (\<lambda>sch. Cron_Remove (pln_Id plan))"

end
