(* ===== verification/Dataflow_Plan.thy ===== *)
theory Dataflow_Plan
  imports Dataflow_Trigger
begin

text \<open>
  Plans, policies and jobs of the dataflow service (\<open>dataflow/pkg/plan\<close>, \<open>policy\<close>, \<open>job\<close> and
  \<open>scheduler\<close>): validation, creation, update and deletion with the triggers that run plans, and the
  run of a plan, which stores a job and hands a request to the data mover. Values of update maps,
  decoded from JSON by the service, are \<open>gval\<close>.
\<close>

section \<open>Messages to the data mover\<close>

record ConnMsg =
  cm_Type :: string
  cm_BucketName :: string
  cm_ConnConfig :: "KeyValue list"

record RunJobRequest =
  rj_Id :: string
  rj_FiltPrefix :: string
  rj_SourceConn :: ConnMsg
  rj_DestConn :: ConnMsg
  rj_RemainSource :: bool
  rj_Asist :: AsistInfo

section \<open>Validation\<close>

text \<open>\<open>regexp.MatchString\<close> of \<open>[[:alnum:]-_.]+\<close>, which is not anchored.\<close>

definition name_matches :: "string \<Rightarrow> bool" where
  "name_matches name = list_ex (\<lambda>c. is_alnum c \<or> c = CHR ''-'' \<or> c = CHR ''_'' \<or> c = CHR ''.'') name"

definition isEqual :: "Connector \<Rightarrow> Connector \<Rightarrow> bool" where
  "isEqual src dest =
     (if conn_StorType src = STOR_TYPE_OPENSDS
      then conn_StorType dest = STOR_TYPE_OPENSDS \<and> conn_BucketName src = conn_BucketName dest
      else False)"

definition key_bit :: "string \<Rightarrow> int" where
  "key_bit k =
     (if k = ''region'' then 1 else if k = ''endpoint'' then 2 else if k = ''bucketname'' then 4
      else if k = ''access'' then 8 else if k = ''security'' then 16 else 0)"

unbundle bit_operations_syntax

text \<open>\<open>True\<close> is the nil error.\<close>

definition checkConnValidation :: "Connector \<Rightarrow> bool" where
  "checkConnValidation conn =
     (if conn_StorType conn = STOR_TYPE_OPENSDS then True
      else foldl (\<lambda>flag kv. flag OR key_bit (kv_Key kv))
             (if conn_StorType conn = STOR_TYPE_CEPH_S3 then 1 else 0) (conn_ConnConfig conn) = 31)"

text \<open>The flag as the set of keys seen so far.\<close>

definition seen_flag :: "bool \<Rightarrow> bool \<Rightarrow> bool \<Rightarrow> bool \<Rightarrow> bool \<Rightarrow> int" where
  "seen_flag r e b a s = of_bool r + 2 * of_bool e + 4 * of_bool b + 8 * of_bool a + 16 * of_bool s"

lemma seen_flag_step:
  "seen_flag r e b a s OR key_bit k =
     seen_flag (r \<or> ''region'' = k) (e \<or> ''endpoint'' = k) (b \<or> ''bucketname'' = k)
       (a \<or> ''access'' = k) (s \<or> ''security'' = k)"
  by (cases r; cases e; cases b; cases a; cases s)
    (auto simp: seen_flag_def key_bit_def)

lemma seen_flag_fold:
  "foldl (\<lambda>flag kv. flag OR key_bit (kv_Key kv)) (seen_flag r e b a s) kvs =
     seen_flag (r \<or> ''region'' \<in> kv_Key ` set kvs) (e \<or> ''endpoint'' \<in> kv_Key ` set kvs)
       (b \<or> ''bucketname'' \<in> kv_Key ` set kvs) (a \<or> ''access'' \<in> kv_Key ` set kvs)
       (s \<or> ''security'' \<in> kv_Key ` set kvs)"
proof (induction kvs arbitrary: r e b a s)
  case (Cons kv kvs)
  show ?case unfolding foldl_Cons seen_flag_step Cons.IH
    by (simp add: disj_assoc)
qed simp

text \<open>
  Connector validation: a connector of a cloud store is accepted exactly when its configuration
  has all of region (not needed for Ceph), endpoint, bucket name and the two keys, whatever their
  order or repetition and whatever else it has; one of the internal store is always accepted.
\<close>

theorem checkConnValidation_spec:
  "checkConnValidation conn \<longleftrightarrow> conn_StorType conn = STOR_TYPE_OPENSDS \<or>
     {''endpoint'', ''bucketname'', ''access'', ''security''} \<subseteq> kv_Key ` set (conn_ConnConfig conn) \<and>
     (conn_StorType conn = STOR_TYPE_CEPH_S3 \<or> ''region'' \<in> kv_Key ` set (conn_ConnConfig conn))"
proof -
  have start: "(if conn_StorType conn = STOR_TYPE_CEPH_S3 then 1 else 0) =
      seen_flag (conn_StorType conn = STOR_TYPE_CEPH_S3) False False False False"
    by (simp add: seen_flag_def)
  have full: "seen_flag r e b a s = 31 \<longleftrightarrow> r \<and> e \<and> b \<and> a \<and> s" for r e b a s
    by (cases r; cases e; cases b; cases a; cases s) (simp_all add: seen_flag_def)
  show ?thesis
    unfolding checkConnValidation_def start seen_flag_fold full by auto
qed

section \<open>Executors\<close>

record plan_executor =
  pe_planId :: string
  pe_tenantId :: string
  pe_ctx :: FilterContext

definition NewPlanExecutor :: "FilterContext \<Rightarrow> Plan \<Rightarrow> plan_executor" where
  "NewPlanExecutor ctx plan = \<lparr>pe_planId = pln_Id plan, pe_tenantId = pln_TenantId plan, pe_ctx = ctx\<rparr>"

type_synonym 's world = "('s, plan_executor, RunJobRequest) service"

section \<open>Plans\<close>

definition Plan_Create :: "'s mgo_ops \<Rightarrow> (string \<Rightarrow> bool) \<Rightarrow> FilterContext \<Rightarrow> Plan \<Rightarrow>
    ('s world, df_err + Plan) prog" where
  "Plan_Create ops v ctx plan =
     (if \<not> name_matches (pln_Name plan) then ret (Inl ERR_INVALID_PLAN_NAME)
      else let plan = plan\<lparr>pln_Id := [], pln_LastSchedTime := 0\<rparr>
      in if isEqual (pln_SourceConn plan) (pln_DestConn plan) then ret (Inl ERR_DEST_SRC_CONN_EQUAL)
         else if \<not> checkConnValidation (pln_SourceConn plan) then ret (Inl ERR_SRC_CONN_NOT_EXIST)
         else if \<not> checkConnValidation (pln_DestConn plan) then ret (Inl ERR_DEST_CONN_NOT_EXIST)
         else call (onDb (CreatePlan ops ctx plan)) (\<lambda>r.
           case r of
             Inl err \<Rightarrow> ret (Inl err)
           | Inr plan \<Rightarrow>
               (if pln_PolicyId plan \<noteq> [] \<and> pln_PolicyEnabled plan then
                  call (Manager_Add ops v ctx plan (NewPlanExecutor ctx plan)) (\<lambda>err.
                    ret (case err of Some e \<Rightarrow> Inl e | None \<Rightarrow> Inr plan))
                else ret (Inr plan))))"

definition Plan_Delete :: "'s mgo_ops \<Rightarrow> FilterContext \<Rightarrow> string \<Rightarrow> ('s world, df_err option) prog" where
  "Plan_Delete ops ctx i =
     call (onDb (GetPlan ops ctx i)) (\<lambda>r.
       case r of
         Inl err \<Rightarrow> ret (if err = ERR_PLAN_NOT_EXIST then None else Some err)
       | Inr plan \<Rightarrow>
           (if pln_PolicyId plan \<noteq> [] then
              call (Manager_Remove ops ctx plan) (\<lambda>err.
                if err \<noteq> None \<and> err \<noteq> Some ERR_PLAN_NOT_EXIST then ret err
                else onDb (DeletePlan ops ctx i))
            else onDb (DeletePlan ops ctx i)))"

text \<open>
  Type assertions on the values of an update map, and the struct that \<open>json.Unmarshal\<close> makes of a
  value that was decoded from JSON: fields by their \<open>json\<close> names, others keep the given value.
\<close>

fun assert_string :: "gval \<Rightarrow> string go" where
  "assert_string (VString s) = Return s"
| "assert_string _ = Panic TypeAssertion"

fun assert_bool :: "gval \<Rightarrow> bool go" where
  "assert_bool (VBool b) = Return b"
| "assert_bool _ = Panic TypeAssertion"

fun json_fields :: "gval \<Rightarrow> (string, gval) gomap" where
  "json_fields (VMap m) = m"
| "json_fields _ = []"

definition json_string :: "gval \<Rightarrow> string \<Rightarrow> string \<Rightarrow> string" where
  "json_string v k dflt = (case lookup (json_fields v) k of Some (VString s) \<Rightarrow> s | _ \<Rightarrow> dflt)"

fun json_list :: "gval \<Rightarrow> gval list" where
  "json_list (VList vs) = vs"
| "json_list _ = []"

definition json_KeyValue :: "gval \<Rightarrow> KeyValue" where
  "json_KeyValue v = \<lparr>kv_Key = json_string v ''key'' [], kv_Value = json_string v ''value'' []\<rparr>"

definition json_KeyValues :: "gval \<Rightarrow> string \<Rightarrow> KeyValue list" where
  "json_KeyValues v k = (case lookup (json_fields v) k of None \<Rightarrow> [] | Some l \<Rightarrow> map json_KeyValue (json_list l))"

definition json_Connector :: "gval \<Rightarrow> Connector" where
  "json_Connector v = \<lparr>conn_StorType = json_string v ''storType'' [], conn_BucketName = json_string v ''bucketName'' [],
     conn_ConnConfig = json_KeyValues v ''connConfig''\<rparr>"

definition json_PlanFilter :: "gval \<Rightarrow> PlanFilter" where
  "json_PlanFilter v = \<lparr>fil_Prefix = json_string v ''prefix'' ''/'', fil_Tag = json_KeyValues v ''tag''\<rparr>"

definition json_Schedule :: "gval \<Rightarrow> Schedule" where
  "json_Schedule v = \<lparr>sch_Type = json_string v ''type'' [], sch_TriggerProperties = json_string v ''triggerProperties'' []\<rparr>"

type_synonym update_map = "(string, gval) gomap"

definition update_field :: "update_map \<Rightarrow> string \<Rightarrow> (gval \<Rightarrow> 'p \<Rightarrow> 'p go) \<Rightarrow> 'p \<Rightarrow> 'p go" where
  "update_field m k f p = (case lookup m k of None \<Rightarrow> Return p | Some v \<Rightarrow> f v p)"

text \<open>
  The fields of a plan before and after the check that source and destination differ. The value
  of \<open>Asist\<close> is decoded into a copy, so the plan's own is only cleared.
\<close>

definition update_connectors :: "update_map \<Rightarrow> Plan \<Rightarrow> Plan" where
  "update_connectors m p =
     (let p = (case lookup m ''sourceConn'' of None \<Rightarrow> p | Some v \<Rightarrow> p\<lparr>pln_SourceConn := json_Connector v\<rparr>);
          p = (case lookup m ''destConn'' of None \<Rightarrow> p | Some v \<Rightarrow> p\<lparr>pln_DestConn := json_Connector v\<rparr>)
      in (case lookup m ''filter'' of None \<Rightarrow> p | Some v \<Rightarrow> p\<lparr>pln_Filter := json_PlanFilter v\<rparr>))"

definition update_rest :: "update_map \<Rightarrow> Plan \<Rightarrow> Plan go" where
  "update_rest m p =
     go_bind (update_field m ''policyEnabled'' (\<lambda>v p. go_map (\<lambda>b. p\<lparr>pln_PolicyEnabled := b\<rparr>) (assert_bool v)) p) (\<lambda>p.
     go_bind (update_field m ''policyId'' (\<lambda>v p. go_map (\<lambda>s. p\<lparr>pln_PolicyId := s\<rparr>) (assert_string v)) p) (\<lambda>p.
     go_bind (update_field m ''description'' (\<lambda>v p. go_map (\<lambda>s. p\<lparr>pln_Description := s\<rparr>) (assert_string v)) p) (\<lambda>p.
     go_bind (update_field m ''remainSource'' (\<lambda>v p. go_map (\<lambda>b. p\<lparr>pln_RemainSource := b\<rparr>) (assert_bool v)) p) (\<lambda>p.
       update_field m ''Asist'' (\<lambda>v p. Return (p\<lparr>pln_Asist := \<lparr>asi_Type = [], asi_Details = []\<rparr>\<rparr>)) p))))"

definition update_trigger :: "'s mgo_ops \<Rightarrow> (string \<Rightarrow> bool) \<Rightarrow> FilterContext \<Rightarrow> Plan \<Rightarrow>
    ('s world, df_err option) prog" where
  "update_trigger ops v ctx p =
     call (Manager_Remove ops ctx p) (\<lambda>_.
       if pln_PolicyId p \<noteq> [] \<and> pln_PolicyEnabled p
       then Manager_Add ops v ctx p (NewPlanExecutor ctx p) else ret None)"

definition Plan_Update :: "'s mgo_ops \<Rightarrow> (string \<Rightarrow> bool) \<Rightarrow> FilterContext \<Rightarrow> string \<Rightarrow> update_map \<Rightarrow>
    ('s world, df_err + Plan) prog" where
  "Plan_Update ops v ctx planId m =
     call (onDb (GetPlan ops ctx planId)) (\<lambda>r.
       case r of
         Inl err \<Rightarrow> ret (Inl err)
       | Inr p \<Rightarrow>
           call (lift_go (update_field m ''name'' (\<lambda>v p. go_map (\<lambda>s. p\<lparr>pln_Name := s\<rparr>) (assert_string v)) p)) (\<lambda>p.
             if lookup m ''name'' \<noteq> None \<and> \<not> name_matches (pln_Name p) then ret (Inl ERR_INVALID_PLAN_NAME)
             else let p = update_connectors m p
             in if isEqual (pln_SourceConn p) (pln_DestConn p) then ret (Inl ERR_DEST_SRC_CONN_EQUAL)
                else call (lift_go (update_rest m p)) (\<lambda>p.
                  let needUpdateTrigger = lookup m ''policyEnabled'' \<noteq> None \<or> lookup m ''policyId'' \<noteq> None
                  in call (if needUpdateTrigger then update_trigger ops v ctx p else ret None) (\<lambda>err.
                       case err of
                         Some e \<Rightarrow> ret (Inl e)
                       | None \<Rightarrow> onDb (UpdatePlan ops ctx p)))))"

definition Plan_Get :: "'s mgo_ops \<Rightarrow> FilterContext \<Rightarrow> string \<Rightarrow> ('s world, df_err + Plan) prog" where
  "Plan_Get ops ctx i = onDb (GetPlan ops ctx i)"

definition Plan_List :: "'s mgo_ops \<Rightarrow> FilterContext \<Rightarrow> int \<Rightarrow> int \<Rightarrow> list_filter \<Rightarrow>
    ('s world, df_err + Plan list) prog" where
  "Plan_List ops ctx limit offset filt = onDb (ListPlan ops ctx limit offset filt)"

section \<open>Running a plan\<close>

definition getLocation :: "Connector \<Rightarrow> df_err + string" where
  "getLocation conn =
     (if conn_StorType conn = STOR_TYPE_OPENSDS then Inr (conn_BucketName conn)
      else if conn_StorType conn \<in> {STOR_TYPE_HW_OBS, STOR_TYPE_AWS_S3, STOR_TYPE_HW_FUSIONSTORAGE,
             STOR_TYPE_HW_FUSIONCLOUD, STOR_TYPE_AZURE_BLOB, STOR_TYPE_CEPH_S3} then
        (case List.find (\<lambda>kv. kv_Key kv = ''bucketname'') (conn_ConnConfig conn) of
           Some kv \<Rightarrow> Inr (kv_Value kv)
         | None \<Rightarrow> Inl (OtherError ''No bucket provided for sefldefine connector.''))
      else Inl ERR_INNER_ERR)"

definition buildConn :: "Connector \<Rightarrow> ConnMsg" where
  "buildConn conn =
     (if conn_StorType conn = STOR_TYPE_OPENSDS
      then \<lparr>cm_Type = conn_StorType conn, cm_BucketName = conn_BucketName conn, cm_ConnConfig = []\<rparr>
      else \<lparr>cm_Type = conn_StorType conn, cm_BucketName = [], cm_ConnConfig = conn_ConnConfig conn\<rparr>)"

text \<open>
  The loop around \<open>LockSched\<close>: after success the unlocking is deferred and the loop left; the last
  of the three further attempts is not looked at.
\<close>

datatype sched_lock = SchedHeld | SchedBusy | SchedNotHeld

fun lock_loop :: "nat \<Rightarrow> 's mgo_ops \<Rightarrow> string \<Rightarrow> lock_result \<Rightarrow> ('s, sched_lock) prog" where
  "lock_loop 0 ops i r = ret SchedNotHeld"
| "lock_loop (Suc left) ops i r =
     (if r = LockSuccess then ret SchedHeld
      else if r = LockBusy then ret SchedBusy
      else call (LockSched ops i) (lock_loop left ops i))"

definition new_job :: "Plan \<Rightarrow> string \<Rightarrow> string \<Rightarrow> int \<Rightarrow> Job" where
  "new_job plan srcLocation destLocation ct = zero_Job\<lparr>
     job_Type := pln_Type plan, job_PlanId := pln_Id plan, job_PlanName := pln_Name plan,
     job_SourceLocation := srcLocation, job_DestLocation := destLocation, job_CreateTime := ct,
     job_Status := JOB_STATUS_PENDING, job_RemainSource := pln_RemainSource plan\<rparr>"

definition new_request :: "Plan \<Rightarrow> Job \<Rightarrow> RunJobRequest" where
  "new_request plan job = \<lparr>rj_Id = job_Id job, rj_FiltPrefix = fil_Prefix (pln_Filter plan),
     rj_SourceConn = buildConn (pln_SourceConn plan), rj_DestConn = buildConn (pln_DestConn plan),
     rj_RemainSource = job_RemainSource job, rj_Asist = pln_Asist plan\<rparr>"

definition sendJob :: "RunJobRequest \<Rightarrow> ('s world, unit) prog" where
  "sendJob req w = Return ((), w\<lparr>sv_sent := sv_sent w @ [req]\<rparr>)"

definition run_locked :: "'s mgo_ops \<Rightarrow> FilterContext \<Rightarrow> Plan \<Rightarrow> ('s world, df_err + string) prog" where
  "run_locked ops ctx plan =
     (case getLocation (pln_SourceConn plan) of
        Inl err1 \<Rightarrow> ret (Inl err1)
      | Inr srcLocation \<Rightarrow>
     (case getLocation (pln_DestConn plan) of
        Inl err2 \<Rightarrow> ret (Inl err2)
      | Inr destLocation \<Rightarrow>
          call (onDb (liftS (op_Now ops))) (\<lambda>ct.
          call (onDb (CreateJob ops ctx (new_job plan srcLocation destLocation ct))) (\<lambda>(job, err).
            if err = None then call (sendJob (new_request plan job)) (\<lambda>_. ret (Inr (job_Id job)))
            else ret (Inr (job_Id job))))))"

definition Plan_Run :: "'s mgo_ops \<Rightarrow> FilterContext \<Rightarrow> string \<Rightarrow> ('s world, df_err + string) prog" where
  "Plan_Run ops ctx i =
     call (onDb (GetPlan ops ctx i)) (\<lambda>r.
       case r of
         Inl err \<Rightarrow> ret (Inl err)
       | Inr plan \<Rightarrow>
           call (onDb (call (LockSched ops (pln_Id plan)) (lock_loop 3 ops (pln_Id plan)))) (\<lambda>lk.
             case lk of
               SchedBusy \<Rightarrow> ret (Inl ERR_RUN_PLAN_BUSY)
             | SchedNotHeld \<Rightarrow> run_locked ops ctx plan
             | SchedHeld \<Rightarrow>
                 call (run_locked ops ctx plan) (\<lambda>result.
                   call (onDb (UnlockSched ops (pln_Id plan))) (\<lambda>_. ret result))))"

definition TriggerExecutor_Run :: "'s mgo_ops \<Rightarrow> plan_executor \<Rightarrow> ('s world, unit) prog" where
  "TriggerExecutor_Run ops p = call (Plan_Run ops (pe_ctx p) (pe_planId p)) (\<lambda>_. ret ())"

section \<open>Policies\<close>

definition Policy_Create :: "'s mgo_ops \<Rightarrow> FilterContext \<Rightarrow> Policy \<Rightarrow> ('s world, df_err + Policy) prog" where
  "Policy_Create ops ctx pol =
     (if \<not> name_matches (pol_Name pol) \<or> pol_Name pol = ''all'' then ret (Inl ERR_INVALID_POLICY_NAME)
      else onDb (CreatePolicy ops ctx pol))"

definition Policy_Delete :: "'s mgo_ops \<Rightarrow> FilterContext \<Rightarrow> string \<Rightarrow> ('s world, df_err option) prog" where
  "Policy_Delete ops ctx i = onDb (DeletePolicy ops ctx i)"

definition Policy_Get :: "'s mgo_ops \<Rightarrow> FilterContext \<Rightarrow> string \<Rightarrow> ('s world, df_err + Policy) prog" where
  "Policy_Get ops ctx i = onDb (GetPolicy ops ctx i)"

definition Policy_List :: "'s mgo_ops \<Rightarrow> FilterContext \<Rightarrow> ('s world, df_err + Policy list) prog" where
  "Policy_List ops ctx = onDb (ListPolicy ops ctx)"

text \<open>The inner and the outer loop over the plans of a policy; the outer one has fuel.\<close>

fun update_plans :: "'s mgo_ops \<Rightarrow> (string \<Rightarrow> bool) \<Rightarrow> FilterContext \<Rightarrow> Plan list \<Rightarrow>
    ('s world, df_err option) prog" where
  "update_plans ops v ctx [] = ret None"
| "update_plans ops v ctx (p # ps) =
     (if \<not> pln_PolicyEnabled p then update_plans ops v ctx ps
      else call (Manager_Update ops v ctx p (NewPlanExecutor ctx p)) (\<lambda>err.
        case err of Some e \<Rightarrow> ret (Some e) | None \<Rightarrow> update_plans ops v ctx ps))"

fun updatePolicyInTrigger :: "nat \<Rightarrow> 's mgo_ops \<Rightarrow> (string \<Rightarrow> bool) \<Rightarrow> FilterContext \<Rightarrow> Policy \<Rightarrow> int \<Rightarrow>
    ('s world, df_err option) prog" where
  "updatePolicyInTrigger 0 ops v ctx policy offset = (\<lambda>w. OutOfFuel)"
| "updatePolicyInTrigger (Suc n) ops v ctx policy offset =
     call (onDb (GetPlanByPolicy ops ctx (pol_Id policy) DefaultLimit offset)) (\<lambda>r.
       case r of
         Inl err \<Rightarrow> ret (Some err)
       | Inr plans \<Rightarrow>
           (if plans = [] then ret None
            else call (update_plans ops v ctx plans) (\<lambda>err.
              case err of
                Some e \<Rightarrow> ret (Some e)
              | None \<Rightarrow> updatePolicyInTrigger n ops v ctx policy (offset + int (length plans)))))"

definition update_policy_fields :: "update_map \<Rightarrow> Policy \<Rightarrow> Policy go" where
  "update_policy_fields m p =
     go_bind (update_field m ''description'' (\<lambda>v p. go_map (\<lambda>s. p\<lparr>pol_Description := s\<rparr>) (assert_string v)) p) (\<lambda>p.
       update_field m ''schedule'' (\<lambda>v p. Return (p\<lparr>pol_Schedule := json_Schedule v\<rparr>)) p)"

definition Policy_Update :: "nat \<Rightarrow> 's mgo_ops \<Rightarrow> (string \<Rightarrow> bool) \<Rightarrow> FilterContext \<Rightarrow> string \<Rightarrow> update_map \<Rightarrow>
    ('s world, df_err + Policy) prog" where
  "Policy_Update n ops v ctx policyId m =
     call (onDb (GetPolicy ops ctx policyId)) (\<lambda>r.
       case r of
         Inl err \<Rightarrow> ret (Inl err)
       | Inr p \<Rightarrow>
           call (lift_go (update_field m ''name'' (\<lambda>v p. go_map (\<lambda>s. p\<lparr>pol_Name := s\<rparr>) (assert_string v)) p)) (\<lambda>p.
             if lookup m ''name'' \<noteq> None \<and> \<not> name_matches (pol_Name p) then ret (Inl ERR_INVALID_PLAN_NAME)
             else call (lift_go (update_policy_fields m p)) (\<lambda>p.
               call (onDb (UpdatePolicy ops ctx p)) (\<lambda>resp.
                 case resp of
                   Inl err \<Rightarrow> ret (Inl err)
                 | Inr resp \<Rightarrow>
                     (if lookup m ''schedule'' \<noteq> None then
                        call (updatePolicyInTrigger n ops v ctx resp DefaultOffset) (\<lambda>err.
                          ret (case err of Some e \<Rightarrow> Inl e | None \<Rightarrow> Inr resp))
                      else ret (Inr resp))))))"

section \<open>Jobs and the scheduler\<close>

definition Job_Create :: "'s mgo_ops \<Rightarrow> FilterContext \<Rightarrow> Job \<Rightarrow> ('s world, Job \<times> mgo_err option) prog" where
  "Job_Create ops ctx job = onDb (CreateJob ops ctx job)"

definition Job_Get :: "'s mgo_ops \<Rightarrow> FilterContext \<Rightarrow> string \<Rightarrow> ('s world, df_err + Job) prog" where
  "Job_Get ops ctx i = onDb (GetJob ops ctx i)"

definition Job_List :: "'s mgo_ops \<Rightarrow> FilterContext \<Rightarrow> int \<Rightarrow> int \<Rightarrow> (string, string) gomap \<Rightarrow>
    ('s world, df_err + Job list) prog" where
  "Job_List ops ctx limit offset filt = onDb (ListJob ops ctx limit offset filt)"

text \<open>Errors of a single plan are logged and the plan is skipped.\<close>

fun load_plans :: "'s mgo_ops \<Rightarrow> (string \<Rightarrow> bool) \<Rightarrow> FilterContext \<Rightarrow> Plan list \<Rightarrow> ('s world, unit) prog" where
  "load_plans ops v ctx [] = ret ()"
| "load_plans ops v ctx (p # ps) =
     (if pln_PolicyId p = [] \<or> \<not> pln_PolicyEnabled p then load_plans ops v ctx ps
      else call (Manager_Add ops v ctx p (NewPlanExecutor ctx p)) (\<lambda>_. load_plans ops v ctx ps))"

fun LoadAllPlans :: "nat \<Rightarrow> 's mgo_ops \<Rightarrow> (string \<Rightarrow> bool) \<Rightarrow> int \<Rightarrow> ('s world, unit) prog" where
  "LoadAllPlans 0 ops v offset = (\<lambda>w. OutOfFuel)"
| "LoadAllPlans (Suc n) ops v offset =
     call (onDb (ListPlan ops filter_NewAdminContext DefaultLimit offset NoFilter)) (\<lambda>r.
       case r of
         Inl err \<Rightarrow> ret ()
       | Inr plans \<Rightarrow>
           (if plans = [] then ret ()
            else call (load_plans ops v filter_NewAdminContext plans) (\<lambda>_.
              LoadAllPlans n ops v (offset + int (length plans)))))"

end
