(* ===== verification/Dataflow_Plan_Correct.thy ===== *)
theory Dataflow_Plan_Correct
  imports Dataflow_Plan
begin

text \<open>
  Properties of plans and policies in the running dataflow service: what the run of a plan stores
  and sends, and where the service and its triggers part ways: at start-up no plan is loaded, the
  update of a policy's schedule always fails after it was stored, and a plan whose policy is
  cleared keeps its schedule.
\<close>

section \<open>Programs of the service\<close>

lemma onDb_Return_iff:
  "onDb m w = Return (a, w') \<longleftrightarrow> (\<exists>s. m (sv_db w) = Return (a, s) \<and> w' = w\<lparr>sv_db := s\<rparr>)"
  by (auto simp: onDb_def)

lemma onDb_ReturnE [go_elims]:
  assumes "onDb m w = Return (a, w')"
  obtains s where "m (sv_db w) = Return (a, s)" "w' = w\<lparr>sv_db := s\<rparr>"
  using assms by (auto simp: onDb_Return_iff)

lemma ret_Return_iff [simp]: "ret a w = Return (b, w') \<longleftrightarrow> b = a \<and> w' = w"
  by (auto simp: ret_def)

section \<open>Start-up\<close>

text \<open>
  No plan survives a restart: \<open>LoadAllPlans\<close> lists the plans with a nil filter, for which the
  adapter returns none, so it returns at once and schedules nothing.
\<close>

theorem LoadAllPlans_loads_nothing:
  "LoadAllPlans (Suc n) ops v offset w = Return ((), w)"
  by (simp add: call_def onDb_def ListPlan_def doListPlan_def ret_def)

section \<open>Updating a policy\<close>

lemma GetPlanByPolicy_fails: "GetPlanByPolicy ops ctx i limit offset = ret (Inl ERR_INNER_ERR)"
  by (simp add: GetPlanByPolicy_def doListPlan_def Let_def)

lemma updatePolicyInTrigger_fails:
  "updatePolicyInTrigger (Suc n) ops v ctx policy offset w = Return (Some ERR_INNER_ERR, w)"
  by (simp add: GetPlanByPolicy_fails call_def onDb_def ret_def)

text \<open>
  An update of a policy that changes its schedule never succeeds: once the policy is stored,
  the look-up of its plans fails for the type of its filter, and the error is returned.
\<close>

theorem Policy_schedule_update_fails:
  assumes "lookup m ''schedule'' \<noteq> None" and "Policy_Update (Suc n) ops v ctx i m w = Return (r, w')"
  shows "\<exists>e. r = Inl e"
  using assms unfolding Policy_Update_def
  by (auto simp: updatePolicyInTrigger_fails simp del: updatePolicyInTrigger.simps
      elim!: call_ReturnE split: sum.splits if_splits)

definition sample_service :: "mem world" where
  "sample_service = \<lparr>sv_db = sample_world, sv_cron = new_CronTrigger, sv_sent = []\<rparr>"

theorem Policy_schedule_update_fails_witness:
  "\<exists>w'. Policy_Update 1 mem_ops (\<lambda>_. True) sample_ctx sample_id
      [(''schedule'', VMap [(''type'', VString ''cron''), (''triggerProperties'', VString ''@hourly'')])] sample_service =
      Return (Inl ERR_INNER_ERR, w') \<and>
    mem_docs (sv_db w') CollPolicy =
      [enc_Policy (sample_policy\<lparr>pol_Schedule := \<lparr>sch_Type = ''cron'', sch_TriggerProperties = ''@hourly''\<rparr>\<rparr>)]"
proof -
  let ?m = "[(''schedule'', VMap [(''type'', VString ''cron''), (''triggerProperties'', VString ''@hourly'')])]"
  let ?run = "Policy_Update 1 mem_ops (\<lambda>_. True) sample_ctx sample_id ?m sample_service"
  have check: "case ?run of
      Return (r, w') \<Rightarrow> (case r of Inl e \<Rightarrow> e = ERR_INNER_ERR | Inr _ \<Rightarrow> True) \<and> mem_docs (sv_db w') CollPolicy =
        [enc_Policy (sample_policy\<lparr>pol_Schedule := \<lparr>sch_Type = ''cron'', sch_TriggerProperties = ''@hourly''\<rparr>\<rparr>)]
    | _ \<Rightarrow> False" by code_simp
  then obtain r w' where run: "?run = Return (r, w')" by (cases ?run) auto
  have "?run = Policy_Update (Suc 0) mem_ops (\<lambda>_. True) sample_ctx sample_id ?m sample_service" by simp
  with run have run1: "Policy_Update (Suc 0) mem_ops (\<lambda>_. True) sample_ctx sample_id ?m sample_service = Return (r, w')"
    by simp
  have "lookup ?m ''schedule'' \<noteq> None" by simp
  from Policy_schedule_update_fails [OF this run1] obtain e where "r = Inl e" by blast
  with check run show ?thesis by auto
qed

section \<open>Clearing a plan's policy\<close>

lemma Manager_Remove_no_policy:
  "pln_PolicyId p = [] \<Longrightarrow> Manager_Remove ops ctx p w = Return (r, w') \<Longrightarrow> w' = w"
  by (auto simp: Manager_Remove_def withTrigger_def)

lemma update_field_keeps:
  "update_field m k f p = Return p' \<Longrightarrow> (\<And>v q. f v p = Return q \<Longrightarrow> g q = g p) \<Longrightarrow> g p' = g p"
  by (auto simp: update_field_def split: option.splits)

lemma update_rest_policyId:
  assumes "lookup m ''policyId'' = Some (VString s)" and "update_rest m p = Return p'"
  shows "pln_PolicyId p' = s"
proof -
  from assms(2) obtain p1 p2 p3 p4 where
    2: "update_field m ''policyId'' (\<lambda>v p. go_map (\<lambda>s. p\<lparr>pln_PolicyId := s\<rparr>) (assert_string v)) p1 = Return p2"
    and 3: "update_field m ''description'' (\<lambda>v p. go_map (\<lambda>s. p\<lparr>pln_Description := s\<rparr>) (assert_string v)) p2 = Return p3"
    and 4: "update_field m ''remainSource'' (\<lambda>v p. go_map (\<lambda>b. p\<lparr>pln_RemainSource := b\<rparr>) (assert_bool v)) p3 = Return p4"
    and 5: "update_field m ''Asist'' (\<lambda>v p. Return (p\<lparr>pln_Asist := \<lparr>asi_Type = [], asi_Details = []\<rparr>\<rparr>)) p4 = Return p'"
    unfolding update_rest_def by (elim go_bind_ReturnE)
  have "pln_PolicyId p2 = s" using 2 assms(1) by (auto simp: update_field_def)
  moreover have "pln_PolicyId p3 = pln_PolicyId p2" using 3 by (rule update_field_keeps) auto
  moreover have "pln_PolicyId p4 = pln_PolicyId p3" using 4 by (rule update_field_keeps) auto
  moreover have "pln_PolicyId p' = pln_PolicyId p4" using 5 by (rule update_field_keeps) auto
  ultimately show ?thesis by simp
qed

lemma UpdatePlan_result:
  assumes "UpdatePlan ops ctx p s = Return (Inr p', s')"
  shows "pln_PolicyId p' = pln_PolicyId p"
proof -
  have frame: "with_manager_lock ops (Inl e) body s = Return (Inr p', s') \<Longrightarrow>
      \<exists>s1 s2. body s1 = Return (Inr p', s2)" for e and body :: "('a, df_err + Plan) prog"
    by (auto simp: with_manager_lock_def call_Return_iff split: if_splits)
  show ?thesis
    using frame [OF assms [unfolded UpdatePlan_def]]
    by (auto simp: call_Return_iff Let_def lift_go_def split: option.splits if_splits)
qed

text \<open>
  Clearing the policy of a scheduled plan does not stop it: the trigger is asked to forget the
  plan only after the plan has lost its policy, which the manager refuses; the update succeeds, the
  plan has no policy any more and all schedules stay in force.
\<close>

theorem cleared_policy_keeps_schedule:
  assumes "lookup m ''policyId'' = Some (VString [])"
    and "Plan_Update ops v ctx i m w = Return (Inr p, w')"
  shows "pln_PolicyId p = [] \<and> cron_scheduled (sv_cron w') = cron_scheduled (sv_cron w)"
proof -
  obtain r w1 where get: "onDb (GetPlan ops ctx i) w = Return (r, w1)"
    and rest: "(case r of
         Inl err \<Rightarrow> ret (Inl err)
       | Inr p \<Rightarrow>
           call (lift_go (update_field m ''name'' (\<lambda>v p. go_map (\<lambda>s. p\<lparr>pln_Name := s\<rparr>) (assert_string v)) p)) (\<lambda>p.
             if lookup m ''name'' \<noteq> None \<and> \<not> name_matches (pln_Name p) then ret (Inl ERR_INVALID_PLAN_NAME)
             else let p = update_connectors m p
             in if isEqual (pln_SourceConn p) (pln_DestConn p) then ret (Inl ERR_DEST_SRC_CONN_EQUAL)
                else call (lift_go (update_rest m p)) (\<lambda>p.
                  let needUpdateTrigger = lookup m ''policyEnabled'' \<noteq> None \<or> lookup m ''policyId'' \<noteq> None
                  in call (if needUpdateTrigger then update_trigger ops v ctx p else ret None) (\<lambda>err.
                       case err of
                         Some e \<Rightarrow> ret (Inl e)
                       | None \<Rightarrow> onDb (UpdatePlan ops ctx p))))) w1 = Return (Inr p, w')"
    using assms(2) unfolding Plan_Update_def by (rule call_ReturnE)
  from get have w1: "sv_cron w1 = sv_cron w" by (auto simp: onDb_Return_iff)
  from rest assms(1) obtain p1 p2 w2 where p2: "update_rest m p1 = Return p2"
    and trig: "update_trigger ops v ctx p2 w1 = Return (None, w2)"
    and upd: "onDb (UpdatePlan ops ctx p2) w2 = Return (Inr p, w')"
    by (auto simp: call_Return_iff lift_go_def Let_def split: sum.splits option.splits if_splits)
  have "pln_PolicyId p2 = []" by (rule update_rest_policyId [OF assms(1) p2])
  with trig have "w2 = w1"
    by (auto simp: update_trigger_def call_Return_iff dest: Manager_Remove_no_policy)
  with upd w1 \<open>pln_PolicyId p2 = []\<close> show ?thesis
    by (auto simp: onDb_Return_iff dest: UpdatePlan_result)
qed

definition sample_scheduled :: "mem world" where
  "sample_scheduled = sample_service\<lparr>sv_cron :=
     snd (Cron_Add (\<lambda>_. True) sample_id2 ''@daily'' (Some (NewPlanExecutor sample_ctx sample_plan)) new_CronTrigger)\<rparr>"

definition cloud_conn :: "string \<Rightarrow> gval" where
  "cloud_conn bucket = VMap [(''storType'', VString ''opensds-obj''), (''bucketName'', VString bucket)]"

theorem cleared_policy_keeps_schedule_witness:
  "\<exists>p w'. Plan_Update mem_ops (\<lambda>_. True) sample_ctx sample_id2
      [(''policyId'', VString []), (''sourceConn'', cloud_conn ''b1''), (''destConn'', cloud_conn ''b2'')] sample_scheduled =
      Return (Inr p, w') \<and> pln_PolicyId p = [] \<and> cron_scheduled (sv_cron w') sample_id2 \<noteq> None"
proof -
  let ?m = "[(''policyId'', VString []), (''sourceConn'', cloud_conn ''b1''), (''destConn'', cloud_conn ''b2'')]"
  let ?run = "Plan_Update mem_ops (\<lambda>_. True) sample_ctx sample_id2 ?m sample_scheduled"
  have "case ?run of Return (Inr _, _) \<Rightarrow> True | _ \<Rightarrow> False" by code_simp
  then obtain p w' where run: "?run = Return (Inr p, w')" by (auto split: go.splits sum.splits prod.splits)
  have "lookup ?m ''policyId'' = Some (VString [])" by simp
  from cleared_policy_keeps_schedule [OF this run]
  have "pln_PolicyId p = []" "cron_scheduled (sv_cron w') = cron_scheduled (sv_cron sample_scheduled)" by simp_all
  moreover have "cron_scheduled (sv_cron sample_scheduled) sample_id2 \<noteq> None"
    by (simp add: sample_scheduled_def cron_scheduled_def Cron_Add_def new_CronTrigger_def)
  ultimately show ?thesis using run by simp
qed

section \<open>Running a plan\<close>

context mgo_store begin

lemma insert_job_steps:
  "insert_job n ops job err s = Return ((job', None), s') \<Longrightarrow> n \<noteq> 0 \<Longrightarrow>
   (\<exists>i. job' = job\<lparr>job_Id := i\<rparr>) \<and> docs s' = (docs s)(CollJob := docs s CollJob @ [enc_Job job']) \<and>
   \<not> conflict (keys CollJob) (enc_Job job') (docs s CollJob)"
proof (induction n arbitrary: job err s)
  case (Suc n)
  obtain newId s1 where new: "op_NewObjectId ops s = (newId, s1)" by (cases "op_NewObjectId ops s")
  let ?job = "job\<lparr>job_Id := newId\<rparr>"
  obtain e s2 where ins: "op_Insert ops CollJob (enc_Job ?job) s1 = (e, s2)"
    by (cases "op_Insert ops CollJob (enc_Job ?job) s1")
  have d1: "docs s1 = docs s" using new by (rule NewObjectId)
  from Suc.prems new ins have rest: "(if e = Some ErrDup then insert_job n ops ?job e
      else ret (?job, e)) s2 = Return ((job', None), s')"
    by (simp add: call_def liftS_def Let_def)
  show ?case
  proof (cases "e = Some ErrDup")
    case True
    with ins Insert_err have d2: "docs s2 = docs s1" by blast
    from True rest have run: "insert_job n ops ?job (Some ErrDup) s2 = Return ((job', None), s')" by simp
    then have "n \<noteq> 0" by (cases n) auto
    from Suc.IH [OF run this] obtain i where "job' = ?job\<lparr>job_Id := i\<rparr>"
      "docs s' = (docs s2)(CollJob := docs s2 CollJob @ [enc_Job job'])"
      "\<not> conflict (keys CollJob) (enc_Job job') (docs s2 CollJob)" by blast
    with d1 d2 show ?thesis by (auto intro!: exI [of _ i])
  next
    case False
    with rest have "e = None" "job' = ?job" "s' = s2" by auto
    with ins have "op_Insert ops CollJob (enc_Job job') s1 = (None, s')" by simp
    from Insert_ok [OF this] d1 \<open>job' = ?job\<close> show ?thesis by (auto intro!: exI [of _ newId])
  qed
qed simp

lemma lock_loop_frame:
  "lock_loop n ops i r s = Return (lk, s') \<Longrightarrow> c \<noteq> lockColName \<Longrightarrow> docs s' c = docs s c"
proof (induction n arbitrary: r s)
  case (Suc n)
  show ?case
  proof (cases "r = LockDbErr")
    case True
    with Suc.prems obtain r1 s1 where "LockSched ops i s = Return (r1, s1)" "lock_loop n ops i r1 s1 = Return (lk, s')"
      by (auto simp: call_Return_iff)
    with Suc.IH Suc.prems(2) lock_frame [of i 30 s r1 s1 c] show ?thesis
      by (simp add: LockSched_def)
  next
    case False
    with Suc.prems show ?thesis by (cases r) auto
  qed
qed simp

lemma run_locked_steps:
  assumes "run_locked ops ctx plan w = Return (r, w')"
  shows "sv_sent w' = sv_sent w \<or> (\<exists>job. r = Inr (job_Id job) \<and>
    sv_sent w' = sv_sent w @ [new_request plan job] \<and> job_PlanId job = pln_Id plan \<and>
    job_Status job = JOB_STATUS_PENDING \<and> job_Tenant job = fc_TenantId ctx \<and>
    docs (sv_db w') CollJob = docs (sv_db w) CollJob @ [enc_Job job] \<and>
    \<not> conflict (keys CollJob) (enc_Job job) (docs (sv_db w) CollJob))"
proof (cases "getLocation (pln_SourceConn plan)")
  case (Inl e)
  with assms show ?thesis by (simp add: run_locked_def)
next
  case (Inr src)
  show ?thesis
  proof (cases "getLocation (pln_DestConn plan)")
    case (Inl e)
    with Inr assms show ?thesis by (simp add: run_locked_def)
  next
    case dest: (Inr dest)
    obtain ct s1 where now: "op_Now ops (sv_db w) = (ct, s1)" by (cases "op_Now ops (sv_db w)")
    with assms Inr dest obtain job err s2 where job: "CreateJob ops ctx (new_job plan src dest ct) s1 = Return ((job, err), s2)"
      and rest: "(if err = None then call (sendJob (new_request plan job)) (\<lambda>_. ret (Inr (job_Id job)))
            else ret (Inr (job_Id job))) (w\<lparr>sv_db := s2\<rparr>) = Return (r, w')"
      by (auto simp: run_locked_def call_Return_iff onDb_Return_iff liftS_def)
    have d1: "docs s1 = docs (sv_db w)" using Now [OF now] by simp
    show ?thesis
    proof (cases err)
      case None
      with job have "insert_job 3 ops ((new_job plan src dest ct)\<lparr>job_Tenant := fc_TenantId ctx\<rparr>) None s1 =
          Return ((job, None), s2)" by (simp add: CreateJob_def)
      from insert_job_steps [OF this] obtain i where
        "job = (new_job plan src dest ct)\<lparr>job_Tenant := fc_TenantId ctx, job_Id := i\<rparr>"
        "docs s2 = (docs s1)(CollJob := docs s1 CollJob @ [enc_Job job])"
        "\<not> conflict (keys CollJob) (enc_Job job) (docs s1 CollJob)" by auto
      with None rest d1 show ?thesis
        by (intro disjI2 exI [of _ job]) (auto simp: call_Return_iff sendJob_def new_job_def)
    next
      case (Some e)
      with rest show ?thesis by auto
    qed
  qed
qed

lemma Plan_Run_steps:
  assumes "Plan_Run ops ctx i w = Return (r, w')"
  shows "sv_sent w' = sv_sent w \<or> (\<exists>plan job. r = Inr (job_Id job) \<and>
    sv_sent w' = sv_sent w @ [new_request plan job] \<and> job_PlanId job = pln_Id plan \<and>
    job_Status job = JOB_STATUS_PENDING \<and> job_Tenant job = fc_TenantId ctx \<and>
    docs (sv_db w') CollJob = docs (sv_db w) CollJob @ [enc_Job job] \<and>
    \<not> conflict (keys CollJob) (enc_Job job) (docs (sv_db w) CollJob))"
proof -
  obtain r1 s1 where get: "GetPlan ops ctx i (sv_db w) = Return (r1, s1)"
    and rest: "(case r1 of
         Inl err \<Rightarrow> ret (Inl err)
       | Inr plan \<Rightarrow>
           call (onDb (call (LockSched ops (pln_Id plan)) (lock_loop 3 ops (pln_Id plan)))) (\<lambda>lk.
             case lk of
               SchedBusy \<Rightarrow> ret (Inl ERR_RUN_PLAN_BUSY)
             | SchedNotHeld \<Rightarrow> run_locked ops ctx plan
             | SchedHeld \<Rightarrow>
                 call (run_locked ops ctx plan) (\<lambda>result.
                   call (onDb (UnlockSched ops (pln_Id plan))) (\<lambda>_. ret result)))) (w\<lparr>sv_db := s1\<rparr>) = Return (r, w')"
    using assms by (auto simp: Plan_Run_def call_Return_iff onDb_Return_iff)
  show ?thesis
  proof (cases r1)
    case (Inl e)
    with rest show ?thesis by auto
  next
    case (Inr plan)
    with get have d1: "docs s1 = docs (sv_db w)" using GetPlan_steps by blast
    from rest Inr obtain r2 s2 lk s3 where lock: "LockSched ops (pln_Id plan) s1 = Return (r2, s2)"
      "lock_loop 3 ops (pln_Id plan) r2 s2 = Return (lk, s3)"
      and run: "(case lk of
               SchedBusy \<Rightarrow> ret (Inl ERR_RUN_PLAN_BUSY)
             | SchedNotHeld \<Rightarrow> run_locked ops ctx plan
             | SchedHeld \<Rightarrow>
                 call (run_locked ops ctx plan) (\<lambda>result.
                   call (onDb (UnlockSched ops (pln_Id plan))) (\<lambda>_. ret result))) (w\<lparr>sv_db := s3\<rparr>) = Return (r, w')"
      by (auto simp: call_Return_iff onDb_Return_iff)
    have job_lock: "CollJob \<noteq> lockColName" by (simp add: coll_names)
    have d3: "docs s3 CollJob = docs (sv_db w) CollJob"
      using lock_frame [OF lock(1) [unfolded LockSched_def] job_lock] lock_loop_frame [OF lock(2) job_lock] d1
      by simp
    show ?thesis
    proof (cases lk)
      case SchedBusy
      with run show ?thesis by auto
    next
      case SchedNotHeld
      with run have "run_locked ops ctx plan (w\<lparr>sv_db := s3\<rparr>) = Return (r, w')" by simp
      from run_locked_steps [OF this] d3 show ?thesis by auto
    next
      case SchedHeld
      with run obtain w2 s4 where "run_locked ops ctx plan (w\<lparr>sv_db := s3\<rparr>) = Return (r, w2)"
        "unlock ops (pln_Id plan) (sv_db w2) = Return (s4, sv_db w')" "sv_sent w' = sv_sent w2"
        by (auto simp: call_Return_iff onDb_Return_iff UnlockSched_def)
      with run_locked_steps [OF this(1)] unlock_frame [OF this(2) job_lock] d3 show ?thesis by auto
    qed
  qed
qed

end

text \<open>
  C24. A run of a plan sends at most one request to the data mover, and only for a job that is stored:
  pending, of the caller's tenant and the plan, under the id that the request carries and the run
  returns.
\<close>

theorem Plan_Run_sends:
  assumes "mgo_store ops docs keys clock" and "Plan_Run ops ctx i w = Return (r, w')"
  shows "sv_sent w' = sv_sent w \<or> (\<exists>plan job. r = Inr (job_Id job) \<and>
    sv_sent w' = sv_sent w @ [new_request plan job] \<and> job_PlanId job = pln_Id plan \<and>
    job_Status job = JOB_STATUS_PENDING \<and> job_Tenant job = fc_TenantId ctx \<and>
    docs (sv_db w') CollJob = docs (sv_db w) CollJob @ [enc_Job job])"
  using mgo_store.Plan_Run_steps [OF assms] by blast

definition runnable_plan :: Plan where
  "runnable_plan = sample_plan\<lparr>pln_SourceConn := \<lparr>conn_StorType = ''opensds-obj'', conn_BucketName = ''b1'', conn_ConnConfig = []\<rparr>,
     pln_DestConn := \<lparr>conn_StorType = ''opensds-obj'', conn_BucketName = ''b2'', conn_ConnConfig = []\<rparr>\<rparr>"

theorem Plan_Run_sends_witness:
  "\<exists>r w' job. Plan_Run mem_ops sample_ctx sample_id2 (sample_service\<lparr>sv_db := sample_world\<lparr>m_docs :=
      [(CollPolicy, [enc_Policy sample_policy]), (CollPlan, [enc_Plan runnable_plan])]\<rparr>\<rparr>) = Return (r, w') \<and>
    sv_sent w' \<noteq> [] \<and> mem_docs (sv_db w') CollJob = [enc_Job job] \<and> mem_docs (sv_db w') lockColName = []"
proof -
  let ?w = "sample_service\<lparr>sv_db := sample_world\<lparr>m_docs :=
      [(CollPolicy, [enc_Policy sample_policy]), (CollPlan, [enc_Plan runnable_plan])]\<rparr>\<rparr>"
  let ?run = "Plan_Run mem_ops sample_ctx sample_id2 ?w"
  have check: "case ?run of Return (r, w') \<Rightarrow> sv_sent w' \<noteq> [] \<and> mem_docs (sv_db w') lockColName = [] | _ \<Rightarrow> False"
    by code_simp
  then obtain r w' where run: "?run = Return (r, w')" by (cases ?run) auto
  have "sv_sent ?w = []" "mem_docs (sv_db ?w) CollJob = []"
    by (simp_all add: sample_service_def mem_docs_def coll_names)
  with Plan_Run_sends [OF mem.mgo_store_axioms run] check run show ?thesis by auto
qed

end
