(* ===== verification/Datamover_Channels.thy ===== *)
theory Datamover_Channels
  imports Go_Prelude
begin

text \<open>
  The goroutines of a migration (\<open>doMove\<close>, \<open>move\<close> and the loop of \<open>doMigration\<close> in
  \<open>datamover/pkg/drivers/https/migration.go\<close>) as a machine. The producer starts a goroutine for each
  object and then puts a token into the channel \<open>th\<close> of capacity \<open>simuRoutines\<close>; a mover works, hands
  its result over the unbuffered channel \<open>capa\<close>, and takes a token; the main loop counts the results
  and closes both channels after the last one or after a timeout. \<open>outs ! i\<close> is the result of moving
  object \<open>i\<close>, negative when it failed. Sending on a closed channel panics, which ends the process.
\<close>

section \<open>The machine\<close>

definition simuRoutines :: nat where "simuRoutines = 10"

datatype mover_pc = MWork | MSent | MDone

datatype producer_pc = Spawn | Push

record mig_state =
  mg_producer :: producer_pc
  mg_th :: nat
  mg_movers :: "mover_pc list"
  mg_count :: nat
  mg_passed :: nat
  mg_capacity :: int
  mg_closed :: bool
  mg_tmout :: bool
  mg_crashed :: bool

definition mig_init :: mig_state where
  "mig_init = \<lparr>mg_producer = Spawn, mg_th = 0, mg_movers = [], mg_count = 0, mg_passed = 0,
     mg_capacity = 0, mg_closed = False, mg_tmout = False, mg_crashed = False\<rparr>"

definition receive :: "int \<Rightarrow> mig_state \<Rightarrow> mig_state" where
  "receive c s = s\<lparr>mg_count := mg_count s + 1,
     mg_passed := (if c \<ge> 0 then mg_passed s + 1 else mg_passed s),
     mg_capacity := (if c \<ge> 0 then i64 (mg_capacity s + c) else mg_capacity s)\<rparr>"

text \<open>The steps of a migration while nothing times out.\<close>

inductive mig_step :: "int list \<Rightarrow> mig_state \<Rightarrow> mig_state \<Rightarrow> bool" for outs where
  spawn: "\<not> mg_crashed s \<Longrightarrow> mg_producer s = Spawn \<Longrightarrow> length (mg_movers s) < length outs \<Longrightarrow>
     mig_step outs s (s\<lparr>mg_producer := Push, mg_movers := mg_movers s @ [MWork]\<rparr>)"
| push: "\<not> mg_crashed s \<Longrightarrow> mg_producer s = Push \<Longrightarrow> \<not> mg_closed s \<Longrightarrow> mg_th s < simuRoutines \<Longrightarrow>
     mig_step outs s (s\<lparr>mg_producer := Spawn, mg_th := mg_th s + 1\<rparr>)"
| push_closed: "\<not> mg_crashed s \<Longrightarrow> mg_producer s = Push \<Longrightarrow> mg_closed s \<Longrightarrow>
     mig_step outs s (s\<lparr>mg_crashed := True\<rparr>)"
| send: "\<not> mg_crashed s \<Longrightarrow> i < length (mg_movers s) \<Longrightarrow> mg_movers s ! i = MWork \<Longrightarrow> \<not> mg_closed s \<Longrightarrow>
     mig_step outs s (receive (outs ! i) (s\<lparr>mg_movers := (mg_movers s)[i := MSent]\<rparr>))"
| send_closed: "\<not> mg_crashed s \<Longrightarrow> i < length (mg_movers s) \<Longrightarrow> mg_movers s ! i = MWork \<Longrightarrow> mg_closed s \<Longrightarrow>
     mig_step outs s (s\<lparr>mg_crashed := True\<rparr>)"
| take_token: "\<not> mg_crashed s \<Longrightarrow> i < length (mg_movers s) \<Longrightarrow> mg_movers s ! i = MSent \<Longrightarrow> 0 < mg_th s \<Longrightarrow>
     mig_step outs s (s\<lparr>mg_movers := (mg_movers s)[i := MDone], mg_th := mg_th s - 1\<rparr>)"
| take_closed: "\<not> mg_crashed s \<Longrightarrow> i < length (mg_movers s) \<Longrightarrow> mg_movers s ! i = MSent \<Longrightarrow> mg_th s = 0 \<Longrightarrow>
     mg_closed s \<Longrightarrow> mig_step outs s (s\<lparr>mg_movers := (mg_movers s)[i := MDone]\<rparr>)"
| all_received: "\<not> mg_crashed s \<Longrightarrow> \<not> mg_closed s \<Longrightarrow> mg_count s = length outs \<Longrightarrow> outs \<noteq> [] \<Longrightarrow>
     mig_step outs s (s\<lparr>mg_closed := True\<rparr>)"

text \<open>With the timeout of one result's waiting, which closes the channels while some are missing.\<close>

inductive timed_step :: "int list \<Rightarrow> mig_state \<Rightarrow> mig_state \<Rightarrow> bool" for outs where
  untimed: "mig_step outs s t \<Longrightarrow> timed_step outs s t"
| timeout: "\<not> mg_crashed s \<Longrightarrow> \<not> mg_closed s \<Longrightarrow> mg_count s < length outs \<Longrightarrow>
     timed_step outs s (s\<lparr>mg_closed := True, mg_tmout := True\<rparr>)"

inductive_cases mig_stepE: "mig_step outs s t"
inductive_cases timed_stepE: "timed_step outs s t"

section \<open>The invariant\<close>

text \<open>The capacity is kept as a 64-bit number, so it is the wrapped sum of what was received.\<close>

lemma i64_add: "i64 (i64 a + b) = i64 (a + b)" "i64 (a + i64 b) = i64 (a + b)" "i64 0 = 0"
  by (simp_all add: i64_def wrap_signed_def mod_simps algebra_simps)


definition sent :: "mig_state \<Rightarrow> nat set" where
  "sent s = {i. i < length (mg_movers s) \<and> mg_movers s ! i \<noteq> MWork}"

definition done_count :: "mig_state \<Rightarrow> nat" where
  "done_count s = length (filter (\<lambda>m. m = MDone) (mg_movers s))"

definition mig_inv :: "int list \<Rightarrow> mig_state \<Rightarrow> bool" where
  "mig_inv outs s \<longleftrightarrow>
     length (mg_movers s) \<le> length outs \<and> mg_th s \<le> simuRoutines \<and>
     mg_count s = card (sent s) \<and>
     mg_passed s = card {i \<in> sent s. 0 \<le> outs ! i} \<and>
     mg_capacity s = i64 (\<Sum>i \<in> {i \<in> sent s. 0 \<le> outs ! i}. outs ! i) \<and>
     (\<not> mg_closed s \<longrightarrow>
        mg_th s + done_count s + (if mg_producer s = Push then 1 else 0) = length (mg_movers s)) \<and>
     (mg_closed s \<longrightarrow> mg_tmout s \<or> mg_count s = length outs) \<and>
     (mg_tmout s \<longrightarrow> mg_closed s)"

lemma finite_sent [simp]: "finite (sent s)"
  by (simp add: sent_def)

lemma sent_append: "sent (s\<lparr>mg_producer := p, mg_movers := mg_movers s @ [MWork]\<rparr>) = sent s"
  by (auto simp: sent_def nth_append)

lemma sent_update:
  "i < length (mg_movers s) \<Longrightarrow> sent (s\<lparr>mg_movers := (mg_movers s)[i := MSent]\<rparr>) = insert i (sent s)"
  by (auto simp: sent_def nth_list_update)

lemma sent_done:
  "i < length (mg_movers s) \<Longrightarrow> mg_movers s ! i = MSent \<Longrightarrow>
     sent (s\<lparr>mg_movers := (mg_movers s)[i := MDone]\<rparr>) = sent s"
  by (auto simp: sent_def nth_list_update)

lemma sent_other [simp]:
  "sent (s\<lparr>mg_th := n\<rparr>) = sent s" "sent (s\<lparr>mg_producer := p\<rparr>) = sent s"
  "sent (s\<lparr>mg_crashed := b\<rparr>) = sent s" "sent (s\<lparr>mg_closed := b\<rparr>) = sent s" "sent (s\<lparr>mg_tmout := b\<rparr>) = sent s"
  "sent (receive c s) = sent s"
  by (simp_all add: sent_def receive_def)

lemma count_update_list:
  "i < length xs \<Longrightarrow> length (filter P (xs[i := y])) + (if P (xs ! i) then 1 else 0) =
     length (filter P xs) + (if P y then 1 else 0)"
proof (induction xs arbitrary: i)
  case Nil
  then show ?case by simp
next
  case (Cons a xs)
  show ?case
  proof (cases i)
    case 0
    then show ?thesis by simp
  next
    case (Suc k)
    with Cons.prems have "k < length xs" by simp
    from Cons.IH [OF this] show ?thesis by (simp add: Suc)
  qed
qed

lemma new_sent:
  assumes "i \<notin> sent s" and "mg_count s = card (sent s)" and "mg_passed s = card {i \<in> sent s. 0 \<le> outs ! i}"
    and "mg_capacity s = i64 (\<Sum>i \<in> {i \<in> sent s. 0 \<le> outs ! i}. outs ! i)"
  shows "Suc (mg_count s) = card (insert i (sent s))"
    and "(if 0 \<le> outs ! i then mg_passed s + 1 else mg_passed s) = card {j \<in> insert i (sent s). 0 \<le> outs ! j}"
    and "(if 0 \<le> outs ! i then i64 (mg_capacity s + outs ! i) else mg_capacity s) =
           i64 (\<Sum>j \<in> {j \<in> insert i (sent s). 0 \<le> outs ! j}. outs ! j)"
proof -
  have set: "{j \<in> insert i (sent s). 0 \<le> outs ! j} =
      (if 0 \<le> outs ! i then insert i {j \<in> sent s. 0 \<le> outs ! j} else {j \<in> sent s. 0 \<le> outs ! j})" by auto
  show "Suc (mg_count s) = card (insert i (sent s))" using assms by simp
  show "(if 0 \<le> outs ! i then mg_passed s + 1 else mg_passed s) = card {j \<in> insert i (sent s). 0 \<le> outs ! j}"
    using assms unfolding set by simp
  show "(if 0 \<le> outs ! i then i64 (mg_capacity s + outs ! i) else mg_capacity s) =
           i64 (\<Sum>j \<in> {j \<in> insert i (sent s). 0 \<le> outs ! j}. outs ! j)"
    using assms unfolding set by (simp add: i64_add add.commute)
qed

lemma mig_inv_step:
  assumes "mig_step outs s t" and "mig_inv outs s"
  shows "mig_inv outs t"
  using assms
proof (induction rule: mig_step.induct)
  case (spawn s)
  have "done_count (s\<lparr>mg_producer := Push, mg_movers := mg_movers s @ [MWork]\<rparr>) = done_count s"
    by (simp add: done_count_def)
  with spawn show ?case by (auto simp: mig_inv_def sent_append)
next
  case (push s)
  then show ?case by (auto simp: mig_inv_def done_count_def)
next
  case (push_closed s)
  then show ?case by (auto simp: mig_inv_def done_count_def)
next
  case (send s i)
  let ?t = "s\<lparr>mg_movers := (mg_movers s)[i := MSent]\<rparr>"
  have fresh: "i \<notin> sent s" using send by (simp add: sent_def)
  have "length (filter (\<lambda>m. m = MDone) ((mg_movers s)[i := MSent])) = length (filter (\<lambda>m. m = MDone) (mg_movers s))"
    using count_update_list [of i "mg_movers s" "\<lambda>m. m = MDone" MSent] send by simp
  then have dc: "done_count (receive (outs ! i) ?t) = done_count s" by (simp add: done_count_def receive_def)
  from send.prems have "mg_count s = card (sent s)" "mg_passed s = card {i \<in> sent s. 0 \<le> outs ! i}"
      "mg_capacity s = i64 (\<Sum>i \<in> {i \<in> sent s. 0 \<le> outs ! i}. outs ! i)"
    by (simp_all only: mig_inv_def)
  note new = new_sent [OF fresh this]
  have st: "sent (receive (outs ! i) ?t) = insert i (sent s)" using send by (simp add: sent_update)
  have "mg_count (receive (outs ! i) ?t) = Suc (mg_count s)"
      "mg_passed (receive (outs ! i) ?t) = (if 0 \<le> outs ! i then mg_passed s + 1 else mg_passed s)"
      "mg_capacity (receive (outs ! i) ?t) = (if 0 \<le> outs ! i then i64 (mg_capacity s + outs ! i) else mg_capacity s)"
    by (simp_all add: receive_def)
  note tallies = this [unfolded new]
  have rest: "length (mg_movers (receive (outs ! i) ?t)) = length (mg_movers s)"
      "mg_th (receive (outs ! i) ?t) = mg_th s" "mg_producer (receive (outs ! i) ?t) = mg_producer s"
      "mg_closed (receive (outs ! i) ?t) = mg_closed s" "mg_tmout (receive (outs ! i) ?t) = mg_tmout s"
    by (simp_all add: receive_def)
  show ?case
    using send unfolding mig_inv_def st dc tallies rest by simp
next
  case (send_closed s i)
  then show ?case by (auto simp: mig_inv_def done_count_def)
next
  case (take_token s i)
  have "length (filter (\<lambda>m. m = MDone) ((mg_movers s)[i := MDone])) = Suc (length (filter (\<lambda>m. m = MDone) (mg_movers s)))"
    using count_update_list [of i "mg_movers s" "\<lambda>m. m = MDone" MDone] take_token by simp
  moreover have "sent (s\<lparr>mg_movers := (mg_movers s)[i := MDone], mg_th := mg_th s - 1\<rparr>) = sent s"
    using sent_done [of i s] take_token by (simp add: sent_def)
  ultimately show ?case using take_token by (auto simp: mig_inv_def done_count_def)
next
  case (take_closed s i)
  then show ?case using sent_done [of i s] by (auto simp: mig_inv_def)
next
  case (all_received s)
  then show ?case by (auto simp: mig_inv_def done_count_def)
qed

lemma mig_inv_timed: "timed_step outs s t \<Longrightarrow> mig_inv outs s \<Longrightarrow> mig_inv outs t"
proof (induction rule: timed_step.induct)
  case (untimed s t)
  then show ?case by (rule mig_inv_step)
next
  case (timeout s)
  then show ?case by (auto simp: mig_inv_def done_count_def)
qed

lemma mig_inv_init: "mig_inv outs mig_init"
  by (simp add: mig_inv_def mig_init_def sent_def done_count_def i64_add)

interpretation migration: step_invariant "\<lambda>s. s = mig_init" "timed_step outs" "mig_inv outs"
  by unfold_locales (simp add: mig_inv_init, rule mig_inv_timed)

lemma reaches_timed: "reaches (mig_step outs) s t \<Longrightarrow> reaches (timed_step outs) s t"
  by (induction rule: reaches.induct) (blast intro: reaches.intros untimed)+

section \<open>Schedules\<close>

text \<open>The same machine as a function: what one goroutine does when it is scheduled.\<close>

datatype mig_action = ASpawn | APush | ASend nat | ATake nat | AClose | ATimeout

fun fire :: "int list \<Rightarrow> mig_action \<Rightarrow> mig_state \<Rightarrow> mig_state option" where
  "fire outs ASpawn s =
     (if \<not> mg_crashed s \<and> mg_producer s = Spawn \<and> length (mg_movers s) < length outs
      then Some (s\<lparr>mg_producer := Push, mg_movers := mg_movers s @ [MWork]\<rparr>) else None)"
| "fire outs APush s =
     (if mg_crashed s \<or> mg_producer s \<noteq> Push then None
      else if mg_closed s then Some (s\<lparr>mg_crashed := True\<rparr>)
      else if mg_th s < simuRoutines then Some (s\<lparr>mg_producer := Spawn, mg_th := mg_th s + 1\<rparr>) else None)"
| "fire outs (ASend i) s =
     (if mg_crashed s \<or> length (mg_movers s) \<le> i \<or> mg_movers s ! i \<noteq> MWork then None
      else if mg_closed s then Some (s\<lparr>mg_crashed := True\<rparr>)
      else Some (receive (outs ! i) (s\<lparr>mg_movers := (mg_movers s)[i := MSent]\<rparr>)))"
| "fire outs (ATake i) s =
     (if mg_crashed s \<or> length (mg_movers s) \<le> i \<or> mg_movers s ! i \<noteq> MSent then None
      else if 0 < mg_th s then Some (s\<lparr>mg_movers := (mg_movers s)[i := MDone], mg_th := mg_th s - 1\<rparr>)
      else if mg_closed s then Some (s\<lparr>mg_movers := (mg_movers s)[i := MDone]\<rparr>) else None)"
| "fire outs AClose s =
     (if \<not> mg_crashed s \<and> \<not> mg_closed s \<and> mg_count s = length outs \<and> outs \<noteq> []
      then Some (s\<lparr>mg_closed := True\<rparr>) else None)"
| "fire outs ATimeout s =
     (if \<not> mg_crashed s \<and> \<not> mg_closed s \<and> mg_count s < length outs
      then Some (s\<lparr>mg_closed := True, mg_tmout := True\<rparr>) else None)"

lemma fire_sound: "fire outs a s = Some t \<Longrightarrow> a \<noteq> ATimeout \<Longrightarrow> mig_step outs s t"
  by (cases a) (auto split: if_splits simp: not_le intro: mig_step.intros mig_step.push [simplified]
      mig_step.take_token [simplified])

lemma fire_timed: "fire outs a s = Some t \<Longrightarrow> timed_step outs s t"
  by (cases "a = ATimeout") (auto split: if_splits intro: timed_step.intros fire_sound)

lemma fire_complete: "mig_step outs s t \<Longrightarrow> \<exists>a. a \<noteq> ATimeout \<and> fire outs a s = Some t"
proof (induction rule: mig_step.induct)
  case (spawn s)
  then show ?case by (intro exI [of _ ASpawn]) simp
next
  case (push s)
  then show ?case by (intro exI [of _ APush]) simp
next
  case (push_closed s)
  then show ?case by (intro exI [of _ APush]) simp
next
  case (send s i)
  then show ?case by (intro exI [of _ "ASend i"]) simp
next
  case (send_closed s i)
  then show ?case by (intro exI [of _ "ASend i"]) simp
next
  case (take_token s i)
  then show ?case by (intro exI [of _ "ATake i"]) simp
next
  case (take_closed s i)
  then show ?case by (intro exI [of _ "ATake i"]) simp
next
  case (all_received s)
  then show ?case by (intro exI [of _ AClose]) simp
qed

fun play :: "int list \<Rightarrow> mig_action list \<Rightarrow> mig_state \<Rightarrow> mig_state option" where
  "play outs [] s = Some s"
| "play outs (a # as) s = (case fire outs a s of None \<Rightarrow> None | Some t \<Rightarrow> play outs as t)"

lemma play_reaches: "play outs as s = Some t \<Longrightarrow> reaches (timed_step outs) r s \<Longrightarrow> reaches (timed_step outs) r t"
  by (induction as arbitrary: s) (auto split: option.splits dest: fire_timed intro: reaches.intros)

lemma play_untimed:
  "play outs as s = Some t \<Longrightarrow> ATimeout \<notin> set as \<Longrightarrow> reaches (mig_step outs) r s \<Longrightarrow> reaches (mig_step outs) r t"
  by (induction as arbitrary: s) (auto split: option.splits dest!: fire_sound intro: reaches.intros)

lemma play_power: "play outs as s = Some t \<Longrightarrow> ATimeout \<notin> set as \<Longrightarrow> (mig_step outs ^^ length as) s t"
proof (induction as arbitrary: s)
  case (Cons a as)
  from Cons.prems(1) obtain u where "fire outs a s = Some u" "play outs as u = Some t" by (auto split: option.splits)
  with Cons have "mig_step outs s u" "(mig_step outs ^^ length as) u t" by (auto intro: fire_sound)
  then show ?case by (simp del: relpowp.simps(2)) (rule relpowp_Suc_I2)
qed simp

section \<open>How many objects move at a time\<close>

definition in_flight :: "mig_state \<Rightarrow> nat" where
  "in_flight s = length (filter (\<lambda>m. m \<noteq> MDone) (mg_movers s))"

lemma in_flight_done: "in_flight s + done_count s = length (mg_movers s)"
  using sum_length_filter_compl [of "\<lambda>m. m = MDone" "mg_movers s"] by (simp add: in_flight_def done_count_def)

text \<open>
  C10. While the results are being collected, at most eleven objects of a migration are being moved at a
  time, one more than \<open>simuRoutines\<close>: the producer starts a goroutine before it takes the slot for it.
\<close>

theorem movers_bounded:
  assumes "reaches (timed_step outs) mig_init s" and "\<not> mg_closed s"
  shows "in_flight s \<le> simuRoutines + 1"
proof -
  have "mig_inv outs s" using migration.inv_reachable [OF refl assms(1)] .
  with assms(2) in_flight_done [of s] show ?thesis by (auto simp: mig_inv_def split: if_splits)
qed

definition eleven :: "mig_state" where
  "eleven = mig_init\<lparr>mg_producer := Push, mg_th := 10, mg_movers := replicate 11 MWork\<rparr>"

lemma eleven_reached: "reaches (timed_step (replicate 20 5)) mig_init eleven"
proof -
  have "play (replicate 20 5) (concat (replicate 10 [ASpawn, APush]) @ [ASpawn]) mig_init = Some eleven"
    by code_simp
  from play_reaches [OF this reaches_refl] show ?thesis .
qed

theorem movers_bounded_witness:
  "reaches (timed_step (replicate 20 5)) mig_init eleven \<and> \<not> mg_closed eleven \<and> in_flight eleven = 11 \<and>
     in_flight eleven \<le> simuRoutines + 1"
proof -
  have open_yet: "\<not> mg_closed eleven" and "in_flight eleven = 11" by code_simp+
  with eleven_reached movers_bounded [OF eleven_reached open_yet] show ?thesis by blast
qed

section \<open>The tally\<close>

lemma all_sent:
  assumes "mig_inv outs s" and "mg_count s = length outs"
  shows "sent s = {..<length outs}"
proof -
  have sub: "sent s \<subseteq> {..<length outs}" using assms(1) by (auto simp: sent_def mig_inv_def)
  moreover have "card (sent s) = card {..<length outs}" using assms by (simp add: mig_inv_def)
  ultimately show ?thesis by (intro card_subset_eq) auto
qed

lemma sum_of_passed: "(\<Sum>i \<in> {i \<in> {..<length xs}. 0 \<le> xs ! i}. xs ! i) = sum_list (filter (\<lambda>c. 0 \<le> c) (xs :: int list))"
proof -
  have "(\<Sum>i \<in> {i \<in> {..<length xs}. 0 \<le> xs ! i}. xs ! i) = (\<Sum>i<length xs. if 0 \<le> xs ! i then xs ! i else 0)"
    by (rule sum.inter_filter) simp
  also have "\<dots> = sum_list (map (\<lambda>c. if 0 \<le> c then c else 0) xs)"
    by (simp add: sum_list_sum_nth lessThan_atLeast0)
  also have "\<dots> = sum_list (filter (\<lambda>c. 0 \<le> c) xs)" by (induction xs) auto
  finally show ?thesis .
qed

text \<open>
  C9. When the channels are closed and nothing timed out, every object has been moved or has failed
  exactly once: the loop has counted all of them, the passed ones are those whose move succeeded, and the
  capacity is the sum of their sizes as a signed 64-bit number, which is the sum itself as long as it is
  below \<open>2 ^ 63\<close>, whatever the order in which the goroutines ran.
\<close>

theorem tally_is_exact:
  assumes "reaches (timed_step outs) mig_init s" and "mg_closed s" and "\<not> mg_tmout s"
  shows "mg_count s = length outs \<and> mg_passed s = length (filter (\<lambda>c. 0 \<le> c) outs) \<and>
    mg_capacity s = i64 (sum_list (filter (\<lambda>c. 0 \<le> c) outs)) \<and>
    (sum_list (filter (\<lambda>c. 0 \<le> c) outs) < 9223372036854775808 \<longrightarrow>
       mg_capacity s = sum_list (filter (\<lambda>c. 0 \<le> c) outs))"
proof -
  have inv: "mig_inv outs s" using migration.inv_reachable [OF refl assms(1)] .
  then have count: "mg_count s = length outs" using assms(2,3) by (simp add: mig_inv_def)
  have "mg_passed s = card {i \<in> {..<length outs}. 0 \<le> outs ! i}"
      "mg_capacity s = i64 (\<Sum>i \<in> {i \<in> {..<length outs}. 0 \<le> outs ! i}. outs ! i)"
    using inv by (simp_all add: mig_inv_def all_sent [OF inv count])
  moreover have "0 \<le> sum_list (filter (\<lambda>c. 0 \<le> c) outs)" by (rule sum_list_nonneg) simp
  ultimately show ?thesis
    using count i64_id [of "sum_list (filter (\<lambda>c. 0 \<le> c) outs)"] unfolding sum_of_passed
    by (simp add: length_filter_conv_card)
qed

definition tallied :: mig_state where
  "tallied = the (play [7, -1, 5] [ASpawn, APush, ASpawn, ASend 1, APush, ATake 1, ASpawn, APush, ASend 2, ASend 0, AClose]
     mig_init)"

theorem tally_is_exact_witness:
  "mg_count tallied = 3 \<and> mg_passed tallied = 2 \<and> mg_capacity tallied = 12"
proof -
  have "play [7, -1, 5] [ASpawn, APush, ASpawn, ASend 1, APush, ATake 1, ASpawn, APush, ASend 2, ASend 0, AClose]
      mig_init = Some tallied" by code_simp
  from play_reaches [OF this reaches_refl] have "reaches (timed_step [7, -1, 5]) mig_init tallied" .
  moreover have "mg_closed tallied" "\<not> mg_tmout tallied" by code_simp+
  ultimately show ?thesis using tally_is_exact [of "[7, -1, 5]" tallied] by simp
qed

section \<open>Progress\<close>

fun steps_of :: "mover_pc \<Rightarrow> nat" where
  "steps_of MWork = 2"
| "steps_of MSent = 1"
| "steps_of MDone = 0"

definition left_over :: "int list \<Rightarrow> mig_state \<Rightarrow> nat" where
  "left_over outs s = 4 * (length outs - length (mg_movers s)) + (if mg_producer s = Push then 1 else 0) +
     sum_list (map steps_of (mg_movers s)) +
     (if mg_closed s then 0 else 1) + (if mg_crashed s then 0 else 1)"

lemma sum_update:
  "i < length xs \<Longrightarrow> sum_list (map f (xs[i := y])) + f (xs ! i) = sum_list (map f xs) + (f y :: nat)"
proof (induction xs arbitrary: i)
  case (Cons a xs)
  show ?case
  proof (cases i)
    case (Suc k)
    with Cons.prems have "k < length xs" by simp
    from Cons.IH [OF this] show ?thesis by (simp add: Suc)
  qed simp
qed simp

lemma step_uses_up: "mig_step outs s t \<Longrightarrow> left_over outs t < left_over outs s"
proof (induction rule: mig_step.induct)
  case (send s i)
  then show ?case
    using sum_update [of i "mg_movers s" steps_of MSent]
    by (simp add: left_over_def receive_def)
next
  case (take_token s i)
  then show ?case
    using sum_update [of i "mg_movers s" steps_of MDone]
    by (simp add: left_over_def)
next
  case (take_closed s i)
  then show ?case
    using sum_update [of i "mg_movers s" steps_of MDone]
    by (simp add: left_over_def)
qed (auto simp: left_over_def)

lemma steps_bounded: "(mig_step outs ^^ k) s t \<Longrightarrow> k + left_over outs t \<le> left_over outs s"
proof (induction k arbitrary: t)
  case (Suc k)
  then obtain u where "(mig_step outs ^^ k) s u" and step: "mig_step outs u t" by auto
  with Suc.IH have "k + left_over outs u \<le> left_over outs s" by blast
  with step_uses_up [OF step] show ?case by simp
qed simp

lemma power_reaches: "(mig_step outs ^^ k) s t \<Longrightarrow> reaches (mig_step outs) s t"
  by (induction k arbitrary: t) (auto intro: reaches.intros)

lemma untimed_kept: "reaches (mig_step outs) s t \<Longrightarrow> mg_tmout t = mg_tmout s"
proof (induction rule: reaches.induct)
  case (reaches_step s t u)
  from reaches_step(2) have "mg_tmout u = mg_tmout t" by (induction rule: mig_step.induct) (simp_all add: receive_def)
  with reaches_step show ?case by simp
qed simp

lemma mover_moves:
  assumes "\<not> mg_crashed s" and "i < length (mg_movers s)" and "mg_movers s ! i \<noteq> MDone"
    and "mg_movers s ! i = MSent \<Longrightarrow> 0 < mg_th s \<or> mg_closed s"
  shows "\<exists>t. mig_step outs s t"
proof (cases "mg_movers s ! i")
  case MWork
  with assms show ?thesis by (cases "mg_closed s") (blast intro: mig_step.send mig_step.send_closed)+
next
  case MSent
  show ?thesis
  proof (cases "0 < mg_th s")
    case True
    with assms MSent show ?thesis by (blast intro: mig_step.take_token)
  next
    case False
    with assms MSent have "mg_th s = 0" "mg_closed s" by simp_all
    with assms MSent show ?thesis by (blast intro: mig_step.take_closed)
  qed
next
  case MDone
  with assms show ?thesis by simp
qed

lemma stuck_when_finished:
  assumes inv: "mig_inv outs s" and some: "outs \<noteq> []" and alive: "\<not> mg_crashed s" and stuck: "\<nexists>t. mig_step outs s t"
  shows "mg_closed s \<and> length (mg_movers s) = length outs \<and> in_flight s = 0"
proof -
  have all_started: "mg_producer s = Spawn \<Longrightarrow> length (mg_movers s) = length outs"
    using stuck alive inv mig_step.spawn [of s outs] by (meson mig_inv_def le_neq_implies_less)
  have waits: "i < length (mg_movers s) \<Longrightarrow> mg_movers s ! i \<noteq> MDone \<Longrightarrow>
      mg_movers s ! i = MSent \<and> \<not> (0 < mg_th s \<or> mg_closed s)" for i
    using mover_moves [of s i outs] stuck alive by blast
  have th: "in_flight s \<noteq> 0 \<Longrightarrow> mg_th s = 0 \<and> \<not> mg_closed s"
    using waits by (auto simp: in_flight_def filter_empty_conv in_set_conv_nth)
  have closed: "mg_closed s"
  proof (rule ccontr)
    assume open_yet: "\<not> mg_closed s"
    show False
    proof (cases "mg_producer s")
      case Push
      then have "simuRoutines \<le> mg_th s" using stuck alive open_yet mig_step.push [of s outs] by force
      moreover then have "in_flight s = 0" using th by (auto simp: simuRoutines_def)
      ultimately show False
        using inv Push open_yet in_flight_done [of s] by (auto simp: mig_inv_def simuRoutines_def)
    next
      case Spawn
      have "sent s = {..<length outs}" using waits all_started [OF Spawn] by (auto simp: sent_def) (metis mover_pc.distinct(1,3))
      then have "mg_count s = length outs" using inv by (simp add: mig_inv_def)
      then show False using stuck alive open_yet some mig_step.all_received [of s outs] by blast
    qed
  qed
  moreover have "mg_producer s = Spawn"
    using closed stuck alive mig_step.push_closed [of s outs] by (cases "mg_producer s") auto
  ultimately show ?thesis using all_started th by blast
qed

text \<open>
  C8. A migration of a non-empty list whose collection does not time out takes at most
  \<open>4 * n + 2\<close> steps of its goroutines, and it cannot get stuck before it is finished: when no goroutine can
  take a step, either the process has crashed, or every mover is done, the channels are closed, and the
  result of every object has been counted.
\<close>

theorem migration_completes:
  assumes "outs \<noteq> []" and "(mig_step outs ^^ k) mig_init s"
  shows "k \<le> 4 * length outs + 2 \<and>
    ((\<nexists>t. mig_step outs s t) \<longrightarrow> mg_crashed s \<or>
       mg_closed s \<and> in_flight s = 0 \<and> length (mg_movers s) = length outs \<and> mg_count s = length outs)"
proof -
  have r: "reaches (mig_step outs) mig_init s" using power_reaches [OF assms(2)] .
  have inv: "mig_inv outs s" using migration.inv_reachable [OF refl reaches_timed [OF r]] .
  have "k + left_over outs s \<le> left_over outs mig_init" using steps_bounded [OF assms(2)] .
  moreover have "left_over outs mig_init = 4 * length outs + 2" by (simp add: left_over_def mig_init_def)
  moreover have "\<not> mg_tmout s" using untimed_kept [OF r] by (simp add: mig_init_def)
  ultimately show ?thesis
    using stuck_when_finished [OF inv assms(1)] inv by (auto simp: mig_inv_def)
qed

definition finished :: mig_state where
  "finished = the (play [7] [ASpawn, APush, ASend 0, ATake 0, AClose] mig_init)"

lemma finished_reached: "(mig_step [7] ^^ 5) mig_init finished"
proof -
  have "play [7] [ASpawn, APush, ASend 0, ATake 0, AClose] mig_init = Some finished" by code_simp
  from play_power [OF this] show ?thesis by (simp del: relpowp.simps add: numeral_eq_Suc)
qed

theorem migration_completes_witness:
  "(mig_step [7] ^^ 5) mig_init finished \<and> \<not> mg_crashed finished \<and> (5::nat) \<le> 4 * length [7 :: int] + 2"
proof -
  have "\<not> mg_crashed finished" by code_simp
  with migration_completes [OF _ finished_reached] finished_reached show ?thesis by simp
qed

section \<open>The close races with the goroutines\<close>

lemma one_after_another:
  "k < length outs \<Longrightarrow> \<exists>s. reaches (mig_step outs) mig_init s \<and> mg_producer s = Spawn \<and> mg_th s = 0 \<and>
     mg_movers s = replicate k MDone \<and> mg_count s = k \<and> \<not> mg_closed s \<and> \<not> mg_crashed s"
proof (induction k)
  case 0
  show ?case by (intro exI [of _ mig_init]) (simp add: mig_init_def reaches.intros)
next
  case (Suc k)
  then obtain s where s: "reaches (mig_step outs) mig_init s" "mg_producer s = Spawn" "mg_th s = 0"
      "mg_movers s = replicate k MDone" "mg_count s = k" "\<not> mg_closed s" "\<not> mg_crashed s" by auto
  let ?as = "[ASpawn, APush, ASend k, ATake k]"
  have "\<exists>t. play outs ?as s = Some t \<and> mg_producer t = Spawn \<and> mg_th t = 0 \<and> mg_movers t = replicate (Suc k) MDone \<and>
      mg_count t = Suc k \<and> \<not> mg_closed t \<and> \<not> mg_crashed t"
    using s Suc.prems by (simp add: simuRoutines_def receive_def nth_append list_update_append replicate_append_same)
  then obtain t where t: "play outs ?as s = Some t" "mg_producer t = Spawn" "mg_th t = 0"
      "mg_movers t = replicate (Suc k) MDone" "mg_count t = Suc k" "\<not> mg_closed t" "\<not> mg_crashed t" by blast
  have "reaches (mig_step outs) mig_init t" using play_untimed [OF t(1) _ s(1)] by simp
  with t show ?case by blast
qed

text \<open>
  C21. Every migration of at least one object can crash the datamover without anything failing or timing
  out: when the last goroutine hands its result over before the producer has put its token into \<open>th\<close>, the
  main loop closes \<open>th\<close> and the producer's \<open>th <- 1\<close> panics on the closed channel.
\<close>

theorem close_can_crash_the_service:
  assumes "outs \<noteq> []"
  shows "\<exists>s. reaches (mig_step outs) mig_init s \<and> mg_crashed s \<and> mg_count s = length outs"
proof -
  let ?n = "length outs - 1"
  obtain s where s: "reaches (mig_step outs) mig_init s" "mg_producer s = Spawn" "mg_th s = 0"
      "mg_movers s = replicate ?n MDone" "mg_count s = ?n" "\<not> mg_closed s" "\<not> mg_crashed s"
    using one_after_another [of ?n outs] assms by auto
  let ?as = "[ASpawn, ASend ?n, AClose, APush]"
  have "\<exists>t. play outs ?as s = Some t \<and> mg_crashed t \<and> mg_count t = length outs"
    using s assms by (cases outs) (auto simp: receive_def nth_append)
  then obtain t where t: "play outs ?as s = Some t" "mg_crashed t" "mg_count t = length outs" by blast
  have "reaches (mig_step outs) mig_init t" using play_untimed [OF t(1) _ s(1)] by simp
  with t show ?thesis by blast
qed

theorem close_can_crash_the_service_witness:
  "\<exists>s. reaches (mig_step [4096]) mig_init s \<and> mg_crashed s \<and> mg_count s = 1"
  using close_can_crash_the_service [of "[4096]"] by simp

end
