(* ===== verification/Mover_Types.thy ===== *)
theory Mover_Types
  imports Dataflow_Plan "HOL-Library.Word"
begin

text \<open>
  What the data mover's workers share (\<open>datamover/pkg/utils/data_type.go\<close> and the idioms common to
  the four movers): the location of a bucket, byte buffers that are filled in place, bodies of
  HTTP responses as readers, and the loop that makes up to three tries. Go errors are their text;
  a result of type \<open>string + 'a\<close> is \<open>Inl\<close> the error or \<open>Inr\<close> the value.
\<close>

record LocationInfo =
  lo_StorType :: string
  lo_Region :: string
  lo_EndPoint :: string
  lo_BucketName :: string
  lo_VirBucket :: string
  lo_Access :: string
  lo_Security :: string
  lo_BakendName :: string

definition zero_Location :: LocationInfo where
  "zero_Location = \<lparr>lo_StorType = [], lo_Region = [], lo_EndPoint = [], lo_BucketName = [],
     lo_VirBucket = [], lo_Access = [], lo_Security = [], lo_BakendName = []\<rparr>"

section \<open>Buffers and readers\<close>

type_synonym byte = "8 word"

text \<open>\<open>copy(buf[at:], data)\<close>: the length of the buffer stays.\<close>

definition copy_at :: "nat \<Rightarrow> 'a list \<Rightarrow> 'a list \<Rightarrow> 'a list" where
  "copy_at i data buf =
     take i buf @ take (length buf - i) data @ drop (i + length data) buf"

definition new_buf :: "int \<Rightarrow> byte list" where
  "new_buf n = replicate (nat n) 0"

lemma length_copy_at [simp]: "length (copy_at i data buf) = length buf"
  by (simp add: copy_at_def)

lemma length_new_buf [simp]: "length (new_buf n) = nat n"
  by (simp add: new_buf_def)

lemma copy_at_whole: "length data = length buf \<Longrightarrow> copy_at 0 data buf = data"
  by (simp add: copy_at_def)

lemma copy_at_Nil [simp]: "copy_at i [] buf = buf"
  by (simp add: copy_at_def)

lemma copy_at_append:
  "i + length a + length b \<le> length buf \<Longrightarrow>
     copy_at (i + length a) b (copy_at i a buf) = copy_at i (a @ b) buf"
  by (auto simp: copy_at_def min_def add.commute add.left_commute) (simp_all flip: length_0_conv)

text \<open>
  The body of a response: the pieces in which the transport delivers it, and how it ends
  (\<open>None\<close> is \<open>io.EOF\<close>). \<open>Read(p)\<close> returns at most \<open>len(p)\<close> bytes of the next piece.
\<close>

record body =
  bd_pieces :: "byte list list"
  bd_end :: "string option"

datatype read_result = ReadOk | ReadEOF | ReadErr string

definition Read :: "nat \<Rightarrow> body \<Rightarrow> byte list \<times> read_result \<times> body" where
  "Read n b =
     (case bd_pieces b of
        [] \<Rightarrow> ([], (case bd_end b of None \<Rightarrow> ReadEOF | Some e \<Rightarrow> ReadErr e), b)
      | c # cs \<Rightarrow> (take n c, ReadOk,
          b\<lparr>bd_pieces := (if length c \<le> n then cs else drop n c # cs)\<rparr>))"

definition bd_content :: "body \<Rightarrow> byte list" where
  "bd_content b = concat (bd_pieces b)"

section \<open>Up to three tries\<close>

fun tries :: "nat \<Rightarrow> ('s, string + 'a) prog \<Rightarrow> ('s, string + 'a) prog" where
  "tries 0 m = ret (Inl ''internal error'')"
| "tries (Suc k) m =
     call m (\<lambda>r. case r of
        Inr a \<Rightarrow> ret (Inr a)
      | Inl e \<Rightarrow> (if k = 0 then ret (Inl e) else tries k m))"

text \<open>The same loop where every try works on the same reader or buffer \<open>rd\<close>, which it may change.\<close>

fun tries_with :: "nat \<Rightarrow> 'r \<Rightarrow> ('r \<Rightarrow> ('s, (string + 'a) \<times> 'r) prog) \<Rightarrow> ('s, (string + 'a) \<times> 'r) prog" where
  "tries_with 0 rd m = ret (Inl ''internal error'', rd)"
| "tries_with (Suc k) rd m =
     call (m rd) (\<lambda>(r, rd'). case r of
        Inr a \<Rightarrow> ret (Inr a, rd')
      | Inl e \<Rightarrow> (if k = 0 then ret (Inl e, rd') else tries_with k rd' m))"

text \<open>A reader is dropped after the loop.\<close>

definition drop_reader :: "('s, 'a \<times> 'r) prog \<Rightarrow> ('s, 'a) prog" where
  "drop_reader m = call m (\<lambda>(r, _). ret r)"

text \<open>A loop that has not ended within its fuel.\<close>

definition no_fuel :: "('s, 'a) prog" where
  "no_fuel s = OutOfFuel"

text \<open>A page of a listing: names and sizes, whether there is more, and where it goes on.\<close>

record list_page =
  pg_Contents :: "(string \<times> int) list"
  pg_IsTruncated :: bool
  pg_NextMarker :: "string option"

text \<open>A pointer that is dereferenced.\<close>

definition deref :: "'a option \<Rightarrow> ('a \<Rightarrow> ('s, 'b) prog) \<Rightarrow> ('s, 'b) prog" where
  "deref p f = (case p of None \<Rightarrow> panic NilDereference | Some a \<Rightarrow> f a)"

text \<open>
  The loop over the pages of a listing, after the first one: the result is the last page and, in
  \<open>objs\<close>, the contents of all pages. The loop has fuel for its requests.
\<close>

fun list_more :: "nat \<Rightarrow> (string option \<Rightarrow> ('s, string + list_page) prog) \<Rightarrow> list_page \<Rightarrow>
    (string \<times> int) list \<Rightarrow> ('s, string + (list_page \<times> (string \<times> int) list)) prog" where
  "list_more fuel list_from output objs =
     (if pg_IsTruncated output then
        (case fuel of
           0 \<Rightarrow> no_fuel
         | Suc k \<Rightarrow>
             call (list_from (pg_NextMarker output)) (\<lambda>r.
               case r of
                 Inl err \<Rightarrow> ret (Inl err)
               | Inr output \<Rightarrow> list_more k list_from output (objs @ pg_Contents output)))
      else ret (Inr (output, objs)))"

declare list_more.simps [simp del]

text \<open>
  \<open>nth_try m j s\<close> is the result of the \<open>j\<close>-th of a row of calls, made one after the other. What
  the loop returns is the first success, or the error of the last try.
\<close>

fun nth_try :: "('s, 'a) prog \<Rightarrow> nat \<Rightarrow> 's \<Rightarrow> ('a \<times> 's) go" where
  "nth_try m 0 s = m s"
| "nth_try m (Suc j) s = (case m s of Return (_, s') \<Rightarrow> nth_try m j s' | r \<Rightarrow> r)"

lemma tries_Inr:
  assumes "tries k m s = Return (Inr a, s')"
  shows "\<exists>j<k. nth_try m j s = Return (Inr a, s')"
  using assms
proof (induction k arbitrary: s)
  case (Suc k)
  from Suc.prems obtain r t where r: "m s = Return (r, t)"
    and rest: "(case r of Inr a \<Rightarrow> ret (Inr a) | Inl e \<Rightarrow> (if k = 0 then ret (Inl e) else tries k m)) t
       = Return (Inr a, s')"
    by (auto elim: call_ReturnE)
  show ?case
  proof (cases r)
    case (Inr b)
    then show ?thesis using r rest by (intro exI [of _ 0]) (simp add: ret_def)
  next
    case (Inl e)
    with rest have "k \<noteq> 0" and "tries k m t = Return (Inr a, s')"
      by (auto simp: ret_def split: if_splits)
    then obtain j where "j < k" "nth_try m j t = Return (Inr a, s')" using Suc.IH by blast
    then show ?thesis using r by (intro exI [of _ "Suc j"]) simp
  qed
qed (simp add: ret_def)

lemma tries_first_ok: "m s = Return (Inr a, s') \<Longrightarrow> tries (Suc k) m s = Return (Inr a, s')"
  by (simp add: prog_simps)

lemma tries_with_first_ok:
  "m rd s = Return ((Inr a, rd'), s') \<Longrightarrow> tries_with (Suc k) rd m s = Return ((Inr a, rd'), s')"
  by (simp add: call_def ret_def)

lemma tries_preserves:
  assumes "valid_if P m (\<lambda>r. P)"
  shows "valid_if P (tries k m) (\<lambda>r. P)"
proof (induction k)
  case 0
  then show ?case by (simp add: valid_if_ret)
next
  case (Suc k)
  have "valid_if P (case r of Inr a \<Rightarrow> ret (Inr a) | Inl e \<Rightarrow> (if k = 0 then ret (Inl e) else tries k m)) (\<lambda>r. P)"
    for r :: "string + 'b"
    using Suc by (cases r) (simp_all add: valid_if_ret)
  with assms show ?case by (simp add: valid_if_call)
qed

lemma deref_Return_iff [simp]:
  "deref p f s = Return r \<longleftrightarrow> (\<exists>a. p = Some a \<and> f a s = Return r)"
  by (auto simp: deref_def panic_def split: option.splits)

lemma deref_Some [simp]: "deref (Some a) f = f a"
  by (simp add: deref_def)

text \<open>
  A listing that is answered from the pages \<open>p # ps\<close>, all but the last marked as truncated, ends
  with the last page.
\<close>

inductive answers :: "(string option \<Rightarrow> ('s, string + list_page) prog) \<Rightarrow> list_page \<Rightarrow> list_page list \<Rightarrow>
    's \<Rightarrow> 's \<Rightarrow> bool" for list_from where
  last_page: "\<not> pg_IsTruncated p \<Longrightarrow> answers list_from p [] s s"
| next_page: "pg_IsTruncated p \<Longrightarrow> list_from (pg_NextMarker p) s = Return (Inr q, t) \<Longrightarrow>
     answers list_from q ps t u \<Longrightarrow> answers list_from p (q # ps) s u"

lemma list_more_answers:
  assumes "answers list_from p ps s u" and "length ps \<le> fuel"
  shows "list_more fuel list_from p objs s =
     Return (Inr (last (p # ps), objs @ concat (map pg_Contents ps)), u)"
  using assms
proof (induction arbitrary: fuel objs rule: answers.induct)
  case (last_page p s)
  then show ?case by (simp add: list_more.simps ret_def)
next
  case (next_page p s q t ps u)
  then obtain k where k: "fuel = Suc k" by (cases fuel) auto
  have "list_more (Suc k) list_from p objs s = list_more k list_from q (objs @ pg_Contents q) t"
    using next_page.hyps by (simp add: list_more.simps [of "Suc k"] prog_simps)
  with next_page.IH [of k "objs @ pg_Contents q"] next_page.prems k show ?case by simp
qed

text \<open>
  S3 returns a marker for the next page only for requests with a delimiter, which the requests of
  \<open>ListObjs\<close> do not have; without it the first page is asked for again.
\<close>

lemma list_more_repeats:
  assumes "\<And>s. \<exists>q t. list_from None s = Return (Inr q, t) \<and> pg_IsTruncated q \<and> pg_NextMarker q = None"
    and "pg_IsTruncated p" and "pg_NextMarker p = None"
  shows "list_more fuel list_from p objs s = OutOfFuel"
  using assms(2,3)
proof (induction fuel arbitrary: p objs s)
  case 0
  then show ?case by (simp add: list_more.simps no_fuel_def)
next
  case (Suc k)
  obtain q t where q: "list_from None s = Return (Inr q, t)" "pg_IsTruncated q" "pg_NextMarker q = None"
    using assms(1) by blast
  then have "list_more (Suc k) list_from p objs s = list_more k list_from q (objs @ pg_Contents q) t"
    using Suc.prems by (simp add: list_more.simps [of "Suc k"] prog_simps)
  with Suc.IH q show ?case by simp
qed

section \<open>Reading a body into a buffer\<close>

text \<open>
  \<open>read_into\<close> is the loop of the two \<open>DownloadObj\<close> that read a body themselves: each \<open>Read\<close> goes to
  the part of the buffer that is still free. The loop does not end when the body is longer than
  the buffer, so it has fuel.
\<close>

fun read_into :: "nat \<Rightarrow> body \<Rightarrow> byte list \<Rightarrow> nat \<Rightarrow> ((nat \<times> read_result) \<times> byte list) go" where
  "read_into 0 b buf sz = OutOfFuel"
| "read_into (Suc fuel) b buf sz =
     (case Read (length buf - sz) b of
        (data, err, b') \<Rightarrow>
          let buf = copy_at sz data buf; sz = sz + length data
          in if err = ReadOk then read_into fuel b' buf sz else Return ((sz, err), buf))"

definition read_fuel :: "body \<Rightarrow> nat" where
  "read_fuel b = Suc (sum_list (map (\<lambda>c. Suc (length c)) (bd_pieces b)))"

definition end_result :: "body \<Rightarrow> read_result" where
  "end_result b = (case bd_end b of None \<Rightarrow> ReadEOF | Some e \<Rightarrow> ReadErr e)"

text \<open>What the download returns for a count and the way the reading ended: the end of the file is no error.\<close>

definition read_outcome :: "nat \<Rightarrow> read_result \<Rightarrow> string + int" where
  "read_outcome n err = (case err of ReadErr e \<Rightarrow> Inl e | _ \<Rightarrow> Inr (int n))"

definition read_whole :: "body \<Rightarrow> byte list \<Rightarrow> ((string + int) \<times> byte list) go" where
  "read_whole b buf = go_map (\<lambda>((n, err), buf). (read_outcome n err, buf)) (read_into (read_fuel b) b buf 0)"

lemma read_into_fits:
  assumes "sz + length (bd_content b) \<le> length buf" and "length (bd_pieces b) < fuel"
  shows "read_into fuel b buf sz =
     Return ((sz + length (bd_content b), end_result b), copy_at sz (bd_content b) buf)"
  using assms
proof (induction "bd_pieces b" arbitrary: b buf sz fuel)
  case Nil
  then obtain k where "fuel = Suc k" by (cases fuel) auto
  with Nil show ?case
    by (simp add: Read_def bd_content_def end_result_def Let_def split: option.splits)
next
  case (Cons c cs)
  obtain k where k: "fuel = Suc k" using Cons.prems by (cases fuel) auto
  have content: "bd_content b = c @ concat cs" using Cons.hyps(2) by (simp add: bd_content_def flip: Cons.hyps(2))
  let ?b = "b\<lparr>bd_pieces := cs\<rparr>"
  have "Read (length buf - sz) b = (c, ReadOk, ?b)"
    using Cons.prems(1) content by (simp add: Read_def flip: Cons.hyps(2))
  moreover have "read_into k ?b (copy_at sz c buf) (sz + length c) =
      Return ((sz + length c + length (concat cs), end_result b),
        copy_at (sz + length c) (concat cs) (copy_at sz c buf))"
    using Cons.hyps(1) [of ?b "sz + length c" "copy_at sz c buf" k] Cons.prems k content
    by (simp add: bd_content_def end_result_def flip: Cons.hyps(2))
  ultimately show ?case
    using k content Cons.prems(1) by (simp add: Let_def copy_at_append)
qed

lemma read_into_overlong:
  assumes "length buf < sz + length (bd_content b)" and "sz \<le> length buf"
  shows "read_into fuel b buf sz = OutOfFuel"
  using assms
proof (induction fuel arbitrary: b buf sz)
  case (Suc fuel)
  let ?n = "length buf - sz"
  obtain c cs where cs: "bd_pieces b = c # cs"
    using Suc.prems by (cases "bd_pieces b") (auto simp: bd_content_def)
  define b' where "b' = b\<lparr>bd_pieces := (if length c \<le> ?n then cs else drop ?n c # cs)\<rparr>"
  have r: "Read ?n b = (take ?n c, ReadOk, b')" by (simp add: Read_def cs b'_def)
  have len: "length (bd_content b) = length (take ?n c) + length (bd_content b')"
    by (simp add: bd_content_def cs b'_def)
  have "read_into fuel b' (copy_at sz (take ?n c) buf) (sz + length (take ?n c)) = OutOfFuel"
    by (rule Suc.IH) (use Suc.prems len in auto)
  with r show ?case by (simp add: Let_def)
qed simp

lemma read_fuel_enough: "length (bd_pieces b) < read_fuel b"
proof -
  have "length xs \<le> sum_list (map (\<lambda>c. Suc (length c)) xs)" for xs :: "byte list list"
    by (induction xs) auto
  then show ?thesis by (simp add: read_fuel_def le_imp_less_Suc)
qed

text \<open>
  The result with the model's fuel is the result with any larger fuel: the loop either returns
  within it or never.
\<close>

lemma read_into_fuel:
  assumes "sz \<le> length buf"
  shows "read_into (read_fuel b + extra) b buf sz = read_into (read_fuel b) b buf sz"
proof (cases "sz + length (bd_content b) \<le> length buf")
  case True
  then show ?thesis using read_fuel_enough [of b] by (simp add: read_into_fits)
next
  case False
  then show ?thesis using assms by (simp add: read_into_overlong)
qed

lemma read_whole_fits:
  "length (bd_content b) \<le> length buf \<Longrightarrow>
     read_whole b buf = Return (read_outcome (length (bd_content b)) (end_result b), copy_at 0 (bd_content b) buf)"
  by (simp add: read_whole_def read_into_fits read_fuel_enough)

lemma read_whole_overlong:
  "length buf < length (bd_content b) \<Longrightarrow> read_whole b buf = OutOfFuel"
  by (simp add: read_whole_def read_into_overlong)

end
