(* ===== verification/Mover_S3.thy ===== *)
theory Mover_S3
  imports Mover_Types
begin

text \<open>
  The mover for AWS S3 (\<open>datamover/pkg/amazon/s3/s3mover.go\<close>). The AWS SDK is the record \<open>aws_ops\<close>
  on an unknown world; an operation that reads a body gets the bytes that are left in the reader
  and returns those it leaves, one that downloads gets the buffer and returns its new contents. A
  mover's methods return it with the fields they have set.
\<close>

section \<open>The SDK\<close>

record aws_session =
  as_Region :: string
  as_Endpoint :: string
  as_AccessKey :: string
  as_SecretKey :: string

record 's aws_ops =
  aws_NewSession :: "aws_session \<Rightarrow> 's \<Rightarrow> string option \<times> 's"
  aws_Upload :: "aws_session \<Rightarrow> string \<Rightarrow> string \<Rightarrow> byte list \<Rightarrow> 's \<Rightarrow>
      ((string + unit) \<times> byte list) \<times> 's"
  aws_Download :: "aws_session \<Rightarrow> string \<Rightarrow> string \<Rightarrow> string option \<Rightarrow> byte list \<Rightarrow> 's \<Rightarrow>
      ((string + int) \<times> byte list) \<times> 's"
  aws_CreateMultipartUpload :: "aws_session \<Rightarrow> string \<Rightarrow> string \<Rightarrow> 's \<Rightarrow> (string + string) \<times> 's"
  aws_UploadPart :: "aws_session \<Rightarrow> string \<Rightarrow> string \<Rightarrow> string \<Rightarrow> int \<Rightarrow> int \<Rightarrow> byte list \<Rightarrow> 's \<Rightarrow>
      ((string + string) \<times> byte list) \<times> 's"
  aws_AbortMultipartUpload :: "aws_session \<Rightarrow> string \<Rightarrow> string \<Rightarrow> string \<Rightarrow> 's \<Rightarrow> (string + unit) \<times> 's"
  aws_CompleteMultipartUpload :: "aws_session \<Rightarrow> string \<Rightarrow> string \<Rightarrow> string \<Rightarrow> (string \<times> int) list \<Rightarrow> 's \<Rightarrow>
      (string + unit) \<times> 's"
  aws_DeleteObject :: "aws_session \<Rightarrow> string \<Rightarrow> string \<Rightarrow> 's \<Rightarrow> (string + unit) \<times> 's"
  aws_WaitUntilObjectNotExists :: "aws_session \<Rightarrow> string \<Rightarrow> string \<Rightarrow> 's \<Rightarrow> (string + unit) \<times> 's"
  aws_ListObjects :: "aws_session \<Rightarrow> string \<Rightarrow> string option \<Rightarrow> string option \<Rightarrow> 's \<Rightarrow>
      (string + list_page) \<times> 's"

section \<open>The mover\<close>

record S3Mover =
  s3m_downloader :: "aws_session option"
  s3m_svc :: "aws_session option"
  s3m_multiUploadInitOut :: "string option"
  s3m_completeParts :: "(string \<times> int) list"

definition new_S3Mover :: S3Mover where
  "new_S3Mover = \<lparr>s3m_downloader = None, s3m_svc = None, s3m_multiUploadInitOut = None,
     s3m_completeParts = []\<rparr>"

definition aws_config :: "LocationInfo \<Rightarrow> aws_session" where
  "aws_config loca = \<lparr>as_Region = lo_Region loca, as_Endpoint = lo_EndPoint loca,
     as_AccessKey = lo_Access loca, as_SecretKey = lo_Security loca\<rparr>"

text \<open>Every method that needs a session begins like this.\<close>

definition with_session :: "'s aws_ops \<Rightarrow> LocationInfo \<Rightarrow> (string \<Rightarrow> 'a) \<Rightarrow>
    (aws_session \<Rightarrow> ('s, 'a) prog) \<Rightarrow> ('s, 'a) prog" where
  "with_session ops loca failed f =
     call (liftS (aws_NewSession ops (aws_config loca))) (\<lambda>err.
       case err of
         Some e \<Rightarrow> ret (failed e)
       | None \<Rightarrow> f (aws_config loca))"

definition S3_UploadObj :: "'s aws_ops \<Rightarrow> string \<Rightarrow> LocationInfo \<Rightarrow> byte list \<Rightarrow> ('s, string + unit) prog" where
  "S3_UploadObj ops objKey destLoca buf =
     with_session ops destLoca Inl (\<lambda>sess.
       drop_reader (tries_with 3 buf (\<lambda>reader.
         liftS (aws_Upload ops sess (lo_BucketName destLoca) objKey reader))))"

definition S3_DownloadObj :: "'s aws_ops \<Rightarrow> string \<Rightarrow> LocationInfo \<Rightarrow> byte list \<Rightarrow>
    ('s, (string + int) \<times> byte list) prog" where
  "S3_DownloadObj ops objKey srcLoca buf =
     with_session ops srcLoca (\<lambda>e. (Inl e, buf)) (\<lambda>sess.
       tries_with 3 buf (\<lambda>writer.
         liftS (aws_Download ops sess (lo_BucketName srcLoca) objKey None writer)))"

definition S3_MultiPartDownloadInit :: "'s aws_ops \<Rightarrow> S3Mover \<Rightarrow> LocationInfo \<Rightarrow>
    ('s, (string + unit) \<times> S3Mover) prog" where
  "S3_MultiPartDownloadInit ops mover srcLoca =
     with_session ops srcLoca (\<lambda>e. (Inl e, mover)) (\<lambda>sess.
       ret (Inr (), mover\<lparr>s3m_downloader := Some sess\<rparr>))"

definition byte_range :: "int \<Rightarrow> int \<Rightarrow> string" where
  "byte_range start end = ''bytes='' @ Itoa start @ ''-'' @ Itoa end"

definition S3_DownloadRange :: "'s aws_ops \<Rightarrow> S3Mover \<Rightarrow> string \<Rightarrow> LocationInfo \<Rightarrow> byte list \<Rightarrow>
    int \<Rightarrow> int \<Rightarrow> ('s, (string + int) \<times> byte list) prog" where
  "S3_DownloadRange ops mover objKey srcLoca buf start end =
     tries_with 3 buf (\<lambda>writer.
       deref (s3m_downloader mover) (\<lambda>sess.
         liftS (aws_Download ops sess (lo_BucketName srcLoca) objKey (Some (byte_range start end)) writer)))"

definition S3_MultiPartUploadInit :: "'s aws_ops \<Rightarrow> S3Mover \<Rightarrow> string \<Rightarrow> LocationInfo \<Rightarrow>
    ('s, (string + unit) \<times> S3Mover) prog" where
  "S3_MultiPartUploadInit ops mover objKey destLoca =
     with_session ops destLoca (\<lambda>e. (Inl e, mover)) (\<lambda>sess.
       let mover = mover\<lparr>s3m_svc := Some sess\<rparr>
       in call (tries 3 (liftS (aws_CreateMultipartUpload ops sess (lo_BucketName destLoca) objKey))) (\<lambda>r.
            ret (case r of
                   Inl e \<Rightarrow> (Inl e, mover)
                 | Inr resp \<Rightarrow> (Inr (), mover\<lparr>s3m_multiUploadInitOut := Some resp\<rparr>))))"

definition S3_UploadPart :: "'s aws_ops \<Rightarrow> S3Mover \<Rightarrow> string \<Rightarrow> LocationInfo \<Rightarrow> int \<Rightarrow> byte list \<Rightarrow>
    int \<Rightarrow> int \<Rightarrow> ('s, (string + unit) \<times> S3Mover) prog" where
  "S3_UploadPart ops mover objKey destLoca upBytes buf partNumber offset =
     deref (s3m_multiUploadInitOut mover) (\<lambda>UploadId.
     deref (s3m_svc mover) (\<lambda>svc.
       call (drop_reader (tries_with 3 buf (\<lambda>reader.
              liftS (aws_UploadPart ops svc (lo_BucketName destLoca) objKey UploadId partNumber upBytes reader))))
         (\<lambda>r. ret (case r of
            Inl e \<Rightarrow> (Inl e, mover)
          | Inr ETag \<Rightarrow> (Inr (),
              mover\<lparr>s3m_completeParts := s3m_completeParts mover @ [(ETag, partNumber)]\<rparr>)))))"

definition S3_AbortMultipartUpload :: "'s aws_ops \<Rightarrow> S3Mover \<Rightarrow> string \<Rightarrow> LocationInfo \<Rightarrow>
    ('s, string + unit) prog" where
  "S3_AbortMultipartUpload ops mover objKey destLoca =
     deref (s3m_multiUploadInitOut mover) (\<lambda>UploadId.
     deref (s3m_svc mover) (\<lambda>svc.
       tries 3 (liftS (aws_AbortMultipartUpload ops svc (lo_BucketName destLoca) objKey UploadId))))"

definition S3_CompleteMultipartUpload :: "'s aws_ops \<Rightarrow> S3Mover \<Rightarrow> string \<Rightarrow> LocationInfo \<Rightarrow>
    ('s, string + unit) prog" where
  "S3_CompleteMultipartUpload ops mover objKey destLoca =
     deref (s3m_multiUploadInitOut mover) (\<lambda>UploadId.
     deref (s3m_svc mover) (\<lambda>svc.
       tries 3 (liftS (aws_CompleteMultipartUpload ops svc (lo_BucketName destLoca) objKey UploadId
         (s3m_completeParts mover)))))"

definition S3_DeleteObj :: "'s aws_ops \<Rightarrow> string \<Rightarrow> LocationInfo \<Rightarrow> ('s, string + unit) prog" where
  "S3_DeleteObj ops objKey loca =
     with_session ops loca Inl (\<lambda>svc.
       call (tries 3 (liftS (aws_DeleteObject ops svc (lo_BucketName loca) objKey))) (\<lambda>r.
         case r of
           Inl e \<Rightarrow> ret (Inl e)
         | Inr _ \<Rightarrow> liftS (aws_WaitUntilObjectNotExists ops svc (lo_BucketName loca) objKey)))"

text \<open>The loop over the pages collects all objects, but what is returned are the contents of the last page.\<close>

definition S3_ListObjs :: "nat \<Rightarrow> 's aws_ops \<Rightarrow> LocationInfo \<Rightarrow> string option \<Rightarrow>
    ('s, string + (string \<times> int) list) prog" where
  "S3_ListObjs fuel ops loca pre =
     with_session ops loca Inl (\<lambda>svc.
       let list_from = (\<lambda>marker. liftS (aws_ListObjects ops svc (lo_BucketName loca) pre marker))
       in call (list_from None) (\<lambda>r.
            case r of
              Inl e \<Rightarrow> ret (Inl e)
            | Inr output \<Rightarrow>
                call (list_more fuel list_from output (pg_Contents output)) (\<lambda>r.
                  ret (case r of
                         Inl err \<Rightarrow> Inl err
                       | Inr (output, objs) \<Rightarrow> Inr (pg_Contents output)))))"

end
