(* ===== verification/Mover_Obs.thy ===== *)
theory Mover_Obs
  imports Mover_Types
begin

text \<open>
  The mover for Huawei OBS (\<open>datamover/pkg/hw/obs/obsmover.go\<close>), on the SDK \<open>obs\<close> as the record
  \<open>obs_ops\<close>. The range download reads every piece of the body to the front of the buffer, so it
  fills the buffer correctly only when the body comes in one piece.
\<close>

section \<open>The SDK\<close>

record obs_client =
  oc_AccessKey :: string
  oc_SecretKey :: string
  oc_Endpoint :: string

record 's obs_ops =
  obs_New :: "obs_client \<Rightarrow> ('s, string option) prog"
  obs_GetObject :: "obs_client \<Rightarrow> string \<Rightarrow> string \<Rightarrow> (int \<times> int) option \<Rightarrow> ('s, string + body) prog"
  obs_PutObject :: "obs_client \<Rightarrow> string \<Rightarrow> string \<Rightarrow> byte list \<Rightarrow> ('s, (string + unit) \<times> byte list) prog"
  obs_DeleteObject :: "obs_client \<Rightarrow> string \<Rightarrow> string \<Rightarrow> ('s, string + unit) prog"
  obs_InitiateMultipartUpload :: "obs_client \<Rightarrow> string \<Rightarrow> string \<Rightarrow> ('s, string + string) prog"
  obs_UploadPart :: "obs_client \<Rightarrow> string \<Rightarrow> string \<Rightarrow> string \<Rightarrow> int \<Rightarrow> int \<Rightarrow> int \<Rightarrow> byte list \<Rightarrow>
      ('s, string + (string \<times> int)) prog"
  obs_AbortMultipartUpload :: "obs_client \<Rightarrow> string \<Rightarrow> string \<Rightarrow> string \<Rightarrow> ('s, string + unit) prog"
  obs_CompleteMultipartUpload :: "obs_client \<Rightarrow> string \<Rightarrow> string \<Rightarrow> string \<Rightarrow> (string \<times> int) list \<Rightarrow> ('s, string + unit) prog"
  obs_ListObjects :: "obs_client \<Rightarrow> string \<Rightarrow> string \<Rightarrow> string option \<Rightarrow> ('s, string + list_page) prog"

section \<open>The mover\<close>

record ObsMover =
  om_obsClient :: "obs_client option"
  om_multiUploadInitOut :: "string option"
  om_completeParts :: "(string \<times> int) list"

definition new_ObsMover :: ObsMover where
  "new_ObsMover = \<lparr>om_obsClient = None, om_multiUploadInitOut = None, om_completeParts = []\<rparr>"

definition obs_config :: "LocationInfo \<Rightarrow> obs_client" where
  "obs_config loca = \<lparr>oc_AccessKey = lo_Access loca, oc_SecretKey = lo_Security loca,
     oc_Endpoint = lo_EndPoint loca\<rparr>"

definition with_obsClient :: "'s obs_ops \<Rightarrow> LocationInfo \<Rightarrow> (string \<Rightarrow> 'a) \<Rightarrow>
    (obs_client \<Rightarrow> ('s, 'a) prog) \<Rightarrow> ('s, 'a) prog" where
  "with_obsClient ops loca failed f =
     call (obs_New ops (obs_config loca)) (\<lambda>err.
       case err of
         Some e \<Rightarrow> ret (failed e)
       | None \<Rightarrow> f (obs_config loca))"

definition Obs_DownloadObj :: "'s obs_ops \<Rightarrow> string \<Rightarrow> LocationInfo \<Rightarrow> byte list \<Rightarrow>
    ('s, (string + int) \<times> byte list) prog" where
  "Obs_DownloadObj ops objKey srcLoca buf =
     with_obsClient ops srcLoca (\<lambda>e. (Inl e, buf)) (\<lambda>obsClient.
       call (tries 3 (obs_GetObject ops obsClient (lo_BucketName srcLoca) objKey None)) (\<lambda>r.
         case r of
           Inl e \<Rightarrow> ret (Inl e, buf)
         | Inr output \<Rightarrow> lift_go (read_whole output buf)))"

definition Obs_UploadObj :: "'s obs_ops \<Rightarrow> string \<Rightarrow> LocationInfo \<Rightarrow> byte list \<Rightarrow> ('s, string + unit) prog" where
  "Obs_UploadObj ops objKey destLoca buf =
     with_obsClient ops destLoca Inl (\<lambda>obsClient.
       drop_reader (tries_with 3 buf (\<lambda>Body.
         (obs_PutObject ops obsClient (lo_BucketName destLoca) objKey Body))))"

definition Obs_DeleteObj :: "'s obs_ops \<Rightarrow> string \<Rightarrow> LocationInfo \<Rightarrow> ('s, string + unit) prog" where
  "Obs_DeleteObj ops objKey loca =
     with_obsClient ops loca Inl (\<lambda>obsClient.
       tries 3 (obs_DeleteObject ops obsClient (lo_BucketName loca) objKey))"

definition Obs_MultiPartDownloadInit :: "'s obs_ops \<Rightarrow> ObsMover \<Rightarrow> LocationInfo \<Rightarrow>
    ('s, (string + unit) \<times> ObsMover) prog" where
  "Obs_MultiPartDownloadInit ops mover srcLoca =
     with_obsClient ops srcLoca (\<lambda>e. (Inl e, mover\<lparr>om_obsClient := None\<rparr>)) (\<lambda>obsClient.
       ret (Inr (), mover\<lparr>om_obsClient := Some obsClient\<rparr>))"

text \<open>The loop that reads each piece to the front of the buffer.\<close>

fun read_front :: "nat \<Rightarrow> body \<Rightarrow> byte list \<Rightarrow> nat \<Rightarrow> ((nat \<times> read_result) \<times> byte list) go" where
  "read_front 0 b buf readCount = OutOfFuel"
| "read_front (Suc fuel) b buf readCount =
     (case Read (length buf) b of
        (data, err, b') \<Rightarrow>
          let buf = copy_at 0 data buf; readCount = readCount + length data
          in if err = ReadOk then read_front fuel b' buf readCount else Return ((readCount, err), buf))"

definition Obs_DownloadRange :: "'s obs_ops \<Rightarrow> ObsMover \<Rightarrow> string \<Rightarrow> LocationInfo \<Rightarrow> byte list \<Rightarrow>
    int \<Rightarrow> int \<Rightarrow> ('s, (string + int) \<times> byte list) prog" where
  "Obs_DownloadRange ops mover objKey srcLoca buf start end =
     deref (om_obsClient mover) (\<lambda>obsClient.
       call (tries 3 (obs_GetObject ops obsClient (lo_BucketName srcLoca) objKey (Some (start, end)))) (\<lambda>r.
         case r of
           Inl e \<Rightarrow> ret (Inl e, buf)
         | Inr output \<Rightarrow>
             lift_go (go_map (\<lambda>((readCount, readErr), buf). (read_outcome readCount readErr, buf))
               (read_front (read_fuel output) output buf 0))))"

definition Obs_MultiPartUploadInit :: "'s obs_ops \<Rightarrow> ObsMover \<Rightarrow> string \<Rightarrow> LocationInfo \<Rightarrow>
    ('s, (string + unit) \<times> ObsMover) prog" where
  "Obs_MultiPartUploadInit ops mover objKey destLoca =
     with_obsClient ops destLoca (\<lambda>e. (Inl e, mover\<lparr>om_obsClient := None\<rparr>)) (\<lambda>obsClient.
       let mover = mover\<lparr>om_obsClient := Some obsClient\<rparr>
       in call (tries 3 (obs_InitiateMultipartUpload ops obsClient (lo_BucketName destLoca) objKey)) (\<lambda>r.
            ret (case r of
                   Inl e \<Rightarrow> (Inl e, mover\<lparr>om_multiUploadInitOut := None\<rparr>)
                 | Inr resp \<Rightarrow> (Inr (), mover\<lparr>om_multiUploadInitOut := Some resp\<rparr>))))"

definition Obs_UploadPart :: "'s obs_ops \<Rightarrow> ObsMover \<Rightarrow> string \<Rightarrow> LocationInfo \<Rightarrow> int \<Rightarrow> byte list \<Rightarrow>
    int \<Rightarrow> int \<Rightarrow> ('s, (string + unit) \<times> ObsMover) prog" where
  "Obs_UploadPart ops mover objKey destLoca upBytes buf partNumber offset =
     deref (om_multiUploadInitOut mover) (\<lambda>UploadId.
     deref (om_obsClient mover) (\<lambda>obsClient.
       call (tries 3 (obs_UploadPart ops obsClient (lo_BucketName destLoca) objKey UploadId
              partNumber offset upBytes buf)) (\<lambda>r.
         ret (case r of
                Inl e \<Rightarrow> (Inl e, mover)
              | Inr part \<Rightarrow> (Inr (), mover\<lparr>om_completeParts := om_completeParts mover @ [part]\<rparr>)))))"

definition Obs_AbortMultipartUpload :: "'s obs_ops \<Rightarrow> ObsMover \<Rightarrow> string \<Rightarrow> LocationInfo \<Rightarrow>
    ('s, string + unit) prog" where
  "Obs_AbortMultipartUpload ops mover objKey destLoca =
     deref (om_multiUploadInitOut mover) (\<lambda>UploadId.
     deref (om_obsClient mover) (\<lambda>obsClient.
       tries 3 (obs_AbortMultipartUpload ops obsClient (lo_BucketName destLoca) objKey UploadId)))"

definition Obs_CompleteMultipartUpload :: "'s obs_ops \<Rightarrow> ObsMover \<Rightarrow> string \<Rightarrow> LocationInfo \<Rightarrow>
    ('s, string + unit) prog" where
  "Obs_CompleteMultipartUpload ops mover objKey destLoca =
     deref (om_multiUploadInitOut mover) (\<lambda>UploadId.
     deref (om_obsClient mover) (\<lambda>obsClient.
       tries 3 (obs_CompleteMultipartUpload ops obsClient (lo_BucketName destLoca) objKey UploadId
         (om_completeParts mover))))"

text \<open>\<open>ListObjs\<close> ignores the error of \<open>obs.New\<close>, which leaves a nil client.\<close>

definition Obs_ListObjs :: "nat \<Rightarrow> 's obs_ops \<Rightarrow> LocationInfo \<Rightarrow> string option \<Rightarrow>
    ('s, string + (string \<times> int) list) prog" where
  "Obs_ListObjs fuel ops loca pre =
     call (obs_New ops (obs_config loca)) (\<lambda>err.
       deref (case err of None \<Rightarrow> Some (obs_config loca) | Some _ \<Rightarrow> None) (\<lambda>obsClient.
         let Prefix = (case pre of None \<Rightarrow> [] | Some p \<Rightarrow> p);
             list_from = (\<lambda>marker. obs_ListObjects ops obsClient (lo_BucketName loca) Prefix marker)
         in call (list_from (Some ''0'')) (\<lambda>r.
              case r of
                Inl e \<Rightarrow> ret (Inl e)
              | Inr output \<Rightarrow>
                  call (list_more fuel list_from output (pg_Contents output)) (\<lambda>r.
                    ret (case r of
                           Inl err \<Rightarrow> Inl err
                         | Inr (output, objs) \<Rightarrow> Inr objs)))))"

section \<open>The range download\<close>

lemma read_front_pieces:
  assumes "\<forall>c \<in> set (bd_pieces b). length c \<le> length buf" and "length (bd_pieces b) < fuel"
  shows "read_front fuel b buf n =
     Return ((n + length (bd_content b), end_result b), foldl (\<lambda>buf c. copy_at 0 c buf) buf (bd_pieces b))"
  using assms
proof (induction "bd_pieces b" arbitrary: b buf n fuel)
  case Nil
  then obtain k where "fuel = Suc k" by (cases fuel) auto
  with Nil show ?case
    by (simp add: Read_def bd_content_def end_result_def Let_def split: option.splits)
next
  case (Cons c cs)
  obtain k where k: "fuel = Suc k" using Cons.prems by (cases fuel) auto
  let ?b = "b\<lparr>bd_pieces := cs\<rparr>"
  have "read_front k ?b (copy_at 0 c buf) (n + length c) =
      Return ((n + length c + length (bd_content ?b), end_result ?b),
        foldl (\<lambda>buf c. copy_at 0 c buf) (copy_at 0 c buf) (bd_pieces ?b))"
    by (rule Cons.hyps(1)) (use Cons.prems k in \<open>simp_all flip: Cons.hyps(2)\<close>)
  moreover have "Read (length buf) b = (c, ReadOk, ?b)"
    using Cons.prems(1) by (simp add: Read_def flip: Cons.hyps(2))
  ultimately show ?case
    using k by (simp add: Let_def bd_content_def end_result_def flip: Cons.hyps(2))
qed

end
