(* ===== verification/Base64.thy ===== *)
theory Base64
  imports Mover_Types
begin

text \<open>
  Go's standard Base64 encoding and the little-endian bytes of a 64-bit integer, as the blob mover
  uses them for the names of blocks. Decoding inverts encoding.
\<close>

section \<open>Little-endian bytes\<close>

definition le_bytes :: "int \<Rightarrow> byte list" where
  "le_bytes x = map (\<lambda>i. word_of_int (x div 256 ^ i)) [0..<8]"

fun le_value :: "byte list \<Rightarrow> int" where
  "le_value [] = 0"
| "le_value (b # bs) = uint b + 256 * le_value bs"

lemma le_value_append: "le_value (xs @ ys) = le_value xs + 256 ^ length xs * le_value ys"
  by (induction xs) (simp_all add: algebra_simps)

lemma le_value_prefix:
  "le_value (map (\<lambda>i. word_of_int (x div 256 ^ i)) [0..<n]) = x mod 256 ^ n"
proof (induction n)
  case (Suc n)
  have "x mod 256 ^ Suc n = x mod (256 ^ n * 256)" by (simp add: mult.commute)
  also have "\<dots> = 256 ^ n * (x div 256 ^ n mod 256) + x mod 256 ^ n"
    by (rule zmod_zmult2_eq) simp
  finally show ?case
    using Suc by (simp add: le_value_append uint_word_of_int)
qed simp

lemma le_value_bytes: "le_value (le_bytes x) = x mod 18446744073709551616"
  unfolding le_bytes_def by (simp only: le_value_prefix) simp

lemma length_le_bytes [simp]: "length (le_bytes x) = 8"
  by (simp add: le_bytes_def)

section \<open>Base64\<close>

definition b64_alphabet :: string where
  "b64_alphabet = ''ABCDEFGHIJKLMNOPQRSTUVWXYZabcdefghijklmnopqrstuvwxyz0123456789+/''"

definition b64_char :: "nat \<Rightarrow> char" where
  "b64_char n = b64_alphabet ! n"

fun index_of :: "'a \<Rightarrow> 'a list \<Rightarrow> nat option" where
  "index_of x [] = None"
| "index_of x (y # ys) = (if x = y then Some 0 else map_option Suc (index_of x ys))"

definition b64_val :: "char \<Rightarrow> nat option" where
  "b64_val c = index_of c b64_alphabet"

fun b64_encode :: "byte list \<Rightarrow> string" where
  "b64_encode [] = []"
| "b64_encode [a] = [b64_char (unat a div 4), b64_char (unat a mod 4 * 16), CHR ''='', CHR ''='']"
| "b64_encode [a, b] = [b64_char (unat a div 4), b64_char (unat a mod 4 * 16 + unat b div 16),
     b64_char (unat b mod 16 * 4), CHR ''='']"
| "b64_encode (a # b # c # rest) =
     b64_char (unat a div 4) # b64_char (unat a mod 4 * 16 + unat b div 16) #
     b64_char (unat b mod 16 * 4 + unat c div 64) # b64_char (unat c mod 64) # b64_encode rest"

definition byte_of :: "nat \<Rightarrow> byte" where
  "byte_of n = word_of_nat n"

lemma byte_of_unat [simp]: "byte_of (unat a) = a"
  by (simp add: byte_of_def)

text \<open>The bytes decoded before the first malformed group; line breaks are skipped.\<close>

fun b64_groups :: "string \<Rightarrow> byte list" where
  "b64_groups (p # q # r # s # rest) =
     (case (b64_val p, b64_val q) of
        (Some i, Some j) \<Rightarrow>
          (if r = CHR ''='' then (if s = CHR ''='' then [byte_of (i * 4 + j div 16)] else [])
           else (case b64_val r of
                   None \<Rightarrow> []
                 | Some k \<Rightarrow>
                     (if s = CHR ''='' then [byte_of (i * 4 + j div 16), byte_of (j mod 16 * 16 + k div 4)]
                      else (case b64_val s of
                              None \<Rightarrow> []
                            | Some l \<Rightarrow> byte_of (i * 4 + j div 16) # byte_of (j mod 16 * 16 + k div 4) #
                                byte_of (k mod 4 * 64 + l) # b64_groups rest))))
      | _ \<Rightarrow> [])"
| "b64_groups _ = []"

definition b64_decode :: "string \<Rightarrow> byte list" where
  "b64_decode s = b64_groups (List.filter (\<lambda>c. c \<noteq> CHR 0x0A \<and> c \<noteq> CHR 0x0D) s)"

lemma index_of_nth: "distinct xs \<Longrightarrow> n < length xs \<Longrightarrow> index_of (xs ! n) xs = Some n"
  by (induction xs arbitrary: n) (auto simp: nth_Cons split: nat.splits)

lemma b64_val_char [simp]: "n < 64 \<Longrightarrow> b64_val (b64_char n) = Some n"
  unfolding b64_val_def b64_char_def by (rule index_of_nth) (simp_all add: b64_alphabet_def)

lemma b64_char_plain:
  assumes "n < 64"
  shows "b64_char n \<noteq> CHR ''='' \<and> b64_char n \<noteq> CHR 0x0A \<and> b64_char n \<noteq> CHR 0x0D"
proof -
  have "b64_char n \<in> set b64_alphabet"
    using assms by (simp add: b64_char_def b64_alphabet_def nth_mem del: set_simps)
  then show ?thesis by (auto simp: b64_alphabet_def)
qed

lemma byte_bound: "unat (a :: byte) < 256"
  by (rule order_less_le_trans [OF unsigned_less]) simp

lemma sextets:
  "unat (a :: byte) div 4 < 64" "unat (a :: byte) mod 4 * 16 < 64"
  "unat (a :: byte) mod 4 * 16 + unat (b :: byte) div 16 < 64"
  "unat (b :: byte) mod 16 * 4 < 64"
  "unat (b :: byte) mod 16 * 4 + unat (c :: byte) div 64 < 64"
  "unat (c :: byte) mod 64 < 64"
  using byte_bound [of a] byte_bound [of b] byte_bound [of c] by linarith+

lemma byte_parts [simp]:
  "unat (b :: byte) div 16 div 16 = 0" "unat (b :: byte) div 16 mod 16 = unat b div 16"
  "unat (b :: byte) div 64 div 4 = 0" "unat (b :: byte) div 64 mod 4 = unat b div 64"
  using byte_bound [of b] by (simp_all add: div_mult2_eq [symmetric] less_mult_imp_div_less)

lemma b64_groups_encode: "b64_groups (b64_encode bs) = bs"
  by (induction bs rule: b64_encode.induct) (simp_all add: sextets b64_char_plain)

lemma b64_encode_plain: "list_all (\<lambda>c. c \<noteq> CHR 0x0A \<and> c \<noteq> CHR 0x0D) (b64_encode bs)"
  by (induction bs rule: b64_encode.induct) (simp_all add: sextets b64_char_plain)

lemma b64_decode_encode: "b64_decode (b64_encode bs) = bs"
  using b64_encode_plain [of bs]
  by (simp add: b64_decode_def b64_groups_encode list_all_iff cong: filter_cong)

end
