(* ===== verification/Mover_Blob.thy ===== *)
theory Mover_Blob
  imports Base64
begin

text \<open>
  The mover for Azure blobs (\<open>datamover/pkg/azure/blob/blobmover.go\<close>), on the Azure SDK as the
  record \<open>az_ops\<close>. Parts are staged as blocks named by the Base64 text of their number.
\<close>

section \<open>The SDK\<close>

record az_container =
  az_Endpoint :: string
  az_Account :: string
  az_Key :: string

record 's az_ops =
  az_NewSharedKeyCredential :: "string \<Rightarrow> string \<Rightarrow> 's \<Rightarrow> string option \<times> 's"
  az_ParsesURL :: "string \<Rightarrow> bool"
  az_Download :: "az_container \<Rightarrow> string \<Rightarrow> 's \<Rightarrow> (string + body) \<times> 's"
  az_Upload :: "az_container \<Rightarrow> string \<Rightarrow> byte list \<Rightarrow> 's \<Rightarrow> (string + int) \<times> 's"
  az_Delete :: "az_container \<Rightarrow> string \<Rightarrow> 's \<Rightarrow> (string + int) \<times> 's"
  az_DownloadBlobToBuffer :: "az_container \<Rightarrow> string \<Rightarrow> int \<Rightarrow> int \<Rightarrow> byte list \<Rightarrow> 's \<Rightarrow>
      ((string + unit) \<times> byte list) \<times> 's"
  az_StageBlock :: "az_container \<Rightarrow> string \<Rightarrow> string \<Rightarrow> byte list \<Rightarrow> 's \<Rightarrow> (string + unit) \<times> 's"
  az_CommitBlockList :: "az_container \<Rightarrow> string \<Rightarrow> string list \<Rightarrow> 's \<Rightarrow> (string + unit) \<times> 's"
  az_ListBlobsFlatSegment :: "az_container \<Rightarrow> string option \<Rightarrow> string \<Rightarrow> 's \<Rightarrow> (string + list_page) \<times> 's"

definition HTTP_OK :: int where "HTTP_OK = 200"
definition HTTP_CREATED :: int where "HTTP_CREATED = 201"
definition HTTP_ACCEPTED :: int where "HTTP_ACCEPTED = 202"

section \<open>The mover\<close>

record BlobMover =
  bm_containerURL :: "az_container option"
  bm_completeParts :: "string list"

definition new_BlobMover :: BlobMover where
  "new_BlobMover = \<lparr>bm_containerURL = None, bm_completeParts = []\<rparr>"

text \<open>An endpoint that is no URL makes \<open>url.Parse\<close> return nil, which is dereferenced.\<close>

definition createContainerURL :: "'s az_ops \<Rightarrow> string \<Rightarrow> string \<Rightarrow> string \<Rightarrow>
    ('s, string + az_container) prog" where
  "createContainerURL ops endpoint acountName accountKey =
     call (liftS (az_NewSharedKeyCredential ops acountName accountKey)) (\<lambda>err.
       case err of
         Some e \<Rightarrow> ret (Inl e)
       | None \<Rightarrow>
           (if az_ParsesURL ops endpoint then
              ret (Inr \<lparr>az_Endpoint = endpoint, az_Account = acountName, az_Key = accountKey\<rparr>)
            else panic NilDereference))"

definition Blob_Init :: "'s az_ops \<Rightarrow> BlobMover \<Rightarrow> string \<Rightarrow> string \<Rightarrow> string \<Rightarrow>
    ('s, (string + unit) \<times> BlobMover) prog" where
  "Blob_Init ops mover endpoint acountName accountKey =
     call (createContainerURL ops endpoint acountName accountKey) (\<lambda>r.
       ret (case r of
              Inl err \<Rightarrow> (Inl err, mover\<lparr>bm_containerURL := None\<rparr>)
            | Inr url \<Rightarrow> (Inr (), mover\<lparr>bm_containerURL := Some url\<rparr>)))"

text \<open>Methods that begin with \<open>Init\<close> for a location.\<close>

definition with_container :: "'s az_ops \<Rightarrow> LocationInfo \<Rightarrow> (string \<Rightarrow> 'a) \<Rightarrow>
    (az_container \<Rightarrow> ('s, 'a) prog) \<Rightarrow> ('s, 'a) prog" where
  "with_container ops loca failed f =
     call (Blob_Init ops new_BlobMover (lo_EndPoint loca) (lo_Access loca) (lo_Security loca)) (\<lambda>(r, mover).
       case r of
         Inl e \<Rightarrow> ret (failed e)
       | Inr _ \<Rightarrow> deref (bm_containerURL mover) f)"

definition Blob_DownloadObj :: "'s az_ops \<Rightarrow> string \<Rightarrow> LocationInfo \<Rightarrow> byte list \<Rightarrow>
    ('s, (string + int) \<times> byte list) prog" where
  "Blob_DownloadObj ops objKey srcLoca buf =
     with_container ops srcLoca (\<lambda>e. (Inl e, buf)) (\<lambda>container.
       call (tries 3 (liftS (az_Download ops container objKey))) (\<lambda>r.
         case r of
           Inl e \<Rightarrow> ret (Inl e, buf)
         | Inr downloadResp \<Rightarrow> lift_go (read_whole downloadResp buf)))"

definition Blob_UploadObj :: "'s az_ops \<Rightarrow> string \<Rightarrow> LocationInfo \<Rightarrow> byte list \<Rightarrow> ('s, string + unit) prog" where
  "Blob_UploadObj ops objKey destLoca buf =
     with_container ops destLoca Inl (\<lambda>container.
       tries 3
         (call (liftS (az_Upload ops container objKey buf)) (\<lambda>r.
            ret (case r of
                   Inl e \<Rightarrow> Inl e
                 | Inr status \<Rightarrow> (if status \<noteq> HTTP_CREATED then Inl ''Upload failed'' else Inr ())))))"

definition Blob_DeleteObj :: "'s az_ops \<Rightarrow> string \<Rightarrow> LocationInfo \<Rightarrow> ('s, string + unit) prog" where
  "Blob_DeleteObj ops objKey loca =
     with_container ops loca Inl (\<lambda>container.
       tries 3
         (call (liftS (az_Delete ops container objKey)) (\<lambda>r.
            ret (case r of
                   Inl e \<Rightarrow> Inl e
                 | Inr status \<Rightarrow>
                     (if status = HTTP_OK \<or> status = HTTP_ACCEPTED then Inr () else Inl ''Delete failed'')))))"

definition Blob_MultiPartDownloadInit :: "'s az_ops \<Rightarrow> BlobMover \<Rightarrow> LocationInfo \<Rightarrow>
    ('s, (string + unit) \<times> BlobMover) prog" where
  "Blob_MultiPartDownloadInit ops mover srcLoca =
     Blob_Init ops mover (lo_EndPoint srcLoca) (lo_Access srcLoca) (lo_Security srcLoca)"

definition Blob_DownloadRange :: "'s az_ops \<Rightarrow> BlobMover \<Rightarrow> string \<Rightarrow> LocationInfo \<Rightarrow> byte list \<Rightarrow>
    int \<Rightarrow> int \<Rightarrow> ('s, (string + int) \<times> byte list) prog" where
  "Blob_DownloadRange ops mover objKey srcLoca buf start end =
     (let count = end - start + 1
      in tries_with 3 buf (\<lambda>buf.
           deref (bm_containerURL mover) (\<lambda>container.
             call (liftS (az_DownloadBlobToBuffer ops container objKey start count buf)) (\<lambda>(r, buf).
               ret (case r of Inl e \<Rightarrow> Inl e | Inr _ \<Rightarrow> Inr count, buf)))))"

definition Blob_MultiPartUploadInit :: "'s az_ops \<Rightarrow> BlobMover \<Rightarrow> string \<Rightarrow> LocationInfo \<Rightarrow>
    ('s, (string + unit) \<times> BlobMover) prog" where
  "Blob_MultiPartUploadInit ops mover objKey destLoca =
     Blob_Init ops mover (lo_EndPoint destLoca) (lo_Access destLoca) (lo_Security destLoca)"

definition BinaryToBase64 :: "byte list \<Rightarrow> string" where
  "BinaryToBase64 binaryID = b64_encode binaryID"

definition Int64ToBase64 :: "int \<Rightarrow> string" where
  "Int64ToBase64 blockID = BinaryToBase64 (le_bytes blockID)"

text \<open>\<open>binary.LittleEndian.Uint64\<close> panics on less than eight bytes and reads the first eight.\<close>

definition Base64ToInt64 :: "string \<Rightarrow> int go" where
  "Base64ToInt64 base64ID =
     (let bin = b64_decode base64ID
      in if length bin < 8 then Panic IndexOutOfRange else Return (i64 (le_value (take 8 bin))))"

definition Blob_UploadPart :: "'s az_ops \<Rightarrow> BlobMover \<Rightarrow> string \<Rightarrow> LocationInfo \<Rightarrow> int \<Rightarrow> byte list \<Rightarrow>
    int \<Rightarrow> int \<Rightarrow> ('s, (string + unit) \<times> BlobMover) prog" where
  "Blob_UploadPart ops mover objKey destLoca upBytes buf partNumber offset =
     deref (bm_containerURL mover) (\<lambda>container.
       let base64ID = Int64ToBase64 partNumber
       in call (tries 3 (liftS (az_StageBlock ops container objKey base64ID buf))) (\<lambda>r.
            ret (case r of
                   Inl e \<Rightarrow> (Inl e, mover)
                 | Inr _ \<Rightarrow> (Inr (), mover\<lparr>bm_completeParts := bm_completeParts mover @ [base64ID]\<rparr>))))"

definition Blob_AbortMultipartUpload :: "BlobMover \<Rightarrow> string \<Rightarrow> LocationInfo \<Rightarrow> ('s, string + unit) prog" where
  "Blob_AbortMultipartUpload mover objKey destLoca = ret (Inr ())"

definition Blob_CompleteMultipartUpload :: "'s az_ops \<Rightarrow> BlobMover \<Rightarrow> string \<Rightarrow> LocationInfo \<Rightarrow>
    ('s, string + unit) prog" where
  "Blob_CompleteMultipartUpload ops mover objKey destLoca =
     deref (bm_containerURL mover) (\<lambda>container.
       tries 3 (liftS (az_CommitBlockList ops container objKey (bm_completeParts mover))))"

text \<open>
  The listing: a zero marker stands for the start, and the loop ends when the marker of the next
  segment is empty. \<open>log.Fatalf\<close> ends the process when the credential cannot be made, which is
  modelled as a panic.
\<close>

fun Blob_segments :: "nat \<Rightarrow> (string option \<Rightarrow> ('s, string + list_page) prog) \<Rightarrow> string option \<Rightarrow>
    (string \<times> int) list \<Rightarrow> ('s, string + (string \<times> int) list) prog" where
  "Blob_segments 0 list_from marker objs = no_fuel"
| "Blob_segments (Suc k) list_from marker objs =
     call (list_from marker) (\<lambda>r.
       case r of
         Inl err \<Rightarrow> ret (Inl err)
       | Inr listBlob \<Rightarrow>
           (case pg_NextMarker listBlob of
              None \<Rightarrow> ret (Inr (objs @ pg_Contents listBlob))
            | Some m \<Rightarrow> Blob_segments k list_from (Some m) (objs @ pg_Contents listBlob)))"

definition Blob_ListObjs :: "nat \<Rightarrow> 's az_ops \<Rightarrow> LocationInfo \<Rightarrow> string option \<Rightarrow>
    ('s, string + (string \<times> int) list) prog" where
  "Blob_ListObjs fuel ops loca pre =
     call (createContainerURL ops (lo_EndPoint loca) (lo_Access loca) (lo_Security loca)) (\<lambda>r.
       case r of
         Inl err \<Rightarrow> panic ProcessExit
       | Inr containerURL \<Rightarrow>
           (let Prefix = (case pre of None \<Rightarrow> [] | Some p \<Rightarrow> p)
            in Blob_segments fuel (\<lambda>marker. liftS (az_ListBlobsFlatSegment ops containerURL marker Prefix)) None []))"

section \<open>Names of blocks\<close>

lemma Base64ToInt64_Int64ToBase64: "Base64ToInt64 (Int64ToBase64 x) = Return (i64 x)"
proof -
  have "i64 (x mod 18446744073709551616) = i64 x"
    by (simp add: i64_def wrap_signed_def mod_add_left_eq)
  then show ?thesis
    by (simp add: Base64ToInt64_def Int64ToBase64_def BinaryToBase64_def b64_decode_encode
        le_value_bytes Let_def)
qed

lemma third_step: "(5 + n) div 3 = Suc (Suc (Suc n) div 3)" for n :: nat
  by presburger

lemma length_b64_encode: "length (b64_encode bs) = 4 * ((length bs + 2) div 3)"
  by (induction bs rule: b64_encode.induct) (simp_all add: third_step)

lemma length_Int64ToBase64: "length (Int64ToBase64 x) = 12"
  by (simp add: Int64ToBase64_def BinaryToBase64_def length_b64_encode)

lemma Int64ToBase64_inject:
  assumes "Int64ToBase64 x = Int64ToBase64 y"
    and "- 9223372036854775808 \<le> x" "x \<le> 9223372036854775807"
    and "- 9223372036854775808 \<le> y" "y \<le> 9223372036854775807"
  shows "x = y"
proof -
  have "Return (i64 x) = Return (i64 y)"
    by (simp only: assms(1) flip: Base64ToInt64_Int64ToBase64)
  with assms(2-5) show ?thesis by (simp add: i64_id)
qed

end
