(* ===== verification/Mover_Ceph.thy ===== *)
theory Mover_Ceph
  imports Base64
begin

text \<open>
  The mover for Ceph (\<open>datamover/pkg/ceph/s3/s3mover.go\<close>), on the client library as the record
  \<open>ce_ops\<close>, with the MD5 sum as one of its fields. The error of \<open>Get\<close> is overwritten before it is
  looked at, so only the response says whether there is one.
\<close>

section \<open>The client library\<close>

record ce_client =
  ce_EndPoint :: string
  ce_AccessKey :: string
  ce_SecretKey :: string

record 's ce_ops =
  ce_md5 :: "byte list \<Rightarrow> byte list"
  ce_Create :: "ce_client \<Rightarrow> string \<Rightarrow> string \<Rightarrow> string \<Rightarrow> int \<Rightarrow> byte list \<Rightarrow> 's \<Rightarrow>
      ((string + unit) \<times> byte list) \<times> 's"
  ce_Get :: "ce_client \<Rightarrow> string \<Rightarrow> string \<Rightarrow> (int \<times> int) option \<Rightarrow> 's \<Rightarrow> (body \<times> int) option \<times> 's"
  ce_Initiate :: "ce_client \<Rightarrow> string \<Rightarrow> string \<Rightarrow> 's \<Rightarrow> (string + string) \<times> 's"
  ce_UploadPart :: "ce_client \<Rightarrow> string \<Rightarrow> string \<Rightarrow> int \<Rightarrow> string \<Rightarrow> string \<Rightarrow> int \<Rightarrow> byte list \<Rightarrow> 's \<Rightarrow>
      ((string + (string \<times> int)) \<times> byte list) \<times> 's"
  ce_RemoveUploads :: "ce_client \<Rightarrow> string \<Rightarrow> string \<Rightarrow> string \<Rightarrow> 's \<Rightarrow> (string + unit) \<times> 's"
  ce_Complete :: "ce_client \<Rightarrow> string \<Rightarrow> string \<Rightarrow> string \<Rightarrow> (string \<times> int) list \<Rightarrow> 's \<Rightarrow>
      (string + unit) \<times> 's"
  ce_Remove :: "ce_client \<Rightarrow> string \<Rightarrow> string \<Rightarrow> 's \<Rightarrow> (string + unit) \<times> 's"
  ce_BucketGet :: "ce_client \<Rightarrow> string \<Rightarrow> string \<Rightarrow> int \<Rightarrow> 's \<Rightarrow> (string + list_page) \<times> 's"

section \<open>The mover\<close>

record CephS3Mover =
  cm_downloader :: "ce_client option"
  cm_svc :: "(ce_client \<times> string \<times> string) option"
  cm_multiUploadInitOut :: "string option"
  cm_completeParts :: "(string \<times> int) list"

definition new_CephS3Mover :: CephS3Mover where
  "new_CephS3Mover = \<lparr>cm_downloader = None, cm_svc = None, cm_multiUploadInitOut = None,
     cm_completeParts = []\<rparr>"

definition ce_NewClient :: "LocationInfo \<Rightarrow> ce_client" where
  "ce_NewClient loca = \<lparr>ce_EndPoint = lo_EndPoint loca, ce_AccessKey = lo_Access loca,
     ce_SecretKey = lo_Security loca\<rparr>"

definition md5Content :: "'s ce_ops \<Rightarrow> byte list \<Rightarrow> string" where
  "md5Content ops data = b64_encode (ce_md5 ops data)"

definition Ceph_UploadObj :: "'s ce_ops \<Rightarrow> string \<Rightarrow> LocationInfo \<Rightarrow> byte list \<Rightarrow> ('s, string + unit) prog" where
  "Ceph_UploadObj ops objKey destLoca buf =
     (let contentMD5 = md5Content ops buf; length = int (length buf)
      in drop_reader (tries_with 3 buf (\<lambda>body.
           liftS (ce_Create ops (ce_NewClient destLoca) (lo_BucketName destLoca) objKey contentMD5 length body))))"

text \<open>
  One try of a download: the whole body is read and copied to the buffer, also when the reading
  ends with an error.
\<close>

definition ceph_try :: "'s ce_ops \<Rightarrow> ce_client \<Rightarrow> string \<Rightarrow> string \<Rightarrow> (int \<times> int) option \<Rightarrow>
    (int \<Rightarrow> int \<Rightarrow> int) \<Rightarrow> byte list \<Rightarrow> ('s, (string + int) \<times> byte list) prog" where
  "ceph_try ops client bucket objKey rng result buf =
     call (liftS (ce_Get ops client bucket objKey rng)) (\<lambda>resp.
       deref resp (\<lambda>(b, ContentLength).
         let data = bd_content b; sz = int (length data)
         in ret (case bd_end b of Some e \<Rightarrow> Inl e | None \<Rightarrow> Inr (result sz ContentLength),
                 copy_at 0 data buf)))"

definition Ceph_DownloadObj :: "'s ce_ops \<Rightarrow> string \<Rightarrow> LocationInfo \<Rightarrow> byte list \<Rightarrow>
    ('s, (string + int) \<times> byte list) prog" where
  "Ceph_DownloadObj ops objKey srcLoca buf =
     tries_with 3 buf
       (ceph_try ops (ce_NewClient srcLoca) (lo_BucketName srcLoca) objKey None (\<lambda>sz ContentLength. ContentLength))"

definition Ceph_MultiPartDownloadInit :: "CephS3Mover \<Rightarrow> LocationInfo \<Rightarrow>
    ('s, (string + unit) \<times> CephS3Mover) prog" where
  "Ceph_MultiPartDownloadInit mover srcLoca =
     ret (Inr (), mover\<lparr>cm_downloader := Some (ce_NewClient srcLoca)\<rparr>)"

definition Ceph_DownloadRange :: "'s ce_ops \<Rightarrow> CephS3Mover \<Rightarrow> string \<Rightarrow> LocationInfo \<Rightarrow> byte list \<Rightarrow>
    int \<Rightarrow> int \<Rightarrow> ('s, (string + int) \<times> byte list) prog" where
  "Ceph_DownloadRange ops mover objKey srcLoca buf start end =
     deref (cm_downloader mover) (\<lambda>client.
       tries_with 3 buf
         (ceph_try ops client (lo_BucketName srcLoca) objKey (Some (start, end)) (\<lambda>sz ContentLength. sz)))"

definition Ceph_MultiPartUploadInit :: "'s ce_ops \<Rightarrow> CephS3Mover \<Rightarrow> string \<Rightarrow> LocationInfo \<Rightarrow>
    ('s, (string + unit) \<times> CephS3Mover) prog" where
  "Ceph_MultiPartUploadInit ops mover objKey destLoca =
     (let sess = ce_NewClient destLoca;
          mover = mover\<lparr>cm_svc := Some (sess, lo_BucketName destLoca, objKey)\<rparr>
      in call (tries 3 (liftS (ce_Initiate ops sess (lo_BucketName destLoca) objKey))) (\<lambda>r.
           ret (case r of
                  Inl e \<Rightarrow> (Inl e, mover)
                | Inr UploadID \<Rightarrow> (Inr (), mover\<lparr>cm_multiUploadInitOut := Some UploadID\<rparr>))))"

definition Ceph_UploadPart :: "'s ce_ops \<Rightarrow> CephS3Mover \<Rightarrow> string \<Rightarrow> LocationInfo \<Rightarrow> int \<Rightarrow> byte list \<Rightarrow>
    int \<Rightarrow> int \<Rightarrow> ('s, (string + unit) \<times> CephS3Mover) prog" where
  "Ceph_UploadPart ops mover objKey destLoca upBytes buf partNumber offset =
     deref (cm_multiUploadInitOut mover) (\<lambda>UploadID.
       let contentMD5 = md5Content ops buf; length = int (length buf)
       in deref (cm_svc mover) (\<lambda>(client, bucket, key).
            call (drop_reader (tries_with 3 buf (\<lambda>body.
                   liftS (ce_UploadPart ops client bucket key partNumber UploadID contentMD5 length body))))
              (\<lambda>r. ret (case r of
                 Inl e \<Rightarrow> (Inl e, mover)
               | Inr upRes \<Rightarrow> (Inr (), mover\<lparr>cm_completeParts := cm_completeParts mover @ [upRes]\<rparr>)))))"

text \<open>
  Aborting goes through \<open>mover.downloader\<close>, which only \<open>MultiPartDownloadInit\<close> sets; requests of a
  nil client dereference it.
\<close>

definition Ceph_AbortMultipartUpload :: "'s ce_ops \<Rightarrow> CephS3Mover \<Rightarrow> string \<Rightarrow> LocationInfo \<Rightarrow>
    ('s, string + unit) prog" where
  "Ceph_AbortMultipartUpload ops mover objKey destLoca =
     deref (cm_multiUploadInitOut mover) (\<lambda>UploadID.
       tries 3 (deref (cm_downloader mover) (\<lambda>client.
         liftS (ce_RemoveUploads ops client (lo_BucketName destLoca) objKey UploadID))))"

definition Ceph_CompleteMultipartUpload :: "'s ce_ops \<Rightarrow> CephS3Mover \<Rightarrow> string \<Rightarrow> LocationInfo \<Rightarrow>
    ('s, string + unit) prog" where
  "Ceph_CompleteMultipartUpload ops mover objKey destLoca =
     tries 3 (deref (cm_svc mover) (\<lambda>(client, bucket, key).
       deref (cm_multiUploadInitOut mover) (\<lambda>UploadID.
         liftS (ce_Complete ops client bucket key UploadID (cm_completeParts mover)))))"

definition Ceph_DeleteObj :: "'s ce_ops \<Rightarrow> string \<Rightarrow> LocationInfo \<Rightarrow> ('s, string + unit) prog" where
  "Ceph_DeleteObj ops objKey loca =
     liftS (ce_Remove ops (ce_NewClient loca) (lo_BucketName loca) objKey)"

definition Ceph_ListObjs :: "'s ce_ops \<Rightarrow> LocationInfo \<Rightarrow> string option \<Rightarrow>
    ('s, string + (string \<times> int) list) prog" where
  "Ceph_ListObjs ops loca pre =
     call (liftS (ce_BucketGet ops (ce_NewClient loca) (lo_BucketName loca)
             (case pre of None \<Rightarrow> [] | Some p \<Rightarrow> p) 1000)) (\<lambda>r.
       ret (case r of Inl err \<Rightarrow> Inl err | Inr output \<Rightarrow> Inr (pg_Contents output)))"

text \<open>
  A mover that was made for an upload cannot abort it: \<open>MultiPartUploadInit\<close> and \<open>UploadPart\<close> leave
  \<open>downloader\<close> nil.
\<close>

lemma upload_keeps_downloader:
  "Ceph_MultiPartUploadInit ops mover objKey loca s = Return ((r, mover'), s') \<Longrightarrow>
     cm_downloader mover' = cm_downloader mover"
  "Ceph_UploadPart ops mover objKey loca n buf partNumber offset s = Return ((r, mover'), s') \<Longrightarrow>
     cm_downloader mover' = cm_downloader mover"
  by (auto simp: Ceph_MultiPartUploadInit_def Ceph_UploadPart_def Let_def ret_def
      elim!: call_ReturnE split: sum.splits prod.splits)

lemma Ceph_abort_panics:
  assumes "cm_downloader mover = None"
  shows "Ceph_AbortMultipartUpload ops mover objKey loca s = Panic NilDereference"
  using assms
  by (simp add: Ceph_AbortMultipartUpload_def deref_def panic_def numeral_3_eq_3 call_def split: option.splits)

end
