(* ===== verification/S3_Metadata.thy ===== *)
theory S3_Metadata
  imports Dataflow_Model
begin

text \<open>
  The metadata service of buckets and objects (\<open>s3/pkg/service.go\<close>, \<open>s3/pkg/exception\<close> and the
  MongoDB adapter under \<open>s3/pkg/db/drivers/mongo\<close>). Each bucket has a collection of its own for its
  objects. Parts of the messages that the service stores and returns without looking at them
  (access control lists, versions and the like) are kept in their stored form.
\<close>

section \<open>Errors\<close>

record S3Error =
  s3e_Code :: int
  s3e_Description :: string

definition ERR_OK :: int where "ERR_OK = 200"
definition StatusNotFound :: int where "StatusNotFound = 404"

definition NoError :: S3Error where
  "NoError = \<lparr>s3e_Code = ERR_OK, s3e_Description = []\<rparr>"
definition InternalError :: S3Error where
  "InternalError = \<lparr>s3e_Code = 500, s3e_Description = ''Internal error. Please retry''\<rparr>"
definition NoSuchBucket :: S3Error where
  "NoSuchBucket = \<lparr>s3e_Code = 404, s3e_Description = ''The specified bucket does not exist.''\<rparr>"
definition DBError :: S3Error where
  "DBError = \<lparr>s3e_Code = 500, s3e_Description = ''DB occured exception.''\<rparr>"
definition NoSuchObject :: S3Error where
  "NoSuchObject = \<lparr>s3e_Code = 404, s3e_Description = ''The specified object does not exist.''\<rparr>"
definition BucketAlreadyExists :: S3Error where
  "BucketAlreadyExists = \<lparr>s3e_Code = 409, s3e_Description =
     ''The requested bucket name already exist. Bucket namespace is shared by all users in the system. Select a different name and retry.''\<rparr>"

lemmas s3_errors = NoError_def InternalError_def NoSuchBucket_def DBError_def NoSuchObject_def
  BucketAlreadyExists_def ERR_OK_def StatusNotFound_def

definition Error_text :: "S3Error \<Rightarrow> string" where
  "Error_text err = ''{\"code\":\"'' @ Itoa (s3e_Code err) @ ''\",\"message\":\"'' @ s3e_Description err @ ''\"}''"

section \<open>Messages\<close>

record Partion =
  par_Key :: string
  par_PartNumber :: string
  par_Size :: int
  par_Etag :: string
  par_LastModified :: int

record Object =
  obj_ObjectKey :: string
  obj_BucketName :: string
  obj_Owner :: string
  obj_OwnerDisplayName :: string
  obj_CacheControl :: string
  obj_ContentDisposition :: string
  obj_ContentEncoding :: string
  obj_Expires :: string
  obj_ContentLength :: string
  obj_ContentType :: string
  obj_ContentMd5 :: string
  obj_Versions :: bval
  obj_StorageClass :: string
  obj_ServerSideEncryption :: bval
  obj_WebsiteRedirectLocation :: string
  obj_Acl :: bval
  obj_Backend :: string
  obj_IsNull :: string
  obj_IsDeleteMarker :: string
  obj_ReplicationInfo :: bval
  obj_Size :: int
  obj_Partions :: "Partion list"
  obj_Tags :: bval
  obj_LastModified :: string
  obj_InitFlag :: string

record Bucket =
  bk_Name :: string
  bk_Owner :: string
  bk_OwnerDisplayName :: string
  bk_Acl :: bval
  bk_CreationDate :: int
  bk_Transient :: bool
  bk_Deleted :: bool
  bk_ServerSideEncryption :: bval
  bk_VersioningConfiguration :: bval
  bk_Backend :: string
  bk_WebsiteConfiguration :: bval
  bk_Cors :: bval
  bk_ReplicationConfiguration :: bval
  bk_LifecycleConfiguration :: bval

definition zero_Object :: Object where
  "zero_Object = \<lparr>obj_ObjectKey = [], obj_BucketName = [], obj_Owner = [], obj_OwnerDisplayName = [],
     obj_CacheControl = [], obj_ContentDisposition = [], obj_ContentEncoding = [], obj_Expires = [],
     obj_ContentLength = [], obj_ContentType = [], obj_ContentMd5 = [], obj_Versions = BNull,
     obj_StorageClass = [], obj_ServerSideEncryption = BNull, obj_WebsiteRedirectLocation = [],
     obj_Acl = BNull, obj_Backend = [], obj_IsNull = [], obj_IsDeleteMarker = [],
     obj_ReplicationInfo = BNull, obj_Size = 0, obj_Partions = [], obj_Tags = BNull,
     obj_LastModified = [], obj_InitFlag = []\<rparr>"

definition zero_Bucket :: Bucket where
  "zero_Bucket = \<lparr>bk_Name = [], bk_Owner = [], bk_OwnerDisplayName = [], bk_Acl = BNull,
     bk_CreationDate = 0, bk_Transient = False, bk_Deleted = False, bk_ServerSideEncryption = BNull,
     bk_VersioningConfiguration = BNull, bk_Backend = [], bk_WebsiteConfiguration = BNull,
     bk_Cors = BNull, bk_ReplicationConfiguration = BNull, bk_LifecycleConfiguration = BNull\<rparr>"

section \<open>Stored form\<close>

text \<open>The messages have no \<open>bson\<close> tags, so the fields are stored under their names in lower case.\<close>

definition get_raw :: "doc \<Rightarrow> string \<Rightarrow> bval" where
  "get_raw d k = (case lookup d k of Some v \<Rightarrow> v | None \<Rightarrow> BNull)"

definition enc_Partion :: "Partion \<Rightarrow> bval" where
  "enc_Partion p = BDoc [(''key'', BString (par_Key p)), (''partnumber'', BString (par_PartNumber p)),
     (''size'', BInt (par_Size p)), (''etag'', BString (par_Etag p)),
     (''lastmodified'', BInt (par_LastModified p))]"

fun dec_Partion :: "bval \<Rightarrow> Partion" where
  "dec_Partion (BDoc d) = \<lparr>par_Key = get_string d ''key'', par_PartNumber = get_string d ''partnumber'',
     par_Size = get_int d ''size'', par_Etag = get_string d ''etag'',
     par_LastModified = get_int d ''lastmodified''\<rparr>"
| "dec_Partion _ = \<lparr>par_Key = [], par_PartNumber = [], par_Size = 0, par_Etag = [], par_LastModified = 0\<rparr>"

definition enc_Object :: "Object \<Rightarrow> doc" where
  "enc_Object x =
     [(''objectkey'', BString (obj_ObjectKey x)), (''bucketname'', BString (obj_BucketName x)),
      (''owner'', BString (obj_Owner x)), (''ownerdisplayname'', BString (obj_OwnerDisplayName x)),
      (''cachecontrol'', BString (obj_CacheControl x)),
      (''contentdisposition'', BString (obj_ContentDisposition x)),
      (''contentencoding'', BString (obj_ContentEncoding x)), (''expires'', BString (obj_Expires x)),
      (''contentlength'', BString (obj_ContentLength x)), (''contenttype'', BString (obj_ContentType x)),
      (''contentmd5'', BString (obj_ContentMd5 x)), (''versions'', obj_Versions x),
      (''storageclass'', BString (obj_StorageClass x)),
      (''serversideencryption'', obj_ServerSideEncryption x),
      (''websiteredirectlocation'', BString (obj_WebsiteRedirectLocation x)),
      (''acl'', obj_Acl x), (''backend'', BString (obj_Backend x)), (''isnull'', BString (obj_IsNull x)),
      (''isdeletemarker'', BString (obj_IsDeleteMarker x)), (''replicationinfo'', obj_ReplicationInfo x),
      (''size'', BInt (obj_Size x)), (''partions'', BArr (map enc_Partion (obj_Partions x))),
      (''tags'', obj_Tags x), (''lastmodified'', BString (obj_LastModified x)),
      (''initflag'', BString (obj_InitFlag x))]"

definition dec_Object :: "doc \<Rightarrow> Object" where
  "dec_Object d = \<lparr>obj_ObjectKey = get_string d ''objectkey'', obj_BucketName = get_string d ''bucketname'',
     obj_Owner = get_string d ''owner'', obj_OwnerDisplayName = get_string d ''ownerdisplayname'',
     obj_CacheControl = get_string d ''cachecontrol'',
     obj_ContentDisposition = get_string d ''contentdisposition'',
     obj_ContentEncoding = get_string d ''contentencoding'', obj_Expires = get_string d ''expires'',
     obj_ContentLength = get_string d ''contentlength'', obj_ContentType = get_string d ''contenttype'',
     obj_ContentMd5 = get_string d ''contentmd5'', obj_Versions = get_raw d ''versions'',
     obj_StorageClass = get_string d ''storageclass'',
     obj_ServerSideEncryption = get_raw d ''serversideencryption'',
     obj_WebsiteRedirectLocation = get_string d ''websiteredirectlocation'',
     obj_Acl = get_raw d ''acl'', obj_Backend = get_string d ''backend'', obj_IsNull = get_string d ''isnull'',
     obj_IsDeleteMarker = get_string d ''isdeletemarker'', obj_ReplicationInfo = get_raw d ''replicationinfo'',
     obj_Size = get_int d ''size'', obj_Partions = map dec_Partion (get_arr d ''partions''),
     obj_Tags = get_raw d ''tags'', obj_LastModified = get_string d ''lastmodified'',
     obj_InitFlag = get_string d ''initflag''\<rparr>"

definition enc_Bucket :: "Bucket \<Rightarrow> doc" where
  "enc_Bucket b =
     [(''name'', BString (bk_Name b)), (''owner'', BString (bk_Owner b)),
      (''ownerdisplayname'', BString (bk_OwnerDisplayName b)), (''acl'', bk_Acl b),
      (''creationdate'', BInt (bk_CreationDate b)), (''transient'', BBool (bk_Transient b)),
      (''deleted'', BBool (bk_Deleted b)), (''serversideencryption'', bk_ServerSideEncryption b),
      (''versioningconfiguration'', bk_VersioningConfiguration b), (''backend'', BString (bk_Backend b)),
      (''websiteconfiguration'', bk_WebsiteConfiguration b), (''cors'', bk_Cors b),
      (''replicationconfiguration'', bk_ReplicationConfiguration b),
      (''lifecycleconfiguration'', bk_LifecycleConfiguration b)]"

definition dec_Bucket :: "doc \<Rightarrow> Bucket" where
  "dec_Bucket d = \<lparr>bk_Name = get_string d ''name'', bk_Owner = get_string d ''owner'',
     bk_OwnerDisplayName = get_string d ''ownerdisplayname'', bk_Acl = get_raw d ''acl'',
     bk_CreationDate = get_int d ''creationdate'', bk_Transient = get_bool d ''transient'',
     bk_Deleted = get_bool d ''deleted'', bk_ServerSideEncryption = get_raw d ''serversideencryption'',
     bk_VersioningConfiguration = get_raw d ''versioningconfiguration'',
     bk_Backend = get_string d ''backend'', bk_WebsiteConfiguration = get_raw d ''websiteconfiguration'',
     bk_Cors = get_raw d ''cors'', bk_ReplicationConfiguration = get_raw d ''replicationconfiguration'',
     bk_LifecycleConfiguration = get_raw d ''lifecycleconfiguration''\<rparr>"

lemma dec_enc_Partion [simp]: "dec_Partion (enc_Partion p) = p"
  by (simp add: enc_Partion_def get_defs)

lemma dec_enc_Object [simp]: "dec_Object (enc_Object x) = x"
proof -
  have [simp]: "map (\<lambda>p. dec_Partion (enc_Partion p)) ps = ps" for ps by (induction ps) simp_all
  show ?thesis by (simp add: enc_Object_def dec_Object_def get_defs get_raw_def comp_def)
qed

lemma dec_enc_Bucket [simp]: "dec_Bucket (enc_Bucket b) = b"
  by (simp add: enc_Bucket_def dec_Bucket_def get_defs get_raw_def)

section \<open>The adapter\<close>

definition BucketMD :: string where "BucketMD = ''metadatabucket''"

definition md_bucket_query :: "string \<Rightarrow> mquery" where
  "md_bucket_query name = Match [(''name'', BString name)]"

definition object_query :: "string \<Rightarrow> mquery" where
  "object_query key = Match [(''objectkey'', BString key)]"

definition db_GetBucketByName :: "'s mgo_ops \<Rightarrow> string \<Rightarrow> ('s, S3Error \<times> Bucket) prog" where
  "db_GetBucketByName ops bucketName =
     call (liftS (op_One ops BucketMD (md_bucket_query bucketName))) (\<lambda>found.
       ret (case found of
              Inl err \<Rightarrow> (if err = ErrNotFound then NoSuchBucket else InternalError, zero_Bucket)
            | Inr d \<Rightarrow> (NoError, dec_Bucket d)))"

text \<open>
  \<open>One(out)\<close> is called with a struct instead of a pointer to one, which the driver refuses with an
  error once it has found a document.
\<close>

definition db_CreateBucket :: "'s mgo_ops \<Rightarrow> Bucket \<Rightarrow> ('s, S3Error) prog" where
  "db_CreateBucket ops b =
     call (liftS (op_One ops BucketMD (md_bucket_query (bk_Name b)))) (\<lambda>found.
       if found = Inl ErrNotFound then
         call (liftS (op_Insert ops BucketMD (enc_Bucket b))) (\<lambda>err.
           ret (case err of None \<Rightarrow> NoError | Some _ \<Rightarrow> InternalError))
       else ret BucketAlreadyExists)"

definition db_UpdateBucket :: "'s mgo_ops \<Rightarrow> Bucket \<Rightarrow> ('s, S3Error) prog" where
  "db_UpdateBucket ops bucket =
     call (liftS (op_Update ops BucketMD (md_bucket_query (bk_Name bucket)) (enc_Bucket bucket))) (\<lambda>err.
       ret (case err of
              None \<Rightarrow> NoError
            | Some e \<Rightarrow> (if e = ErrNotFound then NoSuchBucket else InternalError)))"

text \<open>Both branches return, so the collection of the bucket's objects is never dropped.\<close>

definition db_DeleteBucket :: "'s mgo_ops \<Rightarrow> string \<Rightarrow> ('s, S3Error) prog" where
  "db_DeleteBucket ops bucketName =
     call (liftS (op_Remove ops BucketMD (md_bucket_query bucketName))) (\<lambda>err.
       ret (case err of
              None \<Rightarrow> NoError
            | Some e \<Rightarrow> (if e = ErrNotFound then NoSuchBucket else DBError)))"

definition db_ListBuckets :: "'s mgo_ops \<Rightarrow> string \<Rightarrow> ('s, S3Error \<times> Bucket list) prog" where
  "db_ListBuckets ops i =
     call (liftS (op_All ops BucketMD (Match [(''owner'', BString i)]) 0 0)) (\<lambda>found.
       ret (case found of Inl _ \<Rightarrow> (InternalError, []) | Inr ds \<Rightarrow> (NoError, map dec_Bucket ds)))"

definition db_GetObject :: "'s mgo_ops \<Rightarrow> string \<Rightarrow> string \<Rightarrow> ('s, S3Error \<times> Object) prog" where
  "db_GetObject ops bucket key =
     call (liftS (op_One ops bucket (object_query key))) (\<lambda>found.
       ret (case found of
              Inl err \<Rightarrow> (if err = ErrNotFound then NoSuchObject else InternalError, zero_Object)
            | Inr d \<Rightarrow> (NoError, dec_Object d)))"

definition db_CreateObject :: "'s mgo_ops \<Rightarrow> Object \<Rightarrow> ('s, S3Error) prog" where
  "db_CreateObject ops x =
     call (liftS (op_One ops (obj_BucketName x) (object_query (obj_ObjectKey x)))) (\<lambda>found.
       if found = Inl ErrNotFound then
         call (liftS (op_Insert ops (obj_BucketName x) (enc_Object x))) (\<lambda>err.
           ret (case err of None \<Rightarrow> NoError | Some _ \<Rightarrow> InternalError))
       else ret InternalError)"

definition db_UpdateObject :: "'s mgo_ops \<Rightarrow> Object \<Rightarrow> ('s, S3Error) prog" where
  "db_UpdateObject ops x =
     call (liftS (op_Update ops (obj_BucketName x) (object_query (obj_ObjectKey x)) (enc_Object x))) (\<lambda>err.
       ret (case err of
              None \<Rightarrow> NoError
            | Some e \<Rightarrow> (if e = ErrNotFound then NoSuchObject else InternalError)))"

definition db_ListObjects :: "'s mgo_ops \<Rightarrow> string \<Rightarrow> ('s, S3Error \<times> Object list) prog" where
  "db_ListObjects ops bucket =
     call (liftS (op_All ops bucket (Match []) 0 0)) (\<lambda>found.
       ret (case found of Inl _ \<Rightarrow> (InternalError, []) | Inr ds \<Rightarrow> (NoError, map dec_Object ds)))"

section \<open>The service\<close>

text \<open>
  The handlers return \<open>Inl\<close> the text of an error or \<open>Inr\<close> the response. Where a second call fails
  the text is that of the first call's result, which may be \<open>NoError\<close>.
\<close>

definition svc_ListBuckets :: "'s mgo_ops \<Rightarrow> string \<Rightarrow> ('s, string + Bucket list) prog" where
  "svc_ListBuckets ops i =
     call (db_ListBuckets ops i) (\<lambda>(err, buckets).
       ret (if s3e_Code err \<noteq> ERR_OK then Inl (Error_text err)
            else Inr (List.filter (\<lambda>b. \<not> bk_Deleted b) buckets)))"

definition svc_CreateBucket :: "'s mgo_ops \<Rightarrow> Bucket \<Rightarrow> ('s, string + string) prog" where
  "svc_CreateBucket ops b =
     call (db_GetBucketByName ops (bk_Name b)) (\<lambda>(err, bucket).
       if s3e_Code err \<noteq> ERR_OK \<and> s3e_Code err \<noteq> StatusNotFound then ret (Inl (Error_text err))
       else call (if s3e_Code err = StatusNotFound then db_CreateBucket ops b
                  else db_UpdateBucket ops (b\<lparr>bk_Deleted := False\<rparr>)) (\<lambda>err1.
              ret (if s3e_Code err1 \<noteq> ERR_OK then Inl (Error_text err)
                   else Inr ''Create bucket successfully.'')))"

definition svc_GetBucket :: "'s mgo_ops \<Rightarrow> string \<Rightarrow> ('s, string + Bucket) prog" where
  "svc_GetBucket ops name =
     call (db_GetBucketByName ops name) (\<lambda>(err, bucket).
       ret (if s3e_Code err \<noteq> ERR_OK then Inl (Error_text err) else Inr bucket))"

definition svc_DeleteBucket :: "'s mgo_ops \<Rightarrow> string \<Rightarrow> ('s, string + string) prog" where
  "svc_DeleteBucket ops name =
     call (db_GetBucketByName ops name) (\<lambda>(err, bucket).
       if s3e_Code err \<noteq> ERR_OK then ret (Inl (Error_text err))
       else call (db_UpdateBucket ops (bucket\<lparr>bk_Deleted := True\<rparr>)) (\<lambda>err1.
              ret (if s3e_Code err1 \<noteq> ERR_OK then Inl (Error_text err)
                   else Inr ''Delete bucket successfully.'')))"

definition svc_ListObjects :: "'s mgo_ops \<Rightarrow> string \<Rightarrow> ('s, string + Object list) prog" where
  "svc_ListObjects ops bucket =
     call (db_ListObjects ops bucket) (\<lambda>(err, objects).
       ret (if s3e_Code err \<noteq> ERR_OK then Inl (Error_text err)
            else Inr (List.filter (\<lambda>x. obj_InitFlag x \<noteq> ''0'' \<and> obj_IsDeleteMarker x \<noteq> ''1'') objects)))"

definition svc_CreateObject :: "'s mgo_ops \<Rightarrow> Object \<Rightarrow> ('s, string + string) prog" where
  "svc_CreateObject ops x =
     call (db_GetObject ops (obj_BucketName x) (obj_ObjectKey x)) (\<lambda>(err, object).
       if s3e_Code err \<noteq> ERR_OK \<and> s3e_Code err \<noteq> StatusNotFound then ret (Inl (Error_text err))
       else call (if s3e_Code err = StatusNotFound then db_CreateObject ops x
                  else db_UpdateObject ops x) (\<lambda>err1.
              ret (if s3e_Code err1 \<noteq> ERR_OK then Inl (Error_text err)
                   else Inr ''Create object successfully.'')))"

definition svc_UpdateObject :: "'s mgo_ops \<Rightarrow> Object \<Rightarrow> ('s, string + string) prog" where
  "svc_UpdateObject ops x =
     call (db_UpdateObject ops x) (\<lambda>err.
       ret (if s3e_Code err \<noteq> ERR_OK then Inl (Error_text err) else Inr ''update object successfully.''))"

definition svc_GetObject :: "'s mgo_ops \<Rightarrow> string \<Rightarrow> string \<Rightarrow> ('s, string + Object) prog" where
  "svc_GetObject ops bucket key =
     call (db_GetObject ops bucket key) (\<lambda>(err, object).
       ret (if s3e_Code err \<noteq> ERR_OK then Inl (Error_text err) else Inr object))"

definition svc_DeleteObject :: "'s mgo_ops \<Rightarrow> string \<Rightarrow> string \<Rightarrow> ('s, string + string) prog" where
  "svc_DeleteObject ops bucket key =
     call (db_GetObject ops bucket key) (\<lambda>(err, object).
       if s3e_Code err \<noteq> ERR_OK then ret (Inl (Error_text err))
       else call (db_UpdateObject ops (object\<lparr>obj_IsDeleteMarker := ''1''\<rparr>)) (\<lambda>err1.
              ret (if s3e_Code err1 \<noteq> ERR_OK then Inl (Error_text err)
                   else Inr ''Delete object successfully.'')))"

end
