(* ===== verification/Backend_Service.thy ===== *)
theory Backend_Service
  imports Dataflow_Model
begin

text \<open>
  The service of storage backends (\<open>backend/pkg\<close>): the struct and its stored form, the MongoDB
  repository, the handlers, and the listing of backend types with its pagination. A backend's
  stored form leaves out empty fields.
\<close>

section \<open>Backends\<close>

record Backend =
  be_Id :: string
  be_TenantId :: string
  be_UserId :: string
  be_Name :: string
  be_Type :: string
  be_Region :: string
  be_Endpoint :: string
  be_BucketName :: string
  be_Access :: string
  be_Security :: string

definition omit_empty :: "string \<Rightarrow> string \<Rightarrow> doc" where
  "omit_empty k v = (if v = [] then [] else [(k, BString v)])"

definition enc_Backend :: "Backend \<Rightarrow> doc" where
  "enc_Backend b = enc_id (be_Id b) @ omit_empty ''tenantId'' (be_TenantId b) @
     omit_empty ''userId'' (be_UserId b) @ omit_empty ''name'' (be_Name b) @ omit_empty ''type'' (be_Type b) @
     omit_empty ''region'' (be_Region b) @ omit_empty ''endpoint'' (be_Endpoint b) @
     omit_empty ''bucketName'' (be_BucketName b) @ omit_empty ''access'' (be_Access b) @
     omit_empty ''security'' (be_Security b)"

definition dec_Backend :: "doc \<Rightarrow> Backend" where
  "dec_Backend d = \<lparr>be_Id = get_id d ''_id'', be_TenantId = get_string d ''tenantId'',
     be_UserId = get_string d ''userId'', be_Name = get_string d ''name'', be_Type = get_string d ''type'',
     be_Region = get_string d ''region'', be_Endpoint = get_string d ''endpoint'',
     be_BucketName = get_string d ''bucketName'', be_Access = get_string d ''access'',
     be_Security = get_string d ''security''\<rparr>"

lemma lookup_omit_empty:
  "lookup (omit_empty k v @ d) k' = (if k' = k \<and> v \<noteq> [] then Some (BString v) else lookup d k')"
  "lookup (omit_empty k v) k' = (if k' = k \<and> v \<noteq> [] then Some (BString v) else None)"
  "lookup (enc_id i @ d) k' = (if k' = ''_id'' \<and> i \<noteq> [] then Some (BId i) else lookup d k')"
  by (auto simp: omit_empty_def enc_id_def)

lemma dec_enc_Backend: "dec_Backend (enc_Backend b) = b"
  by (simp add: dec_Backend_def enc_Backend_def get_defs lookup_omit_empty del: map_of_append)

section \<open>The repository\<close>

definition backendCollection :: string where "backendCollection = ''backends''"

definition backend_id_query :: "string \<Rightarrow> mquery" where
  "backend_id_query i = Match [(''_id'', BId i)]"

definition repo_CreateBackend :: "'s mgo_ops \<Rightarrow> Backend \<Rightarrow> ('s, mgo_err + Backend) prog" where
  "repo_CreateBackend ops backend =
     call (if be_Id backend = [] then liftS (op_NewObjectId ops) else ret (be_Id backend)) (\<lambda>i.
       let backend = backend\<lparr>be_Id := i\<rparr>
       in call (liftS (op_Insert ops backendCollection (enc_Backend backend))) (\<lambda>err.
            ret (case err of None \<Rightarrow> Inr backend | Some e \<Rightarrow> Inl e)))"

definition repo_DeleteBackend :: "'s mgo_ops \<Rightarrow> string \<Rightarrow> ('s, mgo_err option) prog" where
  "repo_DeleteBackend ops i =
     call (lift_go (ObjectIdHex i)) (\<lambda>oid.
       liftS (op_Remove ops backendCollection (backend_id_query oid)))"

definition repo_UpdateBackend :: "'s mgo_ops \<Rightarrow> Backend \<Rightarrow> ('s, mgo_err + Backend) prog" where
  "repo_UpdateBackend ops backend =
     call (liftS (op_Update ops backendCollection (backend_id_query (be_Id backend)) (enc_Backend backend))) (\<lambda>err.
       ret (case err of None \<Rightarrow> Inr backend | Some e \<Rightarrow> Inl e))"

definition repo_GetBackend :: "'s mgo_ops \<Rightarrow> string \<Rightarrow> ('s, mgo_err + Backend) prog" where
  "repo_GetBackend ops i =
     call (lift_go (ObjectIdHex i)) (\<lambda>oid.
       call (liftS (op_One ops backendCollection (backend_id_query oid))) (\<lambda>found.
         ret (case found of Inl e \<Rightarrow> Inl e | Inr d \<Rightarrow> Inr (dec_Backend d))))"

definition MinInt32 :: int where "MinInt32 = - 2147483648"

definition repo_ListBackend :: "'s mgo_ops \<Rightarrow> int \<Rightarrow> int \<Rightarrow> (string, string) gomap \<Rightarrow>
    ('s, mgo_err + Backend list) prog" where
  "repo_ListBackend ops limit offset query =
     (let limit = (if limit = 0 then MinInt32 else limit)
      in call (liftS (op_All ops backendCollection (Match (map (\<lambda>(k, v). (k, BString v)) query)) offset limit)) (\<lambda>found.
           ret (case found of Inl e \<Rightarrow> Inl e | Inr ds \<Rightarrow> Inr (map dec_Backend ds))))"

section \<open>The handlers\<close>

text \<open>
  \<open>pb.BackendDetail\<close> has the fields of \<open>Backend\<close>; a request without a backend is a nil pointer.
  Errors are those of the driver or a text.
\<close>

definition svc_CreateBackend :: "'s mgo_ops \<Rightarrow> Backend option \<Rightarrow> ('s, df_err + Backend) prog" where
  "svc_CreateBackend ops inBackend =
     (case inBackend of
        None \<Rightarrow> panic NilDereference
      | Some b \<Rightarrow>
          call (repo_CreateBackend ops (b\<lparr>be_Id := []\<rparr>)) (\<lambda>r.
            ret (case r of Inl e \<Rightarrow> Inl (DriverError e) | Inr res \<Rightarrow> Inr res)))"

definition svc_GetBackend :: "'s mgo_ops \<Rightarrow> string \<Rightarrow> ('s, df_err + Backend) prog" where
  "svc_GetBackend ops i =
     call (repo_GetBackend ops i) (\<lambda>r.
       ret (case r of Inl e \<Rightarrow> Inl (DriverError e) | Inr res \<Rightarrow> Inr res))"

definition svc_ListBackend :: "'s mgo_ops \<Rightarrow> int \<Rightarrow> int \<Rightarrow> (string, string) gomap \<Rightarrow>
    ('s, df_err + (Backend list \<times> int)) prog" where
  "svc_ListBackend ops Limit Offset Filter =
     (if Limit < 0 \<or> Offset < 0 then ret (Inl (OtherError ''Invalid pagination parameter''))
      else call (repo_ListBackend ops Limit Offset Filter) (\<lambda>r.
        ret (case r of
               Inl e \<Rightarrow> Inl (DriverError e)
             | Inr res \<Rightarrow> Inr (res, i32 (Offset + i32 (int (length res)))))))"

definition svc_UpdateBackend :: "'s mgo_ops \<Rightarrow> string \<Rightarrow> string \<Rightarrow> string \<Rightarrow> ('s, df_err + Backend) prog" where
  "svc_UpdateBackend ops i Access Security =
     call (repo_GetBackend ops i) (\<lambda>r.
       case r of
         Inl e \<Rightarrow> ret (Inl (DriverError e))
       | Inr backend \<Rightarrow>
           call (repo_UpdateBackend ops (backend\<lparr>be_Access := Access, be_Security := Security\<rparr>)) (\<lambda>r.
             ret (case r of Inl e \<Rightarrow> Inl (DriverError e) | Inr res \<Rightarrow> Inr res)))"

definition svc_DeleteBackend :: "'s mgo_ops \<Rightarrow> string \<Rightarrow> ('s, df_err + unit) prog" where
  "svc_DeleteBackend ops i =
     call (repo_DeleteBackend ops i) (\<lambda>err. ret (case err of Some e \<Rightarrow> Inl (DriverError e) | None \<Rightarrow> Inr ()))"

section \<open>Backend types\<close>

definition allTypes :: "(string \<times> string) list" where
  "allTypes =
     [(STOR_TYPE_AWS_S3, ''AWS Simple Cloud Storage Service(S3)''),
      (STOR_TYPE_HW_OBS, ''Huawei Object Storage Service(OBS)''),
      (STOR_TYPE_AZURE_BLOB, ''Azure Blob Storage''),
      (STOR_TYPE_CEPH_S3, ''Ceph Object Storage''),
      (STOR_TYPE_HW_FUSIONSTORAGE, ''Huawei Fusionstorage Object Storage'')]"

text \<open>A slice \<open>xs[start:end]\<close>, which panics unless \<open>0 \<le> start \<le> end \<le> len(xs)\<close>.\<close>

definition go_slice :: "'a list \<Rightarrow> int \<Rightarrow> int \<Rightarrow> 'a list go" where
  "go_slice xs start end =
     (if 0 \<le> start \<and> start \<le> end \<and> end \<le> int (length xs)
      then Return (take (nat (end - start)) (drop (nat start) xs)) else Panic SliceBounds)"

definition svc_ListType :: "int \<Rightarrow> int \<Rightarrow> (string, string) gomap \<Rightarrow>
    (df_err + ((string \<times> string) list \<times> int)) go" where
  "svc_ListType Limit Offset Filter =
     (let types = (case lookup Filter ''name'' of
                     Some name \<Rightarrow> List.filter (\<lambda>t. fst t = name) allTypes
                   | None \<Rightarrow> allTypes)
      in if Offset > int (length types) then Return (Inl (OtherError ''offset exceeds the max type length''))
         else let start = Offset;
                  end = start + Limit;
                  end = (if end > int (length types) then int (length types) else end)
              in go_map (\<lambda>page. Inr (page, i32 (Offset + i32 (int (length page)))))
                   (go_slice types start end))"

lemma length_allTypes: "length allTypes = 5"
  by (simp add: allTypes_def)

lemma matching_types: "length (List.filter (\<lambda>t. P t) allTypes) \<le> 5"
  using length_filter_le [of P allTypes] by (simp add: length_allTypes)

definition types_named :: "(string, string) gomap \<Rightarrow> (string \<times> string) list" where
  "types_named Filter = List.filter (\<lambda>t. case lookup Filter ''name'' of Some n \<Rightarrow> fst t = n | None \<Rightarrow> True) allTypes"

lemma types_named: "types_named Filter = (case lookup Filter ''name'' of
    Some name \<Rightarrow> List.filter (\<lambda>t. fst t = name) allTypes | None \<Rightarrow> allTypes)"
  by (simp add: types_named_def split: option.splits)

lemma length_types_named: "length (types_named Filter) \<le> 5"
  unfolding types_named_def by (rule matching_types)

text \<open>
  The listing of types: an offset behind the types is refused, a negative offset or limit
  panics, and otherwise the page is the \<open>Limit\<close> types after the first \<open>Offset\<close> (none for a limit of
  0), with the offset of the next page.
\<close>

theorem ListType_pages:
  "svc_ListType Limit Offset Filter =
     (let types = types_named Filter
      in if Offset > int (length types) then Return (Inl (OtherError ''offset exceeds the max type length''))
         else if Offset < 0 \<or> Limit < 0 then Panic SliceBounds
         else let page = take (nat Limit) (drop (nat Offset) types)
              in Return (Inr (page, Offset + int (length page))))"
proof -
  let ?types = "types_named Filter"
  consider "Offset > int (length ?types)" | "Offset \<le> int (length ?types)" "Offset < 0 \<or> Limit < 0"
    | "Offset \<le> int (length ?types)" "0 \<le> Offset" "0 \<le> Limit" by linarith
  then show ?thesis
  proof cases
    case 1
    then show ?thesis by (simp add: svc_ListType_def Let_def flip: types_named)
  next
    case 2
    then show ?thesis by (auto simp: svc_ListType_def go_slice_def Let_def simp flip: types_named)
  next
    case 3
    define page where "page = take (nat Limit) (drop (nat Offset) ?types)"
    have slice: "go_slice ?types Offset (if Offset + Limit > int (length ?types) then int (length ?types) else Offset + Limit)
        = Return page"
      using 3 by (auto simp: go_slice_def page_def nat_diff_distrib nat_add_distrib)
    have "int (length page) \<le> 5" using length_types_named [of Filter] by (simp add: page_def)
    moreover have "Offset \<le> 5" using 3 length_types_named [of Filter] by linarith
    ultimately have "i32 (Offset + i32 (int (length page))) = Offset + int (length page)"
      using 3 by (simp add: i32_id)
    with 3 slice show ?thesis
      by (simp add: svc_ListType_def Let_def page_def flip: types_named)
  qed
qed

end
