(* ===== verification/Datamover_Move.thy ===== *)
theory Datamover_Move
  imports Mover_S3 Mover_Obs Mover_Blob Mover_Ceph S3_Metadata Backend_Service
begin

text \<open>
  Moving one object (\<open>datamover/pkg/drivers/https/migration.go\<close>, first half): the locations of
  connectors, the choice of a worker by storage type, the direct and the multipart copy, the
  deletion of the source, and the listing of the objects to move. The world \<open>'s\<close> is shared by the
  four clouds, the database and the metadata service; \<open>dm_env\<close> bundles their operations with the
  environment variables and the regular expressions of Go's library.
\<close>

section \<open>The environment\<close>

record 's s3_rpc =
  rpc_GetBucket :: "string \<Rightarrow> ('s, string + Bucket) prog"
  rpc_ListObjects :: "string \<Rightarrow> ('s, string + Object list) prog"
  rpc_CreateObject :: "Object \<Rightarrow> ('s, string + string) prog"
  rpc_DeleteObject :: "string \<Rightarrow> string \<Rightarrow> ('s, string + string) prog"

record 's dm_env =
  dm_aws :: "'s aws_ops"
  dm_obs :: "'s obs_ops"
  dm_az :: "'s az_ops"
  dm_ce :: "'s ce_ops"
  dm_db :: "'s mgo_ops"
  dm_s3 :: "'s s3_rpc"
  dm_Getenv :: "string \<Rightarrow> string"
  dm_MatchString :: "string \<Rightarrow> string \<Rightarrow> bool"
  dm_TimeText :: "int \<Rightarrow> string"
  dm_pages :: nat

section \<open>Locations\<close>

definition GetBackendByName :: "'s mgo_ops \<Rightarrow> string \<Rightarrow> ('s, mgo_err + Backend) prog" where
  "GetBackendByName ops name =
     call (liftS (op_One ops backendCollection (Match [(''name'', BString name)]))) (\<lambda>found.
       ret (case found of Inl err \<Rightarrow> Inl err | Inr d \<Rightarrow> Inr (dec_Backend d)))"

definition getOsdsLocation :: "'s dm_env \<Rightarrow> string \<Rightarrow> string \<Rightarrow> ('s, string + LocationInfo) prog" where
  "getOsdsLocation env virtBkname backendName =
     (if backendName = [] then ret (Inl ''failed'')
      else call (GetBackendByName (dm_db env) backendName) (\<lambda>r.
        ret (case r of
               Inl err \<Rightarrow> Inl ''failed''
             | Inr bk \<Rightarrow> Inr \<lparr>lo_StorType = be_Type bk, lo_Region = be_Region bk, lo_EndPoint = be_Endpoint bk,
                 lo_BucketName = be_BucketName bk, lo_VirBucket = virtBkname, lo_Access = be_Access bk,
                 lo_Security = be_Security bk, lo_BakendName = backendName\<rparr>)))"

definition set_location :: "LocationInfo \<Rightarrow> KeyValue \<Rightarrow> LocationInfo" where
  "set_location loca cfg =
     (if kv_Key cfg = ''region'' then loca\<lparr>lo_Region := kv_Value cfg\<rparr>
      else if kv_Key cfg = ''endpoint'' then loca\<lparr>lo_EndPoint := kv_Value cfg\<rparr>
      else if kv_Key cfg = ''bucketname'' then loca\<lparr>lo_BucketName := kv_Value cfg\<rparr>
      else if kv_Key cfg = ''access'' then loca\<lparr>lo_Access := kv_Value cfg\<rparr>
      else if kv_Key cfg = ''security'' then loca\<lparr>lo_Security := kv_Value cfg\<rparr>
      else loca)"

text \<open>The list of the second case has no \<open>STOR_TYPE_HW_FUSIONCLOUD\<close>.\<close>

definition getConnLocation :: "'s dm_env \<Rightarrow> ConnMsg \<Rightarrow> ('s, string + LocationInfo) prog" where
  "getConnLocation env conn =
     (if cm_Type conn = STOR_TYPE_OPENSDS then
        call (rpc_GetBucket (dm_s3 env) (cm_BucketName conn)) (\<lambda>r.
          case r of
            Inl err \<Rightarrow> ret (Inl ''get bucket information failed'')
          | Inr rspbk \<Rightarrow> getOsdsLocation env (cm_BucketName conn) (bk_Backend rspbk))
      else if cm_Type conn \<in> {STOR_TYPE_AWS_S3, STOR_TYPE_HW_OBS, STOR_TYPE_HW_FUSIONSTORAGE,
          STOR_TYPE_AZURE_BLOB, STOR_TYPE_CEPH_S3} then
        ret (Inr (foldl set_location (zero_Location\<lparr>lo_StorType := cm_Type conn\<rparr>) (cm_ConnConfig conn)))
      else ret (Inl ''unsupport type''))"

section \<open>Workers\<close>

text \<open>The interface \<open>MoveWorker\<close>: which mover serves a storage type, and its methods by case.\<close>

datatype worker = WObs | WS3 | WBlob | WCeph

definition worker_kind :: "string \<Rightarrow> worker option" where
  "worker_kind storType =
     (if storType \<in> {STOR_TYPE_HW_OBS, STOR_TYPE_HW_FUSIONSTORAGE, STOR_TYPE_HW_FUSIONCLOUD} then Some WObs
      else if storType = STOR_TYPE_AWS_S3 then Some WS3
      else if storType = STOR_TYPE_AZURE_BLOB then Some WBlob
      else if storType = STOR_TYPE_CEPH_S3 then Some WCeph
      else None)"

datatype any_mover = MkS3 S3Mover | MkObs ObsMover | MkBlob BlobMover | MkCeph CephS3Mover

definition wrap_mover :: "('m \<Rightarrow> any_mover) \<Rightarrow> ('s, (string + unit) \<times> 'm) prog \<Rightarrow>
    ('s, (string + unit) \<times> any_mover) prog" where
  "wrap_mover mk m = call m (\<lambda>(r, mover). ret (r, mk mover))"

definition any_DownloadObj :: "'s dm_env \<Rightarrow> worker \<Rightarrow> string \<Rightarrow> LocationInfo \<Rightarrow> byte list \<Rightarrow>
    ('s, (string + int) \<times> byte list) prog" where
  "any_DownloadObj env k objKey srcLoca buf =
     (case k of
        WObs \<Rightarrow> Obs_DownloadObj (dm_obs env) objKey srcLoca buf
      | WS3 \<Rightarrow> S3_DownloadObj (dm_aws env) objKey srcLoca buf
      | WBlob \<Rightarrow> Blob_DownloadObj (dm_az env) objKey srcLoca buf
      | WCeph \<Rightarrow> Ceph_DownloadObj (dm_ce env) objKey srcLoca buf)"

definition any_UploadObj :: "'s dm_env \<Rightarrow> worker \<Rightarrow> string \<Rightarrow> LocationInfo \<Rightarrow> byte list \<Rightarrow>
    ('s, string + unit) prog" where
  "any_UploadObj env k objKey destLoca buf =
     (case k of
        WObs \<Rightarrow> Obs_UploadObj (dm_obs env) objKey destLoca buf
      | WS3 \<Rightarrow> S3_UploadObj (dm_aws env) objKey destLoca buf
      | WBlob \<Rightarrow> Blob_UploadObj (dm_az env) objKey destLoca buf
      | WCeph \<Rightarrow> Ceph_UploadObj (dm_ce env) objKey destLoca buf)"

definition any_DeleteObj :: "'s dm_env \<Rightarrow> worker \<Rightarrow> string \<Rightarrow> LocationInfo \<Rightarrow> ('s, string + unit) prog" where
  "any_DeleteObj env k objKey loca =
     (case k of
        WObs \<Rightarrow> Obs_DeleteObj (dm_obs env) objKey loca
      | WS3 \<Rightarrow> S3_DeleteObj (dm_aws env) objKey loca
      | WBlob \<Rightarrow> Blob_DeleteObj (dm_az env) objKey loca
      | WCeph \<Rightarrow> Ceph_DeleteObj (dm_ce env) objKey loca)"

definition any_DownloadRange :: "'s dm_env \<Rightarrow> any_mover \<Rightarrow> string \<Rightarrow> LocationInfo \<Rightarrow> byte list \<Rightarrow> int \<Rightarrow> int \<Rightarrow>
    ('s, (string + int) \<times> byte list) prog" where
  "any_DownloadRange env m objKey srcLoca buf start end =
     (case m of
        MkS3 mover \<Rightarrow> S3_DownloadRange (dm_aws env) mover objKey srcLoca buf start end
      | MkObs mover \<Rightarrow> Obs_DownloadRange (dm_obs env) mover objKey srcLoca buf start end
      | MkBlob mover \<Rightarrow> Blob_DownloadRange (dm_az env) mover objKey srcLoca buf start end
      | MkCeph mover \<Rightarrow> Ceph_DownloadRange (dm_ce env) mover objKey srcLoca buf start end)"

definition any_UploadPart :: "'s dm_env \<Rightarrow> any_mover \<Rightarrow> string \<Rightarrow> LocationInfo \<Rightarrow> int \<Rightarrow> byte list \<Rightarrow> int \<Rightarrow> int \<Rightarrow>
    ('s, (string + unit) \<times> any_mover) prog" where
  "any_UploadPart env m objKey destLoca upBytes buf partNumber offset =
     (case m of
        MkS3 mover \<Rightarrow> wrap_mover MkS3 (S3_UploadPart (dm_aws env) mover objKey destLoca upBytes buf partNumber offset)
      | MkObs mover \<Rightarrow> wrap_mover MkObs (Obs_UploadPart (dm_obs env) mover objKey destLoca upBytes buf partNumber offset)
      | MkBlob mover \<Rightarrow> wrap_mover MkBlob (Blob_UploadPart (dm_az env) mover objKey destLoca upBytes buf partNumber offset)
      | MkCeph mover \<Rightarrow> wrap_mover MkCeph (Ceph_UploadPart (dm_ce env) mover objKey destLoca upBytes buf partNumber offset))"

definition any_AbortMultipartUpload :: "'s dm_env \<Rightarrow> any_mover \<Rightarrow> string \<Rightarrow> LocationInfo \<Rightarrow> ('s, string + unit) prog" where
  "any_AbortMultipartUpload env m objKey destLoca =
     (case m of
        MkS3 mover \<Rightarrow> S3_AbortMultipartUpload (dm_aws env) mover objKey destLoca
      | MkObs mover \<Rightarrow> Obs_AbortMultipartUpload (dm_obs env) mover objKey destLoca
      | MkBlob mover \<Rightarrow> Blob_AbortMultipartUpload mover objKey destLoca
      | MkCeph mover \<Rightarrow> Ceph_AbortMultipartUpload (dm_ce env) mover objKey destLoca)"

definition any_CompleteMultipartUpload :: "'s dm_env \<Rightarrow> any_mover \<Rightarrow> string \<Rightarrow> LocationInfo \<Rightarrow> ('s, string + unit) prog" where
  "any_CompleteMultipartUpload env m objKey destLoca =
     (case m of
        MkS3 mover \<Rightarrow> S3_CompleteMultipartUpload (dm_aws env) mover objKey destLoca
      | MkObs mover \<Rightarrow> Obs_CompleteMultipartUpload (dm_obs env) mover objKey destLoca
      | MkBlob mover \<Rightarrow> Blob_CompleteMultipartUpload (dm_az env) mover objKey destLoca
      | MkCeph mover \<Rightarrow> Ceph_CompleteMultipartUpload (dm_ce env) mover objKey destLoca)"

text \<open>A fresh mover is returned also with an error; an unsupported type gives a nil one.\<close>

definition multiPartDownloadInit :: "'s dm_env \<Rightarrow> LocationInfo \<Rightarrow> ('s, (string + unit) \<times> any_mover option) prog" where
  "multiPartDownloadInit env srcLoca =
     (case worker_kind (lo_StorType srcLoca) of
        None \<Rightarrow> ret (Inl ''Unsupport storage type.'', None)
      | Some k \<Rightarrow>
          call (case k of
              WS3 \<Rightarrow> wrap_mover MkS3 (S3_MultiPartDownloadInit (dm_aws env) new_S3Mover srcLoca)
            | WObs \<Rightarrow> wrap_mover MkObs (Obs_MultiPartDownloadInit (dm_obs env) new_ObsMover srcLoca)
            | WBlob \<Rightarrow> wrap_mover MkBlob (Blob_MultiPartDownloadInit (dm_az env) new_BlobMover srcLoca)
            | WCeph \<Rightarrow> wrap_mover MkCeph (Ceph_MultiPartDownloadInit new_CephS3Mover srcLoca))
          (\<lambda>(r, m). ret (r, Some m)))"

definition multiPartUploadInit :: "'s dm_env \<Rightarrow> string \<Rightarrow> LocationInfo \<Rightarrow> ('s, (string + unit) \<times> any_mover option) prog" where
  "multiPartUploadInit env objKey destLoca =
     (case worker_kind (lo_StorType destLoca) of
        None \<Rightarrow> ret (Inl ''Unsupport storage type.'', None)
      | Some k \<Rightarrow>
          call (case k of
              WS3 \<Rightarrow> wrap_mover MkS3 (S3_MultiPartUploadInit (dm_aws env) new_S3Mover objKey destLoca)
            | WObs \<Rightarrow> wrap_mover MkObs (Obs_MultiPartUploadInit (dm_obs env) new_ObsMover objKey destLoca)
            | WBlob \<Rightarrow> wrap_mover MkBlob (Blob_MultiPartUploadInit (dm_az env) new_BlobMover objKey destLoca)
            | WCeph \<Rightarrow> wrap_mover MkCeph (Ceph_MultiPartUploadInit (dm_ce env) new_CephS3Mover objKey destLoca))
          (\<lambda>(r, m). ret (r, Some m)))"

definition abortMultipartUpload :: "'s dm_env \<Rightarrow> string \<Rightarrow> LocationInfo \<Rightarrow> any_mover option \<Rightarrow> ('s, string + unit) prog" where
  "abortMultipartUpload env objKey destLoca mover =
     (if worker_kind (lo_StorType destLoca) = None then ret (Inl ''Unsupport storage type.'')
      else deref mover (\<lambda>m. any_AbortMultipartUpload env m objKey destLoca))"

definition completeMultipartUpload :: "'s dm_env \<Rightarrow> string \<Rightarrow> LocationInfo \<Rightarrow> any_mover option \<Rightarrow> ('s, string + unit) prog" where
  "completeMultipartUpload env objKey destLoca mover =
     (if worker_kind (lo_StorType destLoca) = None then ret (Inl ''Unsupport storage type.'')
      else deref mover (\<lambda>m. any_CompleteMultipartUpload env m objKey destLoca))"

section \<open>Copying\<close>

definition in_bucket :: "string \<Rightarrow> string \<Rightarrow> string" where
  "in_bucket virBucket key = (if virBucket \<noteq> [] then virBucket @ ''/'' @ key else key)"

text \<open>
  The direct copy. The key for the upload is chosen by the source's virtual bucket, and how much was
  read is not compared with the size of the object.
\<close>

definition moveObj :: "'s dm_env \<Rightarrow> Object \<Rightarrow> LocationInfo \<Rightarrow> LocationInfo \<Rightarrow> ('s, string + unit) prog" where
  "moveObj env obj srcLoca destLoca =
     (if obj_Size obj \<le> 0 then ret (Inr ())
      else
        let buf = new_buf (obj_Size obj);
            downloadObjKey = in_bucket (lo_VirBucket srcLoca) (obj_ObjectKey obj)
        in call (case worker_kind (lo_StorType srcLoca) of
                   None \<Rightarrow> ret (Inl ''Not support source backend type.'', buf)
                 | Some k \<Rightarrow> any_DownloadObj env k downloadObjKey srcLoca buf) (\<lambda>(r, buf).
             case r of
               Inl err \<Rightarrow> ret (Inl err)
             | Inr sz \<Rightarrow>
                 (let uploadObjKey = (if lo_VirBucket srcLoca \<noteq> []
                        then lo_VirBucket destLoca @ ''/'' @ obj_ObjectKey obj else obj_ObjectKey obj)
                  in case worker_kind (lo_StorType destLoca) of
                       None \<Rightarrow> ret (Inl ''Not support destination backend type.'')
                     | Some k \<Rightarrow> any_UploadObj env k uploadObjKey destLoca buf)))"

definition part_count :: "int \<Rightarrow> int \<Rightarrow> int" where
  "part_count sz PART_SIZE =
     go_div sz PART_SIZE + (if go_mod sz PART_SIZE \<noteq> 0 then 1 else 0)"

text \<open>
  One part: the movers are made at the first one, the buffer is reused until the last one, which
  gets a buffer of its own size. The result has the movers and the buffer for the next part.
\<close>

definition move_part :: "'s dm_env \<Rightarrow> Object \<Rightarrow> LocationInfo \<Rightarrow> LocationInfo \<Rightarrow> string \<Rightarrow> string \<Rightarrow>
    int \<Rightarrow> int \<Rightarrow> int \<Rightarrow> any_mover option \<Rightarrow> any_mover option \<Rightarrow> byte list \<Rightarrow>
    ('s, string + (any_mover \<times> any_mover \<times> byte list)) prog" where
  "move_part env obj srcLoca destLoca downloadObjKey uploadObjKey partNumber offset currPartSize
     downloadMover uploadMover buf =
     call (if partNumber = 1 then multiPartDownloadInit env srcLoca else ret (Inr (), downloadMover)) (\<lambda>(r, downloadMover).
       case r of
         Inl err \<Rightarrow> ret (Inl err)
       | Inr _ \<Rightarrow>
           deref downloadMover (\<lambda>dm.
           call (any_DownloadRange env dm downloadObjKey srcLoca buf offset (offset + currPartSize - 1)) (\<lambda>(r, buf).
             case r of
               Inl err \<Rightarrow> ret (Inl ''Download failed.'')
             | Inr readSize \<Rightarrow>
                 (if readSize \<noteq> currPartSize then ret (Inl ''Internal error'')
                  else call (if partNumber = 1 then multiPartUploadInit env uploadObjKey destLoca
                             else ret (Inr (), uploadMover)) (\<lambda>(r, uploadMover).
                    case r of
                      Inl err \<Rightarrow> ret (Inl err)
                    | Inr _ \<Rightarrow>
                        deref uploadMover (\<lambda>um.
                        call (any_UploadPart env um uploadObjKey destLoca currPartSize buf partNumber offset) (\<lambda>(r, um).
                          case r of
                            Inl err1 \<Rightarrow>
                              call (abortMultipartUpload env (obj_ObjectKey obj) destLoca (Some um)) (\<lambda>_.
                                ret (Inl ''S3 multipart upload failed.''))
                          | Inr _ \<Rightarrow> ret (Inr (dm, um, buf)))))))))"

text \<open>The loop from part \<open>i\<close> on, with \<open>left\<close> parts to go.\<close>

fun move_parts :: "nat \<Rightarrow> 's dm_env \<Rightarrow> int \<Rightarrow> Object \<Rightarrow> LocationInfo \<Rightarrow> LocationInfo \<Rightarrow> string \<Rightarrow> string \<Rightarrow>
    int \<Rightarrow> any_mover option \<Rightarrow> any_mover option \<Rightarrow> byte list \<Rightarrow> ('s, string + any_mover option) prog" where
  "move_parts 0 env PART_SIZE obj srcLoca destLoca downloadObjKey uploadObjKey i downloadMover uploadMover buf =
     ret (Inr uploadMover)"
| "move_parts (Suc left) env PART_SIZE obj srcLoca destLoca downloadObjKey uploadObjKey i downloadMover uploadMover buf =
     (let partNumber = i + 1;
          offset = i * PART_SIZE;
          currPartSize = (if left = 0 then obj_Size obj - offset else PART_SIZE);
          buf = (if left = 0 then new_buf currPartSize else buf)
      in call (move_part env obj srcLoca destLoca downloadObjKey uploadObjKey partNumber offset currPartSize
                downloadMover uploadMover buf) (\<lambda>r.
           case r of
             Inl err \<Rightarrow> ret (Inl err)
           | Inr (dm, um, buf) \<Rightarrow>
               move_parts left env PART_SIZE obj srcLoca destLoca downloadObjKey uploadObjKey
                 (i + 1) (Some dm) (Some um) buf))"

declare move_parts.simps [simp del]

definition multipartMoveObj :: "'s dm_env \<Rightarrow> int \<Rightarrow> Object \<Rightarrow> LocationInfo \<Rightarrow> LocationInfo \<Rightarrow> ('s, string + unit) prog" where
  "multipartMoveObj env PART_SIZE obj srcLoca destLoca =
     (let downloadObjKey = in_bucket (lo_VirBucket srcLoca) (obj_ObjectKey obj);
          uploadObjKey = in_bucket (lo_VirBucket destLoca) (obj_ObjectKey obj)
      in call (move_parts (nat (part_count (obj_Size obj) PART_SIZE)) env PART_SIZE obj srcLoca destLoca
                downloadObjKey uploadObjKey 0 None None (new_buf PART_SIZE)) (\<lambda>r.
           case r of
             Inl err \<Rightarrow> ret (Inl err)
           | Inr uploadMover \<Rightarrow>
               call (completeMultipartUpload env uploadObjKey destLoca uploadMover) (\<lambda>r.
                 case r of
                   Inl err \<Rightarrow> call (abortMultipartUpload env (obj_ObjectKey obj) destLoca uploadMover) (\<lambda>_. ret (Inl err))
                 | Inr _ \<Rightarrow> ret (Inr ()))))"

definition deleteObj :: "'s dm_env \<Rightarrow> Object \<Rightarrow> LocationInfo \<Rightarrow> ('s, string + unit) prog" where
  "deleteObj env obj loca =
     call (case worker_kind (lo_StorType loca) of
             None \<Rightarrow> ret (Inl ''Unspport storage type.'')
           | Some k \<Rightarrow> any_DeleteObj env k (in_bucket (lo_VirBucket loca) (obj_ObjectKey obj)) loca) (\<lambda>r.
       case r of
         Inl err \<Rightarrow> ret (Inl err)
       | Inr _ \<Rightarrow>
           (if lo_VirBucket loca \<noteq> [] then
              call (rpc_DeleteObject (dm_s3 env) (lo_VirBucket loca) (obj_ObjectKey obj)) (\<lambda>r.
                ret (case r of Inl err \<Rightarrow> Inl err | Inr _ \<Rightarrow> Inr ()))
            else ret (Inr ())))"

section \<open>One move\<close>

type_synonym loca_map = "(string, LocationInfo) gomap"

definition refreshSrcLocation :: "'s dm_env \<Rightarrow> Object \<Rightarrow> LocationInfo \<Rightarrow> loca_map \<Rightarrow>
    ('s, (string + LocationInfo) \<times> loca_map) prog" where
  "refreshSrcLocation env obj srcLoca locMap =
     (if obj_Backend obj \<noteq> lo_BakendName srcLoca \<and> obj_Backend obj \<noteq> [] then
        call (case lookup locMap (obj_Backend obj) of
                Some newLoc \<Rightarrow> ret (Inr newLoc)
              | None \<Rightarrow> getOsdsLocation env (obj_BucketName obj) (obj_Backend obj)) (\<lambda>r.
          ret (case r of
                 Inl err \<Rightarrow> (Inl err, locMap)
               | Inr newLoc \<Rightarrow> (Inr newLoc, insert_key (obj_Backend obj) newLoc locMap)))
      else ret (Inr srcLoca, locMap))"

text \<open>The package variable \<open>PART_SIZE\<close>, which every move sets again from the environment.\<close>

definition set_PART_SIZE :: "string \<Rightarrow> int \<Rightarrow> int" where
  "set_PART_SIZE text PART_SIZE =
     (case Atoi text of
        None \<Rightarrow> PART_SIZE
      | Some n \<Rightarrow> (if 5 \<le> n \<and> n \<le> 100 then n * 1024 * 1024 else PART_SIZE))"

text \<open>
  A move sends the object's size to the channel \<open>capa\<close>, or \<open>-1\<close> when it failed; the result carries
  what is sent and the two shared variables.
\<close>

definition move :: "'s dm_env \<Rightarrow> LocationInfo \<Rightarrow> LocationInfo \<Rightarrow> bool \<Rightarrow> Object \<Rightarrow> loca_map \<times> int \<Rightarrow>
    ('s, int \<times> (loca_map \<times> int)) prog" where
  "move env srcLoca destLoca remainSource obj shared =
     (case shared of (locaMap, PART_SIZE) \<Rightarrow>
      call (refreshSrcLocation env obj srcLoca locaMap) (\<lambda>(r, locaMap).
      call (case r of
              Inl err \<Rightarrow> ret (Inl err, PART_SIZE)
            | Inr newSrcLoca \<Rightarrow>
                (let PART_SIZE = set_PART_SIZE (dm_Getenv env ''PARTSIZE'') PART_SIZE
                 in call (if obj_Size obj \<le> PART_SIZE then moveObj env obj newSrcLoca destLoca
                          else multipartMoveObj env PART_SIZE obj newSrcLoca destLoca) (\<lambda>r.
                      ret (case r of Inl err \<Rightarrow> Inl err | Inr _ \<Rightarrow> Inr newSrcLoca, PART_SIZE)))) (\<lambda>(r, PART_SIZE).
      case r of
        Inl err \<Rightarrow> ret (- 1, (locaMap, PART_SIZE))
      | Inr newSrcLoca \<Rightarrow>
          call (if lo_VirBucket destLoca \<noteq> [] then
                  call (liftS (op_Now (dm_db env))) (\<lambda>now.
                    call (rpc_CreateObject (dm_s3 env) (obj\<lparr>obj_BucketName := lo_VirBucket destLoca,
                        obj_Backend := lo_BakendName destLoca, obj_LastModified := dm_TimeText env now\<rparr>)) (\<lambda>_. ret ()))
                else ret ()) (\<lambda>_.
          call (if \<not> remainSource then call (deleteObj env obj newSrcLoca) (\<lambda>_. ret ()) else ret ()) (\<lambda>_.
            ret (obj_Size obj, (locaMap, PART_SIZE)))))))"

section \<open>The objects to move\<close>

text \<open>
  The response of a failed listing is nil, and its length is taken before the error is looked at; a
  nil filter is dereferenced for the pattern.
\<close>

definition getOsdsS3Objs :: "'s dm_env \<Rightarrow> ConnMsg \<Rightarrow> string option \<Rightarrow> ('s, string + Object list) prog" where
  "getOsdsS3Objs env conn filt =
     call (rpc_ListObjects (dm_s3 env) (cm_BucketName conn)) (\<lambda>r.
       case r of
         Inl err \<Rightarrow> panic NilDereference
       | Inr objs \<Rightarrow>
           deref filt (\<lambda>Prefix.
             ret (Inr (List.filter (\<lambda>x. Prefix \<noteq> [] \<longrightarrow> dm_MatchString env (''^'' @ Prefix) (obj_ObjectKey x)) objs))))"

definition listed_object :: "string \<times> int \<Rightarrow> Object" where
  "listed_object x = zero_Object\<lparr>obj_Size := snd x, obj_ObjectKey := fst x, obj_Backend := []\<rparr>"

definition listed :: "('s, string + (string \<times> int) list) prog \<Rightarrow> ('s, string + Object list) prog" where
  "listed m = call m (\<lambda>r. ret (case r of Inl err \<Rightarrow> Inl err | Inr objs \<Rightarrow> Inr (map listed_object objs)))"

definition getAwsS3Objs :: "'s dm_env \<Rightarrow> string option \<Rightarrow> LocationInfo \<Rightarrow> ('s, string + Object list) prog" where
  "getAwsS3Objs env filt loca = listed (S3_ListObjs (dm_pages env) (dm_aws env) loca filt)"

definition getHwObjs :: "'s dm_env \<Rightarrow> string option \<Rightarrow> LocationInfo \<Rightarrow> ('s, string + Object list) prog" where
  "getHwObjs env filt loca = listed (Obs_ListObjs (dm_pages env) (dm_obs env) loca filt)"

definition getAzureBlobs :: "'s dm_env \<Rightarrow> string option \<Rightarrow> LocationInfo \<Rightarrow> ('s, string + Object list) prog" where
  "getAzureBlobs env filt loca = listed (Blob_ListObjs (dm_pages env) (dm_az env) loca filt)"

definition getCephS3Objs :: "'s dm_env \<Rightarrow> string option \<Rightarrow> LocationInfo \<Rightarrow> ('s, string + Object list) prog" where
  "getCephS3Objs env filt loca = listed (Ceph_ListObjs (dm_ce env) loca filt)"

definition getSourceObjs :: "'s dm_env \<Rightarrow> ConnMsg \<Rightarrow> string option \<Rightarrow> LocationInfo \<Rightarrow> ('s, string + Object list) prog" where
  "getSourceObjs env conn filt defaultSrcLoca =
     (if cm_Type conn = STOR_TYPE_OPENSDS then getOsdsS3Objs env conn filt
      else case worker_kind (cm_Type conn) of
             Some WS3 \<Rightarrow> getAwsS3Objs env filt defaultSrcLoca
           | Some WObs \<Rightarrow> getHwObjs env filt defaultSrcLoca
           | Some WBlob \<Rightarrow> getAzureBlobs env filt defaultSrcLoca
           | Some WCeph \<Rightarrow> getCephS3Objs env filt defaultSrcLoca
           | None \<Rightarrow> ret (Inl ''unsupport storage type''))"

end
