(* ===== verification/Datamover_Status.thy ===== *)
theory Datamover_Status
  imports Datamover_Move
begin

text \<open>
  What the data mover writes about its jobs: the database adapter
  (\<open>datamover/pkg/db/drivers/mongo/mongo.go\<close>), the updates with three tries of the migration, and the
  analysis handler \<open>datamover/pkg/hw/mrs/mrs_handler.go\<close>. The scripts the handler starts and the text of
  a time stamp are parameters. A request to a script is the struct whose JSON text it is.
\<close>

section \<open>The adapter\<close>

definition GetJobStatus :: "'s mgo_ops \<Rightarrow> string \<Rightarrow> ('s, string) prog" where
  "GetJobStatus ops jobID =
     call (lift_go (ObjectIdHex jobID)) (\<lambda>oid.
     call (liftS (op_One ops CollJob (Match [(''_id'', BId oid)]))) (\<lambda>found.
       ret (case found of Inl err \<Rightarrow> [] | Inr d \<Rightarrow> job_Status (dec_Job d))))"

text \<open>Only the fields of \<open>job\<close> that are not zero replace those of the stored job \<open>j\<close>.\<close>

definition merge_job :: "Job \<Rightarrow> Job \<Rightarrow> Job" where
  "merge_job job j = j\<lparr>
     job_StartTime := (if job_StartTime job \<noteq> 0 then job_StartTime job else job_StartTime j),
     job_EndTime := (if job_EndTime job \<noteq> 0 then job_EndTime job else job_EndTime j),
     job_TotalCapacity := (if job_TotalCapacity job \<noteq> 0 then job_TotalCapacity job else job_TotalCapacity j),
     job_TotalCount := (if job_TotalCount job \<noteq> 0 then job_TotalCount job else job_TotalCount j),
     job_PassedCount := (if job_PassedCount job \<noteq> 0 then job_PassedCount job else job_PassedCount j),
     job_PassedCapacity := (if job_PassedCapacity job \<noteq> 0 then job_PassedCapacity job else job_PassedCapacity j),
     job_Status := (if job_Status job \<noteq> [] then job_Status job else job_Status j),
     job_Progress := (if job_Progress job \<noteq> 0 then job_Progress job else job_Progress j),
     job_StepDesc := (if job_StepDesc job \<noteq> [] then job_StepDesc job else job_StepDesc j)\<rparr>"

definition UpdateJob :: "'s mgo_ops \<Rightarrow> Job \<Rightarrow> ('s, string option) prog" where
  "UpdateJob ops job =
     call (liftS (op_One ops CollJob (Match [(''_id'', BId (job_Id job))]))) (\<lambda>found.
       case found of
         Inl err \<Rightarrow> ret (Some ''Get job failed before update it.'')
       | Inr d \<Rightarrow>
           (let j = merge_job job (dec_Job d)
            in call (liftS (op_Update ops CollJob (Match [(''_id'', BId (job_Id j))]) (enc_Job j))) (\<lambda>err.
                 ret (if err \<noteq> None then Some ''Update job in database failed.'' else None))))"

fun tries_UpdateJob :: "nat \<Rightarrow> 's mgo_ops \<Rightarrow> Job \<Rightarrow> ('s, unit) prog" where
  "tries_UpdateJob 0 ops j = ret ()"
| "tries_UpdateJob (Suc left) ops j =
     call (UpdateJob ops j) (\<lambda>err. if err = None then ret () else tries_UpdateJob left ops j)"

section \<open>The environment of a job\<close>

text \<open>The handler's struct, without its \<open>Init\<close>, which does nothing.\<close>

record MrsDataAnalst =
  mrs_ClusterID :: string
  mrs_AccessKey :: string
  mrs_SecurityKey :: string
  mrs_Endpoint :: string
  mrs_Uname :: string
  mrs_Passwd :: string
  mrs_Dname :: string
  mrs_JobName :: string
  mrs_ProjID :: string
  mrs_ProgName :: string
  mrs_Arguments :: string
  mrs_Path :: string
  mrs_Token :: string
  mrs_JobID :: string

definition zero_Mrs :: MrsDataAnalst where
  "zero_Mrs = \<lparr>mrs_ClusterID = [], mrs_AccessKey = [], mrs_SecurityKey = [], mrs_Endpoint = [], mrs_Uname = [],
     mrs_Passwd = [], mrs_Dname = [], mrs_JobName = [], mrs_ProjID = [], mrs_ProgName = [], mrs_Arguments = [],
     mrs_Path = [], mrs_Token = [], mrs_JobID = []\<rparr>"

record PyResp =
  py_Err :: string
  py_Token :: string
  py_JobID :: string
  py_JobStat :: string
  py_JobProgress :: string

definition zero_PyResp :: PyResp where
  "zero_PyResp = \<lparr>py_Err = [], py_Token = [], py_JobID = [], py_JobStat = [], py_JobProgress = []\<rparr>"

text \<open>
  \<open>je_Run\<close> runs the script that creates an analysis job, with its exit error, output and error
  output; \<open>je_Lines\<close> the one that reports the state of a job, with the lines read from its pipe and
  the error the reading ended with, if it is not the end of the output. \<open>je_patience\<close> is how many results
  the collecting loop of a migration receives before it has waited too long for the next one.
\<close>

record 's job_env =
  je_dm :: "'s dm_env"
  je_Stamp :: "int \<Rightarrow> string"
  je_Run :: "MrsDataAnalst \<Rightarrow> 's \<Rightarrow> (bool \<times> string \<times> string) \<times> 's"
  je_StdoutPipe :: "'s \<Rightarrow> string option \<times> 's"
  je_Lines :: "MrsDataAnalst \<Rightarrow> 's \<Rightarrow> (string list \<times> string option) \<times> 's"
  je_patience :: nat

abbreviation je_db :: "'s job_env \<Rightarrow> 's mgo_ops" where
  "je_db env \<equiv> dm_db (je_dm env)"

section \<open>Updates of the migration\<close>

definition ends :: "Job \<Rightarrow> bool" where
  "ends j \<longleftrightarrow> job_Status j = JOB_STATUS_FAILED \<or> job_Status j = JOB_STATUS_SUCCEED"

definition updateJob :: "'s job_env \<Rightarrow> Job \<Rightarrow> string \<Rightarrow> string \<Rightarrow> ('s, Job) prog" where
  "updateJob env j status step =
     call (liftS (op_Now (je_db env))) (\<lambda>now.
       let j = j\<lparr>job_StepDesc := job_StepDesc j @ je_Stamp env now @ step @ [CHR 0x0A]\<rparr>;
           j = (if status \<noteq> [] then j\<lparr>job_Status := status\<rparr> else j)
       in call (if ends j then call (liftS (op_Now (je_db env))) (\<lambda>now. ret (j\<lparr>job_EndTime := now\<rparr>)) else ret j) (\<lambda>j.
          call (tries_UpdateJob 3 (je_db env) j) (\<lambda>_. ret j)))"

section \<open>The analysis handler\<close>

text \<open>
  \<open>json.Unmarshal\<close> into a struct that is not passed by a pointer: it leaves the struct alone and
  returns an error, whatever the text is.
\<close>

definition Unmarshal_by_value :: "'a \<Rightarrow> 'a \<times> string option" where
  "Unmarshal_by_value v = (v, Some ''json: Unmarshal(non-pointer)'')"

text \<open>The error declared in the loop hides the one that is returned.\<close>

definition mrs_updateJob :: "'s job_env \<Rightarrow> string \<Rightarrow> string \<Rightarrow> string \<Rightarrow> ('s, string option) prog" where
  "mrs_updateJob env jid status stepDetails =
     (let j = zero_Job\<lparr>job_Id := jid, job_Status := status, job_StepDesc := stepDetails\<rparr>
      in call (if ends j then call (liftS (op_Now (je_db env))) (\<lambda>now. ret (j\<lparr>job_EndTime := now\<rparr>)) else ret j) (\<lambda>j.
         call (tries_UpdateJob 3 (je_db env) j) (\<lambda>_. ret None)))"

definition set_asist :: "MrsDataAnalst \<Rightarrow> KeyValue \<Rightarrow> MrsDataAnalst" where
  "set_asist asist val =
     (if kv_Key val = ''ClusterID'' then asist\<lparr>mrs_ClusterID := kv_Value val\<rparr>
      else if kv_Key val = ''AccessKey'' then asist\<lparr>mrs_AccessKey := kv_Value val\<rparr>
      else if kv_Key val = ''SecurityKey'' then asist\<lparr>mrs_SecurityKey := kv_Value val\<rparr>
      else if kv_Key val = ''Endpoint'' then asist\<lparr>mrs_Endpoint := kv_Value val\<rparr>
      else if kv_Key val = ''Uname'' then asist\<lparr>mrs_Uname := kv_Value val\<rparr>
      else if kv_Key val = ''Passwd'' then asist\<lparr>mrs_Passwd := kv_Value val\<rparr>
      else if kv_Key val = ''Dname'' then asist\<lparr>mrs_Dname := kv_Value val\<rparr>
      else if kv_Key val = ''ProjID'' then asist\<lparr>mrs_ProjID := kv_Value val\<rparr>
      else if kv_Key val = ''ProgName'' then asist\<lparr>mrs_ProgName := kv_Value val\<rparr>
      else if kv_Key val = ''Arguments'' then asist\<lparr>mrs_Arguments := kv_Value val\<rparr>
      else asist)"

definition buildBasicReq :: "RunJobRequest \<Rightarrow> string \<Rightarrow> MrsDataAnalst" where
  "buildBasicReq req remoteBucket =
     (let asist = foldl set_asist zero_Mrs (asi_Details (rj_Asist req));
          asist = (if mrs_Dname asist = [] then asist\<lparr>mrs_Dname := mrs_Uname asist\<rparr> else asist)
      in asist\<lparr>mrs_Path := remoteBucket @ ''/'' @ cm_BucketName (rj_DestConn req), mrs_JobName := rj_Id req\<rparr>)"

definition buildCreateJobReq :: "RunJobRequest \<Rightarrow> string \<Rightarrow> string + MrsDataAnalst" where
  "buildCreateJobReq req remoteBucket = Inr (buildBasicReq req remoteBucket)"

definition createAnalysisJob :: "'s job_env \<Rightarrow> MrsDataAnalst \<Rightarrow> ('s, string + PyResp) prog" where
  "createAnalysisJob env req =
     call (liftS (je_Run env req)) (\<lambda>(failed, outs, errouts).
       if failed then ret (Inl ''Create analysis job failed: internal error.'')
       else if errouts \<noteq> [] then ret (Inl errouts)
       else (let (rsp, err) = Unmarshal_by_value zero_PyResp
             in ret (if err \<noteq> None \<or> py_Token rsp = [] \<or> py_JobID rsp = []
                     then Inl ''Create analysis job failed: internal error.'' else Inr rsp)))"

definition updateAnalysisState :: "'s job_env \<Rightarrow> PyResp \<Rightarrow> Job \<Rightarrow> ('s, Job) prog" where
  "updateAnalysisState env rsp job =
     (let note = \<lambda>status text. call (liftS (op_Now (je_db env))) (\<lambda>stamp.
                   call (liftS (op_Now (je_db env))) (\<lambda>now.
                     ret (job\<lparr>job_Status := status, job_StepDesc := job_StepDesc job @ je_Stamp env stamp @ text,
                           job_EndTime := now\<rparr>)))
      in call (if py_Err rsp \<noteq> [] then note JOB_STATUS_FAILED (''Failed:'' @ py_Err rsp)
               else if py_JobStat rsp = ''Running'' \<or> py_JobStat rsp = ''Starting'' then
                 ret (job\<lparr>job_Status := JOB_STATUS_RUNNING\<rparr>)
               else if py_JobStat rsp = ''Completed'' then note JOB_STATUS_SUCCEED ''succeed.''
               else note JOB_STATUS_FAILED ''analysis job failed.'') (\<lambda>job.
         call (tries_UpdateJob 3 (je_db env) job) (\<lambda>_. ret job)))"

text \<open>An error of the reading is not reported when a line of the output was read before it.\<close>

fun monitor_lines :: "'s job_env \<Rightarrow> string list \<Rightarrow> string option \<Rightarrow> Job \<Rightarrow> ('s, string option \<times> Job) prog" where
  "monitor_lines env [] e j =
     ret (if e \<noteq> None then Some ''Analysis failed: internal error.'' else None, j)"
| "monitor_lines env (out # rest) e j =
     (let (rsp, err) = Unmarshal_by_value zero_PyResp
      in if err \<noteq> None then ret (None, j)
         else call (updateAnalysisState env rsp j) (\<lambda>j. monitor_lines env rest e j))"

definition monitorJob :: "'s job_env \<Rightarrow> MrsDataAnalst \<Rightarrow> Job \<Rightarrow> ('s, string option \<times> Job) prog" where
  "monitorJob env req j =
     call (liftS (je_StdoutPipe env)) (\<lambda>err.
       if err \<noteq> None then ret (Some ''Analysis failed: internal error.'', j)
       else call (liftS (je_Lines env req)) (\<lambda>(lines, e). monitor_lines env lines e j))"

definition buildMonitorJobReq :: "MrsDataAnalst \<Rightarrow> string \<Rightarrow> string \<Rightarrow> string + MrsDataAnalst" where
  "buildMonitorJobReq asistStr token jid =
     (let (asist, err) = Unmarshal_by_value zero_Mrs
      in case err of
           Some e \<Rightarrow> Inl e
         | None \<Rightarrow> Inr (asist\<lparr>mrs_JobID := jid, mrs_Token := token\<rparr>))"

definition Mrs_Handle :: "'s job_env \<Rightarrow> RunJobRequest \<Rightarrow> Job \<Rightarrow> string \<Rightarrow> ('s, string option \<times> Job) prog" where
  "Mrs_Handle env req j remoteBucket =
     (case buildCreateJobReq req remoteBucket of
        Inl err \<Rightarrow> ret (Some ''Failed:Internal error.'', j)
      | Inr creq \<Rightarrow>
          call (createAnalysisJob env creq) (\<lambda>r.
            case r of
              Inl err \<Rightarrow> ret (Some err, j)
            | Inr rsp \<Rightarrow>
                call (liftS (op_Now (je_db env))) (\<lambda>now.
                  let j = j\<lparr>job_StepDesc := job_StepDesc j @ je_Stamp env now @ ''create analysis job suceessfully.'' @ [CHR 0x0A]\<rparr>
                  in call (mrs_updateJob env (job_Id j) JOB_STATUS_RUNNING (job_StepDesc j)) (\<lambda>_.
                     case buildMonitorJobReq creq (py_Token rsp) (py_JobID rsp) of
                       Inl err \<Rightarrow> ret (Some ''Internal error.'', j)
                     | Inr mreq \<Rightarrow> monitorJob env mreq j))))"

end
