(* ===== verification/Datamover_Job.thy ===== *)
theory Datamover_Job
  imports Datamover_Status
begin

text \<open>
  The jobs of the data mover (\<open>datamover/pkg/drivers/https/migration.go\<close>, second half): the run of a
  job from its request to its final status. A migration is run here under one schedule of its
  goroutines, in which an object is moved and its result collected before the next one is started;
  \<open>Datamover_Channels\<close> has all of them. After \<open>je_patience\<close> results the collecting loop times out.
\<close>

section \<open>Preparation\<close>

definition failed_now :: "'s job_env \<Rightarrow> Job \<Rightarrow> ('s, Job) prog" where
  "failed_now env j =
     call (liftS (op_Now (je_db env))) (\<lambda>now.
       let j = j\<lparr>job_Status := JOB_STATUS_FAILED, job_EndTime := now\<rparr>
       in call (UpdateJob (je_db env) j) (\<lambda>_. ret j))"

text \<open>A slice has fewer than \<open>2 ^ 63\<close> elements, so only the capacity can wrap around.\<close>

definition count_objects :: "Object list \<Rightarrow> Job \<Rightarrow> Job" where
  "count_objects objs j =
     foldl (\<lambda>j x. j\<lparr>job_TotalCount := job_TotalCount j + 1, job_TotalCapacity := i64 (job_TotalCapacity j + obj_Size x)\<rparr>) j objs"

definition prepare4Run :: "'s job_env \<Rightarrow> Job \<Rightarrow> RunJobRequest \<Rightarrow>
    ('s, (string + LocationInfo \<times> LocationInfo \<times> Object list) \<times> Job) prog" where
  "prepare4Run env j req =
     call (getConnLocation (je_dm env) (rj_SourceConn req)) (\<lambda>r.
     case r of
       Inl err \<Rightarrow> call (failed_now env j) (\<lambda>j. ret (Inl err, j))
     | Inr srcLoca \<Rightarrow>
     call (getConnLocation (je_dm env) (rj_DestConn req)) (\<lambda>r.
     case r of
       Inl err \<Rightarrow> call (failed_now env j) (\<lambda>j. ret (Inl err, j))
     | Inr destLoca \<Rightarrow>
     call (getSourceObjs (je_dm env) (rj_SourceConn req) (Some (rj_FiltPrefix req)) srcLoca) (\<lambda>r.
     case r of
       Inl err \<Rightarrow> call (failed_now env j) (\<lambda>j. ret (Inl err, j))
     | Inr objs \<Rightarrow>
         (let j = count_objects objs j
          in call (if objs = [] \<or> job_TotalCapacity j = 0 then
                     call (liftS (op_Now (je_db env))) (\<lambda>now.
                       ret (j\<lparr>job_Status := JOB_STATUS_SUCCEED, job_EndTime := now, job_Progress := 100\<rparr>))
                   else ret (j\<lparr>job_Status := JOB_STATUS_RUNNING\<rparr>)) (\<lambda>j.
             call (UpdateJob (je_db env) j) (\<lambda>_. ret (Inr (srcLoca, destLoca, objs), j)))))))"

section \<open>The migration\<close>

record moveRequest =
  mv_src :: LocationInfo
  mv_dest :: LocationInfo
  mv_objs :: "Object list"
  mv_remainSrc :: bool

record tally =
  ta_count :: int
  ta_passed :: int
  ta_capacity :: int

definition no_tally :: tally where
  "no_tally = \<lparr>ta_count = 0, ta_passed = 0, ta_capacity = 0\<rparr>"

definition collect :: "int \<Rightarrow> tally \<Rightarrow> tally" where
  "collect c t = t\<lparr>ta_count := ta_count t + 1,
     ta_passed := (if c \<ge> 0 then ta_passed t + 1 else ta_passed t),
     ta_capacity := (if c \<ge> 0 then i64 (ta_capacity t + c) else ta_capacity t)\<rparr>"

text \<open>With a hundred objects and more, the job is written about ten times.\<close>

definition reports :: "int \<Rightarrow> int \<Rightarrow> bool" where
  "reports totalObjs count \<longleftrightarrow> totalObjs < 100 \<or> count = totalObjs \<or> go_mod count (go_div totalObjs 10) = 0"

definition set_progress :: "tally \<Rightarrow> Job \<Rightarrow> Job" where
  "set_progress t j = j\<lparr>job_PassedCount := ta_passed t, job_PassedCapacity := ta_capacity t,
     job_Progress := go_div (i64 (ta_capacity t * 100)) (job_TotalCapacity j)\<rparr>"

text \<open>The two arguments of the loop are the variables the moves share and those of the loop.\<close>

definition migrate_object :: "'s job_env \<Rightarrow> moveRequest \<Rightarrow> int \<Rightarrow> (loca_map \<times> int) \<times> tally \<times> Job \<Rightarrow> Object \<Rightarrow>
    ('s, (loca_map \<times> int) \<times> tally \<times> Job) prog" where
  "migrate_object env mvReq totalObjs st x =
     (case st of (shared, t, j) \<Rightarrow>
       call (move (je_dm env) (mv_src mvReq) (mv_dest mvReq) (mv_remainSrc mvReq) x shared) (\<lambda>(c, shared).
         let t = collect c t
         in if reports totalObjs (ta_count t) then
              (let j = set_progress t j
               in call (UpdateJob (je_db env) j) (\<lambda>_. ret (shared, t, j)))
            else ret (shared, t, j)))"

definition short_of :: "string \<Rightarrow> int \<Rightarrow> int \<Rightarrow> string" where
  "short_of what totalObjs passed = what @ Itoa totalObjs @ '' objects, passed '' @ Itoa passed"

definition doMigration :: "'s job_env \<Rightarrow> int \<Rightarrow> moveRequest \<Rightarrow> Job \<Rightarrow> ('s, string option \<times> int \<times> Job) prog" where
  "doMigration env PART_SIZE mvReq j =
     (let totalObjs = job_TotalCount j
      in call (forEach (take (je_patience env) (mv_objs mvReq)) (([], PART_SIZE), no_tally, j)
                 (migrate_object env mvReq totalObjs)) (\<lambda>((_, PART_SIZE), t, j).
           ret (if ta_passed t < totalObjs then Some (short_of ''migrate failed:'' totalObjs (ta_passed t)) else None,
                PART_SIZE, j\<lparr>job_PassedCount := ta_passed t\<rparr>)))"

text \<open>The message that names the failure is declared in the branch, so the outer one is written.\<close>

definition migrateResult :: "'s job_env \<Rightarrow> int \<Rightarrow> moveRequest \<Rightarrow> Job \<Rightarrow> ('s, Job) prog" where
  "migrateResult env PART_SIZE mvReq j =
     (let totalObjs = int (length (mv_objs mvReq))
      in call (forEach (take (je_patience env) (mv_objs mvReq)) (([], PART_SIZE), no_tally) (\<lambda>(shared, t) x.
                 call (move (je_dm env) (mv_src mvReq) (mv_dest mvReq) (mv_remainSrc mvReq) x shared) (\<lambda>(c, shared).
                   ret (shared, collect c t)))) (\<lambda>(_, t).
           updateJob env j (if ta_passed t < totalObjs then JOB_STATUS_FAILED else JOB_STATUS_SUCCEED)
             ''migrate successfully.''))"

section \<open>The analysis\<close>

text \<open>\<open>mrs.JOB_STAT_RUNNING\<close>, which is not a status of the jobs of the dataflow service.\<close>

definition JOB_STAT_RUNNING :: string where "JOB_STAT_RUNNING = ''Running''"

definition analysisHandle :: "'s job_env \<Rightarrow> RunJobRequest \<Rightarrow> Job \<Rightarrow> LocationInfo \<Rightarrow> ('s, string option \<times> Job) prog" where
  "analysisHandle env req j destLoca =
     call (updateJob env j JOB_STAT_RUNNING ''analysis ...'') (\<lambda>j.
       if lo_StorType destLoca = STOR_TYPE_HW_OBS then
         call (Mrs_Handle env req j (lo_BucketName destLoca)) (\<lambda>(err, j).
           case err of
             Some e \<Rightarrow> call (updateJob env j JOB_STATUS_FAILED e) (\<lambda>j. ret (Some e, j))
           | None \<Rightarrow> ret (None, j))
       else call (updateJob env j JOB_STATUS_FAILED ''Failed:the analysis of target cloud is not support.'') (\<lambda>j.
              ret (Some ''the analysis of target cloud is not support.'', j)))"

definition unsupported_type :: "string \<Rightarrow> string" where
  "unsupported_type ty = ''Failed: the analysis type['' @ ty @ ''] is not supported.''"

definition asistHandle :: "'s job_env \<Rightarrow> RunJobRequest \<Rightarrow> Job \<Rightarrow> LocationInfo \<Rightarrow> ('s, string option \<times> Job) prog" where
  "asistHandle env req j destLoca =
     (if asi_Type (rj_Asist req) = ASIST_TYPE_DATA_ANALYSIS then
        call (analysisHandle env req j destLoca) (\<lambda>(_, j). ret (None, j))
      else (let errmsg = unsupported_type (asi_Type (rj_Asist req))
            in call (updateJob env j JOB_STATUS_FAILED errmsg) (\<lambda>j. ret (Some errmsg, j))))"

definition dataAnalysisPostHandle :: "'s job_env \<Rightarrow> int \<Rightarrow> Job \<Rightarrow> LocationInfo \<Rightarrow> LocationInfo \<Rightarrow>
    ('s, string option \<times> Job) prog" where
  "dataAnalysisPostHandle env PART_SIZE j srcLoca destLoca =
     call (updateJob env j JOB_STATUS_RUNNING ''getting analysis result'') (\<lambda>j.
       let virtConn = \<lparr>cm_Type = lo_StorType srcLoca, cm_BucketName = [], cm_ConnConfig = []\<rparr>;
           filt = lo_VirBucket srcLoca @ ''/output/'';
           srcLoca = srcLoca\<lparr>lo_VirBucket := []\<rparr>
       in call (getSourceObjs (je_dm env) virtConn (Some filt) srcLoca) (\<lambda>r.
            case r of
              Inl err \<Rightarrow> ret (Some ''Failed: Get result failed.'', j)
            | Inr objs \<Rightarrow>
                if objs = [] then ret (Some ''Failed: No result got.'', j)
                else call (migrateResult env PART_SIZE
                             \<lparr>mv_src = srcLoca, mv_dest = destLoca, mv_objs = objs, mv_remainSrc = False\<rparr> j) (\<lambda>j.
                       ret (None, j))))"

definition asistPostHandle :: "'s job_env \<Rightarrow> int \<Rightarrow> RunJobRequest \<Rightarrow> Job \<Rightarrow> LocationInfo \<Rightarrow> LocationInfo \<Rightarrow>
    ('s, string option \<times> Job) prog" where
  "asistPostHandle env PART_SIZE req j srcLoca destLoca =
     (if asi_Type (rj_Asist req) = ASIST_TYPE_DATA_ANALYSIS then
        dataAnalysisPostHandle env PART_SIZE j srcLoca destLoca
      else ret (Some (unsupported_type (asi_Type (rj_Asist req))), j))"

section \<open>The run of a job\<close>

definition JOB_RUN_TIME_MAX :: int where "JOB_RUN_TIME_MAX = 86400"

text \<open>The seconds after which the context of a job expires.\<close>

definition job_tmout :: "string \<Rightarrow> int" where
  "job_tmout cfg =
     (case Atoi cfg of
        None \<Rightarrow> JOB_RUN_TIME_MAX
      | Some t \<Rightarrow> (if t < 60 \<or> t > 2592000 then JOB_RUN_TIME_MAX else t))"

text \<open>The result carries the last value of the job, which the goroutine drops with the error.\<close>

definition runjob :: "'s job_env \<Rightarrow> int \<Rightarrow> RunJobRequest \<Rightarrow> ('s, string option \<times> Job) prog" where
  "runjob env PART_SIZE req =
     call (lift_go (ObjectIdHex (rj_Id req))) (\<lambda>oid.
     call (liftS (op_Now (je_db env))) (\<lambda>now.
     call (prepare4Run env (zero_Job\<lparr>job_Id := oid, job_StartTime := now\<rparr>) req) (\<lambda>(r, j).
     case r of
       Inl err \<Rightarrow> ret (Some err, j)
     | Inr (srcLoca, destLoca, objs) \<Rightarrow>
         if job_TotalCount j = 0 \<or> job_TotalCapacity j = 0 then ret (None, j)
         else
           call (updateJob env j JOB_STATUS_RUNNING ''migrate ...'') (\<lambda>j.
           call (doMigration env PART_SIZE
                   \<lparr>mv_src = srcLoca, mv_dest = destLoca, mv_objs = objs, mv_remainSrc = rj_RemainSource req\<rparr> j)
             (\<lambda>(err, PART_SIZE, j).
           case err of
             Some e \<Rightarrow> call (updateJob env j JOB_STATUS_FAILED e) (\<lambda>j. ret (Some e, j))
           | None \<Rightarrow>
               if asi_Type (rj_Asist req) = [] then
                 call (updateJob env j JOB_STATUS_SUCCEED ''migrate sucecessfully.'') (\<lambda>j. ret (None, j))
               else if asi_Type (rj_Asist req) = ASIST_TYPE_DATA_ANALYSIS then
                 call (asistHandle env req j destLoca) (\<lambda>(err, j).
                   if err = None then asistPostHandle env PART_SIZE req j destLoca srcLoca else ret (err, j))
               else ret (Some ''Unsupport asist type.'', j))))))"

end
