(* ===== verification/Datamover_Copy.thy ===== *)
theory Datamover_Copy
  imports Datamover_Move
begin

text \<open>
  The multipart copy is a copy. What the loop relies on is the locale \<open>copy_contract\<close>: a range
  download fills the buffer with that range, an uploaded part is staged behind the earlier ones, and
  completing an upload stores the staged parts in a row. The AWS mover keeps this contract on every
  cloud with the documented behaviour of the SDK (\<open>aws_cloud\<close>), which an in-memory cloud has.
\<close>

section \<open>The arithmetic of the parts\<close>

definition part_start :: "int \<Rightarrow> int \<Rightarrow> int" where
  "part_start PART_SIZE i = i * PART_SIZE"

definition part_length :: "int \<Rightarrow> int \<Rightarrow> int \<Rightarrow> int" where
  "part_length sz PART_SIZE i =
     (if i + 1 = part_count sz PART_SIZE then sz - i * PART_SIZE else PART_SIZE)"

lemma part_count_bounds:
  assumes "0 < sz" and "0 < P"
  shows "0 < part_count sz P \<and> (part_count sz P - 1) * P < sz \<and> sz \<le> part_count sz P * P"
proof -
  define q r where "q = sz div P" and "r = sz mod P"
  define w where "w = q * P"
  have split: "sz = w + r" by (simp add: w_def q_def r_def)
  have r: "0 \<le> r" "r < P" using assms by (simp_all add: r_def)
  have q: "0 \<le> q" using assms by (simp add: q_def pos_imp_zdiv_nonneg_iff)
  have pc: "part_count sz P = q + (if r \<noteq> 0 then 1 else 0)"
    using assms by (simp add: part_count_def go_div_pos go_mod_pos q_def r_def)
  show ?thesis
  proof (cases "r = 0")
    case True
    then have "q \<noteq> 0" using assms split by (auto simp: w_def)
    moreover have "(q - 1) * P = w - P" "q * P = w" by (simp_all add: w_def algebra_simps)
    ultimately show ?thesis using True pc split q assms by simp
  next
    case False
    moreover have "(q + 1) * P = w + P" "q * P = w" by (simp_all add: w_def algebra_simps)
    ultimately show ?thesis using pc split q r by simp
  qed
qed

lemma part_length_bounds:
  assumes "0 < sz" and "0 < P" and "0 \<le> i" and "i < part_count sz P"
  shows "0 < part_length sz P i \<and> part_length sz P i \<le> P \<and> i * P + part_length sz P i \<le> sz"
proof (cases "i + 1 = part_count sz P")
  case True
  then have i: "i = part_count sz P - 1" by simp
  have "part_count sz P * P = (part_count sz P - 1) * P + P" by (simp add: algebra_simps)
  with part_count_bounds [OF assms(1,2)] True show ?thesis
    unfolding part_length_def i by simp
next
  case False
  then have "(i + 1) * P \<le> (part_count sz P - 1) * P"
    using assms by (intro mult_right_mono) auto
  then show ?thesis
    using part_count_bounds [OF assms(1,2)] False assms by (auto simp: part_length_def algebra_simps)
qed

definition byte_part :: "int \<Rightarrow> int \<Rightarrow> 'a list \<Rightarrow> 'a list" where
  "byte_part start len xs = take (nat len) (drop (nat start) xs)"

lemma length_byte_part: "0 \<le> start \<Longrightarrow> 0 \<le> len \<Longrightarrow> start + len \<le> int (length xs) \<Longrightarrow> length (byte_part start len xs) = nat len"
  by (simp add: byte_part_def)

lemma take_byte_part:
  "0 \<le> start \<Longrightarrow> 0 \<le> len \<Longrightarrow> take (nat start) xs @ byte_part start len xs = take (nat (start + len)) xs"
  by (simp add: byte_part_def nat_add_distrib take_add)

section \<open>Successful tries\<close>

lemma tries_success:
  assumes "tries k m s = Return (Inr a, s')" and "P s"
    and "\<And>s e s'. P s \<Longrightarrow> m s = Return (Inl e, s') \<Longrightarrow> P s'"
  shows "\<exists>t. P t \<and> m t = Return (Inr a, s')"
  using assms(1,2)
proof (induction k arbitrary: s)
  case (Suc k)
  from Suc.prems(1) obtain r t where r: "m s = Return (r, t)"
    and rest: "(case r of Inr a \<Rightarrow> ret (Inr a) | Inl e \<Rightarrow> (if k = 0 then ret (Inl e) else tries k m)) t
       = Return (Inr a, s')"
    by (auto elim: call_ReturnE)
  show ?case
  proof (cases r)
    case (Inr b)
    with r rest Suc.prems(2) show ?thesis by (auto simp: ret_def)
  next
    case (Inl e)
    with rest have "tries k m t = Return (Inr a, s')" by (auto simp: ret_def split: if_splits)
    moreover have "P t" using assms(3) Suc.prems(2) r Inl by blast
    ultimately show ?thesis using Suc.IH by blast
  qed
qed (simp add: ret_def)

lemma tries_with_success:
  assumes "tries_with k rd m s = Return ((Inr a, rd'), s')" and "P rd s"
    and "\<And>rd s e rd' s'. P rd s \<Longrightarrow> m rd s = Return ((Inl e, rd'), s') \<Longrightarrow> P rd' s'"
  shows "\<exists>rd0 t. P rd0 t \<and> m rd0 t = Return ((Inr a, rd'), s')"
  using assms(1,2)
proof (induction k arbitrary: rd s)
  case (Suc k)
  from Suc.prems(1) obtain r rd1 t where r: "m rd s = Return ((r, rd1), t)"
    and rest: "(case r of Inr a \<Rightarrow> ret (Inr a, rd1) | Inl e \<Rightarrow> (if k = 0 then ret (Inl e, rd1) else tries_with k rd1 m)) t
       = Return ((Inr a, rd'), s')"
    by (auto elim!: call_ReturnE)
  show ?case
  proof (cases r)
    case (Inr b)
    with r rest Suc.prems(2) show ?thesis by (auto simp: ret_def)
  next
    case (Inl e)
    with rest have "tries_with k rd1 m t = Return ((Inr a, rd'), s')" by (auto simp: ret_def split: if_splits)
    moreover have "P rd1 t" using assms(3) Suc.prems(2) r Inl by blast
    ultimately show ?thesis using Suc.IH by blast
  qed
qed (simp add: ret_def)

section \<open>The contract of a copy\<close>

locale copy_contract =
  fixes env :: "'s dm_env" and srcLoca destLoca :: LocationInfo
    and content stored :: "'s \<Rightarrow> string \<Rightarrow> byte list option"
    and reads :: "any_mover \<Rightarrow> bool"
    and stages :: "'s \<Rightarrow> any_mover \<Rightarrow> string \<Rightarrow> byte list list \<Rightarrow> bool"
  assumes dinit: "multiPartDownloadInit env srcLoca s = Return ((Inr u, m), s') \<Longrightarrow>
        content s' = content s \<and> (\<exists>dm. m = Some dm \<and> reads dm)"
    and rng: "any_DownloadRange env dm key srcLoca buf start end s = Return ((Inr n, buf'), s') \<Longrightarrow> reads dm \<Longrightarrow>
        content s key = Some c \<Longrightarrow> 0 \<le> start \<Longrightarrow> start \<le> end \<Longrightarrow> end < int (length c) \<Longrightarrow>
        length buf = nat (end - start + 1) \<Longrightarrow>
        buf' = byte_part start (end - start + 1) c \<and> content s' = content s \<and> stages s' = stages s"
    and uinit: "multiPartUploadInit env key destLoca s = Return ((Inr u, m), s') \<Longrightarrow>
        content s' = content s \<and> (\<exists>um. m = Some um \<and> stages s' um key [])"
    and part: "any_UploadPart env um key destLoca (int (length buf)) buf (int (length ps) + 1) offset s =
          Return ((Inr u, um'), s') \<Longrightarrow> stages s um key ps \<Longrightarrow>
        content s' = content s \<and> stages s' um' key (ps @ [buf])"
    and complete: "completeMultipartUpload env key destLoca (Some um) s = Return (Inr u, s') \<Longrightarrow>
        stages s um key ps \<Longrightarrow> stored s' key = Some (concat ps)"
begin

text \<open>One part: what is staged afterwards is the part of the object at its place.\<close>

lemma move_part_stages:
  assumes "move_part env obj srcLoca destLoca dkey ukey (i + 1) offset n dm um buf s = Return (Inr (dm', um', buf'), s')"
    and "content s dkey = Some c" and "0 \<le> offset" and "0 < n" and "offset + n \<le> int (length c)"
    and "length buf = nat n" and "0 \<le> i"
    and "i \<noteq> 0 \<longrightarrow> (\<exists>d u. dm = Some d \<and> um = Some u \<and> reads d \<and> stages s u ukey ps \<and> int (length ps) = i)"
    and "i = 0 \<longrightarrow> ps = []"
  shows "content s' = content s \<and> reads dm' \<and> stages s' um' ukey (ps @ [byte_part offset n c]) \<and> length buf' = nat n"
proof -
  from assms(1) obtain s1 s2 s3 um1 v1 v2 v3 where
    d: "(if i + 1 = 1 then multiPartDownloadInit env srcLoca else ret (Inr (), dm)) s = Return ((Inr v1, Some dm'), s1)"
    and r: "any_DownloadRange env dm' dkey srcLoca buf offset (offset + n - 1) s1 = Return ((Inr n, buf'), s2)"
    and u: "(if i + 1 = 1 then multiPartUploadInit env ukey destLoca else ret (Inr (), um)) s2 = Return ((Inr v2, Some um1), s3)"
    and p: "any_UploadPart env um1 ukey destLoca n buf' (i + 1) offset s3 = Return ((Inr v3, um'), s')"
    unfolding move_part_def
    by (elim call_ReturnE)
      (auto simp: ret_def elim!: call_ReturnE split: sum.splits if_splits)
  have d1: "content s1 = content s \<and> reads dm'" and st1: "i \<noteq> 0 \<Longrightarrow> s1 = s"
    using d dinit [of s v1 "Some dm'" s1] assms(8) by (auto simp: ret_def split: if_splits)
  have buf': "buf' = byte_part offset n c" and c2: "content s2 = content s1" and st2: "stages s2 = stages s1"
    using rng [OF r _ _ assms(3), of c] d1 assms(2,4,5,6) by auto
  have l: "length buf' = nat n" using buf' assms by (simp add: length_byte_part)
  have c3: "content s3 = content s2" and st3: "stages s3 um1 ukey ps" and len: "int (length ps) = i"
    using u uinit [of ukey s2 v2 "Some um1" s3] assms(7,8,9) st1 st2 by (auto simp: ret_def split: if_splits)
  have "content s' = content s3 \<and> stages s' um' ukey (ps @ [buf'])"
    by (rule part [of um1 ukey buf' ps offset s3 v3]) (use p l len st3 assms(4) in simp_all)
  with buf' l c2 c3 d1 show ?thesis by simp
qed

lemma move_parts_copies:
  assumes "move_parts left env P obj srcLoca destLoca dkey ukey i dm um buf s = Return (Inr um', s')"
    and "content s dkey = Some c" and "int (length c) = obj_Size obj" and "0 < obj_Size obj" and "0 < P"
    and "int left = part_count (obj_Size obj) P - i" and "0 \<le> i" and "0 < left"
    and "left \<noteq> 1 \<longrightarrow> length buf = nat P"
    and "i \<noteq> 0 \<longrightarrow> (\<exists>d u. dm = Some d \<and> um = Some u \<and> reads d \<and> stages s u ukey ps \<and> int (length ps) = i)"
    and "i = 0 \<longrightarrow> ps = []" and "concat ps = take (nat (i * P)) c"
  shows "\<exists>u ps. um' = Some u \<and> stages s' u ukey ps \<and> concat ps = c"
  using assms
proof (induction left arbitrary: i dm um buf s ps)
  case (Suc left)
  let ?sz = "obj_Size obj"
  define n where "n = (if left = 0 then ?sz - i * P else P)"
  define b where "b = (if left = 0 then new_buf n else buf)"
  have n: "n = part_length ?sz P i"
    using Suc.prems(6) by (auto simp: n_def part_length_def)
  have bounds: "0 < n" "n \<le> P" "i * P + n \<le> ?sz"
    using part_length_bounds [of ?sz P i] Suc.prems(4-7) n by auto
  have lb: "length b = nat n" using Suc.prems(9) by (auto simp: b_def n_def)
  have iP: "0 \<le> i * P" using Suc.prems(5,7) by simp
  from Suc.prems(1) obtain dm1 um1 buf1 s1 where
    step: "move_part env obj srcLoca destLoca dkey ukey (i + 1) (i * P) n dm um b s = Return (Inr (dm1, um1, buf1), s1)"
    and rest: "move_parts left env P obj srcLoca destLoca dkey ukey (i + 1) (Some dm1) (Some um1) buf1 s1 = Return (Inr um', s')"
    unfolding move_parts.simps Let_def n_def [symmetric] b_def [symmetric]
    by (auto simp: ret_def elim!: call_ReturnE split: sum.splits)
  let ?ps = "ps @ [byte_part (i * P) n c]"
  have after: "content s1 = content s" "reads dm1" "stages s1 um1 ukey ?ps" "length buf1 = nat n"
    using move_part_stages [OF step Suc.prems(2) iP bounds(1) _ lb Suc.prems(7,10,11)] bounds Suc.prems(3) by auto
  have cat: "concat ?ps = take (nat (i * P + n)) c"
    using Suc.prems(12) iP bounds(1) by (simp add: take_byte_part)
  show ?case
  proof (cases "left = 0")
    case True
    then have "concat ?ps = c" using cat Suc.prems(3) by (simp add: n_def)
    moreover have "um' = Some um1" "s1 = s'" using True rest by (auto simp: move_parts.simps ret_def)
    ultimately show ?thesis using after(3) by blast
  next
    case False
    then have nP: "n = P" by (simp add: n_def)
    show ?thesis
    proof (rule Suc.IH [OF rest])
      show "concat ?ps = take (nat ((i + 1) * P)) c" using cat nP by (simp add: algebra_simps)
      show "i + 1 \<noteq> 0 \<longrightarrow> (\<exists>d u. Some dm1 = Some d \<and> Some um1 = Some u \<and> reads d \<and> stages s1 u ukey ?ps \<and> int (length ?ps) = i + 1)"
        using after Suc.prems(7,10,11) by (cases "i = 0") auto
    qed (use after nP False Suc.prems in auto)
  qed
qed simp

lemma multipartMoveObj_copies:
  assumes "multipartMoveObj env P obj srcLoca destLoca s = Return (Inr u, s')"
    and "content s (in_bucket (lo_VirBucket srcLoca) (obj_ObjectKey obj)) = Some c"
    and "int (length c) = obj_Size obj" and "0 < obj_Size obj" and "0 < P"
  shows "stored s' (in_bucket (lo_VirBucket destLoca) (obj_ObjectKey obj)) = Some c"
proof -
  let ?d = "in_bucket (lo_VirBucket srcLoca) (obj_ObjectKey obj)"
  let ?u = "in_bucket (lo_VirBucket destLoca) (obj_ObjectKey obj)"
  let ?n = "part_count (obj_Size obj) P"
  have n: "0 < ?n" using part_count_bounds assms(4,5) by simp
  from assms(1) obtain um t v where
    loop: "move_parts (nat ?n) env P obj srcLoca destLoca ?d ?u 0 None None (new_buf P) s = Return (Inr um, t)"
    and fin: "completeMultipartUpload env ?u destLoca um t = Return (Inr v, s')"
    by (auto simp: multipartMoveObj_def Let_def ret_def elim!: call_ReturnE split: sum.splits)
  have "\<exists>w ps. um = Some w \<and> stages t w ?u ps \<and> concat ps = c"
    by (rule move_parts_copies [OF loop assms(2-5), where ps = "[]"]) (use n in simp_all)
  then obtain w ps where "um = Some w" "stages t w ?u ps" "concat ps = c" by blast
  with complete [of ?u w t v s' ps] fin show ?thesis by simp
qed

end

section \<open>The AWS mover keeps the contract\<close>

text \<open>
  What the SDK documents: \<open>objects\<close> are the stored objects by bucket and key, \<open>parts\<close> the uploaded
  parts of a multipart upload in the order of their uploading. A part is accepted only when its
  stated length is that of its body; an upload that is completed with all its parts, in ascending
  order, becomes their concatenation.
\<close>

type_synonym aws_parts = "(string \<times> int \<times> byte list) list"

definition part_tags :: "aws_parts \<Rightarrow> (string \<times> int) list" where
  "part_tags ps = map (\<lambda>(etag, n, _). (etag, n)) ps"

definition part_bodies :: "aws_parts \<Rightarrow> byte list list" where
  "part_bodies ps = map (\<lambda>(_, _, b). b) ps"

definition part_numbers :: "aws_parts \<Rightarrow> int list" where
  "part_numbers ps = map (\<lambda>(_, n, _). n) ps"

lemma part_snoc [simp]:
  "part_tags (ps @ [(e, n, b)]) = part_tags ps @ [(e, n)]"
  "part_bodies (ps @ [(e, n, b)]) = part_bodies ps @ [b]"
  "part_numbers (ps @ [(e, n, b)]) = part_numbers ps @ [n]"
  "part_tags [] = []" "part_bodies [] = []" "part_numbers [] = []"
  by (simp_all add: part_tags_def part_bodies_def part_numbers_def)

lemma length_parts [simp]:
  "length (part_bodies ps) = length ps" "length (part_numbers ps) = length ps" "length (part_tags ps) = length ps"
  by (simp_all add: part_bodies_def part_numbers_def part_tags_def)

definition ascending :: "int list \<Rightarrow> bool" where
  "ascending ns = (ns = map (\<lambda>j. int j + 1) [0..<length ns])"

locale aws_cloud =
  fixes aws :: "'s aws_ops"
    and objects :: "'s \<Rightarrow> string \<Rightarrow> string \<Rightarrow> byte list option"
    and parts :: "'s \<Rightarrow> string \<Rightarrow> aws_parts"
  assumes NewSession: "aws_NewSession aws c s = (failed, s') \<Longrightarrow> objects s' = objects s \<and> parts s' = parts s"
    and Download: "aws_Download aws c b k r buf s = ((res, buf'), s') \<Longrightarrow>
        objects s' = objects s \<and> parts s' = parts s \<and> length buf' = length buf"
    and Download_range: "aws_Download aws c b k (Some (byte_range i j)) buf s = ((Inr n, buf'), s') \<Longrightarrow>
        objects s b k = Some d \<Longrightarrow> 0 \<le> i \<Longrightarrow> i \<le> j \<Longrightarrow> j < int (length d) \<Longrightarrow>
        length buf = nat (j - i + 1) \<Longrightarrow> buf' = byte_part i (j - i + 1) d"
    and Download_whole: "aws_Download aws c b k None buf s = ((Inr n, buf'), s') \<Longrightarrow>
        objects s b k = Some d \<Longrightarrow> length d \<le> length buf \<Longrightarrow> buf' = copy_at 0 d buf"
    and Upload: "aws_Upload aws c b k body s = ((ures, rest), s') \<Longrightarrow> (\<exists>used. body = used @ rest)"
    and Upload_ok: "aws_Upload aws c b k body s = ((Inr u, rest), s') \<Longrightarrow>
        objects s' = (objects s)(b := (objects s b)(k \<mapsto> body))"
    and Upload_err: "aws_Upload aws c b k body s = ((Inl e, rest), s') \<Longrightarrow> objects s' = objects s"
    and Create_ok: "aws_CreateMultipartUpload aws c b k s = (Inr uid, s') \<Longrightarrow>
        objects s' = objects s \<and> parts s' uid = []"
    and Create_err: "aws_CreateMultipartUpload aws c b k s = (Inl e, s') \<Longrightarrow> objects s' = objects s"
    and UploadPart: "aws_UploadPart aws c b k uid n len body s = ((pres, rest), s') \<Longrightarrow>
        objects s' = objects s \<and> (\<exists>used. body = used @ rest)"
    and UploadPart_ok: "aws_UploadPart aws c b k uid n len body s = ((Inr etag, rest), s') \<Longrightarrow>
        len = int (length body) \<and> parts s' uid = parts s uid @ [(etag, n, body)]"
    and UploadPart_err: "aws_UploadPart aws c b k uid n len body s = ((Inl e, rest), s') \<Longrightarrow> parts s' = parts s"
    and Complete_ok: "aws_CompleteMultipartUpload aws c b k uid tags s = (Inr u, s') \<Longrightarrow>
        tags = part_tags (parts s uid) \<Longrightarrow> ascending (part_numbers (parts s uid)) \<Longrightarrow>
        objects s' b k = Some (concat (part_bodies (parts s uid)))"
    and Complete_err: "aws_CompleteMultipartUpload aws c b k uid tags s = (Inl e, s') \<Longrightarrow> parts s' = parts s"
begin

lemma DownloadRange_keeps:
  assumes "S3_DownloadRange aws mover key loca buf i j s = Return ((Inr n, buf'), s')"
    and "objects s (lo_BucketName loca) key = Some d" and "0 \<le> i" "i \<le> j" "j < int (length d)"
    and "length buf = nat (j - i + 1)"
  shows "buf' = byte_part i (j - i + 1) d \<and> objects s' = objects s \<and> parts s' = parts s"
proof -
  let ?P = "\<lambda>rd t. length rd = nat (j - i + 1) \<and> objects t = objects s \<and> parts t = parts s"
  have "\<exists>rd t. ?P rd t \<and> deref (s3m_downloader mover) (\<lambda>sess. liftS (aws_Download aws sess
      (lo_BucketName loca) key (Some (byte_range i j)) rd)) t = Return ((Inr n, buf'), s')"
    using assms(1) unfolding S3_DownloadRange_def
    by (rule tries_with_success) (use assms(6) in \<open>auto simp: liftS_def dest!: Download\<close>)
  then obtain rd t sess where "?P rd t"
    and d: "aws_Download aws sess (lo_BucketName loca) key (Some (byte_range i j)) rd t = ((Inr n, buf'), s')"
    by (auto simp: liftS_def)
  then show ?thesis using Download [OF d] Download_range [OF d _ assms(3,4,5)] assms(2) by auto
qed

lemma UploadInit_keeps:
  assumes "S3_MultiPartUploadInit aws mover key loca s = Return ((Inr u, mover'), s')"
  shows "\<exists>uid sess. objects s' = objects s \<and> parts s' uid = [] \<and>
    mover' = mover\<lparr>s3m_svc := Some sess, s3m_multiUploadInitOut := Some uid\<rparr>"
proof -
  from assms obtain s1 uid where n: "aws_NewSession aws (aws_config loca) s = (None, s1)"
    and t: "tries 3 (liftS (aws_CreateMultipartUpload aws (aws_config loca) (lo_BucketName loca) key)) s1 = Return (Inr uid, s')"
    and m: "mover' = mover\<lparr>s3m_svc := Some (aws_config loca), s3m_multiUploadInitOut := Some uid\<rparr>"
    by (auto simp: S3_MultiPartUploadInit_def with_session_def Let_def ret_def liftS_def
        elim!: call_ReturnE split: option.splits sum.splits)
  have "\<exists>t. objects t = objects s1 \<and>
      liftS (aws_CreateMultipartUpload aws (aws_config loca) (lo_BucketName loca) key) t = Return (Inr uid, s')"
    using t by (rule tries_success) (auto simp: liftS_def dest!: Create_err)
  then show ?thesis using NewSession [OF n] m by (auto simp: liftS_def dest!: Create_ok)
qed

lemma UploadPart_keeps:
  assumes "S3_UploadPart aws mover key loca (int (length buf)) buf n offset s = Return ((Inr u, mover'), s')"
    and "s3m_multiUploadInitOut mover = Some uid"
  shows "\<exists>etag. objects s' = objects s \<and> parts s' uid = parts s uid @ [(etag, n, buf)] \<and>
    mover' = mover\<lparr>s3m_completeParts := s3m_completeParts mover @ [(etag, n)]\<rparr>"
proof -
  let ?P = "\<lambda>rd t. (\<exists>used. buf = used @ rd) \<and> objects t = objects s \<and> parts t = parts s"
  from assms obtain svc etag rd' where
    t: "tries_with 3 buf (\<lambda>reader. liftS (aws_UploadPart aws svc (lo_BucketName loca) key uid n (int (length buf)) reader)) s
        = Return ((Inr etag, rd'), s')"
    and m: "mover' = mover\<lparr>s3m_completeParts := s3m_completeParts mover @ [(etag, n)]\<rparr>"
    by (auto simp: S3_UploadPart_def drop_reader_def ret_def elim!: call_ReturnE split: sum.splits)
  have "\<exists>rd t. ?P rd t \<and> liftS (aws_UploadPart aws svc (lo_BucketName loca) key uid n (int (length buf)) rd) t
      = Return ((Inr etag, rd'), s')"
    using t
  proof (rule tries_with_success)
    fix rd t e rd1 t1
    assume "?P rd t" and "liftS (aws_UploadPart aws svc (lo_BucketName loca) key uid n (int (length buf)) rd) t
      = Return ((Inl e, rd1), t1)"
    then have c: "aws_UploadPart aws svc (lo_BucketName loca) key uid n (int (length buf)) rd t = ((Inl e, rd1), t1)"
      and P: "?P rd t" by (simp_all add: liftS_def)
    obtain u1 where "rd = u1 @ rd1" using UploadPart [OF c] by blast
    moreover obtain u2 where "buf = u2 @ rd" using P by blast
    ultimately have "buf = (u2 @ u1) @ rd1" by simp
    then show "?P rd1 t1" using UploadPart [OF c] UploadPart_err [OF c] P by (intro conjI exI [of _ "u2 @ u1"]) simp_all
  qed auto
  then obtain rd t where P: "?P rd t"
    and c: "aws_UploadPart aws svc (lo_BucketName loca) key uid n (int (length buf)) rd t = ((Inr etag, rd'), s')"
    by (auto simp: liftS_def)
  have "length rd = length buf" using UploadPart_ok [OF c] by simp
  with P have "rd = buf" by auto
  with P UploadPart_ok [OF c] UploadPart [OF c] m show ?thesis by auto
qed

lemma Complete_stores:
  assumes "S3_CompleteMultipartUpload aws mover key loca s = Return (Inr u, s')"
    and "s3m_multiUploadInitOut mover = Some uid" and "s3m_completeParts mover = part_tags (parts s uid)"
    and "ascending (part_numbers (parts s uid))"
  shows "objects s' (lo_BucketName loca) key = Some (concat (part_bodies (parts s uid)))"
proof -
  from assms(1,2) obtain svc where
    t: "tries 3 (liftS (aws_CompleteMultipartUpload aws svc (lo_BucketName loca) key uid (s3m_completeParts mover))) s
        = Return (Inr u, s')"
    by (auto simp: S3_CompleteMultipartUpload_def)
  have "\<exists>t. parts t = parts s \<and>
      liftS (aws_CompleteMultipartUpload aws svc (lo_BucketName loca) key uid (s3m_completeParts mover)) t = Return (Inr u, s')"
    using t by (rule tries_success) (auto simp: liftS_def dest!: Complete_err)
  then show ?thesis using assms(3,4) by (auto simp: liftS_def dest!: Complete_ok)
qed

text \<open>
  The direct copy. What is uploaded is what is left in the reader when the successful try begins,
  which is the whole object when that is the first try.
\<close>

lemma DownloadObj_reads:
  assumes "S3_DownloadObj aws key loca buf s = Return ((Inr n, buf'), s')"
    and "objects s (lo_BucketName loca) key = Some d" and "length d = length buf"
  shows "buf' = d \<and> objects s' = objects s"
proof -
  let ?P = "\<lambda>rd t. length rd = length buf \<and> objects t = objects s"
  from assms(1) obtain s1 where n: "aws_NewSession aws (aws_config loca) s = (None, s1)"
    and t: "tries_with 3 buf (\<lambda>writer. liftS (aws_Download aws (aws_config loca) (lo_BucketName loca) key None writer)) s1
      = Return ((Inr n, buf'), s')"
    by (auto simp: S3_DownloadObj_def with_session_def ret_def liftS_def elim!: call_ReturnE split: option.splits)
  have "\<exists>rd t. ?P rd t \<and> liftS (aws_Download aws (aws_config loca) (lo_BucketName loca) key None rd) t = Return ((Inr n, buf'), s')"
    using t by (rule tries_with_success) (auto simp: liftS_def NewSession [OF n] dest!: Download)
  then obtain rd t where P: "?P rd t"
    and d: "aws_Download aws (aws_config loca) (lo_BucketName loca) key None rd t = ((Inr n, buf'), s')"
    by (auto simp: liftS_def)
  show ?thesis using Download [OF d] Download_whole [OF d] P assms(2,3) by (simp add: copy_at_whole)
qed

lemma UploadObj_stores:
  assumes "S3_UploadObj aws key loca buf s = Return (Inr u, s')"
  shows "\<exists>used rest. buf = used @ rest \<and>
    objects s' = (objects s)(lo_BucketName loca := (objects s (lo_BucketName loca))(key \<mapsto> rest))"
proof -
  let ?P = "\<lambda>rd t. (\<exists>used. buf = used @ rd) \<and> objects t = objects s"
  from assms obtain s1 rd' where n: "aws_NewSession aws (aws_config loca) s = (None, s1)"
    and t: "tries_with 3 buf (\<lambda>reader. liftS (aws_Upload aws (aws_config loca) (lo_BucketName loca) key reader)) s1
      = Return ((Inr u, rd'), s')"
    by (auto simp: S3_UploadObj_def with_session_def drop_reader_def ret_def liftS_def elim!: call_ReturnE split: option.splits)
  have "\<exists>rd t. ?P rd t \<and> liftS (aws_Upload aws (aws_config loca) (lo_BucketName loca) key rd) t = Return ((Inr u, rd'), s')"
    using t
  proof (rule tries_with_success)
    show "?P buf s1" using NewSession [OF n] by simp
  next
    fix rd t e rd1 t1
    assume P: "?P rd t" and "liftS (aws_Upload aws (aws_config loca) (lo_BucketName loca) key rd) t = Return ((Inl e, rd1), t1)"
    then have c: "aws_Upload aws (aws_config loca) (lo_BucketName loca) key rd t = ((Inl e, rd1), t1)"
      by (simp add: liftS_def)
    obtain u1 u2 where "rd = u1 @ rd1" "buf = u2 @ rd" using Upload [OF c] P by blast
    then show "?P rd1 t1" using Upload_err [OF c] P by (intro conjI exI [of _ "u2 @ u1"]) simp_all
  qed
  then obtain rd t where P: "?P rd t"
    and c: "aws_Upload aws (aws_config loca) (lo_BucketName loca) key rd t = ((Inr u, rd'), s')"
    by (auto simp: liftS_def)
  from P Upload_ok [OF c] show ?thesis by auto
qed

end

text \<open>Between two locations of AWS the contract of a copy follows.\<close>

definition aws_stages :: "('s \<Rightarrow> string \<Rightarrow> aws_parts) \<Rightarrow> 's \<Rightarrow> any_mover \<Rightarrow> string \<Rightarrow> byte list list \<Rightarrow> bool" where
  "aws_stages parts s m key bodies \<longleftrightarrow>
     (\<exists>mover uid. m = MkS3 mover \<and> s3m_multiUploadInitOut mover = Some uid \<and>
        s3m_completeParts mover = part_tags (parts s uid) \<and> part_bodies (parts s uid) = bodies \<and>
        ascending (part_numbers (parts s uid)))"

locale aws_copy = aws_cloud "dm_aws env" objects parts
  for env :: "'s dm_env" and objects parts +
  fixes srcLoca destLoca :: LocationInfo
  assumes src_aws: "lo_StorType srcLoca = STOR_TYPE_AWS_S3"
    and dest_aws: "lo_StorType destLoca = STOR_TYPE_AWS_S3"
begin

lemma worker_kind_aws: "worker_kind STOR_TYPE_AWS_S3 = Some WS3"
  by (simp add: worker_kind_def stor_types)

lemma moveObj_stores:
  assumes "moveObj env obj srcLoca destLoca s = Return (Inr u, s')" and "0 < obj_Size obj"
    and "objects s (lo_BucketName srcLoca) (in_bucket (lo_VirBucket srcLoca) (obj_ObjectKey obj)) = Some c"
    and "int (length c) = obj_Size obj"
  shows "\<exists>used rest. c = used @ rest \<and>
    objects s' = (objects s)(lo_BucketName destLoca := (objects s (lo_BucketName destLoca))
      ((if lo_VirBucket srcLoca \<noteq> [] then lo_VirBucket destLoca @ ''/'' @ obj_ObjectKey obj
        else obj_ObjectKey obj) \<mapsto> rest))"
proof -
  let ?up = "if lo_VirBucket srcLoca \<noteq> [] then lo_VirBucket destLoca @ ''/'' @ obj_ObjectKey obj else obj_ObjectKey obj"
  from assms(1,2) obtain n buf s1 where
    d: "S3_DownloadObj (dm_aws env) (in_bucket (lo_VirBucket srcLoca) (obj_ObjectKey obj)) srcLoca
      (new_buf (obj_Size obj)) s = Return ((Inr n, buf), s1)"
    and u: "S3_UploadObj (dm_aws env) ?up destLoca buf s1 = Return (Inr u, s')"
    by (auto simp: moveObj_def Let_def src_aws dest_aws worker_kind_aws any_DownloadObj_def any_UploadObj_def ret_def
        elim!: call_ReturnE split: sum.splits)
  have "length c = length (new_buf (obj_Size obj))" using assms(4) by simp
  from DownloadObj_reads [OF d assms(3) this] UploadObj_stores [OF u] show ?thesis by simp
qed

lemma ascending_snoc: "ascending ns \<Longrightarrow> n = int (length ns) + 1 \<Longrightarrow> ascending (ns @ [n])"
  by (simp add: ascending_def)

lemma dinit_keeps:
  assumes "multiPartDownloadInit env srcLoca s = Return ((Inr u, m), s')"
  shows "objects s' = objects s \<and> (\<exists>mover. m = Some (MkS3 mover))"
  using assms
  by (auto simp: multiPartDownloadInit_def src_aws worker_kind_aws wrap_mover_def S3_MultiPartDownloadInit_def
      with_session_def ret_def liftS_def elim!: call_ReturnE split: option.splits dest!: NewSession)

lemma uinit_keeps:
  assumes "multiPartUploadInit env key destLoca s = Return ((Inr u, m), s')"
  shows "objects s' = objects s \<and> (\<exists>um. m = Some um \<and> aws_stages parts s' um key [])"
proof -
  from assms obtain mover where
    i: "S3_MultiPartUploadInit (dm_aws env) new_S3Mover key destLoca s = Return ((Inr u, mover), s')"
    and m: "m = Some (MkS3 mover)"
    by (auto simp: multiPartUploadInit_def dest_aws worker_kind_aws wrap_mover_def ret_def elim!: call_ReturnE)
  from UploadInit_keeps [OF i] m show ?thesis
    by (auto simp: aws_stages_def new_S3Mover_def ascending_def)
qed

lemma part_keeps:
  assumes "any_UploadPart env um key destLoca (int (length buf)) buf (int (length ps) + 1) offset s =
      Return ((Inr u, um'), s')"
    and "aws_stages parts s um key ps"
  shows "objects s' = objects s \<and> aws_stages parts s' um' key (ps @ [buf])"
proof -
  from assms(2) obtain mover uid where um: "um = MkS3 mover" and uid: "s3m_multiUploadInitOut mover = Some uid"
    and tags: "s3m_completeParts mover = part_tags (parts s uid)" and bodies: "part_bodies (parts s uid) = ps"
    and asc: "ascending (part_numbers (parts s uid))" unfolding aws_stages_def by blast
  from assms(1) um obtain mover' where
    up: "S3_UploadPart (dm_aws env) mover key destLoca (int (length buf)) buf (int (length ps) + 1) offset s = Return ((Inr u, mover'), s')"
    and um': "um' = MkS3 mover'"
    by (auto simp: any_UploadPart_def wrap_mover_def ret_def elim!: call_ReturnE)
  have len: "length (part_numbers (parts s uid)) = length ps" using bodies by auto
  from UploadPart_keeps [OF up uid] obtain etag where "objects s' = objects s"
    and "parts s' uid = parts s uid @ [(etag, int (length ps) + 1, buf)]"
    and "mover' = mover\<lparr>s3m_completeParts := s3m_completeParts mover @ [(etag, int (length ps) + 1)]\<rparr>" by blast
  then show ?thesis
    using um' uid tags bodies ascending_snoc [OF asc, of "int (length ps) + 1"] len
    by (simp add: aws_stages_def)
qed

lemma complete_keeps:
  assumes "completeMultipartUpload env key destLoca (Some um) s = Return (Inr u, s')"
    and "aws_stages parts s um key ps"
  shows "objects s' (lo_BucketName destLoca) key = Some (concat ps)"
  using assms Complete_stores
  by (auto simp: completeMultipartUpload_def dest_aws worker_kind_aws aws_stages_def any_CompleteMultipartUpload_def)

end

sublocale aws_copy < copy: copy_contract env srcLoca destLoca
  "\<lambda>s key. objects s (lo_BucketName srcLoca) key" "\<lambda>s key. objects s (lo_BucketName destLoca) key"
  "\<lambda>m. \<exists>mover. m = MkS3 mover" "aws_stages parts"
proof unfold_locales
  fix s u m s'
  assume "multiPartDownloadInit env srcLoca s = Return ((Inr u, m), s')"
  from dinit_keeps [OF this]
  show "objects s' (lo_BucketName srcLoca) = objects s (lo_BucketName srcLoca) \<and> (\<exists>dm. m = Some dm \<and> (\<exists>mover. dm = MkS3 mover))"
    by auto
next
  fix dm key buf start "end" s n buf' s' c
  assume d: "any_DownloadRange env dm key srcLoca buf start end s = Return ((Inr n, buf'), s')"
    and m: "\<exists>mover. dm = MkS3 mover" and c: "objects s (lo_BucketName srcLoca) key = Some c"
    and b: "0 \<le> start" "start \<le> end" "end < int (length c)" "length buf = nat (end - start + 1)"
  from m d obtain mover where "S3_DownloadRange (dm_aws env) mover key srcLoca buf start end s = Return ((Inr n, buf'), s')"
    by (auto simp: any_DownloadRange_def)
  from DownloadRange_keeps [OF this c b]
  show "buf' = byte_part start (end - start + 1) c \<and>
      objects s' (lo_BucketName srcLoca) = objects s (lo_BucketName srcLoca) \<and> aws_stages parts s' = aws_stages parts s"
    by (auto simp: aws_stages_def fun_eq_iff)
next
  fix key s u m s'
  assume "multiPartUploadInit env key destLoca s = Return ((Inr u, m), s')"
  from uinit_keeps [OF this]
  show "objects s' (lo_BucketName srcLoca) = objects s (lo_BucketName srcLoca) \<and>
      (\<exists>um. m = Some um \<and> aws_stages parts s' um key [])" by simp
next
  fix um key buf ps offset s u um' s'
  assume "any_UploadPart env um key destLoca (int (length buf)) buf (int (length ps) + 1) offset s = Return ((Inr u, um'), s')"
    and "aws_stages parts s um key ps"
  from part_keeps [OF this]
  show "objects s' (lo_BucketName srcLoca) = objects s (lo_BucketName srcLoca) \<and> aws_stages parts s' um' key (ps @ [buf])"
    by simp
next
  fix key um s u s' ps
  assume "completeMultipartUpload env key destLoca (Some um) s = Return (Inr u, s')" and "aws_stages parts s um key ps"
  then show "objects s' (lo_BucketName destLoca) key = Some (concat ps)" by (rule complete_keeps)
qed

context aws_copy begin

lemmas multipart_copies = copy.multipartMoveObj_copies

end

end
