(* ===== verification/S3_Metadata_Correct.thy ===== *)
theory S3_Metadata_Correct
  imports S3_Metadata
begin

text \<open>
  The metadata service as a map from buckets and keys to objects: creating is an update of the map,
  deleting sets the mark of a deleted object, listing returns the objects that are not deleted. The
  contract is the locale \<open>object_catalogue\<close>, which every database that keeps \<open>mgo_store\<close> gives.
\<close>

section \<open>The catalogue\<close>

definition meta_of :: "('s \<Rightarrow> string \<Rightarrow> doc list) \<Rightarrow> 's \<Rightarrow> string \<Rightarrow> string \<Rightarrow> Object option" where
  "meta_of docs s bucket key =
     map_option dec_Object (List.find (matches (object_query key)) (docs s bucket))"

definition live :: "Object \<Rightarrow> bool" where
  "live x = (obj_InitFlag x \<noteq> ''0'' \<and> obj_IsDeleteMarker x \<noteq> ''1'')"

text \<open>What a client of the catalogue relies on; \<open>at bucket key\<close> is the object stored there.\<close>

locale object_catalogue =
  fixes create :: "Object \<Rightarrow> ('s, string + string) prog"
    and delete :: "string \<Rightarrow> string \<Rightarrow> ('s, string + string) prog"
    and get :: "string \<Rightarrow> string \<Rightarrow> ('s, string + Object) prog"
    and at :: "'s \<Rightarrow> string \<Rightarrow> string \<Rightarrow> Object option"
  assumes create_ok: "create x s = Return (Inr m, s') \<Longrightarrow>
        at s' = (at s)(obj_BucketName x := (at s (obj_BucketName x))(obj_ObjectKey x \<mapsto> x))"
    and create_err: "create x s = Return (Inl e, s') \<Longrightarrow> at s' = at s"
    and get_ok: "get b k s = Return (Inr x, s') \<Longrightarrow> at s' = at s \<and> at s b k = Some x"
    and get_err: "get b k s = Return (Inl e, s') \<Longrightarrow> at s' = at s"
    and delete_ok: "delete b k s = Return (Inr m, s') \<Longrightarrow>
        \<exists>x. at s b k = Some x \<and> at s' = (at s)(obj_BucketName x :=
          (at s (obj_BucketName x))(obj_ObjectKey x \<mapsto> x\<lparr>obj_IsDeleteMarker := ''1''\<rparr>))"
    and delete_err: "delete b k s = Return (Inl e, s') \<Longrightarrow> at s' = at s"
begin

text \<open>Every object is where its own fields say, and this is kept.\<close>

definition well_placed :: "'s \<Rightarrow> bool" where
  "well_placed s \<longleftrightarrow> (\<forall>b k x. at s b k = Some x \<longrightarrow> obj_BucketName x = b \<and> obj_ObjectKey x = k)"

lemma create_well_placed:
  assumes "well_placed s" and "create x s = Return (r, s')"
  shows "well_placed s'"
proof (cases r)
  case (Inl e)
  from create_err [OF assms(2) [unfolded Inl]] assms(1) show ?thesis by (simp add: well_placed_def)
next
  case (Inr m)
  from assms(1) show ?thesis by (simp add: well_placed_def create_ok [OF assms(2) [unfolded Inr]])
qed

lemma delete_well_placed:
  assumes "well_placed s" and "delete b k s = Return (r, s')"
  shows "well_placed s'"
proof (cases r)
  case (Inl e)
  from delete_err [OF assms(2) [unfolded Inl]] assms(1) show ?thesis by (simp add: well_placed_def)
next
  case (Inr m)
  from delete_ok [OF assms(2) [unfolded Inr]] obtain x where x: "at s b k = Some x"
    and upd: "at s' = (at s)(obj_BucketName x :=
        (at s (obj_BucketName x))(obj_ObjectKey x \<mapsto> x\<lparr>obj_IsDeleteMarker := ''1''\<rparr>))" by blast
  from assms(1) show ?thesis by (simp add: well_placed_def upd)
qed

lemma deleted_object:
  assumes "well_placed s" and "delete b k s = Return (Inr m, s')"
  shows "\<exists>x. at s b k = Some x \<and> at s' = (at s)(b := (at s b)(k \<mapsto> x\<lparr>obj_IsDeleteMarker := ''1''\<rparr>))"
proof -
  from delete_ok [OF assms(2)] obtain x where x: "at s b k = Some x"
    and upd: "at s' = (at s)(obj_BucketName x :=
        (at s (obj_BucketName x))(obj_ObjectKey x \<mapsto> x\<lparr>obj_IsDeleteMarker := ''1''\<rparr>))" by blast
  from assms(1) x have "obj_BucketName x = b" "obj_ObjectKey x = k" by (simp_all add: well_placed_def)
  with x upd show ?thesis by simp
qed

end

section \<open>The service keeps the contract\<close>

lemma matches_object_query:
  "matches (object_query k) d \<longleftrightarrow> lookup d ''objectkey'' = Some (BString k)"
  by (simp add: object_query_def field_is_plain)

lemma matches_enc_Object [simp]: "matches (object_query k) (enc_Object x) \<longleftrightarrow> k = obj_ObjectKey x"
  by (auto simp: matches_object_query enc_Object_def)

lemma meta_insert:
  assumes "docs s' = (docs s)(b := docs s b @ [enc_Object x])"
    and "List.find (matches (object_query (obj_ObjectKey x))) (docs s b) = None"
  shows "meta_of docs s' = (meta_of docs s)(b := (meta_of docs s b)(obj_ObjectKey x \<mapsto> x))"
  using assms by (intro ext) (auto simp: meta_of_def find_append split: option.splits)

lemma meta_replace:
  assumes "docs s' = (docs s)(b := replace_first (matches (object_query (obj_ObjectKey x))) (enc_Object x) (docs s b))"
    and "List.find (matches (object_query (obj_ObjectKey x))) (docs s b) \<noteq> None"
  shows "meta_of docs s' = (meta_of docs s)(b := (meta_of docs s b)(obj_ObjectKey x \<mapsto> x))"
proof (intro ext)
  fix b' k
  show "meta_of docs s' b' k = ((meta_of docs s)(b := (meta_of docs s b)(obj_ObjectKey x \<mapsto> x))) b' k"
  proof (cases "b' = b \<and> k \<noteq> obj_ObjectKey x")
    case True
    then have "List.find (matches (object_query k)) (replace_first (matches (object_query (obj_ObjectKey x))) (enc_Object x) (docs s b)) =
        List.find (matches (object_query k)) (docs s b)"
      by (intro find_replace_first) (auto simp: matches_object_query enc_Object_def)
    with True show ?thesis by (simp add: meta_of_def assms(1))
  next
    case False
    then show ?thesis by (auto simp: meta_of_def assms(1) find_replaced [OF assms(2)])
  qed
qed

context mgo_store begin

lemma db_GetObject_result:
  assumes "db_GetObject ops b k s = Return ((err, x), s')"
  shows "docs s' = docs s \<and>
     (err = NoError \<and> meta_of docs s b k = Some x \<or>
      err = NoSuchObject \<and> meta_of docs s b k = None \<or> err = InternalError)"
proof -
  obtain r t where one: "op_One ops b (object_query k) s = (r, t)" by (cases "op_One ops b (object_query k) s")
  show ?thesis
  proof (cases r)
    case (Inl e)
    then show ?thesis
      using assms one One_NotFound [of b "object_query k" s t] One_docs [OF one]
      by (auto simp: db_GetObject_def call_def liftS_def ret_def meta_of_def split: if_splits)
  next
    case (Inr d)
    then show ?thesis
      using assms one One_ok [of b "object_query k" s d t]
      by (auto simp: db_GetObject_def call_def liftS_def ret_def meta_of_def)
  qed
qed

lemma db_CreateObject_result:
  assumes "db_CreateObject ops x s = Return (err, s')"
  shows "err = NoError \<and> meta_of docs s' = (meta_of docs s)(obj_BucketName x :=
            (meta_of docs s (obj_BucketName x))(obj_ObjectKey x \<mapsto> x)) \<or>
         err = InternalError \<and> docs s' = docs s"
proof -
  let ?b = "obj_BucketName x" and ?q = "object_query (obj_ObjectKey x)"
  obtain r t where one: "op_One ops ?b ?q s = (r, t)" by (cases "op_One ops ?b ?q s")
  note dt = One_docs [OF one]
  show ?thesis
  proof (cases "r = Inl ErrNotFound")
    case True
    then have none: "List.find (matches ?q) (docs s ?b) = None" using One_NotFound one by blast
    obtain e u where ins: "op_Insert ops ?b (enc_Object x) t = (e, u)"
      by (cases "op_Insert ops ?b (enc_Object x) t")
    with assms True one have "s' = u" "err = (case e of None \<Rightarrow> NoError | Some _ \<Rightarrow> InternalError)"
      by (auto simp: db_CreateObject_def call_def liftS_def ret_def)
    with ins none dt show ?thesis
      by (cases e) (auto dest!: Insert_ok Insert_err intro!: meta_insert)
  next
    case False
    with assms one dt show ?thesis
      by (auto simp: db_CreateObject_def call_def liftS_def ret_def)
  qed
qed

lemma db_UpdateObject_result:
  assumes "db_UpdateObject ops x s = Return (err, s')"
  shows "err = NoError \<and> meta_of docs s' = (meta_of docs s)(obj_BucketName x :=
            (meta_of docs s (obj_BucketName x))(obj_ObjectKey x \<mapsto> x)) \<or>
         err \<in> {NoSuchObject, InternalError} \<and> docs s' = docs s"
proof -
  let ?b = "obj_BucketName x" and ?q = "object_query (obj_ObjectKey x)"
  obtain e u where upd: "op_Update ops ?b ?q (enc_Object x) s = (e, u)"
    by (cases "op_Update ops ?b ?q (enc_Object x) s")
  with assms have s': "s' = u"
    and err: "err = (case e of None \<Rightarrow> NoError | Some e \<Rightarrow> if e = ErrNotFound then NoSuchObject else InternalError)"
    by (auto simp: db_UpdateObject_def call_def liftS_def ret_def)
  show ?thesis
  proof (cases e)
    case None
    with upd have "List.find (matches ?q) (docs s ?b) \<noteq> None"
      and "docs u = (docs s)(?b := replace_first (matches ?q) (enc_Object x) (docs s ?b))"
      using Update_ok by blast+
    then show ?thesis using None s' err meta_replace [of docs u s ?b x] by simp
  next
    case (Some e')
    with upd have "docs u = docs s" using Update_err by blast
    then show ?thesis using Some s' err by simp
  qed
qed

lemma meta_of_docs: "docs s' = docs s \<Longrightarrow> meta_of docs s' = meta_of docs s"
  by (intro ext) (simp add: meta_of_def)

lemma svc_CreateObject_result:
  assumes "svc_CreateObject ops x s = Return (r, s')"
  shows "case r of
      Inr m \<Rightarrow> meta_of docs s' = (meta_of docs s)(obj_BucketName x :=
            (meta_of docs s (obj_BucketName x))(obj_ObjectKey x \<mapsto> x))
    | Inl e \<Rightarrow> meta_of docs s' = meta_of docs s"
proof -
  from assms obtain err obj t where lookup: "db_GetObject ops (obj_BucketName x) (obj_ObjectKey x) s = Return ((err, obj), t)"
    and rest: "(if s3e_Code err \<noteq> ERR_OK \<and> s3e_Code err \<noteq> StatusNotFound then ret (Inl (Error_text err))
       else call (if s3e_Code err = StatusNotFound then db_CreateObject ops x else db_UpdateObject ops x) (\<lambda>err1.
              ret (if s3e_Code err1 \<noteq> ERR_OK then Inl (Error_text err)
                   else Inr ''Create object successfully.''))) t = Return (r, s')"
    unfolding svc_CreateObject_def by (elim call_ReturnE) auto
  note same = meta_of_docs [OF db_GetObject_result [OF lookup, THEN conjunct1]]
  show ?thesis
  proof (cases "s3e_Code err \<noteq> ERR_OK \<and> s3e_Code err \<noteq> StatusNotFound")
    case True
    with rest same show ?thesis by (auto simp: ret_def)
  next
    case False
    with rest obtain err1 where op: "(if s3e_Code err = StatusNotFound then db_CreateObject ops x else db_UpdateObject ops x) t = Return (err1, s')"
      and r: "r = (if s3e_Code err1 \<noteq> ERR_OK then Inl (Error_text err) else Inr ''Create object successfully.'')"
      by (auto simp: ret_def elim!: call_ReturnE)
    from op have "err1 = NoError \<and> meta_of docs s' = (meta_of docs t)(obj_BucketName x :=
            (meta_of docs t (obj_BucketName x))(obj_ObjectKey x \<mapsto> x)) \<or>
         err1 \<in> {NoSuchObject, InternalError} \<and> docs s' = docs t"
      using db_CreateObject_result [of x t err1 s'] db_UpdateObject_result [of x t err1 s']
      by (auto split: if_splits)
    with r same show ?thesis by (auto simp: s3_errors dest: meta_of_docs)
  qed
qed

lemma svc_GetObject_result:
  assumes "svc_GetObject ops b k s = Return (r, s')"
  shows "docs s' = docs s \<and> (case r of Inr x \<Rightarrow> meta_of docs s b k = Some x | Inl _ \<Rightarrow> True)"
proof -
  from assms obtain err obj where lookup: "db_GetObject ops b k s = Return ((err, obj), s')"
    and r: "r = (if s3e_Code err \<noteq> ERR_OK then Inl (Error_text err) else Inr obj)"
    by (auto simp: svc_GetObject_def ret_def elim!: call_ReturnE)
  from db_GetObject_result [OF lookup] r show ?thesis by (auto simp: s3_errors)
qed

lemma svc_DeleteObject_result:
  assumes "svc_DeleteObject ops b k s = Return (r, s')"
  shows "case r of
      Inr m \<Rightarrow> \<exists>x. meta_of docs s b k = Some x \<and> meta_of docs s' = (meta_of docs s)(obj_BucketName x :=
          (meta_of docs s (obj_BucketName x))(obj_ObjectKey x \<mapsto> x\<lparr>obj_IsDeleteMarker := ''1''\<rparr>))
    | Inl e \<Rightarrow> meta_of docs s' = meta_of docs s"
proof -
  from assms obtain err x t where lookup: "db_GetObject ops b k s = Return ((err, x), t)"
    and rest: "(if s3e_Code err \<noteq> ERR_OK then ret (Inl (Error_text err))
       else call (db_UpdateObject ops (x\<lparr>obj_IsDeleteMarker := ''1''\<rparr>)) (\<lambda>err1.
              ret (if s3e_Code err1 \<noteq> ERR_OK then Inl (Error_text err)
                   else Inr ''Delete object successfully.''))) t = Return (r, s')"
    unfolding svc_DeleteObject_def by (elim call_ReturnE) auto
  note got = db_GetObject_result [OF lookup]
  note same = meta_of_docs [OF got [THEN conjunct1]]
  show ?thesis
  proof (cases "s3e_Code err \<noteq> ERR_OK")
    case True
    with rest same show ?thesis by (auto simp: ret_def)
  next
    case False
    with rest obtain err1 where op: "db_UpdateObject ops (x\<lparr>obj_IsDeleteMarker := ''1''\<rparr>) t = Return (err1, s')"
      and r: "r = (if s3e_Code err1 \<noteq> ERR_OK then Inl (Error_text err) else Inr ''Delete object successfully.'')"
      by (auto simp: ret_def elim!: call_ReturnE)
    from False got have "meta_of docs s b k = Some x" by (auto simp: s3_errors)
    with db_UpdateObject_result [OF op] r same show ?thesis by (auto simp: s3_errors dest: meta_of_docs)
  qed
qed

end

sublocale mgo_store < catalogue: object_catalogue
  "svc_CreateObject ops" "svc_DeleteObject ops" "svc_GetObject ops" "meta_of docs"
  by unfold_locales
    (drule svc_CreateObject_result svc_DeleteObject_result svc_GetObject_result; auto dest: meta_of_docs)+

section \<open>Every collection holds each key once\<close>

text \<open>
  A collection is well formed when it holds messages of objects and of buckets, no two with the same
  key or the same name. A call of the service, successful or not, keeps this for every collection,
  and puts buckets nowhere but into \<open>metadatabucket\<close>, which is also where the objects of a bucket of
  that name go.
\<close>

definition values_of :: "string \<Rightarrow> doc list \<Rightarrow> string list" where
  "values_of f ds = List.map_filter (\<lambda>d. case lookup d f of Some (BString v) \<Rightarrow> Some v | _ \<Rightarrow> None) ds"

abbreviation keys_of :: "doc list \<Rightarrow> string list" where
  "keys_of \<equiv> values_of ''objectkey''"

abbreviation names_of :: "doc list \<Rightarrow> string list" where
  "names_of \<equiv> values_of ''name''"

definition objects_only :: "doc list \<Rightarrow> bool" where
  "objects_only ds \<longleftrightarrow> (\<forall>d \<in> set ds. \<exists>x. d = enc_Object x)"

definition well_stored :: "doc list \<Rightarrow> bool" where
  "well_stored ds \<longleftrightarrow> (\<forall>d \<in> set ds. (\<exists>x. d = enc_Object x) \<or> (\<exists>b. d = enc_Bucket b)) \<and>
     distinct (keys_of ds) \<and> distinct (names_of ds)"

definition s3_stored :: "('s \<Rightarrow> string \<Rightarrow> doc list) \<Rightarrow> 's \<Rightarrow> bool" where
  "s3_stored docs s \<longleftrightarrow> (\<forall>c. well_stored (docs s c) \<and> (c \<noteq> BucketMD \<longrightarrow> objects_only (docs s c)))"

lemma values_of_simps [simp]:
  "values_of f [] = []"
  "values_of f (d # ds) = (case lookup d f of Some (BString v) \<Rightarrow> [v] | _ \<Rightarrow> []) @ values_of f ds"
  "values_of f (ds @ es) = values_of f ds @ values_of f es"
  by (simp_all add: values_of_def map_filter_def split: option.splits bval.splits)

lemma values_enc:
  "lookup (enc_Object x) ''objectkey'' = Some (BString (obj_ObjectKey x))" "lookup (enc_Object x) ''name'' = None"
  "lookup (enc_Bucket b) ''objectkey'' = None" "lookup (enc_Bucket b) ''name'' = Some (BString (bk_Name b))"
  by (simp_all add: enc_Object_def enc_Bucket_def)

lemma set_values_of: "v \<in> set (values_of f ds) \<longleftrightarrow> (\<exists>d \<in> set ds. lookup d f = Some (BString v))"
  by (induction ds) (auto split: option.splits bval.splits)

lemma find_value_None:
  "CHR ''.'' \<notin> set f \<Longrightarrow> List.find (matches (Match [(f, BString v)])) ds = None \<longleftrightarrow> v \<notin> set (values_of f ds)"
  by (auto simp: find_None_iff set_values_of field_is_plain)

lemma values_of_replace:
  assumes "\<And>d. d \<in> set ds \<Longrightarrow> p d \<Longrightarrow> lookup d f = lookup e f"
  shows "values_of f (replace_first p e ds) = values_of f ds"
  using assms by (induction ds) auto

lemma distinct_value:
  "distinct (values_of f ds) \<Longrightarrow> d \<in> set ds \<Longrightarrow> d' \<in> set ds \<Longrightarrow>
     lookup d f = Some (BString v) \<Longrightarrow> lookup d' f = Some (BString v) \<Longrightarrow> d = d'"
  by (induction ds) (auto simp: set_values_of)

lemma find_key_None:
  "List.find (matches (object_query k)) ds = None \<longleftrightarrow> k \<notin> set (keys_of ds)"
  unfolding object_query_def by (rule find_value_None) simp

lemma find_name_None:
  "List.find (matches (md_bucket_query n)) ds = None \<longleftrightarrow> n \<notin> set (names_of ds)"
  unfolding md_bucket_query_def by (rule find_value_None) simp

lemma find_key_Some:
  assumes "well_stored ds"
  shows "List.find (matches (object_query k)) ds = Some (enc_Object x) \<longleftrightarrow> enc_Object x \<in> set ds \<and> obj_ObjectKey x = k"
proof
  assume "List.find (matches (object_query k)) ds = Some (enc_Object x)"
  then have "enc_Object x \<in> set ds" "matches (object_query k) (enc_Object x)" using find_SomeD' by fast+
  then show "enc_Object x \<in> set ds \<and> obj_ObjectKey x = k" by simp
next
  assume x: "enc_Object x \<in> set ds \<and> obj_ObjectKey x = k"
  then have "k \<in> set (keys_of ds)" using values_enc(1) [of x] unfolding set_values_of by blast
  then obtain d where d: "List.find (matches (object_query k)) ds = Some d" using find_key_None by fastforce
  then have "d \<in> set ds" "lookup d ''objectkey'' = Some (BString k)"
    using find_SomeD' [OF d] by (auto simp: matches_object_query)
  then have "d = enc_Object x"
    using assms x distinct_value [of "''objectkey''" ds d "enc_Object x" k]
    by (simp add: well_stored_def values_enc)
  with d show "List.find (matches (object_query k)) ds = Some (enc_Object x)" by simp
qed

lemma well_stored_object:
  "well_stored ds \<Longrightarrow> obj_ObjectKey x \<notin> set (keys_of ds) \<Longrightarrow> well_stored (ds @ [enc_Object x])"
  by (auto simp: well_stored_def values_enc)

lemma well_stored_bucket:
  "well_stored ds \<Longrightarrow> bk_Name b \<notin> set (names_of ds) \<Longrightarrow> well_stored (ds @ [enc_Bucket b])"
  by (auto simp: well_stored_def values_enc)

lemma well_stored_replace_object:
  assumes "well_stored ds"
  shows "well_stored (replace_first (matches (object_query (obj_ObjectKey x))) (enc_Object x) ds)"
proof -
  let ?p = "matches (object_query (obj_ObjectKey x))"
  have "lookup d f = lookup (enc_Object x) f" if "d \<in> set ds" "?p d" "f \<in> {''objectkey'', ''name''}" for d f
    using assms that by (auto simp: well_stored_def matches_object_query values_enc)
  then have "keys_of (replace_first ?p (enc_Object x) ds) = keys_of ds"
      "names_of (replace_first ?p (enc_Object x) ds) = names_of ds"
    by (simp_all add: values_of_replace)
  with assms set_replace_first [of ?p "enc_Object x" ds] show ?thesis unfolding well_stored_def by auto
qed

lemma well_stored_replace_bucket:
  assumes "well_stored ds"
  shows "well_stored (replace_first (matches (md_bucket_query (bk_Name b))) (enc_Bucket b) ds)"
proof -
  let ?p = "matches (md_bucket_query (bk_Name b))"
  have "lookup d f = lookup (enc_Bucket b) f" if "d \<in> set ds" "?p d" "f \<in> {''objectkey'', ''name''}" for d f
    using assms that by (auto simp: well_stored_def md_bucket_query_def field_is_plain values_enc)
  then have "keys_of (replace_first ?p (enc_Bucket b) ds) = keys_of ds"
      "names_of (replace_first ?p (enc_Bucket b) ds) = names_of ds"
    by (simp_all add: values_of_replace)
  with assms set_replace_first [of ?p "enc_Bucket b" ds] show ?thesis unfolding well_stored_def by auto
qed

lemma objects_only_append: "objects_only ds \<Longrightarrow> objects_only (ds @ [enc_Object x])"
  by (auto simp: objects_only_def)

lemma objects_only_replace: "objects_only ds \<Longrightarrow> objects_only (replace_first p (enc_Object x) ds)"
  using set_replace_first [of p "enc_Object x" ds] by (auto simp: objects_only_def)

lemma s3_stored_empty: "\<forall>c. docs s c = [] \<Longrightarrow> s3_stored docs s"
  by (simp add: s3_stored_def well_stored_def objects_only_def)

lemma s3_stored_same: "s3_stored docs s \<Longrightarrow> docs s' = docs s \<Longrightarrow> s3_stored docs s'"
  by (simp add: s3_stored_def)

text \<open>The calls of the service; those that only read may be among them.\<close>

inductive s3_step :: "'s mgo_ops \<Rightarrow> 's \<Rightarrow> 's \<Rightarrow> bool" for ops where
  step_ListBuckets: "svc_ListBuckets ops i s = Return (bs, s') \<Longrightarrow> s3_step ops s s'"
| step_CreateBucket: "svc_CreateBucket ops y s = Return (r, s') \<Longrightarrow> s3_step ops s s'"
| step_GetBucket: "svc_GetBucket ops n s = Return (y', s') \<Longrightarrow> s3_step ops s s'"
| step_DeleteBucket: "svc_DeleteBucket ops n s = Return (r, s') \<Longrightarrow> s3_step ops s s'"
| step_ListObjects: "svc_ListObjects ops b s = Return (xs, s') \<Longrightarrow> s3_step ops s s'"
| step_CreateObject: "svc_CreateObject ops x s = Return (r, s') \<Longrightarrow> s3_step ops s s'"
| step_UpdateObject: "svc_UpdateObject ops x s = Return (r, s') \<Longrightarrow> s3_step ops s s'"
| step_GetObject: "svc_GetObject ops b k s = Return (x', s') \<Longrightarrow> s3_step ops s s'"
| step_DeleteObject: "svc_DeleteObject ops b k s = Return (r, s') \<Longrightarrow> s3_step ops s s'"

context mgo_store begin

lemma db_CreateObject_stored:
  assumes "s3_stored docs s" and "db_CreateObject ops x s = Return (err, s')"
  shows "s3_stored docs s'"
proof -
  let ?b = "obj_BucketName x" and ?q = "object_query (obj_ObjectKey x)"
  obtain r t where one: "op_One ops ?b ?q s = (r, t)" by (cases "op_One ops ?b ?q s")
  note dt = One_docs [OF one]
  show ?thesis
  proof (cases "r = Inl ErrNotFound")
    case True
    then have "List.find (matches ?q) (docs s ?b) = None" using One_NotFound one by blast
    then have new: "obj_ObjectKey x \<notin> set (keys_of (docs t ?b))" by (simp add: dt find_key_None)
    obtain e u where ins: "op_Insert ops ?b (enc_Object x) t = (e, u)"
      by (cases "op_Insert ops ?b (enc_Object x) t")
    with assms True one have "s' = u" by (auto simp: db_CreateObject_def call_def liftS_def ret_def)
    with ins new assms(1) dt show ?thesis
      by (cases e) (auto dest!: Insert_ok Insert_err simp: s3_stored_def intro!: well_stored_object objects_only_append)
  next
    case False
    with assms one dt show ?thesis
      by (auto simp: db_CreateObject_def call_def liftS_def ret_def intro: s3_stored_same)
  qed
qed

lemma db_CreateBucket_stored:
  assumes "s3_stored docs s" and "db_CreateBucket ops b s = Return (err, s')"
  shows "s3_stored docs s'"
proof -
  let ?q = "md_bucket_query (bk_Name b)"
  obtain r t where one: "op_One ops BucketMD ?q s = (r, t)" by (cases "op_One ops BucketMD ?q s")
  note dt = One_docs [OF one]
  show ?thesis
  proof (cases "r = Inl ErrNotFound")
    case True
    then have "List.find (matches ?q) (docs s BucketMD) = None" using One_NotFound one by blast
    then have new: "bk_Name b \<notin> set (names_of (docs t BucketMD))" by (simp add: dt find_name_None)
    obtain e u where ins: "op_Insert ops BucketMD (enc_Bucket b) t = (e, u)"
      by (cases "op_Insert ops BucketMD (enc_Bucket b) t")
    with assms True one have "s' = u" by (auto simp: db_CreateBucket_def call_def liftS_def ret_def)
    with ins new assms(1) dt show ?thesis
      by (cases e) (auto dest!: Insert_ok Insert_err simp: s3_stored_def intro!: well_stored_bucket)
  next
    case False
    with assms one dt show ?thesis
      by (auto simp: db_CreateBucket_def call_def liftS_def ret_def intro: s3_stored_same)
  qed
qed

lemma db_UpdateObject_docs:
  assumes "db_UpdateObject ops x s = Return (err, s')"
  shows "docs s' = docs s \<or> docs s' = (docs s)(obj_BucketName x :=
     replace_first (matches (object_query (obj_ObjectKey x))) (enc_Object x) (docs s (obj_BucketName x)))"
proof -
  obtain e where "op_Update ops (obj_BucketName x) (object_query (obj_ObjectKey x)) (enc_Object x) s = (e, s')"
    using assms by (auto simp: db_UpdateObject_def call_def liftS_def ret_def split: prod.splits)
  then show ?thesis by (cases e) (auto dest!: Update_ok Update_err)
qed

lemma db_UpdateObject_stored:
  assumes "s3_stored docs s" and "db_UpdateObject ops x s = Return (err, s')"
  shows "s3_stored docs s'"
  using db_UpdateObject_docs [OF assms(2)] assms(1)
  by (auto simp: s3_stored_def intro!: well_stored_replace_object objects_only_replace)

lemma db_UpdateBucket_stored:
  assumes "s3_stored docs s" and "db_UpdateBucket ops b s = Return (err, s')"
  shows "s3_stored docs s'"
proof -
  obtain e where "op_Update ops BucketMD (md_bucket_query (bk_Name b)) (enc_Bucket b) s = (e, s')"
    using assms(2) by (auto simp: db_UpdateBucket_def call_def liftS_def ret_def split: prod.splits)
  then show ?thesis
    using assms(1) by (cases e)
      (auto dest!: Update_ok Update_err simp: s3_stored_def intro!: well_stored_replace_bucket)
qed

lemmas reads = db_GetBucketByName_def db_ListBuckets_def db_GetObject_def db_ListObjects_def

lemma db_reads:
  "db_GetObject ops b k s = Return (f, s') \<Longrightarrow> docs s' = docs s"
  "db_ListObjects ops b s = Return (g, s') \<Longrightarrow> docs s' = docs s"
  "db_GetBucketByName ops n s = Return (h, s') \<Longrightarrow> docs s' = docs s"
  "db_ListBuckets ops i s = Return (l, s') \<Longrightarrow> docs s' = docs s"
  by (auto simp: reads call_def liftS_def ret_def dest: One_docs All_docs split: prod.splits)

lemma svc_reads:
  "svc_ListBuckets ops i s = Return (r1, s') \<Longrightarrow> docs s' = docs s"
  "svc_GetBucket ops n s = Return (r2, s') \<Longrightarrow> docs s' = docs s"
  "svc_ListObjects ops b s = Return (r3, s') \<Longrightarrow> docs s' = docs s"
  "svc_GetObject ops b k s = Return (r4, s') \<Longrightarrow> docs s' = docs s"
  by (auto simp: svc_ListBuckets_def svc_GetBucket_def svc_ListObjects_def svc_GetObject_def ret_def
      elim!: call_ReturnE dest: db_reads split: prod.splits)

lemma s3_step_stored:
  assumes "s3_step ops s s'" and "s3_stored docs s"
  shows "s3_stored docs s'"
  using assms
proof (induction rule: s3_step.induct)
  case (step_CreateBucket y s r s')
  then obtain f t where f: "db_GetBucketByName ops (bk_Name y) s = Return (f, t)"
    and "s' = t \<or> (\<exists>err1. db_CreateBucket ops y t = Return (err1, s') \<or>
           db_UpdateBucket ops (y\<lparr>bk_Deleted := False\<rparr>) t = Return (err1, s'))"
    by (auto simp: svc_CreateBucket_def ret_def elim!: call_ReturnE split: if_splits) blast+
  moreover have "s3_stored docs t" using step_CreateBucket.prems db_reads(3) [OF f] by (rule s3_stored_same)
  ultimately show ?case by (blast intro: db_CreateBucket_stored db_UpdateBucket_stored)
next
  case (step_DeleteBucket n s r s')
  then obtain f t y where f: "db_GetBucketByName ops n s = Return (f, t)"
    and "s' = t \<or> (\<exists>err1. db_UpdateBucket ops y t = Return (err1, s'))"
    by (auto simp: svc_DeleteBucket_def ret_def elim!: call_ReturnE split: if_splits) blast+
  moreover have "s3_stored docs t" using step_DeleteBucket.prems db_reads(3) [OF f] by (rule s3_stored_same)
  ultimately show ?case by (blast intro: db_UpdateBucket_stored)
next
  case (step_CreateObject x s r s')
  then obtain f t where f: "db_GetObject ops (obj_BucketName x) (obj_ObjectKey x) s = Return (f, t)"
    and "s' = t \<or> (\<exists>err1. db_CreateObject ops x t = Return (err1, s') \<or> db_UpdateObject ops x t = Return (err1, s'))"
    by (auto simp: svc_CreateObject_def ret_def elim!: call_ReturnE split: if_splits) blast+
  moreover have "s3_stored docs t" using step_CreateObject.prems db_reads(1) [OF f] by (rule s3_stored_same)
  ultimately show ?case by (blast intro: db_CreateObject_stored db_UpdateObject_stored)
next
  case (step_UpdateObject x s r s')
  then obtain err where "db_UpdateObject ops x s = Return (err, s')"
    by (auto simp: svc_UpdateObject_def ret_def elim!: call_ReturnE)
  with step_UpdateObject.prems show ?case by (rule db_UpdateObject_stored)
next
  case (step_DeleteObject b k s r s')
  then obtain f x t where f: "db_GetObject ops b k s = Return (f, t)"
    and "s' = t \<or> (\<exists>err1. db_UpdateObject ops x t = Return (err1, s'))"
    by (auto simp: svc_DeleteObject_def ret_def elim!: call_ReturnE split: if_splits) blast+
  moreover have "s3_stored docs t" using step_DeleteObject.prems db_reads(1) [OF f] by (rule s3_stored_same)
  ultimately show ?case by (blast intro: db_UpdateObject_stored)
qed (blast dest: svc_reads intro: s3_stored_same)+

lemma svc_ListObjects_result:
  assumes "svc_ListObjects ops b s = Return (Inr xs, s')"
  shows "docs s' = docs s \<and> xs = List.filter live (map dec_Object (docs s b))"
proof -
  have all: "List.filter (matches (Match [])) ds = ds" for ds by (induction ds) simp_all
  have whole: "page 0 0 ds = ds" for ds :: "doc list" by (simp add: page_def)
  from assms show ?thesis
    by (auto simp: svc_ListObjects_def db_ListObjects_def call_def liftS_def ret_def s3_errors live_def
        all whole fun_eq_iff split: sum.splits prod.splits if_splits dest!: All_ok intro!: filter_cong)
qed

lemma ListObjects_meta:
  assumes "well_stored (docs s b)" and "objects_only (docs s b)" and "svc_ListObjects ops b s = Return (Inr xs, s')"
  shows "set xs = {x. meta_of docs s b (obj_ObjectKey x) = Some x \<and> live x}"
proof -
  have obj: "\<exists>y. d = enc_Object y" if "d \<in> set (docs s b)" for d using assms(2) that by (simp add: objects_only_def)
  have "meta_of docs s b (obj_ObjectKey x) = Some x \<longleftrightarrow> x \<in> dec_Object ` set (docs s b)" for x
  proof
    assume "meta_of docs s b (obj_ObjectKey x) = Some x"
    then show "x \<in> dec_Object ` set (docs s b)" by (auto simp: meta_of_def dest!: find_SomeD')
  next
    assume "x \<in> dec_Object ` set (docs s b)"
    then have "enc_Object x \<in> set (docs s b)" using obj by force
    then show "meta_of docs s b (obj_ObjectKey x) = Some x"
      using find_key_Some [OF assms(1), of "obj_ObjectKey x" x] by (simp add: meta_of_def)
  qed
  then show ?thesis using svc_ListObjects_result [OF assms(3)] by auto
qed

lemma svc_DeleteObject_stored:
  assumes "svc_DeleteObject ops b k s = Return (r, s')"
    and "\<forall>c. well_stored (docs s c)" and "objects_only (docs s b)"
  shows "well_stored (docs s' b)" and "objects_only (docs s' b)"
proof -
  from assms(1) obtain f x t where f: "db_GetObject ops b k s = Return (f, t)"
    and upd: "s' = t \<or> (\<exists>err1. db_UpdateObject ops x t = Return (err1, s'))"
    by (auto simp: svc_DeleteObject_def ret_def elim!: call_ReturnE split: if_splits) blast+
  note same = db_reads(1) [OF f]
  let ?p = "matches (object_query (obj_ObjectKey x))"
  from upd have "docs s' = docs s \<or>
      docs s' = (docs s)(obj_BucketName x := replace_first ?p (enc_Object x) (docs s (obj_BucketName x)))"
    using same db_UpdateObject_docs by metis
  with assms(2,3) show "well_stored (docs s' b)" "objects_only (docs s' b)"
    by (auto intro!: well_stored_replace_object objects_only_replace)
qed

lemma svc_GetObject_serves:
  assumes "meta_of docs s b k = Some y"
  shows "svc_GetObject ops b k s = (case op_One ops b (object_query k) s of
        (Inr _, t) \<Rightarrow> Return (Inr y, t)
      | (Inl e, t) \<Rightarrow> Return (Inl (Error_text InternalError), t))"
    and "fst (op_One ops b (object_query k) s) \<noteq> Inl ErrNotFound"
proof -
  obtain r t where one: "op_One ops b (object_query k) s = (r, t)" by (cases "op_One ops b (object_query k) s")
  obtain d where d: "List.find (matches (object_query k)) (docs s b) = Some d" "dec_Object d = y"
    using assms by (auto simp: meta_of_def)
  then have found: "r \<noteq> Inl ErrNotFound" using One_NotFound [of b "object_query k" s t] one by auto
  then show "fst (op_One ops b (object_query k) s) \<noteq> Inl ErrNotFound" by (simp add: one)
  show "svc_GetObject ops b k s = (case op_One ops b (object_query k) s of
        (Inr _, t) \<Rightarrow> Return (Inr y, t)
      | (Inl e, t) \<Rightarrow> Return (Inl (Error_text InternalError), t))"
    using found d One_ok [of b "object_query k" s _ t] one
    by (cases r) (auto simp: svc_GetObject_def db_GetObject_def call_def liftS_def ret_def s3_errors)
qed

end

sublocale mgo_store < s3_inv: step_invariant "s3_stored docs" "s3_step ops" "s3_stored docs"
  by unfold_locales (simp, blast intro: s3_step_stored)

context mgo_store begin

lemmas stored_reachable = s3_inv.inv_reachable

end

section \<open>Buckets\<close>

text \<open>
  A bucket is stored under its name. Creating one that exists, whoever owns it and whether it is
  deleted or not, replaces the stored bucket by the new one.
\<close>

definition bucket_of :: "('s \<Rightarrow> string \<Rightarrow> doc list) \<Rightarrow> 's \<Rightarrow> string \<Rightarrow> Bucket option" where
  "bucket_of docs s name = map_option dec_Bucket (List.find (matches (md_bucket_query name)) (docs s BucketMD))"

lemma matches_enc_Bucket [simp]: "matches (md_bucket_query name) (enc_Bucket b) \<longleftrightarrow> name = bk_Name b"
  by (auto simp: md_bucket_query_def field_is_plain enc_Bucket_def)

context mgo_store begin

lemma db_GetBucket_result:
  assumes "db_GetBucketByName ops name s = Return ((err, b), s')"
  shows "docs s' = docs s \<and>
     (err = NoError \<and> bucket_of docs s name = Some b \<or>
      err = NoSuchBucket \<and> bucket_of docs s name = None \<or> err = InternalError)"
proof -
  let ?q = "md_bucket_query name"
  obtain r t where one: "op_One ops BucketMD ?q s = (r, t)" by (cases "op_One ops BucketMD ?q s")
  show ?thesis
  proof (cases r)
    case (Inl e)
    then show ?thesis
      using assms one One_NotFound [of BucketMD ?q s t] One_docs [OF one]
      by (auto simp: db_GetBucketByName_def call_def liftS_def ret_def bucket_of_def split: if_splits)
  next
    case (Inr d)
    then show ?thesis
      using assms one One_ok [of BucketMD ?q s d t]
      by (auto simp: db_GetBucketByName_def call_def liftS_def ret_def bucket_of_def)
  qed
qed

lemma db_UpdateBucket_put:
  assumes "db_UpdateBucket ops b s = Return (err, s')" and "s3e_Code err = ERR_OK"
  shows "bucket_of docs s' (bk_Name b) = Some b"
proof -
  have upd: "op_Update ops BucketMD (md_bucket_query (bk_Name b)) (enc_Bucket b) s = (None, s')"
    using assms
    by (auto simp: db_UpdateBucket_def call_def liftS_def ret_def s3_errors split: prod.splits option.splits if_splits)
  show ?thesis using Update_ok [OF upd] by (auto simp: bucket_of_def find_replaced)
qed

lemma CreateBucket_takes_over:
  assumes "bucket_of docs s (bk_Name b) = Some old" and "svc_CreateBucket ops b s = Return (Inr m, s')"
  shows "bucket_of docs s' (bk_Name b) = Some (b\<lparr>bk_Deleted := False\<rparr>)"
proof -
  from assms(2) obtain err x t where got: "db_GetBucketByName ops (bk_Name b) s = Return ((err, x), t)"
    and ok: "s3e_Code err = ERR_OK \<or> s3e_Code err = StatusNotFound"
    and rest: "\<exists>err1. (if s3e_Code err = StatusNotFound then db_CreateBucket ops b
                  else db_UpdateBucket ops (b\<lparr>bk_Deleted := False\<rparr>)) t = Return (err1, s') \<and> s3e_Code err1 = ERR_OK"
    by (auto simp: svc_CreateBucket_def ret_def elim!: call_ReturnE split: if_splits)
  from db_GetBucket_result [OF got] ok assms(1) have "err = NoError" by (auto simp: s3_errors)
  with rest obtain err1 where "db_UpdateBucket ops (b\<lparr>bk_Deleted := False\<rparr>) t = Return (err1, s')"
    and "s3e_Code err1 = ERR_OK" by (auto simp: s3_errors)
  from db_UpdateBucket_put [OF this] show ?thesis by simp
qed

end

section \<open>Properties\<close>

text \<open>
  C23. The catalogue's refinement: a call of CreateObject stores exactly the given object under its
  bucket and key, replacing an older one, and a refused call stores nothing.
\<close>

theorem CreateObject_upserts:
  assumes "mgo_store ops docs keys clock" and "svc_CreateObject ops x s = Return (r, s')"
  shows "meta_of docs s' = (case r of
      Inl e \<Rightarrow> meta_of docs s
    | Inr m \<Rightarrow> (meta_of docs s)(obj_BucketName x := (meta_of docs s (obj_BucketName x))(obj_ObjectKey x \<mapsto> x)))"
  using mgo_store.svc_CreateObject_result [OF assms] by (cases r) simp_all

definition sample_object :: Object where
  "sample_object = zero_Object\<lparr>obj_ObjectKey := ''k1'', obj_BucketName := ''b1'', obj_Size := 3,
     obj_Backend := ''aws1''\<rparr>"

definition s3_world :: mem where
  "s3_world = \<lparr>m_docs = [(''b1'', [enc_Object sample_object])], m_clock = 0, m_ids = []\<rparr>"

theorem CreateObject_upserts_witness:
  "\<exists>s'. svc_CreateObject mem_ops (sample_object\<lparr>obj_Size := 7\<rparr>) s3_world =
       Return (Inr ''Create object successfully.'', s') \<and>
     meta_of mem_docs s' ''b1'' ''k1'' = Some (sample_object\<lparr>obj_Size := 7\<rparr>)"
proof -
  let ?x = "sample_object\<lparr>obj_Size := 7\<rparr>"
  let ?run = "svc_CreateObject mem_ops ?x s3_world"
  have "case ?run of Return (Inr m, _) \<Rightarrow> m = ''Create object successfully.'' | _ \<Rightarrow> False" by code_simp
  then obtain s' where run: "?run = Return (Inr ''Create object successfully.'', s')"
    by (auto split: go.splits sum.splits prod.splits)
  have "meta_of mem_docs s' ''b1'' ''k1'' = Some ?x"
    using CreateObject_upserts [OF mem.mgo_store_axioms run] by (simp add: sample_object_def)
  with run show ?thesis by blast
qed

text \<open>
  C28. A deleted object is hidden from listings but still served. After a successful DeleteObject the
  object is stored with its delete mark and no listing of the bucket contains its key; and GetObject
  returns the marked object, the same in every other field, whenever the database answers its lookup at
  all: the only other answer is the internal error for a lookup that failed.
\<close>

theorem deleted_object_hidden_but_served:
  assumes "mgo_store ops docs keys clock"
    and "\<forall>c. well_stored (docs s c)" and "objects_only (docs s b)"
    and "\<forall>x. meta_of docs s b k = Some x \<longrightarrow> obj_BucketName x = b \<and> obj_ObjectKey x = k"
    and "svc_DeleteObject ops b k s = Return (Inr m, s')"
  shows "\<exists>x y. meta_of docs s b k = Some x \<and> y = x\<lparr>obj_IsDeleteMarker := ''1''\<rparr> \<and>
    meta_of docs s' b k = Some y \<and>
    (\<forall>xs t. svc_ListObjects ops b s' = Return (Inr xs, t) \<longrightarrow> k \<notin> obj_ObjectKey ` set xs) \<and>
    svc_GetObject ops b k s' = (case op_One ops b (object_query k) s' of
        (Inr _, t) \<Rightarrow> Return (Inr y, t)
      | (Inl e, t) \<Rightarrow> Return (Inl (Error_text InternalError), t)) \<and>
    fst (op_One ops b (object_query k) s') \<noteq> Inl ErrNotFound"
proof -
  note store = assms(1)
  obtain x where x: "meta_of docs s b k = Some x"
    and upd: "meta_of docs s' = (meta_of docs s)(obj_BucketName x :=
          (meta_of docs s (obj_BucketName x))(obj_ObjectKey x \<mapsto> x\<lparr>obj_IsDeleteMarker := ''1''\<rparr>))"
    using mgo_store.svc_DeleteObject_result [OF store assms(5)] by auto
  let ?y = "x\<lparr>obj_IsDeleteMarker := ''1''\<rparr>"
  have at: "obj_BucketName x = b" "obj_ObjectKey x = k" using assms(4) x by auto
  have now: "meta_of docs s' b k = Some ?y" using upd at by simp
  have "k \<notin> obj_ObjectKey ` set xs" if "svc_ListObjects ops b s' = Return (Inr xs, t)" for xs t
    using mgo_store.ListObjects_meta [OF store mgo_store.svc_DeleteObject_stored [OF store assms(5,2,3)] that] now
    by (auto simp: live_def)
  moreover have "svc_GetObject ops b k s' = (case op_One ops b (object_query k) s' of
        (Inr _, t) \<Rightarrow> Return (Inr ?y, t)
      | (Inl e, t) \<Rightarrow> Return (Inl (Error_text InternalError), t))"
      "fst (op_One ops b (object_query k) s') \<noteq> Inl ErrNotFound"
    using mgo_store.svc_GetObject_serves [OF store now] by blast+
  ultimately show ?thesis using x now by blast
qed

theorem deleted_object_hidden_but_served_witness:
  "\<exists>s' t. svc_DeleteObject mem_ops ''b1'' ''k1'' s3_world = Return (Inr ''Delete object successfully.'', s') \<and>
     (\<forall>xs t. svc_ListObjects mem_ops ''b1'' s' = Return (Inr xs, t) \<longrightarrow> ''k1'' \<notin> obj_ObjectKey ` set xs) \<and>
     svc_GetObject mem_ops ''b1'' ''k1'' s' = Return (Inr (sample_object\<lparr>obj_IsDeleteMarker := ''1''\<rparr>), t)"
proof -
  let ?run = "svc_DeleteObject mem_ops ''b1'' ''k1'' s3_world"
  have "case ?run of Return (Inr m, _) \<Rightarrow> m = ''Delete object successfully.'' | _ \<Rightarrow> False" by code_simp
  then obtain s' where run: "?run = Return (Inr ''Delete object successfully.'', s')"
    by (auto split: go.splits sum.splits prod.splits)
  have stored: "\<forall>c. well_stored (mem_docs s3_world c)" "objects_only (mem_docs s3_world ''b1'')"
    by (auto simp: s3_world_def mem_docs_def well_stored_def objects_only_def values_enc)
  have is_sample: "meta_of mem_docs s3_world ''b1'' ''k1'' = Some sample_object"
    by (simp add: s3_world_def meta_of_def mem_docs_def sample_object_def)
  then have placed: "\<forall>x. meta_of mem_docs s3_world ''b1'' ''k1'' = Some x \<longrightarrow>
      obj_BucketName x = ''b1'' \<and> obj_ObjectKey x = ''k1''"
    by (simp add: sample_object_def)
  obtain r t where one: "op_One mem_ops ''b1'' (object_query ''k1'') s' = (r, t)"
    and found: "r \<noteq> Inl ErrNotFound \<longrightarrow> (\<exists>d. r = Inr d)"
    by (cases "op_One mem_ops ''b1'' (object_query ''k1'') s'") (auto simp: mem_ops_def split: option.splits)
  from deleted_object_hidden_but_served [OF mem.mgo_store_axioms stored placed run] is_sample one found run
  show ?thesis by auto
qed

text \<open>
  C26. Whatever calls of the service run, one after the other, no two stored objects of a bucket ever
  share a key and no two stored buckets a name, also where the objects of a bucket called
  \<open>metadatabucket\<close> are stored among the buckets. So a listing of any other bucket is exactly the set of
  the objects that are stored under their keys and not marked. The empty database is a start.
\<close>

theorem keys_stay_unique:
  assumes "mgo_store ops docs keys clock" and "s3_stored docs s" and "reaches (s3_step ops) s t"
  shows "distinct (keys_of (docs t b)) \<and> distinct (names_of (docs t BucketMD)) \<and>
    (b \<noteq> BucketMD \<longrightarrow> (\<forall>xs u. svc_ListObjects ops b t = Return (Inr xs, u) \<longrightarrow>
       set xs = {x. meta_of docs t b (obj_ObjectKey x) = Some x \<and> live x}))"
proof -
  have "s3_stored docs t" using mgo_store.stored_reachable [OF assms] .
  then show ?thesis
    using mgo_store.ListObjects_meta [OF assms(1)] unfolding s3_stored_def well_stored_def [of "docs t b"]
      well_stored_def [of "docs t BucketMD"] by (meson well_stored_def)
qed

definition empty_world :: mem where
  "empty_world = \<lparr>m_docs = [], m_clock = 0, m_ids = []\<rparr>"

theorem keys_stay_unique_witness:
  "\<exists>t. reaches (s3_step mem_ops) empty_world t \<and> distinct (keys_of (mem_docs t ''b1'')) \<and>
     distinct (names_of (mem_docs t BucketMD)) \<and>
     keys_of (mem_docs t ''b1'') = [''k1''] \<and> names_of (mem_docs t BucketMD) = [''b1'', ''b2''] \<and>
     (\<forall>xs u. svc_ListObjects mem_ops ''b1'' t = Return (Inr xs, u) \<longrightarrow>
        set xs = {x. meta_of mem_docs t ''b1'' (obj_ObjectKey x) = Some x \<and> live x})"
proof -
  let ?bucket = "\<lambda>n. zero_Bucket\<lparr>bk_Name := n\<rparr>"
  let ?run = "call (svc_CreateBucket mem_ops (?bucket ''b1'')) (\<lambda>_. call (svc_CreateBucket mem_ops (?bucket ''b2'')) (\<lambda>_.
    svc_CreateObject mem_ops sample_object)) empty_world"
  have "case ?run of Return (m, t) \<Rightarrow> keys_of (mem_docs t ''b1'') = [''k1''] \<and>
      names_of (mem_docs t BucketMD) = [''b1'', ''b2''] | _ \<Rightarrow> False" by code_simp
  then obtain m t where run: "?run = Return (m, t)"
    and k: "keys_of (mem_docs t ''b1'') = [''k1'']" "names_of (mem_docs t BucketMD) = [''b1'', ''b2'']"
    by (auto split: go.splits prod.splits)
  then obtain s1 s2 where "s3_step mem_ops empty_world s1" "s3_step mem_ops s1 s2" "s3_step mem_ops s2 t"
    by (elim call_ReturnE) (blast intro: step_CreateBucket step_CreateObject)
  then have reach: "reaches (s3_step mem_ops) empty_world t" by (blast intro: reaches_front reaches_refl)
  have "s3_stored mem_docs empty_world" by (rule s3_stored_empty) (simp add: empty_world_def mem_docs_def)
  moreover have "''b1'' \<noteq> BucketMD" by (simp add: BucketMD_def)
  ultimately show ?thesis using keys_stay_unique [OF mem.mgo_store_axioms _ reach, of "''b1''"] reach k by blast
qed

end
