(* ===== verification/Datamover_Memory.thy ===== *)
theory Datamover_Memory
  imports Datamover_Copy S3_Metadata_Correct
begin

text \<open>
  A world for the data mover that can be run: one AWS cloud without failures, an in-memory database
  for jobs and backends, and another for the metadata service, which the mover reaches through its
  handlers. The other clouds of this world refuse every connection. The cloud keeps \<open>aws_cloud\<close>.
\<close>

section \<open>The world\<close>

record dm_mem =
  dw_objects :: "((string \<times> string) \<times> byte list) list"
  dw_uploads :: "(string \<times> aws_parts) list"
  dw_db :: mem
  dw_s3 :: mem

definition mem_objects :: "dm_mem \<Rightarrow> string \<Rightarrow> string \<Rightarrow> byte list option" where
  "mem_objects w b k = lookup (dw_objects w) (b, k)"

definition mem_parts :: "dm_mem \<Rightarrow> string \<Rightarrow> aws_parts" where
  "mem_parts w uid = (case lookup (dw_uploads w) uid of None \<Rightarrow> [] | Some ps \<Rightarrow> ps)"

text \<open>The two ends of a \<open>Range\<close> header \<open>bytes=i-j\<close>.\<close>

definition range_ends :: "string \<Rightarrow> int \<times> int" where
  "range_ends r = (let t = drop 6 r in
     (int (digits_val (takeWhile is_digit t)), int (digits_val (drop 1 (dropWhile is_digit t)))))"

definition put_object :: "string \<Rightarrow> string \<Rightarrow> byte list \<Rightarrow> dm_mem \<Rightarrow> dm_mem" where
  "put_object b k d w = w\<lparr>dw_objects := insert_key (b, k) d (dw_objects w)\<rparr>"

definition put_parts :: "string \<Rightarrow> aws_parts \<Rightarrow> dm_mem \<Rightarrow> dm_mem" where
  "put_parts uid ps w = w\<lparr>dw_uploads := insert_key uid ps (dw_uploads w)\<rparr>"

definition mem_Download :: "string \<Rightarrow> string \<Rightarrow> string option \<Rightarrow> byte list \<Rightarrow> dm_mem \<Rightarrow>
    ((string + int) \<times> byte list) \<times> dm_mem" where
  "mem_Download b k r buf w =
     (case mem_objects w b k of
        None \<Rightarrow> ((Inl ''NoSuchKey'', buf), w)
      | Some d \<Rightarrow>
          (let data = (case r of
                 None \<Rightarrow> d
               | Some t \<Rightarrow> (case range_ends t of (i, j) \<Rightarrow> byte_part i (j - i + 1) d))
           in ((Inr (int (length data)), copy_at 0 data buf), w)))"

definition mem_UploadPart :: "string \<Rightarrow> int \<Rightarrow> int \<Rightarrow> byte list \<Rightarrow> dm_mem \<Rightarrow>
    ((string + string) \<times> byte list) \<times> dm_mem" where
  "mem_UploadPart uid n len body w =
     (if len = int (length body)
      then ((Inr (''etag'' @ Itoa n), []), put_parts uid (mem_parts w uid @ [(''etag'' @ Itoa n, n, body)]) w)
      else ((Inl ''IncompleteBody'', body), w))"

definition mem_Complete :: "string \<Rightarrow> string \<Rightarrow> string \<Rightarrow> (string \<times> int) list \<Rightarrow> dm_mem \<Rightarrow> (string + unit) \<times> dm_mem" where
  "mem_Complete b k uid tags w =
     (if tags = part_tags (mem_parts w uid) \<and> ascending (part_numbers (mem_parts w uid))
      then (Inr (), put_object b k (concat (part_bodies (mem_parts w uid))) w)
      else (Inl ''InvalidPart'', w))"

definition mem_listing :: "string \<Rightarrow> dm_mem \<Rightarrow> list_page" where
  "mem_listing b w = \<lparr>pg_Contents = map (\<lambda>((_, k), d). (k, int (length d)))
     (List.filter (\<lambda>x. fst (fst x) = b) (dw_objects w)), pg_IsTruncated = False, pg_NextMarker = None\<rparr>"

definition mem_aws :: "dm_mem aws_ops" where
  "mem_aws = \<lparr>
     aws_NewSession = (\<lambda>c w. (None, w)),
     aws_Upload = (\<lambda>c b k body w. ((Inr (), []), put_object b k body w)),
     aws_Download = (\<lambda>c. mem_Download),
     aws_CreateMultipartUpload = (\<lambda>c b k w. (Inr (b @ ''/'' @ k), put_parts (b @ ''/'' @ k) [] w)),
     aws_UploadPart = (\<lambda>c b k. mem_UploadPart),
     aws_AbortMultipartUpload = (\<lambda>c b k uid w. (Inr (), w)),
     aws_CompleteMultipartUpload = (\<lambda>c. mem_Complete),
     aws_DeleteObject = (\<lambda>c b k w. (Inr (), w\<lparr>dw_objects := remove_key (b, k) (dw_objects w)\<rparr>)),
     aws_WaitUntilObjectNotExists = (\<lambda>c b k w. (Inr (), w)),
     aws_ListObjects = (\<lambda>c b pre marker w. (Inr (mem_listing b w), w))\<rparr>"

definition refuses :: "'s \<Rightarrow> (string + 'a) \<times> 's" where
  "refuses s = (Inl ''connection refused'', s)"

definition no_obs :: "'s obs_ops" where
  "no_obs = \<lparr>obs_New = (\<lambda>c. ret (Some ''connection refused'')), obs_GetObject = (\<lambda>c b k r. liftS refuses),
     obs_PutObject = (\<lambda>c b k body. ret (Inl ''connection refused'', body)),
     obs_DeleteObject = (\<lambda>c b k. liftS refuses), obs_InitiateMultipartUpload = (\<lambda>c b k. liftS refuses),
     obs_UploadPart = (\<lambda>c b k u n f l body. liftS refuses), obs_AbortMultipartUpload = (\<lambda>c b k u. liftS refuses),
     obs_CompleteMultipartUpload = (\<lambda>c b k u ps. liftS refuses), obs_ListObjects = (\<lambda>c b pre m. liftS refuses)\<rparr>"

definition no_az :: "'s az_ops" where
  "no_az = \<lparr>az_NewSharedKeyCredential = (\<lambda>a k s. (Some ''connection refused'', s)), az_ParsesURL = (\<lambda>_. True),
     az_Download = (\<lambda>c k. refuses), az_Upload = (\<lambda>c k body. refuses), az_Delete = (\<lambda>c k. refuses),
     az_DownloadBlobToBuffer = (\<lambda>c k i n buf s. ((Inl ''connection refused'', buf), s)),
     az_StageBlock = (\<lambda>c k i body. refuses), az_CommitBlockList = (\<lambda>c k ids. refuses),
     az_ListBlobsFlatSegment = (\<lambda>c m pre. refuses)\<rparr>"

definition no_ce :: "'s ce_ops" where
  "no_ce = \<lparr>ce_md5 = (\<lambda>bs. []), ce_Create = (\<lambda>c b k m l body s. ((Inl ''connection refused'', body), s)),
     ce_Get = (\<lambda>c b k r s. (None, s)), ce_Initiate = (\<lambda>c b k. refuses),
     ce_UploadPart = (\<lambda>c b k n u m l body s. ((Inl ''connection refused'', body), s)),
     ce_RemoveUploads = (\<lambda>c b k u. refuses), ce_Complete = (\<lambda>c b k u ps. refuses),
     ce_Remove = (\<lambda>c b k. refuses), ce_BucketGet = (\<lambda>c b pre n. refuses)\<rparr>"

text \<open>A database inside a larger world.\<close>

definition inside :: "('w \<Rightarrow> 's) \<Rightarrow> ('s \<Rightarrow> 'w \<Rightarrow> 'w) \<Rightarrow> ('s \<Rightarrow> 'a \<times> 's) \<Rightarrow> 'w \<Rightarrow> 'a \<times> 'w" where
  "inside g p f w = (case f (g w) of (a, s) \<Rightarrow> (a, p s w))"

definition lift_mgo :: "('w \<Rightarrow> 's) \<Rightarrow> ('s \<Rightarrow> 'w \<Rightarrow> 'w) \<Rightarrow> 's mgo_ops \<Rightarrow> 'w mgo_ops" where
  "lift_mgo g p ops = \<lparr>
     op_Now = inside g p (op_Now ops),
     op_Sleep = (\<lambda>n w. p (op_Sleep ops n (g w)) w),
     op_NewObjectId = inside g p (op_NewObjectId ops),
     op_Insert = (\<lambda>c d. inside g p (op_Insert ops c d)),
     op_One = (\<lambda>c q. inside g p (op_One ops c q)),
     op_All = (\<lambda>c q i j. inside g p (op_All ops c q i j)),
     op_Count = (\<lambda>c q. inside g p (op_Count ops c q)),
     op_Update = (\<lambda>c q d. inside g p (op_Update ops c q d)),
     op_Remove = (\<lambda>c q. inside g p (op_Remove ops c q))\<rparr>"

definition db_ops :: "dm_mem mgo_ops" where
  "db_ops = lift_mgo dw_db (\<lambda>s w. w\<lparr>dw_db := s\<rparr>) mem_ops"

definition s3_ops :: "dm_mem mgo_ops" where
  "s3_ops = lift_mgo dw_s3 (\<lambda>s w. w\<lparr>dw_s3 := s\<rparr>) mem_ops"

definition s3_service_rpc :: "'s mgo_ops \<Rightarrow> 's s3_rpc" where
  "s3_service_rpc ops = \<lparr>rpc_GetBucket = svc_GetBucket ops, rpc_ListObjects = svc_ListObjects ops,
     rpc_CreateObject = svc_CreateObject ops, rpc_DeleteObject = svc_DeleteObject ops\<rparr>"

definition starts_with :: "string \<Rightarrow> string \<Rightarrow> bool" where
  "starts_with p s = (take (length p) s = p)"

definition mem_env :: "(string \<Rightarrow> string) \<Rightarrow> dm_mem dm_env" where
  "mem_env Getenv = \<lparr>dm_aws = mem_aws, dm_obs = no_obs, dm_az = no_az, dm_ce = no_ce, dm_db = db_ops,
     dm_s3 = s3_service_rpc s3_ops, dm_Getenv = Getenv,
     dm_MatchString = (\<lambda>pat s. starts_with (drop 1 pat) s), dm_TimeText = Itoa, dm_pages = 10\<rparr>"

section \<open>The cloud keeps the contract of the SDK\<close>

lemma range_ends_byte_range:
  assumes "0 \<le> i" and "0 \<le> j"
  shows "range_ends (byte_range i j) = (i, j)"
proof -
  have digits: "\<forall>c \<in> set (nat_digits n). is_digit c" for n
    using nat_digits_facts [of n] by (simp add: list_all_iff)
  have "takeWhile is_digit (nat_digits a @ CHR ''-'' # t) = nat_digits a"
    and "dropWhile is_digit (nat_digits a @ CHR ''-'' # t) = CHR ''-'' # t" for a t
    using digits [of a] by (simp_all add: takeWhile_append2 dropWhile_append2)
  then show ?thesis
    using assms nat_digits_facts [of "nat i"] nat_digits_facts [of "nat j"]
    by (simp add: range_ends_def byte_range_def Itoa_def)
qed

lemma mem_put [simp]:
  "mem_objects (put_object b k d w) = (mem_objects w)(b := (mem_objects w b)(k \<mapsto> d))"
  "mem_parts (put_object b k d w) = mem_parts w"
  "mem_objects (put_parts uid ps w) = mem_objects w"
  "mem_parts (put_parts uid ps w) = (mem_parts w)(uid := ps)"
  by (auto simp: fun_eq_iff mem_objects_def mem_parts_def put_object_def put_parts_def)

interpretation mem_cloud: aws_cloud mem_aws mem_objects mem_parts
proof unfold_locales
  fix c b k i j buf s n buf' s' d
  assume dl: "aws_Download mem_aws c b k (Some (byte_range i j)) buf s = ((Inr n, buf'), s')"
    and d: "mem_objects s b k = Some d" and b: "0 \<le> i" "i \<le> j" "j < int (length d)" "length buf = nat (j - i + 1)"
  have "length (byte_part i (j - i + 1) d) = length buf" using b by (simp add: length_byte_part)
  then show "buf' = byte_part i (j - i + 1) d"
    using dl d b by (auto simp: mem_aws_def mem_Download_def range_ends_byte_range copy_at_whole)
qed (auto simp: mem_aws_def mem_Download_def mem_UploadPart_def mem_Complete_def Let_def
      split: option.splits if_splits prod.splits)

section \<open>Properties of the copy\<close>

text \<open>
  C3. A multipart copy that reports success is a copy: on every AWS cloud with the documented
  behaviour, for every object size and every part size, the object stored at the destination under
  its virtual bucket is byte for byte the source object.
\<close>

theorem multipart_copy_is_identical:
  assumes "aws_copy env objects parts srcLoca destLoca" and "0 < P" and "0 < obj_Size obj"
    and "objects s (lo_BucketName srcLoca) (in_bucket (lo_VirBucket srcLoca) (obj_ObjectKey obj)) = Some c"
    and "int (length c) = obj_Size obj"
    and "multipartMoveObj env P obj srcLoca destLoca s = Return (Inr u, s')"
  shows "objects s' (lo_BucketName destLoca) (in_bucket (lo_VirBucket destLoca) (obj_ObjectKey obj)) = Some c"
  by (rule aws_copy.multipart_copies [OF assms(1,6,4,5,3,2)])

definition no_env :: "string \<Rightarrow> string" where
  "no_env name = []"

definition loc_a :: LocationInfo where
  "loc_a = zero_Location\<lparr>lo_StorType := STOR_TYPE_AWS_S3, lo_BucketName := ''A'', lo_VirBucket := ''v1'', lo_BakendName := ''aws1''\<rparr>"

definition loc_b :: LocationInfo where
  "loc_b = zero_Location\<lparr>lo_StorType := STOR_TYPE_AWS_S3, lo_BucketName := ''B''\<rparr>"

definition big_object :: Object where
  "big_object = zero_Object\<lparr>obj_ObjectKey := ''k'', obj_Size := 5, obj_BucketName := ''v1'', obj_Backend := ''aws1''\<rparr>"

definition dm_world :: dm_mem where
  "dm_world = \<lparr>dw_objects = [((''A'', ''v1/k''), [1, 2, 3, 4, 5])], dw_uploads = [], dw_db = empty_world, dw_s3 = empty_world\<rparr>"

lemma mem_aws_copy: "aws_copy (mem_env Getenv) mem_objects mem_parts loc_a loc_b"
proof -
  have "aws_cloud (dm_aws (mem_env Getenv)) mem_objects mem_parts"
    by (simp add: mem_env_def mem_cloud.aws_cloud_axioms)
  then show ?thesis by (simp add: aws_copy_def aws_copy_axioms_def loc_a_def loc_b_def)
qed

interpretation mem_copy: aws_copy "mem_env Getenv" mem_objects mem_parts loc_a loc_b for Getenv
  by (rule mem_aws_copy)

theorem multipart_copy_is_identical_witness:
  "\<exists>s'. multipartMoveObj (mem_env no_env) 2 big_object loc_a loc_b dm_world = Return (Inr (), s') \<and>
     mem_objects s' ''B'' ''k'' = Some [1, 2, 3, 4, 5]"
proof -
  let ?run = "multipartMoveObj (mem_env no_env) 2 big_object loc_a loc_b dm_world"
  have "case ?run of Return (Inr _, _) \<Rightarrow> True | _ \<Rightarrow> False" by code_simp
  then obtain s' where run: "?run = Return (Inr (), s')" by (auto split: go.splits sum.splits prod.splits)
  have "mem_objects dm_world (lo_BucketName loc_a) (in_bucket (lo_VirBucket loc_a) (obj_ObjectKey big_object)) = Some [1, 2, 3, 4, 5]"
    by code_simp
  from multipart_copy_is_identical [OF mem_aws_copy _ _ this _ run] run
  show ?thesis by (simp add: big_object_def loc_b_def in_bucket_def zero_Location_def)
qed

text \<open>
  Where a directly copied object goes is decided by the source: the upload's key has the
  destination's virtual bucket in front exactly when the source is in one. So an object that comes
  from a connector of its own is stored outside the virtual bucket under which the metadata, and a
  multipart copy of the same object, put it.
\<close>

theorem direct_copy_key_follows_source:
  assumes "aws_copy env objects parts srcLoca destLoca" and "0 < obj_Size obj"
    and "objects s (lo_BucketName srcLoca) (in_bucket (lo_VirBucket srcLoca) (obj_ObjectKey obj)) = Some c"
    and "int (length c) = obj_Size obj"
    and "lo_VirBucket srcLoca = []" and "lo_VirBucket destLoca \<noteq> []"
    and "moveObj env obj srcLoca destLoca s = Return (Inr u, s')"
  shows "objects s' (lo_BucketName destLoca) (obj_ObjectKey obj) \<noteq> None \<and>
    objects s' (lo_BucketName destLoca) (in_bucket (lo_VirBucket destLoca) (obj_ObjectKey obj)) =
      objects s (lo_BucketName destLoca) (in_bucket (lo_VirBucket destLoca) (obj_ObjectKey obj))"
proof -
  have "in_bucket (lo_VirBucket destLoca) (obj_ObjectKey obj) \<noteq> obj_ObjectKey obj"
    using assms(6) by (simp add: in_bucket_def)
  with aws_copy.moveObj_stores [OF assms(1,7,2,3,4)] assms(5) show ?thesis by auto
qed

theorem direct_copy_key_follows_source_witness:
  "\<exists>s'. moveObj (mem_env no_env) (big_object\<lparr>obj_Size := 2\<rparr>) loc_b loc_a
       (put_object ''B'' ''k'' [7, 8] dm_world) = Return (Inr (), s') \<and>
     mem_objects s' ''A'' ''k'' \<noteq> None \<and> mem_objects s' ''A'' ''v1/k'' = Some [1, 2, 3, 4, 5]"
proof -
  let ?obj = "big_object\<lparr>obj_Size := 2\<rparr>" and ?w = "put_object ''B'' ''k'' [7, 8] dm_world"
  let ?run = "moveObj (mem_env no_env) ?obj loc_b loc_a ?w"
  have "case ?run of Return (Inr _, _) \<Rightarrow> True | _ \<Rightarrow> False" by code_simp
  then obtain s' where run: "?run = Return (Inr (), s')" by (auto split: go.splits sum.splits prod.splits)
  have src: "mem_objects ?w (lo_BucketName loc_b) (in_bucket (lo_VirBucket loc_b) (obj_ObjectKey ?obj)) = Some [7, 8]"
    by code_simp
  have copy: "aws_copy (mem_env no_env) mem_objects mem_parts loc_b loc_a"
    using mem_aws_copy [of no_env] by (simp add: aws_copy_def aws_copy_axioms_def)
  have old: "mem_objects ?w ''A'' ''v1/k'' = Some [1, 2, 3, 4, 5]" by code_simp
  from direct_copy_key_follows_source [OF copy _ src _ _ _ run] run old
  show ?thesis by (simp add: big_object_def loc_a_def loc_b_def in_bucket_def zero_Location_def)
qed

end
