(* ===== verification/Datamover_Job_Correct.thy ===== *)
theory Datamover_Job_Correct
  imports Datamover_Job Datamover_Memory
begin

text \<open>
  What the jobs of the data mover promise: the update of a job merges into the stored one and touches
  no other, the progress of a migration stays a percentage and is complete exactly when the migration
  succeeds, a job ends with a status that tells its outcome, and an analysis never succeeds.
\<close>

section \<open>The stored jobs\<close>

definition job_query :: "string \<Rightarrow> mquery" where
  "job_query i = Match [(''_id'', BId i)]"

definition jobs_of :: "('s \<Rightarrow> string \<Rightarrow> doc list) \<Rightarrow> 's \<Rightarrow> string \<Rightarrow> Job option" where
  "jobs_of docs s i = map_option dec_Job (List.find (matches (job_query i)) (docs s CollJob))"

lemma matches_job_query: "matches (job_query i) d \<longleftrightarrow> lookup d ''_id'' = Some (BId i)"
  by (simp add: job_query_def field_is_plain)

lemma id_of_found: "lookup d ''_id'' = Some (BId i) \<Longrightarrow> job_Id (dec_Job d) = i"
  by (simp add: dec_Job_def get_id_def)

lemma merge_job_Id [simp]: "job_Id (merge_job job j) = job_Id j"
  by (simp add: merge_job_def)

text \<open>Repeating an update changes nothing more, and an update with no fields set changes nothing.\<close>

lemma merge_job_again: "merge_job a (merge_job a j) = merge_job a j"
  by (simp add: merge_job_def)

lemma merge_job_zero: "merge_job zero_Job j = j"
  by (simp add: merge_job_def zero_Job_def)

lemma jobs_of_docs: "docs s' = docs s \<Longrightarrow> jobs_of docs s' = jobs_of docs s"
  by (intro ext) (simp add: jobs_of_def)

lemma jobs_replace:
  assumes upd: "docs s' = (docs s)(CollJob := replace_first (matches (job_query (job_Id j))) (enc_Job j) (docs s CollJob))"
    and found: "List.find (matches (job_query (job_Id j))) (docs s CollJob) \<noteq> None"
  shows "jobs_of docs s' = (jobs_of docs s)(job_Id j \<mapsto> j)"
proof
  fix i
  let ?ds = "docs s CollJob" and ?p = "matches (job_query (job_Id j))"
  have new: "?p (enc_Job j)" by (simp add: matches_job_query enc_Job_def)
  show "jobs_of docs s' i = ((jobs_of docs s)(job_Id j \<mapsto> j)) i"
  proof (cases "i = job_Id j")
    case True
    with find_replaced [OF found new] upd show ?thesis by (simp add: jobs_of_def)
  next
    case False
    then have "List.find (matches (job_query i)) (replace_first ?p (enc_Job j) ?ds) = List.find (matches (job_query i)) ?ds"
      by (intro find_replace_first) (auto simp: matches_job_query enc_Job_def)
    with upd False show ?thesis by (simp add: jobs_of_def)
  qed
qed

context mgo_store
begin

lemma UpdateJob_result:
  assumes "UpdateJob ops job s = Return (err, s')"
  shows "case err of
      None \<Rightarrow> \<exists>j. jobs_of docs s (job_Id job) = Some j \<and> jobs_of docs s' = (jobs_of docs s)(job_Id job \<mapsto> merge_job job j)
    | Some _ \<Rightarrow> docs s' = docs s"
proof -
  obtain r t where one: "op_One ops CollJob (job_query (job_Id job)) s = (r, t)"
    by (cases "op_One ops CollJob (job_query (job_Id job)) s")
  note dt = One_docs [OF one]
  show ?thesis
  proof (cases r)
    case (Inl e)
    with assms one dt show ?thesis by (auto simp: UpdateJob_def job_query_def call_def liftS_def ret_def)
  next
    case (Inr d)
    with one have found: "List.find (matches (job_query (job_Id job))) (docs s CollJob) = Some d" using One_ok by blast
    then have "lookup d ''_id'' = Some (BId (job_Id job))"
      using find_SomeD' [OF found] by (simp add: matches_job_query)
    then have i: "job_Id (dec_Job d) = job_Id job" by (rule id_of_found)
    let ?j = "merge_job job (dec_Job d)"
    obtain e u where upd: "op_Update ops CollJob (job_query (job_Id job)) (enc_Job ?j) t = (e, u)"
      by (cases "op_Update ops CollJob (job_query (job_Id job)) (enc_Job ?j) t")
    with assms one Inr i have s': "s' = u" "err = (if e \<noteq> None then Some ''Update job in database failed.'' else None)"
      by (auto simp: UpdateJob_def job_query_def call_def liftS_def ret_def Let_def)
    show ?thesis
    proof (cases e)
      case None
      with upd have "docs u = (docs t)(CollJob := replace_first (matches (job_query (job_Id job))) (enc_Job ?j) (docs t CollJob))"
        using Update_ok by blast
      with jobs_replace [of docs u s ?j] dt i found s' None show ?thesis by (auto simp: jobs_of_def)
    next
      case (Some e')
      with upd dt have "docs u = docs s" using Update_err by metis
      with s' Some show ?thesis by simp
    qed
  qed
qed

end

text \<open>
  What an update may report, and the values that count as not set. The effect of an update is
  stated over the fields of the documents by name, whatever way the service merges them.
\<close>

definition report_keys :: "string list" where
  "report_keys = [''startTime'', ''endTime'', ''totalCapacity'', ''totalCount'', ''passedCount'', ''passedCapacity'',
     ''status'', ''progress'', ''stepDesc'']"

definition unset_values :: "bval list" where
  "unset_values = [BTime 0, BInt 0, BString []]"

definition reported :: "Job \<Rightarrow> string \<Rightarrow> bval option" where
  "reported job k = (if k \<in> set report_keys then
       (case lookup (enc_Job job) k of Some v \<Rightarrow> (if v \<in> set unset_values then None else Some v) | None \<Rightarrow> None)
     else None)"

lemma merge_job_keeps:
  "k \<notin> set report_keys \<Longrightarrow> lookup (enc_Job (merge_job job j)) k = lookup (enc_Job j) k"
  by (simp add: report_keys_def enc_Job_def merge_job_def)

lemma merge_job_reports:
  "lookup (enc_Job (merge_job job j)) k =
     (case reported job k of Some v \<Rightarrow> Some v | None \<Rightarrow> lookup (enc_Job j) k)"
proof (cases "k \<in> set report_keys")
  case True
  then have "k \<in> {''startTime'', ''endTime'', ''totalCapacity'', ''totalCount'', ''passedCount'', ''passedCapacity'',
      ''status'', ''progress'', ''stepDesc''}" by (simp only: report_keys_def list.set)
  then show ?thesis
    by (elim insertE emptyE; simp add: reported_def report_keys_def unset_values_def enc_Job_def merge_job_def)
next
  case False
  then show ?thesis by (simp add: merge_job_keeps) (simp add: reported_def)
qed

text \<open>
  C20. Updating a job refines an update of a map from ids to jobs. When it reports success, the job of
  that id was stored, and of its fields exactly the times of start and end, the four totals, the
  status, the progress and the description of the step have the given values where these are not zero
  or empty; its other fields, and every other job, are as before. So no update can set one of these
  fields back to zero. When it reports an error, no job has changed.
\<close>

theorem UpdateJob_merges:
  assumes "mgo_store ops docs keys clock" and "UpdateJob ops job s = Return (err, s')"
  shows "case err of
      None \<Rightarrow> \<exists>j j'. jobs_of docs s (job_Id job) = Some j \<and> jobs_of docs s' = (jobs_of docs s)(job_Id job \<mapsto> j') \<and>
        (\<forall>k. lookup (enc_Job j') k = (case reported job k of Some v \<Rightarrow> Some v | None \<Rightarrow> lookup (enc_Job j) k))
    | Some _ \<Rightarrow> jobs_of docs s' = jobs_of docs s"
proof (cases err)
  case None
  with mgo_store.UpdateJob_result [OF assms] obtain j where "jobs_of docs s (job_Id job) = Some j"
    and "jobs_of docs s' = (jobs_of docs s)(job_Id job \<mapsto> merge_job job j)" by auto
  with merge_job_reports [of job j] show ?thesis unfolding None option.case by blast
next
  case (Some e)
  with mgo_store.UpdateJob_result [OF assms] have "docs s' = docs s" by simp
  from jobs_of_docs [OF this] show ?thesis unfolding Some by simp
qed

definition job_world :: mem where
  "job_world = \<lparr>m_docs = [(CollJob, [enc_Job (zero_Job\<lparr>job_Id := ''j1'', job_PlanName := ''p'', job_Status := JOB_STATUS_PENDING\<rparr>)])],
     m_clock = 5, m_ids = []\<rparr>"

theorem UpdateJob_merges_witness:
  "\<exists>s' j'. UpdateJob mem_ops (zero_Job\<lparr>job_Id := ''j1'', job_Status := JOB_STATUS_RUNNING, job_EndTime := 9\<rparr>) job_world =
       Return (None, s') \<and> jobs_of mem_docs s' ''j1'' = Some j' \<and> lookup (enc_Job j') ''planName'' = Some (BString ''p'') \<and>
     lookup (enc_Job j') ''status'' = Some (BString JOB_STATUS_RUNNING) \<and> lookup (enc_Job j') ''endTime'' = Some (BTime 9)"
proof -
  let ?job = "zero_Job\<lparr>job_Id := ''j1'', job_Status := JOB_STATUS_RUNNING, job_EndTime := 9\<rparr>"
  let ?run = "UpdateJob mem_ops ?job job_world"
  have "case ?run of Return (None, _) \<Rightarrow> True | _ \<Rightarrow> False" by code_simp
  then obtain s' where run: "?run = Return (None, s')" by (auto split: go.splits option.splits prod.splits)
  have stored: "jobs_of mem_docs job_world ''j1'' =
      Some (zero_Job\<lparr>job_Id := ''j1'', job_PlanName := ''p'', job_Status := JOB_STATUS_PENDING\<rparr>)"
    by (simp add: jobs_of_def job_world_def mem_docs_def matches_job_query) (simp add: enc_Job_def)
  have "reported ?job ''planName'' = None" "reported ?job ''status'' = Some (BString JOB_STATUS_RUNNING)"
      "reported ?job ''endTime'' = Some (BTime 9)"
    by (simp_all add: reported_def report_keys_def unset_values_def enc_Job_def zero_Job_def job_statuses)
  moreover have "lookup (enc_Job (zero_Job\<lparr>job_Id := ''j1'', job_PlanName := ''p'', job_Status := JOB_STATUS_PENDING\<rparr>))
      ''planName'' = Some (BString ''p'')" by (simp add: enc_Job_def)
  ultimately show ?thesis
    using UpdateJob_merges [OF mem.mgo_store_axioms run] run stored by (auto simp: zero_Job_def)
qed

section \<open>The progress of a migration\<close>

lemma move_result:
  assumes "move env srcLoca destLoca remain x shared s = Return ((c, sh), s')"
  shows "c = - 1 \<or> c = obj_Size x"
proof -
  obtain lm ps where "shared = (lm, ps)" by (cases shared)
  with assms show ?thesis
    unfolding move_def by (auto simp: ret_def elim!: call_ReturnE split: sum.splits if_splits prod.splits)
qed

text \<open>
  After \<open>n\<close> objects of the size \<open>sz\<close> in all: the tally counts them and has their sizes, in full when
  all have passed, and the job has been given the tally of an earlier moment, or the present one when it
  is the last.
\<close>

definition progressing :: "int \<Rightarrow> int \<Rightarrow> int \<Rightarrow> int \<Rightarrow> tally \<times> Job \<Rightarrow> bool" where
  "progressing tot cap n sz st \<longleftrightarrow> (case st of (t, j) \<Rightarrow>
     ta_count t = n \<and> 0 \<le> ta_passed t \<and> ta_passed t \<le> n \<and> 0 \<le> ta_capacity t \<and> ta_capacity t \<le> sz \<and>
     (ta_passed t = n \<longrightarrow> ta_capacity t = sz) \<and>
     job_TotalCount j = tot \<and> job_TotalCapacity j = cap \<and>
     0 \<le> job_PassedCapacity j \<and> job_PassedCapacity j \<le> sz \<and> 0 \<le> job_Progress j \<and> job_Progress j \<le> 100 \<and>
     (n = tot \<and> 0 < n \<longrightarrow> job_PassedCapacity j = ta_capacity t \<and> job_Progress j = ta_capacity t * 100 div cap))"

lemma progressing_collect:
  assumes "progressing tot cap n sz (t, j)" and "c = - 1 \<or> c = z" and "0 \<le> z"
    and fits: "sz + z \<le> cap" "cap * 100 < 9223372036854775808" and n: "n < tot" "0 \<le> n" and cap: "0 < cap"
  shows "progressing tot cap (n + 1) (sz + z)
    (collect c t, if reports tot (n + 1) then set_progress (collect c t) j else j)"
proof -
  have wrap: "i64 (ta_capacity t + z) = ta_capacity t + z"
    using assms by (intro i64_id) (auto simp: progressing_def)
  define t' where "t' = collect c t"
  have t': "ta_count t' = n + 1" "0 \<le> ta_passed t'" "ta_passed t' \<le> n + 1" "0 \<le> ta_capacity t'"
      "ta_capacity t' \<le> sz + z" "ta_passed t' = n + 1 \<Longrightarrow> ta_capacity t' = sz + z"
    using assms wrap by (auto simp: progressing_def collect_def t'_def)
  have hundred: "i64 (ta_capacity t' * 100) = ta_capacity t' * 100"
    using t' fits by (intro i64_id) auto
  have "go_div (i64 (ta_capacity t' * 100)) cap = ta_capacity t' * 100 div cap"
    using t' cap hundred by (simp add: go_div_pos)
  moreover have "0 \<le> ta_capacity t' * 100 div cap" using t' cap by (simp add: pos_imp_zdiv_nonneg_iff)
  moreover have "ta_capacity t' * 100 div cap \<le> 100"
  proof -
    have "ta_capacity t' * 100 \<le> 100 * cap" using t' fits by simp
    then have "ta_capacity t' * 100 div cap \<le> 100 * cap div cap" using cap by (rule zdiv_mono1)
    with cap show ?thesis by simp
  qed
  moreover have "n + 1 = tot \<Longrightarrow> reports tot (n + 1)" by (simp add: reports_def)
  ultimately show ?thesis
    using assms(1,3) t' unfolding t'_def [symmetric] by (auto simp: progressing_def set_progress_def)
qed

lemma migrate_object_result:
  assumes "migrate_object env mvReq tot (shared, t, j) x s = Return (st, s')"
  shows "\<exists>c shared'. (c = - 1 \<or> c = obj_Size x) \<and> st = (shared', collect c t,
    if reports tot (ta_count t + 1) then set_progress (collect c t) j else j)"
proof -
  from assms obtain c sh u where
    mv: "move (je_dm env) (mv_src mvReq) (mv_dest mvReq) (mv_remainSrc mvReq) x shared s = Return ((c, sh), u)"
    and rest: "(let t = collect c t in if reports tot (ta_count t) then
          (let j = set_progress t j in call (UpdateJob (je_db env) j) (\<lambda>_. ret (sh, t, j)))
        else ret (sh, t, j)) u = Return (st, s')"
    unfolding migrate_object_def by (auto elim!: call_ReturnE)
  have "ta_count (collect c t) = ta_count t + 1" by (simp add: collect_def)
  with rest have "st = (sh, collect c t, if reports tot (ta_count t + 1) then set_progress (collect c t) j else j)"
    by (auto simp: ret_def Let_def split: if_splits elim!: call_ReturnE)
  with move_result [OF mv] show ?thesis by blast
qed

lemma migrate_objects_progress:
  assumes "forEach xs (shared, t, j) (migrate_object env mvReq tot) s = Return ((shared', t', j'), s')"
    and "progressing tot cap n sz (t, j)" and "\<forall>x \<in> set xs. 0 \<le> obj_Size x"
    and "sz + sum_list (map obj_Size xs) \<le> cap" and "cap * 100 < 9223372036854775808" and "0 < cap"
    and "n + int (length xs) \<le> tot" and "0 \<le> n"
  shows "progressing tot cap (n + int (length xs)) (sz + sum_list (map obj_Size xs)) (t', j')"
  using assms
proof (induction xs arbitrary: shared t j n sz s)
  case Nil
  then show ?case by (simp add: ret_def)
next
  case (Cons x xs)
  have pos: "0 \<le> sum_list (map obj_Size xs)" using Cons.prems(3) by (intro sum_list_nonneg) auto
  from Cons.prems(1) have "call (migrate_object env mvReq tot (shared, t, j) x)
      (\<lambda>st. forEach xs st (migrate_object env mvReq tot)) s = Return ((shared', t', j'), s')" by simp
  then obtain st v where one: "migrate_object env mvReq tot (shared, t, j) x s = Return (st, v)"
    and go: "forEach xs st (migrate_object env mvReq tot) v = Return ((shared', t', j'), s')"
    by (rule call_ReturnE)
  from migrate_object_result [OF one] obtain c sh where c: "c = - 1 \<or> c = obj_Size x" and st: "st = (sh, collect c t,
      if reports tot (ta_count t + 1) then set_progress (collect c t) j else j)"
    by (elim exE conjE)
  have "ta_count t = n" using Cons.prems(2) by (simp add: progressing_def)
  note go = go [unfolded st this]
  let ?t = "collect c t" and ?j = "if reports tot (n + 1) then set_progress (collect c t) j else j"
  have size: "0 \<le> obj_Size x" using Cons.prems(3) by simp
  have fits: "sz + obj_Size x \<le> cap" using Cons.prems(4) pos by simp
  have more: "n < tot" using Cons.prems(7) by simp
  have "progressing tot cap (n + 1) (sz + obj_Size x) (?t, ?j)"
    by (rule progressing_collect [OF Cons.prems(2) c size fits Cons.prems(5) more Cons.prems(8,6)])
  from Cons.IH [OF go this] Cons.prems show ?case by (simp add: ac_simps)
qed

text \<open>
  C13. The progress of a migration is a percentage: for objects whose sizes are not negative and have the
  sum recorded in the job, below \<open>2 ^ 63 / 100\<close>, whatever fails and whenever the collecting times out,
  the progress stays between 0 and 100 and the passed count and capacity below the totals; and when the
  migration reports success everything has passed and the progress is 100.
\<close>

theorem doMigration_progress:
  assumes "doMigration env PART_SIZE mvReq j s = Return ((err, PART_SIZE', j'), s')"
    and "\<forall>x \<in> set (mv_objs mvReq). 0 \<le> obj_Size x"
    and "job_TotalCount j = int (length (mv_objs mvReq))"
    and "job_TotalCapacity j = sum_list (map obj_Size (mv_objs mvReq))"
    and "0 < job_TotalCapacity j" and "job_TotalCapacity j * 100 < 9223372036854775808"
    and "job_PassedCapacity j = 0" and "job_Progress j = 0"
  shows "0 \<le> job_Progress j' \<and> job_Progress j' \<le> 100 \<and>
    job_PassedCapacity j' \<le> job_TotalCapacity j \<and> job_PassedCount j' \<le> job_TotalCount j \<and>
    (err = None \<longrightarrow> job_Progress j' = 100 \<and> job_PassedCapacity j' = job_TotalCapacity j \<and>
       job_PassedCount j' = job_TotalCount j)"
proof -
  let ?objs = "mv_objs mvReq" and ?tot = "job_TotalCount j" and ?cap = "job_TotalCapacity j"
  let ?xs = "take (je_patience env) ?objs" and ?ys = "drop (je_patience env) ?objs"
  from assms(1) obtain sh t v where
    run: "forEach ?xs (([], PART_SIZE), no_tally, j) (migrate_object env mvReq ?tot) s = Return ((sh, t, v), s')"
    and err: "err = (if ta_passed t < ?tot then Some (short_of ''migrate failed:'' ?tot (ta_passed t)) else None)"
    and j': "j' = v\<lparr>job_PassedCount := ta_passed t\<rparr>"
    by (auto simp: doMigration_def ret_def Let_def elim!: call_ReturnE)
  have parts: "length ?xs + length ?ys = length ?objs"
      "sum_list (map obj_Size ?xs) + sum_list (map obj_Size ?ys) = sum_list (map obj_Size ?objs)"
    by (metis append_take_drop_id length_append, metis append_take_drop_id map_append sum_list_append)
  have xs: "\<forall>x \<in> set ?xs. 0 \<le> obj_Size x" using assms(2) in_set_takeD by fast
  have ys: "0 \<le> sum_list (map obj_Size ?ys)" using assms(2) by (intro sum_list_nonneg) (auto dest: in_set_dropD)
  have "progressing ?tot ?cap 0 0 (no_tally, j)" using assms by (simp add: progressing_def no_tally_def)
  from migrate_objects_progress [OF run this xs] parts ys assms
  have inv: "progressing ?tot ?cap (int (length ?xs)) (sum_list (map obj_Size ?xs)) (t, v)" by simp
  have count: "ta_passed t \<le> int (length ?xs)" "int (length ?xs) \<le> ?tot"
    using inv parts(1) assms(3) by (auto simp: progressing_def)
  have cap: "job_PassedCapacity v \<le> ?cap" using inv parts(2) ys assms(4) by (auto simp: progressing_def)
  show ?thesis
  proof (cases "ta_passed t < ?tot")
    case True
    with inv err j' count cap show ?thesis by (auto simp: progressing_def)
  next
    case False
    with count have all: "int (length ?xs) = ?tot" "ta_passed t = ?tot" by auto
    with parts assms(3) have "?ys = []" by (metis add_cancel_right_right length_0_conv of_nat_eq_iff)
    with parts(2) assms(4) have sz: "sum_list (map obj_Size ?xs) = ?cap" by simp
    have "?tot \<noteq> 0" using assms(3,4,5) by auto
    with all assms(3) have "0 < ?tot" by simp
    with inv all sz have "ta_capacity t = ?cap" "job_PassedCapacity v = ta_capacity t"
        "job_Progress v = ta_capacity t * 100 div ?cap" by (auto simp: progressing_def)
    with assms(5) j' err all False show ?thesis by simp
  qed
qed

text \<open>An environment for jobs on the mover's in-memory world; its scripts print one line.\<close>

definition mem_job_env :: "dm_mem job_env" where
  "mem_job_env = \<lparr>je_dm = mem_env no_env, je_Stamp = (\<lambda>t. ''[stamp] ''),
     je_Run = (\<lambda>req s. ((False, ''{}'', []), s)), je_StdoutPipe = (\<lambda>s. (None, s)),
     je_Lines = (\<lambda>req s. (([''{}''], None), s)), je_patience = 100\<rparr>"

definition big_move :: moveRequest where
  "big_move = \<lparr>mv_src = loc_a, mv_dest = loc_b, mv_objs = [big_object], mv_remainSrc = True\<rparr>"

theorem doMigration_progress_witness:
  "\<exists>PART_SIZE' j' s'. doMigration mem_job_env 2 big_move (zero_Job\<lparr>job_TotalCount := 1, job_TotalCapacity := 5\<rparr>) dm_world =
       Return ((None, PART_SIZE', j'), s') \<and> job_Progress j' = 100 \<and> job_PassedCapacity j' = 5"
proof -
  let ?j = "zero_Job\<lparr>job_TotalCount := 1, job_TotalCapacity := 5\<rparr>"
  let ?run = "doMigration mem_job_env 2 big_move ?j dm_world"
  have "case ?run of Return ((None, _, _), _) \<Rightarrow> True | _ \<Rightarrow> False" by code_simp
  then obtain P' j' s' where run: "?run = Return ((None, P', j'), s')"
    by (auto split: go.splits option.splits prod.splits)
  have "mv_objs big_move = [big_object]" "obj_Size big_object = 5"
    by (simp_all add: big_move_def big_object_def)
  with doMigration_progress [OF run] run show ?thesis by (simp add: zero_Job_def)
qed

section \<open>The end of a job\<close>

lemma updateJob_result:
  assumes "updateJob env j status step s = Return (j', s')"
  shows "job_Status j' = (if status \<noteq> [] then status else job_Status j)"
  using assms by (auto simp: updateJob_def ret_def Let_def ends_def elim!: call_ReturnE split: if_splits)

lemma statuses_set [simp]:
  "JOB_STATUS_FAILED \<noteq> []" "JOB_STATUS_SUCCEED \<noteq> []" "JOB_STATUS_RUNNING \<noteq> []" "JOB_STAT_RUNNING \<noteq> []"
  by (simp_all add: job_statuses JOB_STAT_RUNNING_def)

lemma createAnalysisJob_fails: "createAnalysisJob env req s = Return (r, s') \<Longrightarrow> \<exists>e. r = Inl e"
  by (auto simp: createAnalysisJob_def ret_def Unmarshal_by_value_def elim!: call_ReturnE split: if_splits)

lemma Mrs_Handle_fails: "Mrs_Handle env req j b s = Return ((err, j'), s') \<Longrightarrow> \<exists>e. err = Some e"
  by (auto simp: Mrs_Handle_def buildCreateJobReq_def ret_def elim!: call_ReturnE dest!: createAnalysisJob_fails
      split: sum.splits)

lemma analysisHandle_fails:
  assumes "analysisHandle env req j destLoca s = Return ((err, j'), s')"
  shows "err \<noteq> None \<and> job_Status j' = JOB_STATUS_FAILED"
  using assms unfolding analysisHandle_def
  by (auto simp: ret_def elim!: call_ReturnE split: if_splits option.splits
      dest!: updateJob_result Mrs_Handle_fails)

text \<open>
  No analysis of moved data ever gets going, and the step that starts it hides this: whatever the
  cluster's script answers, the answer is decoded into a struct passed by value, which fails, so the
  job's last recorded status is \<open>failed\<close>; yet \<open>asistHandle\<close> reports no error, and the job goes on to fetch
  the results of the analysis.
\<close>

theorem asistHandle_hides_failure:
  assumes "asistHandle env req j destLoca s = Return ((err, j'), s')"
    and "asi_Type (rj_Asist req) = ASIST_TYPE_DATA_ANALYSIS"
  shows "err = None \<and> job_Status j' = JOB_STATUS_FAILED"
proof -
  from assms have "call (analysisHandle env req j destLoca) (\<lambda>(_, j). ret (None, j)) s = Return ((err, j'), s')"
    by (simp add: asistHandle_def)
  then show ?thesis by (elim call_ReturnE) (auto simp: ret_def dest: analysisHandle_fails)
qed

definition analysis_request :: RunJobRequest where
  "analysis_request = \<lparr>rj_Id = ''5c6f8a2b9d3e4f0012345678'', rj_FiltPrefix = [],
     rj_SourceConn = \<lparr>cm_Type = STOR_TYPE_AWS_S3, cm_BucketName = [], cm_ConnConfig = [\<lparr>kv_Key = ''bucketname'', kv_Value = ''A''\<rparr>]\<rparr>,
     rj_DestConn = \<lparr>cm_Type = STOR_TYPE_AWS_S3, cm_BucketName = [], cm_ConnConfig = [\<lparr>kv_Key = ''bucketname'', kv_Value = ''B''\<rparr>]\<rparr>,
     rj_RemainSource = True, rj_Asist = \<lparr>asi_Type = ASIST_TYPE_DATA_ANALYSIS, asi_Details = []\<rparr>\<rparr>"

theorem asistHandle_hides_failure_witness:
  "\<exists>j' s'. asistHandle mem_job_env analysis_request zero_Job (loc_b\<lparr>lo_StorType := STOR_TYPE_HW_OBS\<rparr>) dm_world =
     Return ((None, j'), s') \<and> job_Status j' = JOB_STATUS_FAILED"
proof -
  let ?run = "asistHandle mem_job_env analysis_request zero_Job (loc_b\<lparr>lo_StorType := STOR_TYPE_HW_OBS\<rparr>) dm_world"
  have "is_return ?run" by code_simp
  then obtain err j' s' where run: "?run = Return ((err, j'), s')" by (auto simp: is_return_iff)
  have "asi_Type (rj_Asist analysis_request) = ASIST_TYPE_DATA_ANALYSIS" by (simp add: analysis_request_def)
  from asistHandle_hides_failure [OF run this] run show ?thesis by blast
qed

lemma count_objects_total: "job_TotalCount (count_objects objs j) = job_TotalCount j + int (length objs)"
  unfolding count_objects_def by (induction objs arbitrary: j) simp_all

lemma failed_now_result: "failed_now env j s = Return (j', s') \<Longrightarrow> job_Status j' = JOB_STATUS_FAILED"
  by (auto simp: failed_now_def Let_def ret_def elim!: call_ReturnE)

lemma prepare4Run_result:
  assumes "prepare4Run env j req s = Return ((r, j'), s')" and "job_TotalCount j = 0"
  shows "case r of Inl e \<Rightarrow> job_Status j' = JOB_STATUS_FAILED
    | Inr _ \<Rightarrow> job_Status j' = (if job_TotalCount j' = 0 \<or> job_TotalCapacity j' = 0 then JOB_STATUS_SUCCEED else JOB_STATUS_RUNNING)"
  using assms unfolding prepare4Run_def
  by (auto simp: ret_def Let_def count_objects_total elim!: call_ReturnE split: sum.splits if_splits dest!: failed_now_result)

lemma migrate_objects_status:
  "forEach xs (sh, t, j) (migrate_object env mvReq tot) s = Return ((sh', t', j'), s') \<Longrightarrow> job_Status j' = job_Status j"
proof (induction xs arbitrary: sh t j s)
  case Nil
  then show ?case by (simp add: ret_def)
next
  case (Cons x xs)
  from Cons.prems have "call (migrate_object env mvReq tot (sh, t, j) x)
      (\<lambda>st. forEach xs st (migrate_object env mvReq tot)) s = Return ((sh', t', j'), s')" by simp
  then obtain st v where one: "migrate_object env mvReq tot (sh, t, j) x s = Return (st, v)"
    and go: "forEach xs st (migrate_object env mvReq tot) v = Return ((sh', t', j'), s')"
    by (rule call_ReturnE)
  obtain sh1 t1 j1 where st: "st = (sh1, t1, j1)" by (cases st)
  from migrate_object_result [OF one] st have "job_Status j1 = job_Status j"
    by (auto simp: set_progress_def)
  with Cons.IH [OF go [unfolded st]] show ?case by simp
qed

lemma doMigration_status:
  assumes "doMigration env PART_SIZE mvReq j s = Return ((err, PART_SIZE', j'), s')"
  shows "job_Status j' = job_Status j"
  using assms unfolding doMigration_def
  by (auto simp: ret_def Let_def elim!: call_ReturnE dest!: migrate_objects_status)

lemma migrateResult_status:
  assumes "migrateResult env PART_SIZE mvReq j s = Return (j', s')"
  shows "job_Status j' \<in> {JOB_STATUS_SUCCEED, JOB_STATUS_FAILED}"
  using assms unfolding migrateResult_def by (auto simp: Let_def elim!: call_ReturnE dest!: updateJob_result split: if_splits)

lemma asistHandle_status:
  assumes "asistHandle env req j destLoca s = Return ((err, j'), s')"
  shows "job_Status j' = JOB_STATUS_FAILED"
  using assms unfolding asistHandle_def
  by (auto simp: ret_def Let_def elim!: call_ReturnE split: if_splits dest: analysisHandle_fails updateJob_result)

lemma asistPostHandle_status:
  assumes "asistPostHandle env PART_SIZE req j srcLoca destLoca s = Return ((err, j'), s')"
    and "asi_Type (rj_Asist req) = ASIST_TYPE_DATA_ANALYSIS"
  shows "if err = None then job_Status j' \<in> {JOB_STATUS_SUCCEED, JOB_STATUS_FAILED} else job_Status j' = JOB_STATUS_RUNNING"
  using assms unfolding asistPostHandle_def dataAnalysisPostHandle_def
  by (auto simp: ret_def Let_def elim!: call_ReturnE split: sum.splits if_splits dest!: updateJob_result migrateResult_status)

text \<open>
  C16. Every run of a job that returns ends with one of the declared statuses. A job without assistance
  tells its outcome: \<open>succeed\<close> when the run reports no error, \<open>failed\<close> otherwise. Only a job whose
  assistance fails can stay in \<open>running\<close> after its goroutine is gone.
\<close>

theorem runjob_final_status:
  assumes "runjob env PART_SIZE req s = Return ((err, j'), s')"
  shows "job_Status j' \<in> {JOB_STATUS_RUNNING, JOB_STATUS_SUCCEED, JOB_STATUS_FAILED} \<and>
    (asi_Type (rj_Asist req) = [] \<longrightarrow> job_Status j' = (if err = None then JOB_STATUS_SUCCEED else JOB_STATUS_FAILED)) \<and>
    (job_Status j' = JOB_STATUS_RUNNING \<longrightarrow> err \<noteq> None)"
proof -
  have distinct: "JOB_STATUS_SUCCEED \<noteq> JOB_STATUS_RUNNING" "JOB_STATUS_FAILED \<noteq> JOB_STATUS_RUNNING"
      "ASIST_TYPE_DATA_ANALYSIS \<noteq> []" by (simp_all add: job_statuses ASIST_TYPE_DATA_ANALYSIS_def)
  from assms obtain oid now t u r j where
    prep: "prepare4Run env (zero_Job\<lparr>job_Id := oid, job_StartTime := now\<rparr>) req t = Return ((r, j), u)"
    and rest: "(case r of Inl err \<Rightarrow> ret (Some err, j)
       | Inr (srcLoca, destLoca, objs) \<Rightarrow>
         if job_TotalCount j = 0 \<or> job_TotalCapacity j = 0 then ret (None, j)
         else
           call (updateJob env j JOB_STATUS_RUNNING ''migrate ...'') (\<lambda>j.
           call (doMigration env PART_SIZE
                   \<lparr>mv_src = srcLoca, mv_dest = destLoca, mv_objs = objs, mv_remainSrc = rj_RemainSource req\<rparr> j)
             (\<lambda>(err, PART_SIZE, j).
           case err of
             Some e \<Rightarrow> call (updateJob env j JOB_STATUS_FAILED e) (\<lambda>j. ret (Some e, j))
           | None \<Rightarrow>
               if asi_Type (rj_Asist req) = [] then
                 call (updateJob env j JOB_STATUS_SUCCEED ''migrate sucecessfully.'') (\<lambda>j. ret (None, j))
               else if asi_Type (rj_Asist req) = ASIST_TYPE_DATA_ANALYSIS then
                 call (asistHandle env req j destLoca) (\<lambda>(err, j).
                   if err = None then asistPostHandle env PART_SIZE req j destLoca srcLoca else ret (err, j))
               else ret (Some ''Unsupport asist type.'', j)))) u = Return ((err, j'), s')"
    unfolding runjob_def by (elim call_ReturnE) (simp split: prod.splits)
  show ?thesis
  proof (cases r)
    case (Inl e)
    with rest prepare4Run_result [OF prep] distinct show ?thesis by (auto simp: ret_def zero_Job_def)
  next
    case (Inr p)
    obtain a b c where p: "p = (a, b, c)" by (cases p)
    show ?thesis
    proof (cases "job_TotalCount j = 0 \<or> job_TotalCapacity j = 0")
      case True
      with rest Inr p prepare4Run_result [OF prep] distinct show ?thesis by (simp add: ret_def zero_Job_def)
    next
      case False
      with rest [unfolded Inr p sum.case prod.case] distinct show ?thesis
        by (auto simp: ret_def elim!: call_ReturnE split: option.splits if_splits
            dest!: updateJob_result doMigration_status asistHandle_status asistPostHandle_status)
    qed
  qed
qed

definition plain_request :: RunJobRequest where
  "plain_request = analysis_request\<lparr>rj_Asist := \<lparr>asi_Type = [], asi_Details = []\<rparr>\<rparr>"

theorem runjob_final_status_witness:
  "\<exists>j' s'. runjob mem_job_env 16777216 plain_request dm_world = Return ((None, j'), s') \<and>
     job_Status j' = JOB_STATUS_SUCCEED \<and> mem_objects s' ''B'' ''v1/k'' = Some [1, 2, 3, 4, 5]"
proof -
  let ?run = "runjob mem_job_env 16777216 plain_request dm_world"
  have "case ?run of Return ((None, _), w) \<Rightarrow> mem_objects w ''B'' ''v1/k'' = Some [1, 2, 3, 4, 5] | _ \<Rightarrow> False" by code_simp
  then obtain j' s' where run: "?run = Return ((None, j'), s')" and "mem_objects s' ''B'' ''v1/k'' = Some [1, 2, 3, 4, 5]"
    by (auto split: go.splits option.splits prod.splits)
  moreover have "asi_Type (rj_Asist plain_request) = []" by (simp add: plain_request_def)
  ultimately show ?thesis using runjob_final_status [OF run] by simp
qed

end
