(* ===== verification/Store_Types.thy ===== *)
theory Store_Types
  imports Mover_Ceph Mover_Blob Mover_Obs S3_Metadata Backend_Service
begin

text \<open>
  What the storage adapters of the S3 interface share (\<open>s3/pkg/model/xmlstruct.go\<close> and the interface
  in \<open>api/pkg/s3/datastore/store.go\<close>). A stream is a reader with its pieces and its end. The operation
  a request carries in its context is a string.
\<close>

section \<open>Results\<close>

definition Xmlns :: string where "Xmlns = ''http://s3.amazonaws.com/doc/2006-03-01''"

record MultipartUpload =
  mu_Bucket :: string
  mu_Key :: string
  mu_UploadId :: string

record UploadPartResult =
  up_Xmlns :: string
  up_PartNumber :: int
  up_ETag :: string

record Part =
  pt_PartNumber :: int
  pt_ETag :: string

record CompleteMultipartUploadResult =
  cr_Xmlns :: string
  cr_Location :: string
  cr_Bucket :: string
  cr_Key :: string
  cr_ETag :: string

record ListPartsOutput =
  lp_Xmlns :: string
  lp_Bucket :: string
  lp_Key :: string
  lp_UploadId :: string
  lp_MaxParts :: int
  lp_IsTruncated :: bool
  lp_Owner :: "string \<times> string"
  lp_Parts :: "Part list"

definition zero_ListPartsOutput :: ListPartsOutput where
  "zero_ListPartsOutput = \<lparr>lp_Xmlns = [], lp_Bucket = [], lp_Key = [], lp_UploadId = [], lp_MaxParts = 0,
     lp_IsTruncated = False, lp_Owner = ([], []), lp_Parts = []\<rparr>"

section \<open>Errors\<close>

definition err500 :: "string \<Rightarrow> S3Error" where
  "err500 text = \<lparr>s3e_Code = 500, s3e_Description = text\<rparr>"

definition NoSuchBackend :: S3Error where
  "NoSuchBackend = \<lparr>s3e_Code = 404, s3e_Description = ''The specified backend does not exists.''\<rparr>"

definition NoSuchType :: S3Error where
  "NoSuchType = \<lparr>s3e_Code = 404, s3e_Description = ''The specified backend type does not exists.''\<rparr>"

lemma err500_not_NoError [simp]: "err500 t \<noteq> NoError" "InternalError \<noteq> NoError" "NoSuchBackend \<noteq> NoError"
    "NoSuchObject \<noteq> NoError" "NoSuchType \<noteq> NoError"
  by (simp_all add: err500_def s3_errors NoSuchBackend_def NoSuchType_def)

section \<open>Streams and keys\<close>

definition whole :: "byte list \<Rightarrow> body" where
  "whole bs = \<lparr>bd_pieces = [bs], bd_end = None\<rparr>"

lemma bd_content_whole [simp]: "bd_content (whole bs) = bs"
  by (simp add: whole_def bd_content_def)

text \<open>A reader that has been read to its end.\<close>

definition drained :: "body \<Rightarrow> body" where
  "drained b = b\<lparr>bd_pieces := []\<rparr>"

text \<open>The key under which an object of a bucket is stored in the bucket of its backend.\<close>

definition backend_key :: "string \<Rightarrow> string \<Rightarrow> string" where
  "backend_key bucket key = bucket @ ''/'' @ key"

definition ranged :: "int \<Rightarrow> int \<Rightarrow> (int \<times> int) option" where
  "ranged start end = (if start \<noteq> 0 \<or> end \<noteq> 0 then Some (start, end) else None)"

text \<open>\<open>make([]byte, n)\<close> panics when \<open>n\<close> is negative.\<close>

definition make_bytes :: "int \<Rightarrow> ('s, byte list) prog" where
  "make_bytes n = (if n < 0 then panic SliceBounds else ret (new_buf n))"

text \<open>The clock and the text of its times, of which the adapters keep the first 19 characters.\<close>

record 's clock =
  ck_Now :: "'s \<Rightarrow> int \<times> 's"
  ck_Text :: "int \<Rightarrow> string"

definition stamp :: "'s clock \<Rightarrow> ('s, string) prog" where
  "stamp ck = call (liftS (ck_Now ck)) (\<lambda>now. ret (take 19 (ck_Text ck now)))"

definition touch :: "'s clock \<Rightarrow> Object \<Rightarrow> ('s, S3Error \<times> Object) prog" where
  "touch ck x = call (stamp ck) (\<lambda>t. ret (NoError, x\<lparr>obj_LastModified := t\<rparr>))"

end
