(* ===== verification/Store_Azure.thy ===== *)
theory Store_Azure
  imports Store_Types
begin

text \<open>
  The storage adapter for Azure blobs (\<open>api/pkg/s3/datastore/azure/azure.go\<close>), on the same SDK record
  \<open>az_ops\<close> as the mover. A download without a range reads the body once, into a buffer of the size
  the metadata gives, and looks at the error of the request only after it has used the response.
\<close>

type_synonym AzureAdapter = "Backend \<times> az_container"

definition Azure_createContainerURL :: "'s az_ops \<Rightarrow> string \<Rightarrow> string \<Rightarrow> string \<Rightarrow> ('s, string + az_container) prog" where
  "Azure_createContainerURL ops endpoint acountName accountKey =
     call (liftS (az_NewSharedKeyCredential ops acountName accountKey)) (\<lambda>err.
       case err of
         Some e \<Rightarrow> ret (Inl e)
       | None \<Rightarrow>
           (if az_ParsesURL ops endpoint then
              ret (Inr \<lparr>az_Endpoint = endpoint, az_Account = acountName, az_Key = accountKey\<rparr>)
            else panic NilDereference))"

definition Azure_Init :: "'s az_ops \<Rightarrow> Backend \<Rightarrow> ('s, AzureAdapter option) prog" where
  "Azure_Init ops backend =
     call (Azure_createContainerURL ops (be_Endpoint backend) (be_Access backend) (be_Security backend)) (\<lambda>r.
       ret (case r of Inl err \<Rightarrow> None | Inr url \<Rightarrow> Some (backend, url)))"

definition Azure_PUT :: "'s clock \<Rightarrow> 's az_ops \<Rightarrow> AzureAdapter option \<Rightarrow> body \<Rightarrow> Object \<Rightarrow>
    ('s, S3Error \<times> Object) prog" where
  "Azure_PUT ck ops ad stream x =
     deref ad (\<lambda>(backend, url).
       call (liftS (az_Upload ops url (backend_key (obj_BucketName x) (obj_ObjectKey x)) (bd_content stream))) (\<lambda>r.
         case r of
           Inl err \<Rightarrow> ret (err500 ''Upload to azure failed'', x)
         | Inr status \<Rightarrow>
             call (touch ck x) (\<lambda>(_, x).
               ret (if status \<noteq> HTTP_CREATED then err500 ''azure failed'' else NoError, x))))"

definition Azure_GET :: "'s az_ops \<Rightarrow> AzureAdapter option \<Rightarrow> Object \<Rightarrow> int \<Rightarrow> int \<Rightarrow>
    ('s, body option \<times> S3Error) prog" where
  "Azure_GET ops ad x start end =
     deref ad (\<lambda>(backend, url).
       let key = backend_key (obj_BucketName x) (obj_ObjectKey x)
       in if start \<noteq> 0 \<or> end \<noteq> 0 then
            (let count = end - start + 1
             in call (make_bytes count) (\<lambda>buf.
                call (liftS (az_DownloadBlobToBuffer ops url key start count buf)) (\<lambda>(r, buf).
                  ret (case r of
                         Inl err \<Rightarrow> (None, err500 ''Download failed'')
                       | Inr _ \<Rightarrow> (Some (whole buf), NoError)))))
          else
            call (make_bytes (obj_Size x)) (\<lambda>buf.
            call (liftS (az_Download ops url key)) (\<lambda>r.
              case r of
                Inl err \<Rightarrow> panic NilDereference
              | Inr bd \<Rightarrow>
                  (case Read (length buf) bd of
                     (bs, _, _) \<Rightarrow> ret (Some (whole (copy_at 0 bs buf)), NoError)))))"

definition Azure_DELETE :: "'s az_ops \<Rightarrow> AzureAdapter option \<Rightarrow> string \<Rightarrow> string \<Rightarrow> ('s, S3Error) prog" where
  "Azure_DELETE ops ad bucket key =
     deref ad (\<lambda>(backend, url).
       call (liftS (az_Delete ops url (backend_key bucket key))) (\<lambda>r.
         ret (case r of
                Inl err \<Rightarrow> err500 ''Delete failed''
              | Inr status \<Rightarrow> (if status \<noteq> HTTP_OK \<and> status \<noteq> HTTP_ACCEPTED then err500 ''Delete failed'' else NoError))))"

definition Azure_GetObjectInfo :: "string \<Rightarrow> string \<Rightarrow> ('s, Object option \<times> S3Error) prog" where
  "Azure_GetObjectInfo bucketName key =
     ret (Some (zero_Object\<lparr>obj_BucketName := bucketName, obj_ObjectKey := key\<rparr>), NoError)"

definition Azure_InitMultipartUpload :: "AzureAdapter option \<Rightarrow> Object \<Rightarrow> ('s, MultipartUpload option \<times> S3Error) prog" where
  "Azure_InitMultipartUpload ad x =
     deref ad (\<lambda>_. ret (Some \<lparr>mu_Bucket = obj_BucketName x, mu_Key = obj_ObjectKey x, mu_UploadId = obj_ObjectKey x\<rparr>, NoError))"

definition Azure_BinaryToBase64 :: "byte list \<Rightarrow> string" where
  "Azure_BinaryToBase64 binaryID = b64_encode binaryID"

definition Azure_Int64ToBase64 :: "int \<Rightarrow> string" where
  "Azure_Int64ToBase64 blockID = Azure_BinaryToBase64 (le_bytes blockID)"

lemma Azure_Int64ToBase64: "Azure_Int64ToBase64 = Int64ToBase64"
  by (rule ext) (simp add: Azure_Int64ToBase64_def Azure_BinaryToBase64_def Int64ToBase64_def BinaryToBase64_def)

text \<open>The ETag given to the client is the key.\<close>

definition Azure_UploadPart :: "'s az_ops \<Rightarrow> AzureAdapter option \<Rightarrow> body \<Rightarrow> MultipartUpload \<Rightarrow> int \<Rightarrow>
    ('s, UploadPartResult option \<times> S3Error) prog" where
  "Azure_UploadPart ops ad stream mu partNumber =
     deref ad (\<lambda>(backend, url).
       let key = backend_key (mu_Bucket mu) (mu_Key mu)
       in call (liftS (az_StageBlock ops url key (Azure_Int64ToBase64 partNumber) (bd_content stream))) (\<lambda>r.
            ret (case r of
                   Inl err \<Rightarrow> (None, err500 ''Delete failed'')
                 | Inr _ \<Rightarrow> (Some \<lparr>up_Xmlns = [], up_PartNumber = partNumber, up_ETag = key\<rparr>, NoError))))"

definition Azure_CompleteMultipartUpload :: "'s az_ops \<Rightarrow> AzureAdapter option \<Rightarrow> MultipartUpload \<Rightarrow> Part list \<Rightarrow>
    ('s, CompleteMultipartUploadResult option \<times> S3Error) prog" where
  "Azure_CompleteMultipartUpload ops ad mu parts =
     deref ad (\<lambda>(backend, url).
       call (liftS (az_CommitBlockList ops url (backend_key (mu_Bucket mu) (mu_Key mu))
               (map (\<lambda>p. Azure_Int64ToBase64 (pt_PartNumber p)) parts))) (\<lambda>r.
         ret (case r of
                Inl err \<Rightarrow> (None, err500 err)
              | Inr _ \<Rightarrow>
                  (Some \<lparr>cr_Xmlns = [], cr_Location = be_Name backend, cr_Bucket = mu_Bucket mu, cr_Key = mu_Key mu,
                      cr_ETag = []\<rparr>, NoError))))"

definition Azure_AbortMultipartUpload :: "AzureAdapter option \<Rightarrow> ('s, S3Error) prog" where
  "Azure_AbortMultipartUpload ad = deref ad (\<lambda>_. ret NoError)"

definition Azure_ListParts :: "AzureAdapter option \<Rightarrow> ('s, ListPartsOutput option \<times> S3Error) prog" where
  "Azure_ListParts ad = ret (None, NoError)"

end
