(* ===== verification/Store_Hws.thy ===== *)
theory Store_Hws
  imports Store_Types
begin

text \<open>
  The storage adapter for Huawei OBS (\<open>api/pkg/s3/datastore/hws/hws.go\<close>), on the client as the record
  \<open>obs_store\<close>. The client returns no response together with an error; completing an upload and listing
  parts read the response before they look at the error.
\<close>

section \<open>The client\<close>

record 's obs_store =
  so_New :: "obs_client \<Rightarrow> 's \<Rightarrow> string option \<times> 's"
  so_PutObject :: "obs_client \<Rightarrow> string \<Rightarrow> string \<Rightarrow> body \<Rightarrow> 's \<Rightarrow> (string + unit) \<times> 's"
  so_GetObject :: "obs_client \<Rightarrow> string \<Rightarrow> string \<Rightarrow> (int \<times> int) option \<Rightarrow> 's \<Rightarrow> (string + body) \<times> 's"
  so_DeleteObject :: "obs_client \<Rightarrow> string \<Rightarrow> string \<Rightarrow> 's \<Rightarrow> (string + unit) \<times> 's"
  so_InitiateMultipartUpload :: "obs_client \<Rightarrow> string \<Rightarrow> string \<Rightarrow> 's \<Rightarrow> (string + MultipartUpload) \<times> 's"
  so_UploadPart :: "obs_client \<Rightarrow> string \<Rightarrow> string \<Rightarrow> string \<Rightarrow> int \<Rightarrow> int \<Rightarrow> body \<Rightarrow> 's \<Rightarrow> (string + string) \<times> 's"
  so_CompleteMultipartUpload :: "obs_client \<Rightarrow> string \<Rightarrow> string \<Rightarrow> string \<Rightarrow> (int \<times> string) list \<Rightarrow> 's \<Rightarrow>
      (string + CompleteMultipartUploadResult) \<times> 's"
  so_AbortMultipartUpload :: "obs_client \<Rightarrow> string \<Rightarrow> string \<Rightarrow> string \<Rightarrow> 's \<Rightarrow> (string + unit) \<times> 's"
  so_ListParts :: "obs_client \<Rightarrow> string \<Rightarrow> string \<Rightarrow> string \<Rightarrow> int \<Rightarrow> 's \<Rightarrow> (string + ListPartsOutput) \<times> 's"

section \<open>The adapter\<close>

type_synonym OBSAdapter = "Backend \<times> obs_client"

definition Hws_config :: "Backend \<Rightarrow> obs_client" where
  "Hws_config backend = \<lparr>oc_AccessKey = be_Access backend, oc_SecretKey = be_Security backend,
     oc_Endpoint = be_Endpoint backend\<rparr>"

definition Hws_Init :: "'s obs_store \<Rightarrow> Backend \<Rightarrow> ('s, OBSAdapter option) prog" where
  "Hws_Init ops backend =
     call (liftS (so_New ops (Hws_config backend))) (\<lambda>err.
       ret (case err of None \<Rightarrow> Some (backend, Hws_config backend) | Some _ \<Rightarrow> None))"

definition Hws_PUT :: "'s clock \<Rightarrow> 's obs_store \<Rightarrow> OBSAdapter option \<Rightarrow> body \<Rightarrow> Object \<Rightarrow> string \<Rightarrow>
    ('s, S3Error \<times> Object) prog" where
  "Hws_PUT ck ops ad stream x operation =
     deref ad (\<lambda>(backend, client).
       if operation = ''upload'' then
         call (liftS (so_PutObject ops client (be_BucketName backend) (backend_key (obj_BucketName x) (obj_ObjectKey x)) stream)) (\<lambda>r.
           case r of
             Inl err \<Rightarrow> ret (err500 ''Upload to obs failed'', x)
           | Inr _ \<Rightarrow> touch ck x)
       else ret (NoError, x))"

definition Hws_GET :: "'s obs_store \<Rightarrow> OBSAdapter option \<Rightarrow> Object \<Rightarrow> string \<Rightarrow> int \<Rightarrow> int \<Rightarrow>
    ('s, body option \<times> S3Error) prog" where
  "Hws_GET ops ad x operation start end =
     deref ad (\<lambda>(backend, client).
       if operation = ''download'' then
         call (liftS (so_GetObject ops client (be_BucketName backend) (backend_key (obj_BucketName x) (obj_ObjectKey x))
                 (ranged start end))) (\<lambda>r.
           ret (case r of
                  Inl err \<Rightarrow> (None, err500 ''download hws obs failed'')
                | Inr bd \<Rightarrow> (Some bd, NoError)))
       else ret (None, NoError))"

definition Hws_DELETE :: "'s obs_store \<Rightarrow> OBSAdapter option \<Rightarrow> string \<Rightarrow> string \<Rightarrow> ('s, S3Error) prog" where
  "Hws_DELETE ops ad bucket key =
     deref ad (\<lambda>(backend, client).
       call (liftS (so_DeleteObject ops client (be_BucketName backend) (backend_key bucket key))) (\<lambda>r.
         ret (case r of Inl err \<Rightarrow> InternalError | Inr _ \<Rightarrow> NoError)))"

definition Hws_GetObjectInfo :: "OBSAdapter option \<Rightarrow> ('s, Object option \<times> S3Error) prog" where
  "Hws_GetObjectInfo ad = ret (None, NoError)"

text \<open>The bucket and key given to the client are those of the backend.\<close>

definition Hws_InitMultipartUpload :: "'s obs_store \<Rightarrow> OBSAdapter option \<Rightarrow> Object \<Rightarrow> string \<Rightarrow>
    ('s, MultipartUpload option \<times> S3Error) prog" where
  "Hws_InitMultipartUpload ops ad x operation =
     deref ad (\<lambda>(backend, client).
       if operation = ''multipartupload'' then
         call (liftS (so_InitiateMultipartUpload ops client (be_BucketName backend)
                 (backend_key (obj_BucketName x) (obj_ObjectKey x)))) (\<lambda>r.
           ret (case r of
                  Inl err \<Rightarrow> (None, err500 ''initmultipartupload failed'')
                | Inr out \<Rightarrow> (Some out, NoError)))
       else ret (None, NoError))"

definition Hws_UploadPart :: "'s obs_store \<Rightarrow> OBSAdapter option \<Rightarrow> body \<Rightarrow> MultipartUpload \<Rightarrow> int \<Rightarrow> int \<Rightarrow> string \<Rightarrow>
    ('s, UploadPartResult option \<times> S3Error) prog" where
  "Hws_UploadPart ops ad stream mu partNumber upBytes operation =
     deref ad (\<lambda>(backend, client).
       if operation = ''multipartupload'' then
         call (liftS (so_UploadPart ops client (be_BucketName backend) (backend_key (mu_Bucket mu) (mu_Key mu))
                 (mu_UploadId mu) partNumber upBytes stream)) (\<lambda>r.
           ret (case r of
                  Inl err \<Rightarrow> (None, err500 ''uploadpart init failed'')
                | Inr etag \<Rightarrow> (Some \<lparr>up_Xmlns = [], up_PartNumber = partNumber, up_ETag = etag\<rparr>, NoError)))
       else ret (None, NoError))"

definition Hws_CompleteMultipartUpload :: "'s obs_store \<Rightarrow> OBSAdapter option \<Rightarrow> MultipartUpload \<Rightarrow> Part list \<Rightarrow> string \<Rightarrow>
    ('s, CompleteMultipartUploadResult option \<times> S3Error) prog" where
  "Hws_CompleteMultipartUpload ops ad mu parts operation =
     deref ad (\<lambda>(backend, client).
       if operation = ''multipartupload'' then
         call (liftS (so_CompleteMultipartUpload ops client (be_BucketName backend) (backend_key (mu_Bucket mu) (mu_Key mu))
                 (mu_UploadId mu) (map (\<lambda>p. (pt_PartNumber p, pt_ETag p)) parts))) (\<lambda>r.
           case r of
             Inl err \<Rightarrow> panic NilDereference
           | Inr resp \<Rightarrow> ret (Some (resp\<lparr>cr_Xmlns := Xmlns\<rparr>), NoError))
       else ret (None, NoError))"

definition Hws_AbortMultipartUpload :: "'s obs_store \<Rightarrow> OBSAdapter option \<Rightarrow> MultipartUpload \<Rightarrow> string \<Rightarrow> ('s, S3Error) prog" where
  "Hws_AbortMultipartUpload ops ad mu operation =
     deref ad (\<lambda>(backend, client).
       if operation = ''multipartupload'' then
         call (liftS (so_AbortMultipartUpload ops client (be_BucketName backend) (backend_key (mu_Bucket mu) (mu_Key mu))
                 (mu_UploadId mu))) (\<lambda>r.
           ret (case r of Inl err \<Rightarrow> err500 ''AbortMultipartUploadInput failed'' | Inr _ \<Rightarrow> NoError))
       else ret NoError)"

text \<open>The key of the parts is not put under the bucket's name here, unlike everywhere else.\<close>

definition Hws_ListParts :: "'s obs_store \<Rightarrow> OBSAdapter option \<Rightarrow> string \<Rightarrow> string \<Rightarrow> int \<Rightarrow> string \<Rightarrow>
    ('s, ListPartsOutput option \<times> S3Error) prog" where
  "Hws_ListParts ops ad key uploadId maxParts operation =
     deref ad (\<lambda>(backend, client).
       if operation = ''listParts'' then
         call (liftS (so_ListParts ops client (be_BucketName backend) key uploadId maxParts)) (\<lambda>r.
           case r of
             Inl err \<Rightarrow> panic NilDereference
           | Inr out \<Rightarrow> ret (Some (zero_ListPartsOutput\<lparr>lp_Bucket := lp_Bucket out, lp_Key := lp_Key out,
                 lp_UploadId := lp_UploadId out, lp_MaxParts := lp_MaxParts out, lp_Parts := lp_Parts out\<rparr>), NoError))
       else ret (None, NoError))"

end
