(* ===== verification/Store_Aws.thy ===== *)
theory Store_Aws
  imports Store_Types
begin

text \<open>
  The storage adapter for AWS S3 (\<open>api/pkg/s3/datastore/aws/aws.go\<close>), on the SDK as the record
  \<open>aws_store\<close>. \<open>log.Fatalf\<close> ends the whole service. An adapter that could not be made is a nil
  pointer, on which every method panics when it reads a field.
\<close>

section \<open>The SDK\<close>

record store_session =
  ss_Region :: string
  ss_Endpoint :: string
  ss_AccessKey :: string
  ss_SecretKey :: string
  ss_DisableSSL :: bool

record 's aws_store =
  sa_NewSession :: "store_session \<Rightarrow> 's \<Rightarrow> string option \<times> 's"
  sa_Upload :: "store_session \<Rightarrow> string \<Rightarrow> string \<Rightarrow> body \<Rightarrow> 's \<Rightarrow> (string + unit) \<times> 's"
  sa_Download :: "store_session \<Rightarrow> string \<Rightarrow> string \<Rightarrow> string option \<Rightarrow> 's \<Rightarrow> (string + byte list) \<times> 's"
  sa_DeleteObject :: "store_session \<Rightarrow> string \<Rightarrow> string \<Rightarrow> 's \<Rightarrow> (string + unit) \<times> 's"
  sa_ListObjects :: "store_session \<Rightarrow> string \<Rightarrow> string \<Rightarrow> 's \<Rightarrow> (string + (string \<times> int) list) \<times> 's"
  sa_CreateMultipartUpload :: "store_session \<Rightarrow> string \<Rightarrow> string \<Rightarrow> 's \<Rightarrow> (string + string) \<times> 's"
  sa_UploadPart :: "store_session \<Rightarrow> string \<Rightarrow> string \<Rightarrow> string \<Rightarrow> int \<Rightarrow> int \<Rightarrow> byte list \<Rightarrow> 's \<Rightarrow>
      ((string + string) \<times> byte list) \<times> 's"
  sa_CompleteMultipartUpload :: "store_session \<Rightarrow> string \<Rightarrow> string \<Rightarrow> string \<Rightarrow> (string \<times> int) list \<Rightarrow> 's \<Rightarrow>
      (string + string \<times> string) \<times> 's"
  sa_AbortMultipartUpload :: "store_session \<Rightarrow> string \<Rightarrow> string \<Rightarrow> string \<Rightarrow> 's \<Rightarrow> (string + unit) \<times> 's"

section \<open>The adapter\<close>

type_synonym AwsAdapter = "Backend \<times> store_session"

definition store_config :: "Backend \<Rightarrow> store_session" where
  "store_config backend = \<lparr>ss_Region = be_Region backend, ss_Endpoint = be_Endpoint backend,
     ss_AccessKey = be_Access backend, ss_SecretKey = be_Security backend, ss_DisableSSL = True\<rparr>"

definition Aws_Init :: "'s aws_store \<Rightarrow> Backend \<Rightarrow> ('s, AwsAdapter option) prog" where
  "Aws_Init ops backend =
     call (liftS (sa_NewSession ops (store_config backend))) (\<lambda>err.
       ret (case err of None \<Rightarrow> Some (backend, store_config backend) | Some _ \<Rightarrow> None))"

definition Aws_PUT :: "'s clock \<Rightarrow> 's aws_store \<Rightarrow> AwsAdapter option \<Rightarrow> body \<Rightarrow> Object \<Rightarrow> string \<Rightarrow>
    ('s, S3Error \<times> Object) prog" where
  "Aws_PUT ck ops ad stream x operation =
     deref ad (\<lambda>(backend, sess).
       if operation = ''upload'' then
         call (liftS (sa_Upload ops sess (be_BucketName backend) (backend_key (obj_BucketName x) (obj_ObjectKey x)) stream)) (\<lambda>r.
           case r of
             Inl err \<Rightarrow> ret (err500 ''Upload to aws failed'', x)
           | Inr _ \<Rightarrow> touch ck x)
       else ret (NoError, x))"

definition Aws_GET :: "'s aws_store \<Rightarrow> AwsAdapter option \<Rightarrow> Object \<Rightarrow> string \<Rightarrow> int \<Rightarrow> int \<Rightarrow>
    ('s, body option \<times> S3Error) prog" where
  "Aws_GET ops ad x operation start end =
     deref ad (\<lambda>(backend, sess).
       let rng = map_option (\<lambda>(i, j). ''bytes='' @ Itoa i @ ''-'' @ Itoa j) (ranged start end)
       in if operation = ''download'' then
            call (liftS (sa_Download ops sess (be_BucketName backend) (backend_key (obj_BucketName x) (obj_ObjectKey x)) rng)) (\<lambda>r.
              ret (case r of
                     Inl err \<Rightarrow> (None, err500 ''Download failed'')
                   | Inr bs \<Rightarrow> (Some (whole bs), NoError)))
          else ret (None, NoError))"

definition Aws_DELETE :: "'s aws_store \<Rightarrow> AwsAdapter option \<Rightarrow> string \<Rightarrow> string \<Rightarrow> ('s, S3Error) prog" where
  "Aws_DELETE ops ad bucket key =
     deref ad (\<lambda>(backend, sess).
       call (liftS (sa_DeleteObject ops sess (be_BucketName backend) (backend_key bucket key))) (\<lambda>r.
         ret (case r of Inl err \<Rightarrow> InternalError | Inr _ \<Rightarrow> NoError)))"

text \<open>Only the first object listed is looked at: the loop ends at one with another key.\<close>

definition first_if_key :: "string \<Rightarrow> string \<Rightarrow> (string \<times> int) list \<Rightarrow> Object option \<times> S3Error" where
  "first_if_key bucketName key contents =
     (case contents of
        [] \<Rightarrow> (None, NoSuchObject)
      | (k, n) # _ \<Rightarrow>
          if backend_key bucketName key \<noteq> k then (None, NoSuchObject)
          else (Some (zero_Object\<lparr>obj_BucketName := bucketName, obj_ObjectKey := key, obj_Size := n\<rparr>), NoError))"

definition Aws_GetObjectInfo :: "'s aws_store \<Rightarrow> AwsAdapter option \<Rightarrow> string \<Rightarrow> string \<Rightarrow>
    ('s, Object option \<times> S3Error) prog" where
  "Aws_GetObjectInfo ops ad bucketName key =
     deref ad (\<lambda>(backend, sess).
       call (liftS (sa_ListObjects ops sess (be_BucketName backend) (backend_key bucketName key))) (\<lambda>r.
         case r of
           Inl err \<Rightarrow> panic ProcessExit
         | Inr contents \<Rightarrow> ret (first_if_key bucketName key contents)))"

definition Aws_InitMultipartUpload :: "'s aws_store \<Rightarrow> AwsAdapter option \<Rightarrow> Object \<Rightarrow>
    ('s, MultipartUpload option \<times> S3Error) prog" where
  "Aws_InitMultipartUpload ops ad x =
     deref ad (\<lambda>(backend, sess).
       call (liftS (sa_CreateMultipartUpload ops sess (be_BucketName backend)
               (backend_key (obj_BucketName x) (obj_ObjectKey x)))) (\<lambda>r.
         case r of
           Inl err \<Rightarrow> panic ProcessExit
         | Inr uid \<Rightarrow> ret (Some \<lparr>mu_Bucket = obj_BucketName x, mu_Key = obj_ObjectKey x, mu_UploadId = uid\<rparr>, NoError)))"

definition Aws_UploadPart :: "'s aws_store \<Rightarrow> AwsAdapter option \<Rightarrow> body \<Rightarrow> MultipartUpload \<Rightarrow> int \<Rightarrow> int \<Rightarrow>
    ('s, UploadPartResult option \<times> S3Error) prog" where
  "Aws_UploadPart ops ad stream mu partNumber upBytes =
     deref ad (\<lambda>(backend, sess).
       call (drop_reader (tries_with 3 (bd_content stream) (\<lambda>bytess.
               liftS (sa_UploadPart ops sess (be_BucketName backend) (backend_key (mu_Bucket mu) (mu_Key mu))
                 (mu_UploadId mu) partNumber upBytes bytess)))) (\<lambda>r.
         ret (case r of
                Inl err \<Rightarrow> (None, err500 ''Upload failed'')
              | Inr etag \<Rightarrow> (Some \<lparr>up_Xmlns = Xmlns, up_PartNumber = partNumber, up_ETag = etag\<rparr>, NoError))))"

definition Aws_CompleteMultipartUpload :: "'s aws_store \<Rightarrow> AwsAdapter option \<Rightarrow> MultipartUpload \<Rightarrow> Part list \<Rightarrow>
    ('s, CompleteMultipartUploadResult option \<times> S3Error) prog" where
  "Aws_CompleteMultipartUpload ops ad mu parts =
     deref ad (\<lambda>(backend, sess).
       call (liftS (sa_CompleteMultipartUpload ops sess (be_BucketName backend) (backend_key (mu_Bucket mu) (mu_Key mu))
               (mu_UploadId mu) (map (\<lambda>p. (pt_ETag p, pt_PartNumber p)) parts))) (\<lambda>r.
         ret (case r of
                Inl err \<Rightarrow> (None, err500 err)
              | Inr (location, etag) \<Rightarrow>
                  (Some \<lparr>cr_Xmlns = Xmlns, cr_Location = location, cr_Bucket = mu_Bucket mu, cr_Key = mu_Key mu,
                      cr_ETag = etag\<rparr>, NoError))))"

definition Aws_AbortMultipartUpload :: "'s aws_store \<Rightarrow> AwsAdapter option \<Rightarrow> MultipartUpload \<Rightarrow> ('s, S3Error) prog" where
  "Aws_AbortMultipartUpload ops ad mu =
     deref ad (\<lambda>(backend, sess).
       call (liftS (sa_AbortMultipartUpload ops sess (be_BucketName backend) (backend_key (mu_Bucket mu) (mu_Key mu))
               (mu_UploadId mu))) (\<lambda>r.
         ret (case r of Inl err \<Rightarrow> err500 err | Inr _ \<Rightarrow> NoError)))"

definition Aws_ListParts :: "AwsAdapter option \<Rightarrow> ('s, ListPartsOutput option \<times> S3Error) prog" where
  "Aws_ListParts ad = ret (None, NoError)"

end
