(* ===== verification/Store_Ceph.thy ===== *)
theory Store_Ceph
  imports Store_Aws
begin

text \<open>
  The storage adapter for Ceph (\<open>api/pkg/s3/datastore/ceph/ceph.go\<close>), on the client library as the
  record \<open>ce_store\<close>. Every try of uploading a part reads the request's stream again, which the first
  try has drained.
\<close>

section \<open>The client library\<close>

record 's ce_store =
  sc_md5 :: "byte list \<Rightarrow> byte list"
  sc_Create :: "ce_client \<Rightarrow> string \<Rightarrow> string \<Rightarrow> string \<Rightarrow> int \<Rightarrow> byte list \<Rightarrow> 's \<Rightarrow> (string + unit) \<times> 's"
  sc_Get :: "ce_client \<Rightarrow> string \<Rightarrow> string \<Rightarrow> (int \<times> int) option \<Rightarrow> 's \<Rightarrow> (string + body) \<times> 's"
  sc_Remove :: "ce_client \<Rightarrow> string \<Rightarrow> string \<Rightarrow> 's \<Rightarrow> (string + unit) \<times> 's"
  sc_BucketGet :: "ce_client \<Rightarrow> string \<Rightarrow> string \<Rightarrow> int \<Rightarrow> 's \<Rightarrow> (string + (string \<times> int) list) \<times> 's"
  sc_Initiate :: "ce_client \<Rightarrow> string \<Rightarrow> string \<Rightarrow> 's \<Rightarrow> (string + string) \<times> 's"
  sc_UploadPart :: "ce_client \<Rightarrow> string \<Rightarrow> string \<Rightarrow> int \<Rightarrow> string \<Rightarrow> string \<Rightarrow> int \<Rightarrow> byte list \<Rightarrow> 's \<Rightarrow> (string + string) \<times> 's"
  sc_Complete :: "ce_client \<Rightarrow> string \<Rightarrow> string \<Rightarrow> string \<Rightarrow> (string \<times> int) list \<Rightarrow> 's \<Rightarrow> (string + string) \<times> 's"
  sc_RemoveUploads :: "ce_client \<Rightarrow> string \<Rightarrow> string \<Rightarrow> string \<Rightarrow> 's \<Rightarrow> (string + unit) \<times> 's"
  sc_ListPart :: "ce_client \<Rightarrow> string \<Rightarrow> string \<Rightarrow> string \<Rightarrow> 's \<Rightarrow> (string + ListPartsOutput) \<times> 's"

section \<open>The adapter\<close>

type_synonym CephAdapter = "Backend \<times> ce_client"

definition CephStore_Init :: "Backend \<Rightarrow> CephAdapter" where
  "CephStore_Init backend = (backend, \<lparr>ce_EndPoint = be_Endpoint backend, ce_AccessKey = be_Access backend,
     ce_SecretKey = be_Security backend\<rparr>)"

definition store_md5Content :: "'s ce_store \<Rightarrow> byte list \<Rightarrow> string" where
  "store_md5Content ops bytes = b64_encode (sc_md5 ops bytes)"

definition CephStore_PUT :: "'s clock \<Rightarrow> 's ce_store \<Rightarrow> CephAdapter \<Rightarrow> body \<Rightarrow> Object \<Rightarrow> string \<Rightarrow>
    ('s, S3Error \<times> Object) prog" where
  "CephStore_PUT ck ops ad stream x operation =
     (case ad of (backend, sess) \<Rightarrow>
       if operation = ''upload'' then
         (let bytes = bd_content stream
          in call (liftS (sc_Create ops sess (be_BucketName backend) (backend_key (obj_BucketName x) (obj_ObjectKey x))
                     (store_md5Content ops bytes) (int (length bytes)) bytes)) (\<lambda>r.
               case r of
                 Inl err \<Rightarrow> ret (err500 ''Upload to ceph failed'', x)
               | Inr _ \<Rightarrow> touch ck x))
       else ret (NoError, x))"

definition CephStore_GET :: "'s ce_store \<Rightarrow> CephAdapter \<Rightarrow> Object \<Rightarrow> string \<Rightarrow> int \<Rightarrow> int \<Rightarrow>
    ('s, body option \<times> S3Error) prog" where
  "CephStore_GET ops ad x operation start end =
     (case ad of (backend, sess) \<Rightarrow>
       if operation = ''download'' then
         call (liftS (sc_Get ops sess (be_BucketName backend) (backend_key (obj_BucketName x) (obj_ObjectKey x))
                 (ranged start end))) (\<lambda>r.
           ret (case r of
                  Inl err \<Rightarrow> (None, err500 ''Download failed'')
                | Inr bd \<Rightarrow> (Some bd, NoError)))
       else ret (None, NoError))"

definition CephStore_DELETE :: "'s ce_store \<Rightarrow> CephAdapter \<Rightarrow> string \<Rightarrow> string \<Rightarrow> ('s, S3Error) prog" where
  "CephStore_DELETE ops ad bucket key =
     (case ad of (backend, sess) \<Rightarrow>
       call (liftS (sc_Remove ops sess (be_BucketName backend) (backend_key bucket key))) (\<lambda>r.
         ret (case r of Inl err \<Rightarrow> InternalError | Inr _ \<Rightarrow> NoError)))"

definition CephStore_GetObjectInfo :: "'s ce_store \<Rightarrow> CephAdapter \<Rightarrow> string \<Rightarrow> string \<Rightarrow>
    ('s, Object option \<times> S3Error) prog" where
  "CephStore_GetObjectInfo ops ad bucketName key =
     (case ad of (backend, sess) \<Rightarrow>
       call (liftS (sc_BucketGet ops sess (be_BucketName backend) (backend_key bucketName key) 1000)) (\<lambda>r.
         case r of
           Inl err \<Rightarrow> panic ProcessExit
         | Inr contents \<Rightarrow> ret (first_if_key bucketName key contents)))"

definition CephStore_InitMultipartUpload :: "'s ce_store \<Rightarrow> CephAdapter \<Rightarrow> Object \<Rightarrow>
    ('s, MultipartUpload option \<times> S3Error) prog" where
  "CephStore_InitMultipartUpload ops ad x =
     (case ad of (backend, sess) \<Rightarrow>
       call (liftS (sc_Initiate ops sess (be_BucketName backend) (backend_key (obj_BucketName x) (obj_ObjectKey x)))) (\<lambda>r.
         case r of
           Inl err \<Rightarrow> panic ProcessExit
         | Inr uid \<Rightarrow> ret (Some \<lparr>mu_Bucket = obj_BucketName x, mu_Key = obj_ObjectKey x, mu_UploadId = uid\<rparr>, NoError)))"

definition CephStore_UploadPart :: "'s ce_store \<Rightarrow> CephAdapter \<Rightarrow> body \<Rightarrow> MultipartUpload \<Rightarrow> int \<Rightarrow> int \<Rightarrow>
    ('s, UploadPartResult option \<times> S3Error) prog" where
  "CephStore_UploadPart ops ad stream mu partNumber upBytes =
     (case ad of (backend, sess) \<Rightarrow>
       call (drop_reader (tries_with 3 stream (\<lambda>stream.
               let bytes = bd_content stream
               in call (liftS (sc_UploadPart ops sess (be_BucketName backend) (backend_key (mu_Bucket mu) (mu_Key mu))
                          partNumber (mu_UploadId mu) (store_md5Content ops bytes) upBytes bytes)) (\<lambda>r.
                    ret (r, drained stream))))) (\<lambda>r.
         ret (case r of
                Inl err \<Rightarrow> (None, err500 ''Upload failed'')
              | Inr etag \<Rightarrow> (Some \<lparr>up_Xmlns = Xmlns, up_PartNumber = partNumber, up_ETag = etag\<rparr>, NoError))))"

definition CephStore_CompleteMultipartUpload :: "'s ce_store \<Rightarrow> CephAdapter \<Rightarrow> MultipartUpload \<Rightarrow> Part list \<Rightarrow>
    ('s, CompleteMultipartUploadResult option \<times> S3Error) prog" where
  "CephStore_CompleteMultipartUpload ops ad mu parts =
     (case ad of (backend, sess) \<Rightarrow>
       call (liftS (sc_Complete ops sess (be_BucketName backend) (backend_key (mu_Bucket mu) (mu_Key mu))
               (mu_UploadId mu) (map (\<lambda>p. (pt_ETag p, pt_PartNumber p)) parts))) (\<lambda>r.
         ret (case r of
                Inl err \<Rightarrow> (None, err500 err)
              | Inr etag \<Rightarrow>
                  (Some \<lparr>cr_Xmlns = Xmlns, cr_Location = be_Endpoint backend, cr_Bucket = mu_Bucket mu,
                      cr_Key = mu_Key mu, cr_ETag = etag\<rparr>, NoError))))"

definition CephStore_AbortMultipartUpload :: "'s ce_store \<Rightarrow> CephAdapter \<Rightarrow> MultipartUpload \<Rightarrow> ('s, S3Error) prog" where
  "CephStore_AbortMultipartUpload ops ad mu =
     (case ad of (backend, sess) \<Rightarrow>
       call (liftS (sc_RemoveUploads ops sess (be_BucketName backend) (backend_key (mu_Bucket mu) (mu_Key mu))
               (mu_UploadId mu))) (\<lambda>r.
         ret (case r of Inl err \<Rightarrow> err500 err | Inr _ \<Rightarrow> NoError)))"

definition CephStore_ListParts :: "'s ce_store \<Rightarrow> CephAdapter \<Rightarrow> string \<Rightarrow> string \<Rightarrow> string \<Rightarrow>
    ('s, ListPartsOutput option \<times> S3Error) prog" where
  "CephStore_ListParts ops ad bucket key uploadId =
     (case ad of (backend, sess) \<Rightarrow>
       call (liftS (sc_ListPart ops sess (be_BucketName backend) (backend_key bucket key) uploadId)) (\<lambda>r.
         ret (case r of
                Inl err \<Rightarrow> (None, err500 err)
              | Inr out \<Rightarrow> (Some (out\<lparr>lp_Xmlns := Xmlns, lp_Bucket := bucket\<rparr>), NoError))))"

end
