(* ===== verification/Gateway_S3.thy ===== *)
theory Gateway_S3
  imports Store_Azure Store_Hws Store_Ceph Policy_Enforcer
begin

text \<open>
  The S3 interface (\<open>api/pkg/s3\<close>): the choice of a storage adapter by the type of a backend and the
  handlers of buckets, objects and multipart uploads, on the metadata service, the backend service and
  the adapters. A handler returns what it writes to the response, in order. XML texts are the structs
  they encode; the decoding of a request's XML is a parameter. The texts of headers are taken as ASCII.
\<close>

section \<open>Adapters\<close>

record 's stores =
  st_clock :: "'s clock"
  st_aws :: "'s aws_store"
  st_az :: "'s az_ops"
  st_obs :: "'s obs_store"
  st_ce :: "'s ce_store"

text \<open>The interface \<open>DataStoreAdapter\<close>: an adapter that could not be made is a nil pointer inside it.\<close>

datatype store_adapter =
    AzureStore "AzureAdapter option"
  | HwsStore "OBSAdapter option"
  | AwsStore "AwsAdapter option"
  | CephStore CephAdapter

definition Datastore_Init :: "'s stores \<Rightarrow> Backend \<Rightarrow> ('s, store_adapter option) prog" where
  "Datastore_Init st backend =
     (if be_Type backend = ''azure-blob'' then call (Azure_Init (st_az st) backend) (\<lambda>ad. ret (Some (AzureStore ad)))
      else if be_Type backend = ''hw-obs'' then call (Hws_Init (st_obs st) backend) (\<lambda>ad. ret (Some (HwsStore ad)))
      else if be_Type backend = ''aws-s3'' then call (Aws_Init (st_aws st) backend) (\<lambda>ad. ret (Some (AwsStore ad)))
      else if be_Type backend = ''ceph-s3'' then ret (Some (CephStore (CephStore_Init backend)))
      else if be_Type backend = ''fusionstorage-object'' then
        call (Hws_Init (st_obs st) backend) (\<lambda>ad. ret (Some (HwsStore ad)))
      else ret None)"

definition store_PUT :: "'s stores \<Rightarrow> store_adapter \<Rightarrow> body \<Rightarrow> Object \<Rightarrow> string \<Rightarrow> ('s, S3Error \<times> Object) prog" where
  "store_PUT st client stream x operation =
     (case client of
        AzureStore ad \<Rightarrow> Azure_PUT (st_clock st) (st_az st) ad stream x
      | HwsStore ad \<Rightarrow> Hws_PUT (st_clock st) (st_obs st) ad stream x operation
      | AwsStore ad \<Rightarrow> Aws_PUT (st_clock st) (st_aws st) ad stream x operation
      | CephStore ad \<Rightarrow> CephStore_PUT (st_clock st) (st_ce st) ad stream x operation)"

definition store_GET :: "'s stores \<Rightarrow> store_adapter \<Rightarrow> Object \<Rightarrow> string \<Rightarrow> int \<Rightarrow> int \<Rightarrow> ('s, body option \<times> S3Error) prog" where
  "store_GET st client x operation start end =
     (case client of
        AzureStore ad \<Rightarrow> Azure_GET (st_az st) ad x start end
      | HwsStore ad \<Rightarrow> Hws_GET (st_obs st) ad x operation start end
      | AwsStore ad \<Rightarrow> Aws_GET (st_aws st) ad x operation start end
      | CephStore ad \<Rightarrow> CephStore_GET (st_ce st) ad x operation start end)"

definition store_DELETE :: "'s stores \<Rightarrow> store_adapter \<Rightarrow> string \<Rightarrow> string \<Rightarrow> ('s, S3Error) prog" where
  "store_DELETE st client bucket key =
     (case client of
        AzureStore ad \<Rightarrow> Azure_DELETE (st_az st) ad bucket key
      | HwsStore ad \<Rightarrow> Hws_DELETE (st_obs st) ad bucket key
      | AwsStore ad \<Rightarrow> Aws_DELETE (st_aws st) ad bucket key
      | CephStore ad \<Rightarrow> CephStore_DELETE (st_ce st) ad bucket key)"

definition store_InitMultipartUpload :: "'s stores \<Rightarrow> store_adapter \<Rightarrow> Object \<Rightarrow> string \<Rightarrow>
    ('s, MultipartUpload option \<times> S3Error) prog" where
  "store_InitMultipartUpload st client x operation =
     (case client of
        AzureStore ad \<Rightarrow> Azure_InitMultipartUpload ad x
      | HwsStore ad \<Rightarrow> Hws_InitMultipartUpload (st_obs st) ad x operation
      | AwsStore ad \<Rightarrow> Aws_InitMultipartUpload (st_aws st) ad x
      | CephStore ad \<Rightarrow> CephStore_InitMultipartUpload (st_ce st) ad x)"

definition store_UploadPart :: "'s stores \<Rightarrow> store_adapter \<Rightarrow> body \<Rightarrow> MultipartUpload \<Rightarrow> int \<Rightarrow> int \<Rightarrow> string \<Rightarrow>
    ('s, UploadPartResult option \<times> S3Error) prog" where
  "store_UploadPart st client stream mu partNumber upBytes operation =
     (case client of
        AzureStore ad \<Rightarrow> Azure_UploadPart (st_az st) ad stream mu partNumber
      | HwsStore ad \<Rightarrow> Hws_UploadPart (st_obs st) ad stream mu partNumber upBytes operation
      | AwsStore ad \<Rightarrow> Aws_UploadPart (st_aws st) ad stream mu partNumber upBytes
      | CephStore ad \<Rightarrow> CephStore_UploadPart (st_ce st) ad stream mu partNumber upBytes)"

definition store_CompleteMultipartUpload :: "'s stores \<Rightarrow> store_adapter \<Rightarrow> MultipartUpload \<Rightarrow> Part list \<Rightarrow> string \<Rightarrow>
    ('s, CompleteMultipartUploadResult option \<times> S3Error) prog" where
  "store_CompleteMultipartUpload st client mu parts operation =
     (case client of
        AzureStore ad \<Rightarrow> Azure_CompleteMultipartUpload (st_az st) ad mu parts
      | HwsStore ad \<Rightarrow> Hws_CompleteMultipartUpload (st_obs st) ad mu parts operation
      | AwsStore ad \<Rightarrow> Aws_CompleteMultipartUpload (st_aws st) ad mu parts
      | CephStore ad \<Rightarrow> CephStore_CompleteMultipartUpload (st_ce st) ad mu parts)"

definition store_AbortMultipartUpload :: "'s stores \<Rightarrow> store_adapter \<Rightarrow> MultipartUpload \<Rightarrow> string \<Rightarrow> ('s, S3Error) prog" where
  "store_AbortMultipartUpload st client mu operation =
     (case client of
        AzureStore ad \<Rightarrow> Azure_AbortMultipartUpload ad
      | HwsStore ad \<Rightarrow> Hws_AbortMultipartUpload (st_obs st) ad mu operation
      | AwsStore ad \<Rightarrow> Aws_AbortMultipartUpload (st_aws st) ad mu
      | CephStore ad \<Rightarrow> CephStore_AbortMultipartUpload (st_ce st) ad mu)"

section \<open>Requests and responses\<close>

record http_request = request +
  hr_headers :: "(string, string) gomap"
  hr_query :: "(string, string) gomap"
  hr_body :: body
  hr_ContentLength :: int

datatype reply =
    ReplyError int string
  | ReplyMessage string
  | ReplyBuckets "(string \<times> int \<times> string) list"
  | ReplyObjects "Object list"
  | ReplyBytes "byte list"
  | ReplyInit MultipartUpload
  | ReplyPart "UploadPartResult option"
  | ReplyComplete "CompleteMultipartUploadResult option"

abbreviation text_of :: "(string, string) gomap \<Rightarrow> string \<Rightarrow> string" where
  "text_of m k \<equiv> (case lookup m k of Some v \<Rightarrow> v | None \<Rightarrow> [])"

definition PathParameter :: "'a request_scheme \<Rightarrow> string \<Rightarrow> string" where
  "PathParameter req name = text_of (req_path req) name"

definition HeaderParameter :: "http_request \<Rightarrow> string \<Rightarrow> string" where
  "HeaderParameter req name = text_of (hr_headers req) name"

definition QueryParameter :: "http_request \<Rightarrow> string \<Rightarrow> string" where
  "QueryParameter req name = text_of (hr_query req) name"

definition IsQuery :: "http_request \<Rightarrow> string \<Rightarrow> bool" where
  "IsQuery req name = (lookup (hr_query req) name \<noteq> None)"

definition HasHeader :: "http_request \<Rightarrow> string \<Rightarrow> bool" where
  "HasHeader req name = (HeaderParameter req name \<noteq> [])"

definition ReadBody :: "http_request \<Rightarrow> byte list option" where
  "ReadBody req = (if bd_end (hr_body req) = None then Some (bd_content (hr_body req)) else None)"

text \<open>
  The value \<open>strconv.ParseInt\<close> returns when its error is ignored: zero for a text that is no number,
  the nearest number for one out of range.
\<close>

definition parsed :: "string \<Rightarrow> int" where
  "parsed s =
     (case Atoi s of
        Some n \<Rightarrow> n
      | None \<Rightarrow>
          (case s of
             [] \<Rightarrow> 0
           | c # cs \<Rightarrow>
               (if c = CHR ''-'' \<and> cs \<noteq> [] \<and> list_all is_digit cs then - 9223372036854775808
                else if c = CHR ''+'' \<and> cs \<noteq> [] \<and> list_all is_digit cs then 9223372036854775807
                else if list_all is_digit s then 9223372036854775807
                else 0)))"

section \<open>The services\<close>

record 's gateway =
  gw_stores :: "'s stores"
  gw_Authorize :: "http_request \<Rightarrow> string \<Rightarrow> ('s, bool) prog"
  gw_ListBuckets :: "string \<Rightarrow> ('s, string + Bucket list) prog"
  gw_CreateBucket :: "Bucket \<Rightarrow> ('s, string + string) prog"
  gw_GetBucket :: "string \<Rightarrow> ('s, string + Bucket) prog"
  gw_DeleteBucket :: "string \<Rightarrow> ('s, string + string) prog"
  gw_ListObjects :: "string \<Rightarrow> ('s, string + Object list) prog"
  gw_CreateObject :: "Object \<Rightarrow> ('s, string + string) prog"
  gw_GetObject :: "string \<Rightarrow> string \<Rightarrow> ('s, string + Object) prog"
  gw_DeleteObject :: "string \<Rightarrow> string \<Rightarrow> ('s, string + string) prog"
  gw_ListBackend :: "int \<Rightarrow> int \<Rightarrow> (string, string) gomap \<Rightarrow> ('s, string + Backend list) prog"
  gw_location_of :: "byte list \<Rightarrow> string + string"
  gw_parts_of :: "byte list option \<Rightarrow> Part list"

definition MaxInt32 :: int where "MaxInt32 = 2147483647"

definition first_backend :: "'s gateway \<Rightarrow> string \<Rightarrow> (Backend \<Rightarrow> ('s, 'a) prog) \<Rightarrow> ('s, 'a) prog \<Rightarrow> ('s, 'a) prog" where
  "first_backend gw name found failed =
     call (gw_ListBackend gw MaxInt32 0 [(''name'', name)]) (\<lambda>r.
       case r of
         Inl err \<Rightarrow> failed
       | Inr [] \<Rightarrow> panic IndexOutOfRange
       | Inr (backend # _) \<Rightarrow> found backend)"

definition getBackendByName :: "'s gateway \<Rightarrow> string \<Rightarrow> ('s, store_adapter option) prog" where
  "getBackendByName gw backendName =
     first_backend gw backendName (Datastore_Init (gw_stores gw)) (ret None)"

definition getBackendClient :: "'s gateway \<Rightarrow> string \<Rightarrow> ('s, store_adapter option) prog" where
  "getBackendClient gw bucketName =
     call (gw_GetBucket gw bucketName) (\<lambda>r.
       case r of
         Inl err \<Rightarrow> ret None
       | Inr bucket \<Rightarrow> first_backend gw (bk_Backend bucket) (Datastore_Init (gw_stores gw)) (ret None))"

definition getBucketNameByBackend :: "'s gateway \<Rightarrow> string \<Rightarrow> ('s, string) prog" where
  "getBucketNameByBackend gw backendName =
     first_backend gw backendName (\<lambda>backend. ret (be_BucketName backend)) (ret [])"

definition authorized :: "'s gateway \<Rightarrow> http_request \<Rightarrow> string \<Rightarrow> ('s, reply list) prog \<Rightarrow> ('s, reply list) prog" where
  "authorized gw req action handler =
     call (gw_Authorize gw req action) (\<lambda>ok.
       if ok then handler else ret [ReplyError 403 ''Operation is not permitted''])"

abbreviation fails :: "string \<Rightarrow> ('s, reply list) prog" where
  "fails text \<equiv> ret [ReplyError 500 text]"

definition answer :: "(string + string) \<Rightarrow> ('s, reply list) prog" where
  "answer r = ret [case r of Inl err \<Rightarrow> ReplyError 500 err | Inr msg \<Rightarrow> ReplyMessage msg]"

section \<open>Buckets\<close>

definition BucketPut :: "'s gateway \<Rightarrow> http_request \<Rightarrow> ('s, reply list) prog" where
  "BucketPut gw req =
     authorized gw req ''bucket:put'' (
       call (liftS (ck_Now (st_clock (gw_stores gw)))) (\<lambda>now.
       let bucket = zero_Bucket\<lparr>bk_Name := PathParameter req ''bucketName'', bk_Owner := ''test'', bk_Deleted := False,
             bk_OwnerDisplayName := ''test'', bk_CreationDate := now\<rparr>
       in case ReadBody req of
            None \<Rightarrow> call (gw_CreateBucket gw bucket) answer
          | Some bytes \<Rightarrow>
              (case gw_location_of gw bytes of
                 Inl err \<Rightarrow> fails err
               | Inr backendName \<Rightarrow>
                   if backendName \<noteq> [] then
                     call (getBackendByName gw backendName) (\<lambda>client.
                       if client = None then fails (Error_text NoSuchType)
                       else call (gw_CreateBucket gw (bucket\<lparr>bk_Backend := backendName\<rparr>)) answer)
                   else ret [ReplyError 404 (Error_text NoSuchBackend)])))"

definition BucketGet :: "'s gateway \<Rightarrow> http_request \<Rightarrow> ('s, reply list) prog" where
  "BucketGet gw req =
     authorized gw req ''bucket:get'' (
       call (gw_ListObjects gw (PathParameter req ''bucketName'')) (\<lambda>r.
         ret [case r of Inl err \<Rightarrow> ReplyError 500 err | Inr xs \<Rightarrow> ReplyObjects xs]))"

definition BucketDelete :: "'s gateway \<Rightarrow> http_request \<Rightarrow> ('s, reply list) prog" where
  "BucketDelete gw req =
     authorized gw req ''bucket:delete'' (
       call (gw_DeleteBucket gw (PathParameter req ''bucketName'')) answer)"

definition gw_list_buckets :: "'s gateway \<Rightarrow> http_request \<Rightarrow> ('s, reply list) prog" where
  "gw_list_buckets gw req =
     authorized gw req ''bucket:list'' (
       call (gw_ListBuckets gw ''test'') (\<lambda>r.
         ret [case r of
                Inl err \<Rightarrow> ReplyError 500 err
              | Inr bs \<Rightarrow> ReplyBuckets (map (\<lambda>b. (bk_Name b, bk_CreationDate b, bk_Backend b)) bs)]))"

section \<open>Objects\<close>

text \<open>
  The adapter for an upload, with the name of its backend: the one named in the header, or that of the
  bucket, whose metadata are read twice, and a missing bucket is dereferenced.
\<close>

definition upload_client :: "'s gateway \<Rightarrow> string \<Rightarrow> string \<Rightarrow> ('s, string \<times> store_adapter option) prog" where
  "upload_client gw backendName bucketName =
     (if backendName \<noteq> [] then
        call (getBackendByName gw backendName) (\<lambda>client. ret (backendName, client))
      else
        call (gw_GetBucket gw bucketName) (\<lambda>r.
          case r of
            Inl err \<Rightarrow> panic NilDereference
          | Inr bucket \<Rightarrow>
              call (getBackendClient gw bucketName) (\<lambda>client. ret (bk_Backend bucket, client))))"

definition ObjectPut :: "'s gateway \<Rightarrow> http_request \<Rightarrow> ('s, reply list) prog" where
  "ObjectPut gw req =
     authorized gw req ''object:put'' (
       let bucketName = PathParameter req ''bucketName'';
           x = zero_Object\<lparr>obj_ObjectKey := PathParameter req ''objectKey'', obj_BucketName := bucketName,
                 obj_Size := parsed (HeaderParameter req ''content-length'')\<rparr>
       in call (upload_client gw (HeaderParameter req ''x-amz-storage-class'') bucketName) (\<lambda>(backend, client).
            case client of
              None \<Rightarrow> fails (Error_text NoSuchBackend)
            | Some client \<Rightarrow>
                call (store_PUT (gw_stores gw) client (hr_body req) (x\<lparr>obj_Backend := backend\<rparr>) ''upload'') (\<lambda>(s3err, x).
                  if s3err \<noteq> NoError then fails (Error_text s3err)
                  else call (gw_CreateObject gw x) answer)))"

definition range_of :: "string \<Rightarrow> ('s, int \<times> int) prog" where
  "range_of rangestr =
     (if rangestr = [] then ret (0, 0)
      else if CHR ''-'' \<notin> set rangestr then panic SliceBounds
      else (let index = length (takeWhile (\<lambda>c. c \<noteq> CHR ''-'') rangestr)
            in if index < 6 then panic SliceBounds
               else ret (parsed (drop 6 (take index rangestr)), parsed (drop (index + 1) rangestr))))"

text \<open>An object is served without asking the policy.\<close>

definition ObjectGet :: "'s gateway \<Rightarrow> http_request \<Rightarrow> ('s, reply list) prog" where
  "ObjectGet gw req =
     (let bucketName = PathParameter req ''bucketName''; objectKey = PathParameter req ''objectKey''
      in call (range_of (HeaderParameter req ''Range'')) (\<lambda>(start, end).
         call (gw_GetObject gw bucketName objectKey) (\<lambda>r.
           case r of
             Inl err \<Rightarrow> fails (Error_text NoSuchObject)
           | Inr md \<Rightarrow>
               call (if obj_Backend md \<noteq> [] then getBackendByName gw (obj_Backend md)
                     else getBackendClient gw bucketName) (\<lambda>client.
                 case client of
                   None \<Rightarrow> fails (Error_text NoSuchBackend)
                 | Some client \<Rightarrow>
                     call (store_GET (gw_stores gw) client (zero_Object\<lparr>obj_ObjectKey := objectKey,
                         obj_BucketName := bucketName, obj_Size := obj_Size md\<rparr>) ''download'' start end) (\<lambda>(bd, s3err).
                       if s3err \<noteq> NoError then fails (Error_text s3err)
                       else deref bd (\<lambda>bd. ret [ReplyBytes (bd_content bd)]))))))"

text \<open>A missing object is answered with nothing.\<close>

definition ObjectDelete :: "'s gateway \<Rightarrow> http_request \<Rightarrow> ('s, reply list) prog" where
  "ObjectDelete gw req =
     authorized gw req ''object:delete'' (
       let bucketName = PathParameter req ''bucketName''; objectKey = PathParameter req ''objectKey''
       in call (gw_GetObject gw bucketName objectKey) (\<lambda>r.
            case r of
              Inl err \<Rightarrow> ret []
            | Inr md \<Rightarrow>
                call (getBackendByName gw (obj_Backend md)) (\<lambda>client.
                  deref client (\<lambda>client.
                  call (store_DELETE (gw_stores gw) client bucketName objectKey) (\<lambda>s3err.
                    if s3e_Code s3err \<noteq> ERR_OK then fails (Error_text s3err)
                    else call (gw_DeleteObject gw bucketName objectKey) answer)))))"

section \<open>Multipart uploads\<close>

abbreviation on_error :: "(string + 'a) \<Rightarrow> reply list" where
  "on_error r \<equiv> (case r of Inl err \<Rightarrow> [ReplyError 500 err] | Inr _ \<Rightarrow> [])"

text \<open>The metadata of an object that already has the key are overwritten when the upload begins.\<close>

definition MultiPartUploadInit :: "'s gateway \<Rightarrow> http_request \<Rightarrow> ('s, reply list) prog" where
  "MultiPartUploadInit gw req =
     (let bucketName = PathParameter req ''bucketName''; objectKey = PathParameter req ''objectKey'';
          x = zero_Object\<lparr>obj_ObjectKey := objectKey, obj_BucketName := bucketName\<rparr>
      in call (upload_client gw (HeaderParameter req ''x-amz-storage-class'') bucketName) (\<lambda>(backend, client).
         let x = x\<lparr>obj_Backend := backend\<rparr>
         in case client of
              None \<Rightarrow> fails (Error_text NoSuchBackend)
            | Some client \<Rightarrow>
                call (store_InitMultipartUpload (gw_stores gw) client x ''multipartupload'') (\<lambda>(res, s3err).
                if s3err \<noteq> NoError then fails (Error_text s3err)
                else
                  call (stamp (st_clock (gw_stores gw))) (\<lambda>lastModified.
                  call (gw_GetObject gw bucketName objectKey) (\<lambda>r.
                  call (gw_CreateObject gw (case r of
                          Inr md \<Rightarrow> md\<lparr>obj_ObjectKey := objectKey, obj_BucketName := bucketName, obj_InitFlag := ''0'',
                            obj_IsDeleteMarker := [], obj_Partions := [], obj_Backend := backend, obj_Size := 0,
                            obj_LastModified := lastModified\<rparr>
                        | Inl err \<Rightarrow> x\<lparr>obj_Size := 0, obj_LastModified := lastModified, obj_InitFlag := ''0''\<rparr>)) (\<lambda>r.
                  deref res (\<lambda>res. ret (on_error r @ [ReplyInit res]))))))))"

text \<open>
  The three handlers of a begun upload write an error for a missing object and go on, so the nil
  metadata are dereferenced.
\<close>

definition upload_in :: "'s gateway \<Rightarrow> http_request \<Rightarrow> ('s, 't) prog \<Rightarrow>
    (Object \<Rightarrow> 't \<Rightarrow> store_adapter \<Rightarrow> ('s, reply list) prog) \<Rightarrow> ('s, reply list) prog" where
  "upload_in gw req before f =
     call (gw_GetObject gw (PathParameter req ''bucketName'') (PathParameter req ''objectKey'')) (\<lambda>r.
     call before (\<lambda>t.
       case r of
         Inl err \<Rightarrow> panic NilDereference
       | Inr md \<Rightarrow>
           call (getBackendByName gw (obj_Backend md)) (\<lambda>client.
             case client of
               None \<Rightarrow> fails (Error_text NoSuchBackend)
             | Some client \<Rightarrow> f md t client)))"

definition the_upload :: "http_request \<Rightarrow> MultipartUpload" where
  "the_upload req = \<lparr>mu_Bucket = PathParameter req ''bucketName'', mu_Key = PathParameter req ''objectKey'',
     mu_UploadId = QueryParameter req ''uploadId''\<rparr>"

definition gw_UploadPart :: "'s gateway \<Rightarrow> http_request \<Rightarrow> ('s, reply list) prog" where
  "gw_UploadPart gw req =
     upload_in gw req (stamp (st_clock (gw_stores gw))) (\<lambda>md lastModified client.
       let sz = parsed (HeaderParameter req ''content-length'');
           partNumber = QueryParameter req ''partNumber'';
           objectKey = PathParameter req ''objectKey''
       in call (store_UploadPart (gw_stores gw) client (hr_body req) (the_upload req) (parsed partNumber)
                  (hr_ContentLength req) ''multipartupload'') (\<lambda>(res, s3err).
            if s3err \<noteq> NoError then fails (Error_text s3err)
            else
              call (liftS (ck_Now (st_clock (gw_stores gw)))) (\<lambda>timestamp.
              let partion = \<lparr>par_Key = objectKey, par_PartNumber = partNumber, par_Size = sz, par_Etag = [],
                    par_LastModified = timestamp\<rparr>;
                  md = md\<lparr>obj_Size := i64 (obj_Size md + sz), obj_LastModified := lastModified,
                    obj_Partions := obj_Partions md @ [partion]\<rparr>
              in call (gw_CreateObject gw md) (\<lambda>r.
                 call (gw_GetObject gw (PathParameter req ''bucketName'') objectKey) (\<lambda>result.
                   case result of
                     Inl err \<Rightarrow> panic NilDereference
                   | Inr _ \<Rightarrow> ret (on_error r @ [ReplyPart res]))))))"

definition gw_CompleteMultipartUpload :: "'s gateway \<Rightarrow> http_request \<Rightarrow> ('s, reply list) prog" where
  "gw_CompleteMultipartUpload gw req =
     upload_in gw req (ret ()) (\<lambda>md _ client.
       call (store_CompleteMultipartUpload (gw_stores gw) client (the_upload req) (gw_parts_of gw (ReadBody req))
               ''multipartupload'') (\<lambda>(resp, s3err).
         if s3err \<noteq> NoError then fails (Error_text s3err)
         else
           call (stamp (st_clock (gw_stores gw))) (\<lambda>lastModified.
           call (gw_CreateObject gw (md\<lparr>obj_Partions := [], obj_LastModified := lastModified, obj_InitFlag := ''1''\<rparr>)) (\<lambda>r.
             ret (on_error r @ [ReplyComplete resp])))))"

definition gw_AbortMultipartUpload :: "'s gateway \<Rightarrow> http_request \<Rightarrow> ('s, reply list) prog" where
  "gw_AbortMultipartUpload gw req =
     upload_in gw req (ret ()) (\<lambda>md _ client.
       call (store_AbortMultipartUpload (gw_stores gw) client (the_upload req) ''multipartupload'') (\<lambda>s3err.
         if s3err \<noteq> NoError then fails (Error_text s3err)
         else call (gw_DeleteObject gw (PathParameter req ''bucketName'') (PathParameter req ''objectKey'')) answer))"

section \<open>Routes\<close>

definition RouteBucketPut :: "'s gateway \<Rightarrow> http_request \<Rightarrow> ('s, reply list) prog" where
  "RouteBucketPut gw req =
     authorized gw req ''routbucket:put'' (
       if list_ex (IsQuery req) [''acl'', ''versioning'', ''website'', ''cors'', ''replication'', ''lifecycle''] then ret []
       else BucketPut gw req)"

definition RouteObjectPut :: "'s gateway \<Rightarrow> http_request \<Rightarrow> ('s, reply list) prog" where
  "RouteObjectPut gw req =
     authorized gw req ''routobject:put'' (
       if IsQuery req ''acl'' \<or> IsQuery req ''tagging'' then ret []
       else if IsQuery req ''uploads'' then MultiPartUploadInit gw req
       else if IsQuery req ''partNumber'' \<and> IsQuery req ''uploadId'' then gw_UploadPart gw req
       else if IsQuery req ''uploadId'' then gw_CompleteMultipartUpload gw req
       else if HasHeader req ''x-amz-copy-source'' then ret []
       else ObjectPut gw req)"

definition RouteObjectDelete :: "'s gateway \<Rightarrow> http_request \<Rightarrow> ('s, reply list) prog" where
  "RouteObjectDelete gw req =
     (if IsQuery req ''uploadId'' then gw_AbortMultipartUpload gw req else ObjectDelete gw req)"

text \<open>The routes by method and number of path segments.\<close>

datatype http_method = HGet | HPut | HDelete

definition s3_route :: "'s gateway \<Rightarrow> http_method \<Rightarrow> nat \<Rightarrow> (http_request \<Rightarrow> ('s, reply list) prog) option" where
  "s3_route gw meth segments =
     (case (meth, segments) of
        (HGet, 0) \<Rightarrow> Some (gw_list_buckets gw)
      | (HPut, Suc 0) \<Rightarrow> Some (RouteBucketPut gw)
      | (HGet, Suc 0) \<Rightarrow> Some (BucketGet gw)
      | (HDelete, Suc 0) \<Rightarrow> Some (BucketDelete gw)
      | (HPut, Suc (Suc 0)) \<Rightarrow> Some (RouteObjectPut gw)
      | (HDelete, Suc (Suc 0)) \<Rightarrow> Some (RouteObjectDelete gw)
      | (HGet, Suc (Suc 0)) \<Rightarrow> Some (ObjectGet gw)
      | _ \<Rightarrow> None)"

end
