(* ===== verification/Gateway_Correct.thy ===== *)
theory Gateway_Correct
  imports Gateway_S3 S3_Metadata_Correct
begin

text \<open>
  What the S3 interface promises. What it relies on is the locale \<open>gateway_contract\<close>: the parts of the
  world it looks at (\<open>gateway_view\<close>) and what the metadata service, the backend service and the SDK of
  AWS do to them when they report success.
\<close>

section \<open>The contract\<close>

record gateway_view =
  gv_cloud :: "string \<times> string \<Rightarrow> string \<Rightarrow> byte list option"
  gv_meta :: "string \<Rightarrow> string \<Rightarrow> Object option"
  gv_bucket :: "string \<Rightarrow> Bucket option"
  gv_backend :: "string \<Rightarrow> Backend option"

text \<open>A bucket of the cloud is known by the endpoint of the backend and its name there.\<close>

definition home :: "Backend \<Rightarrow> string \<times> string" where
  "home b = (be_Endpoint b, be_BucketName b)"

lemma home_store_config [simp]: "(ss_Endpoint (store_config b), be_BucketName b) = home b"
    "ss_Endpoint (store_config b) = be_Endpoint b" "(be_Endpoint b, be_BucketName b) = home b"
  by (simp_all add: home_def store_config_def)

definition set_meta :: "string \<Rightarrow> string \<Rightarrow> Object \<Rightarrow> gateway_view \<Rightarrow> gateway_view" where
  "set_meta b k x v = v\<lparr>gv_meta := (gv_meta v)(b := (gv_meta v b)(k \<mapsto> x))\<rparr>"

definition set_cloud :: "string \<times> string \<Rightarrow> string \<Rightarrow> byte list \<Rightarrow> gateway_view \<Rightarrow> gateway_view" where
  "set_cloud b k bs v = v\<lparr>gv_cloud := (gv_cloud v)(b := (gv_cloud v b)(k \<mapsto> bs))\<rparr>"

definition only_aws :: "gateway_view \<Rightarrow> bool" where
  "only_aws v \<longleftrightarrow> (\<forall>n b. gv_backend v n = Some b \<longrightarrow> be_Type b = ''aws-s3'')"

text \<open>The backend an object is stored in: the one it names, or that of its bucket.\<close>

definition serving :: "gateway_view \<Rightarrow> string \<Rightarrow> string \<Rightarrow> Backend option" where
  "serving v bucketName name =
     gv_backend v (if name \<noteq> [] then name
                   else case gv_bucket v bucketName of Some bucket \<Rightarrow> bk_Backend bucket | None \<Rightarrow> [])"

lemma view_updates [simp]:
  "gv_backend (set_meta b k x v) = gv_backend v" "gv_bucket (set_meta b k x v) = gv_bucket v"
  "gv_cloud (set_meta b k x v) = gv_cloud v" "gv_meta (set_cloud h k bs v) = gv_meta v"
  "gv_backend (set_cloud h k bs v) = gv_backend v" "gv_bucket (set_cloud h k bs v) = gv_bucket v"
  "only_aws (set_meta b k x v) = only_aws v" "only_aws (set_cloud h k bs v) = only_aws v"
  "serving (set_meta b k x v) = serving v" "serving (set_cloud h k bs v) = serving v"
  by (simp_all add: set_meta_def set_cloud_def only_aws_def serving_def fun_eq_iff)

lemma view_lookups [simp]:
  "gv_meta (set_meta b k x v) b k = Some x" "gv_cloud (set_cloud h k bs v) h k = Some bs"
  by (simp_all add: set_meta_def set_cloud_def)

locale gateway_contract =
  fixes gw :: "'s gateway"
    and view :: "'s \<Rightarrow> gateway_view"
  assumes Authorize: "gw_Authorize gw req action s = Return (ok, s') \<Longrightarrow> view s' = view s"
    and Now: "ck_Now (st_clock (gw_stores gw)) s = (t, s') \<Longrightarrow> view s' = view s"
    and GetBucket_ok: "gw_GetBucket gw n s = Return (Inr bucket, s') \<Longrightarrow>
        view s' = view s \<and> gv_bucket (view s) n = Some bucket"
    and GetBucket_err: "gw_GetBucket gw n s = Return (Inl e, s') \<Longrightarrow> view s' = view s"
    and GetObject_ok: "gw_GetObject gw b k s = Return (Inr x, s') \<Longrightarrow>
        view s' = view s \<and> gv_meta (view s) b k = Some x"
    and GetObject_err: "gw_GetObject gw b k s = Return (Inl e, s') \<Longrightarrow> view s' = view s"
    and CreateObject_ok: "gw_CreateObject gw x s = Return (Inr m, s') \<Longrightarrow> obj_BucketName x \<noteq> BucketMD \<Longrightarrow>
        view s' = set_meta (obj_BucketName x) (obj_ObjectKey x) x (view s)"
    and DeleteObject_ok: "gw_DeleteObject gw b k s = Return (Inr m, s') \<Longrightarrow>
        \<exists>x. gv_meta (view s) b k = Some x \<and> (obj_BucketName x \<noteq> BucketMD \<longrightarrow>
          view s' = set_meta (obj_BucketName x) (obj_ObjectKey x) (x\<lparr>obj_IsDeleteMarker := ''1''\<rparr>) (view s))"
    and ListBackend_ok: "gw_ListBackend gw MaxInt32 0 [(''name'', n)] s = Return (Inr bs, s') \<Longrightarrow>
        view s' = view s \<and> (bs \<noteq> [] \<longrightarrow> gv_backend (view s) n = Some (hd bs))"
    and ListBackend_err: "gw_ListBackend gw MaxInt32 0 [(''name'', n)] s = Return (Inl e, s') \<Longrightarrow> view s' = view s"
    and NewSession: "sa_NewSession (st_aws (gw_stores gw)) c s = (failure, s') \<Longrightarrow> view s' = view s"
    and Upload_ok: "sa_Upload (st_aws (gw_stores gw)) c b k stream s = (Inr u, s') \<Longrightarrow>
        bd_end stream = None \<and> view s' = set_cloud (ss_Endpoint c, b) k (bd_content stream) (view s)"
    and Download_ok: "sa_Download (st_aws (gw_stores gw)) c b k None s = (Inr bytes, s') \<Longrightarrow>
        view s' = view s \<and> gv_cloud (view s) (ss_Endpoint c, b) k = Some bytes"
    and CreateMultipartUpload_ok: "sa_CreateMultipartUpload (st_aws (gw_stores gw)) c b k s = (Inr i, s') \<Longrightarrow>
        view s' = view s"
    and AbortMultipartUpload_ok: "sa_AbortMultipartUpload (st_aws (gw_stores gw)) c b k i s = (Inr u2, s') \<Longrightarrow>
        view s' = view s"
begin

lemma stamp_same:
  assumes "stamp (st_clock (gw_stores gw)) s = Return (t, s')"
  shows "view s' = view s"
proof -
  obtain n u where now: "ck_Now (st_clock (gw_stores gw)) s = (n, u)"
    by (cases "ck_Now (st_clock (gw_stores gw)) s")
  with assms have "s' = u" by (simp add: stamp_def call_def liftS_def ret_def)
  with Now [OF now] show ?thesis by simp
qed

text \<open>The adapter of a name is that of the backend with the name.\<close>

lemma Aws_Init_result:
  assumes "Datastore_Init (gw_stores gw) b s = Return (c, s')" and "be_Type b = ''aws-s3''"
  shows "view s' = view s \<and> (\<exists>ad. c = Some (AwsStore ad) \<and> (ad = None \<or> ad = Some (b, store_config b)))"
proof -
  obtain e t where new: "sa_NewSession (st_aws (gw_stores gw)) (store_config b) s = (e, t)"
    by (cases "sa_NewSession (st_aws (gw_stores gw)) (store_config b) s")
  from assms new have "s' = t" and "c = Some (AwsStore (if e = None then Some (b, store_config b) else None))"
    by (auto simp: Datastore_Init_def Aws_Init_def call_def liftS_def ret_def split: option.splits)
  with NewSession [OF new] show ?thesis by simp
qed

lemma first_backend_result:
  assumes "first_backend gw n (Datastore_Init (gw_stores gw)) (ret None) s = Return (c, s')" and "only_aws (view s)"
  shows "view s' = view s \<and> (c = None \<or> (\<exists>b ad. gv_backend (view s) n = Some b \<and> c = Some (AwsStore ad) \<and>
           (ad = None \<or> ad = Some (b, store_config b))))"
proof -
  from assms(1) obtain r t where list: "gw_ListBackend gw MaxInt32 0 [(''name'', n)] s = Return (r, t)"
    and rest: "(case r of Inl err \<Rightarrow> ret None | Inr [] \<Rightarrow> panic IndexOutOfRange
         | Inr (backend # _) \<Rightarrow> Datastore_Init (gw_stores gw) backend) t = Return (c, s')"
    unfolding first_backend_def by (rule call_ReturnE)
  show ?thesis
  proof (cases r)
    case (Inl e)
    with list rest show ?thesis using ListBackend_err by (auto simp: ret_def)
  next
    case (Inr bs)
    note got = ListBackend_ok [OF list [unfolded Inr]]
    from rest Inr obtain b cs where bs: "bs = b # cs" and init: "Datastore_Init (gw_stores gw) b t = Return (c, s')"
      by (cases bs) (auto simp: panic_def)
    with got have b: "gv_backend (view s) n = Some b" by simp
    with assms(2) have "be_Type b = ''aws-s3''" by (simp add: only_aws_def)
    from Aws_Init_result [OF init this] got b show ?thesis by auto
  qed
qed

lemma getBackendClient_result:
  assumes "getBackendClient gw bn s = Return (c, s')" and "only_aws (view s)"
  shows "view s' = view s \<and> (c = None \<or> (\<exists>bucket b ad. gv_bucket (view s) bn = Some bucket \<and>
           gv_backend (view s) (bk_Backend bucket) = Some b \<and> c = Some (AwsStore ad) \<and>
           (ad = None \<or> ad = Some (b, store_config b))))"
proof -
  from assms(1) obtain r t where got: "gw_GetBucket gw bn s = Return (r, t)"
    and rest: "(case r of Inl err \<Rightarrow> ret None
       | Inr bucket \<Rightarrow> first_backend gw (bk_Backend bucket) (Datastore_Init (gw_stores gw)) (ret None)) t = Return (c, s')"
    unfolding getBackendClient_def by (rule call_ReturnE)
  show ?thesis
  proof (cases r)
    case (Inl e)
    with got rest show ?thesis using GetBucket_err by (auto simp: ret_def)
  next
    case (Inr bucket)
    note b = GetBucket_ok [OF got [unfolded Inr]]
    from rest Inr have "first_backend gw (bk_Backend bucket) (Datastore_Init (gw_stores gw)) (ret None) t = Return (c, s')"
      by simp
    from first_backend_result [OF this] b assms(2) show ?thesis by auto
  qed
qed

lemma getBackendByName_result:
  assumes "getBackendByName gw n s = Return (c, s')" and "only_aws (view s)"
  shows "view s' = view s \<and> (c = None \<or> (\<exists>b ad. gv_backend (view s) n = Some b \<and> c = Some (AwsStore ad) \<and>
           (ad = None \<or> ad = Some (b, store_config b))))"
  using first_backend_result [OF assms(1) [unfolded getBackendByName_def] assms(2)] .

lemma upload_client_result:
  assumes "upload_client gw h bn s = Return ((backend, Some client), s')" and "only_aws (view s)"
  shows "view s' = view s \<and> (\<exists>b ad. serving (view s) bn backend = Some b \<and> client = AwsStore ad \<and>
           (ad = None \<or> ad = Some (b, store_config b)))"
proof (cases "h = []")
  case False
  with assms(1) have "getBackendByName gw h s = Return (Some client, s')" and "backend = h"
    by (auto simp: upload_client_def call_Return_iff ret_def)
  from getBackendByName_result [OF this(1) assms(2)] this(2) False show ?thesis
    by (auto simp: serving_def)
next
  case True
  with assms(1) obtain r t where got: "gw_GetBucket gw bn s = Return (r, t)"
    and rest: "(case r of Inl err \<Rightarrow> panic NilDereference
       | Inr bucket \<Rightarrow> call (getBackendClient gw bn) (\<lambda>client. ret (bk_Backend bucket, client))) t =
         Return ((backend, Some client), s')"
    by (auto simp: upload_client_def elim!: call_ReturnE)
  from rest obtain bucket where r: "r = Inr bucket" and backend: "backend = bk_Backend bucket"
    and client: "getBackendClient gw bn t = Return (Some client, s')"
    by (cases r) (auto simp: panic_def call_Return_iff ret_def)
  note same = GetBucket_ok [OF got [unfolded r]]
  with assms(2) have "only_aws (view t)" by simp
  from getBackendClient_result [OF client this] same backend show ?thesis
    by (auto simp: serving_def)
qed

lemma Aws_PUT_result:
  assumes "Aws_PUT (st_clock (gw_stores gw)) (st_aws (gw_stores gw)) ad stream x ''upload'' s = Return ((NoError, x'), s')"
    and "ad = None \<or> ad = Some (b, store_config b)"
  shows "view s' = set_cloud (home b) (backend_key (obj_BucketName x) (obj_ObjectKey x)) (bd_content stream) (view s)
    \<and> (\<exists>t. x' = x\<lparr>obj_LastModified := t\<rparr>)"
proof -
  from assms have ad: "ad = Some (b, store_config b)" by (auto simp: Aws_PUT_def deref_def panic_def)
  let ?up = "sa_Upload (st_aws (gw_stores gw)) (store_config b) (be_BucketName b)
     (backend_key (obj_BucketName x) (obj_ObjectKey x)) stream s"
  obtain r t where up: "?up = (r, t)" by (cases ?up)
  with assms(1) ad obtain u where r: "r = Inr u"
    and touched: "touch (st_clock (gw_stores gw)) x t = Return ((NoError, x'), s')"
    by (cases r) (auto simp: Aws_PUT_def deref_def call_def liftS_def ret_def)
  from touched obtain d where "stamp (st_clock (gw_stores gw)) t = Return (d, s')" and "x' = x\<lparr>obj_LastModified := d\<rparr>"
    by (auto simp: touch_def call_Return_iff ret_def)
  with stamp_same Upload_ok [OF up [unfolded r]] show ?thesis by auto
qed

lemma authorized_passed:
  assumes "authorized gw req action handler s = Return (rs, s')" and "\<forall>e. rs \<noteq> [ReplyError 403 e]"
  obtains t where "view t = view s" and "handler t = Return (rs, s')"
proof -
  from assms(1) obtain ok t where auth: "gw_Authorize gw req action s = Return (ok, t)"
    and rest: "(if ok then handler else ret [ReplyError 403 ''Operation is not permitted'']) t = Return (rs, s')"
    unfolding authorized_def by (rule call_ReturnE)
  from rest assms(2) have "handler t = Return (rs, s')" by (cases ok) (auto simp: ret_def)
  with Authorize [OF auth] that show ?thesis by blast
qed

lemma ObjectPut_result:
  assumes put: "ObjectPut gw req s = Return ([ReplyMessage m], s')" and aws: "only_aws (view s)"
    and "bn = PathParameter req ''bucketName''" and "k = PathParameter req ''objectKey''"
    and md: "bn \<noteq> BucketMD"
  shows "\<exists>x b. serving (view s) bn (obj_Backend x) = Some b \<and>
    view s' = set_meta bn k x (set_cloud (home b) (backend_key bn k) (bd_content (hr_body req)) (view s))"
proof -
  let ?x = "zero_Object\<lparr>obj_ObjectKey := k, obj_BucketName := bn,
     obj_Size := parsed (HeaderParameter req ''content-length'')\<rparr>"
  note names = assms(3,4) [symmetric]
  from put obtain t where t: "view t = view s"
    and "call (upload_client gw (HeaderParameter req ''x-amz-storage-class'') bn) (\<lambda>(backend, client).
            case client of
              None \<Rightarrow> fails (Error_text NoSuchBackend)
            | Some client \<Rightarrow>
                call (store_PUT (gw_stores gw) client (hr_body req) (?x\<lparr>obj_Backend := backend\<rparr>) ''upload'') (\<lambda>(s3err, x).
                  if s3err \<noteq> NoError then fails (Error_text s3err)
                  else call (gw_CreateObject gw x) answer)) t = Return ([ReplyMessage m], s')"
    unfolding ObjectPut_def Let_def names by (rule authorized_passed) auto
  from this(2) obtain r u where "upload_client gw (HeaderParameter req ''x-amz-storage-class'') bn t = Return (r, u)"
    and "(case r of (backend, client) \<Rightarrow> (case client of
              None \<Rightarrow> fails (Error_text NoSuchBackend)
            | Some client \<Rightarrow>
                call (store_PUT (gw_stores gw) client (hr_body req) (?x\<lparr>obj_Backend := backend\<rparr>) ''upload'') (\<lambda>(s3err, x).
                  if s3err \<noteq> NoError then fails (Error_text s3err)
                  else call (gw_CreateObject gw x) answer))) u = Return ([ReplyMessage m], s')"
    by (rule call_ReturnE)
  then obtain backend client where up: "upload_client gw (HeaderParameter req ''x-amz-storage-class'') bn t = Return ((backend, Some client), u)"
    and "call (store_PUT (gw_stores gw) client (hr_body req) (?x\<lparr>obj_Backend := backend\<rparr>) ''upload'') (\<lambda>(s3err, x).
                  if s3err \<noteq> NoError then fails (Error_text s3err)
                  else call (gw_CreateObject gw x) answer) u = Return ([ReplyMessage m], s')"
    by (auto simp: ret_def split: prod.splits option.splits)
  from this(2) obtain s3err x v where
    store: "store_PUT (gw_stores gw) client (hr_body req) (?x\<lparr>obj_Backend := backend\<rparr>) ''upload'' u = Return ((s3err, x), v)"
    and rest: "(if s3err \<noteq> NoError then fails (Error_text s3err) else call (gw_CreateObject gw x) answer) v =
        Return ([ReplyMessage m], s')"
    by (auto elim!: call_ReturnE)
  from rest have ok: "s3err = NoError" and "call (gw_CreateObject gw x) answer v = Return ([ReplyMessage m], s')"
    by (auto simp: ret_def split: if_splits)
  from this(2) obtain n where create: "gw_CreateObject gw x v = Return (Inr n, s')"
    by (auto simp: answer_def ret_def elim!: call_ReturnE split: sum.splits)
  from upload_client_result [OF up] t aws obtain b ad where u: "view u = view s"
    and serves: "serving (view s) bn backend = Some b" and client: "client = AwsStore ad"
    and ad: "ad = None \<or> ad = Some (b, store_config b)" by auto
  from store client ok have "Aws_PUT (st_clock (gw_stores gw)) (st_aws (gw_stores gw)) ad (hr_body req)
      (?x\<lparr>obj_Backend := backend\<rparr>) ''upload'' u = Return ((NoError, x), v)" by (simp add: store_PUT_def)
  from Aws_PUT_result [OF this ad] u obtain d where
    "view v = set_cloud (home b) (backend_key bn k) (bd_content (hr_body req)) (view s)"
    and "x = ?x\<lparr>obj_Backend := backend, obj_LastModified := d\<rparr>" by auto
  with CreateObject_ok [OF create] serves md show ?thesis by (intro exI [of _ x] exI [of _ b]) simp
qed

lemma Aws_GET_result:
  assumes "Aws_GET (st_aws (gw_stores gw)) ad x ''download'' 0 0 s = Return ((Some bd, NoError), s')"
    and "ad = None \<or> ad = Some (b, store_config b)"
  shows "view s' = view s \<and>
    gv_cloud (view s) (home b) (backend_key (obj_BucketName x) (obj_ObjectKey x)) = Some (bd_content bd)"
proof -
  from assms have ad: "ad = Some (b, store_config b)" by (auto simp: Aws_GET_def)
  let ?down = "sa_Download (st_aws (gw_stores gw)) (store_config b) (be_BucketName b)
     (backend_key (obj_BucketName x) (obj_ObjectKey x)) None s"
  obtain r t where down: "?down = (r, t)" by (cases ?down)
  with assms(1) ad obtain bs where "r = Inr bs" "t = s'" "bd = whole bs"
    by (cases r) (auto simp: Aws_GET_def ranged_def call_def liftS_def ret_def)
  with Download_ok [of "store_config b" "be_BucketName b"] down show ?thesis by auto
qed

lemma named_client_result:
  assumes "(if name \<noteq> [] then getBackendByName gw name else getBackendClient gw bn) s = Return (Some client, s')"
    and "only_aws (view s)"
  shows "view s' = view s \<and> (\<exists>b ad. serving (view s) bn name = Some b \<and> client = AwsStore ad \<and>
           (ad = None \<or> ad = Some (b, store_config b)))"
proof (cases "name = []")
  case True
  with assms(1) have "getBackendClient gw bn s = Return (Some client, s')" by simp
  from getBackendClient_result [OF this assms(2)] True show ?thesis by (auto simp: serving_def)
next
  case False
  with assms(1) have "getBackendByName gw name s = Return (Some client, s')" by simp
  from getBackendByName_result [OF this assms(2)] False show ?thesis by (auto simp: serving_def)
qed

lemma ObjectGet_result:
  assumes got: "ObjectGet gw req s = Return ([ReplyBytes bs], s')" and aws: "only_aws (view s)"
    and norange: "HeaderParameter req ''Range'' = []"
    and "bn = PathParameter req ''bucketName''" and "k = PathParameter req ''objectKey''"
  shows "\<exists>x b. gv_meta (view s) bn k = Some x \<and> serving (view s) bn (obj_Backend x) = Some b \<and>
    gv_cloud (view s) (home b) (backend_key bn k) = Some bs"
proof -
  note names = assms(4,5) [symmetric]
  let ?find = "\<lambda>md. if obj_Backend md \<noteq> [] then getBackendByName gw (obj_Backend md) else getBackendClient gw bn"
  let ?x = "\<lambda>md. zero_Object\<lparr>obj_ObjectKey := k, obj_BucketName := bn, obj_Size := obj_Size md\<rparr>"
  from got norange obtain r t where meta: "gw_GetObject gw bn k s = Return (r, t)"
    and "(case r of
             Inl err \<Rightarrow> fails (Error_text NoSuchObject)
           | Inr md \<Rightarrow>
               call (?find md) (\<lambda>client.
                 case client of
                   None \<Rightarrow> fails (Error_text NoSuchBackend)
                 | Some client \<Rightarrow>
                     call (store_GET (gw_stores gw) client (?x md) ''download'' 0 0) (\<lambda>(bd, s3err).
                       if s3err \<noteq> NoError then fails (Error_text s3err)
                       else deref bd (\<lambda>bd. ret [ReplyBytes (bd_content bd)])))) t = Return ([ReplyBytes bs], s')"
    by (auto simp: ObjectGet_def range_of_def Let_def names elim!: call_ReturnE)
  then obtain md where md: "r = Inr md"
    and "call (?find md) (\<lambda>client.
                 case client of
                   None \<Rightarrow> fails (Error_text NoSuchBackend)
                 | Some client \<Rightarrow>
                     call (store_GET (gw_stores gw) client (?x md) ''download'' 0 0) (\<lambda>(bd, s3err).
                       if s3err \<noteq> NoError then fails (Error_text s3err)
                       else deref bd (\<lambda>bd. ret [ReplyBytes (bd_content bd)]))) t = Return ([ReplyBytes bs], s')"
    by (cases r) (auto simp: ret_def)
  from this(2) obtain c u where find: "?find md t = Return (c, u)"
    and "(case c of
                   None \<Rightarrow> fails (Error_text NoSuchBackend)
                 | Some client \<Rightarrow>
                     call (store_GET (gw_stores gw) client (?x md) ''download'' 0 0) (\<lambda>(bd, s3err).
                       if s3err \<noteq> NoError then fails (Error_text s3err)
                       else deref bd (\<lambda>bd. ret [ReplyBytes (bd_content bd)]))) u = Return ([ReplyBytes bs], s')"
    by (rule call_ReturnE)
  then obtain client where c: "c = Some client"
    and "call (store_GET (gw_stores gw) client (?x md) ''download'' 0 0) (\<lambda>(bd, s3err).
                       if s3err \<noteq> NoError then fails (Error_text s3err)
                       else deref bd (\<lambda>bd. ret [ReplyBytes (bd_content bd)])) u = Return ([ReplyBytes bs], s')"
    by (cases c) (auto simp: ret_def)
  from this(2) obtain bd v where
    read: "store_GET (gw_stores gw) client (?x md) ''download'' 0 0 u = Return ((Some bd, NoError), v)"
    and bs: "bs = bd_content bd"
    by (auto simp: ret_def elim!: call_ReturnE split: if_splits prod.splits)
  note t = GetObject_ok [OF meta [unfolded md]]
  with aws have "only_aws (view t)" by simp
  from named_client_result [OF find [unfolded c] this]
  obtain b ad where u: "view u = view s" and serves: "serving (view s) bn (obj_Backend md) = Some b"
    and client: "client = AwsStore ad" and ad: "ad = None \<or> ad = Some (b, store_config b)"
    using t by auto
  from read client have "Aws_GET (st_aws (gw_stores gw)) ad (?x md) ''download'' 0 0 u = Return ((Some bd, NoError), v)"
    by (simp add: store_GET_def)
  from Aws_GET_result [OF this ad] u t serves bs show ?thesis by auto
qed

lemma put_then_get:
  assumes "ObjectPut gw req s = Return ([ReplyMessage m], s1)" and "only_aws (view s)"
    and "view t = view s1" and "ObjectGet gw req' t = Return ([ReplyBytes bs], t')"
    and "req_path req' = req_path req" and "HeaderParameter req' ''Range'' = []"
    and "PathParameter req ''bucketName'' \<noteq> BucketMD"
  shows "bs = bd_content (hr_body req)"
proof -
  let ?bn = "PathParameter req ''bucketName''" and ?k = "PathParameter req ''objectKey''"
  have same: "?bn = PathParameter req' ''bucketName''" "?k = PathParameter req' ''objectKey''"
    by (simp_all add: PathParameter_def assms(5))
  from ObjectPut_result [OF assms(1,2) refl refl assms(7)] obtain x b where
    serves: "serving (view s) ?bn (obj_Backend x) = Some b"
    and now: "view t = set_meta ?bn ?k x (set_cloud (home b) (backend_key ?bn ?k) (bd_content (hr_body req)) (view s))"
    using assms(3) by auto
  then have "only_aws (view t)" using assms(2) by simp
  from ObjectGet_result [OF assms(4) this assms(6) same] now serves show ?thesis by auto
qed

lemma Aws_Init_upload_result:
  assumes "Aws_InitMultipartUpload (st_aws (gw_stores gw)) ad x s = Return ((res, err), s')"
    and "ad = None \<or> ad = Some (b, store_config b)"
  shows "view s' = view s"
proof -
  from assms have ad: "ad = Some (b, store_config b)" by (auto simp: Aws_InitMultipartUpload_def)
  let ?start = "sa_CreateMultipartUpload (st_aws (gw_stores gw)) (store_config b) (be_BucketName b)
     (backend_key (obj_BucketName x) (obj_ObjectKey x)) s"
  obtain r t where started: "?start = (r, t)" by (cases ?start)
  with assms(1) ad obtain i where "r = Inr i" "t = s'"
    by (cases r) (auto simp: Aws_InitMultipartUpload_def call_def liftS_def ret_def panic_def)
  with CreateMultipartUpload_ok [of "store_config b"] started show ?thesis by auto
qed

lemma MultiPartUploadInit_result:
  assumes run: "MultiPartUploadInit gw req s = Return ([ReplyInit mu], s')" and aws: "only_aws (view s)"
    and "bn = PathParameter req ''bucketName''" and "k = PathParameter req ''objectKey''"
    and md: "bn \<noteq> BucketMD"
  shows "\<exists>x. view s' = set_meta bn k x (view s) \<and> obj_Size x = 0 \<and> obj_BucketName x = bn \<and> obj_ObjectKey x = k"
proof -
  note names = assms(3,4) [symmetric]
  let ?x = "zero_Object\<lparr>obj_ObjectKey := k, obj_BucketName := bn\<rparr>"
  let ?new = "\<lambda>backend d r. case r of
       Inr md \<Rightarrow> md\<lparr>obj_ObjectKey := k, obj_BucketName := bn, obj_InitFlag := ''0'', obj_IsDeleteMarker := [],
         obj_Partions := [], obj_Backend := backend, obj_Size := 0, obj_LastModified := d\<rparr>
     | Inl err \<Rightarrow> ?x\<lparr>obj_Backend := backend, obj_Size := 0, obj_LastModified := d, obj_InitFlag := ''0''\<rparr>"
  let ?rest = "\<lambda>backend (res, s3err).
       if s3err \<noteq> NoError then fails (Error_text s3err)
       else call (stamp (st_clock (gw_stores gw))) (\<lambda>d.
            call (gw_GetObject gw bn k) (\<lambda>r.
            call (gw_CreateObject gw (?new backend d r)) (\<lambda>r.
            deref res (\<lambda>res. ret (on_error r @ [ReplyInit res])))))"
  from run obtain r t where up: "upload_client gw (HeaderParameter req ''x-amz-storage-class'') bn s = Return (r, t)"
    and "(case r of (backend, client) \<Rightarrow> case client of
              None \<Rightarrow> fails (Error_text NoSuchBackend)
            | Some client \<Rightarrow>
                call (store_InitMultipartUpload (gw_stores gw) client (?x\<lparr>obj_Backend := backend\<rparr>) ''multipartupload'')
                  (?rest backend)) t = Return ([ReplyInit mu], s')"
    unfolding MultiPartUploadInit_def Let_def names by (rule call_ReturnE) (simp split: prod.splits)
  then obtain backend client where r: "r = (backend, Some client)"
    and "call (store_InitMultipartUpload (gw_stores gw) client (?x\<lparr>obj_Backend := backend\<rparr>) ''multipartupload'')
       (?rest backend) t = Return ([ReplyInit mu], s')"
    by (auto simp: ret_def split: prod.splits option.splits)
  from this(2) obtain res u where
    started: "store_InitMultipartUpload (gw_stores gw) client (?x\<lparr>obj_Backend := backend\<rparr>) ''multipartupload'' t = Return (res, u)"
    and "?rest backend res u = Return ([ReplyInit mu], s')"
    by (rule call_ReturnE)
  then obtain d v r w c where stamped: "stamp (st_clock (gw_stores gw)) u = Return (d, v)"
    and read: "gw_GetObject gw bn k v = Return (r, w)"
    and create: "gw_CreateObject gw (?new backend d r) w = Return (Inr c, s')"
    by (auto simp: ret_def elim!: call_ReturnE split: prod.splits if_splits sum.splits)
  from upload_client_result [OF up [unfolded r] aws] obtain b ad where t: "view t = view s"
    and client: "client = AwsStore ad" and ad: "ad = None \<or> ad = Some (b, store_config b)" by auto
  from started client have "view u = view t"
    using Aws_Init_upload_result [OF _ ad] by (cases res) (auto simp: store_InitMultipartUpload_def)
  moreover have "view w = view v"
    using read GetObject_ok [of bn k v] GetObject_err [of bn k v] by (cases r) auto
  ultimately have "view w = view s" using t stamp_same [OF stamped] by simp
  with CreateObject_ok [OF create] md show ?thesis
    by (intro exI [of _ "?new backend d r"]) (auto split: sum.splits)
qed

lemma Aws_Abort_result:
  assumes "Aws_AbortMultipartUpload (st_aws (gw_stores gw)) ad mu s = Return (NoError, s')"
    and "ad = None \<or> ad = Some (b, store_config b)"
  shows "view s' = view s"
proof -
  from assms have ad: "ad = Some (b, store_config b)" by (auto simp: Aws_AbortMultipartUpload_def)
  let ?abort = "sa_AbortMultipartUpload (st_aws (gw_stores gw)) (store_config b) (be_BucketName b)
     (backend_key (mu_Bucket mu) (mu_Key mu)) (mu_UploadId mu) s"
  obtain r t where aborted: "?abort = (r, t)" by (cases ?abort)
  with assms(1) ad obtain i where "r = Inr i" "t = s'"
    by (cases r) (auto simp: Aws_AbortMultipartUpload_def call_def liftS_def ret_def)
  with AbortMultipartUpload_ok [of "store_config b"] aborted show ?thesis by auto
qed

lemma upload_in_result:
  assumes "upload_in gw req (ret ()) f s = Return (rs, s')" and "\<forall>e. rs \<noteq> [ReplyError 500 e]"
    and aws: "only_aws (view s)"
  obtains md b ad t where
    "gv_meta (view s) (PathParameter req ''bucketName'') (PathParameter req ''objectKey'') = Some md"
    and "view t = view s" and "ad = None \<or> ad = Some (b, store_config b)"
    and "f md () (AwsStore ad) t = Return (rs, s')"
proof -
  let ?bn = "PathParameter req ''bucketName''" and ?k = "PathParameter req ''objectKey''"
  from assms(1) obtain r t where read: "gw_GetObject gw ?bn ?k s = Return (r, t)"
    and "(case r of
         Inl err \<Rightarrow> panic NilDereference
       | Inr md \<Rightarrow> call (getBackendByName gw (obj_Backend md)) (\<lambda>client.
             case client of None \<Rightarrow> fails (Error_text NoSuchBackend) | Some client \<Rightarrow> f md () client)) t = Return (rs, s')"
    unfolding upload_in_def call_ret by (rule call_ReturnE)
  then obtain md where md: "r = Inr md"
    and "call (getBackendByName gw (obj_Backend md)) (\<lambda>client.
             case client of None \<Rightarrow> fails (Error_text NoSuchBackend) | Some client \<Rightarrow> f md () client) t = Return (rs, s')"
    by (cases r) (auto simp: panic_def)
  from this(2) obtain c u where find: "getBackendByName gw (obj_Backend md) t = Return (c, u)"
    and rest: "(case c of None \<Rightarrow> fails (Error_text NoSuchBackend) | Some client \<Rightarrow> f md () client) u = Return (rs, s')"
    by (rule call_ReturnE)
  note t = GetObject_ok [OF read [unfolded md]]
  with aws have "only_aws (view t)" by simp
  from getBackendByName_result [OF find this] rest assms(2) obtain b ad where
    "view u = view t" "c = Some (AwsStore ad)" "ad = None \<or> ad = Some (b, store_config b)"
    by (auto simp: ret_def)
  with that [of md u ad b] t rest show ?thesis by simp
qed

lemma Abort_result:
  assumes "gw_AbortMultipartUpload gw req s = Return ([ReplyMessage m], s')" and "only_aws (view s)"
    and "bn = PathParameter req ''bucketName''" and "k = PathParameter req ''objectKey''"
  shows "\<exists>x. gv_meta (view s) bn k = Some x \<and> (obj_BucketName x \<noteq> BucketMD \<longrightarrow>
    view s' = set_meta (obj_BucketName x) (obj_ObjectKey x) (x\<lparr>obj_IsDeleteMarker := ''1''\<rparr>) (view s))"
proof -
  note names = assms(3,4) [symmetric]
  from assms(1) obtain md b ad t where t: "view t = view s" and ad: "ad = None \<or> ad = Some (b, store_config b)"
    and "call (store_AbortMultipartUpload (gw_stores gw) (AwsStore ad) (the_upload req) ''multipartupload'') (\<lambda>s3err.
         if s3err \<noteq> NoError then fails (Error_text s3err)
         else call (gw_DeleteObject gw bn k) answer) t = Return ([ReplyMessage m], s')"
    unfolding gw_AbortMultipartUpload_def names by (rule upload_in_result) (use assms(2) in auto)
  from this(3) obtain u n where
    abort: "Aws_AbortMultipartUpload (st_aws (gw_stores gw)) ad (the_upload req) t = Return (NoError, u)"
    and delete: "gw_DeleteObject gw bn k u = Return (Inr n, s')"
    by (auto simp: store_AbortMultipartUpload_def answer_def ret_def elim!: call_ReturnE split: if_splits sum.splits)
  from DeleteObject_ok [OF delete] Aws_Abort_result [OF abort ad] t show ?thesis by simp
qed

lemma begin_then_abort:
  assumes "MultiPartUploadInit gw req s = Return ([ReplyInit mu], s1)" and "only_aws (view s)"
    and "view t = view s1" and "gw_AbortMultipartUpload gw req' t = Return ([ReplyMessage m], t')"
    and "req_path req' = req_path req"
    and "bn = PathParameter req ''bucketName''" and "k = PathParameter req ''objectKey''"
    and md: "bn \<noteq> BucketMD"
  shows "\<exists>x. view t' = set_meta bn k x (view s) \<and> obj_IsDeleteMarker x = ''1'' \<and> obj_Size x = 0"
proof -
  have same: "bn = PathParameter req' ''bucketName''" "k = PathParameter req' ''objectKey''"
    using assms(6,7) by (simp_all add: PathParameter_def assms(5))
  from MultiPartUploadInit_result [OF assms(1,2,6,7) md] assms(3) obtain x where
    now: "view t = set_meta bn k x (view s)" and x: "obj_Size x = 0" "obj_BucketName x = bn" "obj_ObjectKey x = k"
    by auto
  then have "only_aws (view t)" using assms(2) by simp
  from Abort_result [OF assms(4) this same] now x md show ?thesis
    by (intro exI [of _ "x\<lparr>obj_IsDeleteMarker := ''1''\<rparr>"]) (auto simp: set_meta_def)
qed

end

end
