(* ===== verification/Gateway_World.thy ===== *)
theory Gateway_World
  imports Gateway_Correct
begin

text \<open>
  The S3 interface on the services of this development: the metadata and the backend service on their
  own databases, the policy engine, and a cloud in memory. It keeps \<open>gateway_contract\<close>. The properties
  of the interface and their instances on this world follow.
\<close>

section \<open>A program on a part of the state\<close>

text \<open>A page that holds everything is not counted out.\<close>

lemma page_code [code]:
  "page skip limit xs =
     (let ys = drop (nat skip) xs in if limit = 0 \<or> int (length ys) \<le> \<bar>limit\<bar> then ys else take (nat \<bar>limit\<bar>) ys)"
  by (auto simp: page_def Let_def)

definition on_part :: "('s \<Rightarrow> 'p) \<Rightarrow> ('p \<Rightarrow> 's \<Rightarrow> 's) \<Rightarrow> ('p, 'a) prog \<Rightarrow> ('s, 'a) prog" where
  "on_part get put m s = go_map (\<lambda>(r, p). (r, put p s)) (m (get s))"

lemma on_part_Return:
  "on_part get put m s = Return (r, s') \<longleftrightarrow> (\<exists>p. m (get s) = Return (r, p) \<and> s' = put p s)"
  by (cases "m (get s)") (auto simp: on_part_def)

section \<open>What the metadata service leaves alone\<close>

context mgo_store begin

lemma db_CreateObject_frame:
  assumes "db_CreateObject ops x s = Return (err, s')" and "c \<noteq> obj_BucketName x"
  shows "docs s' c = docs s c"
proof -
  let ?b = "obj_BucketName x" and ?q = "object_query (obj_ObjectKey x)"
  obtain r t where one: "op_One ops ?b ?q s = (r, t)" by (cases "op_One ops ?b ?q s")
  obtain e u where ins: "op_Insert ops ?b (enc_Object x) t = (e, u)" by (cases "op_Insert ops ?b (enc_Object x) t")
  have "docs u c = docs t c" using ins assms(2) by (cases e) (auto dest!: Insert_ok Insert_err)
  moreover have "s' = u \<or> s' = t"
    using assms(1) one ins by (auto simp: db_CreateObject_def call_def liftS_def ret_def split: if_splits)
  ultimately show ?thesis using One_docs [OF one] by auto
qed

lemma db_UpdateObject_frame:
  assumes "db_UpdateObject ops x s = Return (err, s')" and "c \<noteq> obj_BucketName x"
  shows "docs s' c = docs s c"
proof -
  obtain e where "op_Update ops (obj_BucketName x) (object_query (obj_ObjectKey x)) (enc_Object x) s = (e, s')"
    using assms(1) by (auto simp: db_UpdateObject_def call_def liftS_def ret_def split: prod.splits)
  with assms(2) show ?thesis by (cases e) (auto dest!: Update_ok Update_err)
qed

lemma svc_CreateObject_frame:
  assumes "svc_CreateObject ops x s = Return (r, s')" and "c \<noteq> obj_BucketName x"
  shows "docs s' c = docs s c"
proof -
  from assms(1) obtain f t where f: "db_GetObject ops (obj_BucketName x) (obj_ObjectKey x) s = Return (f, t)"
    and "s' = t \<or> (\<exists>err1. db_CreateObject ops x t = Return (err1, s') \<or> db_UpdateObject ops x t = Return (err1, s'))"
    by (auto simp: svc_CreateObject_def ret_def elim!: call_ReturnE split: if_splits) blast+
  moreover have "docs t = docs s" using f by (rule db_reads(1))
  ultimately show ?thesis using db_CreateObject_frame db_UpdateObject_frame assms(2) by metis
qed

lemma svc_DeleteObject_frame:
  assumes "svc_DeleteObject ops b k s = Return (Inr m, s')"
  shows "\<exists>x. meta_of docs s b k = Some x \<and>
    meta_of docs s' = (meta_of docs s)(obj_BucketName x :=
      (meta_of docs s (obj_BucketName x))(obj_ObjectKey x \<mapsto> x\<lparr>obj_IsDeleteMarker := ''1''\<rparr>)) \<and>
    (\<forall>c. c \<noteq> obj_BucketName x \<longrightarrow> docs s' c = docs s c)"
proof -
  from assms obtain err x t where lookup: "db_GetObject ops b k s = Return ((err, x), t)"
    and ok: "s3e_Code err = ERR_OK"
    and upd: "\<exists>err1. db_UpdateObject ops (x\<lparr>obj_IsDeleteMarker := ''1''\<rparr>) t = Return (err1, s')"
    by (auto simp: svc_DeleteObject_def ret_def elim!: call_ReturnE split: if_splits)
  from db_GetObject_result [OF lookup] ok have x: "meta_of docs s b k = Some x" "docs t = docs s"
    by (auto simp: s3_errors)
  from upd x(2) have "docs s' c = docs s c" if "c \<noteq> obj_BucketName x" for c
    using db_UpdateObject_frame [of "x\<lparr>obj_IsDeleteMarker := ''1''\<rparr>" t _ s' c] that by auto
  with x svc_DeleteObject_result [OF assms] show ?thesis by auto
qed

lemma bucket_of_frame: "docs s' BucketMD = docs s BucketMD \<Longrightarrow> bucket_of docs s' = bucket_of docs s"
  by (intro ext) (simp add: bucket_of_def)

end

section \<open>The world\<close>

record world =
  wd_meta :: mem
  wd_backends :: mem
  wd_cloud :: "((string \<times> string) \<times> string, byte list) gomap"
  wd_now :: int
  wd_enforcer :: Enforcer

definition world_aws :: "world aws_store" where
  "world_aws = \<lparr>
     sa_NewSession = (\<lambda>c s. (None, s)),
     sa_Upload = (\<lambda>c b k stream s.
       if bd_end stream = None
       then (Inr (), s\<lparr>wd_cloud := insert_key ((ss_Endpoint c, b), k) (bd_content stream) (wd_cloud s)\<rparr>)
       else (Inl ''unexpected EOF'', s)),
     sa_Download = (\<lambda>c b k range s.
       (case lookup (wd_cloud s) ((ss_Endpoint c, b), k) of None \<Rightarrow> Inl ''NoSuchKey'' | Some bs \<Rightarrow> Inr bs, s)),
     sa_DeleteObject = (\<lambda>c b k s.
       (Inr (), s\<lparr>wd_cloud := List.filter (\<lambda>e. fst e \<noteq> ((ss_Endpoint c, b), k)) (wd_cloud s)\<rparr>)),
     sa_ListObjects = (\<lambda>c b k s. (Inr [], s)),
     sa_CreateMultipartUpload = (\<lambda>c b k s. (Inr ''upload'', s)),
     sa_UploadPart = (\<lambda>c b k i n len bs s. ((Inl ''NoSuchUpload'', bs), s)),
     sa_CompleteMultipartUpload = (\<lambda>c b k i ps s. (Inl ''NoSuchUpload'', s)),
     sa_AbortMultipartUpload = (\<lambda>c b k i s. (Inr (), s))\<rparr>"

definition world_clock :: "world clock" where
  "world_clock = \<lparr>ck_Now = (\<lambda>s. (wd_now s, s\<lparr>wd_now := wd_now s + 1\<rparr>)), ck_Text = Itoa\<rparr>"

abbreviation on_meta :: "(mem, 'a) prog \<Rightarrow> (world, 'a) prog" where
  "on_meta \<equiv> on_part wd_meta (\<lambda>m s. s\<lparr>wd_meta := m\<rparr>)"

text \<open>
  The other clouds and the decoding of XML are those of \<open>base\<close>; \<open>guard\<close> is the policy engine with its
  configuration.
\<close>

definition world_gateway :: "world gateway \<Rightarrow> (Enforcer \<Rightarrow> request \<Rightarrow> string \<Rightarrow> (bool \<times> Context \<times> Enforcer) go) \<Rightarrow>
    world gateway" where
  "world_gateway base guard = \<lparr>
     gw_stores = \<lparr>st_clock = world_clock, st_aws = world_aws, st_az = st_az (gw_stores base),
       st_obs = st_obs (gw_stores base), st_ce = st_ce (gw_stores base)\<rparr>,
     gw_Authorize = (\<lambda>req action s.
       go_map (\<lambda>(ok, ctx, e). (ok, s\<lparr>wd_enforcer := e\<rparr>)) (guard (wd_enforcer s) (request.truncate req) action)),
     gw_ListBuckets = (\<lambda>i. on_meta (svc_ListBuckets mem_ops i)),
     gw_CreateBucket = (\<lambda>b. on_meta (svc_CreateBucket mem_ops b)),
     gw_GetBucket = (\<lambda>n. on_meta (svc_GetBucket mem_ops n)),
     gw_DeleteBucket = (\<lambda>n. on_meta (svc_DeleteBucket mem_ops n)),
     gw_ListObjects = (\<lambda>n. on_meta (svc_ListObjects mem_ops n)),
     gw_CreateObject = (\<lambda>x. on_meta (svc_CreateObject mem_ops x)),
     gw_GetObject = (\<lambda>b k. on_meta (svc_GetObject mem_ops b k)),
     gw_DeleteObject = (\<lambda>b k. on_meta (svc_DeleteObject mem_ops b k)),
     gw_ListBackend = (\<lambda>limit offset q. on_part wd_backends (\<lambda>m s. s\<lparr>wd_backends := m\<rparr>)
       (call (svc_ListBackend mem_ops limit offset q) (\<lambda>r.
          ret (case r of Inl e \<Rightarrow> Inl ''list backends failed'' | Inr (bs, next) \<Rightarrow> Inr bs)))),
     gw_location_of = gw_location_of base, gw_parts_of = gw_parts_of base\<rparr>"

definition backend_of :: "('s \<Rightarrow> string \<Rightarrow> doc list) \<Rightarrow> 's \<Rightarrow> string \<Rightarrow> Backend option" where
  "backend_of docs s n =
     map_option dec_Backend (List.find (matches (Match [(''name'', BString n)])) (docs s backendCollection))"

definition world_view :: "world \<Rightarrow> gateway_view" where
  "world_view s = \<lparr>gv_cloud = (\<lambda>h k. lookup (wd_cloud s) (h, k)), gv_meta = meta_of mem_docs (wd_meta s),
     gv_bucket = bucket_of mem_docs (wd_meta s), gv_backend = backend_of mem_docs (wd_backends s)\<rparr>"

lemma svc_ListBackend_first:
  assumes "mgo_store ops docs keys clock"
    and "svc_ListBackend ops MaxInt32 0 [(''name'', n)] s = Return (r, s')"
  shows "docs s' = docs s \<and> (\<forall>bs k. r = Inr (bs, k) \<longrightarrow> bs \<noteq> [] \<longrightarrow> backend_of docs s n = Some (hd bs))"
proof -
  let ?q = "Match [(''name'', BString n)]"
  let ?all = "op_All ops backendCollection ?q 0 MaxInt32 s"
  have first: "xs \<noteq> [] \<Longrightarrow> List.find p ds = Some (hd xs)" if "xs = take k (List.filter p ds)" "k > 0" for p ds k and xs :: "doc list"
    using that by (induction ds) auto
  obtain a t where all: "?all = (a, t)" by (cases ?all)
  with assms(2) have t: "s' = t" and r: "\<And>bs k. r = Inr (bs, k) \<Longrightarrow> \<exists>ds. a = Inr ds \<and> bs = map dec_Backend ds"
    by (auto simp: svc_ListBackend_def repo_ListBackend_def MaxInt32_def call_def liftS_def ret_def split: sum.splits)
  have "backend_of docs s n = Some (hd bs)" if "r = Inr (bs, k)" "bs \<noteq> []" for bs k
  proof -
    from r [OF that(1)] obtain ds where a: "a = Inr ds" and bs: "bs = map dec_Backend ds" by auto
    from mgo_store.All_ok [OF assms(1) all [unfolded a]]
    have "ds = take (nat MaxInt32) (List.filter (matches ?q) (docs s backendCollection))"
      by (simp add: page_def MaxInt32_def)
    from first [OF this] that bs show ?thesis by (simp add: backend_of_def hd_map MaxInt32_def)
  qed
  moreover have "docs t = docs s" using mgo_store.All_docs [OF assms(1) all] .
  ultimately show ?thesis using t by auto
qed

lemma world_views [simp]:
  "world_view (s\<lparr>wd_enforcer := e\<rparr>) = world_view s" "world_view (s\<lparr>wd_now := n\<rparr>) = world_view s"
  by (simp_all add: world_view_def)

lemma world_view_sel [simp]:
  "gv_meta (world_view s) = meta_of mem_docs (wd_meta s)" "gv_bucket (world_view s) = bucket_of mem_docs (wd_meta s)"
  "gv_backend (world_view s) = backend_of mem_docs (wd_backends s)"
  "gv_cloud (world_view s) h k = lookup (wd_cloud s) (h, k)"
  by (simp_all add: world_view_def)

lemma world_view_meta:
  assumes "mem_docs m = mem_docs (wd_meta s)"
  shows "world_view (s\<lparr>wd_meta := m\<rparr>) = world_view s"
  by (simp add: world_view_def meta_of_def bucket_of_def assms fun_eq_iff)

lemma world_view_backends:
  assumes "mem_docs m = mem_docs (wd_backends s)"
  shows "world_view (s\<lparr>wd_backends := m\<rparr>) = world_view s"
  by (simp add: world_view_def backend_of_def assms fun_eq_iff)

lemma world_view_set_meta:
  assumes "meta_of mem_docs m = (meta_of mem_docs (wd_meta s))(b := (meta_of mem_docs (wd_meta s) b)(k \<mapsto> x))"
    and "mem_docs m BucketMD = mem_docs (wd_meta s) BucketMD"
  shows "world_view (s\<lparr>wd_meta := m\<rparr>) = set_meta b k x (world_view s)"
  using assms mem.bucket_of_frame [OF assms(2)] by (simp add: world_view_def set_meta_def)

lemma world_view_set_cloud:
  "world_view (s\<lparr>wd_cloud := insert_key (h, k) bs (wd_cloud s)\<rparr>) = set_cloud h k bs (world_view s)"
  by (simp add: world_view_def set_cloud_def fun_eq_iff)

lemma world_GetBucket:
  assumes "svc_GetBucket mem_ops n m = Return (r, m')"
  shows "mem_docs m' = mem_docs m \<and> (\<forall>b. r = Inr b \<longrightarrow> bucket_of mem_docs m n = Some b)"
proof -
  from assms obtain err b where got: "db_GetBucketByName mem_ops n m = Return ((err, b), m')"
    and r: "r = (if s3e_Code err \<noteq> ERR_OK then Inl (Error_text err) else Inr b)"
    by (auto simp: svc_GetBucket_def ret_def elim!: call_ReturnE)
  from mem.db_GetBucket_result [OF got] r show ?thesis by (auto simp: s3_errors split: if_splits)
qed

lemma world_ListBackend:
  assumes "gw_ListBackend (world_gateway base guard) MaxInt32 0 [(''name'', n)] s = Return (r, s')"
  shows "world_view s' = world_view s \<and>
    (\<forall>bs. r = Inr bs \<longrightarrow> bs \<noteq> [] \<longrightarrow> backend_of mem_docs (wd_backends s) n = Some (hd bs))"
proof -
  from assms obtain a p where list: "svc_ListBackend mem_ops MaxInt32 0 [(''name'', n)] (wd_backends s) = Return (a, p)"
    and r: "r = (case a of Inl e \<Rightarrow> Inl ''list backends failed'' | Inr (bs, next) \<Rightarrow> Inr bs)"
    and s': "s' = s\<lparr>wd_backends := p\<rparr>"
    by (auto simp: world_gateway_def on_part_Return call_Return_iff ret_def)
  from svc_ListBackend_first [OF mem.mgo_store_axioms list] r s' show ?thesis
    by (auto simp: world_view_backends split: sum.splits)
qed

interpretation world: gateway_contract "world_gateway base guard" world_view for base guard
proof
  fix req action s ok s'
  assume "gw_Authorize (world_gateway base guard) req action s = Return (ok, s')"
  then show "world_view s' = world_view s" by (auto simp: world_gateway_def)
next
  fix s t s'
  assume "ck_Now (st_clock (gw_stores (world_gateway base guard))) s = (t, s')"
  then show "world_view s' = world_view s" by (auto simp: world_gateway_def world_clock_def)
next
  fix n s b s'
  assume "gw_GetBucket (world_gateway base guard) n s = Return (Inr b, s')"
  then show "world_view s' = world_view s \<and> gv_bucket (world_view s) n = Some b"
    by (auto simp: world_gateway_def on_part_Return world_view_meta dest!: world_GetBucket)
next
  fix n s e s'
  assume "gw_GetBucket (world_gateway base guard) n s = Return (Inl e, s')"
  then show "world_view s' = world_view s"
    by (auto simp: world_gateway_def on_part_Return world_view_meta dest!: world_GetBucket)
next
  fix b k s x s'
  assume "gw_GetObject (world_gateway base guard) b k s = Return (Inr x, s')"
  then show "world_view s' = world_view s \<and> gv_meta (world_view s) b k = Some x"
    by (auto simp: world_gateway_def on_part_Return world_view_meta dest!: mem.svc_GetObject_result)
next
  fix b k s e s'
  assume "gw_GetObject (world_gateway base guard) b k s = Return (Inl e, s')"
  then show "world_view s' = world_view s"
    by (auto simp: world_gateway_def on_part_Return world_view_meta dest!: mem.svc_GetObject_result)
next
  fix x s m s'
  assume "gw_CreateObject (world_gateway base guard) x s = Return (Inr m, s')" and "obj_BucketName x \<noteq> BucketMD"
  then show "world_view s' = set_meta (obj_BucketName x) (obj_ObjectKey x) x (world_view s)"
    by (auto simp: world_gateway_def on_part_Return intro!: world_view_set_meta
        dest: mem.svc_CreateObject_result mem.svc_CreateObject_frame [of _ _ _ _ BucketMD])
next
  fix b k s m s'
  assume "gw_DeleteObject (world_gateway base guard) b k s = Return (Inr m, s')"
  then obtain p where "svc_DeleteObject mem_ops b k (wd_meta s) = Return (Inr m, p)" and s': "s' = s\<lparr>wd_meta := p\<rparr>"
    by (auto simp: world_gateway_def on_part_Return)
  from mem.svc_DeleteObject_frame [OF this(1)] s'
  show "\<exists>x. gv_meta (world_view s) b k = Some x \<and> (obj_BucketName x \<noteq> BucketMD \<longrightarrow>
      world_view s' = set_meta (obj_BucketName x) (obj_ObjectKey x) (x\<lparr>obj_IsDeleteMarker := ''1''\<rparr>) (world_view s))"
    by (auto intro!: world_view_set_meta)
next
  fix n s bs s'
  assume "gw_ListBackend (world_gateway base guard) MaxInt32 0 [(''name'', n)] s = Return (Inr bs, s')"
  then show "world_view s' = world_view s \<and> (bs \<noteq> [] \<longrightarrow> gv_backend (world_view s) n = Some (hd bs))"
    by (auto dest: world_ListBackend)
next
  fix n s e s'
  assume "gw_ListBackend (world_gateway base guard) MaxInt32 0 [(''name'', n)] s = Return (Inl e, s')"
  then show "world_view s' = world_view s" by (auto dest: world_ListBackend)
next
  fix c b k stream s u s'
  assume "sa_Upload (st_aws (gw_stores (world_gateway base guard))) c b k stream s = (Inr u, s')"
  then show "bd_end stream = None \<and> world_view s' = set_cloud (ss_Endpoint c, b) k (bd_content stream) (world_view s)"
    by (auto simp: world_gateway_def world_aws_def world_view_set_cloud split: if_splits)
qed (auto simp: world_gateway_def world_aws_def split: option.splits)

section \<open>Properties\<close>

text \<open>
  C2. What is put is what is read: when an upload is answered with success, a later read of the same
  path without a range that is answered with bytes returns exactly the body of the upload, as long as
  the world the interface sees has not changed in between. The backends are of type AWS.
\<close>

theorem put_get_roundtrip:
  assumes "gateway_contract gw view" and "only_aws (view s)"
    and "ObjectPut gw req s = Return ([ReplyMessage m], s1)" and "view t = view s1"
    and "ObjectGet gw req' t = Return ([ReplyBytes bs], t')"
    and "req_path req' = req_path req" and "HeaderParameter req' ''Range'' = []"
    and "PathParameter req ''bucketName'' \<noteq> BucketMD"
  shows "bs = bd_content (hr_body req)"
  using gateway_contract.put_then_get [OF assms(1,3,2,4-8)] .

definition sample_guard :: "string \<Rightarrow> Enforcer \<Rightarrow> request \<Rightarrow> string \<Rightarrow> (bool \<times> Context \<times> Enforcer) go" where
  "sample_guard = Authorize 0 ReduceFuncMap (\<lambda>_. None) (\<lambda>_. None) ''policy.json''"

definition sample_backend :: Backend where
  "sample_backend = \<lparr>be_Id = ''1'', be_TenantId = [], be_UserId = [], be_Name = ''aws1'', be_Type = ''aws-s3'',
     be_Region = ''r'', be_Endpoint = ''e'', be_BucketName = ''store'', be_Access = ''a'', be_Security = ''s''\<rparr>"

definition sample_gateway_world :: world where
  "sample_gateway_world = \<lparr>
     wd_meta = \<lparr>m_docs = [(BucketMD, [enc_Bucket (zero_Bucket\<lparr>bk_Name := ''b1'', bk_Backend := ''aws1''\<rparr>)])],
       m_clock = 0, m_ids = []\<rparr>,
     wd_backends = \<lparr>m_docs = [(backendCollection, [enc_Backend sample_backend])], m_clock = 0, m_ids = []\<rparr>,
     wd_cloud = [], wd_now = 0, wd_enforcer = RegisterRules (NewEnforcer False)\<rparr>"

definition sample_request :: "byte list \<Rightarrow> (string, string) gomap \<Rightarrow> http_request" where
  "sample_request bs query = \<lparr>req_attributes = [], req_path = [(''bucketName'', ''b1''), (''objectKey'', ''k1'')],
     req_token = [], hr_headers = [(''content-length'', ''3'')], hr_query = query, hr_body = whole bs,
     hr_ContentLength = 3\<rparr>"

lemma sample_only_aws: "only_aws (world_view sample_gateway_world)"
proof -
  have "be_Type b = ''aws-s3''" if "backend_of mem_docs (wd_backends sample_gateway_world) n = Some b" for n b
    using that by (auto simp: backend_of_def sample_gateway_world_def mem_docs_def dec_enc_Backend sample_backend_def
        split: if_splits)
  then show ?thesis by (simp add: only_aws_def)
qed

definition is_bytes :: "reply list \<Rightarrow> bool" where
  "is_bytes rs = (case rs of [ReplyBytes _] \<Rightarrow> True | _ \<Rightarrow> False)"

lemma is_bytes_iff: "is_bytes rs \<longleftrightarrow> (\<exists>bs. rs = [ReplyBytes bs])"
  by (auto simp: is_bytes_def split: list.splits reply.splits)

theorem put_get_roundtrip_witness:
  "\<forall>base. \<exists>s1 s2.
     ObjectPut (world_gateway base (sample_guard ''noauth'')) (sample_request [1, 2, 3] []) sample_gateway_world =
       Return ([ReplyMessage ''Create object successfully.''], s1) \<and>
     ObjectGet (world_gateway base (sample_guard ''noauth'')) (sample_request [] []) s1 =
       Return ([ReplyBytes [1, 2, 3]], s2)"
proof
  fix base
  let ?gw = "world_gateway base (sample_guard ''noauth'')"
  let ?put = "ObjectPut ?gw (sample_request [1, 2, 3] [])"
  let ?get = "ObjectGet ?gw (sample_request [] [])"
  have "case ?put sample_gateway_world of
      Return (r, s) \<Rightarrow> r = [ReplyMessage ''Create object successfully.''] \<and>
        (case ?get s of Return (r, _) \<Rightarrow> is_bytes r | _ \<Rightarrow> False)
    | _ \<Rightarrow> False" by code_simp
  from two_runs [where P = "\<lambda>r. r = _" and Q = is_bytes, OF this] obtain s1 bs s2
    where put: "?put sample_gateway_world = Return ([ReplyMessage ''Create object successfully.''], s1)"
      and got: "?get s1 = Return ([ReplyBytes bs], s2)"
    unfolding is_bytes_iff by blast
  have "bs = bd_content (hr_body (sample_request [1, 2, 3] []))"
    by (rule put_get_roundtrip [OF world.gateway_contract_axioms sample_only_aws put refl got])
      (simp_all add: sample_request_def HeaderParameter_def PathParameter_def BucketMD_def)
  then show "\<exists>s1 s2. ?put sample_gateway_world = Return ([ReplyMessage ''Create object successfully.''], s1) \<and>
      ?get s1 = Return ([ReplyBytes [1, 2, 3]], s2)"
    using put got by (auto simp: sample_request_def)
qed

text \<open>
  C27. A multipart upload that is begun and aborted loses the object that had its key: the stored
  content is untouched, but the metadata are those of a deleted object of size 0, whatever was there.
\<close>

theorem begun_upload_erases_object:
  assumes "gateway_contract gw view" and "only_aws (view s)"
    and "MultiPartUploadInit gw req s = Return ([ReplyInit mu], s1)" and "view t = view s1"
    and "gw_AbortMultipartUpload gw req' t = Return ([ReplyMessage m], t')"
    and "req_path req' = req_path req" and "PathParameter req ''bucketName'' \<noteq> BucketMD"
  shows "gv_cloud (view t') = gv_cloud (view s) \<and>
    (\<exists>x. gv_meta (view t') (PathParameter req ''bucketName'') (PathParameter req ''objectKey'') = Some x \<and>
       obj_IsDeleteMarker x = ''1'' \<and> obj_Size x = 0)"
  using gateway_contract.begin_then_abort [OF assms(1,3,2,4-6) refl refl assms(7)] by auto

definition stored_world :: world where
  "stored_world = sample_gateway_world\<lparr>
     wd_meta := mem_put ''b1'' [enc_Object (zero_Object\<lparr>obj_ObjectKey := ''k1'', obj_BucketName := ''b1'',
       obj_Backend := ''aws1'', obj_Size := 3\<rparr>)] (wd_meta sample_gateway_world),
     wd_cloud := [(((''e'', ''store''), ''b1/k1''), [1, 2, 3])]\<rparr>"

lemma stored_only_aws: "only_aws (world_view stored_world)"
  using sample_only_aws by (simp add: only_aws_def stored_world_def)

definition is_init :: "reply list \<Rightarrow> bool" where
  "is_init rs = (case rs of [ReplyInit _] \<Rightarrow> True | _ \<Rightarrow> False)"

lemma is_init_iff: "is_init rs \<longleftrightarrow> (\<exists>mu. rs = [ReplyInit mu])"
  by (auto simp: is_init_def split: list.splits reply.splits)

theorem begun_upload_erases_object_witness:
  "\<forall>base. \<exists>mu s1 s2 x.
     MultiPartUploadInit (world_gateway base (sample_guard ''noauth'')) (sample_request [] [(''uploads'', [])]) stored_world =
       Return ([ReplyInit mu], s1) \<and>
     gw_AbortMultipartUpload (world_gateway base (sample_guard ''noauth'')) (sample_request [] [(''uploadId'', ''upload'')]) s1 =
       Return ([ReplyMessage ''Delete object successfully.''], s2) \<and>
     meta_of mem_docs (wd_meta s2) ''b1'' ''k1'' = Some x \<and> obj_Size x = 0"
proof
  fix base
  let ?gw = "world_gateway base (sample_guard ''noauth'')"
  let ?start = "MultiPartUploadInit ?gw (sample_request [] [(''uploads'', [])])"
  let ?abort = "gw_AbortMultipartUpload ?gw (sample_request [] [(''uploadId'', ''upload'')])"
  have "case ?start stored_world of
      Return (r, s) \<Rightarrow> is_init r \<and>
        (case ?abort s of Return (r, _) \<Rightarrow> r = [ReplyMessage ''Delete object successfully.''] | _ \<Rightarrow> False)
    | _ \<Rightarrow> False" by code_simp
  from two_runs [where P = is_init and Q = "\<lambda>r. r = _", OF this] obtain mu s1 s2
    where begun: "?start stored_world = Return ([ReplyInit mu], s1)"
      and aborted: "?abort s1 = Return ([ReplyMessage ''Delete object successfully.''], s2)"
    unfolding is_init_iff by blast
  have "\<exists>x. gv_meta (world_view s2) ''b1'' ''k1'' = Some x \<and> obj_Size x = 0"
    using begun_upload_erases_object [OF world.gateway_contract_axioms stored_only_aws begun refl aborted]
    by (auto simp: sample_request_def PathParameter_def BucketMD_def)
  with begun aborted show "\<exists>mu s1 s2 x. ?start stored_world = Return ([ReplyInit mu], s1) \<and>
      ?abort s1 = Return ([ReplyMessage ''Delete object successfully.''], s2) \<and>
      meta_of mem_docs (wd_meta s2) ''b1'' ''k1'' = Some x \<and> obj_Size x = 0"
    by auto
qed

section \<open>Who is asked\<close>

lemma authorized_denied:
  assumes "gw_Authorize gw req action s = Return (False, s')"
  shows "authorized gw req action handler s = Return ([ReplyError 403 ''Operation is not permitted''], s')"
  using assms by (simp add: authorized_def call_def ret_def)

text \<open>What does not ask the policy is the same under another policy.\<close>

lemma unguarded_parts:
  "gw_stores (gw\<lparr>gw_Authorize := g\<rparr>) = gw_stores gw" "gw_GetBucket (gw\<lparr>gw_Authorize := g\<rparr>) = gw_GetBucket gw"
  "gw_GetObject (gw\<lparr>gw_Authorize := g\<rparr>) = gw_GetObject gw" "gw_DeleteObject (gw\<lparr>gw_Authorize := g\<rparr>) = gw_DeleteObject gw"
  "first_backend (gw\<lparr>gw_Authorize := g\<rparr>) = first_backend gw"
  by (simp_all add: first_backend_def [abs_def])

lemma unguarded:
  "ObjectGet (gw\<lparr>gw_Authorize := g\<rparr>) = ObjectGet gw"
  "gw_AbortMultipartUpload (gw\<lparr>gw_Authorize := g\<rparr>) = gw_AbortMultipartUpload gw"
  unfolding ObjectGet_def [abs_def] gw_AbortMultipartUpload_def [abs_def] upload_in_def [abs_def]
    getBackendByName_def [abs_def] getBackendClient_def [abs_def] unguarded_parts
  by (rule refl)+

text \<open>
  C15. The policy guards every route but two. When it refuses every action, each other request is
  answered with 403 and nothing else happens; but the reading of an object and the abort of an upload
  are the same whatever the policy says.
\<close>

theorem policy_guards_all_but_two_routes:
  assumes "s3_route gw meth segments = Some h"
    and "\<And>action. gw_Authorize gw req action s = Return (False, s')"
  shows "(if segments = 2 \<and> (meth = HGet \<or> meth = HDelete \<and> IsQuery req ''uploadId'')
          then h req = the (s3_route (gw\<lparr>gw_Authorize := g\<rparr>) meth segments) req
          else h req s = Return ([ReplyError 403 ''Operation is not permitted''], s'))"
proof -
  note denied = authorized_denied [OF assms(2)]
  show ?thesis
    using assms(1) unguarded [where gw = gw and g = g]
    by (auto simp: s3_route_def gw_list_buckets_def RouteBucketPut_def BucketGet_def BucketDelete_def
        RouteObjectPut_def RouteObjectDelete_def ObjectDelete_def denied numeral_2_eq_2
        split: http_method.splits nat.splits)
qed

theorem policy_guards_all_but_two_routes_witness:
  "\<forall>base. RouteObjectPut (world_gateway base (sample_guard ''keystone'')) (sample_request [] []) stored_world =
     Return ([ReplyError 403 ''Operation is not permitted''], stored_world)"
proof
  fix base
  let ?gw = "world_gateway base (sample_guard ''keystone'')"
  have "gw_Authorize ?gw (sample_request [] []) action stored_world = Return (False, stored_world)" for action
    by (simp add: world_gateway_def sample_guard_def Authorize_def Enforce_def LoadRules_def Let_def)
  from policy_guards_all_but_two_routes [OF _ this, of HPut 2 "RouteObjectPut ?gw"]
  show "RouteObjectPut ?gw (sample_request [] []) stored_world =
     Return ([ReplyError 403 ''Operation is not permitted''], stored_world)"
    by (simp add: s3_route_def numeral_2_eq_2)
qed

end
