(* ===== verification/Go_Json.thy ===== *)
theory Go_Json
  imports Go_Strings
begin

text \<open>
  JSON as Go's \<open>encoding/json\<close> writes and reads it. Strings are lists of bytes that are UTF-8 or not:
  a byte that is not part of a valid sequence is replaced by U+FFFD on both ways (\<open>to_utf8\<close>). The
  fuel of the parser is the length of the text: every call is made on a shorter text. What was
  written is read back, with its strings made valid (\<open>json_decode_text\<close>).
\<close>

section \<open>UTF-8\<close>

definition cont :: "char \<Rightarrow> bool" where
  "cont c = (128 \<le> code c \<and> code c < 192)"

text \<open>
  The length of the encoded rune at the start of a text, 0 when there is none: overlong sequences,
  surrogates and runes above U+10FFFF are not valid.
\<close>

fun rune_len :: "string \<Rightarrow> nat" where
  "rune_len [] = 0"
| "rune_len (a # s) =
     (if code a < 128 then 1
      else if 194 \<le> code a \<and> code a < 224 then
        (case s of b # _ \<Rightarrow> if cont b then 2 else 0 | _ \<Rightarrow> 0)
      else if 224 \<le> code a \<and> code a < 240 then
        (case s of
           b # c # _ \<Rightarrow>
             if cont b \<and> cont c \<and> (code a = 224 \<longrightarrow> 160 \<le> code b) \<and> (code a = 237 \<longrightarrow> code b < 160) then 3 else 0
         | _ \<Rightarrow> 0)
      else if 240 \<le> code a \<and> code a < 245 then
        (case s of
           b # c # d # _ \<Rightarrow>
             if cont b \<and> cont c \<and> cont d \<and> (code a = 240 \<longrightarrow> 144 \<le> code b) \<and> (code a = 244 \<longrightarrow> code b < 144) then 4 else 0
         | _ \<Rightarrow> 0)
      else 0)"

text \<open>U+FFFD, which stands for a byte that is not part of a valid sequence.\<close>

definition replacement :: string where
  "replacement = [CHR 0xEF, CHR 0xBF, CHR 0xBD]"

lemma rune_len_le: "rune_len s \<le> length s"
  by (induction s rule: rune_len.induct) (auto split: list.splits)

declare rune_len.simps [simp del]

text \<open>Induction along the runes of a text.\<close>

function to_utf8 :: "string \<Rightarrow> string" where
  "to_utf8 s =
     (case s of
        [] \<Rightarrow> []
      | c # cs \<Rightarrow> (if rune_len s = 0 then replacement @ to_utf8 cs
                  else take (rune_len s) s @ to_utf8 (drop (rune_len s) s)))"
  by auto
termination by (relation "measure length") auto

function is_utf8 :: "string \<Rightarrow> bool" where
  "is_utf8 s = (case s of [] \<Rightarrow> True | c # cs \<Rightarrow> (if rune_len s = 0 then False else is_utf8 (drop (rune_len s) s)))"
  by auto
termination by (relation "measure length") auto

declare to_utf8.simps [simp del] is_utf8.simps [simp del]

lemma to_utf8_eqs [simp]:
  "to_utf8 [] = []"
  "rune_len (c # cs) = 0 \<Longrightarrow> to_utf8 (c # cs) = replacement @ to_utf8 cs"
  "rune_len (c # cs) \<noteq> 0 \<Longrightarrow> to_utf8 (c # cs) = take (rune_len (c # cs)) (c # cs) @ to_utf8 (drop (rune_len (c # cs)) (c # cs))"
  by (subst to_utf8.simps, simp)+

lemma is_utf8_eqs [simp]:
  "is_utf8 []"
  "is_utf8 (c # cs) \<longleftrightarrow> rune_len (c # cs) \<noteq> 0 \<and> is_utf8 (drop (rune_len (c # cs)) (c # cs))"
  by (subst is_utf8.simps, simp)+

lemma to_utf8_valid: "is_utf8 s \<Longrightarrow> to_utf8 s = s"
proof (induction s rule: is_utf8.induct)
  case (1 s)
  then show ?case by (cases s) simp_all
qed

section \<open>Writing strings\<close>

definition hex_digit :: "nat \<Rightarrow> char" where
  "hex_digit n = char_of (if n < 10 then 48 + n else 87 + n)"

definition json_char :: "char \<Rightarrow> string" where
  "json_char c =
     (if c = CHR 0x22 then [CHR 0x5C, c]
      else if c = CHR 0x5C then [c, c]
      else if c = CHR 0x0A then [CHR 0x5C, CHR ''n'']
      else if c = CHR 0x0D then [CHR 0x5C, CHR ''r'']
      else if c = CHR 0x09 then [CHR 0x5C, CHR ''t'']
      else if code c < 32 \<or> c \<in> {CHR ''<'', CHR ''>'', CHR ''&''}
        then [CHR 0x5C, CHR ''u'', CHR ''0'', CHR ''0'', hex_digit (code c div 16), hex_digit (code c mod 16)]
      else [c])"

text \<open>A rune of more than one byte; U+2028 and U+2029 are escaped.\<close>

definition json_rune_text :: "string \<Rightarrow> string" where
  "json_rune_text u =
     (if length u = 1 then json_char (hd u)
      else if u = [CHR 0xE2, CHR 0x80, CHR 0xA8] then CHR 0x5C # ''u2028''
      else if u = [CHR 0xE2, CHR 0x80, CHR 0xA9] then CHR 0x5C # ''u2029''
      else u)"

function json_escape :: "string \<Rightarrow> string" where
  "json_escape s =
     (case s of
        [] \<Rightarrow> []
      | c # cs \<Rightarrow>
          (if rune_len s = 0 then (CHR 0x5C # ''ufffd'') @ json_escape cs
           else json_rune_text (take (rune_len s) s) @ json_escape (drop (rune_len s) s)))"
  by auto
termination by (relation "measure length") auto

declare json_escape.simps [simp del]

lemma json_escape_eqs [simp]:
  "json_escape [] = []"
  "rune_len (c # cs) = 0 \<Longrightarrow> json_escape (c # cs) = (CHR 0x5C # ''ufffd'') @ json_escape cs"
  "rune_len (c # cs) \<noteq> 0 \<Longrightarrow> json_escape (c # cs) =
     json_rune_text (take (rune_len (c # cs)) (c # cs)) @ json_escape (drop (rune_len (c # cs)) (c # cs))"
  by (subst json_escape.simps, simp)+

definition json_quote :: "string \<Rightarrow> string" where
  "json_quote s = CHR 0x22 # json_escape s @ [CHR 0x22]"

section \<open>Reading strings\<close>

definition hex_val :: "char \<Rightarrow> nat option" where
  "hex_val c =
     (let n = code c
      in if 48 \<le> n \<and> n \<le> 57 then Some (n - 48)
         else if 97 \<le> n \<and> n \<le> 102 then Some (n - 87)
         else if 65 \<le> n \<and> n \<le> 70 then Some (n - 55) else None)"

text \<open>The four digits of an escape at the start of a text, and what follows them.\<close>

definition u_escape :: "string \<Rightarrow> (nat \<times> string) option" where
  "u_escape s =
     (case s of
        b # u # h1 # h2 # h3 # h4 # rest \<Rightarrow>
          if b = CHR 0x5C \<and> u = CHR ''u'' then
            (case (hex_val h1, hex_val h2, hex_val h3, hex_val h4) of
               (Some a, Some b, Some c, Some d) \<Rightarrow> Some (4096 * a + 256 * b + 16 * c + d, rest)
             | _ \<Rightarrow> None)
          else None
      | _ \<Rightarrow> None)"

definition utf8 :: "nat \<Rightarrow> string" where
  "utf8 n =
     (if n < 128 then [char_of n]
      else if n < 2048 then [char_of (192 + n div 64), char_of (128 + n mod 64)]
      else if n < 65536 then [char_of (224 + n div 4096), char_of (128 + n div 64 mod 64), char_of (128 + n mod 64)]
      else [char_of (240 + n div 262144), char_of (128 + n div 4096 mod 64), char_of (128 + n div 64 mod 64),
            char_of (128 + n mod 64)])"

definition surrogate :: "nat \<Rightarrow> bool" where "surrogate n = (0xD800 \<le> n \<and> n < 0xE000)"

definition decode_pair :: "nat \<Rightarrow> nat \<Rightarrow> nat option" where
  "decode_pair hi lo =
     (if 0xD800 \<le> hi \<and> hi < 0xDC00 \<and> 0xDC00 \<le> lo \<and> lo < 0xE000
      then Some ((hi - 0xD800) * 1024 + (lo - 0xDC00) + 0x10000) else None)"

definition unescape :: "char \<Rightarrow> char option" where
  "unescape c =
     (if c \<in> {CHR 0x22, CHR 0x5C, CHR ''/''} then Some c
      else if c = CHR ''b'' then Some (CHR 0x08)
      else if c = CHR ''f'' then Some (CHR 0x0C)
      else if c = CHR ''n'' then Some (CHR 0x0A)
      else if c = CHR ''r'' then Some (CHR 0x0D)
      else if c = CHR ''t'' then Some (CHR 0x09) else None)"

text \<open>The rune at the start of a text, its end quote excluded, and what follows it.\<close>

definition json_rune :: "string \<Rightarrow> (string \<times> string) option" where
  "json_rune s =
     (case s of
        [] \<Rightarrow> None
      | c # cs \<Rightarrow>
          if c = CHR 0x5C then
            (case u_escape s of
               Some (n, rest) \<Rightarrow>
                 (if surrogate n then
                    (case u_escape rest of
                       Some (m, rest2) \<Rightarrow>
                         (case decode_pair n m of Some k \<Rightarrow> Some (utf8 k, rest2) | None \<Rightarrow> Some (utf8 0xFFFD, rest))
                     | None \<Rightarrow> Some (utf8 0xFFFD, rest))
                  else Some (utf8 n, rest))
             | None \<Rightarrow>
                 (case cs of
                    [] \<Rightarrow> None
                  | e # rest \<Rightarrow> map_option (\<lambda>d. ([d], rest)) (unescape e)))
          else if code c < 32 then None
          else (let n = rune_len s
                in if n = 0 then Some (replacement, cs) else Some (take n s, drop n s)))"

lemma u_escape_shorter: "u_escape s = Some (n, rest) \<Longrightarrow> length rest < length s"
  by (auto simp: u_escape_def split: list.splits if_splits option.splits)

lemma json_rune_shorter: "json_rune s = Some (t, rest) \<Longrightarrow> length rest < length s"
  by (auto simp: json_rune_def Let_def split: list.splits if_splits option.splits dest!: u_escape_shorter)

function json_chars :: "string \<Rightarrow> (string \<times> string) option" where
  "json_chars s =
     (case s of
        [] \<Rightarrow> None
      | c # cs \<Rightarrow>
          if c = CHR 0x22 then Some ([], cs)
          else (case json_rune s of
                  None \<Rightarrow> None
                | Some (t, rest) \<Rightarrow> map_option (\<lambda>(u, r). (t @ u, r)) (json_chars rest)))"
  by auto
termination by (relation "measure length") (auto dest: json_rune_shorter)

declare json_chars.simps [simp del]

section \<open>Reading values\<close>

datatype json =
    JNull
  | JBool bool
  | JNum string
  | JStr string
  | JArr "json list"
  | JObj "(string \<times> json) list"

definition skip_space :: "string \<Rightarrow> string" where
  "skip_space s = dropWhile (\<lambda>c. c \<in> {CHR '' '', CHR 0x09, CHR 0x0A, CHR 0x0D}) s"

definition some_digits :: "string \<Rightarrow> string option" where
  "some_digits s = (if s \<noteq> [] \<and> is_digit (hd s) then Some (dropWhile is_digit s) else None)"

definition json_fraction :: "string \<Rightarrow> string option" where
  "json_fraction s = (case s of c # cs \<Rightarrow> if c = CHR ''.'' then some_digits cs else Some s | [] \<Rightarrow> Some s)"

definition json_exponent :: "string \<Rightarrow> string option" where
  "json_exponent s =
     (case s of
        c # cs \<Rightarrow>
          if c \<in> {CHR ''e'', CHR ''E''} then
            (case cs of
               d # ds \<Rightarrow> if d \<in> {CHR ''+'', CHR ''-''} then some_digits ds else some_digits cs
             | [] \<Rightarrow> None)
          else Some s
      | [] \<Rightarrow> Some s)"

definition json_number :: "string \<Rightarrow> (json \<times> string) option" where
  "json_number s =
     (let body = (case s of c # cs \<Rightarrow> if c = CHR ''-'' then cs else s | [] \<Rightarrow> s);
          whole = (case body of c # cs \<Rightarrow> if c = CHR ''0'' then Some cs else some_digits body | [] \<Rightarrow> None)
      in case Option.bind (Option.bind whole json_fraction) json_exponent of
           None \<Rightarrow> None
         | Some rest \<Rightarrow> Some (JNum (take (length s - length rest) s), rest))"

fun json_value :: "nat \<Rightarrow> string \<Rightarrow> (json \<times> string) option"
  and json_members :: "nat \<Rightarrow> string \<Rightarrow> ((string \<times> json) list \<times> string) option"
  and json_elements :: "nat \<Rightarrow> string \<Rightarrow> (json list \<times> string) option" where
  "json_value 0 s = None"
| "json_value (Suc n) s =
     (case skip_space s of
        [] \<Rightarrow> None
      | c # cs \<Rightarrow>
          if c = CHR 0x22 then map_option (\<lambda>(t, r). (JStr t, r)) (json_chars cs)
          else if c = CHR ''{'' then
            (case skip_space cs of
               [] \<Rightarrow> None
             | d # ds \<Rightarrow> if d = CHR ''}'' then Some (JObj [], ds)
                         else map_option (\<lambda>(ms, r). (JObj ms, r)) (json_members n cs))
          else if c = CHR ''['' then
            (case skip_space cs of
               [] \<Rightarrow> None
             | d # ds \<Rightarrow> if d = CHR '']'' then Some (JArr [], ds)
                         else map_option (\<lambda>(vs, r). (JArr vs, r)) (json_elements n cs))
          else if HasPrefix (c # cs) ''true'' then Some (JBool True, drop 3 cs)
          else if HasPrefix (c # cs) ''false'' then Some (JBool False, drop 4 cs)
          else if HasPrefix (c # cs) ''null'' then Some (JNull, drop 3 cs)
          else json_number (c # cs))"
| "json_members 0 s = None"
| "json_members (Suc n) s =
     (case skip_space s of
        [] \<Rightarrow> None
      | q # cs \<Rightarrow>
          if q \<noteq> CHR 0x22 then None
          else Option.bind (json_chars cs) (\<lambda>(k, r).
            case skip_space r of
              [] \<Rightarrow> None
            | c # r \<Rightarrow>
                if c \<noteq> CHR '':'' then None
                else Option.bind (json_value n r) (\<lambda>(v, r).
                  case skip_space r of
                    [] \<Rightarrow> None
                  | d # r \<Rightarrow>
                      if d = CHR ''}'' then Some ([(k, v)], r)
                      else if d = CHR '','' then map_option (\<lambda>(ms, r). ((k, v) # ms, r)) (json_members n r)
                      else None)))"
| "json_elements 0 s = None"
| "json_elements (Suc n) s =
     Option.bind (json_value n s) (\<lambda>(v, r).
       case skip_space r of
         [] \<Rightarrow> None
       | d # r \<Rightarrow>
           if d = CHR '']'' then Some ([v], r)
           else if d = CHR '','' then map_option (\<lambda>(vs, r). (v # vs, r)) (json_elements n r)
           else None)"

definition json_decode :: "string \<Rightarrow> json option" where
  "json_decode s =
     (case json_value (Suc (length s)) s of
        Some (v, r) \<Rightarrow> if skip_space r = [] then Some v else None
      | None \<Rightarrow> None)"

section \<open>Strings are read back\<close>

lemma code_less [simp]: "code c < 256"
  by (simp add: code_def)

lemma code_char_of: "n < 256 \<Longrightarrow> code (char_of n) = n"
  by (simp add: code_def)

lemma char_of_code [simp]: "char_of (code c) = c"
  by (simp add: code_def)

lemma hex_digit_val: "n < 16 \<Longrightarrow> hex_val (hex_digit n) = Some n"
  by (simp add: hex_val_def hex_digit_def code_char_of)

lemma rune_len_ascii: "code c < 128 \<Longrightarrow> rune_len (c # cs) = 1"
  by (simp add: rune_len.simps)

lemma rune_len_multi: "\<not> code c < 128 \<Longrightarrow> rune_len (c # cs) \<noteq> 1"
  by (auto simp: rune_len.simps split: list.splits)

lemma rune_len_prefix: "rune_len s \<noteq> 0 \<Longrightarrow> rune_len (take (rune_len s) s @ r) = rune_len s"
proof (cases s)
  case (Cons a t)
  assume "rune_len s \<noteq> 0"
  with Cons show ?thesis
    by (auto simp: rune_len.simps split: list.splits if_splits)
qed (simp add: rune_len.simps)

text \<open>An escaped character is read back and the reader stops right behind it.\<close>

lemma json_rune_char:
  assumes "code c < 128"
  shows "json_rune (json_char c @ r) = Some ([c], r)"
proof -
  have special: "\<not> surrogate (code c)" using assms by (simp add: surrogate_def)
  have html: "code (CHR ''<'') = 60" "code (CHR ''>'') = 62" "code (CHR ''&'') = 38" by (simp_all add: code_def)
  have zero: "hex_val (CHR ''0'') = Some 0" by (simp add: hex_val_def code_def)
  consider (escaped) "code c < 32 \<or> c \<in> {CHR ''<'', CHR ''>'', CHR ''&''}"
      "c \<notin> {CHR 0x22, CHR 0x5C, CHR 0x0A, CHR 0x0D, CHR 0x09}"
    | (short) "c \<in> {CHR 0x22, CHR 0x5C, CHR 0x0A, CHR 0x0D, CHR 0x09}"
    | (plain) "c \<notin> {CHR 0x22, CHR 0x5C, CHR 0x0A, CHR 0x0D, CHR 0x09, CHR ''<'', CHR ''>'', CHR ''&''}" "\<not> code c < 32"
    by blast
  then show ?thesis
  proof cases
    case escaped
    have char: "json_char c = [CHR 0x5C, CHR ''u'', CHR ''0'', CHR ''0'', hex_digit (code c div 16), hex_digit (code c mod 16)]"
      using escaped by (simp add: json_char_def)
    have "u_escape (json_char c @ r) = Some (code c, r)"
      using assms unfolding char by (simp add: u_escape_def zero hex_digit_val)
    then show ?thesis using assms special by (simp add: json_rune_def char utf8_def)
  next
    case short
    then show ?thesis by (auto simp: json_char_def json_rune_def u_escape_def unescape_def split: list.splits)
  next
    case plain
    with assms show ?thesis by (simp add: json_char_def json_rune_def rune_len_ascii Let_def)
  qed
qed

lemma json_rune_escape:
  "u_escape (CHR 0x5C # t) = Some (n, r) \<Longrightarrow> \<not> surrogate n \<Longrightarrow> json_rune (CHR 0x5C # t) = Some (utf8 n, r)"
  by (simp add: json_rune_def)

lemma json_rune_separators:
  "json_rune (CHR 0x5C # CHR ''u'' # CHR ''2'' # CHR ''0'' # CHR ''2'' # CHR ''8'' # r) = Some ([CHR 0xE2, CHR 0x80, CHR 0xA8], r)"
  "json_rune (CHR 0x5C # CHR ''u'' # CHR ''2'' # CHR ''0'' # CHR ''2'' # CHR ''9'' # r) = Some ([CHR 0xE2, CHR 0x80, CHR 0xA9], r)"
  "json_rune (CHR 0x5C # CHR ''u'' # CHR ''f'' # CHR ''f'' # CHR ''f'' # CHR ''d'' # r) = Some (replacement, r)"
proof -
  have e: "u_escape (CHR 0x5C # CHR ''u'' # CHR ''2'' # CHR ''0'' # CHR ''2'' # CHR ''8'' # r) = Some (0x2028, r)"
    "u_escape (CHR 0x5C # CHR ''u'' # CHR ''2'' # CHR ''0'' # CHR ''2'' # CHR ''9'' # r) = Some (0x2029, r)"
    "u_escape (CHR 0x5C # CHR ''u'' # CHR ''f'' # CHR ''f'' # CHR ''f'' # CHR ''d'' # r) = Some (0xFFFD, r)"
    by (simp_all add: u_escape_def hex_val_def code_def)
  have "char_of (226 :: nat) = CHR 0xE2" "char_of (128 :: nat) = CHR 0x80" "char_of (168 :: nat) = CHR 0xA8"
    "char_of (169 :: nat) = CHR 0xA9" "char_of (239 :: nat) = CHR 0xEF" "char_of (191 :: nat) = CHR 0xBF"
    "char_of (189 :: nat) = CHR 0xBD" by code_simp+
  then have v: "utf8 0x2028 = [CHR 0xE2, CHR 0x80, CHR 0xA8]" "utf8 0x2029 = [CHR 0xE2, CHR 0x80, CHR 0xA9]"
    "utf8 0xFFFD = replacement" "\<not> surrogate 0x2028" "\<not> surrogate 0x2029" "\<not> surrogate 0xFFFD"
    by (simp_all add: utf8_def surrogate_def replacement_def)
  show
    "json_rune (CHR 0x5C # CHR ''u'' # CHR ''2'' # CHR ''0'' # CHR ''2'' # CHR ''8'' # r) = Some ([CHR 0xE2, CHR 0x80, CHR 0xA8], r)"
    "json_rune (CHR 0x5C # CHR ''u'' # CHR ''2'' # CHR ''0'' # CHR ''2'' # CHR ''9'' # r) = Some ([CHR 0xE2, CHR 0x80, CHR 0xA9], r)"
    "json_rune (CHR 0x5C # CHR ''u'' # CHR ''f'' # CHR ''f'' # CHR ''f'' # CHR ''d'' # r) = Some (replacement, r)"
    by (simp_all only: json_rune_escape [OF e(1) v(4)] json_rune_escape [OF e(2) v(5)]
        json_rune_escape [OF e(3) v(6)] v(1-3))
qed

lemma json_rune_text_read:
  assumes "rune_len s \<noteq> 0"
  shows "json_rune (json_rune_text (take (rune_len s) s) @ r) = Some (take (rune_len s) s, r)"
proof (cases s)
  case (Cons c cs)
  let ?u = "take (rune_len s) s"
  have len: "length ?u = rune_len s" using rune_len_le [of s] by simp
  show ?thesis
  proof (cases "code c < 128")
    case True
    with Cons show ?thesis by (simp add: rune_len_ascii json_rune_text_def json_rune_char)
  next
    case False
    obtain u where u: "?u = c # u" using assms Cons by (cases "rune_len s") auto
    have n: "rune_len s \<noteq> 1" using False Cons rune_len_multi by simp
    show ?thesis
    proof (cases "?u = [CHR 0xE2, CHR 0x80, CHR 0xA8] \<or> ?u = [CHR 0xE2, CHR 0x80, CHR 0xA9]")
      case True
      then show ?thesis by (elim disjE) (simp_all add: json_rune_text_def json_rune_separators)
    next
      case separate: False
      with n len have plain: "json_rune_text ?u = ?u" by (simp add: json_rune_text_def)
      have "c \<noteq> CHR 0x5C" "\<not> code c < 32" using False by (auto simp: code_def)
      moreover have "rune_len (?u @ r) = rune_len s" using assms by (rule rune_len_prefix)
      ultimately have "json_rune (c # u @ r) = Some (take (rune_len s) (?u @ r), drop (rune_len s) (?u @ r))"
        using assms u by (simp add: json_rune_def Let_def)
      moreover have "take (rune_len s) (?u @ r) = ?u" "drop (rune_len s) (?u @ r) = r" using len by simp_all
      ultimately show ?thesis unfolding plain using u by simp
    qed
  qed
qed (use assms in \<open>simp add: rune_len.simps\<close>)

lemma json_rune_text_no_quote: "u \<noteq> [] \<Longrightarrow> hd u \<noteq> CHR 0x22 \<or> length u = 1 \<Longrightarrow> \<exists>d ds. json_rune_text u = d # ds \<and> d \<noteq> CHR 0x22"
  by (cases u) (auto simp: json_rune_text_def json_char_def)

lemma first_rune_no_quote: "rune_len s \<noteq> 0 \<Longrightarrow> \<exists>d ds. json_rune_text (take (rune_len s) s) = d # ds \<and> d \<noteq> CHR 0x22"
proof (cases s)
  case (Cons c cs)
  assume n: "rune_len s \<noteq> 0"
  have "code (CHR 0x22) = 34" by (simp add: code_def)
  then have "c \<noteq> CHR 0x22 \<or> rune_len s = 1" using Cons rune_len_ascii by auto
  with Cons n show ?thesis by (intro json_rune_text_no_quote) (cases "rune_len s"; auto)+
qed (simp add: rune_len.simps)

lemma json_chars_quoted: "json_chars (json_escape s @ CHR 0x22 # r) = Some (to_utf8 s, r)"
proof (induction s rule: json_escape.induct)
  case (1 s)
  show ?case
  proof (cases s)
    case Nil
    then show ?thesis by (simp add: json_chars.simps)
  next
    case (Cons c cs)
    show ?thesis
    proof (cases "rune_len s = 0")
      case True
      let ?tail = "json_escape cs @ CHR 0x22 # r"
      from 1(1) [OF Cons True] have IH: "json_chars ?tail = Some (to_utf8 cs, r)" .
      show ?thesis using True Cons IH json_rune_separators(3) [of ?tail]
        by (subst json_chars.simps) simp
    next
      case False
      let ?n = "rune_len s"
      let ?rest = "json_escape (drop ?n s) @ CHR 0x22 # r"
      from 1(2) [OF Cons False] have IH: "json_chars ?rest = Some (to_utf8 (drop ?n s), r)" .
      obtain d ds where d: "json_rune_text (take ?n s) = d # ds" "d \<noteq> CHR 0x22"
        using first_rune_no_quote [OF False] by blast
      have parts: "json_escape s = d # ds @ json_escape (drop ?n s)" "to_utf8 s = take ?n s @ to_utf8 (drop ?n s)"
        using False Cons d by simp_all
      have "json_rune (d # ds @ ?rest) = Some (take ?n s, ?rest)" using json_rune_text_read [OF False, of ?rest] d by simp
      then show ?thesis unfolding parts using d(2) IH by (subst json_chars.simps) simp
    qed
  qed
qed

section \<open>Writing values\<close>

fun json_text :: "json \<Rightarrow> string"
  and elements_text :: "json list \<Rightarrow> string"
  and members_text :: "(string \<times> json) list \<Rightarrow> string" where
  "json_text JNull = ''null''"
| "json_text (JBool b) = (if b then ''true'' else ''false'')"
| "json_text (JNum t) = t"
| "json_text (JStr s) = json_quote s"
| "json_text (JArr vs) = CHR ''['' # elements_text vs"
| "json_text (JObj ms) = CHR ''{'' # members_text ms"
| "elements_text [] = '']''"
| "elements_text [v] = json_text v @ '']''"
| "elements_text (v # w # vs) = json_text v @ CHR '','' # elements_text (w # vs)"
| "members_text [] = ''}''"
| "members_text [(k, v)] = json_quote k @ CHR '':'' # json_text v @ ''}''"
| "members_text ((k, v) # m # ms) = json_quote k @ CHR '':'' # json_text v @ CHR '','' # members_text (m # ms)"

text \<open>A value without numbers, and what is left of its strings after writing.\<close>

fun no_numbers :: "json \<Rightarrow> bool" where
  "no_numbers (JNum t) = False"
| "no_numbers (JArr vs) = list_all no_numbers vs"
| "no_numbers (JObj ms) = list_all (\<lambda>(k, v). no_numbers v) ms"
| "no_numbers _ = True"

fun json_utf8 :: "json \<Rightarrow> json" where
  "json_utf8 (JStr s) = JStr (to_utf8 s)"
| "json_utf8 (JArr vs) = JArr (map json_utf8 vs)"
| "json_utf8 (JObj ms) = JObj (map (\<lambda>(k, v). (to_utf8 k, json_utf8 v)) ms)"
| "json_utf8 v = v"

section \<open>Values are read back\<close>

lemma json_quote_append: "json_quote s @ r = CHR 0x22 # json_escape s @ CHR 0x22 # r"
  by (simp add: json_quote_def)

lemma json_text_first: "no_numbers v \<Longrightarrow> \<exists>c cs. json_text v = c # cs \<and> c \<notin> {CHR '' '', CHR 0x09, CHR 0x0A, CHR 0x0D, CHR '']''}"
  by (cases v) (auto simp: json_quote_def)

lemma skip_space_char: "c \<notin> {CHR '' '', CHR 0x09, CHR 0x0A, CHR 0x0D} \<Longrightarrow> skip_space (c # cs) = c # cs"
  by (simp add: skip_space_def)

lemma elements_first:
  assumes "no_numbers v" and "vs \<noteq> []" and "hd vs = v"
  shows "\<exists>c cs. skip_space (elements_text vs @ r) = c # cs \<and> elements_text vs @ r = c # cs \<and> c \<noteq> CHR '']''"
proof -
  obtain w ws where vs: "vs = w # ws" using assms(2) by (cases vs) auto
  obtain c cs where "json_text w = c # cs" "c \<notin> {CHR '' '', CHR 0x09, CHR 0x0A, CHR 0x0D, CHR '']''}"
    using json_text_first assms vs by force
  then show ?thesis unfolding vs by (cases ws) (auto simp: skip_space_char)
qed

lemma members_first:
  assumes "ms \<noteq> []"
  shows "\<exists>cs. members_text ms @ r = CHR 0x22 # cs \<and> skip_space (members_text ms @ r) = CHR 0x22 # cs"
proof -
  obtain k v ns where "ms = (k, v) # ns" using assms by (cases ms) auto
  then show ?thesis by (cases ns) (auto simp: json_quote_def skip_space_char)
qed

lemma json_text_read:
  "no_numbers v \<Longrightarrow> length (json_text v) < n \<Longrightarrow> json_value n (json_text v @ r) = Some (json_utf8 v, r)"
  "list_all no_numbers vs \<Longrightarrow> vs \<noteq> [] \<Longrightarrow> length (elements_text vs) < n \<Longrightarrow>
     json_elements n (elements_text vs @ r) = Some (map json_utf8 vs, r)"
  "list_all (\<lambda>(k, v). no_numbers v) ms \<Longrightarrow> ms \<noteq> [] \<Longrightarrow> length (members_text ms) < n \<Longrightarrow>
     json_members n (members_text ms @ r) = Some (map (\<lambda>(k, v). (to_utf8 k, json_utf8 v)) ms, r)"
proof (induction v and vs and ms arbitrary: n r and n r and n r rule: json_text_elements_text_members_text.induct)
  case 1
  then obtain m where "n = Suc m" by (cases n) auto
  then show ?case by (simp add: skip_space_char HasPrefix_def)
next
  case (2 b)
  then obtain m where "n = Suc m" by (cases n) auto
  then show ?case by (simp add: skip_space_char HasPrefix_def)
next
  case (4 s)
  then obtain m where "n = Suc m" by (cases n) auto
  then show ?case by (simp add: json_quote_append skip_space_char json_chars_quoted)
next
  case (5 vs)
  then obtain m where n: "n = Suc m" by (cases n) auto
  show ?case
  proof (cases vs)
    case Nil
    then show ?thesis using n by (simp add: skip_space_char)
  next
    case (Cons w ws)
    with 5 have "\<exists>c cs. skip_space (elements_text vs @ r) = c # cs \<and> elements_text vs @ r = c # cs \<and> c \<noteq> CHR '']''"
      by (intro elements_first [where v = w]) auto
    moreover have "json_elements m (elements_text vs @ r) = Some (map json_utf8 vs, r)"
      using 5 n Cons by simp
    ultimately show ?thesis using n by (auto simp: skip_space_char)
  qed
next
  case (6 ms)
  then obtain m where n: "n = Suc m" by (cases n) auto
  show ?case
  proof (cases ms)
    case Nil
    then show ?thesis using n by (simp add: skip_space_char)
  next
    case (Cons w ws)
    with members_first [of ms r] obtain cs where "skip_space (members_text ms @ r) = CHR 0x22 # cs"
      "members_text ms @ r = CHR 0x22 # cs" by auto
    moreover have "json_members m (members_text ms @ r) = Some (map (\<lambda>(k, v). (to_utf8 k, json_utf8 v)) ms, r)"
      using 6 n Cons by simp
    ultimately show ?thesis using n by (auto simp: skip_space_char)
  qed
next
  case (8 v)
  then obtain m where n: "n = Suc m" by (cases n) auto
  with 8 have "json_value m (json_text v @ CHR '']'' # r) = Some (json_utf8 v, CHR '']'' # r)" by simp
  with n show ?case by (simp add: skip_space_char)
next
  case (9 v w vs)
  then obtain m where n: "n = Suc m" by (cases n) auto
  let ?rest = "elements_text (w # vs) @ r"
  have "json_value m (json_text v @ CHR '','' # ?rest) = Some (json_utf8 v, CHR '','' # ?rest)"
    "json_elements m ?rest = Some (map json_utf8 (w # vs), r)"
    using 9 n by simp_all
  with n show ?case by (simp add: skip_space_char)
next
  case (11 k v)
  then obtain m where n: "n = Suc m" by (cases n) auto
  with 11 have "json_value m (json_text v @ CHR ''}'' # r) = Some (json_utf8 v, CHR ''}'' # r)" by simp
  with n show ?case by (simp add: json_quote_append skip_space_char json_chars_quoted)
next
  case (12 k v m ms)
  then obtain l where n: "n = Suc l" by (cases n) auto
  let ?rest = "members_text (m # ms) @ r"
  have "json_value l (json_text v @ CHR '','' # ?rest) = Some (json_utf8 v, CHR '','' # ?rest)"
    "json_members l ?rest = Some (map (\<lambda>(k, v). (to_utf8 k, json_utf8 v)) (m # ms), r)"
    using 12 n by simp_all
  with n show ?case by (simp add: json_quote_append skip_space_char json_chars_quoted)
qed simp_all

lemma json_decode_text: "no_numbers v \<Longrightarrow> json_decode (json_text v) = Some (json_utf8 v)"
  using json_text_read(1) [of v "Suc (length (json_text v))" "[]"] by (simp add: json_decode_def skip_space_def)

end
