(* ===== verification/Context_Json.thy ===== *)
theory Context_Json
  imports Go_Json Api_Context
begin

text \<open>
  The context of the filters as JSON text (\<open>ToJson\<close> and \<open>NewContextFromJson\<close> of
  \<open>api/pkg/filters/context/context.go\<close>), which is how the gateway passes it to the dataflow service.
  The decoded context is the encoded one with its strings made valid UTF-8.
\<close>

definition context_json :: "FilterContext \<Rightarrow> json" where
  "context_json ctx = JObj [(''tenantId'', JStr (fc_TenantId ctx)), (''isAdmin'', JBool (fc_IsAdmin ctx)),
     (''userId'', JStr (fc_UserId ctx))]"

definition ToJson :: "FilterContext \<Rightarrow> string" where
  "ToJson ctx = json_text (context_json ctx)"

definition zero_FilterContext :: FilterContext where
  "zero_FilterContext = \<lparr>fc_TenantId = [], fc_IsAdmin = False, fc_UserId = []\<rparr>"

text \<open>
  Names of members are compared without regard to the case of ASCII letters; a value of another type
  is left out, and the error that reports it is only logged.
\<close>

definition set_member :: "FilterContext \<Rightarrow> string \<times> json \<Rightarrow> FilterContext" where
  "set_member ctx m =
     (let k = ToLower (fst m)
      in if k = ToLower ''tenantId'' then (case snd m of JStr t \<Rightarrow> ctx\<lparr>fc_TenantId := t\<rparr> | _ \<Rightarrow> ctx)
         else if k = ToLower ''isAdmin'' then (case snd m of JBool b \<Rightarrow> ctx\<lparr>fc_IsAdmin := b\<rparr> | _ \<Rightarrow> ctx)
         else if k = ToLower ''userId'' then (case snd m of JStr t \<Rightarrow> ctx\<lparr>fc_UserId := t\<rparr> | _ \<Rightarrow> ctx)
         else ctx)"

definition NewContextFromJson :: "string \<Rightarrow> FilterContext" where
  "NewContextFromJson s =
     (case json_decode s of
        Some (JObj ms) \<Rightarrow> foldl set_member zero_FilterContext ms
      | _ \<Rightarrow> zero_FilterContext)"

section \<open>Round trip\<close>

definition utf8_context :: "FilterContext \<Rightarrow> FilterContext" where
  "utf8_context ctx = ctx\<lparr>fc_TenantId := to_utf8 (fc_TenantId ctx), fc_UserId := to_utf8 (fc_UserId ctx)\<rparr>"

lemma decoded_context: "NewContextFromJson (ToJson ctx) = utf8_context ctx"
proof -
  have names: "to_utf8 ''tenantId'' = ''tenantId''" "to_utf8 ''isAdmin'' = ''isAdmin''" "to_utf8 ''userId'' = ''userId''"
    by code_simp+
  have lower: "ToLower ''isAdmin'' \<noteq> ToLower ''tenantId''" "ToLower ''userId'' \<noteq> ToLower ''tenantId''"
      "ToLower ''userId'' \<noteq> ToLower ''isAdmin''" by code_simp+
  have "json_decode (ToJson ctx) = Some (JObj [(''tenantId'', JStr (to_utf8 (fc_TenantId ctx))),
      (''isAdmin'', JBool (fc_IsAdmin ctx)), (''userId'', JStr (to_utf8 (fc_UserId ctx)))])"
    using json_decode_text [of "context_json ctx"]
    by (simp add: ToJson_def context_json_def names del: to_utf8_eqs json_text.simps)
  with lower show ?thesis
    by (simp add: NewContextFromJson_def set_member_def zero_FilterContext_def utf8_context_def)
qed

text \<open>
  C35. The context survives the way from the gateway to the dataflow service. Decoding the JSON text of
  a context gives the context back: the flag of an administrator is the one that was encoded, whatever
  quotes, backslashes and control characters the tenant and the user have, and the tenant and the user are
  the same up to bytes that are not UTF-8, which are replaced; so the context is the same if it has none.
\<close>

theorem context_json_roundtrip:
  "fc_IsAdmin (NewContextFromJson (ToJson ctx)) = fc_IsAdmin ctx \<and>
   fc_TenantId (NewContextFromJson (ToJson ctx)) = to_utf8 (fc_TenantId ctx) \<and>
   fc_UserId (NewContextFromJson (ToJson ctx)) = to_utf8 (fc_UserId ctx) \<and>
   (is_utf8 (fc_TenantId ctx) \<and> is_utf8 (fc_UserId ctx) \<longrightarrow> NewContextFromJson (ToJson ctx) = ctx)"
  by (simp add: decoded_context utf8_context_def to_utf8_valid)

theorem context_json_roundtrip_witness:
  "NewContextFromJson (ToJson \<lparr>fc_TenantId = [CHR 0x22, CHR 0x5C, CHR 0xC3, CHR 0xA9], fc_IsAdmin = True, fc_UserId = ''<u>''\<rparr>) =
     \<lparr>fc_TenantId = [CHR 0x22, CHR 0x5C, CHR 0xC3, CHR 0xA9], fc_IsAdmin = True, fc_UserId = ''<u>''\<rparr>"
proof -
  have "is_utf8 [CHR 0x22, CHR 0x5C, CHR 0xC3, CHR 0xA9]" "is_utf8 ''<u>''" by code_simp+
  then show ?thesis
    using context_json_roundtrip [of "\<lparr>fc_TenantId = [CHR 0x22, CHR 0x5C, CHR 0xC3, CHR 0xA9], fc_IsAdmin = True, fc_UserId = ''<u>''\<rparr>"]
    by simp
qed

end
