(* ===== verification/Dataflow_Service.thy ===== *)
theory Dataflow_Service
  imports Dataflow_Plan Context_Json
begin

text \<open>
  The server of the dataflow service (\<open>dataflow/pkg/service.go\<close>): its messages, their conversion to
  and from the structs of the model, and the twelve handlers. A handler returns the response it has
  filled in and its error; the client of a call sees the response only when there is no error
  (\<open>rpc\<close>). A sub-message is an option, nil when it is absent. Decoding the JSON of an update
  is in the record \<open>df_server\<close>, with the database, the validity of a schedule and the text of the driver's errors.
\<close>

section \<open>Messages\<close>

record PolicyMsg =
  pm_Id :: string
  pm_Name :: string
  pm_Tenant :: string
  pm_Description :: string
  pm_Schedule :: "Schedule option"

record PlanMsg =
  plm_Id :: string
  plm_Name :: string
  plm_Description :: string
  plm_Type :: string
  plm_PolicyId :: string
  plm_PolicyName :: string
  plm_SourceConn :: "Connector option"
  plm_DestConn :: "Connector option"
  plm_Filter :: "PlanFilter option"
  plm_RemainSource :: bool
  plm_TenantId :: string
  plm_UserId :: string
  plm_PolicyEnabled :: bool
  plm_Asist :: "AsistInfo option"

record JobMsg =
  jm_Id :: string
  jm_Type :: string
  jm_PlanName :: string
  jm_PlanId :: string
  jm_Description :: string
  jm_SourceLocation :: string
  jm_DestLocation :: string
  jm_Status :: string
  jm_CreateTime :: int
  jm_StartTime :: int
  jm_EndTime :: int
  jm_RemainSource :: bool
  jm_TotalCapacity :: int
  jm_PassedCapacity :: int
  jm_TotalCount :: int
  jm_PassedCount :: int
  jm_Progress :: int
  jm_StepDesc :: string

record 'b response =
  rs_Err :: string
  rs_Body :: 'b

text \<open>The seconds since 1970 of a time in nanoseconds, with 0 for Go's zero time.\<close>

definition Unix :: "int \<Rightarrow> int" where
  "Unix t = (if t = 0 then - 62135596800 else t div second)"

section \<open>From the model to messages\<close>

definition policyModel2Resp :: "Policy \<Rightarrow> PolicyMsg" where
  "policyModel2Resp p = \<lparr>pm_Id = pol_Id p, pm_Name = pol_Name p, pm_Tenant = pol_Tenant p,
     pm_Description = pol_Description p,
     pm_Schedule = Some \<lparr>sch_Type = sch_Type (pol_Schedule p), sch_TriggerProperties = sch_TriggerProperties (pol_Schedule p)\<rparr>\<rparr>"

definition cloud_types :: "string list" where
  "cloud_types = [STOR_TYPE_AWS_S3, STOR_TYPE_HW_OBS, STOR_TYPE_HW_FUSIONSTORAGE, STOR_TYPE_HW_FUSIONCLOUD,
     STOR_TYPE_AZURE_BLOB, STOR_TYPE_CEPH_S3]"

definition fillRspConnector :: "Connector \<Rightarrow> Connector \<Rightarrow> Connector" where
  "fillRspConnector out inp =
     (if conn_StorType inp = STOR_TYPE_OPENSDS then out\<lparr>conn_BucketName := conn_BucketName inp\<rparr>
      else if conn_StorType inp \<in> set cloud_types then out\<lparr>conn_ConnConfig := conn_ConnConfig out @ conn_ConnConfig inp\<rparr>
      else out)"

definition new_connector :: "string \<Rightarrow> Connector" where
  "new_connector t = \<lparr>conn_StorType = t, conn_BucketName = [], conn_ConnConfig = []\<rparr>"

definition planModel2Resp :: "Plan \<Rightarrow> PlanMsg" where
  "planModel2Resp p = \<lparr>plm_Id = pln_Id p, plm_Name = pln_Name p, plm_Description = pln_Description p,
     plm_Type = pln_Type p, plm_PolicyId = pln_PolicyId p, plm_PolicyName = pln_PolicyName p,
     plm_SourceConn = Some (fillRspConnector (new_connector (conn_StorType (pln_SourceConn p))) (pln_SourceConn p)),
     plm_DestConn = Some (fillRspConnector (new_connector (conn_StorType (pln_DestConn p))) (pln_DestConn p)),
     plm_Filter = Some \<lparr>fil_Prefix = fil_Prefix (pln_Filter p), fil_Tag = fil_Tag (pln_Filter p)\<rparr>,
     plm_RemainSource = pln_RemainSource p, plm_TenantId = pln_TenantId p, plm_UserId = pln_UserId p,
     plm_PolicyEnabled = pln_PolicyEnabled p,
     plm_Asist = Some \<lparr>asi_Type = asi_Type (pln_Asist p), asi_Details = asi_Details (pln_Asist p)\<rparr>\<rparr>"

text \<open>The job in the answer of \<open>GetJob\<close> and one of those in the answer of \<open>ListJob\<close>.\<close>

definition job_answer :: "Job \<Rightarrow> JobMsg" where
  "job_answer j = \<lparr>jm_Id = job_Id j, jm_Type = job_Type j, jm_PlanName = job_PlanName j, jm_PlanId = job_PlanId j,
     jm_Description = ''for test'', jm_SourceLocation = job_SourceLocation j, jm_DestLocation = job_DestLocation j,
     jm_Status = job_Status j, jm_CreateTime = Unix (job_CreateTime j), jm_StartTime = 0,
     jm_EndTime = Unix (job_EndTime j), jm_RemainSource = False, jm_TotalCapacity = job_TotalCapacity j,
     jm_PassedCapacity = job_PassedCapacity j, jm_TotalCount = job_TotalCount j, jm_PassedCount = job_PassedCount j,
     jm_Progress = job_Progress j, jm_StepDesc = job_StepDesc j\<rparr>"

definition job_entry :: "Job \<Rightarrow> JobMsg" where
  "job_entry j = \<lparr>jm_Id = job_Id j, jm_Type = job_Type j, jm_PlanName = job_PlanName j, jm_PlanId = job_PlanId j,
     jm_Description = [], jm_SourceLocation = job_SourceLocation j, jm_DestLocation = job_DestLocation j,
     jm_Status = job_Status j, jm_CreateTime = Unix (job_CreateTime j), jm_StartTime = Unix (job_StartTime j),
     jm_EndTime = Unix (job_EndTime j), jm_RemainSource = False, jm_TotalCapacity = job_TotalCapacity j,
     jm_PassedCapacity = job_PassedCapacity j, jm_TotalCount = job_TotalCount j, jm_PassedCount = job_PassedCount j,
     jm_Progress = job_Progress j, jm_StepDesc = []\<rparr>"

section \<open>From messages to the model\<close>

definition fillReqConnector :: "Connector \<Rightarrow> Connector \<Rightarrow> df_err + Connector" where
  "fillReqConnector out inp =
     (if conn_StorType inp = STOR_TYPE_OPENSDS then Inr (out\<lparr>conn_BucketName := conn_BucketName inp\<rparr>)
      else if conn_StorType inp \<in> set cloud_types then
        Inr (out\<lparr>conn_ConnConfig := conn_ConnConfig out @ conn_ConnConfig inp\<rparr>)
      else Inl (OtherError ''Invalid connector type.''))"

definition checkAsistVlidation :: "AsistInfo option \<Rightarrow> df_err option go" where
  "checkAsistVlidation asist =
     (case asist of
        None \<Rightarrow> Panic NilDereference
      | Some a \<Rightarrow>
          Return (if asi_Type a = [] \<or> asi_Type a = ASIST_TYPE_DATA_ANALYSIS then None
                  else Some (OtherError (''Unsupport asist type:'' @ asi_Type a @ ''.''))))"

definition zero_Connector :: Connector where "zero_Connector = new_connector []"

definition zero_Plan :: Plan where
  "zero_Plan = \<lparr>pln_Id = [], pln_Name = [], pln_Description = [], pln_Type = [], pln_SourceConn = zero_Connector,
     pln_DestConn = zero_Connector, pln_Filter = \<lparr>fil_Prefix = [], fil_Tag = []\<rparr>, pln_RemainSource = False,
     pln_LastSchedTime = 0, pln_PolicyId = [], pln_PolicyRef = zero_DBRef, pln_PolicyName = [],
     pln_PolicyEnabled = False, pln_TenantId = [], pln_UserId = [], pln_Asist = \<lparr>asi_Type = [], asi_Details = []\<rparr>\<rparr>"

section \<open>The server\<close>

record 's df_server =
  ds_ops :: "'s mgo_ops"
  ds_valid :: "string \<Rightarrow> bool"
  ds_fuel :: nat
  ds_UpdateMap :: "string \<Rightarrow> string + update_map"
  ds_DriverText :: "mgo_err \<Rightarrow> string"

fun df_Error :: "(mgo_err \<Rightarrow> string) \<Rightarrow> df_err \<Rightarrow> string" where
  "df_Error driver ERR_INNER_ERR = ''inner error''"
| "df_Error driver ERR_DB_ERR = ''database error''"
| "df_Error driver ERR_INVALID_POLICY_NAME = ''invalid policy name''"
| "df_Error driver ERR_POLICY_NOT_EXIST = ''policy does not exist''"
| "df_Error driver ERR_PLAN_NOT_EXIST = ''plan does not exist''"
| "df_Error driver ERR_INVALID_PLAN_NAME = ''invalid plan name''"
| "df_Error driver ERR_DEST_SRC_CONN_EQUAL = ''source is the same as destination''"
| "df_Error driver ERR_DEST_CONN_NOT_EXIST = ''invalid destination connector''"
| "df_Error driver ERR_SRC_CONN_NOT_EXIST = ''invalid source connector''"
| "df_Error driver ERR_IS_USED_BY_PLAN = ''is used by plan''"
| "df_Error driver ERR_RUN_PLAN_BUSY = ''is scheduling''"
| "df_Error driver ERR_JOB_NOT_EXIST = ''job not exist''"
| "df_Error driver ERR_PLAN_NOT_IN_TRIGGER = ''specified plan is not in trigger''"
| "df_Error driver (DuplicateName name) = ''Duplicate name:'' @ name"
| "df_Error driver (DriverError e) = driver e"
| "df_Error driver (OtherError t) = t"

abbreviation err_text :: "'s df_server \<Rightarrow> df_err \<Rightarrow> string" where
  "err_text ds \<equiv> df_Error (ds_DriverText ds)"

type_synonym ('s, 'b) handler = "('s world, 'b response \<times> df_err option) prog"

definition respond :: "'b \<Rightarrow> ('s, 'b) handler" where
  "respond b = ret (\<lparr>rs_Err = [], rs_Body = b\<rparr>, None)"

definition refuse :: "string \<Rightarrow> df_err \<Rightarrow> 'b \<Rightarrow> ('s, 'b) handler" where
  "refuse text err b = ret (\<lparr>rs_Err = text, rs_Body = b\<rparr>, Some err)"

definition rpc :: "('s, 'b) handler \<Rightarrow> ('s world, df_err + 'b response) prog" where
  "rpc h = call h (\<lambda>(out, err). ret (case err of None \<Rightarrow> Inr out | Some e \<Rightarrow> Inl e))"

text \<open>The broker addresses: the listeners without their protocols.\<close>

definition kafka_addrs :: "string \<Rightarrow> string list" where
  "kafka_addrs config =
     foldl (\<lambda>addrs c. let addr = Split c ''//'' in if length addr \<noteq> 2 then addrs else addrs @ [addr ! 1]) []
       (Split config '';'')"

section \<open>Policies\<close>

definition df_GetPolicy :: "'s df_server \<Rightarrow> string \<Rightarrow> string \<Rightarrow> ('s, PolicyMsg option) handler" where
  "df_GetPolicy ds context i =
     (let actx = NewContextFromJson context
      in if i = [] then refuse [] (OtherError ''No id provided.'') None
         else call (Policy_Get (ds_ops ds) actx i) (\<lambda>r.
           case r of
             Inl err \<Rightarrow> refuse [] err None
           | Inr p \<Rightarrow> respond (Some (policyModel2Resp p))))"

definition df_ListPolicy :: "'s df_server \<Rightarrow> string \<Rightarrow> ('s, PolicyMsg list) handler" where
  "df_ListPolicy ds context =
     call (Policy_List (ds_ops ds) (NewContextFromJson context)) (\<lambda>r.
       case r of
         Inl err \<Rightarrow> respond []
       | Inr pols \<Rightarrow> respond (map policyModel2Resp pols))"

definition df_CreatePolicy :: "'s df_server \<Rightarrow> string \<Rightarrow> PolicyMsg option \<Rightarrow> ('s, PolicyMsg option) handler" where
  "df_CreatePolicy ds context pol =
     (let actx = NewContextFromJson context;
          Name = (case pol of None \<Rightarrow> [] | Some p \<Rightarrow> pm_Name p);
          Description = (case pol of None \<Rightarrow> [] | Some p \<Rightarrow> pm_Description p)
      in case Option.bind pol pm_Schedule of
           None \<Rightarrow> refuse ''Get schedule failed.'' (OtherError ''Get schedule failed.'') None
         | Some sched \<Rightarrow>
             if Name = [] then refuse ''no name provided.'' (OtherError ''Get schedule failed.'') None
             else call (Policy_Create (ds_ops ds) actx \<lparr>pol_Id = [], pol_Name = Name, pol_Description = Description,
                    pol_Schedule = sched, pol_Tenant = []\<rparr>) (\<lambda>r.
               case r of
                 Inl err \<Rightarrow> respond None
               | Inr p \<Rightarrow> respond (Some (policyModel2Resp p))))"

definition df_DeletePolicy :: "'s df_server \<Rightarrow> string \<Rightarrow> string \<Rightarrow> ('s, unit) handler" where
  "df_DeletePolicy ds context i =
     (if i = [] then refuse ''Get id failed.'' (OtherError ''Get id failed.'') ()
      else call (Policy_Delete (ds_ops ds) (NewContextFromJson context) i) (\<lambda>err.
        case err of None \<Rightarrow> respond () | Some e \<Rightarrow> refuse (err_text ds e) e ()))"

definition df_UpdatePolicy :: "'s df_server \<Rightarrow> string \<Rightarrow> string \<Rightarrow> string \<Rightarrow> ('s, PolicyMsg option) handler" where
  "df_UpdatePolicy ds context policyId body =
     (if policyId = [] then refuse [] (OtherError ''No id provided.'') None
      else case ds_UpdateMap ds body of
             Inl err \<Rightarrow> refuse [] (OtherError err) None
           | Inr updateMap \<Rightarrow>
               call (Policy_Update (ds_fuel ds) (ds_ops ds) (ds_valid ds) (NewContextFromJson context) policyId updateMap) (\<lambda>r.
                 case r of
                   Inl err \<Rightarrow> refuse [] err None
                 | Inr p \<Rightarrow> respond (Some (policyModel2Resp p))))"

section \<open>Plans\<close>

definition df_GetPlan :: "'s df_server \<Rightarrow> string \<Rightarrow> string \<Rightarrow> ('s, PlanMsg option) handler" where
  "df_GetPlan ds context i =
     (if i = [] then refuse ''No id specified.'' (OtherError ''No id specified.'') None
      else call (Plan_Get (ds_ops ds) (NewContextFromJson context) i) (\<lambda>r.
        case r of
          Inl err \<Rightarrow> refuse [] err None
        | Inr p \<Rightarrow> respond (Some (planModel2Resp p))))"

definition pagination_error :: "int \<Rightarrow> int \<Rightarrow> df_err" where
  "pagination_error limit offset = OtherError (''Invalid pagination parameter, limit = '' @ Itoa limit @
     '' and offset = '' @ Itoa offset @ ''.'')"

definition df_ListPlan :: "'s df_server \<Rightarrow> string \<Rightarrow> int \<Rightarrow> int \<Rightarrow> (string, string) gomap \<Rightarrow>
    ('s, PlanMsg list \<times> int) handler" where
  "df_ListPlan ds context Limit Offset Filter =
     (if Limit < 0 \<or> Offset < 0 then refuse [] (pagination_error Limit Offset) ([], 0)
      else call (Plan_List (ds_ops ds) (NewContextFromJson context) Limit Offset (StringMap Filter)) (\<lambda>r.
        case r of
          Inl err \<Rightarrow> refuse [] err ([], 0)
        | Inr plans \<Rightarrow> respond (map planModel2Resp plans, i32 (Offset + i32 (int (length plans))))))"

text \<open>
  The connectors are checked first, then the filter and the assistance are copied. The error of
  \<open>checkAsistVlidation\<close> is overwritten without being looked at.
\<close>

definition plan_of_message :: "PlanMsg \<Rightarrow> Connector \<Rightarrow> Connector \<Rightarrow> Plan" where
  "plan_of_message m srcConn destConn = zero_Plan\<lparr>
     pln_Name := plm_Name m, pln_Description := plm_Description m, pln_Type := plm_Type m,
     pln_RemainSource := plm_RemainSource m, pln_PolicyId := plm_PolicyId m,
     pln_PolicyEnabled := plm_PolicyEnabled m, pln_UserId := plm_UserId m, pln_TenantId := plm_TenantId m,
     pln_SourceConn := srcConn, pln_DestConn := destConn,
     pln_Filter := (case plm_Filter m of None \<Rightarrow> \<lparr>fil_Prefix = [], fil_Tag = []\<rparr> | Some f \<Rightarrow> f),
     pln_Asist := (case plm_Asist m of None \<Rightarrow> \<lparr>asi_Type = [], asi_Details = []\<rparr> | Some a \<Rightarrow> a)\<rparr>"

definition df_CreatePlan :: "'s df_server \<Rightarrow> string \<Rightarrow> PlanMsg option \<Rightarrow> ('s, PlanMsg option) handler" where
  "df_CreatePlan ds context plan =
     (case plan of
        None \<Rightarrow> panic NilDereference
      | Some m \<Rightarrow>
     (case plm_SourceConn m of
        None \<Rightarrow> refuse ''Get source connector failed.'' (OtherError ''Invalid source connector.'') None
      | Some src \<Rightarrow>
     (case fillReqConnector (new_connector (conn_StorType src)) src of
        Inl err \<Rightarrow> refuse [] err None
      | Inr srcConn \<Rightarrow>
     (case plm_DestConn m of
        None \<Rightarrow> refuse ''Get destination connector failed.'' (OtherError ''Invalid destination connector.'') None
      | Some dest \<Rightarrow>
     (case fillReqConnector (new_connector (conn_StorType dest)) dest of
        Inl err \<Rightarrow> refuse (err_text ds err) err None
      | Inr destConn \<Rightarrow>
          call (lift_go (checkAsistVlidation (plm_Asist m))) (\<lambda>_.
          let pl = plan_of_message m srcConn destConn
          in if pln_Name pl = [] \<or> pln_Type pl = [] then
               refuse ''Name or type is null.'' (OtherError ''Name or type is null.'') None
             else call (Plan_Create (ds_ops ds) (ds_valid ds) (NewContextFromJson context) pl) (\<lambda>r.
               case r of
                 Inl err \<Rightarrow> refuse [] err None
               | Inr p \<Rightarrow> respond (Some (planModel2Resp p)))))))))"

definition df_DeletePlan :: "'s df_server \<Rightarrow> string \<Rightarrow> string \<Rightarrow> ('s, unit) handler" where
  "df_DeletePlan ds context i =
     (if i = [] then refuse ''Get id failed.'' (OtherError ''Get id failed.'') ()
      else call (Plan_Delete (ds_ops ds) (NewContextFromJson context) i) (\<lambda>err.
        case err of None \<Rightarrow> respond () | Some e \<Rightarrow> refuse (err_text ds e) e ()))"

definition df_UpdatePlan :: "'s df_server \<Rightarrow> string \<Rightarrow> string \<Rightarrow> string \<Rightarrow> ('s, PlanMsg option) handler" where
  "df_UpdatePlan ds context planId body =
     (if planId = [] then refuse [] (OtherError ''No id provided.'') None
      else case ds_UpdateMap ds body of
             Inl err \<Rightarrow> refuse [] (OtherError err) None
           | Inr updateMap \<Rightarrow>
               call (Plan_Update (ds_ops ds) (ds_valid ds) (NewContextFromJson context) planId updateMap) (\<lambda>r.
                 case r of
                   Inl err \<Rightarrow> refuse [] err None
                 | Inr p \<Rightarrow> respond (Some (planModel2Resp p))))"

definition df_RunPlan :: "'s df_server \<Rightarrow> string \<Rightarrow> string \<Rightarrow> ('s, string) handler" where
  "df_RunPlan ds context i =
     call (Plan_Run (ds_ops ds) (NewContextFromJson context) i) (\<lambda>r.
       case r of
         Inl err \<Rightarrow> refuse (err_text ds err) err []
       | Inr jid \<Rightarrow> respond jid)"

section \<open>Jobs\<close>

definition df_GetJob :: "'s df_server \<Rightarrow> string \<Rightarrow> string \<Rightarrow> ('s, JobMsg option) handler" where
  "df_GetJob ds context i =
     (if i = [] then refuse ''No id specified.'' (OtherError ''No id specified.'') None
      else call (Job_Get (ds_ops ds) (NewContextFromJson context) i) (\<lambda>r.
        case r of
          Inl err \<Rightarrow> refuse (err_text ds err) err None
        | Inr jb \<Rightarrow> respond (Some (job_answer jb))))"

definition df_ListJob :: "'s df_server \<Rightarrow> string \<Rightarrow> int \<Rightarrow> int \<Rightarrow> (string, string) gomap \<Rightarrow>
    ('s, JobMsg list \<times> int) handler" where
  "df_ListJob ds context Limit Offset Filter =
     (if Limit < 0 \<or> Offset < 0 then refuse [] (pagination_error Limit Offset) ([], 0)
      else call (Job_List (ds_ops ds) (NewContextFromJson context) Limit Offset Filter) (\<lambda>r.
        case r of
          Inl err \<Rightarrow> refuse [] err ([], 0)
        | Inr jobs \<Rightarrow> respond (map job_entry jobs, i32 (Offset + i32 (int (length jobs))))))"

end
