(* ===== verification/Api_Handlers.thy ===== *)
theory Api_Handlers
  imports Dataflow_Service Gateway_S3
begin

text \<open>
  The handlers of the gateway for the dataflow and the backend service (\<open>api/pkg/dataflow/service.go\<close>,
  \<open>api/pkg/backend/service.go\<close>): each asks the policy, takes the context and the parameters from the
  request, calls the service and writes its answer. Decoding a JSON body (\<open>ReadEntity\<close>) is a
  parameter. An error answer is its status.
\<close>

section \<open>Clients\<close>

record 's dataflow_client =
  dc_GetPolicy :: "string \<Rightarrow> string \<Rightarrow> ('s, df_err + PolicyMsg option response) prog"
  dc_ListPolicy :: "string \<Rightarrow> ('s, df_err + PolicyMsg list response) prog"
  dc_CreatePolicy :: "string \<Rightarrow> PolicyMsg option \<Rightarrow> ('s, df_err + PolicyMsg option response) prog"
  dc_UpdatePolicy :: "string \<Rightarrow> string \<Rightarrow> string \<Rightarrow> ('s, df_err + PolicyMsg option response) prog"
  dc_DeletePolicy :: "string \<Rightarrow> string \<Rightarrow> ('s, df_err + unit response) prog"
  dc_GetPlan :: "string \<Rightarrow> string \<Rightarrow> ('s, df_err + PlanMsg option response) prog"
  dc_ListPlan :: "string \<Rightarrow> int \<Rightarrow> int \<Rightarrow> string list \<Rightarrow> string list \<Rightarrow> (string, string) gomap \<Rightarrow>
      ('s, df_err + (PlanMsg list \<times> int) response) prog"
  dc_CreatePlan :: "string \<Rightarrow> PlanMsg option \<Rightarrow> ('s, df_err + PlanMsg option response) prog"
  dc_UpdatePlan :: "string \<Rightarrow> string \<Rightarrow> string \<Rightarrow> ('s, df_err + PlanMsg option response) prog"
  dc_DeletePlan :: "string \<Rightarrow> string \<Rightarrow> ('s, df_err + unit response) prog"
  dc_RunPlan :: "string \<Rightarrow> string \<Rightarrow> ('s, df_err + string response) prog"
  dc_GetJob :: "string \<Rightarrow> string \<Rightarrow> ('s, df_err + JobMsg option response) prog"
  dc_ListJob :: "string \<Rightarrow> int \<Rightarrow> int \<Rightarrow> string list \<Rightarrow> string list \<Rightarrow> (string, string) gomap \<Rightarrow>
      ('s, df_err + (JobMsg list \<times> int) response) prog"

text \<open>The client of a dataflow server; the server does not read the keys of the order.\<close>

definition client_of :: "'s df_server \<Rightarrow> 's world dataflow_client" where
  "client_of ds = \<lparr>
     dc_GetPolicy = (\<lambda>c i. rpc (df_GetPolicy ds c i)),
     dc_ListPolicy = (\<lambda>c. rpc (df_ListPolicy ds c)),
     dc_CreatePolicy = (\<lambda>c p. rpc (df_CreatePolicy ds c p)),
     dc_UpdatePolicy = (\<lambda>c i b. rpc (df_UpdatePolicy ds c i b)),
     dc_DeletePolicy = (\<lambda>c i. rpc (df_DeletePolicy ds c i)),
     dc_GetPlan = (\<lambda>c i. rpc (df_GetPlan ds c i)),
     dc_ListPlan = (\<lambda>c limit offset keys dirs filt. rpc (df_ListPlan ds c limit offset filt)),
     dc_CreatePlan = (\<lambda>c p. rpc (df_CreatePlan ds c p)),
     dc_UpdatePlan = (\<lambda>c i b. rpc (df_UpdatePlan ds c i b)),
     dc_DeletePlan = (\<lambda>c i. rpc (df_DeletePlan ds c i)),
     dc_RunPlan = (\<lambda>c i. rpc (df_RunPlan ds c i)),
     dc_GetJob = (\<lambda>c i. rpc (df_GetJob ds c i)),
     dc_ListJob = (\<lambda>c limit offset keys dirs filt. rpc (df_ListJob ds c limit offset filt))\<rparr>"

record 's backend_client =
  bc_GetBackend :: "string \<Rightarrow> ('s, df_err + Backend) prog"
  bc_ListBackend :: "int \<Rightarrow> int \<Rightarrow> string list \<Rightarrow> string list \<Rightarrow> (string, string) gomap \<Rightarrow>
      ('s, df_err + (Backend list \<times> int)) prog"
  bc_CreateBackend :: "Backend option \<Rightarrow> ('s, df_err + Backend) prog"
  bc_UpdateBackend :: "string \<Rightarrow> string \<Rightarrow> string \<Rightarrow> ('s, df_err + Backend) prog"
  bc_DeleteBackend :: "string \<Rightarrow> ('s, df_err + unit) prog"
  bc_ListType :: "int \<Rightarrow> int \<Rightarrow> string list \<Rightarrow> string list \<Rightarrow> (string, string) gomap \<Rightarrow>
      ('s, df_err + ((string \<times> string) list \<times> int)) prog"

definition backend_client_of :: "'s mgo_ops \<Rightarrow> 's backend_client" where
  "backend_client_of ops = \<lparr>
     bc_GetBackend = svc_GetBackend ops,
     bc_ListBackend = (\<lambda>limit offset keys dirs filt. svc_ListBackend ops limit offset filt),
     bc_CreateBackend = svc_CreateBackend ops,
     bc_UpdateBackend = svc_UpdateBackend ops,
     bc_DeleteBackend = svc_DeleteBackend ops,
     bc_ListType = (\<lambda>limit offset keys dirs filt. lift_go (svc_ListType limit offset filt))\<rparr>"

section \<open>The frame of a handler\<close>

datatype 'b api_answer =
    ApiError int
  | Entity 'b
  | ApiHeader int

record 's api =
  ap_Authorize :: "http_request \<Rightarrow> string \<Rightarrow> ('s, bool) prog"
  ap_dataflow :: "'s dataflow_client"
  ap_backend :: "'s backend_client"
  ap_ReadPolicy :: "http_request \<Rightarrow> PolicyMsg option"
  ap_ReadPlan :: "http_request \<Rightarrow> PlanMsg option"
  ap_ReadBackend :: "http_request \<Rightarrow> Backend option option"
  ap_ReadUpdate :: "http_request \<Rightarrow> string \<times> string \<times> string \<Rightarrow> (string \<times> string \<times> string) option"

definition api_authorized :: "'s api \<Rightarrow> http_request \<Rightarrow> string \<Rightarrow> ('s, 'b api_answer) prog \<Rightarrow> ('s, 'b api_answer) prog" where
  "api_authorized ap req action handler =
     call (ap_Authorize ap req action) (\<lambda>ok. if ok then handler else ret (ApiError 403))"

text \<open>The filters' context; the assertion panics when the attribute is another type or missing.\<close>

definition with_context :: "http_request \<Rightarrow> (FilterContext \<Rightarrow> ('s, 'b) prog) \<Rightarrow> ('s, 'b) prog" where
  "with_context req f =
     (case lookup (req_attributes req) KContext of
        Some (AFilterContext actx) \<Rightarrow> f actx
      | _ \<Rightarrow> panic TypeAssertion)"

definition deliver :: "('s, 'e + 'b) prog \<Rightarrow> ('s, 'b api_answer) prog" where
  "deliver m = call m (\<lambda>r. ret (case r of Inl err \<Rightarrow> ApiError 500 | Inr res \<Rightarrow> Entity res))"

definition with_list_params :: "http_request \<Rightarrow> string list \<Rightarrow>
    (int \<Rightarrow> int \<Rightarrow> string list \<Rightarrow> string list \<Rightarrow> (string, string) gomap \<Rightarrow> ('s, 'b api_answer) prog) \<Rightarrow>
    ('s, 'b api_answer) prog" where
  "with_list_params req filterOpts f =
     (let q = QueryParameter req;
          (limit, offset, ok) = GetPaginationParam q
      in if \<not> ok then ret (ApiError 500)
         else let (sortKeys, sortDirs, ok) = GetSortParam q
              in if \<not> ok then ret (ApiError 500)
                 else f limit offset sortKeys sortDirs (GetFilter q filterOpts))"

section \<open>Policies\<close>

definition api_ListPolicy :: "'s api \<Rightarrow> http_request \<Rightarrow> ('s, PolicyMsg list response api_answer) prog" where
  "api_ListPolicy ap req =
     api_authorized ap req ''policy:list'' (with_context req (\<lambda>actx.
       deliver (dc_ListPolicy (ap_dataflow ap) (ToJson actx))))"

definition api_GetPolicy :: "'s api \<Rightarrow> http_request \<Rightarrow> ('s, PolicyMsg option response api_answer) prog" where
  "api_GetPolicy ap req =
     api_authorized ap req ''policy:get'' (with_context req (\<lambda>actx.
       deliver (dc_GetPolicy (ap_dataflow ap) (ToJson actx) (PathParameter req ''id''))))"

definition api_CreatePolicy :: "'s api \<Rightarrow> http_request \<Rightarrow> ('s, PolicyMsg option response api_answer) prog" where
  "api_CreatePolicy ap req =
     api_authorized ap req ''policy:create'' (with_context req (\<lambda>actx.
       case ap_ReadPolicy ap req of
         None \<Rightarrow> ret (ApiError 500)
       | Some pol \<Rightarrow> deliver (dc_CreatePolicy (ap_dataflow ap) (ToJson actx) (Some pol))))"

definition text_of_bytes :: "byte list \<Rightarrow> string" where
  "text_of_bytes bs = map (\<lambda>b. char_of (unat b)) bs"

definition api_UpdatePolicy :: "'s api \<Rightarrow> http_request \<Rightarrow> ('s, PolicyMsg option response api_answer) prog" where
  "api_UpdatePolicy ap req =
     api_authorized ap req ''policy:update'' (with_context req (\<lambda>actx.
       case ReadBody req of
         None \<Rightarrow> ret (ApiError 500)
       | Some body \<Rightarrow>
           deliver (dc_UpdatePolicy (ap_dataflow ap) (ToJson actx) (PathParameter req ''id'') (text_of_bytes body))))"

definition api_DeletePolicy :: "'s api \<Rightarrow> http_request \<Rightarrow> ('s, unit response api_answer) prog" where
  "api_DeletePolicy ap req =
     api_authorized ap req ''policy:delete'' (with_context req (\<lambda>actx.
       deliver (dc_DeletePolicy (ap_dataflow ap) (ToJson actx) (PathParameter req ''id''))))"

section \<open>Plans\<close>

definition api_ListPlan :: "'s api \<Rightarrow> http_request \<Rightarrow> ('s, (PlanMsg list \<times> int) response api_answer) prog" where
  "api_ListPlan ap req =
     api_authorized ap req ''plan:list'' (
       with_list_params req [''name'', ''type'', ''bucketname''] (\<lambda>limit offset keys dirs filt.
         with_context req (\<lambda>actx.
           deliver (dc_ListPlan (ap_dataflow ap) (ToJson actx) limit offset keys dirs filt))))"

definition api_GetPlan :: "'s api \<Rightarrow> http_request \<Rightarrow> ('s, PlanMsg option response api_answer) prog" where
  "api_GetPlan ap req =
     api_authorized ap req ''plan:get'' (with_context req (\<lambda>actx.
       deliver (dc_GetPlan (ap_dataflow ap) (ToJson actx) (PathParameter req ''id''))))"

definition api_CreatePlan :: "'s api \<Rightarrow> http_request \<Rightarrow> ('s, PlanMsg option response api_answer) prog" where
  "api_CreatePlan ap req =
     api_authorized ap req ''plan:create'' (with_context req (\<lambda>actx.
       case ap_ReadPlan ap req of
         None \<Rightarrow> ret (ApiError 500)
       | Some plan \<Rightarrow> deliver (dc_CreatePlan (ap_dataflow ap) (ToJson actx) (Some plan))))"

definition api_UpdatePlan :: "'s api \<Rightarrow> http_request \<Rightarrow> ('s, PlanMsg option response api_answer) prog" where
  "api_UpdatePlan ap req =
     api_authorized ap req ''plan:update'' (with_context req (\<lambda>actx.
       case ReadBody req of
         None \<Rightarrow> ret (ApiError 500)
       | Some body \<Rightarrow>
           deliver (dc_UpdatePlan (ap_dataflow ap) (ToJson actx) (PathParameter req ''id'') (text_of_bytes body))))"

definition api_DeletePlan :: "'s api \<Rightarrow> http_request \<Rightarrow> ('s, unit response api_answer) prog" where
  "api_DeletePlan ap req =
     api_authorized ap req ''plan:delete'' (with_context req (\<lambda>actx.
       deliver (dc_DeletePlan (ap_dataflow ap) (ToJson actx) (PathParameter req ''id''))))"

definition api_RunPlan :: "'s api \<Rightarrow> http_request \<Rightarrow> ('s, string response api_answer) prog" where
  "api_RunPlan ap req =
     api_authorized ap req ''plan:run'' (with_context req (\<lambda>actx.
       deliver (dc_RunPlan (ap_dataflow ap) (ToJson actx) (PathParameter req ''id''))))"

section \<open>Jobs\<close>

definition api_GetJob :: "'s api \<Rightarrow> http_request \<Rightarrow> ('s, JobMsg option response api_answer) prog" where
  "api_GetJob ap req =
     api_authorized ap req ''job:get'' (with_context req (\<lambda>actx.
       deliver (dc_GetJob (ap_dataflow ap) (ToJson actx) (PathParameter req ''id''))))"

definition api_ListJob :: "'s api \<Rightarrow> http_request \<Rightarrow> ('s, (JobMsg list \<times> int) response api_answer) prog" where
  "api_ListJob ap req =
     api_authorized ap req ''job:list'' (
       with_list_params req [''planName'', ''type''] (\<lambda>limit offset keys dirs filt.
         with_context req (\<lambda>actx.
           deliver (dc_ListJob (ap_dataflow ap) (ToJson actx) limit offset keys dirs filt))))"

section \<open>Backends\<close>

definition api_GetBackend :: "'s api \<Rightarrow> http_request \<Rightarrow> ('s, Backend api_answer) prog" where
  "api_GetBackend ap req =
     api_authorized ap req ''backend:get'' (
       deliver (bc_GetBackend (ap_backend ap) (PathParameter req ''id'')))"

definition api_ListBackend :: "'s api \<Rightarrow> http_request \<Rightarrow> ('s, (Backend list \<times> int) api_answer) prog" where
  "api_ListBackend ap req =
     api_authorized ap req ''backend:list'' (
       with_list_params req [''name'', ''type'', ''region''] (\<lambda>limit offset keys dirs filt.
         deliver (bc_ListBackend (ap_backend ap) limit offset keys dirs filt)))"

definition api_CreateBackend :: "'s api \<Rightarrow> http_request \<Rightarrow> ('s, Backend api_answer) prog" where
  "api_CreateBackend ap req =
     api_authorized ap req ''backend:create'' (
       case ap_ReadBackend ap req of
         None \<Rightarrow> ret (ApiError 500)
       | Some backendDetail \<Rightarrow> deliver (bc_CreateBackend (ap_backend ap) backendDetail))"

text \<open>The body is decoded over a request that holds the id of the path.\<close>

definition api_UpdateBackend :: "'s api \<Rightarrow> http_request \<Rightarrow> ('s, Backend api_answer) prog" where
  "api_UpdateBackend ap req =
     api_authorized ap req ''backend:update'' (
       case ap_ReadUpdate ap req (PathParameter req ''id'', [], []) of
         None \<Rightarrow> ret (ApiError 500)
       | Some (i, access, security) \<Rightarrow> deliver (bc_UpdateBackend (ap_backend ap) i access security))"

definition api_DeleteBackend :: "'s api \<Rightarrow> http_request \<Rightarrow> ('s, unit api_answer) prog" where
  "api_DeleteBackend ap req =
     api_authorized ap req ''backend:delete'' (
       call (bc_DeleteBackend (ap_backend ap) (PathParameter req ''id'')) (\<lambda>r.
         ret (case r of Inr _ \<Rightarrow> ApiHeader 200 | Inl err \<Rightarrow> ApiError 500)))"

definition api_ListType :: "'s api \<Rightarrow> http_request \<Rightarrow> ('s, ((string \<times> string) list \<times> int) api_answer) prog" where
  "api_ListType ap req =
     api_authorized ap req ''type:list'' (
       with_list_params req [''name''] (\<lambda>limit offset keys dirs filt.
         deliver (bc_ListType (ap_backend ap) limit offset keys dirs filt)))"

end
