(* ===== verification/Api_Correct.thy ===== *)
theory Api_Correct
  imports Api_Handlers Dataflow_Plan_Correct
begin

text \<open>
  The gateway and the dataflow service together: what a plan request that has passed the filters
  gets from the database, through the handler, the context's way as JSON and the service.
\<close>

section \<open>From a request to the service\<close>

lemma api_authorized_Entity:
  assumes "api_authorized ap req action handler w = Return (Entity res, w')"
  obtains w1 where "ap_Authorize ap req action w = Return (True, w1)" and "handler w1 = Return (Entity res, w')"
  using assms by (auto simp: api_authorized_def elim!: call_ReturnE split: if_splits)

lemma with_context_Return:
  assumes "with_context req f w = Return (res, w')"
  obtains actx where "lookup (req_attributes req) KContext = Some (AFilterContext actx)" and "f actx w = Return (res, w')"
  using assms by (auto simp: with_context_def panic_def split: option.splits attribute.splits)

lemma deliver_Entity:
  assumes "deliver m w = Return (Entity res, w')"
  shows "m w = Return (Inr res, w')"
  using assms by (auto simp: deliver_def elim!: call_ReturnE split: sum.splits)

lemma rpc_Inr:
  assumes "rpc h w = Return (Inr out, w')"
  shows "h w = Return ((out, None), w')"
  using assms by (auto simp: rpc_def elim!: call_ReturnE split: option.splits)

lemma df_GetPlan_result:
  assumes "df_GetPlan ds c i w = Return ((out, None), w')"
  obtains p s where "GetPlan (ds_ops ds) (NewContextFromJson c) i (sv_db w) = Return (Inr p, s)"
    and "rs_Body out = Some (planModel2Resp p)"
  using assms
  by (auto simp: df_GetPlan_def Plan_Get_def refuse_def respond_def onDb_Return_iff elim!: call_ReturnE
      split: if_splits sum.splits)

lemma df_ListPlan_result:
  assumes "df_ListPlan ds c limit offset filt w = Return ((out, None), w')"
  obtains ps s where "ListPlan (ds_ops ds) (NewContextFromJson c) limit offset (StringMap filt) (sv_db w) = Return (Inr ps, s)"
    and "fst (rs_Body out) = map planModel2Resp ps"
  using assms
  by (auto simp: df_ListPlan_def Plan_List_def refuse_def respond_def onDb_Return_iff elim!: call_ReturnE
      split: if_splits sum.splits)

section \<open>The context of the handlers\<close>

lemma truncate_request [simp]:
  "req_attributes (request.truncate r) = req_attributes r" "req_path (request.truncate r) = req_path r"
  by (simp_all add: request.truncate_def)

definition served_tenant :: "string \<Rightarrow> (string, string) gomap \<Rightarrow> string" where
  "served_tenant strategy path =
     (if strategy = ''keystone'' then ''tenantId''
      else case lookup path ''tenantId'' of Some t \<Rightarrow> t | None \<Rightarrow> ''tenantId'')"

lemma filters_context:
  assumes "fst (auth_FilterFactory strategy tokens_Get SetUp now (context_Filter r) t) = Return (Pass r')"
    and "lookup (req_attributes r') KContext = Some (AFilterContext actx)"
  shows "fc_TenantId actx = served_tenant strategy (req_path r)"
proof (cases "strategy = ''keystone''")
  case True
  with assms(1) have "fst (Keystone_Filter tokens_Get SetUp now (context_Filter r) t) = Return (Pass r')"
    by (simp add: auth_FilterFactory_def)
  from Keystone_context [OF this] assms(2) True show ?thesis
    by (simp add: served_tenant_def filter_NewContext_def)
next
  case False
  with assms show ?thesis
    by (auto simp: auth_FilterFactory_def NoAuth_Filter_def context_Filter_def filter_NewContext_def served_tenant_def
        KContext_def Let_def split: option.splits)
qed

section \<open>Reading plans\<close>

text \<open>Asking the policy leaves the database of the dataflow service alone.\<close>

definition policy_keeps_db :: "'s world api \<Rightarrow> bool" where
  "policy_keeps_db ap \<longleftrightarrow>
     (\<forall>q a u ok u'. ap_Authorize ap q a u = Return (ok, u') \<longrightarrow> sv_db u' = sv_db u)"

lemma policy_keeps_dbD: "policy_keeps_db ap \<Longrightarrow> ap_Authorize ap q a u = Return (ok, u') \<Longrightarrow> sv_db u' = sv_db u"
  by (simp add: policy_keeps_db_def)

lemma api_GetPlan_result:
  assumes "ap_dataflow ap = client_of ds" and "api_GetPlan ap req w = Return (Entity res, w')"
  obtains actx w1 p s where "ap_Authorize ap req ''plan:get'' w = Return (True, w1)"
    and "lookup (req_attributes req) KContext = Some (AFilterContext actx)"
    and "GetPlan (ds_ops ds) (utf8_context actx) (PathParameter req ''id'') (sv_db w1) = Return (Inr p, s)"
    and "rs_Body res = Some (planModel2Resp p)"
proof -
  from assms(2) obtain w1 where auth: "ap_Authorize ap req ''plan:get'' w = Return (True, w1)"
    and rest: "with_context req (\<lambda>actx. deliver (dc_GetPlan (ap_dataflow ap) (ToJson actx) (PathParameter req ''id''))) w1 =
        Return (Entity res, w')"
    unfolding api_GetPlan_def by (rule api_authorized_Entity)
  from rest obtain actx where ctx: "lookup (req_attributes req) KContext = Some (AFilterContext actx)"
    and d: "deliver (dc_GetPlan (ap_dataflow ap) (ToJson actx) (PathParameter req ''id'')) w1 = Return (Entity res, w')"
    by (rule with_context_Return)
  from deliver_Entity [OF d] assms(1) have "df_GetPlan ds (ToJson actx) (PathParameter req ''id'') w1 = Return ((res, None), w')"
    by (simp add: client_of_def rpc_Inr)
  from df_GetPlan_result [OF this] obtain p s where
    "GetPlan (ds_ops ds) (utf8_context actx) (PathParameter req ''id'') (sv_db w1) = Return (Inr p, s)"
    and "rs_Body res = Some (planModel2Resp p)"
    unfolding decoded_context by blast
  with that [OF auth ctx] show ?thesis by blast
qed

lemma api_ListPlan_result:
  assumes "ap_dataflow ap = client_of ds" and "api_ListPlan ap req w = Return (Entity res, w')"
    and "\<And>k. QueryParameter req k = []"
  obtains actx w1 ps s where "ap_Authorize ap req ''plan:list'' w = Return (True, w1)"
    and "ListPlan (ds_ops ds) (utf8_context actx) 1000 0 (StringMap []) (sv_db w1) = Return (Inr ps, s)"
    and "fst (rs_Body res) = map planModel2Resp ps"
proof -
  have q: "QueryParameter req = (\<lambda>k. [])" using assms(3) by (rule ext)
  have sort: "GetSortParam (\<lambda>k. []) = ([''''], [''asc''], True)" by code_simp
  from assms(2) obtain w1 where auth: "ap_Authorize ap req ''plan:list'' w = Return (True, w1)"
    and rest: "with_list_params req [''name'', ''type'', ''bucketname''] (\<lambda>limit offset keys dirs filt.
         with_context req (\<lambda>actx. deliver (dc_ListPlan (ap_dataflow ap) (ToJson actx) limit offset keys dirs filt))) w1 =
        Return (Entity res, w')"
    unfolding api_ListPlan_def by (rule api_authorized_Entity)
  from rest have "with_context req (\<lambda>actx. deliver (dc_ListPlan (ap_dataflow ap) (ToJson actx) 1000 0 [''''] [''asc''] [])) w1 =
        Return (Entity res, w')"
    by (simp add: with_list_params_def q sort GetPaginationParam_def GetFilter_def Let_def MaxPaginationLimit_def
        DefaultPaginationOffset_def)
  then obtain actx where d: "deliver (dc_ListPlan (ap_dataflow ap) (ToJson actx) 1000 0 [''''] [''asc''] []) w1 = Return (Entity res, w')"
    by (rule with_context_Return)
  from deliver_Entity [OF d] assms(1) have "df_ListPlan ds (ToJson actx) 1000 0 [] w1 = Return ((res, None), w')"
    by (simp add: client_of_def rpc_Inr)
  from df_ListPlan_result [OF this] obtain ps s where
    "ListPlan (ds_ops ds) (utf8_context actx) 1000 0 (StringMap []) (sv_db w1) = Return (Inr ps, s)"
    and "fst (rs_Body res) = map planModel2Resp ps"
    unfolding decoded_context by blast
  with that [OF auth] show ?thesis by blast
qed

context mgo_store begin

lemma ListPlan_all:
  assumes "ListPlan ops ctx limit 0 (StringMap []) s = Return (Inr ps, s')" and "limit > 0"
  shows "ps = [] \<or> map (\<lambda>p. p\<lparr>pln_PolicyName := []\<rparr>) ps =
    map (\<lambda>d. (dec_Plan d)\<lparr>pln_PolicyName := []\<rparr>) (take (nat limit) (docs s CollPlan))"
proof -
  let ?all = "op_All ops CollPlan (Match []) 0 limit s"
  obtain r t where all: "?all = (r, t)" by (cases ?all)
  with assms have rest: "(case r of Inl e \<Rightarrow> ret (Inr []) | Inr ds \<Rightarrow> resolve_policies ops (map dec_Plan ds)) t = Return (Inr ps, s')"
    by (simp add: ListPlan_def doListPlan_def string_query_def Let_def call_def liftS_def)
  show ?thesis
  proof (cases r)
    case (Inl e)
    with rest show ?thesis by (simp add: ret_def)
  next
    case (Inr ds)
    have every: "List.filter (matches (Match [])) xs = xs" for xs by (induction xs) simp_all
    from All_ok [OF all [unfolded Inr]] assms(2) have "ds = take (nat limit) (docs s CollPlan)"
      by (simp add: page_def every)
    with rest Inr resolve_policies_result [of "map dec_Plan ds" t "Inr ps" s'] show ?thesis
      by (simp add: comp_def)
  qed
qed

end

section \<open>A gateway on a database in memory\<close>

definition sample_server :: "mem df_server" where
  "sample_server = \<lparr>ds_ops = mem_ops, ds_valid = (\<lambda>_. True), ds_fuel = 3, ds_UpdateMap = (\<lambda>_. Inl ''no body''),
     ds_DriverText = (\<lambda>_. ''driver error'')\<rparr>"

definition sample_api :: "mem world backend_client \<Rightarrow> mem world api" where
  "sample_api backends = \<lparr>ap_Authorize = (\<lambda>q a. ret True), ap_dataflow = client_of sample_server,
     ap_backend = backends, ap_ReadPolicy = (\<lambda>_. None), ap_ReadPlan = (\<lambda>_. None), ap_ReadBackend = (\<lambda>_. None),
     ap_ReadUpdate = (\<lambda>_ _. None)\<rparr>"

definition raw_request :: request where
  "raw_request = \<lparr>req_attributes = [], req_path = [(''tenantId'', ''t1''), (''id'', sample_id2)], req_token = []\<rparr>"

definition filtered_request :: http_request where
  "filtered_request = \<lparr>req_attributes = [(KContext, AFilterContext
       \<lparr>fc_TenantId = ''t1'', fc_IsAdmin = False, fc_UserId = ''userId''\<rparr>)],
     req_path = [(''tenantId'', ''t1''), (''id'', sample_id2)], req_token = [], hr_headers = [], hr_query = [],
     hr_body = whole [], hr_ContentLength = 0\<rparr>"

lemma filtered: "fst (auth_FilterFactory ''noauth'' (\<lambda>s _. (sample_answer, s)) (\<lambda>s. s) 0 (context_Filter raw_request) ()) =
    Return (Pass (request.truncate filtered_request))"
  by (simp add: auth_FilterFactory_def NoAuth_Filter_def context_Filter_def SetAttribute_def raw_request_def
      filtered_request_def KContext_def filter_NewContext_def NoAuthAdminTenantId_def request.truncate_def insert_key_def Let_def)

lemma sample_api_parts: "ap_dataflow (sample_api be) = client_of sample_server"
    "policy_keeps_db (sample_api be)"
    "mgo_store (ds_ops sample_server) mem_docs mem_keys m_clock"
  by (simp_all add: sample_api_def sample_server_def policy_keeps_db_def ret_def mem.mgo_store_axioms)

definition is_entity :: "'b api_answer \<Rightarrow> bool" where
  "is_entity r = (case r of Entity _ \<Rightarrow> True | _ \<Rightarrow> False)"

lemma entity_run:
  assumes "case run of Return (r, _) \<Rightarrow> is_entity r | _ \<Rightarrow> False"
  obtains res w' where "run = Return (Entity res, w')"
  using assms by (auto simp: is_entity_def split: go.splits api_answer.splits)

text \<open>
  C6. Whose plans a caller can read: a plan that is answered belongs to the tenant that the filters
  give the request. Without authentication that is the tenant in the path, whoever asks; with Keystone
  it is always the tenant \<open>tenantId\<close>, whatever the path and the token say (a tenant that is not UTF-8
  reaches the service as \<open>to_utf8\<close> makes it). (The zero plan is the
  answer when the database failed.)
\<close>

theorem plan_read_tenant:
  assumes "mgo_store (ds_ops ds) docs keys clock" and "ap_dataflow ap = client_of ds"
    and "policy_keeps_db ap"
    and "fst (auth_FilterFactory strategy tokens_Get SetUp now (context_Filter r) t) = Return (Pass (request.truncate req))"
    and "api_GetPlan ap req w = Return (Entity res, w')"
  shows "\<exists>p. rs_Body res = Some (planModel2Resp p) \<and> (p = dec_Plan [] \<or> (\<exists>d \<in> set (docs (sv_db w) CollPlan).
    lookup d ''_id'' = Some (BId (ToLower (PathParameter req ''id''))) \<and>
    lookup d ''tenantId'' = Some (BString (to_utf8 (served_tenant strategy (req_path r)))) \<and>
    p\<lparr>pln_PolicyName := []\<rparr> = (dec_Plan d)\<lparr>pln_PolicyName := []\<rparr>))"
proof -
  from assms(2,5) obtain actx w1 p s where auth: "ap_Authorize ap req ''plan:get'' w = Return (True, w1)"
    and ctx: "lookup (req_attributes req) KContext = Some (AFilterContext actx)"
    and get: "GetPlan (ds_ops ds) (utf8_context actx) (PathParameter req ''id'') (sv_db w1) = Return (Inr p, s)"
    and body: "rs_Body res = Some (planModel2Resp p)"
    by (rule api_GetPlan_result)
  have "fc_TenantId (utf8_context actx) = to_utf8 (served_tenant strategy (req_path r))"
    using filters_context [OF assms(4)] ctx by (simp add: utf8_context_def)
  with mgo_store.GetPlan_steps [OF assms(1) get] body policy_keeps_dbD [OF assms(3) auth] show ?thesis by auto
qed

theorem plan_read_tenant_witness:
  "\<forall>be. \<exists>res w' p. api_GetPlan (sample_api be) filtered_request sample_service = Return (Entity res, w') \<and>
     rs_Body res = Some (planModel2Resp p) \<and> (p = dec_Plan [] \<or> pln_TenantId p = ''t1'')"
proof
  fix be
  let ?run = "api_GetPlan (sample_api be) filtered_request sample_service"
  have "case ?run of Return (r, _) \<Rightarrow> is_entity r | _ \<Rightarrow> False" by code_simp
  then obtain res w' where run: "?run = Return (Entity res, w')" by (rule entity_run)
  have "to_utf8 ''t1'' = ''t1''" by code_simp
  then have "to_utf8 (served_tenant ''noauth'' (req_path raw_request)) = ''t1''"
    by (simp add: served_tenant_def raw_request_def del: to_utf8_eqs)
  with plan_read_tenant [OF sample_api_parts(3,1,2) filtered run] obtain p d where
    body: "rs_Body res = Some (planModel2Resp p)"
    and p: "p = dec_Plan [] \<or> lookup d ''tenantId'' = Some (BString ''t1'') \<and>
      p\<lparr>pln_PolicyName := []\<rparr> = (dec_Plan d)\<lparr>pln_PolicyName := []\<rparr>"
    by auto
  have "pln_TenantId p = ''t1''"
    if "lookup d ''tenantId'' = Some (BString ''t1'')" "p\<lparr>pln_PolicyName := []\<rparr> = (dec_Plan d)\<lparr>pln_PolicyName := []\<rparr>"
    using arg_cong [OF that(2), of pln_TenantId] that(1) by (simp add: dec_Plan_def get_string_def)
  with p body run show "\<exists>res w' p. ?run = Return (Entity res, w') \<and>
      rs_Body res = Some (planModel2Resp p) \<and> (p = dec_Plan [] \<or> pln_TenantId p = ''t1'')" by blast
qed

text \<open>
  Listing plans is not confined to a tenant: a request without query parameters is answered with
  the first thousand stored plans, whichever tenants they belong to (or with none when the database
  failed).
\<close>

theorem plan_listing_shows_all_tenants:
  assumes "mgo_store (ds_ops ds) docs keys clock" and "ap_dataflow ap = client_of ds"
    and "policy_keeps_db ap"
    and "\<And>k. QueryParameter req k = []"
    and "api_ListPlan ap req w = Return (Entity res, w')"
  shows "fst (rs_Body res) = [] \<or> map (\<lambda>m. m\<lparr>plm_PolicyName := []\<rparr>) (fst (rs_Body res)) =
    map (\<lambda>d. (planModel2Resp (dec_Plan d))\<lparr>plm_PolicyName := []\<rparr>) (take 1000 (docs (sv_db w) CollPlan))"
proof -
  from assms(2,5,4) obtain actx w1 ps s where auth: "ap_Authorize ap req ''plan:list'' w = Return (True, w1)"
    and list: "ListPlan (ds_ops ds) (utf8_context actx) 1000 0 (StringMap []) (sv_db w1) = Return (Inr ps, s)"
    and body: "fst (rs_Body res) = map planModel2Resp ps"
    by (rule api_ListPlan_result)
  have forget: "(planModel2Resp p)\<lparr>plm_PolicyName := []\<rparr> = planModel2Resp (p\<lparr>pln_PolicyName := []\<rparr>)" for p
    by (simp add: planModel2Resp_def)
  consider "ps = []" | "map (\<lambda>p. p\<lparr>pln_PolicyName := []\<rparr>) ps =
      map (\<lambda>d. (dec_Plan d)\<lparr>pln_PolicyName := []\<rparr>) (take 1000 (docs (sv_db w) CollPlan))"
    using mgo_store.ListPlan_all [OF assms(1) list] policy_keeps_dbD [OF assms(3) auth] by auto
  then show ?thesis
  proof cases
    case 2
    then have "map planModel2Resp (map (\<lambda>p. p\<lparr>pln_PolicyName := []\<rparr>) ps) =
        map planModel2Resp (map (\<lambda>d. (dec_Plan d)\<lparr>pln_PolicyName := []\<rparr>) (take 1000 (docs (sv_db w) CollPlan)))"
      by (rule arg_cong)
    then show ?thesis by (simp add: body forget comp_def)
  qed (simp add: body)
qed

definition sample_plan2 :: Plan where
  "sample_plan2 = (dec_Plan [])\<lparr>pln_Name := ''p2'', pln_TenantId := ''t2'', pln_Id := sample_id\<rparr>"

definition two_tenants :: "mem world" where
  "two_tenants = sample_service\<lparr>sv_db := mem_put CollPlan [enc_Plan sample_plan, enc_Plan sample_plan2] sample_world\<rparr>"

theorem plan_listing_shows_all_tenants_witness:
  "\<forall>be. \<exists>res w'. api_ListPlan (sample_api be) filtered_request two_tenants = Return (Entity res, w') \<and>
     (fst (rs_Body res) = [] \<or> map plm_TenantId (fst (rs_Body res)) = [''t1'', ''t2''])"
proof
  fix be
  let ?run = "api_ListPlan (sample_api be) filtered_request two_tenants"
  have "case ?run of Return (r, _) \<Rightarrow> is_entity r | _ \<Rightarrow> False" by code_simp
  then obtain res w' where run: "?run = Return (Entity res, w')" by (rule entity_run)
  have docs: "mem_docs (sv_db two_tenants) CollPlan = [enc_Plan sample_plan, enc_Plan sample_plan2]"
    by (simp add: two_tenants_def)
  have "QueryParameter filtered_request k = []" for k by (simp add: QueryParameter_def filtered_request_def)
  from plan_listing_shows_all_tenants [OF sample_api_parts(3,1,2) this run]
  have "fst (rs_Body res) = [] \<or> map (\<lambda>m. m\<lparr>plm_PolicyName := []\<rparr>) (fst (rs_Body res)) =
      map (\<lambda>p. (planModel2Resp p)\<lparr>plm_PolicyName := []\<rparr>) [sample_plan, sample_plan2]" by (simp add: docs)
  moreover have "map plm_TenantId ms = [''t1'', ''t2'']"
    if "map (\<lambda>m. m\<lparr>plm_PolicyName := []\<rparr>) ms = map (\<lambda>p. (planModel2Resp p)\<lparr>plm_PolicyName := []\<rparr>) [sample_plan, sample_plan2]" for ms
    using arg_cong [OF that, of "map plm_TenantId"]
    by (simp add: comp_def planModel2Resp_def sample_plan_def sample_plan2_def)
  ultimately show "\<exists>res w'. ?run = Return (Entity res, w') \<and>
      (fst (rs_Body res) = [] \<or> map plm_TenantId (fst (rs_Body res)) = [''t1'', ''t2''])" using run by blast
qed

section \<open>Creating a plan and reading it\<close>

lemma withTrigger_plans:
  assumes "mgo_store ops docs keys clock" and "withTrigger ops ctx plan act w = Return (r, w')"
  shows "docs (sv_db w') = docs (sv_db w)"
proof -
  have read: "docs s' = docs s" if "GetPolicy ops ctx i s = Return (x, s')" for i s x s'
    using that mgo_store.One_docs [OF assms(1)]
    by (auto simp: GetPolicy_def lift_go_def liftS_def ObjectIdHex_def elim!: call_ReturnE split: if_splits)
  from assms(2) show ?thesis
    by (auto simp: withTrigger_def onCron_def onDb_Return_iff Let_def dest!: read elim!: call_ReturnE
        split: if_splits sum.splits option.splits prod.splits)
qed

lemma df_CreatePlan_result:
  assumes "mgo_store (ds_ops ds) docs keys clock"
    and "df_CreatePlan ds c (Some m) w = Return ((out, None), w')"
  obtains p plan s where "CreatePlan (ds_ops ds) (NewContextFromJson c) plan (sv_db w) = Return (Inr p, s)"
    and "docs (sv_db w') = docs s" and "rs_Body out = Some (planModel2Resp p)"
proof -
  from assms(2) obtain plan p where create: "Plan_Create (ds_ops ds) (ds_valid ds) (NewContextFromJson c) plan w = Return (Inr p, w')"
    and body: "rs_Body out = Some (planModel2Resp p)"
    by (auto simp: df_CreatePlan_def lift_go_def refuse_def respond_def Let_def elim!: call_ReturnE
        split: option.splits sum.splits if_splits go.splits)
  from create obtain plan' where "call (onDb (CreatePlan (ds_ops ds) (NewContextFromJson c) plan')) (\<lambda>r.
           case r of
             Inl err \<Rightarrow> ret (Inl err)
           | Inr plan \<Rightarrow>
               (if pln_PolicyId plan \<noteq> [] \<and> pln_PolicyEnabled plan then
                  call (Manager_Add (ds_ops ds) (ds_valid ds) (NewContextFromJson c) plan (NewPlanExecutor (NewContextFromJson c) plan)) (\<lambda>err.
                    ret (case err of Some e \<Rightarrow> Inl e | None \<Rightarrow> Inr plan))
                else ret (Inr plan))) w = Return (Inr p, w')"
    by (auto simp: Plan_Create_def Let_def split: if_splits)
  then obtain q w1 where made: "onDb (CreatePlan (ds_ops ds) (NewContextFromJson c) plan') w = Return (Inr q, w1)"
    and rest: "(if pln_PolicyId q \<noteq> [] \<and> pln_PolicyEnabled q then
                  call (Manager_Add (ds_ops ds) (ds_valid ds) (NewContextFromJson c) q (NewPlanExecutor (NewContextFromJson c) q)) (\<lambda>err.
                    ret (case err of Some e \<Rightarrow> Inl e | None \<Rightarrow> Inr q))
                else ret (Inr q)) w1 = Return (Inr p, w')"
    by (auto elim!: call_ReturnE split: sum.splits)
  from rest have "q = p" and same: "docs (sv_db w') = docs (sv_db w1)"
    by (auto simp: Manager_Add_def elim!: call_ReturnE split: if_splits option.splits dest: withTrigger_plans [OF assms(1)])
  from made obtain s where "CreatePlan (ds_ops ds) (NewContextFromJson c) plan' (sv_db w) = Return (Inr q, s)" "sv_db w1 = s"
    by (auto simp: onDb_Return_iff)
  with that [of plan' p s] \<open>q = p\<close> same body show ?thesis by simp
qed

context mgo_store begin

lemma GetPlan_finds:
  assumes "d \<in> set (docs s CollPlan)" and "lookup d ''_id'' = Some (BId (ToLower i))"
    and "lookup d ''tenantId'' = Some (BString (fc_TenantId ctx))"
    and "GetPlan ops ctx i s = Return (Inl e, s')"
  shows "e = ERR_DB_ERR"
proof -
  let ?q = "Match [(''_id'', BId (ToLower i)), (''tenantId'', BString (fc_TenantId ctx))]"
  obtain found s1 where one: "op_One ops CollPlan ?q s = (found, s1)" by (cases "op_One ops CollPlan ?q s")
  have "matches ?q d" using assms(2,3) by (simp add: field_simps)
  with assms(1) have "List.find (matches ?q) (docs s CollPlan) \<noteq> None" by (auto simp: find_None_iff)
  with one have "found \<noteq> Inl ErrNotFound" using One_NotFound [of CollPlan ?q s s1] by auto
  with assms(4) one obtain p where "resolve_policy ops p s1 = Return (Inl e, s')"
    by (cases found) (auto simp: GetPlan_def call_Return_iff lift_go_def liftS_def ObjectIdHex_Return)
  from resolve_policy_result [OF this] show ?thesis by simp
qed

end

lemma df_GetPlan_error:
  assumes "df_GetPlan ds c i w = Return ((out, Some e), w')" and "i \<noteq> []"
  obtains s where "GetPlan (ds_ops ds) (NewContextFromJson c) i (sv_db w) = Return (Inl e, s)"
  using assms
  by (auto simp: df_GetPlan_def Plan_Get_def refuse_def respond_def onDb_Return_iff elim!: call_ReturnE
      split: if_splits sum.splits)

text \<open>
  C12. A created plan can be read: when the service has answered the creation of a plan, a later
  request of the same caller for the id in the answer gets the plan of the answer (with its policy's
  name filled in) or an error of the database, but never that there is no such plan, as long as the
  stored plans have not changed. (The zero plan is an answer when the database failed.)
\<close>

theorem created_plan_is_read_back:
  assumes "mgo_store (ds_ops ds) docs keys clock" and "''_id'' \<in> set (keys CollPlan)"
    and "df_CreatePlan ds c (Some m) w = Return ((out, None), w1)" and "rs_Body out = Some pm"
    and "docs (sv_db t) CollPlan = docs (sv_db w1) CollPlan"
    and "df_GetPlan ds c (plm_Id pm) t = Return ((out', err), t')"
    and "ToLower (plm_Id pm) = plm_Id pm" and "plm_Id pm \<noteq> []"
  shows "case err of
      None \<Rightarrow> \<exists>pm'. rs_Body out' = Some pm' \<and> (pm' = planModel2Resp (dec_Plan []) \<or>
        pm'\<lparr>plm_PolicyName := []\<rparr> = pm\<lparr>plm_PolicyName := []\<rparr>)
    | Some e \<Rightarrow> e = ERR_DB_ERR"
proof -
  note store = assms(1)
  from df_CreatePlan_result [OF store assms(3)] obtain p plan s where
    create: "CreatePlan (ds_ops ds) (NewContextFromJson c) plan (sv_db w) = Return (Inr p, s)"
    and now: "docs (sv_db w1) = docs s" and body1: "rs_Body out = Some (planModel2Resp p)" .
  from body1 assms(4) have pm: "pm = planModel2Resp p" by simp
  then have i: "plm_Id pm = pln_Id p" "pln_Id p \<noteq> []" using assms(8) by (simp_all add: planModel2Resp_def)
  note made = mgo_store.CreatePlan_steps [OF store create]
  have plans: "docs (sv_db t) CollPlan = docs (sv_db w) CollPlan @ [enc_Plan p]"
    using made assms(5) now by simp
  have key: "lookup (enc_Plan p) ''_id'' = Some (BId (pln_Id p))" using i by (simp add: enc_Plan_def enc_id_def)
  show ?thesis
  proof (cases err)
    case (Some e)
    from assms(6) [unfolded Some] assms(8) obtain u where
      "GetPlan (ds_ops ds) (NewContextFromJson c) (plm_Id pm) (sv_db t) = Return (Inl e, u)"
      by (rule df_GetPlan_error)
    note missed = this
    have tenant: "lookup (enc_Plan p) ''tenantId'' = Some (BString (fc_TenantId (NewContextFromJson c)))"
      using made by (auto simp: enc_Plan_def enc_id_def)
    have "enc_Plan p \<in> set (docs (sv_db t) CollPlan)" using plans by simp
    from mgo_store.GetPlan_finds [OF store this _ tenant missed] key assms(7) i Some show ?thesis by simp
  next
    case None
    from df_GetPlan_result [OF assms(6) [unfolded None]] obtain q u where
      get: "GetPlan (ds_ops ds) (NewContextFromJson c) (plm_Id pm) (sv_db t) = Return (Inr q, u)"
      and body: "rs_Body out' = Some (planModel2Resp q)" .
    have old: "lookup d ''_id'' \<noteq> Some (BId (pln_Id p))" if "d \<in> set (docs (sv_db w) CollPlan)" for d
      using conflict_free [OF _ assms(2) key] made that by blast
    from mgo_store.GetPlan_steps [OF store get] have "q = dec_Plan [] \<or> q\<lparr>pln_PolicyName := []\<rparr> = p\<lparr>pln_PolicyName := []\<rparr>"
      using plans old assms(7) i by auto
    moreover have "(planModel2Resp q)\<lparr>plm_PolicyName := []\<rparr> = pm\<lparr>plm_PolicyName := []\<rparr>"
      if "q\<lparr>pln_PolicyName := []\<rparr> = p\<lparr>pln_PolicyName := []\<rparr>"
      using arg_cong [OF that, of planModel2Resp] by (simp add: pm planModel2Resp_def)
    ultimately show ?thesis using body None by auto
  qed
qed

definition plan_request :: PlanMsg where
  "plan_request = \<lparr>plm_Id = [], plm_Name = ''p9'', plm_Description = [], plm_Type = ''migration'', plm_PolicyId = [],
     plm_PolicyName = [], plm_SourceConn = Some \<lparr>conn_StorType = STOR_TYPE_OPENSDS, conn_BucketName = ''b1'', conn_ConnConfig = []\<rparr>,
     plm_DestConn = Some \<lparr>conn_StorType = STOR_TYPE_OPENSDS, conn_BucketName = ''b2'', conn_ConnConfig = []\<rparr>,
     plm_Filter = None, plm_RemainSource = True, plm_TenantId = [], plm_UserId = [], plm_PolicyEnabled = False,
     plm_Asist = Some \<lparr>asi_Type = [], asi_Details = []\<rparr>\<rparr>"

definition fresh_service :: "mem world" where
  "fresh_service = sample_service\<lparr>sv_db := \<lparr>m_docs = [], m_clock = 100, m_ids = [sample_id]\<rparr>\<rparr>"

theorem created_plan_is_read_back_witness:
  "\<exists>out w1 pm out' t'. df_CreatePlan sample_server (ToJson sample_ctx) (Some plan_request) fresh_service = Return ((out, None), w1) \<and>
     rs_Body out = Some pm \<and>
     df_GetPlan sample_server (ToJson sample_ctx) (plm_Id pm) w1 = Return ((out', None), t') \<and>
     (\<exists>pm'. rs_Body out' = Some pm' \<and> (pm' = planModel2Resp (dec_Plan []) \<or>
       pm'\<lparr>plm_PolicyName := []\<rparr> = pm\<lparr>plm_PolicyName := []\<rparr>))"
proof -
  let ?create = "df_CreatePlan sample_server (ToJson sample_ctx) (Some plan_request) fresh_service"
  let ?get = "df_GetPlan sample_server (ToJson sample_ctx) sample_id"
  have "case ?create of
      Return (r, s) \<Rightarrow> (snd r = None \<and> map_option plm_Id (rs_Body (fst r)) = Some sample_id) \<and>
        (case ?get s of Return (r, _) \<Rightarrow> snd r = None | _ \<Rightarrow> False)
    | _ \<Rightarrow> False" by code_simp
  from two_runs [where P = "\<lambda>r. snd r = None \<and> map_option plm_Id (rs_Body (fst r)) = Some sample_id" and
      Q = "\<lambda>r. snd r = None", OF this]
  obtain out w1 pm out' t' where made: "?create = Return ((out, None), w1)" and pm: "rs_Body out = Some pm"
    and i: "plm_Id pm = sample_id" and got: "?get w1 = Return ((out', None), t')"
    by (auto simp: prod_eq_iff)
  have "''_id'' \<in> set (mem_keys CollPlan)" "ToLower sample_id = sample_id" "sample_id \<noteq> []" by code_simp+
  with created_plan_is_read_back [OF sample_api_parts(3) _ made pm refl got [folded i]] i made pm got
  show ?thesis by auto
qed

end
