(* ===== verification/Datamover_Service.thy ===== *)
theory Datamover_Service
  imports Go_Json Datamover_Job
begin

text \<open>
  The way of a job from the dataflow service to the data mover: \<open>sendJob\<close> of
  \<open>dataflow/pkg/plan/plan.go\<close> writes the request as JSON, Kafka delivers it at least once, and
  \<open>datamover/pkg/kafka/consumer.go\<close> hands it to \<open>HandleMsg\<close>, which reads it back and starts the job
  when it is pending. Kafka's client is a parameter; the goroutine of a started job is \<open>runjob\<close>.
\<close>

section \<open>The message\<close>

text \<open>
  The struct \<open>RunJobRequest\<close> with its pointers. What the dataflow service sends has none that is nil,
  which is the record \<open>RunJobRequest\<close>.
\<close>

record WireConn =
  wc_Type :: string
  wc_BucketName :: string
  wc_ConnConfig :: "KeyValue option list"

record WireFilter =
  wf_Prefix :: string
  wf_Tag :: "KeyValue option list"

record WireAsist =
  wa_Type :: string
  wa_Details :: "KeyValue option list"

record RunJobMsg =
  rm_Id :: string
  rm_SourceConn :: "WireConn option"
  rm_DestConn :: "WireConn option"
  rm_Filt :: "WireFilter option"
  rm_RemainSource :: bool
  rm_Asist :: "WireAsist option"

definition zero_KeyValue :: KeyValue where "zero_KeyValue = \<lparr>kv_Key = [], kv_Value = []\<rparr>"
definition zero_WireConn :: WireConn where "zero_WireConn = \<lparr>wc_Type = [], wc_BucketName = [], wc_ConnConfig = []\<rparr>"
definition zero_WireFilter :: WireFilter where "zero_WireFilter = \<lparr>wf_Prefix = [], wf_Tag = []\<rparr>"
definition zero_WireAsist :: WireAsist where "zero_WireAsist = \<lparr>wa_Type = [], wa_Details = []\<rparr>"
definition zero_RunJobMsg :: RunJobMsg where
  "zero_RunJobMsg = \<lparr>rm_Id = [], rm_SourceConn = None, rm_DestConn = None, rm_Filt = None, rm_RemainSource = False,
     rm_Asist = None\<rparr>"

definition message_of :: "RunJobRequest \<Rightarrow> RunJobMsg" where
  "message_of req =
     (let conn = \<lambda>c. Some \<lparr>wc_Type = cm_Type c, wc_BucketName = cm_BucketName c, wc_ConnConfig = map Some (cm_ConnConfig c)\<rparr>
      in \<lparr>rm_Id = rj_Id req, rm_SourceConn = conn (rj_SourceConn req), rm_DestConn = conn (rj_DestConn req),
          rm_Filt = Some \<lparr>wf_Prefix = rj_FiltPrefix req, wf_Tag = []\<rparr>, rm_RemainSource = rj_RemainSource req,
          rm_Asist = Some \<lparr>wa_Type = asi_Type (rj_Asist req), wa_Details = map Some (asi_Details (rj_Asist req))\<rparr>\<rparr>)"

section \<open>Writing a request\<close>

text \<open>Empty strings, empty slices and false are omitted; a pointer that is not nil never is.\<close>

definition omit_string :: "string \<Rightarrow> string \<Rightarrow> (string \<times> json) list" where
  "omit_string k s = (if s = [] then [] else [(k, JStr s)])"

definition omit_slice :: "string \<Rightarrow> json list \<Rightarrow> (string \<times> json) list" where
  "omit_slice k vs = (if vs = [] then [] else [(k, JArr vs)])"

definition kv_json :: "KeyValue \<Rightarrow> json" where
  "kv_json kv = JObj (omit_string ''key'' (kv_Key kv) @ omit_string ''value'' (kv_Value kv))"

definition conn_json :: "ConnMsg \<Rightarrow> json" where
  "conn_json c = JObj (omit_string ''Type'' (cm_Type c) @ omit_string ''BucketName'' (cm_BucketName c) @
     omit_slice ''ConnConfig'' (map kv_json (cm_ConnConfig c)))"

definition asist_json :: "AsistInfo \<Rightarrow> json" where
  "asist_json a = JObj (omit_string ''type'' (asi_Type a) @ omit_slice ''details'' (map kv_json (asi_Details a)))"

definition request_json :: "RunJobRequest \<Rightarrow> json" where
  "request_json req = JObj (omit_string ''id'' (rj_Id req) @
     [(''sourceConn'', conn_json (rj_SourceConn req)), (''destConn'', conn_json (rj_DestConn req)),
      (''filt'', JObj (omit_string ''prefix'' (rj_FiltPrefix req)))] @
     (if rj_RemainSource req then [(''remainSource'', JBool True)] else []) @
     [(''asist'', asist_json (rj_Asist req))])"

definition Marshal_request :: "RunJobRequest \<Rightarrow> string" where
  "Marshal_request req = json_text (request_json req)"

section \<open>Reading a message\<close>

text \<open>
  \<open>json.Unmarshal\<close> into a struct: members are matched to fields without regard to the case of ASCII
  letters, unknown ones are skipped, \<open>null\<close> makes a pointer or a slice nil and leaves everything else
  alone, an object decodes into what a pointer points to, an array into the elements already there. A
  value of another type is an error, with which the message is not used.
\<close>

fun set_string :: "string \<Rightarrow> json \<Rightarrow> string option" where
  "set_string old (JStr s) = Some s"
| "set_string old JNull = Some old"
| "set_string old _ = None"

fun set_bool :: "bool \<Rightarrow> json \<Rightarrow> bool option" where
  "set_bool old (JBool b) = Some b"
| "set_bool old JNull = Some old"
| "set_bool old _ = None"

fun set_members :: "('a \<Rightarrow> string \<Rightarrow> json \<Rightarrow> 'a option) \<Rightarrow> 'a \<Rightarrow> (string \<times> json) list \<Rightarrow> 'a option" where
  "set_members f a [] = Some a"
| "set_members f a ((k, v) # ms) = Option.bind (f a (ToLower k) v) (\<lambda>a. set_members f a ms)"

definition set_pointer :: "'a \<Rightarrow> ('a \<Rightarrow> string \<Rightarrow> json \<Rightarrow> 'a option) \<Rightarrow> 'a option \<Rightarrow> json \<Rightarrow> 'a option option" where
  "set_pointer zero f old v =
     (case v of
        JNull \<Rightarrow> Some None
      | JObj ms \<Rightarrow> map_option Some (set_members f (case old of None \<Rightarrow> zero | Some a \<Rightarrow> a) ms)
      | _ \<Rightarrow> None)"

fun set_elements :: "('a option \<Rightarrow> json \<Rightarrow> 'a option option) \<Rightarrow> 'a option list \<Rightarrow> json list \<Rightarrow> 'a option list option" where
  "set_elements f olds [] = Some []"
| "set_elements f [] (v # vs) = Option.bind (f None v) (\<lambda>a. map_option (\<lambda>as. a # as) (set_elements f [] vs))"
| "set_elements f (old # olds) (v # vs) =
     Option.bind (f old v) (\<lambda>a. map_option (\<lambda>as. a # as) (set_elements f olds vs))"

definition set_slice :: "('a option \<Rightarrow> json \<Rightarrow> 'a option option) \<Rightarrow> 'a option list \<Rightarrow> json \<Rightarrow> 'a option list option" where
  "set_slice f olds v = (case v of JNull \<Rightarrow> Some [] | JArr vs \<Rightarrow> set_elements f olds vs | _ \<Rightarrow> None)"

definition set_kv :: "KeyValue \<Rightarrow> string \<Rightarrow> json \<Rightarrow> KeyValue option" where
  "set_kv kv k v =
     (if k = ''key'' then map_option (\<lambda>s. kv\<lparr>kv_Key := s\<rparr>) (set_string (kv_Key kv) v)
      else if k = ''value'' then map_option (\<lambda>s. kv\<lparr>kv_Value := s\<rparr>) (set_string (kv_Value kv) v)
      else Some kv)"

definition set_kvs :: "KeyValue option list \<Rightarrow> json \<Rightarrow> KeyValue option list option" where
  "set_kvs = set_slice (set_pointer zero_KeyValue set_kv)"

definition set_conn :: "WireConn \<Rightarrow> string \<Rightarrow> json \<Rightarrow> WireConn option" where
  "set_conn c k v =
     (if k = ''type'' then map_option (\<lambda>s. c\<lparr>wc_Type := s\<rparr>) (set_string (wc_Type c) v)
      else if k = ''bucketname'' then map_option (\<lambda>s. c\<lparr>wc_BucketName := s\<rparr>) (set_string (wc_BucketName c) v)
      else if k = ''connconfig'' then map_option (\<lambda>l. c\<lparr>wc_ConnConfig := l\<rparr>) (set_kvs (wc_ConnConfig c) v)
      else Some c)"

definition set_filter :: "WireFilter \<Rightarrow> string \<Rightarrow> json \<Rightarrow> WireFilter option" where
  "set_filter f k v =
     (if k = ''prefix'' then map_option (\<lambda>s. f\<lparr>wf_Prefix := s\<rparr>) (set_string (wf_Prefix f) v)
      else if k = ''tag'' then map_option (\<lambda>l. f\<lparr>wf_Tag := l\<rparr>) (set_kvs (wf_Tag f) v)
      else Some f)"

definition set_asistance :: "WireAsist \<Rightarrow> string \<Rightarrow> json \<Rightarrow> WireAsist option" where
  "set_asistance a k v =
     (if k = ''type'' then map_option (\<lambda>s. a\<lparr>wa_Type := s\<rparr>) (set_string (wa_Type a) v)
      else if k = ''details'' then map_option (\<lambda>l. a\<lparr>wa_Details := l\<rparr>) (set_kvs (wa_Details a) v)
      else Some a)"

definition set_request :: "RunJobMsg \<Rightarrow> string \<Rightarrow> json \<Rightarrow> RunJobMsg option" where
  "set_request m k v =
     (if k = ''id'' then map_option (\<lambda>s. m\<lparr>rm_Id := s\<rparr>) (set_string (rm_Id m) v)
      else if k = ''sourceconn'' then
        map_option (\<lambda>c. m\<lparr>rm_SourceConn := c\<rparr>) (set_pointer zero_WireConn set_conn (rm_SourceConn m) v)
      else if k = ''destconn'' then
        map_option (\<lambda>c. m\<lparr>rm_DestConn := c\<rparr>) (set_pointer zero_WireConn set_conn (rm_DestConn m) v)
      else if k = ''filt'' then
        map_option (\<lambda>f. m\<lparr>rm_Filt := f\<rparr>) (set_pointer zero_WireFilter set_filter (rm_Filt m) v)
      else if k = ''remainsource'' then map_option (\<lambda>b. m\<lparr>rm_RemainSource := b\<rparr>) (set_bool (rm_RemainSource m) v)
      else if k = ''asist'' then
        map_option (\<lambda>a. m\<lparr>rm_Asist := a\<rparr>) (set_pointer zero_WireAsist set_asistance (rm_Asist m) v)
      else Some m)"

definition Unmarshal_request :: "string \<Rightarrow> RunJobMsg option" where
  "Unmarshal_request s =
     (case json_decode s of
        Some (JObj ms) \<Rightarrow> set_members set_request zero_RunJobMsg ms
      | Some JNull \<Rightarrow> Some zero_RunJobMsg
      | _ \<Rightarrow> None)"

section \<open>The consumer\<close>

definition HandleMsg :: "'s mgo_ops \<Rightarrow> string \<Rightarrow> ('s, string + RunJobMsg) prog" where
  "HandleMsg ops msgData =
     (case Unmarshal_request msgData of
        None \<Rightarrow> ret (Inl ''Unmarshal failed'')
      | Some job \<Rightarrow>
          call (GetJobStatus ops (rm_Id job)) (\<lambda>status.
            ret (if status \<noteq> JOB_STATUS_PENDING then Inl ''Job already running.'' else Inr job)))"

text \<open>
  A message that is received: whether its offset is marked as consumed, and the job that is started.
  A message of another topic is marked.
\<close>

definition consume :: "'s mgo_ops \<Rightarrow> string \<times> string \<Rightarrow> ('s, bool \<times> RunJobMsg option) prog" where
  "consume ops msg =
     (if fst msg = ''migration'' then
        call (HandleMsg ops (snd msg)) (\<lambda>r.
          ret (case r of Inl err \<Rightarrow> (False, None) | Inr job \<Rightarrow> (True, Some job)))
      else ret (True, None))"

section \<open>Start-up\<close>

datatype broker_err = ErrOutOfBrokers | OtherBrokerErr string

text \<open>Connecting to Kafka, for the consumer as for the producer: a try, and ten more while no broker answers.\<close>

fun more_tries :: "nat \<Rightarrow> ('s, broker_err option) prog \<Rightarrow> ('s \<Rightarrow> 's) \<Rightarrow> broker_err option \<Rightarrow> ('s, broker_err option) prog" where
  "more_tries 0 connect sleep err = ret err"
| "more_tries (Suc left) connect sleep err =
     (if err = Some ErrOutOfBrokers then
        call (liftS (\<lambda>s. ((), sleep s))) (\<lambda>_. call connect (more_tries left connect sleep))
      else ret err)"

definition kafka_Init :: "('s, broker_err option) prog \<Rightarrow> ('s \<Rightarrow> 's) \<Rightarrow> ('s, broker_err option) prog" where
  "kafka_Init connect sleep = call connect (more_tries 10 connect sleep)"

text \<open>What \<open>InitDatamoverService\<close> returns, and whether the consuming loop was started.\<close>

definition mover_addr :: "string \<Rightarrow> string option" where
  "mover_addr c = (let addr = Split c ''//'' in if length addr \<noteq> 2 then None else Some (addr ! 1))"

definition InitDatamoverService :: "(string list \<Rightarrow> ('s, broker_err option) prog) \<Rightarrow> ('s \<Rightarrow> 's) \<Rightarrow> string \<Rightarrow>
    ('s, string option \<times> bool) prog" where
  "InitDatamoverService connect sleep listeners =
     call (kafka_Init (connect (List.map_filter mover_addr (Split listeners '';''))) sleep) (\<lambda>err.
       ret (None, err = None))"

end
