(* ===== verification/Datamover_Delivery.thy ===== *)
theory Datamover_Delivery
  imports Datamover_Service Dataflow_Plan_Correct
begin

text \<open>
  What the way from the dataflow service to the data mover guarantees: a request arrives as it was
  sent, the job of a run is started when its message is delivered, and again whenever the message is
  delivered before the job's status has changed.
\<close>

section \<open>The wire\<close>

definition utf8_kv :: "KeyValue \<Rightarrow> KeyValue" where
  "utf8_kv kv = \<lparr>kv_Key = to_utf8 (kv_Key kv), kv_Value = to_utf8 (kv_Value kv)\<rparr>"

definition utf8_conn :: "ConnMsg \<Rightarrow> ConnMsg" where
  "utf8_conn c = \<lparr>cm_Type = to_utf8 (cm_Type c), cm_BucketName = to_utf8 (cm_BucketName c),
     cm_ConnConfig = map utf8_kv (cm_ConnConfig c)\<rparr>"

definition utf8_request :: "RunJobRequest \<Rightarrow> RunJobRequest" where
  "utf8_request req = \<lparr>rj_Id = to_utf8 (rj_Id req), rj_FiltPrefix = to_utf8 (rj_FiltPrefix req),
     rj_SourceConn = utf8_conn (rj_SourceConn req), rj_DestConn = utf8_conn (rj_DestConn req),
     rj_RemainSource = rj_RemainSource req,
     rj_Asist = \<lparr>asi_Type = to_utf8 (asi_Type (rj_Asist req)), asi_Details = map utf8_kv (asi_Details (rj_Asist req))\<rparr>\<rparr>"

definition is_utf8_kv :: "KeyValue \<Rightarrow> bool" where
  "is_utf8_kv kv \<longleftrightarrow> is_utf8 (kv_Key kv) \<and> is_utf8 (kv_Value kv)"

definition is_utf8_conn :: "ConnMsg \<Rightarrow> bool" where
  "is_utf8_conn c \<longleftrightarrow> is_utf8 (cm_Type c) \<and> is_utf8 (cm_BucketName c) \<and> list_all is_utf8_kv (cm_ConnConfig c)"

definition is_utf8_request :: "RunJobRequest \<Rightarrow> bool" where
  "is_utf8_request req \<longleftrightarrow> is_utf8 (rj_Id req) \<and> is_utf8 (rj_FiltPrefix req) \<and> is_utf8_conn (rj_SourceConn req) \<and>
     is_utf8_conn (rj_DestConn req) \<and> is_utf8 (asi_Type (rj_Asist req)) \<and> list_all is_utf8_kv (asi_Details (rj_Asist req))"

lemma utf8_kvs_valid: "list_all is_utf8_kv kvs \<Longrightarrow> map utf8_kv kvs = kvs"
  by (induction kvs) (simp_all add: is_utf8_kv_def utf8_kv_def to_utf8_valid)

lemma utf8_request_valid: "is_utf8_request req \<Longrightarrow> utf8_request req = req"
  by (simp add: is_utf8_request_def utf8_request_def is_utf8_conn_def utf8_conn_def to_utf8_valid utf8_kvs_valid)

lemma wire_names:
  "to_utf8 ''key'' = ''key''" "to_utf8 ''value'' = ''value''" "to_utf8 ''Type'' = ''Type''"
  "to_utf8 ''BucketName'' = ''BucketName''" "to_utf8 ''ConnConfig'' = ''ConnConfig''" "to_utf8 ''type'' = ''type''"
  "to_utf8 ''details'' = ''details''" "to_utf8 ''id'' = ''id''" "to_utf8 ''sourceConn'' = ''sourceConn''"
  "to_utf8 ''destConn'' = ''destConn''" "to_utf8 ''filt'' = ''filt''" "to_utf8 ''prefix'' = ''prefix''"
  "to_utf8 ''remainSource'' = ''remainSource''" "to_utf8 ''asist'' = ''asist''"
  by code_simp+

lemma wire_fields:
  "ToLower ''key'' = ''key''" "ToLower ''value'' = ''value''" "ToLower ''Type'' = ''type''"
  "ToLower ''BucketName'' = ''bucketname''" "ToLower ''ConnConfig'' = ''connconfig''" "ToLower ''type'' = ''type''"
  "ToLower ''details'' = ''details''" "ToLower ''id'' = ''id''" "ToLower ''sourceConn'' = ''sourceconn''"
  "ToLower ''destConn'' = ''destconn''" "ToLower ''filt'' = ''filt''" "ToLower ''prefix'' = ''prefix''"
  "ToLower ''remainSource'' = ''remainsource''" "ToLower ''asist'' = ''asist''"
  by code_simp+

lemmas wire = wire_names wire_fields omit_string_def omit_slice_def

lemma set_elements_map:
  assumes "\<And>x. x \<in> set xs \<Longrightarrow> f None (g x) = Some (Some (h x))"
  shows "set_elements f [] (map g xs) = Some (map (\<lambda>x. Some (h x)) xs)"
  using assms by (induction xs) simp_all

lemma set_kv_wire: "set_pointer zero_KeyValue set_kv None (json_utf8 (kv_json kv)) = Some (Some (utf8_kv kv))"
  by (simp add: kv_json_def set_pointer_def zero_KeyValue_def set_kv_def utf8_kv_def wire del: to_utf8_eqs(2,3))

lemma set_kvs_wire: "set_kvs [] (JArr (map (\<lambda>x. json_utf8 (kv_json x)) kvs)) = Some (map (\<lambda>x. Some (utf8_kv x)) kvs)"
  unfolding set_kvs_def set_slice_def json.case by (rule set_elements_map) (rule set_kv_wire)

lemma set_conn_wire:
  "set_pointer zero_WireConn set_conn None (json_utf8 (conn_json c)) =
     Some (Some \<lparr>wc_Type = cm_Type (utf8_conn c), wc_BucketName = cm_BucketName (utf8_conn c),
       wc_ConnConfig = map Some (cm_ConnConfig (utf8_conn c))\<rparr>)"
  by (simp add: conn_json_def set_pointer_def zero_WireConn_def set_conn_def utf8_conn_def wire set_kvs_wire comp_def
      del: to_utf8_eqs(2,3))

lemma set_filter_wire:
  "set_pointer zero_WireFilter set_filter None (json_utf8 (JObj (omit_string ''prefix'' p))) =
     Some (Some \<lparr>wf_Prefix = to_utf8 p, wf_Tag = []\<rparr>)"
  by (simp add: set_pointer_def zero_WireFilter_def set_filter_def wire del: to_utf8_eqs(2,3))

lemma set_asist_wire:
  "set_pointer zero_WireAsist set_asistance None (json_utf8 (asist_json a)) =
     Some (Some \<lparr>wa_Type = to_utf8 (asi_Type a), wa_Details = map (\<lambda>x. Some (utf8_kv x)) (asi_Details a)\<rparr>)"
  by (simp add: asist_json_def set_pointer_def zero_WireAsist_def set_asistance_def wire set_kvs_wire comp_def
      del: to_utf8_eqs(2,3))

lemma request_no_numbers: "no_numbers (request_json req)"
  by (simp add: request_json_def conn_json_def asist_json_def kv_json_def omit_string_def omit_slice_def list_all_iff)

lemma request_arrives: "Unmarshal_request (Marshal_request req) = Some (message_of (utf8_request req))"
proof -
  have json: "json_utf8 (request_json req) = JObj ((if rj_Id req = [] then [] else [(''id'', JStr (to_utf8 (rj_Id req)))]) @
      [(''sourceConn'', json_utf8 (conn_json (rj_SourceConn req))), (''destConn'', json_utf8 (conn_json (rj_DestConn req))),
       (''filt'', json_utf8 (JObj (omit_string ''prefix'' (rj_FiltPrefix req))))] @
      (if rj_RemainSource req then [(''remainSource'', JBool True)] else []) @
      [(''asist'', json_utf8 (asist_json (rj_Asist req)))])"
    by (simp add: request_json_def omit_string_def wire_names del: to_utf8_eqs(2,3))
  have "set_members set_request zero_RunJobMsg ((if rj_Id req = [] then [] else [(''id'', JStr (to_utf8 (rj_Id req)))]) @
      [(''sourceConn'', json_utf8 (conn_json (rj_SourceConn req))), (''destConn'', json_utf8 (conn_json (rj_DestConn req))),
       (''filt'', json_utf8 (JObj (omit_string ''prefix'' (rj_FiltPrefix req))))] @
      (if rj_RemainSource req then [(''remainSource'', JBool True)] else []) @
      [(''asist'', json_utf8 (asist_json (rj_Asist req)))]) = Some (message_of (utf8_request req))"
    by (simp add: set_request_def zero_RunJobMsg_def wire_fields set_conn_wire set_filter_wire set_asist_wire message_of_def
        utf8_request_def comp_def Let_def del: json_utf8.simps to_utf8_eqs(2,3))
  then show ?thesis
    unfolding Unmarshal_request_def Marshal_request_def json_decode_text [OF request_no_numbers] json by simp
qed

section \<open>Delivery\<close>

text \<open>The look-up of a job by its id failed, which is not the same as that there is none.\<close>

definition job_lookup_fails :: "'s mgo_ops \<Rightarrow> string \<Rightarrow> 's \<Rightarrow> bool" where
  "job_lookup_fails ops i s =
     (case fst (op_One ops CollJob (Match [(''_id'', BId (ToLower i))]) s) of Inl e \<Rightarrow> e \<noteq> ErrNotFound | Inr d \<Rightarrow> False)"

lemma consume_migration:
  "consume ops (''migration'', data) =
     (case Unmarshal_request data of
        None \<Rightarrow> ret (False, None)
      | Some job \<Rightarrow> call (GetJobStatus ops (rm_Id job)) (\<lambda>status.
          ret (if status \<noteq> JOB_STATUS_PENDING then (False, None) else (True, Some job))))"
  by (auto simp: consume_def HandleMsg_def call_assoc split: option.split intro!: arg_cong [of _ _ "call _"])

context mgo_store begin

lemma GetJobStatus_result:
  assumes "GetJobStatus ops i s = Return (status, s')"
  shows "docs s' = docs s \<and> IsObjectIdHex i \<and> (job_lookup_fails ops i s \<and> status = [] \<or>
    \<not> job_lookup_fails ops i s \<and> status = (case List.find (\<lambda>d. lookup d ''_id'' = Some (BId (ToLower i))) (docs s CollJob) of
      None \<Rightarrow> [] | Some d \<Rightarrow> job_Status (dec_Job d)))"
proof -
  let ?q = "Match [(''_id'', BId (ToLower i))]"
  obtain found s1 where one: "op_One ops CollJob ?q s = (found, s1)" by (cases "op_One ops CollJob ?q s")
  have q: "matches ?q = (\<lambda>d. lookup d ''_id'' = Some (BId (ToLower i)))" by (rule ext) (simp add: field_simps)
  have hex: "IsObjectIdHex i" using assms by (auto simp: GetJobStatus_def ObjectIdHex_def lift_go_def call_def split: if_splits)
  with assms one have status: "status = (case found of Inl err \<Rightarrow> [] | Inr d \<Rightarrow> job_Status (dec_Job d))" and s': "s' = s1"
    by (simp_all add: GetJobStatus_def ObjectIdHex_def lift_go_def call_def liftS_def ret_def)
  show ?thesis
  proof (cases found)
    case (Inl e)
    with One_err one have "docs s1 = docs s" by blast
    moreover have "List.find (matches ?q) (docs s CollJob) = None" if "e = ErrNotFound"
      using One_NotFound one Inl that by blast
    ultimately show ?thesis using hex status s' one Inl unfolding q by (auto simp: job_lookup_fails_def)
  next
    case (Inr d)
    from One_ok [OF one [unfolded Inr]] show ?thesis
      using hex status s' one Inr unfolding q by (simp add: job_lookup_fails_def)
  qed
qed

lemma consume_result:
  assumes "consume ops (''migration'', data) s = Return ((marked, started), s')" and "Unmarshal_request data = Some job"
  shows "docs s' = docs s \<and> (if \<not> job_lookup_fails ops (rm_Id job) s \<and>
      (case List.find (\<lambda>d. lookup d ''_id'' = Some (BId (ToLower (rm_Id job)))) (docs s CollJob) of
         None \<Rightarrow> False | Some d \<Rightarrow> job_Status (dec_Job d) = JOB_STATUS_PENDING)
    then marked \<and> started = Some job else \<not> marked \<and> started = None)"
proof -
  from assms obtain status where "GetJobStatus ops (rm_Id job) s = Return (status, s')"
    and "(marked, started) = (if status \<noteq> JOB_STATUS_PENDING then (False, None) else (True, Some job))"
    unfolding consume_migration by (auto simp: call_Return_iff ret_def)
  with GetJobStatus_result show ?thesis by (fastforce simp: job_statuses split: option.splits)
qed

lemma stored_job_found:
  assumes "\<not> conflict (keys CollJob) (enc_Job job) ds" and "''_id'' \<in> set (keys CollJob)"
  shows "List.find (\<lambda>d. lookup d ''_id'' = Some (BId (job_Id job))) (ds @ [enc_Job job]) = Some (enc_Job job)"
proof -
  have key: "lookup (enc_Job job) ''_id'' = Some (BId (job_Id job))" by (simp add: enc_Job_def)
  have "List.find (\<lambda>d. lookup d ''_id'' = Some (BId (job_Id job))) ds = None"
    using conflict_free [OF assms key] by (auto simp: find_None_iff)
  with key show ?thesis by (simp add: find_append)
qed

end

text \<open>
  C5. From the plan to the data mover: the request of a run, delivered while the job is as the run
  stored it, is read back as it was sent and starts the job, and its message is marked as consumed.
  Only a failure of the database stops it, and then the message is left unmarked. Handling a message
  changes no document.
\<close>

theorem sent_job_is_started:
  assumes "mgo_store ops docs keys clock" and "''_id'' \<in> set (keys CollJob)"
    and "Plan_Run ops ctx i w = Return (Inr jid, w')" and "sv_sent w' = sv_sent w @ [req]"
    and "is_utf8_request req" and "ToLower jid = jid"
    and "docs s CollJob = docs (sv_db w') CollJob"
    and "consume ops (''migration'', Marshal_request req) s = Return ((marked, started), s')"
  shows "docs s' = docs s \<and> (if job_lookup_fails ops jid s then \<not> marked \<and> started = None
    else marked \<and> started = Some (message_of req))"
proof -
  from mgo_store.Plan_Run_steps [OF assms(1,3)] assms(4) obtain plan job where
    id: "jid = job_Id job" and req: "req = new_request plan job" and pending: "job_Status job = JOB_STATUS_PENDING"
    and stored: "docs (sv_db w') CollJob = docs (sv_db w) CollJob @ [enc_Job job]"
    and fresh: "\<not> conflict (keys CollJob) (enc_Job job) (docs (sv_db w) CollJob)"
    by auto
  have msg: "Unmarshal_request (Marshal_request req) = Some (message_of req)"
    using request_arrives assms(5) by (simp add: utf8_request_valid)
  have "rm_Id (message_of req) = jid" by (simp add: message_of_def req new_request_def id)
  with mgo_store.consume_result [OF assms(1,8) msg] mgo_store.stored_job_found [OF assms(1) fresh assms(2)]
    assms(6,7) stored id pending
  show ?thesis by simp
qed

definition runnable_world :: "mem world" where
  "runnable_world = sample_service\<lparr>sv_db := sample_world\<lparr>m_docs :=
     [(CollPolicy, [enc_Policy sample_policy]), (CollPlan, [enc_Plan runnable_plan])]\<rparr>\<rparr>"

definition returns :: "'a go \<Rightarrow> bool" where
  "returns r = (case r of Return _ \<Rightarrow> True | _ \<Rightarrow> False)"

lemma mem_lookup_works: "\<not> job_lookup_fails mem_ops i s"
  by (simp add: job_lookup_fails_def mem_ops_def split: option.splits)

theorem sent_job_is_started_witness:
  "\<exists>jid w' req s'. Plan_Run mem_ops sample_ctx sample_id2 runnable_world = Return (Inr jid, w') \<and> sv_sent w' = [req] \<and>
     consume mem_ops (''migration'', Marshal_request req) (sv_db w') = Return ((True, Some (message_of req)), s')"
proof -
  let ?run = "Plan_Run mem_ops sample_ctx sample_id2 runnable_world"
  let ?deliver = "\<lambda>w. consume mem_ops (''migration'', Marshal_request (hd (sv_sent w))) (sv_db w)"
  have "case ?run of
      Return (r, w) \<Rightarrow> (case r of Inl _ \<Rightarrow> False | Inr jid \<Rightarrow> ToLower jid = jid) \<and>
        list_all is_utf8_request (sv_sent w) \<and> length (sv_sent w) = 1 \<and> returns (?deliver w)
    | _ \<Rightarrow> False" by code_simp
  then obtain jid w' where run: "?run = Return (Inr jid, w')" and low: "ToLower jid = jid"
    and utf8: "list_all is_utf8_request (sv_sent w')" and one: "length (sv_sent w') = 1" and ok: "returns (?deliver w')"
    by (auto split: go.splits sum.splits)
  from one obtain req where req: "sv_sent w' = [req]" by (auto simp: length_Suc_conv)
  with ok obtain marked started s' where del: "?deliver w' = Return ((marked, started), s')"
    by (auto simp: returns_def split: go.splits)
  have key: "''_id'' \<in> set (mem_keys CollJob)" and none: "sv_sent runnable_world = []"
    by (simp_all add: mem_keys_def coll_names runnable_world_def sample_service_def)
  from sent_job_is_started [OF mem.mgo_store_axioms key run _ _ low refl, of req marked started s'] del req utf8 none
  have "marked" "started = Some (message_of req)" by (simp_all add: mem_lookup_works)
  with run req del show ?thesis by auto
qed

text \<open>
  C25. Delivery is not idempotent: a message that has started its job and is delivered again before
  the status of a job has changed starts the job a second time (unless the database fails), because
  the status is only read when a message is handled and written later by the job itself.
\<close>

theorem redelivered_job_starts_again:
  assumes "mgo_store ops docs keys clock"
    and "consume ops (''migration'', data) s = Return ((marked, Some job), s1)"
    and "docs t CollJob = docs s1 CollJob"
    and "consume ops (''migration'', data) t = Return ((marked', started), t')"
  shows "started = (if job_lookup_fails ops (rm_Id job) t then None else Some job)"
proof -
  have msg: "Unmarshal_request data = Some job"
    using assms(2) by (auto simp: consume_migration call_Return_iff ret_def split: option.splits if_splits)
  note first = mgo_store.consume_result [OF assms(1,2) msg]
  then have "docs s CollJob = docs t CollJob" using assms(3) by simp
  with first mgo_store.consume_result [OF assms(1,4) msg] show ?thesis by (simp split: if_splits)
qed

definition pending_message :: string where
  "pending_message = ''{\"id\":\"'' @ sample_id @ ''\"}''"

definition pending_world :: mem where
  "pending_world = \<lparr>m_docs = [(CollJob, [enc_Job (zero_Job\<lparr>job_Id := sample_id, job_Status := JOB_STATUS_PENDING\<rparr>)])],
     m_clock = 0, m_ids = []\<rparr>"

theorem redelivered_job_starts_again_witness:
  "\<exists>job s1 s2. consume mem_ops (''migration'', pending_message) pending_world = Return ((True, Some job), s1) \<and>
     consume mem_ops (''migration'', pending_message) s1 = Return ((True, Some job), s2)"
proof -
  let ?deliver = "consume mem_ops (''migration'', pending_message)"
  have "case ?deliver pending_world of
      Return (r, s) \<Rightarrow> (fst r \<and> snd r \<noteq> None) \<and> (case ?deliver s of Return (r, _) \<Rightarrow> fst r | _ \<Rightarrow> False)
    | _ \<Rightarrow> False" by code_simp
  from two_runs [where P = "\<lambda>r. fst r \<and> snd r \<noteq> None" and Q = fst, OF this]
  obtain job s1 started s2 where first: "?deliver pending_world = Return ((True, Some job), s1)"
    and again: "?deliver s1 = Return ((True, started), s2)" by auto
  from redelivered_job_starts_again [OF mem.mgo_store_axioms first refl again] first again
  show ?thesis by (auto simp: mem_lookup_works)
qed

section \<open>Connecting to Kafka\<close>

text \<open>While no broker answers, eleven attempts are made; any other answer ends them.\<close>

lemma kafka_tries:
  "kafka_Init (\<lambda>n :: nat. Return (Some ErrOutOfBrokers, Suc n)) id 0 = Return (Some ErrOutOfBrokers, 11)"
  "err \<noteq> Some ErrOutOfBrokers \<Longrightarrow> connect s = Return (err, s') \<Longrightarrow> kafka_Init connect sleep s = Return (err, s')"
  by (code_simp, simp add: kafka_Init_def call_def ret_def numeral_eq_Suc)

text \<open>A data mover that is not connected to Kafka reports no error and consumes nothing.\<close>

lemma InitDatamoverService_hides_failure:
  assumes "InitDatamoverService connect sleep listeners s = Return ((err, consuming), s')"
  shows "err = None \<and> (consuming \<longleftrightarrow>
    (\<exists>t. kafka_Init (connect (List.map_filter mover_addr (Split listeners '';''))) sleep s = Return (None, t)))"
  using assms by (auto simp: InitDatamoverService_def call_Return_iff ret_def)

end
