(* ===== verification/Obs_Url.thy ===== *)
theory Obs_Url
  imports Go_Json "HOL-Library.Multiset" "HOL-Library.List_Lexorder" "HOL-Library.Char_ord"
begin

text \<open>
  The OBS client of the repository, first part: the configuration of a client and the URLs of its
  requests (\<open>api/pkg/utils/obs/conf.go\<close>, with the encodings of \<open>util.go\<close> and the constants of
  \<open>const.go\<close>). Maps are association lists; what the client does with them does not depend on the order
  in which they are iterated (\<open>formatUrls_order\<close>).
\<close>

section \<open>Encodings\<close>

text \<open>\<open>url.QueryEscape\<close> and \<open>url.QueryUnescape\<close>.\<close>

definition unreserved :: "char \<Rightarrow> bool" where
  "unreserved c \<longleftrightarrow> is_alnum c \<or> c \<in> {CHR ''-'', CHR ''_'', CHR ''.'', CHR ''~''}"

definition upper_hex :: "nat \<Rightarrow> char" where
  "upper_hex n = char_of (if n < 10 then 48 + n else 55 + n)"

definition escape_char :: "char \<Rightarrow> string" where
  "escape_char c =
     (if unreserved c then [c]
      else if c = CHR '' '' then ''+''
      else [CHR ''%'', upper_hex (code c div 16), upper_hex (code c mod 16)])"

definition QueryEscape :: "string \<Rightarrow> string" where
  "QueryEscape s = concat (map escape_char s)"

fun QueryUnescape :: "string \<Rightarrow> string option" where
  "QueryUnescape [] = Some []"
| "QueryUnescape (c # cs) =
     (if c = CHR ''%'' then
        (case cs of
           h # l # rest \<Rightarrow>
             (case (hex_val h, hex_val l) of
                (Some a, Some b) \<Rightarrow> map_option (\<lambda>t. char_of (16 * a + b) # t) (QueryUnescape rest)
              | _ \<Rightarrow> None)
         | _ \<Rightarrow> None)
      else map_option (\<lambda>t. (if c = CHR ''+'' then CHR '' '' else c) # t) (QueryUnescape cs))"

text \<open>\<open>UrlEncode\<close> with the flag \<open>chineseOnly\<close> escapes the runes from U+4E00 to U+9FA5 only.\<close>

definition is_chinese :: "string \<Rightarrow> bool" where
  "is_chinese u =
     (case u of
        [a, b, c] \<Rightarrow>
          (let n = (code a - 224) * 4096 + (code b - 128) * 64 + (code c - 128)
           in 224 \<le> code a \<and> code a < 240 \<and> 0x4E00 \<le> n \<and> n \<le> 0x9FA5)
      | _ \<Rightarrow> False)"

function encode_chinese :: "string \<Rightarrow> string" where
  "encode_chinese s =
     (case s of
        [] \<Rightarrow> []
      | c # cs \<Rightarrow>
          (if rune_len s = 0 then replacement @ encode_chinese cs
           else (if is_chinese (take (rune_len s) s) then QueryEscape (take (rune_len s) s) else take (rune_len s) s) @
             encode_chinese (drop (rune_len s) s)))"
  by auto
termination by (relation "measure length") auto

declare encode_chinese.simps [simp del]

definition UrlEncode :: "string \<Rightarrow> bool \<Rightarrow> string" where
  "UrlEncode value chineseOnly = (if chineseOnly then encode_chinese value else QueryEscape value)"

lemma unreserved_code: "unreserved c \<Longrightarrow> c \<noteq> CHR ''%'' \<and> c \<noteq> CHR ''+''"
  by (auto simp: unreserved_def is_alnum_def is_digit_def code_def)

lemma upper_hex_val: "n < 16 \<Longrightarrow> hex_val (upper_hex n) = Some n"
  by (simp add: hex_val_def upper_hex_def code_char_of)

lemma QueryUnescape_escaped: "QueryUnescape (escape_char c @ s) = map_option (\<lambda>t. c # t) (QueryUnescape s)"
proof (cases "unreserved c \<or> c = CHR '' ''")
  case True
  then show ?thesis using unreserved_code [of c] by (auto simp: escape_char_def)
next
  case False
  have "code c div 16 < 16" "code c mod 16 < 16" "16 * (code c div 16) + code c mod 16 = code c"
    using code_less [of c] by (simp_all add: less_mult_imp_div_less)
  with False show ?thesis by (simp add: escape_char_def upper_hex_val)
qed

lemma QueryUnescape_QueryEscape: "QueryUnescape (QueryEscape s) = Some s"
  by (induction s) (simp_all add: QueryEscape_def QueryUnescape_escaped)

section \<open>Configuration\<close>

record urlHolder =
  uh_scheme :: string
  uh_host :: string
  uh_port :: int

record config =
  cf_ak :: string
  cf_sk :: string
  cf_token :: string
  cf_url :: urlHolder
  cf_endpoint :: string
  cf_signature :: string
  cf_pathStyle :: bool
  cf_region :: string
  cf_connectTimeout :: int
  cf_socketTimeout :: int
  cf_finalTimeout :: int
  cf_headerTimeout :: int
  cf_idleConnTimeout :: int
  cf_maxRetryCount :: int
  cf_maxConnsPerHost :: int
  cf_proxyUrl :: string
  cf_sslVerify :: bool

text \<open>The regular expression of an IPv4 address: four groups of up to three digits, none above 255.\<close>

definition is_octet :: "string \<Rightarrow> bool" where
  "is_octet s \<longleftrightarrow> list_all is_digit s \<and>
     (length s = 1 \<or> length s = 2 \<or> length s = 3 \<and>
       (s ! 0 \<in> {CHR ''0'', CHR ''1''} \<or> s ! 0 = CHR ''2'' \<and>
         (code (s ! 1) < code (CHR ''5'') \<or> s ! 1 = CHR ''5'' \<and> code (s ! 2) \<le> code (CHR ''5''))))"

definition IsIP :: "string \<Rightarrow> bool" where
  "IsIP s = (let os = Split s ''.'' in length os = 4 \<and> list_all is_octet os)"

text \<open>
  Slashes at the end of the endpoint are cut off one by one; the position of the last slash of the
  empty text is -1, which is its last index, too, so the slice of an endpoint of slashes panics.
\<close>

fun cut_slashes :: "nat \<Rightarrow> string \<Rightarrow> string go" where
  "cut_slashes 0 s = OutOfFuel"
| "cut_slashes (Suc n) s =
     (if s = [] then Panic SliceBounds
      else if last s = CHR ''/'' then cut_slashes n (butlast s)
      else Return s)"

definition cut_query :: "string \<Rightarrow> string" where
  "cut_query s = (case cut ''?'' s of Some (a, b) \<Rightarrow> if a \<noteq> [] then a else s | None \<Rightarrow> s)"

definition cut_scheme :: "string \<Rightarrow> string \<times> string" where
  "cut_scheme endpoint =
     (if HasPrefix endpoint ''https://'' then (''https'', drop 8 endpoint)
      else if HasPrefix endpoint ''http://'' then (''http'', drop 7 endpoint)
      else (''http'', endpoint))"

definition url_of_endpoint :: "string \<Rightarrow> urlHolder" where
  "url_of_endpoint endpoint =
     (let (scheme, address) = cut_scheme endpoint;
          addr = Split address '':'';
          port = (if length addr = 2 then (case Atoi (addr ! 1) of Some p \<Rightarrow> p | None \<Rightarrow> 0) else 0)
      in \<lparr>uh_scheme = scheme, uh_host = hd addr,
          uh_port = (if port = 0 then if scheme = ''https'' then 443 else 80 else port)\<rparr>)"

definition initConfigWithDefault :: "config \<Rightarrow> (string + config) go" where
  "initConfigWithDefault conf =
     (let conf = conf\<lparr>cf_ak := TrimSpace (cf_ak conf), cf_sk := TrimSpace (cf_sk conf),
            cf_token := TrimSpace (cf_token conf)\<rparr>;
          endpoint = TrimSpace (cf_endpoint conf)
      in if endpoint = [] then Return (Inl ''endpoint is not set'')
         else go_bind (cut_slashes (Suc (length (cut_query endpoint))) (cut_query endpoint)) (\<lambda>endpoint.
           let url = url_of_endpoint endpoint;
               region = TrimSpace (cf_region conf);
               socket = (if cf_socketTimeout conf \<le> 0 then 60 else cf_socketTimeout conf)
           in Return (Inr (conf\<lparr>cf_endpoint := endpoint,
                cf_signature := (if cf_signature conf = [] then ''v2'' else cf_signature conf),
                cf_pathStyle := (cf_pathStyle conf \<or> IsIP (uh_host url)),
                cf_url := url,
                cf_region := (if region = [] then ''region'' else region),
                cf_connectTimeout := (if cf_connectTimeout conf \<le> 0 then 60 else cf_connectTimeout conf),
                cf_socketTimeout := socket,
                cf_finalTimeout := i64 (socket * 10),
                cf_headerTimeout := (if cf_headerTimeout conf \<le> 0 then 60 else cf_headerTimeout conf),
                cf_idleConnTimeout := (if cf_idleConnTimeout conf < 0 then 30 else cf_idleConnTimeout conf),
                cf_maxRetryCount := (if cf_maxRetryCount conf < 0 then 3 else cf_maxRetryCount conf),
                cf_maxConnsPerHost := (if cf_maxConnsPerHost conf \<le> 0 then 1000 else cf_maxConnsPerHost conf),
                cf_proxyUrl := TrimSpace (cf_proxyUrl conf)\<rparr>))))"

section \<open>URLs\<close>

definition HEADER_PREFIX :: string where "HEADER_PREFIX = ''x-amz-''"

definition allowed_resource_parameter_names :: "string list" where
  "allowed_resource_parameter_names =
     [''acl'', ''backtosource'', ''policy'', ''torrent'', ''logging'', ''location'', ''storageinfo'', ''quota'',
      ''storageclass'', ''storagepolicy'', ''requestpayment'', ''versions'', ''versioning'', ''versionid'', ''uploads'',
      ''uploadid'', ''partnumber'', ''website'', ''notification'', ''lifecycle'', ''deletebucket'', ''delete'', ''cors'',
      ''restore'', ''tagging'', ''append'', ''position'', ''replication'', ''response-content-type'',
      ''response-content-language'', ''response-expires'', ''response-cache-control'', ''response-content-disposition'',
      ''response-content-encoding'', ''x-image-process'', ''x-oss-process'']"

definition base_urls :: "config \<Rightarrow> string \<Rightarrow> string \<times> string" where
  "base_urls conf bucket =
     (let u = cf_url conf; port = '':'' @ Itoa (uh_port u)
      in if bucket = [] then (uh_scheme u @ ''://'' @ uh_host u @ port, ''/'')
         else if cf_pathStyle conf then (uh_scheme u @ ''://'' @ uh_host u @ port @ ''/'' @ bucket, ''/'' @ bucket)
         else (uh_scheme u @ ''://'' @ bucket @ ''.'' @ uh_host u @ port,
               if cf_signature conf = ''v2'' then ''/'' @ bucket @ ''/'' else ''/''))"

text \<open>
  One parameter: \<open>first\<close> tells whether it is the first of the request's URL, \<open>n\<close> how many are in the
  canonical one. With version 4 of the signature the canonical URL has none.
\<close>

definition add_param :: "string \<Rightarrow> (string, string) gomap \<Rightarrow> (string \<times> string) \<times> bool \<times> bool \<Rightarrow> string \<Rightarrow>
    (string \<times> string) \<times> bool \<times> bool" where
  "add_param signature params st key =
     (case st of ((url, canonical), first, none) \<Rightarrow>
       let url = url @ (if first then ''?'' else ''&'') @ QueryEscape key;
           v = (case lookup params key of Some v \<Rightarrow> v | None \<Rightarrow> [])
       in if signature = ''v4'' then ((url @ ''='' @ QueryEscape v, canonical), False, none)
          else
            let url = (if v \<noteq> [] then url @ ''='' @ QueryEscape v else url);
                v = (if v \<noteq> [] then ''='' @ v else []);
                lowerKey = ToLower key
            in if lowerKey \<in> set allowed_resource_parameter_names \<or> HasPrefix lowerKey HEADER_PREFIX
               then ((url, canonical @ (if none then ''?'' else ''&'') @ QueryEscape key @ v), False, False)
               else ((url, canonical), False, none))"

definition formatUrls :: "config \<Rightarrow> string \<Rightarrow> string \<Rightarrow> (string, string) gomap \<Rightarrow> bool \<Rightarrow> string \<times> string" where
  "formatUrls conf bucket key params escape =
     (let (url, canonical) = base_urls conf bucket;
          (url, canonical) =
            (if key = [] then (url, canonical)
             else (let k = (if escape then QueryEscape key else key)
                   in (url @ ''/'' @ k, (if HasSuffix canonical ''/'' then canonical else canonical @ ''/'') @ k)))
      in fst (foldl (add_param (cf_signature conf) params) ((url, canonical), True, True)
           (sort (map (TrimSpace \<circ> fst) params))))"

section \<open>Facts\<close>

lemma cut_slashes_result:
  "length s < n \<Longrightarrow> cut_slashes n s =
     (if list_all (\<lambda>c. c = CHR ''/'') s then Panic SliceBounds else Return (TrimRight s ''/''))"
proof (induction n arbitrary: s)
  case (Suc n)
  show ?case
  proof (cases s rule: rev_cases)
    case (snoc cs c)
    then show ?thesis using Suc by (simp add: TrimRight_def)
  qed simp
qed simp

lemma formatUrls_order:
  assumes "mset params = mset params'" and "distinct (map fst params)"
  shows "formatUrls conf bucket key params escape = formatUrls conf bucket key params' escape"
proof -
  have "mset (map fst params) = mset (map fst params')" using assms(1) by (metis mset_map)
  then have "distinct (map fst params')" using assms(2) by (metis mset_eq_imp_distinct_iff)
  then have "lookup params = lookup params'"
    using assms mset_eq_setD [OF assms(1)] by (simp add: map_of_inject_set)
  moreover have "mset (sort (map (TrimSpace \<circ> fst) params)) = mset (map (TrimSpace \<circ> fst) params')"
    using assms(1) by (metis mset_map mset_sort)
  then have "sort (map (TrimSpace \<circ> fst) params') = sort (map (TrimSpace \<circ> fst) params)"
    by (rule properties_for_sort) simp
  ultimately show ?thesis by (simp add: formatUrls_def add_param_def [abs_def])
qed

end
