(* ===== verification/Obs_Xml.thy ===== *)
theory Obs_Xml
  imports Obs_Url Base64
begin

text \<open>
  The OBS client, second part: XML as the client writes and reads it. Requests are written with
  \<open>encoding/xml\<close>, or by hand without escaping (\<open>element\<close>, \<open>markup\<close>). Answers are read by the tokenizer of
  \<open>encoding/xml\<close>, a parameter, into elements that may be cut short by an error; how elements are stored
  into the fields of a struct (\<open>decode_fields\<close>) is modelled, because a struct keeps what was stored
  before an error. \<open>obs_std\<close> holds what is used of the standard library and not modelled.
\<close>

section \<open>Elements\<close>

text \<open>
  The name without its name space, the attributes, the content, and the error that ended the text
  within the element, if any.
\<close>

datatype xml =
    Text string
  | Element string "(string \<times> string) list" "xml list" "string option"

text \<open>
  \<open>ob_Parse\<close> gives the host and the raw query of a URL, \<open>ob_ReadXml\<close> the root element of a text or the
  error for a text without one.
\<close>

record 's obs_std =
  ob_HmacSha1 :: "byte list \<Rightarrow> byte list \<Rightarrow> byte list"
  ob_HmacSha256 :: "byte list \<Rightarrow> byte list \<Rightarrow> byte list"
  ob_Sha256 :: "byte list \<Rightarrow> byte list"
  ob_Md5 :: "byte list \<Rightarrow> byte list"
  ob_Parse :: "string \<Rightarrow> string + string \<times> string"
  ob_ParseLong :: "string \<Rightarrow> int option"
  ob_ParseRfc1123 :: "string \<Rightarrow> int option"
  ob_ParseTime :: "string \<Rightarrow> int option"
  ob_FormatLong :: "int \<Rightarrow> string"
  ob_FormatShort :: "int \<Rightarrow> string"
  ob_FormatRfc1123 :: "int \<Rightarrow> string"
  ob_FormatMidnight :: "int \<Rightarrow> string"
  ob_FormatIso8601 :: "int \<Rightarrow> string"
  ob_Now :: "'s \<Rightarrow> int \<times> 's"
  ob_ReadXml :: "string \<Rightarrow> string + xml"

section \<open>Writing\<close>

text \<open>What \<open>encoding/xml\<close> writes for a rune, and for a byte that is not part of one.\<close>

definition escape_rune :: "string \<Rightarrow> string" where
  "escape_rune u =
     (if u = [CHR 0x22] then ''&#34;''
      else if u = [CHR 0x27] then ''&#39;''
      else if u = ''&'' then ''&amp;''
      else if u = ''<'' then ''&lt;''
      else if u = ''>'' then ''&gt;''
      else if u = [CHR 0x09] then ''&#x9;''
      else if u = [CHR 0x0A] then ''&#xA;''
      else if u = [CHR 0x0D] then ''&#xD;''
      else if (case u of [c] \<Rightarrow> code c < 32 | _ \<Rightarrow> False) \<or> u = [CHR 0xEF, CHR 0xBF, CHR 0xBE] \<or> u = [CHR 0xEF, CHR 0xBF, CHR 0xBF]
        then replacement
      else u)"

function escape_text :: "string \<Rightarrow> string" where
  "escape_text s =
     (case s of
        [] \<Rightarrow> []
      | c # cs \<Rightarrow>
          (if rune_len s = 0 then replacement @ escape_text cs
           else escape_rune (take (rune_len s) s) @ escape_text (drop (rune_len s) s)))"
  by auto
termination by (relation "measure length") auto

declare escape_text.simps [simp del]

definition markup :: "string \<Rightarrow> string \<Rightarrow> string" where
  "markup name content = ''<'' @ name @ ''>'' @ content @ ''</'' @ name @ ''>''"

definition markup_if :: "string \<Rightarrow> string \<Rightarrow> string" where
  "markup_if name content = (if content \<noteq> [] then markup name content else [])"

definition element :: "string \<Rightarrow> string \<Rightarrow> string" where
  "element name s = markup name (escape_text s)"

definition element_if :: "string \<Rightarrow> string \<Rightarrow> string" where
  "element_if name s = (if s \<noteq> [] then element name s else [])"

section \<open>Reading\<close>

text \<open>
  Reading an element into a value of type \<open>'r\<close> gives the new value, which may have been changed before
  an error, and the error.
\<close>

type_synonym 'r reading = "xml \<Rightarrow> 'r \<Rightarrow> 'r \<times> string option"

fun name_of :: "xml \<Rightarrow> string" where
  "name_of (Text t) = []"
| "name_of (Element name attrs content ended) = name"

fun error_of :: "xml \<Rightarrow> string option" where
  "error_of (Text t) = None"
| "error_of (Element name attrs content ended) = ended"

fun content_of :: "xml \<Rightarrow> xml list" where
  "content_of (Text t) = []"
| "content_of (Element name attrs content ended) = content"

fun attributes_of :: "xml \<Rightarrow> (string \<times> string) list" where
  "attributes_of (Text t) = []"
| "attributes_of (Element name attrs content ended) = attrs"

fun text_in :: "xml list \<Rightarrow> string" where
  "text_in [] = []"
| "text_in (Text t # xs) = t @ text_in xs"
| "text_in (Element name attrs content ended # xs) = text_in xs"

text \<open>Scalars are stored at the end of their element: not at all when it is cut short.\<close>

definition read_value :: "(string \<Rightarrow> string + 'v) \<Rightarrow> ('v \<Rightarrow> 'r \<Rightarrow> 'r) \<Rightarrow> 'r reading" where
  "read_value conv upd x r =
     (case error_of x of
        Some err \<Rightarrow> (r, Some err)
      | None \<Rightarrow> (case conv (text_in (content_of x)) of Inl err \<Rightarrow> (r, Some err) | Inr v \<Rightarrow> (upd v r, None)))"

definition conv_string :: "string \<Rightarrow> string + string" where
  "conv_string s = Inr s"

definition conv_int :: "string \<Rightarrow> string + int" where
  "conv_int s =
     (if s = [] then Inr 0
      else case Atoi (TrimSpace s) of Some n \<Rightarrow> Inr n | None \<Rightarrow> Inl (''strconv.ParseInt: parsing '' @ s))"

definition conv_bool :: "string \<Rightarrow> string + bool" where
  "conv_bool s =
     (if s = [] then Inr False
      else let v = TrimSpace s
           in if v \<in> {''1'', ''t'', ''T'', ''TRUE'', ''true'', ''True''} then Inr True
              else if v \<in> {''0'', ''f'', ''F'', ''FALSE'', ''false'', ''False''} then Inr False
              else Inl (''strconv.ParseBool: parsing '' @ s))"

definition conv_time :: "'s obs_std \<Rightarrow> string \<Rightarrow> string + int" where
  "conv_time std s = (case ob_ParseTime std s of Some t \<Rightarrow> Inr t | None \<Rightarrow> Inl (''parsing time '' @ s))"

abbreviation read_string :: "(string \<Rightarrow> 'r \<Rightarrow> 'r) \<Rightarrow> 'r reading" where
  "read_string \<equiv> read_value conv_string"

abbreviation read_int :: "(int \<Rightarrow> 'r \<Rightarrow> 'r) \<Rightarrow> 'r reading" where
  "read_int \<equiv> read_value conv_int"

abbreviation read_bool :: "(bool \<Rightarrow> 'r \<Rightarrow> 'r) \<Rightarrow> 'r reading" where
  "read_bool \<equiv> read_value conv_bool"

abbreviation read_time :: "'s obs_std \<Rightarrow> (int option \<Rightarrow> 'r \<Rightarrow> 'r) \<Rightarrow> 'r reading" where
  "read_time std upd \<equiv> read_value (conv_time std) (\<lambda>t. upd (Some t))"

text \<open>The children of an element, by the names of the fields; others are skipped.\<close>

fun decode_children :: "(string \<times> 'r reading) list \<Rightarrow> xml list \<Rightarrow> 'r \<Rightarrow> 'r \<times> string option" where
  "decode_children flds [] r = (r, None)"
| "decode_children flds (x # xs) r =
     (case map_of flds (name_of x) of
        Some f \<Rightarrow> (case f x r of (r, Some err) \<Rightarrow> (r, Some err) | (r, None) \<Rightarrow> decode_children flds xs r)
      | None \<Rightarrow> (case error_of x of Some err \<Rightarrow> (r, Some err) | None \<Rightarrow> decode_children flds xs r))"

definition decode_fields :: "(string \<times> 'r reading) list \<Rightarrow> 'r reading" where
  "decode_fields flds x r =
     (case decode_children flds (content_of x) r of (r, Some err) \<Rightarrow> (r, Some err) | (r, None) \<Rightarrow> (r, error_of x))"

text \<open>A field that is a struct, and one that is a slice: an element that cannot be read is not kept.\<close>

definition read_struct :: "('v reading) \<Rightarrow> ('r \<Rightarrow> 'v) \<Rightarrow> ('v \<Rightarrow> 'r \<Rightarrow> 'r) \<Rightarrow> 'r reading" where
  "read_struct dec sel upd x r = (case dec x (sel r) of (v, err) \<Rightarrow> (upd v r, err))"

definition read_item :: "('v reading) \<Rightarrow> 'v \<Rightarrow> ('r \<Rightarrow> 'v list) \<Rightarrow> ('v list \<Rightarrow> 'r \<Rightarrow> 'r) \<Rightarrow> 'r reading" where
  "read_item dec zero sel upd x r =
     (case dec x zero of (v, Some err) \<Rightarrow> (r, Some err) | (v, None) \<Rightarrow> (upd (sel r @ [v]) r, None))"

abbreviation read_strings :: "('r \<Rightarrow> string list) \<Rightarrow> (string list \<Rightarrow> 'r \<Rightarrow> 'r) \<Rightarrow> 'r reading" where
  "read_strings \<equiv> read_item (read_string (\<lambda>v _. v)) []"

text \<open>A path of names, \<open>a>b\<close>.\<close>

definition within :: "string \<Rightarrow> 'r reading \<Rightarrow> 'r reading" where
  "within name f = decode_fields [(name, f)]"

text \<open>\<open>ParseXml\<close> into a struct whose root has a name, or any.\<close>

definition ParseXml :: "'s obs_std \<Rightarrow> string option \<Rightarrow> 'r reading \<Rightarrow> string \<Rightarrow> 'r \<Rightarrow> 'r \<times> string option" where
  "ParseXml std root dec body r =
     (if body = [] then (r, None)
      else case ob_ReadXml std body of
             Inl err \<Rightarrow> (r, Some err)
           | Inr x \<Rightarrow>
               (case root of
                  Some name \<Rightarrow> (if name_of x = name then dec x r
                                else (r, Some (''expected element type <'' @ name @ ''> but have <'' @ name_of x @ ''>'')))
                | None \<Rightarrow> dec x r))"

section \<open>Facts\<close>

text \<open>What was stored before an error is kept.\<close>

lemma decode_children_error_of:
  "map_of flds (name_of x) = None \<Longrightarrow> error_of x = Some err \<Longrightarrow> decode_children flds (x # xs) r = (r, Some err)"
  by simp

lemma decode_children_append:
  "decode_children flds (xs @ ys) r =
     (case decode_children flds xs r of (r', Some err) \<Rightarrow> (r', Some err) | (r', None) \<Rightarrow> decode_children flds ys r')"
  by (induction xs arbitrary: r) (auto split: prod.splits option.splits)

text \<open>Texts that are written as they are.\<close>

definition plain_char :: "char \<Rightarrow> bool" where
  "plain_char c \<longleftrightarrow> 32 \<le> code c \<and> code c < 128 \<and> c \<notin> {CHR 0x22, CHR 0x27, CHR ''&'', CHR ''<'', CHR ''>''}"

lemma escape_rune_plain:
  assumes "plain_char c"
  shows "escape_rune [c] = [c]"
proof -
  have low: "c \<noteq> d" if "code d < 32" for d using assms that by (auto simp: plain_char_def)
  have "c \<noteq> CHR 0x09" "c \<noteq> CHR 0x0A" "c \<noteq> CHR 0x0D" by (rule low, simp add: code_def)+
  moreover have "\<not> code c < 32" "c \<noteq> CHR 0x22" "c \<noteq> CHR 0x27" "c \<noteq> CHR ''&''" "c \<noteq> CHR ''<''" "c \<noteq> CHR ''>''"
    using assms unfolding plain_char_def by simp_all
  ultimately show ?thesis by (simp add: escape_rune_def)
qed

lemma escape_text_ascii: "code c < 128 \<Longrightarrow> escape_text (c # cs) = escape_rune [c] @ escape_text cs"
  by (subst escape_text.simps) (simp add: rune_len_ascii)

lemma escape_text_plain: "list_all plain_char s \<Longrightarrow> escape_text s = s"
proof (induction s)
  case (Cons c cs)
  then have "escape_text (c # cs) = escape_rune [c] @ escape_text cs"
    by (intro escape_text_ascii) (simp add: plain_char_def)
  with Cons show ?case by (simp add: escape_rune_plain)
qed (simp add: escape_text.simps)

end
