(* ===== verification/Obs_Auth.thy ===== *)
theory Obs_Auth
  imports Obs_Xml
begin

text \<open>
  The OBS client, third part: the signatures of its requests (\<open>api/pkg/utils/obs/auth.go\<close>). Hash
  functions, the formats of times and \<open>url.Parse\<close> are parameters (\<open>obs_std\<close>); headers are a
  map from names to lists of values.
\<close>

type_synonym headers = "(string, string list) gomap"

definition bytes_of :: "string \<Rightarrow> byte list" where
  "bytes_of s = map (\<lambda>c. word_of_nat (code c)) s"

definition Hex :: "byte list \<Rightarrow> string" where
  "Hex bs = concat (map (\<lambda>b. [hex_digit (unat b div 16), hex_digit (unat b mod 16)]) bs)"

definition first_value :: "string list \<Rightarrow> string go" where
  "first_value vs = (case vs of [] \<Rightarrow> Panic IndexOutOfRange | v # _ \<Rightarrow> Return v)"

section \<open>Headers\<close>

definition HEADER_DATE_AMZ :: string where "HEADER_DATE_AMZ = ''x-amz-date''"
definition HEADER_PREFIX_META :: string where "HEADER_PREFIX_META = ''x-amz-meta-''"
definition PARAM_DATE_AMZ_CAMEL :: string where "PARAM_DATE_AMZ_CAMEL = ''X-Amz-Date''"
definition interested_headers :: "string list" where "interested_headers = [''content-md5'', ''content-type'', ''date'']"

definition header_key :: "string \<Rightarrow> string" where
  "header_key key = ToLower (TrimSpace key)"

definition encodeHeaders :: "headers \<Rightarrow> headers" where
  "encodeHeaders hs = map (\<lambda>(k, vs). (k, map (\<lambda>v. UrlEncode v True) vs)) hs"

definition prepareHostAndDate :: "'s obs_std \<Rightarrow> headers \<Rightarrow> string \<Rightarrow> bool \<Rightarrow> ('s, headers) prog" where
  "prepareHostAndDate std hs hostName isV4 =
     (let hs = insert_key ''Host'' [hostName] hs;
          hs = (case lookup hs HEADER_DATE_AMZ of
                  None \<Rightarrow> hs
                | Some date \<Rightarrow>
                    (case date of
                       [d] \<Rightarrow>
                         if isV4 then
                           (case ob_ParseLong std d of
                              Some t \<Rightarrow> insert_key ''Date'' [ob_FormatRfc1123 std t] hs
                            | None \<Rightarrow> remove_key HEADER_DATE_AMZ hs)
                         else if HasSuffix d ''GMT'' then insert_key ''Date'' [d] hs
                         else remove_key HEADER_DATE_AMZ hs
                     | _ \<Rightarrow> remove_key HEADER_DATE_AMZ hs))
      in if lookup hs ''Date'' = None then
           call (liftS (ob_Now std)) (\<lambda>now. ret (insert_key ''Date'' [ob_FormatRfc1123 std now] hs))
         else ret hs)"

section \<open>Version 2\<close>

definition in_v2 :: "string \<Rightarrow> bool" where
  "in_v2 k \<longleftrightarrow> k \<in> set interested_headers \<or> HasPrefix k HEADER_PREFIX"

definition v2_keys :: "headers \<Rightarrow> string list" where
  "v2_keys hs = filter in_v2 (map (header_key \<circ> fst) hs)"

definition v2_map :: "headers \<Rightarrow> headers" where
  "v2_map hs = foldl (\<lambda>m (k, v). if in_v2 (header_key k) then insert_key (header_key k) v m else m) [] hs"

text \<open>
  When the time is in \<open>x-amz-date\<close>, the date is meant to be empty in the text that is signed; what is
  set is the entry under the name \<open>Date\<close>, which is never read.
\<close>

definition blank_date :: "headers \<Rightarrow> headers \<Rightarrow> headers" where
  "blank_date hs m =
     (if lookup m ''Date'' \<noteq> None \<or> lookup m (ToLower ''Date'') \<noteq> None then
        (if lookup m HEADER_DATE_AMZ \<noteq> None \<or> lookup hs PARAM_DATE_AMZ_CAMEL \<noteq> None then insert_key ''Date'' [[]] m else m)
      else m)"

definition values_at :: "headers \<Rightarrow> string \<Rightarrow> string list" where
  "values_at m k = (case lookup m k of Some vs \<Rightarrow> vs | None \<Rightarrow> [])"

definition v2_line :: "headers \<Rightarrow> string \<Rightarrow> string" where
  "v2_line m key =
     (if HasPrefix key HEADER_PREFIX then
        key @ '':'' @ (if HasPrefix key HEADER_PREFIX_META then Join (map TrimSpace (values_at m key)) '',''
                       else Join (values_at m key) '','')
      else Join (values_at m key) '','')"

definition missing_headers :: "headers \<Rightarrow> string list" where
  "missing_headers m = filter (\<lambda>k. lookup m k = None) interested_headers"

definition attachHeaders :: "headers \<Rightarrow> string" where
  "attachHeaders hs =
     (let m = v2_map hs;
          missing = missing_headers m;
          m = blank_date hs (foldl (\<lambda>m k. insert_key k [[]] m) m missing)
      in Join (map (v2_line m) (sort (v2_keys hs @ missing))) [CHR 0x0A])"

text \<open>Names that are empty are deleted from the headers on the way.\<close>

definition drop_empty_names :: "headers \<Rightarrow> headers" where
  "drop_empty_names hs = filter (\<lambda>(k, vs). header_key k \<noteq> []) hs"

definition getV2StringToSign :: "string \<Rightarrow> string \<Rightarrow> headers \<Rightarrow> string" where
  "getV2StringToSign method canonicalizedUrl hs =
     method @ [CHR 0x0A] @ attachHeaders hs @ [CHR 0x0A] @ canonicalizedUrl"

definition v2Auth :: "'s obs_std \<Rightarrow> string \<Rightarrow> string \<Rightarrow> string \<Rightarrow> headers \<Rightarrow> string" where
  "v2Auth std sk method canonicalizedUrl hs =
     b64_encode (ob_HmacSha1 std (bytes_of sk) (bytes_of (getV2StringToSign method canonicalizedUrl hs)))"

section \<open>Version 4\<close>

definition V4_HASH_PREFIX :: string where "V4_HASH_PREFIX = ''AWS4-HMAC-SHA256''"

definition EMPTY_CONTENT_SHA256 :: string where
  "EMPTY_CONTENT_SHA256 = ''e3b0c44298fc1c149afbf4c8996fb92427ae41e4649b934ca495991b7852b855''"

definition getScope :: "string \<Rightarrow> string \<Rightarrow> string" where
  "getScope region shortDate = shortDate @ ''/'' @ region @ ''/s3/aws4_request''"

definition getCredential :: "string \<Rightarrow> string \<Rightarrow> string \<Rightarrow> string \<times> string" where
  "getCredential ak region shortDate = (let scope = getScope region shortDate in (ak @ ''/'' @ scope, scope))"

definition getSignedHeaders :: "headers \<Rightarrow> string list \<times> headers" where
  "getSignedHeaders hs =
     (let hs = drop_empty_names hs
      in (sort (map (header_key \<circ> fst) hs), foldl (\<lambda>m (k, v). insert_key (header_key k) v m) [] hs))"

definition getV4StringToSign :: "'s obs_std \<Rightarrow> string \<Rightarrow> string \<Rightarrow> string \<Rightarrow> string \<Rightarrow> string \<Rightarrow> string \<Rightarrow>
    string list \<Rightarrow> headers \<Rightarrow> string" where
  "getV4StringToSign std method canonicalizedUrl queryUrl scope longDate payload signedHeaders hs =
     (let nl = [CHR 0x0A];
          request = method @ nl @ canonicalizedUrl @ nl @ queryUrl @ nl @
            concat (map (\<lambda>h. concat (map (\<lambda>v. h @ '':'' @ v @ nl) (values_at hs h))) signedHeaders) @ nl @
            Join signedHeaders '';'' @ nl @ payload
      in V4_HASH_PREFIX @ nl @ longDate @ nl @ scope @ nl @ Hex (ob_Sha256 std (bytes_of request)))"

definition getSignature :: "'s obs_std \<Rightarrow> string \<Rightarrow> string \<Rightarrow> string \<Rightarrow> string \<Rightarrow> string" where
  "getSignature std stringToSign sk region shortDate =
     (let key = ob_HmacSha256 std (bytes_of (''AWS4'' @ sk)) (bytes_of shortDate);
          key = ob_HmacSha256 std key (bytes_of region);
          key = ob_HmacSha256 std key (bytes_of ''s3'');
          key = ob_HmacSha256 std key (bytes_of ''aws4_request'')
      in Hex (ob_HmacSha256 std key (bytes_of stringToSign)))"

text \<open>The time of a signature: the first header of four that is there, or now when it cannot be read.\<close>

definition signing_time :: "'s obs_std \<Rightarrow> headers \<Rightarrow> ('s, int) prog" where
  "signing_time std hs =
     (let from = \<lambda>parse val. call (lift_go (first_value val)) (\<lambda>v.
                   case parse v of Some t \<Rightarrow> ret t | None \<Rightarrow> liftS (ob_Now std))
      in case lookup hs HEADER_DATE_AMZ of
           Some val \<Rightarrow> from (ob_ParseLong std) val
         | None \<Rightarrow>
             (case lookup hs PARAM_DATE_AMZ_CAMEL of
                Some val \<Rightarrow> from (ob_ParseLong std) val
              | None \<Rightarrow>
                  (case lookup hs ''Date'' of
                     Some val \<Rightarrow> from (ob_ParseRfc1123 std) val
                   | None \<Rightarrow>
                       (case lookup hs (ToLower ''Date'') of
                          Some val \<Rightarrow> from (ob_ParseRfc1123 std) val
                        | None \<Rightarrow> liftS (ob_Now std)))))"

text \<open>The credential, the list of signed headers and the signature.\<close>

definition v4Auth :: "'s obs_std \<Rightarrow> string \<Rightarrow> string \<Rightarrow> string \<Rightarrow> string \<Rightarrow> string \<Rightarrow> string \<Rightarrow> headers \<Rightarrow>
    ('s, string \<times> string \<times> string) prog" where
  "v4Auth std ak sk region method canonicalizedUrl queryUrl hs =
     call (signing_time std hs) (\<lambda>t.
       let shortDate = ob_FormatShort std t;
           (signedHeaders, ms) = getSignedHeaders hs;
           (credential, scope) = getCredential ak region shortDate;
           stringToSign = getV4StringToSign std method canonicalizedUrl queryUrl scope (ob_FormatLong std t)
             EMPTY_CONTENT_SHA256 signedHeaders ms
       in ret (credential, Join signedHeaders '';'', getSignature std stringToSign sk region shortDate))"

section \<open>Signing a request\<close>

definition doAuth :: "'s obs_std \<Rightarrow> config \<Rightarrow> string \<Rightarrow> string \<Rightarrow> string \<Rightarrow> (string, string) gomap \<Rightarrow> headers \<Rightarrow>
    string \<Rightarrow> ('s, (string + string) \<times> headers) prog" where
  "doAuth std conf method bucket key params hs hostName =
     (let (requestUrl, canonicalizedUrl) = formatUrls conf bucket key params True
      in case ob_Parse std requestUrl of
           Inl err \<Rightarrow> ret (Inl err, hs)
         | Inr (host, rawQuery) \<Rightarrow>
             (let isV4 = (cf_signature conf = ''v4'')
              in call (prepareHostAndDate std (encodeHeaders hs) (if hostName = [] then host else hostName) isV4) (\<lambda>hs.
                 if cf_ak conf = [] \<or> cf_sk conf = [] then ret (Inr requestUrl, hs)
                 else
                   let hs = (if cf_token conf \<noteq> [] then insert_key ''x-amz-security-token'' [cf_token conf] hs else hs)
                   in if isV4 then
                        (let hs = insert_key ''x-amz-content-sha256'' [EMPTY_CONTENT_SHA256] hs
                         in call (v4Auth std (cf_ak conf) (cf_sk conf) (cf_region conf) method canonicalizedUrl rawQuery hs)
                              (\<lambda>(credential, signed, signature).
                                ret (Inr requestUrl, insert_key ''Authorization''
                                  [V4_HASH_PREFIX @ '' Credential='' @ credential @ '',SignedHeaders='' @ signed @
                                   '',Signature='' @ signature] (drop_empty_names hs))))
                      else ret (Inr requestUrl, insert_key ''Authorization''
                             [''AWS '' @ cf_ak conf @ '':'' @ v2Auth std (cf_sk conf) method canonicalizedUrl hs]
                             (drop_empty_names hs)))))"

end
