(* ===== verification/Obs_Http.thy ===== *)
theory Obs_Http
  imports Obs_Auth
begin

text \<open>
  The OBS client, fourth part: sending a request (\<open>api/pkg/utils/obs/http.go\<close>) with its retries and
  redirects, and the bodies that are sent (\<open>readerWrapper\<close> of \<open>trait.go\<close>). The HTTP client, sleeping and
  opening a file are parameters, the record \<open>obs_net\<close>. The loop takes fuel because every redirect
  allows one more attempt.
\<close>

section \<open>Bodies\<close>

datatype source = StringsReader | BytesReader | OsFile | OtherReader

text \<open>
  What a request sends: nothing, a reader (its contents and how far it has been read), a reader wrapped
  with the number of bytes to send and the number sent so far, or such a wrapper around an opened file,
  with its path and its mark.
\<close>

datatype reader =
    NoBody
  | Raw source string nat
  | Wrapped source string nat int int
  | FileBody string nat string nat int int

definition wrapped_rest :: "string \<Rightarrow> nat \<Rightarrow> int \<Rightarrow> int \<Rightarrow> string" where
  "wrapped_rest content pos lim readed =
     (if lim = 0 then []
      else if lim > 0 then take (nat (lim - readed)) (drop pos content)
      else drop pos content)"

fun rest_of :: "reader \<Rightarrow> string" where
  "rest_of NoBody = []"
| "rest_of (Raw src content pos) = drop pos content"
| "rest_of (Wrapped src content pos lim readed) = wrapped_rest content pos lim readed"
| "rest_of (FileBody path mark content pos lim readed) = wrapped_rest content pos lim readed"

text \<open>\<open>n\<close> bytes have been read; without a limit nothing is counted.\<close>

definition count_read :: "int \<Rightarrow> int \<Rightarrow> nat \<Rightarrow> int" where
  "count_read lim readed n = (if lim > 0 then readed + int n else readed)"

fun read_bytes :: "nat \<Rightarrow> reader \<Rightarrow> reader" where
  "read_bytes n NoBody = NoBody"
| "read_bytes n (Raw src content pos) = Raw src content (pos + n)"
| "read_bytes n (Wrapped src content pos lim readed) = Wrapped src content (pos + n) lim (count_read lim readed n)"
| "read_bytes n (FileBody path mark content pos lim readed) =
     FileBody path mark content (pos + n) lim (count_read lim readed n)"

section \<open>Requests and responses\<close>

record http_request =
  hq_Method :: string
  hq_Url :: string
  hq_Host :: string
  hq_ContentLength :: "int option"
  hq_Header :: headers

record http_response =
  hp_StatusCode :: int
  hp_Status :: string
  hp_Header :: headers
  hp_Body :: string

text \<open>
  \<open>on_Do\<close> sends a request with the bytes its body has left, and tells how many of them it has read; \<open>on_NewRequest\<close> is the error for a method and a URL.
\<close>

record 's obs_net =
  on_std :: "'s obs_std"
  on_NewRequest :: "string \<Rightarrow> string \<Rightarrow> string option"
  on_Do :: "http_request \<Rightarrow> string \<Rightarrow> 's \<Rightarrow> ((string + http_response) \<times> nat) \<times> 's"
  on_Sleep :: "int \<Rightarrow> 's \<Rightarrow> 's"
  on_Open :: "string \<Rightarrow> 's \<Rightarrow> (string + string) \<times> 's"

section \<open>Answers\<close>

text \<open>What every answer of the client starts with.\<close>

record BaseModel =
  bm_StatusCode :: int
  bm_RequestId :: string
  bm_ResponseHeaders :: headers

definition base_field :: "string \<times> ('a BaseModel_scheme) reading" where
  "base_field = (''RequestId'', read_string (\<lambda>v r. r\<lparr>bm_RequestId := v\<rparr>))"

definition cleanHeaderPrefix :: "headers \<Rightarrow> headers" where
  "cleanHeaderPrefix hs =
     foldl (\<lambda>m (k, vs).
         let key = ToLower k
         in if vs = [] then m
            else insert_key (if HasPrefix key HEADER_PREFIX then drop (length HEADER_PREFIX) key else key) vs m) [] hs"

text \<open>
  The error of reading the XML is assigned to a variable of the inner block: the answer keeps what was
  stored before the error, and the caller is told of none.
\<close>

definition ParseResponseToBaseModel :: "'s obs_std \<Rightarrow> string option \<Rightarrow> ('a BaseModel_scheme) reading \<Rightarrow> http_response \<Rightarrow>
    'a BaseModel_scheme \<Rightarrow> 'a BaseModel_scheme" where
  "ParseResponseToBaseModel std root dec resp out =
     (let out = fst (ParseXml std root dec (hp_Body resp) out);
          hs = cleanHeaderPrefix (hp_Header resp);
          out = out\<lparr>bm_StatusCode := hp_StatusCode resp, bm_ResponseHeaders := hs\<rparr>
      in case lookup hs ''request-id'' of
           Some (v # _) \<Rightarrow> out\<lparr>bm_RequestId := v\<rparr>
         | _ \<Rightarrow> out)"

record ObsError = BaseModel +
  oe_Status :: string
  oe_Code :: string
  oe_Message :: string
  oe_Resource :: string
  oe_HostId :: string

definition new_ObsError :: ObsError where
  "new_ObsError = \<lparr>bm_StatusCode = 0, bm_RequestId = [], bm_ResponseHeaders = [], oe_Status = [], oe_Code = [],
     oe_Message = [], oe_Resource = [], oe_HostId = []\<rparr>"

definition read_ObsError :: "ObsError reading" where
  "read_ObsError = decode_fields
     [base_field,
      (''Status'', read_string (\<lambda>v r. r\<lparr>oe_Status := v\<rparr>)),
      (''Code'', read_string (\<lambda>v r. r\<lparr>oe_Code := v\<rparr>)),
      (''Message'', read_string (\<lambda>v r. r\<lparr>oe_Message := v\<rparr>)),
      (''Resource'', read_string (\<lambda>v r. r\<lparr>oe_Resource := v\<rparr>)),
      (''HostId'', read_string (\<lambda>v r. r\<lparr>oe_HostId := v\<rparr>))]"

definition ParseResponseToObsError :: "'s obs_std \<Rightarrow> http_response \<Rightarrow> ObsError" where
  "ParseResponseToObsError std resp =
     (ParseResponseToBaseModel std (Some ''Error'') read_ObsError resp new_ObsError)\<lparr>oe_Status := hp_Status resp\<rparr>"

definition ObsError_Error :: "ObsError \<Rightarrow> string" where
  "ObsError_Error err =
     ''obs: service returned error: Status='' @ oe_Status err @ '', Code='' @ oe_Code err @ '', Message='' @
     oe_Message err @ '', RequestId='' @ bm_RequestId err"

definition obs_error :: "'s obs_net \<Rightarrow> http_response \<Rightarrow> string" where
  "obs_error net resp = ObsError_Error (ParseResponseToObsError (on_std net) resp)"

section \<open>Headers of a request\<close>

definition allowed_request_http_header_metadata_names :: "string list" where
  "allowed_request_http_header_metadata_names =
     [''content-type'', ''content-md5'', ''content-length'', ''content-language'', ''expires'', ''origin'', ''cache-control'',
      ''content-disposition'', ''content-encoding'', ''access-control-request-method'', ''access-control-request-headers'',
      ''x-default-storage-class'', ''location'', ''date'', ''etag'', ''range'', ''host'', ''if-modified-since'',
      ''if-unmodified-since'', ''if-match'', ''if-none-match'', ''last-modified'', ''content-range'']"

definition prepareHeaders :: "headers \<Rightarrow> bool \<Rightarrow> headers" where
  "prepareHeaders hs meta =
     foldl (\<lambda>m (k, vs).
         let key = TrimSpace k; lower = ToLower key
         in if key = [] then m
            else if lower \<notin> set allowed_request_http_header_metadata_names \<and> \<not> HasPrefix key HEADER_PREFIX then
              (if meta then insert_key (HEADER_PREFIX_META @ lower) vs m else m)
            else insert_key key vs m) [] hs"

text \<open>
  The length \<open>http.NewRequest\<close> gives a request: known for nothing and for readers of the standard
  library, unknown for the others until a header tells.
\<close>

fun request_length :: "reader \<Rightarrow> int option" where
  "request_length NoBody = Some 0"
| "request_length (Raw src content pos) =
     (if src \<in> {StringsReader, BytesReader} then Some (int (length content - pos)) else None)"
| "request_length _ = None"

text \<open>
  The headers of a request: host and length are moved from the map, which loses them, to fields of
  the request.
\<close>

definition StringToInt64 :: "string \<Rightarrow> int \<Rightarrow> int" where
  "StringToInt64 v d = (case Atoi v of Some n \<Rightarrow> n | None \<Rightarrow> d)"

definition opt_value :: "headers \<Rightarrow> string \<Rightarrow> string option go" where
  "opt_value hs k = (case lookup hs k of None \<Rightarrow> Return None | Some vs \<Rightarrow> go_map Some (first_value vs))"

definition move_headers :: "headers \<Rightarrow> http_request \<Rightarrow> (http_request \<times> headers) go" where
  "move_headers hs req =
     go_bind (opt_value hs ''Host'') (\<lambda>host.
     go_bind (opt_value hs ''Content-Length'') (\<lambda>len.
       let rest = remove_key ''Content-Length'' (remove_key ''Host'' hs)
       in Return (req\<lparr>hq_Host := (case host of Some h \<Rightarrow> h | None \<Rightarrow> hq_Host req),
                      hq_ContentLength :=
                        (case len of None \<Rightarrow> hq_ContentLength req
                         | Some l \<Rightarrow> (let n = StringToInt64 l (- 1) in if n < 0 then None else Some n)),
                      hq_Header := insert_key ''User-Agent'' [''obs-sdk-go/2.2.3''] rest\<rparr>, rest)))"

section \<open>Between two attempts\<close>

text \<open>
  A body is wound back before it is sent again: a file is opened anew, from its mark, but the count of
  a wrapper stays what it was, and other readers cannot be wound back.
\<close>

definition rewind :: "'s obs_net \<Rightarrow> reader \<Rightarrow> ('s, string + reader) prog" where
  "rewind net b =
     (case b of
        NoBody \<Rightarrow> ret (Inr NoBody)
      | Raw src content pos \<Rightarrow>
          ret (Inr (Raw src content (if src \<in> {StringsReader, BytesReader} then 0 else pos)))
      | Wrapped src content pos lim readed \<Rightarrow>
          ret (Inr (Wrapped src content (if src \<noteq> OtherReader then 0 else pos) lim readed))
      | FileBody path mark content pos lim readed \<Rightarrow>
          call (liftS (on_Open net path)) (\<lambda>r.
            ret (case r of Inl err \<Rightarrow> Inl err | Inr content \<Rightarrow> Inr (FileBody path mark content mark lim 0))))"

section \<open>The loop\<close>

text \<open>
  The variables of the loop: the attempt, the bound, the redirect, the headers, the body, and what is
  going to be returned: the response and the error, which keeps its value once it is set.
\<close>

record http_state =
  ht_i :: int
  ht_max :: int
  ht_redirect :: string
  ht_headers :: headers
  ht_body :: reader
  ht_resp :: "http_response option"
  ht_err :: "string option"

datatype http_next =
    Finished "http_response option" "string option"
  | GoOn http_state

definition request_url :: "'s obs_net \<Rightarrow> config \<Rightarrow> string \<Rightarrow> string \<Rightarrow> string \<Rightarrow> (string, string) gomap \<Rightarrow>
    http_state \<Rightarrow> ('s, (string + string \<times> string) \<times> headers) prog" where
  "request_url net conf method bucket key params st =
     (if ht_redirect st \<noteq> [] then
        (case ob_Parse (on_std net) (ht_redirect st) of
           Inl err \<Rightarrow> ret (Inl err, ht_headers st)
         | Inr (rhost, rquery) \<Rightarrow>
             call (doAuth (on_std net) conf method bucket key params (ht_headers st) rhost) (\<lambda>(r, hs).
               let url = (case r of Inl err \<Rightarrow> [] | Inr url \<Rightarrow> url)
               in case ob_Parse (on_std net) url of
                    Inl err \<Rightarrow> panic NilDereference
                  | Inr (_, query) \<Rightarrow>
                      (let redirect = (if query \<noteq> [] \<and> rquery = [] then ht_redirect st @ ''?'' @ query else ht_redirect st)
                       in ret (Inr (redirect, redirect), hs))))
      else
        call (doAuth (on_std net) conf method bucket key params (ht_headers st) []) (\<lambda>(r, hs).
          ret (case r of Inl err \<Rightarrow> Inl err | Inr url \<Rightarrow> Inr (url, []), hs)))"

text \<open>After a response or an error that does not end the loop: again, if the bound allows.\<close>

definition next_attempt :: "'s obs_net \<Rightarrow> http_state \<Rightarrow> ('s, http_next) prog" where
  "next_attempt net st =
     (if ht_i st \<noteq> ht_max st then
        call (rewind net (ht_body st)) (\<lambda>r.
          case r of
            Inl err \<Rightarrow> ret (Finished None (Some err))
          | Inr b \<Rightarrow>
              call (liftS (\<lambda>s. ((), on_Sleep net (ht_i st) s))) (\<lambda>_.
                ret (GoOn (st\<lparr>ht_i := i64 (ht_i st + 1), ht_resp := None, ht_body := b,
                       ht_headers := remove_key ''Authorization'' (ht_headers st)\<rparr>))))
      else (case ht_resp st of
              Some resp \<Rightarrow> ret (Finished None (Some (obs_error net resp)))
            | None \<Rightarrow> ret (Finished None (ht_err st))))"

definition location_of :: "http_response \<Rightarrow> string" where
  "location_of resp = (case lookup (hp_Header resp) ''Location'' of Some (v # _) \<Rightarrow> v | _ \<Rightarrow> [])"

definition answered :: "'s obs_net \<Rightarrow> bool \<Rightarrow> http_state \<Rightarrow> string + http_response \<Rightarrow> ('s, http_next) prog" where
  "answered net repeatable st r =
     (case r of
        Inl err \<Rightarrow> next_attempt net (st\<lparr>ht_resp := None, ht_err := Some err\<rparr>)
      | Inr resp \<Rightarrow>
          (let code = hp_StatusCode resp
           in if code < 300 then ret (Finished (Some resp) (ht_err st))
              else if \<not> repeatable \<or> (code \<ge> 400 \<and> code < 500) \<or> code = 304 then
                ret (Finished None (Some (obs_error net resp)))
              else if code < 400 then
                (if location_of resp \<noteq> [] then
                   next_attempt net (st\<lparr>ht_resp := Some resp, ht_redirect := location_of resp, ht_max := i64 (ht_max st + 1)\<rparr>)
                 else ret (Finished None (Some (obs_error net resp))))
              else next_attempt net (st\<lparr>ht_resp := Some resp\<rparr>)))"

definition send_request :: "'s obs_net \<Rightarrow> string \<Rightarrow> string \<Rightarrow> bool \<Rightarrow> http_state \<Rightarrow> ('s, http_next) prog" where
  "send_request net method url repeatable st =
     (case on_NewRequest net method url of
        Some err \<Rightarrow> ret (Finished None (Some err))
      | None \<Rightarrow>
          call (lift_go (move_headers (ht_headers st)
              \<lparr>hq_Method = method, hq_Url = url, hq_Host = [], hq_ContentLength = request_length (ht_body st), hq_Header = []\<rparr>))
            (\<lambda>(req, hs).
          call (liftS (on_Do net req (rest_of (ht_body st)))) (\<lambda>(r, n).
            answered net repeatable (st\<lparr>ht_headers := hs, ht_body := read_bytes n (ht_body st)\<rparr>) r)))"

definition attempt :: "'s obs_net \<Rightarrow> config \<Rightarrow> string \<Rightarrow> string \<Rightarrow> string \<Rightarrow> (string, string) gomap \<Rightarrow> bool \<Rightarrow>
    http_state \<Rightarrow> ('s, http_next) prog" where
  "attempt net conf method bucket key params repeatable st =
     call (request_url net conf method bucket key params st) (\<lambda>(u, hs).
       case u of
         Inl err \<Rightarrow> ret (Finished None (Some err))
       | Inr (url, redirect) \<Rightarrow> send_request net method url repeatable (st\<lparr>ht_headers := hs, ht_redirect := redirect\<rparr>))"

fun http_loop :: "nat \<Rightarrow> 's obs_net \<Rightarrow> config \<Rightarrow> string \<Rightarrow> string \<Rightarrow> string \<Rightarrow> (string, string) gomap \<Rightarrow> bool \<Rightarrow>
    http_state \<Rightarrow> ('s, http_response option \<times> string option) prog" where
  "http_loop 0 net conf method bucket key params repeatable st s = OutOfFuel"
| "http_loop (Suc n) net conf method bucket key params repeatable st s =
     (if ht_i st > ht_max st then Return ((ht_resp st, ht_err st), s)
      else go_bind (attempt net conf method bucket key params repeatable st s) (\<lambda>(nxt, s).
        case nxt of
          Finished resp err \<Rightarrow> Return ((resp, err), s)
        | GoOn st \<Rightarrow> http_loop n net conf method bucket key params repeatable st s))"

text \<open>A text and a byte array announce their length; a reader does not.\<close>

datatype payload = NoData | TextData string | ReaderData reader

definition http_data :: "payload \<Rightarrow> headers \<Rightarrow> reader \<times> headers" where
  "http_data data hs =
     (case data of
        NoData \<Rightarrow> (NoBody, hs)
      | TextData t \<Rightarrow> (Raw StringsReader t 0, insert_key ''Content-Length'' [Itoa (int (length t))] hs)
      | ReaderData b \<Rightarrow> (b, hs))"

definition doHttp :: "nat \<Rightarrow> 's obs_net \<Rightarrow> config \<Rightarrow> string \<Rightarrow> string \<Rightarrow> string \<Rightarrow> (string, string) gomap \<Rightarrow>
    headers \<Rightarrow> payload \<Rightarrow> bool \<Rightarrow> ('s, http_response option \<times> string option) prog" where
  "doHttp n net conf method bucket key params hs data repeatable =
     (case http_data data hs of (b, hs) \<Rightarrow>
        http_loop n net conf method (TrimSpace bucket) (TrimSpace key) params repeatable
          \<lparr>ht_i = 0, ht_max = cf_maxRetryCount conf, ht_redirect = [], ht_headers = hs, ht_body = b,
           ht_resp = None, ht_err = None\<rparr>)"

section \<open>Actions\<close>

definition metadata_kept :: "string \<Rightarrow> bool option" where
  "metadata_kept method =
     (if method \<in> {''GET'', ''HEAD'', ''OPTIONS'', ''DELETE''} then Some False
      else if method \<in> {''PUT'', ''POST''} then Some True else None)"

text \<open>What a method of the client gets: the response of a request without error.\<close>

definition doAction :: "nat \<Rightarrow> 's obs_net \<Rightarrow> config \<Rightarrow> string \<Rightarrow> string \<Rightarrow> string \<Rightarrow> (string, string) gomap \<Rightarrow>
    headers \<Rightarrow> payload \<Rightarrow> bool \<Rightarrow> ('s, string + http_response option) prog" where
  "doAction n net conf method bucket key params hs data repeatable =
     (case metadata_kept method of
        None \<Rightarrow> ret (Inl ''Unexpect http method error'')
      | Some meta \<Rightarrow>
          call (doHttp n net conf method bucket key params (prepareHeaders hs meta) data repeatable) (\<lambda>(resp, err).
            ret (case err of Some e \<Rightarrow> Inl e | None \<Rightarrow> Inr resp)))"

definition doActionWithBucket :: "nat \<Rightarrow> 's obs_net \<Rightarrow> config \<Rightarrow> string \<Rightarrow> string \<Rightarrow> (string, string) gomap \<Rightarrow>
    headers \<Rightarrow> payload \<Rightarrow> ('s, string + http_response option) prog" where
  "doActionWithBucket n net conf method bucket params hs data =
     (if TrimSpace bucket = [] then ret (Inl ''Bucket is empty'')
      else doAction n net conf method bucket [] params hs data True)"

definition doActionWithBucketAndKey :: "nat \<Rightarrow> 's obs_net \<Rightarrow> config \<Rightarrow> string \<Rightarrow> string \<Rightarrow> string \<Rightarrow>
    (string, string) gomap \<Rightarrow> headers \<Rightarrow> payload \<Rightarrow> bool \<Rightarrow> ('s, string + http_response option) prog" where
  "doActionWithBucketAndKey n net conf method bucket key params hs data repeatable =
     (if TrimSpace bucket = [] \<or> TrimSpace key = [] then ret (Inl ''Key is empty'')
      else doAction n net conf method bucket key params hs data repeatable)"

end
