(* ===== verification/Obs_Convert.thy ===== *)
theory Obs_Convert
  imports Obs_Http
begin

text \<open>
  The OBS client, fifth part: the XML of the requests that configure a bucket or complete an upload
  (\<open>api/pkg/utils/obs/convert.go\<close>, with the structs of \<open>model.go\<close>). These texts are put together by hand:
  what the caller gives is not escaped. A time is \<open>None\<close> when it is the zero time.
\<close>

definition Base64Md5 :: "'s obs_std \<Rightarrow> string \<Rightarrow> string" where
  "Base64Md5 std s = b64_encode (ob_Md5 std (bytes_of s))"

definition with_md5 :: "'s obs_std \<Rightarrow> bool \<Rightarrow> string \<Rightarrow> string \<times> string" where
  "with_md5 std returnMd5 data = (data, if returnMd5 then Base64Md5 std data else [])"

section \<open>Grants\<close>

record Owner =
  ow_ID :: string
  ow_DisplayName :: string

record Grantee =
  gt_Type :: string
  gt_ID :: string
  gt_DisplayName :: string
  gt_URI :: string

record Grant =
  gr_Grantee :: Grantee
  gr_Permission :: string

record AccessControlPolicy =
  ac_Owner :: Owner
  ac_Grants :: "Grant list"

definition convertGrantToXml :: "Grant \<Rightarrow> string" where
  "convertGrantToXml grant =
     (let g = gr_Grantee grant
      in ''<Grant><Grantee xsi:type=\"'' @ gt_Type g @ ''\" xmlns:xsi=\"http://www.w3.org/2001/XMLSchema-instance\">'' @
         (if gt_Type g = ''CanonicalUser'' then markup ''ID'' (gt_ID g) @ markup_if ''DisplayName'' (gt_DisplayName g)
          else markup ''URI'' (gt_URI g)) @
         ''</Grantee>'' @ markup ''Permission'' (gr_Permission grant) @ ''</Grant>'')"

definition ConvertAclToXml :: "'s obs_std \<Rightarrow> AccessControlPolicy \<Rightarrow> bool \<Rightarrow> string \<times> string" where
  "ConvertAclToXml std p returnMd5 = with_md5 std returnMd5
     (markup ''AccessControlPolicy''
       (markup ''Owner'' (markup ''ID'' (ow_ID (ac_Owner p)) @ markup_if ''DisplayName'' (ow_DisplayName (ac_Owner p))) @
        markup ''AccessControlList'' (concat (map convertGrantToXml (ac_Grants p)))))"

section \<open>Logging\<close>

record BucketLoggingStatus =
  bl_TargetBucket :: string
  bl_TargetPrefix :: string
  bl_TargetGrants :: "Grant list"

definition ConvertLoggingStatusToXml :: "'s obs_std \<Rightarrow> BucketLoggingStatus \<Rightarrow> bool \<Rightarrow> string \<times> string" where
  "ConvertLoggingStatusToXml std l returnMd5 = with_md5 std returnMd5
     (markup ''BucketLoggingStatus''
       (if bl_TargetBucket l \<noteq> [] \<or> bl_TargetPrefix l \<noteq> [] then
          markup ''LoggingEnabled''
            (markup ''TargetBucket'' (bl_TargetBucket l) @ markup ''TargetPrefix'' (bl_TargetPrefix l) @
             (if bl_TargetGrants l \<noteq> [] then markup ''TargetGrants'' (concat (map convertGrantToXml (bl_TargetGrants l))) else []))
        else []))"

section \<open>Website\<close>

record Condition =
  co_KeyPrefixEquals :: string
  co_HttpErrorCodeReturnedEquals :: string

record Redirect =
  rd_Protocol :: string
  rd_HostName :: string
  rd_ReplaceKeyPrefixWith :: string
  rd_ReplaceKeyWith :: string
  rd_HttpRedirectCode :: string

record RoutingRule =
  rr_Condition :: Condition
  rr_Redirect :: Redirect

record RedirectAllRequestsTo =
  ra_Protocol :: string
  ra_HostName :: string

record BucketWebsiteConfiguration =
  bw_RedirectAllRequestsTo :: RedirectAllRequestsTo
  bw_IndexDocument :: string
  bw_ErrorDocument :: string
  bw_RoutingRules :: "RoutingRule list"

definition convertConditionToXml :: "Condition \<Rightarrow> string" where
  "convertConditionToXml c =
     markup_if ''Condition''
       (markup_if ''KeyPrefixEquals'' (co_KeyPrefixEquals c) @
        markup_if ''HttpErrorCodeReturnedEquals'' (co_HttpErrorCodeReturnedEquals c))"

definition routingRuleToXml :: "RoutingRule \<Rightarrow> string" where
  "routingRuleToXml rule =
     (let r = rr_Redirect rule
      in markup ''RoutingRule''
           (markup ''Redirect''
              (markup_if ''Protocol'' (rd_Protocol r) @ markup_if ''HostName'' (rd_HostName r) @
               markup_if ''ReplaceKeyPrefixWith'' (rd_ReplaceKeyPrefixWith r) @
               markup_if ''ReplaceKeyWith'' (rd_ReplaceKeyWith r) @
               markup_if ''HttpRedirectCode'' (rd_HttpRedirectCode r)) @
            convertConditionToXml (rr_Condition rule)))"

definition ConvertWebsiteConfigurationToXml :: "'s obs_std \<Rightarrow> BucketWebsiteConfiguration \<Rightarrow> bool \<Rightarrow> string \<times> string" where
  "ConvertWebsiteConfigurationToXml std w returnMd5 = with_md5 std returnMd5
     (markup ''WebsiteConfiguration''
       (if ra_HostName (bw_RedirectAllRequestsTo w) \<noteq> [] then
          markup ''RedirectAllRequestsTo''
            (markup ''HostName'' (ra_HostName (bw_RedirectAllRequestsTo w)) @
             markup_if ''Protocol'' (ra_Protocol (bw_RedirectAllRequestsTo w)))
        else
          markup ''IndexDocument'' (markup ''Suffix'' (bw_IndexDocument w)) @
          (if bw_ErrorDocument w \<noteq> [] then markup ''ErrorDocument'' (markup ''Key'' (bw_ErrorDocument w)) else []) @
          (if bw_RoutingRules w \<noteq> [] then markup ''RoutingRules'' (concat (map routingRuleToXml (bw_RoutingRules w))) else [])))"

section \<open>Life cycle\<close>

record Transition =
  ts_Date :: "int option"
  ts_Days :: int
  ts_StorageClass :: string

record Expiration =
  ex_Date :: "int option"
  ex_Days :: int

record NoncurrentVersionTransition =
  nt_NoncurrentDays :: int
  nt_StorageClass :: string

record LifecycleRule =
  lr_ID :: string
  lr_Prefix :: string
  lr_Status :: string
  lr_Transitions :: "Transition list"
  lr_Expiration :: Expiration
  lr_NoncurrentVersionTransitions :: "NoncurrentVersionTransition list"
  lr_NoncurrentVersionExpiration :: int

definition convertTransitionsToXml :: "'s obs_std \<Rightarrow> Transition list \<Rightarrow> string" where
  "convertTransitionsToXml std transitions =
     concat (map (\<lambda>t.
         let temp = (if ts_Days t > 0 then markup ''Days'' (Itoa (ts_Days t))
                     else (case ts_Date t of Some d \<Rightarrow> markup ''Date'' (ob_FormatMidnight std d) | None \<Rightarrow> []))
         in if temp \<noteq> [] then markup ''Transition'' (temp @ markup ''StorageClass'' (ts_StorageClass t)) else [])
       transitions)"

definition convertExpirationToXml :: "'s obs_std \<Rightarrow> Expiration \<Rightarrow> string" where
  "convertExpirationToXml std e =
     (if ex_Days e > 0 then markup ''Expiration'' (markup ''Days'' (Itoa (ex_Days e)))
      else (case ex_Date e of
              Some d \<Rightarrow> markup ''Expiration'' (markup ''Date'' (ob_FormatMidnight std d))
            | None \<Rightarrow> []))"

definition convertNoncurrentVersionTransitionsToXml :: "NoncurrentVersionTransition list \<Rightarrow> string" where
  "convertNoncurrentVersionTransitionsToXml transitions =
     concat (map (\<lambda>t.
         if nt_NoncurrentDays t > 0 then
           markup ''NoncurrentVersionTransition''
             (markup ''NoncurrentDays'' (Itoa (nt_NoncurrentDays t)) @ markup ''StorageClass'' (nt_StorageClass t))
         else []) transitions)"

definition convertNoncurrentVersionExpirationToXml :: "int \<Rightarrow> string" where
  "convertNoncurrentVersionExpirationToXml days =
     (if days > 0 then markup ''NoncurrentVersionExpiration'' (markup ''NoncurrentDays'' (Itoa days)) else [])"

definition lifecycleRuleToXml :: "'s obs_std \<Rightarrow> LifecycleRule \<Rightarrow> string" where
  "lifecycleRuleToXml std rule =
     markup ''Rule''
       (markup_if ''ID'' (lr_ID rule) @ markup ''Prefix'' (lr_Prefix rule) @ markup ''Status'' (lr_Status rule) @
        convertTransitionsToXml std (lr_Transitions rule) @ convertExpirationToXml std (lr_Expiration rule) @
        convertNoncurrentVersionTransitionsToXml (lr_NoncurrentVersionTransitions rule) @
        convertNoncurrentVersionExpirationToXml (lr_NoncurrentVersionExpiration rule))"

definition ConvertLifecyleConfigurationToXml :: "'s obs_std \<Rightarrow> LifecycleRule list \<Rightarrow> bool \<Rightarrow> string \<times> string" where
  "ConvertLifecyleConfigurationToXml std rules returnMd5 = with_md5 std returnMd5
     (markup ''LifecycleConfiguration'' (concat (map (lifecycleRuleToXml std) rules)))"

section \<open>Notification\<close>

record FilterRule =
  fr_Name :: string
  fr_Value :: string

record TopicConfiguration =
  tc_ID :: string
  tc_Topic :: string
  tc_Events :: "string list"
  tc_FilterRules :: "FilterRule list"

definition converntFilterRulesToXml :: "FilterRule list \<Rightarrow> string" where
  "converntFilterRulesToXml rules =
     (if rules = [] then []
      else markup ''Filter'' (markup ''S3Key'' (concat (map (\<lambda>r.
          markup ''FilterRule'' (markup_if ''Name'' (fr_Name r) @ markup_if ''Value'' (fr_Value r))) rules))))"

definition converntEventsToXml :: "string list \<Rightarrow> string" where
  "converntEventsToXml events = concat (map (markup ''Event'') events)"

definition ConvertNotificationToXml :: "'s obs_std \<Rightarrow> TopicConfiguration list \<Rightarrow> bool \<Rightarrow> string \<times> string" where
  "ConvertNotificationToXml std topics returnMd5 = with_md5 std returnMd5
     (markup ''NotificationConfiguration'' (concat (map (\<lambda>t.
        markup ''TopicConfiguration''
          (markup_if ''Id'' (tc_ID t) @ markup ''Topic'' (tc_Topic t) @ converntEventsToXml (tc_Events t) @
           converntFilterRulesToXml (tc_FilterRules t))) topics)))"

section \<open>Parts of an upload\<close>

record obs_Part =
  pt_PartNumber :: int
  pt_ETag :: string
  pt_LastModified :: "int option"
  pt_Size :: int

definition partToXml :: "obs_Part \<Rightarrow> string" where
  "partToXml part =
     markup ''Part'' (markup ''PartNumber'' (Itoa (pt_PartNumber part)) @ markup ''ETag'' (pt_ETag part))"

definition ConvertCompleteMultipartUploadInputToXml :: "'s obs_std \<Rightarrow> obs_Part list \<Rightarrow> bool \<Rightarrow> string \<times> string" where
  "ConvertCompleteMultipartUploadInputToXml std parts returnMd5 = with_md5 std returnMd5
     (markup ''CompleteMultipartUpload'' (concat (map partToXml parts)))"

section \<open>Facts\<close>

lemma with_md5_data [simp]: "fst (with_md5 std returnMd5 data) = data"
  by (simp add: with_md5_def)

lemma with_md5_false [simp]: "snd (with_md5 std False data) = []"
  by (simp add: with_md5_def)

end
