(* ===== verification/Obs_Trans.thy ===== *)
theory Obs_Trans
  imports Obs_Convert
begin

text \<open>
  The OBS client, sixth part: the inputs of the client's methods (\<open>api/pkg/utils/obs/model.go\<close>) and how
  they are turned into the parameters, headers and data of a request (\<open>trait.go\<close>). An input of a struct
  that embeds another one is an extension of its record.
\<close>

type_synonym request = "(string, string) gomap \<times> headers \<times> payload"

definition header_if :: "string \<Rightarrow> string \<Rightarrow> headers \<Rightarrow> headers" where
  "header_if k v hs = (if v \<noteq> [] then insert_key k [v] hs else hs)"

definition param_if :: "string \<Rightarrow> string \<Rightarrow> (string, string) gomap \<Rightarrow> (string, string) gomap" where
  "param_if k v ps = (if v \<noteq> [] then insert_key k v ps else ps)"

text \<open>A request that names a sub-resource and sends XML, or nothing.\<close>

definition newSubResourceSerial :: "string \<Rightarrow> request" where
  "newSubResourceSerial subResource = ([(subResource, [])], [], NoData)"

definition defaultSerializable :: request where
  "defaultSerializable = ([], [], NoData)"

definition xml_data :: "string \<Rightarrow> payload" where
  "xml_data s = ReaderData (Raw BytesReader s 0)"

definition trans_sub :: "string \<Rightarrow> string \<Rightarrow> request" where
  "trans_sub subResource body = ([(subResource, [])], [], xml_data body)"

definition trans_md5 :: "'s obs_std \<Rightarrow> string \<Rightarrow> string \<Rightarrow> request" where
  "trans_md5 std subResource body = ([(subResource, [])], [(''Content-MD5'', [Base64Md5 std body])], xml_data body)"

section \<open>Buckets\<close>

record CreateBucketInput =
  cb_Bucket :: string
  cb_Location :: string
  cb_ACL :: string
  cb_StorageClass :: string

record ListObjsInput =
  lj_Prefix :: string
  lj_MaxKeys :: int
  lj_Delimiter :: string
  lj_Origin :: string
  lj_RequestHeader :: string

record ListObjectsInput = ListObjsInput +
  lj_Bucket :: string
  lj_Marker :: string

record ListVersionsInput = ListObjsInput +
  lv_Bucket :: string
  lv_KeyMarker :: string
  lv_VersionIdMarker :: string

record ListMultipartUploadsInput =
  lm_Bucket :: string
  lm_Prefix :: string
  lm_MaxUploads :: int
  lm_Delimiter :: string
  lm_KeyMarker :: string
  lm_UploadIdMarker :: string

record CorsRule =
  cr_ID :: string
  cr_AllowedOrigin :: "string list"
  cr_AllowedMethod :: "string list"
  cr_AllowedHeader :: "string list"
  cr_MaxAgeSeconds :: int
  cr_ExposeHeader :: "string list"

record GetBucketMetadataInput =
  gb_Bucket :: string
  gb_Origin :: string
  gb_RequestHeader :: string

record Tag =
  tg_Key :: string
  tg_Value :: string

definition trans_ListBuckets :: "bool \<Rightarrow> request" where
  "trans_ListBuckets queryLocation =
     ([], if queryLocation then [(''x-amz-location'', [''true''])] else [], NoData)"

definition trans_CreateBucket :: "CreateBucketInput \<Rightarrow> request" where
  "trans_CreateBucket input =
     (let hs = header_if ''x-default-storage-class'' (cb_StorageClass input) (header_if ''x-amz-acl'' (cb_ACL input) []);
          location = TrimSpace (cb_Location input)
      in ([], hs, if location \<noteq> [] then xml_data (markup ''CreateBucketConfiguration'' (element ''LocationConstraint'' location))
                  else NoData))"

definition trans_SetBucketStoragePolicy :: "string \<Rightarrow> request" where
  "trans_SetBucketStoragePolicy storageClass =
     trans_sub ''storagePolicy'' (markup ''StoragePolicy'' (element ''DefaultStorageClass'' storageClass))"

definition trans_ListObjs :: "'a ListObjsInput_scheme \<Rightarrow> request" where
  "trans_ListObjs input =
     (let ps = param_if ''delimiter'' (lj_Delimiter input) (param_if ''prefix'' (lj_Prefix input) []);
          ps = (if lj_MaxKeys input > 0 then insert_key ''max-keys'' (Itoa (lj_MaxKeys input)) ps else ps)
      in (ps, header_if ''Access-Control-Request-Headers'' (TrimSpace (lj_RequestHeader input))
                (header_if ''Origin'' (TrimSpace (lj_Origin input)) []), NoData))"

definition trans_ListObjects :: "ListObjectsInput \<Rightarrow> request" where
  "trans_ListObjects input =
     (case trans_ListObjs input of (ps, hs, data) \<Rightarrow> (param_if ''marker'' (lj_Marker input) ps, hs, data))"

definition trans_ListVersions :: "ListVersionsInput \<Rightarrow> request" where
  "trans_ListVersions input =
     (case trans_ListObjs input of (ps, hs, data) \<Rightarrow>
       (param_if ''version-id-marker'' (lv_VersionIdMarker input)
         (param_if ''key-marker'' (lv_KeyMarker input) (insert_key ''versions'' [] ps)), hs, data))"

definition trans_ListMultipartUploads :: "ListMultipartUploadsInput \<Rightarrow> request" where
  "trans_ListMultipartUploads input =
     (let ps = param_if ''delimiter'' (lm_Delimiter input) (param_if ''prefix'' (lm_Prefix input) [(''uploads'', [])]);
          ps = (if lm_MaxUploads input > 0 then insert_key ''max-uploads'' (Itoa (lm_MaxUploads input)) ps else ps)
      in (param_if ''upload-id-marker'' (lm_UploadIdMarker input) (param_if ''key-marker'' (lm_KeyMarker input) ps), [], NoData))"

definition trans_SetBucketQuota :: "int \<Rightarrow> request" where
  "trans_SetBucketQuota quota = trans_sub ''quota'' (markup ''Quota'' (element ''StorageQuota'' (Itoa quota)))"

definition trans_SetBucketAcl :: "'s obs_std \<Rightarrow> string \<Rightarrow> AccessControlPolicy \<Rightarrow> request" where
  "trans_SetBucketAcl std acl policy =
     (if acl \<noteq> [] then ([(''acl'', [])], [(''x-amz-acl'', [acl])], NoData)
      else ([(''acl'', [])], [], TextData (fst (ConvertAclToXml std policy False))))"

definition trans_SetBucketPolicy :: "string \<Rightarrow> request" where
  "trans_SetBucketPolicy policy = ([(''policy'', [])], [], ReaderData (Raw StringsReader policy 0))"

definition corsRuleXml :: "CorsRule \<Rightarrow> string" where
  "corsRuleXml rule =
     markup ''CORSRule''
       (element_if ''ID'' (cr_ID rule) @ concat (map (element ''AllowedOrigin'') (cr_AllowedOrigin rule)) @
        concat (map (element ''AllowedMethod'') (cr_AllowedMethod rule)) @
        concat (map (element ''AllowedHeader'') (cr_AllowedHeader rule)) @
        element ''MaxAgeSeconds'' (Itoa (cr_MaxAgeSeconds rule)) @
        concat (map (element ''ExposeHeader'') (cr_ExposeHeader rule)))"

definition trans_SetBucketCors :: "'s obs_std \<Rightarrow> CorsRule list \<Rightarrow> request" where
  "trans_SetBucketCors std rules = trans_md5 std ''cors'' (markup ''CORSConfiguration'' (concat (map corsRuleXml rules)))"

definition trans_SetBucketVersioning :: "string \<Rightarrow> request" where
  "trans_SetBucketVersioning status = trans_sub ''versioning'' (markup ''VersioningConfiguration'' (element ''Status'' status))"

definition trans_SetBucketWebsiteConfiguration :: "'s obs_std \<Rightarrow> BucketWebsiteConfiguration \<Rightarrow> request" where
  "trans_SetBucketWebsiteConfiguration std w =
     ([(''website'', [])], [], TextData (fst (ConvertWebsiteConfigurationToXml std w False)))"

definition trans_GetBucketMetadata :: "GetBucketMetadataInput \<Rightarrow> request" where
  "trans_GetBucketMetadata input =
     ([], header_if ''Access-Control-Request-Headers'' (TrimSpace (gb_RequestHeader input))
        (header_if ''Origin'' (TrimSpace (gb_Origin input)) []), NoData)"

definition trans_SetBucketLoggingConfiguration :: "'s obs_std \<Rightarrow> BucketLoggingStatus \<Rightarrow> request" where
  "trans_SetBucketLoggingConfiguration std l =
     ([(''logging'', [])], [], TextData (fst (ConvertLoggingStatusToXml std l False)))"

definition trans_SetBucketLifecycleConfiguration :: "'s obs_std \<Rightarrow> LifecycleRule list \<Rightarrow> request" where
  "trans_SetBucketLifecycleConfiguration std rules =
     (case ConvertLifecyleConfigurationToXml std rules True of (data, md5) \<Rightarrow>
       ([(''lifecycle'', [])], [(''Content-MD5'', [md5])], TextData data))"

definition trans_SetBucketTagging :: "'s obs_std \<Rightarrow> Tag list \<Rightarrow> request" where
  "trans_SetBucketTagging std tags =
     trans_md5 std ''tagging'' (markup ''Tagging'' (markup ''TagSet'' (concat (map (\<lambda>t.
        markup ''Tag'' (element ''Key'' (tg_Key t) @ element ''Value'' (tg_Value t))) tags))))"

definition trans_SetBucketNotification :: "'s obs_std \<Rightarrow> TopicConfiguration list \<Rightarrow> request" where
  "trans_SetBucketNotification std topics =
     ([(''notification'', [])], [], TextData (fst (ConvertNotificationToXml std topics False)))"

section \<open>Encryption\<close>

datatype ISseHeader =
    SseKmsHeader string string
  | SseCHeader string string string

text \<open>\<open>base64.StdEncoding.DecodeString\<close> without an error.\<close>

fun b64_wellformed :: "string \<Rightarrow> bool" where
  "b64_wellformed [] = True"
| "b64_wellformed (p # q # r # s # rest) =
     (b64_val p \<noteq> None \<and> b64_val q \<noteq> None \<and>
      (if s = CHR ''='' then rest = [] \<and> (r = CHR ''='' \<or> b64_val r \<noteq> None)
       else b64_val r \<noteq> None \<and> b64_val s \<noteq> None \<and> b64_wellformed rest))"
| "b64_wellformed _ = False"

definition Base64Decode :: "string \<Rightarrow> byte list option" where
  "Base64Decode s =
     (if b64_wellformed (List.filter (\<lambda>c. c \<noteq> CHR 0x0A \<and> c \<noteq> CHR 0x0D) s) then Some (b64_decode s) else None)"

fun GetEncryption :: "ISseHeader \<Rightarrow> string" where
  "GetEncryption (SseKmsHeader encryption key) = (if encryption \<noteq> [] then encryption else ''aws:kms'')"
| "GetEncryption (SseCHeader encryption key keyMD5) = (if encryption \<noteq> [] then encryption else ''AES256'')"

fun GetKey :: "ISseHeader \<Rightarrow> string" where
  "GetKey (SseKmsHeader encryption key) = key"
| "GetKey (SseCHeader encryption key keyMD5) = key"

definition GetKeyMD5 :: "'s obs_std \<Rightarrow> string \<Rightarrow> string \<Rightarrow> string" where
  "GetKeyMD5 std key keyMD5 =
     (if keyMD5 \<noteq> [] then keyMD5
      else case Base64Decode key of Some bs \<Rightarrow> b64_encode (ob_Md5 std bs) | None \<Rightarrow> [])"

definition setSseHeader :: "'s obs_std \<Rightarrow> headers \<Rightarrow> ISseHeader option \<Rightarrow> bool \<Rightarrow> headers" where
  "setSseHeader std hs sseHeader sseCOnly =
     (case sseHeader of
        None \<Rightarrow> hs
      | Some (SseCHeader encryption key keyMD5) \<Rightarrow>
          insert_key ''x-amz-server-side-encryption-customer-key-MD5'' [GetKeyMD5 std key keyMD5]
            (insert_key ''x-amz-server-side-encryption-customer-key'' [key]
              (insert_key ''x-amz-server-side-encryption-customer-algorithm'' [GetEncryption (SseCHeader encryption key keyMD5)] hs))
      | Some (SseKmsHeader encryption key) \<Rightarrow>
          (if sseCOnly then hs
           else insert_key ''x-amz-server-side-encryption-aws-kms-key-id'' [key]
                  (insert_key ''x-amz-server-side-encryption'' [GetEncryption (SseKmsHeader encryption key)] hs)))"

definition setSourceSse :: "'s obs_std \<Rightarrow> headers \<Rightarrow> ISseHeader option \<Rightarrow> headers" where
  "setSourceSse std hs sseHeader =
     (case sseHeader of
        Some (SseCHeader encryption key keyMD5) \<Rightarrow>
          insert_key ''x-amz-copy-source-server-side-encryption-customer-key-MD5'' [GetKeyMD5 std key keyMD5]
            (insert_key ''x-amz-copy-source-server-side-encryption-customer-key'' [key]
              (insert_key ''x-amz-copy-source-server-side-encryption-customer-algorithm''
                [GetEncryption (SseCHeader encryption key keyMD5)] hs))
      | _ \<Rightarrow> hs)"

section \<open>Objects\<close>

record DeleteObjectInput =
  di_Bucket :: string
  di_Key :: string
  di_VersionId :: string

record ObjectToDelete =
  od_Key :: string
  od_VersionId :: string

record DeleteObjectsInput =
  dl_Bucket :: string
  dl_Quiet :: bool
  dl_Objects :: "ObjectToDelete list"

record SetObjectAclInput =
  sa_Bucket :: string
  sa_Key :: string
  sa_VersionId :: string
  sa_ACL :: string
  sa_Policy :: AccessControlPolicy

record GetObjectAclInput =
  ga_Bucket :: string
  ga_Key :: string
  ga_VersionId :: string

record RestoreObjectInput =
  ro_Bucket :: string
  ro_Key :: string
  ro_VersionId :: string
  ro_Days :: int
  ro_Tier :: string

record GetObjectMetadataInput =
  gm_Bucket :: string
  gm_Key :: string
  gm_VersionId :: string
  gm_Origin :: string
  gm_RequestHeader :: string
  gm_SseHeader :: "ISseHeader option"

record GetObjectInput = GetObjectMetadataInput +
  gi_IfMatch :: string
  gi_IfNoneMatch :: string
  gi_IfUnmodifiedSince :: "int option"
  gi_IfModifiedSince :: "int option"
  gi_RangeStart :: int
  gi_RangeEnd :: int
  gi_ImageProcess :: string
  gi_ResponseCacheControl :: string
  gi_ResponseContentDisposition :: string
  gi_ResponseContentEncoding :: string
  gi_ResponseContentLanguage :: string
  gi_ResponseContentType :: string
  gi_ResponseExpires :: string

definition trans_DeleteObject :: "DeleteObjectInput \<Rightarrow> request" where
  "trans_DeleteObject input = (param_if ''versionId'' (di_VersionId input) [], [], NoData)"

definition trans_DeleteObjects :: "'s obs_std \<Rightarrow> DeleteObjectsInput \<Rightarrow> request" where
  "trans_DeleteObjects std input =
     trans_md5 std ''delete'' (markup ''Delete''
       ((if dl_Quiet input then element ''Quiet'' ''true'' else []) @
        concat (map (\<lambda>ob. markup ''Object'' (element ''Key'' (od_Key ob) @ element_if ''VersionId'' (od_VersionId ob)))
          (dl_Objects input))))"

definition trans_SetObjectAcl :: "'s obs_std \<Rightarrow> SetObjectAclInput \<Rightarrow> request" where
  "trans_SetObjectAcl std input =
     (case trans_SetBucketAcl std (sa_ACL input) (sa_Policy input) of
        (ps, hs, data) \<Rightarrow> (param_if ''versionId'' (sa_VersionId input) ps, hs, data))"

definition trans_GetObjectAcl :: "GetObjectAclInput \<Rightarrow> request" where
  "trans_GetObjectAcl input = (param_if ''versionId'' (ga_VersionId input) [(''acl'', [])], [], NoData)"

definition trans_RestoreObject :: "RestoreObjectInput \<Rightarrow> request" where
  "trans_RestoreObject input =
     (param_if ''versionId'' (ro_VersionId input) [(''restore'', [])], [],
      xml_data (markup ''RestoreRequest'' (element ''Days'' (Itoa (ro_Days input)) @
        (if ro_Tier input \<noteq> [] then markup ''GlacierJobParameters'' (element ''Tier'' (ro_Tier input)) else []))))"

definition trans_GetObjectMetadata :: "'s obs_std \<Rightarrow> 'a GetObjectMetadataInput_scheme \<Rightarrow> request" where
  "trans_GetObjectMetadata std input =
     (param_if ''versionId'' (gm_VersionId input) [],
      setSseHeader std (header_if ''Access-Control-Request-Headers'' (gm_RequestHeader input)
        (header_if ''Origin'' (gm_Origin input) [])) (gm_SseHeader input) True, NoData)"

text \<open>A range of a single byte is no range.\<close>

definition range_text :: "int \<Rightarrow> int \<Rightarrow> string" where
  "range_text start finish = ''bytes='' @ Itoa start @ ''-'' @ Itoa finish"

definition time_if :: "'s obs_std \<Rightarrow> string \<Rightarrow> int option \<Rightarrow> headers \<Rightarrow> headers" where
  "time_if std k t hs = (case t of None \<Rightarrow> hs | Some t \<Rightarrow> insert_key k [ob_FormatRfc1123 std t] hs)"

definition trans_GetObject :: "'s obs_std \<Rightarrow> GetObjectInput \<Rightarrow> request" where
  "trans_GetObject std input =
     (case trans_GetObjectMetadata std input of (ps, hs, data) \<Rightarrow>
       let ps = param_if ''response-cache-control'' (gi_ResponseCacheControl input) ps;
           ps = param_if ''response-content-disposition'' (gi_ResponseContentDisposition input) ps;
           ps = param_if ''response-content-encoding'' (gi_ResponseContentEncoding input) ps;
           ps = param_if ''response-content-language'' (gi_ResponseContentLanguage input) ps;
           ps = param_if ''response-content-type'' (gi_ResponseContentType input) ps;
           ps = param_if ''response-expires'' (gi_ResponseExpires input) ps;
           ps = param_if ''x-image-process'' (gi_ImageProcess input) ps;
           hs = (if gi_RangeStart input \<ge> 0 \<and> gi_RangeEnd input > gi_RangeStart input
                 then insert_key ''Range'' [range_text (gi_RangeStart input) (gi_RangeEnd input)] hs else hs);
           hs = header_if ''If-None-Match'' (gi_IfNoneMatch input) (header_if ''If-Match'' (gi_IfMatch input) hs);
           hs = time_if std ''If-Unmodified-Since'' (gi_IfUnmodifiedSince input)
                  (time_if std ''If-Modified-Since'' (gi_IfModifiedSince input) hs)
       in (ps, hs, data))"

record ObjectOperationInput =
  oi_Bucket :: string
  oi_Key :: string
  oi_ACL :: string
  oi_StorageClass :: string
  oi_WebsiteRedirectLocation :: string
  oi_SseHeader :: "ISseHeader option"
  oi_Metadata :: "(string, string) gomap"

record PutObjectBasicInput = ObjectOperationInput +
  pb_ContentType :: string
  pb_ContentMD5 :: string
  pb_ContentLength :: int

record PutObjectInput = PutObjectBasicInput +
  po_Body :: "reader option"

record PutFileInput = PutObjectBasicInput +
  pf_SourceFile :: string

record CopyObjectInput = ObjectOperationInput +
  ci_CopySourceBucket :: string
  ci_CopySourceKey :: string
  ci_CopySourceVersionId :: string
  ci_CopySourceIfMatch :: string
  ci_CopySourceIfNoneMatch :: string
  ci_CopySourceIfUnmodifiedSince :: "int option"
  ci_CopySourceIfModifiedSince :: "int option"
  ci_SourceSseHeader :: "ISseHeader option"
  ci_CacheControl :: string
  ci_ContentDisposition :: string
  ci_ContentEncoding :: string
  ci_ContentLanguage :: string
  ci_ContentType :: string
  ci_Expires :: string
  ci_MetadataDirective :: string

definition metadata_key :: "string \<Rightarrow> string" where
  "metadata_key key =
     (let key = TrimSpace key in if HasPrefix key HEADER_PREFIX_META then key else HEADER_PREFIX_META @ key)"

definition trans_ObjectOperation :: "'s obs_std \<Rightarrow> 'a ObjectOperationInput_scheme \<Rightarrow> request" where
  "trans_ObjectOperation std input =
     (let hs = header_if ''x-amz-website-redirect-location'' (oi_WebsiteRedirectLocation input)
                 (header_if ''x-amz-storage-class'' (oi_StorageClass input) (header_if ''x-amz-acl'' (oi_ACL input) []));
          hs = setSseHeader std hs (oi_SseHeader input) False
      in ([], foldl (\<lambda>m (k, v). insert_key (metadata_key k) [v] m) hs (oi_Metadata input), NoData))"

definition trans_PutObjectBasic :: "'s obs_std \<Rightarrow> 'a PutObjectBasicInput_scheme \<Rightarrow> request" where
  "trans_PutObjectBasic std input =
     (case trans_ObjectOperation std input of (ps, hs, data) \<Rightarrow>
       let hs = header_if ''Content-MD5'' (pb_ContentMD5 input) hs;
           hs = (if pb_ContentLength input > 0 then insert_key ''Content-Length'' [Itoa (pb_ContentLength input)] hs else hs)
       in (ps, header_if ''Content-Type'' (pb_ContentType input) hs, data))"

definition data_of :: "reader option \<Rightarrow> payload" where
  "data_of body = (case body of None \<Rightarrow> NoData | Some b \<Rightarrow> ReaderData b)"

definition trans_PutObject :: "'s obs_std \<Rightarrow> PutObjectInput \<Rightarrow> request" where
  "trans_PutObject std input =
     (case trans_PutObjectBasic std input of (ps, hs, data) \<Rightarrow> (ps, hs, data_of (po_Body input)))"

definition copy_source :: "string \<Rightarrow> string \<Rightarrow> string \<Rightarrow> string" where
  "copy_source bucket key version =
     bucket @ ''/'' @ UrlEncode key False @ (if version \<noteq> [] then ''?versionId='' @ version else [])"

definition trans_CopyObject :: "'s obs_std \<Rightarrow> CopyObjectInput \<Rightarrow> request" where
  "trans_CopyObject std input =
     (case trans_ObjectOperation std input of (ps, hs, data) \<Rightarrow>
       let hs = insert_key ''x-amz-copy-source''
                  [copy_source (ci_CopySourceBucket input) (ci_CopySourceKey input) (ci_CopySourceVersionId input)] hs;
           hs = header_if ''x-amz-metadata-directive'' (ci_MetadataDirective input) hs;
           hs = (if ci_MetadataDirective input = ''REPLACE'' then
                   header_if ''expires'' (ci_Expires input)
                     (header_if ''content-type'' (ci_ContentType input)
                     (header_if ''content-language'' (ci_ContentLanguage input)
                     (header_if ''content-encoding'' (ci_ContentEncoding input)
                     (header_if ''content-disposition'' (ci_ContentDisposition input)
                     (header_if ''cache-control'' (ci_CacheControl input) hs)))))
                 else hs);
           hs = header_if ''x-amz-copy-source-if-none-match'' (ci_CopySourceIfNoneMatch input)
                  (header_if ''x-amz-copy-source-if-match'' (ci_CopySourceIfMatch input) hs);
           hs = time_if std ''x-amz-copy-source-if-unmodified-since'' (ci_CopySourceIfUnmodifiedSince input)
                  (time_if std ''x-amz-copy-source-if-modified-since'' (ci_CopySourceIfModifiedSince input) hs)
       in (ps, setSourceSse std hs (ci_SourceSseHeader input), data))"

section \<open>Uploads in parts\<close>

record AbortMultipartUploadInput =
  au_Bucket :: string
  au_Key :: string
  au_UploadId :: string

record InitiateMultipartUploadInput = ObjectOperationInput +
  iu_ContentType :: string

record UploadPartInput =
  up_Bucket :: string
  up_Key :: string
  up_PartNumber :: int
  up_UploadId :: string
  up_ContentMD5 :: string
  up_SseHeader :: "ISseHeader option"
  up_Body :: "reader option"
  up_SourceFile :: string
  up_Offset :: int
  up_PartSize :: int

record CompleteMultipartUploadInput =
  cu_Bucket :: string
  cu_Key :: string
  cu_UploadId :: string
  cu_Parts :: "obs_Part list"

record ListPartsInput =
  lp_Bucket :: string
  lp_Key :: string
  lp_UploadId :: string
  lp_MaxParts :: int
  lp_PartNumberMarker :: int

record CopyPartInput =
  cp_Bucket :: string
  cp_Key :: string
  cp_UploadId :: string
  cp_PartNumber :: int
  cp_CopySourceBucket :: string
  cp_CopySourceKey :: string
  cp_CopySourceVersionId :: string
  cp_CopySourceRangeStart :: int
  cp_CopySourceRangeEnd :: int
  cp_SseHeader :: "ISseHeader option"
  cp_SourceSseHeader :: "ISseHeader option"

definition trans_AbortMultipartUpload :: "AbortMultipartUploadInput \<Rightarrow> request" where
  "trans_AbortMultipartUpload input = ([(''uploadId'', au_UploadId input)], [], NoData)"

text \<open>The type of the content is not sent.\<close>

definition trans_InitiateMultipartUpload :: "'s obs_std \<Rightarrow> InitiateMultipartUploadInput \<Rightarrow> request" where
  "trans_InitiateMultipartUpload std input =
     (case trans_ObjectOperation std input of (ps, hs, data) \<Rightarrow> (insert_key ''uploads'' [] ps, hs, data))"

text \<open>Nor is the MD5 sum of a part, nor its size.\<close>

definition trans_UploadPart :: "'s obs_std \<Rightarrow> UploadPartInput \<Rightarrow> request" where
  "trans_UploadPart std input =
     ([(''uploadId'', up_UploadId input), (''partNumber'', Itoa (up_PartNumber input))],
      setSseHeader std [] (up_SseHeader input) True, data_of (up_Body input))"

definition trans_CompleteMultipartUpload :: "'s obs_std \<Rightarrow> CompleteMultipartUploadInput \<Rightarrow> request" where
  "trans_CompleteMultipartUpload std input =
     ([(''uploadId'', cu_UploadId input)], [],
      TextData (fst (ConvertCompleteMultipartUploadInputToXml std (cu_Parts input) False)))"

definition trans_ListParts :: "ListPartsInput \<Rightarrow> request" where
  "trans_ListParts input =
     (let ps = [(''uploadId'', lp_UploadId input)];
          ps = (if lp_MaxParts input > 0 then insert_key ''max-parts'' (Itoa (lp_MaxParts input)) ps else ps);
          ps = (if lp_PartNumberMarker input > 0 then insert_key ''part-number-marker'' (Itoa (lp_PartNumberMarker input)) ps else ps)
      in (ps, [], NoData))"

definition trans_CopyPart :: "'s obs_std \<Rightarrow> CopyPartInput \<Rightarrow> request" where
  "trans_CopyPart std input =
     (let hs = [(''x-amz-copy-source'',
                 [copy_source (cp_CopySourceBucket input) (cp_CopySourceKey input) (cp_CopySourceVersionId input)])];
          hs = (if cp_CopySourceRangeStart input \<ge> 0 \<and> cp_CopySourceRangeEnd input > cp_CopySourceRangeStart input
                then insert_key ''x-amz-copy-source-range''
                       [range_text (cp_CopySourceRangeStart input) (cp_CopySourceRangeEnd input)] hs else hs)
      in ([(''uploadId'', cp_UploadId input), (''partNumber'', Itoa (cp_PartNumber input))],
          setSourceSse std (setSseHeader std hs (cp_SseHeader input) True) (cp_SourceSseHeader input), NoData))"

end
