(* ===== verification/Obs_Output.thy ===== *)
theory Obs_Output
  imports Obs_Trans
begin

text \<open>
  The OBS client, seventh part: the answers of the client's methods (\<open>api/pkg/utils/obs/model.go\<close>), how
  their fields are read from XML, and what is taken from the headers (\<open>convert.go\<close>).
  \<open>new_X\<close> is the zero value of the struct \<open>X\<close>, \<open>read_X\<close> stores an element into it, by the tags of the
  fields. A time is \<open>None\<close> when it is the zero time.
\<close>

section \<open>Parts of the answers\<close>

definition new_Owner :: Owner where
  "new_Owner = \<lparr>
     ow_ID = [], ow_DisplayName = []\<rparr>"

definition read_Owner :: "Owner reading" where
  "read_Owner = decode_fields
     [(''ID'', read_string (\<lambda>v r. r\<lparr>ow_ID := v\<rparr>)),
      (''DisplayName'', read_string (\<lambda>v r. r\<lparr>ow_DisplayName := v\<rparr>))]"

record Initiator =
  it_ID :: string
  it_DisplayName :: string

definition new_Initiator :: Initiator where
  "new_Initiator = \<lparr>
     it_ID = [], it_DisplayName = []\<rparr>"

definition read_Initiator :: "Initiator reading" where
  "read_Initiator = decode_fields
     [(''ID'', read_string (\<lambda>v r. r\<lparr>it_ID := v\<rparr>)),
      (''DisplayName'', read_string (\<lambda>v r. r\<lparr>it_DisplayName := v\<rparr>))]"

record obs_Bucket =
  bk_Name :: string
  bk_CreationDate :: "int option"
  bk_Location :: string

definition new_Bucket :: obs_Bucket where
  "new_Bucket = \<lparr>
     bk_Name = [], bk_CreationDate = None, bk_Location = []\<rparr>"

definition read_Bucket :: "'s obs_std \<Rightarrow> obs_Bucket reading" where
  "read_Bucket std = decode_fields
     [(''Name'', read_string (\<lambda>v r. r\<lparr>bk_Name := v\<rparr>)),
      (''CreationDate'', read_time std (\<lambda>v r. r\<lparr>bk_CreationDate := v\<rparr>)),
      (''Location'', read_string (\<lambda>v r. r\<lparr>bk_Location := v\<rparr>))]"

record Content =
  ct_Owner :: Owner
  ct_ETag :: string
  ct_Key :: string
  ct_LastModified :: "int option"
  ct_Size :: int
  ct_StorageClass :: string

definition new_Content :: Content where
  "new_Content = \<lparr>
     ct_Owner = new_Owner, ct_ETag = [], ct_Key = [], ct_LastModified = None, ct_Size = 0, ct_StorageClass = []\<rparr>"

definition read_Content :: "'s obs_std \<Rightarrow> Content reading" where
  "read_Content std = decode_fields
     [(''Owner'', read_struct (read_Owner) ct_Owner (\<lambda>v r. r\<lparr>ct_Owner := v\<rparr>)),
      (''ETag'', read_string (\<lambda>v r. r\<lparr>ct_ETag := v\<rparr>)),
      (''Key'', read_string (\<lambda>v r. r\<lparr>ct_Key := v\<rparr>)),
      (''LastModified'', read_time std (\<lambda>v r. r\<lparr>ct_LastModified := v\<rparr>)),
      (''Size'', read_int (\<lambda>v r. r\<lparr>ct_Size := v\<rparr>)),
      (''StorageClass'', read_string (\<lambda>v r. r\<lparr>ct_StorageClass := v\<rparr>))]"

record DeleteMarker =
  dm_Key :: string
  dm_VersionId :: string
  dm_IsLatest :: bool
  dm_LastModified :: "int option"
  dm_Owner :: Owner
  dm_StorageClass :: string

definition new_DeleteMarker :: DeleteMarker where
  "new_DeleteMarker = \<lparr>
     dm_Key = [], dm_VersionId = [], dm_IsLatest = False, dm_LastModified = None, dm_Owner = new_Owner,
     dm_StorageClass = []\<rparr>"

definition read_DeleteMarker :: "'s obs_std \<Rightarrow> DeleteMarker reading" where
  "read_DeleteMarker std = decode_fields
     [(''Key'', read_string (\<lambda>v r. r\<lparr>dm_Key := v\<rparr>)),
      (''VersionId'', read_string (\<lambda>v r. r\<lparr>dm_VersionId := v\<rparr>)),
      (''IsLatest'', read_bool (\<lambda>v r. r\<lparr>dm_IsLatest := v\<rparr>)),
      (''LastModified'', read_time std (\<lambda>v r. r\<lparr>dm_LastModified := v\<rparr>)),
      (''Owner'', read_struct (read_Owner) dm_Owner (\<lambda>v r. r\<lparr>dm_Owner := v\<rparr>)),
      (''StorageClass'', read_string (\<lambda>v r. r\<lparr>dm_StorageClass := v\<rparr>))]"

record Version =
  vs_Key :: string
  vs_VersionId :: string
  vs_IsLatest :: bool
  vs_LastModified :: "int option"
  vs_Owner :: Owner
  vs_StorageClass :: string
  vs_ETag :: string
  vs_Size :: int

definition new_Version :: Version where
  "new_Version = \<lparr>
     vs_Key = [], vs_VersionId = [], vs_IsLatest = False, vs_LastModified = None, vs_Owner = new_Owner,
     vs_StorageClass = [], vs_ETag = [], vs_Size = 0\<rparr>"

definition read_Version :: "'s obs_std \<Rightarrow> Version reading" where
  "read_Version std = decode_fields
     [(''Key'', read_string (\<lambda>v r. r\<lparr>vs_Key := v\<rparr>)),
      (''VersionId'', read_string (\<lambda>v r. r\<lparr>vs_VersionId := v\<rparr>)),
      (''IsLatest'', read_bool (\<lambda>v r. r\<lparr>vs_IsLatest := v\<rparr>)),
      (''LastModified'', read_time std (\<lambda>v r. r\<lparr>vs_LastModified := v\<rparr>)),
      (''Owner'', read_struct (read_Owner) vs_Owner (\<lambda>v r. r\<lparr>vs_Owner := v\<rparr>)),
      (''StorageClass'', read_string (\<lambda>v r. r\<lparr>vs_StorageClass := v\<rparr>)),
      (''ETag'', read_string (\<lambda>v r. r\<lparr>vs_ETag := v\<rparr>)),
      (''Size'', read_int (\<lambda>v r. r\<lparr>vs_Size := v\<rparr>))]"

record Upload =
  ul_Key :: string
  ul_UploadId :: string
  ul_Initiated :: "int option"
  ul_StorageClass :: string
  ul_Owner :: Owner
  ul_Initiator :: Initiator

definition new_Upload :: Upload where
  "new_Upload = \<lparr>
     ul_Key = [], ul_UploadId = [], ul_Initiated = None, ul_StorageClass = [], ul_Owner = new_Owner,
     ul_Initiator = new_Initiator\<rparr>"

definition read_Upload :: "'s obs_std \<Rightarrow> Upload reading" where
  "read_Upload std = decode_fields
     [(''Key'', read_string (\<lambda>v r. r\<lparr>ul_Key := v\<rparr>)),
      (''UploadId'', read_string (\<lambda>v r. r\<lparr>ul_UploadId := v\<rparr>)),
      (''Initiated'', read_time std (\<lambda>v r. r\<lparr>ul_Initiated := v\<rparr>)),
      (''StorageClass'', read_string (\<lambda>v r. r\<lparr>ul_StorageClass := v\<rparr>)),
      (''Owner'', read_struct (read_Owner) ul_Owner (\<lambda>v r. r\<lparr>ul_Owner := v\<rparr>)),
      (''Initiator'', read_struct (read_Initiator) ul_Initiator (\<lambda>v r. r\<lparr>ul_Initiator := v\<rparr>))]"

text \<open>The type of a grantee is an attribute.\<close>

definition new_Grantee :: Grantee where
  "new_Grantee = \<lparr>
     gt_Type = [], gt_ID = [], gt_DisplayName = [], gt_URI = []\<rparr>"

definition read_Grantee :: "Grantee reading" where
  "read_Grantee x r =
     decode_fields
       [(''ID'', read_string (\<lambda>v r. r\<lparr>gt_ID := v\<rparr>)),
        (''DisplayName'', read_string (\<lambda>v r. r\<lparr>gt_DisplayName := v\<rparr>)),
        (''URI'', read_string (\<lambda>v r. r\<lparr>gt_URI := v\<rparr>))] x
       (case map_of (attributes_of x) ''type'' of Some v \<Rightarrow> r\<lparr>gt_Type := v\<rparr> | None \<Rightarrow> r)"

definition new_Grant :: Grant where
  "new_Grant = \<lparr>
     gr_Grantee = new_Grantee, gr_Permission = []\<rparr>"

definition read_Grant :: "Grant reading" where
  "read_Grant = decode_fields
     [(''Grantee'', read_struct (read_Grantee) gr_Grantee (\<lambda>v r. r\<lparr>gr_Grantee := v\<rparr>)),
      (''Permission'', read_string (\<lambda>v r. r\<lparr>gr_Permission := v\<rparr>))]"

definition new_CorsRule :: CorsRule where
  "new_CorsRule = \<lparr>
     cr_ID = [], cr_AllowedOrigin = [], cr_AllowedMethod = [], cr_AllowedHeader = [], cr_MaxAgeSeconds = 0,
     cr_ExposeHeader = []\<rparr>"

definition read_CorsRule :: "CorsRule reading" where
  "read_CorsRule = decode_fields
     [(''ID'', read_string (\<lambda>v r. r\<lparr>cr_ID := v\<rparr>)),
      (''AllowedOrigin'', read_strings cr_AllowedOrigin (\<lambda>v r. r\<lparr>cr_AllowedOrigin := v\<rparr>)),
      (''AllowedMethod'', read_strings cr_AllowedMethod (\<lambda>v r. r\<lparr>cr_AllowedMethod := v\<rparr>)),
      (''AllowedHeader'', read_strings cr_AllowedHeader (\<lambda>v r. r\<lparr>cr_AllowedHeader := v\<rparr>)),
      (''MaxAgeSeconds'', read_int (\<lambda>v r. r\<lparr>cr_MaxAgeSeconds := v\<rparr>)),
      (''ExposeHeader'', read_strings cr_ExposeHeader (\<lambda>v r. r\<lparr>cr_ExposeHeader := v\<rparr>))]"

definition new_Condition :: Condition where
  "new_Condition = \<lparr>
     co_KeyPrefixEquals = [], co_HttpErrorCodeReturnedEquals = []\<rparr>"

definition read_Condition :: "Condition reading" where
  "read_Condition = decode_fields
     [(''KeyPrefixEquals'', read_string (\<lambda>v r. r\<lparr>co_KeyPrefixEquals := v\<rparr>)),
      (''HttpErrorCodeReturnedEquals'', read_string (\<lambda>v r. r\<lparr>co_HttpErrorCodeReturnedEquals := v\<rparr>))]"

definition new_Redirect :: Redirect where
  "new_Redirect = \<lparr>
     rd_Protocol = [], rd_HostName = [], rd_ReplaceKeyPrefixWith = [], rd_ReplaceKeyWith = [],
     rd_HttpRedirectCode = []\<rparr>"

definition read_Redirect :: "Redirect reading" where
  "read_Redirect = decode_fields
     [(''Protocol'', read_string (\<lambda>v r. r\<lparr>rd_Protocol := v\<rparr>)),
      (''HostName'', read_string (\<lambda>v r. r\<lparr>rd_HostName := v\<rparr>)),
      (''ReplaceKeyPrefixWith'', read_string (\<lambda>v r. r\<lparr>rd_ReplaceKeyPrefixWith := v\<rparr>)),
      (''ReplaceKeyWith'', read_string (\<lambda>v r. r\<lparr>rd_ReplaceKeyWith := v\<rparr>)),
      (''HttpRedirectCode'', read_string (\<lambda>v r. r\<lparr>rd_HttpRedirectCode := v\<rparr>))]"

definition new_RoutingRule :: RoutingRule where
  "new_RoutingRule = \<lparr>
     rr_Condition = new_Condition, rr_Redirect = new_Redirect\<rparr>"

definition read_RoutingRule :: "RoutingRule reading" where
  "read_RoutingRule = decode_fields
     [(''Condition'', read_struct (read_Condition) rr_Condition (\<lambda>v r. r\<lparr>rr_Condition := v\<rparr>)),
      (''Redirect'', read_struct (read_Redirect) rr_Redirect (\<lambda>v r. r\<lparr>rr_Redirect := v\<rparr>))]"

definition new_RedirectAllRequestsTo :: RedirectAllRequestsTo where
  "new_RedirectAllRequestsTo = \<lparr>
     ra_Protocol = [], ra_HostName = []\<rparr>"

definition read_RedirectAllRequestsTo :: "RedirectAllRequestsTo reading" where
  "read_RedirectAllRequestsTo = decode_fields
     [(''Protocol'', read_string (\<lambda>v r. r\<lparr>ra_Protocol := v\<rparr>)),
      (''HostName'', read_string (\<lambda>v r. r\<lparr>ra_HostName := v\<rparr>))]"

definition new_Transition :: Transition where
  "new_Transition = \<lparr>
     ts_Date = None, ts_Days = 0, ts_StorageClass = []\<rparr>"

definition read_Transition :: "'s obs_std \<Rightarrow> Transition reading" where
  "read_Transition std = decode_fields
     [(''Date'', read_time std (\<lambda>v r. r\<lparr>ts_Date := v\<rparr>)),
      (''Days'', read_int (\<lambda>v r. r\<lparr>ts_Days := v\<rparr>)),
      (''StorageClass'', read_string (\<lambda>v r. r\<lparr>ts_StorageClass := v\<rparr>))]"

definition new_Expiration :: Expiration where
  "new_Expiration = \<lparr>
     ex_Date = None, ex_Days = 0\<rparr>"

definition read_Expiration :: "'s obs_std \<Rightarrow> Expiration reading" where
  "read_Expiration std = decode_fields
     [(''Date'', read_time std (\<lambda>v r. r\<lparr>ex_Date := v\<rparr>)),
      (''Days'', read_int (\<lambda>v r. r\<lparr>ex_Days := v\<rparr>))]"

definition new_NoncurrentVersionTransition :: NoncurrentVersionTransition where
  "new_NoncurrentVersionTransition = \<lparr>
     nt_NoncurrentDays = 0, nt_StorageClass = []\<rparr>"

definition read_NoncurrentVersionTransition :: "NoncurrentVersionTransition reading" where
  "read_NoncurrentVersionTransition = decode_fields
     [(''NoncurrentDays'', read_int (\<lambda>v r. r\<lparr>nt_NoncurrentDays := v\<rparr>)),
      (''StorageClass'', read_string (\<lambda>v r. r\<lparr>nt_StorageClass := v\<rparr>))]"

definition new_LifecycleRule :: LifecycleRule where
  "new_LifecycleRule = \<lparr>
     lr_ID = [], lr_Prefix = [], lr_Status = [], lr_Transitions = [], lr_Expiration = new_Expiration,
     lr_NoncurrentVersionTransitions = [], lr_NoncurrentVersionExpiration = 0\<rparr>"

definition read_LifecycleRule :: "'s obs_std \<Rightarrow> LifecycleRule reading" where
  "read_LifecycleRule std = decode_fields
     [(''ID'', read_string (\<lambda>v r. r\<lparr>lr_ID := v\<rparr>)),
      (''Prefix'', read_string (\<lambda>v r. r\<lparr>lr_Prefix := v\<rparr>)),
      (''Status'', read_string (\<lambda>v r. r\<lparr>lr_Status := v\<rparr>)),
      (''Transition'', read_item (read_Transition std) new_Transition lr_Transitions (\<lambda>v r. r\<lparr>lr_Transitions := v\<rparr>)),
      (''Expiration'', read_struct (read_Expiration std) lr_Expiration (\<lambda>v r. r\<lparr>lr_Expiration := v\<rparr>)),
      (''NoncurrentVersionTransition'', read_item (read_NoncurrentVersionTransition) new_NoncurrentVersionTransition lr_NoncurrentVersionTransitions (\<lambda>v r. r\<lparr>lr_NoncurrentVersionTransitions := v\<rparr>)),
      (''NoncurrentVersionExpiration'', within ''NoncurrentDays'' (read_int (\<lambda>v r. r\<lparr>lr_NoncurrentVersionExpiration := v\<rparr>)))]"

definition new_Tag :: Tag where
  "new_Tag = \<lparr>
     tg_Key = [], tg_Value = []\<rparr>"

definition read_Tag :: "Tag reading" where
  "read_Tag = decode_fields
     [(''Key'', read_string (\<lambda>v r. r\<lparr>tg_Key := v\<rparr>)),
      (''Value'', read_string (\<lambda>v r. r\<lparr>tg_Value := v\<rparr>))]"

definition new_FilterRule :: FilterRule where
  "new_FilterRule = \<lparr>
     fr_Name = [], fr_Value = []\<rparr>"

definition read_FilterRule :: "FilterRule reading" where
  "read_FilterRule = decode_fields
     [(''Name'', read_string (\<lambda>v r. r\<lparr>fr_Name := v\<rparr>)),
      (''Value'', read_string (\<lambda>v r. r\<lparr>fr_Value := v\<rparr>))]"

definition new_TopicConfiguration :: TopicConfiguration where
  "new_TopicConfiguration = \<lparr>
     tc_ID = [], tc_Topic = [], tc_Events = [], tc_FilterRules = []\<rparr>"

definition read_TopicConfiguration :: "TopicConfiguration reading" where
  "read_TopicConfiguration = decode_fields
     [(''Id'', read_string (\<lambda>v r. r\<lparr>tc_ID := v\<rparr>)),
      (''Topic'', read_string (\<lambda>v r. r\<lparr>tc_Topic := v\<rparr>)),
      (''Event'', read_strings tc_Events (\<lambda>v r. r\<lparr>tc_Events := v\<rparr>)),
      (''Filter'', within ''S3Key'' (within ''FilterRule'' (read_item (read_FilterRule) new_FilterRule tc_FilterRules (\<lambda>v r. r\<lparr>tc_FilterRules := v\<rparr>))))]"

record Deleted =
  de_Key :: string
  de_VersionId :: string
  de_DeleteMarker :: bool
  de_DeleteMarkerVersionId :: string

definition new_Deleted :: Deleted where
  "new_Deleted = \<lparr>
     de_Key = [], de_VersionId = [], de_DeleteMarker = False, de_DeleteMarkerVersionId = []\<rparr>"

definition read_Deleted :: "Deleted reading" where
  "read_Deleted = decode_fields
     [(''Key'', read_string (\<lambda>v r. r\<lparr>de_Key := v\<rparr>)),
      (''VersionId'', read_string (\<lambda>v r. r\<lparr>de_VersionId := v\<rparr>)),
      (''DeleteMarker'', read_bool (\<lambda>v r. r\<lparr>de_DeleteMarker := v\<rparr>)),
      (''DeleteMarkerVersionId'', read_string (\<lambda>v r. r\<lparr>de_DeleteMarkerVersionId := v\<rparr>))]"

record Error =
  er_Key :: string
  er_VersionId :: string
  er_Code :: string
  er_Message :: string

definition new_Error :: Error where
  "new_Error = \<lparr>
     er_Key = [], er_VersionId = [], er_Code = [], er_Message = []\<rparr>"

definition read_Error :: "Error reading" where
  "read_Error = decode_fields
     [(''Key'', read_string (\<lambda>v r. r\<lparr>er_Key := v\<rparr>)),
      (''VersionId'', read_string (\<lambda>v r. r\<lparr>er_VersionId := v\<rparr>)),
      (''Code'', read_string (\<lambda>v r. r\<lparr>er_Code := v\<rparr>)),
      (''Message'', read_string (\<lambda>v r. r\<lparr>er_Message := v\<rparr>))]"

definition new_Part :: obs_Part where
  "new_Part = \<lparr>
     pt_PartNumber = 0, pt_ETag = [], pt_LastModified = None, pt_Size = 0\<rparr>"

definition read_Part :: "'s obs_std \<Rightarrow> obs_Part reading" where
  "read_Part std = decode_fields
     [(''PartNumber'', read_int (\<lambda>v r. r\<lparr>pt_PartNumber := v\<rparr>)),
      (''ETag'', read_string (\<lambda>v r. r\<lparr>pt_ETag := v\<rparr>)),
      (''LastModified'', read_time std (\<lambda>v r. r\<lparr>pt_LastModified := v\<rparr>)),
      (''Size'', read_int (\<lambda>v r. r\<lparr>pt_Size := v\<rparr>))]"

section \<open>Answers about buckets\<close>

text \<open>An answer without fields of its own.\<close>

definition new_BaseModel :: BaseModel where
  "new_BaseModel = \<lparr>bm_StatusCode = 0, bm_RequestId = [], bm_ResponseHeaders = []\<rparr>"

definition read_BaseModel :: "BaseModel reading" where
  "read_BaseModel = decode_fields [base_field]"

record ListBucketsOutput = BaseModel +
  lb_Owner :: Owner
  lb_Buckets :: "obs_Bucket list"

definition new_ListBucketsOutput :: ListBucketsOutput where
  "new_ListBucketsOutput = \<lparr>
     bm_StatusCode = 0, bm_RequestId = [], bm_ResponseHeaders = [], lb_Owner = new_Owner, lb_Buckets = []\<rparr>"

definition read_ListBucketsOutput :: "'s obs_std \<Rightarrow> ListBucketsOutput reading" where
  "read_ListBucketsOutput std = decode_fields
     [base_field,
      (''Owner'', read_struct (read_Owner) lb_Owner (\<lambda>v r. r\<lparr>lb_Owner := v\<rparr>)),
      (''Buckets'', within ''Bucket'' (read_item (read_Bucket std) new_Bucket lb_Buckets (\<lambda>v r. r\<lparr>lb_Buckets := v\<rparr>)))]"

record GetBucketStoragePolicyOutput = BaseModel +
  gsp_StorageClass :: string

definition new_GetBucketStoragePolicyOutput :: GetBucketStoragePolicyOutput where
  "new_GetBucketStoragePolicyOutput = \<lparr>
     bm_StatusCode = 0, bm_RequestId = [], bm_ResponseHeaders = [], gsp_StorageClass = []\<rparr>"

definition read_GetBucketStoragePolicyOutput :: "GetBucketStoragePolicyOutput reading" where
  "read_GetBucketStoragePolicyOutput = decode_fields
     [base_field,
      (''DefaultStorageClass'', read_string (\<lambda>v r. r\<lparr>gsp_StorageClass := v\<rparr>))]"

record ListObjectsOutput = BaseModel +
  ls_Delimiter :: string
  ls_IsTruncated :: bool
  ls_Marker :: string
  ls_NextMarker :: string
  ls_MaxKeys :: int
  ls_Name :: string
  ls_Prefix :: string
  ls_Contents :: "Content list"
  ls_CommonPrefixes :: "string list"
  ls_Location :: string

definition new_ListObjectsOutput :: ListObjectsOutput where
  "new_ListObjectsOutput = \<lparr>
     bm_StatusCode = 0, bm_RequestId = [], bm_ResponseHeaders = [], ls_Delimiter = [], ls_IsTruncated = False,
     ls_Marker = [], ls_NextMarker = [], ls_MaxKeys = 0, ls_Name = [], ls_Prefix = [], ls_Contents = [],
     ls_CommonPrefixes = [], ls_Location = []\<rparr>"

definition read_ListObjectsOutput :: "'s obs_std \<Rightarrow> ListObjectsOutput reading" where
  "read_ListObjectsOutput std = decode_fields
     [base_field,
      (''Delimiter'', read_string (\<lambda>v r. r\<lparr>ls_Delimiter := v\<rparr>)),
      (''IsTruncated'', read_bool (\<lambda>v r. r\<lparr>ls_IsTruncated := v\<rparr>)),
      (''Marker'', read_string (\<lambda>v r. r\<lparr>ls_Marker := v\<rparr>)),
      (''NextMarker'', read_string (\<lambda>v r. r\<lparr>ls_NextMarker := v\<rparr>)),
      (''MaxKeys'', read_int (\<lambda>v r. r\<lparr>ls_MaxKeys := v\<rparr>)),
      (''Name'', read_string (\<lambda>v r. r\<lparr>ls_Name := v\<rparr>)),
      (''Prefix'', read_string (\<lambda>v r. r\<lparr>ls_Prefix := v\<rparr>)),
      (''Contents'', read_item (read_Content std) new_Content ls_Contents (\<lambda>v r. r\<lparr>ls_Contents := v\<rparr>)),
      (''CommonPrefixes'', within ''Prefix'' (read_strings ls_CommonPrefixes (\<lambda>v r. r\<lparr>ls_CommonPrefixes := v\<rparr>)))]"

record ListVersionsOutput = BaseModel +
  lvs_Delimiter :: string
  lvs_IsTruncated :: bool
  lvs_KeyMarker :: string
  lvs_NextKeyMarker :: string
  lvs_VersionIdMarker :: string
  lvs_NextVersionIdMarker :: string
  lvs_MaxKeys :: int
  lvs_Name :: string
  lvs_Prefix :: string
  lvs_Versions :: "Version list"
  lvs_DeleteMarkers :: "DeleteMarker list"
  lvs_CommonPrefixes :: "string list"
  lvs_Location :: string

definition new_ListVersionsOutput :: ListVersionsOutput where
  "new_ListVersionsOutput = \<lparr>
     bm_StatusCode = 0, bm_RequestId = [], bm_ResponseHeaders = [], lvs_Delimiter = [], lvs_IsTruncated = False,
     lvs_KeyMarker = [], lvs_NextKeyMarker = [], lvs_VersionIdMarker = [], lvs_NextVersionIdMarker = [],
     lvs_MaxKeys = 0, lvs_Name = [], lvs_Prefix = [], lvs_Versions = [], lvs_DeleteMarkers = [],
     lvs_CommonPrefixes = [], lvs_Location = []\<rparr>"

definition read_ListVersionsOutput :: "'s obs_std \<Rightarrow> ListVersionsOutput reading" where
  "read_ListVersionsOutput std = decode_fields
     [base_field,
      (''Delimiter'', read_string (\<lambda>v r. r\<lparr>lvs_Delimiter := v\<rparr>)),
      (''IsTruncated'', read_bool (\<lambda>v r. r\<lparr>lvs_IsTruncated := v\<rparr>)),
      (''KeyMarker'', read_string (\<lambda>v r. r\<lparr>lvs_KeyMarker := v\<rparr>)),
      (''NextKeyMarker'', read_string (\<lambda>v r. r\<lparr>lvs_NextKeyMarker := v\<rparr>)),
      (''VersionIdMarker'', read_string (\<lambda>v r. r\<lparr>lvs_VersionIdMarker := v\<rparr>)),
      (''NextVersionIdMarker'', read_string (\<lambda>v r. r\<lparr>lvs_NextVersionIdMarker := v\<rparr>)),
      (''MaxKeys'', read_int (\<lambda>v r. r\<lparr>lvs_MaxKeys := v\<rparr>)),
      (''Name'', read_string (\<lambda>v r. r\<lparr>lvs_Name := v\<rparr>)),
      (''Prefix'', read_string (\<lambda>v r. r\<lparr>lvs_Prefix := v\<rparr>)),
      (''Version'', read_item (read_Version std) new_Version lvs_Versions (\<lambda>v r. r\<lparr>lvs_Versions := v\<rparr>)),
      (''DeleteMarker'', read_item (read_DeleteMarker std) new_DeleteMarker lvs_DeleteMarkers (\<lambda>v r. r\<lparr>lvs_DeleteMarkers := v\<rparr>)),
      (''CommonPrefixes'', within ''Prefix'' (read_strings lvs_CommonPrefixes (\<lambda>v r. r\<lparr>lvs_CommonPrefixes := v\<rparr>)))]"

record ListMultipartUploadsOutput = BaseModel +
  lmu_Bucket :: string
  lmu_KeyMarker :: string
  lmu_NextKeyMarker :: string
  lmu_UploadIdMarker :: string
  lmu_NextUploadIdMarker :: string
  lmu_Delimiter :: string
  lmu_IsTruncated :: bool
  lmu_MaxUploads :: int
  lmu_Prefix :: string
  lmu_Uploads :: "Upload list"
  lmu_CommonPrefixes :: "string list"

definition new_ListMultipartUploadsOutput :: ListMultipartUploadsOutput where
  "new_ListMultipartUploadsOutput = \<lparr>
     bm_StatusCode = 0, bm_RequestId = [], bm_ResponseHeaders = [], lmu_Bucket = [], lmu_KeyMarker = [],
     lmu_NextKeyMarker = [], lmu_UploadIdMarker = [], lmu_NextUploadIdMarker = [], lmu_Delimiter = [],
     lmu_IsTruncated = False, lmu_MaxUploads = 0, lmu_Prefix = [], lmu_Uploads = [], lmu_CommonPrefixes = []\<rparr>"

definition read_ListMultipartUploadsOutput :: "'s obs_std \<Rightarrow> ListMultipartUploadsOutput reading" where
  "read_ListMultipartUploadsOutput std = decode_fields
     [base_field,
      (''Bucket'', read_string (\<lambda>v r. r\<lparr>lmu_Bucket := v\<rparr>)),
      (''KeyMarker'', read_string (\<lambda>v r. r\<lparr>lmu_KeyMarker := v\<rparr>)),
      (''NextKeyMarker'', read_string (\<lambda>v r. r\<lparr>lmu_NextKeyMarker := v\<rparr>)),
      (''UploadIdMarker'', read_string (\<lambda>v r. r\<lparr>lmu_UploadIdMarker := v\<rparr>)),
      (''NextUploadIdMarker'', read_string (\<lambda>v r. r\<lparr>lmu_NextUploadIdMarker := v\<rparr>)),
      (''Delimiter'', read_string (\<lambda>v r. r\<lparr>lmu_Delimiter := v\<rparr>)),
      (''IsTruncated'', read_bool (\<lambda>v r. r\<lparr>lmu_IsTruncated := v\<rparr>)),
      (''MaxUploads'', read_int (\<lambda>v r. r\<lparr>lmu_MaxUploads := v\<rparr>)),
      (''Prefix'', read_string (\<lambda>v r. r\<lparr>lmu_Prefix := v\<rparr>)),
      (''Upload'', read_item (read_Upload std) new_Upload lmu_Uploads (\<lambda>v r. r\<lparr>lmu_Uploads := v\<rparr>)),
      (''CommonPrefixes'', within ''Prefix'' (read_strings lmu_CommonPrefixes (\<lambda>v r. r\<lparr>lmu_CommonPrefixes := v\<rparr>)))]"

record GetBucketQuotaOutput = BaseModel +
  gq_Quota :: int

definition new_GetBucketQuotaOutput :: GetBucketQuotaOutput where
  "new_GetBucketQuotaOutput = \<lparr>
     bm_StatusCode = 0, bm_RequestId = [], bm_ResponseHeaders = [], gq_Quota = 0\<rparr>"

definition read_GetBucketQuotaOutput :: "GetBucketQuotaOutput reading" where
  "read_GetBucketQuotaOutput = decode_fields
     [base_field,
      (''StorageQuota'', read_int (\<lambda>v r. r\<lparr>gq_Quota := v\<rparr>))]"

record GetBucketStorageInfoOutput = BaseModel +
  gsi_Size :: int
  gsi_ObjectNumber :: int

definition new_GetBucketStorageInfoOutput :: GetBucketStorageInfoOutput where
  "new_GetBucketStorageInfoOutput = \<lparr>
     bm_StatusCode = 0, bm_RequestId = [], bm_ResponseHeaders = [], gsi_Size = 0, gsi_ObjectNumber = 0\<rparr>"

definition read_GetBucketStorageInfoOutput :: "GetBucketStorageInfoOutput reading" where
  "read_GetBucketStorageInfoOutput = decode_fields
     [base_field,
      (''Size'', read_int (\<lambda>v r. r\<lparr>gsi_Size := v\<rparr>)),
      (''ObjectNumber'', read_int (\<lambda>v r. r\<lparr>gsi_ObjectNumber := v\<rparr>))]"

record GetBucketLocationOutput = BaseModel +
  gl_Location :: string

definition new_GetBucketLocationOutput :: GetBucketLocationOutput where
  "new_GetBucketLocationOutput = \<lparr>
     bm_StatusCode = 0, bm_RequestId = [], bm_ResponseHeaders = [], gl_Location = []\<rparr>"

definition read_GetBucketLocationOutput :: "GetBucketLocationOutput reading" where
  "read_GetBucketLocationOutput = decode_fields
     [base_field,
      (''LocationConstraint'', read_string (\<lambda>v r. r\<lparr>gl_Location := v\<rparr>))]"

record GetBucketAclOutput = BaseModel +
  gba_Owner :: Owner
  gba_Grants :: "Grant list"

definition new_GetBucketAclOutput :: GetBucketAclOutput where
  "new_GetBucketAclOutput = \<lparr>
     bm_StatusCode = 0, bm_RequestId = [], bm_ResponseHeaders = [], gba_Owner = new_Owner, gba_Grants = []\<rparr>"

definition read_GetBucketAclOutput :: "GetBucketAclOutput reading" where
  "read_GetBucketAclOutput = decode_fields
     [base_field,
      (''Owner'', read_struct (read_Owner) gba_Owner (\<lambda>v r. r\<lparr>gba_Owner := v\<rparr>)),
      (''AccessControlList'', within ''Grant'' (read_item (read_Grant) new_Grant gba_Grants (\<lambda>v r. r\<lparr>gba_Grants := v\<rparr>)))]"

record GetBucketPolicyOutput = BaseModel +
  gbp_Policy :: string

definition new_GetBucketPolicyOutput :: GetBucketPolicyOutput where
  "new_GetBucketPolicyOutput = \<lparr>
     bm_StatusCode = 0, bm_RequestId = [], bm_ResponseHeaders = [], gbp_Policy = []\<rparr>"

record GetBucketCorsOutput = BaseModel +
  gc_CorsRules :: "CorsRule list"

definition new_GetBucketCorsOutput :: GetBucketCorsOutput where
  "new_GetBucketCorsOutput = \<lparr>
     bm_StatusCode = 0, bm_RequestId = [], bm_ResponseHeaders = [], gc_CorsRules = []\<rparr>"

definition read_GetBucketCorsOutput :: "GetBucketCorsOutput reading" where
  "read_GetBucketCorsOutput = decode_fields
     [base_field,
      (''CORSRule'', read_item (read_CorsRule) new_CorsRule gc_CorsRules (\<lambda>v r. r\<lparr>gc_CorsRules := v\<rparr>))]"

record GetBucketVersioningOutput = BaseModel +
  gv_Status :: string

definition new_GetBucketVersioningOutput :: GetBucketVersioningOutput where
  "new_GetBucketVersioningOutput = \<lparr>
     bm_StatusCode = 0, bm_RequestId = [], bm_ResponseHeaders = [], gv_Status = []\<rparr>"

definition read_GetBucketVersioningOutput :: "GetBucketVersioningOutput reading" where
  "read_GetBucketVersioningOutput = decode_fields
     [base_field,
      (''Status'', read_string (\<lambda>v r. r\<lparr>gv_Status := v\<rparr>))]"

record GetBucketWebsiteConfigurationOutput = BaseModel +
  gw_RedirectAllRequestsTo :: RedirectAllRequestsTo
  gw_IndexDocument :: string
  gw_ErrorDocument :: string
  gw_RoutingRules :: "RoutingRule list"

definition new_GetBucketWebsiteConfigurationOutput :: GetBucketWebsiteConfigurationOutput where
  "new_GetBucketWebsiteConfigurationOutput = \<lparr>
     bm_StatusCode = 0, bm_RequestId = [], bm_ResponseHeaders = [],
     gw_RedirectAllRequestsTo = new_RedirectAllRequestsTo, gw_IndexDocument = [], gw_ErrorDocument = [],
     gw_RoutingRules = []\<rparr>"

definition read_GetBucketWebsiteConfigurationOutput :: "GetBucketWebsiteConfigurationOutput reading" where
  "read_GetBucketWebsiteConfigurationOutput = decode_fields
     [base_field,
      (''RedirectAllRequestsTo'', read_struct (read_RedirectAllRequestsTo) gw_RedirectAllRequestsTo (\<lambda>v r. r\<lparr>gw_RedirectAllRequestsTo := v\<rparr>)),
      (''IndexDocument'', within ''Suffix'' (read_string (\<lambda>v r. r\<lparr>gw_IndexDocument := v\<rparr>))),
      (''ErrorDocument'', within ''Key'' (read_string (\<lambda>v r. r\<lparr>gw_ErrorDocument := v\<rparr>))),
      (''RoutingRules'', within ''RoutingRule'' (read_item (read_RoutingRule) new_RoutingRule gw_RoutingRules (\<lambda>v r. r\<lparr>gw_RoutingRules := v\<rparr>)))]"

record GetBucketMetadataOutput = BaseModel +
  gbm_StorageClass :: string
  gbm_Location :: string
  gbm_AllowOrigin :: string
  gbm_AllowMethod :: string
  gbm_AllowHeader :: string
  gbm_MaxAgeSeconds :: int
  gbm_ExposeHeader :: string

definition new_GetBucketMetadataOutput :: GetBucketMetadataOutput where
  "new_GetBucketMetadataOutput = \<lparr>
     bm_StatusCode = 0, bm_RequestId = [], bm_ResponseHeaders = [], gbm_StorageClass = [], gbm_Location = [],
     gbm_AllowOrigin = [], gbm_AllowMethod = [], gbm_AllowHeader = [], gbm_MaxAgeSeconds = 0, gbm_ExposeHeader = []\<rparr>"

definition read_GetBucketMetadataOutput :: "GetBucketMetadataOutput reading" where
  "read_GetBucketMetadataOutput = decode_fields
     [base_field]"

text \<open>The three fields below \<open>LoggingEnabled\<close>.\<close>

record GetBucketLoggingConfigurationOutput = BaseModel +
  glc_TargetBucket :: string
  glc_TargetPrefix :: string
  glc_TargetGrants :: "Grant list"

definition new_GetBucketLoggingConfigurationOutput :: GetBucketLoggingConfigurationOutput where
  "new_GetBucketLoggingConfigurationOutput = \<lparr>
     bm_StatusCode = 0, bm_RequestId = [], bm_ResponseHeaders = [], glc_TargetBucket = [], glc_TargetPrefix = [],
     glc_TargetGrants = []\<rparr>"

definition read_GetBucketLoggingConfigurationOutput :: "GetBucketLoggingConfigurationOutput reading" where
  "read_GetBucketLoggingConfigurationOutput = decode_fields
     [base_field,
      (''LoggingEnabled'', decode_fields
        [(''TargetBucket'', read_string (\<lambda>v r. r\<lparr>glc_TargetBucket := v\<rparr>)),
         (''TargetPrefix'', read_string (\<lambda>v r. r\<lparr>glc_TargetPrefix := v\<rparr>)),
         (''TargetGrants'', within ''Grant'' (read_item read_Grant new_Grant glc_TargetGrants (\<lambda>v r. r\<lparr>glc_TargetGrants := v\<rparr>)))])]"

record GetBucketLifecycleConfigurationOutput = BaseModel +
  glf_LifecycleRules :: "LifecycleRule list"

definition new_GetBucketLifecycleConfigurationOutput :: GetBucketLifecycleConfigurationOutput where
  "new_GetBucketLifecycleConfigurationOutput = \<lparr>
     bm_StatusCode = 0, bm_RequestId = [], bm_ResponseHeaders = [], glf_LifecycleRules = []\<rparr>"

definition read_GetBucketLifecycleConfigurationOutput :: "'s obs_std \<Rightarrow> GetBucketLifecycleConfigurationOutput reading" where
  "read_GetBucketLifecycleConfigurationOutput std = decode_fields
     [base_field,
      (''Rule'', read_item (read_LifecycleRule std) new_LifecycleRule glf_LifecycleRules (\<lambda>v r. r\<lparr>glf_LifecycleRules := v\<rparr>))]"

record GetBucketTaggingOutput = BaseModel +
  gbt_Tags :: "Tag list"

definition new_GetBucketTaggingOutput :: GetBucketTaggingOutput where
  "new_GetBucketTaggingOutput = \<lparr>
     bm_StatusCode = 0, bm_RequestId = [], bm_ResponseHeaders = [], gbt_Tags = []\<rparr>"

definition read_GetBucketTaggingOutput :: "GetBucketTaggingOutput reading" where
  "read_GetBucketTaggingOutput = decode_fields
     [base_field,
      (''TagSet'', within ''Tag'' (read_item (read_Tag) new_Tag gbt_Tags (\<lambda>v r. r\<lparr>gbt_Tags := v\<rparr>)))]"

record GetBucketNotificationOutput = BaseModel +
  gbn_TopicConfigurations :: "TopicConfiguration list"

definition new_GetBucketNotificationOutput :: GetBucketNotificationOutput where
  "new_GetBucketNotificationOutput = \<lparr>
     bm_StatusCode = 0, bm_RequestId = [], bm_ResponseHeaders = [], gbn_TopicConfigurations = []\<rparr>"

definition read_GetBucketNotificationOutput :: "GetBucketNotificationOutput reading" where
  "read_GetBucketNotificationOutput = decode_fields
     [base_field,
      (''TopicConfiguration'', read_item (read_TopicConfiguration) new_TopicConfiguration gbn_TopicConfigurations (\<lambda>v r. r\<lparr>gbn_TopicConfigurations := v\<rparr>))]"

section \<open>Answers about objects\<close>

record DeleteObjectOutput = BaseModel +
  do_VersionId :: string
  do_DeleteMarker :: bool

definition new_DeleteObjectOutput :: DeleteObjectOutput where
  "new_DeleteObjectOutput = \<lparr>
     bm_StatusCode = 0, bm_RequestId = [], bm_ResponseHeaders = [], do_VersionId = [], do_DeleteMarker = False\<rparr>"

definition read_DeleteObjectOutput :: "DeleteObjectOutput reading" where
  "read_DeleteObjectOutput = decode_fields
     [base_field,
      (''VersionId'', read_string (\<lambda>v r. r\<lparr>do_VersionId := v\<rparr>)),
      (''DeleteMarker'', read_bool (\<lambda>v r. r\<lparr>do_DeleteMarker := v\<rparr>))]"

record DeleteObjectsOutput = BaseModel +
  dos_Deleteds :: "Deleted list"
  dos_Errors :: "Error list"

definition new_DeleteObjectsOutput :: DeleteObjectsOutput where
  "new_DeleteObjectsOutput = \<lparr>
     bm_StatusCode = 0, bm_RequestId = [], bm_ResponseHeaders = [], dos_Deleteds = [], dos_Errors = []\<rparr>"

definition read_DeleteObjectsOutput :: "DeleteObjectsOutput reading" where
  "read_DeleteObjectsOutput = decode_fields
     [base_field,
      (''Deleted'', read_item (read_Deleted) new_Deleted dos_Deleteds (\<lambda>v r. r\<lparr>dos_Deleteds := v\<rparr>)),
      (''Error'', read_item (read_Error) new_Error dos_Errors (\<lambda>v r. r\<lparr>dos_Errors := v\<rparr>))]"

record GetObjectAclOutput = BaseModel +
  goa_VersionId :: string
  goa_Owner :: Owner
  goa_Grants :: "Grant list"

definition new_GetObjectAclOutput :: GetObjectAclOutput where
  "new_GetObjectAclOutput = \<lparr>
     bm_StatusCode = 0, bm_RequestId = [], bm_ResponseHeaders = [], goa_VersionId = [], goa_Owner = new_Owner,
     goa_Grants = []\<rparr>"

definition read_GetObjectAclOutput :: "GetObjectAclOutput reading" where
  "read_GetObjectAclOutput = decode_fields
     [base_field,
      (''VersionId'', read_string (\<lambda>v r. r\<lparr>goa_VersionId := v\<rparr>)),
      (''Owner'', read_struct (read_Owner) goa_Owner (\<lambda>v r. r\<lparr>goa_Owner := v\<rparr>)),
      (''AccessControlList'', within ''Grant'' (read_item (read_Grant) new_Grant goa_Grants (\<lambda>v r. r\<lparr>goa_Grants := v\<rparr>)))]"

text \<open>Answers to HEAD have no body; the body of an object is not read when the answer is.\<close>

record GetObjectMetadataOutput = BaseModel +
  gom_VersionId :: string
  gom_WebsiteRedirectLocation :: string
  gom_Expiration :: string
  gom_Restore :: string
  gom_StorageClass :: string
  gom_ContentLength :: int
  gom_ContentType :: string
  gom_ETag :: string
  gom_AllowOrigin :: string
  gom_AllowHeader :: string
  gom_AllowMethod :: string
  gom_ExposeHeader :: string
  gom_MaxAgeSeconds :: int
  gom_LastModified :: "int option"
  gom_SseHeader :: "ISseHeader option"
  gom_Metadata :: "(string, string) gomap"

definition new_GetObjectMetadataOutput :: GetObjectMetadataOutput where
  "new_GetObjectMetadataOutput = \<lparr>
     bm_StatusCode = 0, bm_RequestId = [], bm_ResponseHeaders = [], gom_VersionId = [],
     gom_WebsiteRedirectLocation = [], gom_Expiration = [], gom_Restore = [], gom_StorageClass = [],
     gom_ContentLength = 0, gom_ContentType = [], gom_ETag = [], gom_AllowOrigin = [], gom_AllowHeader = [],
     gom_AllowMethod = [], gom_ExposeHeader = [], gom_MaxAgeSeconds = 0, gom_LastModified = None,
     gom_SseHeader = None, gom_Metadata = []\<rparr>"

definition read_GetObjectMetadataOutput :: "('a GetObjectMetadataOutput_scheme) reading" where
  "read_GetObjectMetadataOutput = decode_fields [base_field]"

record GetObjectOutput = GetObjectMetadataOutput +
  go_DeleteMarker :: bool
  go_CacheControl :: string
  go_ContentDisposition :: string
  go_ContentEncoding :: string
  go_ContentLanguage :: string
  go_Expires :: string
  go_Body :: string

definition new_GetObjectOutput :: GetObjectOutput where
  "new_GetObjectOutput = GetObjectMetadataOutput.extend new_GetObjectMetadataOutput
     (GetObjectOutput.fields False [] [] [] [] [] [])"

record PutObjectOutput = BaseModel +
  pu_VersionId :: string
  pu_SseHeader :: "ISseHeader option"
  pu_StorageClass :: string
  pu_ETag :: string

definition new_PutObjectOutput :: PutObjectOutput where
  "new_PutObjectOutput = \<lparr>
     bm_StatusCode = 0, bm_RequestId = [], bm_ResponseHeaders = [], pu_VersionId = [], pu_SseHeader = None,
     pu_StorageClass = [], pu_ETag = []\<rparr>"

definition read_PutObjectOutput :: "PutObjectOutput reading" where
  "read_PutObjectOutput = decode_fields
     [base_field,
      (''VersionId'', read_string (\<lambda>v r. r\<lparr>pu_VersionId := v\<rparr>)),
      (''StorageClass'', read_string (\<lambda>v r. r\<lparr>pu_StorageClass := v\<rparr>)),
      (''ETag'', read_string (\<lambda>v r. r\<lparr>pu_ETag := v\<rparr>))]"

record CopyObjectOutput = BaseModel +
  cob_CopySourceVersionId :: string
  cob_VersionId :: string
  cob_SseHeader :: "ISseHeader option"
  cob_LastModified :: "int option"
  cob_ETag :: string

definition new_CopyObjectOutput :: CopyObjectOutput where
  "new_CopyObjectOutput = \<lparr>
     bm_StatusCode = 0, bm_RequestId = [], bm_ResponseHeaders = [], cob_CopySourceVersionId = [],
     cob_VersionId = [], cob_SseHeader = None, cob_LastModified = None, cob_ETag = []\<rparr>"

definition read_CopyObjectOutput :: "'s obs_std \<Rightarrow> CopyObjectOutput reading" where
  "read_CopyObjectOutput std = decode_fields
     [base_field,
      (''LastModified'', read_time std (\<lambda>v r. r\<lparr>cob_LastModified := v\<rparr>)),
      (''ETag'', read_string (\<lambda>v r. r\<lparr>cob_ETag := v\<rparr>))]"

section \<open>Answers about uploads in parts\<close>

record InitiateMultipartUploadOutput = BaseModel +
  imu_Bucket :: string
  imu_Key :: string
  imu_UploadId :: string
  imu_SseHeader :: "ISseHeader option"

definition new_InitiateMultipartUploadOutput :: InitiateMultipartUploadOutput where
  "new_InitiateMultipartUploadOutput = \<lparr>
     bm_StatusCode = 0, bm_RequestId = [], bm_ResponseHeaders = [], imu_Bucket = [], imu_Key = [],
     imu_UploadId = [], imu_SseHeader = None\<rparr>"

definition read_InitiateMultipartUploadOutput :: "InitiateMultipartUploadOutput reading" where
  "read_InitiateMultipartUploadOutput = decode_fields
     [base_field,
      (''Bucket'', read_string (\<lambda>v r. r\<lparr>imu_Bucket := v\<rparr>)),
      (''Key'', read_string (\<lambda>v r. r\<lparr>imu_Key := v\<rparr>)),
      (''UploadId'', read_string (\<lambda>v r. r\<lparr>imu_UploadId := v\<rparr>))]"

record UploadPartOutput = BaseModel +
  upo_PartNumber :: int
  upo_ETag :: string
  upo_SseHeader :: "ISseHeader option"

definition new_UploadPartOutput :: UploadPartOutput where
  "new_UploadPartOutput = \<lparr>
     bm_StatusCode = 0, bm_RequestId = [], bm_ResponseHeaders = [], upo_PartNumber = 0, upo_ETag = [],
     upo_SseHeader = None\<rparr>"

definition read_UploadPartOutput :: "UploadPartOutput reading" where
  "read_UploadPartOutput = decode_fields
     [base_field,
      (''PartNumber'', read_int (\<lambda>v r. r\<lparr>upo_PartNumber := v\<rparr>)),
      (''ETag'', read_string (\<lambda>v r. r\<lparr>upo_ETag := v\<rparr>))]"

record CompleteMultipartUploadOutput = BaseModel +
  cmu_VersionId :: string
  cmu_SseHeader :: "ISseHeader option"
  cmu_Location :: string
  cmu_Bucket :: string
  cmu_Key :: string
  cmu_ETag :: string

definition new_CompleteMultipartUploadOutput :: CompleteMultipartUploadOutput where
  "new_CompleteMultipartUploadOutput = \<lparr>
     bm_StatusCode = 0, bm_RequestId = [], bm_ResponseHeaders = [], cmu_VersionId = [], cmu_SseHeader = None,
     cmu_Location = [], cmu_Bucket = [], cmu_Key = [], cmu_ETag = []\<rparr>"

definition read_CompleteMultipartUploadOutput :: "CompleteMultipartUploadOutput reading" where
  "read_CompleteMultipartUploadOutput = decode_fields
     [base_field,
      (''Location'', read_string (\<lambda>v r. r\<lparr>cmu_Location := v\<rparr>)),
      (''Bucket'', read_string (\<lambda>v r. r\<lparr>cmu_Bucket := v\<rparr>)),
      (''Key'', read_string (\<lambda>v r. r\<lparr>cmu_Key := v\<rparr>)),
      (''ETag'', read_string (\<lambda>v r. r\<lparr>cmu_ETag := v\<rparr>))]"

record obs_ListPartsOutput = BaseModel +
  lpo_Bucket :: string
  lpo_Key :: string
  lpo_UploadId :: string
  lpo_PartNumberMarker :: int
  lpo_NextPartNumberMarker :: int
  lpo_MaxParts :: int
  lpo_IsTruncated :: bool
  lpo_StorageClass :: string
  lpo_Initiator :: Initiator
  lpo_Owner :: Owner
  lpo_Parts :: "obs_Part list"

definition new_ListPartsOutput :: obs_ListPartsOutput where
  "new_ListPartsOutput = \<lparr>
     bm_StatusCode = 0, bm_RequestId = [], bm_ResponseHeaders = [], lpo_Bucket = [], lpo_Key = [],
     lpo_UploadId = [], lpo_PartNumberMarker = 0, lpo_NextPartNumberMarker = 0, lpo_MaxParts = 0,
     lpo_IsTruncated = False, lpo_StorageClass = [], lpo_Initiator = new_Initiator, lpo_Owner = new_Owner,
     lpo_Parts = []\<rparr>"

definition read_ListPartsOutput :: "'s obs_std \<Rightarrow> obs_ListPartsOutput reading" where
  "read_ListPartsOutput std = decode_fields
     [base_field,
      (''Bucket'', read_string (\<lambda>v r. r\<lparr>lpo_Bucket := v\<rparr>)),
      (''Key'', read_string (\<lambda>v r. r\<lparr>lpo_Key := v\<rparr>)),
      (''UploadId'', read_string (\<lambda>v r. r\<lparr>lpo_UploadId := v\<rparr>)),
      (''PartNumberMarker'', read_int (\<lambda>v r. r\<lparr>lpo_PartNumberMarker := v\<rparr>)),
      (''NextPartNumberMarker'', read_int (\<lambda>v r. r\<lparr>lpo_NextPartNumberMarker := v\<rparr>)),
      (''MaxParts'', read_int (\<lambda>v r. r\<lparr>lpo_MaxParts := v\<rparr>)),
      (''IsTruncated'', read_bool (\<lambda>v r. r\<lparr>lpo_IsTruncated := v\<rparr>)),
      (''StorageClass'', read_string (\<lambda>v r. r\<lparr>lpo_StorageClass := v\<rparr>)),
      (''Initiator'', read_struct (read_Initiator) lpo_Initiator (\<lambda>v r. r\<lparr>lpo_Initiator := v\<rparr>)),
      (''Owner'', read_struct (read_Owner) lpo_Owner (\<lambda>v r. r\<lparr>lpo_Owner := v\<rparr>)),
      (''Part'', read_item (read_Part std) new_Part lpo_Parts (\<lambda>v r. r\<lparr>lpo_Parts := v\<rparr>))]"

record CopyPartOutput = BaseModel +
  cpo_PartNumber :: int
  cpo_ETag :: string
  cpo_LastModified :: "int option"
  cpo_SseHeader :: "ISseHeader option"

definition new_CopyPartOutput :: CopyPartOutput where
  "new_CopyPartOutput = \<lparr>
     bm_StatusCode = 0, bm_RequestId = [], bm_ResponseHeaders = [], cpo_PartNumber = 0, cpo_ETag = [],
     cpo_LastModified = None, cpo_SseHeader = None\<rparr>"

definition read_CopyPartOutput :: "'s obs_std \<Rightarrow> CopyPartOutput reading" where
  "read_CopyPartOutput std = decode_fields
     [base_field,
      (''ETag'', read_string (\<lambda>v r. r\<lparr>cpo_ETag := v\<rparr>)),
      (''LastModified'', read_time std (\<lambda>v r. r\<lparr>cpo_LastModified := v\<rparr>))]"

section \<open>What the headers tell\<close>

definition set_header :: "headers \<Rightarrow> string \<Rightarrow> (string \<Rightarrow> 'r \<Rightarrow> 'r) \<Rightarrow> 'r \<Rightarrow> 'r" where
  "set_header hs k upd r = (case lookup hs k of Some (v # _) \<Rightarrow> upd v r | _ \<Rightarrow> r)"

definition ParseStringToStorageClassType :: "string \<Rightarrow> string" where
  "ParseStringToStorageClassType v = (if v \<in> {''STANDARD'', ''STANDARD_IA'', ''GLACIER''} then v else [])"

definition StringToInt :: "string \<Rightarrow> int \<Rightarrow> int" where
  "StringToInt v d = (case Atoi v of Some n \<Rightarrow> n | None \<Rightarrow> d)"

text \<open>
  The headers of an answer are in lower case, the name that is looked up for the MD5 sum of a key is not.
\<close>

definition header_value :: "headers \<Rightarrow> string \<Rightarrow> string" where
  "header_value hs k = (case lookup hs k of Some (v # _) \<Rightarrow> v | _ \<Rightarrow> [])"

definition parseSseHeader :: "headers \<Rightarrow> ISseHeader option" where
  "parseSseHeader hs =
     (if lookup hs ''server-side-encryption-customer-algorithm'' \<noteq> None then
        Some (SseCHeader (header_value hs ''server-side-encryption-customer-algorithm'') []
          (header_value hs ''server-side-encryption-customer-key-MD5''))
      else if lookup hs ''server-side-encryption'' \<noteq> None then
        Some (SseKmsHeader (header_value hs ''server-side-encryption'')
          (header_value hs ''server-side-encryption-aws-kms-key-id''))
      else None)"

text \<open>
  The metadata of an object: headers that begin with \<open>meta-\<close> are moved to the names without it. Go
  iterates the map that is changed; a name that begins so twice may or may not be met again.
\<close>

definition take_metadata :: "headers \<Rightarrow> headers \<times> (string, string) gomap" where
  "take_metadata hs =
     foldl (\<lambda>(m, md) (k, vs).
         if HasPrefix k ''meta-'' then
           (let key = drop 5 k
            in (remove_key k (insert_key key vs m), insert_key key (case vs of v # _ \<Rightarrow> v | [] \<Rightarrow> []) md))
         else (m, md)) (hs, []) hs"

definition ParseGetObjectMetadataOutput :: "'s obs_std \<Rightarrow> 'a GetObjectMetadataOutput_scheme \<Rightarrow> 'a GetObjectMetadataOutput_scheme" where
  "ParseGetObjectMetadataOutput std out =
     (let hs = bm_ResponseHeaders out;
          out = set_header hs ''version-id'' (\<lambda>v r. r\<lparr>gom_VersionId := v\<rparr>) out;
          out = set_header hs ''website-redirect-location'' (\<lambda>v r. r\<lparr>gom_WebsiteRedirectLocation := v\<rparr>) out;
          out = set_header hs ''expiration'' (\<lambda>v r. r\<lparr>gom_Expiration := v\<rparr>) out;
          out = set_header hs ''restore'' (\<lambda>v r. r\<lparr>gom_Restore := v\<rparr>) out;
          out = set_header hs ''storage-class'' (\<lambda>v r. r\<lparr>gom_StorageClass := ParseStringToStorageClassType v\<rparr>) out;
          out = set_header hs ''etag'' (\<lambda>v r. r\<lparr>gom_ETag := v\<rparr>) out;
          out = set_header hs ''content-type'' (\<lambda>v r. r\<lparr>gom_ContentType := v\<rparr>) out;
          out = set_header hs ''access-control-allow-origin'' (\<lambda>v r. r\<lparr>gom_AllowOrigin := v\<rparr>) out;
          out = set_header hs ''access-control-allow-headers'' (\<lambda>v r. r\<lparr>gom_AllowHeader := v\<rparr>) out;
          out = set_header hs ''access-control-max-age'' (\<lambda>v r. r\<lparr>gom_MaxAgeSeconds := StringToInt v 0\<rparr>) out;
          out = set_header hs ''access-control-allow-methods'' (\<lambda>v r. r\<lparr>gom_AllowMethod := v\<rparr>) out;
          out = set_header hs ''access-control-expose-headers'' (\<lambda>v r. r\<lparr>gom_ExposeHeader := v\<rparr>) out;
          out = out\<lparr>gom_SseHeader := parseSseHeader hs\<rparr>;
          out = set_header hs ''last-modified'' (\<lambda>v r.
                  case ob_ParseRfc1123 std v of Some t \<Rightarrow> r\<lparr>gom_LastModified := Some t\<rparr> | None \<Rightarrow> r) out;
          out = set_header hs ''content-length'' (\<lambda>v r. r\<lparr>gom_ContentLength := StringToInt64 v 0\<rparr>) out
      in out\<lparr>gom_Metadata := snd (take_metadata hs), bm_ResponseHeaders := fst (take_metadata hs)\<rparr>)"

definition ParseCopyObjectOutput :: "CopyObjectOutput \<Rightarrow> CopyObjectOutput" where
  "ParseCopyObjectOutput out =
     (let hs = bm_ResponseHeaders out;
          out = set_header hs ''version-id'' (\<lambda>v r. r\<lparr>cob_VersionId := v\<rparr>) out
      in set_header hs ''copy-source-version-id'' (\<lambda>v r. r\<lparr>cob_CopySourceVersionId := v\<rparr>)
           (out\<lparr>cob_SseHeader := parseSseHeader hs\<rparr>))"

definition ParsePutObjectOutput :: "PutObjectOutput \<Rightarrow> PutObjectOutput" where
  "ParsePutObjectOutput out =
     (let hs = bm_ResponseHeaders out;
          out = (set_header hs ''version-id'' (\<lambda>v r. r\<lparr>pu_VersionId := v\<rparr>) out)\<lparr>pu_SseHeader := parseSseHeader hs\<rparr>;
          out = set_header hs ''storage-class'' (\<lambda>v r. r\<lparr>pu_StorageClass := ParseStringToStorageClassType v\<rparr>) out
      in set_header hs ''etag'' (\<lambda>v r. r\<lparr>pu_ETag := v\<rparr>) out)"

definition ParseInitiateMultipartUploadOutput :: "InitiateMultipartUploadOutput \<Rightarrow> InitiateMultipartUploadOutput" where
  "ParseInitiateMultipartUploadOutput out = out\<lparr>imu_SseHeader := parseSseHeader (bm_ResponseHeaders out)\<rparr>"

definition ParseUploadPartOutput :: "UploadPartOutput \<Rightarrow> UploadPartOutput" where
  "ParseUploadPartOutput out =
     set_header (bm_ResponseHeaders out) ''etag'' (\<lambda>v r. r\<lparr>upo_ETag := v\<rparr>)
       (out\<lparr>upo_SseHeader := parseSseHeader (bm_ResponseHeaders out)\<rparr>)"

definition ParseCompleteMultipartUploadOutput :: "CompleteMultipartUploadOutput \<Rightarrow> CompleteMultipartUploadOutput" where
  "ParseCompleteMultipartUploadOutput out =
     set_header (bm_ResponseHeaders out) ''version-id'' (\<lambda>v r. r\<lparr>cmu_VersionId := v\<rparr>)
       (out\<lparr>cmu_SseHeader := parseSseHeader (bm_ResponseHeaders out)\<rparr>)"

definition ParseCopyPartOutput :: "CopyPartOutput \<Rightarrow> CopyPartOutput" where
  "ParseCopyPartOutput out = out\<lparr>cpo_SseHeader := parseSseHeader (bm_ResponseHeaders out)\<rparr>"

definition ParseGetBucketMetadataOutput :: "GetBucketMetadataOutput \<Rightarrow> GetBucketMetadataOutput" where
  "ParseGetBucketMetadataOutput out =
     (let hs = bm_ResponseHeaders out;
          out = set_header hs ''x-default-storage-class'' (\<lambda>v r. r\<lparr>gbm_StorageClass := ParseStringToStorageClassType v\<rparr>) out;
          out = set_header hs ''bucket-region'' (\<lambda>v r. r\<lparr>gbm_Location := v\<rparr>) out;
          out = set_header hs ''access-control-allow-origin'' (\<lambda>v r. r\<lparr>gbm_AllowOrigin := v\<rparr>) out;
          out = set_header hs ''access-control-allow-headers'' (\<lambda>v r. r\<lparr>gbm_AllowHeader := v\<rparr>) out;
          out = set_header hs ''access-control-max-age'' (\<lambda>v r. r\<lparr>gbm_MaxAgeSeconds := StringToInt v 0\<rparr>) out;
          out = set_header hs ''access-control-allow-methods'' (\<lambda>v r. r\<lparr>gbm_AllowMethod := v\<rparr>) out
      in set_header hs ''access-control-expose-headers'' (\<lambda>v r. r\<lparr>gbm_ExposeHeader := v\<rparr>) out)"

definition ParseDeleteObjectOutput :: "DeleteObjectOutput \<Rightarrow> DeleteObjectOutput" where
  "ParseDeleteObjectOutput out =
     (let hs = bm_ResponseHeaders out
      in set_header hs ''delete-marker'' (\<lambda>v r. r\<lparr>do_DeleteMarker := (v = ''true'')\<rparr>)
           (set_header hs ''version-id'' (\<lambda>v r. r\<lparr>do_VersionId := v\<rparr>) out))"

definition ParseGetObjectOutput :: "'s obs_std \<Rightarrow> GetObjectOutput \<Rightarrow> GetObjectOutput" where
  "ParseGetObjectOutput std out =
     (let out = ParseGetObjectMetadataOutput std out;
          hs = bm_ResponseHeaders out;
          out = set_header hs ''delete-marker'' (\<lambda>v r. r\<lparr>go_DeleteMarker := (v = ''true'')\<rparr>) out;
          out = set_header hs ''cache-control'' (\<lambda>v r. r\<lparr>go_CacheControl := v\<rparr>) out;
          out = set_header hs ''content-disposition'' (\<lambda>v r. r\<lparr>go_ContentDisposition := v\<rparr>) out;
          out = set_header hs ''content-encoding'' (\<lambda>v r. r\<lparr>go_ContentEncoding := v\<rparr>) out;
          out = set_header hs ''content-language'' (\<lambda>v r. r\<lparr>go_ContentLanguage := v\<rparr>) out
      in set_header hs ''expires'' (\<lambda>v r. r\<lparr>go_Expires := v\<rparr>) out)"

end
