(* ===== verification/Obs_Client.thy ===== *)
theory Obs_Client
  imports Obs_Output Obs_Mime
begin

text \<open>
  The OBS client, eighth part: the client and its methods (\<open>api/pkg/utils/obs/client.go\<close>, with the
  options of \<open>conf.go\<close>). A method gives an error or an output; its input is \<open>None\<close> when it is nil.
\<close>

section \<open>The client\<close>

type_synonym configurer = "config \<Rightarrow> config"

definition WithSslVerify :: "bool \<Rightarrow> configurer" where "WithSslVerify v conf = conf\<lparr>cf_sslVerify := v\<rparr>"
definition WithHeaderTimeout :: "int \<Rightarrow> configurer" where "WithHeaderTimeout v conf = conf\<lparr>cf_headerTimeout := v\<rparr>"
definition WithProxyUrl :: "string \<Rightarrow> configurer" where "WithProxyUrl v conf = conf\<lparr>cf_proxyUrl := v\<rparr>"
definition WithMaxConnections :: "int \<Rightarrow> configurer" where "WithMaxConnections v conf = conf\<lparr>cf_maxConnsPerHost := v\<rparr>"
definition WithPathStyle :: "bool \<Rightarrow> configurer" where "WithPathStyle v conf = conf\<lparr>cf_pathStyle := v\<rparr>"
definition WithSignature :: "string \<Rightarrow> configurer" where "WithSignature v conf = conf\<lparr>cf_signature := v\<rparr>"
definition WithRegion :: "string \<Rightarrow> configurer" where "WithRegion v conf = conf\<lparr>cf_region := v\<rparr>"
definition WithConnectTimeout :: "int \<Rightarrow> configurer" where "WithConnectTimeout v conf = conf\<lparr>cf_connectTimeout := v\<rparr>"
definition WithSocketTimeout :: "int \<Rightarrow> configurer" where "WithSocketTimeout v conf = conf\<lparr>cf_socketTimeout := v\<rparr>"
definition WithIdleConnTimeout :: "int \<Rightarrow> configurer" where "WithIdleConnTimeout v conf = conf\<lparr>cf_idleConnTimeout := v\<rparr>"
definition WithMaxRetryCount :: "int \<Rightarrow> configurer" where "WithMaxRetryCount v conf = conf\<lparr>cf_maxRetryCount := v\<rparr>"
definition WithSecurityToken :: "string \<Rightarrow> configurer" where "WithSecurityToken v conf = conf\<lparr>cf_token := v\<rparr>"

text \<open>What the client gives its transport; durations are in nanoseconds.\<close>

record transport =
  tr_MaxIdleConns :: int
  tr_MaxIdleConnsPerHost :: int
  tr_ResponseHeaderTimeout :: int
  tr_IdleConnTimeout :: int
  tr_Proxy :: "string option"
  tr_InsecureSkipVerify :: bool

definition seconds :: "int \<Rightarrow> int" where
  "seconds n = i64 (1000000000 * n)"

definition getTransport :: "'s obs_std \<Rightarrow> config \<Rightarrow> string + transport" where
  "getTransport std conf =
     (let tr = \<lparr>tr_MaxIdleConns = cf_maxConnsPerHost conf, tr_MaxIdleConnsPerHost = cf_maxConnsPerHost conf,
            tr_ResponseHeaderTimeout = seconds (cf_headerTimeout conf), tr_IdleConnTimeout = seconds (cf_idleConnTimeout conf),
            tr_Proxy = None, tr_InsecureSkipVerify = (\<not> cf_sslVerify conf)\<rparr>
      in if cf_proxyUrl conf = [] then Inr tr
         else case ob_Parse std (cf_proxyUrl conf) of
                Inl err \<Rightarrow> Inl err
              | Inr _ \<Rightarrow> Inr (tr\<lparr>tr_Proxy := Some (cf_proxyUrl conf)\<rparr>))"

definition bare_config :: "string \<Rightarrow> string \<Rightarrow> string \<Rightarrow> config" where
  "bare_config ak sk endpoint =
     \<lparr>cf_ak = ak, cf_sk = sk, cf_token = [], cf_url = \<lparr>uh_scheme = [], uh_host = [], uh_port = 0\<rparr>, cf_endpoint = endpoint,
      cf_signature = [], cf_pathStyle = False, cf_region = [], cf_connectTimeout = 0, cf_socketTimeout = 0,
      cf_finalTimeout = 0, cf_headerTimeout = 0, cf_idleConnTimeout = 0, cf_maxRetryCount = - 1, cf_maxConnsPerHost = 0,
      cf_proxyUrl = [], cf_sslVerify = False\<rparr>"

definition New :: "'s obs_std \<Rightarrow> string \<Rightarrow> string \<Rightarrow> string \<Rightarrow> configurer list \<Rightarrow> (string + config \<times> transport) go" where
  "New std ak sk endpoint configurers =
     go_map (\<lambda>r. case r of
         Inl err \<Rightarrow> Inl err
       | Inr conf \<Rightarrow> (case getTransport std conf of Inl err \<Rightarrow> Inl err | Inr tr \<Rightarrow> Inr (conf, tr)))
       (initConfigWithDefault (foldl (\<lambda>conf f. f conf) (bare_config ak sk endpoint) configurers))"

definition Refresh :: "string \<Rightarrow> string \<Rightarrow> string \<Rightarrow> config \<Rightarrow> config" where
  "Refresh ak sk securityToken conf =
     conf\<lparr>cf_ak := TrimSpace ak, cf_sk := TrimSpace sk, cf_token := TrimSpace securityToken\<rparr>"

section \<open>Calls\<close>

text \<open>
  A call ends with an error or an answer that is parsed; a response without an answer or an error does
  not occur (\<open>answer_or_error\<close> of \<open>Obs_Client_Correct\<close>) and would be dereferenced.
\<close>

definition given :: "string \<Rightarrow> 'i option \<Rightarrow> ('i \<Rightarrow> ('s, string + 'o) prog) \<Rightarrow> ('s, string + 'o) prog" where
  "given err input f = (case input of None \<Rightarrow> ret (Inl err) | Some i \<Rightarrow> f i)"

definition answer :: "(http_response \<Rightarrow> 'o) \<Rightarrow> string + http_response option \<Rightarrow> ('s, string + 'o) prog" where
  "answer parse r =
     (case r of
        Inl err \<Rightarrow> ret (Inl err)
      | Inr None \<Rightarrow> panic NilDereference
      | Inr (Some resp) \<Rightarrow> ret (Inr (parse resp)))"

definition action :: "nat \<Rightarrow> 's obs_net \<Rightarrow> config \<Rightarrow> string \<Rightarrow> string \<Rightarrow> string \<Rightarrow> request \<Rightarrow> (http_response \<Rightarrow> 'o) \<Rightarrow>
    bool \<Rightarrow> ('s, string + 'o) prog" where
  "action n net conf method bucket key req parse repeatable =
     (case req of (params, hs, data) \<Rightarrow>
        call (doAction n net conf method bucket key params hs data repeatable) (answer parse))"

definition actionOnBucket :: "nat \<Rightarrow> 's obs_net \<Rightarrow> config \<Rightarrow> string \<Rightarrow> string \<Rightarrow> request \<Rightarrow> (http_response \<Rightarrow> 'o) \<Rightarrow>
    ('s, string + 'o) prog" where
  "actionOnBucket n net conf method bucket req parse =
     (case req of (params, hs, data) \<Rightarrow>
        call (doActionWithBucket n net conf method bucket params hs data) (answer parse))"

definition actionOnObject :: "nat \<Rightarrow> 's obs_net \<Rightarrow> config \<Rightarrow> string \<Rightarrow> string \<Rightarrow> string \<Rightarrow> request \<Rightarrow>
    (http_response \<Rightarrow> 'o) \<Rightarrow> bool \<Rightarrow> ('s, string + 'o) prog" where
  "actionOnObject n net conf method bucket key req parse repeatable =
     (case req of (params, hs, data) \<Rightarrow>
        call (doActionWithBucketAndKey n net conf method bucket key params hs data repeatable) (answer parse))"

definition parsed :: "'s obs_net \<Rightarrow> string option \<Rightarrow> ('a BaseModel_scheme) reading \<Rightarrow> 'a BaseModel_scheme \<Rightarrow>
    http_response \<Rightarrow> 'a BaseModel_scheme" where
  "parsed net root dec new resp = ParseResponseToBaseModel (on_std net) root dec resp new"

section \<open>Buckets\<close>

definition ListBuckets :: "nat \<Rightarrow> 's obs_net \<Rightarrow> config \<Rightarrow> bool option \<Rightarrow> ('s, string + ListBucketsOutput) prog" where
  "ListBuckets n net conf input =
     action n net conf ''GET'' [] [] (trans_ListBuckets (input = Some True)) (parsed net (Some ''ListAllMyBucketsResult'') (read_ListBucketsOutput (on_std net)) new_ListBucketsOutput) True"

definition CreateBucket :: "nat \<Rightarrow> 's obs_net \<Rightarrow> config \<Rightarrow> CreateBucketInput option \<Rightarrow> ('s, string + BaseModel) prog" where
  "CreateBucket n net conf input =
     given ''CreateBucketInput is nil'' input (\<lambda>input.
       actionOnBucket n net conf ''PUT'' ((cb_Bucket input)) (trans_CreateBucket input) (parsed net None read_BaseModel new_BaseModel))"

definition DeleteBucket :: "nat \<Rightarrow> 's obs_net \<Rightarrow> config \<Rightarrow> string \<Rightarrow> ('s, string + BaseModel) prog" where
  "DeleteBucket n net conf bucketName =
     actionOnBucket n net conf ''DELETE'' bucketName (defaultSerializable) (parsed net None read_BaseModel new_BaseModel)"

text \<open>Inputs that are a bucket and a value are pairs.\<close>

definition SetBucketStoragePolicy :: "nat \<Rightarrow> 's obs_net \<Rightarrow> config \<Rightarrow> (string \<times> string) option \<Rightarrow> ('s, string + BaseModel) prog" where
  "SetBucketStoragePolicy n net conf input =
     given ''SetBucketStoragePolicyInput is nil'' input (\<lambda>(bucket, v).
       actionOnBucket n net conf ''PUT'' bucket (trans_SetBucketStoragePolicy v) (parsed net None read_BaseModel new_BaseModel))"

definition GetBucketStoragePolicy :: "nat \<Rightarrow> 's obs_net \<Rightarrow> config \<Rightarrow> string \<Rightarrow> ('s, string + GetBucketStoragePolicyOutput) prog" where
  "GetBucketStoragePolicy n net conf bucketName =
     actionOnBucket n net conf ''GET'' bucketName (newSubResourceSerial ''storagePolicy'') (parsed net (Some ''StoragePolicy'') read_GetBucketStoragePolicyOutput new_GetBucketStoragePolicyOutput)"

definition ListObjects_Location :: "ListObjectsOutput \<Rightarrow> ListObjectsOutput" where
  "ListObjects_Location out =
     set_header (bm_ResponseHeaders out) ''bucket-region'' (\<lambda>v r. r\<lparr>ls_Location := v\<rparr>) out"

definition ListObjects :: "nat \<Rightarrow> 's obs_net \<Rightarrow> config \<Rightarrow> ListObjectsInput option \<Rightarrow> ('s, string + ListObjectsOutput) prog" where
  "ListObjects n net conf input =
     given ''ListObjectsInput is nil'' input (\<lambda>input.
       actionOnBucket n net conf ''GET'' ((lj_Bucket input)) (trans_ListObjects input) (\<lambda>resp. ListObjects_Location (parsed net (Some ''ListBucketResult'') (read_ListObjectsOutput (on_std net)) new_ListObjectsOutput resp)))"

definition ListVersions_Location :: "ListVersionsOutput \<Rightarrow> ListVersionsOutput" where
  "ListVersions_Location out =
     set_header (bm_ResponseHeaders out) ''bucket-region'' (\<lambda>v r. r\<lparr>lvs_Location := v\<rparr>) out"

definition ListVersions :: "nat \<Rightarrow> 's obs_net \<Rightarrow> config \<Rightarrow> ListVersionsInput option \<Rightarrow> ('s, string + ListVersionsOutput) prog" where
  "ListVersions n net conf input =
     given ''ListVersionsInput is nil'' input (\<lambda>input.
       actionOnBucket n net conf ''GET'' ((lv_Bucket input)) (trans_ListVersions input) (\<lambda>resp. ListVersions_Location (parsed net (Some ''ListVersionsResult'') (read_ListVersionsOutput (on_std net)) new_ListVersionsOutput resp)))"

definition ListMultipartUploads :: "nat \<Rightarrow> 's obs_net \<Rightarrow> config \<Rightarrow> ListMultipartUploadsInput option \<Rightarrow> ('s, string + ListMultipartUploadsOutput) prog" where
  "ListMultipartUploads n net conf input =
     given ''ListMultipartUploadsInput is nil'' input (\<lambda>input.
       actionOnBucket n net conf ''GET'' ((lm_Bucket input)) (trans_ListMultipartUploads input) (parsed net (Some ''ListMultipartUploadsResult'') (read_ListMultipartUploadsOutput (on_std net)) new_ListMultipartUploadsOutput))"

definition SetBucketQuota :: "nat \<Rightarrow> 's obs_net \<Rightarrow> config \<Rightarrow> (string \<times> int) option \<Rightarrow> ('s, string + BaseModel) prog" where
  "SetBucketQuota n net conf input =
     given ''SetBucketQuotaInput is nil'' input (\<lambda>(bucket, v).
       actionOnBucket n net conf ''PUT'' bucket (trans_SetBucketQuota v) (parsed net None read_BaseModel new_BaseModel))"

definition GetBucketQuota :: "nat \<Rightarrow> 's obs_net \<Rightarrow> config \<Rightarrow> string \<Rightarrow> ('s, string + GetBucketQuotaOutput) prog" where
  "GetBucketQuota n net conf bucketName =
     actionOnBucket n net conf ''GET'' bucketName (newSubResourceSerial ''quota'') (parsed net (Some ''Quota'') read_GetBucketQuotaOutput new_GetBucketQuotaOutput)"

definition HeadBucket :: "nat \<Rightarrow> 's obs_net \<Rightarrow> config \<Rightarrow> string \<Rightarrow> ('s, string + BaseModel) prog" where
  "HeadBucket n net conf bucketName =
     actionOnBucket n net conf ''HEAD'' bucketName (defaultSerializable) (parsed net None read_BaseModel new_BaseModel)"

text \<open>The only method that does not look whether its input is nil.\<close>

definition GetBucketMetadata :: "nat \<Rightarrow> 's obs_net \<Rightarrow> config \<Rightarrow> GetBucketMetadataInput option \<Rightarrow> ('s, string + GetBucketMetadataOutput) prog" where
  "GetBucketMetadata n net conf input =
     (case input of
        None \<Rightarrow> panic NilDereference
      | Some input \<Rightarrow> actionOnBucket n net conf ''HEAD'' (gb_Bucket input) (trans_GetBucketMetadata input)
          (\<lambda>resp. ParseGetBucketMetadataOutput (parsed net None (decode_fields [base_field]) new_GetBucketMetadataOutput resp)))"

definition GetBucketStorageInfo :: "nat \<Rightarrow> 's obs_net \<Rightarrow> config \<Rightarrow> string \<Rightarrow> ('s, string + GetBucketStorageInfoOutput) prog" where
  "GetBucketStorageInfo n net conf bucketName =
     actionOnBucket n net conf ''GET'' bucketName (newSubResourceSerial ''storageinfo'') (parsed net (Some ''GetBucketStorageInfoResult'') read_GetBucketStorageInfoOutput new_GetBucketStorageInfoOutput)"

definition GetBucketLocation :: "nat \<Rightarrow> 's obs_net \<Rightarrow> config \<Rightarrow> string \<Rightarrow> ('s, string + GetBucketLocationOutput) prog" where
  "GetBucketLocation n net conf bucketName =
     actionOnBucket n net conf ''GET'' bucketName (newSubResourceSerial ''location'') (parsed net (Some ''CreateBucketConfiguration'') read_GetBucketLocationOutput new_GetBucketLocationOutput)"

definition SetBucketAcl :: "nat \<Rightarrow> 's obs_net \<Rightarrow> config \<Rightarrow> (string \<times> string \<times> AccessControlPolicy) option \<Rightarrow> ('s, string + BaseModel) prog" where
  "SetBucketAcl n net conf input =
     given ''SetBucketAclInput is nil'' input (\<lambda>(bucket, acl, policy).
       actionOnBucket n net conf ''PUT'' bucket (trans_SetBucketAcl (on_std net) acl policy) (parsed net None read_BaseModel new_BaseModel))"

definition GetBucketAcl :: "nat \<Rightarrow> 's obs_net \<Rightarrow> config \<Rightarrow> string \<Rightarrow> ('s, string + GetBucketAclOutput) prog" where
  "GetBucketAcl n net conf bucketName =
     actionOnBucket n net conf ''GET'' bucketName (newSubResourceSerial ''acl'') (parsed net (Some ''AccessControlPolicy'') read_GetBucketAclOutput new_GetBucketAclOutput)"

definition SetBucketPolicy :: "nat \<Rightarrow> 's obs_net \<Rightarrow> config \<Rightarrow> (string \<times> string) option \<Rightarrow> ('s, string + BaseModel) prog" where
  "SetBucketPolicy n net conf input =
     given ''SetBucketPolicy is nil'' input (\<lambda>(bucket, v).
       actionOnBucket n net conf ''PUT'' bucket (trans_SetBucketPolicy v) (parsed net None read_BaseModel new_BaseModel))"

text \<open>The policy of a bucket is the body of the answer, which is not XML.\<close>

definition GetBucketPolicy :: "nat \<Rightarrow> 's obs_net \<Rightarrow> config \<Rightarrow> string \<Rightarrow> ('s, string + GetBucketPolicyOutput) prog" where
  "GetBucketPolicy n net conf bucketName =
     actionOnBucket n net conf ''GET'' bucketName (newSubResourceSerial ''policy'') (\<lambda>resp.
       (parsed net None (\<lambda>x r. (r, None)) new_GetBucketPolicyOutput resp)\<lparr>gbp_Policy := hp_Body resp\<rparr>)"

definition DeleteBucketPolicy :: "nat \<Rightarrow> 's obs_net \<Rightarrow> config \<Rightarrow> string \<Rightarrow> ('s, string + BaseModel) prog" where
  "DeleteBucketPolicy n net conf bucketName =
     actionOnBucket n net conf ''DELETE'' bucketName (newSubResourceSerial ''policy'') (parsed net None read_BaseModel new_BaseModel)"

definition SetBucketCors :: "nat \<Rightarrow> 's obs_net \<Rightarrow> config \<Rightarrow> (string \<times> CorsRule list) option \<Rightarrow> ('s, string + BaseModel) prog" where
  "SetBucketCors n net conf input =
     given ''SetBucketCorsInput is nil'' input (\<lambda>(bucket, v).
       actionOnBucket n net conf ''PUT'' bucket (trans_SetBucketCors (on_std net) v) (parsed net None read_BaseModel new_BaseModel))"

definition GetBucketCors :: "nat \<Rightarrow> 's obs_net \<Rightarrow> config \<Rightarrow> string \<Rightarrow> ('s, string + GetBucketCorsOutput) prog" where
  "GetBucketCors n net conf bucketName =
     actionOnBucket n net conf ''GET'' bucketName (newSubResourceSerial ''cors'') (parsed net (Some ''CORSConfiguration'') read_GetBucketCorsOutput new_GetBucketCorsOutput)"

definition DeleteBucketCors :: "nat \<Rightarrow> 's obs_net \<Rightarrow> config \<Rightarrow> string \<Rightarrow> ('s, string + BaseModel) prog" where
  "DeleteBucketCors n net conf bucketName =
     actionOnBucket n net conf ''DELETE'' bucketName (newSubResourceSerial ''cors'') (parsed net None read_BaseModel new_BaseModel)"

definition SetBucketVersioning :: "nat \<Rightarrow> 's obs_net \<Rightarrow> config \<Rightarrow> (string \<times> string) option \<Rightarrow> ('s, string + BaseModel) prog" where
  "SetBucketVersioning n net conf input =
     given ''SetBucketVersioningInput is nil'' input (\<lambda>(bucket, v).
       actionOnBucket n net conf ''PUT'' bucket (trans_SetBucketVersioning v) (parsed net None read_BaseModel new_BaseModel))"

definition GetBucketVersioning :: "nat \<Rightarrow> 's obs_net \<Rightarrow> config \<Rightarrow> string \<Rightarrow> ('s, string + GetBucketVersioningOutput) prog" where
  "GetBucketVersioning n net conf bucketName =
     actionOnBucket n net conf ''GET'' bucketName (newSubResourceSerial ''versioning'') (parsed net (Some ''VersioningConfiguration'') read_GetBucketVersioningOutput new_GetBucketVersioningOutput)"

definition SetBucketWebsiteConfiguration :: "nat \<Rightarrow> 's obs_net \<Rightarrow> config \<Rightarrow> (string \<times> BucketWebsiteConfiguration) option \<Rightarrow> ('s, string + BaseModel) prog" where
  "SetBucketWebsiteConfiguration n net conf input =
     given ''SetBucketWebsiteConfigurationInput is nil'' input (\<lambda>(bucket, v).
       actionOnBucket n net conf ''PUT'' bucket (trans_SetBucketWebsiteConfiguration (on_std net) v) (parsed net None read_BaseModel new_BaseModel))"

definition GetBucketWebsiteConfiguration :: "nat \<Rightarrow> 's obs_net \<Rightarrow> config \<Rightarrow> string \<Rightarrow> ('s, string + GetBucketWebsiteConfigurationOutput) prog" where
  "GetBucketWebsiteConfiguration n net conf bucketName =
     actionOnBucket n net conf ''GET'' bucketName (newSubResourceSerial ''website'') (parsed net (Some ''WebsiteConfiguration'') read_GetBucketWebsiteConfigurationOutput new_GetBucketWebsiteConfigurationOutput)"

definition DeleteBucketWebsiteConfiguration :: "nat \<Rightarrow> 's obs_net \<Rightarrow> config \<Rightarrow> string \<Rightarrow> ('s, string + BaseModel) prog" where
  "DeleteBucketWebsiteConfiguration n net conf bucketName =
     actionOnBucket n net conf ''DELETE'' bucketName (newSubResourceSerial ''website'') (parsed net None read_BaseModel new_BaseModel)"

definition SetBucketLoggingConfiguration :: "nat \<Rightarrow> 's obs_net \<Rightarrow> config \<Rightarrow> (string \<times> BucketLoggingStatus) option \<Rightarrow> ('s, string + BaseModel) prog" where
  "SetBucketLoggingConfiguration n net conf input =
     given ''SetBucketLoggingConfigurationInput is nil'' input (\<lambda>(bucket, v).
       actionOnBucket n net conf ''PUT'' bucket (trans_SetBucketLoggingConfiguration (on_std net) v) (parsed net None read_BaseModel new_BaseModel))"

definition GetBucketLoggingConfiguration :: "nat \<Rightarrow> 's obs_net \<Rightarrow> config \<Rightarrow> string \<Rightarrow> ('s, string + GetBucketLoggingConfigurationOutput) prog" where
  "GetBucketLoggingConfiguration n net conf bucketName =
     actionOnBucket n net conf ''GET'' bucketName (newSubResourceSerial ''logging'') (parsed net (Some ''BucketLoggingStatus'') read_GetBucketLoggingConfigurationOutput new_GetBucketLoggingConfigurationOutput)"

definition SetBucketLifecycleConfiguration :: "nat \<Rightarrow> 's obs_net \<Rightarrow> config \<Rightarrow> (string \<times> LifecycleRule list) option \<Rightarrow> ('s, string + BaseModel) prog" where
  "SetBucketLifecycleConfiguration n net conf input =
     given ''SetBucketLifecycleConfigurationInput is nil'' input (\<lambda>(bucket, v).
       actionOnBucket n net conf ''PUT'' bucket (trans_SetBucketLifecycleConfiguration (on_std net) v) (parsed net None read_BaseModel new_BaseModel))"

definition GetBucketLifecycleConfiguration :: "nat \<Rightarrow> 's obs_net \<Rightarrow> config \<Rightarrow> string \<Rightarrow> ('s, string + GetBucketLifecycleConfigurationOutput) prog" where
  "GetBucketLifecycleConfiguration n net conf bucketName =
     actionOnBucket n net conf ''GET'' bucketName (newSubResourceSerial ''lifecycle'') (parsed net (Some ''LifecycleConfiguration'') (read_GetBucketLifecycleConfigurationOutput (on_std net)) new_GetBucketLifecycleConfigurationOutput)"

definition DeleteBucketLifecycleConfiguration :: "nat \<Rightarrow> 's obs_net \<Rightarrow> config \<Rightarrow> string \<Rightarrow> ('s, string + BaseModel) prog" where
  "DeleteBucketLifecycleConfiguration n net conf bucketName =
     actionOnBucket n net conf ''DELETE'' bucketName (newSubResourceSerial ''lifecycle'') (parsed net None read_BaseModel new_BaseModel)"

definition SetBucketTagging :: "nat \<Rightarrow> 's obs_net \<Rightarrow> config \<Rightarrow> (string \<times> Tag list) option \<Rightarrow> ('s, string + BaseModel) prog" where
  "SetBucketTagging n net conf input =
     given ''SetBucketTaggingInput is nil'' input (\<lambda>(bucket, v).
       actionOnBucket n net conf ''PUT'' bucket (trans_SetBucketTagging (on_std net) v) (parsed net None read_BaseModel new_BaseModel))"

definition GetBucketTagging :: "nat \<Rightarrow> 's obs_net \<Rightarrow> config \<Rightarrow> string \<Rightarrow> ('s, string + GetBucketTaggingOutput) prog" where
  "GetBucketTagging n net conf bucketName =
     actionOnBucket n net conf ''GET'' bucketName (newSubResourceSerial ''tagging'') (parsed net (Some ''Tagging'') read_GetBucketTaggingOutput new_GetBucketTaggingOutput)"

definition DeleteBucketTagging :: "nat \<Rightarrow> 's obs_net \<Rightarrow> config \<Rightarrow> string \<Rightarrow> ('s, string + BaseModel) prog" where
  "DeleteBucketTagging n net conf bucketName =
     actionOnBucket n net conf ''DELETE'' bucketName (newSubResourceSerial ''tagging'') (parsed net None read_BaseModel new_BaseModel)"

definition SetBucketNotification :: "nat \<Rightarrow> 's obs_net \<Rightarrow> config \<Rightarrow> (string \<times> TopicConfiguration list) option \<Rightarrow> ('s, string + BaseModel) prog" where
  "SetBucketNotification n net conf input =
     given ''SetBucketNotificationInput is nil'' input (\<lambda>(bucket, v).
       actionOnBucket n net conf ''PUT'' bucket (trans_SetBucketNotification (on_std net) v) (parsed net None read_BaseModel new_BaseModel))"

definition GetBucketNotification :: "nat \<Rightarrow> 's obs_net \<Rightarrow> config \<Rightarrow> string \<Rightarrow> ('s, string + GetBucketNotificationOutput) prog" where
  "GetBucketNotification n net conf bucketName =
     actionOnBucket n net conf ''GET'' bucketName (newSubResourceSerial ''notification'') (parsed net (Some ''NotificationConfiguration'') read_GetBucketNotificationOutput new_GetBucketNotificationOutput)"

section \<open>Objects\<close>

definition DeleteObject :: "nat \<Rightarrow> 's obs_net \<Rightarrow> config \<Rightarrow> DeleteObjectInput option \<Rightarrow> ('s, string + DeleteObjectOutput) prog" where
  "DeleteObject n net conf input =
     given ''DeleteObjectInput is nil'' input (\<lambda>input.
       actionOnObject n net conf ''DELETE'' (di_Bucket input) (di_Key input) (trans_DeleteObject input)
         (\<lambda>resp. ParseDeleteObjectOutput (parsed net None read_DeleteObjectOutput new_DeleteObjectOutput resp)) True)"

definition DeleteObjects :: "nat \<Rightarrow> 's obs_net \<Rightarrow> config \<Rightarrow> DeleteObjectsInput option \<Rightarrow> ('s, string + DeleteObjectsOutput) prog" where
  "DeleteObjects n net conf input =
     given ''DeleteObjectsInput is nil'' input (\<lambda>input.
       actionOnBucket n net conf ''POST'' ((dl_Bucket input)) (trans_DeleteObjects (on_std net) input) (parsed net (Some ''DeleteResult'') read_DeleteObjectsOutput new_DeleteObjectsOutput))"

definition SetObjectAcl :: "nat \<Rightarrow> 's obs_net \<Rightarrow> config \<Rightarrow> SetObjectAclInput option \<Rightarrow> ('s, string + BaseModel) prog" where
  "SetObjectAcl n net conf input =
     given ''SetObjectAclInput is nil'' input (\<lambda>input.
       actionOnObject n net conf ''PUT'' (sa_Bucket input) (sa_Key input) (trans_SetObjectAcl (on_std net) input)
         (parsed net None read_BaseModel new_BaseModel) True)"

definition GetObjectAcl_Version :: "GetObjectAclOutput \<Rightarrow> GetObjectAclOutput" where
  "GetObjectAcl_Version out = set_header (bm_ResponseHeaders out) ''version-id'' (\<lambda>v r. r\<lparr>goa_VersionId := v\<rparr>) out"

definition GetObjectAcl :: "nat \<Rightarrow> 's obs_net \<Rightarrow> config \<Rightarrow> GetObjectAclInput option \<Rightarrow> ('s, string + GetObjectAclOutput) prog" where
  "GetObjectAcl n net conf input =
     given ''GetObjectAclInput is nil'' input (\<lambda>input.
       actionOnObject n net conf ''GET'' (ga_Bucket input) (ga_Key input) (trans_GetObjectAcl input)
         (\<lambda>resp. GetObjectAcl_Version (parsed net (Some ''AccessControlPolicy'') read_GetObjectAclOutput new_GetObjectAclOutput resp)) True)"

definition RestoreObject :: "nat \<Rightarrow> 's obs_net \<Rightarrow> config \<Rightarrow> RestoreObjectInput option \<Rightarrow> ('s, string + BaseModel) prog" where
  "RestoreObject n net conf input =
     given ''RestoreObjectInput is nil'' input (\<lambda>input.
       actionOnObject n net conf ''POST'' (ro_Bucket input) (ro_Key input) (trans_RestoreObject input)
         (parsed net None read_BaseModel new_BaseModel) True)"

definition GetObjectMetadata :: "nat \<Rightarrow> 's obs_net \<Rightarrow> config \<Rightarrow> GetObjectMetadataInput option \<Rightarrow> ('s, string + GetObjectMetadataOutput) prog" where
  "GetObjectMetadata n net conf input =
     given ''GetObjectMetadataInput is nil'' input (\<lambda>input.
       actionOnObject n net conf ''HEAD'' (gm_Bucket input) (gm_Key input) (trans_GetObjectMetadata (on_std net) input)
         (\<lambda>resp. ParseGetObjectMetadataOutput (on_std net) (parsed net None read_GetObjectMetadataOutput new_GetObjectMetadataOutput resp)) True)"

text \<open>The body of an object is handed over as it comes.\<close>

definition object_parsed :: "'s obs_net \<Rightarrow> http_response \<Rightarrow> GetObjectOutput" where
  "object_parsed net resp =
     ParseGetObjectOutput (on_std net)
       (parsed net None read_GetObjectMetadataOutput (new_GetObjectOutput\<lparr>go_Body := hp_Body resp\<rparr>) (resp\<lparr>hp_Body := []\<rparr>))"

definition GetObject :: "nat \<Rightarrow> 's obs_net \<Rightarrow> config \<Rightarrow> GetObjectInput option \<Rightarrow> ('s, string + GetObjectOutput) prog" where
  "GetObject n net conf input =
     given ''GetObjectInput is nil'' input (\<lambda>input.
       actionOnObject n net conf ''GET'' (gm_Bucket input) (gm_Key input) (trans_GetObject (on_std net) input)
         (object_parsed net) True)"

text \<open>
  A request is repeated only when its body is a \<open>*strings.Reader\<close>, and that is looked at before the body
  is wrapped.
\<close>

definition wrap_body :: "int \<Rightarrow> reader option \<Rightarrow> reader option" where
  "wrap_body lim body =
     (case body of
        Some (Raw src content pos) \<Rightarrow> (if lim > 0 then Some (Wrapped src content pos lim 0) else body)
      | Some b \<Rightarrow> Some b
      | None \<Rightarrow> None)"

fun is_strings_reader :: "reader option \<Rightarrow> bool" where
  "is_strings_reader (Some (Raw src content pos)) = (src = StringsReader)"
| "is_strings_reader _ = False"

definition put_content_type :: "PutObjectInput \<Rightarrow> PutObjectInput" where
  "put_content_type input =
     (if pb_ContentType input = [] \<and> oi_Key input \<noteq> [] then
        (case mime_type (oi_Key input) of Some t \<Rightarrow> input\<lparr>pb_ContentType := t\<rparr> | None \<Rightarrow> input)
      else input)"

definition PutObject :: "nat \<Rightarrow> 's obs_net \<Rightarrow> config \<Rightarrow> PutObjectInput option \<Rightarrow> ('s, string + PutObjectOutput) prog" where
  "PutObject n net conf input =
     given ''PutObjectInput is nil'' input (\<lambda>input.
       let input = put_content_type input;
           repeatable = is_strings_reader (po_Body input);
           input = input\<lparr>po_Body := wrap_body (pb_ContentLength input) (po_Body input)\<rparr>
       in actionOnObject n net conf ''PUT'' (oi_Bucket input) (oi_Key input) (trans_PutObject (on_std net) input)
            (\<lambda>resp. ParsePutObjectOutput (parsed net None read_PutObjectOutput new_PutObjectOutput resp)) repeatable)"

text \<open>A file is opened, and as much of it is sent as is asked for and there is; its mark stays zero.\<close>

definition file_body :: "string \<Rightarrow> string \<Rightarrow> int \<Rightarrow> reader" where
  "file_body path content len =
     FileBody path 0 content 0 (if len > 0 then min len (int (length content)) else int (length content)) 0"

definition file_content_type :: "PutFileInput \<Rightarrow> string" where
  "file_content_type input =
     (if pb_ContentType input = [] \<and> oi_Key input \<noteq> [] then
        (case mime_type (oi_Key input) of
           Some t \<Rightarrow> t
         | None \<Rightarrow> (case mime_type (TrimSpace (pf_SourceFile input)) of Some t \<Rightarrow> t | None \<Rightarrow> []))
      else pb_ContentType input)"

definition put_of_file :: "PutFileInput \<Rightarrow> int \<Rightarrow> reader option \<Rightarrow> PutObjectInput" where
  "put_of_file input len body =
     \<lparr>oi_Bucket = oi_Bucket input, oi_Key = oi_Key input, oi_ACL = oi_ACL input, oi_StorageClass = oi_StorageClass input,
      oi_WebsiteRedirectLocation = oi_WebsiteRedirectLocation input, oi_SseHeader = oi_SseHeader input,
      oi_Metadata = oi_Metadata input, pb_ContentType = file_content_type input, pb_ContentMD5 = pb_ContentMD5 input,
      pb_ContentLength = len, po_Body = body\<rparr>"

definition PutFile :: "nat \<Rightarrow> 's obs_net \<Rightarrow> config \<Rightarrow> PutFileInput option \<Rightarrow> ('s, string + PutObjectOutput) prog" where
  "PutFile n net conf input =
     given ''PutFileInput is nil'' input (\<lambda>input.
       let put = \<lambda>input. actionOnObject n net conf ''PUT'' (oi_Bucket input) (oi_Key input) (trans_PutObject (on_std net) input)
                   (\<lambda>resp. ParsePutObjectOutput (parsed net None read_PutObjectOutput new_PutObjectOutput resp)) True;
           len = pb_ContentLength input; path = TrimSpace (pf_SourceFile input)
       in if path = [] then put (put_of_file input len None)
          else call (liftS (on_Open net path)) (\<lambda>r.
            case r of
              Inl err \<Rightarrow> ret (Inl err)
            | Inr content \<Rightarrow>
                put (put_of_file input (if len > 0 then min len (int (length content)) else len)
                  (Some (file_body path content len)))))"

definition CopyObject :: "nat \<Rightarrow> 's obs_net \<Rightarrow> config \<Rightarrow> CopyObjectInput option \<Rightarrow> ('s, string + CopyObjectOutput) prog" where
  "CopyObject n net conf input =
     given ''CopyObjectInput is nil'' input (\<lambda>input.
       if TrimSpace (ci_CopySourceBucket input) = [] then ret (Inl ''Source bucket is empty'')
       else if TrimSpace (ci_CopySourceKey input) = [] then ret (Inl ''Source key is empty'')
       else actionOnObject n net conf ''PUT'' (oi_Bucket input) (oi_Key input) (trans_CopyObject (on_std net) input)
              (\<lambda>resp. ParseCopyObjectOutput (parsed net (Some ''CopyObjectResult'') (read_CopyObjectOutput (on_std net)) new_CopyObjectOutput resp)) True)"

section \<open>Uploads in parts\<close>

definition AbortMultipartUpload :: "nat \<Rightarrow> 's obs_net \<Rightarrow> config \<Rightarrow> AbortMultipartUploadInput option \<Rightarrow> ('s, string + BaseModel) prog" where
  "AbortMultipartUpload n net conf input =
     given ''AbortMultipartUploadInput is nil'' input (\<lambda>input.
       if au_UploadId input = [] then ret (Inl ''UploadId is empty'')
       else actionOnObject n net conf ''DELETE'' (au_Bucket input) (au_Key input) (trans_AbortMultipartUpload input)
         (parsed net None read_BaseModel new_BaseModel) True)"

definition InitiateMultipartUpload :: "nat \<Rightarrow> 's obs_net \<Rightarrow> config \<Rightarrow> InitiateMultipartUploadInput option \<Rightarrow> ('s, string + InitiateMultipartUploadOutput) prog" where
  "InitiateMultipartUpload n net conf input =
     given ''InitiateMultipartUploadInput is nil'' input (\<lambda>input.
       actionOnObject n net conf ''POST'' (oi_Bucket input) (oi_Key input) (trans_InitiateMultipartUpload (on_std net) input)
         (\<lambda>resp. ParseInitiateMultipartUploadOutput (parsed net (Some ''InitiateMultipartUploadResult'') read_InitiateMultipartUploadOutput new_InitiateMultipartUploadOutput resp)) True)"

text \<open>A part of a file: from an offset within the file, as long as asked for and possible.\<close>

definition part_of_file :: "string \<Rightarrow> string \<Rightarrow> int \<Rightarrow> int \<Rightarrow> reader" where
  "part_of_file path content offset len =
     (let fileSize = int (length content);
          offset = (if offset < 0 \<or> offset > fileSize then 0 else offset);
          len = (if len \<le> 0 \<or> len > fileSize - offset then fileSize - offset else len)
      in FileBody path 0 content (nat offset) len 0)"

definition part_body :: "'s obs_net \<Rightarrow> UploadPartInput \<Rightarrow> ('s, string + reader option \<times> bool) prog" where
  "part_body net input =
     (let path = TrimSpace (up_SourceFile input)
      in if up_Body input \<noteq> None then
           ret (Inr (wrap_body (up_PartSize input) (up_Body input), is_strings_reader (up_Body input)))
         else if path = [] then ret (Inr (None, False))
         else call (liftS (on_Open net path)) (\<lambda>r.
           ret (case r of
                  Inl err \<Rightarrow> Inl err
                | Inr content \<Rightarrow> Inr (Some (part_of_file path content (up_Offset input) (up_PartSize input)), True))))"

definition UploadPart :: "nat \<Rightarrow> 's obs_net \<Rightarrow> config \<Rightarrow> UploadPartInput option \<Rightarrow> ('s, string + UploadPartOutput) prog" where
  "UploadPart n net conf input =
     given ''UploadPartInput is nil'' input (\<lambda>input.
       if up_UploadId input = [] then ret (Inl ''UploadId is empty'')
       else call (part_body net input) (\<lambda>r.
         case r of
           Inl err \<Rightarrow> ret (Inl err)
         | Inr (body, repeatable) \<Rightarrow>
             actionOnObject n net conf ''PUT'' (up_Bucket input) (up_Key input)
               (trans_UploadPart (on_std net) (input\<lparr>up_Body := body\<rparr>))
               (\<lambda>resp. (ParseUploadPartOutput (parsed net None read_UploadPartOutput new_UploadPartOutput resp))\<lparr>upo_PartNumber := up_PartNumber input\<rparr>) repeatable))"

text \<open>
  \<open>Sort\<close> stands for \<open>sort.Sort\<close> on the parts by their numbers, which leaves open in which order parts of
  equal numbers come.
\<close>

definition CompleteMultipartUpload :: "(obs_Part list \<Rightarrow> obs_Part list) \<Rightarrow> nat \<Rightarrow> 's obs_net \<Rightarrow> config \<Rightarrow> CompleteMultipartUploadInput option \<Rightarrow> ('s, string + CompleteMultipartUploadOutput) prog" where
  "CompleteMultipartUpload Sort n net conf input =
     given ''CompleteMultipartUploadInput is nil'' input (\<lambda>input.
       if cu_UploadId input = [] then ret (Inl ''UploadId is empty'')
       else actionOnObject n net conf ''POST'' (cu_Bucket input) (cu_Key input)
              (trans_CompleteMultipartUpload (on_std net) (input\<lparr>cu_Parts := Sort (cu_Parts input)\<rparr>))
              (\<lambda>resp. ParseCompleteMultipartUploadOutput (parsed net (Some ''CompleteMultipartUploadResult'') read_CompleteMultipartUploadOutput new_CompleteMultipartUploadOutput resp)) True)"

definition ListParts :: "nat \<Rightarrow> 's obs_net \<Rightarrow> config \<Rightarrow> ListPartsInput option \<Rightarrow> ('s, string + obs_ListPartsOutput) prog" where
  "ListParts n net conf input =
     given ''ListPartsInput is nil'' input (\<lambda>input.
       if lp_UploadId input = [] then ret (Inl ''UploadId is empty'')
       else actionOnObject n net conf ''GET'' (lp_Bucket input) (lp_Key input) (trans_ListParts input)
         (parsed net (Some ''ListPartsResult'') (read_ListPartsOutput (on_std net)) new_ListPartsOutput) True)"

definition CopyPart :: "nat \<Rightarrow> 's obs_net \<Rightarrow> config \<Rightarrow> CopyPartInput option \<Rightarrow> ('s, string + CopyPartOutput) prog" where
  "CopyPart n net conf input =
     given ''CopyPartInput is nil'' input (\<lambda>input.
       if cp_UploadId input = [] then ret (Inl ''UploadId is empty'')
       else if TrimSpace (cp_CopySourceBucket input) = [] then ret (Inl ''Source bucket is empty'')
       else if TrimSpace (cp_CopySourceKey input) = [] then ret (Inl ''Source key is empty'')
       else actionOnObject n net conf ''PUT'' (cp_Bucket input) (cp_Key input) (trans_CopyPart (on_std net) input)
              (\<lambda>resp. (ParseCopyPartOutput (parsed net (Some ''CopyPartResult'') (read_CopyPartOutput (on_std net)) new_CopyPartOutput resp))\<lparr>cpo_PartNumber := cp_PartNumber input\<rparr>) True)"

end
