(* ===== verification/Obs_Signed.thy ===== *)
theory Obs_Signed
  imports Obs_Client
begin

text \<open>
  The OBS client, ninth part: URLs that are signed in advance and the methods that use them
  (\<open>api/pkg/utils/obs/temporary.go\<close>, \<open>doAuthTemporary\<close> of \<open>auth.go\<close>, \<open>doHttpWithSignedUrl\<close> of \<open>http.go\<close>). Times
  are seconds since 1970. The headers a caller passes are a Go map that a call changes: they are returned.
\<close>

section \<open>Signing\<close>

definition PARAM_SIGNATURE_AMZ_CAMEL :: string where "PARAM_SIGNATURE_AMZ_CAMEL = ''X-Amz-Signature''"

text \<open>A date that cannot be read is the zero time.\<close>

definition date_or_zero :: "'s obs_std \<Rightarrow> string \<Rightarrow> int" where
  "date_or_zero std d = (case ob_ParseRfc1123 std d of Some t \<Rightarrow> t | None \<Rightarrow> - 62135596800)"

definition signed_v4 :: "'s obs_std \<Rightarrow> config \<Rightarrow> string \<Rightarrow> string \<Rightarrow> string \<Rightarrow> (string, string) gomap \<Rightarrow> headers \<Rightarrow> int \<Rightarrow> int \<Rightarrow>
    string \<times> headers" where
  "signed_v4 std conf method bucket key params hs expires date =
     (let hs = remove_key ''Date'' hs;
          shortDate = ob_FormatShort std date; longDate = ob_FormatLong std date;
          (signedHeaders, ms) = getSignedHeaders hs;
          (credential, scope) = getCredential (cf_ak conf) (cf_region conf) shortDate;
          params = insert_key ''X-Amz-Algorithm'' V4_HASH_PREFIX params;
          params = insert_key ''X-Amz-Credential'' credential params;
          params = insert_key PARAM_DATE_AMZ_CAMEL longDate params;
          params = insert_key ''X-Amz-Expires'' (Itoa expires) params;
          params = insert_key ''X-Amz-SignedHeaders'' (Join signedHeaders '';'') params;
          (requestUrl, canonicalizedUrl) = formatUrls conf bucket key params True;
          query = (case ob_Parse std requestUrl of Inr (_, q) \<Rightarrow> q | Inl _ \<Rightarrow> []);
          stringToSign = getV4StringToSign std method canonicalizedUrl query scope longDate ''UNSIGNED-PAYLOAD'' signedHeaders ms
      in (requestUrl @ ''&'' @ PARAM_SIGNATURE_AMZ_CAMEL @ ''='' @
            UrlEncode (getSignature std stringToSign (cf_sk conf) (cf_region conf) shortDate) False,
          drop_empty_names hs))"

definition signed_v2 :: "'s obs_std \<Rightarrow> config \<Rightarrow> string \<Rightarrow> string \<Rightarrow> string \<Rightarrow> headers \<Rightarrow> int \<Rightarrow> int \<Rightarrow> string \<times> headers" where
  "signed_v2 std conf method requestUrl canonicalizedUrl hs expires date =
     (let expires = i64 (expires + date);
          hs = insert_key ''Date'' [Itoa expires] hs;
          signature = UrlEncode (v2Auth std (cf_sk conf) method canonicalizedUrl hs) False
      in (requestUrl @ (if Contains requestUrl ''?'' then ''&'' else ''?'') @ ''AWSAccessKeyId='' @ UrlEncode (cf_ak conf) False @
            ''&Expires='' @ Itoa expires @ ''&Signature='' @ signature,
          remove_key ''Date'' (drop_empty_names hs)))"

definition doAuthTemporary :: "'s obs_std \<Rightarrow> config \<Rightarrow> string \<Rightarrow> string \<Rightarrow> string \<Rightarrow> (string, string) gomap \<Rightarrow> headers \<Rightarrow>
    int \<Rightarrow> ('s, (string + string) \<times> headers) prog" where
  "doAuthTemporary std conf method bucket key params hs expires =
     (let (requestUrl, canonicalizedUrl) = formatUrls conf bucket key params True
      in case ob_Parse std requestUrl of
           Inl err \<Rightarrow> ret (Inl err, hs)
         | Inr (host, rawQuery) \<Rightarrow>
             (let isV4 = (cf_signature conf = ''v4'')
              in call (prepareHostAndDate std (encodeHeaders hs) host isV4) (\<lambda>hs.
                 if cf_ak conf = [] \<or> cf_sk conf = [] then ret (Inr requestUrl, hs)
                 else
                   let params = (if cf_token conf \<noteq> [] then insert_key ''x-amz-security-token'' (cf_token conf) params else params)
                   in call (lift_go (first_value (values_at hs ''Date''))) (\<lambda>originDate.
                        let date = date_or_zero std originDate;
                            (url, hs) = (if isV4 then signed_v4 std conf method bucket key params hs expires date
                                         else signed_v2 std conf method requestUrl canonicalizedUrl hs expires date)
                        in ret (Inr url, hs)))))"

record CreateSignedUrlInput =
  su_Method :: string
  su_Bucket :: string
  su_Key :: string
  su_SubResource :: string
  su_Expires :: int
  su_Headers :: "(string, string) gomap"
  su_QueryParams :: "(string, string) gomap"

record CreateSignedUrlOutput =
  so_SignedUrl :: string
  so_ActualSignedRequestHeaders :: headers

definition CreateSignedUrl :: "'s obs_std \<Rightarrow> config \<Rightarrow> CreateSignedUrlInput option \<Rightarrow> ('s, string + CreateSignedUrlOutput) prog" where
  "CreateSignedUrl std conf input =
     given ''CreateSignedUrlInput is nil'' input (\<lambda>input.
       let params = (if su_SubResource input \<noteq> [] then insert_key (su_SubResource input) [] (su_QueryParams input)
                     else su_QueryParams input);
           hs = map (\<lambda>(k, v). (k, [v])) (su_Headers input);
           expires = (if su_Expires input \<le> 0 then 300 else su_Expires input)
       in call (doAuthTemporary std conf (su_Method input) (su_Bucket input) (su_Key input) params hs expires) (\<lambda>(r, hs).
            ret (case r of
                   Inl err \<Rightarrow> Inl err
                 | Inr url \<Rightarrow> Inr \<lparr>so_SignedUrl = url, so_ActualSignedRequestHeaders = hs\<rparr>)))"

section \<open>Forms\<close>

record CreateBrowserBasedSignatureInput =
  bs_Bucket :: string
  bs_Key :: string
  bs_Expires :: int
  bs_FormParams :: "(string, string) gomap"

record CreateBrowserBasedSignatureOutput =
  bo_OriginPolicy :: string
  bo_Policy :: string
  bo_Algorithm :: string
  bo_Credential :: string
  bo_Date :: string
  bo_Signature :: string

definition policy_condition :: "string \<times> string \<Rightarrow> string" where
  "policy_condition kv =
     (let key = TrimSpace (ToLower (fst kv))
      in if key \<noteq> [] then ''{\"'' @ key @ ''\":\"'' @ snd kv @ ''\"},'' else [])"

definition origin_policy :: "string \<Rightarrow> (string, string) gomap \<Rightarrow> bool \<Rightarrow> bool \<Rightarrow> string" where
  "origin_policy expiration params anyBucket anyKey =
     ''{\"expiration\":\"'' @ expiration @ ''\",'' @ ''\"conditions\":['' @ concat (map policy_condition params) @
     (if anyBucket then ''[\"starts-with\", \"$bucket\", \"\"],'' else []) @
     (if anyKey then ''[\"starts-with\", \"$key\", \"\"],'' else []) @ '']}''"

definition CreateBrowserBasedSignature :: "'s obs_std \<Rightarrow> config \<Rightarrow> CreateBrowserBasedSignatureInput option \<Rightarrow>
    ('s, string + CreateBrowserBasedSignatureOutput) prog" where
  "CreateBrowserBasedSignature std conf input =
     given ''CreateBrowserBasedSignatureInput is nil'' input (\<lambda>input.
       call (liftS (ob_Now std)) (\<lambda>date.
         let shortDate = ob_FormatShort std date; longDate = ob_FormatLong std date;
             (credential, scope) = getCredential (cf_ak conf) (cf_region conf) shortDate;
             expires = (if bs_Expires input \<le> 0 then 300 else bs_Expires input);
             expiration = ob_FormatIso8601 std (date + expires);
             params = insert_key ''X-Amz-Algorithm'' V4_HASH_PREFIX (bs_FormParams input);
             params = insert_key ''X-Amz-Credential'' credential params;
             params = insert_key PARAM_DATE_AMZ_CAMEL longDate params;
             params = (if cf_token conf \<noteq> [] then insert_key ''x-amz-security-token'' (cf_token conf) params else params);
             bucket = TrimSpace (bs_Bucket input); key = TrimSpace (bs_Key input);
             params = (if bucket \<noteq> [] then insert_key ''bucket'' bucket params else params);
             params = (if key \<noteq> [] then insert_key ''key'' key params else params);
             originPolicy = origin_policy expiration params (bucket = []) (key = []);
             policy = b64_encode (bytes_of originPolicy)
         in ret (Inr \<lparr>bo_OriginPolicy = originPolicy, bo_Policy = policy, bo_Algorithm = V4_HASH_PREFIX,
                bo_Credential = credential, bo_Date = longDate,
                bo_Signature = getSignature std policy (cf_sk conf) (cf_region conf) shortDate\<rparr>)))"

section \<open>Requests with a signed URL\<close>

text \<open>The first of two spellings of a header that is there, which is deleted.\<close>

definition take_header :: "headers \<Rightarrow> string \<Rightarrow> string \<Rightarrow> (string option \<times> headers) go" where
  "take_header hs camel lower =
     (case lookup hs camel of
        Some vs \<Rightarrow> go_map (\<lambda>v. (Some v, remove_key camel hs)) (first_value vs)
      | None \<Rightarrow>
          (case lookup hs lower of
             Some vs \<Rightarrow> go_map (\<lambda>v. (Some v, remove_key lower hs)) (first_value vs)
           | None \<Rightarrow> Return (None, hs)))"

definition length_of_data :: "reader option \<Rightarrow> int option" where
  "length_of_data data = (case data of None \<Rightarrow> Some 0 | Some b \<Rightarrow> request_length b)"

definition doHttpWithSignedUrl :: "'s obs_net \<Rightarrow> string \<Rightarrow> string \<Rightarrow> headers \<Rightarrow> reader option \<Rightarrow> (http_response \<Rightarrow> 'o) \<Rightarrow>
    ('s, (string + 'o) \<times> headers) prog" where
  "doHttpWithSignedUrl net method signedUrl hs data parse =
     (case on_NewRequest net method signedUrl of
        Some err \<Rightarrow> ret (Inl err, hs)
      | None \<Rightarrow>
          call (lift_go (take_header hs ''Host'' ''host'')) (\<lambda>(host, hs).
          call (lift_go (take_header hs ''Content-Length'' ''content-length'')) (\<lambda>(len, hs).
            let hs = insert_key ''User-Agent'' [''obs-sdk-go/2.2.3''] hs;
                req = \<lparr>hq_Method = method, hq_Url = signedUrl, hq_Host = (case host of Some h \<Rightarrow> h | None \<Rightarrow> []),
                       hq_ContentLength = (case len of
                                             None \<Rightarrow> length_of_data data
                                           | Some l \<Rightarrow> (let n = StringToInt64 l (- 1) in if n < 0 then None else Some n)),
                       hq_Header = hs\<rparr>
            in call (liftS (on_Do net req (case data of None \<Rightarrow> [] | Some b \<Rightarrow> rest_of b))) (\<lambda>(r, n).
                 ret (case r of
                        Inl err \<Rightarrow> Inl err
                      | Inr resp \<Rightarrow> (if hp_StatusCode resp \<ge> 300 then Inl (obs_error net resp) else Inr (parse resp)), hs)))))"

definition policy_parsed :: "'s obs_net \<Rightarrow> http_response \<Rightarrow> GetBucketPolicyOutput" where
  "policy_parsed net resp = (parsed net None (\<lambda>x r. (r, None)) new_GetBucketPolicyOutput resp)\<lparr>gbp_Policy := hp_Body resp\<rparr>"

text \<open>The length of a file that is uploaded is taken from the headers, if there, and must not exceed it.\<close>

definition signed_length :: "headers \<Rightarrow> int \<Rightarrow> int go" where
  "signed_length hs fileSize =
     (case lookup hs ''Content-Length'' of
        Some vs \<Rightarrow> go_map (\<lambda>v. StringToInt64 v (- 1)) (first_value vs)
      | None \<Rightarrow>
          (case lookup hs ''content-length'' of
             Some vs \<Rightarrow> go_map (\<lambda>v. StringToInt64 v (- 1)) (first_value vs)
           | None \<Rightarrow> Return fileSize))"

definition PutFileWithSignedUrl :: "'s obs_net \<Rightarrow> string \<Rightarrow> headers \<Rightarrow> string \<Rightarrow>
    ('s, (string + PutObjectOutput) \<times> headers) prog" where
  "PutFileWithSignedUrl net signedUrl hs sourceFile =
     (let path = TrimSpace sourceFile;
          put = \<lambda>data. doHttpWithSignedUrl net ''PUT'' signedUrl hs data
                  (\<lambda>resp. ParsePutObjectOutput (parsed net None read_PutObjectOutput new_PutObjectOutput resp))
      in if path = [] then put None
         else call (liftS (on_Open net path)) (\<lambda>r.
           case r of
             Inl err \<Rightarrow> ret (Inl err, hs)
           | Inr content \<Rightarrow>
               call (lift_go (signed_length hs (int (length content)))) (\<lambda>len.
                 if len > int (length content) then ret (Inl ''ContentLength is larger than fileSize'', hs)
                 else put (Some (FileBody path 0 content 0 len 0)))))"

section \<open>The methods\<close>

definition ListBucketsWithSignedUrl :: "'s obs_net \<Rightarrow> string \<Rightarrow> headers \<Rightarrow> ('s, (string + ListBucketsOutput) \<times> headers) prog" where
  "ListBucketsWithSignedUrl net signedUrl hs =
     doHttpWithSignedUrl net ''GET'' signedUrl hs None (parsed net (Some ''ListAllMyBucketsResult'') (read_ListBucketsOutput (on_std net)) new_ListBucketsOutput)"

definition CreateBucketWithSignedUrl :: "'s obs_net \<Rightarrow> string \<Rightarrow> headers \<Rightarrow> reader option \<Rightarrow> ('s, (string + BaseModel) \<times> headers) prog" where
  "CreateBucketWithSignedUrl net signedUrl hs data =
     doHttpWithSignedUrl net ''PUT'' signedUrl hs data (parsed net None read_BaseModel new_BaseModel)"

definition DeleteBucketWithSignedUrl :: "'s obs_net \<Rightarrow> string \<Rightarrow> headers \<Rightarrow> ('s, (string + BaseModel) \<times> headers) prog" where
  "DeleteBucketWithSignedUrl net signedUrl hs =
     doHttpWithSignedUrl net ''DELETE'' signedUrl hs None (parsed net None read_BaseModel new_BaseModel)"

definition SetBucketStoragePolicyWithSignedUrl :: "'s obs_net \<Rightarrow> string \<Rightarrow> headers \<Rightarrow> reader option \<Rightarrow> ('s, (string + BaseModel) \<times> headers) prog" where
  "SetBucketStoragePolicyWithSignedUrl net signedUrl hs data =
     doHttpWithSignedUrl net ''PUT'' signedUrl hs data (parsed net None read_BaseModel new_BaseModel)"

definition GetBucketStoragePolicyWithSignedUrl :: "'s obs_net \<Rightarrow> string \<Rightarrow> headers \<Rightarrow> ('s, (string + GetBucketStoragePolicyOutput) \<times> headers) prog" where
  "GetBucketStoragePolicyWithSignedUrl net signedUrl hs =
     doHttpWithSignedUrl net ''GET'' signedUrl hs None (parsed net (Some ''StoragePolicy'') read_GetBucketStoragePolicyOutput new_GetBucketStoragePolicyOutput)"

definition ListObjectsWithSignedUrl :: "'s obs_net \<Rightarrow> string \<Rightarrow> headers \<Rightarrow> ('s, (string + ListObjectsOutput) \<times> headers) prog" where
  "ListObjectsWithSignedUrl net signedUrl hs =
     doHttpWithSignedUrl net ''GET'' signedUrl hs None (\<lambda>resp. ListObjects_Location (parsed net (Some ''ListBucketResult'') (read_ListObjectsOutput (on_std net)) new_ListObjectsOutput resp))"

definition ListVersionsWithSignedUrl :: "'s obs_net \<Rightarrow> string \<Rightarrow> headers \<Rightarrow> ('s, (string + ListVersionsOutput) \<times> headers) prog" where
  "ListVersionsWithSignedUrl net signedUrl hs =
     doHttpWithSignedUrl net ''GET'' signedUrl hs None (\<lambda>resp. ListVersions_Location (parsed net (Some ''ListVersionsResult'') (read_ListVersionsOutput (on_std net)) new_ListVersionsOutput resp))"

definition ListMultipartUploadsWithSignedUrl :: "'s obs_net \<Rightarrow> string \<Rightarrow> headers \<Rightarrow> ('s, (string + ListMultipartUploadsOutput) \<times> headers) prog" where
  "ListMultipartUploadsWithSignedUrl net signedUrl hs =
     doHttpWithSignedUrl net ''GET'' signedUrl hs None (parsed net (Some ''ListMultipartUploadsResult'') (read_ListMultipartUploadsOutput (on_std net)) new_ListMultipartUploadsOutput)"

definition SetBucketQuotaWithSignedUrl :: "'s obs_net \<Rightarrow> string \<Rightarrow> headers \<Rightarrow> reader option \<Rightarrow> ('s, (string + BaseModel) \<times> headers) prog" where
  "SetBucketQuotaWithSignedUrl net signedUrl hs data =
     doHttpWithSignedUrl net ''PUT'' signedUrl hs data (parsed net None read_BaseModel new_BaseModel)"

definition GetBucketQuotaWithSignedUrl :: "'s obs_net \<Rightarrow> string \<Rightarrow> headers \<Rightarrow> ('s, (string + GetBucketQuotaOutput) \<times> headers) prog" where
  "GetBucketQuotaWithSignedUrl net signedUrl hs =
     doHttpWithSignedUrl net ''GET'' signedUrl hs None (parsed net (Some ''Quota'') read_GetBucketQuotaOutput new_GetBucketQuotaOutput)"

definition HeadBucketWithSignedUrl :: "'s obs_net \<Rightarrow> string \<Rightarrow> headers \<Rightarrow> ('s, (string + BaseModel) \<times> headers) prog" where
  "HeadBucketWithSignedUrl net signedUrl hs =
     doHttpWithSignedUrl net ''HEAD'' signedUrl hs None (parsed net None read_BaseModel new_BaseModel)"

definition GetBucketMetadataWithSignedUrl :: "'s obs_net \<Rightarrow> string \<Rightarrow> headers \<Rightarrow> ('s, (string + GetBucketMetadataOutput) \<times> headers) prog" where
  "GetBucketMetadataWithSignedUrl net signedUrl hs =
     doHttpWithSignedUrl net ''HEAD'' signedUrl hs None (\<lambda>resp. ParseGetBucketMetadataOutput (parsed net None (decode_fields [base_field]) new_GetBucketMetadataOutput resp))"

definition GetBucketStorageInfoWithSignedUrl :: "'s obs_net \<Rightarrow> string \<Rightarrow> headers \<Rightarrow> ('s, (string + GetBucketStorageInfoOutput) \<times> headers) prog" where
  "GetBucketStorageInfoWithSignedUrl net signedUrl hs =
     doHttpWithSignedUrl net ''GET'' signedUrl hs None (parsed net (Some ''GetBucketStorageInfoResult'') read_GetBucketStorageInfoOutput new_GetBucketStorageInfoOutput)"

definition GetBucketLocationWithSignedUrl :: "'s obs_net \<Rightarrow> string \<Rightarrow> headers \<Rightarrow> ('s, (string + GetBucketLocationOutput) \<times> headers) prog" where
  "GetBucketLocationWithSignedUrl net signedUrl hs =
     doHttpWithSignedUrl net ''GET'' signedUrl hs None (parsed net (Some ''CreateBucketConfiguration'') read_GetBucketLocationOutput new_GetBucketLocationOutput)"

definition SetBucketAclWithSignedUrl :: "'s obs_net \<Rightarrow> string \<Rightarrow> headers \<Rightarrow> reader option \<Rightarrow> ('s, (string + BaseModel) \<times> headers) prog" where
  "SetBucketAclWithSignedUrl net signedUrl hs data =
     doHttpWithSignedUrl net ''PUT'' signedUrl hs data (parsed net None read_BaseModel new_BaseModel)"

definition GetBucketAclWithSignedUrl :: "'s obs_net \<Rightarrow> string \<Rightarrow> headers \<Rightarrow> ('s, (string + GetBucketAclOutput) \<times> headers) prog" where
  "GetBucketAclWithSignedUrl net signedUrl hs =
     doHttpWithSignedUrl net ''GET'' signedUrl hs None (parsed net (Some ''AccessControlPolicy'') read_GetBucketAclOutput new_GetBucketAclOutput)"

definition SetBucketPolicyWithSignedUrl :: "'s obs_net \<Rightarrow> string \<Rightarrow> headers \<Rightarrow> reader option \<Rightarrow> ('s, (string + BaseModel) \<times> headers) prog" where
  "SetBucketPolicyWithSignedUrl net signedUrl hs data =
     doHttpWithSignedUrl net ''PUT'' signedUrl hs data (parsed net None read_BaseModel new_BaseModel)"

definition GetBucketPolicyWithSignedUrl :: "'s obs_net \<Rightarrow> string \<Rightarrow> headers \<Rightarrow> ('s, (string + GetBucketPolicyOutput) \<times> headers) prog" where
  "GetBucketPolicyWithSignedUrl net signedUrl hs =
     doHttpWithSignedUrl net ''GET'' signedUrl hs None (policy_parsed net)"

definition DeleteBucketPolicyWithSignedUrl :: "'s obs_net \<Rightarrow> string \<Rightarrow> headers \<Rightarrow> ('s, (string + BaseModel) \<times> headers) prog" where
  "DeleteBucketPolicyWithSignedUrl net signedUrl hs =
     doHttpWithSignedUrl net ''DELETE'' signedUrl hs None (parsed net None read_BaseModel new_BaseModel)"

definition SetBucketCorsWithSignedUrl :: "'s obs_net \<Rightarrow> string \<Rightarrow> headers \<Rightarrow> reader option \<Rightarrow> ('s, (string + BaseModel) \<times> headers) prog" where
  "SetBucketCorsWithSignedUrl net signedUrl hs data =
     doHttpWithSignedUrl net ''PUT'' signedUrl hs data (parsed net None read_BaseModel new_BaseModel)"

definition GetBucketCorsWithSignedUrl :: "'s obs_net \<Rightarrow> string \<Rightarrow> headers \<Rightarrow> ('s, (string + GetBucketCorsOutput) \<times> headers) prog" where
  "GetBucketCorsWithSignedUrl net signedUrl hs =
     doHttpWithSignedUrl net ''GET'' signedUrl hs None (parsed net (Some ''CORSConfiguration'') read_GetBucketCorsOutput new_GetBucketCorsOutput)"

definition DeleteBucketCorsWithSignedUrl :: "'s obs_net \<Rightarrow> string \<Rightarrow> headers \<Rightarrow> ('s, (string + BaseModel) \<times> headers) prog" where
  "DeleteBucketCorsWithSignedUrl net signedUrl hs =
     doHttpWithSignedUrl net ''DELETE'' signedUrl hs None (parsed net None read_BaseModel new_BaseModel)"

definition SetBucketVersioningWithSignedUrl :: "'s obs_net \<Rightarrow> string \<Rightarrow> headers \<Rightarrow> reader option \<Rightarrow> ('s, (string + BaseModel) \<times> headers) prog" where
  "SetBucketVersioningWithSignedUrl net signedUrl hs data =
     doHttpWithSignedUrl net ''PUT'' signedUrl hs data (parsed net None read_BaseModel new_BaseModel)"

definition GetBucketVersioningWithSignedUrl :: "'s obs_net \<Rightarrow> string \<Rightarrow> headers \<Rightarrow> ('s, (string + GetBucketVersioningOutput) \<times> headers) prog" where
  "GetBucketVersioningWithSignedUrl net signedUrl hs =
     doHttpWithSignedUrl net ''GET'' signedUrl hs None (parsed net (Some ''VersioningConfiguration'') read_GetBucketVersioningOutput new_GetBucketVersioningOutput)"

definition SetBucketWebsiteConfigurationWithSignedUrl :: "'s obs_net \<Rightarrow> string \<Rightarrow> headers \<Rightarrow> reader option \<Rightarrow> ('s, (string + BaseModel) \<times> headers) prog" where
  "SetBucketWebsiteConfigurationWithSignedUrl net signedUrl hs data =
     doHttpWithSignedUrl net ''PUT'' signedUrl hs data (parsed net None read_BaseModel new_BaseModel)"

definition GetBucketWebsiteConfigurationWithSignedUrl :: "'s obs_net \<Rightarrow> string \<Rightarrow> headers \<Rightarrow> ('s, (string + GetBucketWebsiteConfigurationOutput) \<times> headers) prog" where
  "GetBucketWebsiteConfigurationWithSignedUrl net signedUrl hs =
     doHttpWithSignedUrl net ''GET'' signedUrl hs None (parsed net (Some ''WebsiteConfiguration'') read_GetBucketWebsiteConfigurationOutput new_GetBucketWebsiteConfigurationOutput)"

definition DeleteBucketWebsiteConfigurationWithSignedUrl :: "'s obs_net \<Rightarrow> string \<Rightarrow> headers \<Rightarrow> ('s, (string + BaseModel) \<times> headers) prog" where
  "DeleteBucketWebsiteConfigurationWithSignedUrl net signedUrl hs =
     doHttpWithSignedUrl net ''DELETE'' signedUrl hs None (parsed net None read_BaseModel new_BaseModel)"

definition SetBucketLoggingConfigurationWithSignedUrl :: "'s obs_net \<Rightarrow> string \<Rightarrow> headers \<Rightarrow> reader option \<Rightarrow> ('s, (string + BaseModel) \<times> headers) prog" where
  "SetBucketLoggingConfigurationWithSignedUrl net signedUrl hs data =
     doHttpWithSignedUrl net ''PUT'' signedUrl hs data (parsed net None read_BaseModel new_BaseModel)"

definition GetBucketLoggingConfigurationWithSignedUrl :: "'s obs_net \<Rightarrow> string \<Rightarrow> headers \<Rightarrow> ('s, (string + GetBucketLoggingConfigurationOutput) \<times> headers) prog" where
  "GetBucketLoggingConfigurationWithSignedUrl net signedUrl hs =
     doHttpWithSignedUrl net ''GET'' signedUrl hs None (parsed net (Some ''BucketLoggingStatus'') read_GetBucketLoggingConfigurationOutput new_GetBucketLoggingConfigurationOutput)"

definition SetBucketLifecycleConfigurationWithSignedUrl :: "'s obs_net \<Rightarrow> string \<Rightarrow> headers \<Rightarrow> reader option \<Rightarrow> ('s, (string + BaseModel) \<times> headers) prog" where
  "SetBucketLifecycleConfigurationWithSignedUrl net signedUrl hs data =
     doHttpWithSignedUrl net ''PUT'' signedUrl hs data (parsed net None read_BaseModel new_BaseModel)"

definition GetBucketLifecycleConfigurationWithSignedUrl :: "'s obs_net \<Rightarrow> string \<Rightarrow> headers \<Rightarrow> ('s, (string + GetBucketLifecycleConfigurationOutput) \<times> headers) prog" where
  "GetBucketLifecycleConfigurationWithSignedUrl net signedUrl hs =
     doHttpWithSignedUrl net ''GET'' signedUrl hs None (parsed net (Some ''LifecycleConfiguration'') (read_GetBucketLifecycleConfigurationOutput (on_std net)) new_GetBucketLifecycleConfigurationOutput)"

definition DeleteBucketLifecycleConfigurationWithSignedUrl :: "'s obs_net \<Rightarrow> string \<Rightarrow> headers \<Rightarrow> ('s, (string + BaseModel) \<times> headers) prog" where
  "DeleteBucketLifecycleConfigurationWithSignedUrl net signedUrl hs =
     doHttpWithSignedUrl net ''DELETE'' signedUrl hs None (parsed net None read_BaseModel new_BaseModel)"

definition SetBucketTaggingWithSignedUrl :: "'s obs_net \<Rightarrow> string \<Rightarrow> headers \<Rightarrow> reader option \<Rightarrow> ('s, (string + BaseModel) \<times> headers) prog" where
  "SetBucketTaggingWithSignedUrl net signedUrl hs data =
     doHttpWithSignedUrl net ''PUT'' signedUrl hs data (parsed net None read_BaseModel new_BaseModel)"

definition GetBucketTaggingWithSignedUrl :: "'s obs_net \<Rightarrow> string \<Rightarrow> headers \<Rightarrow> ('s, (string + GetBucketTaggingOutput) \<times> headers) prog" where
  "GetBucketTaggingWithSignedUrl net signedUrl hs =
     doHttpWithSignedUrl net ''GET'' signedUrl hs None (parsed net (Some ''Tagging'') read_GetBucketTaggingOutput new_GetBucketTaggingOutput)"

definition DeleteBucketTaggingWithSignedUrl :: "'s obs_net \<Rightarrow> string \<Rightarrow> headers \<Rightarrow> ('s, (string + BaseModel) \<times> headers) prog" where
  "DeleteBucketTaggingWithSignedUrl net signedUrl hs =
     doHttpWithSignedUrl net ''DELETE'' signedUrl hs None (parsed net None read_BaseModel new_BaseModel)"

definition SetBucketNotificationWithSignedUrl :: "'s obs_net \<Rightarrow> string \<Rightarrow> headers \<Rightarrow> reader option \<Rightarrow> ('s, (string + BaseModel) \<times> headers) prog" where
  "SetBucketNotificationWithSignedUrl net signedUrl hs data =
     doHttpWithSignedUrl net ''PUT'' signedUrl hs data (parsed net None read_BaseModel new_BaseModel)"

definition GetBucketNotificationWithSignedUrl :: "'s obs_net \<Rightarrow> string \<Rightarrow> headers \<Rightarrow> ('s, (string + GetBucketNotificationOutput) \<times> headers) prog" where
  "GetBucketNotificationWithSignedUrl net signedUrl hs =
     doHttpWithSignedUrl net ''GET'' signedUrl hs None (parsed net (Some ''NotificationConfiguration'') read_GetBucketNotificationOutput new_GetBucketNotificationOutput)"

definition DeleteObjectWithSignedUrl :: "'s obs_net \<Rightarrow> string \<Rightarrow> headers \<Rightarrow> ('s, (string + DeleteObjectOutput) \<times> headers) prog" where
  "DeleteObjectWithSignedUrl net signedUrl hs =
     doHttpWithSignedUrl net ''DELETE'' signedUrl hs None (\<lambda>resp. ParseDeleteObjectOutput (parsed net None read_DeleteObjectOutput new_DeleteObjectOutput resp))"

definition DeleteObjectsWithSignedUrl :: "'s obs_net \<Rightarrow> string \<Rightarrow> headers \<Rightarrow> reader option \<Rightarrow> ('s, (string + DeleteObjectsOutput) \<times> headers) prog" where
  "DeleteObjectsWithSignedUrl net signedUrl hs data =
     doHttpWithSignedUrl net ''POST'' signedUrl hs data (parsed net (Some ''DeleteResult'') read_DeleteObjectsOutput new_DeleteObjectsOutput)"

definition SetObjectAclWithSignedUrl :: "'s obs_net \<Rightarrow> string \<Rightarrow> headers \<Rightarrow> reader option \<Rightarrow> ('s, (string + BaseModel) \<times> headers) prog" where
  "SetObjectAclWithSignedUrl net signedUrl hs data =
     doHttpWithSignedUrl net ''PUT'' signedUrl hs data (parsed net None read_BaseModel new_BaseModel)"

definition GetObjectAclWithSignedUrl :: "'s obs_net \<Rightarrow> string \<Rightarrow> headers \<Rightarrow> ('s, (string + GetObjectAclOutput) \<times> headers) prog" where
  "GetObjectAclWithSignedUrl net signedUrl hs =
     doHttpWithSignedUrl net ''GET'' signedUrl hs None (\<lambda>resp. GetObjectAcl_Version (parsed net (Some ''AccessControlPolicy'') read_GetObjectAclOutput new_GetObjectAclOutput resp))"

definition RestoreObjectWithSignedUrl :: "'s obs_net \<Rightarrow> string \<Rightarrow> headers \<Rightarrow> reader option \<Rightarrow> ('s, (string + BaseModel) \<times> headers) prog" where
  "RestoreObjectWithSignedUrl net signedUrl hs data =
     doHttpWithSignedUrl net ''POST'' signedUrl hs data (parsed net None read_BaseModel new_BaseModel)"

definition GetObjectMetadataWithSignedUrl :: "'s obs_net \<Rightarrow> string \<Rightarrow> headers \<Rightarrow> ('s, (string + GetObjectMetadataOutput) \<times> headers) prog" where
  "GetObjectMetadataWithSignedUrl net signedUrl hs =
     doHttpWithSignedUrl net ''HEAD'' signedUrl hs None (\<lambda>resp. ParseGetObjectMetadataOutput (on_std net) (parsed net None read_GetObjectMetadataOutput new_GetObjectMetadataOutput resp))"

definition GetObjectWithSignedUrl :: "'s obs_net \<Rightarrow> string \<Rightarrow> headers \<Rightarrow> ('s, (string + GetObjectOutput) \<times> headers) prog" where
  "GetObjectWithSignedUrl net signedUrl hs =
     doHttpWithSignedUrl net ''GET'' signedUrl hs None (object_parsed net)"

definition PutObjectWithSignedUrl :: "'s obs_net \<Rightarrow> string \<Rightarrow> headers \<Rightarrow> reader option \<Rightarrow> ('s, (string + PutObjectOutput) \<times> headers) prog" where
  "PutObjectWithSignedUrl net signedUrl hs data =
     doHttpWithSignedUrl net ''PUT'' signedUrl hs data (\<lambda>resp. ParsePutObjectOutput (parsed net None read_PutObjectOutput new_PutObjectOutput resp))"

definition CopyObjectWithSignedUrl :: "'s obs_net \<Rightarrow> string \<Rightarrow> headers \<Rightarrow> ('s, (string + CopyObjectOutput) \<times> headers) prog" where
  "CopyObjectWithSignedUrl net signedUrl hs =
     doHttpWithSignedUrl net ''PUT'' signedUrl hs None (\<lambda>resp. ParseCopyObjectOutput (parsed net (Some ''CopyObjectResult'') (read_CopyObjectOutput (on_std net)) new_CopyObjectOutput resp))"

definition AbortMultipartUploadWithSignedUrl :: "'s obs_net \<Rightarrow> string \<Rightarrow> headers \<Rightarrow> ('s, (string + BaseModel) \<times> headers) prog" where
  "AbortMultipartUploadWithSignedUrl net signedUrl hs =
     doHttpWithSignedUrl net ''DELETE'' signedUrl hs None (parsed net None read_BaseModel new_BaseModel)"

definition InitiateMultipartUploadWithSignedUrl :: "'s obs_net \<Rightarrow> string \<Rightarrow> headers \<Rightarrow> ('s, (string + InitiateMultipartUploadOutput) \<times> headers) prog" where
  "InitiateMultipartUploadWithSignedUrl net signedUrl hs =
     doHttpWithSignedUrl net ''POST'' signedUrl hs None (\<lambda>resp. ParseInitiateMultipartUploadOutput (parsed net (Some ''InitiateMultipartUploadResult'') read_InitiateMultipartUploadOutput new_InitiateMultipartUploadOutput resp))"

definition UploadPartWithSignedUrl :: "'s obs_net \<Rightarrow> string \<Rightarrow> headers \<Rightarrow> reader option \<Rightarrow> ('s, (string + UploadPartOutput) \<times> headers) prog" where
  "UploadPartWithSignedUrl net signedUrl hs data =
     doHttpWithSignedUrl net ''PUT'' signedUrl hs data (\<lambda>resp. ParseUploadPartOutput (parsed net None read_UploadPartOutput new_UploadPartOutput resp))"

definition CompleteMultipartUploadWithSignedUrl :: "'s obs_net \<Rightarrow> string \<Rightarrow> headers \<Rightarrow> reader option \<Rightarrow> ('s, (string + CompleteMultipartUploadOutput) \<times> headers) prog" where
  "CompleteMultipartUploadWithSignedUrl net signedUrl hs data =
     doHttpWithSignedUrl net ''POST'' signedUrl hs data (\<lambda>resp. ParseCompleteMultipartUploadOutput (parsed net (Some ''CompleteMultipartUploadResult'') read_CompleteMultipartUploadOutput new_CompleteMultipartUploadOutput resp))"

definition ListPartsWithSignedUrl :: "'s obs_net \<Rightarrow> string \<Rightarrow> headers \<Rightarrow> ('s, (string + obs_ListPartsOutput) \<times> headers) prog" where
  "ListPartsWithSignedUrl net signedUrl hs =
     doHttpWithSignedUrl net ''GET'' signedUrl hs None (parsed net (Some ''ListPartsResult'') (read_ListPartsOutput (on_std net)) new_ListPartsOutput)"

definition CopyPartWithSignedUrl :: "'s obs_net \<Rightarrow> string \<Rightarrow> headers \<Rightarrow> ('s, (string + CopyPartOutput) \<times> headers) prog" where
  "CopyPartWithSignedUrl net signedUrl hs =
     doHttpWithSignedUrl net ''PUT'' signedUrl hs None (\<lambda>resp. ParseCopyPartOutput (parsed net (Some ''CopyPartResult'') (read_CopyPartOutput (on_std net)) new_CopyPartOutput resp))"

end
