(* ===== verification/Obs_Authorization.thy ===== *)
theory Obs_Authorization
  imports Obs_Client
begin

text \<open>
  The OBS client, tenth part: \<open>GetAuthorization\<close> of \<open>api/pkg/utils/obs/util.go\<close>, which computes anew what a
  request was signed with, from its query and its headers. The two regular expressions are written as
  matchers that call what comes next, in the order in which Go's leftmost-first matching tries them.
\<close>

section \<open>Regular expressions\<close>

definition newline :: char where "newline = CHR 0x0A"

text \<open>A literal text, \<open>.+?\<close> as a group, \<open>.+\<close>, and a match anywhere.\<close>

definition literal :: "string \<Rightarrow> (string \<Rightarrow> 'a option) \<Rightarrow> string \<Rightarrow> 'a option" where
  "literal p k s = (if HasPrefix s p then k (drop (length p) s) else None)"

fun lazy_group :: "(string \<Rightarrow> 'a option) \<Rightarrow> string \<Rightarrow> string \<Rightarrow> (string \<times> 'a) option" where
  "lazy_group k seen [] = None"
| "lazy_group k seen (c # cs) =
     (if c = newline then None
      else case k cs of
             Some r \<Rightarrow> Some (seen @ [c], r)
           | None \<Rightarrow> lazy_group k (seen @ [c]) cs)"

fun greedy_any :: "(string \<Rightarrow> 'a option) \<Rightarrow> string \<Rightarrow> 'a option" where
  "greedy_any k [] = None"
| "greedy_any k (c # cs) =
     (if c = newline then None
      else case greedy_any k cs of Some r \<Rightarrow> Some r | None \<Rightarrow> k cs)"

definition digits :: "(string \<Rightarrow> 'a option) \<Rightarrow> string \<Rightarrow> 'a option" where
  "digits k s = (if s \<noteq> [] \<and> is_digit (hd s) then k (dropWhile is_digit s) else None)"

fun find_match :: "(string \<Rightarrow> 'a option) \<Rightarrow> string \<Rightarrow> 'a option" where
  "find_match m [] = m []"
| "find_match m (c # cs) = (case m (c # cs) of Some r \<Rightarrow> Some r | None \<Rightarrow> find_match m cs)"

definition any_text :: "string \<Rightarrow> unit option" where
  "any_text s = greedy_any (\<lambda>_. Some ()) s"

definition v4AuthRegex :: "string \<Rightarrow> (string \<times> string) option" where
  "v4AuthRegex =
     find_match (literal ''Credential='' (\<lambda>s.
       map_option (\<lambda>(region, signedHeaders, _). (region, signedHeaders))
         (lazy_group (literal '',SignedHeaders='' (lazy_group (literal '',Signature='' any_text) [])) [] s)))"

definition regionRegex :: "string \<Rightarrow> string option" where
  "regionRegex =
     find_match (greedy_any (literal ''/'' (digits (literal ''/'' (\<lambda>s.
       map_option fst (lazy_group (literal ''/'' any_text) [] s))))))"

section \<open>Headers and parameters\<close>

definition upper_char :: "char \<Rightarrow> char" where
  "upper_char c = (if 97 \<le> code c \<and> code c \<le> 122 then char_of (code c - 32) else c)"

definition ToUpper :: "string \<Rightarrow> string" where
  "ToUpper s = map upper_char s"

definition copyHeaders :: "headers \<Rightarrow> headers" where
  "copyHeaders hs = foldl (\<lambda>m (k, vs). insert_key (ToLower k) vs m) [] hs"

definition UrlDecode :: "string \<Rightarrow> string" where
  "UrlDecode v = (case QueryUnescape v of Some s \<Rightarrow> s | None \<Rightarrow> [])"

definition region_of :: "string \<Rightarrow> string" where
  "region_of s = (case regionRegex s of Some r \<Rightarrow> r | None \<Rightarrow> s)"

text \<open>The version of the signature, the region and the names of the headers that were signed.\<close>

definition parseHeaders :: "headers \<Rightarrow> string \<times> string \<times> string" where
  "parseHeaders hs =
     (case lookup hs (ToLower ''Authorization'') of
        Some (auth # _) \<Rightarrow>
          (if HasPrefix auth V4_HASH_PREFIX then
             (case v4AuthRegex auth of
                Some (region, signedHeaders) \<Rightarrow> (''v4'', region_of region, signedHeaders)
              | None \<Rightarrow> (''v4'', [], []))
           else (''v2'', [], []))
      | _ \<Rightarrow> (''v2'', [], []))"

definition getTemporaryKeys :: "string list" where
  "getTemporaryKeys = [''Signature'', ''signature'', ''X-Amz-Signature'', ''x-amz-signature'']"

definition add_query :: "(string, string) gomap \<Rightarrow> string \<Rightarrow> (string, string) gomap" where
  "add_query m item =
     (case Split item ''='' of
        [] \<Rightarrow> m
      | [k] \<Rightarrow> insert_key (UrlDecode k) [] m
      | k # vs \<Rightarrow> insert_key (UrlDecode k) (Join (map UrlDecode vs) ''='') m)"

definition parse_query :: "string \<Rightarrow> (string, string) gomap" where
  "parse_query queryUrl =
     foldl add_query [] (Split (if HasPrefix queryUrl ''?'' then drop 1 queryUrl else queryUrl) ''&'')"

text \<open>A parameter under the first of two names that is there.\<close>

definition param_at :: "(string, string) gomap \<Rightarrow> string \<Rightarrow> string" where
  "param_at ps k = (case lookup ps k of Some v \<Rightarrow> v | None \<Rightarrow> [])"

definition param_or :: "(string, string) gomap \<Rightarrow> string \<Rightarrow> string \<Rightarrow> string" where
  "param_or ps k k' = (case lookup ps k of Some v \<Rightarrow> v | None \<Rightarrow> param_at ps k')"

section \<open>Computing the signature\<close>

definition dummy_config :: "string \<Rightarrow> string \<Rightarrow> bool \<Rightarrow> string \<Rightarrow> config" where
  "dummy_config ak sk pathStyle signature =
     (bare_config ak sk [])\<lparr>cf_url := \<lparr>uh_scheme = ''https'', uh_host = ''dummy'', uh_port = 443\<rparr>, cf_pathStyle := pathStyle,
        cf_signature := signature, cf_maxRetryCount := 0\<rparr>"

definition raw_query :: "'s obs_std \<Rightarrow> string \<Rightarrow> string go" where
  "raw_query std url = (case ob_Parse std url of Inr (_, q) \<Rightarrow> Return q | Inl _ \<Rightarrow> Panic NilDereference)"

definition temporary_v4 :: "'s obs_std \<Rightarrow> string \<Rightarrow> string \<Rightarrow> string \<Rightarrow> string \<Rightarrow> string \<Rightarrow> bool \<Rightarrow> (string, string) gomap \<Rightarrow>
    headers \<Rightarrow> (string, string) gomap go" where
  "temporary_v4 std ak sk method bucket key pathStyle params hs =
     (let longDate = param_or params PARAM_DATE_AMZ_CAMEL HEADER_DATE_AMZ
      in if length longDate < 8 then Panic SliceBounds
         else
           let shortDate = take 8 longDate;
               credential = param_or params ''X-Amz-Credential'' (ToLower ''X-Amz-Credential'');
               region = (case regionRegex (UrlDecode credential) of Some r \<Rightarrow> r | None \<Rightarrow> []);
               (_, scope) = getCredential ak region shortDate;
               expires = param_or params ''X-Amz-Expires'' (ToLower ''X-Amz-Expires'');
               signedHeaders = param_or params ''X-Amz-SignedHeaders'' (ToLower ''X-Amz-SignedHeaders'');
               algorithm = param_or params ''X-Amz-Algorithm'' (ToLower ''X-Amz-Algorithm'');
               params = (if lookup params ''X-Amz-Signature'' \<noteq> None then remove_key ''X-Amz-Signature'' params
                         else remove_key (ToLower ''X-Amz-Signature'') params);
               (requestUrl, canonicalizedUrl) = formatUrls (dummy_config ak sk pathStyle ''v4'') bucket key params False
           in go_map (\<lambda>query.
                let stringToSign = getV4StringToSign std method canonicalizedUrl query scope longDate ''UNSIGNED-PAYLOAD''
                      (Split signedHeaders '';'') hs
                in [(''X-Amz-Algorithm'', algorithm), (''X-Amz-Credential'', credential), (PARAM_DATE_AMZ_CAMEL, longDate),
                    (''X-Amz-Expires'', expires), (''X-Amz-SignedHeaders'', signedHeaders),
                    (''X-Amz-Signature'', UrlEncode (getSignature std stringToSign sk region shortDate) False)])
              (raw_query std requestUrl))"

definition temporary_v2 :: "'s obs_std \<Rightarrow> string \<Rightarrow> string \<Rightarrow> string \<Rightarrow> string \<Rightarrow> string \<Rightarrow> bool \<Rightarrow> (string, string) gomap \<Rightarrow>
    headers \<Rightarrow> (string, string) gomap" where
  "temporary_v2 std ak sk method bucket key pathStyle params hs =
     (let (_, canonicalizedUrl) = formatUrls (dummy_config ak sk pathStyle ''v2'') bucket key params False;
          expires = param_or params ''Expires'' ''expires'';
          hs = insert_key ''Date'' [expires] hs
      in [(''Signature'', UrlEncode (v2Auth std sk method canonicalizedUrl hs) False),
          (''AWSAccessKeyId'', UrlEncode ak False), (''Expires'', UrlEncode expires False)])"

definition getTemporaryAuthorization :: "'s obs_std \<Rightarrow> string \<Rightarrow> string \<Rightarrow> string \<Rightarrow> string \<Rightarrow> string \<Rightarrow> string \<Rightarrow> bool \<Rightarrow>
    (string, string) gomap \<Rightarrow> headers \<Rightarrow> (string, string) gomap go" where
  "getTemporaryAuthorization std ak sk method bucket key signature pathStyle params hs =
     (if signature = ''v4'' then temporary_v4 std ak sk method bucket key pathStyle params hs
      else Return (temporary_v2 std ak sk method bucket key pathStyle params hs))"

definition signed_again :: "'s obs_std \<Rightarrow> string \<Rightarrow> string \<Rightarrow> string \<Rightarrow> string \<Rightarrow> string \<Rightarrow> bool \<Rightarrow> (string, string) gomap \<Rightarrow>
    headers \<Rightarrow> ('s, (string, string) gomap) prog" where
  "signed_again std ak sk method bucket key pathStyle params hs =
     (let (signature, region, signedHeaders) = parseHeaders hs;
          (requestUrl, canonicalizedUrl) = formatUrls (dummy_config ak sk pathStyle signature) bucket key params False
      in if signature = ''v4'' then
           call (lift_go (raw_query std requestUrl)) (\<lambda>query.
             let ms = foldl (\<lambda>m k. insert_key k (values_at hs k) m) [] (Split signedHeaders '';'')
             in call (v4Auth std ak sk region method canonicalizedUrl query ms) (\<lambda>(credential, signed, signature).
                  ret [(''Credential'', credential), (''SignedHeaders'', signed), (''Signature'', signature),
                       (''Authorization'', V4_HASH_PREFIX @ '' Credential='' @ credential @ '',SignedHeaders='' @ signed @
                          '',Signature='' @ signature)]))
         else
           let signature = v2Auth std sk method canonicalizedUrl hs
           in ret [(''Signature'', signature), (''Authorization'', ''AWS '' @ ak @ '':'' @ signature)])"

definition GetAuthorization :: "'s obs_std \<Rightarrow> string \<Rightarrow> string \<Rightarrow> string \<Rightarrow> string \<Rightarrow> string \<Rightarrow> string \<Rightarrow> headers \<Rightarrow>
    ('s, (string, string) gomap) prog" where
  "GetAuthorization std ak sk method bucket key queryUrl hs =
     (let method = ToUpper method; params = parse_query queryUrl; hs = copyHeaders hs;
          pathStyle = (case lookup hs ''host'' of Some (host # _) \<Rightarrow> \<not> HasPrefix host (bucket @ ''.'') | _ \<Rightarrow> False)
      in case find (\<lambda>k. lookup params k \<noteq> None) getTemporaryKeys of
           Some k \<Rightarrow>
             lift_go (getTemporaryAuthorization std ak sk method bucket key (if ToLower k = ''signature'' then ''v2'' else ''v4'')
               pathStyle params hs)
         | None \<Rightarrow> signed_again std ak sk method bucket key pathStyle params hs)"

end
