(* ===== verification/Obs_Correct.thy ===== *)
theory Obs_Correct
  imports Obs_Http
begin

text \<open>
  Properties of the OBS client: what is signed does not depend on the order in which maps are
  iterated; a server that never redirects is asked at most one time more than there are retries, and
  one that always redirects for ever; a request is only reported as successful when no attempt failed
  on the way; and what a retry sends. \<open>obs_mem\<close> is a server in memory.
\<close>

section \<open>Signatures\<close>

lemma lookup_folded:
  assumes "distinct (map (f \<circ> fst) hs)"
  shows "lookup (foldl (\<lambda>m (k, v). if P (f k) then insert_key (f k) v m else m) [] hs) x =
    (if P x then map_of (map (\<lambda>(k, v). (f k, v)) hs) x else None)"
  using assms
proof (induction hs rule: rev_induct)
  case (snoc h hs)
  obtain k v where h: "h = (k, v)" by (cases h)
  have "map_of (map (\<lambda>(k, v). (f k, v)) hs) (f k) = None"
    using snoc.prems h by (auto simp: map_of_eq_None_iff image_iff)
  with snoc h show ?case by (auto simp: map_add_def split: option.splits)
qed simp

lemma v2_map_order:
  assumes "mset hs = mset hs'" and "distinct (map (header_key \<circ> fst) hs)"
  shows "lookup (v2_map hs) = lookup (v2_map hs')"
proof -
  let ?low = "map (\<lambda>(k, v). (header_key k, v :: string list))"
  have fst_low: "map fst (?low xs) = map (header_key \<circ> fst) xs" for xs by (induction xs) auto
  have m: "mset (?low hs) = mset (?low hs')" using assms(1) by (metis mset_map)
  have d': "distinct (map (header_key \<circ> fst) hs')"
    using assms by (metis mset_map mset_eq_imp_distinct_iff)
  then have "map_of (?low hs) = map_of (?low hs')"
    using assms(2) mset_eq_setD [OF m] unfolding fst_low [symmetric] by (simp add: map_of_inject_set)
  then show ?thesis unfolding v2_map_def using assms(2) d' by (intro ext) (simp add: lookup_folded)
qed

lemma v2_line_cong: "lookup m = lookup m' \<Longrightarrow> v2_line m = v2_line m'"
  by (rule ext) (simp add: v2_line_def values_at_def)

lemma lookup_inserts:
  "lookup m = lookup m' \<Longrightarrow> lookup (foldl (\<lambda>m k. insert_key k v m) m ks) = lookup (foldl (\<lambda>m k. insert_key k v m) m' ks)"
  by (induction ks arbitrary: m m') simp_all

lemma lookup_blank_date:
  "lookup m = lookup m' \<Longrightarrow> lookup hs = lookup hs' \<Longrightarrow> lookup (blank_date hs m) = lookup (blank_date hs' m')"
  by (simp add: blank_date_def)

text \<open>
  The signature of a request is well defined: Go iterates the map of headers in any order, and
  every order gives the same text to sign, as long as no two headers differ only in case or spaces.
\<close>

theorem signature_order_irrelevant:
  assumes "mset hs = mset hs'" and "distinct (map (header_key \<circ> fst) hs)"
  shows "v2Auth std sk method url hs = v2Auth std sk method url hs'"
proof -
  have low: "mset (map (header_key \<circ> fst) hs) = mset (map (header_key \<circ> fst) hs')"
    using assms(1) by (metis mset_map)
  have "distinct (map fst hs)" using assms(2) by (metis distinct_map map_map)
  moreover have "mset (map fst hs) = mset (map fst hs')" using assms(1) by (metis mset_map)
  ultimately have hs: "lookup hs = lookup hs'"
    using mset_eq_setD [OF assms(1)] by (metis map_of_inject_set mset_eq_imp_distinct_iff)
  note v2 = v2_map_order [OF assms]
  have missing: "missing_headers (v2_map hs) = missing_headers (v2_map hs')" using v2 by (simp add: missing_headers_def)
  have "mset (v2_keys hs @ missing_headers (v2_map hs)) = mset (v2_keys hs' @ missing_headers (v2_map hs'))"
    using low missing by (simp add: v2_keys_def mset_filter)
  then have "sort (v2_keys hs @ missing_headers (v2_map hs)) = sort (v2_keys hs' @ missing_headers (v2_map hs'))"
    by (metis mset_sort properties_for_sort sorted_sort)
  moreover have "v2_line (blank_date hs (foldl (\<lambda>m k. insert_key k [[]] m) (v2_map hs) (missing_headers (v2_map hs)))) =
      v2_line (blank_date hs' (foldl (\<lambda>m k. insert_key k [[]] m) (v2_map hs') (missing_headers (v2_map hs'))))"
    unfolding missing by (intro v2_line_cong lookup_blank_date lookup_inserts v2 hs)
  ultimately show ?thesis by (simp add: v2Auth_def getV2StringToSign_def attachHeaders_def Let_def)
qed

section \<open>Redirects\<close>

definition redirects :: "http_response \<Rightarrow> bool" where
  "redirects resp \<longleftrightarrow> 300 \<le> hp_StatusCode resp \<and> hp_StatusCode resp < 400 \<and> hp_StatusCode resp \<noteq> 304 \<and> location_of resp \<noteq> []"

definition always_redirects :: "'s obs_net \<Rightarrow> bool" where
  "always_redirects net \<longleftrightarrow> (\<forall>req b s. case fst (fst (on_Do net req b s)) of Inl err \<Rightarrow> False | Inr resp \<Rightarrow> redirects resp)"

definition never_redirects :: "'s obs_net \<Rightarrow> bool" where
  "never_redirects net \<longleftrightarrow> (\<forall>req b s. case fst (fst (on_Do net req b s)) of Inl err \<Rightarrow> True | Inr resp \<Rightarrow> \<not> redirects resp)"

text \<open>Every method and URL makes a request, and every URL is one.\<close>

definition urls_valid :: "'s obs_net \<Rightarrow> bool" where
  "urls_valid net \<longleftrightarrow> (\<forall>m u. on_NewRequest net m u = None) \<and> (\<forall>u err. ob_Parse (on_std net) u \<noteq> Inl err)"

fun is_file :: "reader \<Rightarrow> bool" where
  "is_file (FileBody path mark content pos lim readed) = True"
| "is_file _ = False"

lemma read_bytes_file [simp]: "is_file (read_bytes n b) = is_file b"
  by (cases b) simp_all

lemma rewind_memory:
  assumes "\<not> is_file b" and "rewind net b s = Return (r, s')"
  shows "\<exists>b'. r = Inr b' \<and> \<not> is_file b'"
  using assms by (cases b) (auto simp: rewind_def ret_def)

lemma doAuth_url:
  assumes "urls_valid net" and "doAuth (on_std net) conf method bucket key params hs host s = Return ((r, hs'), s')"
  shows "\<exists>url. r = Inr url"
  using assms
  by (auto simp: doAuth_def urls_valid_def Let_def ret_def call_Return_iff split: prod.splits sum.splits if_splits)

lemma request_url_valid:
  assumes "urls_valid net" and "request_url net conf method bucket key params st s = Return ((r, hs'), s')"
  shows "\<exists>u. r = Inr u"
proof (cases "ht_redirect st = []")
  case True
  with assms(2) obtain a where "doAuth (on_std net) conf method bucket key params (ht_headers st) [] s = Return ((a, hs'), s')"
    and "r = (case a of Inl err \<Rightarrow> Inl err | Inr url \<Rightarrow> Inr (url, []))"
    by (auto simp: request_url_def call_Return_iff ret_def)
  with doAuth_url [OF assms(1)] show ?thesis by fastforce
next
  case False
  obtain rhost rquery where "ob_Parse (on_std net) (ht_redirect st) = Inr (rhost, rquery)"
    using assms(1) by (cases "ob_Parse (on_std net) (ht_redirect st)") (auto simp: urls_valid_def)
  with False assms(2) obtain a :: "string + string" and hs1 s1 where
    "(let url = (case a of Inl err \<Rightarrow> [] | Inr url \<Rightarrow> url)
      in case ob_Parse (on_std net) url of
           Inl err \<Rightarrow> panic NilDereference
         | Inr (_, query) \<Rightarrow>
             (let redirect = (if query \<noteq> [] \<and> rquery = [] then ht_redirect st @ ''?'' @ query else ht_redirect st)
              in ret (Inr (redirect, redirect), hs1))) s1 = Return ((r, hs'), s')"
    by (auto simp: request_url_def call_Return_iff)
  then show ?thesis
    using assms(1)
    by (cases "ob_Parse (on_std net) (case a of Inl err \<Rightarrow> [] | Inr url \<Rightarrow> url)")
      (auto simp: urls_valid_def ret_def Let_def)
qed

text \<open>The ways through an attempt, part by part.\<close>

lemma next_attemptE:
  assumes "next_attempt net st s = Return (nxt, s')"
  obtains (again) b s1 where "ht_i st \<noteq> ht_max st" "rewind net (ht_body st) s = Return (Inr b, s1)"
      "nxt = GoOn (st\<lparr>ht_i := i64 (ht_i st + 1), ht_resp := None, ht_body := b,
         ht_headers := remove_key ''Authorization'' (ht_headers st)\<rparr>)" "s' = on_Sleep net (ht_i st) s1"
  | (unopened) err where "ht_i st \<noteq> ht_max st" "rewind net (ht_body st) s = Return (Inl err, s')" "nxt = Finished None (Some err)"
  | (exhausted) "ht_i st = ht_max st" "s' = s"
      "nxt = Finished None (case ht_resp st of Some resp \<Rightarrow> Some (obs_error net resp) | None \<Rightarrow> ht_err st)"
proof (cases "ht_i st = ht_max st")
  case True
  then show thesis using assms exhausted by (auto simp: next_attempt_def ret_def split: option.splits)
next
  case False
  with assms obtain r s1 where r: "rewind net (ht_body st) s = Return (r, s1)" by (auto simp: next_attempt_def call_Return_iff)
  show thesis
  proof (cases r)
    case (Inl err)
    with False r assms show thesis by (intro unopened) (auto simp: next_attempt_def call_Return_iff ret_def)
  next
    case (Inr b)
    with False r assms show thesis by (intro again) (auto simp: next_attempt_def call_Return_iff ret_def liftS_def)
  qed
qed

lemma send_requestE:
  assumes "send_request net method url repeatable st s = Return (nxt, s')"
  obtains (unsent) err where "on_NewRequest net method url = Some err" "nxt = Finished None (Some err)" "s' = s"
  | (sent) req hs r n s1 where "on_NewRequest net method url = None"
      "on_Do net req (rest_of (ht_body st)) s = ((r, n), s1)"
      "answered net repeatable (st\<lparr>ht_headers := hs, ht_body := read_bytes n (ht_body st)\<rparr>) r s1 = Return (nxt, s')"
proof (cases "on_NewRequest net method url")
  case None
  with assms show thesis
    by (auto simp: send_request_def call_Return_iff lift_go_def go_map_Return_iff liftS_def intro: sent)
qed (use assms unsent in \<open>simp add: send_request_def ret_def\<close>)

lemma attemptE:
  assumes "attempt net conf method bucket key params repeatable st s = Return (nxt, s')"
  obtains (unsigned) err hs where "request_url net conf method bucket key params st s = Return ((Inl err, hs), s')"
      "nxt = Finished None (Some err)"
  | (signed) url redirect hs s1 where "request_url net conf method bucket key params st s = Return ((Inr (url, redirect), hs), s1)"
      "send_request net method url repeatable (st\<lparr>ht_headers := hs, ht_redirect := redirect\<rparr>) s1 = Return (nxt, s')"
proof -
  from assms obtain u hs s1 where url: "request_url net conf method bucket key params st s = Return ((u, hs), s1)"
    and rest: "(case u of
         Inl err \<Rightarrow> ret (Finished None (Some err))
       | Inr (url, redirect) \<Rightarrow> send_request net method url repeatable (st\<lparr>ht_headers := hs, ht_redirect := redirect\<rparr>)) s1 =
        Return (nxt, s')"
    by (auto simp: attempt_def call_Return_iff)
  show thesis
  proof (cases u)
    case (Inl err)
    with url rest unsigned show thesis by (simp add: ret_def)
  next
    case (Inr p)
    with url rest signed show thesis by (cases p) simp
  qed
qed

text \<open>A loop that is still in its bounds, of which there is a next value.\<close>

definition in_bounds :: "nat \<Rightarrow> http_state \<Rightarrow> bool" where
  "in_bounds n st \<longleftrightarrow> \<not> is_file (ht_body st) \<and> 0 \<le> ht_i st \<and> ht_i st \<le> ht_max st \<and> ht_max st + int n \<le> 9223372036854775807"

lemma redirected_again:
  assumes "always_redirects net" and "urls_valid net" and "in_bounds (Suc n) st"
    and "attempt net conf method bucket key params True st s = Return (nxt, s')"
  shows "\<exists>st'. nxt = GoOn st' \<and> in_bounds n st'"
  using assms(4)
proof (cases rule: attemptE)
  case (unsigned err hs)
  then show ?thesis using request_url_valid [OF assms(2)] by fastforce
next
  case (signed url redirect hs s1)
  from signed(2) show ?thesis
  proof (cases rule: send_requestE)
    case (unsent err)
    then show ?thesis using assms(2) by (simp add: urls_valid_def)
  next
    case (sent req hs' r m s2)
    let ?st1 = "st\<lparr>ht_headers := hs', ht_redirect := redirect, ht_body := read_bytes m (ht_body st)\<rparr>"
    from assms(1) have "case fst (fst (on_Do net req (rest_of (ht_body st)) s1)) of Inl err \<Rightarrow> False | Inr resp \<Rightarrow> redirects resp"
      by (simp add: always_redirects_def)
    with sent(2) obtain resp where r: "r = Inr resp" and red: "redirects resp" by (cases r) simp_all
    let ?st2 = "?st1\<lparr>ht_resp := Some resp, ht_redirect := location_of resp, ht_max := i64 (ht_max st + 1)\<rparr>"
    from sent(3) r red have nxt: "next_attempt net ?st2 s2 = Return (nxt, s')" by (simp add: answered_def redirects_def)
    have ids: "i64 (ht_max st + 1) = ht_max st + 1" "i64 (ht_i st + 1) = ht_i st + 1"
      using assms(3) by (auto simp: in_bounds_def intro!: i64_id)
    from nxt show ?thesis
    proof (cases rule: next_attemptE)
      case (again b s3)
      then show ?thesis using assms(3) ids rewind_memory [of "ht_body ?st2" net s2 "Inr b" s3] by (auto simp: in_bounds_def)
    next
      case (unopened err)
      then show ?thesis using assms(3) rewind_memory [of "ht_body ?st2" net s2 "Inl err" s'] by (auto simp: in_bounds_def)
    next
      case exhausted
      then show ?thesis using assms(3) ids by (simp add: in_bounds_def)
    qed
  qed
qed

lemma redirects_for_ever:
  assumes "always_redirects net" and "urls_valid net" and "in_bounds n st"
  shows "http_loop n net conf method bucket key params True st s \<noteq> Return r"
  using assms(3)
proof (induction n arbitrary: st s)
  case (Suc n)
  show ?case
  proof (cases "attempt net conf method bucket key params True st s")
    case (Return p)
    obtain nxt s' where p: "p = (nxt, s')" by (cases p)
    from redirected_again [OF assms(1,2) Suc.prems Return [unfolded p]] Suc.IH Return p Suc.prems show ?thesis
      by (auto simp: in_bounds_def)
  qed (use Suc.prems in \<open>auto simp: in_bounds_def\<close>)
qed simp

fun data_is_file :: "payload \<Rightarrow> bool" where
  "data_is_file (ReaderData b) = is_file b"
| "data_is_file _ = False"

abbreviation http_start :: "config \<Rightarrow> headers \<Rightarrow> reader \<Rightarrow> http_state" where
  "http_start conf hs b \<equiv> \<lparr>ht_i = 0, ht_max = cf_maxRetryCount conf, ht_redirect = [], ht_headers = hs, ht_body = b,
     ht_resp = None, ht_err = None\<rparr>"

lemma doHttp_loop:
  "doHttp n net conf method bucket key params hs data repeatable =
     http_loop n net conf method (TrimSpace bucket) (TrimSpace key) params repeatable
       (http_start conf (snd (http_data data hs)) (fst (http_data data hs)))"
  by (simp add: doHttp_def split_def)

lemma http_data_file: "is_file (fst (http_data data hs)) = data_is_file data"
  by (cases data) (simp_all add: http_data_def)

lemma in_bounds_start:
  "\<not> is_file b \<Longrightarrow> 0 \<le> cf_maxRetryCount conf \<Longrightarrow> cf_maxRetryCount conf + int n \<le> 9223372036854775807 \<Longrightarrow>
    in_bounds n (http_start conf hs b)"
  by (simp add: in_bounds_def)

text \<open>
  C37. A server that always redirects is asked for ever: no run of the loop returns before the counter
  of attempts, which grows with the counter of redirects, leaves the range of an integer.
\<close>

theorem redirects_never_end:
  assumes "always_redirects net" and "urls_valid net" and "\<not> data_is_file data"
    and "0 \<le> cf_maxRetryCount conf" and "cf_maxRetryCount conf + int n \<le> 9223372036854775807"
  shows "doHttp n net conf method bucket key params hs data True s \<noteq> Return r"
  unfolding doHttp_loop by (intro redirects_for_ever in_bounds_start assms) (simp add: http_data_file assms)

section \<open>Attempts\<close>

text \<open>Programs that do not take fuel.\<close>

definition unfuelled :: "('s, 'a) prog \<Rightarrow> bool" where
  "unfuelled m \<longleftrightarrow> (\<forall>s. m s \<noteq> OutOfFuel)"

lemma unfuelled_call: "unfuelled m \<Longrightarrow> (\<And>a. unfuelled (f a)) \<Longrightarrow> unfuelled (call m f)"
  unfolding unfuelled_def call_def by (metis go_bind.simps(1,2) go.exhaust prod.case prod.exhaust go.distinct(3,5))

lemma unfuelled_basic: "unfuelled (ret a)" "unfuelled (panic p)" "unfuelled (liftS g)"
  by (simp_all add: unfuelled_def ret_def panic_def liftS_def)

lemma go_map_fuel [simp]: "go_map f m = OutOfFuel \<longleftrightarrow> m = OutOfFuel"
  by (cases m) auto

lemma unfuelled_first: "unfuelled (lift_go (first_value vs))"
  by (cases vs) (simp_all add: unfuelled_def lift_go_def first_value_def)

lemma move_headers_fuel: "move_headers hs req \<noteq> OutOfFuel"
proof -
  have opt: "opt_value hs k \<noteq> OutOfFuel" for k
    by (simp add: opt_value_def first_value_def split: option.splits list.splits)
  show ?thesis
    using opt [of "''Host''"] opt [of "''Content-Length''"]
    by (cases "opt_value hs ''Host''"; cases "opt_value hs ''Content-Length''") (simp_all add: move_headers_def Let_def)
qed

lemma unfuelled_cases:
  "(c \<Longrightarrow> unfuelled m) \<Longrightarrow> (\<not> c \<Longrightarrow> unfuelled m') \<Longrightarrow> unfuelled (if c then m else m')"
  "(\<And>a. unfuelled (f a)) \<Longrightarrow> (\<And>b. unfuelled (g b)) \<Longrightarrow> unfuelled (case x of Inl a \<Rightarrow> f a | Inr b \<Rightarrow> g b)"
  "unfuelled m \<Longrightarrow> (\<And>b. unfuelled (g b)) \<Longrightarrow> unfuelled (case y of None \<Rightarrow> m | Some b \<Rightarrow> g b)"
  "(\<And>a b. unfuelled (h a b)) \<Longrightarrow> unfuelled (case p of (a, b) \<Rightarrow> h a b)"
  by (simp_all split: sum.split option.split prod.split)

lemmas unfuelled_rules = unfuelled_basic unfuelled_first unfuelled_call unfuelled_cases

lemma doAuth_unfuelled: "unfuelled (doAuth std conf method bucket key params hs host)"
  unfolding doAuth_def v4Auth_def signing_time_def prepareHostAndDate_def Let_def
  by (intro unfuelled_rules)

lemma request_url_unfuelled: "unfuelled (request_url net conf method bucket key params st)"
  unfolding request_url_def Let_def
  by (intro unfuelled_rules doAuth_unfuelled)

lemma rewind_unfuelled: "unfuelled (rewind net b)"
  by (cases b) (simp_all add: rewind_def unfuelled_rules)

lemma next_attempt_unfuelled: "unfuelled (next_attempt net st)"
  unfolding next_attempt_def
  by (intro unfuelled_rules rewind_unfuelled)

lemma attempt_unfuelled: "unfuelled (attempt net conf method bucket key params repeatable st)"
proof -
  have "unfuelled (lift_go (move_headers hs req))" for hs req
    using move_headers_fuel by (simp add: unfuelled_def lift_go_def)
  show ?thesis
    unfolding attempt_def send_request_def answered_def Let_def
    by (intro unfuelled_rules request_url_unfuelled next_attempt_unfuelled \<open>\<And>hs req. unfuelled (lift_go (move_headers hs req))\<close>)
qed

text \<open>An attempt that is followed by another one, against a server that never redirects.\<close>

lemma attempt_goes_on:
  assumes "never_redirects net" and "attempt net conf method bucket key params repeatable st s = Return (GoOn st', s')"
  shows "ht_i st \<noteq> ht_max st \<and> ht_i st' = i64 (ht_i st + 1) \<and> ht_max st' = ht_max st"
  using assms(2)
proof (cases rule: attemptE)
  case (signed url redirect hs s1)
  from signed(2) show ?thesis
  proof (cases rule: send_requestE)
    case (sent req hs' r n s2)
    have "case fst (fst (on_Do net req (rest_of (ht_body st)) s1)) of Inl err \<Rightarrow> True | Inr resp \<Rightarrow> \<not> redirects resp"
      using assms(1) by (simp add: never_redirects_def)
    then have "\<not> redirects resp" if "r = Inr resp" for resp using sent(2) that by simp
    with sent(3) show ?thesis
      by (auto simp: answered_def redirects_def Let_def ret_def split: sum.splits if_splits elim!: next_attemptE)
  qed simp
qed simp

lemma loop_returns:
  assumes "never_redirects net" and "0 \<le> ht_i st" and "ht_i st \<le> ht_max st" and "ht_max st < 9223372036854775807"
    and "n = Suc (nat (ht_max st - ht_i st))"
  shows "http_loop n net conf method bucket key params repeatable st s \<noteq> OutOfFuel"
  using assms(2-5)
proof (induction n arbitrary: st s)
  case (Suc n)
  show ?case
  proof (cases "attempt net conf method bucket key params repeatable st s")
    case (Return p)
    obtain nxt s' where p: "p = (nxt, s')" by (cases p)
    show ?thesis
    proof (cases nxt)
      case (GoOn st')
      from attempt_goes_on [OF assms(1) Return [unfolded p GoOn]] have st': "ht_i st \<noteq> ht_max st" "ht_i st' = i64 (ht_i st + 1)"
        "ht_max st' = ht_max st" by simp_all
      have "i64 (ht_i st + 1) = ht_i st + 1" using Suc.prems by (intro i64_id) auto
      then have "http_loop n net conf method bucket key params repeatable st' s' \<noteq> OutOfFuel"
        using st' Suc.prems by (intro Suc.IH) auto
      then show ?thesis using Return p GoOn Suc.prems by simp
    qed (use Return p Suc.prems in simp)
  next
    case OutOfFuel
    with attempt_unfuelled [of net conf _ bucket key params repeatable st] show ?thesis by (simp add: unfuelled_def)
  qed (use Suc.prems in simp)
qed simp

text \<open>
  C38. Against a server that never redirects a call makes at most one attempt more than there are
  retries: that much fuel, which pays for one attempt each, is always enough.
\<close>

theorem attempts_are_bounded:
  assumes "never_redirects net" and "0 \<le> cf_maxRetryCount conf" and "cf_maxRetryCount conf < 9223372036854775807"
  shows "doHttp (nat (cf_maxRetryCount conf) + 1) net conf method bucket key params hs data repeatable s \<noteq> OutOfFuel"
  unfolding doHttp_loop using assms by (intro loop_returns) simp_all

section \<open>Network errors\<close>

text \<open>The same network with a flag that is set by an attempt that gets no response.\<close>

definition watched_std :: "'s obs_std \<Rightarrow> ('s \<times> bool) obs_std" where
  "watched_std std =
     \<lparr>ob_HmacSha1 = ob_HmacSha1 std, ob_HmacSha256 = ob_HmacSha256 std, ob_Sha256 = ob_Sha256 std, ob_Md5 = ob_Md5 std,
      ob_Parse = ob_Parse std,
      ob_ParseLong = ob_ParseLong std, ob_ParseRfc1123 = ob_ParseRfc1123 std, ob_ParseTime = ob_ParseTime std, ob_FormatLong = ob_FormatLong std,
      ob_FormatShort = ob_FormatShort std, ob_FormatRfc1123 = ob_FormatRfc1123 std,
      ob_FormatMidnight = ob_FormatMidnight std, ob_FormatIso8601 = ob_FormatIso8601 std,
      ob_Now = (\<lambda>(s, f). case ob_Now std s of (t, s) \<Rightarrow> (t, (s, f))), ob_ReadXml = ob_ReadXml std\<rparr>"

fun no_response :: "(string + http_response) \<Rightarrow> bool" where
  "no_response (Inl err) = True"
| "no_response (Inr resp) = False"

definition watched :: "'s obs_net \<Rightarrow> ('s \<times> bool) obs_net" where
  "watched net =
     \<lparr>on_std = watched_std (on_std net), on_NewRequest = on_NewRequest net,
      on_Do = (\<lambda>req b (s, f). case on_Do net req b s of ((r, n), s) \<Rightarrow> ((r, n), (s, f \<or> no_response r))),
      on_Sleep = (\<lambda>i (s, f). (on_Sleep net i s, f)),
      on_Open = (\<lambda>path (s, f). case on_Open net path s of (r, s) \<Rightarrow> (r, (s, f)))\<rparr>"

definition keeps :: "('s \<times> bool, 'a) prog \<Rightarrow> bool" where
  "keeps m \<longleftrightarrow> (\<forall>c. valid_if (\<lambda>s. snd s = c) m (\<lambda>_ s. snd s = c))"

lemma keeps_cases:
  "(c \<Longrightarrow> keeps m) \<Longrightarrow> (\<not> c \<Longrightarrow> keeps m') \<Longrightarrow> keeps (if c then m else m')"
  "(\<And>a. keeps (f a)) \<Longrightarrow> (\<And>b. keeps (g b)) \<Longrightarrow> keeps (case x of Inl a \<Rightarrow> f a | Inr b \<Rightarrow> g b)"
  "keeps m \<Longrightarrow> (\<And>b. keeps (g b)) \<Longrightarrow> keeps (case y of None \<Rightarrow> m | Some b \<Rightarrow> g b)"
  "(\<And>a b. keeps (h a b)) \<Longrightarrow> keeps (case p of (a, b) \<Rightarrow> h a b)"
  by (simp_all split: sum.split option.split prod.split)

lemma keeps_basic:
  "keeps (ret a)" "keeps (panic p)" "keeps (lift_go r)"
  by (auto simp: keeps_def valid_if_def ret_def panic_def lift_go_def go_map_Return_iff)

lemma keeps_liftS: "(\<And>s. snd (snd (g s)) = snd s) \<Longrightarrow> keeps (liftS g)"
  unfolding keeps_def valid_if_def liftS_def by (metis go.inject snd_conv)

lemma keeps_call: "keeps m \<Longrightarrow> (\<And>a. keeps (f a)) \<Longrightarrow> keeps (call m f)"
  unfolding keeps_def by (blast intro: valid_if_call)

lemma keeps_now: "keeps (liftS (ob_Now (watched_std std)))"
  by (rule keeps_liftS) (simp add: watched_std_def split_def)

lemmas keeps_rules = keeps_basic keeps_now keeps_call keeps_cases

lemma keeps_doAuth: "keeps (doAuth (watched_std std) conf method bucket key params hs host)"
  unfolding doAuth_def v4Auth_def signing_time_def prepareHostAndDate_def Let_def by (intro keeps_rules)

lemma keeps_request_url: "keeps (request_url (watched net) conf method bucket key params st)"
proof -
  have std: "on_std (watched net) = watched_std (on_std net)" by (simp add: watched_def)
  show ?thesis unfolding request_url_def Let_def std by (intro keeps_rules keeps_doAuth)
qed

lemma keeps_next_attempt: "keeps (next_attempt (watched net) st)"
proof -
  have "keeps (liftS (on_Open (watched net) path))" for path
    by (rule keeps_liftS) (simp add: watched_def split_def)
  then have rewind: "keeps (rewind (watched net) b)" for b
    by (cases b) (simp_all add: rewind_def keeps_rules)
  have "keeps (liftS (\<lambda>s. ((), on_Sleep (watched net) i s)))" for i
    by (rule keeps_liftS) (simp add: watched_def split_def)
  then show ?thesis unfolding next_attempt_def by (intro keeps_rules rewind)
qed

lemma keepsD: "keeps m \<Longrightarrow> m s = Return (a, s') \<Longrightarrow> snd s' = snd s"
  unfolding keeps_def valid_if_def by blast

text \<open>The error that is going to be returned, at the end or after the next attempt.\<close>

fun next_err :: "http_next \<Rightarrow> string option" where
  "next_err (Finished resp err) = err"
| "next_err (GoOn st) = ht_err st"

lemma next_attempt_err:
  assumes "next_attempt net st s = Return (nxt, s')" and "ht_err st \<noteq> None"
  shows "next_err nxt \<noteq> None"
  using assms(1) by (cases rule: next_attemptE) (use assms(2) in \<open>auto split: option.splits\<close>)

lemma answered_err:
  assumes "answered net repeatable st r s = Return (nxt, s')" and "ht_err st \<noteq> None \<or> no_response r"
  shows "next_err nxt \<noteq> None"
  using assms
  by (cases r) (auto simp: answered_def Let_def ret_def split: if_splits dest!: next_attempt_err)

lemma keeps_answered: "keeps (answered (watched net) repeatable st r)"
  unfolding answered_def Let_def by (intro keeps_rules keeps_next_attempt)

lemma attempt_err:
  assumes "attempt (watched net) conf method bucket key params repeatable st s = Return (nxt, s')"
    and "snd s \<longrightarrow> ht_err st \<noteq> None"
  shows "snd s' \<longrightarrow> next_err nxt \<noteq> None"
  using assms(1)
proof (cases rule: attemptE)
  case (signed url redirect hs s1)
  have s1: "snd s1 = snd s" using keepsD [OF keeps_request_url signed(1)] .
  from signed(2) show ?thesis
  proof (cases rule: send_requestE)
    case (sent req hs' r n s2)
    from sent(2) have s2: "snd s2 = (snd s1 \<or> no_response r)" by (auto simp: watched_def split_def)
    from keepsD [OF keeps_answered sent(3)] answered_err [OF sent(3)] s1 s2 assms(2) show ?thesis by auto
  qed simp
qed simp

lemma loop_err:
  assumes "http_loop n (watched net) conf method bucket key params repeatable st s = Return ((resp, err), s')"
    and "snd s \<longrightarrow> ht_err st \<noteq> None"
  shows "snd s' \<longrightarrow> err \<noteq> None"
  using assms
proof (induction n arbitrary: st s)
  case (Suc n)
  show ?case
  proof (cases "ht_i st > ht_max st")
    case False
    with Suc.prems(1) obtain nxt s1 where att: "attempt (watched net) conf method bucket key params repeatable st s = Return (nxt, s1)"
      and rest: "(case nxt of Finished resp err \<Rightarrow> Return ((resp, err), s1)
        | GoOn st \<Rightarrow> http_loop n (watched net) conf method bucket key params repeatable st s1) = Return ((resp, err), s')"
      by auto
    from attempt_err [OF att Suc.prems(2)] rest Suc.IH show ?thesis by (cases nxt) auto
  qed (use Suc.prems in auto)
qed simp

text \<open>
  A call is reported as successful only if every attempt got a response: an attempt that got none
  is followed by others, but its error is returned even when one of them succeeds.
\<close>

theorem success_means_every_response:
  assumes "doAction n (watched net) conf method bucket key params hs data repeatable (s, False) = Return (Inr resp, (s', f))"
  shows "\<not> f"
proof -
  from assms obtain meta r where
    "doHttp n (watched net) conf method bucket key params (prepareHeaders hs meta) data repeatable (s, False) = Return ((r, None), (s', f))"
    by (auto simp: doAction_def call_Return_iff ret_def split: option.splits)
  from loop_err [OF this [unfolded doHttp_loop]] show ?thesis by simp
qed

section \<open>Retries of a body\<close>

text \<open>A body after it has been sent to its end.\<close>

definition sent_off :: "reader \<Rightarrow> reader" where
  "sent_off b = read_bytes (length (rest_of b)) b"

lemma wrapped_body_is_sent_once:
  assumes "0 < lim" and "nat lim \<le> length content - pos"
    and "rewind net (sent_off (Wrapped src content pos lim 0)) s = Return (Inr b, s')"
  shows "rest_of b = []"
  using assms by (auto simp: sent_off_def rewind_def ret_def wrapped_rest_def count_read_def)

lemma plain_body_is_sent_again:
  assumes "src \<in> {StringsReader, BytesReader}" and "rewind net (sent_off (Raw src content pos)) s = Return (Inr b, s')"
  shows "rest_of b = content"
  using assms by (auto simp: sent_off_def rewind_def ret_def)

lemma file_is_sent_from_mark:
  assumes "on_Open net path s = (Inr now, s1)"
  shows "\<exists>b. rewind net (sent_off (FileBody path mark content pos lim readed)) s = Return (Inr b, s1) \<and>
    rest_of b = wrapped_rest now mark lim 0"
  using assms by (simp add: sent_off_def rewind_def ret_def call_def liftS_def)

section \<open>Configuration\<close>

text \<open>
  Creating a client panics exactly when its endpoint, up to a question mark, consists of slashes;
  every other endpoint is accepted or refused as empty.
\<close>

theorem initConfig_panics_iff:
  "(\<forall>r. initConfigWithDefault conf \<noteq> Return r) \<longleftrightarrow>
     (let endpoint = TrimSpace (cf_endpoint conf)
      in endpoint \<noteq> [] \<and> list_all (\<lambda>c. c = CHR ''/'') (cut_query endpoint))"
  by (auto simp: initConfigWithDefault_def Let_def cut_slashes_result simp del: cut_slashes.simps)

text \<open>The date is signed even when the time is in \<open>x-amz-date\<close>.\<close>

lemma blank_date_leaves_date: "v2_line (blank_date hs m) ''date'' = v2_line m ''date''"
  by (simp add: blank_date_def v2_line_def values_at_def)

section \<open>Witnesses\<close>

text \<open>A standard library and a network whose answers are given by a function.\<close>

definition plain_std :: "'s obs_std" where
  "plain_std =
     \<lparr>ob_HmacSha1 = (\<lambda>k m. k), ob_HmacSha256 = (\<lambda>k m. k), ob_Sha256 = (\<lambda>m. m), ob_Md5 = (\<lambda>m. m), ob_Parse = (\<lambda>u. Inr (u, [])),
      ob_ParseLong = (\<lambda>d. None), ob_ParseRfc1123 = (\<lambda>d. None), ob_ParseTime = (\<lambda>d. None),
      ob_FormatLong = (\<lambda>t. []), ob_FormatShort = (\<lambda>t. []), ob_FormatRfc1123 = (\<lambda>t. []), ob_FormatMidnight = (\<lambda>t. []),
      ob_FormatIso8601 = (\<lambda>t. []), ob_Now = (\<lambda>s. (0, s)), ob_ReadXml = (\<lambda>t. Inl ''EOF'')\<rparr>"

definition server :: "(http_request \<Rightarrow> string \<Rightarrow> 's \<Rightarrow> (string + http_response) \<times> 's) \<Rightarrow> 's obs_net" where
  "server answer =
     \<lparr>on_std = plain_std, on_NewRequest = (\<lambda>m u. None),
      on_Do = (\<lambda>req b s. case answer req b s of (r, s) \<Rightarrow> ((r, length b), s)),
      on_Sleep = (\<lambda>i s. s), on_Open = (\<lambda>path s. (Inl path, s))\<rparr>"

definition answers :: "int \<Rightarrow> headers \<Rightarrow> http_request \<Rightarrow> string \<Rightarrow> 's \<Rightarrow> (string + http_response) \<times> 's" where
  "answers status hs req b s = (Inr \<lparr>hp_StatusCode = status, hp_Status = [], hp_Header = hs, hp_Body = []\<rparr>, s)"

definition default_config :: config where
  "default_config =
     \<lparr>cf_ak = ''ak'', cf_sk = ''sk'', cf_token = [], cf_url = url_of_endpoint ''obs'', cf_endpoint = ''obs'', cf_signature = ''v2'',
      cf_pathStyle = True, cf_region = ''region'', cf_connectTimeout = 60, cf_socketTimeout = 60, cf_finalTimeout = 600,
      cf_headerTimeout = 60, cf_idleConnTimeout = 30, cf_maxRetryCount = 3, cf_maxConnsPerHost = 1000, cf_proxyUrl = [], cf_sslVerify = False\<rparr>"

theorem signature_order_irrelevant_witness:
  "v2Auth (plain_std :: unit obs_std) ''sk'' ''GET'' ''/'' [(''Date'', [''now'']), (''Host'', [''obs''])] =
   v2Auth (plain_std :: unit obs_std) ''sk'' ''GET'' ''/'' [(''Host'', [''obs'']), (''Date'', [''now''])]"
  by (rule signature_order_irrelevant) (simp, code_simp)

theorem redirects_never_end_witness:
  "\<forall>r. doHttp 1000000 (server (answers 302 [(''Location'', [''http://obs''])]) :: unit obs_net) default_config ''GET'' ''b'' ''k'' [] []
     NoData True () \<noteq> Return r"
proof
  fix r
  show "doHttp 1000000 (server (answers 302 [(''Location'', [''http://obs''])]) :: unit obs_net) default_config ''GET'' ''b'' ''k'' [] []
     NoData True () \<noteq> Return r"
    by (rule redirects_never_end)
      (simp_all add: always_redirects_def urls_valid_def server_def answers_def plain_std_def redirects_def location_of_def default_config_def)
qed

theorem attempts_are_bounded_witness:
  "doHttp 4 (server (answers 503 []) :: unit obs_net) default_config ''GET'' ''b'' ''k'' [] [] NoData True () \<noteq> OutOfFuel"
proof -
  have "doHttp (nat (cf_maxRetryCount default_config) + 1) (server (answers 503 []) :: unit obs_net) default_config ''GET'' ''b'' ''k''
    [] [] NoData True () \<noteq> OutOfFuel"
    by (rule attempts_are_bounded)
      (simp_all add: never_redirects_def server_def answers_def redirects_def default_config_def)
  then show ?thesis by (simp add: default_config_def)
qed

lemma answered_at_once:
  "doAction 1 (watched (server (answers 200 []) :: unit obs_net)) default_config ''GET'' ''b'' ''k'' [] [] NoData True ((), False) =
     Return (Inr (Some \<lparr>hp_StatusCode = 200, hp_Status = [], hp_Header = [], hp_Body = []\<rparr>), ((), False))"
  by code_simp

theorem success_means_every_response_witness:
  "\<exists>resp f. doAction 1 (watched (server (answers 200 []) :: unit obs_net)) default_config ''GET'' ''b'' ''k'' [] [] NoData True ((), False) =
     Return (Inr resp, ((), f)) \<and> \<not> f"
  using success_means_every_response [OF answered_at_once] answered_at_once by blast

text \<open>A server that cannot be reached at first.\<close>

definition late_server :: "http_request \<Rightarrow> string \<Rightarrow> bool \<Rightarrow> (string + http_response) \<times> bool" where
  "late_server req b up =
     (if up then answers 200 [] req b up else (Inl ''timeout'', True))"

lemma recovered_call_is_reported_failed:
  "doAction 4 (server late_server) default_config ''GET'' ''b'' ''k'' [] [] NoData True False = Return (Inl ''timeout'', True)"
  by code_simp

end
