(* ===== verification/Obs_Client_Correct.thy ===== *)
theory Obs_Client_Correct
  imports Obs_Client Obs_Correct
begin

text \<open>
  Properties of the methods of the OBS client: what is sent when an upload is repeated, which range of
  an object is asked for, what completes an upload, and what happens to answers that cannot be read.
\<close>

section \<open>Attempts on a server\<close>

text \<open>
  A client that signs with version 2, and a server that is a function: an attempt sends one request, with
  the headers it was given.
\<close>

definition sent_value :: "string list \<Rightarrow> string list" where
  "sent_value vs = map (\<lambda>v. UrlEncode v True) vs"

definition plain_url :: "config \<Rightarrow> string \<Rightarrow> string \<Rightarrow> (string, string) gomap \<Rightarrow> string" where
  "plain_url conf bucket key params = fst (formatUrls conf bucket key params True)"

text \<open>Headers that are ready to be sent: every name has a value and no time is set by the caller.\<close>

definition filled :: "headers \<Rightarrow> bool" where
  "filled hs \<longleftrightarrow> (\<forall>x. lookup hs x \<noteq> Some [])"

definition client_set :: "string set" where
  "client_set = {''Host'', ''Date'', ''Authorization'', ''Content-Length'', ''User-Agent'', ''x-amz-security-token''}"

lemma lookup_encodeHeaders: "lookup (encodeHeaders hs) x = map_option sent_value (lookup hs x)"
  unfolding encodeHeaders_def sent_value_def by (induction hs) auto

lemma lookup_drop_empty: "header_key x \<noteq> [] \<Longrightarrow> lookup (drop_empty_names hs) x = lookup hs x"
  unfolding drop_empty_names_def by (induction hs) auto

lemma lookup_drop_SomeD: "lookup (drop_empty_names hs) x = Some v \<Longrightarrow> header_key x \<noteq> []"
  unfolding drop_empty_names_def by (induction hs) (auto split: if_splits)

lemma sent_value_Nil [simp]: "sent_value vs = [] \<longleftrightarrow> vs = []"
  by (simp add: sent_value_def)

lemma plain_std_simps:
  "ob_Parse plain_std u = Inr (u, [])" "ob_Now plain_std s = (0, s)" "ob_FormatRfc1123 plain_std t = []"
  by (simp_all add: plain_std_def)

lemma doAuth_plain:
  assumes "lookup hs HEADER_DATE_AMZ = None" and "filled hs" and v2: "cf_signature conf = ''v2''"
  shows "\<exists>hs'. doAuth (plain_std :: 's obs_std) conf method bucket key params hs [] s =
      Return ((Inr (plain_url conf bucket key params), hs'), s) \<and> filled hs' \<and>
      (\<forall>x. x \<notin> client_set \<longrightarrow> header_key x \<noteq> [] \<longrightarrow> lookup hs' x = map_option sent_value (lookup hs x))"
proof -
  define h where "h = plain_url conf bucket key params"
  define hs1 where "hs1 = (let m = insert_key ''Host'' [h] (encodeHeaders hs)
    in if lookup hs ''Date'' = None then insert_key ''Date'' [[]] m else m)"
  define hs2 where "hs2 = (if cf_token conf \<noteq> [] then insert_key ''x-amz-security-token'' [cf_token conf] hs1 else hs1)"
  have date: "lookup hs ''x-amz-date'' = None" using assms(1) by (simp add: HEADER_DATE_AMZ_def)
  have prep: "prepareHostAndDate plain_std (encodeHeaders hs) h False s = Return (hs1, s)"
    by (simp add: prepareHostAndDate_def hs1_def HEADER_DATE_AMZ_def lookup_encodeHeaders date Let_def ret_def call_def liftS_def
        plain_std_simps)
  have hs1: "filled hs1" "\<forall>x. x \<notin> {''Host'', ''Date''} \<longrightarrow> lookup hs1 x = map_option sent_value (lookup hs x)"
    using assms(2) by (auto simp: hs1_def filled_def lookup_encodeHeaders Let_def)
  then have hs2: "filled hs2" "\<forall>x. x \<notin> client_set \<longrightarrow> lookup hs2 x = map_option sent_value (lookup hs x)"
    by (auto simp: hs2_def filled_def client_set_def)
  let ?signed = "insert_key ''Authorization'' [''AWS '' @ cf_ak conf @ '':'' @ v2Auth (plain_std :: 's obs_std) (cf_sk conf) method
     (snd (formatUrls conf bucket key params True)) hs2] (drop_empty_names hs2)"
  let ?hs' = "if cf_ak conf = [] \<or> cf_sk conf = [] then hs1 else ?signed"
  have "doAuth (plain_std :: 's obs_std) conf method bucket key params hs [] s = Return ((Inr (plain_url conf bucket key params), ?hs'), s)"
    using prep v2
    by (simp add: doAuth_def h_def hs2_def plain_url_def split_def Let_def call_def ret_def plain_std_simps)
  moreover have "filled ?hs'"
    using hs1(1) hs2(1) lookup_drop_SomeD [of hs2] lookup_drop_empty [of _ hs2] by (fastforce simp: filled_def)
  ultimately show ?thesis using hs1(2) hs2(2) by (auto simp: lookup_drop_empty client_set_def)
qed

text \<open>What an attempt leaves for the next one.\<close>

definition ready :: "http_state \<Rightarrow> bool" where
  "ready st \<longleftrightarrow> ht_redirect st = [] \<and> lookup (ht_headers st) HEADER_DATE_AMZ = None \<and> filled (ht_headers st)"

definition carries :: "http_request \<Rightarrow> string \<Rightarrow> string \<Rightarrow> headers \<Rightarrow> bool" where
  "carries req method url hs \<longleftrightarrow> hq_Method req = method \<and> hq_Url req = url \<and>
     (\<forall>x. x \<notin> client_set \<longrightarrow> header_key x \<noteq> [] \<longrightarrow> lookup (hq_Header req) x = map_option sent_value (lookup hs x))"

lemma opt_value_filled: "filled hs \<Longrightarrow> \<exists>v. opt_value hs x = Return v"
  by (auto simp: opt_value_def filled_def first_value_def split: option.split list.split)

lemma move_headers_filled:
  assumes "filled hs"
  shows "\<exists>req' hs'. move_headers hs req = Return (req', hs') \<and> hq_Method req' = hq_Method req \<and> hq_Url req' = hq_Url req \<and>
    hs' = remove_key ''Content-Length'' (remove_key ''Host'' hs) \<and> hq_Header req' = insert_key ''User-Agent'' [''obs-sdk-go/2.2.3''] hs'"
proof -
  obtain v w where "opt_value hs ''Host'' = Return v" "opt_value hs ''Content-Length'' = Return w"
    using opt_value_filled [OF assms] by metis
  then show ?thesis by (simp add: move_headers_def Let_def)
qed

lemma attempt_server:
  fixes reply :: "http_request \<Rightarrow> string \<Rightarrow> 's \<Rightarrow> (string + http_response) \<times> 's"
  assumes "ready st" and v2: "cf_signature conf = ''v2''"
  shows "\<exists>req st1. attempt (server reply) conf meth bucket key params repeatable st s =
      answered (server reply) repeatable st1 (fst (reply req (rest_of (ht_body st)) s)) (snd (reply req (rest_of (ht_body st)) s)) \<and>
      carries req meth (plain_url conf bucket key params) (ht_headers st) \<and> ready st1 \<and>
      ht_body st1 = read_bytes (length (rest_of (ht_body st))) (ht_body st) \<and>
      ht_i st1 = ht_i st \<and> ht_max st1 = ht_max st \<and> ht_err st1 = ht_err st"
proof -
  obtain hs where auth: "doAuth (plain_std :: 's obs_std) conf meth bucket key params (ht_headers st) [] s =
      Return ((Inr (plain_url conf bucket key params), hs), s)" and hs: "filled hs"
    "\<forall>x. x \<notin> client_set \<longrightarrow> header_key x \<noteq> [] \<longrightarrow> lookup hs x = map_option sent_value (lookup (ht_headers st) x)"
    using doAuth_plain [where ?'s = 's and hs = "ht_headers st" and conf = conf] assms unfolding ready_def by blast
  let ?req0 = "\<lparr>hq_Method = meth, hq_Url = plain_url conf bucket key params, hq_Host = [],
    hq_ContentLength = request_length (ht_body st), hq_Header = []\<rparr>"
  obtain req hs' where move: "move_headers hs ?req0 = Return (req, hs')" "hq_Method req = meth" "hq_Url req = plain_url conf bucket key params"
    "hs' = remove_key ''Content-Length'' (remove_key ''Host'' hs)" "hq_Header req = insert_key ''User-Agent'' [''obs-sdk-go/2.2.3''] hs'"
    using move_headers_filled [OF hs(1), of ?req0] by auto
  let ?st1 = "st\<lparr>ht_redirect := [], ht_headers := hs', ht_body := read_bytes (length (rest_of (ht_body st))) (ht_body st)\<rparr>"
  let ?a = "reply req (rest_of (ht_body st)) s"
  have std: "on_std (server reply) = plain_std" by (simp add: server_def)
  have "request_url (server reply) conf meth bucket key params st s = Return ((Inr (plain_url conf bucket key params, []), hs), s)"
    using assms auth by (simp add: request_url_def ready_def std call_def ret_def)
  then have "attempt (server reply) conf meth bucket key params repeatable st s =
      send_request (server reply) meth (plain_url conf bucket key params) repeatable (st\<lparr>ht_headers := hs, ht_redirect := []\<rparr>) s"
    by (simp add: attempt_def call_def)
  also have "\<dots> = answered (server reply) repeatable ?st1 (fst ?a) (snd ?a)"
    using move(1) by (simp add: send_request_def call_def lift_go_def liftS_def server_def split_def)
  finally have 1: "attempt (server reply) conf meth bucket key params repeatable st s =
      answered (server reply) repeatable ?st1 (fst ?a) (snd ?a)" .
  have 2: "carries req meth (plain_url conf bucket key params) (ht_headers st)"
    using move hs(2) by (auto simp: carries_def client_set_def)
  have "header_key HEADER_DATE_AMZ \<noteq> []" by code_simp
  then have 3: "ready ?st1" using hs move(4) assms by (auto simp: ready_def filled_def client_set_def HEADER_DATE_AMZ_def)
  from 1 2 3 show ?thesis by (intro exI [of _ req] exI [of _ ?st1]) simp
qed

section \<open>Repeated uploads\<close>

text \<open>
  An upload of as many bytes as are announced sends nothing when it is repeated: the count of the
  bytes that were sent is not reset with the position of the reader.
\<close>

lemma repeated_upload_sends_nothing:
  assumes "attempt net conf method bucket key params repeatable st s = Return (GoOn st', s')"
    and "ht_body st = Wrapped src content pos lim 0" and "0 < lim" and "nat lim \<le> length content - pos"
    and "\<forall>req b s. snd (fst (on_Do net req b s)) = length b"
  shows "rest_of (ht_body st') = []"
  using assms(1)
proof (cases rule: attemptE)
  case (signed url redirect hs s1)
  from signed(2) show ?thesis
  proof (cases rule: send_requestE)
    case (sent req hs' r n s2)
    have "n = length (rest_of (ht_body st))"
      using assms(5) [rule_format, of req "rest_of (ht_body st)" s1] sent(2) by simp
    with sent(3) assms(2) obtain st2 where st2: "next_attempt net st2 s2 = Return (GoOn st', s')"
      "ht_body st2 = sent_off (Wrapped src content pos lim 0)"
      by (auto simp: answered_def Let_def ret_def sent_off_def split: sum.splits if_splits)
    from st2(1) show ?thesis
    proof (cases rule: next_attemptE)
      case (again b s3)
      with st2(2) wrapped_body_is_sent_once [OF assms(3,4)] show ?thesis by simp
    qed simp_all
  qed simp
qed simp

text \<open>A server that is unavailable once, and then stores what it is sent.\<close>

definition flaky_server :: "http_request \<Rightarrow> string \<Rightarrow> bool \<times> string option \<Rightarrow> (string + http_response) \<times> bool \<times> string option" where
  "flaky_server req b s =
     (if fst s then (Inr \<lparr>hp_StatusCode = 503, hp_Status = [], hp_Header = [], hp_Body = []\<rparr>, (False, snd s))
      else (Inr \<lparr>hp_StatusCode = 200, hp_Status = [], hp_Header = [], hp_Body = []\<rparr>, (False, Some b)))"

definition put_input :: "string \<Rightarrow> string \<Rightarrow> string \<Rightarrow> PutObjectInput" where
  "put_input bucket key content =
     \<lparr>oi_Bucket = bucket, oi_Key = key, oi_ACL = [], oi_StorageClass = [], oi_WebsiteRedirectLocation = [], oi_SseHeader = None,
      oi_Metadata = [], pb_ContentType = ''text/plain'', pb_ContentMD5 = [], pb_ContentLength = int (length content),
      po_Body = Some (Raw StringsReader content 0)\<rparr>"

definition unavailable :: http_response where
  "unavailable = \<lparr>hp_StatusCode = 503, hp_Status = [], hp_Header = [], hp_Body = []\<rparr>"

text \<open>After an answer that the server is unavailable a wrapped text is wound back.\<close>

lemma answered_unavailable:
  assumes "ready st" and "ht_i st = 0" and "ht_max st = 3" and "ht_err st = None"
    and "ht_body st = Wrapped StringsReader content pos lim readed"
  shows "\<exists>st'. answered (server reply) True st (Inr unavailable) s = Return (GoOn st', s) \<and> ready st' \<and> ht_i st' = 1 \<and> ht_max st' = 3 \<and>
    ht_err st' = None \<and> ht_body st' = Wrapped StringsReader content 0 lim readed"
proof -
  have "i64 1 = 1" by (simp add: i64_id)
  moreover have "HEADER_DATE_AMZ \<noteq> ''Authorization''" by (simp add: HEADER_DATE_AMZ_def)
  ultimately show ?thesis
    using assms
    by (simp add: answered_def unavailable_def next_attempt_def rewind_def server_def call_def ret_def liftS_def)
      (simp add: ready_def filled_def)
qed

lemma put_headers:
  "prepareHeaders [(''Content-Length'', [v]), (''Content-Type'', [''text/plain''])] True =
    [(''Content-Length'', [v]), (''Content-Type'', [''text/plain''])]"
  by code_simp

lemma put_request:
  assumes "content \<noteq> []"
  shows "trans_PutObject std (put_input bucket key content\<lparr>po_Body := b\<rparr>) =
    ([], [(''Content-Length'', [Itoa (int (length content))]), (''Content-Type'', [''text/plain''])], data_of b)"
  using assms
  by (simp add: trans_PutObject_def trans_PutObjectBasic_def trans_ObjectOperation_def put_input_def header_if_def setSseHeader_def
      insert_key_def)

text \<open>
  C32. The object that is stored is empty, and its upload is reported as successful, whenever a text is
  uploaded with its length and the server is unavailable at first.
\<close>

theorem put_after_unavailable_stores_nothing:
  assumes "content \<noteq> []" and "TrimSpace bucket \<noteq> []" and "TrimSpace key \<noteq> []"
  shows "\<exists>out. PutObject 2 (server flaky_server) default_config (Some (put_input bucket key content)) (True, None) =
    Return (Inr out, (False, Some []))"
proof -
  let ?b = "Wrapped StringsReader content 0 (int (length content)) 0"
  let ?hs = "[(''Content-Length'', [Itoa (int (length content))]), (''Content-Type'', [''text/plain''])]"
  let ?net = "server flaky_server"
  let ?st = "http_start default_config ?hs ?b"
  have v2: "cf_signature default_config = ''v2''" by (simp add: default_config_def)
  note loop = attempt_server [OF _ v2, where reply = flaky_server and meth = "''PUT''" and bucket = "TrimSpace bucket" and key = "TrimSpace key"
    and params = "[]" and repeatable = True]
  have "ready ?st" by (simp add: ready_def filled_def HEADER_DATE_AMZ_def)
  from loop [OF this, of "(True, None)"] obtain st1 where st1:
    "attempt ?net default_config ''PUT'' (TrimSpace bucket) (TrimSpace key) [] True ?st (True, None) =
      answered ?net True st1 (Inr unavailable) (False, None)"
    "ready st1" "ht_i st1 = 0" "ht_max st1 = 3" "ht_err st1 = None"
    "ht_body st1 = Wrapped StringsReader content (length content) (int (length content)) (int (length content))"
    by (auto simp: flaky_server_def unavailable_def default_config_def wrapped_rest_def count_read_def assms(1))
  from answered_unavailable [OF st1(2-6), of flaky_server "(False, None)"] obtain st2 where st2:
    "answered ?net True st1 (Inr unavailable) (False, None) = Return (GoOn st2, (False, None))" "ready st2" "ht_i st2 = 1" "ht_max st2 = 3"
    "ht_err st2 = None" "ht_body st2 = Wrapped StringsReader content 0 (int (length content)) (int (length content))" by blast
  from loop [OF st2(2), of "(False, None)"] obtain st3 where st3:
    "attempt ?net default_config ''PUT'' (TrimSpace bucket) (TrimSpace key) [] True st2 (False, None) =
      answered ?net True st3 (Inr \<lparr>hp_StatusCode = 200, hp_Status = [], hp_Header = [], hp_Body = []\<rparr>) (False, Some [])"
    "ht_err st3 = None"
    using st2 by (auto simp: flaky_server_def wrapped_rest_def)
  let ?ok = "\<lparr>hp_StatusCode = 200, hp_Status = [], hp_Header = [], hp_Body = []\<rparr>"
  have "http_loop 2 ?net default_config ''PUT'' (TrimSpace bucket) (TrimSpace key) [] True ?st (True, None) =
      Return ((Some ?ok, None), (False, Some []))"
    using st1(1) st2(1,3,4) st3 by (simp add: numeral_2_eq_2 default_config_def answered_def ret_def)
  then have "doAction 2 ?net default_config ''PUT'' bucket key [] ?hs (ReaderData ?b) True (True, None) =
      Return (Inr (Some ?ok), (False, Some []))"
    by (simp add: doAction_def metadata_kept_def doHttp_loop http_data_def put_headers call_def ret_def)
  moreover have "put_content_type (put_input bucket key content) = put_input bucket key content"
    and "is_strings_reader (po_Body (put_input bucket key content))"
    and "wrap_body (pb_ContentLength (put_input bucket key content)) (po_Body (put_input bucket key content)) = Some ?b"
    and "oi_Bucket (put_input bucket key content\<lparr>po_Body := Some ?b\<rparr>) = bucket"
    and "oi_Key (put_input bucket key content\<lparr>po_Body := Some ?b\<rparr>) = key"
    using assms(1) by (simp_all add: put_input_def put_content_type_def wrap_body_def)
  ultimately show ?thesis
    using assms
    by (simp add: PutObject_def given_def actionOnObject_def doActionWithBucketAndKey_def Let_def put_request data_of_def
        call_def answer_def ret_def)
qed

theorem put_after_unavailable_stores_nothing_witness:
  "\<exists>out. PutObject 2 (server flaky_server) default_config (Some (put_input ''b'' ''k'' ''abc'')) (True, None) =
    Return (Inr out, (False, Some []))"
  by (rule put_after_unavailable_stores_nothing) (simp, code_simp, code_simp)

section \<open>Ranges\<close>

definition ascii :: "char \<Rightarrow> bool" where
  "ascii c \<longleftrightarrow> code c < 128"

lemma encode_chinese_ascii: "list_all ascii s \<Longrightarrow> encode_chinese s = s"
proof (induction s)
  case (Cons c cs)
  then have "encode_chinese (c # cs) = c # encode_chinese cs"
    by (subst encode_chinese.simps) (simp add: ascii_def rune_len_ascii is_chinese_def)
  with Cons show ?case by simp
qed (simp add: encode_chinese.simps)

lemma Itoa_ascii: "list_all ascii (Itoa n)"
proof -
  have "list_all ascii (nat_digits k)" for k
    using nat_digits_facts [of k] by (auto simp: list_all_iff is_digit_def ascii_def)
  moreover have "ascii CHR ''-''" by code_simp
  ultimately show ?thesis by (simp add: Itoa_def)
qed

lemma range_text_sent: "UrlEncode (range_text start finish) True = range_text start finish"
proof -
  have "list_all ascii ''bytes=''" "list_all ascii ''-''" by code_simp+
  then show ?thesis by (simp add: UrlEncode_def range_text_def encode_chinese_ascii Itoa_ascii)
qed

text \<open>A server that gives an object, or what a function gives for the range it is asked for.\<close>

definition object_server :: "string \<Rightarrow> (string \<Rightarrow> string) \<Rightarrow> http_request \<Rightarrow> string \<Rightarrow> 's \<Rightarrow> (string + http_response) \<times> 's" where
  "object_server whole part req b s =
     (Inr \<lparr>hp_StatusCode = 200, hp_Status = [], hp_Header = [],
        hp_Body = (case lookup (hq_Header req) ''Range'' of Some [r] \<Rightarrow> part r | _ \<Rightarrow> whole)\<rparr>, s)"

definition get_input :: "string \<Rightarrow> string \<Rightarrow> int \<Rightarrow> int \<Rightarrow> GetObjectInput" where
  "get_input bucket key start finish =
     \<lparr>gm_Bucket = bucket, gm_Key = key, gm_VersionId = [], gm_Origin = [], gm_RequestHeader = [], gm_SseHeader = None,
      gi_IfMatch = [], gi_IfNoneMatch = [], gi_IfUnmodifiedSince = None, gi_IfModifiedSince = None, gi_RangeStart = start,
      gi_RangeEnd = finish, gi_ImageProcess = [], gi_ResponseCacheControl = [], gi_ResponseContentDisposition = [],
      gi_ResponseContentEncoding = [], gi_ResponseContentLanguage = [], gi_ResponseContentType = [], gi_ResponseExpires = []\<rparr>"

definition range_headers :: "int \<Rightarrow> int \<Rightarrow> headers" where
  "range_headers start finish = (if 0 \<le> start \<and> start < finish then [(''Range'', [range_text start finish])] else [])"

lemma get_request: "trans_GetObject std (get_input bucket key start finish) = ([], range_headers start finish, NoData)"
  by (simp add: trans_GetObject_def trans_GetObjectMetadata_def get_input_def header_if_def param_if_def setSseHeader_def
      time_if_def range_headers_def insert_key_def)

lemma get_headers: "prepareHeaders (range_headers start finish) False = range_headers start finish"
proof -
  have "prepareHeaders [(''Range'', [v])] False = [(''Range'', [v])]" "prepareHeaders [] False = []" for v by code_simp+
  then show ?thesis by (simp add: range_headers_def)
qed

lemma set_header_Nil [simp]: "set_header [] k upd r = r"
  by (simp add: set_header_def)

lemma ParseGetObjectMetadataOutput_bare:
  "bm_ResponseHeaders out = [] \<Longrightarrow>
    ParseGetObjectMetadataOutput std out = out\<lparr>gom_SseHeader := None, gom_Metadata := [], bm_ResponseHeaders := []\<rparr>"
  unfolding ParseGetObjectMetadataOutput_def Let_def
  by (simp only: set_header_Nil) (simp add: parseSseHeader_def take_metadata_def)

lemma ParseGetObjectOutput_bare:
  "bm_ResponseHeaders out = [] \<Longrightarrow> go_Body (ParseGetObjectOutput std out) = go_Body out"
  unfolding ParseGetObjectOutput_def Let_def by (simp add: ParseGetObjectMetadataOutput_bare)

lemma object_body_kept:
  "hp_Header resp = [] \<Longrightarrow> go_Body (object_parsed net resp) = hp_Body resp"
  by (simp add: object_parsed_def ParseGetObjectOutput_bare parsed_def ParseResponseToBaseModel_def ParseXml_def
      cleanHeaderPrefix_def)

lemma range_key: "''Range'' \<notin> client_set" "header_key ''Range'' \<noteq> []"
  by (simp add: client_set_def) code_simp

text \<open>
  A range of an object is asked for only when it has more than one byte: for a range of a single byte the
  client asks for, and hands over, the whole object.
\<close>

lemma GetObject_of_server:
  assumes "TrimSpace bucket \<noteq> []" and "TrimSpace key \<noteq> []" and v2: "cf_signature conf = ''v2''" and "0 \<le> cf_maxRetryCount conf"
  shows "\<exists>out. GetObject (Suc n) (server (object_server whole part)) conf (Some (get_input bucket key start finish)) s =
      Return (Inr out, s) \<and> go_Body out = (if 0 \<le> start \<and> start < finish then part (range_text start finish) else whole)"
proof -
  let ?net = "server (object_server whole part)"
  let ?hs = "range_headers start finish"
  let ?body = "if 0 \<le> start \<and> start < finish then part (range_text start finish) else whole"
  let ?ok = "\<lparr>hp_StatusCode = 200, hp_Status = [], hp_Header = [], hp_Body = ?body\<rparr>"
  let ?st = "http_start conf ?hs NoBody"
  have "ready ?st" by (simp add: ready_def filled_def HEADER_DATE_AMZ_def range_headers_def)
  from attempt_server [OF this v2, where reply = "object_server whole part" and meth = "''GET''" and bucket = "TrimSpace bucket"
      and key = "TrimSpace key" and params = "[]" and repeatable = True and s = s]
  obtain req st1 where att: "attempt ?net conf ''GET'' (TrimSpace bucket) (TrimSpace key) [] True ?st s =
      answered ?net True st1 (fst (object_server whole part req [] s)) (snd (object_server whole part req [] s))"
    and req: "carries req ''GET'' (plain_url conf (TrimSpace bucket) (TrimSpace key) []) ?hs" and st1: "ht_err st1 = None"
    by auto
  have "lookup (hq_Header req) ''Range'' = map_option sent_value (lookup ?hs ''Range'')"
    using req range_key by (simp add: carries_def)
  then have "object_server whole part req [] s = (Inr ?ok, s)"
    by (simp add: object_server_def range_headers_def sent_value_def range_text_sent)
  with att st1 assms(4) have "http_loop (Suc n) ?net conf ''GET'' (TrimSpace bucket) (TrimSpace key) [] True ?st s = Return ((Some ?ok, None), s)"
    by (simp add: answered_def ret_def)
  then have "doAction (Suc n) ?net conf ''GET'' bucket key [] ?hs NoData True s = Return (Inr (Some ?ok), s)"
    by (simp add: doAction_def metadata_kept_def doHttp_loop http_data_def get_headers call_def ret_def)
  moreover have "gm_Bucket (get_input bucket key start finish) = bucket" "gm_Key (get_input bucket key start finish) = key"
    by (simp_all add: get_input_def)
  moreover have "go_Body (object_parsed ?net ?ok) = ?body" by (simp add: object_body_kept)
  ultimately show ?thesis
    using assms(1,2)
    by (simp add: GetObject_def given_def actionOnObject_def doActionWithBucketAndKey_def get_request call_def answer_def ret_def)
qed

section \<open>Completion of an upload\<close>

text \<open>
  The text that completes an upload as a reader of XML 1.0 understands it: elements without attributes,
  and character data in which a reference stands for a character (production 67). Only printable ASCII
  without \<open>>\<close> is read as it is, which is all that the theorem is about.
\<close>

definition xml_char :: "nat \<Rightarrow> string option" where
  "xml_char n =
     (if n \<in> {0x9, 0xA, 0xD} \<or> 0x20 \<le> n \<and> n \<le> 0xD7FF \<or> 0xE000 \<le> n \<and> n \<le> 0xFFFD \<or> 0x10000 \<le> n \<and> n \<le> 0x10FFFF
      then Some (utf8 n) else None)"

definition hex_number :: "string \<Rightarrow> nat option" where
  "hex_number s =
     (if s = [] then None
      else foldl (\<lambda>n c. case (n, hex_val c) of (Some n, Some d) \<Rightarrow> Some (16 * n + d) | _ \<Rightarrow> None) (Some 0) s)"

definition reference :: "string \<Rightarrow> string option" where
  "reference name =
     (if name = ''lt'' then Some ''<''
      else if name = ''gt'' then Some ''>''
      else if name = ''amp'' then Some ''&''
      else if name = ''apos'' then Some [CHR 0x27]
      else if name = ''quot'' then Some [CHR 0x22]
      else case name of
        h # x # s \<Rightarrow>
          (if h \<noteq> CHR ''#'' then None
           else if x = CHR ''x'' then Option.bind (hex_number s) xml_char
           else if list_all is_digit (x # s) then xml_char (digits_val (x # s)) else None)
      | _ \<Rightarrow> None)"

function char_data :: "string \<Rightarrow> string option" where
  "char_data [] = Some []"
| "char_data (c # cs) =
     (if c = CHR ''&'' then
        (case dropWhile (\<lambda>c. c \<noteq> CHR '';'') cs of
           [] \<Rightarrow> None
         | _ # rest \<Rightarrow>
             (case (reference (takeWhile (\<lambda>c. c \<noteq> CHR '';'') cs), char_data rest) of
                (Some v, Some w) \<Rightarrow> Some (v @ w)
              | _ \<Rightarrow> None))
      else if 32 \<le> code c \<and> code c < 127 \<and> c \<notin> {CHR ''<'', CHR ''>''} then map_option (Cons c) (char_data cs)
      else None)"
  by pat_completeness auto
termination
proof (relation "measure length")
  fix c rest x and cs :: string
  assume "dropWhile (\<lambda>c. c \<noteq> CHR '';'') cs = x # rest"
  then have "length (x # rest) \<le> length cs" by (metis length_dropWhile_le)
  then show "(rest, c # cs) \<in> measure length" by simp
qed simp_all

declare char_data.simps [simp del]

definition read_tag :: "string \<Rightarrow> string \<Rightarrow> (string \<times> string) option" where
  "read_tag name s =
     (if HasPrefix s (''<'' @ name @ ''>'') then
        (let r = drop (length name + 2) s; t = takeWhile (\<lambda>c. c \<noteq> CHR ''<'') r; r = drop (length t) r
         in case char_data t of
              None \<Rightarrow> None
            | Some v \<Rightarrow> (if HasPrefix r (''</'' @ name @ ''>'') then Some (v, drop (length name + 3) r) else None))
      else None)"

definition read_part :: "string \<Rightarrow> ((int \<times> string) \<times> string) option" where
  "read_part s =
     (if HasPrefix s ''<Part>'' then
        (case read_tag ''PartNumber'' (drop 6 s) of
           Some (number, r) \<Rightarrow>
             (case (Atoi number, read_tag ''ETag'' r) of
                (Some number, Some (etag, r)) \<Rightarrow> (if HasPrefix r ''</Part>'' then Some ((number, etag), drop 7 r) else None)
              | _ \<Rightarrow> None)
         | None \<Rightarrow> None)
      else None)"

fun read_parts :: "nat \<Rightarrow> string \<Rightarrow> (int \<times> string) list \<times> string" where
  "read_parts 0 s = ([], s)"
| "read_parts (Suc n) s =
     (case read_part s of
        None \<Rightarrow> ([], s)
      | Some (p, r) \<Rightarrow> (case read_parts n r of (ps, r) \<Rightarrow> (p # ps, r)))"

definition read_completion :: "string \<Rightarrow> (int \<times> string) list option" where
  "read_completion s =
     (if HasPrefix s ''<CompleteMultipartUpload>'' then
        (case read_parts (length s) (drop 25 s) of
           (ps, r) \<Rightarrow> (if r = ''</CompleteMultipartUpload>'' then Some ps else None))
      else None)"

lemma HasPrefix_append [simp]: "HasPrefix (s @ t) s"
  by (simp add: HasPrefix_def)

lemma length_utf8: "length (utf8 n) \<le> 4" "n < 128 \<Longrightarrow> length (utf8 n) = 1"
  by (simp_all add: utf8_def)

text \<open>A reference is longer than the character it stands for.\<close>

lemma reference_shorter:
  assumes "reference name = Some v"
  shows "length v < length name + 2"
proof (cases "name \<in> {''lt'', ''gt'', ''amp'', ''apos'', ''quot''}")
  case True
  with assms show ?thesis by (auto simp: reference_def)
next
  case False
  with assms obtain h x s where name: "name = h # x # s"
    and v: "if x = CHR ''x'' then Option.bind (hex_number s) xml_char = Some v
            else list_all is_digit (x # s) \<and> xml_char (digits_val (x # s)) = Some v"
    by (auto simp: reference_def split: list.splits if_splits)
  have four: "length v \<le> 4"
    using v by (auto simp: xml_char_def length_utf8 bind_eq_Some_conv split: if_splits)
  show ?thesis
  proof (cases s)
    case Nil
    with v have "x \<noteq> CHR ''x''" by (auto simp: hex_number_def)
    with v Nil have x: "is_digit x" "xml_char (digits_val [x]) = Some v" by auto
    then have "digits_val [x] < 128" by (simp add: digits_val_def is_digit_def) linarith
    with x(2) have "length v = 1" by (auto simp: xml_char_def length_utf8 split: if_splits)
    then show ?thesis by (simp add: name)
  next
    case (Cons y ys)
    with four show ?thesis by (simp add: name)
  qed
qed

lemma char_data_length:
  "char_data s = Some v \<Longrightarrow> length v \<le> length s \<and> (CHR ''&'' \<in> set s \<longrightarrow> length v < length s)"
proof (induction s arbitrary: v rule: char_data.induct)
  case 1
  then show ?case by (simp add: char_data.simps)
next
  case (2 c cs)
  show ?case
  proof (cases "c = CHR ''&''")
    case True
    with "2.prems" obtain x rest u w where cut: "dropWhile (\<lambda>c. c \<noteq> CHR '';'') cs = x # rest"
      and u: "reference (takeWhile (\<lambda>c. c \<noteq> CHR '';'') cs) = Some u" and w: "char_data rest = Some w" and v: "v = u @ w"
      by (auto simp: char_data.simps split: list.splits option.splits)
    have "length cs = length (takeWhile (\<lambda>c. c \<noteq> CHR '';'') cs) + length (x # rest)"
      unfolding cut [symmetric] by (metis length_append takeWhile_dropWhile_id)
    moreover have "length w \<le> length rest" using "2.IH" (1) [OF True cut w] by simp
    ultimately show ?thesis using reference_shorter [OF u] by (simp add: v)
  next
    case False
    with "2.prems" obtain w where w: "char_data cs = Some w" "v = c # w"
      and plain: "32 \<le> code c \<and> code c < 127 \<and> c \<notin> {CHR ''<'', CHR ''>''}"
      by (auto simp: char_data.simps split: if_splits)
    from "2.IH" (2) [OF False plain w(1)] False show ?thesis by (auto simp: w(2))
  qed
qed

definition printable :: "char \<Rightarrow> bool" where
  "printable c \<longleftrightarrow> 32 \<le> code c \<and> code c < 127 \<and> c \<noteq> CHR ''>''"

definition no_markup :: "string \<Rightarrow> bool" where
  "no_markup s \<longleftrightarrow> CHR ''<'' \<notin> set s \<and> CHR ''&'' \<notin> set s"

lemma char_data_plain: "list_all printable s \<Longrightarrow> no_markup s \<Longrightarrow> char_data s = Some s"
  by (induction s) (auto simp: char_data.simps printable_def no_markup_def)

lemma until_tag: "takeWhile (\<lambda>c. c \<noteq> CHR ''<'') (t @ CHR ''<'' # x) = takeWhile (\<lambda>c. c \<noteq> CHR ''<'') t"
  by (induction t) auto

lemma read_tag_markup:
  assumes "list_all printable t" and "no_markup t"
  shows "read_tag name (markup name t @ rest) = Some (t, rest)"
proof -
  have "takeWhile (\<lambda>c. c \<noteq> CHR ''<'') (t @ CHR ''<'' # x) = t" for x
    using assms unfolding until_tag by (auto simp: no_markup_def takeWhile_eq_all_conv)
  moreover have "drop (length name + 3) (CHR ''<'' # CHR ''/'' # name @ CHR ''>'' # rest) = rest"
    by (simp add: numeral_3_eq_3)
  ultimately show ?thesis using char_data_plain [OF assms] by (simp add: read_tag_def markup_def HasPrefix_def Let_def)
qed

lemma read_tag_marked_up:
  assumes "\<not> no_markup t" and "read_tag name (markup name t @ rest) = Some (v, r)"
  shows "v \<noteq> t"
proof -
  let ?t = "takeWhile (\<lambda>c. c \<noteq> CHR ''<'') t"
  have v: "char_data ?t = Some v"
    using assms(2) by (auto simp: read_tag_def markup_def HasPrefix_def Let_def until_tag split: option.splits if_splits)
  show ?thesis
  proof (cases "CHR ''<'' \<in> set t")
    case True
    then have "?t \<noteq> t" by (metis (full_types) set_takeWhileD)
    then have "length ?t < length t"
      by (metis append_self_conv length_takeWhile_le order_le_less takeWhile_dropWhile_id takeWhile_eq_take take_all_iff)
    with char_data_length [OF v] show ?thesis by auto
  next
    case False
    then have whole: "?t = t" by (auto simp: takeWhile_eq_all_conv)
    have "CHR ''&'' \<in> set t" using assms(1) False by (simp add: no_markup_def)
    then have "length v < length t" using char_data_length [OF v] unfolding whole by blast
    then show ?thesis by blast
  qed
qed

lemma Itoa_plain: "list_all printable (Itoa n) \<and> no_markup (Itoa n)"
proof -
  have digit: "printable c \<and> c \<noteq> CHR ''<'' \<and> c \<noteq> CHR ''&''" if "is_digit c" for c
    using that by (auto simp: printable_def is_digit_def code_def)
  have "list_all is_digit (nat_digits k)" for k using nat_digits_facts [of k] by simp
  then have "list_all printable (nat_digits k) \<and> no_markup (nat_digits k)" for k
    using digit by (auto simp: list_all_iff no_markup_def)
  then show ?thesis by (auto simp: Itoa_def no_markup_def printable_def code_def)
qed

text \<open>Numbers in the range of an integer, and tags that are printable.\<close>

definition readable :: "obs_Part \<Rightarrow> bool" where
  "readable p \<longleftrightarrow> - 9223372036854775808 \<le> pt_PartNumber p \<and> pt_PartNumber p \<le> 9223372036854775807 \<and>
     list_all printable (pt_ETag p)"

abbreviation part_value :: "obs_Part \<Rightarrow> int \<times> string" where
  "part_value p \<equiv> (pt_PartNumber p, pt_ETag p)"

lemma read_part_steps:
  assumes "readable p"
  shows "read_part (partToXml p @ rest) = (case read_tag ''ETag'' (markup ''ETag'' (pt_ETag p) @ ''</Part>'' @ rest) of
     Some (etag, r) \<Rightarrow> (if HasPrefix r ''</Part>'' then Some ((pt_PartNumber p, etag), drop 7 r) else None) | None \<Rightarrow> None)"
proof -
  have "partToXml p @ rest = ''<Part>'' @ markup ''PartNumber'' (Itoa (pt_PartNumber p)) @ markup ''ETag'' (pt_ETag p) @ ''</Part>'' @ rest"
    by (simp add: partToXml_def markup_def)
  moreover have "Atoi (Itoa (pt_PartNumber p)) = Some (pt_PartNumber p)" using assms by (simp add: readable_def Atoi_Itoa)
  ultimately show ?thesis
    using read_tag_markup [OF Itoa_plain [THEN conjunct1] Itoa_plain [THEN conjunct2]]
    by (simp add: read_part_def HasPrefix_def)
qed

lemma read_part_written:
  assumes "readable p" and "no_markup (pt_ETag p)"
  shows "read_part (partToXml p @ rest) = Some (part_value p, rest)"
  using assms read_tag_markup [of "pt_ETag p"] by (simp add: read_part_steps readable_def HasPrefix_def)

lemma read_part_broken:
  assumes "readable p" and "\<not> no_markup (pt_ETag p)" and "read_part (partToXml p @ rest) = Some (q, r)"
  shows "q \<noteq> part_value p"
  using assms read_tag_marked_up [OF assms(2)]
  by (auto simp: read_part_steps split: option.splits if_splits prod.splits)

lemma read_parts_written:
  assumes "list_all readable ps" and "length ps \<le> n"
  shows "list_all (\<lambda>p. no_markup (pt_ETag p)) ps \<Longrightarrow>
      read_parts n (concat (map partToXml ps) @ ''</CompleteMultipartUpload>'') = (map part_value ps, ''</CompleteMultipartUpload>'')"
    and "\<not> list_all (\<lambda>p. no_markup (pt_ETag p)) ps \<Longrightarrow>
      fst (read_parts n (concat (map partToXml ps) @ ''</CompleteMultipartUpload>'')) \<noteq> map part_value ps"
  using assms
proof (induction ps arbitrary: n)
  case Nil
  {
    case 1
    have "read_part ''</CompleteMultipartUpload>'' = None" by (simp add: read_part_def HasPrefix_def)
    then show ?case by (cases n) simp_all
  next
    case 2
    then show ?case by simp
  }
next
  case (Cons p ps)
  {
    case 1
    then obtain m where "n = Suc m" by (cases n) auto
    with 1 Cons.IH(1) [of m] show ?case by (simp add: read_part_written)
  next
    case 2
    then obtain m where m: "n = Suc m" by (cases n) auto
    let ?rest = "concat (map partToXml ps) @ ''</CompleteMultipartUpload>''"
    show ?case
    proof (cases "no_markup (pt_ETag p)")
      case True
      with 2 m Cons.IH(2) [of m] show ?thesis by (auto simp: read_part_written split: prod.splits)
    next
      case False
      with 2 m read_part_broken [of p ?rest] show ?thesis
        by (auto split: option.splits prod.splits)
    qed
  }
qed

lemma length_part_texts: "length parts \<le> length (concat (map partToXml parts))"
  by (induction parts) (auto simp: partToXml_def markup_def)

lemma read_completion_written:
  assumes "list_all readable ps"
  shows "read_completion (fst (ConvertCompleteMultipartUploadInputToXml std ps False)) = Some (map part_value ps) \<longleftrightarrow>
    list_all (\<lambda>p. no_markup (pt_ETag p)) ps"
proof -
  let ?body = "concat (map partToXml ps) @ ''</CompleteMultipartUpload>''"
  let ?n = "length (''<CompleteMultipartUpload>'' @ ?body)"
  have written: "fst (ConvertCompleteMultipartUploadInputToXml std ps False) = ''<CompleteMultipartUpload>'' @ ?body"
    by (simp add: ConvertCompleteMultipartUploadInputToXml_def markup_def)
  have enough: "length ps \<le> ?n" using length_part_texts [of ps] by simp
  have "read_completion (''<CompleteMultipartUpload>'' @ ?body) =
      (case read_parts ?n ?body of (qs, r) \<Rightarrow> (if r = ''</CompleteMultipartUpload>'' then Some qs else None))"
    by (simp add: read_completion_def HasPrefix_def)
  then show ?thesis
    using read_parts_written [OF assms enough] unfolding written
    by (cases "list_all (\<lambda>p. no_markup (pt_ETag p)) ps") (auto split: prod.splits)
qed

text \<open>
  C34. The text that completes an upload has every part once, in the ascending order of the numbers,
  whatever the order in which they were uploaded and however parts of equal numbers are sorted. A reader
  of XML gets exactly these parts from it if and only if no tag has an opening bracket or an ampersand:
  the tags are not escaped. (Of the standard library the sorting is assumed, to give a sorted permutation.)
\<close>

theorem completion_reads_back:
  assumes "cu_UploadId input \<noteq> []" and "list_all readable (cu_Parts input)"
    and "\<forall>ps. mset (Sort ps) = mset ps \<and> sorted (map pt_PartNumber (Sort ps))"
  shows "\<exists>body parse ps. CompleteMultipartUpload Sort n net conf (Some input) =
      actionOnObject n net conf ''POST'' (cu_Bucket input) (cu_Key input) ([(''uploadId'', cu_UploadId input)], [], TextData body) parse True \<and>
      mset ps = mset (cu_Parts input) \<and> sorted (map pt_PartNumber ps) \<and>
      (read_completion body = Some (map (\<lambda>p. (pt_PartNumber p, pt_ETag p)) ps) \<longleftrightarrow>
         list_all (\<lambda>p. no_markup (pt_ETag p)) (cu_Parts input))"
proof -
  let ?ps = "Sort (cu_Parts input)"
  have same: "mset ?ps = mset (cu_Parts input)" and order: "sorted (map pt_PartNumber ?ps)" using assms(3) by auto
  have all: "list_all P ?ps = list_all P (cu_Parts input)" for P
    using mset_eq_setD [OF same] by (simp add: list_all_iff)
  show ?thesis
    using assms(1,2) same order read_completion_written [of ?ps "on_std net"]
    by (auto simp: CompleteMultipartUpload_def given_def trans_CompleteMultipartUpload_def all
        intro!: exI [of _ ?ps])
qed

definition two_parts :: CompleteMultipartUploadInput where
  "two_parts = \<lparr>cu_Bucket = ''b'', cu_Key = ''k'', cu_UploadId = ''u'',
     cu_Parts = [\<lparr>pt_PartNumber = 2, pt_ETag = ''y'', pt_LastModified = None, pt_Size = 0\<rparr>,
                 \<lparr>pt_PartNumber = 1, pt_ETag = ''x'', pt_LastModified = None, pt_Size = 0\<rparr>]\<rparr>"

theorem completion_reads_back_witness:
  "\<exists>body parse ps. CompleteMultipartUpload (sort_key pt_PartNumber) 1 (server (answers 200 []) :: unit obs_net) default_config (Some two_parts) =
      actionOnObject 1 (server (answers 200 [])) default_config ''POST'' ''b'' ''k'' ([(''uploadId'', ''u'')], [], TextData body) parse True \<and>
      mset ps = mset (cu_Parts two_parts) \<and> read_completion body = Some (map (\<lambda>p. (pt_PartNumber p, pt_ETag p)) ps)"
proof -
  have "cu_UploadId two_parts \<noteq> []" "list_all readable (cu_Parts two_parts)"
      "list_all (\<lambda>p. no_markup (pt_ETag p)) (cu_Parts two_parts)"
    by (simp_all add: two_parts_def readable_def printable_def no_markup_def code_def)
  moreover have "\<forall>ps. mset (sort_key pt_PartNumber ps) = mset ps \<and> sorted (map pt_PartNumber (sort_key pt_PartNumber ps))" by simp
  moreover have "cu_Bucket two_parts = ''b''" "cu_Key two_parts = ''k''" "cu_UploadId two_parts = ''u''"
    by (simp_all add: two_parts_def)
  ultimately show ?thesis
    using completion_reads_back [of two_parts "sort_key pt_PartNumber" 1 "server (answers 200 []) :: unit obs_net" default_config]
    by auto
qed

section \<open>Answers that cannot be read\<close>

text \<open>
  C36. A listing that cannot be read to its end is returned without an error, with the objects that were
  read before: of an answer that is no XML at all, none.
\<close>

theorem unreadable_listing_is_no_error:
  assumes "trans_ListObjects input = (params, hs, data)"
    and "doActionWithBucket n net conf ''GET'' (lj_Bucket input) params hs data s = Return (Inr (Some resp), s')"
    and "ParseXml (on_std net) (Some ''ListBucketResult'') (read_ListObjectsOutput (on_std net)) (hp_Body resp) new_ListObjectsOutput =
      (part, Some err)"
  shows "\<exists>out. ListObjects n net conf (Some input) s = Return (Inr out, s') \<and>
    ls_Contents out = ls_Contents part \<and> ls_IsTruncated out = ls_IsTruncated part"
  using assms
  by (simp add: ListObjects_def given_def actionOnBucket_def call_def answer_def ret_def)
    (simp add: ListObjects_Location_def parsed_def ParseResponseToBaseModel_def set_header_def Let_def split: option.split list.split)

definition list_input :: ListObjectsInput where
  "list_input = \<lparr>lj_Prefix = [], lj_MaxKeys = 0, lj_Delimiter = [], lj_Origin = [], lj_RequestHeader = [], lj_Bucket = ''b'', lj_Marker = []\<rparr>"

theorem unreadable_listing_is_no_error_witness:
  "\<exists>out. ListObjects 1 (server (object_server ''<html>'' id)) default_config (Some list_input) () = Return (Inr out, ()) \<and>
     ls_Contents out = []"
proof -
  let ?net = "server (object_server ''<html>'' id) :: unit obs_net"
  let ?resp = "\<lparr>hp_StatusCode = 200, hp_Status = [], hp_Header = [], hp_Body = ''<html>''\<rparr>"
  have "trans_ListObjects list_input = ([], [], NoData)" by code_simp
  moreover have "doActionWithBucket 1 ?net default_config ''GET'' (lj_Bucket list_input) [] [] NoData () = Return (Inr (Some ?resp), ())"
    by code_simp
  moreover have "ParseXml (on_std ?net) (Some ''ListBucketResult'') (read_ListObjectsOutput (on_std ?net)) (hp_Body ?resp)
      new_ListObjectsOutput = (new_ListObjectsOutput, Some ''EOF'')"
    by (simp add: ParseXml_def server_def plain_std_def)
  ultimately have "\<exists>out. ListObjects 1 ?net default_config (Some list_input) () = Return (Inr out, ()) \<and>
      ls_Contents out = ls_Contents new_ListObjectsOutput \<and> ls_IsTruncated out = ls_IsTruncated new_ListObjectsOutput"
    by (rule unreadable_listing_is_no_error)
  then show ?thesis by (auto simp: new_ListObjectsOutput_def)
qed

section \<open>Every call answers or fails\<close>

definition within_range :: "nat \<Rightarrow> http_state \<Rightarrow> bool" where
  "within_range n st \<longleftrightarrow> 0 \<le> ht_i st \<and> ht_i st \<le> ht_max st \<and> ht_max st + int n \<le> 9223372036854775807"

fun ends_well :: "nat \<Rightarrow> http_next \<Rightarrow> bool" where
  "ends_well n (Finished resp err) = (resp \<noteq> None \<or> err \<noteq> None)"
| "ends_well n (GoOn st) = within_range n st"

lemma next_attempt_ends_well:
  assumes "next_attempt net st s = Return (nxt, s')" and "ht_resp st \<noteq> None \<or> ht_err st \<noteq> None" and "within_range n st"
  shows "ends_well n nxt"
  using assms(1)
proof (cases rule: next_attemptE)
  case (again b s1)
  have "i64 (ht_i st + 1) = ht_i st + 1" using assms(3) again(1) by (intro i64_id) (auto simp: within_range_def)
  with again assms(3) show ?thesis by (simp add: within_range_def)
qed (use assms(2) in \<open>auto split: option.splits\<close>)

lemma answered_ends_well:
  assumes "answered net repeatable st r s = Return (nxt, s')" and "within_range (Suc n) st"
  shows "ends_well n nxt"
proof -
  have "i64 (ht_max st + 1) = ht_max st + 1" using assms(2) by (intro i64_id) (auto simp: within_range_def)
  then have "within_range n (st\<lparr>ht_resp := Some x, ht_redirect := l, ht_max := i64 (ht_max st + 1)\<rparr>)"
    and "within_range n (st\<lparr>ht_resp := y\<rparr>)" and "within_range n (st\<lparr>ht_resp := y, ht_err := z\<rparr>)" for x l y z
    using assms(2) by (simp_all add: within_range_def)
  with assms(1) show ?thesis
    by (cases r) (auto simp: answered_def Let_def ret_def split: if_splits intro: next_attempt_ends_well)
qed

lemma attempt_ends_well:
  assumes "attempt net conf method bucket key params repeatable st s = Return (nxt, s')" and "within_range (Suc n) st"
  shows "ends_well n nxt"
  using assms(1)
proof (cases rule: attemptE)
  case (signed url redirect hs s1)
  from signed(2) show ?thesis
  proof (cases rule: send_requestE)
    case (sent req hs' r m s2)
    from answered_ends_well [OF sent(3)] assms(2) show ?thesis by (simp add: within_range_def)
  qed simp
qed simp

lemma loop_ends_well:
  "within_range n st \<Longrightarrow> http_loop n net conf method bucket key params repeatable st s = Return ((resp, err), s') \<Longrightarrow>
    resp \<noteq> None \<or> err \<noteq> None"
proof (induction n arbitrary: st s)
  case (Suc n)
  from Suc.prems obtain nxt s1 where att: "attempt net conf method bucket key params repeatable st s = Return (nxt, s1)"
    and rest: "(case nxt of Finished resp err \<Rightarrow> Return ((resp, err), s1)
      | GoOn st \<Rightarrow> http_loop n net conf method bucket key params repeatable st s1) = Return ((resp, err), s')"
    by (auto simp: within_range_def)
  from attempt_ends_well [OF att Suc.prems(1)] rest Suc.IH show ?case by (cases nxt) auto
qed simp

text \<open>A call gives an answer or an error, so that no method dereferences a missing answer.\<close>

lemma answer_or_error:
  assumes "0 \<le> cf_maxRetryCount conf" and "cf_maxRetryCount conf + int n \<le> 9223372036854775807"
    and "doAction n net conf method bucket key params hs data repeatable s = Return (Inr resp, s')"
  shows "resp \<noteq> None"
proof -
  from assms(3) obtain meta where
    "doHttp n net conf method bucket key params (prepareHeaders hs meta) data repeatable s = Return ((resp, None), s')"
    by (auto simp: doAction_def call_Return_iff ret_def split: option.splits)
  then show ?thesis
    unfolding doHttp_loop using assms(1,2) loop_ends_well [rotated] by (fastforce simp: within_range_def)
qed

end
