(* ===== verification/Obs_Authorization_Correct.thy ===== *)
theory Obs_Authorization_Correct
  imports Obs_Authorization Obs_Client_Correct
begin

text \<open>
  The two sides of a signature agree: what \<open>GetAuthorization\<close> computes from the URL and the headers of a
  request is what \<open>doAuth\<close> put into its \<open>Authorization\<close> header, for version 2 of the signature. The query of the
  URL reads back as the parameters (\<open>parse_query_item\<close>), and headers that are not signed do not matter
  (\<open>attachHeaders_part\<close>).
\<close>

section \<open>Splitting\<close>

text \<open>An escaped text has no character with a meaning in a URL.\<close>

lemma escape_char_plain: "c \<in> set (escape_char d) \<Longrightarrow> unreserved c \<or> c = CHR ''%'' \<or> c = CHR ''+''"
proof -
  have "unreserved (upper_hex n)" if "n < 16" for n
    using that by (auto simp: unreserved_def is_alnum_def is_digit_def upper_hex_def code_char_of)
  moreover have "code d div 16 < 16" using code_less [of d] by (simp add: less_mult_imp_div_less)
  moreover assume "c \<in> set (escape_char d)"
  ultimately show ?thesis by (auto simp: escape_char_def split: if_splits)
qed

lemma QueryEscape_plain:
  assumes "c \<in> set (QueryEscape s)"
  shows "c \<notin> {CHR ''?'', CHR ''&'', CHR ''='', CHR ''/''}"
  using assms escape_char_plain unreserved_code
  by (fastforce simp: QueryEscape_def unreserved_def is_alnum_def is_digit_def code_def)

lemma QueryEscape_Nil [simp]: "QueryEscape s = [] \<longleftrightarrow> s = []"
  by (cases s) (auto simp: QueryEscape_def escape_char_def)

lemma UrlDecode_QueryEscape [simp]: "UrlDecode (QueryEscape s) = s"
  by (simp add: UrlDecode_def QueryUnescape_QueryEscape)

section \<open>The query of a URL\<close>

text \<open>A parameter as it is written for version 2, and the query.\<close>

definition query_item :: "(string, string) gomap \<Rightarrow> string \<Rightarrow> string" where
  "query_item params k = QueryEscape k @ (if param_at params k \<noteq> [] then ''='' @ QueryEscape (param_at params k) else [])"

definition query_of :: "string \<Rightarrow> string" where
  "query_of url = (case cut ''?'' url of Some (a, b) \<Rightarrow> b | None \<Rightarrow> [])"

lemma query_item_no_amp: "CHR ''&'' \<notin> set (query_item params k)"
  using QueryEscape_plain by (fastforce simp: query_item_def)

lemma parse_query_item: "add_query m (query_item params k) = insert_key k (param_at params k) m"
proof (cases "param_at params k = []")
  case True
  have "CHR ''='' \<notin> set (QueryEscape k)" using QueryEscape_plain by fastforce
  then have "Split (QueryEscape k) ''='' = [QueryEscape k]" using Split_Join_char [of "[QueryEscape k]" "CHR ''=''"] by simp
  with True show ?thesis by (simp add: add_query_def query_item_def)
next
  case False
  let ?ws = "[QueryEscape k, QueryEscape (param_at params k)]"
  have "CHR ''='' \<notin> set (QueryEscape x)" for x using QueryEscape_plain by fastforce
  then have "Split (Join ?ws ''='') ''='' = ?ws" using Split_Join_char [of ?ws "CHR ''=''"] by simp
  with False show ?thesis by (simp add: add_query_def query_item_def)
qed

lemma foldl_query_items:
  "foldl add_query m (map (query_item params) ks) = foldl (\<lambda>m k. insert_key k (param_at params k) m) m ks"
  by (induction ks arbitrary: m) (simp_all add: parse_query_item)

lemma lookup_inserted:
  "lookup (foldl (\<lambda>m k. insert_key k (f k) m) m ks) x = (if x \<in> set ks then Some (f x) else lookup m x)"
  by (induction ks arbitrary: m) auto

text \<open>What \<open>formatUrls\<close> adds to a URL and to its canonical form.\<close>

definition query_text :: "(string, string) gomap \<Rightarrow> string list \<Rightarrow> string" where
  "query_text params ks = Join (map (query_item params) ks) ''&''"

abbreviation added :: "(string, string) gomap \<Rightarrow> (string \<times> string) \<times> bool \<times> bool \<Rightarrow> string list \<Rightarrow> string \<times> string" where
  "added params st ks \<equiv> fst (foldl (add_param ''v2'' params) st ks)"

definition signed_param :: "string \<Rightarrow> bool" where
  "signed_param k \<longleftrightarrow> ToLower k \<in> set allowed_resource_parameter_names \<or> HasPrefix (ToLower k) HEADER_PREFIX"

definition canonical_item :: "(string, string) gomap \<Rightarrow> bool \<Rightarrow> string \<Rightarrow> string" where
  "canonical_item params none k =
     (if signed_param k then
        (if none then ''?'' else ''&'') @ QueryEscape k @ (if param_at params k \<noteq> [] then ''='' @ param_at params k else [])
      else [])"

lemma add_param_v2:
  "add_param ''v2'' params ((u, c), first, none) k =
    ((u @ (if first then ''?'' else ''&'') @ query_item params k, c @ canonical_item params none k), False, none \<and> \<not> signed_param k)"
  by (auto simp: add_param_def query_item_def param_at_def canonical_item_def signed_param_def Let_def)

lemma query_text_Cons:
  "query_text params (k # ks) = query_item params k @ (if ks = [] then [] else ''&'' @ query_text params ks)"
  by (cases ks) (simp_all add: query_text_def)

lemma added_url:
  "fst (added params ((u, c), first, none) ks) =
    u @ (if ks = [] then [] else (if first then ''?'' else ''&'') @ query_text params ks)"
proof (induction ks arbitrary: u c first none)
  case (Cons k ks)
  show ?case by (simp add: add_param_v2 Cons.IH query_text_Cons)
qed simp

lemma added_canonical:
  "\<forall>k \<in> set ks. param_at params k = param_at params' k \<Longrightarrow>
    snd (added params ((u, c), first, none) ks) = snd (added params' ((u', c), first', none) ks)"
proof (induction ks arbitrary: u u' c first first' none)
  case (Cons k ks)
  then have "canonical_item params none k = canonical_item params' none k" by (simp add: canonical_item_def)
  with Cons show ?case by (simp add: add_param_v2)
qed simp

lemma not_in_Join: "c \<notin> set sep \<Longrightarrow> \<forall>w \<in> set ws. c \<notin> set w \<Longrightarrow> c \<notin> set (Join ws sep)"
  by (induction ws sep rule: Join.induct) auto

lemma query_text_no_mark: "CHR ''?'' \<notin> set (query_text params ks)"
proof -
  have "CHR ''?'' \<notin> set (query_item params k)" for k using QueryEscape_plain by (fastforce simp: query_item_def)
  then show ?thesis unfolding query_text_def by (intro not_in_Join) auto
qed

lemma parse_query_text:
  assumes "ks \<noteq> []"
  shows "parse_query (query_text params ks) = foldl (\<lambda>m k. insert_key k (param_at params k) m) [] ks"
proof -
  have "\<not> HasPrefix (query_text params ks) ''?''"
    using query_text_no_mark [of params ks] by (cases "query_text params ks") (auto simp: HasPrefix_def)
  moreover have "Split (query_text params ks) ''&'' = map (query_item params) ks"
    unfolding query_text_def using assms query_item_no_amp by (intro Split_Join_char) (auto simp: list_all_iff)
  ultimately show ?thesis by (simp add: parse_query_def foldl_query_items)
qed

section \<open>The URL that is signed\<close>

text \<open>Parameters with names of their own, without spaces around them, that do not sign a URL in advance.\<close>

definition signable :: "(string, string) gomap \<Rightarrow> bool" where
  "signable params \<longleftrightarrow> distinct_keys params \<and>
     (\<forall>k \<in> fst ` set params. TrimSpace k = k \<and> k \<notin> set getTemporaryKeys)"

definition sorted_keys :: "(string, string) gomap \<Rightarrow> string list" where
  "sorted_keys params = sort (map (TrimSpace \<circ> fst) params)"

lemma signable_keys:
  assumes "signable params"
  shows "sorted_keys params = sort (map fst params)" and "distinct (sorted_keys params)"
proof -
  have "map (TrimSpace \<circ> fst) params = map fst params" using assms by (auto simp: signable_def)
  then show keys: "sorted_keys params = sort (map fst params)" unfolding sorted_keys_def by (rule arg_cong)
  show "distinct (sorted_keys params)" unfolding keys using assms by (simp add: signable_def)
qed

lemma keys_inserted:
  "distinct_keys m \<Longrightarrow> distinct_keys (foldl (\<lambda>m k. insert_key k (f k) m) m ks) \<and>
    fst ` set (foldl (\<lambda>m k. insert_key k (f k) m) m ks) = fst ` set m \<union> set ks"
proof (induction ks arbitrary: m)
  case (Cons k ks)
  have "fst ` set (insert_key k (f k) m) = insert k (fst ` set m)"
    by (simp add: dom_map_of_conv_image_fst [symmetric])
  with Cons.IH [of "insert_key k (f k) m"] Cons.prems show ?case by auto
qed simp

text \<open>The parameters that are read back sign the same canonical URL, over any other host.\<close>

lemma base_urls_canonical:
  "cf_pathStyle conf = cf_pathStyle conf' \<Longrightarrow> cf_signature conf = cf_signature conf' \<Longrightarrow>
    snd (base_urls conf bucket) = snd (base_urls conf' bucket)"
  by (simp add: base_urls_def Let_def)

definition with_key :: "string \<times> string \<Rightarrow> string \<Rightarrow> string \<times> string" where
  "with_key u k =
     (if k = [] then u else (fst u @ ''/'' @ k, (if HasSuffix (snd u) ''/'' then snd u else snd u @ ''/'') @ k))"

lemma formatUrls_v2:
  assumes "cf_signature conf = ''v2''"
  shows "formatUrls conf bucket key params escape =
    added params (with_key (base_urls conf bucket) (if escape then QueryEscape key else key), True, True) (sorted_keys params)"
  using assms by (cases "key = []") (simp_all add: formatUrls_def with_key_def sorted_keys_def split_def Let_def)

lemma added_canonical_pair:
  "snd u = snd u' \<Longrightarrow> \<forall>k \<in> set ks. param_at params k = param_at params' k \<Longrightarrow>
    snd (added params (u, first, none) ks) = snd (added params' (u', first', none) ks)"
  using added_canonical [of ks params params' "fst u" "snd u" first none "fst u'" first'] by (cases u; cases u') simp

lemma canonical_again:
  assumes "signable params" and "cf_signature conf = ''v2''" and "cf_signature conf' = ''v2''"
    and "cf_pathStyle conf = cf_pathStyle conf'"
  shows "snd (formatUrls conf' bucket (QueryEscape key) (parse_query (query_text params (sorted_keys params))) False) =
    snd (formatUrls conf bucket key params True)"
proof -
  let ?ks = "sorted_keys params"
  let ?parsed = "parse_query (query_text params ?ks)"
  have base: "snd (with_key (base_urls conf' bucket) (QueryEscape key)) = snd (with_key (base_urls conf bucket) (QueryEscape key))"
    using base_urls_canonical [of conf conf'] assms by (simp add: with_key_def)
  show ?thesis
  proof (cases "?ks = []")
    case True
    have "parse_query [] = [([], [])]" by code_simp
    moreover have "canonical_item [([], [])] True [] = []" by code_simp
    moreover have "sorted_keys [([], [])] = [[]]" by code_simp
    ultimately show ?thesis using True base assms(2,3)
      by (cases "with_key (base_urls conf' bucket) (QueryEscape key)") (simp add: formatUrls_v2 query_text_def add_param_v2)
  next
    case False
    let ?m = "foldl (\<lambda>m k. insert_key k (param_at params k) m) [] ?ks"
    have m: "?parsed = ?m" using False by (rule parse_query_text)
    have keys: "distinct_keys ?m \<and> fst ` set ?m = set ?ks" using keys_inserted [of "[]"] by simp
    have "set ?ks = fst ` set params" using signable_keys(1) [OF assms(1)] by simp
    then have "signable ?m" using keys assms(1) unfolding signable_def by simp
    then have "sorted_keys ?m = sort (map fst ?m)" by (rule signable_keys)
    also have "\<dots> = ?ks"
      using keys signable_keys(2) [OF assms(1)] by (intro sorted_distinct_set_unique) (simp_all add: sorted_keys_def)
    finally have "sorted_keys ?parsed = ?ks" unfolding m .
    moreover have "\<forall>k \<in> set ?ks. param_at ?parsed k = param_at params k"
      unfolding m by (simp add: param_at_def lookup_inserted)
    ultimately show ?thesis using base assms(2,3) by (simp add: formatUrls_v2) (intro added_canonical_pair, simp_all)
  qed
qed

lemma query_of_url:
  assumes "cf_signature conf = ''v2''" and "CHR ''?'' \<notin> set (fst (base_urls conf bucket))"
  shows "query_of (fst (formatUrls conf bucket key params True)) = query_text params (sorted_keys params)"
proof -
  let ?u = "with_key (base_urls conf bucket) (QueryEscape key)"
  have "CHR ''?'' \<notin> set (QueryEscape key)" using QueryEscape_plain by blast
  then have "CHR ''?'' \<notin> set (fst ?u)" using assms(2) by (simp add: with_key_def)
  moreover have "fst (formatUrls conf bucket key params True) =
      fst ?u @ (if sorted_keys params = [] then [] else ''?'' @ query_text params (sorted_keys params))"
    using added_url [of params "fst ?u" "snd ?u" True True "sorted_keys params"] assms(1) by (simp add: formatUrls_v2)
  ultimately show ?thesis by (simp add: query_of_def cut_first cut_absent query_text_def)
qed

section \<open>The headers that are signed\<close>

lemma lower_char_space [simp]: "is_space (lower_char c) = is_space c"
  by (auto simp: is_space_def lower_char_def code_char_of)

lemma TrimSpace_ToLower: "TrimSpace (ToLower s) = ToLower (TrimSpace s)"
  by (simp add: TrimSpace_def ToLower_def rev_map dropWhile_map comp_def)

lemma header_key_ToLower [simp]: "header_key (ToLower k) = header_key k"
  by (simp add: header_key_def TrimSpace_ToLower)

definition v2_part :: "headers \<Rightarrow> headers" where
  "v2_part hs = filter (\<lambda>(k, v). in_v2 (header_key k)) hs"

lemma v2_keys_part: "v2_keys hs = map (header_key \<circ> fst) (v2_part hs)"
  by (induction hs) (auto simp: v2_keys_def v2_part_def)

lemma v2_map_part: "v2_map hs = foldl (\<lambda>m (k, v). insert_key (header_key k) v m) [] (v2_part hs)"
proof -
  have "foldl (\<lambda>m (k, v). if in_v2 (header_key k) then insert_key (header_key k) v m else m) m hs =
      foldl (\<lambda>m (k, v). insert_key (header_key k) v m) m (v2_part hs)" for m
    by (induction hs arbitrary: m) (auto simp: v2_part_def)
  then show ?thesis by (simp add: v2_map_def)
qed

lemma v2_line_blank: "key \<noteq> ''Date'' \<Longrightarrow> v2_line (blank_date hs m) key = v2_line m key"
  by (simp add: blank_date_def v2_line_def values_at_def)

lemma attachHeaders_cong:
  assumes "v2_keys hs = v2_keys hs'" and "v2_map hs = v2_map hs'"
  shows "attachHeaders hs = attachHeaders hs'"
proof -
  have "\<not> in_v2 ''Date''" "''Date'' \<notin> set interested_headers" by code_simp+
  then have "\<forall>k \<in> set (v2_keys hs @ missing_headers m). k \<noteq> ''Date''" for m
    by (auto simp: v2_keys_def missing_headers_def)
  then show ?thesis using assms by (auto simp: attachHeaders_def v2_line_blank Let_def intro!: arg_cong2 [where f = Join])
qed

lemma v2_part_insert:
  assumes "\<not> in_v2 (header_key k)"
  shows "v2_part (insert_key k v hs) = v2_part hs"
  using assms unfolding v2_part_def insert_key_def by (induction hs) auto

lemma v2_part_drop: "v2_part (drop_empty_names hs) = v2_part hs"
proof -
  have "\<not> in_v2 []" by code_simp
  then show ?thesis unfolding v2_part_def drop_empty_names_def by (induction hs) auto
qed

lemma attachHeaders_part: "v2_part hs = v2_part hs' \<Longrightarrow> attachHeaders hs = attachHeaders hs'"
  by (rule attachHeaders_cong) (simp_all add: v2_keys_part v2_map_part)

definition lower_keys :: "headers \<Rightarrow> headers" where
  "lower_keys hs = map (\<lambda>h. (ToLower (fst h), snd h)) hs"

lemma keys_lower_keys [simp]: "map fst (lower_keys hs) = map (ToLower \<circ> fst) hs"
  by (simp add: lower_keys_def)

lemma copyHeaders_lower:
  assumes "distinct (map (ToLower \<circ> fst) hs)"
  shows "copyHeaders hs = lower_keys hs"
  using assms
proof (induction hs rule: rev_induct)
  case (snoc h hs)
  have "ToLower (fst h) \<notin> fst ` set (lower_keys hs)" using snoc.prems by (force simp: lower_keys_def)
  with snoc show ?case by (simp add: copyHeaders_def insert_fresh lower_keys_def split_def)
qed (simp add: copyHeaders_def lower_keys_def)

lemma attachHeaders_lower: "attachHeaders (lower_keys hs) = attachHeaders hs"
proof (rule attachHeaders_cong)
  have part: "v2_part (lower_keys hs) = lower_keys (v2_part hs)"
    unfolding v2_part_def lower_keys_def by (induction hs) auto
  show "v2_keys (lower_keys hs) = v2_keys hs" unfolding v2_keys_part part by (simp add: lower_keys_def)
  have "foldl (\<lambda>m (k, v). insert_key (header_key k) v m) m (lower_keys xs) =
      foldl (\<lambda>m (k, v). insert_key (header_key k) v m) m xs" for m :: headers and xs
    unfolding lower_keys_def by (induction xs arbitrary: m) auto
  then show "v2_map (lower_keys hs) = v2_map hs" by (simp add: v2_map_part part)
qed

lemma lookup_lower_keys:
  assumes "distinct (map (ToLower \<circ> fst) hs)" and "lookup hs k = Some vs"
  shows "lookup (lower_keys hs) (ToLower k) = Some vs"
proof (rule map_of_is_SomeI)
  show "distinct (map fst (lower_keys hs))" using assms(1) by simp
  have "(k, vs) \<in> set hs" using assms(2) by (rule map_of_SomeD)
  then show "(ToLower k, vs) \<in> set (lower_keys hs)" by (force simp: lower_keys_def)
qed

section \<open>Signing and checking\<close>

text \<open>What \<open>doAuth\<close> leaves, for version 2 of the signature.\<close>

lemma doAuth_v2:
  assumes "doAuth std conf method bucket key params hs [] s = Return ((Inr url, hs'), s')"
    and "cf_signature conf = ''v2''" and "cf_ak conf \<noteq> []" and "cf_sk conf \<noteq> []"
  obtains "url = fst (formatUrls conf bucket key params True)"
    and "lookup hs' ''Authorization'' = Some [''AWS '' @ cf_ak conf @ '':'' @
      v2Auth std (cf_sk conf) method (snd (formatUrls conf bucket key params True)) hs']"
proof -
  let ?canonical = "snd (formatUrls conf bucket key params True)"
  from assms obtain hs1 where url: "url = fst (formatUrls conf bucket key params True)"
    and hs': "hs' = insert_key ''Authorization'' [''AWS '' @ cf_ak conf @ '':'' @ v2Auth std (cf_sk conf) method ?canonical hs1] (drop_empty_names hs1)"
    by (auto simp: doAuth_def Let_def split_def ret_def call_Return_iff split: sum.splits)
  have "\<not> in_v2 (header_key ''Authorization'')" by code_simp
  then have "attachHeaders hs' = attachHeaders hs1"
    unfolding hs' by (intro attachHeaders_part) (simp add: v2_part_insert v2_part_drop)
  then have "v2Auth std (cf_sk conf) method ?canonical hs' = v2Auth std (cf_sk conf) method ?canonical hs1"
    by (simp add: v2Auth_def getV2StringToSign_def)
  with url hs' show thesis by (intro that) simp_all
qed

lemma no_temporary_keys:
  assumes "signable params"
  shows "find (\<lambda>k. lookup (parse_query (query_text params (sorted_keys params))) k \<noteq> None) getTemporaryKeys = None"
proof (cases "sorted_keys params = []")
  case True
  have "find (\<lambda>k. lookup (parse_query []) k \<noteq> None) getTemporaryKeys = None" by code_simp
  with True show ?thesis by (simp add: query_text_def)
next
  case False
  have "k \<notin> set (sorted_keys params)" if "k \<in> set getTemporaryKeys" for k
    using that assms signable_keys(1) [OF assms] by (auto simp: signable_def)
  then show ?thesis unfolding parse_query_text [OF False] find_None_iff by (auto simp: lookup_inserted)
qed

text \<open>
  For version 4 this is not so when there are no parameters: the empty query is read as one parameter
  with an empty name, which is written as \<open>=\<close>, so the two sides do not sign the same query.
\<close>

lemma v4_empty_query:
  "query_of (fst (formatUrls (default_config\<lparr>cf_signature := ''v4''\<rparr>) ''b'' ''k'' [] True)) = []"
  "query_of (fst (formatUrls (dummy_config ''ak'' ''sk'' True ''v4'') ''b'' ''k'' (parse_query []) False)) = ''=''"
  by code_simp+

text \<open>
  C29. For version 2 of the signature, the signature of a request is what a server computes that checks it
  with \<open>GetAuthorization\<close>: from the method, the bucket, the key as it is in the URL, the query and the
  headers it gets the same \<open>Authorization\<close>, as long as the style of the address can be told from the host.
\<close>

theorem GetAuthorization_agrees:
  assumes "doAuth std conf method bucket key params hs [] s = Return ((Inr url, hs'), s')"
    and "cf_signature conf = ''v2''" and "cf_ak conf \<noteq> []" and "cf_sk conf \<noteq> []"
    and "signable params" and "ToUpper method = method" and "CHR ''?'' \<notin> set (fst (base_urls conf bucket))"
    and "distinct (map (ToLower \<circ> fst) hs')"
    and "lookup hs' ''Host'' = Some [host]" and "cf_pathStyle conf = (\<not> HasPrefix host (bucket @ ''.''))"
  shows "\<exists>answer. GetAuthorization std (cf_ak conf) (cf_sk conf) method bucket (QueryEscape key) (query_of url) hs' t = Return (answer, t) \<and>
    map_option (\<lambda>a. [a]) (lookup answer ''Authorization'') = lookup hs' ''Authorization''"
  using assms(1-4)
proof (cases rule: doAuth_v2)
  case 1
  let ?params = "parse_query (query_text params (sorted_keys params))"
  let ?conf = "dummy_config (cf_ak conf) (cf_sk conf) (cf_pathStyle conf) ''v2''"
  have query: "parse_query (query_of url) = ?params"
    using query_of_url [OF assms(2,7)] 1(1) by simp
  have copy: "copyHeaders hs' = lower_keys hs'" using assms(8) by (rule copyHeaders_lower)
  have "ToLower ''Host'' = ''host''" by code_simp
  then have host: "lookup (lower_keys hs') ''host'' = Some [host]" using lookup_lower_keys [OF assms(8,9)] by simp
  have "\<not> HasPrefix (''AWS '' @ x) V4_HASH_PREFIX" for x by (simp add: HasPrefix_def V4_HASH_PREFIX_def)
  then have version: "parseHeaders (lower_keys hs') = (''v2'', [], [])"
    using lookup_lower_keys [OF assms(8) 1(2)] by (simp add: parseHeaders_def)
  have canonical: "snd (formatUrls ?conf bucket (QueryEscape key) ?params False) = snd (formatUrls conf bucket key params True)"
    using assms(2,5) by (intro canonical_again) (simp_all add: dummy_config_def)
  have "v2Auth std (cf_sk conf) method u (lower_keys hs') = v2Auth std (cf_sk conf) method u hs'" for u
    by (simp add: v2Auth_def getV2StringToSign_def attachHeaders_lower)
  then show ?thesis
    using 1(2) no_temporary_keys [OF assms(5)] assms(6,10) query copy host version canonical
    by (simp add: GetAuthorization_def signed_again_def split_def ret_def Let_def)
qed

definition sample_url :: string where "sample_url = ''http://obs:80/b/a+b?acl''"

definition sample_signed :: headers where
  "sample_signed = [(''x-amz-acl'', [''private'']), (''Host'', [sample_url]), (''Date'', [[]]), (''Authorization'', [''AWS ak:c2s=''])]"

theorem GetAuthorization_agrees_witness:
  "\<exists>answer. GetAuthorization (plain_std :: unit obs_std) ''ak'' ''sk'' ''PUT'' ''b'' (QueryEscape ''a b'') (query_of sample_url)
      sample_signed () = Return (answer, ()) \<and> lookup answer ''Authorization'' = Some ''AWS ak:c2s=''"
proof -
  have conf: "cf_ak default_config = ''ak''" "cf_sk default_config = ''sk''" "cf_signature default_config = ''v2''" "cf_pathStyle default_config"
    by (simp_all add: default_config_def)
  have run: "doAuth (plain_std :: unit obs_std) default_config ''PUT'' ''b'' ''a b'' [(''acl'', [])] [(''x-amz-acl'', [''private''])] [] () =
      Return ((Inr sample_url, sample_signed), ())"
    by code_simp
  have host: "lookup sample_signed ''Host'' = Some [sample_url]" "lookup sample_signed ''Authorization'' = Some [''AWS ak:c2s='']"
    by (simp_all add: sample_signed_def)
  have checks: "signable [(''acl'', [])]" "ToUpper ''PUT'' = ''PUT''" "CHR ''?'' \<notin> set (fst (base_urls default_config ''b''))"
    "distinct (map (ToLower \<circ> fst) sample_signed)" "cf_pathStyle default_config = (\<not> HasPrefix sample_url (''b'' @ ''.''))"
    by code_simp+
  from GetAuthorization_agrees [OF run _ _ _ checks(1-4) host(1) checks(5), of "()"] conf host(2) show ?thesis by auto
qed

end
