(* ===== verification/Obs_Log.thy ===== *)
theory Obs_Log
  imports Obs_Client
begin

text \<open>
  The log of the OBS client (\<open>api/pkg/utils/obs/log.go\<close>): messages are collected in a queue, written to a
  file when the queue is full, and the file is renamed when it has grown. The file system is a
  parameter, the record \<open>log_fs\<close>; the variables of the package are the record \<open>log_vars\<close>. What is modelled is
  one goroutine: messages that several goroutines append under the shared lock may overwrite each other.
\<close>

section \<open>Variables\<close>

datatype Level = LEVEL_DEBUG | LEVEL_INFO | LEVEL_WARN | LEVEL_ERROR | LEVEL_OFF

fun level_value :: "Level \<Rightarrow> int" where
  "level_value LEVEL_DEBUG = 100"
| "level_value LEVEL_INFO = 200"
| "level_value LEVEL_WARN = 300"
| "level_value LEVEL_ERROR = 400"
| "level_value LEVEL_OFF = 500"

fun logLevelMap :: "Level \<Rightarrow> string" where
  "logLevelMap LEVEL_OFF = ''[OFF]: ''"
| "logLevelMap LEVEL_ERROR = ''[ERROR]: ''"
| "logLevelMap LEVEL_WARN = ''[WARN]: ''"
| "logLevelMap LEVEL_INFO = ''[INFO]: ''"
| "logLevelMap LEVEL_DEBUG = ''[DEBUG]: ''"

record logConfType =
  lc_level :: int
  lc_logToConsole :: bool
  lc_logFullPath :: string
  lc_maxLogSize :: int
  lc_backups :: int

definition getDefaultLogConf :: logConfType where
  "getDefaultLogConf =
     \<lparr>lc_level = level_value LEVEL_WARN, lc_logToConsole = False, lc_logFullPath = [], lc_maxLogSize = 1024 * 1024 * 30, lc_backups = 10\<rparr>"

record loggerWrapper =
  lw_fullPath :: string
  lw_queue :: "string list"
  lw_index :: int

text \<open>Before the first \<open>InitLog\<close> the configuration is zero, which logs everything to nowhere.\<close>

record log_vars =
  lg_cacheCount :: int
  lg_conf :: logConfType
  lg_file :: "loggerWrapper option"
  lg_console :: bool

definition first_log_vars :: log_vars where
  "first_log_vars =
     \<lparr>lg_cacheCount = 50, lg_conf = \<lparr>lc_level = 0, lc_logToConsole = False, lc_logFullPath = [], lc_maxLogSize = 0, lc_backups = 0\<rparr>,
      lg_file = None, lg_console = False\<rparr>"

text \<open>
  The size of a file that is open, renaming, opening a file to append to, appending a line, a path
  made absolute, whether a path is a directory, making its directory, the names of the files under its
  directory with everything below, and writing a line to the console. An open file is known by its path.
\<close>

record 's log_fs =
  lf_Size :: "string \<Rightarrow> 's \<Rightarrow> int option \<times> 's"
  lf_Rename :: "string \<Rightarrow> string \<Rightarrow> 's \<Rightarrow> 's"
  lf_Open :: "string \<Rightarrow> 's \<Rightarrow> string option \<times> 's"
  lf_Println :: "string \<Rightarrow> string \<Rightarrow> 's \<Rightarrow> 's"
  lf_Abs :: "string \<Rightarrow> 's \<Rightarrow> (string + string) \<times> 's"
  lf_IsDir :: "string \<Rightarrow> 's \<Rightarrow> bool \<times> 's"
  lf_MkdirAll :: "string \<Rightarrow> 's \<Rightarrow> string option \<times> 's"
  lf_Names :: "string \<Rightarrow> 's \<Rightarrow> string list \<times> 's"
  lf_Base :: "string \<Rightarrow> string"
  lf_Console :: "string \<Rightarrow> 's \<Rightarrow> 's"

section \<open>Writing the queue\<close>

definition log_step :: "('s \<Rightarrow> 's) \<Rightarrow> ('s, unit) prog" where
  "log_step f = liftS (\<lambda>s. ((), f s))"

text \<open>A file that cannot be opened anew panics.\<close>

definition rotate_log :: "'s log_fs \<Rightarrow> logConfType \<Rightarrow> loggerWrapper \<Rightarrow> ('s, loggerWrapper) prog" where
  "rotate_log fs conf lw =
     call (liftS (lf_Size fs (lw_fullPath lw))) (\<lambda>len.
       case len of
         None \<Rightarrow> ret lw
       | Some n \<Rightarrow>
           if n < lc_maxLogSize conf then ret lw
           else
             let index = (if lw_index lw > lc_backups conf then 1 else lw_index lw)
             in call (log_step (lf_Rename fs (lw_fullPath lw) (lw_fullPath lw @ ''.'' @ Itoa index))) (\<lambda>_.
                call (liftS (lf_Open fs (lw_fullPath lw))) (\<lambda>err.
                  case err of
                    Some e \<Rightarrow> panic (Raised e)
                  | None \<Rightarrow> ret (lw\<lparr>lw_index := i64 (index + 1)\<rparr>))))"

fun println_all :: "'s log_fs \<Rightarrow> string \<Rightarrow> string list \<Rightarrow> 's \<Rightarrow> 's" where
  "println_all fs path [] s = s"
| "println_all fs path (m # ms) s = println_all fs path ms (lf_Println fs path m s)"

text \<open>The queue is written, and left as it is.\<close>

definition doFlush :: "'s log_fs \<Rightarrow> logConfType \<Rightarrow> loggerWrapper \<Rightarrow> ('s, loggerWrapper) prog" where
  "doFlush fs conf lw =
     call (rotate_log fs conf lw) (\<lambda>lw.
     call (log_step (println_all fs (lw_fullPath lw) (lw_queue lw))) (\<lambda>_. ret lw))"

text \<open>A message that finds the queue full is not appended to the new queue.\<close>

definition printfWithLock :: "'s log_fs \<Rightarrow> int \<Rightarrow> logConfType \<Rightarrow> loggerWrapper \<Rightarrow> string \<Rightarrow> ('s, loggerWrapper) prog" where
  "printfWithLock fs cacheCount conf lw msg =
     (if int (length (lw_queue lw)) \<ge> cacheCount then
        call (doFlush fs conf lw) (\<lambda>lw. ret (lw\<lparr>lw_queue := []\<rparr>))
      else ret (lw\<lparr>lw_queue := lw_queue lw @ [msg]\<rparr>))"

definition Printf :: "'s log_fs \<Rightarrow> int \<Rightarrow> logConfType \<Rightarrow> loggerWrapper \<Rightarrow> string \<Rightarrow> ('s, loggerWrapper) prog" where
  "Printf fs cacheCount conf lw msg =
     (if int (length (lw_queue lw)) \<ge> cacheCount then printfWithLock fs cacheCount conf lw msg
      else ret (lw\<lparr>lw_queue := lw_queue lw @ [msg]\<rparr>))"

section \<open>The log\<close>

definition level_enabled :: "log_vars \<Rightarrow> Level \<Rightarrow> bool" where
  "level_enabled v level \<longleftrightarrow> lc_level (lg_conf v) \<le> level_value level"

definition isDebugLogEnabled :: "log_vars \<Rightarrow> bool" where "isDebugLogEnabled v = level_enabled v LEVEL_DEBUG"
definition isErrorLogEnabled :: "log_vars \<Rightarrow> bool" where "isErrorLogEnabled v = level_enabled v LEVEL_ERROR"
definition isWarnLogEnabled :: "log_vars \<Rightarrow> bool" where "isWarnLogEnabled v = level_enabled v LEVEL_WARN"
definition isInfoLogEnabled :: "log_vars \<Rightarrow> bool" where "isInfoLogEnabled v = level_enabled v LEVEL_INFO"

definition reset_log :: "'s log_fs \<Rightarrow> log_vars \<Rightarrow> ('s, log_vars) prog" where
  "reset_log fs v =
     call (case lg_file v of None \<Rightarrow> ret () | Some lw \<Rightarrow> call (doFlush fs (lg_conf v) lw) (\<lambda>_. ret ())) (\<lambda>_.
       ret (v\<lparr>lg_file := None, lg_console := False, lg_conf := getDefaultLogConf\<rparr>))"

text \<open>The number of the next backup is one more than the highest there is.\<close>

definition next_index :: "string \<Rightarrow> int \<Rightarrow> string \<Rightarrow> int" where
  "next_index pre index name =
     (if HasPrefix name pre then
        (let i = StringToInt (drop (length pre) name) 0 in if i \<ge> index then i64 (i + 1) else index)
      else index)"

definition open_log :: "'s log_fs \<Rightarrow> string \<Rightarrow> ('s, string + loggerWrapper) prog" where
  "open_log fs fullPath =
     call (liftS (lf_Abs fs fullPath)) (\<lambda>r.
       case r of
         Inl err \<Rightarrow> ret (Inl err)
       | Inr path \<Rightarrow>
           let path = (if HasSuffix path ''.log'' then path else path @ ''.log'')
           in call (liftS (lf_IsDir fs path)) (\<lambda>dir.
              if dir then ret (Inl (''logFullPath:['' @ path @ ''] is a directory''))
              else
                call (liftS (lf_MkdirAll fs path)) (\<lambda>err.
                  case err of
                    Some e \<Rightarrow> ret (Inl e)
                  | None \<Rightarrow>
                      call (liftS (lf_Open fs path)) (\<lambda>err.
                        case err of
                          Some e \<Rightarrow> ret (Inl e)
                        | None \<Rightarrow>
                            call (liftS (lf_Names fs path)) (\<lambda>names.
                              ret (Inr \<lparr>lw_fullPath = path, lw_queue = [],
                                        lw_index = foldl (next_index (lf_Base fs path @ ''.'')) 1 names\<rparr>))))))"

definition InitLogWithCacheCnt :: "'s log_fs \<Rightarrow> string \<Rightarrow> int \<Rightarrow> int \<Rightarrow> int \<Rightarrow> bool \<Rightarrow> int \<Rightarrow> log_vars \<Rightarrow>
    ('s, string option \<times> log_vars) prog" where
  "InitLogWithCacheCnt fs logFullPath maxLogSize backups level logToConsole cacheCnt v =
     call (reset_log fs (v\<lparr>lg_cacheCount := (if cacheCnt \<le> 0 then 50 else cacheCnt)\<rparr>)) (\<lambda>v.
       let finish = \<lambda>v.
             let conf = lg_conf v;
                 conf = (if maxLogSize > 0 then conf\<lparr>lc_maxLogSize := maxLogSize\<rparr> else conf);
                 conf = (if backups > 0 then conf\<lparr>lc_backups := backups\<rparr> else conf)
             in ret (None, v\<lparr>lg_conf := conf\<lparr>lc_level := level\<rparr>, lg_console := logToConsole\<rparr>);
           fullPath = TrimSpace logFullPath
       in if fullPath = [] then finish v
          else call (open_log fs fullPath) (\<lambda>r.
            case r of
              Inl err \<Rightarrow> ret (Some err, v)
            | Inr lw \<Rightarrow> finish (v\<lparr>lg_file := Some lw\<rparr>)))"

definition InitLog :: "'s log_fs \<Rightarrow> string \<Rightarrow> int \<Rightarrow> int \<Rightarrow> int \<Rightarrow> bool \<Rightarrow> log_vars \<Rightarrow> ('s, string option \<times> log_vars) prog" where
  "InitLog fs logFullPath maxLogSize backups level logToConsole v =
     InitLogWithCacheCnt fs logFullPath maxLogSize backups level logToConsole 50 v"

definition CloseLog :: "'s log_fs \<Rightarrow> log_vars \<Rightarrow> ('s, log_vars) prog" where
  "CloseLog fs v = (if lg_file v \<noteq> None \<or> lg_console v then reset_log fs v else ret v)"

definition SyncLog :: "'s log_fs \<Rightarrow> log_vars \<Rightarrow> ('s, log_vars) prog" where
  "SyncLog fs v =
     (case lg_file v of
        None \<Rightarrow> ret v
      | Some lw \<Rightarrow> call (doFlush fs (lg_conf v) lw) (\<lambda>lw. ret (v\<lparr>lg_file := Some lw\<rparr>)))"

definition logEnabled :: "log_vars \<Rightarrow> bool" where
  "logEnabled v \<longleftrightarrow> lg_console v \<or> lg_file v \<noteq> None"

text \<open>
  A message, with the place it comes from (\<open>caller\<close>: path and line) and the date.
\<close>

definition with_place :: "(string \<times> int) option \<Rightarrow> string \<Rightarrow> string" where
  "with_place caller msg =
     (case caller of
        None \<Rightarrow> msg
      | Some (file, line) \<Rightarrow> rev (takeWhile (\<lambda>c. c \<noteq> CHR ''/'') (rev file)) @ '':'' @ Itoa line @ ''|'' @ msg)"

definition doLog :: "'s log_fs \<Rightarrow> (string \<times> int) option \<Rightarrow> string \<Rightarrow> Level \<Rightarrow> string \<Rightarrow> log_vars \<Rightarrow> ('s, log_vars) prog" where
  "doLog fs caller nowDate level msg v =
     (if logEnabled v \<and> level_enabled v level then
        let msg = with_place caller msg; pre = logLevelMap level
        in call (if lg_console v then log_step (lf_Console fs (pre @ msg)) else ret ()) (\<lambda>_.
           case lg_file v of
             None \<Rightarrow> ret v
           | Some lw \<Rightarrow>
               call (Printf fs (lg_cacheCount v) (lg_conf v) lw (nowDate @ '' '' @ pre @ msg)) (\<lambda>lw.
                 ret (v\<lparr>lg_file := Some lw\<rparr>)))
      else ret v)"

end
