(* ===== verification/Obs_Log_Correct.thy ===== *)
theory Obs_Log_Correct
  imports Obs_Log
begin

text \<open>
  What the log of the OBS client writes. The contract of the file system (\<open>log_files\<close>) is that a file is as
  long as its lines and that a line is appended; it is interpreted on files in memory. A message that
  finds the queue full is lost (\<open>full_queue_loses_message\<close>), and flushing the log writes the queue once more
  when it is closed (\<open>sync_writes_again\<close>).
\<close>

section \<open>Files\<close>

definition line_bytes :: "string list \<Rightarrow> int" where
  "line_bytes ls = sum_list (map (\<lambda>l. int (length l) + 1) ls)"

lemma line_bytes_simps [simp]:
  "line_bytes [] = 0" "line_bytes (l # ls) = int (length l) + 1 + line_bytes ls" "line_bytes (ls @ ls') = line_bytes ls + line_bytes ls'"
  by (simp_all add: line_bytes_def)

lemma line_bytes_nonneg: "0 \<le> line_bytes ls"
  by (induction ls) simp_all

locale log_files =
  fixes fs :: "'s log_fs" and lines_of :: "string \<Rightarrow> 's \<Rightarrow> string list"
  assumes size_of_lines: "lf_Size fs path s = (Some (line_bytes (lines_of path s)), s)"
    and println_appends: "lines_of path (lf_Println fs path m s) = lines_of path s @ [m]"
begin

lemma println_all_appends: "lines_of path (println_all fs path ms s) = lines_of path s @ ms"
  by (induction ms arbitrary: s) (simp_all add: println_appends)

lemma doFlush_small:
  assumes "line_bytes (lines_of (lw_fullPath lw) s) < lc_maxLogSize conf"
  shows "doFlush fs conf lw s = Return (lw, println_all fs (lw_fullPath lw) (lw_queue lw) s)"
  using assms by (simp add: doFlush_def rotate_log_def call_def liftS_def ret_def log_step_def size_of_lines)

end

text \<open>Messages one after the other, and what is kept of them by a queue with room for \<open>k\<close> more of \<open>n\<close>.\<close>

fun print_all :: "'s log_fs \<Rightarrow> int \<Rightarrow> logConfType \<Rightarrow> string list \<Rightarrow> loggerWrapper \<Rightarrow> ('s, loggerWrapper) prog" where
  "print_all fs n conf [] lw = ret lw"
| "print_all fs n conf (m # ms) lw = call (Printf fs n conf lw m) (print_all fs n conf ms)"

fun kept :: "nat \<Rightarrow> nat \<Rightarrow> 'a list \<Rightarrow> 'a list" where
  "kept n k [] = []"
| "kept n 0 (m # ms) = kept n n ms"
| "kept n (Suc k) (m # ms) = m # kept n k ms"

context log_files
begin

lemma print_all_kept:
  assumes "length (lw_queue lw) + k = n" and "0 < n"
    and "line_bytes (lines_of (lw_fullPath lw) s @ lw_queue lw) + line_bytes ms < lc_maxLogSize conf"
  shows "\<exists>lw' s'. print_all fs (int n) conf ms lw s = Return (lw', s') \<and> lw_fullPath lw' = lw_fullPath lw \<and>
    lines_of (lw_fullPath lw) s' @ lw_queue lw' = lines_of (lw_fullPath lw) s @ lw_queue lw @ kept n k ms"
  using assms
proof (induction n k ms arbitrary: lw s rule: kept.induct)
  case (2 n m ms)
  let ?lw = "lw\<lparr>lw_queue := []\<rparr>"
  let ?s = "println_all fs (lw_fullPath lw) (lw_queue lw) s"
  have "line_bytes (lines_of (lw_fullPath lw) s) < lc_maxLogSize conf"
    using 2(4) line_bytes_nonneg [of "lw_queue lw"] line_bytes_nonneg [of "m # ms"] unfolding line_bytes_simps by linarith
  then have "Printf fs (int n) conf lw m s = Return (?lw, ?s)"
    using 2(2) by (simp add: Printf_def printfWithLock_def doFlush_small call_def ret_def)
  moreover have "\<exists>lw' s'. print_all fs (int n) conf ms ?lw ?s = Return (lw', s') \<and> lw_fullPath lw' = lw_fullPath ?lw \<and>
      lines_of (lw_fullPath ?lw) s' @ lw_queue lw' = lines_of (lw_fullPath ?lw) ?s @ lw_queue ?lw @ kept n n ms"
    using 2(2,3,4) by (intro 2(1)) (simp_all add: println_all_appends)
  ultimately show ?case by (simp add: call_def println_all_appends)
next
  case (3 n k m ms)
  let ?lw = "lw\<lparr>lw_queue := lw_queue lw @ [m]\<rparr>"
  have "Printf fs (int n) conf lw m s = Return (?lw, s)" using 3(2) by (simp add: Printf_def ret_def)
  moreover have "\<exists>lw' s'. print_all fs (int n) conf ms ?lw s = Return (lw', s') \<and> lw_fullPath lw' = lw_fullPath ?lw \<and>
      lines_of (lw_fullPath ?lw) s' @ lw_queue lw' = lines_of (lw_fullPath ?lw) s @ lw_queue ?lw @ kept n k ms"
    using 3(2,3,4) by (intro 3(1)) simp_all
  ultimately show ?case by (simp add: call_def)
qed (simp add: ret_def)

lemma kept_shorter: "line_bytes (kept n k ms) \<le> line_bytes ms"
  by (induction n k ms rule: kept.induct) auto

lemma print_and_flush:
  assumes "lw_queue lw = []" and "0 < n" and "line_bytes (lines_of (lw_fullPath lw) s) + line_bytes ms < lc_maxLogSize conf"
  shows "\<exists>lw' s'. call (print_all fs (int n) conf ms lw) (doFlush fs conf) s = Return (lw', s') \<and>
    lines_of (lw_fullPath lw) s' = lines_of (lw_fullPath lw) s @ kept n n ms"
proof -
  obtain lw' s' where run: "print_all fs (int n) conf ms lw s = Return (lw', s')" "lw_fullPath lw' = lw_fullPath lw"
    and lines: "lines_of (lw_fullPath lw) s' @ lw_queue lw' = lines_of (lw_fullPath lw) s @ kept n n ms"
    using print_all_kept [of lw n n s ms conf] assms by auto
  from arg_cong [OF lines, of line_bytes]
  have "line_bytes (lines_of (lw_fullPath lw) s') < lc_maxLogSize conf"
    using assms(3) kept_shorter [of n n ms] line_bytes_nonneg [of "lw_queue lw'"] unfolding line_bytes_simps by linarith
  then show ?thesis using run lines by (simp add: call_def doFlush_small println_all_appends)
qed

end

section \<open>Entries\<close>

text \<open>An entry of the log: the place it comes from, the date, its level and its text.\<close>

type_synonym entry = "(string \<times> int) option \<times> string \<times> Level \<times> string"

fun entry_line :: "entry \<Rightarrow> string" where
  "entry_line (caller, nowDate, level, msg) = nowDate @ '' '' @ logLevelMap level @ with_place caller msg"

fun log_all :: "'s log_fs \<Rightarrow> entry list \<Rightarrow> log_vars \<Rightarrow> ('s, log_vars) prog" where
  "log_all fs [] v = ret v"
| "log_all fs ((caller, nowDate, level, msg) # es) v = call (doLog fs caller nowDate level msg v) (log_all fs es)"

text \<open>A log with an empty queue that only writes to a file, and is enabled for all levels.\<close>

definition file_log :: "log_vars \<Rightarrow> loggerWrapper \<Rightarrow> bool" where
  "file_log v lw \<longleftrightarrow> lg_file v = Some lw \<and> \<not> lg_console v \<and> lc_level (lg_conf v) \<le> 100 \<and> 0 < lg_cacheCount v"

lemma log_all_print:
  assumes "file_log v lw"
  shows "log_all fs es v = call (print_all fs (lg_cacheCount v) (lg_conf v) (map entry_line es) lw) (\<lambda>lw. ret (v\<lparr>lg_file := Some lw\<rparr>))"
  using assms
proof (induction es arbitrary: v lw)
  case Nil
  then have "v\<lparr>lg_file := Some lw\<rparr> = v" by (cases v) (simp add: file_log_def)
  then show ?case by (simp add: call_ret)
next
  case (Cons e es)
  obtain caller nowDate level msg where e: "e = (caller, nowDate, level, msg)" by (cases e)
  have "level_enabled v level" using Cons.prems by (cases level) (simp_all add: file_log_def level_enabled_def)
  then have "doLog fs caller nowDate level msg v =
      call (Printf fs (lg_cacheCount v) (lg_conf v) lw (entry_line e)) (\<lambda>lw. ret (v\<lparr>lg_file := Some lw\<rparr>))"
    using Cons.prems by (simp add: doLog_def file_log_def logEnabled_def e call_ret Let_def)
  moreover have "log_all fs es (v\<lparr>lg_file := Some lw'\<rparr>) =
      call (print_all fs (lg_cacheCount v) (lg_conf v) (map entry_line es) lw') (\<lambda>lw. ret (v\<lparr>lg_file := Some lw\<rparr>))" for lw'
    using Cons.IH [of "v\<lparr>lg_file := Some lw'\<rparr>" lw'] Cons.prems by (simp add: file_log_def)
  ultimately show ?case by (simp add: e call_assoc call_ret)
qed

section \<open>Files in memory\<close>

type_synonym mem_files = "(string, string list) gomap"

definition mem_lines :: "string \<Rightarrow> mem_files \<Rightarrow> string list" where
  "mem_lines path s = (case lookup s path of Some ls \<Rightarrow> ls | None \<Rightarrow> [])"

definition mem_log_fs :: "mem_files log_fs" where
  "mem_log_fs =
     \<lparr>lf_Size = (\<lambda>path s. (Some (line_bytes (mem_lines path s)), s)),
      lf_Rename = (\<lambda>from to s. insert_key to (mem_lines from s) (remove_key from s)),
      lf_Open = (\<lambda>path s. (None, s)), lf_Println = (\<lambda>path m s. insert_key path (mem_lines path s @ [m]) s),
      lf_Abs = (\<lambda>path s. (Inr path, s)), lf_IsDir = (\<lambda>path s. (False, s)), lf_MkdirAll = (\<lambda>path s. (None, s)),
      lf_Names = (\<lambda>path s. (map fst s, s)), lf_Base = id, lf_Console = (\<lambda>m s. s)\<rparr>"

interpretation mem_log: log_files mem_log_fs mem_lines
  by unfold_locales (simp_all add: mem_log_fs_def mem_lines_def)

text \<open>
  C39. A message that finds the queue of the log full is lost: of entries that are logged and a log that is
  closed, as many as the queue holds are written to the file, the next is not, and so on.
\<close>

theorem full_queue_loses_message:
  assumes "file_log v lw" and "lw_queue lw = []"
    and "line_bytes (mem_lines (lw_fullPath lw) s) + line_bytes (map entry_line es) < lc_maxLogSize (lg_conf v)"
  shows "\<exists>v' s'. call (log_all mem_log_fs es v) (CloseLog mem_log_fs) s = Return (v', s') \<and> lg_file v' = None \<and>
    mem_lines (lw_fullPath lw) s' = mem_lines (lw_fullPath lw) s @
      kept (nat (lg_cacheCount v)) (nat (lg_cacheCount v)) (map entry_line es)"
proof -
  have n: "0 < nat (lg_cacheCount v)" "int (nat (lg_cacheCount v)) = lg_cacheCount v" using assms(1) by (simp_all add: file_log_def)
  obtain lw' s' where run: "call (print_all mem_log_fs (lg_cacheCount v) (lg_conf v) (map entry_line es) lw) (doFlush mem_log_fs (lg_conf v)) s =
      Return (lw', s')"
    and lines: "mem_lines (lw_fullPath lw) s' = mem_lines (lw_fullPath lw) s @
      kept (nat (lg_cacheCount v)) (nat (lg_cacheCount v)) (map entry_line es)"
    using mem_log.print_and_flush [OF assms(2) n(1) assms(3)] unfolding n(2) by auto
  have "CloseLog mem_log_fs (v\<lparr>lg_file := Some lw\<rparr>) = call (doFlush mem_log_fs (lg_conf v) lw)
      (\<lambda>_. ret (v\<lparr>lg_file := None, lg_console := False, lg_conf := getDefaultLogConf\<rparr>))" for lw
    by (simp add: CloseLog_def reset_log_def call_assoc call_ret)
  then have "call (log_all mem_log_fs es v) (CloseLog mem_log_fs) =
      call (call (print_all mem_log_fs (lg_cacheCount v) (lg_conf v) (map entry_line es) lw) (doFlush mem_log_fs (lg_conf v)))
        (\<lambda>_. ret (v\<lparr>lg_file := None, lg_console := False, lg_conf := getDefaultLogConf\<rparr>))"
    by (simp add: log_all_print [OF assms(1)] call_assoc call_ret)
  then have "call (log_all mem_log_fs es v) (CloseLog mem_log_fs) s =
      Return (v\<lparr>lg_file := None, lg_console := False, lg_conf := getDefaultLogConf\<rparr>, s')"
    by (simp only: call_eval(1) [where a = lw' and s' = s'] run ret_def)
  with lines show ?thesis by simp
qed

text \<open>Of \<open>m\<close> messages every \<open>n + 1\<close>-th is lost.\<close>

lemma length_kept: "k \<le> n \<Longrightarrow> length (kept n k ms) + (length ms + n - k) div Suc n = length ms"
proof (induction n k ms rule: kept.induct)
  case (2 n m ms)
  have "(length ms + 1 + n) div Suc n = 1 + length ms div Suc n" by (metis add.commute add.left_commute div_add_self2 nat.distinct(1) plus_1_eq_Suc)
  with 2 show ?case by simp
next
  case (3 n k m ms)
  then show ?case by (simp add: Suc_diff_le)
qed simp

text \<open>The queue stays when it is flushed, and is written again.\<close>

lemma sync_writes_again:
  assumes "file_log v lw" and "2 * line_bytes (lw_queue lw) + line_bytes (mem_lines (lw_fullPath lw) s) < lc_maxLogSize (lg_conf v)"
  shows "\<exists>v' s'. call (SyncLog mem_log_fs v) (CloseLog mem_log_fs) s = Return (v', s') \<and>
    mem_lines (lw_fullPath lw) s' = mem_lines (lw_fullPath lw) s @ lw_queue lw @ lw_queue lw"
  using assms line_bytes_nonneg [of "lw_queue lw"]
  by (simp add: SyncLog_def CloseLog_def reset_log_def file_log_def call_def ret_def mem_log.doFlush_small mem_log.println_all_appends)

text \<open>A log with room for two messages that is given three.\<close>

definition sample_log :: log_vars where
  "sample_log =
     \<lparr>lg_cacheCount = 2, lg_conf = getDefaultLogConf\<lparr>lc_level := 100\<rparr>,
      lg_file = Some \<lparr>lw_fullPath = ''obs.log'', lw_queue = [], lw_index = 1\<rparr>, lg_console = False\<rparr>"

theorem full_queue_loses_message_witness:
  "\<exists>v' s'. call (log_all mem_log_fs (map (\<lambda>m. (None, ''now'', LEVEL_WARN, m)) [''a'', ''b'', ''c'', ''d'']) sample_log) (CloseLog mem_log_fs) [] =
      Return (v', s') \<and> lg_file v' = None \<and>
    mem_lines ''obs.log'' s' = [''now [WARN]: a'', ''now [WARN]: b'', ''now [WARN]: d'']"
proof -
  let ?lw = "\<lparr>lw_fullPath = ''obs.log'', lw_queue = [], lw_index = 1\<rparr>"
  have "file_log sample_log ?lw" by (simp add: file_log_def sample_log_def)
  moreover have "line_bytes (mem_lines (lw_fullPath ?lw) []) + line_bytes (map entry_line (map (\<lambda>m. (None, ''now'', LEVEL_WARN, m)) [''a'', ''b'', ''c'', ''d''])) <
      lc_maxLogSize (lg_conf sample_log)"
    by (simp add: sample_log_def getDefaultLogConf_def mem_lines_def with_place_def)
  moreover have "mem_lines ''obs.log'' [] = []" "nat (lg_cacheCount sample_log) = 2" by (simp_all add: mem_lines_def sample_log_def)
  ultimately show ?thesis
    using full_queue_loses_message [of sample_log ?lw "[]" "map (\<lambda>m. (None, ''now'', LEVEL_WARN, m)) [''a'', ''b'', ''c'', ''d'']"]
    by (simp add: with_place_def numeral_2_eq_2)
qed

section \<open>The order of the levels\<close>

text \<open>A level is ordered by its number; what is logged at one level is logged at every higher one.\<close>

instantiation Level :: linorder
begin

definition less_eq_Level :: "Level \<Rightarrow> Level \<Rightarrow> bool" where
  "less_eq_Level l l' \<longleftrightarrow> level_value l \<le> level_value l'"

definition less_Level :: "Level \<Rightarrow> Level \<Rightarrow> bool" where
  "less_Level l l' \<longleftrightarrow> level_value l < level_value l'"

instance
proof
  fix l l' :: Level
  assume "l \<le> l'" and "l' \<le> l"
  then show "l = l'" by (cases l; cases l') (simp_all add: less_eq_Level_def)
qed (auto simp: less_eq_Level_def less_Level_def)

end

lemma level_enabled_mono: "level_enabled v l \<Longrightarrow> l \<le> l' \<Longrightarrow> level_enabled v l'"
  by (simp add: level_enabled_def less_eq_Level_def)

lemma levels_enabled_in_turn:
  "isDebugLogEnabled v \<Longrightarrow> isInfoLogEnabled v" "isInfoLogEnabled v \<Longrightarrow> isWarnLogEnabled v"
  "isWarnLogEnabled v \<Longrightarrow> isErrorLogEnabled v"
  unfolding isDebugLogEnabled_def isInfoLogEnabled_def isWarnLogEnabled_def isErrorLogEnabled_def
  by (erule level_enabled_mono, simp add: less_eq_Level_def)+

end
