(* ===== verification/Mover_Obs_Client.thy ===== *)
theory Mover_Obs_Client
  imports Datamover_Memory Obs_Client_Correct
begin

text \<open>
  The data mover on the repository's own OBS client. The mover of \<open>Mover_Obs\<close> works on the operations
  \<open>obs_ops\<close>; here its \<open>GetObject\<close> is the client's (\<open>Obs_Client\<close>), with a configuration made by \<open>New\<close>.
  The locale \<open>obs_download\<close> says what the mover's download needs of them; it is interpreted on the
  client. Together they show that an object whose last part has one byte is never moved.
\<close>

section \<open>Reading pieces\<close>

lemma read_fuel_Read:
  assumes "buf \<noteq> []" and "Read (length buf) b = (data, ReadOk, b')"
  shows "read_fuel b' < read_fuel b" and "length (bd_content b) = length data + length (bd_content b')" and "end_result b' = end_result b"
  using assms by (auto simp: Read_def read_fuel_def bd_content_def end_result_def simp flip: length_greater_0_conv split: list.splits option.splits if_splits)

text \<open>However the content comes in pieces, all of it is counted.\<close>

lemma read_front_counts:
  assumes "buf \<noteq> []" and "read_fuel b \<le> fuel"
  shows "\<exists>buf'. read_front fuel b buf n = Return ((n + length (bd_content b), end_result b), buf')"
  using assms
proof (induction fuel arbitrary: b buf n)
  case 0
  then show ?case by (simp add: read_fuel_def)
next
  case (Suc fuel)
  obtain data err b' where r: "Read (length buf) b = (data, err, b')" by (metis prod_cases3)
  show ?case
  proof (cases "err = ReadOk")
    case True
    note facts = read_fuel_Read [OF Suc.prems(1) r [unfolded True]]
    have "copy_at 0 data buf \<noteq> []" using Suc.prems(1) length_copy_at [of 0 data buf] by (metis length_0_conv)
    moreover have "read_fuel b' \<le> fuel" using facts(1) Suc.prems(2) by simp
    ultimately show ?thesis
      using Suc.IH [of "copy_at 0 data buf" b' "n + length data"] r True facts(2,3) by (simp add: Let_def add.assoc)
  next
    case False
    with r show ?thesis
      by (auto simp: Let_def Read_def bd_content_def end_result_def split: list.splits option.splits)
  qed
qed

section \<open>What the download needs\<close>

text \<open>The bytes of a text.\<close>

definition bytes_of :: "string \<Rightarrow> byte list" where
  "bytes_of = map of_char"

lemma length_bytes_of [simp]: "length (bytes_of s) = length s"
  by (simp add: bytes_of_def)

text \<open>
  \<open>conf c\<close> is the configuration of the client \<open>c\<close>. A range that is not asked for is the range from zero
  to zero. What the client hands over is read to its end.
\<close>

locale obs_download =
  fixes ops :: "'s obs_ops" and n :: nat and net :: "'s obs_net" and conf :: "obs_client \<Rightarrow> config"
  assumes get: "GetObject n net (conf c) (Some (get_input bucket key start finish)) s = Return (Inr out, s') \<Longrightarrow>
      \<exists>b. obs_GetObject ops c bucket key (Some (start, finish)) s = Return (Inr b, s') \<and>
        bd_content b = bytes_of (go_Body out) \<and> bd_end b = None"
begin

lemma range_length:
  assumes "GetObject n net (conf c) (Some (get_input (lo_BucketName loca) key start finish)) s = Return (Inr out, s')"
    and "om_obsClient mover = Some c" and "buf \<noteq> []"
  shows "\<exists>buf'. Obs_DownloadRange ops mover key loca buf start finish s = Return ((Inr (int (length (go_Body out))), buf'), s')"
proof -
  from get [OF assms(1)] obtain b where b: "obs_GetObject ops c (lo_BucketName loca) key (Some (start, finish)) s = Return (Inr b, s')"
    "bd_content b = bytes_of (go_Body out)" "bd_end b = None" by blast
  from read_front_counts [OF assms(3), of b "read_fuel b" 0, simplified] obtain buf' where
    "read_front (read_fuel b) b buf 0 = Return ((length (bd_content b), end_result b), buf')" by auto
  with b assms(2) show ?thesis
    by (simp add: Obs_DownloadRange_def deref_def numeral_3_eq_3 call_def liftS_def ret_def lift_go_def read_outcome_def end_result_def)
qed

end

section \<open>The client as the SDK\<close>

text \<open>
  \<open>obs.New\<close> for a location, and the configuration it makes. The mover looks only at the body of an object,
  and at the names, sizes and the marker of a page. Of an upload in one piece the reader is left in a
  state that the client does not give back, so \<open>PutObject\<close> stays a parameter, \<open>put\<close>.
\<close>

definition client_New :: "'s obs_std \<Rightarrow> obs_client \<Rightarrow> (string + config \<times> transport) go" where
  "client_New std c = New std (oc_AccessKey c) (oc_SecretKey c) (oc_Endpoint c) []"

definition client_conf :: "'s obs_std \<Rightarrow> obs_client \<Rightarrow> config" where
  "client_conf std c =
     (case client_New std c of
        Return (Inr (conf, _)) \<Rightarrow> conf
      | _ \<Rightarrow> bare_config (oc_AccessKey c) (oc_SecretKey c) (oc_Endpoint c))"

definition fetched :: "GetObjectOutput \<Rightarrow> body" where
  "fetched out = \<lparr>bd_pieces = [bytes_of (go_Body out)], bd_end = None\<rparr>"

definition page_of :: "ListObjectsOutput \<Rightarrow> list_page" where
  "page_of out = \<lparr>pg_Contents = map (\<lambda>c. (ct_Key c, ct_Size c)) (ls_Contents out), pg_IsTruncated = ls_IsTruncated out,
     pg_NextMarker = Some (ls_NextMarker out)\<rparr>"

definition mapR :: "('a \<Rightarrow> 'b) \<Rightarrow> ('s, string + 'a) prog \<Rightarrow> ('s, string + 'b) prog" where
  "mapR f m = call m (\<lambda>r. ret (map_sum id f r))"

definition objects_input :: "string \<Rightarrow> string \<Rightarrow> string option \<Rightarrow> ListObjectsInput" where
  "objects_input bucket pre marker =
     \<lparr>lj_Prefix = pre, lj_MaxKeys = 0, lj_Delimiter = [], lj_Origin = [], lj_RequestHeader = [], lj_Bucket = bucket,
      lj_Marker = (case marker of None \<Rightarrow> [] | Some m \<Rightarrow> m)\<rparr>"

definition init_input :: "string \<Rightarrow> string \<Rightarrow> InitiateMultipartUploadInput" where
  "init_input bucket key =
     \<lparr>oi_Bucket = bucket, oi_Key = key, oi_ACL = [], oi_StorageClass = [], oi_WebsiteRedirectLocation = [], oi_SseHeader = None,
      oi_Metadata = [], iu_ContentType = []\<rparr>"

definition part_input :: "string \<Rightarrow> string \<Rightarrow> string \<Rightarrow> int \<Rightarrow> int \<Rightarrow> int \<Rightarrow> byte list \<Rightarrow> UploadPartInput" where
  "part_input bucket key uploadId number offset sz buf =
     \<lparr>up_Bucket = bucket, up_Key = key, up_PartNumber = number, up_UploadId = uploadId, up_ContentMD5 = [], up_SseHeader = None,
      up_Body = Some (Raw BytesReader (map (\<lambda>b. char_of (unat b)) buf) 0), up_SourceFile = [], up_Offset = offset, up_PartSize = sz\<rparr>"

definition completion_input :: "string \<Rightarrow> string \<Rightarrow> string \<Rightarrow> (string \<times> int) list \<Rightarrow> CompleteMultipartUploadInput" where
  "completion_input bucket key uploadId parts =
     \<lparr>cu_Bucket = bucket, cu_Key = key, cu_UploadId = uploadId,
      cu_Parts = map (\<lambda>(etag, number). \<lparr>pt_PartNumber = number, pt_ETag = etag, pt_LastModified = None, pt_Size = 0\<rparr>) parts\<rparr>"

definition client_ops :: "(obs_Part list \<Rightarrow> obs_Part list) \<Rightarrow> nat \<Rightarrow> 's obs_net \<Rightarrow> (obs_client \<Rightarrow> string \<Rightarrow> string \<Rightarrow> byte list \<Rightarrow> ('s, (string + unit) \<times> byte list) prog) \<Rightarrow>
    's obs_ops" where
  "client_ops Sort n net put =
     (let conf = client_conf (on_std net)
      in \<lparr>obs_New = (\<lambda>c. lift_go (go_map (\<lambda>r. case r of Inl err \<Rightarrow> Some err | Inr _ \<Rightarrow> None) (client_New (on_std net) c))),
          obs_GetObject = (\<lambda>c bucket key r.
            mapR fetched (case r of
                            None \<Rightarrow> GetObject n net (conf c) (Some (get_input bucket key 0 0))
                          | Some (start, finish) \<Rightarrow> GetObject n net (conf c) (Some (get_input bucket key start finish)))),
          obs_PutObject = put,
          obs_DeleteObject = (\<lambda>c bucket key.
            mapR (\<lambda>_. ()) (DeleteObject n net (conf c) (Some \<lparr>di_Bucket = bucket, di_Key = key, di_VersionId = []\<rparr>))),
          obs_InitiateMultipartUpload = (\<lambda>c bucket key.
            mapR imu_UploadId (InitiateMultipartUpload n net (conf c) (Some (init_input bucket key)))),
          obs_UploadPart = (\<lambda>c bucket key uploadId number offset sz buf.
            mapR (\<lambda>out. (upo_ETag out, upo_PartNumber out))
              (UploadPart n net (conf c) (Some (part_input bucket key uploadId number offset sz buf)))),
          obs_AbortMultipartUpload = (\<lambda>c bucket key uploadId.
            mapR (\<lambda>_. ()) (AbortMultipartUpload n net (conf c)
              (Some \<lparr>au_Bucket = bucket, au_Key = key, au_UploadId = uploadId\<rparr>))),
          obs_CompleteMultipartUpload = (\<lambda>c bucket key uploadId parts.
            mapR (\<lambda>_. ()) (CompleteMultipartUpload Sort n net (conf c) (Some (completion_input bucket key uploadId parts)))),
          obs_ListObjects = (\<lambda>c bucket pre marker.
            mapR page_of (ListObjects n net (conf c) (Some (objects_input bucket pre marker))))\<rparr>)"

lemma fetched_simps [simp]: "bd_content (fetched out) = bytes_of (go_Body out)" "bd_end (fetched out) = None"
  by (simp_all add: fetched_def bd_content_def)

interpretation client: obs_download "client_ops Sort n net put" n net "client_conf (on_std net)"
  by unfold_locales (simp add: client_ops_def mapR_def call_def ret_def Let_def)

text \<open>A client that \<open>New\<close> made signs with version 2 and makes up to four attempts.\<close>

lemma initConfig_facts:
  assumes "initConfigWithDefault conf = Return (Inr conf')" and "cf_signature conf = []" and "cf_maxRetryCount conf < 0"
  shows "cf_signature conf' = ''v2''" and "0 \<le> cf_maxRetryCount conf'"
  using assms unfolding initConfigWithDefault_def Let_def by (cases "TrimSpace (cf_endpoint conf) = []"; auto)+

lemma client_conf_New:
  assumes "client_New std c = Return (Inr r)"
  shows "cf_signature (client_conf std c) = ''v2''" and "0 \<le> cf_maxRetryCount (client_conf std c)"
proof -
  let ?bare = "bare_config (oc_AccessKey c) (oc_SecretKey c) (oc_Endpoint c)"
  obtain conf where init: "initConfigWithDefault ?bare = Return (Inr conf)" and r: "fst r = conf"
    using assms by (cases "initConfigWithDefault ?bare") (auto simp: client_New_def New_def split: sum.splits)
  have "cf_signature ?bare = []" "cf_maxRetryCount ?bare < 0" by (simp_all add: bare_config_def)
  from initConfig_facts [OF init this] r assms
  show "cf_signature (client_conf std c) = ''v2''" and "0 \<le> cf_maxRetryCount (client_conf std c)"
    by (auto simp: client_conf_def split: prod.split)
qed

section \<open>Parts of one byte\<close>

lemma one_byte_download:
  assumes "client_New (on_std net) c = Return (Inr r)" and net: "net = server (object_server whole part)"
    and "TrimSpace (lo_BucketName loca) \<noteq> []" and "TrimSpace key \<noteq> []" and "om_obsClient mover = Some c" and "buf \<noteq> []"
  shows "\<exists>buf'. Obs_DownloadRange (client_ops Sort (Suc n) net put) mover key loca buf start start s =
    Return ((Inr (int (length whole)), buf'), s)"
proof -
  obtain out where "GetObject (Suc n) net (client_conf (on_std net) c) (Some (get_input (lo_BucketName loca) key start start)) s =
      Return (Inr out, s)" "go_Body out = whole"
    using GetObject_of_server [OF assms(3,4) client_conf_New [OF assms(1)], of n whole part start start s] net by auto
  then show ?thesis using client.range_length [OF _ assms(5,6)] by metis
qed

lemma no_Inl: "(\<forall>e. a \<noteq> Inl e) \<longleftrightarrow> a = Inr ()" for a :: "string + unit"
  by (cases a) auto

text \<open>A part that is moved was downloaded with the number of bytes that it has.\<close>

lemma move_part_moved:
  assumes "move_part env obj srcLoca destLoca downKey upKey partNumber offset sz downloadMover uploadMover buf s = Return (Inr (dm, um, buf'), s')"
  shows "\<exists>buf2 s1 s2. any_DownloadRange env dm downKey srcLoca buf offset (offset + sz - 1) s1 = Return ((Inr sz, buf2), s2) \<and>
    (if partNumber = 1 then multiPartDownloadInit env srcLoca s = Return ((Inr (), Some dm), s1) else downloadMover = Some dm)"
  using assms unfolding move_part_def
  by (elim call_ReturnE) (auto simp: ret_def deref_def panic_def no_Inl split: sum.splits option.splits if_splits elim!: call_ReturnE, blast?)

lemma move_parts_moved:
  assumes "move_parts (Suc left) env PART_SIZE obj srcLoca destLoca downKey upKey i (Some dm) um buf s = Return (Inr x, s')" and "0 < i"
  shows "\<exists>buf2 s1 s2. any_DownloadRange env dm downKey srcLoca (new_buf (obj_Size obj - (i + int left) * PART_SIZE))
    ((i + int left) * PART_SIZE) (obj_Size obj - 1) s1 = Return ((Inr (obj_Size obj - (i + int left) * PART_SIZE), buf2), s2)"
  using assms
proof (induction left arbitrary: i um buf s)
  case 0
  then obtain r s1 where "move_part env obj srcLoca destLoca downKey upKey (i + 1) (i * PART_SIZE) (obj_Size obj - i * PART_SIZE) (Some dm) um
      (new_buf (obj_Size obj - i * PART_SIZE)) s = Return (Inr r, s1)"
    by (auto simp: ret_def move_parts.simps Let_def split: sum.splits elim!: call_ReturnE)
  then show ?case using move_part_moved [of env obj srcLoca destLoca downKey upKey "i + 1" "i * PART_SIZE"] 0(2)
    by (cases r) (fastforce split: if_splits)
next
  case (Suc left)
  then obtain dm' um' buf' s1 where part: "move_part env obj srcLoca destLoca downKey upKey (i + 1) (i * PART_SIZE) PART_SIZE (Some dm) um buf s =
      Return (Inr (dm', um', buf'), s1)"
    and rest: "move_parts (Suc left) env PART_SIZE obj srcLoca destLoca downKey upKey (i + 1) (Some dm') (Some um') buf' s1 = Return (Inr x, s')"
    by (subst (asm) move_parts.simps(2)) (auto simp: ret_def Let_def split: sum.splits elim!: call_ReturnE)
  have "dm' = dm" using move_part_moved [OF part] Suc.prems(2) by (auto split: if_splits)
  with Suc.IH [OF rest [unfolded this]] Suc.prems(2) show ?case by (simp add: algebra_simps)
qed

lemma client_download_init:
  assumes "multiPartDownloadInit env srcLoca s = Return ((Inr (), Some dm), s')"
    and "dm_obs env = client_ops Sort n net put" and "worker_kind (lo_StorType srcLoca) = Some WObs"
  shows "\<exists>mover r. dm = MkObs mover \<and> om_obsClient mover = Some (obs_config srcLoca) \<and>
    client_New (on_std net) (obs_config srcLoca) = Return (Inr r)"
  using assms
  by (cases "client_New (on_std net) (obs_config srcLoca)")
    (auto simp: multiPartDownloadInit_def wrap_mover_def Obs_MultiPartDownloadInit_def with_obsClient_def client_ops_def Let_def
      call_def ret_def lift_go_def split: sum.splits)

lemma part_count_rest:
  assumes "1 < PART_SIZE" and "0 < k"
  shows "nat (part_count (k * PART_SIZE + 1) PART_SIZE) = Suc (nat k)"
proof -
  have "go_div (k * PART_SIZE + 1) PART_SIZE = k" "go_mod (k * PART_SIZE + 1) PART_SIZE = 1"
    using assms by (simp_all add: go_div_pos go_mod_pos)
  then show ?thesis using assms by (simp add: part_count_def nat_add_distrib)
qed

text \<open>
  C31. An object in OBS whose size leaves a part of a single byte is never moved, whatever the destination
  is: for that part the client gets the whole object, and the data mover takes the count for an error.
\<close>

theorem one_byte_rest_is_never_moved:
  fixes env :: "'s dm_env"
  assumes "dm_obs env = client_ops Sort (Suc n) (server (object_server whole part)) put"
    and "worker_kind (lo_StorType srcLoca) = Some WObs"
    and "obj_Size obj = k * PART_SIZE + 1" and "0 < k" and "1 < PART_SIZE" and "length whole \<noteq> 1"
    and "TrimSpace (lo_BucketName srcLoca) \<noteq> []" and "TrimSpace (in_bucket (lo_VirBucket srcLoca) (obj_ObjectKey obj)) \<noteq> []"
  shows "multipartMoveObj env PART_SIZE obj srcLoca destLoca s \<noteq> Return (Inr (), s')"
proof
  let ?net = "server (object_server whole part) :: 's obs_net"
  let ?down = "in_bucket (lo_VirBucket srcLoca) (obj_ObjectKey obj)"
  let ?up = "in_bucket (lo_VirBucket destLoca) (obj_ObjectKey obj)"
  obtain left where left: "nat k = Suc left" using assms(4) by (cases "nat k") auto
  assume "multipartMoveObj env PART_SIZE obj srcLoca destLoca s = Return (Inr (), s')"
  then obtain x s1 where "move_parts (Suc (nat k)) env PART_SIZE obj srcLoca destLoca ?down ?up 0 None None (new_buf PART_SIZE) s = Return (Inr x, s1)"
    using part_count_rest [OF assms(5,4)] assms(3)
    by (auto simp: multipartMoveObj_def Let_def ret_def split: sum.splits elim!: call_ReturnE)
  then obtain dm um buf s2 where part: "move_part env obj srcLoca destLoca ?down ?up 1 0 PART_SIZE None None (new_buf PART_SIZE) s =
      Return (Inr (dm, um, buf), s2)"
    and rest: "move_parts (Suc left) env PART_SIZE obj srcLoca destLoca ?down ?up 1 (Some dm) (Some um) buf s2 = Return (Inr x, s1)"
    unfolding left by (subst (asm) move_parts.simps(2)) (auto simp: ret_def Let_def split: sum.splits elim!: call_ReturnE)
  from move_part_moved [OF part] obtain s3 where "multiPartDownloadInit env srcLoca s = Return ((Inr (), Some dm), s3)" by auto
  from client_download_init [OF this assms(1,2)] obtain mover r where dm: "dm = MkObs mover" "om_obsClient mover = Some (obs_config srcLoca)"
    and new: "client_New (on_std ?net) (obs_config srcLoca) = Return (Inr r)" by blast
  have k: "1 + int left = k" using left assms(4) by linarith
  from move_parts_moved [OF rest] obtain buf2 s4 s5 where
    "Obs_DownloadRange (dm_obs env) mover ?down srcLoca (new_buf 1) (k * PART_SIZE) (k * PART_SIZE) s4 = Return ((Inr 1, buf2), s5)"
    unfolding k dm using assms(3) by (auto simp: any_DownloadRange_def)
  moreover have "new_buf 1 \<noteq> []" by (simp add: new_buf_def)
  from one_byte_download [OF new refl assms(7,8) dm(2) this]
  have "\<exists>buf'. Obs_DownloadRange (dm_obs env) mover ?down srcLoca (new_buf 1) (k * PART_SIZE) (k * PART_SIZE) s4 =
      Return ((Inr (int (length whole)), buf'), s4)" unfolding assms(1) .
  ultimately show False using assms(6) by auto
qed

definition obs_loc :: LocationInfo where
  "obs_loc = zero_Location\<lparr>lo_StorType := STOR_TYPE_HW_OBS, lo_EndPoint := ''obs'', lo_BucketName := ''b'', lo_Access := ''ak'',
     lo_Security := ''sk''\<rparr>"

definition obs_env :: "nat \<Rightarrow> dm_mem dm_env" where
  "obs_env n = mem_env no_env\<lparr>dm_obs := client_ops (sort_key pt_PartNumber) n (server (object_server ''abcde'' (\<lambda>r. ''ab''))) (\<lambda>c b k body. ret (Inr (), []))\<rparr>"

theorem one_byte_rest_is_never_moved_witness:
  "\<forall>s'. multipartMoveObj (obs_env 1) 2 (big_object\<lparr>obj_Size := 5\<rparr>) obs_loc loc_b dm_world \<noteq> Return (Inr (), s')"
proof
  fix s'
  have "worker_kind (lo_StorType obs_loc) = Some WObs" "TrimSpace (lo_BucketName obs_loc) \<noteq> []"
    "TrimSpace (in_bucket (lo_VirBucket obs_loc) (obj_ObjectKey (big_object\<lparr>obj_Size := 5\<rparr>))) \<noteq> []"
    by code_simp+
  then show "multipartMoveObj (obs_env 1) 2 (big_object\<lparr>obj_Size := 5\<rparr>) obs_loc loc_b dm_world \<noteq> Return (Inr (), s')"
    using one_byte_rest_is_never_moved [of "obs_env 1" "sort_key pt_PartNumber" 0 "''abcde''" "\<lambda>r. ''ab''" "\<lambda>c b k body. ret (Inr (), [])" obs_loc
        "big_object\<lparr>obj_Size := 5\<rparr>" 2 2 loc_b dm_world s']
    by (simp add: obs_env_def)
qed

text \<open>An object of one byte less is moved, in two parts.\<close>

lemma even_object_is_moved:
  "\<exists>s'. multipartMoveObj (obs_env 1) 2 (big_object\<lparr>obj_Size := 4\<rparr>) obs_loc loc_b dm_world = Return (Inr (), s')"
proof -
  let ?run = "multipartMoveObj (obs_env 1) 2 (big_object\<lparr>obj_Size := 4\<rparr>) obs_loc loc_b dm_world"
  have "(case ?run of Return (Inr (), _) \<Rightarrow> True | _ \<Rightarrow> False)" by code_simp
  then show ?thesis by (auto split: go.splits prod.splits sum.splits)
qed

end
