(* ===== verification/Api_Config.thy ===== *)
theory Api_Config
  imports Go_Strings "HOL-Library.List_Lexorder" "HOL-Library.Char_ord"
begin

text \<open>
  The configuration of the API gateway (\<open>api/pkg/utils/config\<close>): a structure that is filled by
  reflection, from the defaults in the tags of its fields, a file with sections and keys, and the flags
  of the command line. A value is described with its fields, their tags and kinds; a pointer into the
  configuration is a path of field names. The file is what \<open>ini\<close> makes of it, a function from sections and
  keys to values; numbers with a fraction are the parameter \<open>fl_ops\<close>. \<open>strconv\<close> and \<open>flag\<close> are as in the
  Go version that the repository builds with (1.11).
\<close>

section \<open>Numbers and truth values\<close>

definition ParseBool :: "string \<Rightarrow> bool option" where
  "ParseBool s =
     (if s \<in> {''1'', ''t'', ''T'', ''TRUE'', ''true'', ''True''} then Some True
      else if s \<in> {''0'', ''f'', ''F'', ''FALSE'', ''false'', ''False''} then Some False
      else None)"

text \<open>A number that is too large gives the largest one together with an error.\<close>

datatype parsed_uint = SyntaxError | Number nat | TooLarge

definition digit_value :: "char \<Rightarrow> nat option" where
  "digit_value c =
     (if is_digit c then Some (code c - 48)
      else if 97 \<le> code c \<and> code c \<le> 122 then Some (code c - 87)
      else if 65 \<le> code c \<and> code c \<le> 90 then Some (code c - 55)
      else None)"

fun uint_digits :: "nat \<Rightarrow> nat \<Rightarrow> string \<Rightarrow> parsed_uint" where
  "uint_digits base n [] = Number n"
| "uint_digits base n (c # cs) =
     (case digit_value c of
        None \<Rightarrow> SyntaxError
      | Some d \<Rightarrow>
          (if d \<ge> base then SyntaxError
           else if base * n + d > 18446744073709551615 then TooLarge
           else uint_digits base (base * n + d) cs))"

definition ParseUint :: "nat \<Rightarrow> string \<Rightarrow> parsed_uint" where
  "ParseUint base s =
     (if s = [] then SyntaxError
      else if base \<noteq> 0 then uint_digits base 0 s
      else case s of
             CHR ''0'' # x # r \<Rightarrow>
               (if x = CHR ''x'' \<or> x = CHR ''X'' then (if r = [] then SyntaxError else uint_digits 16 0 r)
                else uint_digits 8 0 (x # r))
           | _ \<Rightarrow> uint_digits (if hd s = CHR ''0'' then 8 else 10) 0 s)"

definition uint_value :: "parsed_uint \<Rightarrow> int" where
  "uint_value r = (case r of SyntaxError \<Rightarrow> 0 | Number n \<Rightarrow> int n | TooLarge \<Rightarrow> 18446744073709551615)"

text \<open>The value and whether there is an error.\<close>

definition ParseInt :: "nat \<Rightarrow> string \<Rightarrow> int \<times> bool" where
  "ParseInt base s =
     (let (neg, ds) = (case s of
            [] \<Rightarrow> (False, [])
          | c # cs \<Rightarrow> if c = CHR ''-'' then (True, cs) else if c = CHR ''+'' then (False, cs) else (False, s));
          r = ParseUint base ds; un = uint_value r
      in if r = SyntaxError then (0, True)
         else if \<not> neg \<and> un \<ge> 9223372036854775808 then (9223372036854775807, True)
         else if neg \<and> un > 9223372036854775808 then (- 9223372036854775808, True)
         else (if neg then - un else un, r = TooLarge))"

text \<open>Storing in \<open>w\<close> bits.\<close>

definition wrap_int :: "nat \<Rightarrow> int \<Rightarrow> int" where
  "wrap_int w x = (x + 2 ^ (w - 1)) mod 2 ^ w - 2 ^ (w - 1)"

definition wrap_uint :: "nat \<Rightarrow> int \<Rightarrow> int" where
  "wrap_uint w x = x mod 2 ^ w"

section \<open>Values\<close>

record 'f fl_ops =
  fl_ParseFloat :: "string \<Rightarrow> 'f \<times> bool"
  fl_To32 :: "'f \<Rightarrow> 'f"
  fl_Zero :: 'f

datatype kind = KBool | KInt nat | KUint nat | KFloat nat | KString

datatype 'f scalar = SBool bool | SInt int | SUint int | SFloat 'f | SString string

text \<open>
  A slice has the kind of its elements, \<open>None\<close> when it is none of these; a structure has its name and its
  fields, each with a name, the tag \<open>conf\<close> (empty when there is none) and whether it is exported.
\<close>

datatype 'f conf_value =
    Scalar kind "'f scalar"
  | Slice "kind option" "'f scalar list"
  | Struct string "(string \<times> string \<times> bool \<times> 'f conf_value) list"
  | OtherValue

type_synonym 'f field = "string \<times> string \<times> bool \<times> 'f conf_value"

fun scalar_of :: "'f fl_ops \<Rightarrow> kind \<Rightarrow> string \<Rightarrow> 'f scalar" where
  "scalar_of fl KBool s = SBool (case ParseBool s of None \<Rightarrow> False | Some b \<Rightarrow> b)"
| "scalar_of fl (KInt w) s = SInt (wrap_int w (fst (ParseInt 10 s)))"
| "scalar_of fl (KUint w) s = SUint (wrap_uint w (uint_value (ParseUint 10 s)))"
| "scalar_of fl (KFloat w) s = SFloat (if w = 32 then fl_To32 fl (fst (fl_ParseFloat fl s)) else fst (fl_ParseFloat fl s))"
| "scalar_of fl KString s = SString s"

definition setSlice :: "'f fl_ops \<Rightarrow> kind option \<Rightarrow> string \<Rightarrow> 'f conf_value" where
  "setSlice fl elem str =
     Slice elem (case elem of None \<Rightarrow> [] | Some k \<Rightarrow> map (scalar_of fl k) (Split str '',''))"

definition set_field :: "'f fl_ops \<Rightarrow> string \<Rightarrow> 'f conf_value \<Rightarrow> 'f conf_value" where
  "set_field fl strVal v =
     (case v of
        Scalar k _ \<Rightarrow> Scalar k (scalar_of fl k strVal)
      | Slice elem _ \<Rightarrow> setSlice fl elem strVal
      | v \<Rightarrow> v)"

section \<open>Filling by reflection\<close>

text \<open>A file: sections, keys, values.\<close>

type_synonym ini_file = "string \<Rightarrow> string \<Rightarrow> string option"

definition item_text :: "ini_file option \<Rightarrow> string \<Rightarrow> string \<Rightarrow> string" where
  "item_text cfg section tag =
     (let (key, strVal) = (case cut '','' tag of None \<Rightarrow> (tag, []) | Some (key, def) \<Rightarrow> (key, def))
      in case cfg of
           None \<Rightarrow> strVal
         | Some file \<Rightarrow> (case file section key of Some v \<Rightarrow> v | None \<Rightarrow> strVal))"

fun fields_go :: "('f field \<Rightarrow> 'f conf_value go) \<Rightarrow> 'f field list \<Rightarrow> 'f field list go" where
  "fields_go f [] = Return []"
| "fields_go f ((name, tag, exported, v) # fs) =
     go_bind (f (name, tag, exported, v)) (\<lambda>v. go_map ((#) (name, tag, exported, v)) (fields_go f fs))"

definition with_fields :: "('f field \<Rightarrow> 'f conf_value go) \<Rightarrow> 'f conf_value \<Rightarrow> 'f conf_value go" where
  "with_fields f v =
     (case v of
        Struct name fs \<Rightarrow> go_map (Struct name) (fields_go f fs)
      | _ \<Rightarrow> Panic (Raised ''reflect: NumField of a value that is not a structure''))"

definition is_FlagSet :: "'f conf_value \<Rightarrow> bool" where
  "is_FlagSet v = (case v of Struct name _ \<Rightarrow> name = ''FlagSet'' | _ \<Rightarrow> False)"

text \<open>
  \<open>settable\<close> says that a value can be set: it is reached through exported fields only. The items of a section
  are given the function for sections inside them; the fuel of that is the depth of the structure.
\<close>

definition parseItems :: "(bool \<Rightarrow> 'f conf_value \<Rightarrow> 'f conf_value go) \<Rightarrow> 'f fl_ops \<Rightarrow> ini_file option \<Rightarrow> string \<Rightarrow> bool \<Rightarrow> 'f conf_value \<Rightarrow> 'f conf_value go" where
  "parseItems sections fl cfg section settable =
     with_fields (\<lambda>(name, tag, exported, field).
       go_bind (if tag = [] then sections (settable \<and> exported) field else Return field) (\<lambda>field.
         Return (if settable \<and> exported then set_field fl (item_text cfg section tag) field else field)))"

fun parseSections :: "nat \<Rightarrow> 'f fl_ops \<Rightarrow> ini_file option \<Rightarrow> bool \<Rightarrow> 'f conf_value \<Rightarrow> 'f conf_value go" where
  "parseSections 0 fl cfg settable v = OutOfFuel"
| "parseSections (Suc n) fl cfg settable v =
     with_fields (\<lambda>(name, section, exported, field).
       if is_FlagSet field then Return field
       else go_bind (if section = [] then parseSections n fl cfg (settable \<and> exported) field else Return field) (\<lambda>field.
         parseItems (parseSections n fl cfg) fl cfg section (settable \<and> exported) field)) v"

fun depth :: "'f conf_value \<Rightarrow> nat" where
  "depth (Struct name fs) = Suc (foldr max (map (\<lambda>(name, tag, exported, v). depth v) fs) 0)"
| "depth v = 1"

definition initConf :: "'f fl_ops \<Rightarrow> ini_file option \<Rightarrow> 'f conf_value \<Rightarrow> 'f conf_value go" where
  "initConf fl cfg conf = parseSections (depth conf) fl cfg True conf"

section \<open>The configuration\<close>

abbreviation text_item :: "string \<Rightarrow> string \<Rightarrow> 'f field" where
  "text_item name tag \<equiv> (name, tag, True, Scalar KString (SString []))"

abbreviation bool_item :: "string \<Rightarrow> string \<Rightarrow> 'f field" where
  "bool_item name tag \<equiv> (name, tag, True, Scalar KBool (SBool False))"

definition new_Default :: "'f conf_value" where
  "new_Default = Struct ''Default'' []"

definition new_OsdsLet :: "'f conf_value" where
  "new_OsdsLet = Struct ''OsdsLet''
     [text_item ''ApiEndpoint'' ''api_endpoint,localhost:50040'', bool_item ''Graceful'' ''graceful,true'',
      text_item ''SocketOrder'' ''socket_order'', text_item ''AuthStrategy'' ''auth_strategy,noauth'',
      bool_item ''Daemon'' ''daemon,false'', text_item ''PolicyPath'' ''policy_path,/etc/opensds/policy.json'']"

definition new_BackendProperties :: "'f conf_value" where
  "new_BackendProperties = Struct ''BackendProperties''
     [text_item ''Name'' ''name'', text_item ''Description'' ''description'', text_item ''DriverName'' ''driver_name'',
      text_item ''ConfigPath'' ''config_path'', bool_item ''SupportReplication'' ''support_replication,false'']"

definition new_Backends :: "'f conf_value" where
  "new_Backends = Struct ''Backends''
     [(''Ceph'', ''ceph'', True, new_BackendProperties), (''Cinder'', ''cinder'', True, new_BackendProperties),
      (''Sample'', ''sample'', True, new_BackendProperties), (''LVM'', ''lvm'', True, new_BackendProperties),
      (''HuaweiDorado'', ''huawei_dorado'', True, new_BackendProperties)]"

definition new_OsdsDock :: "'f conf_value" where
  "new_OsdsDock = Struct ''OsdsDock''
     [text_item ''ApiEndpoint'' ''api_endpoint,localhost:50050'', text_item ''DockType'' ''dock_type,provisioner'',
      (''EnabledBackends'', ''enabled_backends,lvm'', True, Slice (Some KString) []), bool_item ''Daemon'' ''daemon,false'',
      text_item ''BindIp'' ''bind_ip'',
      text_item ''HostBasedReplicationDriver'' ''host_based_replication_driver,drbd'',
      (''Backends'', [], True, new_Backends)]"

definition new_Database :: "'f conf_value" where
  "new_Database = Struct ''Database''
     [text_item ''Credential'' ''credential,username:password@tcp(ip:port)/dbname'', text_item ''Driver'' ''driver,etcd'',
      text_item ''Endpoint'' ''endpoint,localhost:2379,localhost:2380'']"

definition new_KeystoneAuthToken :: "'f conf_value" where
  "new_KeystoneAuthToken = Struct ''KeystoneAuthToken''
     [text_item ''MemcachedServers'' ''memcached_servers'', text_item ''SigningDir'' ''signing_dir'', text_item ''Cafile'' ''cafile'',
      text_item ''AuthUri'' ''auth_uri'', text_item ''ProjectDomainName'' ''project_domain_name'',
      text_item ''ProjectName'' ''project_name'', text_item ''UserDomainName'' ''user_domain_name'',
      text_item ''Password'' ''password'', text_item ''Username'' ''username'', text_item ''AuthUrl'' ''auth_url'',
      text_item ''AuthType'' ''auth_type'']"

definition new_Config :: "'f conf_value" where
  "new_Config = Struct ''Config''
     [(''Default'', ''default'', True, new_Default), (''OsdsLet'', ''osdslet'', True, new_OsdsLet),
      (''OsdsDock'', ''osdsdock'', True, new_OsdsDock), (''Database'', ''database'', True, new_Database),
      (''KeystoneAuthToken'', ''keystone_authtoken'', True, new_KeystoneAuthToken),
      (''Flag'', [], True, Struct ''FlagSet'' [(''flagMap'', [], False, OtherValue)])]"

text \<open>The file with no name cannot be loaded.\<close>

definition GetDefaultConfig :: "'f fl_ops \<Rightarrow> 'f conf_value go" where
  "GetDefaultConfig fl = initConf fl None new_Config"

section \<open>Pointers into the configuration\<close>

type_synonym path = "string list"

fun field_at :: "path \<Rightarrow> 'f conf_value \<Rightarrow> 'f conf_value option" where
  "field_at [] v = Some v"
| "field_at (a # p) v =
     (case v of
        Struct name fs \<Rightarrow> (case lookup fs a of None \<Rightarrow> None | Some (_, _, w) \<Rightarrow> field_at p w)
      | _ \<Rightarrow> None)"

text \<open>Assigning through a pointer to a variable.\<close>

fun assign_at :: "path \<Rightarrow> 'f scalar \<Rightarrow> 'f conf_value \<Rightarrow> 'f conf_value" where
  "assign_at [] x v = (case v of Scalar k _ \<Rightarrow> Scalar k x | v \<Rightarrow> v)"
| "assign_at (a # p) x v =
     (case v of
        Struct name fs \<Rightarrow>
          Struct name (map (\<lambda>(name, tag, exported, w). (name, tag, exported, if name = a then assign_at p x w else w)) fs)
      | v \<Rightarrow> v)"

definition backends_path :: path where
  "backends_path = [''OsdsDock'', ''Backends'']"

definition GetBackendsMap :: "'f conf_value \<Rightarrow> (string, 'f conf_value) gomap" where
  "GetBackendsMap CONF =
     (case field_at backends_path CONF of
        Some (Struct _ fs) \<Rightarrow> foldl (\<lambda>m (_, tag, _, v). insert_key tag v m) [] fs
      | _ \<Rightarrow> [])"

section \<open>Flags\<close>

text \<open>
  The command line: the flags that are defined, each with its type and the variable that \<open>flag\<close> sets, and
  the names of those that were given.
\<close>

datatype flag_type = BoolFlag | IntFlag | Int64Flag | UintFlag | Uint64Flag | Float64Flag | StringFlag

record 'f cmdline =
  cl_formal :: "(string, flag_type \<times> 'f scalar) gomap"
  cl_actual :: "string list"

text \<open>The flags of the program: where the value of a flag goes. What \<open>InValue\<close> points to is in the command line.\<close>

record Flag =
  fg_Value :: path

type_synonym FlagSet = "(string, Flag) gomap"

definition Add_flag :: "string \<Rightarrow> Flag \<Rightarrow> FlagSet \<Rightarrow> FlagSet" where
  "Add_flag name flag f = insert_key name flag f"

definition define_flag :: "flag_type \<Rightarrow> string \<Rightarrow> 'f scalar \<Rightarrow> 'f cmdline \<Rightarrow> 'f cmdline go" where
  "define_flag ty name defValue line =
     (if lookup (cl_formal line) name \<noteq> None then Panic (Raised ''flag redefined'')
      else Return (line\<lparr>cl_formal := insert_key name (ty, defValue) (cl_formal line)\<rparr>))"

definition flag_var :: "flag_type \<Rightarrow> path \<Rightarrow> string \<Rightarrow> 'f scalar \<Rightarrow> 'f cmdline \<times> FlagSet \<Rightarrow> ('f cmdline \<times> FlagSet) go" where
  "flag_var ty p name defValue st =
     go_map (\<lambda>line. (line, Add_flag name \<lparr>fg_Value = p\<rparr> (snd st))) (define_flag ty name defValue (fst st))"

definition BoolVar :: "path \<Rightarrow> string \<Rightarrow> bool \<Rightarrow> 'f cmdline \<times> FlagSet \<Rightarrow> ('f cmdline \<times> FlagSet) go" where
  "BoolVar p name defValue = flag_var BoolFlag p name (SBool defValue)"

definition IntVar :: "path \<Rightarrow> string \<Rightarrow> int \<Rightarrow> 'f cmdline \<times> FlagSet \<Rightarrow> ('f cmdline \<times> FlagSet) go" where
  "IntVar p name defValue = flag_var IntFlag p name (SInt defValue)"

definition Int64Var :: "path \<Rightarrow> string \<Rightarrow> int \<Rightarrow> 'f cmdline \<times> FlagSet \<Rightarrow> ('f cmdline \<times> FlagSet) go" where
  "Int64Var p name defValue = flag_var Int64Flag p name (SInt defValue)"

definition UintVar :: "path \<Rightarrow> string \<Rightarrow> int \<Rightarrow> 'f cmdline \<times> FlagSet \<Rightarrow> ('f cmdline \<times> FlagSet) go" where
  "UintVar p name defValue = flag_var UintFlag p name (SUint defValue)"

definition Uint64Var :: "path \<Rightarrow> string \<Rightarrow> int \<Rightarrow> 'f cmdline \<times> FlagSet \<Rightarrow> ('f cmdline \<times> FlagSet) go" where
  "Uint64Var p name defValue = flag_var Uint64Flag p name (SUint defValue)"

definition Float64Var :: "path \<Rightarrow> string \<Rightarrow> 'f \<Rightarrow> 'f cmdline \<times> FlagSet \<Rightarrow> ('f cmdline \<times> FlagSet) go" where
  "Float64Var p name defValue = flag_var Float64Flag p name (SFloat defValue)"

definition StringVar :: "path \<Rightarrow> string \<Rightarrow> string \<Rightarrow> 'f cmdline \<times> FlagSet \<Rightarrow> ('f cmdline \<times> FlagSet) go" where
  "StringVar p name defValue = flag_var StringFlag p name (SString defValue)"

text \<open>The value that the text of a flag has, or nothing when it has none: the process exits then.\<close>

definition flag_value :: "'f fl_ops \<Rightarrow> flag_type \<Rightarrow> string \<Rightarrow> 'f scalar option" where
  "flag_value fl ty s =
     (case ty of
        BoolFlag \<Rightarrow> map_option SBool (ParseBool s)
      | IntFlag \<Rightarrow> (case ParseInt 0 s of (v, err) \<Rightarrow> if err then None else Some (SInt v))
      | Int64Flag \<Rightarrow> (case ParseInt 0 s of (v, err) \<Rightarrow> if err then None else Some (SInt v))
      | UintFlag \<Rightarrow> (case ParseUint 0 s of Number n \<Rightarrow> Some (SUint (int n)) | _ \<Rightarrow> None)
      | Uint64Flag \<Rightarrow> (case ParseUint 0 s of Number n \<Rightarrow> Some (SUint (int n)) | _ \<Rightarrow> None)
      | Float64Flag \<Rightarrow> (case fl_ParseFloat fl s of (v, err) \<Rightarrow> if err then None else Some (SFloat v))
      | StringFlag \<Rightarrow> Some (SString s))"

definition give_flag :: "'f fl_ops \<Rightarrow> string \<Rightarrow> flag_type \<Rightarrow> string \<Rightarrow> 'f cmdline \<Rightarrow> 'f cmdline go" where
  "give_flag fl name ty value line =
     (case flag_value fl ty value of
        None \<Rightarrow> Panic ProcessExit
      | Some v \<Rightarrow> Return (line\<lparr>cl_formal := insert_key name (ty, v) (cl_formal line),
          cl_actual := (if name \<in> set (cl_actual line) then cl_actual line else name # cl_actual line)\<rparr>))"

text \<open>
  The arguments up to the first that is no flag. A flag is one or two dashes and a name, its value follows
  an equals sign or, but for a truth value, is the next argument.
\<close>

definition flag_parts :: "string \<Rightarrow> string \<times> string option" where
  "flag_parts name =
     (case cut ''='' (tl name) of
        None \<Rightarrow> (name, None)
      | Some (a, b) \<Rightarrow> (hd name # a, Some b))"

definition parseOne :: "'f fl_ops \<Rightarrow> 'f cmdline \<Rightarrow> string \<Rightarrow> string list \<Rightarrow> ('f cmdline \<times> string list) option go" where
  "parseOne fl line s args =
     (if length s < 2 \<or> hd s \<noteq> CHR ''-'' \<or> s = ''--'' then Return None
      else
        let name = (if s ! 1 = CHR ''-'' then drop 2 s else drop 1 s)
        in if name = [] \<or> hd name = CHR ''-'' \<or> hd name = CHR ''='' then Panic ProcessExit
           else case flag_parts name of
             (name, value) \<Rightarrow>
               (case lookup (cl_formal line) name of
                  None \<Rightarrow> Panic ProcessExit
                | Some (ty, _) \<Rightarrow>
                    (case (value, args) of
                       (Some v, _) \<Rightarrow> go_map (\<lambda>line. Some (line, args)) (give_flag fl name ty v line)
                     | (None, _) \<Rightarrow>
                         if ty = BoolFlag then go_map (\<lambda>line. Some (line, args)) (give_flag fl name ty ''true'' line)
                         else (case args of
                                 [] \<Rightarrow> Panic ProcessExit
                               | v # args \<Rightarrow> go_map (\<lambda>line. Some (line, args)) (give_flag fl name ty v line)))))"

lemma parseOne_args: "parseOne fl line s args = Return (Some (line', args')) \<Longrightarrow> length args' \<le> length args"
  by (auto simp: parseOne_def Let_def go_map_Return_iff split: if_splits prod.splits option.splits list.splits)

function parse_args :: "'f fl_ops \<Rightarrow> string list \<Rightarrow> 'f cmdline \<Rightarrow> 'f cmdline go" where
  "parse_args fl [] line = Return line"
| "parse_args fl (s # args) line =
     go_bind (parseOne fl line s args) (\<lambda>r.
       case r of None \<Rightarrow> Return line | Some (line, args) \<Rightarrow> parse_args fl args line)"
  by pat_completeness auto

termination
  by (relation "measure (\<lambda>(fl, args, line). length args)") (auto dest!: parseOne_args)

text \<open>The flags that were given, in the order of their names, are assigned where their values go.\<close>

definition assign_flag :: "'f cmdline \<Rightarrow> FlagSet \<Rightarrow> 'f conf_value \<Rightarrow> string \<Rightarrow> 'f conf_value" where
  "assign_flag line f conf name =
     (case (lookup f name, lookup (cl_formal line) name) of
        (Some flag, Some (_, v)) \<Rightarrow> assign_at (fg_Value flag) v conf
      | _ \<Rightarrow> conf)"

definition AssignValue :: "'f cmdline \<Rightarrow> FlagSet \<Rightarrow> 'f conf_value \<Rightarrow> 'f conf_value" where
  "AssignValue line f conf = foldl (assign_flag line f) conf (sort (cl_actual line))"

text \<open>
  \<open>Load\<close> fills the global configuration, whatever its receiver is. The file it reads can be given by a
  flag of its own, which it defines each time.
\<close>

definition config_file :: "'f cmdline \<Rightarrow> string \<Rightarrow> string" where
  "config_file line confFile =
     (case lookup (cl_formal line) ''config-file'' of Some (_, SString file) \<Rightarrow> file | _ \<Rightarrow> confFile)"

definition Load :: "'f fl_ops \<Rightarrow> (string \<Rightarrow> ini_file option) \<Rightarrow> string list \<Rightarrow> FlagSet \<Rightarrow> string \<Rightarrow> 'f conf_value \<times> 'f cmdline \<Rightarrow>
    ('f conf_value \<times> 'f cmdline) go" where
  "Load fl ini args f confFile st =
     go_bind (define_flag StringFlag ''config-file'' (SString confFile) (snd st)) (\<lambda>line.
     go_bind (parse_args fl args line) (\<lambda>line.
       go_map (\<lambda>conf. (AssignValue line f conf, line)) (initConf fl (ini (config_file line confFile)) (fst st))))"

end
