(* ===== verification/Api_Config_Correct.thy ===== *)
theory Api_Config_Correct
  imports Api_Config
begin

text \<open>
  Properties of the configuration: filling a structure ends, an item has the value of its flag, else of
  the file, else its default, and what follows for the gateway.
\<close>

section \<open>Filling ends\<close>


lemma fields_go_no_fuel_out:
  assumes "\<And>x. x \<in> set fs \<Longrightarrow> f x \<noteq> OutOfFuel"
  shows "fields_go f fs \<noteq> OutOfFuel"
  using assms
proof (induction fs)
  case (Cons x fs)
  obtain name tag ex v where x: "x = (name, tag, ex, v)" by (metis prod_cases4)
  have "f x \<noteq> OutOfFuel" "fields_go f fs \<noteq> OutOfFuel" using Cons by auto
  then show ?case by (cases "f x"; cases "fields_go f fs") (auto simp: x)
qed simp

definition depths :: "'f field list \<Rightarrow> nat list" where
  "depths fs = map (\<lambda>(name, tag, ex, v). depth v) fs"

lemma depth_Struct [simp]: "depth (Struct name fs) = Suc (foldr max (depths fs) 0)"
  by (simp add: depths_def)

declare depth.simps(1) [simp del]

lemma depth_field: "(name, tag, ex, v) \<in> set fs \<Longrightarrow> depth v \<le> foldr max (depths fs) 0"
  by (induction fs) (auto simp: depths_def)

lemma fields_go_depths:
  assumes "fields_go f fs = Return fs'" and "\<And>name tag ex v v'. (name, tag, ex, v) \<in> set fs \<Longrightarrow> f (name, tag, ex, v) = Return v' \<Longrightarrow> depth v' = depth v"
  shows "depths fs' = depths fs"
  using assms
proof (induction fs arbitrary: fs')
  case (Cons x fs)
  obtain name tag ex v where x: "x = (name, tag, ex, v)" by (metis prod_cases4)
  with Cons.prems(1) obtain v' r where r: "f x = Return v'" "fields_go f fs = Return r" "fs' = (name, tag, ex, v') # r"
    by (cases "fields_go f fs") auto
  have "depths r = depths fs" by (rule Cons.IH [OF r(2)]) (rule Cons.prems(2); simp)
  moreover have "depth v' = depth v" using Cons.prems(2) [of name tag ex v v'] r(1) x by simp
  ultimately show ?case by (simp add: r(3) x depths_def)
qed (simp add: depths_def)

lemma with_fields_depth:
  assumes "with_fields f v = Return v'"
    and "\<And>name tag ex w w'. f (name, tag, ex, w) = Return w' \<Longrightarrow> depth w' = depth w"
  shows "depth v' = depth v"
proof (cases v)
  case (Struct name fs)
  then obtain fs' where "fields_go f fs = Return fs'" "v' = Struct name fs'"
    using assms(1) by (cases "fields_go f fs") (auto simp: with_fields_def)
  with fields_go_depths [OF this(1)] assms(2) Struct show ?thesis by simp
qed (use assms(1) in \<open>auto simp: with_fields_def\<close>)

lemma depth_set_field [simp]: "depth (set_field fl s v) = depth v"
  by (cases v) (auto simp: set_field_def setSlice_def)

lemma parseItems_depth:
  assumes "parseItems sections fl cfg sec settable v = Return v'"
    and "\<And>settable w w'. sections settable w = Return w' \<Longrightarrow> depth w' = depth w"
  shows "depth v' = depth v"
  by (rule with_fields_depth [OF assms(1) [unfolded parseItems_def]]) (auto split: if_splits dest!: assms(2))

lemma parseSections_depth: "parseSections n fl cfg settable v = Return v' \<Longrightarrow> depth v' = depth v"
proof (induction n arbitrary: settable v v')
  case (Suc n)
  have items: "depth u' = depth u" if "parseItems (parseSections n fl cfg) fl cfg sec b u = Return u'" for sec b u u'
    by (rule parseItems_depth [OF that]) (rule Suc.IH)
  show ?case
    by (rule with_fields_depth [OF Suc.prems [unfolded parseSections.simps(2)]])
      (auto split: if_splits dest!: items dest: Suc.IH)
qed simp

lemma with_fields_no_fuel_out:
  assumes "depth v \<le> Suc n" and "\<And>name tag ex w. depth w \<le> n \<Longrightarrow> f (name, tag, ex, w) \<noteq> OutOfFuel"
  shows "with_fields f v \<noteq> OutOfFuel"
proof (cases v)
  case (Struct name fs)
  have "f x \<noteq> OutOfFuel" if "x \<in> set fs" for x
  proof -
    obtain nm t e w where x: "x = (nm, t, e, w)" by (metis prod_cases4)
    with that depth_field [of nm t e w fs] assms(1) Struct have "depth w \<le> n" by simp
    then show ?thesis using assms(2) x by blast
  qed
  with fields_go_no_fuel_out [of fs f] Struct show ?thesis by (cases "fields_go f fs") (auto simp: with_fields_def)
qed (auto simp: with_fields_def)

lemma depth_pos: "0 < depth v"
  by (cases v) auto

lemma parseItems_no_fuel_out:
  assumes "\<And>settable w. depth w \<le> n \<Longrightarrow> sections settable w \<noteq> OutOfFuel" and "depth v \<le> Suc n"
  shows "parseItems sections fl cfg sec settable v \<noteq> OutOfFuel"
  unfolding parseItems_def
proof (rule with_fields_no_fuel_out [OF assms(2)], goal_cases)
  case (1 name tag ex w)
  with assms(1) show ?case by (cases "sections (settable \<and> ex) w") auto
qed

lemma parseSections_no_fuel_out: "depth v \<le> n \<Longrightarrow> parseSections n fl cfg settable v \<noteq> OutOfFuel"
proof (induction n arbitrary: settable v)
  case 0
  with depth_pos [of v] show ?case by simp
next
  case (Suc n)
  show ?case
    unfolding parseSections.simps(2)
  proof (rule with_fields_no_fuel_out [OF Suc.prems], goal_cases)
    case (1 name tag ex w)
    have items: "parseItems (parseSections n fl cfg) fl cfg tag (settable \<and> ex) w' \<noteq> OutOfFuel" if "depth w' \<le> n" for w'
      by (rule parseItems_no_fuel_out [OF Suc.IH]) (use that in auto)
    then show ?case using 1 Suc.IH [OF 1] parseSections_depth [of n fl cfg _ w]
      by (cases "parseSections n fl cfg (settable \<and> ex) w") auto
  qed
qed

lemma initConf_ends: "initConf fl cfg conf \<noteq> OutOfFuel"
  by (simp add: initConf_def parseSections_no_fuel_out)

section \<open>Where a value comes from\<close>

lemma fields_go_lookup:
  assumes "fields_go f fs = Return fs'" and "lookup fs a = Some (tag, ex, v)"
  shows "\<exists>v'. f (a, tag, ex, v) = Return v' \<and> lookup fs' a = Some (tag, ex, v')"
  using assms
proof (induction fs arbitrary: fs')
  case (Cons x fs)
  obtain name t e w where x: "x = (name, t, e, w)" by (metis prod_cases4)
  with Cons.prems(1) obtain w' r where r: "f x = Return w'" "fields_go f fs = Return r" "fs' = (name, t, e, w') # r"
    by (cases "fields_go f fs") auto
  then show ?case using Cons.IH [OF r(2)] Cons.prems(2) x by (auto split: if_splits)
qed simp

lemma with_fields_lookup:
  assumes "with_fields f (Struct name fs) = Return v'" and "lookup fs a = Some (tag, ex, v)"
  shows "\<exists>fs' w. v' = Struct name fs' \<and> f (a, tag, ex, v) = Return w \<and> lookup fs' a = Some (tag, ex, w)"
proof -
  obtain fs' where "fields_go f fs = Return fs'" "v' = Struct name fs'"
    using assms(1) by (cases "fields_go f fs") (auto simp: with_fields_def)
  with fields_go_lookup [OF this(1) assms(2)] show ?thesis by blast
qed

text \<open>An item of a section, with a tag of its own, has the value of the file or the default.\<close>

lemma initConf_item:
  assumes "initConf fl cfg (Struct nm fs) = Return conf"
    and "lookup fs s = Some (sec, True, Struct nm' items)" and "nm' \<noteq> ''FlagSet''" and "sec \<noteq> []"
    and "lookup items i = Some (tag, True, v)" and "tag \<noteq> []"
  shows "field_at [s, i] conf = Some (set_field fl (item_text cfg sec tag) v)"
proof -
  obtain n where init: "parseSections (Suc n) fl cfg True (Struct nm fs) = Return conf"
    using assms(1) by (simp add: initConf_def)
  from with_fields_lookup [OF init [unfolded parseSections.simps(2)] assms(2)] assms(3,4)
  obtain fs' w where conf: "conf = Struct nm fs'" "lookup fs' s = Some (sec, True, w)" and w: "parseItems (parseSections n fl cfg) fl cfg sec True (Struct nm' items) = Return w"
    by (auto simp: is_FlagSet_def)
  from with_fields_lookup [OF w [unfolded parseItems_def] assms(5)] assms(6) conf show ?thesis by auto
qed

lemma assign_lookup:
  "lookup (map (\<lambda>(name, tag, ex, w). (name, tag, ex, if name = a then f w else w)) fs) b =
    map_option (\<lambda>(tag, ex, w). (tag, ex, if b = a then f w else w)) (lookup fs b)"
  by (induction fs) auto

lemma assign_other:
  "p \<noteq> q \<Longrightarrow> field_at q v = Some (Scalar k y) \<Longrightarrow> field_at q (assign_at p x v) = Some (Scalar k y)"
proof (induction p arbitrary: q v)
  case Nil
  then show ?case by (cases q; cases v) auto
next
  case (Cons a p)
  show ?case
  proof (cases q)
    case Nil
    with Cons.prems show ?thesis by simp
  next
    case (Cons b q')
    with Cons.IH Cons.prems show ?thesis by (cases v) (auto simp: assign_lookup split: option.splits)
  qed
qed

lemma assign_same: "field_at p v = Some (Scalar k y) \<Longrightarrow> field_at p (assign_at p x v) = Some (Scalar k x)"
  by (induction p arbitrary: v) (auto simp: assign_lookup split: conf_value.splits option.splits)

text \<open>What the command line gives for a flag whose value goes to a path.\<close>

definition given_value :: "'f cmdline \<Rightarrow> FlagSet \<Rightarrow> path \<Rightarrow> string \<Rightarrow> 'f scalar option" where
  "given_value line f p name =
     (case (lookup f name, lookup (cl_formal line) name) of
        (Some flag, Some (_, v)) \<Rightarrow> if fg_Value flag = p \<and> name \<in> set (cl_actual line) then Some v else None
      | _ \<Rightarrow> None)"

lemma assign_flags:
  assumes "field_at p v = Some (Scalar k y)" and "\<And>n flag. lookup f n = Some flag \<Longrightarrow> fg_Value flag = p \<Longrightarrow> n = name"
    and "set names \<subseteq> set (cl_actual line)"
  shows "field_at p (foldl (assign_flag line f) v names) =
    Some (Scalar k (if name \<in> set names then (case given_value line f p name of Some x \<Rightarrow> x | None \<Rightarrow> y) else y))"
  using assms(1,3)
proof (induction names arbitrary: v y)
  case (Cons n names)
  have "field_at p (assign_flag line f v n) =
      Some (Scalar k (if n = name then (case given_value line f p name of Some x \<Rightarrow> x | None \<Rightarrow> y) else y))"
    using Cons.prems assms(2) [of n]
    by (auto simp: assign_flag_def given_value_def assign_same split: option.splits intro!: assign_other)
  from Cons.IH [OF this] Cons.prems(2) show ?case by (auto split: option.splits)
qed simp

text \<open>
  C33. After a successful start an item of the configuration has the value of the one flag that is meant for
  it, if that was given; else what the file has for its section and key, converted to its kind; else its default.
\<close>

theorem Load_precedence:
  assumes "Load fl ini args f confFile (Struct nm fs, line0) = Return (conf, line)"
    and "lookup fs s = Some (sec, True, Struct nm' items)" and "nm' \<noteq> ''FlagSet''" and "sec \<noteq> []"
    and "lookup items i = Some (tag, True, Scalar k old)" and "tag \<noteq> []"
    and "\<And>n flag. lookup f n = Some flag \<Longrightarrow> fg_Value flag = [s, i] \<Longrightarrow> n = name"
  shows "field_at [s, i] conf = Some (Scalar k (case given_value line f [s, i] name of
       Some v \<Rightarrow> v
     | None \<Rightarrow> scalar_of fl k (item_text (ini (config_file line confFile)) sec tag)))"
proof -
  obtain conf0 where init: "initConf fl (ini (config_file line confFile)) (Struct nm fs) = Return conf0"
    and conf: "conf = foldl (assign_flag line f) conf0 (sort (cl_actual line))"
    using assms(1) by (auto simp: Load_def AssignValue_def go_map_Return_iff)
  have "field_at [s, i] conf0 = Some (Scalar k (scalar_of fl k (item_text (ini (config_file line confFile)) sec tag)))"
    using initConf_item [OF init assms(2-6)] by (simp add: set_field_def)
  from assign_flags [OF this assms(7), where names = "sort (cl_actual line)" and line = line] show ?thesis
    unfolding conf by (auto simp: given_value_def split: option.splits)
qed

text \<open>A configuration of its own: one file, one flag that is given.\<close>

definition no_floats :: "unit fl_ops" where
  "no_floats = \<lparr>fl_ParseFloat = (\<lambda>s. ((), True)), fl_To32 = id, fl_Zero = ()\<rparr>"

definition sample_ini :: "string \<Rightarrow> ini_file option" where
  "sample_ini path =
     (if path = ''my.conf'' then
        Some (\<lambda>sec key. if (sec, key) = (''osdslet'', ''graceful'') then Some ''yes''
                        else if (sec, key) = (''osdslet'', ''auth_strategy'') then Some ''keystone'' else None)
      else None)"

definition sample_flags :: FlagSet where
  "sample_flags = [(''auth'', \<lparr>fg_Value = [''OsdsLet'', ''AuthStrategy'']\<rparr>)]"

definition sample_line :: "unit cmdline" where
  "sample_line = \<lparr>cl_formal = [(''auth'', (StringFlag, SString []))], cl_actual = []\<rparr>"

definition sample_args :: "string list" where
  "sample_args = [''--config-file'', ''my.conf'', ''-auth=none'']"

theorem Load_precedence_witness:
  "\<exists>conf line. Load no_floats sample_ini sample_args sample_flags ''other.conf'' (new_Config, sample_line) = Return (conf, line) \<and>
    field_at [''OsdsLet'', ''AuthStrategy''] conf = Some (Scalar KString (SString ''none''))"
proof -
  let ?run = "Load no_floats sample_ini sample_args sample_flags ''other.conf'' (new_Config, sample_line)"
  have "case ?run of Return (conf, line) \<Rightarrow> given_value line sample_flags [''OsdsLet'', ''AuthStrategy''] ''auth'' = Some (SString ''none'') | _ \<Rightarrow> False"
    by code_simp
  then obtain conf line where run: "?run = Return (conf, line)"
    and given: "given_value line sample_flags [''OsdsLet'', ''AuthStrategy''] ''auth'' = Some (SString ''none'')"
    by (auto split: go.splits prod.splits)
  have "field_at [''OsdsLet'', ''AuthStrategy''] conf = Some (Scalar KString (case given_value line sample_flags [''OsdsLet'', ''AuthStrategy''] ''auth'' of
       Some v \<Rightarrow> v
     | None \<Rightarrow> scalar_of no_floats KString (item_text (sample_ini (config_file line ''other.conf'')) ''osdslet'' ''auth_strategy,noauth'')))"
    by (rule Load_precedence [OF run [unfolded new_Config_def], where nm' = "''OsdsLet''" and old = "SString []"])
      (auto simp: new_OsdsLet_def sample_flags_def split: if_splits)
  with run given show ?thesis by simp
qed

text \<open>A truth value that cannot be read is false, whatever its default is: no error is reported.\<close>

lemma sample_config:
  "case Load no_floats sample_ini sample_args sample_flags ''other.conf'' (new_Config, sample_line) of
     Return (conf, line) \<Rightarrow>
       field_at [''OsdsLet'', ''Graceful''] conf = Some (Scalar KBool (SBool False)) \<and>
       field_at [''OsdsLet'', ''PolicyPath''] conf = Some (Scalar KString (SString ''/etc/opensds/policy.json'')) \<and>
       field_at [''Database'', ''Endpoint''] conf = Some (Scalar KString (SString ''localhost:2379,localhost:2380''))
   | _ \<Rightarrow> False"
  by code_simp

text \<open>A configuration can be loaded only once: the flag for its file is defined each time.\<close>

lemma define_flag_known: "lookup (cl_formal line) name \<noteq> None \<Longrightarrow> define_flag ty name v line = Panic (Raised ''flag redefined'')"
  by (simp add: define_flag_def)

lemma give_flag_keeps:
  "give_flag fl name ty value line = Return line' \<Longrightarrow> lookup (cl_formal line) x \<noteq> None \<Longrightarrow> lookup (cl_formal line') x \<noteq> None"
  by (auto simp: give_flag_def split: option.splits)

lemma parseOne_keeps:
  "parseOne fl line s args = Return (Some (line', args')) \<Longrightarrow> lookup (cl_formal line) x \<noteq> None \<Longrightarrow> lookup (cl_formal line') x \<noteq> None"
  by (auto simp: parseOne_def Let_def go_map_Return_iff split: if_splits prod.splits option.splits list.splits dest!: give_flag_keeps)

lemma parse_args_keeps:
  "parse_args fl args line = Return line' \<Longrightarrow> lookup (cl_formal line) x \<noteq> None \<Longrightarrow> lookup (cl_formal line') x \<noteq> None"
proof (induction fl args line rule: parse_args.induct)
  case (2 fl s args line)
  then obtain r where r: "parseOne fl line s args = Return r" by auto
  show ?case
  proof (cases r)
    case None
    with 2 r show ?thesis by simp
  next
    case (Some st)
    obtain line2 args2 where st: "st = (line2, args2)" by fastforce
    have step: "parseOne fl line s args = Return (Some (line2, args2))" using r Some st by simp
    have "parse_args fl args2 line2 = Return line'" using 2(2) step by simp
    from 2(1) [OF r Some st [symmetric] this parseOne_keeps [OF step 2(3)]] show ?thesis .
  qed
qed simp

lemma second_Load_panics:
  assumes "Load fl ini args f confFile st = Return st'"
  shows "Load fl' ini' args' f' confFile' st' = Panic (Raised ''flag redefined'')"
proof -
  obtain line where "define_flag StringFlag ''config-file'' (SString confFile) (snd st) = Return line"
    and parsed: "parse_args fl args line = Return (snd st')"
    using assms by (auto simp: Load_def go_map_Return_iff)
  then have "lookup (cl_formal line) ''config-file'' \<noteq> None" by (auto simp: define_flag_def split: if_splits)
  from parse_args_keeps [OF parsed this] show ?thesis by (simp add: Load_def define_flag_known)
qed

section \<open>The gateway\<close>

text \<open>The path of the policies that the gateway uses, which never loads another configuration.\<close>

lemma default_policy_path:
  "\<exists>conf. GetDefaultConfig fl = Return conf \<and>
    field_at [''OsdsLet'', ''PolicyPath''] conf = Some (Scalar KString (SString ''/etc/opensds/policy.json''))"
proof -
  have "\<exists>conf. initConf fl None new_Config = Return conf"
    by (simp add: initConf_def new_Config_def new_Default_def new_OsdsLet_def new_OsdsDock_def new_Backends_def new_BackendProperties_def
        new_Database_def new_KeystoneAuthToken_def depths_def depth.simps(2-) with_fields_def is_FlagSet_def parseItems_def)
  then obtain conf where init: "initConf fl None new_Config = Return conf" by blast
  have "item_text None ''osdslet'' ''policy_path,/etc/opensds/policy.json'' = ''/etc/opensds/policy.json''" by code_simp
  then have "field_at [''OsdsLet'', ''PolicyPath''] conf = Some (Scalar KString (SString ''/etc/opensds/policy.json''))"
    using initConf_item [OF init [unfolded new_Config_def], of "''OsdsLet''" "''osdslet''" "''OsdsLet''" _ "''PolicyPath''"]
    by (simp add: new_OsdsLet_def set_field_def)
  with init show ?thesis by (simp add: GetDefaultConfig_def)
qed

end
