(* ===== verification/Rpc_Services.thy ===== *)
theory Rpc_Services
  imports Api_Handlers
begin

text \<open>
  Calls between the services (\<open>*.micro.go\<close> in the \<open>proto\<close> directories): for each of the three services the
  client that its callers hold, one function per call, and the handlers the service registers, each under
  the name of its call. A message is named by its call and has what the handlers of the model read. The
  framework is a parameter, the record \<open>micro_client\<close>: a call goes to a service and to one of its endpoints
  with a message, and gives a message or an error; \<open>mc_BadReply\<close> is its error for a message of another type.
  How often the framework sends a message, how long it waits and what it makes of an error of the
  handler is its own, so nothing is stated here of a call from end to end.
\<close>

section \<open>The framework\<close>

record ('s, 'm, 'r, 'e) micro_client =
  mc_Call :: "string \<Rightarrow> string \<Rightarrow> 'm \<Rightarrow> ('s, 'e + 'r) prog"
  mc_BadReply :: 'e

definition read_reply :: "('r \<Rightarrow> 'a option) \<Rightarrow> 'e \<Rightarrow> 'e + 'r \<Rightarrow> 'e + 'a" where
  "read_reply out bad r =
     (case r of
        Inl err \<Rightarrow> Inl err
      | Inr resp \<Rightarrow> (case out resp of Some a \<Rightarrow> Inr a | None \<Rightarrow> Inl bad))"

definition stub :: "('s, 'm, 'r, 'e) micro_client \<Rightarrow> string \<Rightarrow> string \<Rightarrow> 'm \<Rightarrow> ('r \<Rightarrow> 'a option) \<Rightarrow> ('s, 'e + 'a) prog" where
  "stub mc name endpoint m out =
     call (mc_Call mc name endpoint m) (\<lambda>r. ret (read_reply out (mc_BadReply mc) r))"

definition reply :: "('a \<Rightarrow> 'r) \<Rightarrow> ('s, 'e + 'a) prog \<Rightarrow> ('s, 'e + 'r) prog" where
  "reply con m = call m (\<lambda>r. ret (map_sum id con r))"

section \<open>The dataflow service\<close>

datatype df_request =
    GetPolicyRequest string string
  | ListPolicyRequest string
  | CreatePolicyRequest string "PolicyMsg option"
  | UpdatePolicyRequest string string string
  | DeletePolicyRequest string string
  | GetPlanRequest string string
  | ListPlanRequest string int int "string list" "string list" "(string, string) gomap"
  | CreatePlanRequest string "PlanMsg option"
  | UpdatePlanRequest string string string
  | DeletePlanRequest string string
  | RunPlanRequest string string
  | GetJobRequest string string
  | ListJobRequest string int int "string list" "string list" "(string, string) gomap"

datatype df_reply =
    GetPolicyResponse "PolicyMsg option response"
  | ListPolicyResponse "PolicyMsg list response"
  | CreatePolicyResponse "PolicyMsg option response"
  | UpdatePolicyResponse "PolicyMsg option response"
  | DeletePolicyResponse "unit response"
  | GetPlanResponse "PlanMsg option response"
  | ListPlanResponse "(PlanMsg list \<times> int) response"
  | CreatePlanResponse "PlanMsg option response"
  | UpdatePlanResponse "PlanMsg option response"
  | DeletePlanResponse "unit response"
  | RunPlanResponse "string response"
  | GetJobResponse "JobMsg option response"
  | ListJobResponse "(JobMsg list \<times> int) response"

definition dfc_GetPolicy :: "('s, df_request, df_reply, df_err) micro_client \<Rightarrow> string \<Rightarrow> string \<Rightarrow> string \<Rightarrow>
    ('s, df_err + PolicyMsg option response) prog" where
  "dfc_GetPolicy mc name a b =
     stub mc name ''DataFlow.GetPolicy'' (GetPolicyRequest a b) (\<lambda>r. case r of GetPolicyResponse out \<Rightarrow> Some out | _ \<Rightarrow> None)"

definition dfc_ListPolicy :: "('s, df_request, df_reply, df_err) micro_client \<Rightarrow> string \<Rightarrow> string \<Rightarrow>
    ('s, df_err + PolicyMsg list response) prog" where
  "dfc_ListPolicy mc name a =
     stub mc name ''DataFlow.ListPolicy'' (ListPolicyRequest a) (\<lambda>r. case r of ListPolicyResponse out \<Rightarrow> Some out | _ \<Rightarrow> None)"

definition dfc_CreatePolicy :: "('s, df_request, df_reply, df_err) micro_client \<Rightarrow> string \<Rightarrow> string \<Rightarrow> PolicyMsg option \<Rightarrow>
    ('s, df_err + PolicyMsg option response) prog" where
  "dfc_CreatePolicy mc name a b =
     stub mc name ''DataFlow.CreatePolicy'' (CreatePolicyRequest a b) (\<lambda>r. case r of CreatePolicyResponse out \<Rightarrow> Some out | _ \<Rightarrow> None)"

definition dfc_UpdatePolicy :: "('s, df_request, df_reply, df_err) micro_client \<Rightarrow> string \<Rightarrow> string \<Rightarrow> string \<Rightarrow> string \<Rightarrow>
    ('s, df_err + PolicyMsg option response) prog" where
  "dfc_UpdatePolicy mc name a b c =
     stub mc name ''DataFlow.UpdatePolicy'' (UpdatePolicyRequest a b c) (\<lambda>r. case r of UpdatePolicyResponse out \<Rightarrow> Some out | _ \<Rightarrow> None)"

definition dfc_DeletePolicy :: "('s, df_request, df_reply, df_err) micro_client \<Rightarrow> string \<Rightarrow> string \<Rightarrow> string \<Rightarrow>
    ('s, df_err + unit response) prog" where
  "dfc_DeletePolicy mc name a b =
     stub mc name ''DataFlow.DeletePolicy'' (DeletePolicyRequest a b) (\<lambda>r. case r of DeletePolicyResponse out \<Rightarrow> Some out | _ \<Rightarrow> None)"

definition dfc_GetPlan :: "('s, df_request, df_reply, df_err) micro_client \<Rightarrow> string \<Rightarrow> string \<Rightarrow> string \<Rightarrow>
    ('s, df_err + PlanMsg option response) prog" where
  "dfc_GetPlan mc name a b =
     stub mc name ''DataFlow.GetPlan'' (GetPlanRequest a b) (\<lambda>r. case r of GetPlanResponse out \<Rightarrow> Some out | _ \<Rightarrow> None)"

definition dfc_ListPlan :: "('s, df_request, df_reply, df_err) micro_client \<Rightarrow> string \<Rightarrow> string \<Rightarrow> int \<Rightarrow> int \<Rightarrow> string list \<Rightarrow> string list \<Rightarrow> (string, string) gomap \<Rightarrow>
    ('s, df_err + (PlanMsg list \<times> int) response) prog" where
  "dfc_ListPlan mc name a b c d e f =
     stub mc name ''DataFlow.ListPlan'' (ListPlanRequest a b c d e f) (\<lambda>r. case r of ListPlanResponse out \<Rightarrow> Some out | _ \<Rightarrow> None)"

definition dfc_CreatePlan :: "('s, df_request, df_reply, df_err) micro_client \<Rightarrow> string \<Rightarrow> string \<Rightarrow> PlanMsg option \<Rightarrow>
    ('s, df_err + PlanMsg option response) prog" where
  "dfc_CreatePlan mc name a b =
     stub mc name ''DataFlow.CreatePlan'' (CreatePlanRequest a b) (\<lambda>r. case r of CreatePlanResponse out \<Rightarrow> Some out | _ \<Rightarrow> None)"

definition dfc_UpdatePlan :: "('s, df_request, df_reply, df_err) micro_client \<Rightarrow> string \<Rightarrow> string \<Rightarrow> string \<Rightarrow> string \<Rightarrow>
    ('s, df_err + PlanMsg option response) prog" where
  "dfc_UpdatePlan mc name a b c =
     stub mc name ''DataFlow.UpdatePlan'' (UpdatePlanRequest a b c) (\<lambda>r. case r of UpdatePlanResponse out \<Rightarrow> Some out | _ \<Rightarrow> None)"

definition dfc_DeletePlan :: "('s, df_request, df_reply, df_err) micro_client \<Rightarrow> string \<Rightarrow> string \<Rightarrow> string \<Rightarrow>
    ('s, df_err + unit response) prog" where
  "dfc_DeletePlan mc name a b =
     stub mc name ''DataFlow.DeletePlan'' (DeletePlanRequest a b) (\<lambda>r. case r of DeletePlanResponse out \<Rightarrow> Some out | _ \<Rightarrow> None)"

definition dfc_RunPlan :: "('s, df_request, df_reply, df_err) micro_client \<Rightarrow> string \<Rightarrow> string \<Rightarrow> string \<Rightarrow>
    ('s, df_err + string response) prog" where
  "dfc_RunPlan mc name a b =
     stub mc name ''DataFlow.RunPlan'' (RunPlanRequest a b) (\<lambda>r. case r of RunPlanResponse out \<Rightarrow> Some out | _ \<Rightarrow> None)"

definition dfc_GetJob :: "('s, df_request, df_reply, df_err) micro_client \<Rightarrow> string \<Rightarrow> string \<Rightarrow> string \<Rightarrow>
    ('s, df_err + JobMsg option response) prog" where
  "dfc_GetJob mc name a b =
     stub mc name ''DataFlow.GetJob'' (GetJobRequest a b) (\<lambda>r. case r of GetJobResponse out \<Rightarrow> Some out | _ \<Rightarrow> None)"

definition dfc_ListJob :: "('s, df_request, df_reply, df_err) micro_client \<Rightarrow> string \<Rightarrow> string \<Rightarrow> int \<Rightarrow> int \<Rightarrow> string list \<Rightarrow> string list \<Rightarrow> (string, string) gomap \<Rightarrow>
    ('s, df_err + (JobMsg list \<times> int) response) prog" where
  "dfc_ListJob mc name a b c d e f =
     stub mc name ''DataFlow.ListJob'' (ListJobRequest a b c d e f) (\<lambda>r. case r of ListJobResponse out \<Rightarrow> Some out | _ \<Rightarrow> None)"

definition NewDataFlowService :: "string \<Rightarrow> ('s, df_request, df_reply, df_err) micro_client \<Rightarrow> 's dataflow_client" where
  "NewDataFlowService name mc =
     (let name = (if name = [] then ''dataflow'' else name)
      in \<lparr>dc_GetPolicy = dfc_GetPolicy mc name,
          dc_ListPolicy = dfc_ListPolicy mc name,
          dc_CreatePolicy = dfc_CreatePolicy mc name,
          dc_UpdatePolicy = dfc_UpdatePolicy mc name,
          dc_DeletePolicy = dfc_DeletePolicy mc name,
          dc_GetPlan = dfc_GetPlan mc name,
          dc_ListPlan = dfc_ListPlan mc name,
          dc_CreatePlan = dfc_CreatePlan mc name,
          dc_UpdatePlan = dfc_UpdatePlan mc name,
          dc_DeletePlan = dfc_DeletePlan mc name,
          dc_RunPlan = dfc_RunPlan mc name,
          dc_GetJob = dfc_GetJob mc name,
          dc_ListJob = dfc_ListJob mc name\<rparr>)"

definition dfh_GetPolicy :: "df_err \<Rightarrow> 's dataflow_client \<Rightarrow> df_request \<Rightarrow> ('s, df_err + df_reply) prog" where
  "dfh_GetPolicy bad h m =
     (case m of GetPolicyRequest a b \<Rightarrow> reply GetPolicyResponse (dc_GetPolicy h a b) | _ \<Rightarrow> ret (Inl bad))"

definition dfh_ListPolicy :: "df_err \<Rightarrow> 's dataflow_client \<Rightarrow> df_request \<Rightarrow> ('s, df_err + df_reply) prog" where
  "dfh_ListPolicy bad h m =
     (case m of ListPolicyRequest a \<Rightarrow> reply ListPolicyResponse (dc_ListPolicy h a) | _ \<Rightarrow> ret (Inl bad))"

definition dfh_CreatePolicy :: "df_err \<Rightarrow> 's dataflow_client \<Rightarrow> df_request \<Rightarrow> ('s, df_err + df_reply) prog" where
  "dfh_CreatePolicy bad h m =
     (case m of CreatePolicyRequest a b \<Rightarrow> reply CreatePolicyResponse (dc_CreatePolicy h a b) | _ \<Rightarrow> ret (Inl bad))"

definition dfh_UpdatePolicy :: "df_err \<Rightarrow> 's dataflow_client \<Rightarrow> df_request \<Rightarrow> ('s, df_err + df_reply) prog" where
  "dfh_UpdatePolicy bad h m =
     (case m of UpdatePolicyRequest a b c \<Rightarrow> reply UpdatePolicyResponse (dc_UpdatePolicy h a b c) | _ \<Rightarrow> ret (Inl bad))"

definition dfh_DeletePolicy :: "df_err \<Rightarrow> 's dataflow_client \<Rightarrow> df_request \<Rightarrow> ('s, df_err + df_reply) prog" where
  "dfh_DeletePolicy bad h m =
     (case m of DeletePolicyRequest a b \<Rightarrow> reply DeletePolicyResponse (dc_DeletePolicy h a b) | _ \<Rightarrow> ret (Inl bad))"

definition dfh_GetPlan :: "df_err \<Rightarrow> 's dataflow_client \<Rightarrow> df_request \<Rightarrow> ('s, df_err + df_reply) prog" where
  "dfh_GetPlan bad h m =
     (case m of GetPlanRequest a b \<Rightarrow> reply GetPlanResponse (dc_GetPlan h a b) | _ \<Rightarrow> ret (Inl bad))"

definition dfh_ListPlan :: "df_err \<Rightarrow> 's dataflow_client \<Rightarrow> df_request \<Rightarrow> ('s, df_err + df_reply) prog" where
  "dfh_ListPlan bad h m =
     (case m of ListPlanRequest a b c d e f \<Rightarrow> reply ListPlanResponse (dc_ListPlan h a b c d e f) | _ \<Rightarrow> ret (Inl bad))"

definition dfh_CreatePlan :: "df_err \<Rightarrow> 's dataflow_client \<Rightarrow> df_request \<Rightarrow> ('s, df_err + df_reply) prog" where
  "dfh_CreatePlan bad h m =
     (case m of CreatePlanRequest a b \<Rightarrow> reply CreatePlanResponse (dc_CreatePlan h a b) | _ \<Rightarrow> ret (Inl bad))"

definition dfh_UpdatePlan :: "df_err \<Rightarrow> 's dataflow_client \<Rightarrow> df_request \<Rightarrow> ('s, df_err + df_reply) prog" where
  "dfh_UpdatePlan bad h m =
     (case m of UpdatePlanRequest a b c \<Rightarrow> reply UpdatePlanResponse (dc_UpdatePlan h a b c) | _ \<Rightarrow> ret (Inl bad))"

definition dfh_DeletePlan :: "df_err \<Rightarrow> 's dataflow_client \<Rightarrow> df_request \<Rightarrow> ('s, df_err + df_reply) prog" where
  "dfh_DeletePlan bad h m =
     (case m of DeletePlanRequest a b \<Rightarrow> reply DeletePlanResponse (dc_DeletePlan h a b) | _ \<Rightarrow> ret (Inl bad))"

definition dfh_RunPlan :: "df_err \<Rightarrow> 's dataflow_client \<Rightarrow> df_request \<Rightarrow> ('s, df_err + df_reply) prog" where
  "dfh_RunPlan bad h m =
     (case m of RunPlanRequest a b \<Rightarrow> reply RunPlanResponse (dc_RunPlan h a b) | _ \<Rightarrow> ret (Inl bad))"

definition dfh_GetJob :: "df_err \<Rightarrow> 's dataflow_client \<Rightarrow> df_request \<Rightarrow> ('s, df_err + df_reply) prog" where
  "dfh_GetJob bad h m =
     (case m of GetJobRequest a b \<Rightarrow> reply GetJobResponse (dc_GetJob h a b) | _ \<Rightarrow> ret (Inl bad))"

definition dfh_ListJob :: "df_err \<Rightarrow> 's dataflow_client \<Rightarrow> df_request \<Rightarrow> ('s, df_err + df_reply) prog" where
  "dfh_ListJob bad h m =
     (case m of ListJobRequest a b c d e f \<Rightarrow> reply ListJobResponse (dc_ListJob h a b c d e f) | _ \<Rightarrow> ret (Inl bad))"

definition RegisterDataFlowHandler :: "df_err \<Rightarrow> 's dataflow_client \<Rightarrow> (string, df_request \<Rightarrow> ('s, df_err + df_reply) prog) gomap" where
  "RegisterDataFlowHandler bad h =
     [(''DataFlow.GetPolicy'', dfh_GetPolicy bad h),
      (''DataFlow.ListPolicy'', dfh_ListPolicy bad h),
      (''DataFlow.CreatePolicy'', dfh_CreatePolicy bad h),
      (''DataFlow.UpdatePolicy'', dfh_UpdatePolicy bad h),
      (''DataFlow.DeletePolicy'', dfh_DeletePolicy bad h),
      (''DataFlow.GetPlan'', dfh_GetPlan bad h),
      (''DataFlow.ListPlan'', dfh_ListPlan bad h),
      (''DataFlow.CreatePlan'', dfh_CreatePlan bad h),
      (''DataFlow.UpdatePlan'', dfh_UpdatePlan bad h),
      (''DataFlow.DeletePlan'', dfh_DeletePlan bad h),
      (''DataFlow.RunPlan'', dfh_RunPlan bad h),
      (''DataFlow.GetJob'', dfh_GetJob bad h),
      (''DataFlow.ListJob'', dfh_ListJob bad h)]"

section \<open>The backend service\<close>

datatype bk_request =
    GetBackendRequest string
  | ListBackendRequest int int "string list" "string list" "(string, string) gomap"
  | CreateBackendRequest "Backend option"
  | UpdateBackendRequest string string string
  | DeleteBackendRequest string
  | ListTypeRequest int int "string list" "string list" "(string, string) gomap"

datatype bk_reply =
    GetBackendResponse Backend
  | ListBackendResponse "Backend list \<times> int"
  | CreateBackendResponse Backend
  | UpdateBackendResponse Backend
  | DeleteBackendResponse unit
  | ListTypeResponse "(string \<times> string) list \<times> int"

definition bkc_GetBackend :: "('s, bk_request, bk_reply, df_err) micro_client \<Rightarrow> string \<Rightarrow> string \<Rightarrow>
    ('s, df_err + Backend) prog" where
  "bkc_GetBackend mc name a =
     stub mc name ''Backend.GetBackend'' (GetBackendRequest a) (\<lambda>r. case r of GetBackendResponse out \<Rightarrow> Some out | _ \<Rightarrow> None)"

definition bkc_ListBackend :: "('s, bk_request, bk_reply, df_err) micro_client \<Rightarrow> string \<Rightarrow> int \<Rightarrow> int \<Rightarrow> string list \<Rightarrow> string list \<Rightarrow> (string, string) gomap \<Rightarrow>
    ('s, df_err + (Backend list \<times> int)) prog" where
  "bkc_ListBackend mc name a b c d e =
     stub mc name ''Backend.ListBackend'' (ListBackendRequest a b c d e) (\<lambda>r. case r of ListBackendResponse out \<Rightarrow> Some out | _ \<Rightarrow> None)"

definition bkc_CreateBackend :: "('s, bk_request, bk_reply, df_err) micro_client \<Rightarrow> string \<Rightarrow> Backend option \<Rightarrow>
    ('s, df_err + Backend) prog" where
  "bkc_CreateBackend mc name a =
     stub mc name ''Backend.CreateBackend'' (CreateBackendRequest a) (\<lambda>r. case r of CreateBackendResponse out \<Rightarrow> Some out | _ \<Rightarrow> None)"

definition bkc_UpdateBackend :: "('s, bk_request, bk_reply, df_err) micro_client \<Rightarrow> string \<Rightarrow> string \<Rightarrow> string \<Rightarrow> string \<Rightarrow>
    ('s, df_err + Backend) prog" where
  "bkc_UpdateBackend mc name a b c =
     stub mc name ''Backend.UpdateBackend'' (UpdateBackendRequest a b c) (\<lambda>r. case r of UpdateBackendResponse out \<Rightarrow> Some out | _ \<Rightarrow> None)"

definition bkc_DeleteBackend :: "('s, bk_request, bk_reply, df_err) micro_client \<Rightarrow> string \<Rightarrow> string \<Rightarrow>
    ('s, df_err + unit) prog" where
  "bkc_DeleteBackend mc name a =
     stub mc name ''Backend.DeleteBackend'' (DeleteBackendRequest a) (\<lambda>r. case r of DeleteBackendResponse out \<Rightarrow> Some out | _ \<Rightarrow> None)"

definition bkc_ListType :: "('s, bk_request, bk_reply, df_err) micro_client \<Rightarrow> string \<Rightarrow> int \<Rightarrow> int \<Rightarrow> string list \<Rightarrow> string list \<Rightarrow> (string, string) gomap \<Rightarrow>
    ('s, df_err + ((string \<times> string) list \<times> int)) prog" where
  "bkc_ListType mc name a b c d e =
     stub mc name ''Backend.ListType'' (ListTypeRequest a b c d e) (\<lambda>r. case r of ListTypeResponse out \<Rightarrow> Some out | _ \<Rightarrow> None)"

definition NewBackendService :: "string \<Rightarrow> ('s, bk_request, bk_reply, df_err) micro_client \<Rightarrow> 's backend_client" where
  "NewBackendService name mc =
     (let name = (if name = [] then ''backend'' else name)
      in \<lparr>bc_GetBackend = bkc_GetBackend mc name,
          bc_ListBackend = bkc_ListBackend mc name,
          bc_CreateBackend = bkc_CreateBackend mc name,
          bc_UpdateBackend = bkc_UpdateBackend mc name,
          bc_DeleteBackend = bkc_DeleteBackend mc name,
          bc_ListType = bkc_ListType mc name\<rparr>)"

definition bkh_GetBackend :: "df_err \<Rightarrow> 's backend_client \<Rightarrow> bk_request \<Rightarrow> ('s, df_err + bk_reply) prog" where
  "bkh_GetBackend bad h m =
     (case m of GetBackendRequest a \<Rightarrow> reply GetBackendResponse (bc_GetBackend h a) | _ \<Rightarrow> ret (Inl bad))"

definition bkh_ListBackend :: "df_err \<Rightarrow> 's backend_client \<Rightarrow> bk_request \<Rightarrow> ('s, df_err + bk_reply) prog" where
  "bkh_ListBackend bad h m =
     (case m of ListBackendRequest a b c d e \<Rightarrow> reply ListBackendResponse (bc_ListBackend h a b c d e) | _ \<Rightarrow> ret (Inl bad))"

definition bkh_CreateBackend :: "df_err \<Rightarrow> 's backend_client \<Rightarrow> bk_request \<Rightarrow> ('s, df_err + bk_reply) prog" where
  "bkh_CreateBackend bad h m =
     (case m of CreateBackendRequest a \<Rightarrow> reply CreateBackendResponse (bc_CreateBackend h a) | _ \<Rightarrow> ret (Inl bad))"

definition bkh_UpdateBackend :: "df_err \<Rightarrow> 's backend_client \<Rightarrow> bk_request \<Rightarrow> ('s, df_err + bk_reply) prog" where
  "bkh_UpdateBackend bad h m =
     (case m of UpdateBackendRequest a b c \<Rightarrow> reply UpdateBackendResponse (bc_UpdateBackend h a b c) | _ \<Rightarrow> ret (Inl bad))"

definition bkh_DeleteBackend :: "df_err \<Rightarrow> 's backend_client \<Rightarrow> bk_request \<Rightarrow> ('s, df_err + bk_reply) prog" where
  "bkh_DeleteBackend bad h m =
     (case m of DeleteBackendRequest a \<Rightarrow> reply DeleteBackendResponse (bc_DeleteBackend h a) | _ \<Rightarrow> ret (Inl bad))"

definition bkh_ListType :: "df_err \<Rightarrow> 's backend_client \<Rightarrow> bk_request \<Rightarrow> ('s, df_err + bk_reply) prog" where
  "bkh_ListType bad h m =
     (case m of ListTypeRequest a b c d e \<Rightarrow> reply ListTypeResponse (bc_ListType h a b c d e) | _ \<Rightarrow> ret (Inl bad))"

definition RegisterBackendHandler :: "df_err \<Rightarrow> 's backend_client \<Rightarrow> (string, bk_request \<Rightarrow> ('s, df_err + bk_reply) prog) gomap" where
  "RegisterBackendHandler bad h =
     [(''Backend.GetBackend'', bkh_GetBackend bad h),
      (''Backend.ListBackend'', bkh_ListBackend bad h),
      (''Backend.CreateBackend'', bkh_CreateBackend bad h),
      (''Backend.UpdateBackend'', bkh_UpdateBackend bad h),
      (''Backend.DeleteBackend'', bkh_DeleteBackend bad h),
      (''Backend.ListType'', bkh_ListType bad h)]"

section \<open>The metadata service\<close>

record 's s3_client =
  sc_ListBuckets :: "string \<Rightarrow> ('s, string + Bucket list) prog"
  sc_CreateBucket :: "Bucket \<Rightarrow> ('s, string + string) prog"
  sc_DeleteBucket :: "string \<Rightarrow> ('s, string + string) prog"
  sc_GetBucket :: "string \<Rightarrow> ('s, string + Bucket) prog"
  sc_ListObjects :: "string \<Rightarrow> ('s, string + Object list) prog"
  sc_CreateObject :: "Object \<Rightarrow> ('s, string + string) prog"
  sc_UpdateObject :: "Object \<Rightarrow> ('s, string + string) prog"
  sc_GetObject :: "string \<Rightarrow> string \<Rightarrow> ('s, string + Object) prog"
  sc_DeleteObject :: "string \<Rightarrow> string \<Rightarrow> ('s, string + string) prog"

definition s3_client_of :: "'s mgo_ops \<Rightarrow> 's s3_client" where
  "s3_client_of ops = \<lparr>
     sc_ListBuckets = svc_ListBuckets ops,
     sc_CreateBucket = svc_CreateBucket ops,
     sc_DeleteBucket = svc_DeleteBucket ops,
     sc_GetBucket = svc_GetBucket ops,
     sc_ListObjects = svc_ListObjects ops,
     sc_CreateObject = svc_CreateObject ops,
     sc_UpdateObject = svc_UpdateObject ops,
     sc_GetObject = svc_GetObject ops,
     sc_DeleteObject = svc_DeleteObject ops\<rparr>"

datatype s3_request =
    ListBucketsS3Request string
  | CreateBucketS3Request Bucket
  | DeleteBucketS3Request string
  | GetBucketS3Request string
  | ListObjectsS3Request string
  | CreateObjectS3Request Object
  | UpdateObjectS3Request Object
  | GetObjectS3Request string string
  | DeleteObjectS3Request string string

datatype s3_reply =
    ListBucketsS3Response "Bucket list"
  | CreateBucketS3Response string
  | DeleteBucketS3Response string
  | GetBucketS3Response Bucket
  | ListObjectsS3Response "Object list"
  | CreateObjectS3Response string
  | UpdateObjectS3Response string
  | GetObjectS3Response Object
  | DeleteObjectS3Response string

definition s3c_ListBuckets :: "('s, s3_request, s3_reply, string) micro_client \<Rightarrow> string \<Rightarrow> string \<Rightarrow>
    ('s, string + Bucket list) prog" where
  "s3c_ListBuckets mc name a =
     stub mc name ''S3.ListBuckets'' (ListBucketsS3Request a) (\<lambda>r. case r of ListBucketsS3Response out \<Rightarrow> Some out | _ \<Rightarrow> None)"

definition s3c_CreateBucket :: "('s, s3_request, s3_reply, string) micro_client \<Rightarrow> string \<Rightarrow> Bucket \<Rightarrow>
    ('s, string + string) prog" where
  "s3c_CreateBucket mc name a =
     stub mc name ''S3.CreateBucket'' (CreateBucketS3Request a) (\<lambda>r. case r of CreateBucketS3Response out \<Rightarrow> Some out | _ \<Rightarrow> None)"

definition s3c_DeleteBucket :: "('s, s3_request, s3_reply, string) micro_client \<Rightarrow> string \<Rightarrow> string \<Rightarrow>
    ('s, string + string) prog" where
  "s3c_DeleteBucket mc name a =
     stub mc name ''S3.DeleteBucket'' (DeleteBucketS3Request a) (\<lambda>r. case r of DeleteBucketS3Response out \<Rightarrow> Some out | _ \<Rightarrow> None)"

definition s3c_GetBucket :: "('s, s3_request, s3_reply, string) micro_client \<Rightarrow> string \<Rightarrow> string \<Rightarrow>
    ('s, string + Bucket) prog" where
  "s3c_GetBucket mc name a =
     stub mc name ''S3.GetBucket'' (GetBucketS3Request a) (\<lambda>r. case r of GetBucketS3Response out \<Rightarrow> Some out | _ \<Rightarrow> None)"

definition s3c_ListObjects :: "('s, s3_request, s3_reply, string) micro_client \<Rightarrow> string \<Rightarrow> string \<Rightarrow>
    ('s, string + Object list) prog" where
  "s3c_ListObjects mc name a =
     stub mc name ''S3.ListObjects'' (ListObjectsS3Request a) (\<lambda>r. case r of ListObjectsS3Response out \<Rightarrow> Some out | _ \<Rightarrow> None)"

definition s3c_CreateObject :: "('s, s3_request, s3_reply, string) micro_client \<Rightarrow> string \<Rightarrow> Object \<Rightarrow>
    ('s, string + string) prog" where
  "s3c_CreateObject mc name a =
     stub mc name ''S3.CreateObject'' (CreateObjectS3Request a) (\<lambda>r. case r of CreateObjectS3Response out \<Rightarrow> Some out | _ \<Rightarrow> None)"

definition s3c_UpdateObject :: "('s, s3_request, s3_reply, string) micro_client \<Rightarrow> string \<Rightarrow> Object \<Rightarrow>
    ('s, string + string) prog" where
  "s3c_UpdateObject mc name a =
     stub mc name ''S3.UpdateObject'' (UpdateObjectS3Request a) (\<lambda>r. case r of UpdateObjectS3Response out \<Rightarrow> Some out | _ \<Rightarrow> None)"

definition s3c_GetObject :: "('s, s3_request, s3_reply, string) micro_client \<Rightarrow> string \<Rightarrow> string \<Rightarrow> string \<Rightarrow>
    ('s, string + Object) prog" where
  "s3c_GetObject mc name a b =
     stub mc name ''S3.GetObject'' (GetObjectS3Request a b) (\<lambda>r. case r of GetObjectS3Response out \<Rightarrow> Some out | _ \<Rightarrow> None)"

definition s3c_DeleteObject :: "('s, s3_request, s3_reply, string) micro_client \<Rightarrow> string \<Rightarrow> string \<Rightarrow> string \<Rightarrow>
    ('s, string + string) prog" where
  "s3c_DeleteObject mc name a b =
     stub mc name ''S3.DeleteObject'' (DeleteObjectS3Request a b) (\<lambda>r. case r of DeleteObjectS3Response out \<Rightarrow> Some out | _ \<Rightarrow> None)"

definition NewS3Service :: "string \<Rightarrow> ('s, s3_request, s3_reply, string) micro_client \<Rightarrow> 's s3_client" where
  "NewS3Service name mc =
     (let name = (if name = [] then ''s3'' else name)
      in \<lparr>sc_ListBuckets = s3c_ListBuckets mc name,
          sc_CreateBucket = s3c_CreateBucket mc name,
          sc_DeleteBucket = s3c_DeleteBucket mc name,
          sc_GetBucket = s3c_GetBucket mc name,
          sc_ListObjects = s3c_ListObjects mc name,
          sc_CreateObject = s3c_CreateObject mc name,
          sc_UpdateObject = s3c_UpdateObject mc name,
          sc_GetObject = s3c_GetObject mc name,
          sc_DeleteObject = s3c_DeleteObject mc name\<rparr>)"

definition s3h_ListBuckets :: "string \<Rightarrow> 's s3_client \<Rightarrow> s3_request \<Rightarrow> ('s, string + s3_reply) prog" where
  "s3h_ListBuckets bad h m =
     (case m of ListBucketsS3Request a \<Rightarrow> reply ListBucketsS3Response (sc_ListBuckets h a) | _ \<Rightarrow> ret (Inl bad))"

definition s3h_CreateBucket :: "string \<Rightarrow> 's s3_client \<Rightarrow> s3_request \<Rightarrow> ('s, string + s3_reply) prog" where
  "s3h_CreateBucket bad h m =
     (case m of CreateBucketS3Request a \<Rightarrow> reply CreateBucketS3Response (sc_CreateBucket h a) | _ \<Rightarrow> ret (Inl bad))"

definition s3h_DeleteBucket :: "string \<Rightarrow> 's s3_client \<Rightarrow> s3_request \<Rightarrow> ('s, string + s3_reply) prog" where
  "s3h_DeleteBucket bad h m =
     (case m of DeleteBucketS3Request a \<Rightarrow> reply DeleteBucketS3Response (sc_DeleteBucket h a) | _ \<Rightarrow> ret (Inl bad))"

definition s3h_GetBucket :: "string \<Rightarrow> 's s3_client \<Rightarrow> s3_request \<Rightarrow> ('s, string + s3_reply) prog" where
  "s3h_GetBucket bad h m =
     (case m of GetBucketS3Request a \<Rightarrow> reply GetBucketS3Response (sc_GetBucket h a) | _ \<Rightarrow> ret (Inl bad))"

definition s3h_ListObjects :: "string \<Rightarrow> 's s3_client \<Rightarrow> s3_request \<Rightarrow> ('s, string + s3_reply) prog" where
  "s3h_ListObjects bad h m =
     (case m of ListObjectsS3Request a \<Rightarrow> reply ListObjectsS3Response (sc_ListObjects h a) | _ \<Rightarrow> ret (Inl bad))"

definition s3h_CreateObject :: "string \<Rightarrow> 's s3_client \<Rightarrow> s3_request \<Rightarrow> ('s, string + s3_reply) prog" where
  "s3h_CreateObject bad h m =
     (case m of CreateObjectS3Request a \<Rightarrow> reply CreateObjectS3Response (sc_CreateObject h a) | _ \<Rightarrow> ret (Inl bad))"

definition s3h_UpdateObject :: "string \<Rightarrow> 's s3_client \<Rightarrow> s3_request \<Rightarrow> ('s, string + s3_reply) prog" where
  "s3h_UpdateObject bad h m =
     (case m of UpdateObjectS3Request a \<Rightarrow> reply UpdateObjectS3Response (sc_UpdateObject h a) | _ \<Rightarrow> ret (Inl bad))"

definition s3h_GetObject :: "string \<Rightarrow> 's s3_client \<Rightarrow> s3_request \<Rightarrow> ('s, string + s3_reply) prog" where
  "s3h_GetObject bad h m =
     (case m of GetObjectS3Request a b \<Rightarrow> reply GetObjectS3Response (sc_GetObject h a b) | _ \<Rightarrow> ret (Inl bad))"

definition s3h_DeleteObject :: "string \<Rightarrow> 's s3_client \<Rightarrow> s3_request \<Rightarrow> ('s, string + s3_reply) prog" where
  "s3h_DeleteObject bad h m =
     (case m of DeleteObjectS3Request a b \<Rightarrow> reply DeleteObjectS3Response (sc_DeleteObject h a b) | _ \<Rightarrow> ret (Inl bad))"

definition RegisterS3Handler :: "string \<Rightarrow> 's s3_client \<Rightarrow> (string, s3_request \<Rightarrow> ('s, string + s3_reply) prog) gomap" where
  "RegisterS3Handler bad h =
     [(''S3.ListBuckets'', s3h_ListBuckets bad h),
      (''S3.CreateBucket'', s3h_CreateBucket bad h),
      (''S3.DeleteBucket'', s3h_DeleteBucket bad h),
      (''S3.GetBucket'', s3h_GetBucket bad h),
      (''S3.ListObjects'', s3h_ListObjects bad h),
      (''S3.CreateObject'', s3h_CreateObject bad h),
      (''S3.UpdateObject'', s3h_UpdateObject bad h),
      (''S3.GetObject'', s3h_GetObject bad h),
      (''S3.DeleteObject'', s3h_DeleteObject bad h)]"

section \<open>The services of the program\<close>

text \<open>The names under which the gateway calls the services, and what the services register.\<close>

definition backendService :: string where "backendService = ''backend''"

definition s3Service :: string where "s3Service = ''s3''"

definition dataflowService :: string where "dataflowService = ''dataflow''"

definition dataflow_main :: "df_err \<Rightarrow> 's df_server \<Rightarrow> string \<times> (string, df_request \<Rightarrow> ('s world, df_err + df_reply) prog) gomap" where
  "dataflow_main bad ds = (''dataflow'', RegisterDataFlowHandler bad (client_of ds))"

definition backend_main :: "df_err \<Rightarrow> 's mgo_ops \<Rightarrow> string \<times> (string, bk_request \<Rightarrow> ('s, df_err + bk_reply) prog) gomap" where
  "backend_main bad ops = (''backend'', RegisterBackendHandler bad (backend_client_of ops))"

definition s3_main :: "string \<Rightarrow> 's mgo_ops \<Rightarrow> string \<times> (string, s3_request \<Rightarrow> ('s, string + s3_reply) prog) gomap" where
  "s3_main bad ops = (''s3'', RegisterS3Handler bad (s3_client_of ops))"

end
