(* ===== verification/Api_Routes.thy ===== *)
theory Api_Routes
  imports Api_Handlers "HOL-Library.List_Lexorder" "HOL-Library.Char_ord"
begin

text \<open>
  How a request reaches its handler: the tables of routes (\<open>router.go\<close> of the three packages), the
  containers and filters of \<open>api/cmd/main.go\<close>, and the selection of a route by the web framework under
  \<open>vendor/github.com/emicklei/go-restful\<close>. The path is the one that remains when the server has cleaned
  it, and has its escapes decoded. Regular expressions in templates, which no route here has, are a parameter.
\<close>

section \<open>Routes\<close>

record 'h route =
  rt_Method :: string
  rt_Path :: string
  rt_pathParts :: "string list"
  rt_Consumes :: "string list"
  rt_Produces :: "string list"
  rt_Function :: 'h

record ('f, 'h) web_service =
  ws_root :: string
  ws_filters :: "'f list"
  ws_routes :: "'h route list"

definition tokenizePath :: "string \<Rightarrow> string list" where
  "tokenizePath path = (if path = ''/'' then [] else Split (TrimLeft (TrimRight path ''/'') ''/'') ''/'')"

definition concatPath :: "string \<Rightarrow> string \<Rightarrow> string" where
  "concatPath path1 path2 = TrimRight path1 ''/'' @ ''/'' @ TrimLeft path2 ''/''"

definition Build :: "string \<Rightarrow> string \<Rightarrow> string \<times> string \<times> 'h \<Rightarrow> 'h route" where
  "Build rootPath mime r =
     (let (httpMethod, currentPath, handler) = r; path = concatPath rootPath currentPath
      in \<lparr>rt_Method = httpMethod, rt_Path = path, rt_pathParts = tokenizePath path,
          rt_Consumes = [mime], rt_Produces = [mime], rt_Function = handler\<rparr>)"

section \<open>The choice of a route\<close>

fun match_tokens :: "(string \<Rightarrow> string \<Rightarrow> bool) \<Rightarrow> string list \<Rightarrow> string list \<Rightarrow> nat \<Rightarrow> nat \<Rightarrow> bool \<times> nat \<times> nat" where
  "match_tokens re [] requestTokens paramCount staticCount = (True, paramCount, staticCount)"
| "match_tokens re (routeToken # rs) [] paramCount staticCount = (False, 0, 0)"
| "match_tokens re (routeToken # rs) (requestToken # qs) paramCount staticCount =
     (if HasPrefix routeToken ''{'' then
        (case cut '':'' routeToken of
           None \<Rightarrow> match_tokens re rs qs (Suc paramCount) staticCount
         | Some (key, expression) \<Rightarrow>
             if butlast expression = ''*'' then (True, Suc paramCount, staticCount)
             else if re (butlast expression) requestToken then match_tokens re rs qs (Suc paramCount) staticCount
             else (False, 0, 0))
      else if requestToken \<noteq> routeToken then (False, 0, 0)
      else match_tokens re rs qs paramCount (Suc staticCount))"

definition matchesRouteByPathTokens :: "(string \<Rightarrow> string \<Rightarrow> bool) \<Rightarrow> string list \<Rightarrow> string list \<Rightarrow> bool \<times> nat \<times> nat" where
  "matchesRouteByPathTokens re routeTokens requestTokens =
     (if length routeTokens < length requestTokens \<and> (routeTokens = [] \<or> \<not> HasSuffix (last routeTokens) ''*}'')
      then (False, 0, 0)
      else match_tokens re routeTokens requestTokens 0 0)"

type_synonym 'h curlyRoute = "'h route \<times> nat \<times> nat"

definition curly_Less :: "'h curlyRoute \<Rightarrow> 'h curlyRoute \<Rightarrow> bool" where
  "curly_Less ci cj =
     (case (ci, cj) of ((ri, pi, si), (rj, pj, sj)) \<Rightarrow>
        if si < sj then True else if si > sj then False
        else if pi < pj then True else if pi > pj then False
        else rt_Path ri < rt_Path rj)"

text \<open>Sorting in reverse; for fewer than twelve candidates the library's sort is by insertion.\<close>

fun place :: "'h curlyRoute \<Rightarrow> 'h curlyRoute list \<Rightarrow> 'h curlyRoute list" where
  "place c [] = [c]"
| "place c (d # ds) = (if curly_Less d c then c # d # ds else d # place c ds)"

definition selectRoutes :: "(string \<Rightarrow> string \<Rightarrow> bool) \<Rightarrow> ('f, 'h) web_service \<Rightarrow> string list \<Rightarrow> 'h curlyRoute list" where
  "selectRoutes re ws requestTokens =
     foldl (\<lambda>candidates each.
        let (matches, paramCount, staticCount) = matchesRouteByPathTokens re (rt_pathParts each) requestTokens
        in if matches then place (each, paramCount, staticCount) candidates else candidates) [] (ws_routes ws)"

definition mime_of :: "string \<Rightarrow> string" where
  "mime_of each =
     TrimLeft (TrimRight (if Contains each '';'' then hd (Split each '';'') else each) '' '') '' ''"

definition matchesAccept :: "'h route \<Rightarrow> string \<Rightarrow> bool" where
  "matchesAccept r accept =
     list_ex (\<lambda>each. let withoutQuality = mime_of each
        in withoutQuality = ''*/*'' \<or>
           list_ex (\<lambda>producible. producible = ''*/*'' \<or> producible = withoutQuality) (rt_Produces r))
       (Split accept '','')"

definition matchesContentType :: "'h route \<Rightarrow> string \<Rightarrow> bool" where
  "matchesContentType r mimeTypes =
     (rt_Consumes r = [] \<or>
      mimeTypes = [] \<and> rt_Method r \<in> {''GET'', ''HEAD'', ''OPTIONS'', ''DELETE'', ''TRACE''} \<or>
      list_ex (\<lambda>each. list_ex (\<lambda>consumeable. consumeable = ''*/*'' \<or> consumeable = mime_of each) (rt_Consumes r))
        (Split (if mimeTypes = [] then ''application/octet-stream'' else mimeTypes) '',''))"

text \<open>The error is the status of the answer.\<close>

definition detectRoute :: "'h route list \<Rightarrow> string \<Rightarrow> http_request \<Rightarrow> int + 'h route" where
  "detectRoute routes httpMethod req =
     (let methodOk = [r \<leftarrow> routes. httpMethod = rt_Method r]
      in if methodOk = [] then Inl 405
      else let inputMediaOk = [r \<leftarrow> methodOk. matchesContentType r (HeaderParameter req ''Content-Type'')]
      in if inputMediaOk = [] then Inl 415
      else let accept = HeaderParameter req ''Accept'';
               accept = (if accept = [] then ''*/*'' else accept);
               outputMediaOk = [r \<leftarrow> inputMediaOk. matchesAccept r accept]
      in if outputMediaOk = [] then Inl 406 else Inr (hd outputMediaOk))"

fun score_from :: "string list \<Rightarrow> string list \<Rightarrow> int \<Rightarrow> bool \<times> int" where
  "score_from (each # requestTokens) (other # serviceTokens) score =
     (if each = [] \<and> other = [] then score_from requestTokens serviceTokens (score + 1)
      else if other \<noteq> [] \<and> HasPrefix other ''{'' then
        if each = [] then (False, score) else score_from requestTokens serviceTokens (score + 1)
      else if each \<noteq> other then (False, score)
      else score_from requestTokens serviceTokens (score + int (length (other # serviceTokens)) * 10))"
| "score_from requestTokens serviceTokens score = (True, score)"

definition computeWebserviceScore :: "string list \<Rightarrow> string list \<Rightarrow> bool \<times> int" where
  "computeWebserviceScore requestTokens serviceTokens =
     (if length serviceTokens > length requestTokens then (False, 0) else score_from requestTokens serviceTokens 0)"

definition detectWebService :: "string list \<Rightarrow> ('f, 'h) web_service list \<Rightarrow> ('f, 'h) web_service option" where
  "detectWebService requestTokens webServices =
     fst (foldl (\<lambda>(best, score) each.
        let (matches, eachScore) = computeWebserviceScore requestTokens (tokenizePath (ws_root each))
        in if matches \<and> eachScore > score then (Some each, eachScore) else (best, score)) (None, -1) webServices)"

definition SelectRoute :: "(string \<Rightarrow> string \<Rightarrow> bool) \<Rightarrow> ('f, 'h) web_service list \<Rightarrow> string \<Rightarrow> string \<Rightarrow> http_request \<Rightarrow>
    int + ('f, 'h) web_service \<times> 'h route" where
  "SelectRoute re webServices httpMethod path req =
     (let requestTokens = tokenizePath path
      in case detectWebService requestTokens webServices of
           None \<Rightarrow> Inl 404
         | Some ws \<Rightarrow>
             (let candidateRoutes = selectRoutes re ws requestTokens
              in if candidateRoutes = [] then Inl 404
                 else map_sum id (Pair ws) (detectRoute (map fst candidateRoutes) httpMethod req)))"

fun extract_from :: "string list \<Rightarrow> string list \<Rightarrow> (string, string) gomap \<Rightarrow> (string, string) gomap" where
  "extract_from [] urlParts pathParameters = pathParameters"
| "extract_from (key # ks) urlParts pathParameters =
     (let v = (case urlParts of [] \<Rightarrow> [] | u # us \<Rightarrow> u); rest = extract_from ks (tl urlParts)
      in if HasPrefix key ''{'' then
           (case cut '':'' key of
              Some (keyPart, expression) \<Rightarrow>
                if butlast expression = ''*'' then insert_key (tl keyPart) (Join urlParts ''/'') pathParameters
                else rest (insert_key (tl keyPart) v pathParameters)
            | None \<Rightarrow> rest (insert_key (butlast (tl key)) v pathParameters))
         else rest pathParameters)"

definition ExtractParameters :: "'h route \<Rightarrow> string \<Rightarrow> (string, string) gomap" where
  "ExtractParameters r urlPath = extract_from (rt_pathParts r) (tokenizePath urlPath) []"

section \<open>Filters\<close>

text \<open>A filter hands on a request, or has answered with 401 and the text.\<close>

type_synonym 's http_filter = "http_request \<Rightarrow> ('s, string + http_request) prog"

datatype 'a outcome = Unauthorized string | ServiceError int | Handled 'a

fun ProcessFilter :: "'s http_filter list \<Rightarrow> (http_request \<Rightarrow> ('s, 'a outcome) prog) \<Rightarrow> http_request \<Rightarrow> ('s, 'a outcome) prog" where
  "ProcessFilter [] target req = target req"
| "ProcessFilter (f # fs) target req =
     call (f req) (\<lambda>r. case r of Inl msg \<Rightarrow> ret (Unauthorized msg) | Inr req \<Rightarrow> ProcessFilter fs target req)"

definition logging_filter :: "'s http_filter" where
  "logging_filter req = ret (Inr req)"

definition context_filter :: "'s http_filter" where
  "context_filter req =
     ret (Inr (req\<lparr>req_attributes := req_attributes (context_Filter (request.truncate req))\<rparr>))"

definition auth_filter :: "string \<Rightarrow> ('s \<Rightarrow> string \<Rightarrow> token_answer \<times> 's) \<Rightarrow> ('s \<Rightarrow> 's) \<Rightarrow> int \<Rightarrow> 's http_filter" where
  "auth_filter strategy tokens_Get SetUp now req s =
     (let (r, s) = auth_FilterFactory strategy tokens_Get SetUp now (request.truncate req) s
      in go_map (\<lambda>r. (case r of Reject msg \<Rightarrow> Inl msg | Pass req' \<Rightarrow> Inr (req\<lparr>req_attributes := req_attributes req'\<rparr>), s)) r)"

record ('s, 'a) container =
  ct_filters :: "'s http_filter list"
  ct_services :: "('s http_filter, http_request \<Rightarrow> ('s, 'a) prog) web_service list"

text \<open>Without a route the filters of the container still run, on a request with no path parameters.\<close>

definition dispatch :: "(string \<Rightarrow> string \<Rightarrow> bool) \<Rightarrow> ('s, 'a) container \<Rightarrow> string \<Rightarrow> string \<Rightarrow> http_request \<Rightarrow> ('s, 'a outcome) prog" where
  "dispatch re wc httpMethod path req =
     (case SelectRoute re (ct_services wc) httpMethod path req of
        Inl err \<Rightarrow> ProcessFilter (ct_filters wc) (\<lambda>req. ret (ServiceError err)) (req\<lparr>req_path := []\<rparr>)
      | Inr (ws, r) \<Rightarrow>
          ProcessFilter (ct_filters wc @ ws_filters ws) (\<lambda>req. call (rt_Function r req) (\<lambda>a. ret (Handled a)))
            (req\<lparr>req_path := ExtractParameters r path\<rparr>))"

section \<open>The gateway\<close>

datatype answer =
    OnePolicy "PolicyMsg option response api_answer"
  | AllPolicies "PolicyMsg list response api_answer"
  | OnePlan "PlanMsg option response api_answer"
  | AllPlans "(PlanMsg list \<times> int) response api_answer"
  | Deleted "unit response api_answer"
  | Started "string response api_answer"
  | OneJob "JobMsg option response api_answer"
  | AllJobs "(JobMsg list \<times> int) response api_answer"
  | OneBackend "Backend api_answer"
  | AllBackends "(Backend list \<times> int) api_answer"
  | BackendDeleted "unit api_answer"
  | AllTypes "((string \<times> string) list \<times> int) api_answer"
  | Written "reply list"

definition answering :: "('b \<Rightarrow> answer) \<Rightarrow> (http_request \<Rightarrow> ('s, 'b) prog) \<Rightarrow> http_request \<Rightarrow> ('s, answer) prog" where
  "answering con h req = call (h req) (\<lambda>a. ret (con a))"

type_synonym 's table = "(string \<times> string \<times> (http_request \<Rightarrow> ('s, answer) prog)) list"

definition backend_RegisterRouter :: "'s api \<Rightarrow> 's table" where
  "backend_RegisterRouter ap =
     [(''GET'', ''/{tenantId}/backends/{id}'', answering OneBackend (api_GetBackend ap)),
      (''GET'', ''/{tenantId}/backends'', answering AllBackends (api_ListBackend ap)),
      (''POST'', ''/{tenantId}/backends'', answering OneBackend (api_CreateBackend ap)),
      (''PUT'', ''/{tenantId}/backends/{id}'', answering OneBackend (api_UpdateBackend ap)),
      (''DELETE'', ''/{tenantId}/backends/{id}'', answering BackendDeleted (api_DeleteBackend ap)),
      (''GET'', ''/{tenantId}/types'', answering AllTypes (api_ListType ap))]"

definition dataflow_RegisterRouter :: "'s api \<Rightarrow> 's table" where
  "dataflow_RegisterRouter ap =
     [(''POST'', ''/{tenantId}/policies'', answering OnePolicy (api_CreatePolicy ap)),
      (''GET'', ''/{tenantId}/policies'', answering AllPolicies (api_ListPolicy ap)),
      (''GET'', ''/{tenantId}/policies/{id}'', answering OnePolicy (api_GetPolicy ap)),
      (''PUT'', ''/{tenantId}/policies/{id}'', answering OnePolicy (api_UpdatePolicy ap)),
      (''DELETE'', ''/{tenantId}/policies/{id}'', answering Deleted (api_DeletePolicy ap)),
      (''POST'', ''/{tenantId}/plans'', answering OnePlan (api_CreatePlan ap)),
      (''GET'', ''/{tenantId}/plans'', answering AllPlans (api_ListPlan ap)),
      (''GET'', ''/{tenantId}/plans/{id}'', answering OnePlan (api_GetPlan ap)),
      (''PUT'', ''/{tenantId}/plans/{id}'', answering OnePlan (api_UpdatePlan ap)),
      (''DELETE'', ''/{tenantId}/plans/{id}'', answering Deleted (api_DeletePlan ap)),
      (''POST'', ''/{tenantId}/plans/{id}/run'', answering Started (api_RunPlan ap)),
      (''GET'', ''/{tenantId}/jobs'', answering AllJobs (api_ListJob ap)),
      (''GET'', ''/{tenantId}/jobs/{id}'', answering OneJob (api_GetJob ap))]"

definition s3_RegisterRouter :: "'s gateway \<Rightarrow> 's table" where
  "s3_RegisterRouter gw =
     [(''GET'', ''/'', answering Written (gw_list_buckets gw)),
      (''PUT'', ''/{bucketName}'', answering Written (RouteBucketPut gw)),
      (''GET'', ''/{bucketName}'', answering Written (BucketGet gw)),
      (''DELETE'', ''/{bucketName}'', answering Written (BucketDelete gw)),
      (''PUT'', ''/{bucketName}/{objectKey}'', answering Written (RouteObjectPut gw)),
      (''DELETE'', ''/{bucketName}/{objectKey}'', answering Written (RouteObjectDelete gw)),
      (''GET'', ''/{bucketName}/{objectKey}'', answering Written (ObjectGet gw)),
      (''PUT'', ''/{bucketName}/{objectKey}'', answering Written (RouteObjectPut gw)),
      (''PUT'', ''/{bucketName}/{objectKey}'', answering Written (RouteObjectPut gw)),
      (''PUT'', ''/{bucketName}/{objectKey}'', answering Written (RouteObjectPut gw)),
      (''DELETE'', ''/{bucketName}/{objectKey}'', answering Written (RouteObjectDelete gw))]"

definition v1_service :: "'s api \<Rightarrow> ('s http_filter, http_request \<Rightarrow> ('s, answer) prog) web_service" where
  "v1_service ap =
     \<lparr>ws_root = ''/v1'', ws_filters = [],
      ws_routes = map (Build ''/v1'' ''application/json'') (backend_RegisterRouter ap @ dataflow_RegisterRouter ap)\<rparr>"

definition s3_service :: "'s gateway \<Rightarrow> ('s http_filter, http_request \<Rightarrow> ('s, answer) prog) web_service" where
  "s3_service gw =
     \<lparr>ws_root = ''/v1/s3'', ws_filters = [logging_filter],
      ws_routes = map (Build ''/v1/s3'' ''application/xml'') (s3_RegisterRouter gw)\<rparr>"

definition gateway_container :: "'s http_filter \<Rightarrow> 's api \<Rightarrow> 's gateway \<Rightarrow> ('s, answer) container" where
  "gateway_container auth ap gw =
     \<lparr>ct_filters = [logging_filter, context_filter, auth], ct_services = [v1_service ap, s3_service gw]\<rparr>"

end
