(* ===== verification/Api_Routes_Correct.thy ===== *)
theory Api_Routes_Correct
  imports Api_Routes
begin

text \<open>
  Properties of the dispatch: each route of the gateway gets the requests whose path is an instance of its
  template, what becomes of an upload, and the policy before the handlers of the tables.
\<close>

section \<open>Paths and their segments\<close>

definition clean :: "string \<Rightarrow> bool" where
  "clean seg \<longleftrightarrow> seg \<noteq> [] \<and> CHR ''/'' \<notin> set seg"

definition url :: "string list \<Rightarrow> string" where
  "url segs = ''/'' @ Join segs ''/''"

lemma Join_ends:
  assumes "segs \<noteq> []" and "list_all clean segs"
  shows "Join segs ''/'' \<noteq> []" "hd (Join segs ''/'') \<noteq> CHR ''/''" "last (Join segs ''/'') \<noteq> CHR ''/''"
  using assms by (induction segs "''/''" rule: Join.induct) (auto simp: clean_def hd_append dest: hd_in_set last_in_set)

lemma tokenizePath_url [simp]:
  assumes "segs \<noteq> []" and "list_all clean segs"
  shows "tokenizePath (url segs) = segs"
proof -
  note ends = Join_ends [OF assms]
  have "TrimRight (url segs) ''/'' = url segs"
    using ends by (cases "Join segs ''/''" rule: rev_cases) (auto simp: TrimRight_def url_def)
  moreover have "TrimLeft (url segs) ''/'' = Join segs ''/''"
    using ends by (cases "Join segs ''/''") (auto simp: TrimLeft_def url_def)
  moreover have "Split (Join segs ''/'') ''/'' = segs"
    using assms by (intro Split_Join_char) (auto simp: clean_def list_all_iff)
  ultimately show ?thesis using ends(1) by (simp add: tokenizePath_def) (simp add: url_def)
qed

text \<open>The instance of a template, and what its parameters are bound to.\<close>

definition param :: "string \<Rightarrow> string option" where
  "param part = (if HasPrefix part ''{'' then Some (butlast (tl part)) else None)"

definition instance_of :: "(string \<Rightarrow> string) \<Rightarrow> string list \<Rightarrow> string list" where
  "instance_of env parts = map (\<lambda>part. case param part of Some k \<Rightarrow> env k | None \<Rightarrow> part) parts"

definition bindings :: "(string \<Rightarrow> string) \<Rightarrow> string list \<Rightarrow> (string, string) gomap" where
  "bindings env parts = map (\<lambda>k. (k, env k)) (List.map_filter param parts)"

section \<open>Matching a template without expressions\<close>

definition plain :: "string list \<Rightarrow> bool" where
  "plain parts \<longleftrightarrow> list_all (\<lambda>part. CHR '':'' \<notin> set part \<and> \<not> HasSuffix part ''*}'') parts"

definition fits :: "string \<Rightarrow> string \<Rightarrow> bool" where
  "fits part seg \<longleftrightarrow> param part \<noteq> None \<or> seg = part"

definition apart :: "string list \<Rightarrow> string list \<Rightarrow> bool" where
  "apart ps qs \<longleftrightarrow> length ps \<noteq> length qs \<or>
     list_ex (\<lambda>(p, q). param p = None \<and> param q = None \<and> p \<noteq> q) (zip ps qs)"

lemma match_tokens_plain:
  "plain parts \<Longrightarrow> length parts \<ge> length segs \<Longrightarrow>
   match_tokens re parts segs pc sc =
     (if list_all2 fits parts segs
      then (True, pc + length [p \<leftarrow> parts. param p \<noteq> None], sc + length [p \<leftarrow> parts. param p = None])
      else (False, 0, 0))"
  by (induction re parts segs pc sc rule: match_tokens.induct)
    (auto simp: plain_def fits_def param_def cut_absent)

lemma matches_plain:
  assumes "plain parts"
  shows "matchesRouteByPathTokens re parts segs =
     (if list_all2 fits parts segs
      then (True, length [p \<leftarrow> parts. param p \<noteq> None], length [p \<leftarrow> parts. param p = None])
      else (False, 0, 0))"
proof (cases "length parts < length segs")
  case True
  moreover have "parts = [] \<or> \<not> HasSuffix (last parts) ''*}''"
    using assms by (auto simp: plain_def list_all_iff)
  ultimately show ?thesis
    unfolding matchesRouteByPathTokens_def by (auto dest: list_all2_lengthD)
next
  case False
  then show ?thesis using assms by (simp add: matchesRouteByPathTokens_def match_tokens_plain)
qed

lemma fits_self: "list_all2 fits parts (instance_of env parts)"
  by (auto simp: instance_of_def list_all2_conv_all_nth fits_def split: option.splits)

lemma fits_not_apart: "list_all2 fits parts (instance_of env parts') \<Longrightarrow> \<not> apart parts parts'"
  unfolding instance_of_def apart_def list_all2_map2
  by (induction parts parts' rule: list_all2_induct) (auto simp: fits_def)

lemma extract_plain:
  assumes "plain parts" and "distinct (map fst m @ List.map_filter param parts)"
  shows "extract_from parts (instance_of env parts) m = m @ bindings env parts"
  using assms
proof (induction parts arbitrary: m)
  case (Cons part parts)
  show ?case
  proof (cases "param part")
    case (Some k)
    then have "HasPrefix part ''{''" "k = butlast (tl part)" by (auto simp: param_def split: if_splits)
    moreover have "insert_key k (env k) m = m @ [(k, env k)]"
      using Cons.prems Some by (intro insert_fresh) (auto simp: map_filter_simps)
    ultimately show ?thesis
      using Cons.IH [of "m @ [(k, env k)]"] Cons.prems Some
      by (simp add: instance_of_def bindings_def plain_def cut_absent map_filter_simps)
  next
    case None
    then show ?thesis
      using Cons.IH [of m] Cons.prems
      by (auto simp: instance_of_def bindings_def plain_def map_filter_simps param_def split: if_splits)
  qed
qed (simp add: instance_of_def bindings_def map_filter_simps)

section \<open>Tables whose templates are apart\<close>

definition route_ok :: "'h route list \<Rightarrow> 'h route \<Rightarrow> bool" where
  "route_ok rs r \<longleftrightarrow> plain (rt_pathParts r) \<and> distinct (List.map_filter param (rt_pathParts r)) \<and>
     list_all (\<lambda>r'. apart (rt_pathParts r') (rt_pathParts r) \<or>
       rt_pathParts r' = rt_pathParts r \<and> rt_Path r' = rt_Path r \<and> (rt_Method r' = rt_Method r \<longrightarrow> r' = r)) rs"

lemma place_last: "\<forall>d \<in> set ds. \<not> curly_Less d c \<Longrightarrow> place c ds = ds @ [c]"
  by (induction ds) auto

lemma fold_same:
  assumes "\<And>x. x \<in> set xs \<Longrightarrow> matchesRouteByPathTokens re (rt_pathParts x) q = (if P x then (True, np, ns) else (False, 0, 0))"
    and "\<And>x. x \<in> set xs \<Longrightarrow> P x \<Longrightarrow> rt_Path x = path"
    and "\<forall>(x, p, n) \<in> set acc. rt_Path x = path \<and> p = np \<and> n = ns"
  shows "foldl (\<lambda>candidates each.
        let (matches, paramCount, staticCount) = matchesRouteByPathTokens re (rt_pathParts each) q
        in if matches then place (each, paramCount, staticCount) candidates else candidates) acc xs =
      acc @ map (\<lambda>x. (x, np, ns)) (filter P xs)"
  using assms
proof (induction xs arbitrary: acc)
  case (Cons x xs)
  have "place (x, np, ns) acc = acc @ [(x, np, ns)]" if "P x"
    using Cons.prems that by (intro place_last) (auto simp: curly_Less_def)
  then show ?case
    using Cons.IH [of "acc @ [(x, np, ns)]"] Cons.IH [of acc] Cons.prems by (auto simp: Let_def)
qed simp

text \<open>The candidates for an instance of a template are the routes with this template.\<close>

lemma selectRoutes_instance:
  assumes "\<And>x. x \<in> set (ws_routes ws) \<Longrightarrow> route_ok (ws_routes ws) x" and "r \<in> set (ws_routes ws)"
  shows "map fst (selectRoutes re ws (instance_of env (rt_pathParts r))) =
     [x \<leftarrow> ws_routes ws. rt_pathParts x = rt_pathParts r]"
proof -
  let ?q = "instance_of env (rt_pathParts r)"
  let ?np = "length [p \<leftarrow> rt_pathParts r. param p \<noteq> None]" and ?ns = "length [p \<leftarrow> rt_pathParts r. param p = None]"
  have "matchesRouteByPathTokens re (rt_pathParts x) ?q =
      (if rt_pathParts x = rt_pathParts r then (True, ?np, ?ns) else (False, 0, 0))"
    and "rt_pathParts x = rt_pathParts r \<Longrightarrow> rt_Path x = rt_Path r" if "x \<in> set (ws_routes ws)" for x
  proof -
    have "plain (rt_pathParts x)" and alt: "apart (rt_pathParts x) (rt_pathParts r) \<or> rt_pathParts x = rt_pathParts r \<and> rt_Path x = rt_Path r"
      using assms that by (auto simp: route_ok_def list_all_iff)
    moreover have "list_all2 fits (rt_pathParts x) ?q \<longleftrightarrow> rt_pathParts x = rt_pathParts r"
      using alt fits_self fits_not_apart by metis
    ultimately show "matchesRouteByPathTokens re (rt_pathParts x) ?q =
      (if rt_pathParts x = rt_pathParts r then (True, ?np, ?ns) else (False, 0, 0))" by (simp add: matches_plain)
    show "rt_pathParts x = rt_pathParts r \<Longrightarrow> rt_Path x = rt_Path r"
      using alt fits_self [of "rt_pathParts r" env] fits_not_apart [of "rt_pathParts r" env "rt_pathParts r"] by auto
  qed
  then show ?thesis
    unfolding selectRoutes_def by (subst fold_same [where acc = "[]"]) (auto simp: comp_def)
qed

lemma detectRoute_instance:
  assumes "route_ok rs r" and "r \<in> set rs"
    and "matchesContentType r (HeaderParameter req ''Content-Type'')"
    and "matchesAccept r (if HeaderParameter req ''Accept'' = [] then ''*/*'' else HeaderParameter req ''Accept'')"
  shows "detectRoute [x \<leftarrow> rs. rt_pathParts x = rt_pathParts r] (rt_Method r) req = Inr r"
proof -
  have same: "x = r" if "x \<in> set [x \<leftarrow> rs. rt_pathParts x = rt_pathParts r]" "rt_Method r = rt_Method x" for x
    using that assms(1) fits_not_apart [OF fits_self] by (auto simp: route_ok_def list_all_iff)
  let ?ms = "[x \<leftarrow> [x \<leftarrow> rs. rt_pathParts x = rt_pathParts r]. rt_Method r = rt_Method x]"
  have all: "\<forall>x \<in> set ?ms. x = r" and ne: "?ms \<noteq> []" using same assms(2) by (auto simp: filter_empty_conv)
  have keep: "filter Q ?ms = ?ms" if "Q r" for Q using all that by (intro filter_True) auto
  have hd: "hd ?ms = r" using all ne by (metis hd_in_set)
  show ?thesis unfolding detectRoute_def Let_def
    by (simp only: keep [of "\<lambda>x. matchesContentType x _", OF assms(3)] keep [of "\<lambda>x. matchesAccept x _", OF assms(4)] ne hd if_False)
qed

section \<open>The tables of the gateway\<close>

lemmas table_defs =
  v1_service_def s3_service_def Build_def backend_RegisterRouter_def dataflow_RegisterRouter_def s3_RegisterRouter_def
  concatPath_def tokenizePath_def TrimLeft_def TrimRight_def Split_def

text \<open>The tables without their handlers can be computed.\<close>

definition frame :: "'h route \<Rightarrow> string \<times> string list \<times> string" where
  "frame r = (rt_Method r, rt_pathParts r, rt_Path r)"

definition frames_ok :: "(string \<times> string list \<times> string) list \<Rightarrow> bool" where
  "frames_ok fs \<longleftrightarrow> distinct (map (\<lambda>(m, ps, path). (m, ps)) fs) \<and>
     list_all (\<lambda>(m, ps, path). plain ps \<and> distinct (List.map_filter param ps) \<and>
       list_all (\<lambda>(m', ps', path'). apart ps' ps \<or> ps' = ps \<and> path' = path) fs) fs"

lemma frames_route_ok:
  assumes "frames_ok (map frame rs')" and "set rs = set rs'" and "r \<in> set rs"
  shows "route_ok rs r"
proof -
  have "r' = r" if "r' \<in> set rs" "rt_Method r' = rt_Method r" "rt_pathParts r' = rt_pathParts r" for r'
    using assms that by (auto simp: frames_ok_def frame_def comp_def distinct_map dest: inj_onD)
  then show ?thesis
    using assms by (auto simp: frames_ok_def frame_def route_ok_def list_all_iff)
qed

text \<open>The templates of a service: \<open>v1\<close>, one part that tells the services apart, and the rest.\<close>

definition template_ok :: "string \<Rightarrow> string \<times> string list \<times> string \<Rightarrow> bool" where
  "template_ok marker f =
     (case fst (snd f) of
        first # part # parts \<Rightarrow> first = ''v1'' \<and> part = marker \<and> list_all (\<lambda>p. param p \<noteq> None \<or> clean p) parts
      | _ \<Rightarrow> False)"

lemma v1_frames:
  "frames_ok (map frame (ws_routes (v1_service ap)))"
  "list_all (template_ok ''{tenantId}'') (map frame (ws_routes (v1_service ap)))"
proof -
  have frames: "map frame (ws_routes (v1_service ap)) = map (\<lambda>(m, p). frame (Build ''/v1'' ''application/json'' (m, p, ())))
      [(''GET'', ''/{tenantId}/backends/{id}''), (''GET'', ''/{tenantId}/backends''), (''POST'', ''/{tenantId}/backends''),
       (''PUT'', ''/{tenantId}/backends/{id}''), (''DELETE'', ''/{tenantId}/backends/{id}''), (''GET'', ''/{tenantId}/types''),
       (''POST'', ''/{tenantId}/policies''), (''GET'', ''/{tenantId}/policies''), (''GET'', ''/{tenantId}/policies/{id}''),
       (''PUT'', ''/{tenantId}/policies/{id}''), (''DELETE'', ''/{tenantId}/policies/{id}''),
       (''POST'', ''/{tenantId}/plans''), (''GET'', ''/{tenantId}/plans''), (''GET'', ''/{tenantId}/plans/{id}''),
       (''PUT'', ''/{tenantId}/plans/{id}''), (''DELETE'', ''/{tenantId}/plans/{id}''), (''POST'', ''/{tenantId}/plans/{id}/run''),
       (''GET'', ''/{tenantId}/jobs''), (''GET'', ''/{tenantId}/jobs/{id}'')]"
    by (simp add: frame_def Build_def v1_service_def backend_RegisterRouter_def dataflow_RegisterRouter_def Let_def)
  show "frames_ok (map frame (ws_routes (v1_service ap)))" unfolding frames by code_simp
  show "list_all (template_ok ''{tenantId}'') (map frame (ws_routes (v1_service ap)))" unfolding frames by code_simp
qed

text \<open>The routes of the table of objects that are there again are left out.\<close>

definition s3_paths :: "(string \<times> string) list" where
  "s3_paths =
     [(''GET'', ''/''), (''PUT'', ''/{bucketName}''), (''GET'', ''/{bucketName}''), (''DELETE'', ''/{bucketName}''),
      (''PUT'', ''/{bucketName}/{objectKey}''), (''DELETE'', ''/{bucketName}/{objectKey}''), (''GET'', ''/{bucketName}/{objectKey}'')]"

lemma s3_frame_list:
  "map frame (take 7 (ws_routes (s3_service gw))) =
     map (\<lambda>(m, p). frame (Build ''/v1/s3'' ''application/xml'' (m, p, ()))) s3_paths"
  by (simp add: frame_def Build_def s3_service_def s3_RegisterRouter_def s3_paths_def Let_def)

lemma s3_frames:
  "frames_ok (map frame (take 7 (ws_routes (s3_service gw))))"
  "list_all (template_ok ''s3'') (map frame (take 7 (ws_routes (s3_service gw))))"
  unfolding s3_frame_list by code_simp+

lemma s3_routes_once: "set (ws_routes (s3_service gw)) = set (take 7 (ws_routes (s3_service gw)))"
  by (auto simp: s3_service_def s3_RegisterRouter_def)

lemma table_ok:
  assumes "ws \<in> {v1_service ap, s3_service gw}" and "r \<in> set (ws_routes ws)"
  shows "route_ok (ws_routes ws) r" and "template_ok (if ws = s3_service gw then ''s3'' else ''{tenantId}'') (frame r)"
proof -
  from frames_route_ok [OF s3_frames(1) s3_routes_once] frames_route_ok [OF v1_frames(1) refl] assms
  show "route_ok (ws_routes ws) r" by blast
  have "v1_service ap \<noteq> s3_service gw" by (simp add: v1_service_def s3_service_def)
  then show "template_ok (if ws = s3_service gw then ''s3'' else ''{tenantId}'') (frame r)"
    using assms s3_frames(2) [of gw] v1_frames(2) [of ap] unfolding list_all_iff set_map s3_routes_once [symmetric] by auto
qed

lemma detectWebService_gateway:
  assumes "list_all clean segs"
  shows "detectWebService (''v1'' # seg # segs) [v1_service ap, s3_service gw] =
     Some (if seg = ''s3'' then s3_service gw else v1_service ap)"
  by (simp add: detectWebService_def computeWebserviceScore_def v1_service_def s3_service_def tokenizePath_def
      TrimLeft_def TrimRight_def Split_def HasPrefix_def)

section \<open>Requests and their routes\<close>

definition accepted_by :: "'h route \<Rightarrow> http_request \<Rightarrow> bool" where
  "accepted_by r req \<longleftrightarrow> matchesContentType r (HeaderParameter req ''Content-Type'') \<and>
     matchesAccept r (if HeaderParameter req ''Accept'' = [] then ''*/*'' else HeaderParameter req ''Accept'')"

definition refuse :: "'s http_filter \<Rightarrow> int \<Rightarrow> http_request \<Rightarrow> ('s, answer outcome) prog" where
  "refuse auth status req =
     ProcessFilter [logging_filter, context_filter, auth] (\<lambda>req. ret (ServiceError status)) (req\<lparr>req_path := []\<rparr>)"

definition run_handler :: "'s http_filter \<Rightarrow> 's http_filter list \<Rightarrow> (http_request \<Rightarrow> ('s, answer) prog) \<Rightarrow>
    (string, string) gomap \<Rightarrow> http_request \<Rightarrow> ('s, answer outcome) prog" where
  "run_handler auth filters h params req =
     ProcessFilter ([logging_filter, context_filter, auth] @ filters) (\<lambda>req. call (h req) (\<lambda>a. ret (Handled a)))
       (req\<lparr>req_path := params\<rparr>)"

lemma instance_segments:
  assumes "ws \<in> {v1_service ap, s3_service gw}" and "r \<in> set (ws_routes ws)"
    and "\<And>k. clean (env k)" and "env ''tenantId'' \<noteq> ''s3''"
  obtains seg segs where "instance_of env (rt_pathParts r) = ''v1'' # seg # segs" and "list_all clean (''v1'' # seg # segs)"
    and "ws = (if seg = ''s3'' then s3_service gw else v1_service ap)"
proof -
  obtain parts where parts: "rt_pathParts r = ''v1'' # (if ws = s3_service gw then ''s3'' else ''{tenantId}'') # parts"
    and ok: "list_all (\<lambda>p. param p \<noteq> None \<or> clean p) parts"
    using table_ok(2) [OF assms(1,2)] by (auto simp: template_ok_def frame_def split: list.splits)
  have "list_all clean (instance_of env parts)"
    using ok assms(3) by (auto simp: instance_of_def list_all_iff split: option.splits)
  moreover have "v1_service ap \<noteq> s3_service gw" by (simp add: v1_service_def s3_service_def)
  ultimately show thesis
    using that [of "if ws = s3_service gw then ''s3'' else env ''tenantId''" "instance_of env parts"] parts assms
    by (auto simp: instance_of_def param_def HasPrefix_def clean_def [of "_ # _"])
qed

text \<open>
  C17. Every route of the gateway gets its requests: a request with the route's HTTP verb, with a path that is an
  instance of its template and with types of content that it takes is served by its handler, with the
  parameters of the path bound, behind the filters of the container and of the web service. This is for
  segments that are not empty and without a slash, and a tenant who is not called \<open>s3\<close>: the requests of
  that tenant go to a bucket named like the resource.
\<close>

theorem requests_reach_their_routes:
  assumes "ws \<in> {v1_service ap, s3_service gw}" and "r \<in> set (ws_routes ws)"
    and "\<And>k. clean (env k)" and "env ''tenantId'' \<noteq> ''s3''" and "accepted_by r req"
  shows "dispatch re (gateway_container auth ap gw) (rt_Method r) (url (instance_of env (rt_pathParts r))) req =
    run_handler auth (ws_filters ws) (rt_Function r) (bindings env (rt_pathParts r)) req"
proof -
  let ?q = "instance_of env (rt_pathParts r)"
  note ok = table_ok(1) [OF assms(1)]
  obtain seg segs where q: "?q = ''v1'' # seg # segs" "list_all clean ?q"
    and ws: "ws = (if seg = ''s3'' then s3_service gw else v1_service ap)"
    using instance_segments [OF assms(1,2), of env] assms(3,4) by (metis list.pred_inject(2))
  then have tok: "tokenizePath (url ?q) = ?q" by simp
  have candidates: "map fst (selectRoutes re ws ?q) = [x \<leftarrow> ws_routes ws. rt_pathParts x = rt_pathParts r]"
    by (rule selectRoutes_instance [OF _ assms(2)]) (rule ok)
  have "detectWebService ?q [v1_service ap, s3_service gw] = Some ws"
    using detectWebService_gateway [of segs seg ap gw] q ws by simp
  moreover have "selectRoutes re ws ?q \<noteq> []"
  proof
    assume "selectRoutes re ws ?q = []"
    then have "[x \<leftarrow> ws_routes ws. rt_pathParts x = rt_pathParts r] = []"
      using candidates by simp
    with assms(2) show False unfolding filter_empty_conv by blast
  qed
  moreover have "detectRoute (map fst (selectRoutes re ws ?q)) (rt_Method r) req = Inr r"
    unfolding candidates
    using detectRoute_instance [OF ok [OF assms(2)] assms(2)] assms(5) by (simp add: accepted_by_def)
  moreover have "ExtractParameters r (url ?q) = bindings env (rt_pathParts r)"
    using ok [OF assms(2)] extract_plain [of "rt_pathParts r" "[]" env] tok
    by (simp add: ExtractParameters_def route_ok_def)
  ultimately show ?thesis
    by (simp add: dispatch_def SelectRoute_def gateway_container_def run_handler_def tok)
qed

lemma Build_simps [simp]:
  "rt_Method (Build root mime (m, p, h)) = m" "rt_Consumes (Build root mime (m, p, h)) = [mime]"
  "rt_Produces (Build root mime (m, p, h)) = [mime]" "rt_Function (Build root mime (m, p, h)) = h"
  by (simp_all add: Build_def Let_def)

definition blank_request :: http_request where
  "blank_request = \<lparr>req_attributes = [], req_path = [], req_token = [], hr_headers = [], hr_query = [],
     hr_body = whole [], hr_ContentLength = 0\<rparr>"

theorem requests_reach_their_routes_witness:
  "\<forall>re auth ap gw. dispatch re (gateway_container auth ap gw) ''GET'' ''/v1/t1/plans/p7'' blank_request =
     run_handler auth [] (answering OnePlan (api_GetPlan ap)) [(''tenantId'', ''t1''), (''id'', ''p7'')] blank_request"
proof (intro allI)
  fix re auth ap gw
  let ?r = "Build ''/v1'' ''application/json'' (''GET'', ''/{tenantId}/plans/{id}'', answering OnePlan (api_GetPlan ap))"
  let ?env = "\<lambda>k. if k = ''tenantId'' then ''t1'' else ''p7''"
  have r: "?r \<in> set (ws_routes (v1_service ap))" by (simp add: v1_service_def dataflow_RegisterRouter_def)
  have parts: "rt_pathParts ?r = [''v1'', ''{tenantId}'', ''plans'', ''{id}'']" by (simp add: table_defs)
  have "accepted_by ?r blank_request"
    by (simp add: accepted_by_def HeaderParameter_def blank_request_def matchesContentType_def matchesAccept_def
        mime_of_def Split_def Contains_def TrimLeft_def TrimRight_def)
  from requests_reach_their_routes [OF _ r _ _ this, where env = ?env and re = re and auth = auth and gw = gw]
  show "dispatch re (gateway_container auth ap gw) ''GET'' ''/v1/t1/plans/p7'' blank_request =
     run_handler auth [] (answering OnePlan (api_GetPlan ap)) [(''tenantId'', ''t1''), (''id'', ''p7'')] blank_request"
    unfolding parts
    by (simp add: clean_def instance_of_def bindings_def param_def HasPrefix_def url_def map_filter_simps v1_service_def)
qed

section \<open>Uploads\<close>

text \<open>The templates of the S3 service: after \<open>/v1/s3\<close> only parameters, and one template per length.\<close>

definition s3_template :: "string \<times> string list \<times> string \<Rightarrow> bool" where
  "s3_template f =
     (case f of (m, root # kind # parts, path) \<Rightarrow>
        root = ''v1'' \<and> kind = ''s3'' \<and> list_all (\<lambda>p. param p \<noteq> None) parts \<and> plain (root # kind # parts) \<and>
        (parts, path) \<in> {([], ''/v1/s3/''), ([''{bucketName}''], ''/v1/s3/{bucketName}''),
          ([''{bucketName}'', ''{objectKey}''], ''/v1/s3/{bucketName}/{objectKey}'')}
      | _ \<Rightarrow> False)"

lemma s3_templates:
  assumes "x \<in> set (ws_routes (s3_service gw))"
  shows "s3_template (frame x)"
proof -
  have "list_all s3_template (map (\<lambda>(m, p). frame (Build ''/v1/s3'' ''application/xml'' (m, p, ()))) s3_paths)"
    by code_simp
  then show ?thesis
    using assms unfolding s3_frame_list [of gw, symmetric] s3_routes_once by (auto simp: list_all_iff)
qed

lemma fits_params:
  "list_all (\<lambda>p. param p \<noteq> None) parts \<Longrightarrow> list_all2 fits parts segs \<longleftrightarrow> length parts = length segs"
  by (induction parts arbitrary: segs) (auto simp: fits_def list_all2_Cons1 Suc_length_conv)

lemma s3_candidates:
  "map fst (selectRoutes re (s3_service gw) (''v1'' # ''s3'' # segs)) =
     [x \<leftarrow> ws_routes (s3_service gw). length (rt_pathParts x) = length segs + 2]"
proof -
  let ?path = "if segs = [] then ''/v1/s3/'' else if length segs = 1 then ''/v1/s3/{bucketName}''
    else ''/v1/s3/{bucketName}/{objectKey}''"
  have "matchesRouteByPathTokens re (rt_pathParts x) (''v1'' # ''s3'' # segs) =
      (if length (rt_pathParts x) = length segs + 2 then (True, length segs, 2) else (False, 0, 0))"
    and "length (rt_pathParts x) = length segs + 2 \<Longrightarrow> rt_Path x = ?path"
    if mem: "x \<in> set (ws_routes (s3_service gw))" for x
  proof -
    obtain parts where x: "rt_pathParts x = ''v1'' # ''s3'' # parts" "list_all (\<lambda>p. param p \<noteq> None) parts"
      "plain (rt_pathParts x)" "(parts, rt_Path x) \<in> {([], ''/v1/s3/''), ([''{bucketName}''], ''/v1/s3/{bucketName}''),
          ([''{bucketName}'', ''{objectKey}''], ''/v1/s3/{bucketName}/{objectKey}'')}"
      using s3_templates [OF mem] by (auto simp: s3_template_def frame_def split: list.splits)
    have "filter (\<lambda>p. param p \<noteq> None) parts = parts" "[p \<leftarrow> parts. param p = None] = []"
      using x(2) by (auto simp: list_all_iff filter_empty_conv intro: filter_True)
    then show "matchesRouteByPathTokens re (rt_pathParts x) (''v1'' # ''s3'' # segs) =
      (if length (rt_pathParts x) = length segs + 2 then (True, length segs, 2) else (False, 0, 0))"
      using fits_params [OF x(2), of segs] unfolding matches_plain [OF x(3)]
      by (simp add: x(1) fits_def) (simp add: param_def HasPrefix_def)
    show "length (rt_pathParts x) = length segs + 2 \<Longrightarrow> rt_Path x = ?path"
      using x(1,4) by auto
  qed
  then show ?thesis
    unfolding selectRoutes_def by (subst fold_same [where acc = "[]"]) (auto simp: comp_def)
qed

abbreviation put_route :: "string \<Rightarrow> (http_request \<Rightarrow> ('s, reply list) prog) \<Rightarrow> (http_request \<Rightarrow> ('s, answer) prog) route" where
  "put_route path h \<equiv> Build ''/v1/s3'' ''application/xml'' (''PUT'', path, answering Written h)"

lemma s3_put_routes:
  "[x \<leftarrow> [x \<leftarrow> ws_routes (s3_service gw). length (rt_pathParts x) = n + 2]. ''PUT'' = rt_Method x] =
     (if n = 1 then [put_route ''/{bucketName}'' (RouteBucketPut gw)]
      else if n = 2 then replicate 4 (put_route ''/{bucketName}/{objectKey}'' (RouteObjectPut gw)) else [])"
  by (simp add: table_defs numeral_eq_Suc)

lemma put_parts [simp]:
  "rt_pathParts (put_route ''/{bucketName}'' h) = [''v1'', ''s3'', ''{bucketName}'']"
  "rt_pathParts (put_route ''/{bucketName}/{objectKey}'' h) = [''v1'', ''s3'', ''{bucketName}'', ''{objectKey}'']"
  by (simp_all add: table_defs)

lemma put_params:
  "extract_from [''v1'', ''s3'', ''{bucketName}''] [''v1'', ''s3'', b] [] = [(''bucketName'', b)]"
  "extract_from [''v1'', ''s3'', ''{bucketName}'', ''{objectKey}''] [''v1'', ''s3'', b, k] [] =
     [(''bucketName'', b), (''objectKey'', k)]"
  by (simp_all add: HasPrefix_def insert_key_def Let_def)

lemma s3_lengths:
  "[x \<leftarrow> ws_routes (s3_service gw). length (rt_pathParts x) = n + 2] = [] \<longleftrightarrow> n > 2"
  by (simp add: table_defs numeral_eq_Suc less_Suc_eq_le)

text \<open>The types of content that a request has and takes.\<close>

definition says_xml :: "string \<Rightarrow> bool" where
  "says_xml contentType = list_ex (\<lambda>each. mime_of each = ''application/xml'') (Split contentType '','')"

definition takes_xml :: "string \<Rightarrow> bool" where
  "takes_xml accept =
     (accept = [] \<or> list_ex (\<lambda>each. mime_of each \<in> {''*/*'', ''application/xml''}) (Split accept '',''))"

lemma put_media:
  "matchesContentType (put_route path h) contentType \<longleftrightarrow> says_xml contentType"
  "matchesAccept (put_route path h) (if accept = [] then ''*/*'' else accept) \<longleftrightarrow> takes_xml accept"
  by (auto simp: says_xml_def takes_xml_def matchesContentType_def matchesAccept_def Let_def list_ex_iff mime_of_def
      Contains_def Split_def TrimLeft_def TrimRight_def)

lemma detectRoute_replicate:
  assumes "[x \<leftarrow> rs. httpMethod = rt_Method x] = replicate (Suc n) r"
  shows "detectRoute rs httpMethod req =
    (if \<not> matchesContentType r (HeaderParameter req ''Content-Type'') then Inl 415
     else if \<not> matchesAccept r (if HeaderParameter req ''Accept'' = [] then ''*/*'' else HeaderParameter req ''Accept'')
     then Inl 406 else Inr r)"
  unfolding detectRoute_def assms by (simp del: replicate_Suc add: Let_def filter_replicate)

lemma detectRoute_put:
  "detectRoute [x \<leftarrow> ws_routes (s3_service gw). length (rt_pathParts x) = Suc (Suc n)] ''PUT'' req =
    (if n = 1 \<or> n = 2 then
       if \<not> says_xml (HeaderParameter req ''Content-Type'') then Inl 415
       else if \<not> takes_xml (HeaderParameter req ''Accept'') then Inl 406
       else Inr (if n = 1 then put_route ''/{bucketName}'' (RouteBucketPut gw)
                 else put_route ''/{bucketName}/{objectKey}'' (RouteObjectPut gw))
     else Inl 405)"
proof -
  let ?rs = "[x \<leftarrow> ws_routes (s3_service gw). length (rt_pathParts x) = Suc (Suc n)]"
  have routes: "[x \<leftarrow> ?rs. ''PUT'' = rt_Method x] =
     (if n = 1 then [put_route ''/{bucketName}'' (RouteBucketPut gw)]
      else if n = 2 then replicate 4 (put_route ''/{bucketName}/{objectKey}'' (RouteObjectPut gw)) else [])"
    using s3_put_routes [where n = n and gw = gw] by simp
  have found: "detectRoute ?rs ''PUT'' req =
      (if \<not> says_xml (HeaderParameter req ''Content-Type'') then Inl 415
       else if \<not> takes_xml (HeaderParameter req ''Accept'') then Inl 406 else Inr (put_route path h))"
    if "[x \<leftarrow> ?rs. ''PUT'' = rt_Method x] = replicate (Suc k) (put_route path h)" for k path h
    unfolding detectRoute_replicate [OF that] put_media ..
  consider "n = 1" | "n = 2" | "n \<noteq> 1" "n \<noteq> 2" by blast
  then show ?thesis
  proof cases
    case 1
    then show ?thesis using found [of 0 "''/{bucketName}''" "RouteBucketPut gw"] routes by simp
  next
    case 2
    then show ?thesis
      using found [of 3 "''/{bucketName}/{objectKey}''" "RouteObjectPut gw"] routes by (simp add: numeral_eq_Suc)
  next
    case 3
    then show ?thesis unfolding detectRoute_def routes by simp
  qed
qed

text \<open>
  C18. What becomes of a PUT below \<open>/v1/s3\<close>. With more than two segments, as for an object whose key has a
  slash, it is answered with 404; with none, with 405; unless its Content-Type is XML, which no upload of
  other data says and which is not assumed when the header is missing, with 415; unless XML is an
  acceptable answer, with 406. Only then the handler of buckets or of objects gets it.
\<close>

theorem put_needs_xml_and_flat_key:
  assumes "list_all clean segs"
  shows "dispatch re (gateway_container auth ap gw) ''PUT'' (url (''v1'' # ''s3'' # segs)) req =
    (if length segs > 2 then refuse auth 404 req
     else if segs = [] then refuse auth 405 req
     else if \<not> says_xml (HeaderParameter req ''Content-Type'') then refuse auth 415 req
     else if \<not> takes_xml (HeaderParameter req ''Accept'') then refuse auth 406 req
     else run_handler auth [logging_filter]
            (answering Written (if length segs = 1 then RouteBucketPut gw else RouteObjectPut gw))
            (zip [''bucketName'', ''objectKey''] segs) req)"
proof -
  let ?n = "length segs"
  have "list_all clean (''v1'' # ''s3'' # segs)" using assms by (simp add: clean_def [of "_ # _"])
  then have tok: "tokenizePath (url (''v1'' # ''s3'' # segs)) = ''v1'' # ''s3'' # segs" by simp
  let ?select = "selectRoutes re (s3_service gw) (''v1'' # ''s3'' # segs)"
  have none: "?select = [] \<longleftrightarrow> ?n > 2"
    using s3_candidates [of re gw segs] s3_lengths [where n = ?n and gw = gw] by (metis map_is_Nil_conv)
  have select: "SelectRoute re [v1_service ap, s3_service gw] ''PUT'' (url (''v1'' # ''s3'' # segs)) req =
      (if ?n > 2 then Inl 404 else map_sum id (Pair (s3_service gw))
         (detectRoute [x \<leftarrow> ws_routes (s3_service gw). length (rt_pathParts x) = ?n + 2] ''PUT'' req))"
    using detectWebService_gateway [OF assms(1), of "''s3''" ap gw]
    unfolding SelectRoute_def Let_def tok none [symmetric] by (simp add: s3_candidates)
  have filters: "ws_filters (s3_service gw) = [logging_filter]" by (simp add: s3_service_def)
  consider "?n > 2" | "segs = []" | b where "segs = [b]" | b k where "segs = [b, k]"
    by (cases segs rule: remdups_adj.cases) (auto simp: Suc_lessI)
  then show ?thesis
    using tok unfolding dispatch_def gateway_container_def container.simps select
    by cases (simp_all add: detectRoute_put refuse_def run_handler_def filters ExtractParameters_def put_params
        del: extract_from.simps)
qed

theorem put_needs_xml_and_flat_key_witness:
  "\<forall>re auth ap gw. dispatch re (gateway_container auth ap gw) ''PUT'' ''/v1/s3/b1/photos/cat.png'' blank_request =
     refuse auth 404 blank_request"
proof (intro allI)
  fix re auth ap gw
  have "list_all clean [''b1'', ''photos'', ''cat.png'']" by (simp add: clean_def)
  from put_needs_xml_and_flat_key [OF this, of re auth ap gw blank_request]
  show "dispatch re (gateway_container auth ap gw) ''PUT'' ''/v1/s3/b1/photos/cat.png'' blank_request =
     refuse auth 404 blank_request"
    by (simp add: url_def)
qed

section \<open>The policy before the handlers\<close>

definition refused :: "answer \<Rightarrow> bool" where
  "refused a =
     (case a of
        OnePolicy r \<Rightarrow> r = ApiError 403 | AllPolicies r \<Rightarrow> r = ApiError 403
      | OnePlan r \<Rightarrow> r = ApiError 403 | AllPlans r \<Rightarrow> r = ApiError 403
      | Deleted r \<Rightarrow> r = ApiError 403 | Started r \<Rightarrow> r = ApiError 403
      | OneJob r \<Rightarrow> r = ApiError 403 | AllJobs r \<Rightarrow> r = ApiError 403
      | OneBackend r \<Rightarrow> r = ApiError 403 | AllBackends r \<Rightarrow> r = ApiError 403
      | BackendDeleted r \<Rightarrow> r = ApiError 403 | AllTypes r \<Rightarrow> r = ApiError 403
      | Written replies \<Rightarrow> replies = [ReplyError 403 ''Operation is not permitted''])"

lemma api_authorized_denied:
  "ap_Authorize ap req action s = Return (False, s') \<Longrightarrow> api_authorized ap req action h s = Return (ApiError 403, s')"
  by (simp add: api_authorized_def call_def ret_def)

lemmas api_handler_defs =
  api_GetBackend_def api_ListBackend_def api_CreateBackend_def api_UpdateBackend_def api_DeleteBackend_def api_ListType_def
  api_ListPolicy_def api_GetPolicy_def api_CreatePolicy_def api_UpdatePolicy_def api_DeletePolicy_def
  api_ListPlan_def api_GetPlan_def api_CreatePlan_def api_UpdatePlan_def api_DeletePlan_def api_RunPlan_def
  api_GetJob_def api_ListJob_def

text \<open>Every route of the plain interface asks the policy first; a refusal is answered with 403 and nothing else happens.\<close>

lemma api_routes_are_guarded:
  assumes "r \<in> set (ws_routes (v1_service ap))"
    and "\<And>action. ap_Authorize ap req action s = Return (False, s')"
  shows "\<exists>a. rt_Function r req s = Return (a, s') \<and> refused a"
  using assms(1) unfolding v1_service_def backend_RegisterRouter_def dataflow_RegisterRouter_def
  by (auto simp: answering_def api_handler_defs api_authorized_denied [OF assms(2)] call_def ret_def refused_def)

text \<open>The table of the S3 interface is the choice by verb and number of segments.\<close>

lemma s3_route_in_table:
  assumes "s3_route gw meth n = Some h"
  shows "\<exists>r \<in> set (ws_routes (s3_service gw)).
    rt_Method r = (case meth of HGet \<Rightarrow> ''GET'' | HPut \<Rightarrow> ''PUT'' | HDelete \<Rightarrow> ''DELETE'') \<and>
    length (rt_pathParts r) = n + 2 \<and> rt_Function r = answering Written h"
  using assms by (auto simp: s3_route_def table_defs split: http_method.splits nat.splits)

end
