(* ===== verification/Dataflow_Init.thy ===== *)
theory Dataflow_Init
  imports Dataflow_Mongo
begin

text \<open>
  The set-up of the dataflow service's database (\<open>setIndex\<close>, \<open>Init\<close> and \<open>TestClear\<close> of
  \<open>dataflow/pkg/db/drivers/mongo/mongo.go\<close>). The lock of a plan and the names of plans rest on unique
  indexes; here is where they come from. The session's operations on indexes are a parameter, with the
  contract \<open>index_contract\<close>, interpreted on indexes in memory.
\<close>

section \<open>The code\<close>

record mgo_index =
  ix_Key :: "string list"
  ix_Unique :: bool
  ix_DropDups :: bool
  ix_Background :: bool

record 's mgo_session =
  ms_Dial :: "string \<Rightarrow> ('s, string option) prog"
  ms_Indexes :: "string \<Rightarrow> ('s, mgo_err + mgo_index list) prog"
  ms_EnsureIndex :: "string \<Rightarrow> mgo_index \<Rightarrow> ('s, mgo_err option) prog"

definition setIndex :: "'s mgo_session \<Rightarrow> string \<Rightarrow> string \<Rightarrow> bool \<Rightarrow> bool \<Rightarrow> bool \<Rightarrow> ('s, unit) prog" where
  "setIndex ss colName key unique dropDups background =
     call (ms_Indexes ss colName) (\<lambda>r.
       if (case r of Inr indxs \<Rightarrow> list_ex (\<lambda>indx. list_ex (\<lambda>k. k = key) (ix_Key indx)) indxs | Inl err \<Rightarrow> False) then ret ()
       else let index = \<lparr>ix_Key = [key], ix_Unique = unique, ix_DropDups = dropDups, ix_Background = background\<rparr>
            in call (ms_EnsureIndex ss colName index) (\<lambda>err.
                 case err of None \<Rightarrow> ret () | Some _ \<Rightarrow> panic ProcessExit))"

definition Init :: "'s mgo_session \<Rightarrow> string \<Rightarrow> ('s, unit) prog" where
  "Init ss host =
     call (ms_Dial ss host) (\<lambda>err.
       case err of
         Some msg \<Rightarrow> panic (Raised msg)
       | None \<Rightarrow>
           call (setIndex ss lockColName ''lockobj'' True False False) (\<lambda>_.
             setIndex ss CollPlan ''name'' True False False))"

definition CollConnector :: string where "CollConnector = ''connector''"

definition clear_first :: "'s mgo_ops \<Rightarrow> string \<Rightarrow> ('s, mgo_err option) prog \<Rightarrow> ('s, mgo_err option) prog" where
  "clear_first ops c rest =
     call (liftS (op_Remove ops c (Match []))) (\<lambda>err.
       if err \<noteq> None \<and> err \<noteq> Some ErrNotFound then ret err else rest)"

definition TestClear :: "'s mgo_ops \<Rightarrow> ('s, mgo_err option) prog" where
  "TestClear ops =
     clear_first ops CollPlan (clear_first ops CollPolicy (clear_first ops CollConnector
       (clear_first ops lockColName (ret None))))"

section \<open>The indexes after the set-up\<close>

definition enforced :: "mgo_index list \<Rightarrow> string \<Rightarrow> bool" where
  "enforced indxs key \<longleftrightarrow> list_ex (\<lambda>indx. ix_Key indx = [key] \<and> ix_Unique indx) indxs"

locale index_contract =
  fixes ss :: "'s mgo_session" and ixs :: "'s \<Rightarrow> string \<Rightarrow> mgo_index list"
  assumes Dial: "ms_Dial ss host s = Return (r, s') \<Longrightarrow> ixs s' = ixs s"
    and Indexes_ok: "ms_Indexes ss c s = Return (Inr indxs, s') \<Longrightarrow> ixs s' = ixs s \<and> indxs = ixs s c"
    and Indexes_err: "ms_Indexes ss c s = Return (Inl e, s') \<Longrightarrow> ixs s' = ixs s"
    and Ensure_ok: "ms_EnsureIndex ss c indx s = Return (None, s') \<Longrightarrow>
        indx \<in> set (ixs s' c) \<and> (\<forall>d. set (ixs s d) \<subseteq> set (ixs s' d)) \<and> (\<forall>d. d \<noteq> c \<longrightarrow> ixs s' d = ixs s d)"
begin

text \<open>An index that mentions the field is taken for the one that is wanted, whatever else it says.\<close>

lemma setIndex_trusts:
  assumes "setIndex ss c key u d b s = Return (r, s')"
  shows "(\<exists>indx \<in> set (ixs s c). key \<in> set (ix_Key indx)) \<and> ixs s' = ixs s \<or>
    \<lparr>ix_Key = [key], ix_Unique = u, ix_DropDups = d, ix_Background = b\<rparr> \<in> set (ixs s' c) \<and>
    (\<forall>d. set (ixs s d) \<subseteq> set (ixs s' d)) \<and> (\<forall>d. d \<noteq> c \<longrightarrow> ixs s' d = ixs s d)"
proof -
  from assms obtain r' t where look: "ms_Indexes ss c s = Return (r', t)"
    and rest: "(if case r' of Inr indxs \<Rightarrow> list_ex (\<lambda>indx. list_ex (\<lambda>k. k = key) (ix_Key indx)) indxs | Inl err \<Rightarrow> False
       then ret () else let index = \<lparr>ix_Key = [key], ix_Unique = u, ix_DropDups = d, ix_Background = b\<rparr>
            in call (ms_EnsureIndex ss c index) (\<lambda>err. case err of None \<Rightarrow> ret () | Some _ \<Rightarrow> panic ProcessExit)) t = Return (r, s')"
    by (auto simp: setIndex_def elim!: call_ReturnE)
  have t: "ixs t = ixs s" using look Indexes_ok Indexes_err by (cases r') blast+
  show ?thesis
  proof (cases "case r' of Inr indxs \<Rightarrow> list_ex (\<lambda>indx. list_ex (\<lambda>k. k = key) (ix_Key indx)) indxs | Inl err \<Rightarrow> False")
    case True
    then obtain indxs where r': "r' = Inr indxs" by (cases r') auto
    with Indexes_ok [OF look [unfolded r']] True rest t show ?thesis by (auto simp: ret_def list_ex_iff)
  next
    case False
    with rest have "ms_EnsureIndex ss c \<lparr>ix_Key = [key], ix_Unique = u, ix_DropDups = d, ix_Background = b\<rparr> t = Return (None, s')"
      by (auto simp: Let_def ret_def panic_def elim!: call_ReturnE split: option.splits)
    from Ensure_ok [OF this] t show ?thesis by simp
  qed
qed

lemma setIndex_keeps:
  "setIndex ss c key u d b s = Return (r, s') \<Longrightarrow> set (ixs s e) \<subseteq> set (ixs s' e)"
  using setIndex_trusts [of c key u d b s r s'] by auto

lemma setIndex_enforces:
  assumes "setIndex ss c key True d b s = Return (r, s')"
    and "\<forall>indx \<in> set (ixs s c). key \<in> set (ix_Key indx) \<longrightarrow> ix_Key indx = [key] \<and> ix_Unique indx"
  shows "enforced (ixs s' c) key"
  using setIndex_trusts [OF assms(1)]
proof (elim disjE conjE bexE)
  fix indx
  assume "indx \<in> set (ixs s c)" and "key \<in> set (ix_Key indx)" and "ixs s' = ixs s"
  with assms(2) show ?thesis unfolding enforced_def list_ex_iff by metis
next
  assume "\<lparr>ix_Key = [key], ix_Unique = True, ix_DropDups = d, ix_Background = b\<rparr> \<in> set (ixs s' c)"
  then show ?thesis unfolding enforced_def list_ex_iff by (rule bexI [rotated]) simp
qed

text \<open>
  The set-up of a database whose indexes on the two fields are the service's own: afterwards the object
  of a lock and the name of a plan are unique, which \<open>mgo_store\<close> assumes of the database.
\<close>

theorem Init_enforces:
  assumes "Init ss host s = Return (r, s')"
    and "\<And>c key indx. (c, key) \<in> {(lockColName, ''lockobj''), (CollPlan, ''name'')} \<Longrightarrow>
      indx \<in> set (ixs s c) \<Longrightarrow> key \<in> set (ix_Key indx) \<Longrightarrow> ix_Key indx = [key] \<and> ix_Unique indx"
  shows "enforced (ixs s' lockColName) ''lockobj'' \<and> enforced (ixs s' CollPlan) ''name''"
proof -
  from assms(1) obtain err t where dial: "ms_Dial ss host s = Return (err, t)"
    and rest: "(case err of Some msg \<Rightarrow> panic (Raised msg) | None \<Rightarrow>
      call (setIndex ss lockColName ''lockobj'' True False False) (\<lambda>_. setIndex ss CollPlan ''name'' True False False)) t = Return (r, s')"
    unfolding Init_def by (rule call_ReturnE)
  from rest have "call (setIndex ss lockColName ''lockobj'' True False False) (\<lambda>_. setIndex ss CollPlan ''name'' True False False) t = Return (r, s')"
    by (cases err) (simp_all add: panic_def)
  then obtain v u where first: "setIndex ss lockColName ''lockobj'' True False False t = Return (v, u)"
    and second: "setIndex ss CollPlan ''name'' True False False u = Return (r, s')"
    by (rule call_ReturnE)
  have t: "ixs t = ixs s" by (rule Dial [OF dial])
  have "enforced (ixs u lockColName) ''lockobj''"
    using assms(2) [of lockColName "''lockobj''"] t by (intro setIndex_enforces [OF first]) simp
  then have "enforced (ixs s' lockColName) ''lockobj''"
    using setIndex_keeps [OF second, of lockColName] by (auto simp: enforced_def list_ex_iff)
  moreover have "CollPlan \<noteq> lockColName" by (simp add: CollPlan_def lockColName_def)
  then have "ixs u CollPlan = ixs s CollPlan"
    using setIndex_trusts [OF first] t by auto
  then have "enforced (ixs s' CollPlan) ''name''"
    using assms(2) [of CollPlan "''name''"] by (intro setIndex_enforces [OF second]) simp
  ultimately show ?thesis by simp
qed

end

section \<open>Indexes in memory\<close>

definition mem_session :: "(string \<Rightarrow> mgo_index list) mgo_session" where
  "mem_session =
     \<lparr>ms_Dial = (\<lambda>host. ret None),
      ms_Indexes = (\<lambda>c s. Return (Inr (s c), s)),
      ms_EnsureIndex = (\<lambda>c indx s. Return (None, s(c := s c @ [indx])))\<rparr>"

interpretation mem_indexes: index_contract mem_session "\<lambda>s. s"
  by unfold_locales (auto simp: mem_session_def ret_def)

text \<open>On an empty database the set-up gives the unique fields of the database in memory.\<close>

lemma Init_mem_keys:
  "\<exists>s. Init mem_session host (\<lambda>_. []) = Return ((), s) \<and>
     (\<forall>c key. enforced (s c) key \<longleftrightarrow> key \<in> set (mem_keys c) - {''_id''})"
  by (rule exI [where x = "(\<lambda>_. [])(lockColName := [\<lparr>ix_Key = [''lockobj''], ix_Unique = True, ix_DropDups = False, ix_Background = False\<rparr>],
      CollPlan := [\<lparr>ix_Key = [''name''], ix_Unique = True, ix_DropDups = False, ix_Background = False\<rparr>])"])
    (auto simp: Init_def setIndex_def mem_session_def call_def ret_def lockColName_def CollPlan_def enforced_def mem_keys_def)

text \<open>
  When there is an index on the name and another field of a plan already, the set-up keeps it and the
  name alone is not unique.
\<close>

theorem old_index_is_trusted:
  "\<exists>s. Init mem_session host ((\<lambda>_. [])(CollPlan := [\<lparr>ix_Key = [''name'', ''tenantid''], ix_Unique = False,
       ix_DropDups = False, ix_Background = False\<rparr>])) = Return ((), s) \<and> \<not> enforced (s CollPlan) ''name''"
  by (auto simp: Init_def setIndex_def mem_session_def call_def ret_def lockColName_def CollPlan_def enforced_def)

section \<open>Clearing for tests\<close>

lemma remove_first_all: "remove_first (matches (Match [])) ds = tl ds"
  by (cases ds) simp_all

context mgo_store
begin

lemma clear_first_ReturnE:
  assumes "clear_first ops c rest s = Return (None, s')"
  obtains t where "rest t = Return (None, s')" and "docs t = docs s \<or> docs t = (docs s)(c := tl (docs s c))"
proof -
  from assms obtain err t where rm: "op_Remove ops c (Match []) s = (err, t)" and "rest t = Return (None, s')"
    by (auto simp: clear_first_def liftS_def ret_def elim!: call_ReturnE split: if_splits)
  moreover have "docs t = docs s \<or> docs t = (docs s)(c := tl (docs s c))"
    using rm Remove_err Remove_ok [of c "Match []" s t] by (cases err) (auto simp: remove_first_all)
  ultimately show thesis using that by blast
qed

text \<open>Clearing removes at most one document of each collection.\<close>

theorem TestClear_leaves:
  assumes "TestClear ops s = Return (None, s')"
  shows "docs s' c = docs s c \<or> docs s' c = tl (docs s c)"
proof -
  have "distinct [CollPlan, CollPolicy, CollConnector, lockColName]"
    by (simp add: CollPlan_def CollPolicy_def CollConnector_def lockColName_def)
  with assms show ?thesis
    by (auto simp: TestClear_def ret_def elim!: clear_first_ReturnE)
qed

end

end
