(* ===== verification/Api_Startup.thy ===== *)
theory Api_Startup
  imports Api_Routes
begin

text \<open>
  The choice and the set-up of the authentication filter when the gateway starts (\<open>FilterFactory\<close> of
  \<open>api/pkg/filters/auth/auth.go\<close>, \<open>NewKeystone\<close> and \<open>SetUp\<close> of \<open>keystone.go\<close>). The client library of
  OpenStack is a parameter: it gets the options and makes the client of the identity service, or an error.
\<close>

record auth_options =
  ao_IdentityEndpoint :: string
  ao_DomainName :: string
  ao_Username :: string
  ao_Password :: string
  ao_TenantName :: string

record ('s, 'p, 'c) openstack =
  os_AuthenticatedClient :: "auth_options \<Rightarrow> 's \<Rightarrow> (string + 'p) \<times> 's"
  os_NewIdentityV3 :: "'p \<Rightarrow> 's \<Rightarrow> 'c option \<times> string option \<times> 's"
  os_tokens_Get :: "'c option \<Rightarrow> string \<Rightarrow> 's \<Rightarrow> token_answer \<times> 's"

text \<open>The state is the client that \<open>Keystone\<close> holds, and the world.\<close>

definition Keystone_SetUp :: "(string \<Rightarrow> string) \<Rightarrow> ('s, 'p, 'c) openstack \<Rightarrow> 'c option \<times> 's \<Rightarrow> string option \<times> 'c option \<times> 's" where
  "Keystone_SetUp Getenv os ks =
     (let (identity, s) = ks;
          opts = \<lparr>ao_IdentityEndpoint = Getenv ''OS_AUTH_URL'', ao_DomainName = Getenv ''OS_USER_DOMIN_ID'',
            ao_Username = Getenv ''OS_USERNAME'', ao_Password = Getenv ''OS_PASSWORD'',
            ao_TenantName = Getenv ''OS_PROJECT_NAME''\<rparr>
      in case os_AuthenticatedClient os opts s of
           (Inl err, s) \<Rightarrow> (Some err, identity, s)
         | (Inr provider, s) \<Rightarrow> (let (identity, err, s) = os_NewIdentityV3 os provider s in (err, identity, s)))"

definition NewKeystone :: "(string \<Rightarrow> string) \<Rightarrow> ('s, 'p, 'c) openstack \<Rightarrow> 's \<Rightarrow> ('c option \<times> 's) go" where
  "NewKeystone Getenv os s =
     (case Keystone_SetUp Getenv os (None, s) of
        (Some err, _) \<Rightarrow> Panic (Raised err)
      | (None, ks) \<Rightarrow> Return ks)"

definition start_auth :: "(string \<Rightarrow> string) \<Rightarrow> ('s, 'p, 'c) openstack \<Rightarrow> 's \<Rightarrow> ('c option \<times> 's) go" where
  "start_auth Getenv os s =
     (if Getenv ''OS_AUTH_AUTHSTRATEGY'' = ''keystone'' then NewKeystone Getenv os s else Return (None, s))"

definition started_filter :: "(string \<Rightarrow> string) \<Rightarrow> ('s, 'p, 'c) openstack \<Rightarrow> int \<Rightarrow> ('c option \<times> 's) http_filter" where
  "started_filter Getenv os now =
     auth_filter (Getenv ''OS_AUTH_AUTHSTRATEGY'')
       (\<lambda>(identity, s) token. let (r, s) = os_tokens_Get os identity token s in (r, (identity, s)))
       (\<lambda>ks. snd (Keystone_SetUp Getenv os ks)) now"

text \<open>
  A gateway that has started with Keystone holds a client, if the library gives one when it reports no error,
  and renewing it keeps one, also when the identity service refuses the credentials.
\<close>

lemma SetUp_client:
  assumes "\<And>provider s c s'. os_NewIdentityV3 os provider s = (c, None, s') \<Longrightarrow> c \<noteq> None"
    and "Keystone_SetUp Getenv os ks = (None, ks')"
  shows "fst ks' \<noteq> None"
  using assms(2) by (auto simp: Keystone_SetUp_def split: prod.splits sum.splits dest: assms(1))

lemma started_has_client:
  assumes "\<And>provider s c s'. os_NewIdentityV3 os provider s = (c, None, s') \<Longrightarrow> c \<noteq> None"
    and "start_auth Getenv os s = Return ks" and "Getenv ''OS_AUTH_AUTHSTRATEGY'' = ''keystone''"
  shows "fst ks \<noteq> None"
  using assms(2,3) SetUp_client [of os Getenv "(None, s)" ks] assms(1)
  by (auto simp: start_auth_def NewKeystone_def split: prod.splits option.splits)

lemma refused_renewal_keeps_client:
  assumes "\<And>opts s. \<exists>err s'. os_AuthenticatedClient os opts s = (Inl err, s')"
  shows "fst (snd (Keystone_SetUp Getenv os ks)) = fst ks"
  using assms by (auto simp: Keystone_SetUp_def split: prod.splits sum.splits) (metis Inl_Inr_False prod.inject)+

text \<open>
  Any strategy but \<open>keystone\<close>, a misspelt one too, starts the gateway without authentication: no request is
  refused, and the tenant is the one that the path names.
\<close>

theorem unknown_strategy_lets_everyone_in:
  assumes "Getenv ''OS_AUTH_AUTHSTRATEGY'' \<noteq> ''keystone''" and "context_filter req s = Return (Inr req', s')"
  shows "start_auth Getenv os w = Return (None, w) \<and>
    (\<exists>req''. started_filter Getenv os now req' s' = Return (Inr req'', s') \<and>
      (\<forall>tenant. lookup (req_path req) ''tenantId'' = Some tenant \<longrightarrow>
        (\<exists>ctx. lookup (req_attributes req'') KContext = Some (AFilterContext ctx) \<and> fc_TenantId ctx = tenant)))"
  using assms
  by (auto simp: start_auth_def started_filter_def auth_filter_def auth_FilterFactory_def NoAuth_Filter_def
      context_filter_def context_Filter_def ret_def SetAttribute_def Let_def request.truncate_def split: option.splits)

end
