(* ===== verification/Spec2Isabelle.thy ===== *)
theory Spec2Isabelle
  imports Policy_Enforcer Dataflow_Plan_Correct Datamover_Channels Datamover_Job_Correct
    Gateway_World Api_Correct Datamover_Delivery Obs_Signed Obs_Authorization_Correct Obs_Log_Correct Mover_Obs_Client Api_Config_Correct
    Rpc_Services Api_Routes_Correct Dataflow_Init Api_Startup
begin

text \<open>
  A model of the multi-cloud services: an S3-compatible gateway in front of several clouds, with a
  service that stores plans for moving data between them and a data mover that runs the plans.

  \<^bold>\<open>The program.\<close> A request enters the API gateway (\<open>api/\<close>). Two filters give it a context (who asks,
  for which tenant), from the path or from Keystone. The policy engine decides whether the context
  may do what the route's handler asks for. The S3 handlers then work on three things: the metadata of
  buckets and objects (the service \<open>s3/\<close>), the storage backends (the service \<open>backend/\<close>) and, through a
  storage adapter, the cloud of the backend. The other handlers hand the request to the backend service
  or to the dataflow service (\<open>dataflow/\<close>), with the context as JSON text. The dataflow service keeps
  policies (schedules), plans (what to move from where to where) and jobs in MongoDB, runs a plan when
  its schedule says so or when asked to, under an advisory lock in the database, and sends each run as
  a job through Kafka. The data mover (\<open>datamover/\<close>) takes the job, lists the objects of the source
  and copies them with up to eleven goroutines, each object in one piece or in parts, from any of four
  kinds of cloud to any other, and writes its progress into the stored job.

  \<^bold>\<open>How the code is modelled.\<close> \<open>Go_Prelude\<close> has the outcome of Go code, \<open>'a go\<close>: a value, a run-time
  panic or no return within the fuel; integers are \<open>int\<close> with the wrap-around of 64 or 32 bits written
  out, maps are association lists without repeated keys. \<open>Go_Strings\<close> has the functions of \<open>strings\<close>
  and \<open>strconv\<close> on lists of bytes, \<open>Go_Json\<close> the encoder and the decoder of \<open>encoding/json\<close>. Code with
  effects is a function from the state of the world to an outcome with a result and a new state
  (\<open>('s, 'a) prog\<close> of \<open>Go_Prog\<close>). Errors are values: \<open>string\<close>, \<open>df_err\<close> or \<open>option\<close>, in \<open>Inl\<close> of a sum. Code
  that is not part of the repository (MongoDB's driver, the SDKs of the clouds, Keystone, Kafka) is a
  record of operations on the world \<open>'s\<close>, an argument of the definitions; what is relied on is a
  locale (\<open>mgo_store\<close>, \<open>aws_cloud\<close>, \<open>gateway_contract\<close>) that is interpreted on a world in memory, on
  which the witnesses run the model.

  \<^bold>\<open>Theories and sources.\<close>
  \<^item> Policy engine, \<open>api/pkg/policy\<close>: \<open>Policy_Checks\<close> (\<open>checks.go\<close>), \<open>Policy_Parser\<close> (\<open>parser.go\<close>),
    \<open>Policy_Enforcer\<close> (\<open>policy.go\<close>). \<open>Policy_Parser_Correct\<close>, \<open>Policy_Stack\<close> and \<open>Policy_Roundtrip\<close> show
    that the reductions do not depend on the order of Go's map of rules, that the automaton is a stack
    machine, when it panics, and what a rule's text means.
  \<^item> Contexts and filters, \<open>api/pkg/context\<close>, \<open>api/pkg/filters\<close>: \<open>Api_Context\<close>, \<open>Context_Json\<close>, their
    set-up \<open>Api_Startup\<close>; helpers of
    the gateway (\<open>api/pkg/utils/utils.go\<close>, \<open>api/pkg/common\<close>): \<open>Api_Utils\<close>.
  \<^item> S3 interface, \<open>api/pkg/s3\<close>: the handlers in \<open>Gateway_S3\<close>, the adapters of \<open>api/pkg/s3/datastore\<close> in
    \<open>Store_Aws\<close>, \<open>Store_Azure\<close>, \<open>Store_Hws\<close>, \<open>Store_Ceph\<close> over \<open>Store_Types\<close>; \<open>Gateway_Correct\<close> proves the
    interface against its contract, \<open>Gateway_World\<close> puts it on the other services of this development.
  \<^item> Handlers of the gateway for the other services, \<open>api/pkg/dataflow\<close>, \<open>api/pkg/backend\<close>:
    \<open>Api_Handlers\<close>; with the dataflow service in \<open>Api_Correct\<close>. The routes (\<open>router.go\<close>, \<open>api/cmd/main.go\<close>) and
    the framework's choice among them (\<open>vendor/github.com/emicklei/go-restful\<close>) are \<open>Api_Routes\<close>;
    \<open>Api_Routes_Correct\<close> shows which requests reach which handler, and that the policy is asked first.
  \<^item> Calls between the services (\<open>*.micro.go\<close>): \<open>Rpc_Services\<close>, the clients of the services and the handlers they
    register; the context that is sent along is JSON, \<open>Context_Json\<close>. The gateway's configuration, \<open>api/pkg/utils/config\<close>: \<open>Api_Config\<close>, with \<open>Api_Config_Correct\<close>
    on where a value comes from.
  \<^item> Metadata service, \<open>s3/pkg\<close>: \<open>S3_Metadata\<close>, \<open>S3_Metadata_Correct\<close>. Backend service,
    \<open>backend/pkg\<close>: \<open>Backend_Service\<close>.
  \<^item> Dataflow service, \<open>dataflow/pkg\<close>: \<open>Dataflow_Model\<close> (\<open>model\<close>), \<open>Dataflow_Lock\<close> and \<open>Dataflow_Mongo\<close>
    (\<open>db/drivers/mongo\<close>, its set-up in \<open>Dataflow_Init\<close>), \<open>Dataflow_Trigger\<close> (\<open>scheduler/trigger\<close>), \<open>Dataflow_Plan\<close> (\<open>plan\<close>, \<open>policy\<close>, \<open>job\<close>,
    \<open>scheduler\<close>), \<open>Dataflow_Service\<close> (\<open>service.go\<close>); \<open>Dataflow_Mongo_Correct\<close>, \<open>Dataflow_Plan_Correct\<close>.
  \<^item> Data mover, \<open>datamover/pkg\<close>: \<open>Mover_S3\<close>, \<open>Mover_Obs\<close>, \<open>Mover_Blob\<close>, \<open>Mover_Ceph\<close> over \<open>Mover_Types\<close> and
    \<open>Base64\<close> (\<open>amazon\<close>, \<open>hw/obs\<close>, \<open>azure\<close>, \<open>ceph\<close>), \<open>Datamover_Move\<close>, \<open>Datamover_Job\<close> and \<open>Datamover_Channels\<close>
    (\<open>drivers/https/migration.go\<close>: the move of an object, the run of a job, the goroutines and their
    channels as a step relation), \<open>Datamover_Status\<close> (the database adapter and \<open>hw/mrs\<close>);
    \<open>Datamover_Copy\<close>, \<open>Datamover_Memory\<close>, \<open>Datamover_Job_Correct\<close>.
  \<^item> The client of Huawei's object store, \<open>api/pkg/utils/obs\<close>: \<open>Obs_Url\<close> (\<open>conf.go\<close>), \<open>Obs_Xml\<close>, \<open>Obs_Auth\<close>
    (\<open>auth.go\<close>), \<open>Obs_Http\<close> (\<open>http.go\<close>, \<open>error.go\<close>), \<open>Obs_Convert\<close> (\<open>convert.go\<close>), \<open>Obs_Trans\<close> (the inputs of
    \<open>model.go\<close>, \<open>trait.go\<close>), \<open>Obs_Output\<close> (the outputs), \<open>Obs_Client\<close> (\<open>client.go\<close>) with \<open>Obs_Mime\<close>,
    \<open>Obs_Signed\<close> (\<open>temporary.go\<close>), \<open>Obs_Authorization\<close> (\<open>util.go\<close>), \<open>Obs_Log\<close> (\<open>log.go\<close>); \<open>Obs_Correct\<close> and \<open>Obs_Client_Correct\<close> show how requests are signed,
    repeated and redirected, and what the methods make of the answers, \<open>Obs_Authorization_Correct\<close> that
    a server that checks a signature of version 2 computes the same, \<open>Obs_Log_Correct\<close> which messages are written. \<open>Mover_Obs_Client\<close> puts
    the mover of the data mover on this client.
  \<^item> From the dataflow service to the data mover (\<open>sendJob\<close>, Kafka, \<open>HandleMsg\<close>): \<open>Datamover_Service\<close>,
    \<open>Datamover_Delivery\<close>.

  \<^bold>\<open>Bounds and fuel.\<close> The evaluation of a policy check takes fuel because a rule may refer to itself;
  the rank of the rules is enough when references only go down in rank (\<open>exec_total\<close>), and no fuel is
  enough on a cycle (\<open>rule_cycle_never_returns\<close>). The policy parser's fuel is the number of tokens. JSON is parsed with
  the length of the text as fuel, which the round trip shows to be enough. Loops of the code with a
  fixed number of tries (locks, updates, connecting) are recursions over that number. The loop of
  attempts of the OBS client takes one unit of fuel for each: one more than the configured retries is
  enough when nothing is redirected (\<open>attempts_are_bounded\<close>), no fuel is when everything is
  (\<open>redirects_never_end\<close>). The configuration is filled with the nesting depth of its structure as fuel, which is
  enough (\<open>initConf_ends\<close>). The goroutines of
  a migration are a step relation without a bound; that every run ends is \<open>migration_completes\<close>.

  \<^bold>\<open>Not modelled.\<close> The remaining parts of the \<open>main\<close> functions and the choice of a database driver (wiring);
  logging (but for the log of the OBS client), the deadlines of its connections (\<open>connDelegate\<close>); the message types generated by \<open>protoc\<close> (they are modelled from the
  \<open>.proto\<close> files) and the RPC framework, which is a parameter
  (its retries, timeouts and encoding of errors are vendored code, so nothing is stated of a call from end to end); \<open>StructToMap\<close> of
  \<open>api/pkg/utils/utils.go\<close> and the JSON of the policy context, which nothing uses; the texts of HTTP errors;
  the set-up of connections, but for Keystone's and the indexes of the dataflow service. Strings are bytes; folding of letters and white space
  are those of ASCII, where Go's are Unicode's. An error of the database when it has already sent some documents of
  a listing, which \<open>ListPlan\<close>, \<open>ListPolicy\<close> and \<open>ListJob\<close> report where they hide one before the first document, failures of the
  database between the interleaved steps of the lock, and the text \<open>null\<close> as a policy file are left out. Of \<open>sort.Sort\<close>
  only that it gives a sorted permutation is assumed. Times are integers, and the memory of the process,
  deadlines of contexts and the scheduler of the cron library are outside.
\<close>

end
